(* ===== verification/Prelude.thy ===== *)
theory Prelude
  imports Main "HOL-Library.Word"
begin

text \<open>
  Shared vocabulary of the development: machine integers with Rust's checked operations,
  results with early return, Rust strings as their UTF-8 bytes, and the generic lemmas the
  component theories use.
\<close>

section \<open>Rule collections\<close>

named_theorems res_simps \<open>inversion of results: when a computation returns \<open>Ok\<close> or \<open>Err\<close>\<close>
named_theorems text_simps \<open>evaluation of the text operations on concrete shapes\<close>

section \<open>Machine integers\<close>

type_synonym u32 = "32 word"
type_synonym u64 = "64 word"

text \<open>Rust's \<open>u32::checked_add(1)\<close> and \<open>u32::try_from(usize)\<close>.\<close>

definition checked_add_u32 :: "u32 \<Rightarrow> u32 \<Rightarrow> u32 option" where
  "checked_add_u32 a b = (if unat a + unat b < 2 ^ 32 then Some (a + b) else None)"

definition u32_try_from :: "nat \<Rightarrow> u32 option" where
  "u32_try_from n = (if n < 2 ^ 32 then Some (word_of_nat n) else None)"

lemma checked_add_u32_Some:
  "checked_add_u32 a b = Some c \<Longrightarrow> unat c = unat a + unat b"
  by (auto simp: checked_add_u32_def unat_word_ariths split: if_splits)

lemma checked_add_u32_Some_iff:
  "checked_add_u32 a b = Some c \<longleftrightarrow> unat c = unat a + unat b"
proof
  assume c: "unat c = unat a + unat b"
  have less: "unat c < 2 ^ 32" using unsigned_less [of c] by simp
  then have "unat (a + b) = unat c" using c by (simp add: unat_word_ariths)
  then have "a + b = c" by (rule unsigned_word_eqI)
  with c less show "checked_add_u32 a b = Some c" by (simp add: checked_add_u32_def)
qed (rule checked_add_u32_Some)

lemma checked_add_u32_None_iff:
  "checked_add_u32 a b = None \<longleftrightarrow> 2 ^ 32 \<le> unat a + unat b"
  by (auto simp: checked_add_u32_def)

lemma unat_word_of_nat_u32: "n < 2 ^ 32 \<Longrightarrow> unat (word_of_nat n :: u32) = n"
  by (simp add: unat_of_nat)

lemma u32_try_from_Some_iff: "u32_try_from n = Some w \<longleftrightarrow> unat w = n"
proof -
  have "unat w < 2 ^ 32" using unsigned_less [of w] by simp
  moreover have "word_of_nat (unat w) = w" by simp
  ultimately show ?thesis
    by (auto simp: u32_try_from_def unat_word_of_nat_u32 simp del: word_of_nat_less_iff)
qed

lemma u32_try_from_in_range: "n < 2 ^ 32 \<Longrightarrow> u32_try_from n = Some (word_of_nat n)"
  by (simp add: u32_try_from_def)

lemma unat_u32_le: "unat (w :: u32) \<le> 4294967295"
proof -
  have "unat w < 2 ^ 32" using unsigned_less [of w] by simp
  then show ?thesis by simp
qed

text \<open>\<open>u32::to_be_bytes\<close>: the four bytes, most significant first.\<close>

definition be_bytes_u32 :: "u32 \<Rightarrow> string" where
  "be_bytes_u32 w =
     [char_of (unat w div 16777216), char_of (unat w div 65536),
      char_of (unat w div 256), char_of (unat w)]"

lemma length_be_bytes_u32 [simp]: "length (be_bytes_u32 w) = 4"
  by (simp add: be_bytes_u32_def)

lemma char_of_eq_mod: "char_of m = (char_of n :: char) \<longleftrightarrow> m mod 256 = (n mod 256 :: nat)"
  using char_of_eq_iff [of m "char_of n"] by (simp add: take_bit_eq_mod)

lemma base256_digits:
  "(n :: nat) < 4294967296 \<Longrightarrow>
     n = n div 16777216 mod 256 * 16777216 + n div 65536 mod 256 * 65536
         + n div 256 mod 256 * 256 + n mod 256"
proof -
  assume n: "n < 4294967296"
  define a b c where "a = n div 256" and "b = a div 256" and "c = b div 256"
  have "n div 65536 = b" "n div 16777216 = c"
    by (simp_all add: a_def b_def c_def div_mult2_eq [symmetric])
  moreover have "n = a * 256 + n mod 256" "a = b * 256 + a mod 256" "b = c * 256 + b mod 256"
    by (simp_all add: a_def b_def c_def)
  moreover have "c mod 256 = c" using n by (simp add: a_def b_def c_def div_mult2_eq [symmetric])
  ultimately have n_eq: "n = ((c mod 256 * 256 + b mod 256) * 256 + a mod 256) * 256 + n mod 256" by metis
  show ?thesis
    unfolding \<open>n div 65536 = b\<close> \<open>n div 16777216 = c\<close> a_def [symmetric]
    by (subst n_eq) (simp add: algebra_simps)
qed

lemma be_bytes_u32_inj: "be_bytes_u32 v = be_bytes_u32 w \<longleftrightarrow> v = w"
proof
  assume "be_bytes_u32 v = be_bytes_u32 w"
  then have eqs: "unat v div 16777216 mod 256 = unat w div 16777216 mod 256"
      "unat v div 65536 mod 256 = unat w div 65536 mod 256"
      "unat v div 256 mod 256 = unat w div 256 mod 256"
      "unat v mod 256 = unat w mod 256"
    by (simp_all add: be_bytes_u32_def char_of_eq_mod)
  have "unat v < 4294967296" "unat w < 4294967296"
    using unsigned_less [of v] unsigned_less [of w] by simp_all
  from base256_digits [OF this(1)] base256_digits [OF this(2)] eqs have "unat v = unat w"
    by metis
  then show "v = w" by (rule unsigned_word_eqI)
qed simp

section \<open>Results and early return\<close>

text \<open>
  A Rust \<open>Result<T, E>\<close> is \<open>'e + 't\<close> with \<open>Inl\<close> for \<open>Err\<close>. \<open>res_bind\<close> is the \<open>?\<close>
  operator, \<open>ensure\<close> is a guard that returns early, \<open>ok_or\<close> is \<open>Option::ok_or\<close>, and
  \<open>res_fold\<close> is a \<open>for\<close> loop whose body may return early and updates its state.
\<close>

fun res_bind :: "'e + 'a \<Rightarrow> ('a \<Rightarrow> 'e + 'b) \<Rightarrow> 'e + 'b" where
  "res_bind (Inl e) f = Inl e"
| "res_bind (Inr x) f = f x"

definition ensure :: "bool \<Rightarrow> 'e \<Rightarrow> 'e + unit" where
  "ensure b e = (if b then Inr () else Inl e)"

fun ok_or :: "'a option \<Rightarrow> 'e \<Rightarrow> 'e + 'a" where
  "ok_or None e = Inl e"
| "ok_or (Some x) e = Inr x"

fun map_err :: "('e \<Rightarrow> 'f) \<Rightarrow> 'e + 'a \<Rightarrow> 'f + 'a" where
  "map_err f (Inl e) = Inl (f e)"
| "map_err f (Inr x) = Inr x"

fun res_fold :: "('s \<Rightarrow> 'x \<Rightarrow> 'e + 's) \<Rightarrow> 's \<Rightarrow> 'x list \<Rightarrow> 'e + 's" where
  "res_fold f s [] = Inr s"
| "res_fold f s (x # xs) = res_bind (f s x) (\<lambda>s'. res_fold f s' xs)"

definition is_ok :: "'e + 'a \<Rightarrow> bool" where
  "is_ok r = (case r of Inl _ \<Rightarrow> False | Inr _ \<Rightarrow> True)"

lemma res_bind_Inr_iff [res_simps]:
  "res_bind r f = Inr y \<longleftrightarrow> (\<exists>x. r = Inr x \<and> f x = Inr y)"
  by (cases r) auto

lemma res_bind_Inl_iff:
  "res_bind r f = Inl e \<longleftrightarrow> r = Inl e \<or> (\<exists>x. r = Inr x \<and> f x = Inl e)"
  by (cases r) auto

lemma ensure_Inr_iff [res_simps]: "ensure b e = Inr u \<longleftrightarrow> b"
  by (simp add: ensure_def)

lemma ensure_Inl_iff [res_simps]: "ensure b e = Inl e' \<longleftrightarrow> \<not> b \<and> e' = e"
  by (auto simp: ensure_def)

lemma ensure_True [simp]: "ensure True e = Inr ()"
  by (simp add: ensure_def)

lemma ensure_False [simp]: "ensure False e = Inl e"
  by (simp add: ensure_def)

lemma ok_or_Inr_iff [res_simps]: "ok_or m e = Inr x \<longleftrightarrow> m = Some x"
  by (cases m) auto

lemma ok_or_Inl_iff [res_simps]: "ok_or m e = Inl e' \<longleftrightarrow> m = None \<and> e' = e"
  by (cases m) auto

lemma map_err_Inr_iff [res_simps]: "map_err f r = Inr x \<longleftrightarrow> r = Inr x"
  by (cases r) auto

lemma is_ok_simps [simp]: "is_ok (Inr x)" "\<not> is_ok (Inl e)"
  by (simp_all add: is_ok_def)

lemma is_ok_iff: "is_ok r \<longleftrightarrow> (\<exists>x. r = Inr x)"
  by (cases r) auto

lemma res_fold_append:
  "res_fold f s (xs @ ys) = res_bind (res_fold f s xs) (\<lambda>s'. res_fold f s' ys)"
proof (induction xs arbitrary: s)
  case Nil
  then show ?case by simp
next
  case (Cons x xs)
  then show ?case by (cases "f s x") auto
qed

text \<open>The rule for a loop that does not return early: an invariant over the processed prefix.\<close>

lemma res_fold_invariant:
  assumes "res_fold f s xs = Inr t" and "P [] s"
    and "\<And>ys y s s'. P ys s \<Longrightarrow> y \<in> set xs \<Longrightarrow> f s y = Inr s' \<Longrightarrow> P (ys @ [y]) s'"
  shows "P xs t"
  using assms
proof (induction xs arbitrary: t rule: rev_induct)
  case Nil
  then show ?case by simp
next
  case (snoc x xs)
  from snoc.prems(1) obtain u where u: "res_fold f s xs = Inr u" and x: "f u x = Inr t"
    by (auto simp: res_fold_append res_bind_Inr_iff)
  have "P xs u"
    by (rule snoc.IH [OF u snoc.prems(2)]) (use snoc.prems(3) in auto)
  with x show ?case using snoc.prems(3) by simp
qed

text \<open>The rule that a loop does succeed: each step under the invariant is \<open>Ok\<close>.\<close>

lemma res_fold_total:
  assumes "P [] s"
    and "\<And>ys y zs s. xs = ys @ y # zs \<Longrightarrow> P ys s \<Longrightarrow> \<exists>s'. f s y = Inr s' \<and> P (ys @ [y]) s'"
  shows "\<exists>t. res_fold f s xs = Inr t \<and> P xs t"
  using assms
proof (induction xs rule: rev_induct)
  case Nil
  then show ?case by simp
next
  case (snoc x xs)
  have "\<exists>t. res_fold f s xs = Inr t \<and> P xs t"
    by (rule snoc.IH [OF snoc.prems(1)]) (use snoc.prems(2) in auto)
  then obtain t where t: "res_fold f s xs = Inr t" "P xs t" by blast
  from snoc.prems(2) [of xs x "[]" t] t(2) obtain t' where "f t x = Inr t'" "P (xs @ [x]) t'"
    by auto
  with t show ?case by (auto simp: res_fold_append)
qed

text \<open>
  Two shapes of loop that the code uses again and again: \<open>for (index, x) in xs.enumerate()\<close> with a
  check as its body, and a loop that pushes one result per element.
\<close>

definition res_each :: "(nat \<Rightarrow> 'x \<Rightarrow> 'e + unit) \<Rightarrow> 'x list \<Rightarrow> 'e + unit" where
  "res_each f xs = res_bind (res_fold (\<lambda>i x. res_bind (f i x) (\<lambda>_. Inr (Suc i))) 0 xs) (\<lambda>_. Inr ())"

definition res_collect :: "('x \<Rightarrow> 'e + 'y) \<Rightarrow> 'x list \<Rightarrow> 'e + 'y list" where
  "res_collect f xs = res_fold (\<lambda>ys x. res_bind (f x) (\<lambda>y. Inr (ys @ [y]))) [] xs"

lemma res_fold_each:
  "res_fold (\<lambda>i x. res_bind (f i x) (\<lambda>_. Inr (Suc i))) k xs = Inr m \<longleftrightarrow>
     m = k + length xs \<and> (\<forall>i < length xs. \<exists>u. f (k + i) (xs ! i) = Inr u)"
proof (induction xs arbitrary: k)
  case Nil
  then show ?case by auto
next
  case (Cons x xs)
  show ?case
    by (auto simp: res_bind_Inr_iff Cons.IH less_Suc_eq_0_disj)
qed

lemma res_each_Inr_iff [res_simps]:
  "res_each f xs = Inr u \<longleftrightarrow> (\<forall>i < length xs. f i (xs ! i) = Inr ())"
  by (simp add: res_each_def res_bind_Inr_iff res_fold_each)

lemma res_each_Nil [simp]: "res_each f [] = Inr ()"
  by (simp add: res_each_def)

lemma res_fold_collect:
  "res_fold (\<lambda>ys x. res_bind (f x) (\<lambda>y. Inr (ys @ [y]))) zs xs = Inr rs \<longleftrightarrow>
     (\<exists>ys. rs = zs @ ys \<and> list_all2 (\<lambda>x y. f x = Inr y) xs ys)"
proof (induction xs arbitrary: zs)
  case Nil
  then show ?case by auto
next
  case (Cons x xs)
  show ?case
    by (auto simp: res_bind_Inr_iff Cons.IH list_all2_Cons1)
qed

lemma res_collect_Inr_iff [res_simps]:
  "res_collect f xs = Inr ys \<longleftrightarrow> list_all2 (\<lambda>x y. f x = Inr y) xs ys"
  by (simp add: res_collect_def res_fold_collect)

lemma res_fold_collect_Inl:
  "res_fold (\<lambda>ys x. res_bind (f x) (\<lambda>y. Inr (ys @ [y]))) zs xs = Inl e \<Longrightarrow> \<exists>x \<in> set xs. f x = Inl e"
  by (induction xs arbitrary: zs) (auto simp: res_bind_Inl_iff)

lemma res_collect_Inl: "res_collect f xs = Inl e \<Longrightarrow> \<exists>x \<in> set xs. f x = Inl e"
  unfolding res_collect_def by (rule res_fold_collect_Inl)

lemma res_collect_total:
  "(\<And>x. x \<in> set xs \<Longrightarrow> f x = Inr (g x)) \<Longrightarrow> res_collect f xs = Inr (map g xs)"
  by (simp add: res_collect_Inr_iff list_all2_map2 list_all2_same)

lemma res_fold_each_Inl:
  "res_fold (\<lambda>i x. res_bind (f i x) (\<lambda>_. Inr (Suc i))) k xs = Inl e \<Longrightarrow> \<exists>i x. f i x = Inl e"
  by (induction xs arbitrary: k) (auto simp: res_bind_Inl_iff)

lemma res_each_Inl: "res_each f xs = Inl e \<Longrightarrow> \<exists>i x. f i x = Inl e"
  by (auto simp: res_each_def res_bind_Inl_iff dest: res_fold_each_Inl)

section \<open>Lists\<close>

text \<open>\<open>slice::starts_with\<close>.\<close>

fun starts_with :: "'a list \<Rightarrow> 'a list \<Rightarrow> bool" where
  "starts_with xs [] = True"
| "starts_with [] (y # ys) = False"
| "starts_with (x # xs) (y # ys) = (x = y \<and> starts_with xs ys)"

lemma starts_with_iff: "starts_with xs ys \<longleftrightarrow> (\<exists>zs. xs = ys @ zs)"
  by (induction xs ys rule: starts_with.induct) auto

lemma starts_with_append [simp]: "starts_with (xs @ ys) xs"
  by (auto simp: starts_with_iff)

lemma starts_with_refl [simp]: "starts_with xs xs"
  using starts_with_append [of xs "[]"] by simp

text \<open>\<open>[T]::join(separator)\<close>.\<close>

fun join :: "'a list \<Rightarrow> 'a list list \<Rightarrow> 'a list" where
  "join sep [] = []"
| "join sep [x] = x"
| "join sep (x # y # ys) = x @ sep @ join sep (y # ys)"

lemma join_snoc: "xs \<noteq> [] \<Longrightarrow> join sep (xs @ [x]) = join sep xs @ sep @ x"
  by (induction sep xs rule: join.induct) auto

section \<open>Rust strings\<close>

text \<open>
  A Rust \<open>String\<close> is its UTF-8 bytes, and an Isabelle \<^typ>\<open>char\<close> is a byte: \<open>len()\<close> and
  \<open>as_bytes()\<close> are \<^const>\<open>length\<close> and the list itself. \<open>utf8_chars\<close> is \<open>str::chars()\<close>: each
  scalar value with the bytes that encode it. Rust guarantees that the bytes of a string are valid
  UTF-8; on other bytes the decoder falls back to the replacement character, byte by byte.
\<close>

definition byte :: "char \<Rightarrow> nat" where
  "byte c = of_char c"

lemma byte_less [simp]: "byte c < 256"
  by (cases c) (simp add: byte_def of_char_def horner_sum_simps)

text \<open>\<open>decode_char b bs\<close> reads one character that starts with the byte \<open>b\<close>: its scalar value, the
  bytes it took and the bytes that follow.\<close>

fun decode_char :: "char \<Rightarrow> string \<Rightarrow> nat \<times> string \<times> string" where
  "decode_char b bs =
     (if byte b < 128 then (byte b, [b], bs)
      else if byte b < 224 \<and> 1 \<le> length bs
      then ((byte b - 192) * 64 + (byte (bs ! 0) - 128), b # take 1 bs, drop 1 bs)
      else if byte b < 240 \<and> 2 \<le> length bs
      then ((byte b - 224) * 4096 + (byte (bs ! 0) - 128) * 64 + (byte (bs ! 1) - 128),
            b # take 2 bs, drop 2 bs)
      else if 3 \<le> length bs
      then ((byte b - 240) * 262144 + (byte (bs ! 0) - 128) * 4096 + (byte (bs ! 1) - 128) * 64
              + (byte (bs ! 2) - 128), b # take 3 bs, drop 3 bs)
      else (65533, [b], bs))"

lemma decode_char_split:
  "decode_char b bs = (n, e, r) \<Longrightarrow> e \<noteq> [] \<and> e @ r = b # bs \<and> length r \<le> length bs"
  by (auto split: if_splits)

lemma decode_char_ascii: "byte b < 128 \<Longrightarrow> decode_char b bs = (byte b, [b], bs)"
  by simp

declare decode_char.simps [simp del]

function utf8_chars :: "string \<Rightarrow> (nat \<times> string) list" where
  "utf8_chars [] = []"
| "utf8_chars (b # bs) = (case decode_char b bs of (n, e, r) \<Rightarrow> (n, e) # utf8_chars r)"
  by pat_completeness auto
termination
  by (relation "measure length") (auto dest: decode_char_split [OF sym])

declare utf8_chars.simps(2) [simp del]

definition text_of :: "(nat \<times> string) list \<Rightarrow> string" where
  "text_of cs = concat (map snd cs)"

lemma text_of_simps [simp]:
  "text_of [] = []" "text_of (c # cs) = snd c @ text_of cs" "text_of (cs @ ds) = text_of cs @ text_of ds"
  by (simp_all add: text_of_def)

lemma text_of_utf8_chars [simp]: "text_of (utf8_chars s) = s"
  by (induction s rule: utf8_chars.induct)
    (auto simp: utf8_chars.simps(2) dest: decode_char_split split: prod.split)

lemma utf8_chars_ascii [simp]: "byte b < 128 \<Longrightarrow> utf8_chars (b # bs) = (byte b, [b]) # utf8_chars bs"
  by (simp add: utf8_chars.simps(2) decode_char_ascii)

lemma utf8_chars_eq_Nil_iff [simp]: "utf8_chars s = [] \<longleftrightarrow> s = []"
  by (cases s) (auto simp: utf8_chars.simps(2) split: prod.split)

text \<open>\<open>chars().count()\<close>.\<close>

definition char_count :: "string \<Rightarrow> nat" where
  "char_count s = length (utf8_chars s)"

text \<open>
  \<open>utf8_complete\<close> holds of every valid UTF-8 text: no character is cut short at the end. Then
  characters of a concatenation are the characters of its parts.
\<close>

definition continuation_bytes :: "char \<Rightarrow> nat" where
  "continuation_bytes b = (if byte b < 128 then 0 else if byte b < 224 then 1 else if byte b < 240 then 2 else 3)"

function utf8_complete :: "string \<Rightarrow> bool" where
  "utf8_complete [] = True"
| "utf8_complete (b # bs) =
     (continuation_bytes b \<le> length bs \<and> utf8_complete (drop (continuation_bytes b) bs))"
  by pat_completeness auto
termination by (relation "measure length") auto

lemma decode_char_append:
  assumes "continuation_bytes b \<le> length bs"
  shows "\<exists>n e. decode_char b bs = (n, e, drop (continuation_bytes b) bs)
           \<and> decode_char b (bs @ t) = (n, e, drop (continuation_bytes b) bs @ t)"
  using assms by (auto simp: decode_char.simps continuation_bytes_def nth_append split: if_splits)

lemma utf8_chars_append: "utf8_complete s \<Longrightarrow> utf8_chars (s @ t) = utf8_chars s @ utf8_chars t"
proof (induction s rule: utf8_complete.induct)
  case 1
  then show ?case by simp
next
  case (2 b bs)
  then have "continuation_bytes b \<le> length bs" by simp
  from decode_char_append [OF this, of t] obtain n e
    where "decode_char b bs = (n, e, drop (continuation_bytes b) bs)"
      and "decode_char b (bs @ t) = (n, e, drop (continuation_bytes b) bs @ t)" by blast
  with 2 show ?case by (simp add: utf8_chars.simps(2))
qed

lemma char_count_append: "utf8_complete s \<Longrightarrow> char_count (s @ t) = char_count s + char_count t"
  by (simp add: char_count_def utf8_chars_append)

lemma char_count_join:
  "utf8_complete sep \<Longrightarrow> list_all utf8_complete xs \<Longrightarrow>
   char_count (join sep xs) = sum_list (map char_count xs) + (length xs - 1) * char_count sep"
  by (induction sep xs rule: join.induct) (auto simp: char_count_append, simp add: char_count_def)

text \<open>\<open>char::is_whitespace\<close> (the Unicode White_Space property) and \<open>u8::is_ascii_whitespace\<close>,
  \<open>u8::is_ascii_digit\<close>.\<close>

definition is_whitespace :: "nat \<Rightarrow> bool" where
  "is_whitespace c \<longleftrightarrow>
     (9 \<le> c \<and> c \<le> 13) \<or> c = 32 \<or> c = 133 \<or> c = 160 \<or> c = 5760
     \<or> (8192 \<le> c \<and> c \<le> 8202) \<or> c = 8232 \<or> c = 8233 \<or> c = 8239 \<or> c = 8287 \<or> c = 12288"

definition is_ascii_whitespace :: "char \<Rightarrow> bool" where
  "is_ascii_whitespace b \<longleftrightarrow> byte b \<in> {9, 10, 12, 13, 32}"

definition is_ascii_digit :: "char \<Rightarrow> bool" where
  "is_ascii_digit b \<longleftrightarrow> 48 \<le> byte b \<and> byte b \<le> 57"

text \<open>\<open>str::trim\<close> and the test \<open>trim().is_empty()\<close>.\<close>

definition trim_chars :: "(nat \<times> string) list \<Rightarrow> (nat \<times> string) list" where
  "trim_chars cs =
     rev (dropWhile (is_whitespace \<circ> fst) (rev (dropWhile (is_whitespace \<circ> fst) cs)))"

definition trim :: "string \<Rightarrow> string" where
  "trim s = text_of (trim_chars (utf8_chars s))"

definition blank :: "string \<Rightarrow> bool" where
  "blank s \<longleftrightarrow> list_all (is_whitespace \<circ> fst) (utf8_chars s)"

lemma utf8_chars_nonempty_bytes: "c \<in> set (utf8_chars s) \<Longrightarrow> snd c \<noteq> []"
  by (induction s rule: utf8_chars.induct)
    (fastforce simp: utf8_chars.simps(2) dest: decode_char_split [OF sym] split: prod.splits)+

lemma trim_chars_eq_Nil_iff: "trim_chars cs = [] \<longleftrightarrow> list_all (is_whitespace \<circ> fst) cs"
proof
  assume "trim_chars cs = []"
  then have "\<forall>c \<in> set (dropWhile (is_whitespace \<circ> fst) cs). is_whitespace (fst c)"
    by (simp add: trim_chars_def dropWhile_eq_Nil_conv)
  then have "dropWhile (is_whitespace \<circ> fst) cs = []"
    by (metis comp_apply dropWhile_eq_Cons_conv list.set_intros(1) neq_Nil_conv)
  then show "list_all (is_whitespace \<circ> fst) cs"
    by (simp add: dropWhile_eq_Nil_conv list_all_iff)
next
  assume "list_all (is_whitespace \<circ> fst) cs"
  then have "dropWhile (is_whitespace \<circ> fst) cs = []"
    by (simp only: dropWhile_eq_Nil_conv list_all_iff)
  then show "trim_chars cs = []"
    by (simp only: trim_chars_def rev.simps dropWhile.simps)
qed

text \<open>\<open>blank\<close> is what the code writes as \<open>s.trim().is_empty()\<close>.\<close>

lemma trim_eq_Nil_iff: "trim s = [] \<longleftrightarrow> blank s"
proof -
  have ne: "snd c \<noteq> []" if "c \<in> set (trim_chars (utf8_chars s))" for c
  proof -
    from that have "c \<in> set (utf8_chars s)"
      unfolding trim_chars_def by (metis set_dropWhileD set_rev)
    then show ?thesis by (rule utf8_chars_nonempty_bytes)
  qed
  then have "text_of (trim_chars (utf8_chars s)) = [] \<longleftrightarrow> trim_chars (utf8_chars s) = []"
    by (cases "trim_chars (utf8_chars s)") auto
  then show ?thesis by (simp add: trim_def blank_def trim_chars_eq_Nil_iff)
qed

lemma blank_Nil [simp]: "blank []"
  by (simp add: blank_def)

lemma blank_ascii_Cons: "byte b < 128 \<Longrightarrow> blank (b # s) \<longleftrightarrow> is_whitespace (byte b) \<and> blank s"
  by (simp add: blank_def)

text \<open>\<open>str::lines\<close>: split at line feeds, the line feed and one carriage return before it removed;
  what follows the last line feed is a line only when it is not empty.\<close>

definition strip_cr :: "string \<Rightarrow> string" where
  "strip_cr l = (if l \<noteq> [] \<and> last l = CHR 0x0D then butlast l else l)"

fun lines_acc :: "string \<Rightarrow> string \<Rightarrow> string list" where
  "lines_acc acc [] = (if acc = [] then [] else [rev acc])"
| "lines_acc acc (b # bs) =
     (if b = CHR 0x0A then strip_cr (rev acc) # lines_acc [] bs else lines_acc (b # acc) bs)"

definition lines :: "string \<Rightarrow> string list" where
  "lines s = lines_acc [] s"

text \<open>\<open>split_whitespace().count()\<close>: the number of maximal runs of non-whitespace characters.\<close>

fun word_count :: "bool \<Rightarrow> nat list \<Rightarrow> nat" where
  "word_count inside [] = 0"
| "word_count inside (c # cs) =
     (if is_whitespace c then word_count False cs
      else (if inside then 0 else 1) + word_count True cs)"

text \<open>Decimal rendering of an unsigned integer (\<open>Display\<close>).\<close>

fun show_nat :: "nat \<Rightarrow> string" where
  "show_nat n = (if n < 10 then [char_of (48 + n)] else show_nat (n div 10) @ [char_of (48 + n mod 10)])"

declare show_nat.simps [simp del]

lemma show_nat_nonempty [simp]: "show_nat n \<noteq> []"
  by (subst show_nat.simps) simp

end
