(* ===== verification/Contracts.thy ===== *)
theory Contracts
  imports Prelude
begin

text \<open>
  The domain records of \<open>pipeline/contracts.rs\<close>: pipeline states and stages, runs, events, and the
  artifact each stage hands to the next. Field names are the source's, with the record's initial
  letters in front where two records share a name. A \<open>DateTime<Utc>\<close> is its distance from the epoch.
\<close>

type_synonym timestamp = int

section \<open>States and stages\<close>

datatype pipeline_state =
    Received | Ingesting | Ingested | Parsing | Parsed
  | VisualAnalysisRequired | VisualAnalyzing | VisualAnalyzed
  | Normalizing | Normalized | Structuring | Structured | Chunking | Chunked
  | Analyzing | Analyzed | Synthesizing | Synthesized | Verifying | Verified
  | Complete | CompleteWithWarnings | Failed | Cancelling | Cancelled

datatype pipeline_stage =
    Ingest | Parse | Normalize | Structure | Chunk | Analyze | Synthesize | Verify

definition IMPLEMENTED_ACTIVE_STATES :: "pipeline_state list" where
  "IMPLEMENTED_ACTIVE_STATES =
     [Ingesting, Parsing, Normalizing, Structuring, Chunking, Analyzing, Synthesizing, Verifying]"

fun active_stage :: "pipeline_state \<Rightarrow> pipeline_stage option" where
  "active_stage Ingesting = Some Ingest"
| "active_stage Parsing = Some Parse"
| "active_stage Normalizing = Some Normalize"
| "active_stage Structuring = Some Structure"
| "active_stage Chunking = Some Chunk"
| "active_stage Analyzing = Some Analyze"
| "active_stage Synthesizing = Some Synthesize"
| "active_stage Verifying = Some Verify"
| "active_stage _ = None"

definition can_request_cancellation :: "pipeline_state \<Rightarrow> bool" where
  "can_request_cancellation s \<longleftrightarrow>
     active_stage s \<noteq> None
     \<or> s \<in> {Ingested, Parsed, Normalized, Structured, Chunked, Analyzed, Synthesized, Verified}"

section \<open>Runs\<close>

record pipeline_progress =
  total_units :: u32
  completed_units :: u32
  failed_units :: u32

record pipeline_warning =
  warning_code :: string
  warning_message :: string
  warning_stage :: "pipeline_stage option"

record pipeline_failure =
  failure_code :: string
  failure_message :: string
  failure_stage :: "pipeline_stage option"
  recoverable :: bool

text \<open>\<open>Display for PipelineFailure\<close>.\<close>

definition failure_to_string :: "pipeline_failure \<Rightarrow> string" where
  "failure_to_string f = failure_code f @ '': '' @ failure_message f"

datatype summary_profile = General | Story | Contract

record pipeline_run =
  run_id :: string
  run_document_id :: string
  run_state :: pipeline_state
  state_version :: u32
  pipeline_version :: string
  run_created_at :: timestamp
  started_at :: "timestamp option"
  updated_at :: timestamp
  completed_at :: "timestamp option"
  current_stage :: "pipeline_stage option"
  progress :: pipeline_progress
  run_warnings :: "pipeline_warning list"
  run_failure :: "pipeline_failure option"
  cancellation_requested :: bool
  resumable :: bool

datatype continuation_checkpoint =
    ContIngested | ContParsed | ContNormalized | ContStructured | ContChunked | ContAnalyzed
  | ContSynthesized | ContVerified

datatype retry_checkpoint = RetryIngested

definition continuation_checkpoint :: "pipeline_run \<Rightarrow> continuation_checkpoint option" where
  "continuation_checkpoint r =
     (if run_failure r \<noteq> None \<or> completed_at r \<noteq> None \<or> cancellation_requested r
         \<or> \<not> resumable r
      then None
      else case run_state r of
        Ingested \<Rightarrow> Some ContIngested
      | Parsed \<Rightarrow> Some ContParsed
      | Normalized \<Rightarrow> Some ContNormalized
      | Structured \<Rightarrow> Some ContStructured
      | Chunked \<Rightarrow> Some ContChunked
      | Analyzed \<Rightarrow> Some ContAnalyzed
      | Synthesized \<Rightarrow> Some ContSynthesized
      | Verified \<Rightarrow> Some ContVerified
      | _ \<Rightarrow> None)"

definition retry_checkpoint :: "pipeline_run \<Rightarrow> retry_checkpoint option" where
  "retry_checkpoint r =
     (case run_failure r of
        None \<Rightarrow> None
      | Some failure \<Rightarrow>
          if run_state r \<noteq> Failed \<or> \<not> resumable r \<or> \<not> recoverable failure
             \<or> failure_stage failure = None \<or> failure_stage failure = Some Ingest
          then None
          else Some RetryIngested)"

fun requires_runtime :: "continuation_checkpoint \<Rightarrow> bool" where
  "requires_runtime c \<longleftrightarrow> c \<noteq> ContVerified"

fun requires_existing_model_profile :: "continuation_checkpoint \<Rightarrow> bool" where
  "requires_existing_model_profile c \<longleftrightarrow> c = ContAnalyzed \<or> c = ContSynthesized"

record pipeline_event =
  event_id :: string
  event_run_id :: string
  sequence_no :: u32
  previous_state :: "pipeline_state option"
  next_state :: pipeline_state
  timestamp :: timestamp
  event_stage :: "pipeline_stage option"
  work_unit_id :: "string option"
  event_reason :: "string option"

record retry_lineage =
  retry_run_id :: string
  source_run_id :: string
  checkpoint :: retry_checkpoint
  lineage_created_at :: timestamp

section \<open>Stage artifacts\<close>

datatype source_type = NativeText | OcrText

definition is_textual :: "source_type \<Rightarrow> bool" where
  "is_textual s \<longleftrightarrow> s = NativeText \<or> s = OcrText"

record ingested_document =
  document_id :: string
  original_filename :: string
  file_type :: string
  document_source_type :: source_type
  byte_size :: u64
  content_hash :: string
  local_source_path :: string
  document_created_at :: timestamp

record parsed_page =
  parsed_page_number :: u32
  parsed_text :: string
  parsed_page_warnings :: "pipeline_warning list"
  parsed_requires_visual :: bool

record parsed_document =
  parsed_document_id :: string
  parser_id :: string
  parser_version :: string
  parsed_source_type :: source_type
  parsed_pages :: "parsed_page list"
  parsed_warnings :: "pipeline_warning list"

definition requires_ocr :: "parsed_document \<Rightarrow> bool" where
  "requires_ocr p \<longleftrightarrow>
     parsed_source_type p = NativeText \<and> list_ex parsed_requires_visual (parsed_pages p)"

record source_span =
  page_start :: u32
  page_end :: u32
  section_id :: "string option"
  span_source_type :: source_type

datatype normalized_block_kind = Text | Unknown

record normalized_block =
  block_id :: string
  block_kind :: normalized_block_kind
  block_text :: string
  block_source :: source_span

record normalized_page =
  page_number :: u32
  content :: "normalized_block list"
  page_warnings :: "pipeline_warning list"
  requires_visual_processing :: bool

record normalized_document =
  normalized_document_id :: string
  normalization_version :: string
  normalized_pages :: "normalized_page list"
  normalized_warnings :: "pipeline_warning list"

record structure_page =
  structure_page_number :: u32
  structure_page_warnings :: "pipeline_warning list"
  structure_requires_visual :: bool

datatype structure_node_kind = Document | Section | Subsection | Unstructured

datatype structure_node = StructureNode
  (node_id: string) (node_kind: structure_node_kind) (node_title: "string option")
  (node_level: u32) (node_block_ids: "string list") (node_source_spans: "source_span list")
  (node_children: "structure_node list")

record structured_document =
  structured_document_id :: string
  structure_version :: string
  structured_pages :: "structure_page list"
  structured_nodes :: "structure_node list"
  structured_warnings :: "pipeline_warning list"

record document_chunk =
  chunk_id :: string
  ordinal :: u32
  structure_node_id :: string
  chunk_text :: string
  chunk_block_ids :: "string list"
  chunk_source_spans :: "source_span list"
  chunk_warnings :: "pipeline_warning list"

record chunked_document =
  chunked_document_id :: string
  chunking_version :: string
  chunks :: "document_chunk list"
  chunked_warnings :: "pipeline_warning list"

section \<open>Model stages: profiles, evidence, claims\<close>

datatype model_runtime_kind = OllamaNative | LlamaCppGguf | InferenceGateway

record model_stage_profile_snapshot =
  stage_runtime_kind :: model_runtime_kind
  stage_profile_id :: string
  stage_model_name :: string
  stage_model_digest :: string
  stage_context_tokens :: u32
  stage_tokenizer_version :: string

record model_profile_snapshot =
  profile_version :: u32
  preset_id :: string
  analysis_profile :: model_stage_profile_snapshot
  verification_profile :: model_stage_profile_snapshot

record evidence_item =
  evidence_id :: string
  evidence_chunk_id :: string
  evidence_block_id :: string
  evidence_claim_text :: string
  evidence_exact_quote :: string
  evidence_source_span :: source_span

record chunk_analysis =
  analysis_chunk_id :: string
  analysis_summary_text :: string
  analysis_source_spans :: "source_span list"
  analysis_evidence :: "evidence_item list"

record cited_claim =
  claim_id :: string
  claim_text :: string
  claim_evidence_ids :: "string list"

datatype claim_verdict = Supported | Unsupported | Ambiguous

record claim_verification =
  verified_claim_id :: string
  verified_evidence_ids :: "string list"
  verdict :: claim_verdict

datatype analysis_omission_origin =
    OriginScanNoise | OriginDatePageStamp | OriginModelBareHeading | OriginModelNoSubstantiveContent
  | OriginParaphraseUnrepairable | OriginQuoteBoundaryUnusable

datatype analysis_omission_reason =
    NonSubstantivePageFurniture | NoSubstantiveContent | ParaphraseUnrepairable | QuoteBoundaryUnusable

record analysis_page_omission =
  omission_page_number :: u32
  omission_chunk_id :: string
  omission_reason :: analysis_omission_reason
  omission_origin :: analysis_omission_origin
  filter_version :: string
  source_fingerprint :: string
  catalog_fingerprint :: "string option"

record analyzed_document =
  analyzed_document_id :: string
  analysis_version :: string
  analyzed_runtime_id :: string
  analyzed_model_id :: string
  analyzed_chunks :: "chunk_analysis list"
  analyzed_warnings :: "pipeline_warning list"
  omissions :: "analysis_page_omission list"
  inspected_pages :: "u32 list"

datatype summary_presentation_mode =
  LegacyClaimList | Coherent | ClaimLedgerFallback | StructuredExtraction

datatype contract_term_category = Parties | Payment | TermRenewal | Termination | Insurance | LiabilityIndemnity

datatype contract_selection_rule = Heading | OpeningBetween

record contract_section_selection =
  selection_rule :: contract_selection_rule
  root_clause_id :: string
  selected_clause_ids :: "string list"

record contract_key_term =
  term_category :: contract_term_category
  selections :: "contract_section_selection list"

record extracted_contract_clause =
  clause_id :: string
  clause_heading :: "string option"
  clause_text :: string
  clause_evidence_ids :: "string list"

record contract_extraction =
  extraction_clauses :: "extracted_contract_clause list"
  extraction_key_terms :: "contract_key_term list"

record synthesized_document =
  synthesized_extraction :: "contract_extraction option"
  synthesized_document_id :: string
  synthesis_version :: string
  synthesized_runtime_id :: string
  synthesized_model_id :: string
  synthesized_presentation :: summary_presentation_mode
  synthesized_text :: string
  synthesized_chunk_ids :: "string list"
  synthesized_summary_claims :: "cited_claim list"
  synthesized_evidence :: "evidence_item list"
  synthesized_claims :: "cited_claim list"
  synthesized_warnings :: "pipeline_warning list"

record verified_document =
  verified_extraction :: "contract_extraction option"
  verified_document_id :: string
  verification_version :: string
  synthesis_attempt_ordinal :: u32
  verified_runtime_id :: string
  verified_model_id :: string
  verified_presentation :: summary_presentation_mode
  verified_text :: string
  verified_chunk_ids :: "string list"
  verified_summary_claims :: "cited_claim list"
  verified_evidence :: "evidence_item list"
  summary_claim_verifications :: "claim_verification list"
  verified_claims :: "cited_claim list"
  claim_verifications :: "claim_verification list"
  key_point_claim_ids :: "string list"
  verified_warnings :: "pipeline_warning list"

record citation_artifact =
  citation_extraction :: "contract_extraction option"
  citation_document_id :: string
  citation_version :: string
  summary_integrity_hash :: string
  rendered_text :: string
  citation_presentation :: summary_presentation_mode
  citation_summary_claims :: "cited_claim list"
  citation_claims :: "cited_claim list"
  citation_evidence :: "evidence_item list"
  citation_created_at :: timestamp
  citation_integrity_hash :: string

record summary_artifact =
  summary_extraction :: "contract_extraction option"
  summary_document_id :: string
  summary_version :: string
  summary_text :: string
  summary_warnings :: "pipeline_warning list"
  summary_created_at :: timestamp
  integrity_hash :: string

text \<open>
  The tuples \<open>calculate_integrity_hash\<close> serializes and digests. \<open>canonical_hash\<close> stands for
  \<open>serde_json::to_vec\<close> followed by SHA-256 in hexadecimal.
\<close>

datatype canonical_tuple =
    Summary6 string string string "pipeline_warning list" timestamp contract_extraction
  | Summary5 string string string "pipeline_warning list" timestamp
  | Citation10 string string string string summary_presentation_mode "cited_claim list" "cited_claim list"
      "evidence_item list" timestamp "contract_extraction option"
  | Citation9 string string string string summary_presentation_mode "cited_claim list" "cited_claim list"
      "evidence_item list" timestamp
  | Citation7 string string string string "cited_claim list" "evidence_item list" timestamp

definition summary_integrity :: "(canonical_tuple \<Rightarrow> string) \<Rightarrow> summary_artifact \<Rightarrow> string" where
  "summary_integrity canonical_hash s =
     (case summary_extraction s of
        Some extraction \<Rightarrow> canonical_hash (Summary6 (summary_document_id s) (summary_version s) (summary_text s)
          (summary_warnings s) (summary_created_at s) extraction)
      | None \<Rightarrow> canonical_hash (Summary5 (summary_document_id s) (summary_version s) (summary_text s)
          (summary_warnings s) (summary_created_at s)))"

definition citation_integrity :: "(canonical_tuple \<Rightarrow> string) \<Rightarrow> citation_artifact \<Rightarrow> string" where
  "citation_integrity canonical_hash a =
     canonical_hash
       (if citation_version a = ''5.0.0''
        then Citation10 (citation_document_id a) (citation_version a) (summary_integrity_hash a) (rendered_text a)
          (citation_presentation a) (citation_summary_claims a) (citation_claims a) (citation_evidence a)
          (citation_created_at a) (citation_extraction a)
        else if citation_version a = ''4.0.0''
        then Citation9 (citation_document_id a) (citation_version a) (summary_integrity_hash a) (rendered_text a)
          (citation_presentation a) (citation_summary_claims a) (citation_claims a) (citation_evidence a)
          (citation_created_at a)
        else Citation7 (citation_document_id a) (citation_version a) (summary_integrity_hash a) (rendered_text a)
          (citation_claims a) (citation_evidence a) (citation_created_at a))"

section \<open>Properties of the run predicates\<close>

definition terminal :: "pipeline_state \<Rightarrow> bool" where
  "terminal s \<longleftrightarrow> s \<in> {Complete, CompleteWithWarnings, Failed, Cancelled}"

lemma active_states_iff: "s \<in> set IMPLEMENTED_ACTIVE_STATES \<longleftrightarrow> active_stage s \<noteq> None"
  by (cases s) (auto simp: IMPLEMENTED_ACTIVE_STATES_def)

lemma terminal_not_active: "terminal s \<Longrightarrow> active_stage s = None"
  by (auto simp: terminal_def)

lemma terminal_not_cancellable: "terminal s \<Longrightarrow> \<not> can_request_cancellation s"
  by (auto simp: terminal_def can_request_cancellation_def)

text \<open>
  Continuation and retry exclude one another: a run that offers a continuation checkpoint has no
  recorded failure, a run that offers a retry checkpoint has one.
\<close>

lemma continuation_excludes_retry:
  "continuation_checkpoint r \<noteq> None \<Longrightarrow> retry_checkpoint r = None"
  by (auto simp: continuation_checkpoint_def retry_checkpoint_def split: if_splits)

lemma continuation_state_not_terminal:
  "continuation_checkpoint r = Some c \<Longrightarrow> \<not> terminal (run_state r) \<and> can_request_cancellation (run_state r)"
  by (auto simp: continuation_checkpoint_def terminal_def can_request_cancellation_def
      split: if_splits pipeline_state.splits)

end
