(* ===== verification/Doc_Normalize.thy ===== *)
theory Doc_Normalize
  imports Contracts
begin

text \<open>
  \<open>pipeline/normalize.rs\<close>: representation cleanup of the parsed pages and the validation of the
  result. The SHA-256 digest in lower-case hexadecimal is code of another crate: the argument \<open>sha\<close>.
\<close>

section \<open>The model\<close>

definition NORMALIZATION_VERSION :: string where
  "NORMALIZATION_VERSION = ''1.0.0''"

definition normalization_failure :: "string \<Rightarrow> string \<Rightarrow> bool \<Rightarrow> pipeline_failure" where
  "normalization_failure code msg rec =
     \<lparr>failure_code = code, failure_message = msg, failure_stage = Some Normalize, recoverable = rec\<rparr>"

definition invalid_normalized :: "string \<Rightarrow> pipeline_failure" where
  "invalid_normalized msg = normalization_failure ''INVALID_NORMALIZED_DOCUMENT'' msg False"

text \<open>
  The loop over \<open>chars().peekable()\<close>: every byte the loop tests is ASCII, and an ASCII byte is never
  part of a longer character, so the bytes are walked one by one.
\<close>

fun clean_text_loop :: "string \<Rightarrow> bool \<Rightarrow> string \<Rightarrow> string \<times> bool" where
  "clean_text_loop output changed [] = (output, changed)"
| "clean_text_loop output changed (character # chars) =
     (if character = CHR 0x0D
      then clean_text_loop (output @ [CHR 0x0A]) True
             (if chars \<noteq> [] \<and> hd chars = CHR 0x0A then tl chars else chars)
      else if character = CHR 0x00 then clean_text_loop output True chars
      else clean_text_loop (output @ [character]) changed chars)"

definition clean_text :: "string \<Rightarrow> string \<times> bool" where
  "clean_text input = clean_text_loop [] False input"

definition block_preimage :: "string \<Rightarrow> string \<Rightarrow> u32 \<Rightarrow> u32 \<Rightarrow> string" where
  "block_preimage doc_id version page index =
     ''normalized-block'' @ [CHR 0x00] @ doc_id @ [CHR 0x00] @ version @ [CHR 0x00]
       @ be_bytes_u32 page @ be_bytes_u32 index"

definition deterministic_block_id ::
  "(string \<Rightarrow> string) \<Rightarrow> string \<Rightarrow> string \<Rightarrow> u32 \<Rightarrow> u32 \<Rightarrow> string" where
  "deterministic_block_id sha doc_id version page index =
     ''nb-'' @ sha (block_preimage doc_id version page index)"

definition validate_parsed_page ::
  "nat \<Rightarrow> parsed_page \<Rightarrow> pipeline_failure + unit" where
  "validate_parsed_page index page =
     res_bind (ok_or (u32_try_from (index + 1))
       (normalization_failure ''INVALID_PARSED_DOCUMENT''
          ''Parsed page count exceeds the supported page-number range'' False)) (\<lambda>expected.
     res_bind (ensure (parsed_page_number page = expected)
       (normalization_failure ''INVALID_PARSED_DOCUMENT''
          ''Parsed pages are not in canonical one-based order'' False)) (\<lambda>_.
     ensure (\<not> (blank (parsed_text page)
         \<and> (\<not> parsed_requires_visual page
            \<or> \<not> list_ex (\<lambda>w. warning_code w = ''NO_NATIVE_TEXT'') (parsed_page_warnings page))))
       (normalization_failure ''INVALID_PARSED_DOCUMENT''
          (''Empty parsed page '' @ show_nat (unat (parsed_page_number page))
             @ '' lacks its visual-routing marker or warning'') False)))"

definition validate_parsed_document :: "parsed_document \<Rightarrow> pipeline_failure + unit" where
  "validate_parsed_document parsed =
     res_bind (ensure (\<not> (blank (parsed_document_id parsed) \<or> blank (parser_id parsed)
                          \<or> blank (parser_version parsed)))
       (normalization_failure ''INVALID_PARSED_DOCUMENT''
          ''Parsed document identity and parser identity must be present'' False)) (\<lambda>_.
     res_each validate_parsed_page (parsed_pages parsed))"

definition cleanup_warning :: pipeline_warning where
  "cleanup_warning = \<lparr>warning_code = ''REPRESENTATION_CLEANUP_APPLIED'',
     warning_message = ''Line endings or non-semantic control artifacts were normalized'',
     warning_stage = Some Normalize\<rparr>"

definition normalize_page ::
  "(string \<Rightarrow> string) \<Rightarrow> parsed_document \<Rightarrow> parsed_page \<Rightarrow> pipeline_failure + normalized_page" where
  "normalize_page sha parsed page =
     (let (text, cleanup_applied) = clean_text (parsed_text page);
          warnings = parsed_page_warnings page @ (if cleanup_applied then [cleanup_warning] else [])
      in res_bind
        (if blank text
         then if \<not> parsed_requires_visual page
              then Inl (normalization_failure ''INVALID_PARSED_DOCUMENT''
                (''Page '' @ show_nat (unat (parsed_page_number page))
                   @ '' has no content after safe cleanup but lacks visual routing'') False)
              else Inr []
         else Inr [\<lparr>block_id = deterministic_block_id sha (parsed_document_id parsed)
                      NORMALIZATION_VERSION (parsed_page_number page) 0,
                    block_kind = Text, block_text = text,
                    block_source = \<lparr>page_start = parsed_page_number page,
                      page_end = parsed_page_number page, section_id = None,
                      span_source_type = parsed_source_type parsed\<rparr>\<rparr>])
        (\<lambda>blocks. Inr \<lparr>page_number = parsed_page_number page, content = blocks,
           page_warnings = warnings, requires_visual_processing = parsed_requires_visual page\<rparr>))"

definition validate_normalized_block ::
  "(string \<Rightarrow> string) \<Rightarrow> normalized_document \<Rightarrow> parsed_document \<Rightarrow> u32 set \<Rightarrow> string
   \<Rightarrow> normalized_page \<Rightarrow> nat \<times> string set \<Rightarrow> normalized_block \<Rightarrow> pipeline_failure + nat \<times> string set" where
  "validate_normalized_block sha normalized parsed source_pages expected_text page st block =
     (let (index, block_ids) = st in
      res_bind (ok_or (u32_try_from index)
        (invalid_normalized ''Normalized block count exceeds the supported identity range'')) (\<lambda>block_index.
      res_bind (ensure (\<not> (block_id block \<noteq> deterministic_block_id sha
            (normalized_document_id normalized) (normalization_version normalized)
            (page_number page) block_index
          \<or> block_id block \<in> block_ids))
        (invalid_normalized ''Normalized block identity is invalid or duplicated'')) (\<lambda>_.
      res_bind (ensure (block_text block = expected_text)
        (invalid_normalized ''Normalized text differs from the permitted representation cleanup'')) (\<lambda>_.
      res_bind (ensure (\<not> (page_start (block_source block) \<noteq> page_number page
          \<or> page_end (block_source block) \<noteq> page_number page
          \<or> page_start (block_source block) \<noteq> page_end (block_source block)
          \<or> page_start (block_source block) \<notin> source_pages
          \<or> section_id (block_source block) \<noteq> None
          \<or> span_source_type (block_source block) \<noteq> parsed_source_type parsed))
        (invalid_normalized ''Normalized block source provenance is invalid or crosses a page boundary''))
      (\<lambda>_. Inr (index + 1, insert (block_id block) block_ids))))))"

definition validate_normalized_page ::
  "(string \<Rightarrow> string) \<Rightarrow> normalized_document \<Rightarrow> parsed_document \<Rightarrow> u32 set \<Rightarrow> string set
   \<Rightarrow> normalized_page \<times> parsed_page \<Rightarrow> pipeline_failure + string set" where
  "validate_normalized_page sha normalized parsed source_pages block_ids pp =
     (let (page, parsed_page) = pp in
      res_bind (ensure (page_number page = parsed_page_number parsed_page)
        (invalid_normalized ''Normalization changed source page ordering or numbering'')) (\<lambda>_.
      res_bind (ensure (requires_visual_processing page = parsed_requires_visual parsed_page)
        (invalid_normalized ''Normalization changed a page visual-routing marker'')) (\<lambda>_.
      res_bind (ensure (starts_with (page_warnings page) (parsed_page_warnings parsed_page))
        (invalid_normalized ''Normalization did not preserve page warnings'')) (\<lambda>_.
      let (expected_text, cleanup_applied) = clean_text (parsed_text parsed_page);
          cleanup_warning_present =
            list_ex (\<lambda>w. warning_code w = ''REPRESENTATION_CLEANUP_APPLIED'') (page_warnings page)
      in res_bind (ensure (\<not> (cleanup_applied \<and> \<not> cleanup_warning_present))
        (invalid_normalized ''Representation cleanup was not recorded as a page warning'')) (\<lambda>_.
      if blank expected_text
      then res_bind (ensure (content page = [])
             (invalid_normalized ''An empty source page gained fabricated normalized content''))
             (\<lambda>_. Inr block_ids)
      else res_bind (ensure (length (content page) = 1)
             (invalid_normalized
               ''Normalization must preserve each native-text page as one conservative block'')) (\<lambda>_.
           res_bind (res_fold (validate_normalized_block sha normalized parsed source_pages
                       expected_text page) (0, block_ids) (content page))
             (\<lambda>(_, block_ids'). Inr block_ids')))))))"

definition validate_normalized_document ::
  "(string \<Rightarrow> string) \<Rightarrow> normalized_document \<Rightarrow> parsed_document \<Rightarrow> string \<Rightarrow> pipeline_failure + unit" where
  "validate_normalized_document sha normalized parsed expected_version =
     res_bind (ensure (normalized_document_id normalized = parsed_document_id parsed)
       (invalid_normalized ''Normalized document identity does not match parsed input'')) (\<lambda>_.
     res_bind (ensure (\<not> (blank (normalization_version normalized)
                          \<or> normalization_version normalized \<noteq> expected_version))
       (invalid_normalized
         ''Normalization version is missing or does not match the selected normalizer'')) (\<lambda>_.
     res_bind (ensure (length (normalized_pages normalized) = length (parsed_pages parsed))
       (invalid_normalized ''Normalization changed the number of source pages'')) (\<lambda>_.
     res_bind (ensure (starts_with (normalized_warnings normalized) (parsed_warnings parsed))
       (invalid_normalized ''Normalization did not preserve document warnings'')) (\<lambda>_.
     res_bind (res_fold (validate_normalized_page sha normalized parsed
                  (set (map parsed_page_number (parsed_pages parsed)))) {}
                (zip (normalized_pages normalized) (parsed_pages parsed)))
       (\<lambda>_. Inr ())))))"

definition normalize ::
  "(string \<Rightarrow> string) \<Rightarrow> parsed_document \<Rightarrow> pipeline_failure + normalized_document" where
  "normalize sha parsed =
     res_bind (validate_parsed_document parsed) (\<lambda>_.
     res_bind (res_collect (normalize_page sha parsed) (parsed_pages parsed)) (\<lambda>pages.
     let normalized = \<lparr>normalized_document_id = parsed_document_id parsed,
           normalization_version = NORMALIZATION_VERSION, normalized_pages = pages,
           normalized_warnings = parsed_warnings parsed\<rparr>
     in res_bind (validate_normalized_document sha normalized parsed NORMALIZATION_VERSION)
          (\<lambda>_. Inr normalized)))"

section \<open>Cleanup\<close>

text \<open>The specification: line endings become line feeds, then zero bytes go.\<close>

fun unify_line_ends :: "string \<Rightarrow> string" where
  "unify_line_ends [] = []"
| "unify_line_ends [c] = [if c = CHR 0x0D then CHR 0x0A else c]"
| "unify_line_ends (c # d # cs) =
     (if c = CHR 0x0D
      then CHR 0x0A # unify_line_ends (if d = CHR 0x0A then cs else d # cs)
      else c # unify_line_ends (d # cs))"

lemma unify_line_ends_Cons:
  "unify_line_ends (c # cs) =
     (if c = CHR 0x0D
      then CHR 0x0A # unify_line_ends (if cs \<noteq> [] \<and> hd cs = CHR 0x0A then tl cs else cs)
      else c # unify_line_ends cs)"
  by (cases cs) auto

lemma clean_text_loop_spec:
  "clean_text_loop out ch s =
     (out @ filter (\<lambda>c. c \<noteq> CHR 0x00) (unify_line_ends s),
      ch \<or> CHR 0x0D \<in> set s \<or> CHR 0x00 \<in> set s)"
proof (induction out ch s rule: clean_text_loop.induct)
  case (2 out ch c cs)
  have "CHR 0x00 \<in> set cs \<longleftrightarrow>
      CHR 0x00 \<in> set (if cs \<noteq> [] \<and> hd cs = CHR 0x0A then tl cs else cs)"
    by (cases cs) auto
  with 2 show ?case by (auto simp: unify_line_ends_Cons)
qed simp

lemma clean_text_spec:
  "clean_text s = (filter (\<lambda>c. c \<noteq> CHR 0x00) (unify_line_ends s),
                   CHR 0x0D \<in> set s \<or> CHR 0x00 \<in> set s)"
  by (simp add: clean_text_def clean_text_loop_spec)

lemma unify_line_ends_no_cr: "CHR 0x0D \<notin> set (unify_line_ends s)"
  by (induction s rule: unify_line_ends.induct) auto

lemma unify_line_ends_id: "CHR 0x0D \<notin> set s \<Longrightarrow> unify_line_ends s = s"
  by (induction s rule: unify_line_ends.induct) auto

lemma unify_line_ends_length: "length (unify_line_ends s) \<le> length s"
  by (induction s rule: unify_line_ends.induct) auto

lemma clean_text_clean:
  "CHR 0x0D \<notin> set (fst (clean_text s)) \<and> CHR 0x00 \<notin> set (fst (clean_text s))"
  using unify_line_ends_no_cr [of s] by (auto simp: clean_text_spec)

lemma clean_text_id:
  "CHR 0x0D \<notin> set s \<Longrightarrow> CHR 0x00 \<notin> set s \<Longrightarrow> clean_text s = (s, False)"
  by (auto simp: clean_text_spec unify_line_ends_id filter_id_conv)

text \<open>
  The same result without recursion: what the character at a position contributes, given the one
  before it.
\<close>

definition cleaned_char :: "bool \<Rightarrow> char \<Rightarrow> string" where
  "cleaned_char after_return c =
     (if c = CHR 0x00 \<or> c = CHR 0x0A \<and> after_return then []
      else if c = CHR 0x0D then [CHR 0x0A] else [c])"

definition cleaned_at :: "string \<Rightarrow> nat \<Rightarrow> string" where
  "cleaned_at s i = cleaned_char (0 < i \<and> s ! (i - 1) = CHR 0x0D) (s ! i)"

lemma cleaned_Cons:
  "concat (map (\<lambda>i. cleaned_char (if i = 0 then b else (c # cs) ! (i - 1) = CHR 0x0D) ((c # cs) ! i)) [0..<Suc (length cs)])
     = cleaned_char b c
       @ concat (map (\<lambda>i. cleaned_char (if i = 0 then c = CHR 0x0D else cs ! (i - 1) = CHR 0x0D) (cs ! i)) [0..<length cs])"
  by (simp add: upt_conv_Cons map_Suc_upt [symmetric] comp_def nth_Cons' if_distrib [of "\<lambda>d. d = CHR 0x0D"] del: upt_Suc)

lemma cleaned_from:
  "concat (map (\<lambda>i. cleaned_char (if i = 0 then b else s ! (i - 1) = CHR 0x0D) (s ! i)) [0..<length s])
     = filter (\<lambda>c. c \<noteq> CHR 0x00) (unify_line_ends (if b \<and> s \<noteq> [] \<and> hd s = CHR 0x0A then tl s else s))"
proof (induction s arbitrary: b)
  case (Cons c cs)
  show ?case
    unfolding list.size add_0_right add_Suc_right cleaned_Cons Cons.IH
    by (auto simp: cleaned_char_def unify_line_ends_Cons)
qed simp

lemma cleaned_each:
  "filter (\<lambda>c. c \<noteq> CHR 0x00) (unify_line_ends s) = concat (map (cleaned_at s) [0..<length s])"
proof -
  have "(if i = 0 then False else s ! (i - 1) = CHR 0x0D) \<longleftrightarrow> 0 < i \<and> s ! (i - 1) = CHR 0x0D" for i by simp
  then show ?thesis using cleaned_from [of False s] by (simp only: cleaned_at_def [abs_def] simp_thms if_False)
qed

section \<open>The normalizer against its own validation\<close>

text \<open>
  What a successful run returns, written without the code's loops and checks: one page per parsed
  page, with one block of the cleaned text where there is any.
\<close>

definition normalized_page_of :: "(string \<Rightarrow> string) \<Rightarrow> parsed_document \<Rightarrow> parsed_page \<Rightarrow> normalized_page" where
  "normalized_page_of sha parsed page =
     \<lparr>page_number = parsed_page_number page,
      content = (if blank (fst (clean_text (parsed_text page))) then []
        else [\<lparr>block_id = deterministic_block_id sha (parsed_document_id parsed)
                 NORMALIZATION_VERSION (parsed_page_number page) 0,
               block_kind = Text, block_text = fst (clean_text (parsed_text page)),
               block_source = \<lparr>page_start = parsed_page_number page,
                 page_end = parsed_page_number page, section_id = None,
                 span_source_type = parsed_source_type parsed\<rparr>\<rparr>]),
      page_warnings = parsed_page_warnings page
        @ (if snd (clean_text (parsed_text page)) then [cleanup_warning] else []),
      requires_visual_processing = parsed_requires_visual page\<rparr>"

definition normalized_of :: "(string \<Rightarrow> string) \<Rightarrow> parsed_document \<Rightarrow> normalized_document" where
  "normalized_of sha parsed =
     \<lparr>normalized_document_id = parsed_document_id parsed,
      normalization_version = NORMALIZATION_VERSION,
      normalized_pages = map (normalized_page_of sha parsed) (parsed_pages parsed),
      normalized_warnings = parsed_warnings parsed\<rparr>"

definition page_has_content :: "parsed_page \<Rightarrow> bool" where
  "page_has_content page \<longleftrightarrow> \<not> blank (fst (clean_text (parsed_text page))) \<or> parsed_requires_visual page"

text \<open>The digest inputs of one document; the hypothesis about SHA-256 is that they do not collide.\<close>

definition block_preimages :: "parsed_document \<Rightarrow> string set" where
  "block_preimages parsed =
     (\<lambda>page. block_preimage (parsed_document_id parsed) NORMALIZATION_VERSION
               (parsed_page_number page) 0) ` set (parsed_pages parsed)"

lemma block_preimage_inj:
  "block_preimage d v p i = block_preimage d v q j \<longleftrightarrow> p = q \<and> i = j"
  by (auto simp: block_preimage_def be_bytes_u32_inj append_eq_append_conv)

lemma normalize_page_eq:
  "normalize_page sha parsed page =
     (if page_has_content page then Inr (normalized_page_of sha parsed page)
      else Inl (normalization_failure ''INVALID_PARSED_DOCUMENT''
             (''Page '' @ show_nat (unat (parsed_page_number page))
                @ '' has no content after safe cleanup but lacks visual routing'') False))"
  by (auto simp: normalize_page_def normalized_page_of_def page_has_content_def Let_def
      split: prod.split)

lemma validate_parsed_page_number:
  "validate_parsed_page i page = Inr () \<Longrightarrow> unat (parsed_page_number page) = i + 1"
  by (auto simp: validate_parsed_page_def res_simps u32_try_from_Some_iff)

lemma validated_page_numbers:
  assumes "validate_parsed_document parsed = Inr ()"
  shows "distinct (map parsed_page_number (parsed_pages parsed))"
proof -
  from assms have "unat (parsed_page_number (parsed_pages parsed ! i)) = i + 1"
    if "i < length (parsed_pages parsed)" for i
    using that validate_parsed_page_number by (auto simp: validate_parsed_document_def res_simps)
  then have "i = j" if "i < length (parsed_pages parsed)" "j < length (parsed_pages parsed)"
      "parsed_page_number (parsed_pages parsed ! i) = parsed_page_number (parsed_pages parsed ! j)" for i j
    using that by (metis add_right_cancel)
  then show ?thesis by (auto simp: distinct_conv_nth)
qed

lemma validate_parsed_Inl:
  "validate_parsed_document parsed = Inl e \<Longrightarrow> failure_code e = ''INVALID_PARSED_DOCUMENT''"
  by (auto simp: validate_parsed_document_def validate_parsed_page_def res_bind_Inl_iff res_simps
      normalization_failure_def dest!: res_each_Inl)

text \<open>One page of the normalizer's output passes, and adds its block identity to the set.\<close>

lemma validate_own_page:
  assumes "page_has_content page" "parsed_page_number page \<in> srcs"
    and "block_id ` set (content (normalized_page_of sha parsed page)) \<inter> ids = {}"
  shows "validate_normalized_page sha (normalized_of sha parsed) parsed srcs ids
           (normalized_page_of sha parsed page, page)
         = Inr (block_id ` set (content (normalized_page_of sha parsed page)) \<union> ids)"
  using assms
  by (auto simp: validate_normalized_page_def normalized_page_of_def normalized_of_def Let_def
      validate_normalized_block_def cleanup_warning_def ensure_def u32_try_from_def
      split: prod.split)

lemma normalized_blocks_disjoint:
  assumes inj: "inj_on sha (block_preimages parsed)"
    and "p \<in> set (parsed_pages parsed)" "q \<in> set (parsed_pages parsed)"
    and "parsed_page_number p \<noteq> parsed_page_number q"
  shows "block_id ` set (content (normalized_page_of sha parsed p))
         \<inter> block_id ` set (content (normalized_page_of sha parsed q)) = {}"
proof -
  let ?pre = "\<lambda>page. block_preimage (parsed_document_id parsed) NORMALIZATION_VERSION
    (parsed_page_number page) 0"
  have "?pre p \<in> block_preimages parsed" "?pre q \<in> block_preimages parsed"
    using assms(2,3) by (auto simp: block_preimages_def)
  then have "sha (?pre p) \<noteq> sha (?pre q)"
    using inj assms(4) by (auto simp: block_preimage_inj dest: inj_onD)
  then show ?thesis by (auto simp: normalized_page_of_def deterministic_block_id_def)
qed

lemma validate_own_pages:
  assumes inj: "inj_on sha (block_preimages parsed)"
    and ok: "validate_parsed_document parsed = Inr ()"
    and cont: "\<And>p. p \<in> set (parsed_pages parsed) \<Longrightarrow> page_has_content p"
  shows "\<exists>ids. res_fold (validate_normalized_page sha (normalized_of sha parsed) parsed
           (set (map parsed_page_number (parsed_pages parsed)))) {}
           (zip (normalized_pages (normalized_of sha parsed)) (parsed_pages parsed)) = Inr ids"
proof -
  let ?ids = "\<lambda>pp. block_id ` set (content (fst pp))"
  let ?xs = "zip (normalized_pages (normalized_of sha parsed)) (parsed_pages parsed)"
  have xs: "?xs = map (\<lambda>p. (normalized_page_of sha parsed p, p)) (parsed_pages parsed)"
    by (simp add: normalized_of_def zip_map1 zip_same_conv_map)
  let ?ids = "\<lambda>pps. \<Union> ((\<lambda>pp. block_id ` set (content (fst pp))) ` set pps)"
  have "\<exists>t. res_fold (validate_normalized_page sha (normalized_of sha parsed) parsed
           (set (map parsed_page_number (parsed_pages parsed)))) {} ?xs = Inr t \<and> t = ?ids ?xs"
  proof (rule res_fold_total [where P = "\<lambda>pps t. t = ?ids pps"])
    fix pps pp rest t
    assume split: "?xs = pps @ pp # rest" and t: "t = ?ids pps"
    from split xs have "map (\<lambda>p. (normalized_page_of sha parsed p, p)) (parsed_pages parsed)
        = pps @ pp # rest" by simp
    then obtain ps p ps' where ps: "parsed_pages parsed = ps @ p # ps'"
      "pps = map (\<lambda>p. (normalized_page_of sha parsed p, p)) ps"
      "pp = (normalized_page_of sha parsed p, p)"
      by (auto simp: map_eq_append_conv map_eq_Cons_conv)
    have neq: "parsed_page_number p \<noteq> parsed_page_number q" if "q \<in> set ps" for q
      using validated_page_numbers [OF ok] that ps(1) by auto
    have "block_id ` set (content (normalized_page_of sha parsed p))
        \<inter> block_id ` set (content (normalized_page_of sha parsed q)) = {}" if "q \<in> set ps" for q
      by (rule normalized_blocks_disjoint [OF inj _ _ neq]) (use that ps(1) in auto)
    moreover have t': "t = (\<Union>q \<in> set ps. block_id ` set (content (normalized_page_of sha parsed q)))"
      by (simp add: t ps(2))
    ultimately have "block_id ` set (content (normalized_page_of sha parsed p)) \<inter> t = {}"
      unfolding t' by blast
    then have "validate_normalized_page sha (normalized_of sha parsed) parsed
        (set (map parsed_page_number (parsed_pages parsed))) t pp
        = Inr (block_id ` set (content (normalized_page_of sha parsed p)) \<union> t)"
      unfolding ps(3) by (intro validate_own_page) (use ps(1) cont in auto)
    then show "\<exists>t'. validate_normalized_page sha (normalized_of sha parsed) parsed
        (set (map parsed_page_number (parsed_pages parsed))) t pp = Inr t' \<and> t' = ?ids (pps @ [pp])"
      using ps t by auto
  qed simp
  then show ?thesis by blast
qed

lemma NORMALIZATION_VERSION_not_blank [simp]: "\<not> blank NORMALIZATION_VERSION"
  by (simp add: NORMALIZATION_VERSION_def blank_ascii_Cons byte_def is_whitespace_def)

lemma validate_own_output:
  assumes "inj_on sha (block_preimages parsed)"
    and "validate_parsed_document parsed = Inr ()"
    and "\<And>p. p \<in> set (parsed_pages parsed) \<Longrightarrow> page_has_content p"
  shows "validate_normalized_document sha (normalized_of sha parsed) parsed NORMALIZATION_VERSION = Inr ()"
  using validate_own_pages [OF assms]
  by (auto simp: validate_normalized_document_def ensure_def normalized_of_def)

lemma normalize_pages_eq:
  "(\<forall>p \<in> set (parsed_pages parsed). page_has_content p) \<Longrightarrow>
     res_collect (normalize_page sha parsed) (parsed_pages parsed)
       = Inr (map (normalized_page_of sha parsed) (parsed_pages parsed))"
  by (rule res_collect_total) (simp add: normalize_page_eq)

lemma normalize_pages_Inl:
  "\<not> (\<forall>p \<in> set (parsed_pages parsed). page_has_content p) \<Longrightarrow>
     \<exists>e. res_collect (normalize_page sha parsed) (parsed_pages parsed) = Inl e
       \<and> failure_code e = ''INVALID_PARSED_DOCUMENT''"
proof -
  assume no: "\<not> (\<forall>p \<in> set (parsed_pages parsed). page_has_content p)"
  show ?thesis
  proof (cases "res_collect (normalize_page sha parsed) (parsed_pages parsed)")
    case (Inl e)
    then show ?thesis
      by (auto dest!: res_collect_Inl simp: normalize_page_eq normalization_failure_def split: if_splits)
  next
    case (Inr ys)
    then have "list_all2 (\<lambda>x y. normalize_page sha parsed x = Inr y) (parsed_pages parsed) ys"
      by (simp add: res_simps)
    then have "\<forall>p \<in> set (parsed_pages parsed). page_has_content p"
      by (induction rule: list_all2_induct) (auto simp: normalize_page_eq split: if_splits)
    with no show ?thesis by simp
  qed
qed

section \<open>Properties\<close>

text \<open>
  C9. Cleanup is determined character by character: a zero byte gives nothing, a line feed right after
  a carriage return gives nothing, a carriage return gives a line feed, and every other character
  gives itself, in order; a change is reported exactly when the text has a carriage return or a zero
  byte, which is exactly when the result differs. So no carriage return and no zero byte is left, the
  cleanup is idempotent, and it never lengthens a text.
\<close>

theorem clean_text_exact:
  "fst (clean_text s) = concat (map (cleaned_at s) [0..<length s])
   \<and> (snd (clean_text s) \<longleftrightarrow> CHR 0x0D \<in> set s \<or> CHR 0x00 \<in> set s)
   \<and> CHR 0x0D \<notin> set (fst (clean_text s)) \<and> CHR 0x00 \<notin> set (fst (clean_text s))
   \<and> clean_text (fst (clean_text s)) = (fst (clean_text s), False)
   \<and> length (fst (clean_text s)) \<le> length s
   \<and> (snd (clean_text s) \<longleftrightarrow> fst (clean_text s) \<noteq> s)"
proof -
  note clean = clean_text_clean [of s]
  have "length (fst (clean_text s)) \<le> length s"
    using le_trans [OF length_filter_le unify_line_ends_length] by (simp add: clean_text_spec)
  moreover have "snd (clean_text s) \<longleftrightarrow> fst (clean_text s) \<noteq> s"
  proof
    assume "snd (clean_text s)"
    then have "CHR 0x0D \<in> set s \<or> CHR 0x00 \<in> set s" by (simp add: clean_text_spec)
    with clean show "fst (clean_text s) \<noteq> s" by metis
  next
    assume "fst (clean_text s) \<noteq> s"
    then show "snd (clean_text s)" using clean_text_id [of s] by (auto simp: clean_text_spec)
  qed
  ultimately show ?thesis using clean by (simp add: clean_text_id cleaned_each clean_text_spec [of s])
qed

text \<open>
  C10. When the digests of one document's blocks do not collide, the normalizer succeeds on exactly
  the valid parsed documents whose pages have text left after cleanup or are marked for visual
  processing, and its result is the page-by-page cleaned document; every failure names the parsed
  input, so the output validation never rejects what the normalizer built.
\<close>

theorem normalize_exact:
  assumes "inj_on sha (block_preimages parsed)"
  shows "(normalize sha parsed = Inr n \<longleftrightarrow>
            validate_parsed_document parsed = Inr ()
            \<and> (\<forall>p \<in> set (parsed_pages parsed). page_has_content p)
            \<and> n = normalized_of sha parsed)
         \<and> (normalize sha parsed = Inl e \<longrightarrow> failure_code e = ''INVALID_PARSED_DOCUMENT'')"
proof (cases "validate_parsed_document parsed")
  case (Inl e')
  then show ?thesis by (auto simp: normalize_def dest: validate_parsed_Inl)
next
  case (Inr u)
  show ?thesis
  proof (cases "\<forall>p \<in> set (parsed_pages parsed). page_has_content p")
    case True
    have "normalize sha parsed = Inr (normalized_of sha parsed)"
      using validate_own_output [OF assms] Inr True
      by (simp add: normalize_def normalize_pages_eq Let_def normalized_of_def)
    with Inr True show ?thesis by auto
  next
    case False
    then obtain e' where "normalize sha parsed = Inl e'" "failure_code e' = ''INVALID_PARSED_DOCUMENT''"
      using normalize_pages_Inl [OF False, of sha] Inr by (auto simp: normalize_def)
    with Inr False show ?thesis by auto
  qed
qed

definition sample_parsed :: parsed_document where
  "sample_parsed = \<lparr>parsed_document_id = ''doc'', parser_id = ''pdf'', parser_version = ''1'',
     parsed_source_type = NativeText,
     parsed_pages = [\<lparr>parsed_page_number = 1, parsed_text = [CHR ''a'', CHR 0x0D, CHR ''b''],
       parsed_page_warnings = [], parsed_requires_visual = False\<rparr>],
     parsed_warnings = []\<rparr>"

lemma sample_parsed_valid:
  "validate_parsed_document sample_parsed = Inr ()
   \<and> (\<forall>p \<in> set (parsed_pages sample_parsed). page_has_content p)"
  by (simp add: sample_parsed_def validate_parsed_document_def res_simps validate_parsed_page_def
      blank_ascii_Cons byte_def is_whitespace_def ensure_def u32_try_from_def page_has_content_def
      clean_text_spec)

lemma normalize_exact_witness:
  "inj_on (\<lambda>s. s) (block_preimages sample_parsed)
   \<and> normalize (\<lambda>s. s) sample_parsed = Inr (normalized_of (\<lambda>s. s) sample_parsed)"
  using normalize_exact [of "\<lambda>s. s" sample_parsed "normalized_of (\<lambda>s. s) sample_parsed"]
    sample_parsed_valid
  by simp

end
