(* ===== verification/Doc_Structure.thy ===== *)
theory Doc_Structure
  imports Contracts
begin

text \<open>
  \<open>pipeline/structure.rs\<close>: numbered headings are recognised in the normalized blocks, a tree of
  sections is built in an arena of draft nodes, materialized and validated. Arguments stand for code
  that is not in the repository: \<open>sha\<close> for the SHA-256 digest in hexadecimal, \<open>is_uppercase\<close> for
  the Unicode property behind \<open>char::is_uppercase\<close>.
\<close>

section \<open>The model\<close>

definition STRUCTURE_VERSION :: string where
  "STRUCTURE_VERSION = ''1.0.0''"

definition MAX_HEADING_DEPTH :: nat where "MAX_HEADING_DEPTH = 6"
definition MAX_HEADING_LINE_CHARS :: nat where "MAX_HEADING_LINE_CHARS = 120"
definition MAX_HEADING_TITLE_WORDS :: nat where "MAX_HEADING_TITLE_WORDS = 12"
definition MAX_HEADING_COMPONENT :: nat where "MAX_HEADING_COMPONENT = 999"

text \<open>An index out of range panics, and a recursion that does not end exhausts the stack.\<close>

datatype stage_error = Panic | Failure pipeline_failure

definition structure_failure :: "string \<Rightarrow> string \<Rightarrow> bool \<Rightarrow> pipeline_failure" where
  "structure_failure code msg rec =
     \<lparr>failure_code = code, failure_message = msg, failure_stage = Some Structure, recoverable = rec\<rparr>"

definition invalid_structured :: "string \<Rightarrow> pipeline_failure" where
  "invalid_structured msg = structure_failure ''INVALID_STRUCTURED_DOCUMENT'' msg False"

record heading_signal =
  numbering :: "u32 list"
  title :: "string option"

record active_heading =
  active_numbering :: "u32 list"
  active_node_id :: nat

record draft_node =
  draft_kind :: structure_node_kind
  draft_title :: "string option"
  draft_level :: u32
  draft_block_ids :: "string list"
  draft_source_spans :: "source_span list"
  draft_children :: "nat list"

definition draft_document :: draft_node where
  "draft_document = \<lparr>draft_kind = Document, draft_title = None, draft_level = 0,
     draft_block_ids = [], draft_source_spans = [], draft_children = []\<rparr>"

definition with_block ::
  "structure_node_kind \<Rightarrow> string option \<Rightarrow> u32 \<Rightarrow> normalized_block \<Rightarrow> draft_node" where
  "with_block kind ttl level block = \<lparr>draft_kind = kind, draft_title = ttl, draft_level = level,
     draft_block_ids = [block_id block], draft_source_spans = [block_source block],
     draft_children = []\<rparr>"

definition push_block :: "draft_node \<Rightarrow> normalized_block \<Rightarrow> draft_node" where
  "push_block d block = d\<lparr>draft_block_ids := draft_block_ids d @ [block_id block],
     draft_source_spans := draft_source_spans d @ [block_source block]\<rparr>"

text \<open>\<open>Iterator::rposition\<close>.\<close>

definition rposition :: "('a \<Rightarrow> bool) \<Rightarrow> 'a list \<Rightarrow> nat option" where
  "rposition P xs =
     (let js = filter (\<lambda>i. P (xs ! i)) [0..<length xs] in if js = [] then None else Some (last js))"

definition heading_parent ::
  "u32 list \<Rightarrow> active_heading list \<Rightarrow> u32 list set \<Rightarrow> (nat \<times> nat) option" where
  "heading_parent num active seen =
     (if num = [] \<or> length num > MAX_HEADING_DEPTH \<or> num \<in> seen then None
      else if length num = 1 then Some (0, 0)
      else let parent_numbering = butlast num
           in map_option (\<lambda>position. (active_node_id (active ! position), position + 1))
                (rposition (\<lambda>h. active_numbering h = parent_numbering) active))"

definition append_content_block ::
  "draft_node list \<Rightarrow> active_heading list \<Rightarrow> normalized_block \<Rightarrow> stage_error + draft_node list" where
  "append_content_block arena stack block =
     (if stack \<noteq> []
      then let i = active_node_id (last stack)
           in if i < length arena then Inr (arena[i := push_block (arena ! i) block]) else Inl Panic
      else if arena = [] then Inl Panic
      else let cs = draft_children (arena ! 0)
           in if cs = []
              then Inr (arena[0 := (arena ! 0)\<lparr>draft_children := cs @ [length arena]\<rparr>]
                     @ [with_block Unstructured None 1 block])
              else if last cs \<ge> length arena then Inl Panic
              else if draft_kind (arena ! last cs) = Unstructured
              then Inr (arena[last cs := push_block (arena ! last cs) block])
              else Inr (arena[0 := (arena ! 0)\<lparr>draft_children := cs @ [length arena]\<rparr>]
                     @ [with_block Unstructured None 1 block]))"

subsection \<open>Heading recognition\<close>

fun parse_digits :: "nat \<Rightarrow> string \<Rightarrow> nat" where
  "parse_digits acc [] = acc"
| "parse_digits acc (d # ds) = parse_digits (10 * acc + (byte d - 48)) ds"

text \<open>\<open>skip_ascii_whitespace\<close>; a cursor into the line is the rest of the line from that cursor.\<close>

definition skip_ascii_whitespace :: "string \<Rightarrow> string" where
  "skip_ascii_whitespace rest = dropWhile is_ascii_whitespace rest"

function scan_numbering :: "u32 list \<Rightarrow> string \<Rightarrow> (u32 list \<times> string) option" where
  "scan_numbering num rest =
     (let digits = takeWhile is_ascii_digit rest; after = dropWhile is_ascii_digit rest in
      if digits = [] then None
      else case u32_try_from (parse_digits 0 digits) of
        None \<Rightarrow> None
      | Some component \<Rightarrow>
          if component = 0 \<or> unat component > MAX_HEADING_COMPONENT then None
          else let num' = num @ [component] in
            if length num' > MAX_HEADING_DEPTH then None
            else if after = [] then Some (num', [])
            else if hd after = CHR ''.'' \<and> tl after \<noteq> [] \<and> is_ascii_digit (hd (tl after))
            then scan_numbering num' (tl after)
            else if hd after = CHR ''.'' then Some (num', skip_ascii_whitespace (tl after))
            else if hd after = CHR '')'' \<and> length num' = 1
            then Some (num', skip_ascii_whitespace (tl after))
            else if is_ascii_whitespace (hd after) then Some (num', skip_ascii_whitespace after)
            else None)"
  by pat_completeness auto
termination
proof (relation "measure (\<lambda>(num, rest). length rest)", goal_cases)
  case (2 num rest digits after component num')
  then have "after \<noteq> []" and "length after \<le> length rest"
    using length_dropWhile_le by auto
  then show ?case by (cases after) auto
qed simp

declare scan_numbering.simps [simp del]

definition is_conservative_heading_title :: "(nat \<Rightarrow> bool) \<Rightarrow> string \<Rightarrow> bool" where
  "is_conservative_heading_title is_uppercase ttl =
     (case utf8_chars ttl of
        [] \<Rightarrow> False
      | first # _ \<Rightarrow>
          is_uppercase (fst first)
          \<and> word_count False (map fst (utf8_chars ttl)) \<le> MAX_HEADING_TITLE_WORDS
          \<and> snd (last (utf8_chars ttl)) \<notin> {''.'', ''!'', ''?'', '';''})"

definition detect_numbered_heading :: "(nat \<Rightarrow> bool) \<Rightarrow> string \<Rightarrow> heading_signal option" where
  "detect_numbered_heading is_uppercase text =
     (case find (\<lambda>line. \<not> blank line) (lines text) of
        None \<Rightarrow> None
      | Some raw \<Rightarrow>
          let line = trim raw in
          if char_count line > MAX_HEADING_LINE_CHARS then None
          else case scan_numbering [] line of
            None \<Rightarrow> None
          | Some (num, rest) \<Rightarrow>
              let ttl = trim rest in
              if ttl = [] then Some \<lparr>numbering = num, title = None\<rparr>
              else if \<not> is_conservative_heading_title is_uppercase ttl then None
              else Some \<lparr>numbering = num, title = Some ttl\<rparr>)"

subsection \<open>The tree\<close>

fun node_kind_tag :: "structure_node_kind \<Rightarrow> string" where
  "node_kind_tag Document = ''document''"
| "node_kind_tag Section = ''section''"
| "node_kind_tag Subsection = ''subsection''"
| "node_kind_tag Unstructured = ''unstructured''"

definition node_preimage ::
  "string \<Rightarrow> string \<Rightarrow> u32 list \<Rightarrow> structure_node_kind \<Rightarrow> string option \<Rightarrow> u32 \<Rightarrow> string list \<Rightarrow> string" where
  "node_preimage doc_id version path kind ttl level ids =
     ''structure-node'' @ [CHR 0x00] @ doc_id @ [CHR 0x00] @ version @ [CHR 0x00]
       @ node_kind_tag kind @ be_bytes_u32 level @ concat (map be_bytes_u32 path) @ [CHR 0x00]
       @ (case ttl of None \<Rightarrow> [] | Some t \<Rightarrow> t)
       @ concat (map (\<lambda>b. CHR 0x00 # b) ids)"

definition deterministic_node_id ::
  "(string \<Rightarrow> string) \<Rightarrow> string \<Rightarrow> string \<Rightarrow> u32 list \<Rightarrow> structure_node_kind \<Rightarrow> string option \<Rightarrow> u32
   \<Rightarrow> string list \<Rightarrow> string" where
  "deterministic_node_id sha doc_id version path kind ttl level ids =
     ''sn-'' @ sha (node_preimage doc_id version path kind ttl level ids)"

text \<open>\<open>u32::try_from(child_index).unwrap_or(u32::MAX)\<close>\<close>

definition path_component :: "nat \<Rightarrow> u32" where
  "path_component i = (case u32_try_from i of Some w \<Rightarrow> w | None \<Rightarrow> - 1)"

text \<open>
  \<open>materialize_node\<close> recurses over child indices. The fuel bounds the depth of that recursion:
  \<open>None\<close> stands for an index out of range or a recursion that would not end.
\<close>

fun materialize_node ::
  "nat \<Rightarrow> (string \<Rightarrow> string) \<Rightarrow> draft_node list \<Rightarrow> nat \<Rightarrow> u32 list \<Rightarrow> string \<Rightarrow> string
   \<Rightarrow> structure_node option" where
  "materialize_node 0 sha arena i path doc_id version = None"
| "materialize_node (Suc fuel) sha arena i path doc_id version =
     (if i < length arena
      then let draft = arena ! i in
        map_option
          (\<lambda>children. StructureNode
             (deterministic_node_id sha doc_id version path (draft_kind draft) (draft_title draft)
                (draft_level draft) (draft_block_ids draft))
             (draft_kind draft) (draft_title draft) (draft_level draft) (draft_block_ids draft)
             (draft_source_spans draft) children)
          (those (map (\<lambda>(k, child).
             materialize_node fuel sha arena child (path @ [path_component k]) doc_id version)
             (enumerate 0 (draft_children draft))))
      else None)"

subsection \<open>Validation of the input\<close>

definition validate_input_block ::
  "normalized_page \<Rightarrow> string set \<Rightarrow> normalized_block \<Rightarrow> pipeline_failure + string set" where
  "validate_input_block page ids block =
     res_bind (ensure (\<not> (blank (block_id block) \<or> block_id block \<in> ids \<or> blank (block_text block)
         \<or> page_start (block_source block) \<noteq> page_number page
         \<or> page_end (block_source block) \<noteq> page_number page))
       (structure_failure ''INVALID_NORMALIZED_DOCUMENT''
          (''Normalized block on page '' @ show_nat (unat (page_number page))
             @ '' has invalid identity, text, or provenance'') False))
       (\<lambda>_. Inr (insert (block_id block) ids))"

definition validate_input_page ::
  "nat \<times> string set \<Rightarrow> normalized_page \<Rightarrow> pipeline_failure + nat \<times> string set" where
  "validate_input_page st page =
     (let (page_index, ids) = st in
      res_bind (ok_or (u32_try_from (page_index + 1))
        (structure_failure ''INVALID_NORMALIZED_DOCUMENT''
           ''Normalized page count exceeds the supported range'' False)) (\<lambda>expected.
      res_bind (ensure (page_number page = expected)
        (structure_failure ''INVALID_NORMALIZED_DOCUMENT''
           ''Normalized pages are not in canonical one-based order'' False)) (\<lambda>_.
      res_bind (ensure (\<not> (content page = []
          \<and> (\<not> requires_visual_processing page
             \<or> \<not> list_ex (\<lambda>w. warning_code w = ''NO_NATIVE_TEXT'') (page_warnings page))))
        (structure_failure ''INVALID_NORMALIZED_DOCUMENT''
           (''Empty normalized page '' @ show_nat (unat (page_number page))
              @ '' lacks visual-routing metadata'') False)) (\<lambda>_.
      res_bind (res_fold (validate_input_block page) ids (content page))
        (\<lambda>ids'. Inr (page_index + 1, ids'))))))"

definition validate_normalized_input :: "normalized_document \<Rightarrow> pipeline_failure + unit" where
  "validate_normalized_input normalized =
     res_bind (ensure (\<not> (blank (normalized_document_id normalized)
                          \<or> blank (normalization_version normalized)))
       (structure_failure ''INVALID_NORMALIZED_DOCUMENT''
          ''Normalized document identity and version must be present'' False)) (\<lambda>_.
     res_bind (res_fold validate_input_page (0, {}) (normalized_pages normalized)) (\<lambda>_. Inr ()))"

subsection \<open>Validation of the tree\<close>

definition validate_node_shape :: "structure_node \<Rightarrow> structure_node option \<Rightarrow> pipeline_failure + unit" where
  "validate_node_shape node parent =
     ensure
       (case (node_kind node, parent) of
          (Document, None) \<Rightarrow>
            node_level node = 0 \<and> node_title node = None \<and> node_block_ids node = []
            \<and> node_source_spans node = []
        | (Section, Some p) \<Rightarrow>
            node_kind p = Document \<and> node_level node = 1 \<and> node_block_ids node \<noteq> []
        | (Subsection, Some p) \<Rightarrow>
            node_kind p \<in> {Section, Subsection}
            \<and> checked_add_u32 (node_level p) 1 = Some (node_level node)
            \<and> unat (node_level node) \<le> MAX_HEADING_DEPTH \<and> node_block_ids node \<noteq> []
        | (Unstructured, Some p) \<Rightarrow>
            node_kind p = Document \<and> node_level node = 1 \<and> node_title node = None
            \<and> node_block_ids node \<noteq> []
        | _ \<Rightarrow> False)
       (invalid_structured ''Structure node kind, level, ownership, or parent relationship is invalid'')"

definition heading_signal_for_node ::
  "(nat \<Rightarrow> bool) \<Rightarrow> (string \<rightharpoonup> normalized_block) \<Rightarrow> structure_node \<Rightarrow> pipeline_failure + heading_signal" where
  "heading_signal_for_node is_uppercase block_lookup node =
     (case node_block_ids node of
        [] \<Rightarrow> Inl (invalid_structured ''Structured heading has no source block'')
      | first # _ \<Rightarrow>
          res_bind (ok_or (block_lookup first)
            (invalid_structured ''Structured heading references a foreign block'')) (\<lambda>block.
          ok_or (detect_numbered_heading is_uppercase (block_text block))
            (invalid_structured ''Structured heading lacks a valid source signal'')))"

definition validate_heading_source ::
  "(nat \<Rightarrow> bool) \<Rightarrow> (string \<rightharpoonup> normalized_block) \<Rightarrow> structure_node \<Rightarrow> structure_node option
   \<Rightarrow> u32 list set \<Rightarrow> pipeline_failure + u32 list set" where
  "validate_heading_source is_uppercase block_lookup node parent nums =
     (if node_kind node \<notin> {Section, Subsection} then Inr nums
      else res_bind (heading_signal_for_node is_uppercase block_lookup node) (\<lambda>signal.
        res_bind (ensure (\<not> (u32_try_from (length (numbering signal)) \<noteq> Some (node_level node)
            \<or> title signal \<noteq> node_title node \<or> numbering signal \<in> nums))
          (invalid_structured
            ''Structure heading title, level, or numbering does not match its source block'')) (\<lambda>_.
        if node_kind node = Subsection
        then res_bind (ok_or parent
               (invalid_structured ''Structured subsection is missing its heading parent'')) (\<lambda>p.
             res_bind (heading_signal_for_node is_uppercase block_lookup p) (\<lambda>parent_signal.
             res_bind (ensure (butlast (numbering signal) = numbering parent_signal)
               (invalid_structured
                 ''Structured subsection numbering does not match its parent prefix'')) (\<lambda>_.
             Inr (insert (numbering signal) nums))))
        else Inr (insert (numbering signal) nums))))"

definition validate_node_block ::
  "(string \<rightharpoonup> normalized_block) \<Rightarrow> string list \<Rightarrow> string \<times> source_span \<Rightarrow> pipeline_failure + string list" where
  "validate_node_block block_lookup refs entry =
     res_bind (ok_or (block_lookup (fst entry))
       (invalid_structured ''Structure node references a block outside the normalized document'')) (\<lambda>b.
     res_bind (ensure (snd entry = block_source b)
       (invalid_structured ''Structure node source span does not match its normalized block'')) (\<lambda>_.
     Inr (refs @ [fst entry])))"

text \<open>The three sets and lists the recursion threads: referenced blocks, node ids, numberings.\<close>

type_synonym validation_state = "string list \<times> string set \<times> u32 list set"

definition enter_node ::
  "(string \<Rightarrow> string) \<Rightarrow> (nat \<Rightarrow> bool) \<Rightarrow> string \<Rightarrow> string \<Rightarrow> (string \<rightharpoonup> normalized_block)
   \<Rightarrow> structure_node \<Rightarrow> structure_node option \<Rightarrow> u32 list \<Rightarrow> validation_state
   \<Rightarrow> pipeline_failure + validation_state" where
  "enter_node sha is_uppercase doc_id version block_lookup node parent path st =
     (let (refs, ids, nums) = st in
      res_bind (validate_node_shape node parent) (\<lambda>_.
      res_bind (validate_heading_source is_uppercase block_lookup node parent nums) (\<lambda>nums'.
      res_bind (ensure (length (node_block_ids node) = length (node_source_spans node))
        (invalid_structured ''Structure node block and provenance counts differ'')) (\<lambda>_.
      res_bind (ensure (\<not> (node_id node \<noteq> deterministic_node_id sha doc_id version path
            (node_kind node) (node_title node) (node_level node) (node_block_ids node)
          \<or> node_id node \<in> ids))
        (invalid_structured ''Structure node identity is invalid or duplicated'')) (\<lambda>_.
      res_bind (res_fold (validate_node_block block_lookup) refs
                  (zip (node_block_ids node) (node_source_spans node))) (\<lambda>refs'.
      Inr (refs', insert (node_id node) ids, nums')))))))"

fun validate_node ::
  "(string \<Rightarrow> string) \<Rightarrow> (nat \<Rightarrow> bool) \<Rightarrow> string \<Rightarrow> string \<Rightarrow> (string \<rightharpoonup> normalized_block)
   \<Rightarrow> structure_node \<Rightarrow> structure_node option \<Rightarrow> u32 list \<Rightarrow> validation_state
   \<Rightarrow> pipeline_failure + validation_state"
  and validate_children ::
  "(string \<Rightarrow> string) \<Rightarrow> (nat \<Rightarrow> bool) \<Rightarrow> string \<Rightarrow> string \<Rightarrow> (string \<rightharpoonup> normalized_block)
   \<Rightarrow> structure_node \<Rightarrow> u32 list \<Rightarrow> nat \<Rightarrow> structure_node list \<Rightarrow> validation_state
   \<Rightarrow> pipeline_failure + validation_state" where
  "validate_node sha up d v lk (StructureNode i k t l bs sp cs) parent path st =
     res_bind (enter_node sha up d v lk (StructureNode i k t l bs sp cs) parent path st) (\<lambda>st'.
     validate_children sha up d v lk (StructureNode i k t l bs sp cs) path 0 cs st')"
| "validate_children sha up d v lk node path child_index [] st = Inr st"
| "validate_children sha up d v lk node path child_index (child # cs) st =
     res_bind (ok_or (u32_try_from child_index)
       (invalid_structured ''Structure node fan-out exceeds the supported range'')) (\<lambda>index.
     res_bind (validate_node sha up d v lk child (Some node) (path @ [index]) st) (\<lambda>st'.
     validate_children sha up d v lk node path (child_index + 1) cs st'))"

definition all_blocks :: "normalized_document \<Rightarrow> normalized_block list" where
  "all_blocks normalized = concat (map content (normalized_pages normalized))"

definition block_lookup_of :: "normalized_document \<Rightarrow> string \<rightharpoonup> normalized_block" where
  "block_lookup_of normalized = map_of (rev (map (\<lambda>b. (block_id b, b)) (all_blocks normalized)))"

definition structure_page_of :: "normalized_page \<Rightarrow> structure_page" where
  "structure_page_of page = \<lparr>structure_page_number = page_number page,
     structure_page_warnings = page_warnings page,
     structure_requires_visual = requires_visual_processing page\<rparr>"

definition validate_structured_document ::
  "(string \<Rightarrow> string) \<Rightarrow> (nat \<Rightarrow> bool) \<Rightarrow> structured_document \<Rightarrow> normalized_document \<Rightarrow> string
   \<Rightarrow> pipeline_failure + unit" where
  "validate_structured_document sha is_uppercase structured normalized expected_version =
     res_bind (validate_normalized_input normalized) (\<lambda>_.
     res_bind (ensure (structured_document_id structured = normalized_document_id normalized)
       (invalid_structured ''Structured document identity does not match normalized input'')) (\<lambda>_.
     res_bind (ensure (\<not> (blank (structure_version structured)
                          \<or> structure_version structured \<noteq> expected_version))
       (invalid_structured ''Structure version is missing or does not match the interpreter'')) (\<lambda>_.
     res_bind (ensure (structured_warnings structured = normalized_warnings normalized)
       (invalid_structured ''Structured output did not preserve document warnings'')) (\<lambda>_.
     res_bind (ensure (\<not> (length (structured_pages structured) \<noteq> length (normalized_pages normalized)
         \<or> \<not> list_all (\<lambda>(s, n). structure_page_number s = page_number n
               \<and> structure_page_warnings s = page_warnings n
               \<and> structure_requires_visual s = requires_visual_processing n)
             (zip (structured_pages structured) (normalized_pages normalized))))
       (invalid_structured
         ''Structured output did not preserve page order, warnings, or visual routing'')) (\<lambda>_.
     case structured_nodes structured of
       [root] \<Rightarrow>
         res_bind (validate_node sha is_uppercase (structured_document_id structured)
                     (structure_version structured) (block_lookup_of normalized) root None [0]
                     ([], {}, {})) (\<lambda>(refs, _, _).
         ensure (refs = map block_id (all_blocks normalized))
           (invalid_structured
             ''Structured block coverage is incomplete, duplicated, foreign, or out of order''))
     | _ \<Rightarrow> Inl (invalid_structured ''Structured output must contain exactly one document root''))))))"

subsection \<open>The interpreter\<close>

type_synonym structure_state = "draft_node list \<times> active_heading list \<times> u32 list set"

definition place_heading ::
  "heading_signal \<Rightarrow> nat \<Rightarrow> nat \<Rightarrow> structure_state \<Rightarrow> normalized_block \<Rightarrow> stage_error + structure_state" where
  "place_heading heading parent_id retained st block =
     (let (arena, stack, seen) = st; stack' = take retained stack in
      res_bind (map_err Failure (ok_or (u32_try_from (length (numbering heading)))
        (structure_failure ''INVALID_NORMALIZED_DOCUMENT''
           ''Heading depth exceeds the supported structural range'' False))) (\<lambda>level.
      let kind = (if level = 1 then Section else Subsection);
          id = length arena;
          arena' = arena @ [with_block kind (title heading) level block]
      in if parent_id < length arena'
         then Inr (arena'[parent_id := (arena' ! parent_id)
                     \<lparr>draft_children := draft_children (arena' ! parent_id) @ [id]\<rparr>],
                   stack' @ [\<lparr>active_numbering = numbering heading, active_node_id = id\<rparr>],
                   insert (numbering heading) seen)
         else Inl Panic))"

definition place_block ::
  "(nat \<Rightarrow> bool) \<Rightarrow> structure_state \<Rightarrow> normalized_block \<Rightarrow> stage_error + structure_state" where
  "place_block is_uppercase st block =
     (let (arena, stack, seen) = st;
          signal = detect_numbered_heading is_uppercase (block_text block);
          placement = Option.bind signal (\<lambda>h. heading_parent (numbering h) stack seen)
      in case (signal, placement) of
        (Some heading, Some (parent_id, retained)) \<Rightarrow> place_heading heading parent_id retained st block
      | _ \<Rightarrow> res_bind (append_content_block arena stack block) (\<lambda>arena'. Inr (arena', stack, seen)))"

definition build_arena ::
  "(nat \<Rightarrow> bool) \<Rightarrow> normalized_document \<Rightarrow> stage_error + structure_state" where
  "build_arena is_uppercase normalized =
     res_fold (\<lambda>st page. res_fold (place_block is_uppercase) st (content page))
       ([draft_document], [], {}) (normalized_pages normalized)"

definition build_tree ::
  "(string \<Rightarrow> string) \<Rightarrow> (nat \<Rightarrow> bool) \<Rightarrow> normalized_document \<Rightarrow> stage_error + structure_node" where
  "build_tree sha is_uppercase normalized =
     res_bind (build_arena is_uppercase normalized) (\<lambda>(arena, _, _).
     ok_or (materialize_node (length arena) sha arena 0 [0] (normalized_document_id normalized)
              STRUCTURE_VERSION) Panic)"

definition interpret_structure ::
  "(string \<Rightarrow> string) \<Rightarrow> (nat \<Rightarrow> bool) \<Rightarrow> normalized_document \<Rightarrow> stage_error + structured_document" where
  "interpret_structure sha is_uppercase normalized =
     res_bind (map_err Failure (validate_normalized_input normalized)) (\<lambda>_.
     res_bind (build_tree sha is_uppercase normalized) (\<lambda>root.
     let structured = \<lparr>structured_document_id = normalized_document_id normalized,
           structure_version = STRUCTURE_VERSION,
           structured_pages = map structure_page_of (normalized_pages normalized),
           structured_nodes = [root], structured_warnings = normalized_warnings normalized\<rparr>
     in res_bind (map_err Failure
          (validate_structured_document sha is_uppercase structured normalized STRUCTURE_VERSION))
        (\<lambda>_. Inr structured)))"

end
