(* ===== verification/Structure_Tree.thy ===== *)
theory Structure_Tree
  imports Doc_Structure
begin

text \<open>
  Lemmas on \<open>pipeline/structure.rs\<close>, part one: what the heading scanner and the parent search
  return, and what the recursive tree validator accepts. The validator's recursion is unfolded to
  one pass over the nodes in document order (\<open>visits\<close>), each with its parent and its path, and then
  to a declarative reading (\<open>tree_valid\<close>).
\<close>

section \<open>The heading scanner and the parent search\<close>

definition component_ok :: "u32 \<Rightarrow> bool" where
  "component_ok c \<longleftrightarrow> 1 \<le> unat c \<and> unat c \<le> MAX_HEADING_COMPONENT"

lemma scan_numbering_step:
  assumes "scan_numbering num rest = Some (num', rest')"
  shows "\<exists>c. component_ok c \<and> length (num @ [c]) \<le> MAX_HEADING_DEPTH
     \<and> (num' = num @ [c]
        \<or> (\<exists>rest2. length rest2 < length rest \<and> scan_numbering (num @ [c]) rest2 = Some (num', rest')))"
proof -
  define digits where "digits = takeWhile is_ascii_digit rest"
  define after where "after = dropWhile is_ascii_digit rest"
  have "length after \<le> length rest" by (simp add: after_def length_dropWhile_le)
  then have len: "tl after \<noteq> [] \<longrightarrow> length (tl after) < length rest" by (cases after) auto
  note eq = assms [unfolded scan_numbering.simps [of num rest] Let_def, folded digits_def after_def]
  have digits: "digits \<noteq> []" by (rule notI) (use eq in simp)
  obtain c where c: "u32_try_from (parse_digits 0 digits) = Some c"
    using eq digits by (cases "u32_try_from (parse_digits 0 digits)") auto
  have ok: "\<not> (c = 0 \<or> unat c > MAX_HEADING_COMPONENT)" by (rule notI) (use eq digits c in auto)
  then have "component_ok c" by (auto simp: component_ok_def unat_gt_0 Suc_le_eq)
  moreover have "\<not> length (num @ [c]) > MAX_HEADING_DEPTH" by (rule notI) (use eq digits c ok in simp)
  ultimately show ?thesis using eq digits c ok len by (auto split: if_splits)
qed

lemma scan_numbering_bounds:
  "scan_numbering num rest = Some (num', rest') \<Longrightarrow>
     \<exists>ext. num' = num @ ext \<and> ext \<noteq> [] \<and> length num' \<le> MAX_HEADING_DEPTH \<and> list_all component_ok ext"
proof (induction "length rest" arbitrary: num rest rule: less_induct)
  case less
  from scan_numbering_step [OF less.prems] obtain c where c: "component_ok c"
    and len: "length (num @ [c]) \<le> MAX_HEADING_DEPTH"
    and cont: "num' = num @ [c]
      \<or> (\<exists>rest2. length rest2 < length rest \<and> scan_numbering (num @ [c]) rest2 = Some (num', rest'))"
    by blast
  from cont show ?case
  proof
    assume "num' = num @ [c]"
    with c len show ?thesis by auto
  next
    assume "\<exists>rest2. length rest2 < length rest \<and> scan_numbering (num @ [c]) rest2 = Some (num', rest')"
    with less.hyps [of _ "num @ [c]"] c show ?thesis by fastforce
  qed
qed

lemma detect_numbered_heading_bounds:
  assumes "detect_numbered_heading up text = Some s"
  shows "numbering s \<noteq> []" and "length (numbering s) \<le> MAX_HEADING_DEPTH"
    and "list_all component_ok (numbering s)"
proof -
  from assms obtain line rest where "scan_numbering [] line = Some (numbering s, rest)"
    by (auto simp: detect_numbered_heading_def Let_def split: option.splits if_splits prod.splits)
  from scan_numbering_bounds [OF this] show "numbering s \<noteq> []"
    "length (numbering s) \<le> MAX_HEADING_DEPTH" "list_all component_ok (numbering s)" by auto
qed

lemma rposition_Some:
  "rposition P xs = Some i \<Longrightarrow> i < length xs \<and> P (xs ! i)"
proof -
  assume a: "rposition P xs = Some i"
  let ?js = "filter (\<lambda>i. P (xs ! i)) [0..<length xs]"
  have "?js \<noteq> []" "i = last ?js" using a by (auto simp: rposition_def Let_def split: if_splits)
  then have "i \<in> set ?js" using last_in_set by blast
  then show ?thesis by simp
qed

text \<open>
  The parent of an accepted heading: the document for a numbering of one component, otherwise the
  active heading whose numbering is the prefix; \<open>retained\<close> is the depth the stack is cut to.
\<close>

lemma heading_parent_Some:
  assumes "heading_parent num active seen = Some (parent, retained)"
  shows "num \<notin> seen" and "length num \<le> MAX_HEADING_DEPTH"
    and "retained = 0 \<and> length num = 1 \<and> parent = 0
         \<or> (\<exists>k. retained = Suc k \<and> k < length active \<and> parent = active_node_id (active ! k)
              \<and> active_numbering (active ! k) = butlast num \<and> length num > 1)"
  using assms
  by (auto simp: heading_parent_def Let_def split: if_splits dest!: rposition_Some)
    (metis Suc_lessI length_greater_0_conv)+

section \<open>The nodes in document order\<close>

function visits ::
  "structure_node option \<Rightarrow> u32 list \<Rightarrow> structure_node
   \<Rightarrow> (structure_node \<times> structure_node option \<times> u32 list) list" where
  "visits parent path node =
     (node, parent, path)
       # concat (map (\<lambda>(k, c). visits (Some node) (path @ [path_component k]) c)
                  (enumerate 0 (node_children node)))"
  by pat_completeness auto
termination
proof (relation "measure (\<lambda>(_, _, n). size n)", goal_cases)
  case 1
  show ?case by simp
next
  case (2 parent path node kc k c)
  then have "c \<in> set (node_children node)"
    by (auto simp: in_set_enumerate_eq)
  then show ?case
    by (cases node) (auto dest: size_list_estimation' [where y = "size c" and f = size, OF _ order.refl])
qed

declare visits.simps [simp del]

fun preorder :: "structure_node \<Rightarrow> structure_node list" where
  "preorder (StructureNode i k t l bs sp cs) = StructureNode i k t l bs sp cs # concat (map preorder cs)"

lemma map_fst_visits: "map fst (visits parent path t) = preorder t"
proof (induction parent path t rule: visits.induct)
  case (1 parent path node)
  have "map fst (concat (map (\<lambda>(k, c). visits (Some node) (path @ [path_component k]) c) kcs))
      = concat (map preorder (map snd kcs))"
    if "set kcs \<subseteq> set (enumerate 0 (node_children node))" for kcs
    using that
  proof (induction kcs)
    case (Cons kc kcs)
    then show ?case using "1.IH" [of kc "fst kc" "snd kc"] by (cases kc) simp
  qed simp
  from this [of "enumerate 0 (node_children node)"] show ?case
    by (subst visits.simps) (cases node, simp)
qed

definition nodes_of :: "structure_node \<Rightarrow> structure_node list" where
  "nodes_of t = map fst (visits None [0] t)"

lemma nodes_of_preorder: "nodes_of t = preorder t"
  by (simp add: nodes_of_def map_fst_visits)

text \<open>The block ids the tree owns, in document order.\<close>

definition owned_blocks :: "structure_node \<Rightarrow> string list" where
  "owned_blocks t = concat (map node_block_ids (nodes_of t))"

definition fan_out_ok :: "structure_node \<Rightarrow> bool" where
  "fan_out_ok n \<longleftrightarrow> length (node_children n) \<le> 2 ^ 32"

lemma length_concat_enumerate_rel:
  assumes "length xs = length ys"
    and "\<And>k. k < length xs \<Longrightarrow> list_all2 P (f (xs ! k)) (g (m + k) (ys ! k))"
  shows "list_all2 P (concat (map f xs)) (concat (map (\<lambda>(k, c). g k c) (enumerate m ys)))"
  using assms
proof (induction xs ys arbitrary: m rule: list_induct2)
  case Nil
  then show ?case by simp
next
  case (Cons x xs y ys)
  have "list_all2 P (f x) (g m y)" using Cons.prems [of 0] by simp
  moreover have "list_all2 P (concat (map f xs)) (concat (map (\<lambda>(k, c). g k c) (enumerate (Suc m) ys)))"
    by (rule Cons.IH) (use Cons.prems [of "Suc _"] in auto)
  ultimately show ?case by (auto intro: list_all2_appendI)
qed

section \<open>Paths identify nodes\<close>

lemma visits_path_prefix:
  "(n, p, q) \<in> set (visits parent path t) \<Longrightarrow> \<exists>r. q = path @ r"
proof (induction parent path t rule: visits.induct)
  case (1 parent path node)
  then show ?case
    by (subst (asm) visits.simps) (fastforce simp: in_set_enumerate_eq)
qed

lemma visits_path_prefix':
  "q \<in> set (map (\<lambda>(n, p, q). q) (visits parent path t)) \<Longrightarrow> \<exists>r. q = path @ r"
  using visits_path_prefix [of _ _ q parent path t] by auto

lemma path_component_inj:
  "i < 2 ^ 32 \<Longrightarrow> j < 2 ^ 32 \<Longrightarrow> path_component i = path_component j \<Longrightarrow> i = j"
  by (auto simp: path_component_def u32_try_from_def dest: arg_cong [where f = unat]
      simp: unat_word_of_nat_u32)

lemma distinct_concat_enumerate:
  assumes "\<And>k. k < length cs \<Longrightarrow> distinct (F (m + k) (cs ! k))"
    and "\<And>j k x. j < length cs \<Longrightarrow> k < length cs \<Longrightarrow> x \<in> set (F (m + j) (cs ! j))
          \<Longrightarrow> x \<in> set (F (m + k) (cs ! k)) \<Longrightarrow> j = k"
  shows "distinct (concat (map (\<lambda>(k, c). F k c) (enumerate m cs)))"
  using assms
proof (induction cs arbitrary: m)
  case Nil
  then show ?case by simp
next
  case (Cons c cs)
  have "distinct (concat (map (\<lambda>(k, c). F k c) (enumerate (Suc m) cs)))"
  proof (rule Cons.IH)
    show "distinct (F (Suc m + k) (cs ! k))" if "k < length cs" for k
      using Cons.prems(1) [of "Suc k"] that by simp
    show "j = k" if "j < length cs" "k < length cs" "x \<in> set (F (Suc m + j) (cs ! j))"
      "x \<in> set (F (Suc m + k) (cs ! k))" for j k x
      using Cons.prems(2) [of "Suc j" "Suc k" x] that by simp
  qed
  moreover have "distinct (F m c)" using Cons.prems(1) [of 0] by simp
  moreover have "set (F m c) \<inter> set (concat (map (\<lambda>(k, c). F k c) (enumerate (Suc m) cs))) = {}"
  proof -
    have False if "x \<in> set (F m c)" "k < length cs" "x \<in> set (F (Suc m + k) (cs ! k))" for x k
      using Cons.prems(2) [of 0 "Suc k" x] that by simp
    then show ?thesis by (auto simp: in_set_enumerate_eq)
        (metis Suc_le_eq add_Suc_right less_diff_conv2 le_add_diff_inverse add.commute)
  qed
  ultimately show ?case by auto
qed

lemma visits_paths_distinct:
  "\<forall>v \<in> set (visits parent path t). fan_out_ok (fst v) \<Longrightarrow>
   distinct (map (\<lambda>(n, p, q). q) (visits parent path t))"
proof (induction parent path t rule: visits.induct)
  case (1 parent path node)
  let ?F = "\<lambda>k c. visits (Some node) (path @ [path_component k]) c"
  let ?path = "\<lambda>(n, p, q). q"
  have fan: "length (node_children node) \<le> 2 ^ 32"
    using "1.prems" by (subst (asm) visits.simps) (simp add: fan_out_ok_def)
  have sub: "\<forall>v \<in> set (?F k (node_children node ! k)). fan_out_ok (fst v)"
    if "k < length (node_children node)" for k
    using "1.prems" that by (subst (asm) visits.simps) (fastforce simp: in_set_enumerate_eq)
  have "distinct (concat (map (\<lambda>(k, c). map ?path (?F k c)) (enumerate 0 (node_children node))))"
  proof (rule distinct_concat_enumerate)
    show "distinct (map ?path (?F (0 + k) (node_children node ! k)))"
      if "k < length (node_children node)" for k
      using "1.IH" [of "(k, node_children node ! k)" k "node_children node ! k"] that sub [OF that]
      by (simp add: in_set_enumerate_eq)
    show "j = k" if "j < length (node_children node)" "k < length (node_children node)"
      "x \<in> set (map ?path (?F (0 + j) (node_children node ! j)))"
      "x \<in> set (map ?path (?F (0 + k) (node_children node ! k)))" for j k x
    proof -
      have "\<exists>r. x = (path @ [path_component j]) @ r" by (rule visits_path_prefix' [OF that(3) [unfolded add_0]])
      moreover have "\<exists>r. x = (path @ [path_component k]) @ r"
        by (rule visits_path_prefix' [OF that(4) [unfolded add_0]])
      ultimately have "path_component j = path_component k" by auto
      with that(1,2) fan show ?thesis by (intro path_component_inj) auto
    qed
  qed
  moreover have "path \<notin> set (concat (map (\<lambda>(k, c). map ?path (?F k c)) (enumerate 0 (node_children node))))"
  proof
    assume "path \<in> set (concat (map (\<lambda>(k, c). map ?path (?F k c)) (enumerate 0 (node_children node))))"
    then obtain n p k c where "(n, p, path) \<in> set (?F k c)" by auto
    from visits_path_prefix [OF this] show False by auto
  qed
  ultimately show ?case
    by (subst visits.simps) (simp add: map_concat case_prod_unfold comp_def)
qed

section \<open>What the validator accepts\<close>

definition child_visits ::
  "structure_node \<Rightarrow> u32 list \<Rightarrow> nat \<Rightarrow> structure_node list
   \<Rightarrow> (structure_node \<times> structure_node option \<times> u32 list) list" where
  "child_visits node path k cs =
     concat (map (\<lambda>(k, c). visits (Some node) (path @ [path_component k]) c) (enumerate k cs))"

lemma child_visits_simps [simp]:
  "child_visits node path k [] = []"
  "child_visits node path k (c # cs) =
     visits (Some node) (path @ [path_component k]) c @ child_visits node path (Suc k) cs"
  by (simp_all add: child_visits_def)

lemma visits_eq: "visits parent path node = (node, parent, path) # child_visits node path 0 (node_children node)"
  by (subst visits.simps) (simp add: child_visits_def)

lemma validate_node_visits:
  "validate_node sha up d v lk t parent path st = Inr st' \<longleftrightarrow>
     list_all (fan_out_ok \<circ> fst) (visits parent path t)
     \<and> res_fold (\<lambda>st (n, p, q). enter_node sha up d v lk n p q st) st (visits parent path t) = Inr st'"
  and validate_children_visits:
  "validate_children sha up d v lk node path k cs st = Inr st' \<longleftrightarrow>
     (cs = [] \<or> k + length cs \<le> 2 ^ 32)
     \<and> list_all (fan_out_ok \<circ> fst) (child_visits node path k cs)
     \<and> res_fold (\<lambda>st (n, p, q). enter_node sha up d v lk n p q st) st (child_visits node path k cs)
         = Inr st'"
proof (induction sha up d v lk t parent path st and sha up d v lk node path k cs st
    arbitrary: st' and st' rule: validate_node_validate_children.induct)
  case (1 sha up d v lk i kd ti l bs sp cs parent path st)
  show ?case
    by (auto simp: visits_eq [of parent path "StructureNode i kd ti l bs sp cs"]
        res_bind_Inr_iff "1.IH" fan_out_ok_def)
next
  case (2 sha up d v lk node path k st)
  show ?case by auto
next
  case (3 sha up d v lk node path k child cs st)
  show ?case
  proof (cases "k < 2 ^ 32")
    case True
    then have "ok_or (u32_try_from k) e = Inr (path_component k)" for e :: pipeline_failure
      by (simp add: ok_or_Inr_iff path_component_def u32_try_from_def)
    then show ?thesis
      using "3.IH" True by (auto simp: res_bind_Inr_iff res_fold_append)
  next
    case False
    then have "u32_try_from k = None" by (simp add: u32_try_from_def)
    with False show ?thesis by simp
  qed
qed

definition is_heading :: "structure_node_kind \<Rightarrow> bool" where
  "is_heading k \<longleftrightarrow> k = Section \<or> k = Subsection"

text \<open>The heading line a node is named after, found again in the source.\<close>

definition signal_of ::
  "(nat \<Rightarrow> bool) \<Rightarrow> (string \<rightharpoonup> normalized_block) \<Rightarrow> structure_node \<Rightarrow> heading_signal option" where
  "signal_of up lk node =
     (case node_block_ids node of
        [] \<Rightarrow> None
      | b # _ \<Rightarrow> Option.bind (lk b) (\<lambda>blk. detect_numbered_heading up (block_text blk)))"

text \<open>
  The form of a node below its parent, spelled out: a root is the empty document node of level 0; every
  other node owns a block and is a section or untitled content of level 1 right under the document, or
  a subsection one level below a heading, at most as deep as headings go.
\<close>

definition shape_ok :: "structure_node \<Rightarrow> structure_node option \<Rightarrow> bool" where
  "shape_ok node parent \<longleftrightarrow>
     (parent = None \<longrightarrow>
        node_kind node = Document \<and> unat (node_level node) = 0 \<and> node_title node = None
        \<and> node_block_ids node = [] \<and> node_source_spans node = [])
     \<and> (\<forall>p. parent = Some p \<longrightarrow>
        node_block_ids node \<noteq> [] \<and> node_kind node \<noteq> Document
        \<and> (node_kind node = Section \<longrightarrow> node_kind p = Document \<and> unat (node_level node) = 1)
        \<and> (node_kind node = Unstructured \<longrightarrow>
             node_kind p = Document \<and> unat (node_level node) = 1 \<and> node_title node = None)
        \<and> (node_kind node = Subsection \<longrightarrow>
             is_heading (node_kind p) \<and> unat (node_level node) = unat (node_level p) + 1
             \<and> unat (node_level node) \<le> MAX_HEADING_DEPTH))"

lemma unat_one_iff: "unat (x :: u32) = 1 \<longleftrightarrow> x = 1"
  by (metis unsigned_1 word_unat_eq_iff)

text \<open>The checker of the code accepts exactly this form.\<close>

lemma shape_ok_iff: "shape_ok node parent \<longleftrightarrow> is_ok (validate_node_shape node parent)"
  by (cases parent; cases "node_kind node")
    (auto simp: shape_ok_def validate_node_shape_def is_ok_iff ensure_Inr_iff is_heading_def unat_one_iff [simplified]
      unat_eq_0 checked_add_u32_Some_iff)

definition heading_ok ::
  "(nat \<Rightarrow> bool) \<Rightarrow> (string \<rightharpoonup> normalized_block) \<Rightarrow> structure_node \<Rightarrow> structure_node option \<Rightarrow> bool" where
  "heading_ok up lk node parent \<longleftrightarrow>
     (\<exists>s. signal_of up lk node = Some s \<and> length (numbering s) = unat (node_level node)
        \<and> title s = node_title node
        \<and> (node_kind node = Subsection \<longrightarrow>
             (\<exists>p sp. parent = Some p \<and> signal_of up lk p = Some sp
                  \<and> butlast (numbering s) = numbering sp)))"

definition node_valid ::
  "(string \<Rightarrow> string) \<Rightarrow> (nat \<Rightarrow> bool) \<Rightarrow> string \<Rightarrow> string \<Rightarrow> (string \<rightharpoonup> normalized_block)
   \<Rightarrow> structure_node \<times> structure_node option \<times> u32 list \<Rightarrow> bool" where
  "node_valid sha up d v lk = (\<lambda>(node, parent, path).
     shape_ok node parent
     \<and> (is_heading (node_kind node) \<longrightarrow> heading_ok up lk node parent)
     \<and> list_all2 (\<lambda>b s. \<exists>blk. lk b = Some blk \<and> s = block_source blk)
         (node_block_ids node) (node_source_spans node)
     \<and> node_id node = deterministic_node_id sha d v path (node_kind node) (node_title node)
         (node_level node) (node_block_ids node))"

definition node_numbers ::
  "(nat \<Rightarrow> bool) \<Rightarrow> (string \<rightharpoonup> normalized_block) \<Rightarrow> structure_node \<Rightarrow> u32 list list" where
  "node_numbers up lk node =
     (if is_heading (node_kind node)
      then case signal_of up lk node of None \<Rightarrow> [] | Some s \<Rightarrow> [numbering s] else [])"

lemma heading_signal_for_node_Inr_iff [res_simps]:
  "heading_signal_for_node up lk node = Inr s \<longleftrightarrow> signal_of up lk node = Some s"
  by (auto simp: heading_signal_for_node_def signal_of_def res_simps bind_eq_Some_conv split: list.splits)

lemma validate_heading_source_Inr_iff:
  "validate_heading_source up lk node parent nums = Inr nums' \<longleftrightarrow>
     (is_heading (node_kind node) \<longrightarrow> heading_ok up lk node parent)
     \<and> set (node_numbers up lk node) \<inter> nums = {}
     \<and> nums' = nums \<union> set (node_numbers up lk node)"
proof (cases "is_heading (node_kind node)")
  case True
  then show ?thesis
    by (auto simp: validate_heading_source_def is_heading_def node_numbers_def heading_ok_def
        res_simps u32_try_from_Some_iff split: option.splits)
next
  case False
  then show ?thesis
    by (auto simp: validate_heading_source_def is_heading_def node_numbers_def)
qed

lemma validate_node_blocks_Inr_iff:
  "length bs = length ss \<Longrightarrow>
   res_fold (validate_node_block lk) refs (zip bs ss) = Inr refs' \<longleftrightarrow>
     list_all2 (\<lambda>b s. \<exists>blk. lk b = Some blk \<and> s = block_source blk) bs ss \<and> refs' = refs @ bs"
  by (induction bs ss arbitrary: refs rule: list_induct2)
    (auto simp: validate_node_block_def res_simps)

lemma enter_node_Inr_iff:
  "enter_node sha up d v lk node parent path (refs, ids, nums) = Inr st' \<longleftrightarrow>
     node_valid sha up d v lk (node, parent, path)
     \<and> node_id node \<notin> ids \<and> set (node_numbers up lk node) \<inter> nums = {}
     \<and> st' = (refs @ node_block_ids node, insert (node_id node) ids,
              nums \<union> set (node_numbers up lk node))"
proof (cases "length (node_block_ids node) = length (node_source_spans node)")
  case True
  then show ?thesis
    by (auto simp: enter_node_def node_valid_def res_simps shape_ok_iff is_ok_iff
        validate_heading_source_Inr_iff validate_node_blocks_Inr_iff)
next
  case False
  then show ?thesis
    by (auto simp: enter_node_def node_valid_def res_simps dest: list_all2_lengthD)
qed

lemma enter_nodes_Inr_iff:
  "res_fold (\<lambda>st (n, p, q). enter_node sha up d v lk n p q st) (refs, ids, nums) vs = Inr st' \<longleftrightarrow>
     (\<forall>x \<in> set vs. node_valid sha up d v lk x)
     \<and> distinct (map (node_id \<circ> fst) vs) \<and> (node_id \<circ> fst) ` set vs \<inter> ids = {}
     \<and> distinct (concat (map (node_numbers up lk \<circ> fst) vs))
     \<and> set (concat (map (node_numbers up lk \<circ> fst) vs)) \<inter> nums = {}
     \<and> st' = (refs @ concat (map (node_block_ids \<circ> fst) vs), ids \<union> (node_id \<circ> fst) ` set vs,
              nums \<union> set (concat (map (node_numbers up lk \<circ> fst) vs)))"
proof (induction vs arbitrary: refs ids nums)
  case Nil
  then show ?case by auto
next
  case (Cons x vs)
  obtain n p q where x: "x = (n, p, q)" by (cases x)
  have "distinct (node_numbers up lk n)" by (auto simp: node_numbers_def split: option.split)
  then show ?case
    by (simp add: x res_bind_Inr_iff enter_node_Inr_iff Cons.IH) (auto simp: Un_assoc)
qed

text \<open>The declarative reading of the recursive validation of one document root.\<close>

definition tree_valid ::
  "(string \<Rightarrow> string) \<Rightarrow> (nat \<Rightarrow> bool) \<Rightarrow> string \<Rightarrow> string \<Rightarrow> (string \<rightharpoonup> normalized_block)
   \<Rightarrow> structure_node \<Rightarrow> bool" where
  "tree_valid sha up d v lk root \<longleftrightarrow>
     (\<forall>x \<in> set (visits None [0] root). fan_out_ok (fst x) \<and> node_valid sha up d v lk x)
     \<and> distinct (map node_id (nodes_of root))
     \<and> distinct (concat (map (node_numbers up lk) (nodes_of root)))"

lemma validate_root_Inr_iff:
  "validate_node sha up d v lk root None [0] ([], {}, {}) = Inr (refs, ids, nums) \<longleftrightarrow>
     tree_valid sha up d v lk root \<and> refs = owned_blocks root
     \<and> ids = set (map node_id (nodes_of root))
     \<and> nums = set (concat (map (node_numbers up lk) (nodes_of root)))"
  by (auto simp: validate_node_visits enter_nodes_Inr_iff tree_valid_def nodes_of_def owned_blocks_def
      list_all_iff)

end
