(* ===== verification/Structure_Build.thy ===== *)
theory Structure_Build
  imports Structure_Tree
begin

text \<open>
  Lemmas on \<open>pipeline/structure.rs\<close>, part two: the arena that the interpreter grows block by block.
  A new node is always hung at the end of the rightmost path (the document root followed by the
  stack of active headings), which is why the materialized tree lists the nodes in the order of the
  arena, and with them the blocks in the order of the document.
\<close>

section \<open>Children lists that grow at the rightmost path\<close>

text \<open>\<open>order f ch i\<close> lists the subtree of \<open>i\<close> in document order, \<open>f\<close> levels deep.\<close>

fun order :: "nat \<Rightarrow> (nat \<Rightarrow> nat list) \<Rightarrow> nat \<Rightarrow> nat list" where
  "order 0 ch i = []"
| "order (Suc f) ch i = i # concat (map (order f ch) (ch i))"

definition wf_ch :: "nat \<Rightarrow> (nat \<Rightarrow> nat list) \<Rightarrow> bool" where
  "wf_ch n ch \<longleftrightarrow>
     (\<forall>i < n. distinct (ch i) \<and> (\<forall>c \<in> set (ch i). i < c \<and> c < n))
     \<and> (\<forall>i < n. \<forall>j < n. \<forall>c. c \<in> set (ch i) \<longrightarrow> c \<in> set (ch j) \<longrightarrow> i = j)"

definition last_path :: "nat \<Rightarrow> (nat \<Rightarrow> nat list) \<Rightarrow> nat list \<Rightarrow> bool" where
  "last_path n ch chain \<longleftrightarrow>
     chain \<noteq> [] \<and> chain ! 0 = 0 \<and> set chain \<subseteq> {..<n}
     \<and> (\<forall>k. Suc k < length chain \<longrightarrow> ch (chain ! k) \<noteq> [] \<and> last (ch (chain ! k)) = chain ! Suc k)"

definition hang :: "nat \<Rightarrow> nat \<Rightarrow> (nat \<Rightarrow> nat list) \<Rightarrow> nat \<Rightarrow> nat list" where
  "hang n p ch = (\<lambda>i. if i = n then [] else if i = p then ch p @ [n] else ch i)"

lemma wf_ch_child: "wf_ch n ch \<Longrightarrow> i < n \<Longrightarrow> c \<in> set (ch i) \<Longrightarrow> i < c \<and> c < n"
  and wf_ch_distinct: "wf_ch n ch \<Longrightarrow> i < n \<Longrightarrow> distinct (ch i)"
  and wf_ch_parent: "wf_ch n ch \<Longrightarrow> i < n \<Longrightarrow> j < n \<Longrightarrow> c \<in> set (ch i) \<Longrightarrow> c \<in> set (ch j) \<Longrightarrow> i = j"
  unfolding wf_ch_def by blast+

lemma last_path_zero: "last_path n ch chain \<Longrightarrow> chain ! 0 = 0"
  and last_path_step: "last_path n ch chain \<Longrightarrow> Suc k < length chain \<Longrightarrow>
        ch (chain ! k) \<noteq> [] \<and> last (ch (chain ! k)) = chain ! Suc k"
  unfolding last_path_def by blast+

lemma last_path_bound: "last_path n ch chain \<Longrightarrow> k < length chain \<Longrightarrow> chain ! k < n"
  unfolding last_path_def by (meson lessThan_iff nth_mem subsetD)

lemma last_path_less:
  assumes "wf_ch n ch" "last_path n ch chain" "j < length chain" "i < j"
  shows "chain ! i < chain ! j"
  using assms(3,4)
proof (induction j)
  case 0
  then show ?case by simp
next
  case (Suc j)
  from last_path_step [OF assms(2) Suc.prems(1)] have "chain ! Suc j \<in> set (ch (chain ! j))"
    using last_in_set [of "ch (chain ! j)"] by simp
  then have "chain ! j < chain ! Suc j"
    using wf_ch_child [OF assms(1) last_path_bound [OF assms(2)]] Suc.prems(1) by simp
  with Suc show ?case by (cases "i = j") (auto dest: less_trans)
qed

lemma child_on_path:
  assumes wf: "wf_ch n ch" and lp: "last_path n ch chain" and r: "r < length chain"
    and i: "i < n" and c: "c \<in> set (ch i)" "c \<in> set (take (Suc r) chain)"
  shows "i \<in> set (take (Suc r) chain) \<and> c = last (ch i) \<and> i \<noteq> chain ! r"
proof -
  from c(2) obtain k where k: "k \<le> r" "c = chain ! k" using r by (auto simp: in_set_conv_nth less_Suc_eq_le)
  have "0 < c" using wf_ch_child [OF wf i c(1)] by simp
  then have "k \<noteq> 0" using last_path_zero [OF lp] k by (intro notI) simp
  then obtain k' where k': "k = Suc k'" by (cases k) auto
  then have *: "ch (chain ! k') \<noteq> []" "last (ch (chain ! k')) = c"
    using last_path_step [OF lp, of k'] k r by auto
  have "chain ! k' < n" using last_path_bound [OF lp] k k' r by simp
  then have "i = chain ! k'"
    by (rule wf_ch_parent [OF wf i _ c(1)]) (use * last_in_set in blast)
  moreover have "chain ! k' < chain ! r" using last_path_less [OF wf lp r] k k' by simp
  moreover have "chain ! k' \<in> set (take (Suc r) chain)"
    using k k' r by (auto simp: in_set_conv_nth intro!: exI [of _ k'])
  ultimately show ?thesis using * by auto
qed

lemma path_continues:
  assumes lp: "last_path n ch chain" and r: "r < length chain"
    and i: "i \<in> set (take (Suc r) chain)" "i \<noteq> chain ! r"
  shows "ch i \<noteq> [] \<and> last (ch i) \<in> set (take (Suc r) chain)"
proof -
  from i obtain k where k: "k < r" "i = chain ! k"
    using r by (auto simp: in_set_conv_nth less_Suc_eq)
  then have "ch i \<noteq> []" "last (ch i) = chain ! Suc k" using last_path_step [OF lp, of k] r by auto
  moreover have "chain ! Suc k \<in> set (take (Suc r) chain)"
    using k r by (auto simp: in_set_conv_nth intro!: exI [of _ "Suc k"])
  ultimately show ?thesis by simp
qed

lemma order_hang:
  assumes wf: "wf_ch n ch" and lp: "last_path n ch chain" and r: "r < length chain"
  shows "i < n \<Longrightarrow> n - i \<le> f \<Longrightarrow>
    order (Suc f) (hang n (chain ! r) ch) i
      = order f ch i @ (if i \<in> set (take (Suc r) chain) then [n] else [])"
proof (induction f arbitrary: i)
  case 0
  then show ?case by simp
next
  case (Suc f)
  let ?R = "set (take (Suc r) chain)" and ?ch' = "hang n (chain ! r) ch"
  have p: "chain ! r < n" "chain ! r \<in> ?R"
    using last_path_bound [OF lp r] r by (auto simp: in_set_conv_nth intro!: exI [of _ r])
  have IH: "order (Suc f) ?ch' c = order f ch c @ (if c \<in> ?R then [n] else [])" if "c \<in> set (ch i)" for c
    using wf_ch_child [OF wf Suc.prems(1) that] Suc.prems(2) by (intro Suc.IH) auto
  have new: "order (Suc f) ?ch' n = [n]" by (simp add: hang_def)
  note on_path = child_on_path [OF wf lp r Suc.prems(1)]
  consider (attach) "i = chain ! r" | (path) "i \<in> ?R" "i \<noteq> chain ! r" | (off) "i \<notin> ?R" by blast
  then show ?case
  proof cases
    case attach
    then have "order (Suc f) ?ch' c = order f ch c" if "c \<in> set (ch i)" for c
      using IH [OF that] on_path [OF that] by auto
    then have "concat (map (order (Suc f) ?ch') (ch i)) = concat (map (order f ch) (ch i))"
      by (intro arg_cong [where f = concat] map_cong) auto
    moreover have "?ch' i = ch i @ [n]" using attach p by (simp add: hang_def)
    moreover have "i \<in> ?R" using attach p by simp
    ultimately show ?thesis
      using new by (simp del: order.simps(2) add: order.simps(2) [of "Suc f"] order.simps(2) [of f ch])
  next
    case path
    from path_continues [OF lp r path] have ne: "ch i \<noteq> []" and last: "last (ch i) \<in> ?R" by auto
    have dist: "distinct (butlast (ch i) @ [last (ch i)])" using wf_ch_distinct [OF wf Suc.prems(1)] ne by simp
    have "order (Suc f) ?ch' c = order f ch c" if "c \<in> set (butlast (ch i))" for c
    proof -
      have c: "c \<in> set (ch i)" "c \<noteq> last (ch i)" using that dist by (auto dest: in_set_butlastD)
      with on_path [of c] have "c \<notin> ?R" by blast
      with IH [OF c(1)] show ?thesis by simp
    qed
    then have "concat (map (order (Suc f) ?ch') (butlast (ch i))) = concat (map (order f ch) (butlast (ch i)))"
      by (intro arg_cong [where f = concat] map_cong) auto
    moreover have "order (Suc f) ?ch' (last (ch i)) = order f ch (last (ch i)) @ [n]"
      using IH [of "last (ch i)"] last ne by simp
    ultimately have "concat (map (order (Suc f) ?ch') (butlast (ch i) @ [last (ch i)]))
        = concat (map (order f ch) (butlast (ch i) @ [last (ch i)])) @ [n]" by (simp del: order.simps)
    then have "concat (map (order (Suc f) ?ch') (ch i)) = concat (map (order f ch) (ch i)) @ [n]"
      using ne by (simp del: order.simps)
    moreover have "?ch' i = ch i" using path Suc.prems by (simp add: hang_def)
    ultimately show ?thesis
      using path by (simp del: order.simps(2) add: order.simps(2) [of "Suc f"] order.simps(2) [of f ch])
  next
    case off
    then have "order (Suc f) ?ch' c = order f ch c" if "c \<in> set (ch i)" for c
      using IH [OF that] on_path [OF that] by auto
    then have "concat (map (order (Suc f) ?ch') (ch i)) = concat (map (order f ch) (ch i))"
      by (intro arg_cong [where f = concat] map_cong) auto
    moreover have "?ch' i = ch i" using off p Suc.prems by (auto simp: hang_def)
    ultimately show ?thesis
      using off by (simp del: order.simps(2) add: order.simps(2) [of "Suc f"] order.simps(2) [of f ch])
  qed
qed

lemma wf_ch_hang:
  "wf_ch n ch \<Longrightarrow> p < n \<Longrightarrow> wf_ch (Suc n) (hang n p ch)"
proof -
  assume wf: "wf_ch n ch" and p: "p < n"
  let ?ch = "hang n p ch"
  have mem: "c \<in> set (?ch i) \<longleftrightarrow> i \<noteq> n \<and> (c \<in> set (ch i) \<or> i = p \<and> c = n)" for i c
    by (auto simp: hang_def)
  have "distinct (?ch i)" if "i < Suc n" for i
    using that wf_ch_distinct [OF wf, of i] wf_ch_child [OF wf p, of n] by (auto simp: hang_def)
  moreover have "i < c \<and> c < Suc n" if "i < Suc n" "c \<in> set (?ch i)" for i c
    using that p wf_ch_child [OF wf, of i c] unfolding mem by (auto simp: less_Suc_eq)
  moreover have "i = j" if "i < Suc n" "j < Suc n" "c \<in> set (?ch i)" "c \<in> set (?ch j)" for i j c
  proof -
    from that have ij: "i < n" "j < n" unfolding mem by auto
    show ?thesis
    proof (cases "c = n")
      case True
      with that ij wf_ch_child [OF wf, of _ n] show ?thesis unfolding mem by blast
    next
      case False
      with that have "c \<in> set (ch i)" "c \<in> set (ch j)" unfolding mem by auto
      then show ?thesis by (rule wf_ch_parent [OF wf ij])
    qed
  qed
  ultimately show ?thesis unfolding wf_ch_def by blast
qed

lemma last_path_hang:
  assumes wf: "wf_ch n ch" and lp: "last_path n ch chain" and r: "r < length chain"
  shows "last_path (Suc n) (hang n (chain ! r) ch) (take (Suc r) chain @ [n])"
proof -
  let ?c = "take (Suc r) chain @ [n]"
  have len: "length ?c = Suc (Suc r)" using r by simp
  have step: "hang n (chain ! r) ch (?c ! k) \<noteq> [] \<and> last (hang n (chain ! r) ch (?c ! k)) = ?c ! Suc k"
    if "k < Suc r" for k
  proof -
    have ck: "?c ! k = chain ! k" "chain ! k < n"
      using that r last_path_bound [OF lp, of k] by (auto simp: nth_append)
    show ?thesis
    proof (cases "k = r")
      case True
      with ck r show ?thesis by (simp add: hang_def nth_append)
    next
      case False
      with that have "k < r" by simp
      then have "chain ! k < chain ! r" using last_path_less [OF wf lp r] by simp
      moreover have "ch (chain ! k) \<noteq> []" "last (ch (chain ! k)) = chain ! Suc k"
        using last_path_step [OF lp, of k] r \<open>k < r\<close> by auto
      ultimately show ?thesis using ck \<open>k < r\<close> r by (simp add: hang_def nth_append)
    qed
  qed
  moreover have "?c ! 0 = 0" using lp r by (auto simp: last_path_def nth_append)
  moreover have "set ?c \<subseteq> {..<Suc n}" using lp set_take_subset [of "Suc r" chain] by (auto simp: last_path_def)
  ultimately show ?thesis using len by (simp add: last_path_def)
qed

section \<open>The arena\<close>

text \<open>
  \<open>bss\<close> and \<open>nums\<close> are ghost lists beside the arena: the blocks each node owns and the numbering it
  was recognised by (empty for the document and the unstructured node).
\<close>

definition children_of :: "draft_node list \<Rightarrow> nat \<Rightarrow> nat list" where
  "children_of arena i = (if i < length arena then draft_children (arena ! i) else [])"

definition draft_ok ::
  "(nat \<Rightarrow> bool) \<Rightarrow> draft_node \<Rightarrow> normalized_block list \<Rightarrow> u32 list \<Rightarrow> bool" where
  "draft_ok up d bs num \<longleftrightarrow>
     draft_block_ids d = map block_id bs \<and> draft_source_spans d = map block_source bs
     \<and> unat (draft_level d) = (if draft_kind d = Unstructured then 1 else length num)
     \<and> (draft_kind d = Document \<longleftrightarrow> bs = [])
     \<and> (if is_heading (draft_kind d)
        then detect_numbered_heading up (block_text (hd bs))
               = Some \<lparr>numbering = num, title = draft_title d\<rparr>
             \<and> (draft_kind d = Section \<longleftrightarrow> length num = 1)
        else num = [] \<and> draft_title d = None)"

definition edge_ok :: "draft_node list \<Rightarrow> u32 list list \<Rightarrow> nat \<Rightarrow> nat \<Rightarrow> bool" where
  "edge_ok arena nums i c \<longleftrightarrow>
     draft_kind (arena ! i) \<noteq> Unstructured
     \<and> (if is_heading (draft_kind (arena ! c)) then butlast (nums ! c) = nums ! i else i = 0)"

definition headings :: "draft_node list \<Rightarrow> nat set" where
  "headings arena = {i. i < length arena \<and> is_heading (draft_kind (arena ! i))}"

definition arena_inv ::
  "(nat \<Rightarrow> bool) \<Rightarrow> normalized_block list \<Rightarrow> draft_node list \<Rightarrow> normalized_block list list
   \<Rightarrow> u32 list list \<Rightarrow> nat list \<Rightarrow> bool" where
  "arena_inv up blocks arena bss nums chain \<longleftrightarrow>
     length bss = length arena \<and> length nums = length arena
     \<and> wf_ch (length arena) (children_of arena) \<and> last_path (length arena) (children_of arena) chain
     \<and> order (length arena) (children_of arena) 0 = [0..<length arena]
     \<and> concat bss = blocks
     \<and> (\<forall>i < length arena. draft_ok up (arena ! i) (bss ! i) (nums ! i)
          \<and> (draft_kind (arena ! i) = Document \<longleftrightarrow> i = 0)
          \<and> (draft_kind (arena ! i) = Unstructured \<longrightarrow> i = 1)
          \<and> (\<forall>c \<in> set (children_of arena i). edge_ok arena nums i c))
     \<and> inj_on ((!) nums) (headings arena)"

definition stack_inv ::
  "draft_node list \<Rightarrow> active_heading list \<Rightarrow> u32 list set \<Rightarrow> u32 list list \<Rightarrow> bool" where
  "stack_inv arena stack seen nums \<longleftrightarrow>
     seen = (!) nums ` headings arena
     \<and> (\<forall>k < length stack. active_numbering (stack ! k) = nums ! active_node_id (stack ! k)
          \<and> active_node_id (stack ! k) \<in> headings arena)
     \<and> (if stack = [] then headings arena = {} \<and> length arena \<le> 2
                         \<and> children_of arena 0 = [1..<length arena]
        else active_node_id (last stack) = length arena - 1)"

definition chain_of :: "active_heading list \<Rightarrow> nat list" where
  "chain_of stack = 0 # map active_node_id stack"

lemma arena_invD:
  assumes "arena_inv up blocks arena bss nums chain"
  shows "length bss = length arena" "length nums = length arena"
    "wf_ch (length arena) (children_of arena)" "last_path (length arena) (children_of arena) chain"
    "order (length arena) (children_of arena) 0 = [0..<length arena]" "concat bss = blocks"
    "\<And>i. i < length arena \<Longrightarrow> draft_ok up (arena ! i) (bss ! i) (nums ! i)"
    "\<And>i. i < length arena \<Longrightarrow> draft_kind (arena ! i) = Document \<longleftrightarrow> i = 0"
    "\<And>i. i < length arena \<Longrightarrow> draft_kind (arena ! i) = Unstructured \<Longrightarrow> i = 1"
    "\<And>i c. i < length arena \<Longrightarrow> c \<in> set (children_of arena i) \<Longrightarrow> edge_ok arena nums i c"
    "inj_on ((!) nums) (headings arena)"
  using assms unfolding arena_inv_def by blast+

text \<open>The two ways the arena changes.\<close>

definition attach :: "draft_node list \<Rightarrow> nat \<Rightarrow> draft_node \<Rightarrow> draft_node list" where
  "attach arena p d =
     (arena @ [d])[p := (arena ! p)\<lparr>draft_children := draft_children (arena ! p) @ [length arena]\<rparr>]"

definition fill :: "draft_node list \<Rightarrow> nat \<Rightarrow> normalized_block \<Rightarrow> draft_node list" where
  "fill arena i b = arena[i := push_block (arena ! i) b]"

lemma length_attach [simp]: "length (attach arena p d) = Suc (length arena)"
  by (simp add: attach_def)

lemma length_fill [simp]: "length (fill arena i b) = length arena"
  by (simp add: fill_def)

lemma children_of_attach:
  "p < length arena \<Longrightarrow> draft_children d = [] \<Longrightarrow>
   children_of (attach arena p d) = hang (length arena) p (children_of arena)"
  by (rule ext) (auto simp: children_of_def attach_def hang_def nth_append nth_list_update)

lemma fill_nth:
  "fill arena i b ! j = (if i = j \<and> i < length arena then push_block (arena ! j) b else arena ! j)"
  by (cases "i < length arena") (auto simp: fill_def nth_list_update list_update_beyond)

lemma children_of_fill: "children_of (fill arena i b) = children_of arena"
  by (rule ext) (simp add: children_of_def fill_nth push_block_def)

lemma attach_nth:
  "p < length arena \<Longrightarrow> i < length arena \<Longrightarrow>
     draft_kind (attach arena p d ! i) = draft_kind (arena ! i)
     \<and> draft_ok up (attach arena p d ! i) bs num = draft_ok up (arena ! i) bs num"
  "p < length arena \<Longrightarrow> attach arena p d ! length arena = d"
  by (auto simp: attach_def nth_append nth_list_update draft_ok_def)

lemma fill_nth_kind: "draft_kind (fill arena i b ! j) = draft_kind (arena ! j)"
  by (simp add: fill_nth push_block_def)

lemma draft_ok_push:
  "draft_ok up d bs num \<Longrightarrow> draft_kind d \<noteq> Document \<Longrightarrow> draft_ok up (push_block d b) (bs @ [b]) num"
  by (auto simp: draft_ok_def push_block_def)

lemma headings_fill: "headings (fill arena i b) = headings arena"
  by (simp add: headings_def fill_nth_kind)

lemma headings_attach:
  "p < length arena \<Longrightarrow>
   headings (attach arena p d) = headings arena \<union> (if is_heading (draft_kind d) then {length arena} else {})"
  by (auto simp: headings_def attach_nth less_Suc_eq)

lemma concat_update_last:
  "xs \<noteq> [] \<Longrightarrow> concat (xs[length xs - 1 := last xs @ [b]]) = concat xs @ [b]"
  by (induction xs) (auto simp: Suc_diff_1 nth_Cons split: nat.split)

lemma arena_inv_fill:
  assumes inv: "arena_inv up blocks arena bss nums chain"
    and i: "i = length arena - 1" "draft_kind (arena ! i) \<noteq> Document" "arena \<noteq> []"
  shows "arena_inv up (blocks @ [b]) (fill arena i b) (bss[i := bss ! i @ [b]]) nums chain"
proof -
  note I = arena_invD [OF inv]
  have i_less: "i < length arena" using i by (cases arena) auto
  have "concat (bss[i := bss ! i @ [b]]) = blocks @ [b]"
  proof -
    have ne: "bss \<noteq> []" using I(1) i(3) by auto
    with concat_update_last [OF ne, of b] I(1,6) i(1) show ?thesis by (simp add: last_conv_nth)
  qed
  moreover have "draft_ok up (fill arena i b ! j) (bss[i := bss ! i @ [b]] ! j) (nums ! j)"
    if "j < length arena" for j
    using I(1) I(7) [OF that] draft_ok_push [OF I(7) [OF i_less] i(2), of b] that
    by (cases "j = i") (auto simp: fill_nth)
  ultimately show ?thesis
    using I unfolding arena_inv_def
    by (simp add: children_of_fill fill_nth_kind headings_fill edge_ok_def)
qed

lemma arena_inv_attach:
  assumes inv: "arena_inv up blocks arena bss nums chain"
    and r: "r < length chain"
    and d: "draft_ok up d [b] num" "draft_children d = []"
    and kind: "draft_kind d = Unstructured \<Longrightarrow> length arena = 1"
    and edge: "draft_kind (arena ! (chain ! r)) \<noteq> Unstructured"
      "if is_heading (draft_kind d) then butlast num = nums ! (chain ! r) else chain ! r = 0"
    and fresh: "is_heading (draft_kind d) \<Longrightarrow> num \<notin> (!) nums ` headings arena"
  shows "arena_inv up (blocks @ [b]) (attach arena (chain ! r) d) (bss @ [[b]]) (nums @ [num])
           (take (Suc r) chain @ [length arena])"
proof -
  note I = arena_invD [OF inv]
  let ?n = "length arena" and ?p = "chain ! r" and ?a = "attach arena (chain ! r) d"
  have p: "?p < ?n" using last_path_bound [OF I(4) r] .
  have ch: "children_of ?a = hang ?n ?p (children_of arena)" by (rule children_of_attach [OF p d(2)])
  have zero: "0 \<in> set (take (Suc r) chain)"
    using last_path_zero [OF I(4)] r by (auto simp: in_set_conv_nth intro!: exI [of _ 0])
  have "0 < ?n" by (rule le_less_trans [OF le0 p])
  from order_hang [OF I(3,4) r this, of ?n] zero I(5)
  have ord: "order (Suc ?n) (children_of ?a) 0 = [0..<Suc ?n]" by (simp add: ch)
  have nodes: "draft_ok up (?a ! i) ((bss @ [[b]]) ! i) ((nums @ [num]) ! i)
      \<and> (draft_kind (?a ! i) = Document \<longleftrightarrow> i = 0) \<and> (draft_kind (?a ! i) = Unstructured \<longrightarrow> i = 1)"
    if "i < Suc ?n" for i
  proof (cases "i = ?n")
    case True
    moreover have "draft_kind d \<noteq> Document" using d(1) by (simp add: draft_ok_def)
    ultimately show ?thesis using d I(1,2) attach_nth(2) [OF p] kind p by (auto simp: nth_append)
  next
    case False
    with that have i: "i < ?n" by simp
    then show ?thesis
      using I(1,2) I(7-9) [OF i] attach_nth(1) [OF p i] by (simp add: nth_append)
  qed
  have edges: "edge_ok ?a (nums @ [num]) i c" if "i < Suc ?n" "c \<in> set (children_of ?a i)" for i c
  proof -
    from that(2) have i: "i < ?n" "c \<in> set (children_of arena i) \<or> i = ?p \<and> c = ?n"
      using that(1) by (auto simp: ch hang_def split: if_splits)
    from i(2) show ?thesis
    proof
      assume c: "c \<in> set (children_of arena i)"
      from wf_ch_child [OF I(3) i(1) c] have "c < ?n" by simp
      with I(10) [OF i(1) c] i(1) attach_nth(1) [OF p] I(2) show ?thesis
        by (simp add: edge_ok_def nth_append)
    next
      assume "i = ?p \<and> c = ?n"
      with edge i(1) attach_nth [OF p] I(2) show ?thesis by (simp add: edge_ok_def nth_append)
    qed
  qed
  have inj: "inj_on ((!) (nums @ [num])) (headings ?a)"
  proof -
    have eq: "(nums @ [num]) ! i = nums ! i" if "i \<in> headings arena" for i
      using that I(2) by (simp add: headings_def nth_append)
    have "inj_on ((!) (nums @ [num])) (headings arena)"
      using I(11) eq by (auto simp: inj_on_def)
    moreover have "(nums @ [num]) ! ?n = num" using I(2) by (simp add: nth_append)
    ultimately show ?thesis
      using fresh eq by (auto simp: headings_attach [OF p] inj_on_insert image_iff split: if_split)
  qed
  show ?thesis
    unfolding arena_inv_def length_attach
    using I(1,2,6) wf_ch_hang [OF I(3) p] last_path_hang [OF I(3,4) r] ord nodes edges inj
    by (auto simp: ch)
qed

section \<open>One block\<close>

definition build_inv ::
  "(nat \<Rightarrow> bool) \<Rightarrow> normalized_block list \<Rightarrow> structure_state \<Rightarrow> bool" where
  "build_inv up blocks st \<longleftrightarrow>
     (\<exists>bss nums. arena_inv up blocks (fst st) bss nums (chain_of (fst (snd st)))
        \<and> stack_inv (fst st) (fst (snd st)) (snd (snd st)) nums)"

lemma build_inv_start: "build_inv up [] ([draft_document], [], {})"
proof -
  have "arena_inv up [] [draft_document] [[]] [[]] (chain_of [])"
    by (auto simp: arena_inv_def wf_ch_def last_path_def children_of_def draft_document_def chain_of_def
        draft_ok_def is_heading_def headings_def inj_on_def)
  moreover have "stack_inv [draft_document] [] {} [[]]"
    by (auto simp: stack_inv_def headings_def draft_document_def is_heading_def children_of_def)
  ultimately show ?thesis unfolding build_inv_def by auto
qed

lemma draft_ok_unstructured: "draft_ok up (with_block Unstructured None 1 b) [b] []"
  by (simp add: draft_ok_def with_block_def is_heading_def)

lemma last_path_root: "0 < n \<Longrightarrow> last_path n ch [0]"
  by (simp add: last_path_def)

lemma arena_inv_root:
  "arena_inv up blocks arena bss nums chain \<Longrightarrow> arena_inv up blocks arena bss nums [0]"
  unfolding arena_inv_def
  by (auto intro!: last_path_root dest: last_path_bound [where k = 0] simp: last_path_def)

lemma place_content:
  assumes inv: "build_inv up blocks (arena, stack, seen)"
  shows "\<exists>arena'. append_content_block arena stack b = Inr arena' \<and> build_inv up (blocks @ [b]) (arena', stack, seen)"
proof -
  from inv obtain bss nums where ai: "arena_inv up blocks arena bss nums (chain_of stack)"
    and si: "stack_inv arena stack seen nums" by (auto simp: build_inv_def)
  note I = arena_invD [OF ai]
  have ne: "arena \<noteq> []" using last_path_bound [OF I(4), of 0] by (auto simp: chain_of_def)
  have fill_case: "build_inv up (blocks @ [b]) (fill arena (length arena - 1) b, stack, seen)"
    if "draft_kind (arena ! (length arena - 1)) \<noteq> Document"
  proof -
    have "stack_inv (fill arena (length arena - 1) b) stack seen nums"
      using si by (simp add: stack_inv_def headings_fill children_of_fill split: if_splits)
    with arena_inv_fill [OF ai refl that ne, of b] show ?thesis by (auto simp: build_inv_def)
  qed
  show ?thesis
  proof (cases "stack = []")
    case False
    with si have last: "active_node_id (last stack) = length arena - 1" by (simp add: stack_inv_def)
    have "active_node_id (stack ! (length stack - 1)) \<in> headings arena"
      using si False by (simp add: stack_inv_def)
    then have "active_node_id (last stack) \<in> headings arena" using False by (simp add: last_conv_nth)
    then have "draft_kind (arena ! (length arena - 1)) \<noteq> Document"
      by (auto simp: last headings_def is_heading_def)
    with fill_case last ne False show ?thesis
      by (simp add: append_content_block_def fill_def Let_def)
  next
    case True
    with si have st: "headings arena = {}" "length arena \<le> 2" "children_of arena 0 = [1..<length arena]"
      by (simp_all add: stack_inv_def)
    then have cs: "draft_children (arena ! 0) = [1..<length arena]" using ne by (simp add: children_of_def)
    show ?thesis
    proof (cases "length arena = 1")
      case False
      moreover have "0 < length arena" using ne by simp
      ultimately have len: "length arena = 2" using st(2) by linarith
      have "draft_kind (arena ! 1) \<noteq> Document" using I(8) [of 1] len by simp
      moreover have "\<not> is_heading (draft_kind (arena ! 1))" using st(1) len by (auto simp: headings_def)
      ultimately have k: "draft_kind (arena ! 1) = Unstructured"
        by (cases "draft_kind (arena ! 1)") (auto simp: is_heading_def)
      then show ?thesis
        using fill_case True ne cs len
        by (simp add: append_content_block_def fill_def Let_def upt_rec numeral_2_eq_2)
    next
      case True_one: True
      let ?d = "with_block Unstructured None 1 b"
      have "arena_inv up (blocks @ [b]) (attach arena (chain_of stack ! 0) ?d) (bss @ [[b]]) (nums @ [[]])
             (take (Suc 0) (chain_of stack) @ [length arena])"
        by (rule arena_inv_attach [OF ai])
          (use I(8) [of 0] True_one ne draft_ok_unstructured [of up b] in
            \<open>auto simp: chain_of_def with_block_def is_heading_def\<close>)
      then have "arena_inv up (blocks @ [b]) (attach arena 0 ?d) (bss @ [[b]]) (nums @ [[]]) (chain_of stack)"
        using arena_inv_root by (simp add: chain_of_def True)
      moreover have "stack_inv (attach arena 0 ?d) stack seen (nums @ [[]])"
        using si True True_one st ne cs children_of_attach [of 0 arena ?d]
        by (auto simp: stack_inv_def headings_attach is_heading_def with_block_def hang_def)
      moreover have "append_content_block arena stack b = Inr (attach arena 0 ?d)"
        using True True_one cs ne by (cases arena) (simp_all add: append_content_block_def attach_def Let_def)
      ultimately show ?thesis by (auto simp: build_inv_def)
    qed
  qed
qed

lemma place_heading_ok:
  assumes inv: "build_inv up blocks (arena, stack, seen)"
    and sig: "detect_numbered_heading up (block_text b) = Some h"
    and par: "heading_parent (numbering h) stack seen = Some (parent, retained)"
  shows "\<exists>st'. place_heading h parent retained (arena, stack, seen) b = Inr st' \<and> build_inv up (blocks @ [b]) st'"
proof -
  from inv obtain bss nums where ai: "arena_inv up blocks arena bss nums (chain_of stack)"
    and si: "stack_inv arena stack seen nums" by (auto simp: build_inv_def)
  note I = arena_invD [OF ai] and H = heading_parent_Some [OF par] and B = detect_numbered_heading_bounds [OF sig]
  let ?num = "numbering h" and ?n = "length arena" and ?chain = "chain_of stack"
  have seen: "seen = (!) nums ` headings arena"
    and act: "\<And>k. k < length stack \<Longrightarrow> active_numbering (stack ! k) = nums ! active_node_id (stack ! k)
          \<and> active_node_id (stack ! k) \<in> headings arena"
    using si by (simp_all add: stack_inv_def)
  have ne: "0 < ?n" using last_path_bound [OF I(4), of 0] by (auto simp: chain_of_def)
  have r: "retained < length ?chain" and p: "parent = ?chain ! retained"
    using H(3) by (auto simp: chain_of_def)
  then have p_less: "parent < ?n" using last_path_bound [OF I(4)] by simp
  have nums0: "nums ! 0 = []" using I(7) [OF ne] I(8) [OF ne] by (simp add: draft_ok_def is_heading_def)
  have up_link: "butlast ?num = nums ! parent" "draft_kind (arena ! parent) \<noteq> Unstructured"
  proof -
    from H(3) act nums0 show "butlast ?num = nums ! parent" by (auto simp: length_Suc_conv)
    from H(3) act I(8) [OF ne] show "draft_kind (arena ! parent) \<noteq> Unstructured"
      by (fastforce simp: headings_def is_heading_def)
  qed
  have "length ?num < 2 ^ 32" using H(2) by (simp add: MAX_HEADING_DEPTH_def)
  then obtain level where level: "u32_try_from (length ?num) = Some level" by (simp add: u32_try_from_def)
  then have ul: "unat level = length ?num" by (simp add: u32_try_from_Some_iff)
  let ?kind = "if level = 1 then Section else Subsection"
  let ?d = "with_block ?kind (title h) level b"
  have one: "level = 1 \<longleftrightarrow> length ?num = 1" by (metis ul unat_1 unsigned_word_eqI)
  have hd: "is_heading ?kind" by (simp add: is_heading_def)
  have dok: "draft_ok up ?d [b] ?num"
    using sig ul one by (auto simp: draft_ok_def with_block_def is_heading_def)
  have fresh: "?num \<notin> (!) nums ` headings arena" using H(1) seen by simp
  let ?a = "attach arena parent ?d" and ?nums = "nums @ [?num]"
  let ?stack = "take retained stack @ [\<lparr>active_numbering = ?num, active_node_id = ?n\<rparr>]"
  have "arena_inv up (blocks @ [b]) (attach arena (?chain ! retained) ?d) (bss @ [[b]]) ?nums
          (take (Suc retained) ?chain @ [?n])"
    by (rule arena_inv_attach [OF ai r dok])
      (use up_link fresh hd in \<open>simp_all add: p [symmetric] with_block_def is_heading_def split: if_splits\<close>)
  moreover have "take (Suc retained) ?chain @ [?n] = chain_of ?stack"
    by (simp add: chain_of_def take_map)
  ultimately have ai': "arena_inv up (blocks @ [b]) ?a (bss @ [[b]]) ?nums (chain_of ?stack)"
    by (simp add: p)
  have hd': "headings ?a = insert ?n (headings arena)"
    using headings_attach [OF p_less, of ?d] hd by (simp add: with_block_def)
  have nth_old: "?nums ! i = nums ! i" if "i \<in> headings arena" for i
    using that I(2) by (simp add: headings_def nth_append)
  have nth_new: "?nums ! ?n = ?num" using I(2) by (simp add: nth_append)
  have "(!) ?nums ` headings ?a = insert ?num ((!) nums ` headings arena)"
    using nth_old nth_new unfolding hd' by (auto simp: image_iff)
  moreover have "active_numbering (?stack ! k) = ?nums ! active_node_id (?stack ! k)
      \<and> active_node_id (?stack ! k) \<in> headings ?a" if "k < length ?stack" for k
  proof (cases "k < length (take retained stack)")
    case True
    then have "?stack ! k = stack ! k" "k < length stack" by (simp_all add: nth_append_left)
    with act [of k] nth_old show ?thesis unfolding hd' by simp
  next
    case False
    with that have "k = length (take retained stack)" by (simp only: length_append list.size)
    then have "?stack ! k = \<lparr>active_numbering = ?num, active_node_id = ?n\<rparr>"
      by (simp only: nth_append_length)
    then show ?thesis using nth_new unfolding hd' by simp
  qed
  ultimately have si': "stack_inv ?a ?stack (insert ?num seen) ?nums"
    unfolding stack_inv_def by (simp add: seen)
  have "place_heading h parent retained (arena, stack, seen) b = Inr (?a, ?stack, insert ?num seen)"
    using level p_less by (simp add: place_heading_def Let_def attach_def nth_append)
  moreover have "build_inv up (blocks @ [b]) (?a, ?stack, insert ?num seen)"
    using ai' si' unfolding build_inv_def fst_conv snd_conv by blast
  ultimately show ?thesis by blast
qed

lemma place_block_ok:
  assumes "build_inv up blocks st"
  shows "\<exists>st'. place_block up st b = Inr st' \<and> build_inv up (blocks @ [b]) st'"
proof -
  obtain arena stack seen where st: "st = (arena, stack, seen)" by (cases st)
  note inv = assms [unfolded st]
  show ?thesis
  proof (cases "detect_numbered_heading up (block_text b)")
    case None
    with place_content [OF inv, of b] show ?thesis by (auto simp: st place_block_def)
  next
    case (Some h)
    show ?thesis
    proof (cases "heading_parent (numbering h) stack seen")
      case None
      with Some place_content [OF inv, of b] show ?thesis by (auto simp: st place_block_def)
    next
      case (Some pr)
      with \<open>detect_numbered_heading up (block_text b) = _\<close> place_heading_ok [OF inv, of b h "fst pr" "snd pr"]
      show ?thesis by (cases pr) (simp add: st place_block_def)
    qed
  qed
qed

lemma place_blocks_ok:
  "build_inv up blocks st \<Longrightarrow>
   \<exists>st'. res_fold (place_block up) st bs = Inr st' \<and> build_inv up (blocks @ bs) st'"
proof (induction bs arbitrary: blocks st)
  case Nil
  then show ?case by simp
next
  case (Cons b bs)
  from place_block_ok [OF Cons.prems, of b] obtain st1
    where "place_block up st b = Inr st1" "build_inv up (blocks @ [b]) st1" by blast
  with Cons.IH [OF this(2)] show ?case by simp
qed

text \<open>The loop never stops early and keeps every block, in order.\<close>

lemma build_arena_ok:
  "\<exists>st. build_arena up normalized = Inr st \<and> build_inv up (all_blocks normalized) st"
proof -
  have "\<exists>st'. res_fold (\<lambda>st page. res_fold (place_block up) st (content page)) st pages = Inr st'
          \<and> build_inv up (blocks @ concat (map content pages)) st'"
    if "build_inv up blocks st" for blocks st pages
    using that
  proof (induction pages arbitrary: blocks st)
    case Nil
    then show ?case by simp
  next
    case (Cons pg pages)
    from place_blocks_ok [OF Cons.prems, of "content pg"] obtain st1
      where "res_fold (place_block up) st (content pg) = Inr st1" "build_inv up (blocks @ content pg) st1" by blast
    with Cons.IH [OF this(2)] show ?case by simp
  qed
  from this [OF build_inv_start] show ?thesis by (simp add: build_arena_def all_blocks_def)
qed

section \<open>The materialized tree\<close>

text \<open>\<open>node_of arena j n\<close>: the node \<open>n\<close> carries what the draft \<open>j\<close> holds.\<close>

definition node_of :: "draft_node list \<Rightarrow> nat \<Rightarrow> structure_node \<Rightarrow> bool" where
  "node_of arena j n \<longleftrightarrow>
     node_kind n = draft_kind (arena ! j) \<and> node_title n = draft_title (arena ! j)
     \<and> node_level n = draft_level (arena ! j) \<and> node_block_ids n = draft_block_ids (arena ! j)
     \<and> node_source_spans n = draft_source_spans (arena ! j)
     \<and> length (node_children n) = length (children_of arena j)"

definition visit_of ::
  "(string \<Rightarrow> string) \<Rightarrow> string \<Rightarrow> string \<Rightarrow> draft_node list \<Rightarrow> nat
   \<Rightarrow> structure_node \<times> structure_node option \<times> u32 list \<Rightarrow> bool" where
  "visit_of sha d v arena j = (\<lambda>(n, parent, path).
     node_of arena j n \<and> length path = unat (draft_level (arena ! j)) + 1
     \<and> node_id n = deterministic_node_id sha d v path (node_kind n) (node_title n) (node_level n) (node_block_ids n)
     \<and> (case parent of None \<Rightarrow> j = 0
        | Some p \<Rightarrow> \<exists>i < length arena. j \<in> set (children_of arena i) \<and> node_of arena i p))"

lemma those_map_Some: "(\<And>x. x \<in> set xs \<Longrightarrow> f x = Some (g x)) \<Longrightarrow> those (map f xs) = Some (map g xs)"
  by (induction xs) auto

lemma materialize_visits:
  assumes wf: "wf_ch (length arena) (children_of arena)"
    and levels: "\<And>i c. i < length arena \<Longrightarrow> c \<in> set (children_of arena i)
                   \<Longrightarrow> unat (draft_level (arena ! c)) = unat (draft_level (arena ! i)) + 1"
  shows "i < length arena \<Longrightarrow> length arena - i \<le> f \<Longrightarrow> length path = unat (draft_level (arena ! i)) + 1 \<Longrightarrow>
    \<exists>t. materialize_node f sha arena i path d v = Some t \<and> node_of arena i t
       \<and> (\<forall>parent. (case parent of None \<Rightarrow> i = 0
                    | Some p \<Rightarrow> \<exists>j < length arena. i \<in> set (children_of arena j) \<and> node_of arena j p)
            \<longrightarrow> list_all2 (visit_of sha d v arena) (order f (children_of arena) i) (visits parent path t))"
proof (induction f arbitrary: i path)
  case 0
  then show ?case by simp
next
  case (Suc f)
  let ?cs = "children_of arena i" and ?path = "\<lambda>k. path @ [path_component k]"
  have cs: "draft_children (arena ! i) = ?cs" using Suc.prems by (simp add: children_of_def)
  define Q where "Q k c t \<longleftrightarrow> materialize_node f sha arena c (?path k) d v = Some t \<and> node_of arena c t
       \<and> (\<forall>parent. (case parent of None \<Rightarrow> c = 0
                    | Some p \<Rightarrow> \<exists>j < length arena. c \<in> set (children_of arena j) \<and> node_of arena j p)
            \<longrightarrow> list_all2 (visit_of sha d v arena) (order f (children_of arena) c) (visits parent (?path k) t))"
    for k c t
  have ex: "\<exists>t. Q k c t" if "c \<in> set ?cs" for k c
    unfolding Q_def using that wf_ch_child [OF wf Suc.prems(1) that] Suc.prems levels [OF Suc.prems(1) that]
    by (intro Suc.IH) auto
  define tr where "tr k c = (SOME t. Q k c t)" for k c
  have Q: "Q k c (tr k c)" if "c \<in> set ?cs" for k c
    unfolding tr_def by (rule someI_ex [OF ex [OF that]])
  let ?ts = "map (\<lambda>(k, c). tr k c) (enumerate 0 ?cs)"
  have those: "those (map (\<lambda>(k, c). materialize_node f sha arena c (?path k) d v) (enumerate 0 ?cs)) = Some ?ts"
    by (rule those_map_Some) (use Q in \<open>auto simp: Q_def in_set_enumerate_eq\<close>)
  let ?t = "StructureNode
     (deterministic_node_id sha d v path (draft_kind (arena ! i)) (draft_title (arena ! i))
        (draft_level (arena ! i)) (draft_block_ids (arena ! i)))
     (draft_kind (arena ! i)) (draft_title (arena ! i)) (draft_level (arena ! i))
     (draft_block_ids (arena ! i)) (draft_source_spans (arena ! i)) ?ts"
  have mat: "materialize_node (Suc f) sha arena i path d v = Some ?t"
    using those Suc.prems(1) by (simp add: Let_def cs)
  have node: "node_of arena i ?t" by (simp add: node_of_def)
  have kids: "list_all2 (visit_of sha d v arena) (concat (map (order f (children_of arena)) ?cs))
      (concat (map (\<lambda>(k, c). visits (Some ?t) (?path k) c) (enumerate 0 ?ts)))"
  proof (rule length_concat_enumerate_rel)
    fix k assume k: "k < length ?cs"
    then have c: "?cs ! k \<in> set ?cs" by simp
    have "?ts ! k = tr k (?cs ! k)" using k by (simp add: nth_enumerate_eq)
    moreover have "\<exists>j < length arena. ?cs ! k \<in> set (children_of arena j) \<and> node_of arena j ?t"
      using c node Suc.prems(1) by blast
    moreover have "(case Some ?t of None \<Rightarrow> ?cs ! k = 0
          | Some p \<Rightarrow> \<exists>j < length arena. ?cs ! k \<in> set (children_of arena j) \<and> node_of arena j p)
        \<longrightarrow> list_all2 (visit_of sha d v arena) (order f (children_of arena) (?cs ! k))
              (visits (Some ?t) (?path k) (tr k (?cs ! k)))"
      using Q [OF c, of k] unfolding Q_def by (elim conjE allE [of _ "Some ?t"])
    ultimately show "list_all2 (visit_of sha d v arena) (order f (children_of arena) (?cs ! k))
        (visits (Some ?t) (?path (0 + k)) (?ts ! k))"
      by simp
  qed simp
  have "list_all2 (visit_of sha d v arena) (order (Suc f) (children_of arena) i) (visits parent path ?t)"
    if "case parent of None \<Rightarrow> i = 0
        | Some p \<Rightarrow> \<exists>j < length arena. i \<in> set (children_of arena j) \<and> node_of arena j p" for parent
    using kids that node Suc.prems(3)
    by (simp add: visits.simps [of parent path ?t] visit_of_def)
  with mat node show ?case by blast
qed

section \<open>The validated input\<close>

lemma validate_input_blocks:
  "res_fold (validate_input_block page) ids bs = Inr ids' \<Longrightarrow>
     distinct (map block_id bs) \<and> set (map block_id bs) \<inter> ids = {} \<and> ids' = ids \<union> set (map block_id bs)"
proof (induction bs arbitrary: ids)
  case Nil
  then show ?case by simp
next
  case (Cons b bs)
  from Cons.prems have fresh: "block_id b \<notin> ids"
    and "res_fold (validate_input_block page) (insert (block_id b) ids) bs = Inr ids'"
    by (auto simp: validate_input_block_def [of page ids b] res_simps)
  with Cons.IH [OF this(2)] show ?case by auto
qed

lemma validate_input_pages:
  "res_fold validate_input_page (k, ids) pages = Inr st \<Longrightarrow>
     distinct (map block_id (concat (map content pages)))
     \<and> set (map block_id (concat (map content pages))) \<inter> ids = {}"
proof (induction pages arbitrary: k ids)
  case Nil
  then show ?case by simp
next
  case (Cons pg pages)
  from Cons.prems obtain ids' where pg: "res_fold (validate_input_block pg) ids (content pg) = Inr ids'"
    and rest: "res_fold validate_input_page (Suc k, ids') pages = Inr st"
    by (auto simp: validate_input_page_def [of "(k, ids)" pg] res_simps)
  from validate_input_blocks [OF pg] Cons.IH [OF rest] show ?case
    by (simp add: image_Un Int_Un_distrib Int_commute) blast
qed

lemma validated_blocks_distinct:
  "validate_normalized_input n = Inr () \<Longrightarrow> distinct (map block_id (all_blocks n))"
  by (auto simp: validate_normalized_input_def all_blocks_def res_simps dest: validate_input_pages)

lemma block_lookup_of_own:
  "distinct (map block_id (all_blocks n)) \<Longrightarrow> b \<in> set (all_blocks n) \<Longrightarrow> block_lookup_of n (block_id b) = Some b"
  unfolding block_lookup_of_def by (rule map_of_is_SomeI) (auto simp: rev_map [symmetric] comp_def)

section \<open>The interpreter accepts its own output\<close>

lemma be_bytes_list_inj:
  "length ps = length qs \<Longrightarrow> concat (map be_bytes_u32 ps) @ xs = concat (map be_bytes_u32 qs) @ ys \<Longrightarrow> ps = qs"
proof (induction ps qs rule: list_induct2)
  case Nil
  then show ?case by simp
next
  case (Cons p ps q qs)
  then have "be_bytes_u32 p @ (concat (map be_bytes_u32 ps) @ xs) = be_bytes_u32 q @ (concat (map be_bytes_u32 qs) @ ys)"
    by simp
  then have "be_bytes_u32 p = be_bytes_u32 q"
    "concat (map be_bytes_u32 ps) @ xs = concat (map be_bytes_u32 qs) @ ys"
    by (simp_all add: append_eq_append_conv)
  with Cons.IH show ?case by (simp add: be_bytes_u32_inj)
qed

lemma node_preimage_path:
  assumes eq: "node_preimage d v p k t l bs = node_preimage d v q k' t' l' bs'"
    and len: "length p = unat l + 1" "length q = unat l' + 1"
  shows "p = q"
proof -
  from eq have tags: "node_kind_tag k @ (be_bytes_u32 l @ concat (map be_bytes_u32 p) @ CHR 0x00 # (case t of None \<Rightarrow> [] | Some t \<Rightarrow> t)
         @ concat (map (\<lambda>b. CHR 0x00 # b) bs))
      = node_kind_tag k' @ (be_bytes_u32 l' @ concat (map be_bytes_u32 q) @ CHR 0x00 # (case t' of None \<Rightarrow> [] | Some t \<Rightarrow> t)
         @ concat (map (\<lambda>b. CHR 0x00 # b) bs'))"
    by (simp add: node_preimage_def)
  then have "k = k'" by (cases k; cases k') simp_all
  with tags have bytes: "be_bytes_u32 l @ concat (map be_bytes_u32 p) @ xs = be_bytes_u32 l' @ concat (map be_bytes_u32 q) @ ys"
    if "xs = CHR 0x00 # (case t of None \<Rightarrow> [] | Some t \<Rightarrow> t) @ concat (map (\<lambda>b. CHR 0x00 # b) bs)"
      "ys = CHR 0x00 # (case t' of None \<Rightarrow> [] | Some t \<Rightarrow> t) @ concat (map (\<lambda>b. CHR 0x00 # b) bs')" for xs ys
    using that by simp
  then obtain xs ys where *: "be_bytes_u32 l @ (concat (map be_bytes_u32 p) @ xs) = be_bytes_u32 l' @ (concat (map be_bytes_u32 q) @ ys)"
    by blast
  then have "be_bytes_u32 l = be_bytes_u32 l'"
    and paths: "concat (map be_bytes_u32 p) @ xs = concat (map be_bytes_u32 q) @ ys"
    by (simp_all add: append_eq_append_conv)
  with len have "length p = length q" by (simp add: be_bytes_u32_inj)
  then show ?thesis using paths by (rule be_bytes_list_inj)
qed

definition tree_preimages :: "string \<Rightarrow> string \<Rightarrow> structure_node \<Rightarrow> string list" where
  "tree_preimages d v root =
     map (\<lambda>(n, _, path). node_preimage d v path (node_kind n) (node_title n) (node_level n) (node_block_ids n))
       (visits None [0] root)"

end
