(* ===== verification/Structure_Correct.thy ===== *)
theory Structure_Correct
  imports Structure_Build
begin

text \<open>
  The properties of \<open>pipeline/structure.rs\<close>: the interpreter never panics, never rejects its own
  output unless two node digests collide, and owns every block exactly once in document order; and
  what the validator accepts from any interpreter.
\<close>

section \<open>The finished tree\<close>

lemma draft_ok_numbered:
  assumes "draft_ok up d bs num"
  shows "is_heading (draft_kind d) \<longleftrightarrow> num \<noteq> []"
proof (cases "is_heading (draft_kind d)")
  case True
  with assms have "detect_numbered_heading up (block_text (hd bs)) = Some \<lparr>numbering = num, title = draft_title d\<rparr>"
    by (simp add: draft_ok_def)
  from detect_numbered_heading_bounds(1) [OF this] True show ?thesis by simp
next
  case False
  with assms show ?thesis by (simp add: draft_ok_def)
qed

lemma arena_levels:
  assumes inv: "arena_inv up blocks arena bss nums chain"
    and i: "i < length arena" "c \<in> set (children_of arena i)"
  shows "unat (draft_level (arena ! c)) = unat (draft_level (arena ! i)) + 1"
proof -
  note I = arena_invD [OF inv]
  have c: "i < c" "c < length arena" using wf_ch_child [OF I(3) i] by auto
  note e = I(10) [OF i] and dc = I(7) [OF c(2)] and di = I(7) [OF i(1)]
  show ?thesis
  proof (cases "is_heading (draft_kind (arena ! c))")
    case True
    then have "nums ! c \<noteq> []" using draft_ok_numbered [OF dc] by simp
    moreover have "butlast (nums ! c) = nums ! i" using e True by (simp add: edge_ok_def)
    ultimately have "length (nums ! c) = length (nums ! i) + 1" by (metis Suc_eq_plus1 length_append_singleton snoc_eq_iff_butlast)
    then show ?thesis using dc di e True by (auto simp: draft_ok_def edge_ok_def is_heading_def)
  next
    case False
    then have "draft_kind (arena ! c) = Unstructured"
      using I(8) [OF c(2)] c(1) by (cases "draft_kind (arena ! c)") (auto simp: is_heading_def)
    moreover have "i = 0" using e False by (simp add: edge_ok_def)
    ultimately show ?thesis using dc di I(8) [OF i(1)] by (simp add: draft_ok_def is_heading_def)
  qed
qed

text \<open>No node has more than a thousand children: the numberings of siblings differ in one component.\<close>

lemma arena_fan_out:
  assumes inv: "arena_inv up blocks arena bss nums chain" and i: "i < length arena"
  shows "length (children_of arena i) \<le> 1000"
proof -
  note I = arena_invD [OF inv]
  let ?cs = "set (children_of arena i)" and ?hs = "set (children_of arena i) \<inter> headings arena"
  have heading: "nums ! c \<noteq> []" "butlast (nums ! c) = nums ! i" "component_ok (last (nums ! c))" if "c \<in> ?hs" for c
  proof -
    have c: "c < length arena" "is_heading (draft_kind (arena ! c))" using that by (auto simp: headings_def)
    then obtain t where "detect_numbered_heading up (block_text (hd (bss ! c))) = Some \<lparr>numbering = nums ! c, title = t\<rparr>"
      using I(7) [OF c(1)] by (auto simp: draft_ok_def)
    from detect_numbered_heading_bounds [OF this] show "nums ! c \<noteq> []" "component_ok (last (nums ! c))"
      by (auto simp: list_all_iff)
    show "butlast (nums ! c) = nums ! i" using I(10) [OF i, of c] that c(2) by (simp add: edge_ok_def)
  qed
  let ?f = "\<lambda>c. unat (last (nums ! c))"
  have "inj_on ?f ?hs"
  proof (rule inj_onI)
    fix a b assume ab: "a \<in> ?hs" "b \<in> ?hs" "?f a = ?f b"
    then have "last (nums ! a) = last (nums ! b)" by (simp add: unsigned_word_eqI)
    with heading [OF ab(1)] heading [OF ab(2)] have "nums ! a = nums ! b"
      by (metis append_butlast_last_id)
    with ab I(11) show "a = b" by (auto simp: inj_on_def)
  qed
  moreover have "?f ` ?hs \<subseteq> {1..999}"
    using heading(3) by (auto simp: component_ok_def MAX_HEADING_COMPONENT_def)
  ultimately have "card ?hs \<le> 999" using card_inj_on_le [of ?f ?hs "{1..999}"] by simp
  moreover have "?cs - headings arena \<subseteq> {1}"
  proof
    fix c assume c: "c \<in> ?cs - headings arena"
    then have "i < c" "c < length arena" using wf_ch_child [OF I(3) i] by auto
    with c I(8,9) [of c] show "c \<in> {1}"
      by (cases "draft_kind (arena ! c)") (auto simp: headings_def is_heading_def)
  qed
  then have "card (?cs - headings arena) \<le> card {1 :: nat}" by (rule card_mono [rotated]) simp
  then have "card (?cs - headings arena) \<le> 1" by simp
  moreover have "card ?cs = card ?hs + card (?cs - headings arena)"
    using card_Int_Diff [of ?cs "headings arena"] by simp
  moreover have "card ?cs = length (children_of arena i)"
    using wf_ch_distinct [OF I(3) i] by (rule distinct_card)
  ultimately show ?thesis by linarith
qed

lemma build_tree_ok:
  obtains root arena bss nums chain where
    "build_tree sha up n = Inr root"
    "arena_inv up (all_blocks n) arena bss nums chain"
    "list_all2 (visit_of sha (normalized_document_id n) STRUCTURE_VERSION arena)
       [0..<length arena] (visits None [0] root)"
proof -
  from build_arena_ok [of up n] obtain arena stack seen bss nums
    where ba: "build_arena up n = Inr (arena, stack, seen)"
      and ai: "arena_inv up (all_blocks n) arena bss nums (chain_of stack)"
    by (auto simp: build_inv_def)
  note I = arena_invD [OF ai]
  have ne: "0 < length arena" using last_path_bound [OF I(4), of 0] by (auto simp: chain_of_def)
  have "length [0 :: u32] = unat (draft_level (arena ! 0)) + 1"
    using I(7) [OF ne] I(8) [OF ne] by (simp add: draft_ok_def is_heading_def)
  from materialize_visits [OF I(3) arena_levels [OF ai] ne _ this, of "length arena" sha
      "normalized_document_id n" STRUCTURE_VERSION]
  obtain root where mat: "materialize_node (length arena) sha arena 0 [0] (normalized_document_id n) STRUCTURE_VERSION = Some root"
    and "(case None of None \<Rightarrow> (0 :: nat) = 0 | Some p \<Rightarrow> \<exists>j < length arena. 0 \<in> set (children_of arena j) \<and> node_of arena j p)
       \<longrightarrow> list_all2 (visit_of sha (normalized_document_id n) STRUCTURE_VERSION arena)
             (order (length arena) (children_of arena) 0) (visits None [0] root)"
    by auto
  then have "list_all2 (visit_of sha (normalized_document_id n) STRUCTURE_VERSION arena) [0..<length arena] (visits None [0] root)"
    using I(5) by simp
  moreover have "build_tree sha up n = Inr root" using ba mat by (simp add: build_tree_def)
  ultimately have "build_tree sha up n = Inr root"
    "list_all2 (visit_of sha (normalized_document_id n) STRUCTURE_VERSION arena) [0..<length arena] (visits None [0] root)"
    by blast+
  with ai show ?thesis by (intro that)
qed

lemma built_blocks:
  assumes inv: "arena_inv up blocks arena bss nums chain"
    and vis: "list_all2 (visit_of sha d v arena) [0..<length arena] (visits None [0] root)"
  shows "owned_blocks root = map block_id blocks"
proof -
  note I = arena_invD [OF inv]
  have len: "length (visits None [0] root) = length arena" using list_all2_lengthD [OF vis] by simp
  have "map node_block_ids (nodes_of root) = map (map block_id) bss"
  proof (rule nth_equalityI)
    show "length (map node_block_ids (nodes_of root)) = length (map (map block_id) bss)"
      using len I(1) by (simp add: nodes_of_def)
    fix j assume "j < length (map node_block_ids (nodes_of root))"
    then have j: "j < length arena" using len by (simp add: nodes_of_def)
    with list_all2_nthD [OF vis, of j] have "visit_of sha d v arena j (visits None [0] root ! j)" by simp
    then show "map node_block_ids (nodes_of root) ! j = map (map block_id) bss ! j"
      using j len I(1) I(7) [OF j]
      by (auto simp: nodes_of_def visit_of_def node_of_def draft_ok_def split: prod.splits)
  qed
  then show ?thesis by (simp add: owned_blocks_def map_concat [symmetric] I(6))
qed

lemma unat_eq_one: "unat (w :: u32) = 1 \<Longrightarrow> w = 1"
  by (metis unat_1 unsigned_word_eqI)

lemma unat_eq_zero: "unat (w :: u32) = 0 \<Longrightarrow> w = 0"
  by (metis unat_0 unsigned_word_eqI)

lemma visit_parent:
  assumes inv: "arena_inv up blocks arena bss nums chain" and j: "j < length arena"
    and v: "visit_of sha d v arena j (node, parent, path)"
  shows "if j = 0 then parent = None
         else \<exists>p i. parent = Some p \<and> i < length arena \<and> node_of arena i p \<and> edge_ok arena nums i j
                \<and> unat (draft_level (arena ! j)) = unat (draft_level (arena ! i)) + 1"
proof -
  note I = arena_invD [OF inv]
  from v have par: "case parent of None \<Rightarrow> j = 0
        | Some p \<Rightarrow> \<exists>i < length arena. j \<in> set (children_of arena i) \<and> node_of arena i p"
    by (simp add: visit_of_def)
  show ?thesis
  proof (cases parent)
    case None
    with par show ?thesis by simp
  next
    case (Some p)
    with par obtain i where i: "i < length arena" "j \<in> set (children_of arena i)" "node_of arena i p" by auto
    have "j \<noteq> 0" using wf_ch_child [OF I(3) i(1,2)] by simp
    with Some i I(10) [OF i(1,2)] arena_levels [OF inv i(1,2)] show ?thesis by auto
  qed
qed

lemma built_shape:
  assumes inv: "arena_inv up blocks arena bss nums chain" and j: "j < length arena"
    and v: "visit_of sha d v arena j (node, parent, path)"
  shows "shape_ok node parent"
proof -
  note I = arena_invD [OF inv] and dj = arena_invD(7) [OF inv j] and par = visit_parent [OF inv j v]
  have node: "node_of arena j node" using v by (simp add: visit_of_def)
  have ids: "node_block_ids node = map block_id (bss ! j)" using node dj by (simp add: node_of_def draft_ok_def)
  show ?thesis
  proof (cases "j = 0")
    case True
    with I(8) [OF j] have "draft_kind (arena ! j) = Document" by simp
    with dj node par True show ?thesis
      by (simp add: shape_ok_def node_of_def draft_ok_def is_heading_def unat_eq_zero)
  next
    case False
    with par obtain p i where p: "parent = Some p" and i: "i < length arena" "node_of arena i p"
      and e: "edge_ok arena nums i j" and lev: "unat (draft_level (arena ! j)) = unat (draft_level (arena ! i)) + 1"
      by auto
    note di = I(7) [OF i(1)]
    have "draft_kind (arena ! j) \<noteq> Document" using I(8) [OF j] False by simp
    then have ids_ne: "node_block_ids node \<noteq> []" using dj ids by (simp add: draft_ok_def)
    note hd_i = draft_ok_numbered [OF di]
    have not_un: "draft_kind (arena ! i) \<noteq> Unstructured" using e by (simp add: edge_ok_def)
    show ?thesis
    proof (cases "is_heading (draft_kind (arena ! j))")
      case False
      then have "draft_kind (arena ! j) = Unstructured"
        using \<open>draft_kind (arena ! j) \<noteq> Document\<close> by (cases "draft_kind (arena ! j)") (auto simp: is_heading_def)
      moreover have "i = 0" using e False by (simp add: edge_ok_def)
      ultimately show ?thesis
        using dj node p i I(8) [OF i(1)] ids_ne False
        by (simp add: shape_ok_def node_of_def draft_ok_def is_heading_def unat_eq_one)
    next
      case True
      then have det: "detect_numbered_heading up (block_text (hd (bss ! j)))
            = Some \<lparr>numbering = nums ! j, title = draft_title (arena ! j)\<rparr>"
        and but: "butlast (nums ! j) = nums ! i"
        and lj: "unat (draft_level (arena ! j)) = length (nums ! j)"
        and sec: "draft_kind (arena ! j) = Section \<longleftrightarrow> length (nums ! j) = 1"
        using dj e by (auto simp: draft_ok_def edge_ok_def is_heading_def)
      note B = detect_numbered_heading_bounds [OF det, simplified]
      have len: "length (nums ! i) = length (nums ! j) - 1" using but by (metis length_butlast)
      show ?thesis
      proof (cases "draft_kind (arena ! j) = Section")
        case True
        then have "nums ! i = []" using sec len by simp
        then have "draft_kind (arena ! i) = Document"
          using hd_i not_un by (cases "draft_kind (arena ! i)") (auto simp: is_heading_def)
        moreover have "draft_level (arena ! j) = 1" using True sec lj by (simp add: unat_eq_one)
        ultimately show ?thesis
          using True node p i ids_ne by (simp add: shape_ok_def node_of_def)
      next
        case False
        with \<open>is_heading (draft_kind (arena ! j))\<close> have sub: "draft_kind (arena ! j) = Subsection"
          by (simp add: is_heading_def)
        have "nums ! i \<noteq> []" using False sec len B(1) by (cases "nums ! j") auto
        then have "draft_kind (arena ! i) \<in> {Section, Subsection}" using hd_i by (auto simp: is_heading_def)
        moreover have "checked_add_u32 (draft_level (arena ! i)) 1 = Some (draft_level (arena ! j))"
          using lev by (simp add: checked_add_u32_Some_iff)
        ultimately show ?thesis
          using sub node p i ids_ne lj lev B(2) by (auto simp: shape_ok_def node_of_def is_heading_def)
      qed
    qed
  qed
qed

lemma built_signal:
  assumes inv: "arena_inv up blocks arena bss nums chain" and j: "j < length arena"
    and node: "node_of arena j node" and lk: "\<And>b. b \<in> set blocks \<Longrightarrow> lk (block_id b) = Some b"
    and hd: "is_heading (draft_kind (arena ! j))"
  shows "signal_of up lk node = Some \<lparr>numbering = nums ! j, title = node_title node\<rparr>"
proof -
  note I = arena_invD [OF inv] and dj = arena_invD(7) [OF inv j]
  have "bss ! j \<noteq> []" using dj hd by (auto simp: draft_ok_def is_heading_def)
  then obtain b bs where bj: "bss ! j = b # bs" by (cases "bss ! j") auto
  have "b \<in> set (concat bss)" 
    using j I(1) bj nth_mem [of j bss] by (metis UN_I list.set_intros(1) set_concat)
  then have "lk (block_id b) = Some b" using lk I(6) by simp
  moreover have "node_block_ids node = block_id b # map block_id bs"
    using node dj bj by (simp add: node_of_def draft_ok_def)
  ultimately show ?thesis using dj hd bj node by (simp add: signal_of_def draft_ok_def node_of_def)
qed

lemma built_node_valid:
  assumes inv: "arena_inv up blocks arena bss nums chain" and j: "j < length arena"
    and v: "visit_of sha d v arena j (node, parent, path)"
    and lk: "\<And>b. b \<in> set blocks \<Longrightarrow> lk (block_id b) = Some b"
  shows "node_valid sha up d v lk (node, parent, path)"
proof -
  note I = arena_invD [OF inv] and dj = arena_invD(7) [OF inv j] and par = visit_parent [OF inv j v]
  have node: "node_of arena j node" using v by (simp add: visit_of_def)
  have kind: "node_kind node = draft_kind (arena ! j)" using node by (simp add: node_of_def)
  have "heading_ok up lk node parent" if hd: "is_heading (node_kind node)"
  proof -
    note sig = built_signal [OF inv j node lk hd [unfolded kind]]
    have "length (nums ! j) = unat (node_level node)"
      using dj hd node by (auto simp: draft_ok_def node_of_def is_heading_def)
    moreover have "\<exists>p sp. parent = Some p \<and> signal_of up lk p = Some sp \<and> butlast (nums ! j) = numbering sp"
      if sub: "node_kind node = Subsection"
    proof -
      have "j \<noteq> 0" using I(8) [OF j] sub kind by auto
      with par obtain p i where p: "parent = Some p" and i: "i < length arena" "node_of arena i p"
        and e: "edge_ok arena nums i j" by auto
      have but: "butlast (nums ! j) = nums ! i" using e hd kind by (simp add: edge_ok_def)
      have "length (nums ! j) \<noteq> 1" using dj sub kind by (simp add: draft_ok_def is_heading_def)
      moreover have "nums ! j \<noteq> []" using draft_ok_numbered [OF dj] hd kind by simp
      ultimately have "nums ! i \<noteq> []" using but by (cases "nums ! j") auto
      then have "is_heading (draft_kind (arena ! i))" using draft_ok_numbered [OF I(7) [OF i(1)]] by simp
      from built_signal [OF inv i lk this] p but show ?thesis by simp
    qed
    ultimately show ?thesis using sig by (simp add: heading_ok_def)
  qed
  moreover have "list_all2 (\<lambda>b s. \<exists>blk. lk b = Some blk \<and> s = block_source blk)
      (node_block_ids node) (node_source_spans node)"
  proof -
    have "lk (block_id b) = Some b" if "b \<in> set (bss ! j)" for b
      using that j I(1,6) lk by (metis UN_I nth_mem set_concat)
    then show ?thesis using node dj
      by (auto simp: node_of_def draft_ok_def list_all2_map1 list_all2_map2 list_all2_same)
  qed
  moreover have "shape_ok node parent" by (rule built_shape [OF inv j v])
  moreover have "node_id node = deterministic_node_id sha d v path (node_kind node) (node_title node)
      (node_level node) (node_block_ids node)" using v by (simp add: visit_of_def)
  ultimately show ?thesis by (simp add: node_valid_def)
qed

lemma built_numbers:
  assumes inv: "arena_inv up blocks arena bss nums chain"
    and vis: "list_all2 (visit_of sha d v arena) [0..<length arena] (visits None [0] root)"
    and lk: "\<And>b. b \<in> set blocks \<Longrightarrow> lk (block_id b) = Some b"
  shows "concat (map (node_numbers up lk) (nodes_of root))
    = map ((!) nums) (filter (\<lambda>j. j \<in> headings arena) [0..<length arena])"
proof -
  have len: "length (nodes_of root) = length arena"
    using list_all2_lengthD [OF vis] by (simp add: nodes_of_def)
  have "map (node_numbers up lk) (nodes_of root)
      = map (\<lambda>j. if j \<in> headings arena then [nums ! j] else []) [0..<length arena]"
  proof (rule nth_equalityI)
    show "length (map (node_numbers up lk) (nodes_of root)) =
        length (map (\<lambda>j. if j \<in> headings arena then [nums ! j] else []) [0..<length arena])"
      using len by simp
    fix j assume "j < length (map (node_numbers up lk) (nodes_of root))"
    then have j: "j < length arena" using len by simp
    with list_all2_nthD [OF vis, of j] have "visit_of sha d v arena j (visits None [0] root ! j)" by simp
    then have node: "node_of arena j (nodes_of root ! j)"
      using j len by (auto simp: nodes_of_def visit_of_def split: prod.splits)
    then have "node_kind (nodes_of root ! j) = draft_kind (arena ! j)" by (simp add: node_of_def)
    then show "map (node_numbers up lk) (nodes_of root) ! j =
        map (\<lambda>j. if j \<in> headings arena then [nums ! j] else []) [0..<length arena] ! j"
      using j len built_signal [OF inv j node lk] by (simp add: node_numbers_def headings_def)
  qed
  moreover have "concat (map (\<lambda>j. if j \<in> headings arena then [nums ! j] else []) js)
      = map ((!) nums) (filter (\<lambda>j. j \<in> headings arena) js)" for js
    by (induction js) auto
  ultimately show ?thesis by simp
qed

lemma built_ids_distinct:
  assumes fan: "\<forall>x \<in> set (visits None [0] root). fan_out_ok (fst x)"
    and vis: "list_all2 (visit_of sha d v arena) [0..<length arena] (visits None [0] root)"
    and inj: "inj_on sha (set (tree_preimages d v root))"
  shows "distinct (map node_id (nodes_of root))"
proof -
  let ?vs = "visits None [0] root"
  let ?pre = "\<lambda>(n, _, path). node_preimage d v path (node_kind n) (node_title n) (node_level n) (node_block_ids n)"
  have each: "node_id (fst x) = ''sn-'' @ sha (?pre x)
      \<and> length (snd (snd x)) = unat (node_level (fst x)) + 1" if "x \<in> set ?vs" for x
  proof -
    from that obtain k where k: "k < length ?vs" "x = ?vs ! k" by (auto simp: in_set_conv_nth)
    with list_all2_nthD2 [OF vis, of k] have "visit_of sha d v arena ([0..<length arena] ! k) x" by simp
    then show ?thesis by (cases x) (auto simp: visit_of_def node_of_def deterministic_node_id_def)
  qed
  have paths: "distinct (map (\<lambda>(n, p, q). q) ?vs)" by (rule visits_paths_distinct [OF fan])
  have "inj_on (node_id \<circ> fst) (set ?vs)"
  proof (rule inj_onI)
    fix x y assume xy: "x \<in> set ?vs" "y \<in> set ?vs" "(node_id \<circ> fst) x = (node_id \<circ> fst) y"
    then have "sha (?pre x) = sha (?pre y)" using each by simp
    moreover have "?pre x \<in> set (tree_preimages d v root)" "?pre y \<in> set (tree_preimages d v root)"
      unfolding tree_preimages_def using xy by (simp_all add: image_iff) (blast+)
    ultimately have "?pre x = ?pre y" using inj by (auto dest: inj_onD)
    then have "snd (snd x) = snd (snd y)"
      using each [OF xy(1)] each [OF xy(2)] by (cases x; cases y) (auto dest: node_preimage_path)
    with paths xy(1,2) show "x = y"
      by (auto simp: distinct_map inj_on_def case_prod_unfold)
  qed
  moreover have "distinct ?vs" using paths by (simp add: distinct_map)
  ultimately show ?thesis by (simp add: nodes_of_def distinct_map comp_def)
qed

lemma built_tree_valid:
  assumes inv: "arena_inv up blocks arena bss nums chain"
    and vis: "list_all2 (visit_of sha d v arena) [0..<length arena] (visits None [0] root)"
    and lk: "\<And>b. b \<in> set blocks \<Longrightarrow> lk (block_id b) = Some b"
    and inj: "inj_on sha (set (tree_preimages d v root))"
  shows "tree_valid sha up d v lk root"
proof -
  let ?vs = "visits None [0] root"
  have at: "\<exists>j < length arena. visit_of sha d v arena j x" if "x \<in> set ?vs" for x
  proof -
    from that obtain k where k: "k < length ?vs" "x = ?vs ! k" by (auto simp: in_set_conv_nth)
    with list_all2_nthD2 [OF vis, of k] list_all2_lengthD [OF vis] show ?thesis
      by (intro exI [of _ k]) simp
  qed
  have fan: "\<forall>x \<in> set ?vs. fan_out_ok (fst x)"
  proof
    fix x assume "x \<in> set ?vs"
    from at [OF this] obtain j where "j < length arena" "visit_of sha d v arena j x" by blast
    with arena_fan_out [OF inv, of j] show "fan_out_ok (fst x)"
      by (cases x) (simp add: fan_out_ok_def visit_of_def node_of_def)
  qed
  moreover have "node_valid sha up d v lk x" if "x \<in> set ?vs" for x
    using at [OF that] built_node_valid [OF inv _ _ lk] by (cases x) blast
  moreover have "distinct (map ((!) nums) (filter (\<lambda>j. j \<in> headings arena) [0..<length arena]))"
    using arena_invD(11) [OF inv] by (auto simp: distinct_map intro: inj_on_subset)
  ultimately show ?thesis
    unfolding tree_valid_def using built_ids_distinct [OF fan vis inj] built_numbers [OF inv vis lk] by simp
qed

section \<open>What the interpreter returns\<close>

lemma ensure_iff_case: "(case xs of [x] \<Rightarrow> f x | _ \<Rightarrow> Inl e) = Inr y \<longleftrightarrow> (\<exists>x. xs = [x] \<and> f x = Inr y)"
  by (auto split: list.splits)

text \<open>
  C12. Validation of a structured document, the interpreter's or anybody else's, is exactly this: the
  input is valid; identity, version, warnings and pages are preserved; and there is one root whose
  tree owns the blocks of the document, each once and in order, has distinct node ids and distinct
  heading numberings, and every node of which has the form its kind asks for below its parent
  (\<open>shape_ok\<close>, spelled out for kind, level, title and ownership), carries the title, the level and
  the numbering of the heading line of its first block when it is a heading, the spans of its blocks,
  and the digest of its place and content as identity.
\<close>

theorem validate_structured_exact:
  "validate_structured_document sha up s n expected = Inr () \<longleftrightarrow>
     validate_normalized_input n = Inr ()
     \<and> structured_document_id s = normalized_document_id n
     \<and> structure_version s = expected \<and> \<not> blank expected
     \<and> structured_warnings s = normalized_warnings n
     \<and> structured_pages s = map structure_page_of (normalized_pages n)
     \<and> (\<exists>root. structured_nodes s = [root]
          \<and> tree_valid sha up (normalized_document_id n) expected (block_lookup_of n) root
          \<and> owned_blocks root = map block_id (all_blocks n))"
proof -
  have page: "structure_page_number x = page_number y \<and> structure_page_warnings x = page_warnings y
      \<and> structure_requires_visual x = requires_visual_processing y \<longleftrightarrow> x = structure_page_of y" for x y
    by (auto simp: structure_page_of_def)
  have pages: "length xs = length ys \<and> list_all (\<lambda>(x, y). x = structure_page_of y) (zip xs ys)
      \<longleftrightarrow> xs = map structure_page_of ys" for xs ys
    by (auto simp: list_all_length list_eq_iff_nth_eq)
  have tree: "(\<exists>x. validate_node sha up d v lk root None [0] ([], {}, {}) = Inr x
        \<and> (case x of (refs, _, _) \<Rightarrow> ensure (refs = bs) e) = Inr ())
      \<longleftrightarrow> tree_valid sha up d v lk root \<and> owned_blocks root = bs" for d v lk root bs e
    by (auto simp: validate_root_Inr_iff ensure_Inr_iff)
  show ?thesis
    unfolding validate_structured_document_def res_bind_Inr_iff ensure_Inr_iff ensure_iff_case tree
    using pages [of "structured_pages s" "normalized_pages n"] by (auto simp: page)
qed

lemma STRUCTURE_VERSION_not_blank: "\<not> blank STRUCTURE_VERSION"
  by (simp add: STRUCTURE_VERSION_def blank_ascii_Cons byte_def is_whitespace_def)

text \<open>
  C11. On an invalid input the interpreter returns the validator's error. On a valid one, unless two
  of the tree's node digests collide, it returns one document tree that it accepts itself, and the
  tree owns every block of the document exactly once, in document order. It never panics: no index
  into the arena is out of range and the recursion over it ends.
\<close>

theorem interpret_structure_exact:
  assumes "\<And>root. build_tree sha up n = Inr root \<Longrightarrow>
             inj_on sha (set (tree_preimages (normalized_document_id n) STRUCTURE_VERSION root))"
  shows "case validate_normalized_input n of
      Inl e \<Rightarrow> interpret_structure sha up n = Inl (Failure e)
    | Inr _ \<Rightarrow> \<exists>s root. interpret_structure sha up n = Inr s
        \<and> validate_structured_document sha up s n STRUCTURE_VERSION = Inr ()
        \<and> structured_nodes s = [root] \<and> owned_blocks root = map block_id (all_blocks n)
        \<and> structured_pages s = map structure_page_of (normalized_pages n)"
proof (cases "validate_normalized_input n")
  case (Inl e)
  then show ?thesis by (simp add: interpret_structure_def)
next
  case (Inr u)
  then have valid: "validate_normalized_input n = Inr ()" by simp
  from build_tree_ok [of sha up n] obtain root arena bss nums chain where
    root: "build_tree sha up n = Inr root" and inv: "arena_inv up (all_blocks n) arena bss nums chain"
    and vis: "list_all2 (visit_of sha (normalized_document_id n) STRUCTURE_VERSION arena)
       [0..<length arena] (visits None [0] root)" by blast
  define s where "s = \<lparr>structured_document_id = normalized_document_id n,
      structure_version = STRUCTURE_VERSION,
      structured_pages = map structure_page_of (normalized_pages n),
      structured_nodes = [root], structured_warnings = normalized_warnings n\<rparr>"
  have "tree_valid sha up (normalized_document_id n) STRUCTURE_VERSION (block_lookup_of n) root"
    by (rule built_tree_valid [OF inv vis _ assms [OF root]])
      (rule block_lookup_of_own [OF validated_blocks_distinct [OF valid]])
  then have ok: "validate_structured_document sha up s n STRUCTURE_VERSION = Inr ()"
    using valid built_blocks [OF inv vis]
    by (simp add: validate_structured_exact s_def STRUCTURE_VERSION_not_blank)
  then have "interpret_structure sha up n = Inr s"
    using valid root by (simp add: interpret_structure_def s_def Let_def)
  then show ?thesis using ok built_blocks [OF inv vis] valid by (simp add: s_def)
qed

definition sample_span :: source_span where
  "sample_span = \<lparr>page_start = 1, page_end = 1, section_id = None, span_source_type = NativeText\<rparr>"

definition sample_normalized :: normalized_document where
  "sample_normalized = \<lparr>normalized_document_id = ''d'', normalization_version = ''1'',
     normalized_pages = [\<lparr>page_number = 1,
       content = [\<lparr>block_id = ''b1'', block_kind = Text, block_text = ''1. Scope'', block_source = sample_span\<rparr>,
                  \<lparr>block_id = ''b2'', block_kind = Text, block_text = ''body'', block_source = sample_span\<rparr>],
       page_warnings = [], requires_visual_processing = False\<rparr>],
     normalized_warnings = []\<rparr>"

lemma sample_normalized_valid: "validate_normalized_input sample_normalized = Inr ()"
  by (simp add: sample_normalized_def sample_span_def validate_normalized_input_def validate_input_page_def
      validate_input_block_def u32_try_from_def blank_ascii_Cons byte_def is_whitespace_def)

theorem interpret_structure_exact_witness:
  "\<exists>s root. interpret_structure id (\<lambda>c. 65 \<le> c \<and> c \<le> 90) sample_normalized = Inr s
     \<and> structured_nodes s = [root] \<and> owned_blocks root = [''b1'', ''b2'']"
  using interpret_structure_exact [of id "\<lambda>c. 65 \<le> c \<and> c \<le> 90" sample_normalized]
  by (auto simp: sample_normalized_valid) (simp add: all_blocks_def sample_normalized_def)

text \<open>
  C13. Whatever the document and the digests, the interpreter does not panic.
\<close>

theorem interpret_structure_no_panic: "interpret_structure sha up n \<noteq> Inl Panic"
proof
  assume p: "interpret_structure sha up n = Inl Panic"
  obtain root where "build_tree sha up n = Inr root" by (rule build_tree_ok)
  moreover have "map_err Failure r \<noteq> Inl Panic" for r :: "pipeline_failure + unit" by (cases r) auto
  ultimately show False using p by (auto simp: interpret_structure_def Let_def res_bind_Inl_iff)
qed

end
