(* ===== verification/Doc_Chunk.thy ===== *)
theory Doc_Chunk
  imports Structure_Correct
begin

text \<open>
  \<open>pipeline/chunk.rs\<close>: the blocks of each top-level structure node are packed greedily into chunks
  of at most 12000 characters; a chunk never crosses a node and a block is never split. The theory
  holds the model, a reference packing and the properties of the chunker. \<open>sha\<close> stands for the
  SHA-256 digest in hexadecimal.
\<close>

section \<open>The model\<close>

definition CHUNKING_VERSION :: string where
  "CHUNKING_VERSION = ''1.0.0''"

definition TARGET_CHUNK_CHARACTERS :: nat where
  "TARGET_CHUNK_CHARACTERS = 12000"

definition chunk_failure :: "string \<Rightarrow> string \<Rightarrow> bool \<Rightarrow> pipeline_failure" where
  "chunk_failure code msg rec =
     \<lparr>failure_code = code, failure_message = msg, failure_stage = Some Chunk, recoverable = rec\<rparr>"

record structure_group =
  group_node_id :: string
  group_block_ids :: "string list"

record chunk_inputs =
  input_blocks :: "string \<rightharpoonup> normalized_block"
  canonical_block_ids :: "string list"
  groups :: "structure_group list"

subsection \<open>Validation of the inputs\<close>

definition chunk_input_block ::
  "normalized_page \<Rightarrow> (string \<rightharpoonup> normalized_block) \<times> string list \<Rightarrow> normalized_block
   \<Rightarrow> pipeline_failure + (string \<rightharpoonup> normalized_block) \<times> string list" where
  "chunk_input_block page st block =
     (let (blocks, canonical) = st in
      res_bind (ensure (\<not> (blank (block_id block) \<or> blank (block_text block)
          \<or> page_start (block_source block) \<noteq> page_number page
          \<or> page_end (block_source block) \<noteq> page_number page
          \<or> block_id block \<in> dom blocks))
        (chunk_failure ''INVALID_CHUNK_INPUT''
           ''Normalized blocks must be unique, non-empty, and page-local'' False))
        (\<lambda>_. Inr (blocks(block_id block \<mapsto> block), canonical @ [block_id block])))"

definition chunk_input_page ::
  "structure_page list \<Rightarrow> nat \<times> (string \<rightharpoonup> normalized_block) \<times> string list \<Rightarrow> normalized_page
   \<Rightarrow> pipeline_failure + nat \<times> (string \<rightharpoonup> normalized_block) \<times> string list" where
  "chunk_input_page structured_ps st page =
     (let (index, blocks, canonical) = st in
      res_bind (ok_or (u32_try_from (index + 1))
        (chunk_failure ''INVALID_CHUNK_INPUT'' ''Normalized page count exceeds the supported range'' False))
        (\<lambda>expected_page.
      let structured_page = structured_ps ! index in
      res_bind (ensure (\<not> (page_number page \<noteq> expected_page
          \<or> structure_page_number structured_page \<noteq> page_number page
          \<or> structure_page_warnings structured_page \<noteq> page_warnings page
          \<or> structure_requires_visual structured_page \<noteq> requires_visual_processing page))
        (chunk_failure ''INVALID_CHUNK_INPUT''
           ''Structured page metadata does not preserve normalized input'' False)) (\<lambda>_.
      res_bind (res_fold (chunk_input_block page) (blocks, canonical) (content page)) (\<lambda>(blocks', canonical').
      Inr (index + 1, blocks', canonical')))))"

text \<open>The recursion over a subtree and over the children of a node.\<close>

fun collect_group_blocks ::
    "structure_node \<Rightarrow> string list \<times> string set \<Rightarrow> pipeline_failure + string list \<times> string set"
  and collect_children ::
    "structure_node list \<Rightarrow> string list \<times> string set \<Rightarrow> pipeline_failure + string list \<times> string set" where
  "collect_group_blocks (StructureNode i k t l bs sp cs) (output, node_ids) =
     res_bind (ensure (\<not> (blank i \<or> i \<in> node_ids))
       (chunk_failure ''INVALID_STRUCTURED_DOCUMENT'' ''Structure node IDs must be present and unique'' False)) (\<lambda>_.
     res_bind (ensure (length bs = length sp)
       (chunk_failure ''INVALID_STRUCTURED_DOCUMENT'' ''Structure block and source-span counts must agree'' False)) (\<lambda>_.
     collect_children cs (output @ bs, insert i node_ids)))"
| "collect_children [] st = Inr st"
| "collect_children (c # cs) st = res_bind (collect_group_blocks c st) (collect_children cs)"

definition provenance_entry ::
  "(string \<rightharpoonup> normalized_block) \<Rightarrow> unit \<Rightarrow> string \<times> source_span \<Rightarrow> pipeline_failure + unit" where
  "provenance_entry blocks u entry =
     res_bind (ok_or (blocks (fst entry))
       (chunk_failure ''INVALID_STRUCTURED_DOCUMENT''
          ''Structure node references an unknown normalized block'' False)) (\<lambda>block.
     ensure (block_source block = snd entry)
       (chunk_failure ''INVALID_STRUCTURED_DOCUMENT''
          ''Structure node provenance does not match its normalized block'' False))"

fun validate_node_provenance ::
    "structure_node \<Rightarrow> (string \<rightharpoonup> normalized_block) \<Rightarrow> pipeline_failure + unit"
  and validate_children_provenance ::
    "structure_node list \<Rightarrow> (string \<rightharpoonup> normalized_block) \<Rightarrow> pipeline_failure + unit" where
  "validate_node_provenance (StructureNode i k t l bs sp cs) blocks =
     res_bind (res_fold (provenance_entry blocks) () (zip bs sp)) (\<lambda>_. validate_children_provenance cs blocks)"
| "validate_children_provenance [] blocks = Inr ()"
| "validate_children_provenance (c # cs) blocks =
     res_bind (validate_node_provenance c blocks) (\<lambda>_. validate_children_provenance cs blocks)"

definition collect_group ::
  "(string \<rightharpoonup> normalized_block) \<Rightarrow> structure_group list \<times> string list \<times> string set \<Rightarrow> structure_node
   \<Rightarrow> pipeline_failure + structure_group list \<times> string list \<times> string set" where
  "collect_group blocks st child =
     (let (grps, structured_order, node_ids) = st in
      res_bind (collect_group_blocks child ([], node_ids)) (\<lambda>(group_ids, node_ids').
      res_bind (validate_node_provenance child blocks) (\<lambda>_.
      Inr (grps @ [\<lparr>group_node_id = node_id child, group_block_ids = group_ids\<rparr>],
           structured_order @ group_ids, node_ids'))))"

definition validate_inputs ::
  "normalized_document \<Rightarrow> structured_document \<Rightarrow> pipeline_failure + chunk_inputs" where
  "validate_inputs normalized structured =
     res_bind (ensure (\<not> (blank (normalized_document_id normalized)
         \<or> blank (normalization_version normalized)
         \<or> structured_document_id structured \<noteq> normalized_document_id normalized
         \<or> blank (structure_version structured)))
       (chunk_failure ''INVALID_CHUNK_INPUT''
          ''Normalized and structured document identity/version must agree'' False)) (\<lambda>_.
     res_bind (ensure (length (normalized_pages normalized) = length (structured_pages structured))
       (chunk_failure ''INVALID_CHUNK_INPUT''
          ''Structured page count does not match normalized input'' False)) (\<lambda>_.
     res_bind (res_fold (chunk_input_page (structured_pages structured)) (0, Map.empty, [])
                 (normalized_pages normalized)) (\<lambda>(_, blocks, canonical).
     res_bind (ensure (length (structured_nodes structured) = 1)
       (chunk_failure ''INVALID_STRUCTURED_DOCUMENT''
          ''Structured document must contain exactly one root'' False)) (\<lambda>_.
     let root = structured_nodes structured ! 0 in
     res_bind (ensure (\<not> (node_kind root \<noteq> Document \<or> node_level root \<noteq> 0
         \<or> node_title root \<noteq> None \<or> node_block_ids root \<noteq> [] \<or> node_source_spans root \<noteq> []))
       (chunk_failure ''INVALID_STRUCTURED_DOCUMENT'' ''Structured root metadata is invalid'' False)) (\<lambda>_.
     res_bind (res_fold (collect_group blocks) ([], [], {node_id root}) (node_children root))
       (\<lambda>(grps, structured_order, _).
     res_bind (ensure (structured_order = canonical)
       (chunk_failure ''INVALID_STRUCTURED_DOCUMENT''
          ''Structured block coverage must equal normalized source order exactly once'' False)) (\<lambda>_.
     Inr \<lparr>input_blocks = blocks, canonical_block_ids = canonical, groups = grps\<rparr>)))))))"

subsection \<open>The chunker\<close>

definition chunk_preimage ::
  "string \<Rightarrow> string \<Rightarrow> u32 \<Rightarrow> string \<Rightarrow> string list \<Rightarrow> string \<Rightarrow> string" where
  "chunk_preimage doc_id version ord node ids txt =
     ''document-chunk'' @ [CHR 0x00] @ doc_id @ [CHR 0x00] @ version @ [CHR 0x00] @ be_bytes_u32 ord
       @ node @ concat (map (\<lambda>b. CHR 0x00 # b) ids) @ [CHR 0x00] @ txt"

definition deterministic_chunk_id ::
  "(string \<Rightarrow> string) \<Rightarrow> string \<Rightarrow> string \<Rightarrow> u32 \<Rightarrow> string \<Rightarrow> string list \<Rightarrow> string \<Rightarrow> string" where
  "deterministic_chunk_id sha doc_id version ord node ids txt =
     ''ch-'' @ sha (chunk_preimage doc_id version ord node ids txt)"

definition block_separator :: string where
  "block_separator = [CHR 0x0A, CHR 0x0A]"

definition exceeds_target_warning :: pipeline_warning where
  "exceeds_target_warning = \<lparr>warning_code = ''CHUNK_EXCEEDS_TARGET'',
     warning_message =
       ''A single normalized block exceeds the target chunk size and was preserved intact'',
     warning_stage = Some Chunk\<rparr>"

definition materialize_chunk ::
  "(string \<Rightarrow> string) \<Rightarrow> normalized_document \<Rightarrow> string \<Rightarrow> string \<Rightarrow> normalized_block list \<Rightarrow> nat
   \<Rightarrow> pipeline_failure + document_chunk" where
  "materialize_chunk sha normalized version node blocks zero_based_ordinal =
     res_bind (ok_or (u32_try_from (zero_based_ordinal + 1))
       (chunk_failure ''CHUNK_COUNT_EXCEEDED'' ''Chunk count exceeds the supported range'' False)) (\<lambda>ord.
     let txt = join block_separator (map block_text blocks);
         ids = map block_id blocks
     in Inr \<lparr>
       chunk_id = deterministic_chunk_id sha (normalized_document_id normalized) version ord node ids txt,
       ordinal = ord, structure_node_id = node, chunk_text = txt, chunk_block_ids = ids,
       chunk_source_spans = map block_source blocks,
       chunk_warnings = (if char_count txt > TARGET_CHUNK_CHARACTERS then [exceeds_target_warning] else [])\<rparr>)"

type_synonym pending_state = "document_chunk list \<times> normalized_block list \<times> nat"

definition chunk_block ::
  "(string \<Rightarrow> string) \<Rightarrow> normalized_document \<Rightarrow> chunk_inputs \<Rightarrow> string \<Rightarrow> pending_state \<Rightarrow> string
   \<Rightarrow> pipeline_failure + pending_state" where
  "chunk_block sha normalized inputs node st bid =
     (let (cs, pending, pending_characters) = st in
      res_bind (ok_or (input_blocks inputs bid)
        (chunk_failure ''INVALID_STRUCTURED_DOCUMENT''
           (''Structured block '' @ bid @ '' does not exist'') False)) (\<lambda>block.
      let separator = (if pending = [] then 0 else 2);
          block_characters = char_count (block_text block)
      in res_bind
          (if pending \<noteq> [] \<and> pending_characters + separator + block_characters > TARGET_CHUNK_CHARACTERS
           then res_bind (materialize_chunk sha normalized CHUNKING_VERSION node pending (length cs))
                  (\<lambda>c. Inr (cs @ [c], [], 0))
           else Inr (cs, pending, pending_characters)) (\<lambda>(cs', pending', characters').
        let characters'' = (if pending' \<noteq> [] then characters' + 2 else characters')
        in Inr (cs', pending' @ [block], characters'' + block_characters))))"

definition chunk_group ::
  "(string \<Rightarrow> string) \<Rightarrow> normalized_document \<Rightarrow> chunk_inputs \<Rightarrow> document_chunk list \<Rightarrow> structure_group
   \<Rightarrow> pipeline_failure + document_chunk list" where
  "chunk_group sha normalized inputs cs grp =
     res_bind (res_fold (chunk_block sha normalized inputs (group_node_id grp)) (cs, [], 0) (group_block_ids grp))
       (\<lambda>(cs', pending, _).
     if pending \<noteq> []
     then res_bind (materialize_chunk sha normalized CHUNKING_VERSION (group_node_id grp) pending (length cs'))
            (\<lambda>c. Inr (cs' @ [c]))
     else Inr cs')"

subsection \<open>Validation of the output\<close>

definition chunk_entry ::
  "chunk_inputs \<Rightarrow> string list \<Rightarrow> string list \<times> string list \<Rightarrow> string \<times> source_span
   \<Rightarrow> pipeline_failure + string list \<times> string list" where
  "chunk_entry inputs allowed_group st entry =
     (let (expected_text, covered) = st in
      res_bind (ensure (fst entry \<in> set allowed_group)
        (chunk_failure ''INVALID_CHUNKED_DOCUMENT'' ''Chunk crosses an unsupported structure boundary'' False)) (\<lambda>_.
      res_bind (ok_or (input_blocks inputs (fst entry))
        (chunk_failure ''INVALID_CHUNKED_DOCUMENT'' ''Chunk references an unknown normalized block'' False)) (\<lambda>block.
      res_bind (ensure (snd entry = block_source block)
        (chunk_failure ''INVALID_CHUNKED_DOCUMENT''
           ''Chunk source provenance does not match its normalized block'' False)) (\<lambda>_.
      Inr (expected_text @ [block_text block], covered @ [fst entry])))))"

definition validate_chunk ::
  "(string \<Rightarrow> string) \<Rightarrow> chunk_inputs \<Rightarrow> string \<Rightarrow> string \<Rightarrow> nat \<times> string list \<times> string set \<Rightarrow> document_chunk
   \<Rightarrow> pipeline_failure + nat \<times> string list \<times> string set" where
  "validate_chunk sha inputs doc_id version st chunk =
     (let (index, covered, ids) = st in
      res_bind (ok_or (u32_try_from (index + 1))
        (chunk_failure ''INVALID_CHUNKED_DOCUMENT'' ''Chunk count exceeds the supported range'' False)) (\<lambda>expected.
      res_bind (ensure (\<not> (ordinal chunk \<noteq> expected \<or> blank (chunk_id chunk) \<or> chunk_id chunk \<in> ids
          \<or> chunk_text chunk = [] \<or> chunk_block_ids chunk = []
          \<or> length (chunk_block_ids chunk) \<noteq> length (chunk_source_spans chunk)))
        (chunk_failure ''INVALID_CHUNKED_DOCUMENT''
           ''Chunks must have deterministic unique identities, canonical order, and source blocks'' False)) (\<lambda>_.
      res_bind (ok_or (map_of (rev (map (\<lambda>g. (group_node_id g, group_block_ids g)) (groups inputs)))
                         (structure_node_id chunk))
        (chunk_failure ''INVALID_CHUNKED_DOCUMENT''
           ''Chunk references an unknown top-level structure node'' False)) (\<lambda>allowed_group.
      res_bind (res_fold (chunk_entry inputs allowed_group) ([], covered)
                  (zip (chunk_block_ids chunk) (chunk_source_spans chunk))) (\<lambda>(texts, covered').
      let expected_text = join block_separator texts in
      res_bind (ensure (\<not> (chunk_text chunk \<noteq> expected_text
          \<or> chunk_id chunk \<noteq> deterministic_chunk_id sha doc_id version (ordinal chunk)
              (structure_node_id chunk) (chunk_block_ids chunk) expected_text))
        (chunk_failure ''INVALID_CHUNKED_DOCUMENT''
           ''Chunk text or identity does not match its authoritative normalized blocks'' False)) (\<lambda>_.
      Inr (index + 1, covered', insert (chunk_id chunk) ids)))))))"

definition validate_chunked_document ::
  "(string \<Rightarrow> string) \<Rightarrow> chunked_document \<Rightarrow> normalized_document \<Rightarrow> structured_document \<Rightarrow> string
   \<Rightarrow> pipeline_failure + unit" where
  "validate_chunked_document sha chunked normalized structured expected_version =
     res_bind (validate_inputs normalized structured) (\<lambda>inputs.
     res_bind (ensure (\<not> (chunked_document_id chunked \<noteq> normalized_document_id normalized
         \<or> chunking_version chunked \<noteq> expected_version \<or> blank (chunking_version chunked)))
       (chunk_failure ''INVALID_CHUNKED_DOCUMENT''
          ''Chunked document identity/version does not match its input'' False)) (\<lambda>_.
     res_bind (res_fold (validate_chunk sha inputs (chunked_document_id chunked) expected_version)
                 (0, [], {}) (chunks chunked)) (\<lambda>(_, covered, _).
     ensure (covered = canonical_block_ids inputs)
       (chunk_failure ''INVALID_CHUNKED_DOCUMENT''
          ''Chunk coverage must equal normalized blocks exactly once in source order'' False))))"

definition no_text_warning :: pipeline_warning where
  "no_text_warning = \<lparr>warning_code = ''NO_TEXT_TO_CHUNK'',
     warning_message = ''The document contains no native text blocks to chunk'', warning_stage = Some Chunk\<rparr>"

definition chunk_structured ::
  "(string \<Rightarrow> string) \<Rightarrow> normalized_document \<Rightarrow> structured_document \<Rightarrow> pipeline_failure + chunked_document" where
  "chunk_structured sha normalized structured =
     res_bind (validate_inputs normalized structured) (\<lambda>inputs.
     let warnings = structured_warnings structured
           @ concat (map structure_page_warnings (structured_pages structured))
           @ (if canonical_block_ids inputs = [] then [no_text_warning] else [])
     in res_bind (res_fold (chunk_group sha normalized inputs) [] (groups inputs)) (\<lambda>cs.
     let chunked = \<lparr>chunked_document_id = normalized_document_id normalized,
           chunking_version = CHUNKING_VERSION, chunks = cs, chunked_warnings = warnings\<rparr>
     in res_bind (validate_chunked_document sha chunked normalized structured CHUNKING_VERSION)
          (\<lambda>_. Inr chunked)))"

end
