(* ===== verification/Chunk_Correct.thy ===== *)
theory Chunk_Correct
  imports Doc_Chunk
begin

text \<open>
  The properties of \<open>pipeline/chunk.rs\<close>: the two nested loops are a greedy packing of each group,
  the packing keeps every block once and in order, and the chunker accepts its own output.
\<close>

section \<open>What the input validation establishes\<close>

abbreviation own_blocks :: "normalized_block list \<Rightarrow> string \<rightharpoonup> normalized_block" where
  "own_blocks bs \<equiv> map_of (map (\<lambda>b. (block_id b, b)) bs)"

lemma dom_own_blocks: "dom (own_blocks bs) = set (map block_id bs)"
  by (auto simp: dom_map_of_conv_image_fst image_image)

lemma chunk_input_blocks:
  "res_fold (chunk_input_block page) (m, can) bs = Inr (m', can') \<Longrightarrow>
     can' = can @ map block_id bs \<and> m' = m ++ own_blocks bs
     \<and> distinct (map block_id bs) \<and> set (map block_id bs) \<inter> dom m = {}
     \<and> list_all (\<lambda>b. \<not> blank (block_text b)) bs"
proof (induction bs arbitrary: m can)
  case Nil
  then show ?case by simp
next
  case (Cons b bs)
  from Cons.prems have b: "block_id b \<notin> dom m" "\<not> blank (block_text b)"
    and rest: "res_fold (chunk_input_block page) (m(block_id b \<mapsto> b), can @ [block_id b]) bs = Inr (m', can')"
    by (auto simp: chunk_input_block_def [of page "(m, can)" b] res_simps)
  from Cons.IH [OF rest]
  have can: "can' = (can @ [block_id b]) @ map block_id bs" and m': "m' = m(block_id b \<mapsto> b) ++ own_blocks bs"
    and dist: "distinct (map block_id bs)" and disj: "set (map block_id bs) \<inter> dom (m(block_id b \<mapsto> b)) = {}"
    and texts: "list_all (\<lambda>b. \<not> blank (block_text b)) bs" by blast+
  have new: "block_id b \<notin> set (map block_id bs)" "set (map block_id bs) \<inter> dom m = {}"
    using disj unfolding dom_fun_upd by auto
  then have "block_id b \<notin> dom (own_blocks bs)" unfolding dom_own_blocks by auto
  then have "m' = m ++ own_blocks (b # bs)" unfolding m' by (simp add: map_add_upd_left)
  then show ?case
    by (intro conjI) (use can dist texts new b in \<open>simp_all only:, simp_all\<close>)
qed

lemma chunk_input_pages:
  "res_fold (chunk_input_page sps) (k, m, can) pages = Inr (k', m', can') \<Longrightarrow>
     (let bs = concat (map content pages) in
      can' = can @ map block_id bs \<and> m' = m ++ own_blocks bs
      \<and> distinct (map block_id bs) \<and> set (map block_id bs) \<inter> dom m = {}
      \<and> list_all (\<lambda>b. \<not> blank (block_text b)) bs)"
proof (induction pages arbitrary: k m can)
  case Nil
  then show ?case by simp
next
  case (Cons pg pages)
  from Cons.prems obtain m1 can1
    where pg: "res_fold (chunk_input_block pg) (m, can) (content pg) = Inr (m1, can1)"
      and rest: "res_fold (chunk_input_page sps) (Suc k, m1, can1) pages = Inr (k', m', can')"
    by (auto simp: chunk_input_page_def [of sps "(k, m, can)" pg] res_simps Let_def)
  note A = chunk_input_blocks [OF pg] and B = Cons.IH [OF rest, unfolded Let_def]
  have dom1: "dom m1 = dom m \<union> set (map block_id (content pg))"
    using A by (simp add: dom_own_blocks Un_commute)
  have disj: "set (map block_id (content pg @ concat (map content pages))) \<inter> dom m = {}"
    "set (map block_id (content pg)) \<inter> set (map block_id (concat (map content pages))) = {}"
    using A B unfolding dom1 map_append set_append by blast+
  then have "own_blocks (content pg) ++ own_blocks (concat (map content pages))
      = own_blocks (concat (map content pages)) ++ own_blocks (content pg)"
    by (intro map_add_comm) (simp only: dom_own_blocks)
  then have "m' = m ++ own_blocks (content pg @ concat (map content pages))"
    using A B by (simp del: map_add_assoc add: map_add_assoc [symmetric])
  with disj A B show ?case by (simp del: set_map add: Let_def)
qed

lemma collect_group_blocks_iff:
  "collect_group_blocks t (out, ids) = Inr st' \<longleftrightarrow>
     list_all (\<lambda>x. \<not> blank (node_id x) \<and> length (node_block_ids x) = length (node_source_spans x)) (preorder t)
     \<and> distinct (map node_id (preorder t)) \<and> set (map node_id (preorder t)) \<inter> ids = {}
     \<and> st' = (out @ concat (map node_block_ids (preorder t)), ids \<union> set (map node_id (preorder t)))"
  and collect_children_iff:
  "collect_children cs (out, ids) = Inr st' \<longleftrightarrow>
     list_all (\<lambda>x. \<not> blank (node_id x) \<and> length (node_block_ids x) = length (node_source_spans x))
       (concat (map preorder cs))
     \<and> distinct (map node_id (concat (map preorder cs))) \<and> set (map node_id (concat (map preorder cs))) \<inter> ids = {}
     \<and> st' = (out @ concat (map node_block_ids (concat (map preorder cs))),
              ids \<union> set (map node_id (concat (map preorder cs))))"
proof (induction t "(out, ids)" and cs "(out, ids)" arbitrary: out ids st' and out ids st'
    rule: collect_group_blocks_collect_children.induct)
  case (1 i k t l bs sp cs out ids)
  show ?case by (auto simp: res_bind_Inr_iff ensure_Inr_iff "1")
next
  case 2
  then show ?case by auto
next
  case (3 c cs out ids)
  have disj: "(A \<inter> ids = {} \<and> B \<inter> (ids \<union> A) = {}) \<longleftrightarrow> (A \<inter> B = {} \<and> (A \<union> B) \<inter> ids = {})" for A B :: "string set"
    by blast
  show ?case
    using disj [of "set (map node_id (preorder c))" "set (map node_id (concat (map preorder cs)))"]
    by (simp del: set_map set_concat add: res_bind_Inr_iff "3" Un_assoc) blast
qed

lemma provenance_entries_iff:
  "res_fold (provenance_entry blocks) () es = Inr () \<longleftrightarrow>
     list_all (\<lambda>(b, s). \<exists>blk. blocks b = Some blk \<and> block_source blk = s) es"
  by (induction es) (auto simp: provenance_entry_def res_simps)

lemma validate_node_provenance_iff:
  "validate_node_provenance t blocks = Inr () \<longleftrightarrow>
     list_all (\<lambda>x. list_all (\<lambda>(b, s). \<exists>blk. blocks b = Some blk \<and> block_source blk = s)
                 (zip (node_block_ids x) (node_source_spans x))) (preorder t)"
  and validate_children_provenance_iff:
  "validate_children_provenance cs blocks = Inr () \<longleftrightarrow>
     list_all (\<lambda>x. list_all (\<lambda>(b, s). \<exists>blk. blocks b = Some blk \<and> block_source blk = s)
                 (zip (node_block_ids x) (node_source_spans x))) (concat (map preorder cs))"
proof (induction t blocks and cs blocks rule: validate_node_provenance_validate_children_provenance.induct)
  case (1 i k t l bs sp cs blocks)
  then show ?case by (simp add: res_bind_Inr_iff provenance_entries_iff)
next
  case (2 blocks)
  then show ?case by simp
next
  case (3 c cs blocks)
  then show ?case by (simp add: res_bind_Inr_iff)
qed

definition group_of :: "structure_node \<Rightarrow> structure_group" where
  "group_of c = \<lparr>group_node_id = node_id c, group_block_ids = concat (map node_block_ids (preorder c))\<rparr>"

lemma disjoint_split:
  "(A \<inter> ids = {} \<and> B \<inter> (ids \<union> A) = {}) \<longleftrightarrow> (A \<inter> B = {} \<and> (A \<union> B) \<inter> ids = {})"
  by blast

lemma collect_groups_iff:
  "res_fold (collect_group blocks) (grps, ord, ids) cs = Inr st' \<longleftrightarrow>
     is_ok (collect_children cs ([], ids))
     \<and> validate_children_provenance cs blocks = Inr ()
     \<and> st' = (grps @ map group_of cs, ord @ concat (map (group_block_ids \<circ> group_of) cs),
              ids \<union> set (map node_id (concat (map preorder cs))))"
proof (induction cs arbitrary: grps ord ids)
  case Nil
  then show ?case by auto
next
  case (Cons c cs)
  let ?A = "set (map node_id (preorder c))" and ?B = "set (map node_id (concat (map preorder cs)))"
  let ?fine = "\<lambda>ts. list_all (\<lambda>x. \<not> blank (node_id x) \<and> length (node_block_ids x) = length (node_source_spans x)) ts
      \<and> distinct (map node_id ts)"
  let ?rest = "concat (map preorder cs)"
  have all_ok: "is_ok (collect_children (c # cs) ([], ids)) \<longleftrightarrow>
      ?fine (preorder c) \<and> ?A \<inter> ids = {} \<and> ?fine ?rest \<and> ?B \<inter> (ids \<union> ?A) = {}"
    unfolding is_ok_iff collect_children_iff list.map concat.simps list_all_append map_append distinct_append set_append
    using disjoint_split [of ?A ids ?B] by blast
  have rest_ok: "is_ok (collect_children cs ([], ids \<union> ?A)) \<longleftrightarrow> ?fine ?rest \<and> ?B \<inter> (ids \<union> ?A) = {}"
    unfolding is_ok_iff collect_children_iff by auto
  have one: "collect_group blocks (grps, ord, ids) c = Inr st \<longleftrightarrow>
      ?fine (preorder c) \<and> ?A \<inter> ids = {} \<and> validate_node_provenance c blocks = Inr ()
      \<and> st = (grps @ [group_of c], ord @ group_block_ids (group_of c), ids \<union> ?A)" for st
    by (auto simp: collect_group_def res_bind_Inr_iff collect_group_blocks_iff group_of_def)
  have fold: "res_fold (collect_group blocks) (grps, ord, ids) (c # cs) = Inr st' \<longleftrightarrow>
      (?fine (preorder c) \<and> ?A \<inter> ids = {} \<and> validate_node_provenance c blocks = Inr ())
      \<and> res_fold (collect_group blocks)
           (grps @ [group_of c], ord @ group_block_ids (group_of c), ids \<union> ?A) cs = Inr st'"
    unfolding res_fold.simps res_bind_Inr_iff one by blast
  have prov: "validate_children_provenance (c # cs) blocks = Inr () \<longleftrightarrow>
      validate_node_provenance c blocks = Inr () \<and> validate_children_provenance cs blocks = Inr ()"
    by (simp add: res_bind_Inr_iff)
  have st: "((grps @ [group_of c]) @ map group_of cs,
      (ord @ group_block_ids (group_of c)) @ concat (map (group_block_ids \<circ> group_of) cs), ids \<union> ?A \<union> ?B)
      = (grps @ map group_of (c # cs), ord @ concat (map (group_block_ids \<circ> group_of) (c # cs)),
         ids \<union> set (map node_id (concat (map preorder (c # cs)))))"
    by (simp add: Un_assoc)
  show ?case unfolding fold Cons.IH all_ok rest_ok prov st by blast
qed

lemma preorder_self: "t \<in> set (preorder t)"
  by (cases t) simp

lemma distinct_group_nodes:
  "distinct (map node_id (concat (map preorder cs))) \<Longrightarrow> distinct (map node_id cs)"
proof (induction cs)
  case Nil
  then show ?case by simp
next
  case (Cons c cs)
  have "node_id d \<noteq> node_id c" if "d \<in> set cs" for d
  proof -
    have "node_id d \<in> set (map node_id (concat (map preorder cs)))"
      using that preorder_self [of d] by (auto intro: imageI)
    moreover have "node_id c \<in> set (map node_id (preorder c))" using preorder_self [of c] by simp
    ultimately show ?thesis using Cons.prems by (auto simp del: set_map set_concat)
  qed
  then have "node_id c \<notin> set (map node_id cs)" by (metis (no_types, lifting) imageE list.set_map)
  with Cons show ?case by simp
qed

text \<open>What a pair of inputs the chunker accepts looks like.\<close>

lemma validate_inputs_ok:
  assumes "validate_inputs n s = Inr inputs"
  shows "canonical_block_ids inputs = map block_id (all_blocks n)"
    and "input_blocks inputs = own_blocks (all_blocks n)"
    and "distinct (map block_id (all_blocks n))"
    and "list_all (\<lambda>b. \<not> blank (block_text b)) (all_blocks n)"
    and "concat (map group_block_ids (groups inputs)) = map block_id (all_blocks n)"
    and "distinct (map group_node_id (groups inputs))"
proof -
  from assms obtain k blocks canonical st root ids where
    pages: "res_fold (chunk_input_page (structured_pages s)) (0, Map.empty, []) (normalized_pages n)
              = Inr (k, blocks, canonical)"
    and grps: "res_fold (collect_group blocks) ([], [], {node_id root}) (node_children root) = Inr (groups inputs, canonical, ids)"
    and inputs: "input_blocks inputs = blocks" "canonical_block_ids inputs = canonical"
    by (auto simp: validate_inputs_def res_simps Let_def)
  note P = chunk_input_pages [OF pages, unfolded Let_def, folded all_blocks_def]
  from P inputs show "canonical_block_ids inputs = map block_id (all_blocks n)"
    "input_blocks inputs = own_blocks (all_blocks n)" "distinct (map block_id (all_blocks n))"
    "list_all (\<lambda>b. \<not> blank (block_text b)) (all_blocks n)" by simp_all
  from grps have ok: "is_ok (collect_children (node_children root) ([], {node_id root}))"
    and g: "groups inputs = map group_of (node_children root)"
    and c: "canonical = concat (map (group_block_ids \<circ> group_of) (node_children root))"
    unfolding collect_groups_iff by auto
  from c g P show "concat (map group_block_ids (groups inputs)) = map block_id (all_blocks n)"
    by (simp add: comp_def)
  have "distinct (map node_id (node_children root))"
    by (rule distinct_group_nodes) (use ok in \<open>simp add: is_ok_iff collect_children_iff\<close>)
  then show "distinct (map group_node_id (groups inputs))"
    by (simp add: g comp_def group_of_def)
qed

section \<open>Greedy packing\<close>

text \<open>
  The reference: \<open>pending\<close> is the open chunk and \<open>sz\<close> the characters it will have; a block that
  does not fit closes it.
\<close>

abbreviation block_chars :: "normalized_block \<Rightarrow> nat" where
  "block_chars b \<equiv> char_count (block_text b)"

fun pack_from :: "normalized_block list \<Rightarrow> nat \<Rightarrow> normalized_block list \<Rightarrow> normalized_block list list" where
  "pack_from pending sz [] = [pending]"
| "pack_from pending sz (b # bs) =
     (if sz + 2 + block_chars b > TARGET_CHUNK_CHARACTERS then pending # pack_from [b] (block_chars b) bs
      else pack_from (pending @ [b]) (sz + 2 + block_chars b) bs)"

fun pack :: "normalized_block list \<Rightarrow> normalized_block list list" where
  "pack [] = []"
| "pack (b # bs) = pack_from [b] (block_chars b) bs"

definition packed_size :: "normalized_block list \<Rightarrow> nat" where
  "packed_size p = sum_list (map block_chars p) + 2 * (length p - 1)"

lemma packed_size_snoc: "p \<noteq> [] \<Longrightarrow> packed_size (p @ [b]) = packed_size p + 2 + block_chars b"
  by (cases p) (simp_all add: packed_size_def)

lemma concat_pack_from: "concat (pack_from p s bs) = p @ bs"
  by (induction p s bs rule: pack_from.induct) auto

lemma concat_pack: "concat (pack bs) = bs"
  by (cases bs) (simp_all add: concat_pack_from)

lemma pack_from_nonempty: "p \<noteq> [] \<Longrightarrow> [] \<notin> set (pack_from p s bs)"
  by (induction p s bs rule: pack_from.induct) auto

lemma pack_nonempty: "[] \<notin> set (pack bs)"
  by (cases bs) (simp_all add: pack_from_nonempty)

lemma hd_pack_from: "p \<noteq> [] \<Longrightarrow> pack_from p s bs \<noteq> [] \<and> hd (hd (pack_from p s bs)) = hd p"
  by (induction p s bs rule: pack_from.induct) auto

text \<open>Every chunk fits or is one block; and a chunk was closed only because the next block did not fit.\<close>

lemma packed_size_single: "packed_size [b] = block_chars b"
  by (simp add: packed_size_def)

lemma pack_from_fits:
  "p \<noteq> [] \<Longrightarrow> packed_size p \<le> TARGET_CHUNK_CHARACTERS \<or> length p = 1 \<Longrightarrow>
   list_all (\<lambda>c. packed_size c \<le> TARGET_CHUNK_CHARACTERS \<or> length c = 1) (pack_from p (packed_size p) bs)"
proof (induction bs arbitrary: p)
  case Nil
  then show ?case by simp
next
  case (Cons b bs)
  show ?case
  proof (cases "packed_size p + 2 + block_chars b > TARGET_CHUNK_CHARACTERS")
    case True
    have "list_all (\<lambda>c. packed_size c \<le> TARGET_CHUNK_CHARACTERS \<or> length c = 1)
        (pack_from [b] (packed_size [b]) bs)" by (rule Cons.IH) simp_all
    with True Cons.prems show ?thesis by (simp add: packed_size_single)
  next
    case False
    then have "list_all (\<lambda>c. packed_size c \<le> TARGET_CHUNK_CHARACTERS \<or> length c = 1)
        (pack_from (p @ [b]) (packed_size (p @ [b])) bs)"
      using Cons.prems by (intro Cons.IH) (simp_all add: packed_size_snoc)
    with False Cons.prems show ?thesis by (simp add: packed_size_snoc)
  qed
qed

lemma pack_from_maximal:
  "p \<noteq> [] \<Longrightarrow>
   successively (\<lambda>c d. packed_size c + 2 + block_chars (hd d) > TARGET_CHUNK_CHARACTERS)
     (pack_from p (packed_size p) bs)"
proof (induction bs arbitrary: p)
  case Nil
  then show ?case by simp
next
  case (Cons b bs)
  show ?case
  proof (cases "packed_size p + 2 + block_chars b > TARGET_CHUNK_CHARACTERS")
    case True
    note IH = Cons.IH [of "[b]", unfolded packed_size_single]
    from True IH hd_pack_from [of "[b]" "block_chars b" bs] show ?thesis
      by (simp add: successively_Cons)
  next
    case False
    then show ?thesis
      using Cons.prems Cons.IH [of "p @ [b]"] by (simp add: packed_size_snoc)
  qed
qed

lemma pack_fits:
  "list_all (\<lambda>c. packed_size c \<le> TARGET_CHUNK_CHARACTERS \<or> length c = 1) (pack bs)"
  using pack_from_fits [of "[hd bs]" "tl bs"] by (cases bs) (simp_all add: packed_size_single)

lemma pack_maximal:
  "successively (\<lambda>c d. packed_size c + 2 + block_chars (hd d) > TARGET_CHUNK_CHARACTERS) (pack bs)"
  using pack_from_maximal [of "[hd bs]" "tl bs"] by (cases bs) (simp_all add: packed_size_single)

text \<open>The loop of the chunker is this packing, with one chunk materialized per pack.\<close>

definition push_chunk ::
  "(string \<Rightarrow> string) \<Rightarrow> normalized_document \<Rightarrow> document_chunk list \<Rightarrow> string \<times> normalized_block list
   \<Rightarrow> pipeline_failure + document_chunk list" where
  "push_chunk sha n cs = (\<lambda>(node, p).
     res_bind (materialize_chunk sha n CHUNKING_VERSION node p (length cs)) (\<lambda>c. Inr (cs @ [c])))"

lemma chunk_blocks_pack:
  assumes "list_all (\<lambda>b. input_blocks inputs (block_id b) = Some b) bs" "pending \<noteq> []"
  shows "res_bind (res_fold (chunk_block sha n inputs node) (cs, pending, sz) (map block_id bs))
       (\<lambda>(cs', pending', _). if pending' \<noteq> []
          then res_bind (materialize_chunk sha n CHUNKING_VERSION node pending' (length cs')) (\<lambda>c. Inr (cs' @ [c]))
          else Inr cs')
     = res_fold (push_chunk sha n) cs (map (Pair node) (pack_from pending sz bs))"
  using assms
proof (induction bs arbitrary: cs pending sz)
  case Nil
  then show ?case by (simp add: push_chunk_def res_bind_Inr_iff) (cases "materialize_chunk sha n CHUNKING_VERSION node pending (length cs)"; simp)
next
  case (Cons b bs)
  show ?case
  proof (cases "sz + 2 + block_chars b > TARGET_CHUNK_CHARACTERS")
    case True
    then show ?thesis
      using Cons.IH [of "[b]" _ "block_chars b"] Cons.prems
      by (cases "materialize_chunk sha n CHUNKING_VERSION node pending (length cs)")
        (simp_all add: chunk_block_def [of _ _ _ _ _ "block_id b"] push_chunk_def [of _ _ cs] Let_def)
  next
    case False
    then show ?thesis
      using Cons.IH [of "pending @ [b]" cs "sz + 2 + block_chars b"] Cons.prems
      by (simp add: chunk_block_def [of _ _ _ _ _ "block_id b"] Let_def add.assoc)
  qed
qed

lemma chunk_group_pack:
  assumes "list_all (\<lambda>b. input_blocks inputs (block_id b) = Some b) bs" "group_block_ids g = map block_id bs"
  shows "chunk_group sha n inputs cs g = res_fold (push_chunk sha n) cs (map (Pair (group_node_id g)) (pack bs))"
proof (cases bs)
  case Nil
  then show ?thesis using assms by (simp add: chunk_group_def)
next
  case (Cons b bs')
  then have "res_fold (chunk_block sha n inputs (group_node_id g)) (cs, [], 0) (map block_id bs)
      = res_fold (chunk_block sha n inputs (group_node_id g)) (cs, [b], block_chars b) (map block_id bs')"
    using assms(1) by (simp add: chunk_block_def [of _ _ _ _ _ "block_id b"] Let_def)
  with chunk_blocks_pack [of inputs bs' "[b]" sha n "group_node_id g" cs "block_chars b"] assms Cons
  show ?thesis by (simp add: chunk_group_def)
qed

section \<open>The plan of chunks\<close>

definition blocks_of :: "chunk_inputs \<Rightarrow> structure_group \<Rightarrow> normalized_block list" where
  "blocks_of inputs g = map (\<lambda>b. the (input_blocks inputs b)) (group_block_ids g)"

text \<open>The reference result: each pack of each group, in order, with its group's node.\<close>

definition chunk_plan :: "chunk_inputs \<Rightarrow> (string \<times> normalized_block list) list" where
  "chunk_plan inputs = concat (map (\<lambda>g. map (Pair (group_node_id g)) (pack (blocks_of inputs g))) (groups inputs))"

definition chunk_of ::
  "(string \<Rightarrow> string) \<Rightarrow> normalized_document \<Rightarrow> nat \<Rightarrow> string \<times> normalized_block list \<Rightarrow> document_chunk" where
  "chunk_of sha n k = (\<lambda>(node, p).
     let ord = word_of_nat (k + 1) :: u32; txt = join block_separator (map block_text p) in
     \<lparr>chunk_id = deterministic_chunk_id sha (normalized_document_id n) CHUNKING_VERSION ord node (map block_id p) txt,
      ordinal = ord, structure_node_id = node, chunk_text = txt, chunk_block_ids = map block_id p,
      chunk_source_spans = map block_source p,
      chunk_warnings = (if char_count txt > TARGET_CHUNK_CHARACTERS then [exceeds_target_warning] else [])\<rparr>)"

definition planned_chunks ::
  "(string \<Rightarrow> string) \<Rightarrow> normalized_document \<Rightarrow> chunk_inputs \<Rightarrow> document_chunk list" where
  "planned_chunks sha n inputs = map (\<lambda>(k, e). chunk_of sha n k e) (enumerate 0 (chunk_plan inputs))"

definition planned_preimages :: "normalized_document \<Rightarrow> chunk_inputs \<Rightarrow> string set" where
  "planned_preimages n inputs =
     (\<lambda>(k, node, p). chunk_preimage (normalized_document_id n) CHUNKING_VERSION (word_of_nat (k + 1)) node
        (map block_id p) (join block_separator (map block_text p))) ` set (enumerate 0 (chunk_plan inputs))"

lemma push_chunks_ok:
  "length cs + length es < 2 ^ 32 \<Longrightarrow>
   res_fold (push_chunk sha n) cs es = Inr (cs @ map (\<lambda>(k, e). chunk_of sha n k e) (enumerate (length cs) es))"
proof (induction es arbitrary: cs)
  case Nil
  then show ?case by simp
next
  case (Cons e es)
  obtain node p where e: "e = (node, p)" by (cases e)
  have "u32_try_from (length cs + 1) = Some (word_of_nat (length cs + 1))"
    using Cons.prems by (simp add: u32_try_from_in_range)
  then have "push_chunk sha n cs e = Inr (cs @ [chunk_of sha n (length cs) e])"
    by (simp add: push_chunk_def materialize_chunk_def chunk_of_def e Let_def)
  with Cons.IH [of "cs @ [chunk_of sha n (length cs) e]"] Cons.prems show ?case by simp
qed

lemma res_fold_concat: "res_fold f s (concat xss) = res_fold (\<lambda>s xs. res_fold f s xs) s xss"
  by (induction xss arbitrary: s) (simp_all add: res_fold_append)

lemma res_fold_map: "res_fold f s (map g xs) = res_fold (\<lambda>s x. f s (g x)) s xs"
  by (induction xs arbitrary: s) auto

lemma res_fold_cong: "(\<And>s x. x \<in> set xs \<Longrightarrow> f s x = g s x) \<Longrightarrow> res_fold f s xs = res_fold g s xs"
  by (induction xs arbitrary: s) (auto intro!: arg_cong [where f = "res_bind _"] ext)

lemma own_blocks_lookup:
  "distinct (map block_id bs) \<Longrightarrow> b \<in> set bs \<Longrightarrow> own_blocks bs (block_id b) = Some b"
  by (rule map_of_is_SomeI) (auto simp: comp_def)

lemma group_blocks:
  assumes v: "validate_inputs n s = Inr inputs" and g: "g \<in> set (groups inputs)"
  shows "group_block_ids g = map block_id (blocks_of inputs g)"
    and "list_all (\<lambda>b. input_blocks inputs (block_id b) = Some b) (blocks_of inputs g)"
    and "set (blocks_of inputs g) \<subseteq> set (all_blocks n)"
proof -
  note V = validate_inputs_ok [OF v]
  have each: "input_blocks inputs i = Some b \<and> block_id b = i \<and> b \<in> set (all_blocks n)"
    if "i \<in> set (group_block_ids g)" "b = the (input_blocks inputs i)" for i b
  proof -
    have "i \<in> set (concat (map group_block_ids (groups inputs)))" using that g by auto
    then have "i \<in> set (map block_id (all_blocks n))" using V(5) by simp
    then obtain c where c: "c \<in> set (all_blocks n)" "i = block_id c" by auto
    with own_blocks_lookup [OF V(3) c(1)] V(2) that show ?thesis by simp
  qed
  show "group_block_ids g = map block_id (blocks_of inputs g)"
    unfolding blocks_of_def map_map by (rule map_idI [symmetric]) (use each in auto)
  show "list_all (\<lambda>b. input_blocks inputs (block_id b) = Some b) (blocks_of inputs g)"
    using each by (auto simp: blocks_of_def list_all_iff)
  show "set (blocks_of inputs g) \<subseteq> set (all_blocks n)"
    using each by (auto simp: blocks_of_def)
qed

lemma chunk_loop_plan:
  assumes v: "validate_inputs n s = Inr inputs"
  shows "res_fold (chunk_group sha n inputs) cs (groups inputs) = res_fold (push_chunk sha n) cs (chunk_plan inputs)"
proof -
  have "res_fold (chunk_group sha n inputs) cs (groups inputs)
      = res_fold (\<lambda>cs g. res_fold (push_chunk sha n) cs (map (Pair (group_node_id g)) (pack (blocks_of inputs g))))
          cs (groups inputs)"
    by (rule res_fold_cong) (rule chunk_group_pack [OF group_blocks(2) [OF v] group_blocks(1) [OF v]])
  then show ?thesis by (simp add: chunk_plan_def res_fold_concat res_fold_map)
qed

text \<open>Every pack of the plan lies in its group, is not empty, and the packs cover the document.\<close>

lemma plan_entry:
  assumes v: "validate_inputs n s = Inr inputs" and e: "(node, p) \<in> set (chunk_plan inputs)"
  obtains g where "g \<in> set (groups inputs)" "node = group_node_id g" "p \<noteq> []"
    "set p \<subseteq> set (blocks_of inputs g)"
proof -
  from e obtain g where g: "g \<in> set (groups inputs)" "node = group_node_id g" "p \<in> set (pack (blocks_of inputs g))"
    by (auto simp: chunk_plan_def)
  moreover have "p \<noteq> []" using g(3) pack_nonempty by metis
  moreover have "set p \<subseteq> set (blocks_of inputs g)"
    using g(3) concat_pack [of "blocks_of inputs g"] by (metis UN_upper set_concat)
  ultimately show ?thesis using that by blast
qed

lemma plan_covers:
  assumes v: "validate_inputs n s = Inr inputs"
  shows "map block_id (concat (map snd (chunk_plan inputs))) = map block_id (all_blocks n)"
proof -
  have "concat (map snd (concat (map (\<lambda>g. map (Pair (group_node_id g)) (pack (blocks_of inputs g))) gs)))
      = concat (map (blocks_of inputs) gs)" for gs
    by (induction gs) (simp_all add: comp_def concat_pack)
  then have "map block_id (concat (map snd (chunk_plan inputs))) = concat (map (\<lambda>g. map block_id (blocks_of inputs g)) (groups inputs))"
    by (simp add: chunk_plan_def map_concat comp_def)
  also have "\<dots> = concat (map group_block_ids (groups inputs))"
    using group_blocks(1) [OF v] by (simp cong: map_cong)
  also have "\<dots> = map block_id (all_blocks n)" by (rule validate_inputs_ok(5) [OF v])
  finally show ?thesis .
qed

section \<open>The chunker accepts its own output\<close>

lemma chunk_entries_ok:
  assumes "list_all (\<lambda>b. input_blocks inputs (block_id b) = Some b \<and> block_id b \<in> set allowed) p"
  shows "res_fold (chunk_entry inputs allowed) (ts, cov) (zip (map block_id p) (map block_source p))
     = Inr (ts @ map block_text p, cov @ map block_id p)"
  using assms
proof (induction p arbitrary: ts cov)
  case Nil
  then show ?case by simp
next
  case (Cons b p)
  then have "chunk_entry inputs allowed (ts, cov) (block_id b, block_source b)
      = Inr (ts @ [block_text b], cov @ [block_id b])"
    by (simp add: chunk_entry_def)
  with Cons show ?case by simp
qed

lemma chunk_preimage_ordinal:
  "chunk_preimage d v o1 n1 i1 t1 = chunk_preimage d v o2 n2 i2 t2 \<Longrightarrow> o1 = o2"
proof -
  assume "chunk_preimage d v o1 n1 i1 t1 = chunk_preimage d v o2 n2 i2 t2"
  then have "be_bytes_u32 o1 @ (n1 @ concat (map (\<lambda>b. CHR 0x00 # b) i1) @ CHR 0x00 # t1)
      = be_bytes_u32 o2 @ (n2 @ concat (map (\<lambda>b. CHR 0x00 # b) i2) @ CHR 0x00 # t2)"
    by (simp add: chunk_preimage_def)
  then have "be_bytes_u32 o1 = be_bytes_u32 o2" by (simp add: append_eq_append_conv)
  then show ?thesis by (simp add: be_bytes_u32_inj)
qed

lemma word_of_nat_succ_inj:
  assumes "j + 1 < 2 ^ 32" "k + 1 < 2 ^ 32" "(word_of_nat (j + 1) :: u32) = word_of_nat (k + 1)"
  shows "j = k"
proof -
  have "unat (word_of_nat (j + 1) :: u32) = unat (word_of_nat (k + 1) :: u32)" using assms(3) by (rule arg_cong)
  then show ?thesis using assms(1,2) by (simp only: unat_word_of_nat_u32)
qed

lemma join_eq_Nil: "x \<noteq> [] \<Longrightarrow> join sep (x # xs) \<noteq> []"
  by (cases xs) auto

lemma planned_nth:
  "k < length (chunk_plan inputs) \<Longrightarrow> planned_chunks sha n inputs ! k = chunk_of sha n k (chunk_plan inputs ! k)"
  by (simp add: planned_chunks_def nth_enumerate_eq)

lemma length_planned [simp]: "length (planned_chunks sha n inputs) = length (chunk_plan inputs)"
  by (simp add: planned_chunks_def)

lemma planned_ids_distinct:
  assumes len: "length (chunk_plan inputs) < 2 ^ 32 - 1"
    and inj: "inj_on sha (planned_preimages n inputs)"
  shows "distinct (map chunk_id (planned_chunks sha n inputs))"
proof -
  have "j = k" if jk: "j < length (chunk_plan inputs)" "k < length (chunk_plan inputs)"
    and eq: "chunk_id (planned_chunks sha n inputs ! j) = chunk_id (planned_chunks sha n inputs ! k)" for j k
  proof -
    let ?pre = "\<lambda>k. case chunk_plan inputs ! k of (node, p) \<Rightarrow>
      chunk_preimage (normalized_document_id n) CHUNKING_VERSION (word_of_nat (k + 1)) node
        (map block_id p) (join block_separator (map block_text p))"
    have id: "chunk_id (planned_chunks sha n inputs ! k) = ''ch-'' @ sha (?pre k)" if "k < length (chunk_plan inputs)" for k
      using that by (simp add: planned_nth chunk_of_def deterministic_chunk_id_def Let_def split: prod.split)
    have mem: "?pre k \<in> planned_preimages n inputs" if "k < length (chunk_plan inputs)" for k
      unfolding planned_preimages_def using that
      by (intro image_eqI [of _ _ "(k, chunk_plan inputs ! k)"]) (auto simp: in_set_enumerate_eq split: prod.split)
    have "?pre j = ?pre k"
      using eq id [OF jk(1)] id [OF jk(2)] inj_onD [OF inj _ mem [OF jk(1)] mem [OF jk(2)]] by simp
    then have "(word_of_nat (j + 1) :: u32) = word_of_nat (k + 1)"
      by (auto dest: chunk_preimage_ordinal split: prod.splits)
    then show ?thesis using jk len by (intro word_of_nat_succ_inj) simp_all
  qed
  then show ?thesis by (simp add: distinct_conv_nth) blast
qed

lemma planned_chunk_valid:
  assumes v: "validate_inputs n s = Inr inputs" and k: "k < length (chunk_plan inputs)" "k + 1 < 2 ^ 32"
    and fresh: "chunk_id (planned_chunks sha n inputs ! k) \<notin> ids"
  shows "validate_chunk sha inputs (normalized_document_id n) CHUNKING_VERSION (k, cov, ids) (planned_chunks sha n inputs ! k)
    = Inr (k + 1, cov @ map block_id (snd (chunk_plan inputs ! k)), insert (chunk_id (planned_chunks sha n inputs ! k)) ids)"
proof -
  note V = validate_inputs_ok [OF v]
  obtain node p where e: "chunk_plan inputs ! k = (node, p)" by (cases "chunk_plan inputs ! k")
  then have "(node, p) \<in> set (chunk_plan inputs)" using nth_mem [OF k(1)] by simp
  from plan_entry [OF v this] obtain g where g: "g \<in> set (groups inputs)" "node = group_node_id g"
    and p: "p \<noteq> []" "set p \<subseteq> set (blocks_of inputs g)" by blast
  have c: "planned_chunks sha n inputs ! k = chunk_of sha n k (node, p)" using k(1) e by (simp add: planned_nth)
  have ord: "u32_try_from (k + 1) = Some (word_of_nat (k + 1))" using k(2) by (rule u32_try_from_in_range)
  have look: "map_of (rev (map (\<lambda>g. (group_node_id g, group_block_ids g)) (groups inputs))) node = Some (group_block_ids g)"
    using V(6) g by (intro map_of_is_SomeI) (auto simp: rev_map [symmetric] comp_def)
  have entries: "list_all (\<lambda>b. input_blocks inputs (block_id b) = Some b \<and> block_id b \<in> set (group_block_ids g)) p"
    using group_blocks(1,2) [OF v g(1)] p(2) by (auto simp: list_all_iff)
  have "\<not> blank (block_text (hd p))"
    using V(4) group_blocks(3) [OF v g(1)] p by (auto simp: list_all_iff dest: hd_in_set)
  then have "block_text (hd p) \<noteq> []" by auto
  then have text_ne: "join block_separator (map block_text p) \<noteq> []"
    using p(1) by (cases p) (auto dest: join_eq_Nil)
  have nb: "\<not> blank (deterministic_chunk_id sha d v od nd js tx)" for d v od nd js tx
    by (simp add: deterministic_chunk_id_def blank_ascii_Cons byte_def is_whitespace_def)
  show ?thesis
    using fresh p(1) ord look chunk_entries_ok [OF entries, of "[]" cov] text_ne nb
    by (simp add: validate_chunk_def c chunk_of_def Let_def e)
qed

lemma chunk_version_not_blank: "\<not> blank CHUNKING_VERSION"
  by (simp add: CHUNKING_VERSION_def blank_ascii_Cons byte_def is_whitespace_def)

lemma planned_valid:
  assumes v: "validate_inputs n s = Inr inputs" and len: "length (chunk_plan inputs) < 2 ^ 32 - 1"
    and inj: "inj_on sha (planned_preimages n inputs)"
  shows "validate_chunked_document sha \<lparr>chunked_document_id = normalized_document_id n,
      chunking_version = CHUNKING_VERSION, chunks = planned_chunks sha n inputs, chunked_warnings = ws\<rparr>
      n s CHUNKING_VERSION = Inr ()"
proof -
  let ?cs = "planned_chunks sha n inputs" and ?plan = "chunk_plan inputs"
  define P where "P ys st \<longleftrightarrow> st = (length ys, map block_id (concat (map snd (take (length ys) ?plan))),
      chunk_id ` set ys)" for ys :: "document_chunk list" and st
  have "\<exists>t. res_fold (validate_chunk sha inputs (normalized_document_id n) CHUNKING_VERSION) (0, [], {}) ?cs = Inr t
      \<and> P ?cs t"
  proof (rule res_fold_total)
    show "P [] (0, [], {})" by (simp add: P_def)
    fix ys y zs st assume split: "?cs = ys @ y # zs" and st: "P ys st"
    let ?k = "length ys"
    have "length ?plan = length (ys @ y # zs)" by (simp only: split [symmetric] length_planned)
    then have k: "?k < length ?plan" by simp
    have y: "y = ?cs ! ?k" by (simp add: split)
    have "distinct (map chunk_id ?cs)" by (rule planned_ids_distinct [OF len inj])
    then have fresh: "chunk_id (?cs ! ?k) \<notin> chunk_id ` set ys"
      using y unfolding split by auto
    have k1: "?k + 1 < 2 ^ 32" using k len by simp
    note step = planned_chunk_valid [OF v k k1 fresh]
    have "take (Suc ?k) ?plan = take ?k ?plan @ [?plan ! ?k]" by (rule take_Suc_conv_app_nth [OF k])
    then have "P (ys @ [y]) (?k + 1, map block_id (concat (map snd (take ?k ?plan))) @ map block_id (snd (?plan ! ?k)),
        insert (chunk_id (?cs ! ?k)) (chunk_id ` set ys))"
      using y by (simp add: P_def)
    with step st y show "\<exists>s'. validate_chunk sha inputs (normalized_document_id n) CHUNKING_VERSION st y = Inr s' \<and> P (ys @ [y]) s'"
      unfolding P_def by blast
  qed
  then have "res_fold (validate_chunk sha inputs (normalized_document_id n) CHUNKING_VERSION) (0, [], {}) ?cs
      = Inr (length ?plan, map block_id (all_blocks n), chunk_id ` set ?cs)"
    using plan_covers [OF v] by (simp add: P_def)
  then show ?thesis
    using v validate_inputs_ok(1) [OF v] chunk_version_not_blank by (simp add: validate_chunked_document_def)
qed

section \<open>Properties of the chunker\<close>

lemma chunk_structured_planned:
  assumes v: "validate_inputs n s = Inr inputs" and len: "length (chunk_plan inputs) < 2 ^ 32 - 1"
    and inj: "inj_on sha (planned_preimages n inputs)"
  shows "chunk_structured sha n s = Inr \<lparr>chunked_document_id = normalized_document_id n,
      chunking_version = CHUNKING_VERSION, chunks = planned_chunks sha n inputs,
      chunked_warnings = structured_warnings s @ concat (map structure_page_warnings (structured_pages s))
        @ (if all_blocks n = [] then [no_text_warning] else [])\<rparr>"
proof -
  have "res_fold (chunk_group sha n inputs) [] (groups inputs) = Inr (planned_chunks sha n inputs)"
    using push_chunks_ok [of "[]" "chunk_plan inputs" sha n] len
    by (simp add: chunk_loop_plan [OF v] planned_chunks_def)
  with planned_valid [OF v len inj] v validate_inputs_ok(1) [OF v] show ?thesis
    by (simp add: chunk_structured_def Let_def)
qed

lemma push_chunks_Inr:
  "res_fold (push_chunk sha n) cs es = Inr cs' \<Longrightarrow>
   cs' = cs @ map (\<lambda>(k, e). chunk_of sha n k e) (enumerate (length cs) es)"
proof (induction es arbitrary: cs)
  case Nil
  then show ?case by simp
next
  case (Cons e es)
  obtain node p where e: "e = (node, p)" by (cases e)
  from Cons.prems obtain cs1 where step: "push_chunk sha n cs e = Inr cs1"
    and rest: "res_fold (push_chunk sha n) cs1 es = Inr cs'" by (auto simp: res_bind_Inr_iff)
  from step have "cs1 = cs @ [chunk_of sha n (length cs) e]"
    by (auto simp: push_chunk_def materialize_chunk_def chunk_of_def e Let_def res_simps u32_try_from_def
        split: if_splits)
  with Cons.IH [OF rest] show ?case by simp
qed

lemma chunk_structured_Inr:
  assumes "chunk_structured sha n s = Inr c"
  obtains inputs where "validate_inputs n s = Inr inputs" "chunks c = planned_chunks sha n inputs"
proof -
  from assms obtain inputs cs where v: "validate_inputs n s = Inr inputs"
    and cs: "res_fold (chunk_group sha n inputs) [] (groups inputs) = Inr cs" and c: "chunks c = cs"
    by (auto simp: chunk_structured_def Let_def res_bind_Inr_iff)
  from cs have "cs = planned_chunks sha n inputs"
    unfolding chunk_loop_plan [OF v] by (auto dest: push_chunks_Inr simp: planned_chunks_def)
  with v c that show ?thesis by blast
qed

lemma plan_maximal:
  assumes "distinct (map group_node_id gs)"
  shows "successively (\<lambda>x y. fst x = fst y \<longrightarrow>
       packed_size (snd x) + 2 + block_chars (hd (snd y)) > TARGET_CHUNK_CHARACTERS)
     (concat (map (\<lambda>g. map (Pair (group_node_id g)) (pack (f g))) gs))"
  using assms
proof (induction gs)
  case Nil
  then show ?case by simp
next
  case (Cons g gs)
  let ?rest = "concat (map (\<lambda>g. map (Pair (group_node_id g)) (pack (f g))) gs)"
  have nodes: "fst x \<in> set (map group_node_id gs)" if "x \<in> set ?rest" for x using that by auto
  have "fst x \<noteq> group_node_id g" if "x \<in> set ?rest" for x
  proof
    assume "fst x = group_node_id g"
    moreover have "fst x \<in> set (map group_node_id gs)" by (rule nodes [OF that])
    ultimately show False using Cons.prems by simp
  qed
  then have "?rest \<noteq> [] \<longrightarrow> fst (hd ?rest) \<noteq> group_node_id g" using hd_in_set by blast
  moreover have "successively (\<lambda>x y. fst x = fst y \<longrightarrow>
       packed_size (snd x) + 2 + block_chars (hd (snd y)) > TARGET_CHUNK_CHARACTERS)
     (map (Pair (group_node_id g)) (pack (f g)))"
    using pack_maximal [of "f g"] by (simp add: successively_map)
  ultimately show ?case using Cons
    by (auto simp: successively_append_iff last_map)
qed

lemma pack_text_size:
  "list_all (utf8_complete \<circ> block_text) p \<Longrightarrow>
   char_count (join block_separator (map block_text p)) = packed_size p"
  by (subst char_count_join)
    (simp_all add: block_separator_def continuation_bytes_def byte_def packed_size_def char_count_def
      comp_def list.pred_map)

text \<open>
  C14. On inputs that do not fit together the chunker returns the validator's error. Otherwise, unless
  two chunk digests collide or there are more than four billion chunks, it returns one chunk per
  pack of the greedy packing, in order and numbered from one, and it accepts its own output.
\<close>

theorem chunk_structured_exact:
  assumes "\<And>inputs. validate_inputs n s = Inr inputs \<Longrightarrow>
      length (chunk_plan inputs) < 2 ^ 32 - 1 \<and> inj_on sha (planned_preimages n inputs)"
  shows "case validate_inputs n s of
      Inl e \<Rightarrow> chunk_structured sha n s = Inl e
    | Inr inputs \<Rightarrow> \<exists>c. chunk_structured sha n s = Inr c
        \<and> chunks c = planned_chunks sha n inputs
        \<and> chunked_document_id c = normalized_document_id n
        \<and> chunked_warnings c = structured_warnings s @ concat (map structure_page_warnings (structured_pages s))
              @ (if all_blocks n = [] then [no_text_warning] else [])
        \<and> validate_chunked_document sha c n s CHUNKING_VERSION = Inr ()"
proof (cases "validate_inputs n s")
  case (Inl e)
  then show ?thesis by (simp add: chunk_structured_def)
next
  case (Inr inputs)
  with assms have ok: "length (chunk_plan inputs) < 2 ^ 32 - 1" "inj_on sha (planned_preimages n inputs)" by auto
  from chunk_structured_planned [OF Inr ok] planned_valid [OF Inr ok] Inr show ?thesis by simp
qed

text \<open>
  C15. Whatever the chunker returns: its chunks own the blocks of the document, each once and in
  order; a chunk longer than 12000 characters is a single block, and exactly those carry the warning;
  and of two neighbours in one structure node, the first had no room for the first block of the second.
\<close>

theorem chunks_cover_and_fit:
  assumes "chunk_structured sha n s = Inr c"
    and "list_all (utf8_complete \<circ> block_text) (all_blocks n)"
  shows "concat (map chunk_block_ids (chunks c)) = map block_id (all_blocks n)
    \<and> list_all (\<lambda>ch. (TARGET_CHUNK_CHARACTERS < char_count (chunk_text ch) \<longrightarrow> length (chunk_block_ids ch) = 1)
          \<and> (chunk_warnings ch \<noteq> [] \<longleftrightarrow> TARGET_CHUNK_CHARACTERS < char_count (chunk_text ch))) (chunks c)
    \<and> successively (\<lambda>x y. structure_node_id x = structure_node_id y \<longrightarrow>
          (\<exists>b \<in> set (all_blocks n). block_id b = hd (chunk_block_ids y)
             \<and> TARGET_CHUNK_CHARACTERS < char_count (chunk_text x) + 2 + char_count (block_text b))) (chunks c)"
proof -
  from chunk_structured_Inr [OF assms(1)] obtain inputs
    where v: "validate_inputs n s = Inr inputs" and c: "chunks c = planned_chunks sha n inputs" .
  let ?plan = "chunk_plan inputs"
  have entry: "p \<noteq> [] \<and> set p \<subseteq> set (all_blocks n) \<and> char_count (join block_separator (map block_text p)) = packed_size p
      \<and> (packed_size p \<le> TARGET_CHUNK_CHARACTERS \<or> length p = 1)" if mem: "(node, p) \<in> set ?plan" for node p
  proof -
    obtain g where g: "g \<in> set (groups inputs)" "p \<noteq> []" "set p \<subseteq> set (blocks_of inputs g)"
      by (rule plan_entry [OF v mem])
    have sub: "set p \<subseteq> set (all_blocks n)" by (rule subset_trans [OF g(3) group_blocks(3) [OF v g(1)]])
    then have "list_all (utf8_complete \<circ> block_text) p" using assms(2) by (auto simp: list_all_iff)
    moreover have "packed_size p \<le> TARGET_CHUNK_CHARACTERS \<or> length p = 1"
    proof -
      from mem obtain g where "p \<in> set (pack (blocks_of inputs g))" by (auto simp: chunk_plan_def)
      with pack_fits [of "blocks_of inputs g"] show ?thesis unfolding list_all_iff by blast
    qed
    ultimately show ?thesis using g(2) sub by (simp add: pack_text_size)
  qed
  have "map chunk_block_ids (chunks c) = map (map block_id \<circ> snd) ?plan"
    unfolding c by (rule nth_equalityI) (simp_all add: planned_nth chunk_of_def Let_def split: prod.split)
  then have cover: "concat (map chunk_block_ids (chunks c)) = map block_id (all_blocks n)"
    using plan_covers [OF v] by (simp add: map_concat comp_def)
  have "list_all (\<lambda>ch. (TARGET_CHUNK_CHARACTERS < char_count (chunk_text ch) \<longrightarrow> length (chunk_block_ids ch) = 1)
          \<and> (chunk_warnings ch \<noteq> [] \<longleftrightarrow> TARGET_CHUNK_CHARACTERS < char_count (chunk_text ch))) (chunks c)"
    unfolding list_all_length
  proof (intro allI impI)
    fix k assume "k < length (chunks c)"
    then have k: "k < length ?plan" by (simp add: c)
    obtain node p where e: "?plan ! k = (node, p)" by (cases "?plan ! k")
    with nth_mem [OF k] entry [of node p] show "(TARGET_CHUNK_CHARACTERS < char_count (chunk_text (chunks c ! k))
        \<longrightarrow> length (chunk_block_ids (chunks c ! k)) = 1)
        \<and> (chunk_warnings (chunks c ! k) \<noteq> [] \<longleftrightarrow> TARGET_CHUNK_CHARACTERS < char_count (chunk_text (chunks c ! k)))"
      using k by (auto simp: c planned_nth chunk_of_def Let_def)
  qed
  moreover have "successively (\<lambda>x y. structure_node_id x = structure_node_id y \<longrightarrow>
          (\<exists>b \<in> set (all_blocks n). block_id b = hd (chunk_block_ids y)
             \<and> TARGET_CHUNK_CHARACTERS < char_count (chunk_text x) + 2 + char_count (block_text b))) (chunks c)"
    unfolding successively_conv_nth
  proof (intro allI impI)
    fix k assume "Suc k < length (chunks c)"
      and same: "structure_node_id (chunks c ! k) = structure_node_id (chunks c ! Suc k)"
    then have k: "k < length ?plan" "Suc k < length ?plan" by (simp_all add: c)
    obtain node p node' q where e: "?plan ! k = (node, p)" "?plan ! Suc k = (node', q)"
      by (cases "?plan ! k", cases "?plan ! Suc k")
    have nodes: "node = node'" using same k e by (simp add: c planned_nth chunk_of_def Let_def)
    have "packed_size p + 2 + block_chars (hd q) > TARGET_CHUNK_CHARACTERS"
      using plan_maximal [OF validate_inputs_ok(6) [OF v], of "blocks_of inputs", folded chunk_plan_def]
        k(2) e nodes unfolding successively_conv_nth by fastforce
    moreover have "hd q \<in> set (all_blocks n)" "q \<noteq> []"
      using entry [of node' q] nth_mem [OF k(2)] e hd_in_set by auto
    ultimately show "\<exists>b \<in> set (all_blocks n). block_id b = hd (chunk_block_ids (chunks c ! Suc k))
        \<and> TARGET_CHUNK_CHARACTERS < char_count (chunk_text (chunks c ! k)) + 2 + char_count (block_text b)"
      using entry [of node p] nth_mem [OF k(1)] e k
      by (intro bexI [of _ "hd q"]) (simp_all add: c planned_nth chunk_of_def Let_def hd_map)
  qed
  ultimately show ?thesis using cover by blast
qed

definition sample_section :: structure_node where
  "sample_section = StructureNode ''s'' Section (Some ''Scope'') 1 [''b1'', ''b2''] [sample_span, sample_span] []"

definition sample_structured :: structured_document where
  "sample_structured = \<lparr>structured_document_id = ''d'', structure_version = ''1'',
     structured_pages = map structure_page_of (normalized_pages sample_normalized),
     structured_nodes = [StructureNode ''r'' Document None 0 [] [] [sample_section]],
     structured_warnings = []\<rparr>"

definition sample_inputs :: chunk_inputs where
  "sample_inputs = \<lparr>input_blocks = own_blocks (rev (all_blocks sample_normalized)),
     canonical_block_ids = [''b1'', ''b2''],
     groups = [\<lparr>group_node_id = ''s'', group_block_ids = [''b1'', ''b2'']\<rparr>]\<rparr>"

lemma sample_inputs_valid: "validate_inputs sample_normalized sample_structured = Inr sample_inputs"
  by (simp add: validate_inputs_def sample_normalized_def sample_structured_def sample_section_def sample_inputs_def
      chunk_input_page_def chunk_input_block_def structure_page_of_def sample_span_def u32_try_from_def
      collect_group_def provenance_entry_def all_blocks_def blank_ascii_Cons byte_def is_whitespace_def Let_def)

lemma sample_chunked: "\<exists>c. chunk_structured id sample_normalized sample_structured = Inr c"
proof -
  have "chunk_plan sample_inputs = [(''s'', all_blocks sample_normalized)]"
    by (simp add: chunk_plan_def sample_inputs_def blocks_of_def all_blocks_def sample_normalized_def
        TARGET_CHUNK_CHARACTERS_def char_count_def byte_def)
  then show ?thesis
    using chunk_structured_planned [OF sample_inputs_valid, of id] by simp
qed

theorem chunk_structured_exact_witness:
  "\<exists>c. chunk_structured id sample_normalized sample_structured = Inr c
     \<and> validate_chunked_document id c sample_normalized sample_structured CHUNKING_VERSION = Inr ()"
proof -
  have "chunk_plan sample_inputs = [(''s'', all_blocks sample_normalized)]"
    by (simp add: chunk_plan_def sample_inputs_def blocks_of_def all_blocks_def sample_normalized_def
        TARGET_CHUNK_CHARACTERS_def char_count_def byte_def)
  then show ?thesis
    using chunk_structured_exact [of sample_normalized sample_structured id] by (auto simp: sample_inputs_valid)
qed

theorem chunks_cover_and_fit_witness:
  "\<exists>c. chunk_structured id sample_normalized sample_structured = Inr c
     \<and> concat (map chunk_block_ids (chunks c)) = [''b1'', ''b2'']"
proof -
  from sample_chunked obtain c where c: "chunk_structured id sample_normalized sample_structured = Inr c" by blast
  have "list_all (utf8_complete \<circ> block_text) (all_blocks sample_normalized)"
    by (simp add: all_blocks_def sample_normalized_def continuation_bytes_def byte_def)
  from chunks_cover_and_fit [OF c this] c show ?thesis
    by (auto simp: all_blocks_def sample_normalized_def)
qed

end
