(* ===== verification/State_Machine.thy ===== *)
theory State_Machine
  imports Contracts
begin

text \<open>
  \<open>pipeline/state.rs\<close>: the transition table of a run and the compare-and-set step that applies one
  transition. A call of \<open>Utc::now\<close> and \<open>Uuid::new_v4\<close> takes its values from an argument of type
  \<open>tick\<close>, because neither is determined by the code.
\<close>

section \<open>The model\<close>

record tick =
  now :: timestamp
  fresh_uuid :: string

datatype transition_error =
    StaleExpectedState pipeline_state pipeline_state
  | InvalidTransition pipeline_state pipeline_state
  | ConcurrentModification u32 u32
  | VersionExhausted u32

text \<open>The arms of the \<open>match (from, to)\<close>, in the order of the source.\<close>

definition transition_arms :: "(pipeline_state \<times> pipeline_state) list" where
  "transition_arms =
     [(Received, Ingesting), (Ingesting, Ingested),
      (Ingested, Parsing), (Parsing, Parsed),
      (Parsed, Normalizing), (Normalizing, Normalized),
      (Normalized, Structuring), (Structuring, Structured),
      (Structured, Chunking), (Chunking, Chunked),
      (Chunked, Analyzing), (Analyzing, Analyzed),
      (Analyzed, Synthesizing), (Synthesizing, Synthesized),
      (Synthesized, Verifying), (Verifying, Verified),
      (Parsing, Ingested), (Normalizing, Parsed), (Structuring, Normalized),
      (Chunking, Structured), (Analyzing, Chunked), (Synthesizing, Analyzed),
      (Verifying, Synthesized),
      (Verified, Complete), (Verified, CompleteWithWarnings),
      (Cancelling, Cancelled)]"

definition is_valid_transition :: "pipeline_state \<Rightarrow> pipeline_state \<Rightarrow> bool" where
  "is_valid_transition src dst =
     (if src \<in> {Complete, CompleteWithWarnings, Failed, Cancelled} then False
      else if dst \<in> {Failed, Cancelling} then True
      else (src, dst) \<in> set transition_arms)"

definition transition ::
  "pipeline_run \<Rightarrow> pipeline_state \<Rightarrow> pipeline_state \<Rightarrow> u32 \<Rightarrow> u32 \<Rightarrow> pipeline_stage option \<Rightarrow>
   string option \<Rightarrow> tick \<Rightarrow> transition_error + pipeline_event \<times> pipeline_run" where
  "transition run expected_state next expected_version seq stage reason t =
     (if run_state run \<noteq> expected_state
      then Inl (StaleExpectedState expected_state (run_state run))
      else if state_version run \<noteq> expected_version
      then Inl (ConcurrentModification expected_version (state_version run))
      else if \<not> is_valid_transition (run_state run) next
      then Inl (InvalidTransition (run_state run) next)
      else case checked_add_u32 (state_version run) 1 of
        None \<Rightarrow> Inl (VersionExhausted (state_version run))
      | Some next_version \<Rightarrow>
          let event = \<lparr>event_id = fresh_uuid t, event_run_id = run_id run, sequence_no = seq,
                previous_state = Some (run_state run), next_state = next, timestamp = now t,
                event_stage = stage, work_unit_id = None, event_reason = reason\<rparr>;
              run1 = run\<lparr>run_state := next, state_version := next_version, updated_at := now t\<rparr>;
              run2 = (case stage of Some s \<Rightarrow> run1\<lparr>current_stage := Some s\<rparr> | None \<Rightarrow> run1);
              run3 = (if next \<in> {Complete, CompleteWithWarnings, Failed, Cancelled}
                      then run2\<lparr>completed_at := Some (now t)\<rparr>
                      else if next = Ingesting \<and> started_at run2 = None
                      then run2\<lparr>started_at := Some (now t)\<rparr>
                      else run2)
          in Inr (event, run3))"

section \<open>The transition table\<close>

lemma valid_transition_cases:
  "is_valid_transition a b \<Longrightarrow>
     \<not> terminal a \<and> (b = Failed \<or> b = Cancelling \<or> (a, b) \<in> set transition_arms)"
  by (auto simp: is_valid_transition_def terminal_def split: if_splits)

lemma terminal_absorbing: "terminal a \<Longrightarrow> \<not> is_valid_transition a b"
  by (auto simp: is_valid_transition_def terminal_def)

lemma nonterminal_can_fail: "\<not> terminal a \<Longrightarrow> is_valid_transition a Failed \<and> is_valid_transition a Cancelling"
  by (auto simp: is_valid_transition_def terminal_def)

lemma arm_is_valid: "(a, b) \<in> set transition_arms \<Longrightarrow> is_valid_transition a b"
  by (auto simp: is_valid_transition_def transition_arms_def)

inductive state_step :: "pipeline_state \<Rightarrow> pipeline_state \<Rightarrow> bool" where
  step: "is_valid_transition a b \<Longrightarrow> state_step a b"

inductive_simps state_step_iff [simp]: "state_step a b"

definition visual_states :: "pipeline_state set" where
  "visual_states = {VisualAnalysisRequired, VisualAnalyzing, VisualAnalyzed}"

text \<open>The position of a state on the way from \<open>Received\<close> to completion; \<open>0\<close> off that way.\<close>

fun rank :: "pipeline_state \<Rightarrow> nat" where
  "rank Ingesting = 1" | "rank Ingested = 2" | "rank Parsing = 3" | "rank Parsed = 4"
| "rank Normalizing = 5" | "rank Normalized = 6" | "rank Structuring = 7" | "rank Structured = 8"
| "rank Chunking = 9" | "rank Chunked = 10" | "rank Analyzing = 11" | "rank Analyzed = 12"
| "rank Synthesizing = 13" | "rank Synthesized = 14" | "rank Verifying = 15" | "rank Verified = 16"
| "rank Complete = 17" | "rank CompleteWithWarnings = 17"
| "rank _ = 0"

lemma rank_step: "is_valid_transition a b \<Longrightarrow> rank b \<le> Suc (rank a)"
  by (drule valid_transition_cases) (auto simp: transition_arms_def)

lemma rank_inj: "rank a = rank b \<Longrightarrow> 0 < rank b \<Longrightarrow> rank b < 17 \<Longrightarrow> a = b"
  by (cases b; cases a) simp_all

fun valid_trace :: "pipeline_state list \<Rightarrow> bool" where
  "valid_trace [] = True"
| "valid_trace [s] = True"
| "valid_trace (s # t # ss) = (is_valid_transition s t \<and> valid_trace (t # ss))"

lemma valid_trace_snoc:
  "valid_trace (ss @ [t]) \<longleftrightarrow> valid_trace ss \<and> (ss = [] \<or> is_valid_transition (last ss) t)"
  by (induction ss rule: valid_trace.induct) auto

lemma valid_trace_climbs:
  assumes "valid_trace ss" "ss \<noteq> []" "rank (hd ss) = 0" "k \<le> rank (last ss)" "0 < k"
  shows "\<exists>s \<in> set ss. rank s = k"
  using assms
proof (induction ss rule: rev_induct)
  case Nil
  then show ?case by simp
next
  case (snoc t ss)
  show ?case
  proof (cases "ss = [] \<or> k = rank t")
    case True
    then show ?thesis using snoc.prems by auto
  next
    case False
    then have "k \<le> rank (last ss)"
      using snoc.prems rank_step [of "last ss" t] by (auto simp: valid_trace_snoc)
    then show ?thesis using snoc False by (auto simp: valid_trace_snoc)
  qed
qed

lemma valid_trace_reaches:
  "valid_trace (s # ss) \<Longrightarrow> state_step\<^sup>*\<^sup>* s (last (s # ss))"
  by (induction ss arbitrary: s) (auto intro: converse_rtranclp_into_rtranclp)

section \<open>The compare-and-set step\<close>

lemma transition_Inr_iff:
  "transition run s n v q st rs t = Inr (ev, run') \<longleftrightarrow>
     run_state run = s \<and> state_version run = v \<and> is_valid_transition s n
     \<and> unat v + 1 < 2 ^ 32
     \<and> ev = \<lparr>event_id = fresh_uuid t, event_run_id = run_id run, sequence_no = q,
              previous_state = Some s, next_state = n, timestamp = now t,
              event_stage = st, work_unit_id = None, event_reason = rs\<rparr>
     \<and> run' = run\<lparr>run_state := n, state_version := v + 1, updated_at := now t,
              current_stage := (case st of Some x \<Rightarrow> Some x | None \<Rightarrow> current_stage run),
              completed_at := (if terminal n then Some (now t) else completed_at run),
              started_at := (if n = Ingesting \<and> started_at run = None then Some (now t)
                             else started_at run)\<rparr>"
  by (auto simp: transition_def Let_def checked_add_u32_def terminal_def split: option.split)

lemma unat_succ_version: "unat (v :: u32) + 1 < 2 ^ 32 \<Longrightarrow> unat (v + 1) = unat v + 1"
  by (simp add: unat_word_ariths)

lemma succ_version_neq: "(v :: u32) + 1 \<noteq> v"
  by simp

text \<open>Fields a transition never writes.\<close>

lemma transition_frame:
  assumes "transition run s n v q st rs t = Inr (ev, run')"
  shows "run_id run' = run_id run" "run_document_id run' = run_document_id run"
    "pipeline_version run' = pipeline_version run" "run_created_at run' = run_created_at run"
    "progress run' = progress run" "run_warnings run' = run_warnings run"
    "run_failure run' = run_failure run" "resumable run' = resumable run"
    "cancellation_requested run' = cancellation_requested run"
  using assms by (auto simp: transition_Inr_iff)

text \<open>
  The timestamps agree with the state: a run has a completion time exactly when its state is
  terminal, and a start time once it has left \<open>Received\<close> on the way to completion.
\<close>

definition timestamps_agree :: "pipeline_run \<Rightarrow> bool" where
  "timestamps_agree r \<longleftrightarrow>
     (completed_at r \<noteq> None \<longleftrightarrow> terminal (run_state r))
     \<and> (0 < rank (run_state r) \<longrightarrow> started_at r \<noteq> None)"

lemma rank_pos_predecessor:
  "is_valid_transition a b \<Longrightarrow> 0 < rank b \<Longrightarrow> b = Ingesting \<or> 0 < rank a"
  by (drule valid_transition_cases) (auto simp: transition_arms_def)

lemma transition_timestamps_agree:
  assumes "transition run s n v q st rs t = Inr (ev, run')" "timestamps_agree run"
  shows "timestamps_agree run'"
  using assms rank_pos_predecessor [of s n] terminal_absorbing [of s n]
  by (auto simp: transition_Inr_iff timestamps_agree_def)

section \<open>Properties\<close>

text \<open>
  C2. A run whose states, from \<open>Received\<close> on, follow the transition table and end in \<open>Complete\<close> or
  \<open>CompleteWithWarnings\<close> has been in every active and every checkpoint state of the eight stages:
  no path, with the restart edges included, skips a stage.
\<close>

theorem completion_passes_every_stage:
  assumes "valid_trace ss" "ss \<noteq> []" "hd ss = Received"
    and "last ss = Complete \<or> last ss = CompleteWithWarnings"
  shows "{Ingesting, Ingested, Parsing, Parsed, Normalizing, Normalized, Structuring, Structured,
          Chunking, Chunked, Analyzing, Analyzed, Synthesizing, Synthesized, Verifying, Verified}
         \<subseteq> set ss"
proof -
  have "s \<in> set ss" if "0 < rank s" "rank s < 17" for s
  proof -
    have "rank (last ss) = 17" using assms(4) by auto
    then obtain u where "u \<in> set ss" "rank u = rank s"
      using valid_trace_climbs [of ss "rank s"] assms(1-3) \<open>0 < rank s\<close> \<open>rank s < 17\<close> by auto
    with that show ?thesis using rank_inj by auto
  qed
  then show ?thesis by simp
qed

lemma completion_passes_every_stage_witness:
  "Normalized \<in> set [Received, Ingesting, Ingested, Parsing, Ingested, Parsing, Parsed, Normalizing,
     Normalized, Structuring, Structured, Chunking, Chunked, Analyzing, Analyzed, Synthesizing,
     Synthesized, Verifying, Verified, Complete]"
  using completion_passes_every_stage
    [of "[Received, Ingesting, Ingested, Parsing, Ingested, Parsing, Parsed, Normalizing,
       Normalized, Structuring, Structured, Chunking, Chunked, Analyzing, Analyzed, Synthesizing,
       Synthesized, Verifying, Verified, Complete]"]
  by (simp add: is_valid_transition_def transition_arms_def)

text \<open>
  Exactly the three visual-analysis states, which the transition table never enters, are out of
  reach of a run that starts as \<open>Received\<close>.
\<close>

theorem reachable_states:
  "state_step\<^sup>*\<^sup>* Received s \<longleftrightarrow> s \<notin> visual_states"
proof
  assume "state_step\<^sup>*\<^sup>* Received s"
  then show "s \<notin> visual_states"
    by (induction rule: rtranclp_induct)
      (auto simp: visual_states_def dest!: valid_transition_cases simp: transition_arms_def)
next
  assume s: "s \<notin> visual_states"
  have main: "state_step\<^sup>*\<^sup>* Received (last (Received # ss))"
    if "valid_trace (Received # ss)" for ss
    using valid_trace_reaches that by blast
  let ?path = "[Ingesting, Ingested, Parsing, Parsed, Normalizing, Normalized, Structuring,
     Structured, Chunking, Chunked, Analyzing, Analyzed, Synthesizing, Synthesized, Verifying,
     Verified]"
  have "state_step\<^sup>*\<^sup>* Received (last (Received # take k ?path @ ss))"
    if "valid_trace (Received # take k ?path @ ss)" for k ss
    using main that by blast
  note path = this
  show "state_step\<^sup>*\<^sup>* Received s"
    using s path [of 0 "[]"] path [of 1 "[]"] path [of 2 "[]"] path [of 3 "[]"] path [of 4 "[]"]
      path [of 5 "[]"] path [of 6 "[]"] path [of 7 "[]"] path [of 8 "[]"] path [of 9 "[]"]
      path [of 10 "[]"] path [of 11 "[]"] path [of 12 "[]"] path [of 13 "[]"] path [of 14 "[]"]
      path [of 15 "[]"] path [of 16 "[]"] path [of 16 "[Complete]"]
      path [of 16 "[CompleteWithWarnings]"] path [of 0 "[Failed]"] path [of 0 "[Cancelling]"]
      path [of 0 "[Cancelling, Cancelled]"]
    by (cases s) (simp_all add: visual_states_def is_valid_transition_def transition_arms_def)
qed

text \<open>
  C1. The step is a compare-and-set: it succeeds exactly when state and version are the expected
  ones, the table admits the edge and the version can still grow. Then the event and the run it
  returns are determined in full: the event carries the edge, the stage, the reason, the sequence
  number and the time it was asked with and a fresh identity, and the run keeps everything except
  its state, its version (one larger, without wrapping), the time of its last update, its stage
  where one is named, the completion time of a terminal state, and the start time of a run that
  enters \<open>Ingesting\<close> without one. Every other case is the error that names the violated condition
  and returns no run.
\<close>

theorem transition_compare_and_set:
  "(case transition run s n v q st rs t of
      Inr (ev, run') \<Rightarrow>
        run_state run = s \<and> state_version run = v \<and> is_valid_transition s n
        \<and> run_state run' = n \<and> unat (state_version run') = unat v + 1
        \<and> previous_state ev = Some s \<and> next_state ev = n \<and> sequence_no ev = q
        \<and> event_run_id ev = run_id run
        \<and> completed_at run' = (if terminal n then Some (now t) else completed_at run)
        \<and> ev = \<lparr>event_id = fresh_uuid t, event_run_id = run_id run, sequence_no = q,
              previous_state = Some s, next_state = n, timestamp = now t,
              event_stage = st, work_unit_id = None, event_reason = rs\<rparr>
        \<and> run' = \<lparr>run_id = run_id run, run_document_id = run_document_id run, run_state = n,
              state_version = v + 1, pipeline_version = pipeline_version run,
              run_created_at = run_created_at run,
              started_at = (if n = Ingesting \<and> started_at run = None then Some (now t)
                            else started_at run),
              updated_at = now t,
              completed_at = (if terminal n then Some (now t) else completed_at run),
              current_stage = (if st = None then current_stage run else st),
              progress = progress run, run_warnings = run_warnings run,
              run_failure = run_failure run,
              cancellation_requested = cancellation_requested run, resumable = resumable run\<rparr>
    | Inl (StaleExpectedState e f) \<Rightarrow> e = s \<and> f = run_state run \<and> e \<noteq> f
    | Inl (ConcurrentModification e f) \<Rightarrow>
        run_state run = s \<and> e = v \<and> f = state_version run \<and> e \<noteq> f
    | Inl (InvalidTransition e f) \<Rightarrow>
        run_state run = s \<and> state_version run = v \<and> e = s \<and> f = n \<and> \<not> is_valid_transition e f
    | Inl (VersionExhausted e) \<Rightarrow>
        run_state run = s \<and> state_version run = v \<and> is_valid_transition s n
        \<and> e = v \<and> unat e = 2 ^ 32 - 1)"
proof (cases "transition run s n v q st rs t")
  case (Inl e)
  have "unat v \<le> 2 ^ 32 - 1" using unat_u32_le [of v] by simp
  with Inl show ?thesis
    by (auto simp: transition_def checked_add_u32_def Let_def split: if_splits)
next
  case (Inr p)
  obtain ev run' where p: "p = (ev, run')" by (cases p)
  from Inr p have ok: "transition run s n v q st rs t = Inr (ev, run')" by simp
  then have "unat (v + 1) = unat v + 1" by (simp add: transition_Inr_iff unat_succ_version)
  with ok [unfolded transition_Inr_iff] show ?thesis by (auto simp: Inr p split: option.split)
qed

text \<open>
  At most one of several writers that read the same version wins: after a transition has
  succeeded, every further transition that still names the version it was based on is refused,
  whatever edge it asks for.
\<close>

theorem stale_writer_refused:
  assumes "transition run s n v q st rs t = Inr (ev, run')"
  shows "transition run' s' n' v q' st' rs' t' =
     Inl (if n = s' then ConcurrentModification v (v + 1) else StaleExpectedState s' n)"
proof -
  from assms have "run_state run' = n" "state_version run' = v + 1"
    by (auto simp: transition_Inr_iff)
  then show ?thesis by (simp add: transition_def)
qed

definition sample_run :: pipeline_run where
  "sample_run = \<lparr>run_id = ''run'', run_document_id = ''doc'', run_state = Received,
     state_version = 1, pipeline_version = ''1.0'', run_created_at = 0, started_at = None,
     updated_at = 0, completed_at = None, current_stage = None,
     progress = \<lparr>total_units = 0, completed_units = 0, failed_units = 0\<rparr>,
     run_warnings = [], run_failure = None, cancellation_requested = False, resumable = True\<rparr>"

lemma stale_writer_refused_witness:
  "\<exists>ev run'. transition sample_run Received Ingesting 1 0 None None \<lparr>now = 5, fresh_uuid = ''e''\<rparr> = Inr (ev, run')
     \<and> transition run' Received Failed 1 1 None None \<lparr>now = 6, fresh_uuid = ''f''\<rparr>
         = Inl (StaleExpectedState Received Ingesting)"
proof -
  obtain ev run' where ok: "transition sample_run Received Ingesting 1 0 None None
      \<lparr>now = 5, fresh_uuid = ''e''\<rparr> = Inr (ev, run')"
    by (simp add: transition_def sample_run_def is_valid_transition_def transition_arms_def
        checked_add_u32_def Let_def)
  from stale_writer_refused [OF ok, of Received Failed 1 None None "\<lparr>now = 6, fresh_uuid = ''f''\<rparr>"] ok
  show ?thesis by simp
qed

end
