(* ===== verification/Sql_Table.thy ===== *)
theory Sql_Table
  imports Prelude
begin

text \<open>
  SQLite as \<open>pipeline/db.rs\<close> uses it: a table with a primary key is the list of its rows in insertion
  order, an \<open>INSERT\<close> checks the primary key and the other constraints of the table, an \<open>UPDATE\<close>
  rewrites the rows its \<open>WHERE\<close> clause selects and reports how many there are. No statement of the
  program deletes a row.
\<close>

section \<open>Statements\<close>

type_synonym ('k, 'r) table = "('k \<times> 'r) list"

definition has_key :: "'k \<Rightarrow> ('k, 'r) table \<Rightarrow> bool" where
  "has_key k t = list_ex (\<lambda>(k', _). k' = k) t"

definition select_row :: "('k, 'r) table \<Rightarrow> 'k \<Rightarrow> 'r option" where
  "select_row t k = map_of t k"

definition select_where :: "('k \<Rightarrow> 'r \<Rightarrow> bool) \<Rightarrow> ('k, 'r) table \<Rightarrow> ('k \<times> 'r) option" where
  "select_where p t = find (\<lambda>(k, r). p k r) t"

definition insert_row :: "'e \<Rightarrow> bool \<Rightarrow> 'k \<Rightarrow> 'r \<Rightarrow> ('k, 'r) table \<Rightarrow> 'e + ('k, 'r) table" where
  "insert_row violation checks k r t =
     (if has_key k t \<or> \<not> checks then Inl violation else Inr (t @ [(k, r)]))"

definition update_where ::
  "('k \<Rightarrow> 'r \<Rightarrow> bool) \<Rightarrow> ('r \<Rightarrow> 'r) \<Rightarrow> ('k, 'r) table \<Rightarrow> nat \<times> ('k, 'r) table" where
  "update_where p f t =
     (length (filter (\<lambda>(k, r). p k r) t), map (\<lambda>(k, r). (k, if p k r then f r else r)) t)"

definition keyed :: "('k, 'r) table \<Rightarrow> bool" where
  "keyed t \<longleftrightarrow> distinct (map fst t)"

section \<open>Laws\<close>

lemma has_key_iff: "has_key k t \<longleftrightarrow> select_row t k \<noteq> None"
  by (force simp: has_key_def select_row_def list_ex_iff map_of_eq_None_iff)

lemma has_key_image: "has_key k t \<longleftrightarrow> k \<in> fst ` set t"
  by (force simp: has_key_def list_ex_iff)

lemma insert_row_Inr_iff [res_simps]:
  "insert_row e b k r t = Inr t' \<longleftrightarrow> select_row t k = None \<and> b \<and> t' = t @ [(k, r)]"
  by (auto simp: insert_row_def has_key_iff)

lemma insert_row_Inl_iff:
  "insert_row e b k r t = Inl e' \<longleftrightarrow> (select_row t k \<noteq> None \<or> \<not> b) \<and> e' = e"
  by (auto simp: insert_row_def has_key_iff)

lemma select_row_snoc [simp]:
  "select_row (t @ [(k, r)]) k' = (case select_row t k' of Some x \<Rightarrow> Some x | None \<Rightarrow> if k' = k then Some r else None)"
  by (auto simp: select_row_def map_add_def split: option.splits)

lemma keyed_snoc: "keyed (t @ [(k, r)]) \<longleftrightarrow> keyed t \<and> select_row t k = None"
  by (auto simp: keyed_def select_row_def map_of_eq_None_iff)

lemma keyed_Nil [simp]: "keyed []"
  by (simp add: keyed_def)

lemma select_row_Nil [simp]: "select_row [] k = None"
  by (simp add: select_row_def)

lemma select_row_mem: "keyed t \<Longrightarrow> select_row t k = Some r \<longleftrightarrow> (k, r) \<in> set t"
  unfolding keyed_def select_row_def by (rule map_of_eq_Some_iff)

lemma keyed_update: "keyed (snd (update_where p f t)) \<longleftrightarrow> keyed t"
proof -
  have "map fst (snd (update_where p f t)) = map fst t" by (auto simp: update_where_def)
  then show ?thesis by (simp add: keyed_def)
qed

lemma select_row_update:
  "select_row (snd (update_where p f t)) k = map_option (\<lambda>r. if p k r then f r else r) (select_row t k)"
proof -
  have "map_of (map (\<lambda>(k, r). (k, if p k r then f r else r)) t) k
      = map_option (\<lambda>r. if p k r then f r else r) (map_of t k)"
    by (induction t) auto
  then show ?thesis by (simp add: select_row_def update_where_def)
qed

text \<open>An \<open>UPDATE\<close> whose condition names the primary key touches at most the row of that key.\<close>

lemma update_key_count:
  assumes "keyed t"
  shows "fst (update_where (\<lambda>k' r. k' = k \<and> p r) f t) =
     (case select_row t k of Some r \<Rightarrow> if p r then 1 else 0 | None \<Rightarrow> 0)"
  using assms
proof (induction t)
  case Nil
  then show ?case by (simp add: update_where_def)
next
  case (Cons kr t)
  obtain k' r where kr: "kr = (k', r)" by (cases kr)
  have t: "keyed t" using Cons.prems by (simp add: keyed_def)
  from Cons.IH [OF t] Cons.prems show ?case
    by (cases "k' = k") (auto simp: kr update_where_def select_row_def keyed_def map_of_eq_None_iff
        filter_empty_conv rev_image_eqI split: option.splits dest: map_of_SomeD)
qed

lemma select_where_Some:
  assumes "select_where p t = Some (k, r)"
  shows "(k, r) \<in> set t" "p k r"
  using assms by (auto simp: select_where_def find_Some_iff) (metis nth_mem)

lemma select_where_None: "select_where p t = None \<longleftrightarrow> (\<forall>(k, r) \<in> set t. \<not> p k r)"
  by (auto simp: select_where_def find_None_iff)

end
