(* ===== verification/Store_Schema.thy ===== *)
theory Store_Schema
  imports State_Machine Sql_Table
begin

text \<open>
  The database of \<open>pipeline/db.rs\<close>: its errors, the rows of its tables with the constraints of
  \<open>pipeline/schema.rs\<close>, and how values are encoded in them. A \<open>TEXT\<close> column that holds JSON or an
  RFC 3339 timestamp has the abstract type \<open>'j\<close>; what \<open>serde_json\<close>, \<open>chrono\<close> and \<open>sha2\<close> compute on it is
  a value of type \<open>'j codec\<close>, a parameter of the model.
\<close>

section \<open>Errors\<close>

datatype sqlite_error = ConstraintViolation string | IntegralValueOutOfRange

datatype store_error =
    FileAccess | NotInitialized string | Unavailable | UnsupportedFilesystem string
  | Sqlite sqlite_error | Json | InvalidTimestamp
  | RunNotFound string | DocumentNotFound string
  | ParsedArtifactNotFound string | NormalizedArtifactNotFound string
  | StructuredArtifactNotFound string | ChunkedArtifactNotFound string
  | InvalidIngestion string | InvalidDocumentSourceType string | InvalidRequestOwner string
  | ArtifactDocumentMismatch string string
  | NormalizedArtifactDocumentMismatch string string
  | NormalizedArtifactMetadataMismatch string | NormalizedArtifactIntegrityMismatch string
  | StructuredArtifactDocumentMismatch string string
  | StructuredArtifactMetadataMismatch string | StructuredArtifactIntegrityMismatch string
  | ChunkedArtifactDocumentMismatch string string
  | ChunkedArtifactMetadataMismatch string | ChunkedArtifactIntegrityMismatch string
  | DownstreamArtifactNotFound string string
  | DownstreamArtifactDocumentMismatch string string string
  | DownstreamArtifactMetadataMismatch string string
  | DownstreamArtifactIntegrityMismatch string string
  | StaleWrite string | AttemptOrdinalMismatch u32 u32
  | InvalidRecoveryTransition pipeline_state
  | InvalidRetrySource string string | RetryAlreadyExists string string | RetryLineageMismatch string
  | ModelProfileMismatch string | SummaryProfileMismatch string | SummaryProfileUnavailable string
  | InvalidOcrHandoff string | CancellationNotAllowed string pipeline_state
  | Migration | Transition transition_error

fun is_stale_transition :: "store_error \<Rightarrow> bool" where
  "is_stale_transition (StaleWrite _) = True"
| "is_stale_transition (Transition (StaleExpectedState _ _)) = True"
| "is_stale_transition (Transition (ConcurrentModification _ _)) = True"
| "is_stale_transition _ = False"

section \<open>Encoded columns\<close>

record ('a, 'j) coding =
  enc :: "'a \<Rightarrow> 'j"
  dec :: "'j \<Rightarrow> 'a option"

text \<open>
  \<open>streamed_request\<close> is the \<open>CASE\<close> over \<open>json_extract\<close> in the table definition of schema version 22.
\<close>

record 'j codec =
  state_json :: "(pipeline_state, 'j) coding"
  stage_json :: "(pipeline_stage, 'j) coding"
  progress_json :: "(pipeline_progress, 'j) coding"
  warnings_json :: "(pipeline_warning list, 'j) coding"
  failure_json :: "(pipeline_failure, 'j) coding"
  time_text :: "(timestamp, 'j) coding"
  checkpoint_json :: "(retry_checkpoint, 'j) coding"
  model_profile_json :: "(model_profile_snapshot, 'j) coding"
  summary_profile_json :: "(summary_profile, 'j) coding"
  parsed_json :: "(parsed_document, 'j) coding"
  normalized_json :: "(normalized_document, 'j) coding"
  structured_json :: "(structured_document, 'j) coding"
  chunked_json :: "(chunked_document, 'j) coding"
  analyzed_json :: "(analyzed_document, 'j) coding"
  synthesized_json :: "(synthesized_document, 'j) coding"
  verified_json :: "(verified_document, 'j) coding"
  summary_json :: "(summary_artifact, 'j) coding"
  citation_json :: "(citation_artifact, 'j) coding"
  sha_text :: "'j \<Rightarrow> string"
  sha_bytes :: "string \<Rightarrow> string"
  canonical_hash :: "canonical_tuple \<Rightarrow> string"
  streamed_request :: "string \<Rightarrow> bool"

text \<open>What the program relies on: a value that was written can be read back.\<close>

definition coding_ok :: "('a, 'j) coding \<Rightarrow> bool" where
  "coding_ok k \<longleftrightarrow> (\<forall>x. dec k (enc k x) = Some x)"

definition codec_ok :: "'j codec \<Rightarrow> bool" where
  "codec_ok c \<longleftrightarrow>
     coding_ok (state_json c) \<and> coding_ok (stage_json c) \<and> coding_ok (progress_json c)
     \<and> coding_ok (warnings_json c) \<and> coding_ok (failure_json c) \<and> coding_ok (time_text c)
     \<and> coding_ok (checkpoint_json c) \<and> coding_ok (model_profile_json c)
     \<and> coding_ok (summary_profile_json c) \<and> coding_ok (parsed_json c) \<and> coding_ok (normalized_json c)
     \<and> coding_ok (structured_json c) \<and> coding_ok (chunked_json c) \<and> coding_ok (analyzed_json c)
     \<and> coding_ok (synthesized_json c) \<and> coding_ok (verified_json c) \<and> coding_ok (summary_json c)
     \<and> coding_ok (citation_json c)"

definition to_json :: "('a, 'j) coding \<Rightarrow> 'a \<Rightarrow> 'j" where
  "to_json k x = enc k x"

definition from_json :: "('a, 'j) coding \<Rightarrow> 'j \<Rightarrow> store_error + 'a" where
  "from_json k text = ok_or (dec k text) Json"

definition to_rfc3339 :: "'j codec \<Rightarrow> timestamp \<Rightarrow> 'j" where
  "to_rfc3339 c t = enc (time_text c) t"

definition parse_timestamp :: "'j codec \<Rightarrow> 'j \<Rightarrow> store_error + timestamp" where
  "parse_timestamp c text = ok_or (dec (time_text c) text) InvalidTimestamp"

text \<open>\<open>Option<T>.map(f).transpose()\<close>.\<close>

fun transpose_map :: "('a \<Rightarrow> 'e + 'b) \<Rightarrow> 'a option \<Rightarrow> 'e + 'b option" where
  "transpose_map f None = Inr None"
| "transpose_map f (Some x) = res_bind (f x) (\<lambda>y. Inr (Some y))"

lemma transpose_map_Inr_iff [res_simps]:
  "transpose_map f m = Inr r \<longleftrightarrow>
     (m = None \<and> r = None) \<or> (\<exists>x y. m = Some x \<and> f x = Inr y \<and> r = Some y)"
  by (cases m) (auto simp: res_simps)

lemma coding_round_trip: "coding_ok k \<Longrightarrow> from_json k (to_json k x) = Inr x"
  by (simp add: coding_ok_def from_json_def to_json_def)

lemma coding_inj: "coding_ok k \<Longrightarrow> to_json k x = to_json k y \<longleftrightarrow> x = y"
  unfolding coding_ok_def to_json_def by (metis option.inject)

lemma transpose_round_trip:
  "(\<And>x. f (g x) = Inr x) \<Longrightarrow> transpose_map f (map_option g m) = Inr m"
  by (cases m) simp_all

lemma codec_round_trips:
  assumes "codec_ok c"
  shows "from_json (state_json c) (to_json (state_json c) s) = Inr s"
    and "from_json (stage_json c) (to_json (stage_json c) g) = Inr g"
    and "from_json (progress_json c) (to_json (progress_json c) p) = Inr p"
    and "from_json (warnings_json c) (to_json (warnings_json c) w) = Inr w"
    and "from_json (failure_json c) (to_json (failure_json c) f) = Inr f"
    and "parse_timestamp c (to_rfc3339 c t) = Inr t"
    and "from_json (checkpoint_json c) (to_json (checkpoint_json c) k) = Inr k"
    and "from_json (model_profile_json c) (to_json (model_profile_json c) m) = Inr m"
    and "from_json (summary_profile_json c) (to_json (summary_profile_json c) r) = Inr r"
    and "from_json (parsed_json c) (to_json (parsed_json c) a1) = Inr a1"
    and "from_json (normalized_json c) (to_json (normalized_json c) a2) = Inr a2"
    and "from_json (structured_json c) (to_json (structured_json c) a3) = Inr a3"
    and "from_json (chunked_json c) (to_json (chunked_json c) a4) = Inr a4"
    and "from_json (analyzed_json c) (to_json (analyzed_json c) a5) = Inr a5"
    and "from_json (synthesized_json c) (to_json (synthesized_json c) a6) = Inr a6"
    and "from_json (verified_json c) (to_json (verified_json c) a7) = Inr a7"
    and "from_json (summary_json c) (to_json (summary_json c) a8) = Inr a8"
    and "from_json (citation_json c) (to_json (citation_json c) a9) = Inr a9"
    and "to_json (state_json c) s = to_json (state_json c) s' \<longleftrightarrow> s = s'"
  using assms
  by (simp_all add: codec_ok_def coding_round_trip coding_inj)
    (simp add: coding_ok_def parse_timestamp_def to_rfc3339_def)

lemma codec_transposes:
  assumes "codec_ok c"
  shows "transpose_map (parse_timestamp c) (map_option (to_rfc3339 c) t) = Inr t"
    and "transpose_map (from_json (stage_json c)) (map_option (to_json (stage_json c)) g) = Inr g"
    and "transpose_map (from_json (failure_json c)) (map_option (to_json (failure_json c)) f) = Inr f"
    and "transpose_map (from_json (state_json c)) (map_option (to_json (state_json c)) s) = Inr s"
  by (rule transpose_round_trip, rule codec_round_trips [OF assms])+

lemmas codec_reads = codec_round_trips codec_transposes

section \<open>Rows\<close>

record 'j document_row =
  col_original_filename :: string
  col_file_type :: string
  col_source_type :: string
  col_byte_size :: int
  col_content_hash :: string
  col_local_source_path :: string
  col_document_created_at :: 'j

record 'j run_row =
  col_document_id :: string
  col_state :: 'j
  col_state_version :: u32
  col_pipeline_version :: string
  col_created_at :: 'j
  col_started_at :: "'j option"
  col_updated_at :: 'j
  col_completed_at :: "'j option"
  col_current_stage :: "'j option"
  col_progress :: 'j
  col_warnings :: 'j
  col_failure :: "'j option"
  col_cancellation_requested :: bool
  col_resumable :: bool

record 'j event_row =
  col_event_run_id :: string
  col_sequence_no :: u32
  col_previous_state :: "'j option"
  col_next_state :: 'j
  col_timestamp :: 'j
  col_stage :: "'j option"
  col_work_unit_id :: "string option"
  col_reason :: "string option"

record 'j parsed_row =
  col_parsed_document_id :: string
  col_parser_id :: string
  col_parser_version :: string
  col_parsed_artifact :: 'j
  col_parsed_created_at :: 'j

text \<open>
  The tables of the later artifacts, and of the attempts, differ only in the names of their columns.
\<close>

record 'j artifact_row =
  col_artifact_document_id :: string
  col_version :: string
  col_artifact_hash :: string
  col_artifact :: 'j
  col_artifact_created_at :: 'j

datatype artifact_table =
    NormalizedDocuments | StructuredDocuments | ChunkedDocuments
  | AnalyzedDocuments | SynthesizedDocuments | VerifiedDocuments | SummaryArtifacts

record 'j citation_row =
  col_citation_document_id :: string
  col_citation_version :: string
  col_summary_integrity_hash :: string
  col_citation_hash :: string
  col_citation_artifact :: 'j
  col_citation_created_at :: 'j

record 'j retry_row =
  col_source_run_id :: string
  col_checkpoint :: 'j
  col_retry_created_at :: 'j

record 'j profile_row =
  col_profile :: 'j
  col_profile_created_at :: 'j

record 'j owner_row =
  col_owner_kind :: string
  col_pipeline_run_id :: "string option"
  col_owner_created_at :: 'j

record 'j suggestion_row =
  col_owner_id :: string
  col_suggestion_created_at :: 'j

text \<open>
  \<open>OcrHandoff\<close> is what the program reads of a row; the table has four columns more. The sizes of the
  retained outputs are the columns the \<open>CHECK\<close>s bound.
\<close>

record ocr_handoff =
  handoff_id :: string
  root_run_id :: string
  root_document_id :: string
  source_artifact_id :: string
  source_byte_size :: u64
  source_sha256 :: string
  source_display_name :: string
  source_bytes :: string
  provider_app_id :: string
  provider_instance_id :: string
  provider_job_id :: string
  provider_request_json :: string
  provider_request_sha256 :: string
  phase :: string
  provider_status_json :: "string option"
  ocr_pdf_artifact_id :: "string option"
  ocr_pdf_sha256 :: "string option"
  ocr_pdf_bytes :: "string option"
  text_artifact_id :: "string option"
  text_sha256 :: "string option"
  text_bytes :: "string option"
  child_document_id :: string
  child_run_id :: string
  derived_path :: string
  error_code :: "string option"
  error_message :: "string option"
  error_retryable :: "bool option"

record 'j handoff_row =
  col_handoff :: ocr_handoff
  col_ocr_pdf_byte_size :: "nat option"
  col_text_byte_size :: "nat option"
  col_handoff_created_at :: 'j
  col_handoff_updated_at :: 'j

record 'j lineage_row =
  col_producer_output_artifact_id :: string
  col_lineage_child_run_id :: string
  col_lineage_created_at :: 'j

text \<open>The database. The primary keys are the first components of the rows.\<close>

record 'j db =
  documents :: "(string, 'j document_row) table"
  pipeline_runs :: "(string, 'j run_row) table"
  pipeline_events :: "(string, 'j event_row) table"
  parsed_documents :: "(string, 'j parsed_row) table"
  artifacts :: "artifact_table \<Rightarrow> (string, 'j artifact_row) table"
  citation_artifacts :: "(string, 'j citation_row) table"
  summary_synthesis_attempts :: "(string \<times> u32, 'j artifact_row) table"
  summary_verification_attempts :: "(string \<times> u32, 'j artifact_row) table"
  pipeline_run_retries :: "(string, 'j retry_row) table"
  pipeline_run_model_profiles :: "(string, 'j profile_row) table"
  pipeline_run_summary_profiles :: "(string, 'j profile_row) table"
  model_request_owners :: "(string, 'j owner_row) table"
  profile_suggestion_requests :: "(string \<times> string, 'j suggestion_row) table"
  ocr_handoffs :: "(string, 'j handoff_row) table"
  ocr_lineage :: "(string, 'j lineage_row) table"

definition empty_db :: "'j db" where
  "empty_db = \<lparr>documents = [], pipeline_runs = [], pipeline_events = [], parsed_documents = [],
     artifacts = (\<lambda>_. []), citation_artifacts = [], summary_synthesis_attempts = [],
     summary_verification_attempts = [], pipeline_run_retries = [], pipeline_run_model_profiles = [],
     pipeline_run_summary_profiles = [], model_request_owners = [], profile_suggestion_requests = [],
     ocr_handoffs = [], ocr_lineage = []\<rparr>"

definition violation :: "string \<Rightarrow> store_error" where
  "violation relation = Sqlite (ConstraintViolation relation)"

end
