(* ===== verification/Store_Runs.thy ===== *)
theory Store_Runs
  imports Store_Schema "HOL-Library.List_Lexorder"
begin

text \<open>
  Documents, runs, events and retry lineage of \<open>pipeline/db.rs\<close>, and \<open>transition_in_tx\<close>, the only
  statement that updates a run. A function of the store takes the database and returns an error or
  its result with the new database; on an error SQLite rolls the transaction back, so the caller keeps
  the database it had.
\<close>

section \<open>Documents\<close>

definition source_type_to_storage :: "source_type \<Rightarrow> string" where
  "source_type_to_storage s = (case s of NativeText \<Rightarrow> ''native_text'' | OcrText \<Rightarrow> ''ocr_text'')"

definition source_type_from_storage :: "string \<Rightarrow> store_error + source_type" where
  "source_type_from_storage v =
     (if v = ''native_text'' then Inr NativeText
      else if v = ''ocr_text'' then Inr OcrText
      else Inl (InvalidDocumentSourceType v))"

definition document_row_of :: "'j codec \<Rightarrow> ingested_document \<Rightarrow> 'j document_row" where
  "document_row_of c d = \<lparr>col_original_filename = original_filename d, col_file_type = file_type d,
     col_source_type = source_type_to_storage (document_source_type d),
     col_byte_size = uint (byte_size d), col_content_hash = content_hash d,
     col_local_source_path = local_source_path d,
     col_document_created_at = to_rfc3339 c (document_created_at d)\<rparr>"

definition insert_document :: "'j codec \<Rightarrow> ingested_document \<Rightarrow> 'j db \<Rightarrow> store_error + 'j db" where
  "insert_document c d db =
     res_bind (ensure (uint (byte_size d) < 2 ^ 63)
       (InvalidIngestion ''source file exceeds SQLite integer range'')) (\<lambda>_.
     let row = document_row_of c d in
     res_bind (insert_row (violation ''documents'')
         (0 \<le> col_byte_size row \<and> col_source_type row \<in> {''native_text'', ''ocr_text''})
         (document_id d) row (documents db)) (\<lambda>t.
     Inr (db\<lparr>documents := t\<rparr>)))"

definition read_document :: "'j codec \<Rightarrow> string \<Rightarrow> 'j document_row \<Rightarrow> store_error + ingested_document" where
  "read_document c document row =
     res_bind (ensure (0 \<le> col_byte_size row) (InvalidIngestion ''persisted byte size is negative'')) (\<lambda>_.
     res_bind (source_type_from_storage (col_source_type row)) (\<lambda>source.
     res_bind (parse_timestamp c (col_document_created_at row)) (\<lambda>created.
     Inr \<lparr>document_id = document, original_filename = col_original_filename row,
          file_type = col_file_type row, document_source_type = source,
          byte_size = word_of_int (col_byte_size row), content_hash = col_content_hash row,
          local_source_path = col_local_source_path row, document_created_at = created\<rparr>)))"

definition get_document :: "'j codec \<Rightarrow> 'j db \<Rightarrow> string \<Rightarrow> store_error + ingested_document option" where
  "get_document c db document =
     transpose_map (read_document c document) (select_row (documents db) document)"

section \<open>Runs\<close>

definition run_row_of :: "'j codec \<Rightarrow> pipeline_run \<Rightarrow> 'j run_row" where
  "run_row_of c r = \<lparr>col_document_id = run_document_id r, col_state = to_json (state_json c) (run_state r),
     col_state_version = state_version r, col_pipeline_version = pipeline_version r,
     col_created_at = to_rfc3339 c (run_created_at r),
     col_started_at = map_option (to_rfc3339 c) (started_at r),
     col_updated_at = to_rfc3339 c (updated_at r),
     col_completed_at = map_option (to_rfc3339 c) (completed_at r),
     col_current_stage = map_option (to_json (stage_json c)) (current_stage r),
     col_progress = to_json (progress_json c) (progress r),
     col_warnings = to_json (warnings_json c) (run_warnings r),
     col_failure = map_option (to_json (failure_json c)) (run_failure r),
     col_cancellation_requested = cancellation_requested r, col_resumable = resumable r\<rparr>"

definition request_owner_row :: "string \<Rightarrow> 'j \<Rightarrow> 'j owner_row" where
  "request_owner_row run created = \<lparr>col_owner_kind = ''pipeline_run'', col_pipeline_run_id = Some run,
     col_owner_created_at = created\<rparr>"

text \<open>
  The trigger \<open>pipeline_runs_create_request_owner\<close> runs with the \<open>INSERT\<close>; \<open>pipeline_run_id\<close> is unique
  among the owners.
\<close>

definition insert_pipeline_run :: "'j codec \<Rightarrow> pipeline_run \<Rightarrow> 'j db \<Rightarrow> store_error + 'j db" where
  "insert_pipeline_run c r db =
     (let row = run_row_of c r in
      res_bind (insert_row (violation ''pipeline_runs'')
          (has_key (run_document_id r) (documents db) \<and> 1 \<le> unat (state_version r))
          (run_id r) row (pipeline_runs db)) (\<lambda>t.
      res_bind (insert_row (violation ''model_request_owners'')
          (\<not> list_ex (\<lambda>(_, o'). col_pipeline_run_id o' = Some (run_id r)) (model_request_owners db))
          (run_id r) (request_owner_row (run_id r) (col_created_at row)) (model_request_owners db)) (\<lambda>owners.
      Inr (db\<lparr>pipeline_runs := t, model_request_owners := owners\<rparr>))))"

definition read_run :: "'j codec \<Rightarrow> string \<Rightarrow> 'j run_row \<Rightarrow> store_error + pipeline_run" where
  "read_run c run row =
     res_bind (from_json (state_json c) (col_state row)) (\<lambda>state.
     res_bind (parse_timestamp c (col_created_at row)) (\<lambda>created.
     res_bind (transpose_map (parse_timestamp c) (col_started_at row)) (\<lambda>started.
     res_bind (parse_timestamp c (col_updated_at row)) (\<lambda>updated.
     res_bind (transpose_map (parse_timestamp c) (col_completed_at row)) (\<lambda>completed.
     res_bind (transpose_map (from_json (stage_json c)) (col_current_stage row)) (\<lambda>stage.
     res_bind (from_json (progress_json c) (col_progress row)) (\<lambda>prog.
     res_bind (from_json (warnings_json c) (col_warnings row)) (\<lambda>warnings.
     res_bind (transpose_map (from_json (failure_json c)) (col_failure row)) (\<lambda>failure.
     Inr \<lparr>run_id = run, run_document_id = col_document_id row, run_state = state,
          state_version = col_state_version row, pipeline_version = col_pipeline_version row,
          run_created_at = created, started_at = started, updated_at = updated, completed_at = completed,
          current_stage = stage, progress = prog, run_warnings = warnings, run_failure = failure,
          cancellation_requested = col_cancellation_requested row, resumable = col_resumable row\<rparr>)))))))))"

definition get_pipeline_run :: "'j codec \<Rightarrow> 'j db \<Rightarrow> string \<Rightarrow> store_error + pipeline_run option" where
  "get_pipeline_run c db run = transpose_map (read_run c run) (select_row (pipeline_runs db) run)"

text \<open>\<open>get_pipeline_run(..)?.ok_or_else(|| RunNotFound)?\<close>, with which most operations begin.\<close>

definition require_run :: "'j codec \<Rightarrow> 'j db \<Rightarrow> string \<Rightarrow> store_error + pipeline_run" where
  "require_run c db run = res_bind (get_pipeline_run c db run) (\<lambda>r. ok_or r (RunNotFound run))"

definition require_document :: "'j codec \<Rightarrow> 'j db \<Rightarrow> string \<Rightarrow> store_error + ingested_document" where
  "require_document c db document =
     res_bind (get_document c db document) (\<lambda>d. ok_or d (DocumentNotFound document))"

section \<open>Events\<close>

definition event_row_of :: "'j codec \<Rightarrow> pipeline_event \<Rightarrow> 'j event_row" where
  "event_row_of c e = \<lparr>col_event_run_id = event_run_id e, col_sequence_no = sequence_no e,
     col_previous_state = map_option (to_json (state_json c)) (previous_state e),
     col_next_state = to_json (state_json c) (next_state e), col_timestamp = to_rfc3339 c (timestamp e),
     col_stage = map_option (to_json (stage_json c)) (event_stage e),
     col_work_unit_id = work_unit_id e, col_reason = event_reason e\<rparr>"

definition insert_pipeline_event :: "'j codec \<Rightarrow> pipeline_event \<Rightarrow> 'j db \<Rightarrow> store_error + 'j db" where
  "insert_pipeline_event c e db =
     res_bind (insert_row (violation ''pipeline_events'')
         (has_key (event_run_id e) (pipeline_runs db)
          \<and> \<not> list_ex (\<lambda>(_, row). col_event_run_id row = event_run_id e \<and> col_sequence_no row = sequence_no e)
               (pipeline_events db))
         (event_id e) (event_row_of c e) (pipeline_events db)) (\<lambda>t.
     Inr (db\<lparr>pipeline_events := t\<rparr>))"

definition read_event :: "'j codec \<Rightarrow> string \<times> 'j event_row \<Rightarrow> store_error + pipeline_event" where
  "read_event c = (\<lambda>(event, row).
     res_bind (transpose_map (from_json (state_json c)) (col_previous_state row)) (\<lambda>prev.
     res_bind (from_json (state_json c) (col_next_state row)) (\<lambda>nxt.
     res_bind (parse_timestamp c (col_timestamp row)) (\<lambda>time.
     res_bind (transpose_map (from_json (stage_json c)) (col_stage row)) (\<lambda>stage.
     Inr \<lparr>event_id = event, event_run_id = col_event_run_id row, sequence_no = col_sequence_no row,
          previous_state = prev, next_state = nxt, timestamp = time, event_stage = stage,
          work_unit_id = col_work_unit_id row, event_reason = col_reason row\<rparr>)))))"

definition events_of :: "string \<Rightarrow> 'j db \<Rightarrow> (string, 'j event_row) table" where
  "events_of run db = filter (\<lambda>(_, row). col_event_run_id row = run) (pipeline_events db)"

definition list_pipeline_events :: "'j codec \<Rightarrow> 'j db \<Rightarrow> string \<Rightarrow> store_error + pipeline_event list" where
  "list_pipeline_events c db run =
     res_collect (read_event c) (sort_key (\<lambda>(_, row). unat (col_sequence_no row)) (events_of run db))"

section \<open>The transition of a stored run\<close>

record transition_patch =
  patch_warnings :: "pipeline_warning list option"
  patch_failure :: "pipeline_failure option"
  patch_cancellation_requested :: "bool option"

definition no_patch :: transition_patch where
  "no_patch = \<lparr>patch_warnings = None, patch_failure = None, patch_cancellation_requested = None\<rparr>"

definition warnings_patch :: "pipeline_warning list \<Rightarrow> transition_patch" where
  "warnings_patch ws = no_patch\<lparr>patch_warnings := Some ws\<rparr>"

definition failure_patch :: "pipeline_failure \<Rightarrow> transition_patch" where
  "failure_patch f = no_patch\<lparr>patch_failure := Some f\<rparr>"

definition cancellation_patch :: transition_patch where
  "cancellation_patch = no_patch\<lparr>patch_cancellation_requested := Some True\<rparr>"

definition apply_patch :: "transition_patch \<Rightarrow> pipeline_run \<Rightarrow> pipeline_run" where
  "apply_patch p r =
     (let r1 = (case patch_warnings p of Some ws \<Rightarrow> r\<lparr>run_warnings := ws\<rparr> | None \<Rightarrow> r);
          r2 = (case patch_failure p of Some f \<Rightarrow> r1\<lparr>run_failure := Some f\<rparr> | None \<Rightarrow> r1)
      in case patch_cancellation_requested p of
           Some b \<Rightarrow> r2\<lparr>cancellation_requested := b\<rparr> | None \<Rightarrow> r2)"

text \<open>\<open>SELECT COALESCE(MAX(sequence_no), -1) + 1\<close>, read as an \<open>u32\<close>.\<close>

definition next_sequence :: "'j db \<Rightarrow> string \<Rightarrow> store_error + u32" where
  "next_sequence db run =
     (let numbers = map (\<lambda>(_, row). unat (col_sequence_no row)) (events_of run db);
          n = (if numbers = [] then 0 else Max (set numbers) + 1)
      in ok_or (u32_try_from n) (Sqlite IntegralValueOutOfRange))"

text \<open>The \<open>SET\<close> list of the \<open>UPDATE\<close>: identity, document and creation time are not among its columns.\<close>

definition set_run_columns :: "'j run_row \<Rightarrow> 'j run_row \<Rightarrow> 'j run_row" where
  "set_run_columns new row = row\<lparr>col_state := col_state new, col_state_version := col_state_version new,
     col_pipeline_version := col_pipeline_version new, col_started_at := col_started_at new,
     col_updated_at := col_updated_at new, col_completed_at := col_completed_at new,
     col_current_stage := col_current_stage new, col_progress := col_progress new,
     col_warnings := col_warnings new, col_failure := col_failure new,
     col_cancellation_requested := col_cancellation_requested new, col_resumable := col_resumable new\<rparr>"

definition transition_in_tx ::
  "'j codec \<Rightarrow> string \<Rightarrow> pipeline_state \<Rightarrow> u32 \<Rightarrow> pipeline_state \<Rightarrow> pipeline_stage option \<Rightarrow>
   string option \<Rightarrow> transition_patch \<Rightarrow> tick \<Rightarrow> 'j db \<Rightarrow> store_error + pipeline_run \<times> 'j db" where
  "transition_in_tx c run expected_state expected_version next stage reason patch t db =
     res_bind (require_run c db run) (\<lambda>r.
     res_bind (next_sequence db run) (\<lambda>seq.
     res_bind (map_err Transition (transition r expected_state next expected_version seq stage reason t))
       (\<lambda>(event, r1).
     let r2 = apply_patch patch r1;
         (changed, t') = update_where
           (\<lambda>k row. k = run \<and> (col_state row = to_json (state_json c) expected_state
              \<and> col_state_version row = expected_version))
           (set_run_columns (run_row_of c r2)) (pipeline_runs db) in
     res_bind (ensure (changed = 1) (StaleWrite run)) (\<lambda>_.
     res_bind (insert_pipeline_event c event (db\<lparr>pipeline_runs := t'\<rparr>)) (\<lambda>db'.
     Inr (r2, db'))))))"

section \<open>Retry lineage\<close>

text \<open>The row of \<open>pipeline_run_retries\<close> joined with the run of the retry and the run of the source.\<close>

definition read_retry ::
  "'j codec \<Rightarrow> string \<times> 'j retry_row \<Rightarrow> 'j run_row \<Rightarrow> 'j run_row \<Rightarrow> store_error + retry_lineage" where
  "read_retry c = (\<lambda>(retry, row) retry_run source_run.
     res_bind (from_json (checkpoint_json c) (col_checkpoint row)) (\<lambda>point.
     res_bind (parse_timestamp c (col_retry_created_at row)) (\<lambda>created.
     let lineage = \<lparr>retry_run_id = retry, source_run_id = col_source_run_id row, checkpoint = point,
                    lineage_created_at = created\<rparr> in
     if checkpoint lineage \<noteq> RetryIngested \<or> col_document_id retry_run \<noteq> col_document_id source_run
     then Inl (RetryLineageMismatch retry)
     else res_bind (parse_timestamp c (col_created_at retry_run)) (\<lambda>retry_created.
       if lineage_created_at lineage \<noteq> retry_created then Inl (RetryLineageMismatch retry)
       else Inr lineage))))"

definition load_retry_lineage ::
  "'j codec \<Rightarrow> 'j db \<Rightarrow> (string \<Rightarrow> 'j retry_row \<Rightarrow> bool) \<Rightarrow> store_error + retry_lineage option" where
  "load_retry_lineage c db predicate =
     (case select_where (\<lambda>retry row. predicate retry row \<and> has_key retry (pipeline_runs db)
              \<and> has_key (col_source_run_id row) (pipeline_runs db)) (pipeline_run_retries db) of
        None \<Rightarrow> Inr None
      | Some (retry, row) \<Rightarrow>
          (case (select_row (pipeline_runs db) retry, select_row (pipeline_runs db) (col_source_run_id row)) of
             (Some retry_run, Some source_run) \<Rightarrow>
               res_bind (read_retry c (retry, row) retry_run source_run) (\<lambda>l. Inr (Some l))
           | _ \<Rightarrow> Inr None))"

definition get_retry_lineage_for_retry :: "'j codec \<Rightarrow> 'j db \<Rightarrow> string \<Rightarrow> store_error + retry_lineage option" where
  "get_retry_lineage_for_retry c db run = load_retry_lineage c db (\<lambda>retry _. retry = run)"

definition get_retry_lineage_for_source :: "'j codec \<Rightarrow> 'j db \<Rightarrow> string \<Rightarrow> store_error + retry_lineage option" where
  "get_retry_lineage_for_source c db run = load_retry_lineage c db (\<lambda>_ row. col_source_run_id row = run)"

section \<open>Runs to recover\<close>

text \<open>
  The states are compared as stored text. \<open>ORDER BY run_id\<close> is the order of the bytes.
\<close>

definition list_pipeline_runs_for_recovery :: "'j codec \<Rightarrow> 'j db \<Rightarrow> store_error + pipeline_run list" where
  "list_pipeline_runs_for_recovery c db =
     (let states = map (to_json (state_json c)) (IMPLEMENTED_ACTIVE_STATES @ [Cancelling]);
          ids = sort_key (map byte) (map fst (filter (\<lambda>(_, row). col_state row \<in> set states) (pipeline_runs db)))
      in res_collect (require_run c db) ids)"

end
