(* ===== verification/Store_Artifacts.thy ===== *)
theory Store_Artifacts
  imports Store_Runs
begin

text \<open>
  The artifact tables of \<open>pipeline/db.rs\<close>: every stage's result is stored as JSON with the SHA-256 of
  that text, and a read checks the digest and that the columns, the artifact and the run name the same
  document.
\<close>

section \<open>Inserting\<close>

definition insert_parsed_document ::
  "'j codec \<Rightarrow> string \<Rightarrow> parsed_document \<Rightarrow> tick \<Rightarrow> 'j db \<Rightarrow> store_error + 'j db" where
  "insert_parsed_document c run p t db =
     res_bind (insert_row (violation ''parsed_documents'')
         (has_key run (pipeline_runs db) \<and> has_key (parsed_document_id p) (documents db)) run
         \<lparr>col_parsed_document_id = parsed_document_id p, col_parser_id = parser_id p,
          col_parser_version = parser_version p, col_parsed_artifact = to_json (parsed_json c) p,
          col_parsed_created_at = to_rfc3339 c (now t)\<rparr> (parsed_documents db)) (\<lambda>rows.
     Inr (db\<lparr>parsed_documents := rows\<rparr>))"

definition artifact_row_of ::
  "'j codec \<Rightarrow> ('a, 'j) coding \<Rightarrow> string \<Rightarrow> string \<Rightarrow> 'a \<Rightarrow> tick \<Rightarrow> 'j artifact_row" where
  "artifact_row_of c k document version a t =
     \<lparr>col_artifact_document_id = document, col_version = version,
      col_artifact_hash = sha_text c (to_json k a), col_artifact = to_json k a,
      col_artifact_created_at = to_rfc3339 c (now t)\<rparr>"

definition insert_artifact_row ::
  "artifact_table \<Rightarrow> string \<Rightarrow> 'j artifact_row \<Rightarrow> 'j db \<Rightarrow> store_error + 'j db" where
  "insert_artifact_row tab run row db =
     res_bind (insert_row (violation ''artifact'')
         (has_key run (pipeline_runs db) \<and> has_key (col_artifact_document_id row) (documents db))
         run row (artifacts db tab)) (\<lambda>rows.
     Inr (db\<lparr>artifacts := (artifacts db)(tab := rows)\<rparr>))"

definition insert_normalized_document ::
  "'j codec \<Rightarrow> string \<Rightarrow> normalized_document \<Rightarrow> tick \<Rightarrow> 'j db \<Rightarrow> store_error + 'j db" where
  "insert_normalized_document c run n t =
     insert_artifact_row NormalizedDocuments run
       (artifact_row_of c (normalized_json c) (normalized_document_id n) (normalization_version n) n t)"

definition insert_structured_document ::
  "'j codec \<Rightarrow> string \<Rightarrow> structured_document \<Rightarrow> tick \<Rightarrow> 'j db \<Rightarrow> store_error + 'j db" where
  "insert_structured_document c run s t =
     insert_artifact_row StructuredDocuments run
       (artifact_row_of c (structured_json c) (structured_document_id s) (structure_version s) s t)"

definition insert_chunked_document ::
  "'j codec \<Rightarrow> string \<Rightarrow> chunked_document \<Rightarrow> tick \<Rightarrow> 'j db \<Rightarrow> store_error + 'j db" where
  "insert_chunked_document c run d t =
     insert_artifact_row ChunkedDocuments run
       (artifact_row_of c (chunked_json c) (chunked_document_id d) (chunking_version d) d t)"

definition insert_downstream_artifact ::
  "'j codec \<Rightarrow> string \<Rightarrow> string \<Rightarrow> string \<Rightarrow> ('a, 'j) coding \<Rightarrow> 'a \<Rightarrow> artifact_table \<Rightarrow> tick \<Rightarrow> 'j db \<Rightarrow>
   store_error + 'j db" where
  "insert_downstream_artifact c run document version k a tab t =
     insert_artifact_row tab run (artifact_row_of c k document version a t)"

definition insert_analyzed_document ::
  "'j codec \<Rightarrow> string \<Rightarrow> analyzed_document \<Rightarrow> tick \<Rightarrow> 'j db \<Rightarrow> store_error + 'j db" where
  "insert_analyzed_document c run a t =
     insert_downstream_artifact c run (analyzed_document_id a) (analysis_version a) (analyzed_json c) a
       AnalyzedDocuments t"

definition insert_synthesized_document ::
  "'j codec \<Rightarrow> string \<Rightarrow> synthesized_document \<Rightarrow> tick \<Rightarrow> 'j db \<Rightarrow> store_error + 'j db" where
  "insert_synthesized_document c run s t =
     insert_downstream_artifact c run (synthesized_document_id s) (synthesis_version s) (synthesized_json c) s
       SynthesizedDocuments t"

definition insert_verified_document ::
  "'j codec \<Rightarrow> string \<Rightarrow> verified_document \<Rightarrow> tick \<Rightarrow> 'j db \<Rightarrow> store_error + 'j db" where
  "insert_verified_document c run v t =
     insert_downstream_artifact c run (verified_document_id v) (verification_version v) (verified_json c) v
       VerifiedDocuments t"

definition insert_synthesis_attempt ::
  "'j codec \<Rightarrow> string \<Rightarrow> u32 \<Rightarrow> synthesized_document \<Rightarrow> tick \<Rightarrow> 'j db \<Rightarrow> store_error + 'j db" where
  "insert_synthesis_attempt c run attempt s t db =
     res_bind (insert_row (violation ''summary_synthesis_attempts'')
         (has_key run (pipeline_runs db) \<and> has_key (synthesized_document_id s) (documents db)
          \<and> attempt \<in> {0, 1}) (run, attempt)
         (artifact_row_of c (synthesized_json c) (synthesized_document_id s) (synthesis_version s) s t)
         (summary_synthesis_attempts db)) (\<lambda>rows.
     Inr (db\<lparr>summary_synthesis_attempts := rows\<rparr>))"

text \<open>A verification attempt refers to the synthesis attempt of the same number.\<close>

definition insert_verification_attempt ::
  "'j codec \<Rightarrow> string \<Rightarrow> u32 \<Rightarrow> verified_document \<Rightarrow> tick \<Rightarrow> 'j db \<Rightarrow> store_error + 'j db" where
  "insert_verification_attempt c run attempt v t db =
     res_bind (insert_row (violation ''summary_verification_attempts'')
         (has_key (run, attempt) (summary_synthesis_attempts db)
          \<and> has_key (verified_document_id v) (documents db) \<and> attempt \<in> {0, 1}) (run, attempt)
         (artifact_row_of c (verified_json c) (verified_document_id v) (verification_version v) v t)
         (summary_verification_attempts db)) (\<lambda>rows.
     Inr (db\<lparr>summary_verification_attempts := rows\<rparr>))"

definition insert_summary_artifact ::
  "'j codec \<Rightarrow> string \<Rightarrow> summary_artifact \<Rightarrow> tick \<Rightarrow> 'j db \<Rightarrow> store_error + 'j db" where
  "insert_summary_artifact c run s t db =
     (if summary_integrity (canonical_hash c) s \<noteq> integrity_hash s
      then Inl (DownstreamArtifactIntegrityMismatch ''summary'' run)
      else insert_downstream_artifact c run (summary_document_id s) (summary_version s) (summary_json c) s
        SummaryArtifacts t db)"

definition insert_citation_artifact ::
  "'j codec \<Rightarrow> string \<Rightarrow> citation_artifact \<Rightarrow> 'j db \<Rightarrow> store_error + 'j db" where
  "insert_citation_artifact c run a db =
     (if citation_integrity (canonical_hash c) a \<noteq> citation_integrity_hash a
      then Inl (DownstreamArtifactIntegrityMismatch ''citation'' run)
      else res_bind (insert_row (violation ''citation_artifacts'')
          (has_key run (pipeline_runs db) \<and> has_key (citation_document_id a) (documents db)) run
          \<lparr>col_citation_document_id = citation_document_id a, col_citation_version = citation_version a,
           col_summary_integrity_hash = summary_integrity_hash a,
           col_citation_hash = sha_text c (to_json (citation_json c) a),
           col_citation_artifact = to_json (citation_json c) a,
           col_citation_created_at = to_rfc3339 c (citation_created_at a)\<rparr> (citation_artifacts db)) (\<lambda>rows.
        Inr (db\<lparr>citation_artifacts := rows\<rparr>)))"

section \<open>Reading\<close>

definition get_parsed_document :: "'j codec \<Rightarrow> 'j db \<Rightarrow> string \<Rightarrow> store_error + parsed_document option" where
  "get_parsed_document c db run =
     transpose_map (\<lambda>row. from_json (parsed_json c) (col_parsed_artifact row))
       (select_row (parsed_documents db) run)"

text \<open>\<open>JOIN pipeline_runs USING (run_id)\<close>: the row with the document of its run.\<close>

definition join_run :: "'j db \<Rightarrow> string \<Rightarrow> 'r option \<Rightarrow> ('r \<times> string) option" where
  "join_run db run row =
     (case (row, select_row (pipeline_runs db) run) of
        (Some r, Some run_row) \<Rightarrow> Some (r, col_document_id run_row)
      | _ \<Rightarrow> None)"

definition read_artifact ::
  "'j codec \<Rightarrow> ('a, 'j) coding \<Rightarrow> ('a \<Rightarrow> string) \<Rightarrow> ('a \<Rightarrow> string) \<Rightarrow> store_error \<Rightarrow> store_error \<Rightarrow>
   'j artifact_row \<times> string \<Rightarrow> store_error + 'a" where
  "read_artifact c k document version integrity metadata = (\<lambda>(row, run_document).
     if sha_text c (col_artifact row) \<noteq> col_artifact_hash row then Inl integrity
     else res_bind (from_json k (col_artifact row)) (\<lambda>a.
       if document a \<noteq> col_artifact_document_id row \<or> version a \<noteq> col_version row
          \<or> col_artifact_document_id row \<noteq> run_document
       then Inl metadata else Inr a))"

definition get_normalized_document :: "'j codec \<Rightarrow> 'j db \<Rightarrow> string \<Rightarrow> store_error + normalized_document option" where
  "get_normalized_document c db run =
     transpose_map (read_artifact c (normalized_json c) normalized_document_id normalization_version
         (NormalizedArtifactIntegrityMismatch run) (NormalizedArtifactMetadataMismatch run))
       (join_run db run (select_row (artifacts db NormalizedDocuments) run))"

definition get_structured_document :: "'j codec \<Rightarrow> 'j db \<Rightarrow> string \<Rightarrow> store_error + structured_document option" where
  "get_structured_document c db run =
     transpose_map (read_artifact c (structured_json c) structured_document_id structure_version
         (StructuredArtifactIntegrityMismatch run) (StructuredArtifactMetadataMismatch run))
       (join_run db run (select_row (artifacts db StructuredDocuments) run))"

definition get_chunked_document :: "'j codec \<Rightarrow> 'j db \<Rightarrow> string \<Rightarrow> store_error + chunked_document option" where
  "get_chunked_document c db run =
     transpose_map (read_artifact c (chunked_json c) chunked_document_id chunking_version
         (ChunkedArtifactIntegrityMismatch run) (ChunkedArtifactMetadataMismatch run))
       (join_run db run (select_row (artifacts db ChunkedDocuments) run))"

text \<open>\<open>document\<close> and \<open>version\<close> are the two methods of \<open>DownstreamArtifactMetadata\<close>.\<close>

definition get_downstream_artifact ::
  "'j codec \<Rightarrow> ('a, 'j) coding \<Rightarrow> ('a \<Rightarrow> string) \<Rightarrow> ('a \<Rightarrow> string) \<Rightarrow> artifact_table \<Rightarrow> string \<Rightarrow> 'j db \<Rightarrow> string \<Rightarrow>
   store_error + 'a option" where
  "get_downstream_artifact c k document version tab kind db run =
     transpose_map (read_artifact c k document version (DownstreamArtifactIntegrityMismatch kind run)
         (DownstreamArtifactMetadataMismatch kind run))
       (join_run db run (select_row (artifacts db tab) run))"

definition get_analyzed_document :: "'j codec \<Rightarrow> 'j db \<Rightarrow> string \<Rightarrow> store_error + analyzed_document option" where
  "get_analyzed_document c = get_downstream_artifact c (analyzed_json c) analyzed_document_id analysis_version
     AnalyzedDocuments ''analyzed''"

definition get_synthesized_document :: "'j codec \<Rightarrow> 'j db \<Rightarrow> string \<Rightarrow> store_error + synthesized_document option" where
  "get_synthesized_document c = get_downstream_artifact c (synthesized_json c) synthesized_document_id
     synthesis_version SynthesizedDocuments ''synthesized''"

definition get_verified_document :: "'j codec \<Rightarrow> 'j db \<Rightarrow> string \<Rightarrow> store_error + verified_document option" where
  "get_verified_document c = get_downstream_artifact c (verified_json c) verified_document_id
     verification_version VerifiedDocuments ''verified''"

definition get_summary_attempt_artifact ::
  "'j codec \<Rightarrow> ('a, 'j) coding \<Rightarrow> ('a \<Rightarrow> string) \<Rightarrow> ('a \<Rightarrow> string) \<Rightarrow> (string \<times> u32, 'j artifact_row) table \<Rightarrow>
   string \<Rightarrow> 'j db \<Rightarrow> string \<Rightarrow> u32 \<Rightarrow> store_error + 'a option" where
  "get_summary_attempt_artifact c k document version tab kind db run attempt =
     transpose_map (read_artifact c k document version (DownstreamArtifactIntegrityMismatch kind run)
         (DownstreamArtifactMetadataMismatch kind run))
       (join_run db run (select_row tab (run, attempt)))"

definition get_synthesis_attempt ::
  "'j codec \<Rightarrow> 'j db \<Rightarrow> string \<Rightarrow> u32 \<Rightarrow> store_error + synthesized_document option" where
  "get_synthesis_attempt c db = get_summary_attempt_artifact c (synthesized_json c) synthesized_document_id
     synthesis_version (summary_synthesis_attempts db) ''synthesis attempt'' db"

definition ensure_attempt_ordinal :: "u32 \<Rightarrow> u32 \<Rightarrow> store_error + unit" where
  "ensure_attempt_ordinal expected actual = ensure (expected = actual) (AttemptOrdinalMismatch expected actual)"

definition get_verification_attempt ::
  "'j codec \<Rightarrow> 'j db \<Rightarrow> string \<Rightarrow> u32 \<Rightarrow> store_error + verified_document option" where
  "get_verification_attempt c db run attempt =
     res_bind (get_summary_attempt_artifact c (verified_json c) verified_document_id verification_version
         (summary_verification_attempts db) ''verification attempt'' db run attempt) (\<lambda>artifact.
     case artifact of
       None \<Rightarrow> Inr None
     | Some v \<Rightarrow> res_bind (ensure_attempt_ordinal attempt (synthesis_attempt_ordinal v)) (\<lambda>_. Inr (Some v)))"

definition get_summary_artifact :: "'j codec \<Rightarrow> 'j db \<Rightarrow> string \<Rightarrow> store_error + summary_artifact option" where
  "get_summary_artifact c db run =
     res_bind (get_downstream_artifact c (summary_json c) summary_document_id summary_version
         SummaryArtifacts ''summary'' db run) (\<lambda>artifact.
     case artifact of
       None \<Rightarrow> Inr None
     | Some s \<Rightarrow> if summary_integrity (canonical_hash c) s \<noteq> integrity_hash s
                 then Inl (DownstreamArtifactIntegrityMismatch ''summary'' run)
                 else Inr (Some s))"

definition read_citation ::
  "'j codec \<Rightarrow> string \<Rightarrow> 'j citation_row \<times> string \<Rightarrow> store_error + citation_artifact" where
  "read_citation c run = (\<lambda>(row, run_document).
     if sha_text c (col_citation_artifact row) \<noteq> col_citation_hash row
     then Inl (DownstreamArtifactIntegrityMismatch ''citation'' run)
     else res_bind (from_json (citation_json c) (col_citation_artifact row)) (\<lambda>a.
       if citation_document_id a \<noteq> col_citation_document_id row
          \<or> citation_version a \<noteq> col_citation_version row
          \<or> summary_integrity_hash a \<noteq> col_summary_integrity_hash row
          \<or> to_rfc3339 c (citation_created_at a) \<noteq> col_citation_created_at row
          \<or> col_citation_document_id row \<noteq> run_document
       then Inl (DownstreamArtifactMetadataMismatch ''citation'' run)
       else if citation_integrity (canonical_hash c) a \<noteq> citation_integrity_hash a
       then Inl (DownstreamArtifactIntegrityMismatch ''citation'' run)
       else Inr a))"

definition get_citation_artifact :: "'j codec \<Rightarrow> 'j db \<Rightarrow> string \<Rightarrow> store_error + citation_artifact option" where
  "get_citation_artifact c db run =
     transpose_map (read_citation c run) (join_run db run (select_row (citation_artifacts db) run))"

definition summary_artifact_exists :: "'j db \<Rightarrow> string \<Rightarrow> bool" where
  "summary_artifact_exists db run \<longleftrightarrow>
     length (filter (\<lambda>(k, _). k = run) (artifacts db SummaryArtifacts)) = 1"

end
