(* ===== verification/Store_Stages.thy ===== *)
theory Store_Stages
  imports Store_Artifacts
begin

text \<open>
  The operations of \<open>pipeline/db.rs\<close> on runs: admission, the start, completion and failure of every
  stage, retries, cancellation. Each is one immediate transaction. \<open>ts 0, ts 1, ...\<close> are the values of
  \<open>Utc::now\<close> and \<open>Uuid::new_v4\<close> in the order of the calls.
\<close>

section \<open>Profiles of a run\<close>

definition ensure_run_model_profile ::
  "'j codec \<Rightarrow> string \<Rightarrow> model_profile_snapshot option \<Rightarrow> tick \<Rightarrow> 'j db \<Rightarrow> store_error + 'j db" where
  "ensure_run_model_profile c run snapshot t db =
     (case (select_row (pipeline_run_model_profiles db) run, snapshot) of
        (Some row, Some s) \<Rightarrow>
          res_bind (from_json (model_profile_json c) (col_profile row)) (\<lambda>persisted.
          if persisted \<noteq> s then Inl (ModelProfileMismatch run) else Inr db)
      | (Some _, None) \<Rightarrow> Inl (ModelProfileMismatch run)
      | (None, Some s) \<Rightarrow>
          if \<not> has_key run (pipeline_runs db) then Inl (RunNotFound run)
          else res_bind (insert_row (violation ''pipeline_run_model_profiles'')
              (has_key run (pipeline_runs db)) run
              \<lparr>col_profile = to_json (model_profile_json c) s, col_profile_created_at = to_rfc3339 c (now t)\<rparr>
              (pipeline_run_model_profiles db)) (\<lambda>rows.
            Inr (db\<lparr>pipeline_run_model_profiles := rows\<rparr>))
      | (None, None) \<Rightarrow> Inr db)"

definition get_run_model_profile :: "'j codec \<Rightarrow> 'j db \<Rightarrow> string \<Rightarrow> store_error + model_profile_snapshot option" where
  "get_run_model_profile c db run =
     transpose_map (\<lambda>row. from_json (model_profile_json c) (col_profile row))
       (select_row (pipeline_run_model_profiles db) run)"

definition ensure_run_summary_profile ::
  "'j codec \<Rightarrow> string \<Rightarrow> summary_profile \<Rightarrow> tick \<Rightarrow> 'j db \<Rightarrow> store_error + 'j db" where
  "ensure_run_summary_profile c run profile t db =
     (case select_row (pipeline_run_summary_profiles db) run of
        Some row \<Rightarrow>
          res_bind (from_json (summary_profile_json c) (col_profile row)) (\<lambda>persisted.
          if persisted \<noteq> profile then Inl (SummaryProfileMismatch run) else Inr db)
      | None \<Rightarrow>
          if \<not> has_key run (pipeline_runs db) then Inl (RunNotFound run)
          else res_bind (insert_row (violation ''pipeline_run_summary_profiles'')
              (has_key run (pipeline_runs db)) run
              \<lparr>col_profile = to_json (summary_profile_json c) profile, col_profile_created_at = to_rfc3339 c (now t)\<rparr>
              (pipeline_run_summary_profiles db)) (\<lambda>rows.
            Inr (db\<lparr>pipeline_run_summary_profiles := rows\<rparr>)))"

definition get_run_summary_profile :: "'j codec \<Rightarrow> 'j db \<Rightarrow> string \<Rightarrow> store_error + summary_profile option" where
  "get_run_summary_profile c db run =
     transpose_map (\<lambda>row. from_json (summary_profile_json c) (col_profile row))
       (select_row (pipeline_run_summary_profiles db) run)"

section \<open>Admission\<close>

definition persist_received_run_to_ingested ::
  "'j codec \<Rightarrow> pipeline_run \<Rightarrow> string \<Rightarrow> string option \<Rightarrow> (nat \<Rightarrow> tick) \<Rightarrow> 'j db \<Rightarrow>
   store_error + pipeline_run \<times> 'j db" where
  "persist_received_run_to_ingested c r creation_reason transition_reason ts db =
     res_bind (insert_pipeline_run c r db) (\<lambda>db1.
     res_bind (insert_pipeline_event c
         \<lparr>event_id = fresh_uuid (ts 0), event_run_id = run_id r, sequence_no = 0, previous_state = None,
          next_state = Received, timestamp = run_created_at r, event_stage = None, work_unit_id = None,
          event_reason = Some creation_reason\<rparr> db1) (\<lambda>db2.
     res_bind (transition_in_tx c (run_id r) Received 1 Ingesting (Some Ingest) transition_reason no_patch
         (ts 1) db2) (\<lambda>(ingesting, db3).
     transition_in_tx c (run_id r) Ingesting (state_version ingesting) Ingested (Some Ingest)
       transition_reason no_patch (ts 2) db3)))"

definition new_run_guard :: "ingested_document \<Rightarrow> pipeline_run \<Rightarrow> store_error + unit" where
  "new_run_guard d r =
     ensure (run_document_id r = document_id d \<and> run_state r = Received \<and> state_version r = 1)
       (InvalidIngestion ''new run must reference the document at RECEIVED version 1'')"

definition persist_ingestion_in_transaction ::
  "'j codec \<Rightarrow> ingested_document \<Rightarrow> pipeline_run \<Rightarrow> summary_profile \<Rightarrow> (nat \<Rightarrow> tick) \<Rightarrow> 'j db \<Rightarrow>
   store_error + pipeline_run \<times> 'j db" where
  "persist_ingestion_in_transaction c d r profile ts db =
     res_bind (new_run_guard d r) (\<lambda>_.
     res_bind (insert_document c d db) (\<lambda>db1.
     res_bind (persist_received_run_to_ingested c r ''run_created'' None ts db1) (\<lambda>(ingested, db2).
     res_bind (ensure_run_summary_profile c (run_id ingested) profile (ts 3) db2) (\<lambda>db3.
     Inr (ingested, db3)))))"

definition persist_ingestion_with_profiles ::
  "'j codec \<Rightarrow> ingested_document \<Rightarrow> pipeline_run \<Rightarrow> model_profile_snapshot option \<Rightarrow> summary_profile \<Rightarrow>
   (nat \<Rightarrow> tick) \<Rightarrow> 'j db \<Rightarrow> store_error + pipeline_run \<times> 'j db" where
  "persist_ingestion_with_profiles c d r snapshot profile ts db =
     res_bind (new_run_guard d r) (\<lambda>_.
     res_bind (persist_ingestion_in_transaction c d r profile ts db) (\<lambda>(ingested, db1).
     res_bind (ensure_run_model_profile c (run_id ingested) snapshot (ts 4) db1) (\<lambda>db2.
     Inr (ingested, db2))))"

definition persist_ingestion ::
  "'j codec \<Rightarrow> ingested_document \<Rightarrow> pipeline_run \<Rightarrow> (nat \<Rightarrow> tick) \<Rightarrow> 'j db \<Rightarrow> store_error + pipeline_run \<times> 'j db" where
  "persist_ingestion c d r ts db = persist_ingestion_with_profiles c d r None General ts db"

definition persist_corrected_document ::
  "'j codec \<Rightarrow> ingested_document \<Rightarrow> pipeline_run \<Rightarrow> parsed_document \<Rightarrow> string \<Rightarrow> (nat \<Rightarrow> tick) \<Rightarrow> 'j db \<Rightarrow>
   store_error + pipeline_run \<times> 'j db" where
  "persist_corrected_document c d r p source ts db =
     res_bind (get_run_summary_profile c db source) (\<lambda>found.
     res_bind (ok_or found (SummaryProfileUnavailable source)) (\<lambda>profile.
     res_bind (persist_ingestion_in_transaction c d r profile ts db) (\<lambda>(ingested, db1).
     res_bind (get_run_model_profile c db1 source) (\<lambda>model_profile.
     res_bind (ensure_run_model_profile c (run_id r) model_profile (ts 4) db1) (\<lambda>db2.
     res_bind (transition_in_tx c (run_id r) Ingested (state_version ingested) Parsing (Some Parse)
         (Some ''operator_ocr_correction'') no_patch (ts 5) db2) (\<lambda>(parsing, db3).
     res_bind (insert_parsed_document c (run_id r) p (ts 6) db3) (\<lambda>db4.
     transition_in_tx c (run_id r) Parsing (state_version parsing) Parsed (Some Parse)
       (Some ''operator_ocr_correction'')
       (warnings_patch (parsed_warnings p @ concat (map parsed_page_warnings (parsed_pages p))))
       (ts 7) db4)))))))"

section \<open>Stages\<close>

definition start_parsing ::
  "'j codec \<Rightarrow> string \<Rightarrow> u32 \<Rightarrow> tick \<Rightarrow> 'j db \<Rightarrow> store_error + (pipeline_run \<times> ingested_document) \<times> 'j db" where
  "start_parsing c run version t db =
     res_bind (require_run c db run) (\<lambda>current.
     res_bind (require_document c db (run_document_id current)) (\<lambda>document.
     res_bind (transition_in_tx c run Ingested version Parsing (Some Parse) None no_patch t db)
       (\<lambda>(parsing, db'). Inr ((parsing, document), db'))))"

definition has_ocr_handoff_for_root :: "'j db \<Rightarrow> string \<Rightarrow> bool" where
  "has_ocr_handoff_for_root db run \<longleftrightarrow> list_ex (\<lambda>(_, h). root_run_id (col_handoff h) = run) (ocr_handoffs db)"

definition complete_parsing ::
  "'j codec \<Rightarrow> string \<Rightarrow> u32 \<Rightarrow> parsed_document \<Rightarrow> pipeline_warning list \<Rightarrow> (nat \<Rightarrow> tick) \<Rightarrow> 'j db \<Rightarrow>
   store_error + pipeline_run \<times> 'j db" where
  "complete_parsing c run version p warnings ts db =
     res_bind (require_run c db run) (\<lambda>r.
     res_bind (ensure (run_document_id r = parsed_document_id p)
         (ArtifactDocumentMismatch (parsed_document_id p) (run_document_id r))) (\<lambda>_.
     res_bind (insert_parsed_document c run p (ts 0) db) (\<lambda>db1.
     transition_in_tx c run Parsing version Parsed (Some Parse) None (warnings_patch warnings) (ts 1) db1)))"

definition fail_parsing ::
  "'j codec \<Rightarrow> string \<Rightarrow> u32 \<Rightarrow> pipeline_failure \<Rightarrow> tick \<Rightarrow> 'j db \<Rightarrow> store_error + pipeline_run \<times> 'j db" where
  "fail_parsing c run version failure t db =
     transition_in_tx c run Parsing version Failed (Some Parse) (Some (failure_code failure))
       (failure_patch failure) t db"

definition start_normalizing ::
  "'j codec \<Rightarrow> string \<Rightarrow> u32 \<Rightarrow> tick \<Rightarrow> 'j db \<Rightarrow> store_error + (pipeline_run \<times> parsed_document) \<times> 'j db" where
  "start_normalizing c run version t db =
     res_bind (ensure (\<not> has_ocr_handoff_for_root db run)
         (InvalidOcrHandoff ''the OCR handoff owns this root run'')) (\<lambda>_.
     res_bind (get_parsed_document c db run) (\<lambda>found.
     res_bind (ok_or found (ParsedArtifactNotFound run)) (\<lambda>p.
     res_bind (transition_in_tx c run Parsed version Normalizing (Some Normalize) None no_patch t db)
       (\<lambda>(r, db'). Inr ((r, p), db')))))"

definition complete_normalization ::
  "'j codec \<Rightarrow> string \<Rightarrow> u32 \<Rightarrow> normalized_document \<Rightarrow> pipeline_warning list \<Rightarrow> (nat \<Rightarrow> tick) \<Rightarrow> 'j db \<Rightarrow>
   store_error + pipeline_run \<times> 'j db" where
  "complete_normalization c run version a warnings ts db =
     res_bind (require_run c db run) (\<lambda>r.
     res_bind (ensure (run_document_id r = normalized_document_id a)
         (NormalizedArtifactDocumentMismatch (normalized_document_id a) (run_document_id r))) (\<lambda>_.
     res_bind (insert_normalized_document c run a (ts 0) db) (\<lambda>db1.
     transition_in_tx c run Normalizing version Normalized (Some Normalize) None (warnings_patch warnings) (ts 1) db1)))"

definition fail_normalization ::
  "'j codec \<Rightarrow> string \<Rightarrow> u32 \<Rightarrow> pipeline_failure \<Rightarrow> tick \<Rightarrow> 'j db \<Rightarrow> store_error + pipeline_run \<times> 'j db" where
  "fail_normalization c run version failure t db =
     transition_in_tx c run Normalizing version Failed (Some Normalize) (Some (failure_code failure))
       (failure_patch failure) t db"

definition start_structuring ::
  "'j codec \<Rightarrow> string \<Rightarrow> u32 \<Rightarrow> tick \<Rightarrow> 'j db \<Rightarrow> store_error + (pipeline_run \<times> normalized_document) \<times> 'j db" where
  "start_structuring c run version t db =
     res_bind (get_normalized_document c db run) (\<lambda>found.
     res_bind (ok_or found (NormalizedArtifactNotFound run)) (\<lambda>a.
     res_bind (transition_in_tx c run Normalized version Structuring (Some Structure) None no_patch t db)
       (\<lambda>(r, db'). Inr ((r, a), db'))))"

definition complete_structuring ::
  "'j codec \<Rightarrow> string \<Rightarrow> u32 \<Rightarrow> structured_document \<Rightarrow> pipeline_warning list \<Rightarrow> (nat \<Rightarrow> tick) \<Rightarrow> 'j db \<Rightarrow>
   store_error + pipeline_run \<times> 'j db" where
  "complete_structuring c run version a warnings ts db =
     res_bind (require_run c db run) (\<lambda>r.
     res_bind (ensure (run_document_id r = structured_document_id a)
         (StructuredArtifactDocumentMismatch (structured_document_id a) (run_document_id r))) (\<lambda>_.
     res_bind (insert_structured_document c run a (ts 0) db) (\<lambda>db1.
     transition_in_tx c run Structuring version Structured (Some Structure) None (warnings_patch warnings) (ts 1) db1)))"

definition fail_structuring ::
  "'j codec \<Rightarrow> string \<Rightarrow> u32 \<Rightarrow> pipeline_failure \<Rightarrow> tick \<Rightarrow> 'j db \<Rightarrow> store_error + pipeline_run \<times> 'j db" where
  "fail_structuring c run version failure t db =
     transition_in_tx c run Structuring version Failed (Some Structure) (Some (failure_code failure))
       (failure_patch failure) t db"

definition start_chunking ::
  "'j codec \<Rightarrow> string \<Rightarrow> u32 \<Rightarrow> tick \<Rightarrow> 'j db \<Rightarrow>
   store_error + (pipeline_run \<times> normalized_document \<times> structured_document) \<times> 'j db" where
  "start_chunking c run version t db =
     res_bind (get_normalized_document c db run) (\<lambda>found_n.
     res_bind (ok_or found_n (NormalizedArtifactNotFound run)) (\<lambda>n.
     res_bind (get_structured_document c db run) (\<lambda>found_s.
     res_bind (ok_or found_s (StructuredArtifactNotFound run)) (\<lambda>s.
     res_bind (transition_in_tx c run Structured version Chunking (Some Chunk) None no_patch t db)
       (\<lambda>(r, db'). Inr ((r, n, s), db'))))))"

definition complete_chunking ::
  "'j codec \<Rightarrow> string \<Rightarrow> u32 \<Rightarrow> chunked_document \<Rightarrow> pipeline_warning list \<Rightarrow> (nat \<Rightarrow> tick) \<Rightarrow> 'j db \<Rightarrow>
   store_error + pipeline_run \<times> 'j db" where
  "complete_chunking c run version a warnings ts db =
     res_bind (require_run c db run) (\<lambda>r.
     res_bind (ensure (run_document_id r = chunked_document_id a)
         (ChunkedArtifactDocumentMismatch (chunked_document_id a) (run_document_id r))) (\<lambda>_.
     res_bind (insert_chunked_document c run a (ts 0) db) (\<lambda>db1.
     transition_in_tx c run Chunking version Chunked (Some Chunk) None (warnings_patch warnings) (ts 1) db1)))"

definition fail_chunking ::
  "'j codec \<Rightarrow> string \<Rightarrow> u32 \<Rightarrow> pipeline_failure \<Rightarrow> tick \<Rightarrow> 'j db \<Rightarrow> store_error + pipeline_run \<times> 'j db" where
  "fail_chunking c run version failure t db =
     transition_in_tx c run Chunking version Failed (Some Chunk) (Some (failure_code failure))
       (failure_patch failure) t db"

definition start_analysis ::
  "'j codec \<Rightarrow> string \<Rightarrow> u32 \<Rightarrow> tick \<Rightarrow> 'j db \<Rightarrow> store_error + (pipeline_run \<times> chunked_document) \<times> 'j db" where
  "start_analysis c run version t db =
     res_bind (get_chunked_document c db run) (\<lambda>found.
     res_bind (ok_or found (ChunkedArtifactNotFound run)) (\<lambda>a.
     res_bind (transition_in_tx c run Chunked version Analyzing (Some Analyze) None no_patch t db)
       (\<lambda>(r, db'). Inr ((r, a), db'))))"

definition ensure_run_document_matches ::
  "'j codec \<Rightarrow> string \<Rightarrow> string \<Rightarrow> string \<Rightarrow> 'j db \<Rightarrow> store_error + unit" where
  "ensure_run_document_matches c run kind document db =
     res_bind (require_run c db run) (\<lambda>r.
     ensure (run_document_id r = document)
       (DownstreamArtifactDocumentMismatch kind document (run_document_id r)))"

definition ensure_run_state_version ::
  "'j codec \<Rightarrow> string \<Rightarrow> pipeline_state \<Rightarrow> u32 \<Rightarrow> 'j db \<Rightarrow> store_error + unit" where
  "ensure_run_state_version c run expected_state expected_version db =
     res_bind (require_run c db run) (\<lambda>r.
     res_bind (ensure (run_state r = expected_state)
       (Transition (StaleExpectedState expected_state (run_state r)))) (\<lambda>_.
     ensure (state_version r = expected_version)
       (Transition (ConcurrentModification expected_version (state_version r)))))"

definition fail_downstream_stage ::
  "'j codec \<Rightarrow> string \<Rightarrow> pipeline_state \<Rightarrow> u32 \<Rightarrow> pipeline_stage \<Rightarrow> pipeline_failure \<Rightarrow> tick \<Rightarrow> 'j db \<Rightarrow>
   store_error + pipeline_run \<times> 'j db" where
  "fail_downstream_stage c run expected_state version stage failure t db =
     transition_in_tx c run expected_state version Failed (Some stage) (Some (failure_code failure))
       (failure_patch failure) t db"

definition complete_analysis ::
  "'j codec \<Rightarrow> string \<Rightarrow> u32 \<Rightarrow> analyzed_document \<Rightarrow> pipeline_warning list \<Rightarrow> (nat \<Rightarrow> tick) \<Rightarrow> 'j db \<Rightarrow>
   store_error + pipeline_run \<times> 'j db" where
  "complete_analysis c run version a warnings ts db =
     res_bind (ensure_run_document_matches c run ''analyzed'' (analyzed_document_id a) db) (\<lambda>_.
     res_bind (insert_analyzed_document c run a (ts 0) db) (\<lambda>db1.
     transition_in_tx c run Analyzing version Analyzed (Some Analyze) None (warnings_patch warnings) (ts 1) db1))"

definition fail_analysis ::
  "'j codec \<Rightarrow> string \<Rightarrow> u32 \<Rightarrow> pipeline_failure \<Rightarrow> tick \<Rightarrow> 'j db \<Rightarrow> store_error + pipeline_run \<times> 'j db" where
  "fail_analysis c run version failure t db = fail_downstream_stage c run Analyzing version Analyze failure t db"

definition start_synthesis ::
  "'j codec \<Rightarrow> string \<Rightarrow> u32 \<Rightarrow> tick \<Rightarrow> 'j db \<Rightarrow> store_error + (pipeline_run \<times> analyzed_document) \<times> 'j db" where
  "start_synthesis c run version t db =
     res_bind (get_analyzed_document c db run) (\<lambda>found.
     res_bind (ok_or found (DownstreamArtifactNotFound ''analyzed'' run)) (\<lambda>a.
     res_bind (transition_in_tx c run Analyzed version Synthesizing (Some Synthesize) None no_patch t db)
       (\<lambda>(r, db'). Inr ((r, a), db'))))"

definition complete_synthesis ::
  "'j codec \<Rightarrow> string \<Rightarrow> u32 \<Rightarrow> synthesized_document \<Rightarrow> pipeline_warning list \<Rightarrow> (nat \<Rightarrow> tick) \<Rightarrow> 'j db \<Rightarrow>
   store_error + pipeline_run \<times> 'j db" where
  "complete_synthesis c run version a warnings ts db =
     res_bind (ensure_run_document_matches c run ''synthesized'' (synthesized_document_id a) db) (\<lambda>_.
     res_bind (insert_synthesized_document c run a (ts 0) db) (\<lambda>db1.
     res_bind (insert_synthesis_attempt c run 0 a (ts 1) db1) (\<lambda>db2.
     transition_in_tx c run Synthesizing version Synthesized (Some Synthesize) None (warnings_patch warnings)
       (ts 2) db2)))"

definition fail_synthesis ::
  "'j codec \<Rightarrow> string \<Rightarrow> u32 \<Rightarrow> pipeline_failure \<Rightarrow> tick \<Rightarrow> 'j db \<Rightarrow> store_error + pipeline_run \<times> 'j db" where
  "fail_synthesis c run version failure t db = fail_downstream_stage c run Synthesizing version Synthesize failure t db"

definition start_verification ::
  "'j codec \<Rightarrow> string \<Rightarrow> u32 \<Rightarrow> tick \<Rightarrow> 'j db \<Rightarrow> store_error + (pipeline_run \<times> synthesized_document) \<times> 'j db" where
  "start_verification c run version t db =
     res_bind (get_synthesized_document c db run) (\<lambda>found.
     res_bind (ok_or found (DownstreamArtifactNotFound ''synthesized'' run)) (\<lambda>a.
     res_bind (transition_in_tx c run Synthesized version Verifying (Some Verify) None no_patch t db)
       (\<lambda>(r, db'). Inr ((r, a), db'))))"

definition complete_verification ::
  "'j codec \<Rightarrow> string \<Rightarrow> u32 \<Rightarrow> u32 \<Rightarrow> verified_document \<Rightarrow> pipeline_warning list \<Rightarrow> (nat \<Rightarrow> tick) \<Rightarrow> 'j db \<Rightarrow>
   store_error + pipeline_run \<times> 'j db" where
  "complete_verification c run version attempt a warnings ts db =
     res_bind (ensure_run_document_matches c run ''verified'' (verified_document_id a) db) (\<lambda>_.
     res_bind (ensure_attempt_ordinal attempt (synthesis_attempt_ordinal a)) (\<lambda>_.
     res_bind (insert_verification_attempt c run attempt a (ts 0) db) (\<lambda>db1.
     res_bind (insert_verified_document c run a (ts 1) db1) (\<lambda>db2.
     transition_in_tx c run Verifying version Verified (Some Verify) None (warnings_patch warnings)
       (ts 2) db2))))"

definition record_verification_attempt ::
  "'j codec \<Rightarrow> string \<Rightarrow> u32 \<Rightarrow> u32 \<Rightarrow> verified_document \<Rightarrow> tick \<Rightarrow> 'j db \<Rightarrow> store_error + 'j db" where
  "record_verification_attempt c run version attempt a t db =
     res_bind (ensure_run_state_version c run Verifying version db) (\<lambda>_.
     res_bind (ensure_run_document_matches c run ''verification attempt'' (verified_document_id a) db) (\<lambda>_.
     res_bind (ensure_attempt_ordinal attempt (synthesis_attempt_ordinal a)) (\<lambda>_.
     insert_verification_attempt c run attempt a t db)))"

definition fail_verification ::
  "'j codec \<Rightarrow> string \<Rightarrow> u32 \<Rightarrow> pipeline_failure \<Rightarrow> tick \<Rightarrow> 'j db \<Rightarrow> store_error + pipeline_run \<times> 'j db" where
  "fail_verification c run version failure t db = fail_downstream_stage c run Verifying version Verify failure t db"

section \<open>Completion\<close>

definition has_warning :: "string \<Rightarrow> pipeline_warning list \<Rightarrow> bool" where
  "has_warning code ws \<longleftrightarrow> list_ex (\<lambda>w. warning_code w = code) ws"

definition summary_outcome :: "pipeline_warning list \<Rightarrow> pipeline_state \<times> string option" where
  "summary_outcome ws =
     (if ws = [] then (Complete, None)
      else (CompleteWithWarnings,
        Some (if has_warning ''SEMANTIC_VERIFICATION_DEFERRED'' ws then ''semantic_verification_deferred''
              else if has_warning ''SEMANTIC_CLAIMS_WITHHELD'' ws then ''semantic_claims_withheld''
              else ''completed_with_warnings'')))"

definition complete_summary ::
  "'j codec \<Rightarrow> string \<Rightarrow> u32 \<Rightarrow> summary_artifact \<Rightarrow> citation_artifact \<Rightarrow> (nat \<Rightarrow> tick) \<Rightarrow> 'j db \<Rightarrow>
   store_error + pipeline_run \<times> 'j db" where
  "complete_summary c run version s citations ts db =
     res_bind (ensure_run_document_matches c run ''summary'' (summary_document_id s) db) (\<lambda>_.
     res_bind (ensure_run_document_matches c run ''citation'' (citation_document_id citations) db) (\<lambda>_.
     res_bind (ensure (summary_integrity_hash citations = integrity_hash s
           \<and> rendered_text citations = summary_text s)
         (DownstreamArtifactMetadataMismatch ''citation'' run)) (\<lambda>_.
     res_bind (insert_summary_artifact c run s (ts 0) db) (\<lambda>db1.
     res_bind (insert_citation_artifact c run citations db1) (\<lambda>db2.
     let (next, reason) = summary_outcome (summary_warnings s) in
     transition_in_tx c run Verified version next (Some Verify) reason (warnings_patch (summary_warnings s))
       (ts 1) db2)))))"

definition fail_summary ::
  "'j codec \<Rightarrow> string \<Rightarrow> u32 \<Rightarrow> pipeline_failure \<Rightarrow> tick \<Rightarrow> 'j db \<Rightarrow> store_error + pipeline_run \<times> 'j db" where
  "fail_summary c run version failure t db = fail_downstream_stage c run Verified version Verify failure t db"

section \<open>Cancellation and background failure\<close>

definition request_cancellation ::
  "'j codec \<Rightarrow> string \<Rightarrow> u32 \<Rightarrow> tick \<Rightarrow> 'j db \<Rightarrow> store_error + pipeline_run \<times> 'j db" where
  "request_cancellation c run version t db =
     res_bind (require_run c db run) (\<lambda>r.
     res_bind (ensure (can_request_cancellation (run_state r)) (CancellationNotAllowed run (run_state r))) (\<lambda>_.
     transition_in_tx c run (run_state r) version Cancelling (active_stage (run_state r))
       (Some ''cancellation_requested'') cancellation_patch t db))"

definition complete_cancellation ::
  "'j codec \<Rightarrow> string \<Rightarrow> u32 \<Rightarrow> tick \<Rightarrow> 'j db \<Rightarrow> store_error + pipeline_run \<times> 'j db" where
  "complete_cancellation c run version t db =
     res_bind (require_run c db run) (\<lambda>r.
     res_bind (ensure (run_state r = Cancelling \<and> cancellation_requested r)
         (CancellationNotAllowed run (run_state r))) (\<lambda>_.
     transition_in_tx c run Cancelling version Cancelled (current_stage r)
       (Some ''cancellation_completed'') cancellation_patch t db))"

definition fail_background_execution ::
  "'j codec \<Rightarrow> string \<Rightarrow> pipeline_state \<Rightarrow> u32 \<Rightarrow> pipeline_failure \<Rightarrow> tick \<Rightarrow> 'j db \<Rightarrow>
   store_error + pipeline_run \<times> 'j db" where
  "fail_background_execution c run expected_state version failure t db =
     res_bind (require_run c db run) (\<lambda>r.
     if run_state r = Cancelling
     then res_bind (ensure (cancellation_requested r) (CancellationNotAllowed run (run_state r))) (\<lambda>_.
       transition_in_tx c run Cancelling (state_version r) Cancelled (current_stage r)
         (Some ''cancellation_completed'') cancellation_patch t db)
     else res_bind (ensure (can_request_cancellation expected_state)
         (CancellationNotAllowed run expected_state)) (\<lambda>_.
       transition_in_tx c run expected_state version Failed (failure_stage failure)
         (Some (failure_code failure)) (failure_patch failure) t db))"

section \<open>Retries\<close>

definition validate_retry_source ::
  "'j codec \<Rightarrow> string \<Rightarrow> u32 \<Rightarrow> 'j db \<Rightarrow> store_error + pipeline_run \<times> retry_checkpoint" where
  "validate_retry_source c source version db =
     res_bind (require_run c db source) (\<lambda>r.
     res_bind (ensure (run_state r = Failed)
         (InvalidRetrySource source ''only a failed run can create a retry'')) (\<lambda>_.
     res_bind (ensure (state_version r = version)
         (Transition (ConcurrentModification version (state_version r)))) (\<lambda>_.
     res_bind (ok_or (retry_checkpoint r)
         (InvalidRetrySource source ''the failure has no reusable checkpoint'')) (\<lambda>point.
     res_bind (get_run_model_profile c db source) (\<lambda>model_profile.
     res_bind (ensure (model_profile \<noteq> None)
         (InvalidRetrySource source ''the failed run has no immutable model profile to inherit'')) (\<lambda>_.
     res_bind (get_run_summary_profile c db source) (\<lambda>profile.
     res_bind (ensure (profile \<noteq> None)
         (InvalidRetrySource source ''the failed run has no immutable summary profile to inherit'')) (\<lambda>_.
     res_bind (get_retry_lineage_for_source c db source) (\<lambda>existing.
     case existing of
       Some l \<Rightarrow> Inl (RetryAlreadyExists source (retry_run_id l))
     | None \<Rightarrow> Inr (r, point))))))))))"

text \<open>
  \<open>INSERT .. SELECT .. WHERE run_id = source\<close>: inserts the source's profile for the new run and
  reports the number of rows, which is at most one.
\<close>

definition copy_profile ::
  "string \<Rightarrow> string \<Rightarrow> string \<Rightarrow> 'j \<Rightarrow> 'j db \<Rightarrow> (string, 'j profile_row) table \<Rightarrow>
   store_error + nat \<times> (string, 'j profile_row) table" where
  "copy_profile relation run source created db rows =
     (case select_row rows source of
        None \<Rightarrow> Inr (0, rows)
      | Some row \<Rightarrow>
          res_bind (insert_row (violation relation) (has_key run (pipeline_runs db)) run
              (row\<lparr>col_profile_created_at := created\<rparr>) rows) (\<lambda>rows'. Inr (1, rows')))"

definition insert_retry ::
  "'j codec \<Rightarrow> retry_lineage \<Rightarrow> 'j db \<Rightarrow> store_error + 'j db" where
  "insert_retry c l db =
     res_bind (insert_row (violation ''pipeline_run_retries'')
         (checkpoint l = RetryIngested \<and> retry_run_id l \<noteq> source_run_id l
          \<and> has_key (retry_run_id l) (pipeline_runs db) \<and> has_key (source_run_id l) (pipeline_runs db)
          \<and> \<not> list_ex (\<lambda>(_, row). col_source_run_id row = source_run_id l) (pipeline_run_retries db))
         (retry_run_id l)
         \<lparr>col_source_run_id = source_run_id l, col_checkpoint = to_json (checkpoint_json c) (checkpoint l),
          col_retry_created_at = to_rfc3339 c (lineage_created_at l)\<rparr> (pipeline_run_retries db)) (\<lambda>rows.
     Inr (db\<lparr>pipeline_run_retries := rows\<rparr>))"

definition create_retry_run ::
  "'j codec \<Rightarrow> string \<Rightarrow> u32 \<Rightarrow> pipeline_run \<Rightarrow> (nat \<Rightarrow> tick) \<Rightarrow> 'j db \<Rightarrow>
   store_error + (pipeline_run \<times> ingested_document \<times> retry_lineage) \<times> 'j db" where
  "create_retry_run c source version retry ts db =
     res_bind (validate_retry_source c source version db) (\<lambda>(source_run, point).
     res_bind (ensure (run_document_id retry = run_document_id source_run \<and> run_state retry = Received
           \<and> state_version retry = 1 \<and> run_failure retry = None \<and> completed_at retry = None)
         (InvalidRetrySource source ''new retry must reference the source document at RECEIVED version 1'')) (\<lambda>_.
     res_bind (require_document c db (run_document_id source_run)) (\<lambda>document.
     res_bind (persist_received_run_to_ingested c retry ''retry_run_created'' (Some ''retry_checkpoint_reused'')
         ts db) (\<lambda>(ingested, db1).
     res_bind (transition_in_tx c (run_id retry) Ingested (state_version ingested) Parsing (Some Parse)
         (Some ''retry_processing_started'') no_patch (ts 3) db1) (\<lambda>(parsing, db2).
     let lineage = \<lparr>retry_run_id = run_id retry, source_run_id = source, checkpoint = point,
                    lineage_created_at = run_created_at retry\<rparr> in
     res_bind (insert_retry c lineage db2) (\<lambda>db3.
     res_bind (copy_profile ''pipeline_run_model_profiles'' (run_id retry) source
         (to_rfc3339 c (run_created_at retry)) db3 (pipeline_run_model_profiles db3)) (\<lambda>(_, models).
     let db4 = db3\<lparr>pipeline_run_model_profiles := models\<rparr> in
     res_bind (copy_profile ''pipeline_run_summary_profiles'' (run_id retry) source
         (to_rfc3339 c (run_created_at retry)) db4 (pipeline_run_summary_profiles db4)) (\<lambda>(copied, summaries).
     res_bind (ensure (copied = 1) (SummaryProfileUnavailable source)) (\<lambda>_.
     Inr ((parsing, document, lineage), db4\<lparr>pipeline_run_summary_profiles := summaries\<rparr>))))))))))"

end
