(* ===== verification/Store_Handoff.thy ===== *)
theory Store_Handoff
  imports Store_Stages
begin

text \<open>
  The OCR handoff of \<open>pipeline/db.rs\<close>: the durable record of one exchange with the OCR provider, from
  its preparation to the admission of the derived child run that replaces the root run, and the owner
  of a profile-suggestion request.
\<close>

section \<open>Constraints of the handoff table\<close>

definition is_lower_hex :: "char \<Rightarrow> bool" where
  "is_lower_hex b \<longleftrightarrow> is_ascii_digit b \<or> (97 \<le> byte b \<and> byte b \<le> 102)"

definition is_digest :: "string \<Rightarrow> bool" where
  "is_digest s \<longleftrightarrow> length s = 64 \<and> list_all is_lower_hex s"

definition PHASES :: "string list" where
  "PHASES = [''prepared'', ''submission_uncertain'', ''running'', ''output_ready'', ''child_admitted'',
     ''completed'', ''failed'']"

text \<open>
  The \<open>CHECK\<close>s. An expression that is \<open>NULL\<close> satisfies a \<open>CHECK\<close>, which matters only where a size column
  is \<open>NULL\<close>.
\<close>

definition output_check :: "string option \<Rightarrow> string option \<Rightarrow> string option \<Rightarrow> nat option \<Rightarrow> bool" where
  "output_check bytes artifact sha bytes_size \<longleftrightarrow>
     (bytes = None \<and> artifact = None \<and> sha = None \<and> bytes_size = None)
     \<or> (case (bytes, bytes_size) of
          (Some b, Some n) \<Rightarrow> artifact \<noteq> None \<and> sha \<noteq> None \<and> length b = n
        | (Some _, None) \<Rightarrow> artifact \<noteq> None \<and> sha \<noteq> None
        | (None, _) \<Rightarrow> False)"

definition size_check :: "nat \<Rightarrow> nat option \<Rightarrow> bool" where
  "size_check limit n = (case n of None \<Rightarrow> True | Some k \<Rightarrow> 0 < k \<and> k \<le> limit)"

definition digest_check :: "string option \<Rightarrow> bool" where
  "digest_check s = (case s of None \<Rightarrow> True | Some d \<Rightarrow> is_digest d)"

definition pdf_limit :: "'j codec \<Rightarrow> string \<Rightarrow> nat" where
  "pdf_limit c request = (if streamed_request c request then 37748736 else 2097152)"

definition handoff_checks :: "'j codec \<Rightarrow> 'j handoff_row \<Rightarrow> bool" where
  "handoff_checks c row \<longleftrightarrow>
     (let h = col_handoff row in
      0 < unat (source_byte_size h) \<and> unat (source_byte_size h) \<le> 33554432
      \<and> is_digest (source_sha256 h) \<and> length (source_bytes h) = unat (source_byte_size h)
      \<and> provider_app_id h = ''document-ocr'' \<and> is_digest (provider_request_sha256 h)
      \<and> phase h \<in> set PHASES
      \<and> digest_check (ocr_pdf_sha256 h)
      \<and> size_check (pdf_limit c (provider_request_json h)) (col_ocr_pdf_byte_size row)
      \<and> digest_check (text_sha256 h) \<and> size_check 262144 (col_text_byte_size row)
      \<and> output_check (ocr_pdf_bytes h) (ocr_pdf_artifact_id h) (ocr_pdf_sha256 h) (col_ocr_pdf_byte_size row)
      \<and> output_check (text_bytes h) (text_artifact_id h) (text_sha256 h) (col_text_byte_size row))"

definition handoff_uniques :: "(ocr_handoff \<Rightarrow> string option) list" where
  "handoff_uniques = [Some \<circ> root_run_id, Some \<circ> source_artifact_id, Some \<circ> provider_job_id,
     ocr_pdf_artifact_id, text_artifact_id, Some \<circ> child_document_id, Some \<circ> child_run_id,
     Some \<circ> derived_path]"

text \<open>\<open>NULL\<close>s are distinct from each other.\<close>

definition unique_column :: "(ocr_handoff \<Rightarrow> string option) \<Rightarrow> (string, 'j handoff_row) table \<Rightarrow> bool" where
  "unique_column col t \<longleftrightarrow> distinct (filter (\<lambda>v. v \<noteq> None) (map (\<lambda>(_, h). col (col_handoff h)) t))"

definition handoff_constraints :: "'j codec \<Rightarrow> (string, 'j handoff_row) table \<Rightarrow> bool" where
  "handoff_constraints c t \<longleftrightarrow>
     list_all (\<lambda>(_, h). handoff_checks c h) t \<and> list_all (\<lambda>col. unique_column col t) handoff_uniques"

text \<open>
  An \<open>UPDATE\<close> of the table fails when a row would violate a constraint; its result tells whether
  exactly one row changed.
\<close>

definition update_handoffs ::
  "'j codec \<Rightarrow> (ocr_handoff \<Rightarrow> bool) \<Rightarrow> ('j handoff_row \<Rightarrow> 'j handoff_row) \<Rightarrow> 'j db \<Rightarrow>
   store_error + bool \<times> 'j db" where
  "update_handoffs c p f db =
     (let (changed, t) = update_where (\<lambda>_ h. p (col_handoff h)) f (ocr_handoffs db) in
      res_bind (ensure (handoff_constraints c t) (violation ''ocr_handoffs'')) (\<lambda>_.
      Inr (changed = 1, db\<lparr>ocr_handoffs := t\<rparr>)))"

section \<open>Reading\<close>

definition get_ocr_handoff :: "'j db \<Rightarrow> string \<Rightarrow> ocr_handoff option" where
  "get_ocr_handoff db handoff = map_option col_handoff (select_row (ocr_handoffs db) handoff)"

definition get_ocr_handoff_for_root :: "'j db \<Rightarrow> string \<Rightarrow> ocr_handoff option" where
  "get_ocr_handoff_for_root db root =
     map_option (\<lambda>(_, h). col_handoff h)
       (select_where (\<lambda>_ h. root_run_id (col_handoff h) = root) (ocr_handoffs db))"

definition get_admitted_ocr_child_run_id :: "'j db \<Rightarrow> string \<Rightarrow> string option" where
  "get_admitted_ocr_child_run_id db root =
     map_option (\<lambda>(_, h). child_run_id (col_handoff h))
       (select_where (\<lambda>_ h. root_run_id (col_handoff h) = root
          \<and> phase (col_handoff h) \<in> {''child_admitted'', ''completed''}) (ocr_handoffs db))"

definition is_admitted_ocr_child :: "'j db \<Rightarrow> string \<Rightarrow> bool" where
  "is_admitted_ocr_child db child \<longleftrightarrow>
     list_ex (\<lambda>(_, h). child_run_id (col_handoff h) = child \<and> phase (col_handoff h) = ''child_admitted'')
       (ocr_handoffs db)"

section \<open>Preparing and running a handoff\<close>

record new_ocr_handoff =
  new_handoff_id :: string
  new_root_run_id :: string
  new_root_document_id :: string
  new_source_artifact_id :: string
  new_source_bytes :: string
  new_source_sha256 :: string
  new_source_display_name :: string
  new_provider_app_id :: string
  new_provider_instance_id :: string
  new_provider_job_id :: string
  new_provider_request_json :: string
  new_child_document_id :: string
  new_child_run_id :: string
  new_derived_path :: string

definition prepared_handoff :: "'j codec \<Rightarrow> new_ocr_handoff \<Rightarrow> ocr_handoff" where
  "prepared_handoff c a = \<lparr>handoff_id = new_handoff_id a, root_run_id = new_root_run_id a,
     root_document_id = new_root_document_id a, source_artifact_id = new_source_artifact_id a,
     source_byte_size = word_of_nat (length (new_source_bytes a)), source_sha256 = new_source_sha256 a,
     source_display_name = new_source_display_name a, source_bytes = new_source_bytes a,
     provider_app_id = new_provider_app_id a, provider_instance_id = new_provider_instance_id a,
     provider_job_id = new_provider_job_id a, provider_request_json = new_provider_request_json a,
     provider_request_sha256 = sha_bytes c (new_provider_request_json a), phase = ''prepared'',
     provider_status_json = None, ocr_pdf_artifact_id = None, ocr_pdf_sha256 = None, ocr_pdf_bytes = None,
     text_artifact_id = None, text_sha256 = None, text_bytes = None,
     child_document_id = new_child_document_id a, child_run_id = new_child_run_id a,
     derived_path = new_derived_path a, error_code = None, error_message = None, error_retryable = None\<rparr>"

definition insert_handoff :: "'j codec \<Rightarrow> ocr_handoff \<Rightarrow> 'j \<Rightarrow> 'j db \<Rightarrow> store_error + 'j db" where
  "insert_handoff c h time db =
     (let row = \<lparr>col_handoff = h, col_ocr_pdf_byte_size = None, col_text_byte_size = None,
            col_handoff_created_at = time, col_handoff_updated_at = time\<rparr> in
      res_bind (insert_row (violation ''ocr_handoffs'')
          (has_key (root_run_id h) (pipeline_runs db) \<and> has_key (root_document_id h) (documents db)
           \<and> handoff_constraints c (ocr_handoffs db @ [(handoff_id h, row)]))
          (handoff_id h) row (ocr_handoffs db)) (\<lambda>t.
      Inr (db\<lparr>ocr_handoffs := t\<rparr>)))"

definition handoff_admissible :: "'j codec \<Rightarrow> new_ocr_handoff \<Rightarrow> pipeline_run \<Rightarrow> ingested_document \<Rightarrow> parsed_document \<Rightarrow> bool" where
  "handoff_admissible c a root document p \<longleftrightarrow>
     run_state root = Parsed \<and> run_document_id root = new_root_document_id a
     \<and> document_source_type document = NativeText \<and> requires_ocr p
     \<and> length (new_source_bytes a) = unat (byte_size document)
     \<and> sha_bytes c (new_source_bytes a) = content_hash document
     \<and> new_source_sha256 a = content_hash document
     \<and> new_provider_app_id a = ''document-ocr''"

definition prepare_ocr_handoff ::
  "'j codec \<Rightarrow> new_ocr_handoff \<Rightarrow> tick \<Rightarrow> 'j db \<Rightarrow> store_error + ocr_handoff \<times> 'j db" where
  "prepare_ocr_handoff c a t db =
     (case get_ocr_handoff_for_root db (new_root_run_id a) of
        Some existing \<Rightarrow> Inr (existing, db)
      | None \<Rightarrow>
          res_bind (require_run c db (new_root_run_id a)) (\<lambda>root.
          res_bind (require_document c db (run_document_id root)) (\<lambda>document.
          res_bind (get_parsed_document c db (new_root_run_id a)) (\<lambda>found.
          res_bind (ok_or found (InvalidOcrHandoff ''the native parse result is missing'')) (\<lambda>p.
          res_bind (ensure (handoff_admissible c a root document p)
              (InvalidOcrHandoff ''the root document is not an exact admitted native source requiring OCR'')) (\<lambda>_.
          res_bind (insert_handoff c (prepared_handoff c a) (to_rfc3339 c (now t)) db) (\<lambda>db'.
          res_bind (ok_or (get_ocr_handoff db' (new_handoff_id a))
              (InvalidOcrHandoff ''the admitted handoff disappeared'')) (\<lambda>h.
          Inr (h, db')))))))))"

definition touch :: "'j codec \<Rightarrow> tick \<Rightarrow> (ocr_handoff \<Rightarrow> ocr_handoff) \<Rightarrow> 'j handoff_row \<Rightarrow> 'j handoff_row" where
  "touch c t f row = row\<lparr>col_handoff := f (col_handoff row), col_handoff_updated_at := to_rfc3339 c (now t)\<rparr>"

definition transition_ocr_handoff ::
  "'j codec \<Rightarrow> string \<Rightarrow> string \<Rightarrow> string \<Rightarrow> string option \<Rightarrow> tick \<Rightarrow> 'j db \<Rightarrow> store_error + bool \<times> 'j db" where
  "transition_ocr_handoff c handoff expected_phase next_phase status t db =
     update_handoffs c (\<lambda>h. handoff_id h = handoff \<and> phase h = expected_phase)
       (touch c t (\<lambda>h. h\<lparr>phase := next_phase,
          provider_status_json := (case status of None \<Rightarrow> provider_status_json h | Some s \<Rightarrow> Some s)\<rparr>)) db"

record ocr_output =
  out_provider_status_json :: string
  out_pdf_artifact_id :: string
  out_pdf_sha256 :: string
  out_pdf_bytes :: string
  out_text_artifact_id :: string
  out_text_sha256 :: string
  out_text_bytes :: string

definition store_ocr_outputs ::
  "'j codec \<Rightarrow> string \<Rightarrow> string \<Rightarrow> ocr_output \<Rightarrow> tick \<Rightarrow> 'j db \<Rightarrow> store_error + bool \<times> 'j db" where
  "store_ocr_outputs c handoff expected_phase out t db =
     update_handoffs c (\<lambda>h. handoff_id h = handoff \<and> phase h = expected_phase)
       (\<lambda>row. (touch c t (\<lambda>h. h\<lparr>phase := ''output_ready'',
            provider_status_json := Some (out_provider_status_json out),
            ocr_pdf_artifact_id := Some (out_pdf_artifact_id out), ocr_pdf_sha256 := Some (out_pdf_sha256 out),
            ocr_pdf_bytes := Some (out_pdf_bytes out), text_artifact_id := Some (out_text_artifact_id out),
            text_sha256 := Some (out_text_sha256 out), text_bytes := Some (out_text_bytes out)\<rparr>) row)
          \<lparr>col_ocr_pdf_byte_size := Some (length (out_pdf_bytes out)),
           col_text_byte_size := Some (length (out_text_bytes out))\<rparr>) db"

definition fail_ocr_handoff ::
  "'j codec \<Rightarrow> string \<Rightarrow> string \<Rightarrow> string \<Rightarrow> string \<Rightarrow> bool \<Rightarrow> tick \<Rightarrow> 'j db \<Rightarrow> store_error + bool \<times> 'j db" where
  "fail_ocr_handoff c handoff expected_phase code message retryable t db =
     update_handoffs c (\<lambda>h. handoff_id h = handoff \<and> phase h = expected_phase)
       (touch c t (\<lambda>h. h\<lparr>phase := ''failed'', error_code := Some code, error_message := Some message,
          error_retryable := Some retryable\<rparr>)) db"

section \<open>Admitting the derived child\<close>

definition derived_handoff_failure :: "string \<Rightarrow> pipeline_failure" where
  "derived_handoff_failure child = \<lparr>failure_code = ''OCR_DERIVED_HANDOFF'',
     failure_message = ''Processing continued in derived run '' @ child,
     failure_stage = Some Parse, recoverable = False\<rparr>"

definition child_matches_output ::
  "'j codec \<Rightarrow> ocr_handoff \<Rightarrow> string \<Rightarrow> ingested_document \<Rightarrow> pipeline_run \<Rightarrow> bool" where
  "child_matches_output c current pdf document run \<longleftrightarrow>
     phase current = ''output_ready'' \<and> document_id document = child_document_id current
     \<and> run_id run = child_run_id current \<and> run_document_id run = document_id document
     \<and> document_source_type document = OcrText \<and> local_source_path document = derived_path current
     \<and> unat (byte_size document) = length pdf \<and> content_hash document = sha_bytes c pdf
     \<and> ocr_pdf_sha256 current = Some (content_hash document)"

definition insert_ocr_lineage ::
  "'j codec \<Rightarrow> ocr_handoff \<Rightarrow> tick \<Rightarrow> 'j db \<Rightarrow> store_error + 'j db" where
  "insert_ocr_lineage c h t db =
     (case ocr_pdf_artifact_id h of
        None \<Rightarrow> Inl (violation ''ocr_lineage'')
      | Some artifact \<Rightarrow>
          res_bind (insert_row (violation ''ocr_lineage'')
              (has_key (handoff_id h) (ocr_handoffs db) \<and> has_key (child_run_id h) (pipeline_runs db)
               \<and> \<not> list_ex (\<lambda>(_, l). col_producer_output_artifact_id l = artifact
                    \<or> col_lineage_child_run_id l = child_run_id h) (ocr_lineage db))
              (handoff_id h)
              \<lparr>col_producer_output_artifact_id = artifact, col_lineage_child_run_id = child_run_id h,
               col_lineage_created_at = to_rfc3339 c (now t)\<rparr> (ocr_lineage db)) (\<lambda>rows.
          Inr (db\<lparr>ocr_lineage := rows\<rparr>)))"

definition admit_ocr_child ::
  "'j codec \<Rightarrow> ocr_handoff \<Rightarrow> ingested_document \<Rightarrow> pipeline_run \<Rightarrow> (nat \<Rightarrow> tick) \<Rightarrow> 'j db \<Rightarrow>
   store_error + pipeline_run \<times> 'j db" where
  "admit_ocr_child c handoff document run ts db =
     res_bind (ok_or (get_ocr_handoff db (handoff_id handoff))
         (InvalidOcrHandoff ''the OCR handoff no longer exists'')) (\<lambda>current.
     res_bind (ok_or (ocr_pdf_bytes current)
         (InvalidOcrHandoff ''the OCR PDF recovery bytes are missing'')) (\<lambda>pdf.
     if phase current = ''child_admitted'' \<or> phase current = ''completed''
     then res_bind (get_pipeline_run c db (child_run_id current)) (\<lambda>found.
       res_bind (ok_or found (InvalidOcrHandoff ''the admitted OCR child is missing'')) (\<lambda>child.
       Inr (child, db)))
     else
     res_bind (ensure (child_matches_output c current pdf document run)
         (InvalidOcrHandoff ''the derived child does not match its retained OCR output'')) (\<lambda>_.
     res_bind (get_run_summary_profile c db (root_run_id current)) (\<lambda>found.
     res_bind (ok_or found (SummaryProfileUnavailable (root_run_id current))) (\<lambda>profile.
     res_bind (persist_ingestion_in_transaction c document run profile ts db) (\<lambda>(ingested, db1).
     res_bind (copy_profile ''pipeline_run_model_profiles'' (child_run_id current) (root_run_id current)
         (to_rfc3339 c (run_created_at run)) db1 (pipeline_run_model_profiles db1)) (\<lambda>(copied, models).
     res_bind (ensure (copied = 1) (ModelProfileMismatch (root_run_id current))) (\<lambda>_.
     let db2 = db1\<lparr>pipeline_run_model_profiles := models\<rparr> in
     res_bind (require_run c db2 (root_run_id handoff)) (\<lambda>root.
     let failure = derived_handoff_failure (child_run_id current) in
     res_bind (transition_in_tx c (run_id root) Parsed (state_version root) Failed (Some Parse)
         (Some (failure_code failure)) (failure_patch failure) (ts 4) db2) (\<lambda>(_, db3).
     res_bind (insert_ocr_lineage c current (ts 5) db3) (\<lambda>db4.
     res_bind (update_handoffs c (\<lambda>h. handoff_id h = handoff_id current \<and> phase h = ''output_ready'')
         (touch c (ts 6) (\<lambda>h. h\<lparr>phase := ''child_admitted''\<rparr>)) db4) (\<lambda>(changed, db5).
     res_bind (ensure changed (InvalidOcrHandoff ''the OCR child admission lost phase ownership'')) (\<lambda>_.
     Inr (ingested, db5))))))))))))))"

definition mark_ocr_handoff_completed_for_child ::
  "'j codec \<Rightarrow> string \<Rightarrow> tick \<Rightarrow> 'j db \<Rightarrow> store_error + bool \<times> 'j db" where
  "mark_ocr_handoff_completed_for_child c child t db =
     res_bind (require_run c db child) (\<lambda>r.
     if run_state r \<notin> {Complete, CompleteWithWarnings} \<or> \<not> summary_artifact_exists db child
     then Inr (False, db)
     else update_handoffs c (\<lambda>h. child_run_id h = child \<and> phase h = ''child_admitted'')
       (touch c t (\<lambda>h. h\<lparr>phase := ''completed''\<rparr>)) db)"

datatype rewind = RewindTo pipeline_state pipeline_stage | RewindRefused | NoRewind

fun rewind_target :: "pipeline_state \<Rightarrow> rewind" where
  "rewind_target Parsing = RewindTo Ingested Ingest"
| "rewind_target Normalizing = RewindTo Parsed Parse"
| "rewind_target Structuring = RewindTo Normalized Normalize"
| "rewind_target Chunking = RewindTo Structured Structure"
| "rewind_target Analyzing = RewindTo Chunked Chunk"
| "rewind_target Synthesizing = RewindTo Analyzed Analyze"
| "rewind_target Verifying = RewindTo Synthesized Synthesize"
| "rewind_target Ingesting = RewindRefused"
| "rewind_target _ = NoRewind"

definition rewind_interrupted_ocr_child ::
  "'j codec \<Rightarrow> string \<Rightarrow> tick \<Rightarrow> 'j db \<Rightarrow> store_error + pipeline_run \<times> 'j db" where
  "rewind_interrupted_ocr_child c child t db =
     res_bind (ensure (is_admitted_ocr_child db child)
         (InvalidOcrHandoff ''the interrupted run is not owned by an admitted OCR handoff'')) (\<lambda>_.
     res_bind (require_run c db child) (\<lambda>r.
     case rewind_target (run_state r) of
       RewindRefused \<Rightarrow> Inl (InvalidOcrHandoff ''an admitted OCR child cannot be interrupted during ingestion'')
     | NoRewind \<Rightarrow> Inr (r, db)
     | RewindTo point stage \<Rightarrow>
         transition_in_tx c child (run_state r) (state_version r) point (Some stage)
           (Some ''ocr_child_rewound_after_restart'') no_patch t db))"

section \<open>Owners of profile-suggestion requests\<close>

definition valid_contract_byte :: "char \<Rightarrow> bool" where
  "valid_contract_byte b \<longleftrightarrow>
     is_ascii_digit b \<or> (65 \<le> byte b \<and> byte b \<le> 90) \<or> (97 \<le> byte b \<and> byte b \<le> 122)
     \<or> b \<in> {CHR ''.'', CHR ''-'', CHR ''_'', CHR 0x40}"

definition validate_request_owner_key :: "string \<Rightarrow> string \<Rightarrow> store_error + unit" where
  "validate_request_owner_key source_content_hash task_contract_version =
     res_bind (ensure (is_digest source_content_hash)
         (InvalidRequestOwner ''source content hash must be a lowercase SHA-256 digest'')) (\<lambda>_.
     ensure (task_contract_version \<noteq> [] \<and> length task_contract_version \<le> 128
         \<and> list_all valid_contract_byte task_contract_version)
       (InvalidRequestOwner ''task contract version is invalid''))"

text \<open>The \<open>CHECK\<close> on \<open>owner_id\<close>: a version 4 UUID in lower case with its hyphens.\<close>

definition is_uuid_v4 :: "string \<Rightarrow> bool" where
  "is_uuid_v4 s \<longleftrightarrow> length s = 36
     \<and> list_all (\<lambda>i. if i \<in> {8, 13, 18, 23} then s ! i = CHR ''-'' else is_lower_hex (s ! i)) [0..<36]
     \<and> s ! 14 = CHR ''4'' \<and> s ! 19 \<in> {CHR ''8'', CHR ''9'', CHR ''a'', CHR ''b''}"

definition insert_suggestion_owner :: "'j codec \<Rightarrow> string \<Rightarrow> 'j \<Rightarrow> 'j db \<Rightarrow> store_error + 'j db" where
  "insert_suggestion_owner c owner time db =
     res_bind (insert_row (violation ''model_request_owners'') True owner
         \<lparr>col_owner_kind = ''profile_suggestion'', col_pipeline_run_id = None, col_owner_created_at = time\<rparr>
         (model_request_owners db)) (\<lambda>rows.
     Inr (db\<lparr>model_request_owners := rows\<rparr>))"

text \<open>
  \<open>profile_suggestion_requests_owner_kind\<close> is the trigger that requires an owner of that kind, from
  which the foreign key follows.
\<close>

definition insert_suggestion_request ::
  "'j codec \<Rightarrow> string \<Rightarrow> string \<Rightarrow> string \<Rightarrow> 'j \<Rightarrow> 'j db \<Rightarrow> store_error + 'j db" where
  "insert_suggestion_request c source_hash contract_version owner time db =
     res_bind (insert_row (violation ''profile_suggestion_requests'')
         ((case select_row (model_request_owners db) owner of
             Some o' \<Rightarrow> col_owner_kind o' = ''profile_suggestion'' | None \<Rightarrow> False)
          \<and> is_digest source_hash
          \<and> contract_version \<noteq> [] \<and> length contract_version \<le> 128 \<and> list_all valid_contract_byte contract_version
          \<and> is_uuid_v4 owner
          \<and> \<not> list_ex (\<lambda>(_, r). col_owner_id r = owner) (profile_suggestion_requests db))
         (source_hash, contract_version)
         \<lparr>col_owner_id = owner, col_suggestion_created_at = time\<rparr> (profile_suggestion_requests db)) (\<lambda>rows.
     Inr (db\<lparr>profile_suggestion_requests := rows\<rparr>))"

definition get_or_create_profile_suggestion_owner ::
  "'j codec \<Rightarrow> string \<Rightarrow> string \<Rightarrow> tick \<Rightarrow> 'j db \<Rightarrow> store_error + string \<times> 'j db" where
  "get_or_create_profile_suggestion_owner c source_hash contract_version t db =
     res_bind (validate_request_owner_key source_hash contract_version) (\<lambda>_.
     case select_row (profile_suggestion_requests db) (source_hash, contract_version) of
       Some row \<Rightarrow>
         (case select_row (model_request_owners db) (col_owner_id row) of
            Some o' \<Rightarrow> if col_owner_kind o' = ''profile_suggestion'' then Inr (col_owner_id row, db)
              else Inl (InvalidRequestOwner ''persisted profile suggestion owner kind is invalid'')
          | None \<Rightarrow> Inl (InvalidRequestOwner ''persisted profile suggestion owner kind is invalid''))
     | None \<Rightarrow>
         res_bind (insert_suggestion_owner c (fresh_uuid t) (to_rfc3339 c (now t)) db) (\<lambda>db1.
         res_bind (insert_suggestion_request c source_hash contract_version (fresh_uuid t)
             (to_rfc3339 c (now t)) db1) (\<lambda>db2.
         Inr (fresh_uuid t, db2))))"

end
