(* ===== verification/Store_Recovery.thy ===== *)
theory Store_Recovery
  imports Store_Handoff
begin

text \<open>
  \<open>pipeline/recovery.rs\<close>: after a restart every run that was inside a stage is failed, and every run
  that was being cancelled is cancelled, in one transaction. The children of an OCR handoff are left
  alone: they are rewound to their checkpoint when the handoff resumes.
\<close>

section \<open>The transaction\<close>

datatype interrupted_run_action = FailRun pipeline_failure | CompleteCancellation

record interrupted_run_transition =
  interrupted_run_id :: string
  interrupted_state :: pipeline_state
  interrupted_version :: u32
  interrupted_action :: interrupted_run_action

definition INTERRUPTION_FAILURE_CODE :: string where
  "INTERRUPTION_FAILURE_CODE = ''PROCESS_INTERRUPTED''"

definition reconcile_candidate ::
  "'j codec \<Rightarrow> interrupted_run_transition \<Rightarrow> tick \<Rightarrow> 'j db \<Rightarrow> store_error + pipeline_run \<times> 'j db" where
  "reconcile_candidate c k t db =
     (case interrupted_action k of
        FailRun failure \<Rightarrow>
          (case active_stage (interrupted_state k) of
             None \<Rightarrow> Inl (InvalidRecoveryTransition (interrupted_state k))
           | Some stage \<Rightarrow>
               res_bind (ensure (failure_code failure = INTERRUPTION_FAILURE_CODE
                   \<and> failure_stage failure = Some stage \<and> recoverable failure)
                 (InvalidRecoveryTransition (interrupted_state k))) (\<lambda>_.
               transition_in_tx c (interrupted_run_id k) (interrupted_state k) (interrupted_version k) Failed
                 (Some stage) (Some (failure_code failure)) (failure_patch failure) t db))
      | CompleteCancellation \<Rightarrow>
          res_bind (ensure (interrupted_state k = Cancelling)
            (InvalidRecoveryTransition (interrupted_state k))) (\<lambda>_.
          res_bind (require_run c db (interrupted_run_id k)) (\<lambda>persisted.
          res_bind (ensure (\<not> (run_state persisted = interrupted_state k
              \<and> state_version persisted = interrupted_version k \<and> \<not> cancellation_requested persisted))
            (InvalidRecoveryTransition (interrupted_state k))) (\<lambda>_.
          transition_in_tx c (interrupted_run_id k) Cancelling (interrupted_version k) Cancelled None
            (Some ''cancellation_completed_after_restart'') cancellation_patch t db))))"

definition reconcile_interrupted_runs_in_transaction ::
  "'j codec \<Rightarrow> interrupted_run_transition list \<Rightarrow> (nat \<Rightarrow> tick) \<Rightarrow> 'j db \<Rightarrow>
   store_error + pipeline_run list \<times> 'j db" where
  "reconcile_interrupted_runs_in_transaction c candidates ts db =
     res_fold (\<lambda>(recovered, db') k.
         res_bind (reconcile_candidate c k (ts (length recovered)) db') (\<lambda>(r, db'').
         Inr (recovered @ [r], db''))) ([], db) candidates"

section \<open>Choosing the runs\<close>

fun stage_label :: "pipeline_stage \<Rightarrow> string" where
  "stage_label Ingest = ''ingestion''"
| "stage_label Parse = ''parsing''"
| "stage_label Normalize = ''normalization''"
| "stage_label Structure = ''structural interpretation''"
| "stage_label Chunk = ''chunking''"
| "stage_label Analyze = ''analysis''"
| "stage_label Synthesize = ''synthesis''"
| "stage_label Verify = ''verification''"

definition interruption_failure :: "pipeline_stage \<Rightarrow> pipeline_failure" where
  "interruption_failure stage = \<lparr>failure_code = INTERRUPTION_FAILURE_CODE,
     failure_message = ''The application stopped while '' @ stage_label stage
       @ '' was in progress. Create a separate retry attempt to continue.'',
     failure_stage = Some stage, recoverable = True\<rparr>"

definition recovery_candidate :: "'j db \<Rightarrow> pipeline_run \<Rightarrow> interrupted_run_transition option" where
  "recovery_candidate db r =
     (let candidate = (\<lambda>action. \<lparr>interrupted_run_id = run_id r, interrupted_state = run_state r,
            interrupted_version = state_version r, interrupted_action = action\<rparr>) in
      if run_state r = Cancelling then Some (candidate CompleteCancellation)
      else case active_stage (run_state r) of
        None \<Rightarrow> None
      | Some stage \<Rightarrow>
          if is_admitted_ocr_child db (run_id r) then None
          else Some (candidate (FailRun (interruption_failure stage))))"

definition reconcile_interrupted_runs ::
  "'j codec \<Rightarrow> (nat \<Rightarrow> tick) \<Rightarrow> 'j db \<Rightarrow> store_error + pipeline_run list \<times> 'j db" where
  "reconcile_interrupted_runs c ts db =
     res_bind (list_pipeline_runs_for_recovery c db) (\<lambda>runs.
     reconcile_interrupted_runs_in_transaction c (List.map_filter (recovery_candidate db) runs) ts db)"

end
