(* ===== verification/Run_Log.thy ===== *)
theory Run_Log
  imports Store_Recovery
begin

text \<open>
  What the run and event tables hold: every run row decodes, and the events of a run are its history,
  numbered without gaps, from its creation to its present state. \<open>transition_in_tx\<close> is exactly one
  step of \<open>StateMachine::transition\<close> on that history.
\<close>

section \<open>The history of a run\<close>

definition run_at :: "'j codec \<Rightarrow> 'j db \<Rightarrow> pipeline_run \<Rightarrow> bool" where
  "run_at c db r \<longleftrightarrow> select_row (pipeline_runs db) (run_id r) = Some (run_row_of c r)"

definition event_entry :: "'j codec \<Rightarrow> pipeline_event \<Rightarrow> string \<times> 'j event_row" where
  "event_entry c e = (event_id e, event_row_of c e)"

definition log_at :: "'j codec \<Rightarrow> 'j db \<Rightarrow> string \<Rightarrow> pipeline_event list \<Rightarrow> bool" where
  "log_at c db run es \<longleftrightarrow> events_of run db = map (event_entry c) es"

definition follows :: "pipeline_event \<Rightarrow> pipeline_event \<Rightarrow> bool" where
  "follows e e' \<longleftrightarrow> previous_state e' = Some (next_state e) \<and> is_valid_transition (next_state e) (next_state e')"

definition log_ok :: "pipeline_run \<Rightarrow> pipeline_event list \<Rightarrow> bool" where
  "log_ok r es \<longleftrightarrow>
     es \<noteq> [] \<and> map (unat \<circ> sequence_no) es = [0..<length es] \<and> length es = unat (state_version r)
     \<and> previous_state (hd es) = None \<and> next_state (hd es) = Received
     \<and> successively follows es \<and> next_state (last es) = run_state r
     \<and> list_all (\<lambda>e. event_run_id e = run_id r) es"

text \<open>A cancelling run carries the flag, and a failed run its failure.\<close>

definition flags_ok :: "pipeline_run \<Rightarrow> bool" where
  "flags_ok r \<longleftrightarrow> (run_state r \<in> {Cancelling, Cancelled} \<longrightarrow> cancellation_requested r)
     \<and> (run_state r = Failed \<longrightarrow> run_failure r \<noteq> None)"

definition runs_ok :: "'j codec \<Rightarrow> 'j db \<Rightarrow> bool" where
  "runs_ok c db \<longleftrightarrow>
     keyed (pipeline_runs db) \<and> keyed (pipeline_events db)
     \<and> (\<forall>run. has_key run (pipeline_runs db) \<longrightarrow>
          (\<exists>r es. run_id r = run \<and> run_at c db r \<and> log_at c db run es \<and> log_ok r es \<and> flags_ok r))
     \<and> (\<forall>run. \<not> has_key run (pipeline_runs db) \<longrightarrow> events_of run db = [])"

section \<open>Reading rows\<close>

lemma read_run_row:
  assumes "codec_ok c"
  shows "read_run c (run_id r) (run_row_of c r) = Inr r"
  unfolding read_run_def run_row_of_def run_row.simps
  unfolding codec_reads [OF assms]
  unfolding res_bind.simps
  by (rule arg_cong [where f = Inr], rule pipeline_run.equality) simp_all

lemma run_row_inj:
  assumes "codec_ok c" "run_row_of c r = run_row_of c r'" "run_id r = run_id r'"
  shows "r = r'"
proof -
  have "Inr r = read_run c (run_id r) (run_row_of c r)" by (rule read_run_row [OF assms(1), symmetric])
  also have "\<dots> = Inr r'" unfolding assms(2,3) by (rule read_run_row [OF assms(1)])
  finally show ?thesis by simp
qed

lemma run_at_det:
  assumes "codec_ok c" "run_at c db r" "run_at c db r'" "run_id r = run_id r'"
  shows "r = r'"
  by (rule run_row_inj [OF assms(1)]) (use assms(2-4) in \<open>simp_all add: run_at_def\<close>)

lemma get_run_at:
  assumes "codec_ok c" "run_at c db r"
  shows "get_pipeline_run c db (run_id r) = Inr (Some r)" "require_run c db (run_id r) = Inr r"
  using assms read_run_row [OF assms(1)] by (simp_all add: get_pipeline_run_def require_run_def run_at_def)

lemma runs_okE:
  assumes "runs_ok c db" "has_key run (pipeline_runs db)"
  obtains r es where "run_id r = run" "run_at c db r" "log_at c db run es" "log_ok r es" "flags_ok r"
  using assms unfolding runs_ok_def by blast

lemma get_run_iff:
  assumes "codec_ok c" "runs_ok c db"
  shows "get_pipeline_run c db run = Inr (Some r) \<longleftrightarrow> run_id r = run \<and> run_at c db r"
    and "get_pipeline_run c db run = Inr None \<longleftrightarrow> \<not> has_key run (pipeline_runs db)"
    and "require_run c db run = Inr r \<longleftrightarrow> run_id r = run \<and> run_at c db r"
    and "require_run c db run = Inl e \<longleftrightarrow> \<not> has_key run (pipeline_runs db) \<and> e = RunNotFound run"
proof -
  have 1: "(get_pipeline_run c db run = Inr (Some r) \<longleftrightarrow> run_id r = run \<and> run_at c db r)
      \<and> (get_pipeline_run c db run = Inr None \<longleftrightarrow> \<not> has_key run (pipeline_runs db))
      \<and> (require_run c db run = Inr r \<longleftrightarrow> run_id r = run \<and> run_at c db r)
      \<and> (require_run c db run = Inl e \<longleftrightarrow> \<not> has_key run (pipeline_runs db) \<and> e = RunNotFound run)"
  proof (cases "has_key run (pipeline_runs db)")
    case True
    then obtain q where q: "run_id q = run" "run_at c db q" using runs_okE [OF assms(2)] by metis
    have "r = q" if "run_id r = run" "run_at c db r"
      using run_at_det [OF assms(1) that(2) q(2)] that(1) q(1) by simp
    then show ?thesis using get_run_at [OF assms(1) q(2)] q True by auto
  next
    case False
    then have "select_row (pipeline_runs db) run = None" by (simp add: has_key_iff)
    then show ?thesis using False by (auto simp: get_pipeline_run_def require_run_def run_at_def)
  qed
  then show "get_pipeline_run c db run = Inr (Some r) \<longleftrightarrow> run_id r = run \<and> run_at c db r"
    and "get_pipeline_run c db run = Inr None \<longleftrightarrow> \<not> has_key run (pipeline_runs db)"
    and "require_run c db run = Inr r \<longleftrightarrow> run_id r = run \<and> run_at c db r"
    and "require_run c db run = Inl e \<longleftrightarrow> \<not> has_key run (pipeline_runs db) \<and> e = RunNotFound run"
    by blast+
qed

lemma read_event_entry:
  assumes "codec_ok c"
  shows "read_event c (event_entry c e) = Inr e"
  unfolding read_event_def event_entry_def event_row_of_def event_row.simps case_prod_conv
  unfolding codec_reads [OF assms]
  unfolding res_bind.simps
  by (rule arg_cong [where f = Inr], rule pipeline_event.equality) simp_all

lemma read_events:
  assumes "codec_ok c"
  shows "res_collect (read_event c) (map (event_entry c) es) = Inr es"
  by (simp add: res_collect_Inr_iff list_all2_conv_all_nth read_event_entry [OF assms])

lemma log_at_det:
  assumes "codec_ok c" "log_at c db run es" "log_at c db run es'"
  shows "es = es'"
  using read_events [OF assms(1), of es] read_events [OF assms(1), of es'] assms(2,3)
  unfolding log_at_def by simp

lemma log_numbers:
  assumes "log_ok r es" "i < length es"
  shows "unat (sequence_no (es ! i)) = i"
proof -
  have "map (unat \<circ> sequence_no) es ! i = [0..<length es] ! i" using assms(1) by (simp add: log_ok_def)
  then show ?thesis using assms(2) by simp
qed

text \<open>The events come back in the order of their numbers, which is the order they were written in.\<close>

lemma list_events_log:
  assumes "codec_ok c" "log_at c db run es" "log_ok r es"
  shows "list_pipeline_events c db run = Inr es"
proof -
  let ?key = "\<lambda>(_, row). unat (col_sequence_no row)"
  have keys: "map ?key (map (event_entry c) es) = [0..<length es]"
    using assms(3) by (simp add: log_ok_def event_entry_def event_row_of_def comp_def)
  then have "sorted (map ?key (map (event_entry c) es))" by simp
  then have "sort_key ?key (map (event_entry c) es) = map (event_entry c) es"
    by (rule sort_key_id_if_sorted)
  then show ?thesis using assms(2) read_events [OF assms(1)]
    by (simp add: list_pipeline_events_def log_at_def)
qed

lemma next_sequence_log:
  assumes "log_at c db run es" "log_ok r es"
  shows "next_sequence db run = Inr (word_of_nat (length es))"
proof -
  have nums: "map (\<lambda>(_, row). unat (col_sequence_no row)) (events_of run db) = [0..<length es]"
    using assms by (simp add: log_at_def log_ok_def event_entry_def event_row_of_def comp_def)
  have "length es < 2 ^ 32" using assms(2) unsigned_less [of "state_version r"] by (simp add: log_ok_def)
  moreover have "(if [0..<length es] = [] then 0 else Max (set [0..<length es]) + 1) = length es"
  proof (cases "length es = 0")
    case False
    then have "Max {0..<length es} = length es - 1" by (intro Max_eqI) auto
    then show ?thesis using False by (simp del: upt_conv_Cons)
  qed simp
  ultimately show ?thesis
    by (simp add: next_sequence_def nums u32_try_from_in_range del: upt_conv_Nil)
qed

section \<open>One step\<close>

lemma apply_patch_frame [simp]:
  "run_id (apply_patch p r) = run_id r" "run_document_id (apply_patch p r) = run_document_id r"
  "run_state (apply_patch p r) = run_state r" "state_version (apply_patch p r) = state_version r"
  "pipeline_version (apply_patch p r) = pipeline_version r" "run_created_at (apply_patch p r) = run_created_at r"
  "started_at (apply_patch p r) = started_at r" "updated_at (apply_patch p r) = updated_at r"
  "completed_at (apply_patch p r) = completed_at r" "current_stage (apply_patch p r) = current_stage r"
  "progress (apply_patch p r) = progress r" "resumable (apply_patch p r) = resumable r"
  by (simp_all add: apply_patch_def Let_def split: option.splits)

lemma apply_patch_fields [simp]:
  "run_warnings (apply_patch p r) = (case patch_warnings p of Some ws \<Rightarrow> ws | None \<Rightarrow> run_warnings r)"
  "run_failure (apply_patch p r) = (case patch_failure p of Some f \<Rightarrow> Some f | None \<Rightarrow> run_failure r)"
  "cancellation_requested (apply_patch p r) =
     (case patch_cancellation_requested p of Some b \<Rightarrow> b | None \<Rightarrow> cancellation_requested r)"
  by (simp_all add: apply_patch_def Let_def split: option.splits)

lemma patch_sels [simp]:
  "patch_warnings no_patch = None" "patch_failure no_patch = None" "patch_cancellation_requested no_patch = None"
  "patch_warnings (warnings_patch ws) = Some ws" "patch_failure (warnings_patch ws) = None"
  "patch_cancellation_requested (warnings_patch ws) = None"
  "patch_warnings (failure_patch f) = None" "patch_failure (failure_patch f) = Some f"
  "patch_cancellation_requested (failure_patch f) = None"
  "patch_warnings cancellation_patch = None" "patch_failure cancellation_patch = None"
  "patch_cancellation_requested cancellation_patch = Some True"
  by (simp_all add: no_patch_def warnings_patch_def failure_patch_def cancellation_patch_def)

definition put_run :: "'j codec \<Rightarrow> pipeline_run \<Rightarrow> (string, 'j run_row) table \<Rightarrow> (string, 'j run_row) table" where
  "put_run c r t = map (\<lambda>(k, row). (k, if k = run_id r then run_row_of c r else row)) t"

definition stepped :: "'j codec \<Rightarrow> pipeline_run \<Rightarrow> pipeline_event \<Rightarrow> 'j db \<Rightarrow> 'j db" where
  "stepped c r e db = db\<lparr>pipeline_runs := put_run c r (pipeline_runs db),
     pipeline_events := pipeline_events db @ [event_entry c e]\<rparr>"

lemma select_put_run:
  "select_row (put_run c r t) k =
     (if k = run_id r then map_option (\<lambda>_. run_row_of c r) (select_row t k) else select_row t k)"
  by (induction t) (auto simp: put_run_def select_row_def)

lemma keyed_put_run [simp]: "keyed (put_run c r t) \<longleftrightarrow> keyed t"
  by (simp add: keyed_def put_run_def comp_def case_prod_beta)

lemma has_key_put_run [simp]: "has_key k (put_run c r t) \<longleftrightarrow> has_key k t"
  by (simp add: has_key_iff select_put_run)

lemma update_is_put:
  assumes "keyed t" "select_row t (run_id r) = Some (run_row_of c r)" "q (run_row_of c r)"
    and "run_id r2 = run_id r" "run_document_id r2 = run_document_id r" "run_created_at r2 = run_created_at r"
  shows "update_where (\<lambda>k row. k = run_id r \<and> q row) (set_run_columns (run_row_of c r2)) t
    = (1, put_run c r2 t)"
proof (rule prod_eqI)
  show "fst (update_where (\<lambda>k row. k = run_id r \<and> q row) (set_run_columns (run_row_of c r2)) t) = fst (1 :: nat, put_run c r2 t)"
    using assms(1-3) by (simp add: update_key_count)
  have row: "set_run_columns (run_row_of c r2) (run_row_of c r) = run_row_of c r2"
    using assms(5,6) by (simp add: set_run_columns_def run_row_of_def)
  have "(if k = run_id r \<and> q row then set_run_columns (run_row_of c r2) row else row)
      = (if k = run_id r2 then run_row_of c r2 else row)" if "(k, row) \<in> set t" for k row
    using that assms(1-4) row select_row_mem [OF assms(1), of k row] by auto
  then show "snd (update_where (\<lambda>k row. k = run_id r \<and> q row) (set_run_columns (run_row_of c r2)) t)
      = snd (1 :: nat, put_run c r2 t)"
    by (auto simp: update_where_def put_run_def)
qed

lemma transition_in_tx_eq:
  assumes "codec_ok c" "keyed (pipeline_runs db)" "run_at c db r" "log_at c db (run_id r) es" "log_ok r es"
  shows "transition_in_tx c (run_id r) s v n st rs p t db =
    (case transition r s n v (word_of_nat (length es)) st rs t of
       Inl e \<Rightarrow> Inl (Transition e)
     | Inr (ev, r1) \<Rightarrow>
         if has_key (event_id ev) (pipeline_events db) then Inl (violation ''pipeline_events'')
         else Inr (apply_patch p r1, stepped c (apply_patch p r1) ev db))"
proof (cases "transition r s n v (word_of_nat (length es)) st rs t")
  case (Inl e)
  then show ?thesis
    using get_run_at(2) [OF assms(1,3)] next_sequence_log [OF assms(4,5)] by (simp add: transition_in_tx_def)
next
  case (Inr er)
  obtain ev r1 where er: "er = (ev, r1)" by (cases er)
  let ?r2 = "apply_patch p r1"
  from Inr er have step: "transition r s n v (word_of_nat (length es)) st rs t = Inr (ev, r1)" by simp
  from transition_frame [OF step] have frame: "run_id ?r2 = run_id r" "run_document_id ?r2 = run_document_id r"
    "run_created_at ?r2 = run_created_at r" by simp_all
  have upd: "update_where (\<lambda>k row. k = run_id r \<and> (col_state row = to_json (state_json c) s \<and> col_state_version row = v))
      (set_run_columns (run_row_of c ?r2)) (pipeline_runs db) = (1, put_run c ?r2 (pipeline_runs db))"
    by (rule update_is_put)
      (use assms(2,3) step frame in \<open>simp_all add: run_at_def run_row_of_def transition_Inr_iff\<close>)
  have ev: "event_run_id ev = run_id r" "sequence_no ev = word_of_nat (length es)"
    using step by (auto simp: transition_Inr_iff)
  have known: "has_key (run_id r) (pipeline_runs db)" using assms(3) by (simp add: run_at_def has_key_iff)
  have fresh: "\<not> list_ex (\<lambda>(_, row). col_event_run_id row = event_run_id ev \<and> col_sequence_no row = sequence_no ev)
      (pipeline_events db)"
  proof
    assume "list_ex (\<lambda>(_, row). col_event_run_id row = event_run_id ev \<and> col_sequence_no row = sequence_no ev)
      (pipeline_events db)"
    then obtain k row where "(k, row) \<in> set (events_of (run_id r) db)"
      and num: "col_sequence_no row = word_of_nat (length es)"
      by (auto simp: list_ex_iff ev events_of_def)
    then obtain e where "e \<in> set es" "row = event_row_of c e"
      using assms(4) by (auto simp: log_at_def event_entry_def)
    then obtain i where i: "i < length es" "row = event_row_of c (es ! i)" by (auto simp: in_set_conv_nth)
    have "length es < 2 ^ 32" using assms(5) unsigned_less [of "state_version r"] by (simp add: log_ok_def)
    then have "unat (col_sequence_no row) = length es" using num by (simp add: unat_word_of_nat_u32)
    then show False using i log_numbers [OF assms(5) i(1)] by (simp add: event_row_of_def)
  qed
  show ?thesis
    using get_run_at(2) [OF assms(1,3)] next_sequence_log [OF assms(4,5)]
    by (simp add: transition_in_tx_def step upd insert_pipeline_event_def insert_row_def fresh known ev
        stepped_def event_entry_def Let_def fresh [unfolded ev])
qed

end
