(* ===== verification/Store_Effect.thy ===== *)
theory Store_Effect
  imports Run_Log
begin

text \<open>
  The four ways in which a transaction of the store can change runs, events and stage artifacts, and
  the invariant they keep: every run has a complete history, and the artifact of a checkpoint is
  stored exactly when the run has been at that checkpoint, belongs to the document of the run and
  reads back.
\<close>

section \<open>The shelves of a run\<close>

datatype shelf = ParsedShelf | ArtifactShelf artifact_table | SynthesisShelf | CitationShelf

datatype 'j entry = ParsedSlot "'j parsed_row" | ArtifactSlot "'j artifact_row" | CitationSlot "'j citation_row"

fun slot :: "'j db \<Rightarrow> shelf \<Rightarrow> string \<Rightarrow> 'j entry option" where
  "slot db ParsedShelf run = map_option ParsedSlot (select_row (parsed_documents db) run)"
| "slot db (ArtifactShelf tab) run = map_option ArtifactSlot (select_row (artifacts db tab) run)"
| "slot db SynthesisShelf run = map_option ArtifactSlot (select_row (summary_synthesis_attempts db) (run, 0))"
| "slot db CitationShelf run = map_option CitationSlot (select_row (citation_artifacts db) run)"

text \<open>The states in which a shelf is filled.\<close>

fun table_states :: "artifact_table \<Rightarrow> pipeline_state set" where
  "table_states NormalizedDocuments = {Normalized}"
| "table_states StructuredDocuments = {Structured}"
| "table_states ChunkedDocuments = {Chunked}"
| "table_states AnalyzedDocuments = {Analyzed}"
| "table_states SynthesizedDocuments = {Synthesized}"
| "table_states VerifiedDocuments = {Verified}"
| "table_states SummaryArtifacts = {Complete, CompleteWithWarnings}"

fun shelf_states :: "shelf \<Rightarrow> pipeline_state set" where
  "shelf_states ParsedShelf = {Parsed}"
| "shelf_states (ArtifactShelf tab) = table_states tab"
| "shelf_states SynthesisShelf = {Synthesized}"
| "shelf_states CitationShelf = {Complete, CompleteWithWarnings}"

definition shelves_of :: "pipeline_state \<Rightarrow> shelf set" where
  "shelves_of s = {sh. s \<in> shelf_states sh}"

definition row_stores ::
  "'j codec \<Rightarrow> ('a, 'j) coding \<Rightarrow> ('a \<Rightarrow> string) \<Rightarrow> ('a \<Rightarrow> string) \<Rightarrow> 'j artifact_row \<Rightarrow> string \<Rightarrow> 'a \<Rightarrow> bool" where
  "row_stores c k document version row d a \<longleftrightarrow>
     (\<exists>t. row = artifact_row_of c k (document a) (version a) a t) \<and> document a = d"

fun artifact_ok :: "'j codec \<Rightarrow> artifact_table \<Rightarrow> 'j artifact_row \<Rightarrow> string \<Rightarrow> bool" where
  "artifact_ok c NormalizedDocuments row d =
     (\<exists>a. row_stores c (normalized_json c) normalized_document_id normalization_version row d a)"
| "artifact_ok c StructuredDocuments row d =
     (\<exists>a. row_stores c (structured_json c) structured_document_id structure_version row d a)"
| "artifact_ok c ChunkedDocuments row d =
     (\<exists>a. row_stores c (chunked_json c) chunked_document_id chunking_version row d a)"
| "artifact_ok c AnalyzedDocuments row d =
     (\<exists>a. row_stores c (analyzed_json c) analyzed_document_id analysis_version row d a)"
| "artifact_ok c SynthesizedDocuments row d =
     (\<exists>a. row_stores c (synthesized_json c) synthesized_document_id synthesis_version row d a)"
| "artifact_ok c VerifiedDocuments row d =
     (\<exists>a. row_stores c (verified_json c) verified_document_id verification_version row d a)"
| "artifact_ok c SummaryArtifacts row d =
     (\<exists>a. row_stores c (summary_json c) summary_document_id summary_version row d a
        \<and> summary_integrity (canonical_hash c) a = integrity_hash a)"

definition citation_stores :: "'j codec \<Rightarrow> 'j citation_row \<Rightarrow> string \<Rightarrow> citation_artifact \<Rightarrow> bool" where
  "citation_stores c row d a \<longleftrightarrow>
     row = \<lparr>col_citation_document_id = citation_document_id a, col_citation_version = citation_version a,
       col_summary_integrity_hash = summary_integrity_hash a,
       col_citation_hash = sha_text c (to_json (citation_json c) a),
       col_citation_artifact = to_json (citation_json c) a,
       col_citation_created_at = to_rfc3339 c (citation_created_at a)\<rparr>
     \<and> citation_document_id a = d \<and> citation_integrity (canonical_hash c) a = citation_integrity_hash a"

fun slot_ok :: "'j codec \<Rightarrow> shelf \<Rightarrow> 'j entry \<Rightarrow> string \<Rightarrow> bool" where
  "slot_ok c ParsedShelf (ParsedSlot row) d = (\<exists>p. col_parsed_artifact row = to_json (parsed_json c) p)"
| "slot_ok c (ArtifactShelf tab) (ArtifactSlot row) d = artifact_ok c tab row d"
| "slot_ok c SynthesisShelf (ArtifactSlot row) d = artifact_ok c SynthesizedDocuments row d"
| "slot_ok c CitationShelf (CitationSlot row) d = (\<exists>a. citation_stores c row d a)"
| "slot_ok c _ _ d = False"

section \<open>The changes\<close>

text \<open>The shelves of \<open>S\<close> have been filled for a run, and nothing else of it or of other runs changed.\<close>

definition shelved :: "'j codec \<Rightarrow> 'j db \<Rightarrow> string \<Rightarrow> shelf set \<Rightarrow> string \<Rightarrow> 'j db \<Rightarrow> bool" where
  "shelved c db run S d db1 \<longleftrightarrow>
     pipeline_runs db1 = pipeline_runs db \<and> pipeline_events db1 = pipeline_events db
     \<and> documents db1 = documents db
     \<and> (\<forall>sh k. if k = run \<and> sh \<in> S
          then slot db sh k = None \<and> (\<exists>x. slot db1 sh k = Some x \<and> slot_ok c sh x d)
          else slot db1 sh k = slot db sh k)"

definition rewinds :: "pipeline_state \<Rightarrow> pipeline_state \<Rightarrow> bool" where
  "rewinds s n \<longleftrightarrow> (\<exists>st. rewind_target s = RewindTo n st)"

definition patch_fits :: "pipeline_state \<Rightarrow> pipeline_state \<Rightarrow> transition_patch \<Rightarrow> bool" where
  "patch_fits s n p \<longleftrightarrow>
     (n \<in> {Cancelling, Cancelled} \<longrightarrow> patch_cancellation_requested p = Some True)
     \<and> (n = Failed \<longrightarrow> patch_failure p \<noteq> None)
     \<and> (s = Cancelling \<longrightarrow> n = Cancelled)"

definition creation_event :: "pipeline_run \<Rightarrow> string \<Rightarrow> tick \<Rightarrow> pipeline_event" where
  "creation_event r reason t = \<lparr>event_id = fresh_uuid t, event_run_id = run_id r, sequence_no = 0,
     previous_state = None, next_state = Received, timestamp = run_created_at r, event_stage = None,
     work_unit_id = None, event_reason = Some reason\<rparr>"

inductive effect :: "'j codec \<Rightarrow> 'j db \<Rightarrow> 'j db \<Rightarrow> bool" for c where
  keep: "pipeline_runs db' = pipeline_runs db \<Longrightarrow> pipeline_events db' = pipeline_events db \<Longrightarrow>
    documents db' = documents db \<Longrightarrow> slot db' = slot db \<Longrightarrow> effect c db db'"
| document: "insert_document c d db = Inr db' \<Longrightarrow> effect c db db'"
| admit: "insert_pipeline_run c r db = Inr db1 \<Longrightarrow>
    insert_pipeline_event c (creation_event r reason t) db1 = Inr db2 \<Longrightarrow>
    run_state r = Received \<Longrightarrow> state_version r = 1 \<Longrightarrow> effect c db db2"
| advance: "require_run c db run = Inr r \<Longrightarrow> shelved c db run S (run_document_id r) db1 \<Longrightarrow>
    transition_in_tx c run s v n st rs p t db1 = Inr (r', db2) \<Longrightarrow>
    S = shelves_of n \<or> rewinds s n \<and> S = {} \<Longrightarrow> patch_fits s n p \<Longrightarrow> effect c db db2"

inductive_cases effectE: "effect c db db'"

section \<open>The invariant\<close>

definition docs_ok :: "'j codec \<Rightarrow> 'j db \<Rightarrow> bool" where
  "docs_ok c db \<longleftrightarrow> keyed (documents db)
     \<and> (\<forall>k row. select_row (documents db) k = Some row \<longrightarrow>
          (\<exists>d. document_id d = k \<and> row = document_row_of c d \<and> uint (byte_size d) < 2 ^ 63))
     \<and> (\<forall>r. run_at c db r \<longrightarrow> has_key (run_document_id r) (documents db))"

definition visited :: "pipeline_event list \<Rightarrow> pipeline_state set" where
  "visited es = next_state ` set es"

definition shelf_ok :: "'j codec \<Rightarrow> 'j db \<Rightarrow> pipeline_run \<Rightarrow> pipeline_event list \<Rightarrow> shelf \<Rightarrow> bool" where
  "shelf_ok c db r es sh \<longleftrightarrow>
     (case slot db sh (run_id r) of
        None \<Rightarrow> visited es \<inter> shelf_states sh = {}
      | Some x \<Rightarrow> visited es \<inter> shelf_states sh \<noteq> {} \<and> slot_ok c sh x (run_document_id r))"

definition shelves_ok :: "'j codec \<Rightarrow> 'j db \<Rightarrow> bool" where
  "shelves_ok c db \<longleftrightarrow>
     (\<forall>run sh. \<not> has_key run (pipeline_runs db) \<longrightarrow> slot db sh run = None)
     \<and> (\<forall>r es sh. run_at c db r \<longrightarrow> log_at c db (run_id r) es \<longrightarrow> shelf_ok c db r es sh)"

definition store_ok :: "'j codec \<Rightarrow> 'j db \<Rightarrow> bool" where
  "store_ok c db \<longleftrightarrow> runs_ok c db \<and> docs_ok c db \<and> shelves_ok c db"

lemma store_okD: "store_ok c db \<Longrightarrow> runs_ok c db" "store_ok c db \<Longrightarrow> docs_ok c db" "store_ok c db \<Longrightarrow> shelves_ok c db"
  by (simp_all add: store_ok_def)

lemma slot_empty: "slot empty_db sh run = None"
  by (cases sh) (simp_all add: empty_db_def)

lemma store_ok_empty: "store_ok c empty_db"
  by (simp add: store_ok_def runs_ok_def docs_ok_def shelves_ok_def slot_empty run_at_def events_of_def)
    (simp add: empty_db_def has_key_def)

end
