(* ===== verification/Store_Invariant.thy ===== *)
theory Store_Invariant
  imports Store_Effect
begin

text \<open>Every change keeps the invariant of the store.\<close>

section \<open>Histories\<close>

lemma successively_valid_trace:
  "successively follows es \<Longrightarrow> valid_trace (map next_state es)"
proof (induction es rule: induct_list012)
  case (3 e e' es)
  then show ?case by (simp add: follows_def)
qed simp_all

lemma log_trace:
  assumes "log_ok r es"
  shows "valid_trace (map next_state es)" "map next_state es \<noteq> []" "hd (map next_state es) = Received"
    "last (map next_state es) = run_state r"
  using assms by (simp_all add: log_ok_def successively_valid_trace hd_map last_map)

lemma visited_below:
  assumes "log_ok r es" "0 < rank n" "rank n < 17" "rank n \<le> rank (run_state r)"
  shows "n \<in> visited es"
proof -
  note trace = log_trace [OF assms(1)]
  have "\<exists>s \<in> set (map next_state es). rank s = rank n"
    by (rule valid_trace_climbs) (use trace assms(2,4) in simp_all)
  then obtain e where e: "e \<in> set es" "rank (next_state e) = rank n" by auto
  then have "next_state e = n" using rank_inj assms(2,3) by auto
  then show ?thesis using e(1) by (auto simp: visited_def)
qed

lemma rewinds_visited:
  assumes "log_ok r es" "rewinds (run_state r) n"
  shows "n \<in> visited es"
proof (rule visited_below [OF assms(1)])
  show "0 < rank n" "rank n < 17" "rank n \<le> rank (run_state r)"
    using assms(2) by (cases "run_state r"; simp add: rewinds_def)+
qed

lemma current_visited: "log_ok r es \<Longrightarrow> run_state r \<in> visited es"
  unfolding log_ok_def visited_def by (metis imageI last_in_set)

lemma log_ok_step:
  assumes "log_ok r es" "transition r s n v (word_of_nat (length es)) st rs t = Inr (ev, r1)"
  shows "log_ok (apply_patch p r1) (es @ [ev])"
proof -
  from assms(2) have step: "run_state r = s" "state_version r = v" "is_valid_transition s n"
      "unat v + 1 < 2 ^ 32" "previous_state ev = Some s" "next_state ev = n"
      "sequence_no ev = word_of_nat (length es)" "event_run_id ev = run_id r"
      "run_state r1 = n" "state_version r1 = v + 1" "run_id r1 = run_id r"
    by (auto simp: transition_Inr_iff)
  have len: "length es = unat v" using assms(1) step(2) by (simp add: log_ok_def)
  have num: "unat (word_of_nat (length es) :: u32) = length es"
    by (rule unat_word_of_nat_u32) (use step(4) len in simp)
  have ne: "es \<noteq> []" using assms(1) by (simp add: log_ok_def)
  have "successively follows (es @ [ev])"
    using assms(1) step(1,3,5,6) by (simp add: log_ok_def successively_append_iff follows_def)
  moreover have "map (unat \<circ> sequence_no) (es @ [ev]) = [0..<length (es @ [ev])]"
    using assms(1) step(7) num by (simp add: log_ok_def)
  moreover have "unat (v + 1) = Suc (length es)" using len unat_succ_version [OF step(4)] by simp
  moreover have "previous_state (hd (es @ [ev])) = None" "next_state (hd (es @ [ev])) = Received"
    "list_all (\<lambda>e. event_run_id e = run_id r) (es @ [ev])"
    using assms(1) ne step(8) by (simp_all add: log_ok_def)
  ultimately show ?thesis using step(6,9-11) by (simp add: log_ok_def)
qed

lemma flags_ok_step:
  assumes "flags_ok r" "transition r s n v q st rs t = Inr (ev, r1)" "patch_fits s n p"
  shows "flags_ok (apply_patch p r1)"
proof -
  from assms(2) have "run_state r1 = n" by (auto simp: transition_Inr_iff)
  then show ?thesis using assms(3) by (auto simp: flags_ok_def patch_fits_def split: option.splits)
qed

section \<open>Where a change shows\<close>

lemma run_at_key: "run_at c db r \<Longrightarrow> has_key (run_id r) (pipeline_runs db)"
  by (simp add: run_at_def has_key_iff)

lemma run_at_stepped:
  assumes "run_at c db q" "run_id q \<noteq> run_id r"
  shows "run_at c (stepped c r e db) q"
  using assms by (simp add: run_at_def stepped_def select_put_run)

lemma run_at_stepped_self:
  assumes "has_key (run_id r) (pipeline_runs db)"
  shows "run_at c (stepped c r e db) r"
  using assms by (auto simp: run_at_def stepped_def select_put_run has_key_iff)

lemma log_at_stepped:
  "log_at c db k es \<Longrightarrow> log_at c (stepped c r e db) k (if event_run_id e = k then es @ [e] else es)"
  by (simp add: log_at_def events_of_def stepped_def event_entry_def event_row_of_def)

lemma slot_stepped [simp]: "slot (stepped c r e db) sh k = slot db sh k"
  by (cases sh) (simp_all add: stepped_def)

lemma runs_ok_cong:
  assumes "pipeline_runs db' = pipeline_runs db" "pipeline_events db' = pipeline_events db"
  shows "run_at c db' = run_at c db" "log_at c db' = log_at c db" "events_of k db' = events_of k db"
    "runs_ok c db' = runs_ok c db"
  using assms by (auto simp: run_at_def log_at_def events_of_def runs_ok_def fun_eq_iff)

lemma shelvedD:
  assumes "shelved c db run S d db1"
  shows "pipeline_runs db1 = pipeline_runs db" "pipeline_events db1 = pipeline_events db"
    "documents db1 = documents db"
    "k \<noteq> run \<or> sh \<notin> S \<Longrightarrow> slot db1 sh k = slot db sh k"
    "sh \<in> S \<Longrightarrow> slot db sh run = None"
    "sh \<in> S \<Longrightarrow> \<exists>x. slot db1 sh run = Some x \<and> slot_ok c sh x d"
proof -
  have all: "if k = run \<and> sh \<in> S
      then slot db sh k = None \<and> (\<exists>x. slot db1 sh k = Some x \<and> slot_ok c sh x d)
      else slot db1 sh k = slot db sh k" for sh k
    using assms unfolding shelved_def by blast
  show "pipeline_runs db1 = pipeline_runs db" "pipeline_events db1 = pipeline_events db"
    "documents db1 = documents db" using assms unfolding shelved_def by blast+
  show "k \<noteq> run \<or> sh \<notin> S \<Longrightarrow> slot db1 sh k = slot db sh k" using all [of k sh] by (auto split: if_splits)
  show "sh \<in> S \<Longrightarrow> slot db sh run = None"
    "sh \<in> S \<Longrightarrow> \<exists>x. slot db1 sh run = Some x \<and> slot_ok c sh x d"
    using all [of run sh] by auto
qed

text \<open>A transition in a store whose run has a history is one step of that history.\<close>

lemma transition_in_txE:
  assumes "codec_ok c" "runs_ok c db" "transition_in_tx c run s v n st rs p t db = Inr (r', db')"
  obtains r es ev r1 where "run_id r = run" "run_at c db r" "log_at c db run es" "log_ok r es" "flags_ok r"
    "transition r s n v (word_of_nat (length es)) st rs t = Inr (ev, r1)"
    "\<not> has_key (event_id ev) (pipeline_events db)" "r' = apply_patch p r1" "db' = stepped c r' ev db"
proof -
  have "has_key run (pipeline_runs db)"
  proof (rule ccontr)
    assume "\<not> has_key run (pipeline_runs db)"
    then have "require_run c db run = Inl (RunNotFound run)" by (simp add: get_run_iff [OF assms(1,2)])
    then show False using assms(3) by (simp add: transition_in_tx_def)
  qed
  then obtain r es where r: "run_id r = run" "run_at c db r" "log_at c db run es" "log_ok r es" "flags_ok r"
    by (rule runs_okE [OF assms(2)])
  have "keyed (pipeline_runs db)" using assms(2) by (simp add: runs_ok_def)
  from transition_in_tx_eq [OF assms(1) this r(2) _ r(4), of s v n st rs p t] r(1,3) assms(3)
  obtain ev r1 where "transition r s n v (word_of_nat (length es)) st rs t = Inr (ev, r1)"
    "\<not> has_key (event_id ev) (pipeline_events db)" "r' = apply_patch p r1" "db' = stepped c r' ev db"
    by (auto split: sum.splits if_splits)
  with r show ?thesis by (rule that)
qed

section \<open>Preservation\<close>

lemma step_runs_ok:
  assumes "codec_ok c" "runs_ok c db" "transition_in_tx c run s v n st rs p t db = Inr (r', db')" "patch_fits s n p"
  shows "runs_ok c db'"
proof -
  from transition_in_txE [OF assms(1-3)] obtain r es ev r1
    where r: "run_id r = run" "run_at c db r" "log_at c db run es" "log_ok r es" "flags_ok r"
      and step: "transition r s n v (word_of_nat (length es)) st rs t = Inr (ev, r1)"
      and fresh: "\<not> has_key (event_id ev) (pipeline_events db)"
      and r': "r' = apply_patch p r1" and db': "db' = stepped c r' ev db" .
  have ids: "run_id r' = run" "event_run_id ev = run"
    using step r(1) by (auto simp: r' transition_Inr_iff)
  have known: "has_key k (pipeline_runs db') \<longleftrightarrow> has_key k (pipeline_runs db)" for k
    by (simp add: db' stepped_def)
  have "has_key run (pipeline_runs db)" using r(1,2) by (auto simp: run_at_def has_key_iff)
  have "\<exists>q ls. run_id q = k \<and> run_at c db' q \<and> log_at c db' k ls \<and> log_ok q ls \<and> flags_ok q"
    if k: "has_key k (pipeline_runs db')" for k
  proof (cases "k = run")
    case True
    have "run_at c db' r'" unfolding db'
      by (rule run_at_stepped_self) (use ids \<open>has_key run (pipeline_runs db)\<close> in simp)
    moreover have "log_at c db' run (es @ [ev])"
      using log_at_stepped [OF r(3), of r' ev] ids by (simp add: db')
    moreover have "log_ok r' (es @ [ev])" unfolding r' by (rule log_ok_step [OF r(4) step])
    moreover have "flags_ok r'" unfolding r' by (rule flags_ok_step [OF r(5) step assms(4)])
    ultimately show ?thesis using True ids(1) by blast
  next
    case False
    from k known have "has_key k (pipeline_runs db)" by simp
    then obtain q ls where q: "run_id q = k" "run_at c db q" "log_at c db k ls" "log_ok q ls" "flags_ok q"
      by (rule runs_okE [OF assms(2)])
    have "run_at c db' q" unfolding db' by (rule run_at_stepped) (use q False ids in simp_all)
    moreover have "log_at c db' k ls" using log_at_stepped [OF q(3), of r' ev] False ids by (simp add: db')
    ultimately show ?thesis using q by blast
  qed
  moreover have "events_of k db' = []" if "\<not> has_key k (pipeline_runs db')" for k
  proof -
    have "k \<noteq> run" using that known \<open>has_key run (pipeline_runs db)\<close> by blast
    then show ?thesis using that known assms(2) ids(2)
      by (auto simp: runs_ok_def db' stepped_def events_of_def event_entry_def event_row_of_def)
  qed
  moreover have "keyed (pipeline_runs db')" "keyed (pipeline_events db')"
    using assms(2) fresh by (simp_all add: runs_ok_def db' stepped_def event_entry_def keyed_snoc has_key_iff)
  ultimately show ?thesis unfolding runs_ok_def by blast
qed

lemma advance_shelves_ok:
  assumes "codec_ok c" "store_ok c db" "require_run c db run = Inr r0"
    and "shelved c db run S (run_document_id r0) db1"
    and "transition_in_tx c run s v n st rs p t db1 = Inr (r', db2)"
    and "S = shelves_of n \<or> rewinds s n \<and> S = {}" "patch_fits s n p"
  shows "store_ok c db2"
proof -
  note ok = store_okD [OF assms(2)]
  note sh = shelvedD [OF assms(4)]
  note cong = runs_ok_cong [OF sh(1,2)]
  have runs1: "runs_ok c db1" using ok(1) cong(4) by simp
  from transition_in_txE [OF assms(1) runs1 assms(5)] obtain r es ev r1
    where r: "run_id r = run" "run_at c db1 r" "log_at c db1 run es" "log_ok r es" "flags_ok r"
      and step: "transition r s n v (word_of_nat (length es)) st rs t = Inr (ev, r1)"
      and r': "r' = apply_patch p r1" and db2: "db2 = stepped c r' ev db1" .
  have rdb: "run_at c db r" "log_at c db run es" using r(2,3) cong(1,2) by simp_all
  have "r0 = r" using assms(3) get_run_at(2) [OF assms(1) rdb(1)] r(1) by simp
  have ids: "run_id r' = run" "run_document_id r' = run_document_id r" "event_run_id ev = run" "next_state ev = n"
    "run_state r = s"
    using step r(1) by (auto simp: r' transition_Inr_iff)
  have known: "has_key k (pipeline_runs db2) \<longleftrightarrow> has_key k (pipeline_runs db)" for k
    using sh(1) by (simp add: db2 stepped_def)
  have runs2: "runs_ok c db2" by (rule step_runs_ok [OF assms(1) runs1 assms(5,7)])
  have at2: "run_at c db2 r'" unfolding db2
    by (rule run_at_stepped_self) (use ids(1) rdb(1) r(1) sh(1) in \<open>auto simp: run_at_def has_key_iff\<close>)
  have log2: "log_at c db2 run (es @ [ev])" using log_at_stepped [OF r(3), of r' ev] ids by (simp add: db2)
  have vis: "visited (es @ [ev]) = insert n (visited es)" using ids(4) by (simp add: visited_def)
  have old: "shelf_ok c db r es x" for x using ok(3) rdb r(1) by (simp add: shelves_ok_def)
  have new: "shelf_ok c db2 r' (es @ [ev]) x" for x
  proof (cases "x \<in> S")
    case True
    then obtain y where y: "slot db1 x run = Some y" "slot_ok c x y (run_document_id r0)"
      using sh(6) by blast
    have "n \<in> shelf_states x" using True assms(6) by (auto simp: shelves_of_def)
    then show ?thesis using y ids \<open>r0 = r\<close> by (auto simp: shelf_ok_def db2 vis)
  next
    case False
    have same: "slot db2 x run = slot db x run" using sh(4) False by (simp add: db2)
    have "visited (es @ [ev]) \<inter> shelf_states x = visited es \<inter> shelf_states x"
    proof (cases "S = shelves_of n")
      case True
      then have "n \<notin> shelf_states x" using False by (simp add: shelves_of_def)
      then show ?thesis by (simp add: vis)
    next
      case False
      then have "rewinds (run_state r) n" using assms(6) ids(5) by blast
      from rewinds_visited [OF r(4) this] show ?thesis by (auto simp: vis)
    qed
    then show ?thesis using old [of x] ids r(1) by (simp add: shelf_ok_def same split: option.splits)
  qed
  have "shelf_ok c db2 q ls x" if q: "run_at c db2 q" "log_at c db2 (run_id q) ls" for q ls x
  proof (cases "run_id q = run")
    case True
    have "q = r'" by (rule run_at_det [OF assms(1) q(1) at2]) (use True ids in simp)
    moreover have "ls = es @ [ev]" by (rule log_at_det [OF assms(1) _ log2]) (use q True in simp)
    ultimately show ?thesis using new by simp
  next
    case False
    have key: "has_key (run_id q) (pipeline_runs db)" using run_at_key [OF q(1)] known by simp
    then obtain q' ls' where q': "run_id q' = run_id q" "run_at c db q'" "log_at c db (run_id q) ls'"
      by (rule runs_okE [OF ok(1)])
    have "run_at c db2 q'" unfolding db2 by (rule run_at_stepped) (use q' cong(1) False ids in simp_all)
    then have "q = q'" using run_at_det [OF assms(1) q(1)] q'(1) by simp
    have "log_at c db1 (run_id q) ls'" using q'(3) cong(2) by simp
    from log_at_stepped [OF this, of r' ev] have "log_at c db2 (run_id q) ls'" using False ids by (simp add: db2)
    then have "ls = ls'" by (rule log_at_det [OF assms(1) q(2)])
    have "shelf_ok c db q ls x" using ok(3) q' \<open>q = q'\<close> \<open>ls = ls'\<close> by (simp add: shelves_ok_def)
    moreover have "slot db2 x (run_id q) = slot db x (run_id q)" using sh(4) False by (simp add: db2)
    ultimately show ?thesis by (simp add: shelf_ok_def)
  qed
  moreover have "slot db2 x k = None" if "\<not> has_key k (pipeline_runs db2)" for k x
  proof -
    have "k \<noteq> run" using that run_at_key [OF rdb(1)] r(1) known by auto
    then have "slot db2 x k = slot db x k" using sh(4) by (simp add: db2)
    then show ?thesis using that ok(3) by (simp add: shelves_ok_def known)
  qed
  moreover have "docs_ok c db2"
  proof -
    have docs: "documents db2 = documents db" using sh(3) by (simp add: db2 stepped_def)
    have "has_key (run_document_id q) (documents db)" if q: "run_at c db2 q" for q
    proof (cases "run_id q = run")
      case True
      have "q = r'" by (rule run_at_det [OF assms(1) q at2]) (use True ids in simp)
      then show ?thesis using ids(2) rdb(1) ok(2) by (simp add: docs_ok_def)
    next
      case False
      then have "run_at c db q"
        using q sh(1) ids(1) by (simp add: run_at_def db2 stepped_def select_put_run)
      then show ?thesis using ok(2) by (simp add: docs_ok_def)
    qed
    then show ?thesis using ok(2) unfolding docs_ok_def docs by blast
  qed
  ultimately show ?thesis using runs2 unfolding store_ok_def shelves_ok_def by blast
qed

lemma keep_store_ok:
  assumes "pipeline_runs db' = pipeline_runs db" "pipeline_events db' = pipeline_events db"
    and "documents db' = documents db" "slot db' = slot db" "store_ok c db"
  shows "store_ok c db'"
  using assms(3-5) runs_ok_cong [OF assms(1,2)] assms(1)
  by (simp add: store_ok_def docs_ok_def shelves_ok_def shelf_ok_def)

lemma document_store_ok:
  assumes "insert_document c d db = Inr db'" "store_ok c db"
  shows "store_ok c db'"
proof -
  from assms(1) have d: "uint (byte_size d) < 2 ^ 63" "select_row (documents db) (document_id d) = None"
      and db': "db' = db\<lparr>documents := documents db @ [(document_id d, document_row_of c d)]\<rparr>"
    by (auto simp: insert_document_def Let_def res_simps)
  have same: "pipeline_runs db' = pipeline_runs db" "pipeline_events db' = pipeline_events db"
    by (simp_all add: db')
  note cong = runs_ok_cong [OF same]
  have slots: "slot db' = slot db"
  proof (intro ext)
    fix sh k
    show "slot db' sh k = slot db sh k" by (cases sh) (simp_all add: db')
  qed
  have "docs_ok c db'"
    using assms(2) d cong unfolding store_ok_def docs_ok_def
    by (auto simp: db' keyed_snoc has_key_iff split: option.splits if_splits)
  then show ?thesis
    using assms(2) cong slots same by (simp add: store_ok_def shelves_ok_def shelf_ok_def)
qed

lemma admit_effect:
  assumes "insert_pipeline_run c r db = Inr db1" "insert_pipeline_event c (creation_event r reason t) db1 = Inr db2"
  shows "select_row (pipeline_runs db) (run_id r) = None" "has_key (run_document_id r) (documents db)"
    "select_row (pipeline_events db) (fresh_uuid t) = None"
    "pipeline_runs db2 = pipeline_runs db @ [(run_id r, run_row_of c r)]"
    "pipeline_events db2 = pipeline_events db @ [event_entry c (creation_event r reason t)]"
    "documents db2 = documents db" "slot db2 = slot db"
proof -
  from assms obtain owners where
      db2: "db2 = db\<lparr>pipeline_runs := pipeline_runs db @ [(run_id r, run_row_of c r)],
        model_request_owners := owners,
        pipeline_events := pipeline_events db @ [event_entry c (creation_event r reason t)]\<rparr>"
    and "select_row (pipeline_runs db) (run_id r) = None" "has_key (run_document_id r) (documents db)"
      "select_row (pipeline_events db) (fresh_uuid t) = None"
    by (auto simp: insert_pipeline_run_def insert_pipeline_event_def Let_def res_simps creation_event_def
        event_entry_def)
  then show "select_row (pipeline_runs db) (run_id r) = None" "has_key (run_document_id r) (documents db)"
    "select_row (pipeline_events db) (fresh_uuid t) = None"
    "pipeline_runs db2 = pipeline_runs db @ [(run_id r, run_row_of c r)]"
    "pipeline_events db2 = pipeline_events db @ [event_entry c (creation_event r reason t)]"
    "documents db2 = documents db" by simp_all
  show "slot db2 = slot db"
  proof (intro ext)
    fix sh k
    show "slot db2 sh k = slot db sh k" by (cases sh) (simp_all add: db2)
  qed
qed

lemma admit_store_ok:
  assumes "codec_ok c" "store_ok c db" "insert_pipeline_run c r db = Inr db1"
    and "insert_pipeline_event c (creation_event r reason t) db1 = Inr db2"
    and "run_state r = Received" "state_version r = 1"
  shows "store_ok c db2"
proof -
  note ok = store_okD [OF assms(2)]
  let ?e = "creation_event r reason t"
  note eff = admit_effect [OF assms(3,4)]
  have new: "\<not> has_key (run_id r) (pipeline_runs db)" using eff(1) by (simp add: has_key_iff)
  have none: "events_of (run_id r) db = []" using ok(1) new by (simp add: runs_ok_def)
  have key: "has_key k (pipeline_runs db2) \<longleftrightarrow> k = run_id r \<or> has_key k (pipeline_runs db)" for k
    by (simp add: eff(4) has_key_iff split: option.splits)
  have ev: "events_of k db2 = events_of k db @ (if k = run_id r then [event_entry c ?e] else [])" for k
    by (simp add: events_of_def eff(5) event_entry_def event_row_of_def creation_event_def)
  have at: "run_at c db2 q \<longleftrightarrow> run_at c db q \<or> (run_id q = run_id r \<and> run_row_of c q = run_row_of c r)" for q
    using eff(1) by (auto simp: run_at_def eff(4) split: option.splits)
  have at2: "run_at c db2 r" by (simp add: at)
  have log2: "log_at c db2 (run_id r) [?e]" by (simp add: log_at_def ev none)
  have old: "log_at c db2 k es = log_at c db k es" if "k \<noteq> run_id r" for k es
    using that by (simp add: log_at_def ev)
  have keyed2: "keyed (pipeline_runs db2)" "keyed (pipeline_events db2)"
    using ok(1) eff(1,3) by (simp_all add: runs_ok_def eff(4,5) keyed_snoc event_entry_def creation_event_def)
  have first: "log_ok r [?e]" "flags_ok r"
    using assms(5,6) by (simp_all add: log_ok_def creation_event_def flags_ok_def)
  have "\<exists>q ls. run_id q = k \<and> run_at c db2 q \<and> log_at c db2 k ls \<and> log_ok q ls \<and> flags_ok q"
    if k: "has_key k (pipeline_runs db2)" for k
  proof (cases "k = run_id r")
    case True
    then show ?thesis using at2 log2 first by blast
  next
    case False
    then have "has_key k (pipeline_runs db)" using k key by simp
    then obtain q ls where "run_id q = k" "run_at c db q" "log_at c db k ls" "log_ok q ls" "flags_ok q"
      by (rule runs_okE [OF ok(1)])
    then show ?thesis using at old False by blast
  qed
  moreover have "events_of k db2 = []" if "\<not> has_key k (pipeline_runs db2)" for k
    using that ok(1) by (simp add: key ev runs_ok_def)
  ultimately have runs2: "runs_ok c db2" using keyed2 unfolding runs_ok_def by blast
  have same: "q = r" if "run_at c db2 q" "run_id q = run_id r" for q
    by (rule run_at_det [OF assms(1) that(1) at2 that(2)])
  have older: "run_at c db q" if "run_at c db2 q" "run_id q \<noteq> run_id r" for q
    using that at by blast
  have "docs_ok c db2"
    unfolding docs_ok_def eff(6)
  proof (intro conjI allI impI)
    fix q assume "run_at c db2 q"
    then show "has_key (run_document_id q) (documents db)"
      using same older eff(2) ok(2) unfolding docs_ok_def by (cases "run_id q = run_id r") auto
  qed (use ok(2) in \<open>auto simp: docs_ok_def\<close>)
  moreover have "shelf_ok c db2 q ls sh" if q: "run_at c db2 q" "log_at c db2 (run_id q) ls" for q ls sh
  proof (cases "run_id q = run_id r")
    case True
    have "q = r" by (rule same [OF q(1) True])
    then have "ls = [?e]" using log_at_det [OF assms(1) q(2)] log2 by simp
    have "slot db2 sh (run_id r) = None" using ok(3) new by (simp add: shelves_ok_def eff(7))
    moreover have "Received \<notin> shelf_states sh"
    proof (cases sh)
      case (ArtifactShelf tab)
      then show ?thesis by (cases tab) simp_all
    qed simp_all
    ultimately show ?thesis
      using \<open>q = r\<close> \<open>ls = [?e]\<close> by (simp add: shelf_ok_def visited_def creation_event_def)
  next
    case False
    then have "shelf_ok c db q ls sh" using ok(3) older [OF q(1)] q(2) old by (simp add: shelves_ok_def)
    then show ?thesis by (simp add: shelf_ok_def eff(7))
  qed
  moreover have "slot db2 sh k = None" if "\<not> has_key k (pipeline_runs db2)" for k sh
    using that ok(3) by (simp add: shelves_ok_def key eff(7))
  ultimately show ?thesis using runs2 unfolding store_ok_def shelves_ok_def by blast
qed

lemma effect_store_ok:
  assumes "codec_ok c" "effect c db db'" "store_ok c db"
  shows "store_ok c db'"
  using assms(2)
proof cases
  case keep
  then show ?thesis using keep_store_ok assms(3) by blast
next
  case (document d)
  then show ?thesis using document_store_ok assms(3) by blast
next
  case (admit r db1 reason t)
  then show ?thesis using admit_store_ok assms(1,3) by blast
next
  case (advance run r S db1 s v n st rs p t r')
  then show ?thesis using advance_shelves_ok [OF assms(1,3)] by blast
qed

lemma effects_store_ok:
  assumes "codec_ok c" "(effect c)\<^sup>*\<^sup>* db db'" "store_ok c db"
  shows "store_ok c db'"
  using assms(2,3) by (induction rule: rtranclp_induct) (auto intro: effect_store_ok [OF assms(1)])

end
