(* ===== verification/Store_Steps.thy ===== *)
theory Store_Steps
  imports Store_Invariant
begin

text \<open>
  Every operation of the store, whatever its arguments, is a sequence of the changes of
  \<open>Store_Effect\<close>. \<open>store_step\<close> lists the operations; a reachable database is one they build from the
  empty one.
\<close>

section \<open>Filling shelves\<close>

lemma slot_other_tables [simp]:
  "slot (db\<lparr>documents := t0\<rparr>) = slot db"
  "slot (db\<lparr>pipeline_runs := t7\<rparr>) = slot db"
  "slot (db\<lparr>pipeline_run_retries := t1\<rparr>) = slot db"
  "slot (db\<lparr>pipeline_run_model_profiles := t2\<rparr>) = slot db"
  "slot (db\<lparr>pipeline_run_summary_profiles := t3\<rparr>) = slot db"
  "slot (db\<lparr>model_request_owners := t4\<rparr>) = slot db"
  "slot (db\<lparr>profile_suggestion_requests := t5\<rparr>) = slot db"
  "slot (db\<lparr>summary_verification_attempts := t6\<rparr>) = slot db"
  "slot (db\<lparr>ocr_handoffs := t8\<rparr>) = slot db"
  "slot (db\<lparr>ocr_lineage := t9\<rparr>) = slot db"
  by (rule ext, rule ext, rename_tac sh k, case_tac sh, simp_all)+

lemma table_all: "(\<forall>tab. P tab) \<longleftrightarrow>
    P NormalizedDocuments \<and> P StructuredDocuments \<and> P ChunkedDocuments \<and> P AnalyzedDocuments
    \<and> P SynthesizedDocuments \<and> P VerifiedDocuments \<and> P SummaryArtifacts"
  by (metis artifact_table.exhaust)

lemma shelf_all: "(\<forall>sh. P sh) \<longleftrightarrow>
    P ParsedShelf \<and> (\<forall>tab. P (ArtifactShelf tab)) \<and> P SynthesisShelf \<and> P CitationShelf"
  by (metis shelf.exhaust)

lemma shelves_of_simps [simp]:
  "shelves_of Parsed = {ParsedShelf}"
  "shelves_of Normalized = {ArtifactShelf NormalizedDocuments}"
  "shelves_of Structured = {ArtifactShelf StructuredDocuments}"
  "shelves_of Chunked = {ArtifactShelf ChunkedDocuments}"
  "shelves_of Analyzed = {ArtifactShelf AnalyzedDocuments}"
  "shelves_of Synthesized = {ArtifactShelf SynthesizedDocuments, SynthesisShelf}"
  "shelves_of Verified = {ArtifactShelf VerifiedDocuments}"
  "shelves_of Complete = {ArtifactShelf SummaryArtifacts, CitationShelf}"
  "shelves_of CompleteWithWarnings = {ArtifactShelf SummaryArtifacts, CitationShelf}"
  "shelves_of Received = {}" "shelves_of Ingesting = {}" "shelves_of Ingested = {}" "shelves_of Parsing = {}"
  "shelves_of Normalizing = {}" "shelves_of Structuring = {}" "shelves_of Chunking = {}"
  "shelves_of Analyzing = {}" "shelves_of Synthesizing = {}" "shelves_of Verifying = {}"
  "shelves_of Failed = {}" "shelves_of Cancelling = {}" "shelves_of Cancelled = {}"
  by (simp_all only: shelves_of_def set_eq_iff shelf_all table_all mem_Collect_eq) simp_all

lemma patch_fits_simps [simp]:
  "s \<noteq> Cancelling \<Longrightarrow> n \<notin> {Cancelling, Cancelled, Failed} \<Longrightarrow> patch_fits s n p"
  "s \<noteq> Cancelling \<Longrightarrow> patch_fits s Failed (failure_patch f)"
  "s \<noteq> Cancelling \<Longrightarrow> patch_fits s Cancelling cancellation_patch"
  "patch_fits s Cancelled cancellation_patch"
  by (simp_all add: patch_fits_def)

lemma not_cancelling [simp]:
  "can_request_cancellation s \<Longrightarrow> s \<noteq> Cancelling" "active_stage s = Some stage \<Longrightarrow> s \<noteq> Cancelling"
  "rewind_target s = RewindTo n stage \<Longrightarrow> s \<noteq> Cancelling"
  by (auto simp: can_request_cancellation_def)

lemma shelved_refl: "shelved c db run {} d db"
  by (simp add: shelved_def)

lemma shelved_trans:
  assumes "shelved c db run S d db1" "shelved c db1 run T d db2"
  shows "shelved c db run (S \<union> T) d db2"
  unfolding shelved_def
proof (intro conjI allI)
  note one = shelvedD [OF assms(1)] and two = shelvedD [OF assms(2)]
  show "pipeline_runs db2 = pipeline_runs db" "pipeline_events db2 = pipeline_events db"
    "documents db2 = documents db"
    using one(1-3) two(1-3) by simp_all
  fix sh k
  consider "k = run" "sh \<in> S" "sh \<notin> T" | "k = run" "sh \<in> T" "sh \<notin> S" | "k = run" "sh \<in> S" "sh \<in> T" | "k \<noteq> run \<or> sh \<notin> S \<union> T"
    by blast
  then show "if k = run \<and> sh \<in> S \<union> T
      then slot db sh k = None \<and> (\<exists>x. slot db2 sh k = Some x \<and> slot_ok c sh x d)
      else slot db2 sh k = slot db sh k"
  proof cases
    case 1
    then show ?thesis using one(5,6) two(4) [of k sh] by auto
  next
    case 2
    then show ?thesis using one(4) [of k sh] two(5,6) by auto
  next
    case 3
    then show ?thesis using one(6) [of sh] two(5) [of sh] by auto
  next
    case 4
    then show ?thesis using one(4) [of k sh] two(4) [of k sh] by auto
  qed
qed

lemma shelved_single:
  assumes "pipeline_runs db1 = pipeline_runs db" "pipeline_events db1 = pipeline_events db"
    and "documents db1 = documents db" "slot db sh run = None" "slot_ok c sh x d"
    and "\<And>sh' k. slot db1 sh' k = (if sh' = sh \<and> k = run then Some x else slot db sh' k)"
  shows "shelved c db run {sh} d db1"
  using assms(1-5) unfolding shelved_def assms(6) by simp

lemma slot_inserts:
  "select_row (parsed_documents db) run = None \<Longrightarrow>
     slot (db\<lparr>parsed_documents := parsed_documents db @ [(run, row1)]\<rparr>) sh k =
       (if sh = ParsedShelf \<and> k = run then Some (ParsedSlot row1) else slot db sh k)"
  "select_row (artifacts db tab) run = None \<Longrightarrow>
     slot (db\<lparr>artifacts := (artifacts db)(tab := artifacts db tab @ [(run, row2)])\<rparr>) sh k =
       (if sh = ArtifactShelf tab \<and> k = run then Some (ArtifactSlot row2) else slot db sh k)"
  "select_row (summary_synthesis_attempts db) (run, 0) = None \<Longrightarrow>
     slot (db\<lparr>summary_synthesis_attempts := summary_synthesis_attempts db @ [((run, 0), row2)]\<rparr>) sh k =
       (if sh = SynthesisShelf \<and> k = run then Some (ArtifactSlot row2) else slot db sh k)"
  "select_row (citation_artifacts db) run = None \<Longrightarrow>
     slot (db\<lparr>citation_artifacts := citation_artifacts db @ [(run, row3)]\<rparr>) sh k =
       (if sh = CitationShelf \<and> k = run then Some (CitationSlot row3) else slot db sh k)"
  by (cases sh; auto split: option.splits)+

lemma insert_parsed_shelved:
  assumes "insert_parsed_document c run p t db = Inr db1"
  shows "shelved c db run {ParsedShelf} d db1"
proof -
  define row where "row = \<lparr>col_parsed_document_id = parsed_document_id p, col_parser_id = parser_id p,
      col_parser_version = parser_version p, col_parsed_artifact = to_json (parsed_json c) p,
      col_parsed_created_at = to_rfc3339 c (now t)\<rparr>"
  from assms have none: "select_row (parsed_documents db) run = None"
    and db1: "db1 = db\<lparr>parsed_documents := parsed_documents db @ [(run, row)]\<rparr>"
    by (auto simp: insert_parsed_document_def res_simps row_def)
  show ?thesis
    by (rule shelved_single [where x = "ParsedSlot row"])
      (use none in \<open>simp_all add: db1 slot_inserts\<close>, auto simp: row_def)
qed

lemma insert_artifact_shelved:
  assumes "insert_artifact_row tab run row db = Inr db1" "artifact_ok c tab row d"
  shows "shelved c db run {ArtifactShelf tab} d db1"
proof -
  from assms(1) have none: "select_row (artifacts db tab) run = None"
    and db1: "db1 = db\<lparr>artifacts := (artifacts db)(tab := artifacts db tab @ [(run, row)])\<rparr>"
    by (auto simp: insert_artifact_row_def res_simps)
  show ?thesis
    by (rule shelved_single [where x = "ArtifactSlot row"])
      (use none assms(2) in \<open>simp_all add: db1 slot_inserts\<close>)
qed

lemma row_stores_own: "document a = d \<Longrightarrow>
    row_stores c k document version (artifact_row_of c k (document a) (version a) a t) d a"
  by (auto simp: row_stores_def)

lemma insert_synthesis_attempt_shelved:
  assumes "insert_synthesis_attempt c run 0 a t db = Inr db1" "synthesized_document_id a = d"
  shows "shelved c db run {SynthesisShelf} d db1"
proof -
  define row where "row = artifact_row_of c (synthesized_json c) (synthesized_document_id a) (synthesis_version a) a t"
  from assms(1) have none: "select_row (summary_synthesis_attempts db) (run, 0) = None"
    and db1: "db1 = db\<lparr>summary_synthesis_attempts := summary_synthesis_attempts db @ [((run, 0), row)]\<rparr>"
    by (auto simp: insert_synthesis_attempt_def res_simps row_def)
  have "artifact_ok c SynthesizedDocuments row d"
    unfolding artifact_ok.simps row_def by (rule exI, rule row_stores_own, rule assms(2))
  then show ?thesis
    by (intro shelved_single [where x = "ArtifactSlot row"]) (use none in \<open>simp_all add: db1 slot_inserts\<close>)
qed

lemma insert_citation_shelved:
  assumes "insert_citation_artifact c run a db = Inr db1" "citation_document_id a = d"
  shows "shelved c db run {CitationShelf} d db1"
proof -
  from assms(1) obtain row where row: "citation_stores c row d a"
    and none: "select_row (citation_artifacts db) run = None"
    and db1: "db1 = db\<lparr>citation_artifacts := citation_artifacts db @ [(run, row)]\<rparr>"
    using assms(2) by (auto simp: insert_citation_artifact_def res_simps citation_stores_def split: if_splits)
  have "slot_ok c CitationShelf (CitationSlot row) d" unfolding slot_ok.simps using row by blast
  then show ?thesis
    by (intro shelved_single [where x = "CitationSlot row"]) (use none in \<open>simp_all add: db1 slot_inserts\<close>)
qed

lemma insert_stage_shelved:
  "insert_normalized_document c run n t db = Inr db1 \<Longrightarrow>
     shelved c db run {ArtifactShelf NormalizedDocuments} (normalized_document_id n) db1"
  "insert_structured_document c run s t db = Inr db1 \<Longrightarrow>
     shelved c db run {ArtifactShelf StructuredDocuments} (structured_document_id s) db1"
  "insert_chunked_document c run k t db = Inr db1 \<Longrightarrow>
     shelved c db run {ArtifactShelf ChunkedDocuments} (chunked_document_id k) db1"
  "insert_analyzed_document c run a t db = Inr db1 \<Longrightarrow>
     shelved c db run {ArtifactShelf AnalyzedDocuments} (analyzed_document_id a) db1"
  "insert_synthesized_document c run y t db = Inr db1 \<Longrightarrow>
     shelved c db run {ArtifactShelf SynthesizedDocuments} (synthesized_document_id y) db1"
  "insert_verified_document c run v t db = Inr db1 \<Longrightarrow>
     shelved c db run {ArtifactShelf VerifiedDocuments} (verified_document_id v) db1"
  "insert_summary_artifact c run m t db = Inr db1 \<Longrightarrow>
     shelved c db run {ArtifactShelf SummaryArtifacts} (summary_document_id m) db1"
  unfolding insert_normalized_document_def insert_structured_document_def insert_chunked_document_def
    insert_analyzed_document_def insert_synthesized_document_def insert_verified_document_def
    insert_summary_artifact_def insert_downstream_artifact_def
  by (erule insert_artifact_shelved, unfold artifact_ok.simps, rule exI, rule row_stores_own, rule refl)+
    (simp split: if_splits, erule insert_artifact_shelved, unfold artifact_ok.simps, rule exI, rule conjI,
      rule row_stores_own, rule refl, simp)

section \<open>Operations are changes\<close>

named_theorems store_effects \<open>what an operation of the store changes\<close>

abbreviation effects :: "'j codec \<Rightarrow> 'j db \<Rightarrow> 'j db \<Rightarrow> bool" where
  "effects c \<equiv> (effect c)\<^sup>*\<^sup>*"

lemma transition_require:
  "transition_in_tx c run s v n st rs p t db = Inr x \<Longrightarrow> \<exists>r. require_run c db run = Inr r"
  by (auto simp: transition_in_tx_def res_simps)

lemma advance_plain [store_effects]:
  assumes "transition_in_tx c run s v n st rs p t db = Inr (r', db')"
    and "shelves_of n = {} \<or> rewinds s n" "patch_fits s n p"
  shows "effect c db db'"
proof -
  from transition_require [OF assms(1)] obtain r where "require_run c db run = Inr r" by blast
  then show ?thesis by (rule effect.advance [OF _ shelved_refl assms(1)]) (use assms(2,3) in auto)
qed

lemma advance_full:
  assumes "require_run c db run = Inr r" "shelved c db run (shelves_of n) (run_document_id r) db1"
    and "transition_in_tx c run s v n st rs p t db1 = Inr (r', db')" "patch_fits s n p"
  shows "effects c db db'"
  by (rule r_into_rtranclp, rule effect.advance [OF assms(1-3)]) (use assms(4) in simp_all)

lemma keepI:
  assumes "pipeline_runs db' = pipeline_runs db" "pipeline_events db' = pipeline_events db"
    "documents db' = documents db" "slot db' = slot db"
  shows "effects c db db'"
  using effect.keep [OF assms] by blast

lemmas effects_trans = rtranclp_trans [of "effect c" for c]
lemmas effects_step = r_into_rtranclp [of "effect c" for c, OF advance_plain]

lemma profile_effects [store_effects]:
  "ensure_run_model_profile c run snapshot t db = Inr db' \<Longrightarrow> effects c db db'"
  "ensure_run_summary_profile c run profile t db = Inr db'' \<Longrightarrow> effects c db db''"
  by (rule keepI; auto simp: ensure_run_model_profile_def ensure_run_summary_profile_def res_simps
      split: option.splits if_splits)+

lemma received_effects [store_effects]:
  assumes "persist_received_run_to_ingested c r creation reason ts db = Inr (r', db')"
    and "run_state r = Received" "state_version r = 1"
  shows "effects c db db'"
proof -
  from assms(1) obtain db1 db2 r1 db3 where
    "insert_pipeline_run c r db = Inr db1" "insert_pipeline_event c (creation_event r creation (ts 0)) db1 = Inr db2"
    and steps: "transition_in_tx c (run_id r) Received 1 Ingesting (Some Ingest) reason no_patch (ts 1) db2 = Inr (r1, db3)"
    "transition_in_tx c (run_id r) Ingesting (state_version r1) Ingested (Some Ingest) reason no_patch (ts 2) db3 = Inr (r', db')"
    by (auto simp: persist_received_run_to_ingested_def creation_event_def res_simps)
  then have "effect c db db2" using assms(2,3) effect.admit by blast
  moreover have "effect c db2 db3" "effect c db3 db'"
    by (rule advance_plain [OF steps(1)]; simp) (rule advance_plain [OF steps(2)]; simp)
  ultimately show ?thesis by (meson rtranclp.rtrancl_into_rtrancl rtranclp.rtrancl_refl)
qed

lemma ingestion_effects [store_effects]:
  assumes "persist_ingestion_in_transaction c d r profile ts db = Inr (r', db')"
  shows "effects c db db'"
proof -
  from assms obtain db1 db2 where new: "run_state r = Received" "state_version r = 1"
    and "insert_document c d db = Inr db1"
    and rest: "persist_received_run_to_ingested c r ''run_created'' None ts db1 = Inr (r', db2)"
      "ensure_run_summary_profile c (run_id r') profile (ts 3) db2 = Inr db'"
    by (auto simp: persist_ingestion_in_transaction_def new_run_guard_def res_simps)
  then have "effects c db db1" using effect.document by blast
  with received_effects [OF rest(1) new] profile_effects(2) [OF rest(2)] show ?thesis
    by (meson rtranclp_trans)
qed

lemma ingestion_profiles_effects [store_effects]:
  assumes "persist_ingestion_with_profiles c d r snapshot profile ts db = Inr (r', db')"
  shows "effects c db db'"
proof -
  from assms obtain db1 where "persist_ingestion_in_transaction c d r profile ts db = Inr (r', db1)"
      "ensure_run_model_profile c (run_id r') snapshot (ts 4) db1 = Inr db'"
    by (auto simp: persist_ingestion_with_profiles_def res_simps)
  then show ?thesis by (meson ingestion_effects profile_effects(1) rtranclp_trans)
qed

lemma corrected_effects [store_effects]:
  assumes "persist_corrected_document c d r p source ts db = Inr (r', db')"
  shows "effects c db db'"
proof -
  from assms obtain db1 db2 db3 db4 r1 r2 profile model where
    "persist_ingestion_in_transaction c d r profile ts db = Inr (r1, db1)"
    "ensure_run_model_profile c (run_id r) model (ts 4) db1 = Inr db2"
    and s1: "transition_in_tx c (run_id r) Ingested (state_version r1) Parsing (Some Parse)
      (Some ''operator_ocr_correction'') no_patch (ts 5) db2 = Inr (r2, db3)"
    and ins: "insert_parsed_document c (run_id r) p (ts 6) db3 = Inr db4"
    and s2: "transition_in_tx c (run_id r) Parsing (state_version r2) Parsed (Some Parse)
      (Some ''operator_ocr_correction'')
      (warnings_patch (parsed_warnings p @ concat (map parsed_page_warnings (parsed_pages p)))) (ts 7) db4 = Inr (r', db')"
    by (auto simp: persist_corrected_document_def res_simps)
  then have "effects c db db2" by (meson ingestion_effects profile_effects(1) rtranclp_trans)
  moreover have "effect c db2 db3" by (rule advance_plain [OF s1]) simp_all
  moreover have "effects c db3 db'"
  proof -
    have same: "pipeline_runs db4 = pipeline_runs db3" using insert_parsed_shelved [OF ins] by (rule shelvedD)
    from transition_require [OF s2] obtain q where "require_run c db3 (run_id r) = Inr q"
      using same by (auto simp: require_run_def get_pipeline_run_def)
    then show ?thesis by (rule advance_full [OF _ _ s2]) (simp_all add: insert_parsed_shelved [OF ins])
  qed
  ultimately show ?thesis by (meson rtranclp.rtrancl_into_rtrancl rtranclp_trans)
qed

lemma start_effects [store_effects]:
  "start_parsing c run v t db = Inr (x1, db1) \<Longrightarrow> effects c db db1"
  "start_normalizing c run v t db = Inr (x2, db2) \<Longrightarrow> effects c db db2"
  "start_structuring c run v t db = Inr (x3, db3) \<Longrightarrow> effects c db db3"
  "start_chunking c run v t db = Inr (x4, db4) \<Longrightarrow> effects c db db4"
  "start_analysis c run v t db = Inr (x5, db5) \<Longrightarrow> effects c db db5"
  "start_synthesis c run v t db = Inr (x6, db6) \<Longrightarrow> effects c db db6"
  "start_verification c run v t db = Inr (x7, db7) \<Longrightarrow> effects c db db7"
  by (auto simp: start_parsing_def start_normalizing_def start_structuring_def start_chunking_def
      start_analysis_def start_synthesis_def start_verification_def res_simps intro: effects_step)

lemma fail_effects [store_effects]:
  "fail_parsing c run v f t db = Inr (r, db') \<Longrightarrow> effects c db db'"
  "fail_normalization c run v f t db = Inr (r, db') \<Longrightarrow> effects c db db'"
  "fail_structuring c run v f t db = Inr (r, db') \<Longrightarrow> effects c db db'"
  "fail_chunking c run v f t db = Inr (r, db') \<Longrightarrow> effects c db db'"
  "fail_analysis c run v f t db = Inr (r, db') \<Longrightarrow> effects c db db'"
  "fail_synthesis c run v f t db = Inr (r, db') \<Longrightarrow> effects c db db'"
  "fail_verification c run v f t db = Inr (r, db') \<Longrightarrow> effects c db db'"
  "fail_summary c run v f t db = Inr (r, db') \<Longrightarrow> effects c db db'"
  unfolding fail_parsing_def fail_normalization_def fail_structuring_def fail_chunking_def fail_analysis_def
    fail_synthesis_def fail_verification_def fail_summary_def fail_downstream_stage_def
  by (erule effects_step; simp)+

lemma complete_effects [store_effects]:
  "complete_parsing c run v a1 ws ts db = Inr (r, db') \<Longrightarrow> effects c db db'"
  "complete_normalization c run v a2 ws ts db = Inr (r, db') \<Longrightarrow> effects c db db'"
  "complete_structuring c run v a3 ws ts db = Inr (r, db') \<Longrightarrow> effects c db db'"
  "complete_chunking c run v a4 ws ts db = Inr (r, db') \<Longrightarrow> effects c db db'"
  "complete_analysis c run v a5 ws ts db = Inr (r, db') \<Longrightarrow> effects c db db'"
  by (auto simp: complete_parsing_def complete_normalization_def complete_structuring_def complete_chunking_def
      complete_analysis_def ensure_run_document_matches_def res_simps
      intro!: advance_full insert_parsed_shelved
      dest: insert_stage_shelved)

lemma complete_synthesis_effects [store_effects]:
  assumes "complete_synthesis c run v a ws ts db = Inr (r', db')"
  shows "effects c db db'"
proof -
  from assms obtain r db1 db2 where r: "require_run c db run = Inr r" "run_document_id r = synthesized_document_id a"
    and ins: "insert_synthesized_document c run a (ts 0) db = Inr db1"
      "insert_synthesis_attempt c run 0 a (ts 1) db1 = Inr db2"
    and step: "transition_in_tx c run Synthesizing v Synthesized (Some Synthesize) None (warnings_patch ws) (ts 2) db2
      = Inr (r', db')"
    by (auto simp: complete_synthesis_def ensure_run_document_matches_def res_simps)
  have "shelved c db run ({ArtifactShelf SynthesizedDocuments} \<union> {SynthesisShelf}) (run_document_id r) db2"
    using insert_stage_shelved(5) [OF ins(1)] insert_synthesis_attempt_shelved [OF ins(2) refl]
    unfolding r(2) by (rule shelved_trans)
  then show ?thesis by (intro advance_full [OF r(1) _ step]) (simp_all add: insert_commute)
qed

lemma verification_attempt_keeps:
  assumes "insert_verification_attempt c run n a t db = Inr db1"
  shows "pipeline_runs db1 = pipeline_runs db" "pipeline_events db1 = pipeline_events db"
    "documents db1 = documents db" "slot db1 = slot db"
  using assms by (auto simp: insert_verification_attempt_def res_simps)

lemma require_run_cong:
  "pipeline_runs db' = pipeline_runs db \<Longrightarrow> require_run c db' run = require_run c db run"
  by (simp add: require_run_def get_pipeline_run_def)

lemma complete_verification_effects [store_effects]:
  assumes "complete_verification c run v n a ws ts db = Inr (r', db')"
  shows "effects c db db'"
proof -
  from assms obtain r db1 db2 where r: "require_run c db run = Inr r" "run_document_id r = verified_document_id a"
    and ins: "insert_verification_attempt c run n a (ts 0) db = Inr db1"
      "insert_verified_document c run a (ts 1) db1 = Inr db2"
    and step: "transition_in_tx c run Verifying v Verified (Some Verify) None (warnings_patch ws) (ts 2) db2
      = Inr (r', db')"
    by (auto simp: complete_verification_def ensure_run_document_matches_def res_simps)
  note keeps = verification_attempt_keeps [OF ins(1)]
  have "require_run c db1 run = Inr r" using r(1) require_run_cong [OF keeps(1)] by simp
  from advance_full [OF this _ step] have "effects c db1 db'"
    using insert_stage_shelved(6) [OF ins(2)] r(2) by simp
  with keepI [OF keeps] show ?thesis by (rule rtranclp_trans)
qed

lemma record_attempt_effects [store_effects]:
  "record_verification_attempt c run v n a t db = Inr db' \<Longrightarrow> effects c db db'"
  by (auto simp: record_verification_attempt_def res_simps intro!: keepI dest: verification_attempt_keeps)

lemma summary_outcome_cases:
  obtains "summary_outcome ws = (Complete, None)" "ws = []"
    | reason where "summary_outcome ws = (CompleteWithWarnings, Some reason)" "ws \<noteq> []"
  by (cases "ws = []") (auto simp: summary_outcome_def)

lemma complete_summary_effects [store_effects]:
  assumes "complete_summary c run v s a ts db = Inr (r', db')"
  shows "effects c db db'"
proof -
  obtain n reason where out: "summary_outcome (summary_warnings s) = (n, reason)" by force
  from assms obtain r db1 db2 where r: "require_run c db run = Inr r" "run_document_id r = summary_document_id s"
      "run_document_id r = citation_document_id a"
    and ins: "insert_summary_artifact c run s (ts 0) db = Inr db1" "insert_citation_artifact c run a db1 = Inr db2"
    and step: "transition_in_tx c run Verified v n (Some Verify) reason (warnings_patch (summary_warnings s)) (ts 1) db2
      = Inr (r', db')"
    by (auto simp: complete_summary_def ensure_run_document_matches_def res_simps out)
  have "shelved c db run ({ArtifactShelf SummaryArtifacts} \<union> {CitationShelf}) (run_document_id r) db2"
    using insert_stage_shelved(7) [OF ins(1)] insert_citation_shelved [OF ins(2) refl]
    unfolding r(2) [symmetric] r(3) [symmetric] by (rule shelved_trans)
  moreover have "n = Complete \<or> n = CompleteWithWarnings"
    using out by (cases rule: summary_outcome_cases [of "summary_warnings s"]) auto
  ultimately show ?thesis by (intro advance_full [OF r(1) _ step]) (auto simp: insert_commute)
qed

lemma cancellation_effects [store_effects]:
  "request_cancellation c run v t db = Inr (r, db') \<Longrightarrow> effects c db db'"
  "complete_cancellation c run v t db = Inr (r, db') \<Longrightarrow> effects c db db'"
  "fail_background_execution c run s v f t db = Inr (r, db') \<Longrightarrow> effects c db db'"
  by (auto simp: request_cancellation_def complete_cancellation_def fail_background_execution_def res_simps
      split: if_splits intro: effects_step)

lemma retry_effects [store_effects]:
  assumes "create_retry_run c source v retry ts db = Inr (x, db')"
  shows "effects c db db'"
proof -
  from assms obtain r1 db1 r2 db2 db3 models summaries where new: "run_state retry = Received" "state_version retry = 1"
    and adm: "persist_received_run_to_ingested c retry ''retry_run_created'' (Some ''retry_checkpoint_reused'') ts db = Inr (r1, db1)"
    and step: "transition_in_tx c (run_id retry) Ingested (state_version r1) Parsing (Some Parse)
      (Some ''retry_processing_started'') no_patch (ts 3) db1 = Inr (r2, db2)"
    and db': "db' = db2\<lparr>pipeline_run_retries := db3, pipeline_run_model_profiles := models,
      pipeline_run_summary_profiles := summaries\<rparr>"
    by (auto simp: create_retry_run_def insert_retry_def Let_def res_simps split: prod.splits)
  have "effects c db db1" by (rule received_effects [OF adm new])
  moreover have "effects c db1 db2" by (rule effects_step [OF step]) simp_all
  moreover have "effects c db2 db'" by (rule keepI) (simp_all add: db')
  ultimately show ?thesis by (meson rtranclp_trans)
qed

lemma update_handoffs_keeps:
  "update_handoffs c p f db = Inr (b, db') \<Longrightarrow> \<exists>t. db' = db\<lparr>ocr_handoffs := t\<rparr>"
  by (auto simp: update_handoffs_def res_simps split: prod.splits)

lemma update_handoffs_effects: "update_handoffs c p f db = Inr (b, db') \<Longrightarrow> effects c db db'"
  by (drule update_handoffs_keeps) (auto intro!: keepI)

lemma handoff_effects [store_effects]:
  "prepare_ocr_handoff c a t db = Inr (h, db1) \<Longrightarrow> effects c db db1"
  "transition_ocr_handoff c handoff exp nxt status t db = Inr (b, db2) \<Longrightarrow> effects c db db2"
  "store_ocr_outputs c handoff exp out t db = Inr (b, db3) \<Longrightarrow> effects c db db3"
  "fail_ocr_handoff c handoff exp code msg retryable t db = Inr (b, db4) \<Longrightarrow> effects c db db4"
  "mark_ocr_handoff_completed_for_child c child t db = Inr (b, db5) \<Longrightarrow> effects c db db5"
  "get_or_create_profile_suggestion_owner c h' version t db = Inr (owner, db6) \<Longrightarrow> effects c db db6"
  subgoal by (auto simp: prepare_ocr_handoff_def insert_handoff_def Let_def res_simps split: option.splits intro!: keepI)
  subgoal unfolding transition_ocr_handoff_def by (rule update_handoffs_effects)
  subgoal unfolding store_ocr_outputs_def by (rule update_handoffs_effects)
  subgoal unfolding fail_ocr_handoff_def by (rule update_handoffs_effects)
  subgoal by (auto simp: mark_ocr_handoff_completed_for_child_def res_simps split: if_splits
      intro: update_handoffs_effects)
  subgoal by (auto simp: get_or_create_profile_suggestion_owner_def insert_suggestion_owner_def
      insert_suggestion_request_def res_simps split: option.splits if_splits intro!: keepI)
  done

lemma rewind_cases:
  assumes "rewind_interrupted_ocr_child c child t db = Inr (r, db')"
  obtains q where "is_admitted_ocr_child db child" "require_run c db child = Inr q" "rewind_target (run_state q) = NoRewind"
      "r = q" "db' = db"
    | q point st where "is_admitted_ocr_child db child" "require_run c db child = Inr q"
      "rewind_target (run_state q) = RewindTo point st"
      "transition_in_tx c child (run_state q) (state_version q) point (Some st)
        (Some ''ocr_child_rewound_after_restart'') no_patch t db = Inr (r, db')"
proof -
  from assms obtain q where q: "is_admitted_ocr_child db child" "require_run c db child = Inr q"
    by (auto simp: rewind_interrupted_ocr_child_def res_simps)
  show ?thesis
  proof (cases "rewind_target (run_state q)")
    case (RewindTo point st)
    with assms q have "transition_in_tx c child (run_state q) (state_version q) point (Some st)
        (Some ''ocr_child_rewound_after_restart'') no_patch t db = Inr (r, db')"
      by (simp add: rewind_interrupted_ocr_child_def)
    then show ?thesis by (rule that(2) [OF q RewindTo])
  next
    case RewindRefused
    then show ?thesis using assms q by (simp add: rewind_interrupted_ocr_child_def)
  next
    case NoRewind
    with assms q have "r = q" "db' = db" by (simp_all add: rewind_interrupted_ocr_child_def)
    then show ?thesis by (rule that(1) [OF q NoRewind])
  qed
qed

lemma rewind_effects [store_effects]:
  assumes "rewind_interrupted_ocr_child c child t db = Inr (r, db')"
  shows "effects c db db'"
  using assms
proof (cases rule: rewind_cases)
  case (2 q point st)
  have "point \<notin> {Cancelling, Cancelled, Failed}" using 2(3) by (cases "run_state q") auto
  then show ?thesis by (intro effects_step [OF 2(4)]) (use 2(3) in \<open>auto simp: rewinds_def\<close>)
qed simp

lemma admit_child_effects [store_effects]:
  assumes "admit_ocr_child c handoff d run ts db = Inr (r', db')"
  shows "effects c db db'"
proof -
  from assms obtain current pdf where current: "get_ocr_handoff db (handoff_id handoff) = Some current"
    "ocr_pdf_bytes current = Some pdf"
    by (auto simp: admit_ocr_child_def res_simps)
  show ?thesis
  proof (cases "phase current = ''child_admitted'' \<or> phase current = ''completed''")
    case True
    with assms current show ?thesis by (auto simp: admit_ocr_child_def res_simps)
  next
    case False
    with assms current obtain profile db1 models r1 db3 db4 b and root :: pipeline_run where
      adm: "persist_ingestion_in_transaction c d run profile ts db = Inr (r', db1)"
      and step: "transition_in_tx c (run_id root) Parsed (state_version root) Failed (Some Parse)
         (Some (failure_code (derived_handoff_failure (child_run_id current))))
         (failure_patch (derived_handoff_failure (child_run_id current))) (ts 4)
         (db1\<lparr>pipeline_run_model_profiles := models\<rparr>) = Inr (r1, db3)"
      and lin: "insert_ocr_lineage c current (ts 5) db3 = Inr db4"
      and upd: "update_handoffs c (\<lambda>h. handoff_id h = handoff_id current \<and> phase h = ''output_ready'')
         (touch c (ts 6) (\<lambda>h. h\<lparr>phase := ''child_admitted''\<rparr>)) db4 = Inr (b, db')"
      by (auto simp: admit_ocr_child_def res_simps Let_def)
    have "effects c db db1" by (rule ingestion_effects [OF adm])
    moreover have "effects c db1 (db1\<lparr>pipeline_run_model_profiles := models\<rparr>)" by (rule keepI) simp_all
    moreover have "effects c (db1\<lparr>pipeline_run_model_profiles := models\<rparr>) db3" by (rule effects_step [OF step]) simp_all
    moreover have "effects c db3 db4"
      using lin by (auto simp: insert_ocr_lineage_def res_simps split: option.splits intro!: keepI)
    moreover have "effects c db4 db'" by (rule update_handoffs_effects [OF upd])
    ultimately show ?thesis by (meson rtranclp_trans)
  qed
qed

lemma reconcile_candidate_effects:
  "reconcile_candidate c k t db = Inr (r, db') \<Longrightarrow> effects c db db'"
  by (auto simp: reconcile_candidate_def res_simps split: interrupted_run_action.splits option.splits
      intro: effects_step)

lemma reconcile_effects [store_effects]:
  assumes "reconcile_interrupted_runs c ts db = Inr (rs, db')"
  shows "effects c db db'"
proof -
  have "effects c db (snd (recovered, db''))"
    if "res_fold (\<lambda>(recovered, db') k. res_bind (reconcile_candidate c k (ts (length recovered)) db') (\<lambda>(r, db'').
         Inr (recovered @ [r], db''))) (recovered0, db0) ks = Inr (recovered, db'')" "effects c db db0"
    for ks recovered0 db0 recovered db''
    using that
  proof (induction ks arbitrary: recovered0 db0)
    case (Cons k ks)
    from Cons.prems(1) obtain r db1 where one: "reconcile_candidate c k (ts (length recovered0)) db0 = Inr (r, db1)"
      and rest: "res_fold (\<lambda>(recovered, db') k. res_bind (reconcile_candidate c k (ts (length recovered)) db') (\<lambda>(r, db'').
         Inr (recovered @ [r], db''))) (recovered0 @ [r], db1) ks = Inr (recovered, db'')"
      by (auto simp: res_simps)
    have "effects c db db1" using Cons.prems(2) reconcile_candidate_effects [OF one] by (rule rtranclp_trans)
    with rest show ?case by (rule Cons.IH)
  qed simp
  with assms show ?thesis
    by (fastforce simp: reconcile_interrupted_runs_def reconcile_interrupted_runs_in_transaction_def res_simps)
qed

section \<open>Operations as steps\<close>

text \<open>
  The transactions of the store with the arguments their callers are free to choose. \<open>store_step\<close>
  relates the database before a successful one to the database it commits.
\<close>

inductive store_step :: "'j codec \<Rightarrow> 'j db \<Rightarrow> 'j db \<Rightarrow> bool" for c where
  "persist_ingestion_with_profiles c d r snapshot profile ts db = Inr (x, db') \<Longrightarrow> store_step c db db'"
| "persist_corrected_document c d r p source ts db = Inr (x, db') \<Longrightarrow> store_step c db db'"
| "create_retry_run c source v r ts db = Inr (y, db') \<Longrightarrow> store_step c db db'"
| "ensure_run_model_profile c run snapshot t db = Inr db' \<Longrightarrow> store_step c db db'"
| "ensure_run_summary_profile c run profile t db = Inr db' \<Longrightarrow> store_step c db db'"
| "start_parsing c run v t db = Inr (x1, db') \<Longrightarrow> store_step c db db'"
| "start_normalizing c run v t db = Inr (x2, db') \<Longrightarrow> store_step c db db'"
| "start_structuring c run v t db = Inr (x3, db') \<Longrightarrow> store_step c db db'"
| "start_chunking c run v t db = Inr (x4, db') \<Longrightarrow> store_step c db db'"
| "start_analysis c run v t db = Inr (x5, db') \<Longrightarrow> store_step c db db'"
| "start_synthesis c run v t db = Inr (x6, db') \<Longrightarrow> store_step c db db'"
| "start_verification c run v t db = Inr (x7, db') \<Longrightarrow> store_step c db db'"
| "complete_parsing c run v a1 ws ts db = Inr (x, db') \<Longrightarrow> store_step c db db'"
| "complete_normalization c run v a2 ws ts db = Inr (x, db') \<Longrightarrow> store_step c db db'"
| "complete_structuring c run v a3 ws ts db = Inr (x, db') \<Longrightarrow> store_step c db db'"
| "complete_chunking c run v a4 ws ts db = Inr (x, db') \<Longrightarrow> store_step c db db'"
| "complete_analysis c run v a5 ws ts db = Inr (x, db') \<Longrightarrow> store_step c db db'"
| "complete_synthesis c run v a6 ws ts db = Inr (x, db') \<Longrightarrow> store_step c db db'"
| "complete_verification c run v n a7 ws ts db = Inr (x, db') \<Longrightarrow> store_step c db db'"
| "record_verification_attempt c run v n a7 t db = Inr db' \<Longrightarrow> store_step c db db'"
| "complete_summary c run v a8 a9 ts db = Inr (x, db') \<Longrightarrow> store_step c db db'"
| "fail_parsing c run v f t db = Inr (x, db') \<Longrightarrow> store_step c db db'"
| "fail_normalization c run v f t db = Inr (x, db') \<Longrightarrow> store_step c db db'"
| "fail_structuring c run v f t db = Inr (x, db') \<Longrightarrow> store_step c db db'"
| "fail_chunking c run v f t db = Inr (x, db') \<Longrightarrow> store_step c db db'"
| "fail_analysis c run v f t db = Inr (x, db') \<Longrightarrow> store_step c db db'"
| "fail_synthesis c run v f t db = Inr (x, db') \<Longrightarrow> store_step c db db'"
| "fail_verification c run v f t db = Inr (x, db') \<Longrightarrow> store_step c db db'"
| "fail_summary c run v f t db = Inr (x, db') \<Longrightarrow> store_step c db db'"
| "request_cancellation c run v t db = Inr (x, db') \<Longrightarrow> store_step c db db'"
| "complete_cancellation c run v t db = Inr (x, db') \<Longrightarrow> store_step c db db'"
| "fail_background_execution c run s v f t db = Inr (x, db') \<Longrightarrow> store_step c db db'"
| "prepare_ocr_handoff c new t db = Inr (h, db') \<Longrightarrow> store_step c db db'"
| "transition_ocr_handoff c handoff exp nxt status t db = Inr (b, db') \<Longrightarrow> store_step c db db'"
| "store_ocr_outputs c handoff exp out t db = Inr (b, db') \<Longrightarrow> store_step c db db'"
| "fail_ocr_handoff c handoff exp code msg retryable t db = Inr (b, db') \<Longrightarrow> store_step c db db'"
| "admit_ocr_child c h d r ts db = Inr (x, db') \<Longrightarrow> store_step c db db'"
| "mark_ocr_handoff_completed_for_child c run t db = Inr (b, db') \<Longrightarrow> store_step c db db'"
| "rewind_interrupted_ocr_child c run t db = Inr (x, db') \<Longrightarrow> store_step c db db'"
| "get_or_create_profile_suggestion_owner c source version t db = Inr (owner, db') \<Longrightarrow> store_step c db db'"
| "reconcile_interrupted_runs c ts db = Inr (xs, db') \<Longrightarrow> store_step c db db'"

lemma store_step_effects: "store_step c db db' \<Longrightarrow> effects c db db'"
  by (induction rule: store_step.induct) (erule store_effects)+

abbreviation reachable_store :: "'j codec \<Rightarrow> 'j db \<Rightarrow> bool" where
  "reachable_store c \<equiv> (store_step c)\<^sup>*\<^sup>* empty_db"

lemma steps_effects: "(store_step c)\<^sup>*\<^sup>* db db' \<Longrightarrow> effects c db db'"
  by (induction rule: rtranclp_induct) (auto dest: store_step_effects)

lemma reachable_store_ok:
  assumes "codec_ok c" "reachable_store c db"
  shows "store_ok c db"
  by (rule effects_store_ok [OF assms(1) steps_effects [OF assms(2)] store_ok_empty])

end
