(* ===== verification/Store_Growth.thy ===== *)
theory Store_Growth
  imports Store_Steps
begin

text \<open>
  The store only grows: events are appended, identities and terminal runs never change, and a stored
  artifact stays what it is. What the readers of the store return follows from the invariant.
\<close>

section \<open>Growth\<close>

definition run_grows :: "pipeline_run \<Rightarrow> pipeline_run \<Rightarrow> bool" where
  "run_grows r r' \<longleftrightarrow> run_id r' = run_id r \<and> run_document_id r' = run_document_id r
     \<and> pipeline_version r' = pipeline_version r \<and> run_created_at r' = run_created_at r
     \<and> resumable r' = resumable r \<and> unat (state_version r) \<le> unat (state_version r')
     \<and> (terminal (run_state r) \<or> state_version r' = state_version r \<longrightarrow> r' = r)
     \<and> (run_state r = Cancelling \<longrightarrow> run_state r' \<in> {Cancelling, Cancelled})"

definition grows :: "'j codec \<Rightarrow> 'j db \<Rightarrow> 'j db \<Rightarrow> bool" where
  "grows c db db' \<longleftrightarrow>
     (\<exists>xs. pipeline_events db' = pipeline_events db @ xs)
     \<and> (\<forall>r. run_at c db r \<longrightarrow> (\<exists>r'. run_at c db' r' \<and> run_grows r r'))
     \<and> (\<forall>sh k x. slot db sh k = Some x \<longrightarrow> slot db' sh k = Some x)"

lemma run_grows_refl [simp]: "run_grows r r"
  by (simp add: run_grows_def)

lemma run_grows_trans:
  assumes "run_grows r r'" "run_grows r' r''"
  shows "run_grows r r''"
proof -
  have "state_version r' = state_version r" if "state_version r'' = state_version r"
    using assms that by (intro unsigned_word_eqI [where 'a = nat]) (auto simp: run_grows_def)
  then show ?thesis using assms by (auto simp: run_grows_def terminal_def)
qed

lemma grows_refl: "grows c db db"
  unfolding grows_def by (auto intro: exI [where x = "[]"] run_grows_refl)

lemma grows_trans:
  assumes "grows c db db'" "grows c db' db''"
  shows "grows c db db''"
  unfolding grows_def
proof (intro conjI allI impI)
  from assms show "\<exists>xs. pipeline_events db'' = pipeline_events db @ xs"
    unfolding grows_def by (metis append_assoc)
  from assms show "slot db'' sh k = Some x" if "slot db sh k = Some x" for sh k x
    using that unfolding grows_def by blast
  fix r assume "run_at c db r"
  then obtain r' where r': "run_at c db' r'" "run_grows r r'" using assms(1) unfolding grows_def by blast
  then obtain r'' where "run_at c db'' r''" "run_grows r' r''" using assms(2) unfolding grows_def by blast
  with run_grows_trans [OF r'(2)] show "\<exists>r''. run_at c db'' r'' \<and> run_grows r r''" by blast
qed

lemma effect_grows:
  assumes "codec_ok c" "effect c db db'" "store_ok c db"
  shows "grows c db db'"
  using assms(2)
proof cases
  case keep
  have "run_at c db' = run_at c db" using runs_ok_cong keep by blast
  then show ?thesis using keep run_grows_refl unfolding grows_def
    by (intro conjI allI impI; (intro exI [where x = "[]"])?) auto
next
  case (document d)
  then have "pipeline_events db' = pipeline_events db" "pipeline_runs db' = pipeline_runs db" "slot db' = slot db"
    by (auto simp: insert_document_def Let_def res_simps)
  then show ?thesis using run_grows_refl unfolding grows_def run_at_def
    by (intro conjI allI impI; (intro exI [where x = "[]"])?) auto
next
  case (admit r db1 reason t)
  note eff = admit_effect [OF admit(1,2)]
  have "run_at c db' q" if "run_at c db q" for q
    using that by (simp add: run_at_def eff(4))
  then show ?thesis using run_grows_refl unfolding grows_def eff(5,7) by blast
next
  case (advance run r S db1 s v n st rs p t r')
  note sh = shelvedD [OF advance(2)]
  note cong = runs_ok_cong [OF sh(1,2)]
  have runs1: "runs_ok c db1" using store_okD(1) [OF assms(3)] cong(4) by simp
  from transition_in_txE [OF assms(1) runs1 advance(3)] obtain q ev r1 and es :: "pipeline_event list"
    where q: "run_id q = run" "run_at c db1 q"
      and step: "transition q s n v (word_of_nat (length es)) st rs t = Inr (ev, r1)"
      and r': "r' = apply_patch p r1" and db': "db' = stepped c r' ev db1" .
  have grow: "run_grows q r'"
    using transition_frame [OF step] step terminal_absorbing [of s n] unat_succ_version [of v] succ_version_neq [of v]
      advance(5)
    by (auto simp: run_grows_def r' transition_Inr_iff patch_fits_def)
  have ids: "run_id r' = run" using grow q(1) by (simp add: run_grows_def)
  have "\<exists>q'. run_at c db' q' \<and> run_grows p' q'" if p': "run_at c db p'" for p'
  proof (cases "run_id p' = run")
    case True
    have "p' = q" by (rule run_at_det [OF assms(1) _ q(2)]) (use p' cong(1) True q(1) in simp_all)
    moreover have "run_at c db' r'" unfolding db'
      by (rule run_at_stepped_self) (use run_at_key [OF q(2)] q(1) ids in simp)
    ultimately show ?thesis using grow by blast
  next
    case False
    have "run_at c db' p'" unfolding db' by (rule run_at_stepped) (use p' cong(1) False ids in simp_all)
    then show ?thesis using run_grows_refl by blast
  qed
  moreover have "pipeline_events db' = pipeline_events db @ [event_entry c ev]"
    using sh(2) by (simp add: db' stepped_def)
  moreover have "slot db' x k = Some y" if "slot db x k = Some y" for x k y
    using that sh(4) [of k x] sh(5) [of x] by (cases "k = run \<and> x \<in> S") (auto simp: db')
  ultimately show ?thesis unfolding grows_def by blast
qed

lemma effects_grow:
  assumes "codec_ok c" "effects c db db'" "store_ok c db"
  shows "grows c db db' \<and> store_ok c db'"
  using assms(2,3)
proof (induction rule: rtranclp_induct)
  case (step db1 db2)
  then show ?case using effect_grows [OF assms(1)] effect_store_ok [OF assms(1)] grows_trans by blast
qed (simp add: grows_refl)

lemma grows_log:
  assumes "grows c db db'" "log_at c db run es" "runs_ok c db'" "codec_ok c"
  shows "\<exists>es'. log_at c db' run (es @ es')"
proof -
  from assms(1) obtain xs where xs: "pipeline_events db' = pipeline_events db @ xs" unfolding grows_def by blast
  have "\<exists>ls. log_at c db' run ls"
  proof (cases "has_key run (pipeline_runs db')")
    case True
    then show ?thesis using runs_okE [OF assms(3)] by metis
  next
    case False
    then have "log_at c db' run []" using assms(3) by (simp add: runs_ok_def log_at_def)
    then show ?thesis by blast
  qed
  then obtain ls where ls: "log_at c db' run ls" by blast
  have split: "map (event_entry c) ls = map (event_entry c) es @ filter (\<lambda>(_, row). col_event_run_id row = run) xs"
    using ls assms(2) by (simp add: log_at_def events_of_def xs)
  have "take (length es) ls = es"
  proof -
    have "map (event_entry c) (take (length es) ls) = map (event_entry c) es"
      using arg_cong [OF split, of "take (length es)"] by (simp add: take_map)
    with read_events [OF assms(4), of "take (length es) ls"] read_events [OF assms(4), of es]
    show ?thesis by simp
  qed
  then have "es @ drop (length es) ls = ls" by (metis append_take_drop_id)
  then show ?thesis using ls by metis
qed

section \<open>What the readers return\<close>

lemma read_row_stores:
  assumes "coding_ok k" "document a = d"
  shows "read_artifact c k document version e1 e2 (artifact_row_of c k d (version a) a t, d) = Inr a"
  using assms by (auto simp: read_artifact_def artifact_row_of_def coding_round_trip)

lemma join_run_at:
  assumes "run_at c db r"
  shows "join_run db (run_id r) x = map_option (\<lambda>y. (y, run_document_id r)) x"
  using assms by (cases x) (simp_all add: join_run_def run_at_def run_row_of_def)

definition reads :: "store_error + 'a option \<Rightarrow> ('a \<Rightarrow> string) \<Rightarrow> string \<Rightarrow> bool \<Rightarrow> bool" where
  "reads result document d present \<longleftrightarrow>
     (if present then \<exists>a. result = Inr (Some a) \<and> document a = d else result = Inr None)"

text \<open>
  With the invariant, a reader finds an artifact of the run's document exactly when the history of the
  run holds the checkpoint.
\<close>

lemma shelf_reads:
  assumes "codec_ok c" "run_at c db r" "\<And>sh. shelf_ok c db r es sh"
  shows "reads (get_normalized_document c db (run_id r)) normalized_document_id (run_document_id r) (Normalized \<in> visited es)"
    and "reads (get_structured_document c db (run_id r)) structured_document_id (run_document_id r) (Structured \<in> visited es)"
    and "reads (get_chunked_document c db (run_id r)) chunked_document_id (run_document_id r) (Chunked \<in> visited es)"
    and "reads (get_analyzed_document c db (run_id r)) analyzed_document_id (run_document_id r) (Analyzed \<in> visited es)"
    and "reads (get_synthesized_document c db (run_id r)) synthesized_document_id (run_document_id r) (Synthesized \<in> visited es)"
    and "reads (get_synthesis_attempt c db (run_id r) 0) synthesized_document_id (run_document_id r) (Synthesized \<in> visited es)"
    and "reads (get_verified_document c db (run_id r)) verified_document_id (run_document_id r) (Verified \<in> visited es)"
    and "reads (get_summary_artifact c db (run_id r)) summary_document_id (run_document_id r)
      (visited es \<inter> {Complete, CompleteWithWarnings} \<noteq> {})"
    and "reads (get_citation_artifact c db (run_id r)) citation_document_id (run_document_id r)
      (visited es \<inter> {Complete, CompleteWithWarnings} \<noteq> {})"
    and "\<exists>p. get_parsed_document c db (run_id r) = Inr p \<and> (p \<noteq> None \<longleftrightarrow> Parsed \<in> visited es)"
proof -
  note join = join_run_at [OF assms(2)]
  have codings: "coding_ok (normalized_json c)" "coding_ok (structured_json c)" "coding_ok (chunked_json c)"
    "coding_ok (analyzed_json c)" "coding_ok (synthesized_json c)" "coding_ok (verified_json c)"
    "coding_ok (summary_json c)"
    using assms(1) by (simp_all add: codec_ok_def)
  note tab = assms(3) [of "ArtifactShelf tab" for tab]
  show "reads (get_normalized_document c db (run_id r)) normalized_document_id (run_document_id r) (Normalized \<in> visited es)"
    using tab [of NormalizedDocuments]
    by (auto simp: read_row_stores [OF codings(1)] shelf_ok_def reads_def get_normalized_document_def join row_stores_def split: option.splits)
  show "reads (get_structured_document c db (run_id r)) structured_document_id (run_document_id r) (Structured \<in> visited es)"
    using tab [of StructuredDocuments]
    by (auto simp: read_row_stores [OF codings(2)] shelf_ok_def reads_def get_structured_document_def join row_stores_def split: option.splits)
  show "reads (get_chunked_document c db (run_id r)) chunked_document_id (run_document_id r) (Chunked \<in> visited es)"
    using tab [of ChunkedDocuments]
    by (auto simp: read_row_stores [OF codings(3)] shelf_ok_def reads_def get_chunked_document_def join row_stores_def split: option.splits)
  show "reads (get_analyzed_document c db (run_id r)) analyzed_document_id (run_document_id r) (Analyzed \<in> visited es)"
    using tab [of AnalyzedDocuments]
    by (auto simp: read_row_stores [OF codings(4)] shelf_ok_def reads_def get_analyzed_document_def get_downstream_artifact_def join row_stores_def
        split: option.splits)
  show "reads (get_synthesized_document c db (run_id r)) synthesized_document_id (run_document_id r) (Synthesized \<in> visited es)"
    using tab [of SynthesizedDocuments]
    by (auto simp: read_row_stores [OF codings(5)] shelf_ok_def reads_def get_synthesized_document_def get_downstream_artifact_def join row_stores_def
        split: option.splits)
  show "reads (get_synthesis_attempt c db (run_id r) 0) synthesized_document_id (run_document_id r) (Synthesized \<in> visited es)"
    using assms(3) [of SynthesisShelf]
    by (auto simp: read_row_stores [OF codings(5)] shelf_ok_def reads_def get_synthesis_attempt_def get_summary_attempt_artifact_def join row_stores_def
        split: option.splits)
  show "reads (get_verified_document c db (run_id r)) verified_document_id (run_document_id r) (Verified \<in> visited es)"
    using tab [of VerifiedDocuments]
    by (auto simp: read_row_stores [OF codings(6)] shelf_ok_def reads_def get_verified_document_def get_downstream_artifact_def join row_stores_def
        split: option.splits)
  show "reads (get_summary_artifact c db (run_id r)) summary_document_id (run_document_id r)
      (visited es \<inter> {Complete, CompleteWithWarnings} \<noteq> {})"
    using tab [of SummaryArtifacts]
    by (auto simp: read_row_stores [OF codings(7)] shelf_ok_def reads_def get_summary_artifact_def get_downstream_artifact_def join row_stores_def
        split: option.splits)
  show "reads (get_citation_artifact c db (run_id r)) citation_document_id (run_document_id r)
      (visited es \<inter> {Complete, CompleteWithWarnings} \<noteq> {})"
    using assms(3) [of CitationShelf]
    by (auto simp: shelf_ok_def reads_def get_citation_artifact_def read_citation_def citation_stores_def join
        codec_reads [OF assms(1)] split: option.splits)
  show "\<exists>p. get_parsed_document c db (run_id r) = Inr p \<and> (p \<noteq> None \<longleftrightarrow> Parsed \<in> visited es)"
    using assms(3) [of ParsedShelf]
    by (auto simp: shelf_ok_def get_parsed_document_def codec_reads [OF assms(1)] split: option.splits)
qed

end
