(* ===== verification/Store_Stage.thy ===== *)
theory Store_Stage
  imports Store_Growth
begin

text \<open>
  The contract of a stage that stores an artifact: what its transaction relies on and promises, as a
  locale, with the five stages whose completion has that shape as its interpretations.
\<close>

section \<open>A checkpoint is passed once\<close>

definition beyond :: "pipeline_state \<Rightarrow> pipeline_state set" where
  "beyond s = {t. rank s \<le> rank t} \<union> {Failed, Cancelling, Cancelled}"

lemma beyond_closed:
  assumes "even (rank s)" "0 < rank s" "t \<in> beyond s" "is_valid_transition t u"
  shows "u \<in> beyond s"
proof -
  from valid_transition_cases [OF assms(4)] consider "u = Failed \<or> u = Cancelling" | "(t, u) \<in> set transition_arms"
    by blast
  then show ?thesis
  proof cases
    case 2
    have odd: "rank t = Suc (rank u) \<Longrightarrow> odd (rank t)"
      using 2 by (auto simp: transition_arms_def)
    have "rank t = Suc (rank u) \<or> rank t \<le> rank u \<or> u = Cancelled"
      using 2 by (auto simp: transition_arms_def)
    moreover have "t \<in> {Failed, Cancelled} \<Longrightarrow> False" using 2 by (auto simp: transition_arms_def)
    moreover have "t = Cancelling \<Longrightarrow> u = Cancelled" using 2 by (auto simp: transition_arms_def)
    moreover have "rank s \<le> rank u" if "rank s \<le> rank t" "rank t = Suc (rank u)"
    proof -
      have "rank s \<noteq> rank t" using odd [OF that(2)] assms(1) by auto
      then show ?thesis using that by simp
    qed
    ultimately show ?thesis using assms(3) by (auto simp: beyond_def)
  qed (auto simp: beyond_def)
qed

lemma valid_trace_beyond:
  assumes "even (rank s)" "0 < rank s" "valid_trace ss" "ss \<noteq> []" "hd ss \<in> beyond s"
  shows "set ss \<subseteq> beyond s"
  using assms(3-5)
proof (induction ss rule: valid_trace.induct)
  case (3 t u ss)
  then show ?case using beyond_closed [OF assms(1,2), of t u] by auto
qed simp_all

lemma valid_trace_suffix: "valid_trace (xs @ ys) \<Longrightarrow> valid_trace ys"
proof (induction xs)
  case (Cons x xs)
  then have "valid_trace (x # (xs @ ys))" by simp
  then have "valid_trace (xs @ ys)" by (cases "xs @ ys") auto
  then show ?case by (rule Cons.IH)
qed simp

lemma visited_beyond:
  assumes "log_ok r es" "s \<in> visited es" "even (rank s)" "0 < rank s"
  shows "run_state r \<in> beyond s"
proof -
  note trace = log_trace [OF assms(1)]
  from assms(2) have "s \<in> set (map next_state es)" by (simp add: visited_def)
  then obtain xs ys where split: "map next_state es = xs @ s # ys" by (auto dest: split_list)
  then have "valid_trace (s # ys)" using trace(1) valid_trace_suffix by metis
  then have "set (s # ys) \<subseteq> beyond s"
    by (rule valid_trace_beyond [OF assms(3,4)]) (simp_all add: beyond_def)
  moreover have "run_state r \<in> set (s # ys)"
  proof -
    have "run_state r = last (s # ys)" using trace(4) split by simp
    then show ?thesis by simp
  qed
  ultimately show ?thesis by blast
qed

lemma active_not_visited:
  assumes "log_ok r es" "Suc (rank (run_state r)) = rank point" "even (rank point)" "0 < rank (run_state r)"
  shows "point \<notin> visited es"
proof
  assume "point \<in> visited es"
  from visited_beyond [OF assms(1) this assms(3)] assms(2) have "run_state r \<in> beyond point" by simp
  then show False using assms(2,4) by (auto simp: beyond_def)
qed

section \<open>One transition, successful\<close>

lemma transition_in_tx_succeeds:
  assumes "codec_ok c" "runs_ok c db" "run_at c db r" "run_id r = run" "run_state r = s" "state_version r = v"
    and "is_valid_transition s n" "unat v + 1 < 2 ^ 32" "select_row (pipeline_events db) (fresh_uuid t) = None"
  obtains r' db' ev where "transition_in_tx c run s v n st rs p t db = Inr (r', db')"
    "db' = stepped c r' ev db" "event_id ev = fresh_uuid t" "run_at c db' r'" "run_id r' = run"
    "run_document_id r' = run_document_id r" "run_state r' = n" "state_version r' = v + 1"
    "resumable r' = resumable r" "run_created_at r' = run_created_at r"
    "run_failure r' = (case patch_failure p of Some f \<Rightarrow> Some f | None \<Rightarrow> run_failure r)"
    "cancellation_requested r' =
       (case patch_cancellation_requested p of Some b \<Rightarrow> b | None \<Rightarrow> cancellation_requested r)"
    "run_warnings r' = (case patch_warnings p of Some ws \<Rightarrow> ws | None \<Rightarrow> run_warnings r)"
    "current_stage r' = (case st of Some x \<Rightarrow> Some x | None \<Rightarrow> current_stage r)"
proof -
  from runs_okE [OF assms(2) run_at_key [OF assms(3)]] obtain q es
    where q: "run_id q = run_id r" "run_at c db q" "log_at c db (run_id r) es" "log_ok q es" .
  have "q = r" by (rule run_at_det [OF assms(1) q(2) assms(3) q(1)])
  with q have log: "log_at c db (run_id r) es" "log_ok r es" by simp_all
  obtain ev r1 where step: "transition r s n v (word_of_nat (length es)) st rs t = Inr (ev, r1)"
    using assms(5-8) transition_Inr_iff [of r s n v "word_of_nat (length es)" st rs t] by blast
  have keyed: "keyed (pipeline_runs db)" using assms(2) by (simp add: runs_ok_def)
  have ev: "event_id ev = fresh_uuid t" using step by (auto simp: transition_Inr_iff)
  let ?r' = "apply_patch p r1"
  have eq: "transition_in_tx c run s v n st rs p t db = Inr (?r', stepped c ?r' ev db)"
    using transition_in_tx_eq [OF assms(1) keyed assms(3) log, of s v n st rs p t] step ev assms(4,9)
    by (simp add: has_key_iff)
  have ids: "run_id ?r' = run" "run_document_id ?r' = run_document_id r" "run_state ?r' = n" "state_version ?r' = v + 1"
      "resumable ?r' = resumable r" "run_created_at ?r' = run_created_at r"
    using step assms(4) by (auto simp: transition_Inr_iff)
  have fields: "run_failure ?r' = (case patch_failure p of Some f \<Rightarrow> Some f | None \<Rightarrow> run_failure r)"
    "cancellation_requested ?r' =
       (case patch_cancellation_requested p of Some b \<Rightarrow> b | None \<Rightarrow> cancellation_requested r)"
    "run_warnings ?r' = (case patch_warnings p of Some ws \<Rightarrow> ws | None \<Rightarrow> run_warnings r)"
    using transition_frame [OF step] by (simp_all split: option.split)
  have stage: "current_stage ?r' = (case st of Some x \<Rightarrow> Some x | None \<Rightarrow> current_stage r)"
    using step by (auto simp: transition_Inr_iff)
  have at: "run_at c (stepped c ?r' ev db) ?r'"
    by (rule run_at_stepped_self) (use run_at_key [OF assms(3)] ids(1) assms(4) in simp)
  show ?thesis by (rule that [OF eq refl ev at ids fields stage])
qed

section \<open>The contract\<close>

locale checkpoint_stage =
  fixes c :: "'j codec"
    and put :: "string \<Rightarrow> 'a \<Rightarrow> (nat \<Rightarrow> tick) \<Rightarrow> 'j db \<Rightarrow> store_error + 'j db"
    and get :: "'j db \<Rightarrow> string \<Rightarrow> store_error + 'a option"
    and complete :: "string \<Rightarrow> u32 \<Rightarrow> 'a \<Rightarrow> pipeline_warning list \<Rightarrow> (nat \<Rightarrow> tick) \<Rightarrow> 'j db \<Rightarrow>
      store_error + pipeline_run \<times> 'j db"
    and document :: "'a \<Rightarrow> string" and active :: pipeline_state and point :: pipeline_state
    and stage :: pipeline_stage and tk :: nat
  assumes complete_eq: "require_run c db run = Inr r \<Longrightarrow> run_document_id r = document a \<Longrightarrow>
      complete run v a ws ts db = res_bind (put run a ts db) (\<lambda>db1.
        transition_in_tx c run active v point (Some stage) None (warnings_patch ws) (ts tk) db1)"
    and put_ok: "codec_ok c \<Longrightarrow> run_at c db r \<Longrightarrow> document a = run_document_id r \<Longrightarrow>
      has_key (run_document_id r) (documents db) \<Longrightarrow> (\<And>sh. sh \<in> shelves_of point \<Longrightarrow> slot db sh (run_id r) = None) \<Longrightarrow>
      \<exists>db1. put (run_id r) a ts db = Inr db1 \<and> get db1 (run_id r) = Inr (Some a)"
    and put_shelved: "put run a ts db = Inr db1 \<Longrightarrow> shelved c db run (shelves_of point) (document a) db1"
    and get_stepped: "run_at c db r0 \<Longrightarrow> run_id r = run_id r0 \<Longrightarrow> run_document_id r = run_document_id r0 \<Longrightarrow>
      get (stepped c r e db) (run_id r) = get db (run_id r)"
    and edge: "is_valid_transition active point" "Suc (rank active) = rank point" "even (rank point)" "0 < rank active"
    and point_states: "sh \<in> shelves_of point \<Longrightarrow> shelf_states sh = {point}"
begin

text \<open>
  In a store with the invariant, a run that is in the stage can complete it: no uniqueness constraint
  is in the way, and what is stored can be read.
\<close>

lemma completes:
  assumes "codec_ok c" "store_ok c db" "get_pipeline_run c db run = Inr (Some r)"
    and "run_state r = active" "unat (state_version r) + 1 < 2 ^ 32" "document a = run_document_id r"
    and "select_row (pipeline_events db) (fresh_uuid (ts tk)) = None"
  shows "\<exists>r' db'. complete run (state_version r) a ws ts db = Inr (r', db') \<and> run_state r' = point
    \<and> state_version r' = state_version r + 1 \<and> run_warnings r' = ws \<and> run_at c db' r'
    \<and> run_id r' = run \<and> run_document_id r' = run_document_id r
    \<and> get db' run = Inr (Some a) \<and> (\<exists>e. event_id e = fresh_uuid (ts tk) \<and> pipeline_events db' = pipeline_events db @ [event_entry c e])"
proof -
  note ok = store_okD [OF assms(2)]
  from assms(3) have r: "run_id r = run" "run_at c db r" by (simp_all add: get_run_iff [OF assms(1) ok(1)])
  from runs_okE [OF ok(1) run_at_key [OF r(2)]] obtain q es
    where q: "run_id q = run_id r" "run_at c db q" "log_at c db (run_id r) es" "log_ok q es" .
  have "q = r" by (rule run_at_det [OF assms(1) q(2) r(2) q(1)])
  with q have log: "log_at c db (run_id r) es" "log_ok r es" by simp_all
  have fresh: "point \<notin> visited es" by (rule active_not_visited [OF log(2)]) (use edge assms(4) in simp_all)
  have empty: "slot db sh (run_id r) = None" if "sh \<in> shelves_of point" for sh
  proof -
    have "shelf_ok c db r es sh" using ok(3) r(2) log(1) by (simp add: shelves_ok_def)
    then show ?thesis using fresh point_states [OF that] by (auto simp: shelf_ok_def split: option.splits)
  qed
  have "has_key (run_document_id r) (documents db)" using ok(2) r(2) by (simp add: docs_ok_def)
  from put_ok [OF assms(1) r(2) assms(6) this empty] obtain db1
    where put: "put (run_id r) a ts db = Inr db1" and got: "get db1 (run_id r) = Inr (Some a)" by blast
  note sh = shelvedD [OF put_shelved [OF put]]
  have runs1: "runs_ok c db1" using ok(1) runs_ok_cong(4) [OF sh(1,2)] by simp
  have at1: "run_at c db1 r" using r(2) runs_ok_cong(1) [OF sh(1,2)] by simp
  have free1: "select_row (pipeline_events db1) (fresh_uuid (ts tk)) = None" using assms(7) sh(2) by simp
  obtain r' db' ev where step: "transition_in_tx c run active (state_version r) point (Some stage) None
        (warnings_patch ws) (ts tk) db1 = Inr (r', db')"
      "db' = stepped c r' ev db1" "event_id ev = fresh_uuid (ts tk)" "run_at c db' r'" "run_id r' = run"
      "run_document_id r' = run_document_id r" "run_state r' = point" "state_version r' = state_version r + 1"
      "run_warnings r' = ws"
    by (rule transition_in_tx_succeeds [OF assms(1) runs1 at1 r(1) assms(4) refl edge(1) assms(5) free1,
          of "Some stage" None "warnings_patch ws"]) simp
  have "complete run (state_version r) a ws ts db = Inr (r', db')"
    using complete_eq [OF _ assms(6) [symmetric]] get_run_at(2) [OF assms(1) r(2)] put step(1) r(1) by simp
  moreover have "get db' run = Inr (Some a)"
    using get_stepped [OF at1, of r' ev] got step(2,5,6) r(1) by simp
  moreover have "pipeline_events db' = pipeline_events db @ [event_entry c ev]"
    using step(2) sh(2) by (simp add: stepped_def)
  ultimately show ?thesis using step(3-9) by blast
qed

end

section \<open>The stages that keep it\<close>

text \<open>Putting a row of one of the artifact tables for a known run, and reading it.\<close>

lemma artifact_put_ok:
  assumes "codec_ok c" "run_at c db r" "document a = run_document_id r" "coding_ok k"
    and "has_key (run_document_id r) (documents db)" "slot db (ArtifactShelf tab) (run_id r) = None"
  shows "\<exists>db1. insert_artifact_row tab (run_id r) (artifact_row_of c k (document a) (version a) a t) db = Inr db1
    \<and> pipeline_runs db1 = pipeline_runs db \<and> documents db1 = documents db
    \<and> summary_synthesis_attempts db1 = summary_synthesis_attempts db
    \<and> transpose_map (read_artifact c k document version e1 e2)
        (join_run db1 (run_id r) (select_row (artifacts db1 tab) (run_id r))) = Inr (Some a)"
proof -
  let ?row = "artifact_row_of c k (document a) (version a) a t"
  let ?db1 = "db\<lparr>artifacts := (artifacts db)(tab := artifacts db tab @ [(run_id r, ?row)])\<rparr>"
  have "insert_artifact_row tab (run_id r) ?row db = Inr ?db1"
    using assms(3,5,6) run_at_key [OF assms(2)]
    by (simp add: insert_artifact_row_def insert_row_def has_key_iff artifact_row_of_def)
  moreover have "join_run ?db1 (run_id r) (select_row (artifacts ?db1 tab) (run_id r)) = Some (?row, run_document_id r)"
    using assms(2,6) by (simp add: join_run_def run_at_def run_row_of_def)
  moreover have "read_artifact c k document version e1 e2 (?row, run_document_id r) = Inr a"
    using read_row_stores [where k = k and document = document and a = a and version = version
        and d = "run_document_id r" and t = t and c = c and ?e1.0 = e1 and ?e2.0 = e2] assms(3,4) by simp
  ultimately show ?thesis by (intro exI [where x = ?db1]) simp
qed

lemma join_run_stepped:
  assumes "run_at c db r0" "run_id r = run_id r0" "run_document_id r = run_document_id r0"
  shows "join_run (stepped c r e db) (run_id r0) x = join_run db (run_id r0) x"
  using assms by (cases x) (simp_all add: join_run_def stepped_def select_put_run run_at_def run_row_of_def)

lemma stepped_artifacts [simp]: "artifacts (stepped c r e db) = artifacts db"
  by (simp add: stepped_def)

lemma codec_codings:
  assumes "codec_ok c"
  shows "coding_ok (normalized_json c)" "coding_ok (structured_json c)" "coding_ok (chunked_json c)"
    "coding_ok (analyzed_json c)" "coding_ok (synthesized_json c)" "coding_ok (verified_json c)"
    "coding_ok (summary_json c)"
  using assms by (simp_all add: codec_ok_def)

lemmas edge_simps = is_valid_transition_def transition_arms_def

interpretation normalization: checkpoint_stage c "\<lambda>run a ts. insert_normalized_document c run a (ts 0)"
    "get_normalized_document c" "complete_normalization c" normalized_document_id Normalizing Normalized Normalize 1
  for c
proof unfold_locales
  fix db run r v ws ts and a :: normalized_document
  assume "require_run c db run = Inr r" "run_document_id r = normalized_document_id a"
  then show "complete_normalization c run v a ws ts db =
      res_bind (insert_normalized_document c run a (ts 0) db) (\<lambda>db1.
        transition_in_tx c run Normalizing v Normalized (Some Normalize) None (warnings_patch ws) (ts 1) db1)"
    by (simp add: complete_normalization_def)
next
  fix db r ts and a :: normalized_document
  assume c: "codec_ok c" and "run_at c db r" "normalized_document_id a = run_document_id r"
    "has_key (run_document_id r) (documents db)"
    "\<And>sh. sh \<in> shelves_of Normalized \<Longrightarrow> slot db sh (run_id r) = None"
  then show "\<exists>db1. insert_normalized_document c (run_id r) a (ts 0) db = Inr db1 \<and> get_normalized_document c db1 (run_id r) = Inr (Some a)"
    using artifact_put_ok [OF c, where document = normalized_document_id and tab = NormalizedDocuments and k = "normalized_json c"]
      codec_codings(1) [OF c]
    unfolding insert_normalized_document_def get_normalized_document_def by fastforce
qed (simp_all add: insert_stage_shelved get_normalized_document_def join_run_stepped edge_simps)

interpretation structuring: checkpoint_stage c "\<lambda>run a ts. insert_structured_document c run a (ts 0)"
    "get_structured_document c" "complete_structuring c" structured_document_id Structuring Structured Structure 1
  for c
proof unfold_locales
  fix db run r v ws ts and a :: structured_document
  assume "require_run c db run = Inr r" "run_document_id r = structured_document_id a"
  then show "complete_structuring c run v a ws ts db =
      res_bind (insert_structured_document c run a (ts 0) db) (\<lambda>db1.
        transition_in_tx c run Structuring v Structured (Some Structure) None (warnings_patch ws) (ts 1) db1)"
    by (simp add: complete_structuring_def)
next
  fix db r ts and a :: structured_document
  assume c: "codec_ok c" and "run_at c db r" "structured_document_id a = run_document_id r"
    "has_key (run_document_id r) (documents db)"
    "\<And>sh. sh \<in> shelves_of Structured \<Longrightarrow> slot db sh (run_id r) = None"
  then show "\<exists>db1. insert_structured_document c (run_id r) a (ts 0) db = Inr db1 \<and> get_structured_document c db1 (run_id r) = Inr (Some a)"
    using artifact_put_ok [OF c, where document = structured_document_id and tab = StructuredDocuments and k = "structured_json c"]
      codec_codings(2) [OF c]
    unfolding insert_structured_document_def get_structured_document_def by fastforce
qed (simp_all add: insert_stage_shelved get_structured_document_def join_run_stepped edge_simps)

interpretation chunking: checkpoint_stage c "\<lambda>run a ts. insert_chunked_document c run a (ts 0)"
    "get_chunked_document c" "complete_chunking c" chunked_document_id Chunking Chunked Chunk 1
  for c
proof unfold_locales
  fix db run r v ws ts and a :: chunked_document
  assume "require_run c db run = Inr r" "run_document_id r = chunked_document_id a"
  then show "complete_chunking c run v a ws ts db =
      res_bind (insert_chunked_document c run a (ts 0) db) (\<lambda>db1.
        transition_in_tx c run Chunking v Chunked (Some Chunk) None (warnings_patch ws) (ts 1) db1)"
    by (simp add: complete_chunking_def)
next
  fix db r ts and a :: chunked_document
  assume c: "codec_ok c" and "run_at c db r" "chunked_document_id a = run_document_id r"
    "has_key (run_document_id r) (documents db)"
    "\<And>sh. sh \<in> shelves_of Chunked \<Longrightarrow> slot db sh (run_id r) = None"
  then show "\<exists>db1. insert_chunked_document c (run_id r) a (ts 0) db = Inr db1 \<and> get_chunked_document c db1 (run_id r) = Inr (Some a)"
    using artifact_put_ok [OF c, where document = chunked_document_id and tab = ChunkedDocuments and k = "chunked_json c"]
      codec_codings(3) [OF c]
    unfolding insert_chunked_document_def get_chunked_document_def by fastforce
qed (simp_all add: insert_stage_shelved get_chunked_document_def join_run_stepped edge_simps)

interpretation analysis: checkpoint_stage c "\<lambda>run a ts. insert_analyzed_document c run a (ts 0)"
    "get_analyzed_document c" "complete_analysis c" analyzed_document_id Analyzing Analyzed Analyze 1
  for c
proof unfold_locales
  fix db run r v ws ts and a :: analyzed_document
  assume "require_run c db run = Inr r" "run_document_id r = analyzed_document_id a"
  then show "complete_analysis c run v a ws ts db =
      res_bind (insert_analyzed_document c run a (ts 0) db) (\<lambda>db1.
        transition_in_tx c run Analyzing v Analyzed (Some Analyze) None (warnings_patch ws) (ts 1) db1)"
    by (simp add: complete_analysis_def ensure_run_document_matches_def)
next
  fix db r ts and a :: analyzed_document
  assume c: "codec_ok c" and "run_at c db r" "analyzed_document_id a = run_document_id r"
    "has_key (run_document_id r) (documents db)"
    "\<And>sh. sh \<in> shelves_of Analyzed \<Longrightarrow> slot db sh (run_id r) = None"
  then show "\<exists>db1. insert_analyzed_document c (run_id r) a (ts 0) db = Inr db1 \<and> get_analyzed_document c db1 (run_id r) = Inr (Some a)"
    using artifact_put_ok [OF c, where document = analyzed_document_id and tab = AnalyzedDocuments and k = "analyzed_json c"]
      codec_codings(4) [OF c]
    unfolding insert_analyzed_document_def insert_downstream_artifact_def get_analyzed_document_def get_downstream_artifact_def by fastforce
qed (simp_all add: insert_stage_shelved get_analyzed_document_def get_downstream_artifact_def join_run_stepped edge_simps)

interpretation parsing: checkpoint_stage c "\<lambda>run a ts. insert_parsed_document c run a (ts 0)"
    "get_parsed_document c" "complete_parsing c" parsed_document_id Parsing Parsed Parse 1
  for c
proof unfold_locales
  fix db run r v ws ts and a :: parsed_document
  assume "require_run c db run = Inr r" "run_document_id r = parsed_document_id a"
  then show "complete_parsing c run v a ws ts db = res_bind (insert_parsed_document c run a (ts 0) db) (\<lambda>db1.
      transition_in_tx c run Parsing v Parsed (Some Parse) None (warnings_patch ws) (ts 1) db1)"
    by (simp add: complete_parsing_def)
next
  fix db r ts and a :: parsed_document
  assume c: "codec_ok c" and "run_at c db r" "parsed_document_id a = run_document_id r"
    "has_key (run_document_id r) (documents db)"
    "\<And>sh. sh \<in> shelves_of Parsed \<Longrightarrow> slot db sh (run_id r) = None"
  then show "\<exists>db1. insert_parsed_document c (run_id r) a (ts 0) db = Inr db1
      \<and> get_parsed_document c db1 (run_id r) = Inr (Some a)"
    by (simp add: insert_parsed_document_def insert_row_def has_key_iff run_at_def get_parsed_document_def
        codec_reads [OF c])
qed (simp_all add: insert_parsed_shelved get_parsed_document_def stepped_def edge_simps)

text \<open>The synthesis is stored twice: as the artifact of the run, and as its first attempt.\<close>

definition put_synthesis :: "'j codec \<Rightarrow> string \<Rightarrow> synthesized_document \<Rightarrow> (nat \<Rightarrow> tick) \<Rightarrow> 'j db \<Rightarrow> store_error + 'j db" where
  "put_synthesis c run a ts db =
     res_bind (insert_synthesized_document c run a (ts 0) db) (insert_synthesis_attempt c run 0 a (ts 1))"

lemma put_synthesis_shelved:
  assumes "put_synthesis c run a ts db = Inr db2"
  shows "shelved c db run {ArtifactShelf SynthesizedDocuments, SynthesisShelf} (synthesized_document_id a) db2"
proof -
  from assms obtain db1 where ins: "insert_synthesized_document c run a (ts 0) db = Inr db1"
      "insert_synthesis_attempt c run 0 a (ts 1) db1 = Inr db2"
    by (auto simp: put_synthesis_def res_simps)
  from shelved_trans [OF insert_stage_shelved(5) [OF ins(1)] insert_synthesis_attempt_shelved [OF ins(2) refl]]
  show ?thesis by (simp add: insert_commute)
qed

lemma synthesis_attempt_ok:
  assumes "select_row (summary_synthesis_attempts db) (run, 0) = None" "has_key run (pipeline_runs db)"
    and "has_key (synthesized_document_id a) (documents db)"
  shows "\<exists>rows. insert_synthesis_attempt c run 0 a t db = Inr (db\<lparr>summary_synthesis_attempts := rows\<rparr>)"
  using assms by (simp add: insert_synthesis_attempt_def insert_row_def has_key_iff) blast

lemma join_run_attempts: "join_run (db\<lparr>summary_synthesis_attempts := rows\<rparr>) run x = join_run db run x"
  by (simp add: join_run_def split: option.split)

interpretation synthesis: checkpoint_stage c "put_synthesis c"
    "get_synthesized_document c" "complete_synthesis c" synthesized_document_id Synthesizing Synthesized Synthesize 2
  for c
proof unfold_locales
  fix db run r v ws ts and a :: synthesized_document
  assume "require_run c db run = Inr r" "run_document_id r = synthesized_document_id a"
  then show "complete_synthesis c run v a ws ts db = res_bind (put_synthesis c run a ts db) (\<lambda>db1.
      transition_in_tx c run Synthesizing v Synthesized (Some Synthesize) None (warnings_patch ws) (ts 2) db1)"
    by (cases "insert_synthesized_document c run a (ts 0) db")
      (simp_all add: complete_synthesis_def ensure_run_document_matches_def put_synthesis_def)
next
  fix db r and ts :: "nat \<Rightarrow> tick" and a :: synthesized_document
  assume c: "codec_ok c" and r: "run_at c db r" and d: "synthesized_document_id a = run_document_id r"
    and doc: "has_key (run_document_id r) (documents db)"
    and free: "\<And>sh. sh \<in> shelves_of Synthesized \<Longrightarrow> slot db sh (run_id r) = None"
  from artifact_put_ok [OF c r, where document = synthesized_document_id and tab = SynthesizedDocuments
      and k = "synthesized_json c"] d doc free codec_codings(5) [OF c]
  obtain db1 where one: "insert_synthesized_document c (run_id r) a (ts 0) db = Inr db1"
      "pipeline_runs db1 = pipeline_runs db" "documents db1 = documents db"
      "summary_synthesis_attempts db1 = summary_synthesis_attempts db"
      "get_synthesized_document c db1 (run_id r) = Inr (Some a)"
    unfolding insert_synthesized_document_def insert_downstream_artifact_def get_synthesized_document_def
      get_downstream_artifact_def by fastforce
  have "select_row (summary_synthesis_attempts db1) (run_id r, 0) = None" using free [of SynthesisShelf] one(4) by simp
  from synthesis_attempt_ok [OF this] run_at_key [OF r] one(2,3) d doc obtain rows
    where "insert_synthesis_attempt c (run_id r) 0 a (ts 1) db1 = Inr (db1\<lparr>summary_synthesis_attempts := rows\<rparr>)"
    by fastforce
  then show "\<exists>db1. put_synthesis c (run_id r) a ts db = Inr db1 \<and> get_synthesized_document c db1 (run_id r) = Inr (Some a)"
    using one(1,5) by (simp add: put_synthesis_def get_synthesized_document_def get_downstream_artifact_def join_run_attempts)
qed (auto simp: put_synthesis_shelved get_synthesized_document_def get_downstream_artifact_def
      join_run_stepped edge_simps)

end
