(* ===== verification/Store_Sample.thy ===== *)
theory Store_Sample
  imports Store_Stage
begin

text \<open>
  A concrete codec and a concrete history: one document admitted, taken through all stages and
  completed, with the database after every operation. The properties of the store are exercised on it.
\<close>

section \<open>A codec\<close>

datatype sample_text =
    JState pipeline_state | JStage pipeline_stage | JProgress pipeline_progress
  | JWarnings "pipeline_warning list" | JFailure pipeline_failure | JTime timestamp
  | JCheckpoint retry_checkpoint | JModel model_profile_snapshot | JSummaryProfile summary_profile
  | JParsed parsed_document | JNormalized normalized_document | JStructured structured_document
  | JChunked chunked_document | JAnalyzed analyzed_document | JSynthesized synthesized_document
  | JVerified verified_document | JSummary summary_artifact | JCitation citation_artifact

definition sample_codec :: "sample_text codec" where
  "sample_codec = \<lparr>
     state_json = \<lparr>enc = JState, dec = (\<lambda>t. case t of JState x \<Rightarrow> Some x | _ \<Rightarrow> None)\<rparr>,
     stage_json = \<lparr>enc = JStage, dec = (\<lambda>t. case t of JStage x \<Rightarrow> Some x | _ \<Rightarrow> None)\<rparr>,
     progress_json = \<lparr>enc = JProgress, dec = (\<lambda>t. case t of JProgress x \<Rightarrow> Some x | _ \<Rightarrow> None)\<rparr>,
     warnings_json = \<lparr>enc = JWarnings, dec = (\<lambda>t. case t of JWarnings x \<Rightarrow> Some x | _ \<Rightarrow> None)\<rparr>,
     failure_json = \<lparr>enc = JFailure, dec = (\<lambda>t. case t of JFailure x \<Rightarrow> Some x | _ \<Rightarrow> None)\<rparr>,
     time_text = \<lparr>enc = JTime, dec = (\<lambda>t. case t of JTime x \<Rightarrow> Some x | _ \<Rightarrow> None)\<rparr>,
     checkpoint_json = \<lparr>enc = JCheckpoint, dec = (\<lambda>t. case t of JCheckpoint x \<Rightarrow> Some x | _ \<Rightarrow> None)\<rparr>,
     model_profile_json = \<lparr>enc = JModel, dec = (\<lambda>t. case t of JModel x \<Rightarrow> Some x | _ \<Rightarrow> None)\<rparr>,
     summary_profile_json = \<lparr>enc = JSummaryProfile, dec = (\<lambda>t. case t of JSummaryProfile x \<Rightarrow> Some x | _ \<Rightarrow> None)\<rparr>,
     parsed_json = \<lparr>enc = JParsed, dec = (\<lambda>t. case t of JParsed x \<Rightarrow> Some x | _ \<Rightarrow> None)\<rparr>,
     normalized_json = \<lparr>enc = JNormalized, dec = (\<lambda>t. case t of JNormalized x \<Rightarrow> Some x | _ \<Rightarrow> None)\<rparr>,
     structured_json = \<lparr>enc = JStructured, dec = (\<lambda>t. case t of JStructured x \<Rightarrow> Some x | _ \<Rightarrow> None)\<rparr>,
     chunked_json = \<lparr>enc = JChunked, dec = (\<lambda>t. case t of JChunked x \<Rightarrow> Some x | _ \<Rightarrow> None)\<rparr>,
     analyzed_json = \<lparr>enc = JAnalyzed, dec = (\<lambda>t. case t of JAnalyzed x \<Rightarrow> Some x | _ \<Rightarrow> None)\<rparr>,
     synthesized_json = \<lparr>enc = JSynthesized, dec = (\<lambda>t. case t of JSynthesized x \<Rightarrow> Some x | _ \<Rightarrow> None)\<rparr>,
     verified_json = \<lparr>enc = JVerified, dec = (\<lambda>t. case t of JVerified x \<Rightarrow> Some x | _ \<Rightarrow> None)\<rparr>,
     summary_json = \<lparr>enc = JSummary, dec = (\<lambda>t. case t of JSummary x \<Rightarrow> Some x | _ \<Rightarrow> None)\<rparr>,
     citation_json = \<lparr>enc = JCitation, dec = (\<lambda>t. case t of JCitation x \<Rightarrow> Some x | _ \<Rightarrow> None)\<rparr>,
     sha_text = (\<lambda>_. ''sha''), sha_bytes = (\<lambda>_. replicate 64 CHR ''a''),
     canonical_hash = (\<lambda>_. ''hash''), streamed_request = (\<lambda>_. False)\<rparr>"

lemma sample_codec_ok [simp]: "codec_ok sample_codec"
  by (simp add: codec_ok_def coding_ok_def sample_codec_def)

section \<open>A history\<close>

definition sample_document :: ingested_document where
  "sample_document = \<lparr>document_id = ''doc'', original_filename = ''a.pdf'', file_type = ''pdf'',
     document_source_type = NativeText, byte_size = 3, content_hash = replicate 64 CHR ''a'',
     local_source_path = ''/a.pdf'', document_created_at = 0\<rparr>"

definition sample_profile :: model_profile_snapshot where
  "sample_profile =
     (let stage = \<lparr>stage_runtime_kind = LlamaCppGguf, stage_profile_id = ''p'', stage_model_name = ''m'',
                   stage_model_digest = ''d'', stage_context_tokens = 4096, stage_tokenizer_version = ''t''\<rparr>
      in \<lparr>profile_version = 1, preset_id = ''preset'', analysis_profile = stage, verification_profile = stage\<rparr>)"

text \<open>The identifier and the time of the \<open>n\<close>-th call.\<close>

definition uuid :: "nat \<Rightarrow> string" where
  "uuid n = replicate n CHR ''x''"

lemma uuid_inj [simp]: "uuid m = uuid n \<longleftrightarrow> m = n"
  by (simp add: uuid_def)

definition ticks :: "nat \<Rightarrow> nat \<Rightarrow> tick" where
  "ticks k n = \<lparr>now = int k, fresh_uuid = uuid (8 * k + n)\<rparr>"

lemma ticks_sel [simp]: "now (ticks k n) = int k" "fresh_uuid (ticks k n) = uuid (8 * k + n)"
  by (simp_all add: ticks_def)

definition demo_parsed :: parsed_document where
  "demo_parsed = \<lparr>parsed_document_id = ''doc'', parser_id = ''pdf'', parser_version = ''1'',
     parsed_source_type = NativeText, parsed_pages = [], parsed_warnings = []\<rparr>"

definition demo_normalized :: normalized_document where
  "demo_normalized = \<lparr>normalized_document_id = ''doc'', normalization_version = ''1'',
     normalized_pages = [], normalized_warnings = []\<rparr>"

definition demo_structured :: structured_document where
  "demo_structured = \<lparr>structured_document_id = ''doc'', structure_version = ''1'', structured_pages = [],
     structured_nodes = [], structured_warnings = []\<rparr>"

definition demo_chunked :: chunked_document where
  "demo_chunked = \<lparr>chunked_document_id = ''doc'', chunking_version = ''1'', chunks = [], chunked_warnings = []\<rparr>"

definition demo_analyzed :: analyzed_document where
  "demo_analyzed = \<lparr>analyzed_document_id = ''doc'', analysis_version = ''1'', analyzed_runtime_id = ''rt'',
     analyzed_model_id = ''m'', analyzed_chunks = [], analyzed_warnings = [], omissions = [], inspected_pages = []\<rparr>"

definition demo_synthesized :: synthesized_document where
  "demo_synthesized = \<lparr>synthesized_extraction = None, synthesized_document_id = ''doc'', synthesis_version = ''1'',
     synthesized_runtime_id = ''rt'', synthesized_model_id = ''m'', synthesized_presentation = Coherent,
     synthesized_text = ''s'', synthesized_chunk_ids = [], synthesized_summary_claims = [],
     synthesized_evidence = [], synthesized_claims = [], synthesized_warnings = []\<rparr>"

definition demo_verified :: verified_document where
  "demo_verified = \<lparr>verified_extraction = None, verified_document_id = ''doc'', verification_version = ''1'',
     synthesis_attempt_ordinal = 0, verified_runtime_id = ''rt'', verified_model_id = ''m'',
     verified_presentation = Coherent, verified_text = ''s'', verified_chunk_ids = [],
     verified_summary_claims = [], verified_evidence = [], summary_claim_verifications = [],
     verified_claims = [], claim_verifications = [], key_point_claim_ids = [], verified_warnings = []\<rparr>"

definition demo_summary :: summary_artifact where
  "demo_summary = \<lparr>summary_extraction = None, summary_document_id = ''doc'', summary_version = ''1'',
     summary_text = ''s'', summary_warnings = [], summary_created_at = 0, integrity_hash = ''hash''\<rparr>"

definition demo_citations :: citation_artifact where
  "demo_citations = \<lparr>citation_extraction = None, citation_document_id = ''doc'', citation_version = ''1'',
     summary_integrity_hash = ''hash'', rendered_text = ''s'', citation_presentation = Coherent,
     citation_summary_claims = [], citation_claims = [], citation_evidence = [], citation_created_at = 0,
     citation_integrity_hash = ''hash''\<rparr>"

fun committed :: "store_error + 'x \<times> 'j db \<Rightarrow> store_error + 'j db" where
  "committed (Inl e) = Inl e"
| "committed (Inr (_, db)) = Inr db"

definition demo_ops :: "(sample_text db \<Rightarrow> store_error + sample_text db) list" where
  "demo_ops =
     [committed \<circ> persist_ingestion_with_profiles sample_codec sample_document sample_run (Some sample_profile)
        General (ticks 0),
      committed \<circ> start_parsing sample_codec ''run'' 3 (ticks 1 0),
      committed \<circ> complete_parsing sample_codec ''run'' 4 demo_parsed [] (ticks 2),
      committed \<circ> start_normalizing sample_codec ''run'' 5 (ticks 3 0),
      committed \<circ> complete_normalization sample_codec ''run'' 6 demo_normalized [] (ticks 4),
      committed \<circ> start_structuring sample_codec ''run'' 7 (ticks 5 0),
      committed \<circ> complete_structuring sample_codec ''run'' 8 demo_structured [] (ticks 6),
      committed \<circ> start_chunking sample_codec ''run'' 9 (ticks 7 0),
      committed \<circ> complete_chunking sample_codec ''run'' 10 demo_chunked [] (ticks 8),
      committed \<circ> start_analysis sample_codec ''run'' 11 (ticks 9 0),
      committed \<circ> complete_analysis sample_codec ''run'' 12 demo_analyzed [] (ticks 10),
      committed \<circ> start_synthesis sample_codec ''run'' 13 (ticks 11 0),
      committed \<circ> complete_synthesis sample_codec ''run'' 14 demo_synthesized [] (ticks 12),
      committed \<circ> start_verification sample_codec ''run'' 15 (ticks 13 0),
      committed \<circ> complete_verification sample_codec ''run'' 16 0 demo_verified [] (ticks 14),
      committed \<circ> complete_summary sample_codec ''run'' 17 demo_summary demo_citations (ticks 15)]"

definition demo :: "nat \<Rightarrow> sample_text db" where
  "demo n = (case res_fold (\<lambda>db f. f db) empty_db (take n demo_ops) of Inr db \<Rightarrow> db | Inl _ \<Rightarrow> empty_db)"

lemmas demo_defs = sample_codec_def sample_document_def sample_run_def empty_db_def

lemmas op_defs = persist_ingestion_with_profiles_def new_run_guard_def
      persist_ingestion_in_transaction_def insert_document_def document_row_of_def source_type_to_storage_def
      insert_row_def has_key_def Let_def persist_received_run_to_ingested_def insert_pipeline_run_def run_row_of_def
      insert_pipeline_event_def event_row_of_def to_json_def to_rfc3339_def request_owner_row_def
      transition_in_tx_def require_run_def get_pipeline_run_def select_row_def read_run_def from_json_def parse_timestamp_def
      next_sequence_def events_of_def u32_try_from_def transition_def is_valid_transition_def transition_arms_def
      checked_add_u32_def apply_patch_def no_patch_def update_where_def set_run_columns_def
      ensure_run_summary_profile_def ensure_run_model_profile_def

lemmas stage_op_defs = start_parsing_def complete_parsing_def start_normalizing_def complete_normalization_def
  start_structuring_def complete_structuring_def start_chunking_def complete_chunking_def start_analysis_def
  complete_analysis_def start_synthesis_def complete_synthesis_def start_verification_def complete_verification_def
  complete_summary_def require_document_def get_document_def read_document_def source_type_from_storage_def
  insert_parsed_document_def warnings_patch_def get_parsed_document_def has_ocr_handoff_for_root_def
  insert_normalized_document_def insert_structured_document_def insert_chunked_document_def insert_downstream_artifact_def
  insert_analyzed_document_def insert_synthesized_document_def insert_verified_document_def insert_synthesis_attempt_def
  insert_verification_attempt_def insert_summary_artifact_def insert_citation_artifact_def insert_artifact_row_def
  artifact_row_of_def ensure_run_document_matches_def ensure_attempt_ordinal_def summary_outcome_def
  summary_integrity_def citation_integrity_def get_normalized_document_def get_structured_document_def
  get_chunked_document_def get_downstream_artifact_def get_analyzed_document_def get_synthesized_document_def
  get_verified_document_def read_artifact_def join_run_def

lemmas demo_simps = demo_def demo_ops_def demo_defs op_defs stage_op_defs demo_parsed_def demo_normalized_def
  demo_structured_def demo_chunked_def demo_analyzed_def demo_synthesized_def demo_verified_def demo_summary_def
  demo_citations_def

lemma committed_Inr: "committed m = Inr db \<longleftrightarrow> (\<exists>x. m = Inr (x, db))"
  by (cases m) auto

lemma demo_ops_step:
  assumes "f \<in> set demo_ops" "f db = Inr db'"
  shows "store_step sample_codec db db'"
  using assms unfolding demo_ops_def
  by (simp only: list.set insert_iff empty_iff comp_apply) (elim disjE; auto simp: committed_Inr intro: store_step.intros)

lemma fold_steps:
  assumes "\<And>f db db'. f \<in> set fs \<Longrightarrow> f db = Inr db' \<Longrightarrow> store_step c db db'"
    and "res_fold (\<lambda>db f. f db) db0 fs = Inr db"
  shows "(store_step c)\<^sup>*\<^sup>* db0 db"
  using assms
proof (induction fs arbitrary: db0)
  case (Cons f fs)
  from Cons.prems(2) obtain db1 where one: "f db0 = Inr db1" "res_fold (\<lambda>db f. f db) db1 fs = Inr db"
    by (auto simp: res_simps)
  have "store_step c db0 db1" using Cons.prems(1) [of f db0 db1] one(1) by simp
  moreover have "store_step c d d'" if "g \<in> set fs" "g d = Inr d'" for g d d'
    by (rule Cons.prems(1) [of g d d']) (use that in simp_all)
  ultimately show ?case using Cons.IH one(2) by (meson converse_rtranclp_into_rtranclp)
qed simp

text \<open>The sixteen operations succeed one after the other.\<close>

lemma demo_runs: "\<exists>db. res_fold (\<lambda>db f. f db) empty_db demo_ops = Inr db"
  by (simp add: demo_simps)

lemma res_fold_app:
  "res_fold f s (xs @ ys) = res_bind (res_fold f s xs) (\<lambda>s'. res_fold f s' ys)"
proof (induction xs arbitrary: s)
  case (Cons x xs)
  then show ?case by (cases "f s x") simp_all
qed simp

lemma demo_prefix: "res_fold (\<lambda>db f. f db) empty_db (take n demo_ops) = Inr (demo n)"
proof -
  have "res_fold (\<lambda>db f. f db) empty_db (take n demo_ops @ drop n demo_ops) \<noteq> Inl e" for e using demo_runs by auto
  then show ?thesis
    by (cases "res_fold (\<lambda>db f. f db) empty_db (take n demo_ops)") (auto simp: res_fold_app demo_def simp del: append_take_drop_id)
qed

lemma demo_steps:
  assumes "m \<le> n"
  shows "(store_step sample_codec)\<^sup>*\<^sup>* (demo m) (demo n)"
proof -
  let ?rest = "take (n - m) (drop m demo_ops)"
  have "take n demo_ops = take m demo_ops @ ?rest" using take_add [of m "n - m" demo_ops] assms by simp
  then have "res_fold (\<lambda>db f. f db) (demo m) ?rest = Inr (demo n)"
    using demo_prefix [of n] res_fold_app [of "\<lambda>db f. f db" empty_db "take m demo_ops" ?rest] by (simp add: demo_prefix)
  then show ?thesis
    by (rule fold_steps [rotated]) (auto dest: in_set_dropD in_set_takeD intro: demo_ops_step)
qed

lemma demo_reachable [simp]: "reachable_store sample_codec (demo n)"
  using demo_steps [of 0 n] demo_prefix [of 0] by simp

text \<open>The run after four and after all sixteen operations.\<close>

lemma demo_normalizing:
  "\<exists>r. get_pipeline_run sample_codec (demo 4) ''run'' = Inr (Some r) \<and> run_state r = Normalizing
     \<and> state_version r = 6 \<and> run_document_id r = ''doc''"
  by (simp add: demo_simps)

lemma demo_complete:
  "\<exists>r. get_pipeline_run sample_codec (demo 16) ''run'' = Inr (Some r) \<and> run_state r = Complete \<and> state_version r = 18"
  by (simp add: demo_simps)

end
