(* ===== verification/Store_Refine.thy ===== *)
theory Store_Refine
  imports Store_Sample
begin

text \<open>
  The abstract specification of the store, a map from runs to the states they have been in, and the
  proof that every transaction refines it.
\<close>

section \<open>The specification\<close>

type_synonym histories = "string \<Rightarrow> pipeline_state list"

inductive history_step :: "histories \<Rightarrow> histories \<Rightarrow> bool" where
  created: "h run = [] \<Longrightarrow> history_step h (h(run := [Received]))"
| advanced: "h run \<noteq> [] \<Longrightarrow> is_valid_transition (last (h run)) n \<Longrightarrow> history_step h (h(run := h run @ [n]))"

inductive_cases history_stepE: "history_step h h'"

text \<open>The state of the specification a database represents.\<close>

definition histories :: "'j codec \<Rightarrow> 'j db \<Rightarrow> histories" where
  "histories c db run = (case list_pipeline_events c db run of Inr es \<Rightarrow> map next_state es | Inl _ \<Rightarrow> [])"

text \<open>What the specification promises by itself.\<close>

definition lawful :: "histories \<Rightarrow> bool" where
  "lawful h \<longleftrightarrow> (\<forall>run. valid_trace (h run) \<and> (h run \<noteq> [] \<longrightarrow> hd (h run) = Received))"

lemma history_step_lawful: "history_step h h' \<Longrightarrow> lawful h \<Longrightarrow> lawful h'"
  by (induction rule: history_step.induct) (auto simp: lawful_def valid_trace_snoc)

lemma history_steps_lawful: "history_step\<^sup>*\<^sup>* h h' \<Longrightarrow> lawful h \<Longrightarrow> lawful h'"
  by (induction rule: rtranclp_induct) (auto intro: history_step_lawful)

section \<open>The refinement\<close>

lemma histories_log:
  assumes "codec_ok c" "log_at c db run es" "log_ok r es"
  shows "histories c db run = map next_state es"
  using list_events_log [OF assms] by (simp add: histories_def)

lemma histories_none:
  assumes "codec_ok c" "events_of run db = []"
  shows "histories c db run = []"
  using read_events [OF assms(1), of "[]"] assms(2) by (simp add: histories_def list_pipeline_events_def)

lemma histories_cong:
  assumes "events_of run db' = events_of run db"
  shows "histories c db' run = histories c db run"
  using assms by (simp add: histories_def list_pipeline_events_def)

lemma histories_upd:
  assumes "\<And>k. k \<noteq> run \<Longrightarrow> events_of k db' = events_of k db" "histories c db' run = ss"
  shows "histories c db' = (histories c db)(run := ss)"
  using histories_cong [OF assms(1)] assms(2) by (simp add: fun_eq_iff)

lemma effect_refines:
  assumes "codec_ok c" "effect c db db'" "store_ok c db"
  shows "history_step\<^sup>=\<^sup>= (histories c db) (histories c db')"
  using assms(2)
proof cases
  case keep
  then have "histories c db' = histories c db" using runs_ok_cong(3) histories_cong by (metis ext)
  then show ?thesis by simp
next
  case (document d)
  then have "pipeline_events db' = pipeline_events db" by (auto simp: insert_document_def Let_def res_simps)
  then have "histories c db' = histories c db" by (intro ext histories_cong) (simp add: events_of_def)
  then show ?thesis by simp
next
  case (admit r db1 reason t)
  note eff = admit_effect [OF admit(1,2)]
  let ?e = "creation_event r reason t"
  have ev: "events_of k db' = events_of k db @ (if k = run_id r then [event_entry c ?e] else [])" for k
    by (simp add: events_of_def eff(5) event_entry_def event_row_of_def creation_event_def)
  have none: "events_of (run_id r) db = []"
    using store_okD(1) [OF assms(3)] eff(1) by (simp add: runs_ok_def has_key_iff)
  have "log_at c db' (run_id r) [?e]" by (simp add: log_at_def ev none)
  moreover have "log_ok r [?e]" using admit(3,4) by (simp add: log_ok_def creation_event_def)
  ultimately have "histories c db' (run_id r) = [Received]"
    using histories_log [OF assms(1)] by (simp add: creation_event_def)
  then have "histories c db' = (histories c db)(run_id r := [Received])" by (intro histories_upd) (simp_all add: ev)
  moreover have "histories c db (run_id r) = []" by (rule histories_none [OF assms(1) none])
  ultimately show ?thesis using created by simp
next
  case (advance run r S db1 s v n st rs p t r')
  note sh = shelvedD [OF advance(2)]
  note cong = runs_ok_cong [OF sh(1,2)]
  have runs1: "runs_ok c db1" using store_okD(1) [OF assms(3)] cong(4) by simp
  from transition_in_txE [OF assms(1) runs1 advance(3)] obtain q ev r1 and es :: "pipeline_event list"
    where q: "run_id q = run" "run_at c db1 q" "log_at c db1 run es" "log_ok q es" "flags_ok q"
      and step: "transition q s n v (word_of_nat (length es)) st rs t = Inr (ev, r1)"
      and fresh: "\<not> has_key (event_id ev) (pipeline_events db1)"
      and r': "r' = apply_patch p r1" and db': "db' = stepped c r' ev db1" .
  have ids: "event_run_id ev = run" "next_state ev = n" "is_valid_transition (run_state q) n"
    using step q(1) by (auto simp: transition_Inr_iff)
  have "log_at c db' run (es @ [ev])" using log_at_stepped [OF q(3), of r' ev] ids(1) by (simp add: db')
  from histories_log [OF assms(1) this] log_ok_step [OF q(4) step, of p]
  have now: "histories c db' run = map next_state es @ [n]" using ids(2) by simp
  have before: "histories c db run = map next_state es"
    using histories_log [OF assms(1) _ q(4)] q(3) cong(2) by simp
  have "events_of k db' = events_of k db" if "k \<noteq> run" for k
    using that sh(2) ids(1) by (simp add: db' stepped_def events_of_def event_entry_def event_row_of_def)
  then have "histories c db' = (histories c db)(run := histories c db run @ [n])"
    using now before by (intro histories_upd) simp_all
  moreover have "histories c db run \<noteq> []" "last (histories c db run) = run_state q"
    using log_trace [OF q(4)] before by simp_all
  ultimately show ?thesis using advanced [of "histories c db" run n] ids(3) by simp
qed

lemma effects_refine:
  assumes "codec_ok c" "effects c db db'" "store_ok c db"
  shows "history_step\<^sup>*\<^sup>* (histories c db) (histories c db')"
  using assms(2,3)
proof (induction rule: rtranclp_induct)
  case (step db1 db2)
  have "store_ok c db1" by (rule effects_store_ok [OF assms(1) step(1) assms(3)])
  from effect_refines [OF assms(1) step(2) this] step(3) [OF assms(3)] show ?case by auto
qed simp

text \<open>
  C20. Every transaction of the store refines the specification in which a run is the list of the states
  it has been in: seen through the events, a transaction creates runs in the state Received and extends
  histories by edges of the transition table, and does nothing else to them. Hence every history in a
  reachable database is a path of the table from Received.
\<close>

theorem store_refines_histories:
  assumes "codec_ok c" "reachable_store c db"
  shows "lawful (histories c db) \<and> (\<forall>db'. store_step c db db' \<longrightarrow> history_step\<^sup>*\<^sup>* (histories c db) (histories c db'))"
proof -
  have "histories c empty_db = (\<lambda>_. [])"
    by (intro ext histories_none [OF assms(1)]) (simp add: events_of_def empty_db_def)
  then have "lawful (histories c empty_db)" by (simp add: lawful_def)
  moreover have "history_step\<^sup>*\<^sup>* (histories c empty_db) (histories c db)"
    by (rule effects_refine [OF assms(1) steps_effects [OF assms(2)] store_ok_empty])
  ultimately have "lawful (histories c db)" using history_steps_lawful by blast
  moreover have "history_step\<^sup>*\<^sup>* (histories c db) (histories c db')" if "store_step c db db'" for db'
    by (rule effects_refine [OF assms(1) store_step_effects [OF that] reachable_store_ok [OF assms]])
  ultimately show ?thesis by blast
qed

lemma store_refines_histories_witness:
  "lawful (histories sample_codec (demo 16)) \<and> last (histories sample_codec (demo 1) ''run'') = Ingested"
proof -
  have "last (histories sample_codec (demo 1) ''run'') = Ingested"
    by (simp add: demo_simps histories_def list_pipeline_events_def read_event_def
        res_collect_def)
  then show ?thesis using store_refines_histories [OF sample_codec_ok demo_reachable] by blast
qed

end
