(* ===== verification/Store_Correct.thy ===== *)
theory Store_Correct
  imports Store_Sample
begin

text \<open>
  What the transactions of the store guarantee to every other part of the program, whatever the order
  in which they commit: the history of a run, the artifacts of its checkpoints, what can never change,
  and which operations cannot be refused.
\<close>

section \<open>Lemmas\<close>

lemma reachable_grows:
  assumes "codec_ok c" "reachable_store c db" "(store_step c)\<^sup>*\<^sup>* db db'"
  shows "grows c db db'" "store_ok c db" "store_ok c db'"
  using effects_grow [OF assms(1) steps_effects [OF assms(3)]] reachable_store_ok [OF assms(1,2)] by simp_all

lemma reachable_run:
  assumes "codec_ok c" "reachable_store c db" "get_pipeline_run c db run = Inr (Some r)"
  obtains es :: "pipeline_event list"
    where "store_ok c db" "run_id r = run" "run_at c db r" "log_at c db run es" "log_ok r es" "flags_ok r"
      "list_pipeline_events c db run = Inr es" "\<forall>sh. shelf_ok c db r es sh"
proof -
  note ok = store_okD [OF reachable_store_ok [OF assms(1,2)]]
  from assms(3) have r: "run_id r = run" "run_at c db r" by (simp_all add: get_run_iff [OF assms(1) ok(1)])
  from runs_okE [OF ok(1) run_at_key [OF r(2)]] obtain q es
    where q: "run_id q = run_id r" "run_at c db q" "log_at c db (run_id r) es" "log_ok q es" "flags_ok q" .
  have "q = r" by (rule run_at_det [OF assms(1) q(2) r(2) q(1)])
  moreover have "shelf_ok c db r es sh" for sh using ok(3) r(2) q(3) by (simp add: shelves_ok_def)
  ultimately show ?thesis
    using that [of es] reachable_store_ok [OF assms(1,2)] r q list_events_log [OF assms(1) q(3,4)] by simp
qed

lemma grows_run:
  assumes "grows c db db'" "run_at c db r"
  obtains r' where "run_at c db' r'" "run_grows r r'"
  using assms unfolding grows_def by blast

lemma row_kept:
  assumes "grows c db db'"
  shows "select_row (artifacts db tab) k = Some row \<Longrightarrow> select_row (artifacts db' tab) k = Some row"
    and "select_row (summary_synthesis_attempts db) (k, 0) = Some row \<Longrightarrow>
      select_row (summary_synthesis_attempts db') (k, 0) = Some row"
    and "select_row (citation_artifacts db) k = Some crow \<Longrightarrow> select_row (citation_artifacts db') k = Some crow"
    and "select_row (parsed_documents db) k = Some prow \<Longrightarrow> select_row (parsed_documents db') k = Some prow"
proof -
  have kept: "slot db sh k = Some x \<Longrightarrow> slot db' sh k = Some x" for sh x using assms unfolding grows_def by blast
  show "select_row (artifacts db tab) k = Some row \<Longrightarrow> select_row (artifacts db' tab) k = Some row"
    using kept [of "ArtifactShelf tab" "ArtifactSlot row"] by auto
  show "select_row (summary_synthesis_attempts db) (k, 0) = Some row \<Longrightarrow>
      select_row (summary_synthesis_attempts db') (k, 0) = Some row"
    using kept [of SynthesisShelf "ArtifactSlot row"] by auto
  show "select_row (citation_artifacts db) k = Some crow \<Longrightarrow> select_row (citation_artifacts db') k = Some crow"
    using kept [of CitationShelf "CitationSlot crow"] by auto
  show "select_row (parsed_documents db) k = Some prow \<Longrightarrow> select_row (parsed_documents db') k = Some prow"
    using kept [of ParsedShelf "ParsedSlot prow"] by auto
qed

lemma joined_kept:
  assumes "grows c db db'" "run_at c db r" "run_id r = run"
  shows "join_run db run (select_row (artifacts db tab) run) = Some y \<Longrightarrow>
      join_run db' run (select_row (artifacts db' tab) run) = Some y"
    and "join_run db run (select_row (citation_artifacts db) run) = Some z \<Longrightarrow>
      join_run db' run (select_row (citation_artifacts db') run) = Some z"
proof -
  from grows_run [OF assms(1,2)] obtain r' where r': "run_at c db' r'" "run_grows r r'" .
  then have same: "run_id r' = run" "run_document_id r' = run_document_id r" using assms(3) by (simp_all add: run_grows_def)
  note at = join_run_at [OF assms(2), unfolded assms(3)] join_run_at [OF r'(1), unfolded same]
  show "join_run db run (select_row (artifacts db tab) run) = Some y \<Longrightarrow>
      join_run db' run (select_row (artifacts db' tab) run) = Some y"
    using row_kept(1) [OF assms(1), of tab run] by (auto simp: at)
  show "join_run db run (select_row (citation_artifacts db) run) = Some z \<Longrightarrow>
      join_run db' run (select_row (citation_artifacts db') run) = Some z"
    using row_kept(3) [OF assms(1), of run] by (auto simp: at)
qed

lemma get_summary_Some_iff:
  "get_summary_artifact c db run = Inr (Some a) \<longleftrightarrow>
     get_downstream_artifact c (summary_json c) summary_document_id summary_version SummaryArtifacts ''summary'' db run
       = Inr (Some a) \<and> summary_integrity (canonical_hash c) a = integrity_hash a"
  by (cases "get_downstream_artifact c (summary_json c) summary_document_id summary_version SummaryArtifacts
        ''summary'' db run") (auto simp: get_summary_artifact_def split: option.splits if_splits)

lemma readers_kept:
  assumes "grows c db db'" "run_at c db r" "run_id r = run"
  shows "get_parsed_document c db run = Inr (Some a1) \<Longrightarrow> get_parsed_document c db' run = Inr (Some a1)"
    and "get_normalized_document c db run = Inr (Some a2) \<Longrightarrow> get_normalized_document c db' run = Inr (Some a2)"
    and "get_structured_document c db run = Inr (Some a3) \<Longrightarrow> get_structured_document c db' run = Inr (Some a3)"
    and "get_chunked_document c db run = Inr (Some a4) \<Longrightarrow> get_chunked_document c db' run = Inr (Some a4)"
    and "get_analyzed_document c db run = Inr (Some a5) \<Longrightarrow> get_analyzed_document c db' run = Inr (Some a5)"
    and "get_synthesized_document c db run = Inr (Some a6) \<Longrightarrow> get_synthesized_document c db' run = Inr (Some a6)"
    and "get_verified_document c db run = Inr (Some a7) \<Longrightarrow> get_verified_document c db' run = Inr (Some a7)"
    and "get_summary_artifact c db run = Inr (Some a8) \<Longrightarrow> get_summary_artifact c db' run = Inr (Some a8)"
    and "get_citation_artifact c db run = Inr (Some a9) \<Longrightarrow> get_citation_artifact c db' run = Inr (Some a9)"
  using joined_kept [OF assms] row_kept(4) [OF assms(1), of run]
  by (auto simp: get_parsed_document_def get_normalized_document_def get_structured_document_def
      get_chunked_document_def get_analyzed_document_def get_synthesized_document_def get_verified_document_def
      get_summary_Some_iff get_downstream_artifact_def get_citation_artifact_def transpose_map_Inr_iff)

section \<open>Histories\<close>

text \<open>
  C16. In every database the transactions can produce, a run either does not exist and has no events, or
  it reads back together with its complete history: the events are numbered from zero without gaps, as
  many as the version says, they begin with the creation of the run and end in its present state,
  every event continues the one before it by an edge of the transition table; a run that is being
  cancelled carries the request, and a failed run its failure.
\<close>

theorem stored_history:
  assumes "codec_ok c" "reachable_store c db"
  shows "(get_pipeline_run c db run = Inr None \<and> list_pipeline_events c db run = Inr [])
    \<or> (\<exists>r es. get_pipeline_run c db run = Inr (Some r) \<and> run_id r = run \<and> list_pipeline_events c db run = Inr es
         \<and> length es = unat (state_version r) \<and> map (unat \<circ> sequence_no) es = [0..<length es]
         \<and> es \<noteq> [] \<and> previous_state (hd es) = None \<and> next_state (hd es) = Received \<and> next_state (last es) = run_state r
         \<and> (\<forall>i. Suc i < length es \<longrightarrow> previous_state (es ! Suc i) = Some (next_state (es ! i))
              \<and> is_valid_transition (next_state (es ! i)) (next_state (es ! Suc i)))
         \<and> (run_state r \<in> {Cancelling, Cancelled} \<longrightarrow> cancellation_requested r)
         \<and> (run_state r = Failed \<longrightarrow> run_failure r \<noteq> None))"
proof (cases "has_key run (pipeline_runs db)")
  case True
  note runs = store_okD(1) [OF reachable_store_ok [OF assms]]
  from True runs obtain r where "run_id r = run" "run_at c db r" using runs_okE by metis
  then have r: "get_pipeline_run c db run = Inr (Some r)" using get_run_at(1) [OF assms(1)] by blast
  from reachable_run [OF assms r] obtain es :: "pipeline_event list" where "store_ok c db" "run_id r = run" "run_at c db r" "log_at c db run es"
      "log_ok r es" "flags_ok r" "list_pipeline_events c db run = Inr es" "\<forall>sh. shelf_ok c db r es sh" .
  then show ?thesis using r
    by (intro disjI2 exI [where x = r] exI [where x = es])
      (simp add: log_ok_def flags_ok_def successively_conv_nth follows_def)
next
  case False
  note runs = store_okD(1) [OF reachable_store_ok [OF assms]]
  have "get_pipeline_run c db run = Inr None" using get_run_iff(2) [OF assms(1) runs] False by simp
  moreover have "events_of run db = []" using runs False by (simp add: runs_ok_def)
  then have "list_pipeline_events c db run = Inr []"
    using read_events [OF assms(1), of "[]"] by (simp add: list_pipeline_events_def)
  ultimately show ?thesis by blast
qed

lemma stored_history_witness:
  "\<exists>r es. get_pipeline_run sample_codec (demo 4) ''run'' = Inr (Some r) \<and> run_state r = Normalizing
     \<and> list_pipeline_events sample_codec (demo 4) ''run'' = Inr es \<and> length es = 6"
  using stored_history [OF sample_codec_ok demo_reachable, of 4 "''run''"] demo_normalizing by auto

lemma complete_parsing_stores:
  assumes "codec_ok c" "get_pipeline_run c db run = Inr (Some r)" "complete_parsing c run v p ws ts db = Inr (r', db')"
  shows "parsed_document_id p = run_document_id r \<and> get_parsed_document c db' run = Inr (Some p)"
proof -
  from assms(2,3) obtain db1 where id: "run_document_id r = parsed_document_id p"
    and ins: "insert_parsed_document c run p (ts 0) db = Inr db1"
    and step: "transition_in_tx c run Parsing v Parsed (Some Parse) None (warnings_patch ws) (ts 1) db1 = Inr (r', db')"
    by (auto simp: complete_parsing_def require_run_def res_simps)
  from step have "parsed_documents db' = parsed_documents db1"
    by (auto simp: transition_in_tx_def insert_pipeline_event_def res_simps Let_def case_prod_beta)
  with ins id show ?thesis
    by (auto simp: insert_parsed_document_def res_simps get_parsed_document_def codec_reads [OF assms(1)])
qed

text \<open>
  C17. An artifact can be read back exactly when the history of its run holds the checkpoint that stores
  it, and no reader reports a damaged row. The artifact is the one of the run's own document: the
  readers check it for all but the parsed document, and the parsing stage stores a parsed document only
  if it is that of its run, as the one that is read from then on. (The one other transaction that
  stores a parsed document, \<open>persist_corrected_document\<close>, leaves its identity to its caller, where
  \<open>saved_correction_reads_back\<close> states it.)
\<close>

theorem artifacts_follow_history:
  assumes "codec_ok c" "reachable_store c db" "get_pipeline_run c db run = Inr (Some r)"
    and "list_pipeline_events c db run = Inr es" "d = run_document_id r"
  shows "(\<exists>p. get_parsed_document c db run = Inr p \<and> (p \<noteq> None \<longleftrightarrow> Parsed \<in> visited es))
    \<and> (\<forall>v p ws ts r' db'. complete_parsing c run v p ws ts db = Inr (r', db')
         \<longrightarrow> parsed_document_id p = d \<and> get_parsed_document c db' run = Inr (Some p))
    \<and> reads (get_normalized_document c db run) normalized_document_id d (Normalized \<in> visited es)
    \<and> reads (get_structured_document c db run) structured_document_id d (Structured \<in> visited es)
    \<and> reads (get_chunked_document c db run) chunked_document_id d (Chunked \<in> visited es)
    \<and> reads (get_analyzed_document c db run) analyzed_document_id d (Analyzed \<in> visited es)
    \<and> reads (get_synthesized_document c db run) synthesized_document_id d (Synthesized \<in> visited es)
    \<and> reads (get_synthesis_attempt c db run 0) synthesized_document_id d (Synthesized \<in> visited es)
    \<and> reads (get_verified_document c db run) verified_document_id d (Verified \<in> visited es)
    \<and> reads (get_summary_artifact c db run) summary_document_id d (visited es \<inter> {Complete, CompleteWithWarnings} \<noteq> {})
    \<and> reads (get_citation_artifact c db run) citation_document_id d (visited es \<inter> {Complete, CompleteWithWarnings} \<noteq> {})"
proof -
  from reachable_run [OF assms(1-3)] obtain es' :: "pipeline_event list"
    where es': "run_id r = run" "run_at c db r" "list_pipeline_events c db run = Inr es'" "\<forall>sh. shelf_ok c db r es' sh" by blast
  with assms(4) have "es' = es" by simp
  moreover have "\<forall>v p ws ts r' db'. complete_parsing c run v p ws ts db = Inr (r', db')
         \<longrightarrow> parsed_document_id p = d \<and> get_parsed_document c db' run = Inr (Some p)"
    using complete_parsing_stores [OF assms(1,3)] assms(5) by blast
  ultimately show ?thesis using es' shelf_reads [OF assms(1) es'(2) spec [OF es'(4)]] assms(5) by simp
qed

lemma artifacts_follow_history_witness:
  "\<exists>p. get_parsed_document sample_codec (demo 4) ''run'' = Inr p
     \<and> reads (get_normalized_document sample_codec (demo 4) ''run'') normalized_document_id ''doc'' False"
proof -
  obtain r where r: "get_pipeline_run sample_codec (demo 4) ''run'' = Inr (Some r)" "run_document_id r = ''doc''"
    using demo_normalizing by blast
  have "get_normalized_document sample_codec (demo 4) ''run'' = Inr None" by (simp add: demo_simps)
  moreover from reachable_run [OF sample_codec_ok demo_reachable r(1)] obtain es
    where "list_pipeline_events sample_codec (demo 4) ''run'' = Inr es" .
  from artifacts_follow_history [OF sample_codec_ok demo_reachable r(1) this refl]
  have "\<exists>p. get_parsed_document sample_codec (demo 4) ''run'' = Inr p" by blast
  ultimately show ?thesis by (simp add: reads_def)
qed

text \<open>
  C18. A run in one of the two completed states has every artifact of the pipeline, those after the
  parsed document each of its own document: nothing can be finished with a stage left out.
\<close>

theorem finished_run_has_everything:
  assumes "codec_ok c" "reachable_store c db" "get_pipeline_run c db run = Inr (Some r)"
    and "run_state r \<in> {Complete, CompleteWithWarnings}" "d = run_document_id r"
  shows "(\<exists>a. get_parsed_document c db run = Inr (Some a))
    \<and> (\<exists>a. get_normalized_document c db run = Inr (Some a) \<and> normalized_document_id a = d)
    \<and> (\<exists>a. get_structured_document c db run = Inr (Some a) \<and> structured_document_id a = d)
    \<and> (\<exists>a. get_chunked_document c db run = Inr (Some a) \<and> chunked_document_id a = d)
    \<and> (\<exists>a. get_analyzed_document c db run = Inr (Some a) \<and> analyzed_document_id a = d)
    \<and> (\<exists>a. get_synthesized_document c db run = Inr (Some a) \<and> synthesized_document_id a = d)
    \<and> (\<exists>a. get_verified_document c db run = Inr (Some a) \<and> verified_document_id a = d)
    \<and> (\<exists>a. get_summary_artifact c db run = Inr (Some a) \<and> summary_document_id a = d)
    \<and> (\<exists>a. get_citation_artifact c db run = Inr (Some a) \<and> citation_document_id a = d)"
proof -
  from reachable_run [OF assms(1-3)] obtain es :: "pipeline_event list"
    where es: "run_id r = run" "run_at c db r" "log_ok r es" "\<forall>sh. shelf_ok c db r es sh" by blast
  have "s \<in> visited es" if "0 < rank s" "rank s < 17" for s
    by (rule visited_below [OF es(3) that]) (use assms(4) that in auto)
  then have all: "Parsed \<in> visited es" "Normalized \<in> visited es" "Structured \<in> visited es" "Chunked \<in> visited es"
      "Analyzed \<in> visited es" "Synthesized \<in> visited es" "Verified \<in> visited es"
      "visited es \<inter> {Complete, CompleteWithWarnings} \<noteq> {}"
    using current_visited [OF es(3)] assms(4) by auto
  show ?thesis
    using shelf_reads [OF assms(1) es(2) spec [OF es(4)]] assms(5) unfolding es(1) reads_def
    by (simp only: all if_True simp_thms not_None_eq) blast
qed

lemma finished_run_has_everything_witness:
  "\<exists>a. get_citation_artifact sample_codec (demo 16) ''run'' = Inr (Some a)"
proof -
  obtain r where r: "get_pipeline_run sample_codec (demo 16) ''run'' = Inr (Some r)" "run_state r = Complete"
    using demo_complete by blast
  then show ?thesis using finished_run_has_everything [OF sample_codec_ok demo_reachable r(1) _ refl] by blast
qed

section \<open>What never changes\<close>

text \<open>
  C19. Whatever transactions commit later, the events of a run are only appended to, its document,
  creation time and version of the pipeline stay, a run in a final state is not touched again, and an
  artifact that could be read reads the same for ever.
\<close>

theorem committed_facts_persist:
  assumes "codec_ok c" "reachable_store c db" "(store_step c)\<^sup>*\<^sup>* db db'"
    and "get_pipeline_run c db run = Inr (Some r)" "list_pipeline_events c db run = Inr es"
  shows "\<exists>r' es'. get_pipeline_run c db' run = Inr (Some r') \<and> list_pipeline_events c db' run = Inr (es @ es')
    \<and> run_document_id r' = run_document_id r \<and> run_created_at r' = run_created_at r
    \<and> pipeline_version r' = pipeline_version r
    \<and> (run_state r \<in> {Complete, CompleteWithWarnings, Failed, Cancelled} \<longrightarrow> r' = r \<and> es' = [])
    \<and> (\<forall>a. get_parsed_document c db run = Inr (Some a) \<longrightarrow> get_parsed_document c db' run = Inr (Some a))
    \<and> (\<forall>a. get_normalized_document c db run = Inr (Some a) \<longrightarrow> get_normalized_document c db' run = Inr (Some a))
    \<and> (\<forall>a. get_structured_document c db run = Inr (Some a) \<longrightarrow> get_structured_document c db' run = Inr (Some a))
    \<and> (\<forall>a. get_chunked_document c db run = Inr (Some a) \<longrightarrow> get_chunked_document c db' run = Inr (Some a))
    \<and> (\<forall>a. get_analyzed_document c db run = Inr (Some a) \<longrightarrow> get_analyzed_document c db' run = Inr (Some a))
    \<and> (\<forall>a. get_synthesized_document c db run = Inr (Some a) \<longrightarrow> get_synthesized_document c db' run = Inr (Some a))
    \<and> (\<forall>a. get_verified_document c db run = Inr (Some a) \<longrightarrow> get_verified_document c db' run = Inr (Some a))
    \<and> (\<forall>a. get_summary_artifact c db run = Inr (Some a) \<longrightarrow> get_summary_artifact c db' run = Inr (Some a))
    \<and> (\<forall>a. get_citation_artifact c db run = Inr (Some a) \<longrightarrow> get_citation_artifact c db' run = Inr (Some a))"
proof -
  note grow = reachable_grows [OF assms(1-3)]
  from reachable_run [OF assms(1,2,4)] obtain ls :: "pipeline_event list"
    where r: "run_id r = run" "run_at c db r" "log_at c db run ls" "log_ok r ls" "list_pipeline_events c db run = Inr ls" by blast
  then have ls: "ls = es" using assms(5) by simp
  from grows_run [OF grow(1) r(2)] obtain r' where r': "run_at c db' r'" "run_grows r r'" .
  have id: "run_id r' = run" using r'(2) r(1) by (simp add: run_grows_def)
  have get: "get_pipeline_run c db' run = Inr (Some r')" using get_run_at(1) [OF assms(1) r'(1)] id by simp
  from grows_log [OF grow(1) r(3) store_okD(1) [OF grow(3)] assms(1)] obtain es'
    where log: "log_at c db' run (ls @ es')" by blast
  have "reachable_store c db'" using assms(2,3) by simp
  from reachable_run [OF assms(1) this get] obtain ls' :: "pipeline_event list"
    where ls': "log_at c db' run ls'" "log_ok r' ls'" "list_pipeline_events c db' run = Inr ls'" by blast
  have eq: "ls' = es @ es'" using log_at_det [OF assms(1) ls'(1) log] ls by simp
  have final: "r' = r \<and> es' = []" if "run_state r \<in> {Complete, CompleteWithWarnings, Failed, Cancelled}"
  proof -
    have "r' = r" using r'(2) that by (auto simp: run_grows_def terminal_def)
    moreover have "length ls' = length ls" using r(4) ls'(2) \<open>r' = r\<close> by (simp add: log_ok_def)
    ultimately show ?thesis using eq ls by simp
  qed
  note kept = readers_kept [OF grow(1) r(2,1)]
  show ?thesis
    using get ls'(3) eq r'(2) final kept
    by (intro exI [where x = r'] exI [where x = es']) (simp add: run_grows_def)
qed

lemma committed_facts_persist_witness:
  "\<exists>r'. get_pipeline_run sample_codec (demo 16) ''run'' = Inr (Some r') \<and> run_document_id r' = ''doc''"
proof -
  from demo_normalizing obtain r where r: "get_pipeline_run sample_codec (demo 4) ''run'' = Inr (Some r)" "run_document_id r = ''doc''"
    by blast
  from reachable_run [OF sample_codec_ok demo_reachable r(1)] obtain es
    where es: "list_pipeline_events sample_codec (demo 4) ''run'' = Inr es" .
  show ?thesis
    using committed_facts_persist [OF sample_codec_ok demo_reachable demo_steps [of 4 16] r(1) es] r(2) by auto
qed

end
