(* ===== verification/Store_Race.thy ===== *)
theory Store_Race
  imports Store_Correct
begin

text \<open>
  Several parties act on one run: the worker that executes a stage, the user who cancels, the recovery
  after a restart. What a party can do with a state it has read before, and how cancellation ends.
\<close>

section \<open>What an operation needs\<close>

text \<open>The operation moves the run out of state \<open>s\<close> at version \<open>v\<close>.\<close>

definition moves :: "'j codec \<Rightarrow> string \<Rightarrow> pipeline_state \<Rightarrow> u32 \<Rightarrow> 'j db \<Rightarrow> bool" where
  "moves c run s v db \<longleftrightarrow> (\<exists>db1 n st rs p t x. pipeline_runs db1 = pipeline_runs db
     \<and> pipeline_events db1 = pipeline_events db \<and> transition_in_tx c run s v n st rs p t db1 = Inr x)"

lemma movesI: "transition_in_tx c run s v n st rs p t db = Inr x \<Longrightarrow> moves c run s v db"
  unfolding moves_def by blast

lemma movesI1:
  assumes "shelved c db run0 S d db1" "transition_in_tx c run s v n st rs p t db1 = Inr x"
  shows "moves c run s v db"
  unfolding moves_def using shelvedD(1,2) [OF assms(1)] assms(2) by blast

lemma movesI2:
  "pipeline_runs db1 = pipeline_runs db \<Longrightarrow> pipeline_events db1 = pipeline_events db \<Longrightarrow>
   transition_in_tx c run s v n st rs p t db1 = Inr x \<Longrightarrow> moves c run s v db"
  unfolding moves_def by blast

lemma moves_state:
  assumes "codec_ok c" "runs_ok c db" "moves c run s v db" "run_at c db r" "run_id r = run"
  shows "run_state r = s \<and> state_version r = v"
proof -
  from assms(3) obtain db1 n st rs p t x where same: "pipeline_runs db1 = pipeline_runs db"
      "pipeline_events db1 = pipeline_events db" and step: "transition_in_tx c run s v n st rs p t db1 = Inr x"
    unfolding moves_def by blast
  note cong = runs_ok_cong [OF same]
  have "runs_ok c db1" using assms(2) cong(4) by simp
  obtain r' db' where x: "x = (r', db')" by (cases x)
  from transition_in_txE [OF assms(1) \<open>runs_ok c db1\<close> step [unfolded x]] obtain q ev r1 and es :: "pipeline_event list"
    where q: "run_id q = run" "run_at c db1 q" and tr: "transition q s n v (word_of_nat (length es)) st rs t = Inr (ev, r1)" .
  have "q = r" by (rule run_at_det [OF assms(1) q(2)]) (use assms(4,5) cong(1) q(1) in simp_all)
  then show ?thesis using tr by (auto simp: transition_Inr_iff)
qed

lemma start_moves:
  "start_parsing c run v t db = Inr x1 \<Longrightarrow> moves c run Ingested v db"
  "start_normalizing c run v t db = Inr x2 \<Longrightarrow> moves c run Parsed v db"
  "start_structuring c run v t db = Inr x3 \<Longrightarrow> moves c run Normalized v db"
  "start_chunking c run v t db = Inr x4 \<Longrightarrow> moves c run Structured v db"
  "start_analysis c run v t db = Inr x5 \<Longrightarrow> moves c run Chunked v db"
  "start_synthesis c run v t db = Inr x6 \<Longrightarrow> moves c run Analyzed v db"
  "start_verification c run v t db = Inr x7 \<Longrightarrow> moves c run Synthesized v db"
  by (auto simp: start_parsing_def start_normalizing_def start_structuring_def start_chunking_def
      start_analysis_def start_synthesis_def start_verification_def res_simps intro: movesI)

lemma complete_moves:
  "complete_parsing c run v a1 ws ts db = Inr x \<Longrightarrow> moves c run Parsing v db"
  "complete_normalization c run v a2 ws ts db = Inr x \<Longrightarrow> moves c run Normalizing v db"
  "complete_structuring c run v a3 ws ts db = Inr x \<Longrightarrow> moves c run Structuring v db"
  "complete_chunking c run v a4 ws ts db = Inr x \<Longrightarrow> moves c run Chunking v db"
  "complete_analysis c run v a5 ws ts db = Inr x \<Longrightarrow> moves c run Analyzing v db"
  by (auto simp: complete_parsing_def complete_normalization_def complete_structuring_def complete_chunking_def
      complete_analysis_def res_simps intro: movesI1 dest!: insert_stage_shelved insert_parsed_shelved)

lemma complete_synthesis_moves:
  assumes "complete_synthesis c run v a ws ts db = Inr x"
  shows "moves c run Synthesizing v db"
proof -
  from assms obtain db1 db2 where ins: "insert_synthesized_document c run a (ts 0) db = Inr db1"
      "insert_synthesis_attempt c run 0 a (ts 1) db1 = Inr db2"
    and step: "transition_in_tx c run Synthesizing v Synthesized (Some Synthesize) None (warnings_patch ws) (ts 2) db2 = Inr x"
    by (auto simp: complete_synthesis_def res_simps)
  show ?thesis
    by (rule movesI2 [OF _ _ step])
      (simp_all add: shelvedD(1,2) [OF insert_stage_shelved(5) [OF ins(1)]]
        shelvedD(1,2) [OF insert_synthesis_attempt_shelved [OF ins(2) refl]])
qed

lemma complete_verification_moves:
  assumes "complete_verification c run v n a ws ts db = Inr x"
  shows "moves c run Verifying v db"
proof -
  from assms obtain db1 db2 where ins: "insert_verification_attempt c run n a (ts 0) db = Inr db1"
      "insert_verified_document c run a (ts 1) db1 = Inr db2"
    and step: "transition_in_tx c run Verifying v Verified (Some Verify) None (warnings_patch ws) (ts 2) db2 = Inr x"
    by (auto simp: complete_verification_def res_simps)
  have "pipeline_runs db1 = pipeline_runs db" "pipeline_events db1 = pipeline_events db"
    using ins(1) by (auto simp: insert_verification_attempt_def res_simps)
  with shelvedD(1,2) [OF insert_stage_shelved(6) [OF ins(2)]]
  have "pipeline_runs db2 = pipeline_runs db" "pipeline_events db2 = pipeline_events db" by simp_all
  then show ?thesis using step by (rule movesI2)
qed

lemma complete_summary_moves:
  assumes "complete_summary c run v s a ts db = Inr x"
  shows "moves c run Verified v db"
proof -
  obtain n reason where out: "summary_outcome (summary_warnings s) = (n, reason)" by force
  from assms out obtain db1 db2 where ins: "insert_summary_artifact c run s (ts 0) db = Inr db1"
      "insert_citation_artifact c run a db1 = Inr db2"
    and step: "transition_in_tx c run Verified v n (Some Verify) reason (warnings_patch (summary_warnings s)) (ts 1) db2 = Inr x"
    by (auto simp: complete_summary_def res_simps)
  show ?thesis
    by (rule movesI2 [OF _ _ step])
      (simp_all add: shelvedD(1,2) [OF insert_stage_shelved(7) [OF ins(1)]]
        shelvedD(1,2) [OF insert_citation_shelved [OF ins(2) refl]])
qed

lemma fail_moves:
  "fail_parsing c run v f t db = Inr x \<Longrightarrow> moves c run Parsing v db"
  "fail_normalization c run v f t db = Inr x \<Longrightarrow> moves c run Normalizing v db"
  "fail_structuring c run v f t db = Inr x \<Longrightarrow> moves c run Structuring v db"
  "fail_chunking c run v f t db = Inr x \<Longrightarrow> moves c run Chunking v db"
  "fail_analysis c run v f t db = Inr x \<Longrightarrow> moves c run Analyzing v db"
  "fail_synthesis c run v f t db = Inr x \<Longrightarrow> moves c run Synthesizing v db"
  "fail_verification c run v f t db = Inr x \<Longrightarrow> moves c run Verifying v db"
  "fail_summary c run v f t db = Inr x \<Longrightarrow> moves c run Verified v db"
  by (auto simp: fail_parsing_def fail_normalization_def fail_structuring_def fail_chunking_def fail_analysis_def
      fail_synthesis_def fail_verification_def fail_summary_def fail_downstream_stage_def intro: movesI)

lemma cancellation_moves:
  "request_cancellation c run v t db = Inr x \<Longrightarrow> \<exists>s. can_request_cancellation s \<and> moves c run s v db"
  "complete_cancellation c run v t db = Inr x \<Longrightarrow> moves c run Cancelling v db"
  by (auto simp: request_cancellation_def complete_cancellation_def res_simps intro: movesI)

lemma background_moves:
  assumes "fail_background_execution c run s v f t db = Inr x" "get_pipeline_run c db run = Inr (Some r)"
  shows "run_state r = Cancelling \<and> cancellation_requested r \<or> can_request_cancellation s \<and> moves c run s v db"
  using assms by (auto simp: fail_background_execution_def require_run_def res_simps intro: movesI split: if_splits)

lemma checked_runs:
  assumes "get_pipeline_run c db run = Inr (Some r)"
  shows "record_verification_attempt c run v n a t db = Inr db1 \<Longrightarrow> run_state r = Verifying \<and> state_version r = v"
    and "create_retry_run c run v new ts db = Inr y \<Longrightarrow> run_state r = Failed \<and> state_version r = v"
  using assms
  by (auto simp: record_verification_attempt_def ensure_run_state_version_def create_retry_run_def validate_retry_source_def
      require_run_def res_simps)

lemmas operation_moves = start_moves complete_moves complete_synthesis_moves complete_verification_moves
  complete_summary_moves fail_moves cancellation_moves

text \<open>
  C21. Every operation that names a version of an existing run commits only when the run is at that version
  and in the state the operation belongs to; otherwise it is refused, whatever else it was given. These
  are the starts, completions and failures of the eight stages, the record of a failed verification
  attempt, both steps of a cancellation and the creation of a retry. The failure of an execution in the
  background is one too, in the state its caller names, except that it completes a cancellation that
  was requested meanwhile, at whatever version. (The transactions that name no version, for the
  profiles, the OCR hand-offs and the recovery at startup, find out the state of the run themselves.)
\<close>

theorem operations_compare_and_set:
  assumes "codec_ok c" "reachable_store c db" "get_pipeline_run c db run = Inr (Some r)"
    and "at = (\<lambda>s. run_state r = s \<and> state_version r = v)"
  shows "(is_ok (start_parsing c run v t db) \<longrightarrow> at Ingested)
    \<and> (is_ok (complete_parsing c run v a1 ws ts db) \<or> is_ok (fail_parsing c run v f t db) \<longrightarrow> at Parsing)
    \<and> (is_ok (start_normalizing c run v t db) \<longrightarrow> at Parsed)
    \<and> (is_ok (complete_normalization c run v a2 ws ts db) \<or> is_ok (fail_normalization c run v f t db) \<longrightarrow> at Normalizing)
    \<and> (is_ok (start_structuring c run v t db) \<longrightarrow> at Normalized)
    \<and> (is_ok (complete_structuring c run v a3 ws ts db) \<or> is_ok (fail_structuring c run v f t db) \<longrightarrow> at Structuring)
    \<and> (is_ok (start_chunking c run v t db) \<longrightarrow> at Structured)
    \<and> (is_ok (complete_chunking c run v a4 ws ts db) \<or> is_ok (fail_chunking c run v f t db) \<longrightarrow> at Chunking)
    \<and> (is_ok (start_analysis c run v t db) \<longrightarrow> at Chunked)
    \<and> (is_ok (complete_analysis c run v a5 ws ts db) \<or> is_ok (fail_analysis c run v f t db) \<longrightarrow> at Analyzing)
    \<and> (is_ok (start_synthesis c run v t db) \<longrightarrow> at Analyzed)
    \<and> (is_ok (complete_synthesis c run v a6 ws ts db) \<or> is_ok (fail_synthesis c run v f t db) \<longrightarrow> at Synthesizing)
    \<and> (is_ok (start_verification c run v t db) \<longrightarrow> at Synthesized)
    \<and> (is_ok (complete_verification c run v n a7 ws ts db) \<or> is_ok (fail_verification c run v f t db) \<longrightarrow> at Verifying)
    \<and> (is_ok (complete_summary c run v a8 a9 ts db) \<or> is_ok (fail_summary c run v f t db) \<longrightarrow> at Verified)
    \<and> (is_ok (complete_cancellation c run v t db) \<longrightarrow> at Cancelling)
    \<and> (is_ok (request_cancellation c run v t db) \<longrightarrow> can_request_cancellation (run_state r) \<and> state_version r = v)
    \<and> (is_ok (record_verification_attempt c run v n a7 t db) \<longrightarrow> at Verifying)
    \<and> (is_ok (create_retry_run c run v new ts db) \<longrightarrow> at Failed)
    \<and> (is_ok (fail_background_execution c run s v f t db) \<longrightarrow>
         run_state r = Cancelling \<and> cancellation_requested r \<or> can_request_cancellation s \<and> at s)"
proof -
  note runs = store_okD(1) [OF reachable_store_ok [OF assms(1,2)]]
  from assms(3) have r: "run_at c db r" "run_id r = run" by (simp_all add: get_run_iff [OF assms(1) runs])
  have at: "moves c run s v db \<Longrightarrow> at s" for s using moves_state [OF assms(1) runs _ r] assms(4) by blast
  have cancel: "can_request_cancellation (run_state r) \<and> state_version r = v" if "request_cancellation c run v t db = Inr x" for x
    using cancellation_moves(1) [OF that] at assms(4) by auto
  have checked: "record_verification_attempt c run v n a7 t db = Inr y1 \<Longrightarrow> at Verifying"
    "create_retry_run c run v new ts db = Inr y2 \<Longrightarrow> at Failed" for y1 y2
    using checked_runs [OF assms(3)] assms(4) by auto
  have background: "run_state r = Cancelling \<and> cancellation_requested r \<or> can_request_cancellation s \<and> at s"
    if "fail_background_execution c run s v f t db = Inr x" for x
    using background_moves [OF that assms(3)] at by blast
  show ?thesis unfolding is_ok_iff
    by (intro conjI impI; (elim exE disjE)?;
        (rule cancel [THEN conjunct1], assumption | rule cancel [THEN conjunct2], assumption
          | rule at, erule operation_moves | rule checked, assumption | rule background, assumption))
qed

lemma operations_compare_and_set_witness:
  "\<not> is_ok (complete_structuring sample_codec ''run'' 6 demo_structured [] (ticks 20) (demo 4))
   \<and> (\<forall>f. \<not> is_ok (fail_normalization sample_codec ''run'' 5 f (ticks 20 0) (demo 4)))"
proof -
  obtain r where r: "get_pipeline_run sample_codec (demo 4) ''run'' = Inr (Some r)" "run_state r = Normalizing" "state_version r = 6"
    using demo_normalizing by blast
  show ?thesis
    using operations_compare_and_set [OF sample_codec_ok demo_reachable r(1) refl] r(2,3) by fastforce
qed

text \<open>
  The version of a run is an exact witness of its state: if a run has the same version at two points
  of time, nothing of it has changed in between, and otherwise its version has grown. A party that finds
  the version it read before therefore holds the current run, however many transactions lie in between.
\<close>

theorem version_identifies_run:
  assumes "codec_ok c" "reachable_store c db" "(store_step c)\<^sup>*\<^sup>* db db'"
    and "get_pipeline_run c db run = Inr (Some r)" "get_pipeline_run c db' run = Inr (Some r')"
  shows "r' = r \<or> unat (state_version r) < unat (state_version r')"
proof -
  note grow = reachable_grows [OF assms(1-3)]
  from assms(4) have r: "run_at c db r" "run_id r = run" by (simp_all add: get_run_iff [OF assms(1) store_okD(1) [OF grow(2)]])
  from assms(5) have r': "run_at c db' r'" "run_id r' = run" by (simp_all add: get_run_iff [OF assms(1) store_okD(1) [OF grow(3)]])
  from grows_run [OF grow(1) r(1)] obtain q where q: "run_at c db' q" "run_grows r q" .
  have "q = r'" by (rule run_at_det [OF assms(1) q(1) r'(1)]) (use q(2) r(2) r'(2) in \<open>simp add: run_grows_def\<close>)
  with q(2) have mono: "unat (state_version r) \<le> unat (state_version r')"
    "state_version r' = state_version r \<Longrightarrow> r' = r" by (simp_all add: run_grows_def)
  then show ?thesis by (metis le_neq_implies_less unsigned_word_eqI)
qed

lemma version_identifies_run_witness:
  "\<exists>r r'. get_pipeline_run sample_codec (demo 4) ''run'' = Inr (Some r)
     \<and> get_pipeline_run sample_codec (demo 16) ''run'' = Inr (Some r')
     \<and> unat (state_version r) < unat (state_version r')"
proof -
  obtain r where r: "get_pipeline_run sample_codec (demo 4) ''run'' = Inr (Some r)" "run_state r = Normalizing"
    using demo_normalizing by blast
  obtain r' where r': "get_pipeline_run sample_codec (demo 16) ''run'' = Inr (Some r')" "run_state r' = Complete"
    using demo_complete by blast
  have "r' \<noteq> r" using r(2) r'(2) by auto
  then show ?thesis
    using version_identifies_run [OF sample_codec_ok demo_reachable demo_steps r(1) r'(1)] r(1) r'(1) by auto
qed

section \<open>Cancellation\<close>

lemma transition_in_tx_available:
  assumes "codec_ok c" "runs_ok c db" "run_at c db r" "is_valid_transition (run_state r) n"
    and "unat (state_version r) + 1 < 2 ^ 32" "select_row (pipeline_events db) (fresh_uuid t) = None"
  shows "\<exists>r' ev. transition_in_tx c (run_id r) (run_state r) (state_version r) n st rs p t db = Inr (r', stepped c r' ev db)
    \<and> run_at c (stepped c r' ev db) r' \<and> run_id r' = run_id r \<and> run_state r' = n
    \<and> state_version r' = state_version r + 1 \<and> event_id ev = fresh_uuid t"
proof -
  obtain r' db' ev where "transition_in_tx c (run_id r) (run_state r) (state_version r) n st rs p t db = Inr (r', db')"
    "db' = stepped c r' ev db" "event_id ev = fresh_uuid t" "run_at c db' r'" "run_id r' = run_id r" "run_state r' = n"
    "state_version r' = state_version r + 1"
    by (rule transition_in_tx_succeeds [OF assms(1-3) refl refl refl assms(4-6), of st rs p])
  then show ?thesis by blast
qed

lemma can_request_edge: "can_request_cancellation s \<Longrightarrow> is_valid_transition s Cancelling"
  by (cases s) (simp_all add: can_request_cancellation_def is_valid_transition_def)

text \<open>
  C22. Cancellation wins. A run that is between or inside stages can always be cancelled; once the request
  is committed no later transaction, of any party and in any order, brings the run anywhere but to
  Cancelled, and as long as it is not there yet the cancellation can be completed. (Version numbers below
  the limit and an event identifier that is not in use are assumed.)
\<close>

theorem cancellation_wins:
  assumes "codec_ok c" "reachable_store c db" "get_pipeline_run c db run = Inr (Some r)"
    and "can_request_cancellation (run_state r)" "unat (state_version r) + 1 < 2 ^ 32"
    and "select_row (pipeline_events db) (fresh_uuid t) = None"
  shows "\<exists>r1 db1. request_cancellation c run (state_version r) t db = Inr (r1, db1) \<and> run_state r1 = Cancelling
    \<and> (\<forall>db2 r2. (store_step c)\<^sup>*\<^sup>* db1 db2 \<longrightarrow> get_pipeline_run c db2 run = Inr (Some r2) \<longrightarrow>
          run_state r2 \<in> {Cancelling, Cancelled}
          \<and> (run_state r2 = Cancelling \<longrightarrow> unat (state_version r2) + 1 < 2 ^ 32 \<longrightarrow>
               (\<forall>t2. select_row (pipeline_events db2) (fresh_uuid t2) = None \<longrightarrow>
                 (\<exists>r3 db3. complete_cancellation c run (state_version r2) t2 db2 = Inr (r3, db3)
                    \<and> run_state r3 = Cancelled))))"
proof -
  from reachable_run [OF assms(1-3)] have r: "run_id r = run" "run_at c db r" "runs_ok c db"
    using store_okD(1) by blast+
  have req: "require_run c db run = Inr r" using get_run_at(2) [OF assms(1) r(2)] r(1) by simp
  from transition_in_tx_available [OF assms(1) r(3,2) can_request_edge [OF assms(4)] assms(5,6),
      of "active_stage (run_state r)" "Some ''cancellation_requested''" cancellation_patch]
  obtain r1 ev where step: "transition_in_tx c run (run_state r) (state_version r) Cancelling (active_stage (run_state r))
       (Some ''cancellation_requested'') cancellation_patch t db = Inr (r1, stepped c r1 ev db)"
      and r1: "run_at c (stepped c r1 ev db) r1" "run_id r1 = run" "run_state r1 = Cancelling"
    using r(1) by auto
  let ?db1 = "stepped c r1 ev db"
  have op: "request_cancellation c run (state_version r) t db = Inr (r1, ?db1)"
    using step req assms(4) by (simp add: request_cancellation_def ensure_def)
  have reach1: "reachable_store c ?db1"
    using assms(2) store_step.intros(30) [OF op] by (rule rtranclp.rtrancl_into_rtrancl)
  have "run_state r2 \<in> {Cancelling, Cancelled}
      \<and> (run_state r2 = Cancelling \<longrightarrow> unat (state_version r2) + 1 < 2 ^ 32 \<longrightarrow>
           (\<forall>t2. select_row (pipeline_events db2) (fresh_uuid t2) = None \<longrightarrow>
             (\<exists>r3 db3. complete_cancellation c run (state_version r2) t2 db2 = Inr (r3, db3) \<and> run_state r3 = Cancelled)))"
    if steps: "(store_step c)\<^sup>*\<^sup>* ?db1 db2" and got: "get_pipeline_run c db2 run = Inr (Some r2)" for db2 r2
  proof -
    have reach2: "reachable_store c db2" using reach1 steps by (rule rtranclp_trans)
    from reachable_run [OF assms(1) reach2 got] have r2: "run_id r2 = run" "run_at c db2 r2" "runs_ok c db2" "flags_ok r2"
      using store_okD(1) by blast+
    from grows_run [OF reachable_grows(1) [OF assms(1) reach1 steps] r1(1)] obtain q
      where q: "run_at c db2 q" "run_grows r1 q" .
    have "q = r2" by (rule run_at_det [OF assms(1) q(1) r2(2)]) (use q(2) r1(2) r2(1) in \<open>simp add: run_grows_def\<close>)
    then have state: "run_state r2 \<in> {Cancelling, Cancelled}" using q(2) r1(3) by (simp add: run_grows_def)
    have "\<exists>r3 db3. complete_cancellation c run (state_version r2) t2 db2 = Inr (r3, db3) \<and> run_state r3 = Cancelled"
      if "run_state r2 = Cancelling" "unat (state_version r2) + 1 < 2 ^ 32"
        "select_row (pipeline_events db2) (fresh_uuid t2) = None" for t2
    proof -
      have "is_valid_transition (run_state r2) Cancelled" using that(1) by (simp add: edge_simps)
      from transition_in_tx_available [OF assms(1) r2(3,2) this that(2,3), of "current_stage r2"
          "Some ''cancellation_completed''" cancellation_patch]
      show ?thesis using that(1) r2(1,4) get_run_at(2) [OF assms(1) r2(2)]
        by (auto simp: complete_cancellation_def ensure_def flags_ok_def)
    qed
    then show ?thesis using state by blast
  qed
  then show ?thesis using op r1(3) by blast
qed

lemma cancellation_wins_witness:
  "\<exists>r1 db1. request_cancellation sample_codec ''run'' 6 (ticks 20 0) (demo 4) = Inr (r1, db1) \<and> run_state r1 = Cancelling"
proof -
  obtain r where r: "get_pipeline_run sample_codec (demo 4) ''run'' = Inr (Some r)" "run_state r = Normalizing" "state_version r = 6"
    using demo_normalizing by blast
  have "select_row (pipeline_events (demo 4)) (fresh_uuid (ticks 20 0)) = None" by (simp add: demo_simps)
  from cancellation_wins [OF sample_codec_ok demo_reachable r(1) _ _ this] r(2,3)
  show ?thesis by (fastforce simp: can_request_cancellation_def)
qed

end
