(* ===== verification/Recovery_Correct.thy ===== *)
theory Recovery_Correct
  imports Store_Race
begin

text \<open>
  After a restart: the recovery transaction leaves no run inside a stage, unless it is the admitted child
  of an OCR handoff, and no run in the middle of a cancellation.
\<close>

section \<open>The runs it looks at\<close>




section \<open>What becomes of a run\<close>









section \<open>The recovery transaction\<close>



end
