(* ===== verification/Store_Side.thy ===== *)
theory Store_Side
  imports Store_Correct
begin

text \<open>
  The tables beside the runs and their artifacts: the profiles of a run, the retries, the recorded
  attempts, the OCR handoffs and their lineage. Which operations touch them, and that what is written
  in the first five is never changed.
\<close>

section \<open>What an operation leaves alone\<close>

definition side :: "'j db \<Rightarrow> _" where
  "side db = (summary_verification_attempts db, pipeline_run_retries db, pipeline_run_model_profiles db,
     pipeline_run_summary_profiles db, ocr_handoffs db, ocr_lineage db)"

named_theorems quiet \<open>operations that leave the side tables alone\<close>

lemma transition_quiet [quiet]: "transition_in_tx c run s v n st rs p t db = Inr (r, db') \<Longrightarrow> side db' = side db"
  by (auto simp: transition_in_tx_def insert_pipeline_event_def res_simps side_def Let_def case_prod_beta)

lemma insert_quiet [quiet]:
  "insert_document c d db = Inr db1 \<Longrightarrow> side db1 = side db"
  "insert_pipeline_run c r db = Inr db1 \<Longrightarrow> side db1 = side db"
  "insert_pipeline_event c e db = Inr db1 \<Longrightarrow> side db1 = side db"
  "insert_parsed_document c run p t db = Inr db1 \<Longrightarrow> side db1 = side db"
  "insert_normalized_document c run a1 t db = Inr db1 \<Longrightarrow> side db1 = side db"
  "insert_structured_document c run a2 t db = Inr db1 \<Longrightarrow> side db1 = side db"
  "insert_chunked_document c run a3 t db = Inr db1 \<Longrightarrow> side db1 = side db"
  "insert_analyzed_document c run a4 t db = Inr db1 \<Longrightarrow> side db1 = side db"
  "insert_synthesized_document c run a5 t db = Inr db1 \<Longrightarrow> side db1 = side db"
  "insert_verified_document c run a6 t db = Inr db1 \<Longrightarrow> side db1 = side db"
  "insert_synthesis_attempt c run n a5 t db = Inr db1 \<Longrightarrow> side db1 = side db"
  "insert_summary_artifact c run a7 t db = Inr db1 \<Longrightarrow> side db1 = side db"
  "insert_citation_artifact c run a8 db = Inr db1 \<Longrightarrow> side db1 = side db"
  by (auto simp: insert_document_def insert_pipeline_run_def insert_pipeline_event_def insert_parsed_document_def
      insert_normalized_document_def insert_structured_document_def insert_chunked_document_def
      insert_analyzed_document_def insert_synthesized_document_def insert_verified_document_def
      insert_downstream_artifact_def insert_synthesis_attempt_def insert_summary_artifact_def
      insert_citation_artifact_def insert_artifact_row_def Let_def res_simps side_def split: if_splits)

lemma start_quiet [quiet]:
  "start_parsing c run v t db = Inr (x1, db1) \<Longrightarrow> side db1 = side db"
  "start_normalizing c run v t db = Inr (x2, db1) \<Longrightarrow> side db1 = side db"
  "start_structuring c run v t db = Inr (x3, db1) \<Longrightarrow> side db1 = side db"
  "start_chunking c run v t db = Inr (x4, db1) \<Longrightarrow> side db1 = side db"
  "start_analysis c run v t db = Inr (x5, db1) \<Longrightarrow> side db1 = side db"
  "start_synthesis c run v t db = Inr (x6, db1) \<Longrightarrow> side db1 = side db"
  "start_verification c run v t db = Inr (x7, db1) \<Longrightarrow> side db1 = side db"
  by (auto simp: start_parsing_def start_normalizing_def start_structuring_def start_chunking_def
      start_analysis_def start_synthesis_def start_verification_def res_simps dest: quiet)

lemma complete_quiet [quiet]:
  "complete_parsing c run v a1 ws ts db = Inr (x, db1) \<Longrightarrow> side db1 = side db"
  "complete_normalization c run v a2 ws ts db = Inr (x, db1) \<Longrightarrow> side db1 = side db"
  "complete_structuring c run v a3 ws ts db = Inr (x, db1) \<Longrightarrow> side db1 = side db"
  "complete_chunking c run v a4 ws ts db = Inr (x, db1) \<Longrightarrow> side db1 = side db"
  "complete_analysis c run v a5 ws ts db = Inr (x, db1) \<Longrightarrow> side db1 = side db"
  "complete_synthesis c run v a6 ws ts db = Inr (x, db1) \<Longrightarrow> side db1 = side db"
  "complete_summary c run v a7 a8 ts db = Inr (x, db1) \<Longrightarrow> side db1 = side db"
  by (auto simp: complete_parsing_def complete_normalization_def complete_structuring_def complete_chunking_def
      complete_analysis_def complete_synthesis_def complete_summary_def res_simps case_prod_beta Let_def dest!: quiet)

lemma fail_quiet [quiet]:
  "fail_parsing c run v f t db = Inr (x, db1) \<Longrightarrow> side db1 = side db"
  "fail_normalization c run v f t db = Inr (x, db1) \<Longrightarrow> side db1 = side db"
  "fail_structuring c run v f t db = Inr (x, db1) \<Longrightarrow> side db1 = side db"
  "fail_chunking c run v f t db = Inr (x, db1) \<Longrightarrow> side db1 = side db"
  "fail_analysis c run v f t db = Inr (x, db1) \<Longrightarrow> side db1 = side db"
  "fail_synthesis c run v f t db = Inr (x, db1) \<Longrightarrow> side db1 = side db"
  "fail_verification c run v f t db = Inr (x, db1) \<Longrightarrow> side db1 = side db"
  "fail_summary c run v f t db = Inr (x, db1) \<Longrightarrow> side db1 = side db"
  "request_cancellation c run v t db = Inr (x, db1) \<Longrightarrow> side db1 = side db"
  "complete_cancellation c run v t db = Inr (x, db1) \<Longrightarrow> side db1 = side db"
  "fail_background_execution c run s v f t db = Inr (x, db1) \<Longrightarrow> side db1 = side db"
  by (auto simp: fail_parsing_def fail_normalization_def fail_structuring_def fail_chunking_def fail_analysis_def
      fail_synthesis_def fail_verification_def fail_summary_def fail_downstream_stage_def request_cancellation_def
      complete_cancellation_def fail_background_execution_def res_simps split: if_splits intro: quiet)

lemma received_quiet [quiet]:
  "persist_received_run_to_ingested c r creation reason ts db = Inr (x, db1) \<Longrightarrow> side db1 = side db"
  by (auto simp: persist_received_run_to_ingested_def res_simps dest!: quiet)

lemma rewind_quiet [quiet]: "rewind_interrupted_ocr_child c run t db = Inr (x, db1) \<Longrightarrow> side db1 = side db"
  by (erule rewind_cases) (auto dest: quiet)

lemma suggestion_quiet [quiet]:
  "get_or_create_profile_suggestion_owner c source version t db = Inr (x, db1) \<Longrightarrow> side db1 = side db"
  by (auto simp: get_or_create_profile_suggestion_owner_def insert_suggestion_owner_def insert_suggestion_request_def
      res_simps side_def split: option.splits if_splits)

lemma candidate_quiet [quiet]: "reconcile_candidate c k t db = Inr (r, db1) \<Longrightarrow> side db1 = side db"
  by (auto simp: reconcile_candidate_def res_simps split: interrupted_run_action.splits option.splits intro: quiet)

lemma reconcile_quiet [quiet]:
  assumes "reconcile_interrupted_runs c ts db = Inr (rs, db1)"
  shows "side db1 = side db"
proof -
  have "side db' = side db0"
    if "res_fold (\<lambda>(recovered, db') k. res_bind (reconcile_candidate c k (ts (length recovered)) db') (\<lambda>(r, db'').
         Inr (recovered @ [r], db''))) (recovered0, db0) ks = Inr (recovered, db')" for ks recovered0 db0 recovered db'
    using that
  proof (induction ks arbitrary: recovered0 db0)
    case (Cons k ks)
    from Cons.prems obtain r db1 where one: "reconcile_candidate c k (ts (length recovered0)) db0 = Inr (r, db1)"
      and rest: "res_fold (\<lambda>(recovered, db') k. res_bind (reconcile_candidate c k (ts (length recovered)) db') (\<lambda>(r, db'').
         Inr (recovered @ [r], db''))) (recovered0 @ [r], db1) ks = Inr (recovered, db')"
      by (auto simp: res_simps)
    show ?case using Cons.IH [OF rest] candidate_quiet [OF one] by simp
  qed simp
  with assms show ?thesis
    by (fastforce simp: reconcile_interrupted_runs_def reconcile_interrupted_runs_in_transaction_def res_simps)
qed

section \<open>What is written stays\<close>

definition side_grows :: "'j db \<Rightarrow> 'j db \<Rightarrow> bool" where
  "side_grows db db' \<longleftrightarrow>
     (\<forall>k row. select_row (summary_verification_attempts db) k = Some row \<longrightarrow>
        select_row (summary_verification_attempts db') k = Some row)
     \<and> (\<forall>k row. select_row (pipeline_run_retries db) k = Some row \<longrightarrow> select_row (pipeline_run_retries db') k = Some row)
     \<and> (\<forall>k row. select_row (pipeline_run_model_profiles db) k = Some row \<longrightarrow>
        select_row (pipeline_run_model_profiles db') k = Some row)
     \<and> (\<forall>k row. select_row (pipeline_run_summary_profiles db) k = Some row \<longrightarrow>
        select_row (pipeline_run_summary_profiles db') k = Some row)
     \<and> (\<forall>k row. select_row (ocr_lineage db) k = Some row \<longrightarrow> select_row (ocr_lineage db') k = Some row)"

lemma side_grows_refl [simp]: "side_grows db db"
  by (simp add: side_grows_def)

lemma side_grows_trans [trans]: "side_grows db db1 \<Longrightarrow> side_grows db1 db2 \<Longrightarrow> side_grows db db2"
  by (simp add: side_grows_def)

lemma quiet_grows: "side db' = side db \<Longrightarrow> side_grows db db'"
  by (simp add: side_def side_grows_def)

named_theorems grows_side \<open>operations that only add to the side tables\<close>

lemma profile_grows [grows_side]:
  "ensure_run_model_profile c run snapshot t db = Inr db1 \<Longrightarrow> side_grows db db1"
  "ensure_run_summary_profile c run profile t db = Inr db1 \<Longrightarrow> side_grows db db1"
  by (auto simp: ensure_run_model_profile_def ensure_run_summary_profile_def res_simps side_grows_def
      split: option.splits if_splits)

lemma attempt_grows [grows_side]: "insert_verification_attempt c run n a t db = Inr db1 \<Longrightarrow> side_grows db db1"
  by (auto simp: insert_verification_attempt_def res_simps side_grows_def split: option.splits)

lemma retry_grows [grows_side]: "insert_retry c l db = Inr db1 \<Longrightarrow> side_grows db db1"
  by (auto simp: insert_retry_def res_simps side_grows_def split: option.splits)

lemma lineage_grows [grows_side]: "insert_ocr_lineage c h t db = Inr db1 \<Longrightarrow> side_grows db db1"
  by (auto simp: insert_ocr_lineage_def res_simps side_grows_def split: option.splits)

lemma copy_profile_keeps:
  "copy_profile relation run source created db rows = Inr (n, rows') \<Longrightarrow>
   select_row rows k = Some row \<Longrightarrow> select_row rows' k = Some row"
  by (auto simp: copy_profile_def res_simps split: option.splits)

lemma copy_models_grows:
  "copy_profile relation run source created db (pipeline_run_model_profiles db) = Inr (n, rows) \<Longrightarrow>
   side_grows db (db\<lparr>pipeline_run_model_profiles := rows\<rparr>)"
  by (auto simp: side_grows_def dest: copy_profile_keeps)

lemma copy_summaries_grows:
  "copy_profile relation run source created db (pipeline_run_summary_profiles db) = Inr (n, rows) \<Longrightarrow>
   side_grows db (db\<lparr>pipeline_run_summary_profiles := rows\<rparr>)"
  by (auto simp: side_grows_def dest: copy_profile_keeps)

lemma update_handoffs_grows [grows_side]: "update_handoffs c p f db = Inr (b, db1) \<Longrightarrow> side_grows db db1"
  by (drule update_handoffs_keeps) (auto simp: side_grows_def)

lemma handoff_grows [grows_side]:
  "prepare_ocr_handoff c new t db = Inr (h, db1) \<Longrightarrow> side_grows db db1"
  "transition_ocr_handoff c handoff exp nxt status t db = Inr (b, db1) \<Longrightarrow> side_grows db db1"
  "store_ocr_outputs c handoff exp out t db = Inr (b, db1) \<Longrightarrow> side_grows db db1"
  "fail_ocr_handoff c handoff exp code msg retryable t db = Inr (b, db1) \<Longrightarrow> side_grows db db1"
  "mark_ocr_handoff_completed_for_child c run t db = Inr (b, db1) \<Longrightarrow> side_grows db db1"
  subgoal by (auto simp: prepare_ocr_handoff_def insert_handoff_def Let_def res_simps side_grows_def split: option.splits)
  subgoal unfolding transition_ocr_handoff_def by (rule update_handoffs_grows)
  subgoal unfolding store_ocr_outputs_def by (rule update_handoffs_grows)
  subgoal unfolding fail_ocr_handoff_def by (rule update_handoffs_grows)
  subgoal by (auto simp: mark_ocr_handoff_completed_for_child_def res_simps split: if_splits intro: update_handoffs_grows)
  done

lemma ingestion_grows [grows_side]:
  assumes "persist_ingestion_in_transaction c d r profile ts db = Inr (x, db1)"
  shows "side_grows db db1"
proof -
  from assms obtain db2 db3 where steps: "insert_document c d db = Inr db2"
      "persist_received_run_to_ingested c r ''run_created'' None ts db2 = Inr (x, db3)"
      "ensure_run_summary_profile c (run_id x) profile (ts 3) db3 = Inr db1"
    by (auto simp: persist_ingestion_in_transaction_def res_simps)
  have "side_grows db db3" using insert_quiet(1) [OF steps(1)] received_quiet [OF steps(2)] by (intro quiet_grows) simp
  then show ?thesis using profile_grows(2) [OF steps(3)] by (rule side_grows_trans)
qed

lemma admission_grows [grows_side]:
  "persist_ingestion_with_profiles c d r snapshot profile ts db = Inr (x, db1) \<Longrightarrow> side_grows db db1"
  by (auto simp: persist_ingestion_with_profiles_def res_simps
      intro: side_grows_trans dest!: ingestion_grows profile_grows(1))

lemma corrected_grows [grows_side]:
  assumes "persist_corrected_document c d r p source ts db = Inr (x, db')"
  shows "side_grows db db'"
proof -
  from assms obtain profile db1 m db2 db3 db4 r0 r1 where
    ing: "persist_ingestion_in_transaction c d r profile ts db = Inr (r0, db1)"
    and prof: "ensure_run_model_profile c (run_id r) m (ts 4) db1 = Inr db2"
    and t1: "transition_in_tx c (run_id r) Ingested (state_version r0) Parsing (Some Parse)
         (Some ''operator_ocr_correction'') no_patch (ts 5) db2 = Inr (r1, db3)"
    and ins: "insert_parsed_document c (run_id r) p (ts 6) db3 = Inr db4"
    and t2: "transition_in_tx c (run_id r) Parsing (state_version r1) Parsed (Some Parse)
       (Some ''operator_ocr_correction'')
       (warnings_patch (parsed_warnings p @ concat (map parsed_page_warnings (parsed_pages p)))) (ts 7) db4 = Inr (x, db')"
    unfolding persist_corrected_document_def by (auto simp: res_simps)
  have "side db' = side db2"
    using transition_quiet [OF t1] insert_quiet(4) [OF ins] transition_quiet [OF t2] by simp
  from side_grows_trans [OF side_grows_trans [OF ingestion_grows [OF ing] profile_grows(1) [OF prof]] quiet_grows [OF this]]
  show ?thesis .
qed

lemma verification_grows [grows_side]:
  "complete_verification c run v n a ws ts db = Inr (x, db1) \<Longrightarrow> side_grows db db1"
  "record_verification_attempt c run v n a t db = Inr db2 \<Longrightarrow> side_grows db db2"
  by (auto simp: complete_verification_def record_verification_attempt_def res_simps
      dest!: attempt_grows quiet quiet_grows intro: side_grows_trans)

lemma retry_run_cases:
  assumes "create_retry_run c source v retry ts db = Inr (y, db')"
  obtains source_run point document r1 db1 r2 db2 db3 copied models summaries where
    "validate_retry_source c source v db = Inr (source_run, point)"
    "run_document_id retry = run_document_id source_run" "run_state retry = Received" "state_version retry = 1"
    "require_document c db (run_document_id source_run) = Inr document"
    "persist_received_run_to_ingested c retry ''retry_run_created'' (Some ''retry_checkpoint_reused'') ts db = Inr (r1, db1)"
    "transition_in_tx c (run_id retry) Ingested (state_version r1) Parsing (Some Parse)
       (Some ''retry_processing_started'') no_patch (ts 3) db1 = Inr (r2, db2)"
    "insert_retry c \<lparr>retry_run_id = run_id retry, source_run_id = source, checkpoint = point,
       lineage_created_at = run_created_at retry\<rparr> db2 = Inr db3"
    "copy_profile ''pipeline_run_model_profiles'' (run_id retry) source (to_rfc3339 c (run_created_at retry)) db3
       (pipeline_run_model_profiles db3) = Inr (copied, models)"
    "copy_profile ''pipeline_run_summary_profiles'' (run_id retry) source (to_rfc3339 c (run_created_at retry))
       (db3\<lparr>pipeline_run_model_profiles := models\<rparr>) (pipeline_run_summary_profiles db3) = Inr (1, summaries)"
    "db' = db3\<lparr>pipeline_run_model_profiles := models, pipeline_run_summary_profiles := summaries\<rparr>"
    "y = (r2, document, \<lparr>retry_run_id = run_id retry, source_run_id = source, checkpoint = point,
       lineage_created_at = run_created_at retry\<rparr>)"
  using assms by (auto simp: create_retry_run_def Let_def res_simps)

lemma create_retry_grows [grows_side]:
  assumes "create_retry_run c source v retry ts db = Inr (y, db')"
  shows "side_grows db db'"
  using assms
proof (cases rule: retry_run_cases)
  case (1 source_run point document r1 db1 r2 db2 db3 copied models summaries)
  have "side_grows db db2" using received_quiet [OF 1(6)] transition_quiet [OF 1(7)] by (intro quiet_grows) simp
  also have "side_grows db2 db3" by (rule retry_grows [OF 1(8)])
  also have "side_grows db3 (db3\<lparr>pipeline_run_model_profiles := models\<rparr>)" by (rule copy_models_grows [OF 1(9)])
  also have "side_grows \<dots> db'"
    using copy_summaries_grows [of _ _ _ _ "db3\<lparr>pipeline_run_model_profiles := models\<rparr>"] 1(10,11) by simp
  finally show ?thesis .
qed

lemma admit_child_cases:
  assumes "admit_ocr_child c handoff d run ts db = Inr (r', db')"
  obtains current pdf where "get_ocr_handoff db (handoff_id handoff) = Some current" "ocr_pdf_bytes current = Some pdf"
      "phase current = ''child_admitted'' \<or> phase current = ''completed''"
      "get_pipeline_run c db (child_run_id current) = Inr (Some r')" "db' = db"
    | current pdf profile db1 models r1 db3 db4 and root :: pipeline_run where
      "get_ocr_handoff db (handoff_id handoff) = Some current" "ocr_pdf_bytes current = Some pdf"
      "child_matches_output c current pdf d run"
      "get_run_summary_profile c db (root_run_id current) = Inr (Some profile)"
      "persist_ingestion_in_transaction c d run profile ts db = Inr (r', db1)"
      "copy_profile ''pipeline_run_model_profiles'' (child_run_id current) (root_run_id current)
         (to_rfc3339 c (run_created_at run)) db1 (pipeline_run_model_profiles db1) = Inr (1, models)"
      "require_run c (db1\<lparr>pipeline_run_model_profiles := models\<rparr>) (root_run_id handoff) = Inr root"
      "transition_in_tx c (run_id root) Parsed (state_version root) Failed (Some Parse)
         (Some (failure_code (derived_handoff_failure (child_run_id current))))
         (failure_patch (derived_handoff_failure (child_run_id current))) (ts 4)
         (db1\<lparr>pipeline_run_model_profiles := models\<rparr>) = Inr (r1, db3)"
      "insert_ocr_lineage c current (ts 5) db3 = Inr db4"
      "update_handoffs c (\<lambda>h. handoff_id h = handoff_id current \<and> phase h = ''output_ready'')
         (touch c (ts 6) (\<lambda>h. h\<lparr>phase := ''child_admitted''\<rparr>)) db4 = Inr (True, db')"
proof -
  from assms obtain current pdf where current: "get_ocr_handoff db (handoff_id handoff) = Some current"
    "ocr_pdf_bytes current = Some pdf"
    by (auto simp: admit_ocr_child_def res_simps)
  show ?thesis
  proof (cases "phase current = ''child_admitted'' \<or> phase current = ''completed''")
    case True
    with assms current have "get_pipeline_run c db (child_run_id current) = Inr (Some r')" "db' = db"
      by (auto simp: admit_ocr_child_def res_simps)
    then show ?thesis by (rule that(1) [OF current True])
  next
    case False
    with assms current show ?thesis
      by (auto simp: admit_ocr_child_def res_simps Let_def intro!: that(2) [OF current])
  qed
qed

lemma admit_child_grows [grows_side]:
  assumes "admit_ocr_child c handoff d run ts db = Inr (r', db')"
  shows "side_grows db db'"
  using assms
proof (cases rule: admit_child_cases)
  case (2 current pdf profile db1 models r1 db3 db4 root)
  have "side_grows db db1" by (rule ingestion_grows [OF 2(5)])
  also have "side_grows db1 (db1\<lparr>pipeline_run_model_profiles := models\<rparr>)" by (rule copy_models_grows [OF 2(6)])
  also have "side_grows \<dots> db3" by (rule quiet_grows [OF transition_quiet [OF 2(8)]])
  also have "side_grows db3 db4" by (rule lineage_grows [OF 2(9)])
  also have "side_grows db4 db'" by (rule update_handoffs_grows [OF 2(10)])
  finally show ?thesis .
qed simp

lemma store_step_side_grows: "store_step c db db' \<Longrightarrow> side_grows db db'"
  by (induction rule: store_step.induct) (erule grows_side | erule quiet [THEN quiet_grows])+

lemma steps_side_grow: "(store_step c)\<^sup>*\<^sup>* db db' \<Longrightarrow> side_grows db db'"
  by (induction rule: rtranclp_induct) (auto intro: store_step_side_grows side_grows_trans)

section \<open>Consequences\<close>

text \<open>
  The profiles a run is executed with are fixed for ever once they are written: no later
  transaction of any party changes the model profile or the summary profile of a run, and a recorded
  verification attempt stays as it was recorded.
\<close>

theorem profiles_never_change:
  assumes "(store_step c)\<^sup>*\<^sup>* db db'"
  shows "(\<forall>p. get_run_model_profile c db run = Inr (Some p) \<longrightarrow> get_run_model_profile c db' run = Inr (Some p))
    \<and> (\<forall>p. get_run_summary_profile c db run = Inr (Some p) \<longrightarrow> get_run_summary_profile c db' run = Inr (Some p))
    \<and> (\<forall>k row. select_row (summary_verification_attempts db) k = Some row \<longrightarrow>
         select_row (summary_verification_attempts db') k = Some row)"
  using steps_side_grow [OF assms]
  by (auto simp: side_grows_def get_run_model_profile_def get_run_summary_profile_def transpose_map_Inr_iff)

lemma profiles_never_change_witness:
  "get_run_model_profile sample_codec (demo 16) ''run'' = Inr (Some sample_profile)"
proof -
  have "get_run_model_profile sample_codec (demo 1) ''run'' = Inr (Some sample_profile)"
    by (simp add: get_run_model_profile_def demo_simps)
  then show ?thesis using profiles_never_change [OF demo_steps [of 1 16], of "''run''"] by simp
qed

lemma attempt_taken:
  assumes "select_row (summary_verification_attempts db) (run, n) = Some row"
  shows "insert_verification_attempt c run n a t db = Inl (violation ''summary_verification_attempts'')"
  using assms by (simp add: insert_verification_attempt_def insert_row_def has_key_iff)

lemma insert_attempt_row:
  "insert_verification_attempt c run n a t db = Inr db1 \<Longrightarrow>
   \<exists>row. select_row (summary_verification_attempts db1) (run, n) = Some row"
  by (auto simp: insert_verification_attempt_def res_simps)

text \<open>
  C25. A verification attempt is recorded in a transaction of its own, before the one that fails the run
  for it. If the process stops between the two and the stage is executed again, which is what the
  recovery of an OCR child does, then no later execution can complete or record that attempt, with
  whatever result: the attempt of that number is taken for good.
\<close>

theorem recorded_attempt_blocks_completion:
  assumes "record_verification_attempt c run v n a t db = Inr db1" "(store_step c)\<^sup>*\<^sup>* db1 db2"
  shows "\<not> is_ok (complete_verification c run v' n a' ws ts db2) \<and> \<not> is_ok (record_verification_attempt c run v' n a' t' db2)"
proof -
  from assms(1) have "insert_verification_attempt c run n a t db = Inr db1"
    by (auto simp: record_verification_attempt_def res_simps)
  then obtain row where "select_row (summary_verification_attempts db1) (run, n) = Some row" using insert_attempt_row by blast
  then have "select_row (summary_verification_attempts db2) (run, n) = Some row"
    using steps_side_grow [OF assms(2)] by (simp add: side_grows_def)
  note taken = attempt_taken [OF this]
  show ?thesis
    by (auto simp: is_ok_iff complete_verification_def record_verification_attempt_def taken res_simps)
qed

lemma recorded_attempt_blocks_completion_witness:
  "\<exists>db1. record_verification_attempt sample_codec ''run'' 16 0 demo_verified (ticks 20 0) (demo 14) = Inr db1
     \<and> \<not> is_ok (complete_verification sample_codec ''run'' 16 0 demo_verified [] (ticks 21) db1)"
proof -
  have "\<exists>db1. record_verification_attempt sample_codec ''run'' 16 0 demo_verified (ticks 20 0) (demo 14) = Inr db1"
    by (simp add: record_verification_attempt_def ensure_run_state_version_def demo_simps)
  then show ?thesis using recorded_attempt_blocks_completion [OF _ rtranclp.rtrancl_refl] by blast
qed

end
