(* ===== verification/Store_Retry.thy ===== *)
theory Store_Retry
  imports Store_Side
begin

text \<open>
  Retries: a failed run may have one successor, which starts over on the same document with the profiles
  of the failed run. The invariant of the retry table and what the readers of the lineage return.
\<close>

section \<open>Only a retry writes to the retry table\<close>

abbreviation retry_rows :: "'j db \<Rightarrow> (string, 'j retry_row) table" where
  "retry_rows \<equiv> pipeline_run_retries"

lemma quiet_retries: "side db' = side db \<Longrightarrow> retry_rows db' = retry_rows db"
  by (simp add: side_def)

named_theorems no_retry \<open>operations that leave the retry table alone\<close>

lemma profile_no_retry [no_retry]:
  "ensure_run_model_profile c run snapshot t db = Inr db1 \<Longrightarrow> retry_rows db1 = retry_rows db"
  "ensure_run_summary_profile c run profile t db = Inr db1 \<Longrightarrow> retry_rows db1 = retry_rows db"
  by (auto simp: ensure_run_model_profile_def ensure_run_summary_profile_def res_simps split: option.splits if_splits)

lemma attempt_no_retry [no_retry]:
  "insert_verification_attempt c run n a t db = Inr db1 \<Longrightarrow> retry_rows db1 = retry_rows db"
  by (auto simp: insert_verification_attempt_def res_simps)

lemma lineage_no_retry [no_retry]: "insert_ocr_lineage c h t db = Inr db1 \<Longrightarrow> retry_rows db1 = retry_rows db"
  by (auto simp: insert_ocr_lineage_def res_simps split: option.splits)

lemma update_no_retry [no_retry]: "update_handoffs c p f db = Inr (b, db1) \<Longrightarrow> retry_rows db1 = retry_rows db"
  by (drule update_handoffs_keeps) auto

lemma handoff_no_retry [no_retry]:
  "prepare_ocr_handoff c new t db = Inr (h, db1) \<Longrightarrow> retry_rows db1 = retry_rows db"
  "transition_ocr_handoff c handoff exp nxt status t db = Inr (b, db1) \<Longrightarrow> retry_rows db1 = retry_rows db"
  "store_ocr_outputs c handoff exp out t db = Inr (b, db1) \<Longrightarrow> retry_rows db1 = retry_rows db"
  "fail_ocr_handoff c handoff exp code msg retryable t db = Inr (b, db1) \<Longrightarrow> retry_rows db1 = retry_rows db"
  "mark_ocr_handoff_completed_for_child c run t db = Inr (b, db1) \<Longrightarrow> retry_rows db1 = retry_rows db"
  subgoal by (auto simp: prepare_ocr_handoff_def insert_handoff_def Let_def res_simps split: option.splits)
  subgoal unfolding transition_ocr_handoff_def by (rule update_no_retry)
  subgoal unfolding store_ocr_outputs_def by (rule update_no_retry)
  subgoal unfolding fail_ocr_handoff_def by (rule update_no_retry)
  subgoal by (auto simp: mark_ocr_handoff_completed_for_child_def res_simps split: if_splits intro: update_no_retry)
  done

lemma ingestion_no_retry [no_retry]:
  assumes "persist_ingestion_in_transaction c d r profile ts db = Inr (x, db1)"
  shows "retry_rows db1 = retry_rows db"
proof -
  from assms obtain db2 db3 where steps: "insert_document c d db = Inr db2"
      "persist_received_run_to_ingested c r ''run_created'' None ts db2 = Inr (x, db3)"
      "ensure_run_summary_profile c (run_id x) profile (ts 3) db3 = Inr db1"
    by (auto simp: persist_ingestion_in_transaction_def res_simps)
  show ?thesis
    using quiet_retries [OF insert_quiet(1) [OF steps(1)]] quiet_retries [OF received_quiet [OF steps(2)]]
      profile_no_retry(2) [OF steps(3)] by simp
qed

lemma admission_no_retry [no_retry]:
  assumes "persist_ingestion_with_profiles c d r snapshot profile ts db = Inr (x, db2)"
  shows "retry_rows db2 = retry_rows db"
proof -
  from assms obtain y db1 where steps: "persist_ingestion_in_transaction c d r profile ts db = Inr (y, db1)"
      "ensure_run_model_profile c (run_id y) snapshot (ts 4) db1 = Inr db2"
    by (auto simp: persist_ingestion_with_profiles_def res_simps)
  show ?thesis using ingestion_no_retry [OF steps(1)] profile_no_retry(1) [OF steps(2)] by simp
qed

lemma corrected_no_retry [no_retry]:
  assumes "persist_corrected_document c d r p source ts db = Inr (x, db')"
  shows "retry_rows db' = retry_rows db"
proof -
  from assms obtain profile db1 m db2 db3 db4 r0 r1 where
    ing: "persist_ingestion_in_transaction c d r profile ts db = Inr (r0, db1)"
    and prof: "ensure_run_model_profile c (run_id r) m (ts 4) db1 = Inr db2"
    and t1: "transition_in_tx c (run_id r) Ingested (state_version r0) Parsing (Some Parse)
         (Some ''operator_ocr_correction'') no_patch (ts 5) db2 = Inr (r1, db3)"
    and ins: "insert_parsed_document c (run_id r) p (ts 6) db3 = Inr db4"
    and t2: "transition_in_tx c (run_id r) Parsing (state_version r1) Parsed (Some Parse)
       (Some ''operator_ocr_correction'')
       (warnings_patch (parsed_warnings p @ concat (map parsed_page_warnings (parsed_pages p)))) (ts 7) db4 = Inr (x, db')"
    unfolding persist_corrected_document_def by (auto simp: res_simps)
  show ?thesis
    using ingestion_no_retry [OF ing] profile_no_retry(1) [OF prof] quiet_retries [OF transition_quiet [OF t1]]
      quiet_retries [OF insert_quiet(4) [OF ins]] quiet_retries [OF transition_quiet [OF t2]] by simp
qed

lemma verification_no_retry [no_retry]:
  assumes "complete_verification c run v n a ws ts db = Inr (x, db')"
  shows "retry_rows db' = retry_rows db"
proof -
  from assms obtain db1 db2 where steps: "insert_verification_attempt c run n a (ts 0) db = Inr db1"
      "insert_verified_document c run a (ts 1) db1 = Inr db2"
      "transition_in_tx c run Verifying v Verified (Some Verify) None (warnings_patch ws) (ts 2) db2 = Inr (x, db')"
    by (auto simp: complete_verification_def res_simps)
  show ?thesis
    using attempt_no_retry [OF steps(1)] quiet_retries [OF insert_quiet(10) [OF steps(2)]]
      quiet_retries [OF transition_quiet [OF steps(3)]] by simp
qed

lemma record_no_retry [no_retry]:
  "record_verification_attempt c run v n a t db = Inr db1 \<Longrightarrow> retry_rows db1 = retry_rows db"
  by (auto simp: record_verification_attempt_def res_simps intro: attempt_no_retry)

lemma admit_child_no_retry [no_retry]:
  assumes "admit_ocr_child c handoff d run ts db = Inr (r', db')"
  shows "retry_rows db' = retry_rows db"
  using assms
proof (cases rule: admit_child_cases)
  case (2 current pdf profile db1 models r1 db3 db4 root)
  show ?thesis
    using ingestion_no_retry [OF 2(5)] quiet_retries [OF transition_quiet [OF 2(8)]] lineage_no_retry [OF 2(9)]
      update_no_retry [OF 2(10)] by simp
qed simp

lemma store_step_retries:
  assumes "store_step c db db'"
  shows "retry_rows db' = retry_rows db \<or> (\<exists>source v r ts y. create_retry_run c source v r ts db = Inr (y, db'))"
  using assms
proof (induction rule: store_step.induct)
  case (3 source v r ts db y db')
  then show ?case by blast
qed (rule disjI1, erule no_retry | rule disjI1, erule quiet [THEN quiet_retries])+

section \<open>The invariant\<close>

definition profile_copied :: "(string, 'j profile_row) table \<Rightarrow> string \<Rightarrow> string \<Rightarrow> bool" where
  "profile_copied rows source retry \<longleftrightarrow>
     (\<exists>m m'. select_row rows source = Some m \<and> select_row rows retry = Some m' \<and> col_profile m' = col_profile m)"

definition retry_ok :: "'j codec \<Rightarrow> 'j db \<Rightarrow> string \<Rightarrow> 'j retry_row \<Rightarrow> bool" where
  "retry_ok c db k row \<longleftrightarrow> (\<exists>src ret. run_at c db src \<and> run_id src = col_source_run_id row
     \<and> retry_checkpoint src = Some RetryIngested
     \<and> run_at c db ret \<and> run_id ret = k \<and> run_document_id ret = run_document_id src
     \<and> col_checkpoint row = to_json (checkpoint_json c) RetryIngested
     \<and> col_retry_created_at row = to_rfc3339 c (run_created_at ret)
     \<and> profile_copied (pipeline_run_model_profiles db) (run_id src) k
     \<and> profile_copied (pipeline_run_summary_profiles db) (run_id src) k)"

definition retries_ok :: "'j codec \<Rightarrow> 'j db \<Rightarrow> bool" where
  "retries_ok c db \<longleftrightarrow> keyed (retry_rows db) \<and> distinct (map (col_source_run_id \<circ> snd) (retry_rows db))
     \<and> (\<forall>(k, row) \<in> set (retry_rows db). retry_ok c db k row)"

lemma retry_checkpoint_failed: "retry_checkpoint r = Some k \<Longrightarrow> run_state r = Failed"
  by (auto simp: retry_checkpoint_def split: option.splits if_splits)

lemma retry_ok_mono:
  assumes "grows c db db'" "side_grows db db'" "retry_ok c db k row"
  shows "retry_ok c db' k row"
proof -
  from assms(3) obtain src ret where r: "run_at c db src" "run_id src = col_source_run_id row"
     "retry_checkpoint src = Some RetryIngested" "run_at c db ret" "run_id ret = k" "run_document_id ret = run_document_id src"
     "col_checkpoint row = to_json (checkpoint_json c) RetryIngested"
     "col_retry_created_at row = to_rfc3339 c (run_created_at ret)"
     and prof: "profile_copied (pipeline_run_model_profiles db) (run_id src) k"
     "profile_copied (pipeline_run_summary_profiles db) (run_id src) k"
    unfolding retry_ok_def by blast
  from grows_run [OF assms(1) r(1)] obtain src' where src': "run_at c db' src'" "run_grows src src'" .
  have "src' = src" using src'(2) retry_checkpoint_failed [OF r(3)] by (simp add: run_grows_def terminal_def)
  from grows_run [OF assms(1) r(4)] obtain ret' where "run_at c db' ret'" "run_grows ret ret'" .
  moreover have "profile_copied (pipeline_run_model_profiles db') (run_id src) k"
     "profile_copied (pipeline_run_summary_profiles db') (run_id src) k"
    using assms(2) prof unfolding side_grows_def profile_copied_def by blast+
  ultimately show ?thesis using r(2-8) src'(1) \<open>src' = src\<close> unfolding retry_ok_def
    by (intro exI [where x = src] exI [where x = ret']) (simp add: run_grows_def)
qed

lemma received_run_grows:
  assumes "codec_ok c" "store_ok c db" "run_state r = Received" "state_version r = 1"
    and "persist_received_run_to_ingested c r creation reason ts db = Inr (x, db')"
  obtains r' where "run_at c db' r'" "run_grows r r'"
proof -
  from assms(5) obtain db1 db2 r1 db3 where
    ins: "insert_pipeline_run c r db = Inr db1" "insert_pipeline_event c (creation_event r creation (ts 0)) db1 = Inr db2"
    and steps: "transition_in_tx c (run_id r) Received 1 Ingesting (Some Ingest) reason no_patch (ts 1) db2 = Inr (r1, db3)"
    "transition_in_tx c (run_id r) Ingesting (state_version r1) Ingested (Some Ingest) reason no_patch (ts 2) db3 = Inr (x, db')"
    by (auto simp: persist_received_run_to_ingested_def creation_event_def res_simps)
  have "effect c db db2" using ins assms(3,4) by (rule effect.admit)
  then have ok: "store_ok c db2" by (rule effect_store_ok [OF assms(1) _ assms(2)])
  have at: "run_at c db2 r" using admit_effect(1,4) [OF ins] by (simp add: run_at_def)
  have "effect c db2 db3" "effect c db3 db'"
    by (rule advance_plain [OF steps(1)]; simp) (rule advance_plain [OF steps(2)]; simp)
  then have "effects c db2 db'" by simp
  from effects_grow [OF assms(1) this ok] have "grows c db2 db'" by blast
  then show ?thesis using at by (rule grows_run) (rule that)
qed

lemma copy_profile_copied:
  assumes "copy_profile relation run source created db rows = Inr (n, rows')" "select_row rows source = Some m"
  shows "profile_copied rows' source run"
  using assms by (auto simp: copy_profile_def profile_copied_def res_simps)

lemma create_retry_ok:
  assumes "codec_ok c" "store_ok c db" "retries_ok c db" "create_retry_run c source v retry ts db = Inr (y, db')"
  shows "retries_ok c db'"
  using assms(4)
proof (cases rule: retry_run_cases)
  case (1 source_run point document r1 db1 r2 db2 db3 copied models summaries)
  have effs: "effects c db db'" by (rule retry_effects [OF assms(4)])
  note grow = effects_grow [OF assms(1) effs assms(2)] and sgrow = create_retry_grows [OF assms(4)]
  have eff1: "effects c db db1" by (rule received_effects [OF 1(6,3,4)])
  note ok1 = effects_grow [OF assms(1) eff1 assms(2)]
  have "effects c db1 db'"
  proof -
    have "effects c db1 db2" by (rule effects_step [OF 1(7)]) simp_all
    moreover have "effects c db2 db'" using 1(8,11) by (intro keepI) (auto simp: insert_retry_def res_simps)
    ultimately show ?thesis by (rule rtranclp_trans)
  qed
  then have grow1: "grows c db1 db'" using effects_grow [OF assms(1)] ok1 by blast
  obtain ret0 where "run_at c db1 ret0" "run_grows retry ret0"
    by (rule received_run_grows [OF assms(1,2) 1(3,4,6)])
  moreover from this grow1 obtain ret where "run_at c db' ret" "run_grows ret0 ret" by (meson grows_run)
  ultimately have ret: "run_at c db' ret" "run_grows retry ret" using run_grows_trans by blast+
  from 1(1) obtain model profile where src: "require_run c db source = Inr source_run" "retry_checkpoint source_run = Some point"
      "get_run_model_profile c db source = Inr (Some model)" "get_run_summary_profile c db source = Inr (Some profile)"
    by (auto simp: validate_retry_source_def res_simps split: option.splits)
  have at: "run_at c db source_run" "run_id source_run = source"
    using src(1) get_run_iff(3) [OF assms(1) store_okD(1) [OF assms(2)]] by blast+
  from grows_run [OF conjunct1 [OF grow] at(1)] obtain src' where "run_at c db' src'" "run_grows source_run src'" .
  moreover from this have "src' = source_run" using retry_checkpoint_failed [OF src(2)] by (simp add: run_grows_def terminal_def)
  ultimately have at': "run_at c db' source_run" by simp
  have point: "point = RetryIngested" by (cases point) simp
  from 1(8) obtain row where row: "retry_rows db3 = retry_rows db2 @ [(run_id retry, row)]"
      "select_row (retry_rows db2) (run_id retry) = None"
      "\<not> list_ex (\<lambda>(_, row). col_source_run_id row = source) (retry_rows db2)"
      "row = \<lparr>col_source_run_id = source, col_checkpoint = to_json (checkpoint_json c) RetryIngested,
          col_retry_created_at = to_rfc3339 c (run_created_at retry)\<rparr>"
    and same3: "pipeline_run_model_profiles db3 = pipeline_run_model_profiles db2"
      "pipeline_run_summary_profiles db3 = pipeline_run_summary_profiles db2"
    by (auto simp: insert_retry_def res_simps)
  have side2: "side db2 = side db" using received_quiet [OF 1(6)] transition_quiet [OF 1(7)] by simp
  then have same2: "retry_rows db2 = retry_rows db" "pipeline_run_model_profiles db2 = pipeline_run_model_profiles db"
      "pipeline_run_summary_profiles db2 = pipeline_run_summary_profiles db" by (simp_all add: side_def)
  from src(3,4) obtain m s where "select_row (pipeline_run_model_profiles db) source = Some m"
      "select_row (pipeline_run_summary_profiles db) source = Some s"
    by (auto simp: get_run_model_profile_def get_run_summary_profile_def transpose_map_Inr_iff)
  then have copied: "profile_copied (pipeline_run_model_profiles db') source (run_id retry)"
      "profile_copied (pipeline_run_summary_profiles db') source (run_id retry)"
    using copy_profile_copied [OF 1(9)] copy_profile_copied [OF 1(10)] 1(11) same2 same3 by simp_all
  have "retry_ok c db' (run_id retry) row"
    unfolding retry_ok_def
    using at' at(2) src(2) point ret copied 1(2) row(4)
    by (intro exI [where x = source_run] exI [where x = ret]) (simp add: run_grows_def)
  moreover have "\<forall>(k, row) \<in> set (retry_rows db). retry_ok c db' k row"
    using assms(3) retry_ok_mono [OF conjunct1 [OF grow] sgrow] unfolding retries_ok_def by auto
  moreover have "retry_rows db' = retry_rows db @ [(run_id retry, row)]" using 1(11) row(1) same2 by simp
  moreover have "source \<notin> set (map (col_source_run_id \<circ> snd) (retry_rows db))"
    using row(3) same2(1) by (auto simp: list_ex_iff)
  ultimately show ?thesis
    using assms(3) row(2,4) same2(1) by (auto simp: retries_ok_def keyed_snoc)
qed

lemma steps_retries_ok:
  assumes "codec_ok c" "reachable_store c db"
  shows "retries_ok c db"
  using assms(2)
proof (induction rule: rtranclp_induct)
  case base
  then show ?case by (simp add: retries_ok_def empty_db_def)
next
  case (step db db')
  have ok: "store_ok c db" by (rule reachable_store_ok [OF assms(1) step(1)])
  from store_step_retries [OF step(2)] show ?case
  proof
    assume same: "retry_rows db' = retry_rows db"
    have "retry_ok c db' k row" if "(k, row) \<in> set (retry_rows db)" for k row
      using retry_ok_mono [OF reachable_grows(1) [OF assms(1) step(1) r_into_rtranclp [of "store_step c", OF step(2)]]
          store_step_side_grows [OF step(2)]] step.IH that unfolding retries_ok_def by blast
    then show ?thesis using step.IH same unfolding retries_ok_def by auto
  next
    assume "\<exists>source v r ts y. create_retry_run c source v r ts db = Inr (y, db')"
    then show ?thesis using create_retry_ok [OF assms(1) ok step.IH] by blast
  qed
qed

section \<open>Reading the lineage\<close>

lemma load_retry_lineage_ok:
  assumes "codec_ok c" "retries_ok c db" "(k, row) \<in> set (retry_rows db)"
    and "\<And>k' row'. (k', row') \<in> set (retry_rows db) \<Longrightarrow> p k' row' \<longleftrightarrow> k' = k"
  shows "\<exists>src ret l. run_at c db src \<and> run_id src = col_source_run_id row \<and> retry_checkpoint src = Some RetryIngested
    \<and> run_at c db ret \<and> run_id ret = k \<and> run_document_id ret = run_document_id src
    \<and> profile_copied (pipeline_run_model_profiles db) (run_id src) k
    \<and> profile_copied (pipeline_run_summary_profiles db) (run_id src) k
    \<and> load_retry_lineage c db p = Inr (Some l) \<and> l = \<lparr>retry_run_id = k, source_run_id = run_id src,
         checkpoint = RetryIngested, lineage_created_at = run_created_at ret\<rparr>"
proof -
  have ok: "retry_ok c db k' row'" if "(k', row') \<in> set (retry_rows db)" for k' row'
    using assms(2) that unfolding retries_ok_def by blast
  from ok [OF assms(3)] obtain src ret where r: "run_at c db src" "run_id src = col_source_run_id row"
     "retry_checkpoint src = Some RetryIngested" "run_at c db ret" "run_id ret = k" "run_document_id ret = run_document_id src"
     "col_checkpoint row = to_json (checkpoint_json c) RetryIngested"
     "col_retry_created_at row = to_rfc3339 c (run_created_at ret)"
     and prof: "profile_copied (pipeline_run_model_profiles db) (run_id src) k"
     "profile_copied (pipeline_run_summary_profiles db) (run_id src) k"
    unfolding retry_ok_def by blast
  have keyed: "keyed (retry_rows db)" using assms(2) by (simp add: retries_ok_def)
  let ?p = "\<lambda>retry row. p retry row \<and> has_key retry (pipeline_runs db) \<and> has_key (col_source_run_id row) (pipeline_runs db)"
  have holds: "?p k row" using assms(3,4) run_at_key [OF r(1)] run_at_key [OF r(4)] r(2,5) by auto
  have sel: "select_where ?p (retry_rows db) = Some (k, row)"
  proof (cases "select_where ?p (retry_rows db)")
    case None
    then show ?thesis using holds assms(3) by (auto simp: select_where_None)
  next
    case (Some x)
    obtain k' row' where x: "x = (k', row')" by (cases x)
    from select_where_Some [OF Some [unfolded x]] assms(4) have "(k', row') \<in> set (retry_rows db)" "k' = k" by auto
    then show ?thesis using Some x assms(3) keyed by (auto simp flip: select_row_mem [OF keyed])
  qed
  have rows: "select_row (pipeline_runs db) k = Some (run_row_of c ret)"
    "select_row (pipeline_runs db) (col_source_run_id row) = Some (run_row_of c src)"
    using r by (simp_all add: run_at_def)
  have "load_retry_lineage c db p = Inr (Some \<lparr>retry_run_id = k, source_run_id = run_id src,
         checkpoint = RetryIngested, lineage_created_at = run_created_at ret\<rparr>)"
    using r(2,6-8) by (simp add: load_retry_lineage_def sel rows read_retry_def codec_reads [OF assms(1)] run_row_of_def Let_def)
  then show ?thesis using r prof by blast
qed

lemma load_retry_lineage_none:
  assumes "\<And>k' row'. (k', row') \<in> set (retry_rows db) \<Longrightarrow> \<not> p k' row'"
  shows "load_retry_lineage c db p = Inr None"
proof -
  have "select_where (\<lambda>retry row. p retry row \<and> has_key retry (pipeline_runs db)
      \<and> has_key (col_source_run_id row) (pipeline_runs db)) (retry_rows db) = None"
    using assms by (auto simp: select_where_None)
  then show ?thesis by (simp add: load_retry_lineage_def)
qed

lemma profile_copied_read:
  assumes "profile_copied (pipeline_run_model_profiles db) s k" "profile_copied (pipeline_run_summary_profiles db) s k"
  shows "get_run_model_profile c db k = get_run_model_profile c db s"
    "get_run_summary_profile c db k = get_run_summary_profile c db s"
  using assms by (auto simp: profile_copied_def get_run_model_profile_def get_run_summary_profile_def)

text \<open>
  C24. Retries in a reachable database: the reader never finds a damaged or mismatched lineage; when a run
  is a retry, its source is a failed run with a recoverable failure and the same document, both have the
  same model profile and the same summary profile, and the retry is the only one of that source.
\<close>

theorem retry_inherits_source:
  assumes "codec_ok c" "reachable_store c db"
  shows "get_retry_lineage_for_retry c db k = Inr None
    \<or> (\<exists>l src ret. get_retry_lineage_for_retry c db k = Inr (Some l) \<and> retry_run_id l = k
         \<and> get_pipeline_run c db (source_run_id l) = Inr (Some src) \<and> run_state src = Failed
         \<and> retry_checkpoint src = Some (checkpoint l)
         \<and> get_pipeline_run c db k = Inr (Some ret) \<and> run_document_id ret = run_document_id src
         \<and> lineage_created_at l = run_created_at ret
         \<and> get_run_model_profile c db k = get_run_model_profile c db (source_run_id l)
         \<and> get_run_summary_profile c db k = get_run_summary_profile c db (source_run_id l)
         \<and> get_retry_lineage_for_source c db (source_run_id l) = Inr (Some l))"
proof (cases "\<exists>row. (k, row) \<in> set (retry_rows db)")
  case False
  then have "get_retry_lineage_for_retry c db k = Inr None"
    unfolding get_retry_lineage_for_retry_def by (intro load_retry_lineage_none) auto
  then show ?thesis ..
next
  case True
  then obtain row where row: "(k, row) \<in> set (retry_rows db)" by blast
  note ok = steps_retries_ok [OF assms]
  from load_retry_lineage_ok [OF assms(1) ok row, of "\<lambda>retry _. retry = k", OF refl] obtain src ret l where
    r: "run_at c db src" "run_id src = col_source_run_id row" "retry_checkpoint src = Some RetryIngested"
       "run_at c db ret" "run_id ret = k" "run_document_id ret = run_document_id src"
       "profile_copied (pipeline_run_model_profiles db) (run_id src) k"
       "profile_copied (pipeline_run_summary_profiles db) (run_id src) k"
    and l: "load_retry_lineage c db (\<lambda>retry _. retry = k) = Inr (Some l)" "l = \<lparr>retry_run_id = k, source_run_id = run_id src,
         checkpoint = RetryIngested, lineage_created_at = run_created_at ret\<rparr>" by blast
  have two: "col_source_run_id row' = col_source_run_id row \<longleftrightarrow> k' = k" if "(k', row') \<in> set (retry_rows db)" for k' row'
  proof
    assume "col_source_run_id row' = col_source_run_id row"
    then show "k' = k"
      using ok that row inj_onD [of "col_source_run_id \<circ> snd" "set (retry_rows db)" "(k', row')" "(k, row)"]
      by (auto simp: retries_ok_def distinct_map)
  next
    assume "k' = k"
    then show "col_source_run_id row' = col_source_run_id row"
      using ok that row select_row_mem [of "retry_rows db" k] by (metis option.inject retries_ok_def)
  qed
  from load_retry_lineage_ok [OF assms(1) ok row, of "\<lambda>_ row'. col_source_run_id row' = col_source_run_id row", OF two]
  obtain src2 ret2 l2 where r2: "run_at c db src2" "run_id src2 = col_source_run_id row" "run_at c db ret2" "run_id ret2 = k"
    and l2: "load_retry_lineage c db (\<lambda>_ row'. col_source_run_id row' = col_source_run_id row) = Inr (Some l2)"
      "l2 = \<lparr>retry_run_id = k, source_run_id = run_id src2, checkpoint = RetryIngested, lineage_created_at = run_created_at ret2\<rparr>"
    by blast
  have "ret2 = ret" by (rule run_at_det [OF assms(1) r2(3) r(4)]) (simp add: r2(4) r(5))
  then have "l2 = l" using l(2) l2(2) r(2) r2(2) by simp
  with l2(1) have "load_retry_lineage c db (\<lambda>_ row'. col_source_run_id row' = col_source_run_id row) = Inr (Some l)" by simp
  then have by_source: "get_retry_lineage_for_source c db (run_id src) = Inr (Some l)"
    by (simp add: get_retry_lineage_for_source_def r(2))
  have "get_retry_lineage_for_retry c db k = Inr (Some l)" using l(1) by (simp add: get_retry_lineage_for_retry_def)
  then show ?thesis
    using r l(2) by_source get_run_at(1) [OF assms(1) r(1)] get_run_at(1) [OF assms(1) r(4)] retry_checkpoint_failed [OF r(3)]
      profile_copied_read [OF r(7,8), of c]
    by (intro disjI2 exI [where x = l] exI [where x = src] exI [where x = ret]) simp
qed

definition demo_failure :: pipeline_failure where
  "demo_failure = \<lparr>failure_code = ''F'', failure_message = ''m'', failure_stage = Some Normalize, recoverable = True\<rparr>"

text \<open>The sample run fails while it is normalized and is retried.\<close>

definition demo_retried :: "store_error + sample_text db" where
  "demo_retried = res_bind (committed (fail_normalization sample_codec ''run'' 6 demo_failure (ticks 16 0) (demo 4)))
     (committed \<circ> create_retry_run sample_codec ''run'' 7 (sample_run\<lparr>run_id := ''retry''\<rparr>) (ticks 17))"

lemma demo_retried_reachable:
  assumes "demo_retried = Inr db"
  shows "reachable_store sample_codec db"
proof -
  from assms obtain x y db1 where "fail_normalization sample_codec ''run'' 6 demo_failure (ticks 16 0) (demo 4) = Inr (x, db1)"
    "create_retry_run sample_codec ''run'' 7 (sample_run\<lparr>run_id := ''retry''\<rparr>) (ticks 17) db1 = Inr (y, db)"
    by (auto simp: demo_retried_def res_simps committed_Inr)
  then have "store_step sample_codec (demo 4) db1" "store_step sample_codec db1 db" by (auto intro: store_step.intros)
  then show ?thesis using demo_reachable [of 4] by (meson rtranclp.rtrancl_into_rtrancl)
qed

lemma retry_inherits_source_witness:
  "\<exists>db l. demo_retried = Inr db \<and> get_retry_lineage_for_retry sample_codec db ''retry'' = Inr (Some l)
     \<and> source_run_id l = ''run'' \<and> get_run_model_profile sample_codec db ''retry'' = get_run_model_profile sample_codec db ''run''"
proof -
  have "\<exists>db l. demo_retried = Inr db \<and> get_retry_lineage_for_retry sample_codec db ''retry'' = Inr (Some l) \<and> source_run_id l = ''run''"
    by (simp add: demo_retried_def demo_simps fail_normalization_def failure_patch_def demo_failure_def create_retry_run_def
        validate_retry_source_def retry_checkpoint_def get_run_model_profile_def get_run_summary_profile_def sample_profile_def
        get_retry_lineage_for_source_def load_retry_lineage_def select_where_def insert_retry_def copy_profile_def
        get_retry_lineage_for_retry_def read_retry_def)
  then obtain db l where run: "demo_retried = Inr db" and l: "get_retry_lineage_for_retry sample_codec db ''retry'' = Inr (Some l)"
    "source_run_id l = ''run''" by blast
  have "get_run_model_profile sample_codec db ''retry'' = get_run_model_profile sample_codec db ''run''"
    using retry_inherits_source [OF sample_codec_ok demo_retried_reachable [OF run], of "''retry''"] l by auto
  then show ?thesis using run l by blast
qed

end
