(* ===== verification/Corrections.thy ===== *)
theory Corrections
  imports Store_Correct
begin

text \<open>
  The operator's corrections of OCR text, \<open>pipeline/corrections.rs\<close>: a correction never edits a stored
  result, it admits a new document with a run of its own and records which run it corrects. The table
  \<open>ocr_text_corrections\<close> is kept beside the database of \<open>Store_Schema\<close>, since only this module uses it;
  its triggers forbid updates and deletions, so it only grows.
\<close>

section \<open>State and errors\<close>

definition MAX_TEXT_BYTES :: nat where
  "MAX_TEXT_BYTES = 262144"

definition CORRECTION_WARNING :: string where
  "CORRECTION_WARNING = ''OPERATOR_CORRECTED_OCR_TEXT''"

datatype correction_error =
    CorrectionStore store_error | CorrectionSqlite sqlite_error | CorrectionJson
  | NotAllowed | StaleSource | AlreadyCorrected | Invalid string | Integrity | SourceUnavailable

fun correction_code :: "correction_error \<Rightarrow> string" where
  "correction_code NotAllowed = ''OCR_CORRECTION_NOT_ALLOWED''"
| "correction_code StaleSource = ''OCR_CORRECTION_STALE_SOURCE''"
| "correction_code AlreadyCorrected = ''OCR_CORRECTION_ALREADY_EXISTS''"
| "correction_code (Invalid _) = ''OCR_CORRECTION_INVALID''"
| "correction_code Integrity = ''OCR_CORRECTION_INTEGRITY_FAILED''"
| "correction_code SourceUnavailable = ''OCR_CORRECTION_SOURCE_UNAVAILABLE''"
| "correction_code _ = ''OCR_CORRECTION_STORE_ERROR''"

record page_correction =
  corrected_page_number :: u32
  corrected_text :: string

record save_correction =
  request_run_id :: string
  expected_state_version :: u32
  source_parsed_hash :: string
  request_pages :: "page_correction list"

record ocr_review =
  review_run_id :: string
  review_state_version :: u32
  review_parsed_hash :: string
  review_pages :: "page_correction list"
  correction_of_run_id :: "string option"
  corrected_run_id :: "string option"

record 'j correction_row =
  col_correction_run_id :: string
  col_source_document_id :: string
  col_correction_source_run_id :: string
  col_source_version :: u32
  col_source_parsed_hash :: string
  col_corrected_parsed_hash :: string
  col_corrected_parsed :: 'j
  col_correction_created_at :: 'j

type_synonym 'j corrections = "(string, 'j correction_row) table"

section \<open>The source of a correction\<close>

definition parsed_hash :: "'j codec \<Rightarrow> parsed_document \<Rightarrow> string" where
  "parsed_hash c p = sha_text c (to_json (parsed_json c) p)"

definition correction_source ::
  "'j codec \<Rightarrow> 'j db \<Rightarrow> string \<Rightarrow> correction_error + pipeline_run \<times> ingested_document \<times> parsed_document" where
  "correction_source c db run =
     res_bind (map_err CorrectionStore (require_run c db run)) (\<lambda>r.
     res_bind (map_err CorrectionStore (require_document c db (run_document_id r))) (\<lambda>document.
     res_bind (ensure (document_source_type document = OcrText
         \<and> run_state r \<in> {Complete, CompleteWithWarnings, Failed, Parsed}) NotAllowed) (\<lambda>_.
     res_bind (map_err CorrectionStore (get_parsed_document c db run)) (\<lambda>found.
     res_bind (ok_or found NotAllowed) (\<lambda>parsed.
     res_bind (ensure (parsed_source_type parsed = OcrText \<and> parsed_document_id parsed = document_id document)
         Integrity) (\<lambda>_.
     Inr (r, document, parsed)))))))"

definition correction_of_source :: "'j corrections \<Rightarrow> string \<Rightarrow> (string \<times> 'j correction_row) option" where
  "correction_of_source corr document = select_where (\<lambda>_ row. col_source_document_id row = document) corr"

definition get_review :: "'j codec \<Rightarrow> 'j corrections \<Rightarrow> 'j db \<Rightarrow> string \<Rightarrow> correction_error + ocr_review option" where
  "get_review c corr db run =
     (let resolved = (case get_admitted_ocr_child_run_id db run of Some child \<Rightarrow> child | None \<Rightarrow> run) in
      case correction_source c db resolved of
        Inl NotAllowed \<Rightarrow> Inr None
      | Inl e \<Rightarrow> Inl e
      | Inr (r, document, parsed) \<Rightarrow>
          Inr (Some \<lparr>review_run_id = run_id r, review_state_version = state_version r,
            review_parsed_hash = parsed_hash c parsed,
            review_pages = map (\<lambda>page. \<lparr>corrected_page_number = parsed_page_number page,
              corrected_text = parsed_text page\<rparr>) (parsed_pages parsed),
            correction_of_run_id = map_option col_correction_source_run_id (select_row corr (document_id document)),
            corrected_run_id = map_option (col_correction_run_id \<circ> snd)
              (correction_of_source corr (document_id document))\<rparr>))"

section \<open>Applying the edits\<close>

fun update_first :: "('a \<Rightarrow> bool) \<Rightarrow> ('a \<Rightarrow> 'a) \<Rightarrow> 'a list \<Rightarrow> 'a list" where
  "update_first p f [] = []"
| "update_first p f (x # xs) = (if p x then f x # xs else x # update_first p f xs)"

definition apply_edit ::
  "parsed_page list \<times> u32 set \<times> bool \<Rightarrow> page_correction \<Rightarrow> correction_error + parsed_page list \<times> u32 set \<times> bool" where
  "apply_edit = (\<lambda>(pages, seen, changed) edit.
     let is_page = (\<lambda>page. parsed_page_number page = corrected_page_number edit) in
     res_bind (ensure (corrected_page_number edit \<notin> seen) (Invalid ''duplicate page'')) (\<lambda>_.
     res_bind (ok_or (find is_page pages) (Invalid ''unknown page'')) (\<lambda>page.
     res_bind (ensure (\<not> (blank (corrected_text edit) \<or> CHR 0x00 \<in> set (corrected_text edit)))
         (Invalid ''page text must be nonempty and contain no NUL'')) (\<lambda>_.
     Inr (update_first is_page (\<lambda>page. page\<lparr>parsed_text := corrected_text edit\<rparr>) pages,
          insert (corrected_page_number edit) seen, changed \<or> parsed_text page \<noteq> corrected_text edit)))))"

definition correction_warning :: pipeline_warning where
  "correction_warning = \<lparr>warning_code = CORRECTION_WARNING,
     warning_message = ''This summary uses operator-corrected OCR text. Citations refer to that corrected text; compare it with the retained source PDF. Previously delivered results are unchanged.'',
     warning_stage = Some Parse\<rparr>"

definition has_correction_warning :: "parsed_document \<Rightarrow> bool" where
  "has_correction_warning p \<longleftrightarrow> list_ex (\<lambda>w. warning_code w = CORRECTION_WARNING) (parsed_warnings p)"

definition apply_pages :: "parsed_document \<Rightarrow> page_correction list \<Rightarrow> correction_error + parsed_document" where
  "apply_pages parsed changes =
     res_bind (ensure (changes \<noteq> [] \<and> length changes \<le> length (parsed_pages parsed))
         (Invalid ''supply changed pages only'')) (\<lambda>_.
     res_bind (res_fold apply_edit (parsed_pages parsed, {}, False) changes) (\<lambda>(pages, _, changed).
     res_bind (ensure changed (Invalid ''no text changed'')) (\<lambda>_.
     res_bind (ensure (sum_list (map (length \<circ> parsed_text) pages) \<le> MAX_TEXT_BYTES)
         (Invalid ''corrected text exceeds 262144 UTF-8 bytes'')) (\<lambda>_.
     let parsed' = parsed\<lparr>parsed_pages := pages\<rparr> in
     Inr (if has_correction_warning parsed' then parsed'
          else parsed'\<lparr>parsed_warnings := parsed_warnings parsed' @ [correction_warning]\<rparr>)))))"

section \<open>Saving and loading\<close>

definition prepare_received_run :: "string \<Rightarrow> timestamp \<Rightarrow> tick \<Rightarrow> pipeline_run" where
  "prepare_received_run document created t =
     \<lparr>run_id = fresh_uuid t, run_document_id = document, run_state = Received, state_version = 1,
      pipeline_version = ''1.0'', run_created_at = created, started_at = None, updated_at = created,
      completed_at = None, current_stage = None,
      progress = \<lparr>total_units = 0, completed_units = 0, failed_units = 0\<rparr>, run_warnings = [],
      run_failure = None, cancellation_requested = False, resumable = True\<rparr>"

definition load_for_document ::
  "'j codec \<Rightarrow> 'j corrections \<Rightarrow> string \<Rightarrow> correction_error + parsed_document option" where
  "load_for_document c corr document =
     (case select_row corr document of
        None \<Rightarrow> Inr None
      | Some row \<Rightarrow>
          res_bind (ok_or (dec (parsed_json c) (col_corrected_parsed row)) CorrectionJson) (\<lambda>parsed.
          res_bind (ensure (parsed_hash c parsed = col_corrected_parsed_hash row
              \<and> parsed_document_id parsed = document \<and> parsed_source_type parsed = OcrText
              \<and> has_correction_warning parsed) Integrity) (\<lambda>_.
          Inr (Some parsed))))"

definition insert_correction ::
  "string \<Rightarrow> 'j correction_row \<Rightarrow> 'j db \<Rightarrow> 'j corrections \<Rightarrow> correction_error + 'j corrections" where
  "insert_correction document row db corr =
     insert_row (CorrectionSqlite (ConstraintViolation ''ocr_text_corrections''))
       (has_key document (documents db) \<and> has_key (col_correction_run_id row) (pipeline_runs db)
        \<and> \<not> list_ex (\<lambda>(_, row'). col_correction_run_id row' = col_correction_run_id row) corr
        \<and> has_key (col_source_document_id row) (documents db)
        \<and> \<not> list_ex (\<lambda>(_, row'). col_source_document_id row' = col_source_document_id row) corr
        \<and> has_key (col_correction_source_run_id row) (pipeline_runs db)
        \<and> 0 < unat (col_source_version row))
       document row corr"

text \<open>A second request for the same source is answered only when it asks for what is stored already.\<close>

definition replay_correction ::
  "'j codec \<Rightarrow> 'j corrections \<Rightarrow> 'j db \<Rightarrow> string \<Rightarrow> parsed_document \<Rightarrow> string \<times> 'j correction_row \<Rightarrow>
   correction_error + pipeline_run" where
  "replay_correction c corr db run parsed = (\<lambda>(document, row).
     res_bind (load_for_document c corr document) (\<lambda>found.
     res_bind (ok_or found Integrity) (\<lambda>prior.
     res_bind (ensure (\<not> (col_correction_source_run_id row \<noteq> run
         \<or> parsed\<lparr>parsed_document_id := document\<rparr> \<noteq> prior)) AlreadyCorrected) (\<lambda>_.
     res_bind (map_err CorrectionStore (get_pipeline_run c db (col_correction_run_id row))) (\<lambda>found_run.
     ok_or found_run Integrity)))))"

definition save ::
  "'j codec \<Rightarrow> save_correction \<Rightarrow> (nat \<Rightarrow> tick) \<Rightarrow> 'j corrections \<times> 'j db \<Rightarrow>
   correction_error + pipeline_run \<times> 'j corrections \<times> 'j db" where
  "save c request ts = (\<lambda>(corr, db).
     res_bind (correction_source c db (request_run_id request)) (\<lambda>(source_run, document, parsed0).
     res_bind (ensure (\<not> (state_version source_run \<noteq> expected_state_version request
         \<or> parsed_hash c parsed0 \<noteq> source_parsed_hash request)) StaleSource) (\<lambda>_.
     res_bind (apply_pages parsed0 (request_pages request)) (\<lambda>parsed.
     case correction_of_source corr (document_id document) of
       Some existing \<Rightarrow>
         res_bind (replay_correction c corr db (request_run_id request) parsed existing) (\<lambda>r. Inr (r, corr, db))
     | None \<Rightarrow>
         let document1 = document\<lparr>document_id := fresh_uuid (ts 0), document_created_at := now (ts 0)\<rparr>;
             parsed1 = parsed\<lparr>parsed_document_id := document_id document1\<rparr>;
             new_run = prepare_received_run (document_id document1) (document_created_at document1) (ts 1)
         in res_bind (map_err CorrectionStore (persist_corrected_document c document1 new_run parsed1
               (request_run_id request) (\<lambda>n. ts (n + 2)) db)) (\<lambda>(r, db').
            res_bind (insert_correction (document_id document1)
              \<lparr>col_correction_run_id = run_id r, col_source_document_id = document_id document,
               col_correction_source_run_id = request_run_id request,
               col_source_version = expected_state_version request,
               col_source_parsed_hash = source_parsed_hash request,
               col_corrected_parsed_hash = parsed_hash c parsed1,
               col_corrected_parsed = to_json (parsed_json c) parsed1,
               col_correction_created_at = to_rfc3339 c (document_created_at document1)\<rparr> db' corr) (\<lambda>corr'.
            Inr (r, corr', db')))))))"

text \<open>
  The file system is a parameter: \<open>is_absolute\<close> and \<open>has_pdf_extension\<close> of the path, and what reading the
  file yields.
\<close>

definition verified_source_path ::
  "'j codec \<Rightarrow> (string \<Rightarrow> bool) \<Rightarrow> (string \<Rightarrow> bool) \<Rightarrow> (string \<Rightarrow> string option) \<Rightarrow> 'j db \<Rightarrow> string \<Rightarrow>
   correction_error + string" where
  "verified_source_path c is_absolute has_pdf_extension read_file db run =
     res_bind (correction_source c db run) (\<lambda>(_, document, _).
     let path = local_source_path document in
     res_bind (ensure (\<not> (\<not> is_absolute path \<or> \<not> has_pdf_extension path)) SourceUnavailable) (\<lambda>_.
     res_bind (ok_or (read_file path) SourceUnavailable) (\<lambda>bytes.
     res_bind (ensure (\<not> (\<not> starts_with bytes ''%PDF-'' \<or> word_of_nat (length bytes) \<noteq> byte_size document
         \<or> sha_bytes c bytes \<noteq> content_hash document)) SourceUnavailable) (\<lambda>_.
     Inr path))))"

section \<open>What the edits do\<close>

text \<open>The pages with the edits applied, as one would state it: page by page.\<close>

definition edits_of :: "page_correction list \<Rightarrow> u32 \<Rightarrow> string option" where
  "edits_of changes = map_of (map (\<lambda>e. (corrected_page_number e, corrected_text e)) changes)"

definition edited :: "page_correction list \<Rightarrow> parsed_page list \<Rightarrow> parsed_page list" where
  "edited changes = map (\<lambda>page. case edits_of changes (parsed_page_number page) of
     None \<Rightarrow> page | Some t \<Rightarrow> page\<lparr>parsed_text := t\<rparr>)"

definition edit_ok :: "u32 set \<Rightarrow> page_correction \<Rightarrow> bool" where
  "edit_ok numbers e \<longleftrightarrow> corrected_page_number e \<in> numbers \<and> \<not> blank (corrected_text e)
     \<and> CHR 0x00 \<notin> set (corrected_text e)"

lemma edited_numbers [simp]: "map parsed_page_number (edited changes pages) = map parsed_page_number pages"
  by (simp add: edited_def split: option.split)

lemma edited_Nil [simp]: "edited [] pages = pages"
  by (simp add: edited_def edits_of_def)

lemma edits_of_Cons:
  "edits_of (e # es) n = (if n = corrected_page_number e then Some (corrected_text e) else edits_of es n)"
  by (simp add: edits_of_def)

lemma edits_of_None: "n \<notin> corrected_page_number ` set es \<Longrightarrow> edits_of es n = None"
  by (auto simp: edits_of_def map_of_eq_None_iff)

lemma map_eq_self: "map f xs = xs \<longleftrightarrow> (\<forall>x \<in> set xs. f x = x)"
  by (induction xs) auto

lemma edited_same: "edited changes pages = pages \<longleftrightarrow>
    (\<forall>page \<in> set pages. \<forall>t. edits_of changes (parsed_page_number page) = Some t \<longrightarrow> parsed_text page = t)"
proof -
  have "page\<lparr>parsed_text := t\<rparr> = page \<longleftrightarrow> parsed_text page = t" for page :: parsed_page and t
    by (cases page) auto
  then have "(case m of None \<Rightarrow> page | Some t \<Rightarrow> page\<lparr>parsed_text := t\<rparr>) = page
      \<longleftrightarrow> (\<forall>t. m = Some t \<longrightarrow> parsed_text page = t)" for page :: parsed_page and m by (cases m) auto
  then show ?thesis by (simp only: edited_def map_eq_self)
qed

lemma update_first_edited:
  assumes "distinct (map parsed_page_number pages)"
  shows "update_first (\<lambda>page. parsed_page_number page = corrected_page_number e)
      (\<lambda>page. page\<lparr>parsed_text := corrected_text e\<rparr>) pages = edited [e] pages"
  using assms
proof (induction pages)
  case (Cons page pages)
  have "map (\<lambda>p. case edits_of [e] (parsed_page_number p) of None \<Rightarrow> p | Some t \<Rightarrow> p\<lparr>parsed_text := t\<rparr>) pages = pages"
    if "parsed_page_number page = corrected_page_number e"
    using Cons.prems that by (intro map_idI) (force simp: edits_of_def)
  with Cons show ?case by (auto simp: edited_def edits_of_def)
qed (simp add: edited_def)

lemma edited_Cons:
  assumes "corrected_page_number e \<notin> corrected_page_number ` set es"
  shows "edited es (edited [e] pages) = edited (e # es) pages"
  using edits_of_None [OF assms] by (auto simp: edited_def edits_of_Cons edits_of_None split: option.splits)

lemma edited_changed:
  assumes "corrected_page_number e \<notin> corrected_page_number ` set es"
    and "distinct (map parsed_page_number pages)" "page \<in> set pages" "parsed_page_number page = corrected_page_number e"
  shows "parsed_text page \<noteq> corrected_text e \<or> edited (e # es) pages \<noteq> edited [e] pages \<longleftrightarrow> edited (e # es) pages \<noteq> pages"
proof -
  have "edited es (edited [e] pages) = edited [e] pages \<longleftrightarrow> (\<forall>q \<in> set pages. \<forall>t.
      parsed_page_number q \<noteq> corrected_page_number e \<and> edits_of es (parsed_page_number q) = Some t \<longrightarrow> parsed_text q = t)"
    unfolding edited_same using edits_of_None [OF assms(1)]
    by (auto simp: edited_def edits_of_Cons edits_of_None split: option.splits)
  moreover have "edited (e # es) pages = pages \<longleftrightarrow> parsed_text page = corrected_text e \<and> (\<forall>q \<in> set pages. \<forall>t.
      parsed_page_number q \<noteq> corrected_page_number e \<and> edits_of es (parsed_page_number q) = Some t \<longrightarrow> parsed_text q = t)"
    unfolding edited_same edits_of_Cons using assms(2-4) by (auto simp: distinct_map inj_on_def)
  ultimately show ?thesis unfolding edited_Cons [OF assms(1)] by blast
qed

lemma apply_edit_Inr_iff:
  assumes "distinct (map parsed_page_number pages)"
  shows "apply_edit (pages, seen, changed) e = Inr st \<longleftrightarrow> corrected_page_number e \<notin> seen
    \<and> edit_ok (parsed_page_number ` set pages) e
    \<and> st = (edited [e] pages, insert (corrected_page_number e) seen, changed \<or> edited [e] pages \<noteq> pages)"
proof -
  let ?is = "\<lambda>page. parsed_page_number page = corrected_page_number e"
  have found: "find ?is pages \<noteq> None \<longleftrightarrow> corrected_page_number e \<in> parsed_page_number ` set pages"
    by (force simp: find_None_iff)
  have page: "page \<in> set pages" "?is page" if "find ?is pages = Some page" for page
    using that by (auto simp: find_Some_iff)
  have "parsed_text page \<noteq> corrected_text e \<longleftrightarrow> edited [e] pages \<noteq> pages" if "find ?is pages = Some page" for page
    using edited_changed [of e "[]" pages page] assms page [OF that] by simp
  with found show ?thesis
    by (cases "find ?is pages") (auto simp: apply_edit_def Let_def res_simps update_first_edited [OF assms] edit_ok_def)
qed

lemma apply_edits_Inr_iff:
  assumes "distinct (map parsed_page_number pages)"
  shows "res_fold apply_edit (pages, seen, changed) changes = Inr st \<longleftrightarrow>
      distinct (map corrected_page_number changes) \<and> seen \<inter> corrected_page_number ` set changes = {}
      \<and> (\<forall>e \<in> set changes. edit_ok (parsed_page_number ` set pages) e)
      \<and> st = (edited changes pages, corrected_page_number ` set changes \<union> seen, changed \<or> edited changes pages \<noteq> pages)"
  using assms
proof (induction changes arbitrary: pages seen changed)
  case (Cons e es)
  have numbers: "parsed_page_number ` set (edited [e] pages) = parsed_page_number ` set pages"
    using arg_cong [OF edited_numbers [of "[e]" pages], of set] by (simp del: edited_numbers)
  have "distinct (map parsed_page_number (edited [e] pages))" using Cons.prems by simp
  note IH = Cons.IH [OF this, unfolded numbers]
  have flag: "edited [e] pages \<noteq> pages \<or> edited es (edited [e] pages) \<noteq> edited [e] pages \<longleftrightarrow> edited (e # es) pages \<noteq> pages"
    if "corrected_page_number e \<notin> corrected_page_number ` set es" "edit_ok (parsed_page_number ` set pages) e"
  proof -
    from that(2) obtain page where page: "page \<in> set pages" "parsed_page_number page = corrected_page_number e"
      by (auto simp: edit_ok_def)
    show ?thesis
      using edited_changed [OF that(1) Cons.prems page] edited_changed [of e "[]", OF _ Cons.prems page]
      by (simp add: edited_Cons [OF that(1)])
  qed
  show ?case
  proof (cases "corrected_page_number e \<notin> corrected_page_number ` set es \<and> edit_ok (parsed_page_number ` set pages) e")
    case True
    with flag show ?thesis
      by (auto simp: res_bind_Inr_iff apply_edit_Inr_iff [OF Cons.prems] IH edited_Cons simp del: not_None_eq)
  qed (auto simp: res_bind_Inr_iff apply_edit_Inr_iff [OF Cons.prems] IH)
qed auto

section \<open>Applying a request\<close>

definition with_warning :: "parsed_document \<Rightarrow> parsed_document" where
  "with_warning p = (if has_correction_warning p then p
     else p\<lparr>parsed_warnings := parsed_warnings p @ [correction_warning]\<rparr>)"

text \<open>
  C26. A correction is accepted exactly when it names between one and all pages, each at most once and
  each of them a page of the document, gives every named page a text that is not blank and has no NUL,
  changes something, and stays within the limit of bytes; then exactly the named pages have the
  new text, everything else is as it was, and the document carries the warning.
\<close>

theorem apply_pages_exact:
  assumes "distinct (map parsed_page_number (parsed_pages parsed))"
  shows "apply_pages parsed changes = Inr parsed' \<longleftrightarrow>
      changes \<noteq> [] \<and> length changes \<le> length (parsed_pages parsed)
      \<and> distinct (map corrected_page_number changes)
      \<and> (\<forall>e \<in> set changes. (\<exists>page \<in> set (parsed_pages parsed). parsed_page_number page = corrected_page_number e)
           \<and> \<not> blank (corrected_text e) \<and> CHR 0x00 \<notin> set (corrected_text e))
      \<and> edited changes (parsed_pages parsed) \<noteq> parsed_pages parsed
      \<and> (\<Sum>page \<leftarrow> edited changes (parsed_pages parsed). length (parsed_text page)) \<le> 262144
      \<and> parsed' = with_warning (parsed\<lparr>parsed_pages := edited changes (parsed_pages parsed)\<rparr>)"
proof -
  have "edit_ok (parsed_page_number ` set (parsed_pages parsed)) e \<longleftrightarrow>
      (\<exists>page \<in> set (parsed_pages parsed). parsed_page_number page = corrected_page_number e)
        \<and> \<not> blank (corrected_text e) \<and> CHR 0x00 \<notin> set (corrected_text e)" for e
    by (force simp: edit_ok_def)
  then show ?thesis
    by (auto simp: apply_pages_def res_bind_Inr_iff ensure_Inr_iff apply_edits_Inr_iff [OF assms] with_warning_def
        Let_def MAX_TEXT_BYTES_def comp_def)
qed

lemma apply_pages_exact_witness:
  "\<exists>p. apply_pages \<lparr>parsed_document_id = ''d'', parser_id = ''p'', parser_version = ''1'', parsed_source_type = OcrText,
      parsed_pages = [\<lparr>parsed_page_number = 1, parsed_text = ''a'', parsed_page_warnings = [], parsed_requires_visual = False\<rparr>],
      parsed_warnings = []\<rparr> [\<lparr>corrected_page_number = 1, corrected_text = ''b''\<rparr>] = Inr p"
  by (subst apply_pages_exact) (simp_all add: edited_def edits_of_def blank_def byte_def is_whitespace_def)

end
