(* ===== verification/Correction_Store.thy ===== *)
theory Correction_Store
  imports Corrections
begin

text \<open>
  Corrections and the pipeline store together: what a saved correction leaves in the database, that it
  can be read back and repeated, and that it never touches what it corrects.
\<close>

section \<open>Documents\<close>

lemma transition_documents:
  "transition_in_tx c run s v n st rs p t db = Inr (r, db') \<Longrightarrow> documents db' = documents db"
  by (auto simp: transition_in_tx_def insert_pipeline_event_def res_simps Let_def case_prod_beta)

lemma effect_documents:
  assumes "effect c db db'" "select_row (documents db) k = Some row"
  shows "select_row (documents db') k = Some row"
  using assms(1)
proof (cases rule: effect.cases)
  case (document d)
  then show ?thesis using assms(2) by (auto simp: insert_document_def Let_def res_simps)
next
  case (admit r db1 reason t)
  then have "documents db' = documents db"
    using admit_effect(6) by blast
  then show ?thesis using assms(2) by simp
next
  case (advance run r S db1 s v n st rs p t r')
  then have "documents db' = documents db" using transition_documents [OF advance(3)] shelvedD(3) by metis
  then show ?thesis using assms(2) by simp
qed (simp add: assms(2))

lemma steps_documents:
  assumes "(store_step c)\<^sup>*\<^sup>* db db'" "select_row (documents db) k = Some row"
  shows "select_row (documents db') k = Some row"
proof -
  have "effects c db db'" by (rule steps_effects [OF assms(1)])
  then show ?thesis using assms(2) by (induction rule: rtranclp_induct) (auto dest: effect_documents)
qed

lemma steps_get_document:
  assumes "(store_step c)\<^sup>*\<^sup>* db db'" "get_document c db k = Inr (Some d)"
  shows "get_document c db' k = Inr (Some d)"
  using assms(2) steps_documents [OF assms(1)] by (auto simp: get_document_def transpose_map_Inr_iff)

section \<open>The admission of a corrected document\<close>

text \<open>A transition leaves every other run alone.\<close>

lemma transition_other_runs:
  assumes "transition_in_tx c run s v n st rs p t db = Inr (r, db')" "run_at c db q" "run_id q \<noteq> run"
  shows "run_at c db' q"
proof -
  from assms(1) obtain upd where "pipeline_runs db' = snd (update_where (\<lambda>k row. k = run \<and> upd row) (set_run_columns (run_row_of c r)) (pipeline_runs db))"
    by (auto simp: transition_in_tx_def insert_pipeline_event_def res_simps Let_def case_prod_beta)
  then show ?thesis using assms(2,3) by (simp add: run_at_def select_row_update)
qed

lemma profile_keeps_runs:
  "ensure_run_summary_profile c run profile t db = Inr db1 \<Longrightarrow> pipeline_runs db1 = pipeline_runs db"
  "ensure_run_model_profile c run snapshot t db = Inr db2 \<Longrightarrow> pipeline_runs db2 = pipeline_runs db"
  by (auto simp: ensure_run_summary_profile_def ensure_run_model_profile_def res_simps split: option.splits if_splits)

lemma corrected_document_cases:
  assumes "persist_corrected_document c d r p source ts db = Inr (r', db')"
  obtains db2 db3 db4 and r2 :: pipeline_run where "run_document_id r = document_id d"
    "effects c db db2" "run_at c db2 r" "effects c db2 db3" "select_row (documents db) (document_id d) = None"
    "insert_parsed_document c (run_id r) p (ts 6) db3 = Inr db4"
    "transition_in_tx c (run_id r) Parsing (state_version r2) Parsed (Some Parse)
      (Some ''operator_ocr_correction'')
      (warnings_patch (parsed_warnings p @ concat (map parsed_page_warnings (parsed_pages p)))) (ts 7) db4 = Inr (r', db')"
    "select_row (documents db3) (document_id d) = Some (document_row_of c d)"
    "\<forall>q. run_at c db q \<longrightarrow> run_id q \<noteq> run_id r \<and> run_at c db3 q"
proof -
  from assms obtain db1 db2 db3 db4 r1 r2 profile model where
    ing: "persist_ingestion_in_transaction c d r profile ts db = Inr (r1, db1)"
    and prof: "ensure_run_model_profile c (run_id r) model (ts 4) db1 = Inr db2"
    and s1: "transition_in_tx c (run_id r) Ingested (state_version r1) Parsing (Some Parse)
      (Some ''operator_ocr_correction'') no_patch (ts 5) db2 = Inr (r2, db3)"
    and ins: "insert_parsed_document c (run_id r) p (ts 6) db3 = Inr db4"
    and s2: "transition_in_tx c (run_id r) Parsing (state_version r2) Parsed (Some Parse)
      (Some ''operator_ocr_correction'')
      (warnings_patch (parsed_warnings p @ concat (map parsed_page_warnings (parsed_pages p)))) (ts 7) db4 = Inr (r', db')"
    by (auto simp: persist_corrected_document_def res_simps)
  from ing obtain db0 db5 where new: "run_document_id r = document_id d" "run_state r = Received" "state_version r = 1"
    and doc: "insert_document c d db = Inr db0"
    and rest: "persist_received_run_to_ingested c r ''run_created'' None ts db0 = Inr (r1, db5)"
      "ensure_run_summary_profile c (run_id r1) profile (ts 3) db5 = Inr db1"
    by (auto simp: persist_ingestion_in_transaction_def new_run_guard_def res_simps)
  have fresh: "select_row (documents db) (document_id d) = None"
    and there: "select_row (documents db0) (document_id d) = Some (document_row_of c d)"
    using doc by (auto simp: insert_document_def Let_def res_simps)
  from rest(1) obtain dba dbb r3 dbc where
    ins_run: "insert_pipeline_run c r db0 = Inr dba" "insert_pipeline_event c (creation_event r ''run_created'' (ts 0)) dba = Inr dbb"
    and steps: "transition_in_tx c (run_id r) Received 1 Ingesting (Some Ingest) None no_patch (ts 1) dbb = Inr (r3, dbc)"
    "transition_in_tx c (run_id r) Ingesting (state_version r3) Ingested (Some Ingest) None no_patch (ts 2) dbc = Inr (r1, db5)"
    by (auto simp: persist_received_run_to_ingested_def creation_event_def res_simps)
  note adm = admit_effect [OF ins_run]
  have start: "effects c db dbb" using effect.document [OF doc] effect.admit [OF ins_run new(2,3)]
    by (meson rtranclp.rtrancl_into_rtrancl rtranclp.rtrancl_refl)
  have at: "run_at c dbb r" using adm(1,4) by (simp add: run_at_def)
  have "effect c dbb dbc" "effect c dbc db5"
    by (rule advance_plain [OF steps(1)]; simp) (rule advance_plain [OF steps(2)]; simp)
  then have "effects c dbb db2" using profile_effects(2) [OF rest(2)] profile_effects(1) [OF prof]
    by (meson converse_rtranclp_into_rtranclp rtranclp_trans)
  moreover have "effect c db2 db3" by (rule advance_plain [OF s1]) simp_all
  ultimately have effs: "effects c dbb db3" by (meson rtranclp.rtrancl_into_rtrancl)
  have "select_row (documents dbb) (document_id d) = Some (document_row_of c d)" using there adm(6) by simp
  with effs have "select_row (documents db3) (document_id d) = Some (document_row_of c d)"
    by (induction rule: rtranclp_induct) (auto dest: effect_documents)
  moreover have "run_id q \<noteq> run_id r \<and> run_at c db3 q" if "run_at c db q" for q
  proof -
    have "run_at c db0 q" using that doc by (auto simp: run_at_def insert_document_def Let_def res_simps)
    then have other: "run_id q \<noteq> run_id r" "run_at c dbb q" using adm(1,4) by (auto simp: run_at_def)
    have "run_at c db5 q" by (rule transition_other_runs [OF steps(2) transition_other_runs [OF steps(1) other(2)]]) (use other(1) in simp_all)
    then have "run_at c db2 q" using profile_keeps_runs(1) [OF rest(2)] profile_keeps_runs(2) [OF prof] by (simp add: run_at_def)
    then show ?thesis using transition_other_runs [OF s1] other(1) by blast
  qed
  ultimately show ?thesis by (intro that [OF new(1) start at effs fresh ins s2]) simp_all
qed

text \<open>The new run is parsed, holds the corrected text, and its document can be read.\<close>

lemma corrected_document_result:
  assumes "codec_ok c" "store_ok c db" "persist_corrected_document c d r p source ts db = Inr (r', db')"
  shows "store_step c db db'" "run_at c db' r'" "run_id r' = run_id r" "run_document_id r' = document_id d"
    "run_state r' = Parsed" "get_parsed_document c db' (run_id r) = Inr (Some p)"
    "select_row (documents db) (document_id d) = None" "has_key (document_id d) (documents db')"
    "run_at c db other \<Longrightarrow> run_at c db' other"
proof -
  show "store_step c db db'" using assms(3) by (rule store_step.intros)
  from corrected_document_cases [OF assms(3)] obtain db2 db3 db4 and r2 :: pipeline_run
    where doc: "run_document_id r = document_id d" "select_row (documents db) (document_id d) = None"
      "select_row (documents db3) (document_id d) = Some (document_row_of c d)"
      "\<forall>q. run_at c db q \<longrightarrow> run_id q \<noteq> run_id r \<and> run_at c db3 q"
    and pre: "effects c db db2" "run_at c db2 r" "effects c db2 db3" and ins: "insert_parsed_document c (run_id r) p (ts 6) db3 = Inr db4"
    and step: "transition_in_tx c (run_id r) Parsing (state_version r2) Parsed (Some Parse)
      (Some ''operator_ocr_correction'')
      (warnings_patch (parsed_warnings p @ concat (map parsed_page_warnings (parsed_pages p)))) (ts 7) db4 = Inr (r', db')" .
  note sh = shelvedD(1-3) [OF insert_parsed_shelved [OF ins]]
  have ok2: "store_ok c db2" by (rule effects_store_ok [OF assms(1) pre(1) assms(2)])
  note grow = effects_grow [OF assms(1) pre(3) ok2]
  have "runs_ok c db3" using store_okD(1) [OF effects_store_ok [OF assms(1) pre(3) ok2]] .
  then have runs4: "runs_ok c db4" using runs_ok_cong(4) [OF sh(1,2)] by simp
  from transition_in_txE [OF assms(1) runs4 step] obtain q es ev q1
    where q: "run_id q = run_id r" "run_at c db4 q" and tr: "transition q Parsing Parsed (state_version r2)
        (word_of_nat (length (es :: pipeline_event list))) (Some Parse) (Some ''operator_ocr_correction'') (ts 7) = Inr (ev, q1)"
      and res: "r' = apply_patch (warnings_patch (parsed_warnings p @ concat (map parsed_page_warnings (parsed_pages p)))) q1"
        "db' = stepped c r' ev db4" by metis
  show id: "run_id r' = run_id r" "run_state r' = Parsed" using tr q(1) res(1) by (auto simp: transition_Inr_iff)
  show "run_at c db' r'" unfolding res(2) by (rule run_at_stepped_self) (use run_at_key [OF q(2)] id(1) q(1) in simp)
  show "get_parsed_document c db' (run_id r) = Inr (Some p)"
    using ins res(2) by (auto simp: insert_parsed_document_def res_simps get_parsed_document_def stepped_def codec_reads [OF assms(1)])
  show "select_row (documents db) (document_id d) = None" by (rule doc(2))
  show "has_key (document_id d) (documents db')"
    using doc(3) sh(3) transition_documents [OF step] by (simp add: has_key_iff)
  show "run_at c db' other" if "run_at c db other"
    using transition_other_runs [OF step, of other] doc(4) that fun_cong [OF runs_ok_cong(1) [OF sh(1,2), of c], of other] by simp
  show "run_document_id r' = document_id d"
  proof -
    from grows_run [OF conjunct1 [OF grow] pre(2)] obtain r3 where r3: "run_at c db3 r3" "run_grows r r3" .
    then have "q = r3" using q runs_ok_cong(1) [OF sh(1,2)] run_at_det [OF assms(1), of db3 q r3]
      by (simp add: run_grows_def)
    then show ?thesis using r3(2) tr res(1) doc(1) by (auto simp: transition_Inr_iff run_grows_def)
  qed
qed

section \<open>The desk: the store with the corrections\<close>

inductive desk_step :: "'j codec \<Rightarrow> 'j corrections \<times> 'j db \<Rightarrow> 'j corrections \<times> 'j db \<Rightarrow> bool" for c where
  transaction: "store_step c db db' \<Longrightarrow> desk_step c (corr, db) (corr, db')"
| correction: "save c request ts (corr, db) = Inr (r, corr', db') \<Longrightarrow> desk_step c (corr, db) (corr', db')"

abbreviation reachable_desk :: "'j codec \<Rightarrow> 'j corrections \<times> 'j db \<Rightarrow> bool" where
  "reachable_desk c \<equiv> (desk_step c)\<^sup>*\<^sup>* ([], empty_db)"

definition correction_ok :: "'j codec \<Rightarrow> 'j db \<Rightarrow> string \<Rightarrow> 'j correction_row \<Rightarrow> bool" where
  "correction_ok c db k row \<longleftrightarrow> (\<exists>r src p.
     run_at c db r \<and> run_id r = col_correction_run_id row \<and> run_document_id r = k
     \<and> run_at c db src \<and> run_id src = col_correction_source_run_id row
     \<and> run_document_id src = col_source_document_id row \<and> col_source_document_id row \<noteq> k
     \<and> col_corrected_parsed row = to_json (parsed_json c) p \<and> col_corrected_parsed_hash row = parsed_hash c p
     \<and> parsed_document_id p = k \<and> parsed_source_type p = OcrText \<and> has_correction_warning p
     \<and> get_parsed_document c db (run_id r) = Inr (Some p))"

definition desk_ok :: "'j codec \<Rightarrow> 'j corrections \<times> 'j db \<Rightarrow> bool" where
  "desk_ok c = (\<lambda>(corr, db). reachable_store c db \<and> keyed corr
     \<and> distinct (map (col_source_document_id \<circ> snd) corr)
     \<and> (\<forall>(k, row) \<in> set corr. correction_ok c db k row))"

lemma desk_okD:
  assumes "desk_ok c (corr, db)"
  shows "reachable_store c db" "keyed corr" "distinct (map (col_source_document_id \<circ> snd) corr)"
    "(k, row) \<in> set corr \<Longrightarrow> correction_ok c db k row"
  using assms by (auto simp: desk_ok_def)

lemma correction_ok_kept:
  assumes "grows c db db'" "correction_ok c db k row"
  shows "correction_ok c db' k row"
proof -
  from assms(2) obtain r src p where old: "run_at c db r" "run_id r = col_correction_run_id row" "run_document_id r = k"
      "run_at c db src" "run_id src = col_correction_source_run_id row" "run_document_id src = col_source_document_id row"
      "get_parsed_document c db (run_id r) = Inr (Some p)"
    and rest: "col_source_document_id row \<noteq> k" "col_corrected_parsed row = to_json (parsed_json c) p"
      "col_corrected_parsed_hash row = parsed_hash c p"
      "parsed_document_id p = k" "parsed_source_type p = OcrText" "has_correction_warning p"
    unfolding correction_ok_def by blast
  from grows_run [OF assms(1) old(1)] obtain r' where r': "run_at c db' r'" "run_grows r r'" .
  from grows_run [OF assms(1) old(4)] obtain src' where src': "run_at c db' src'" "run_grows src src'" .
  show ?thesis
    unfolding correction_ok_def
    using r' src' old rest readers_kept(1) [OF assms(1) old(1) refl old(7)]
    by (intro exI [where x = r'] exI [where x = src'] exI [where x = p]) (simp add: run_grows_def)
qed

section \<open>What a request finds and does\<close>

lemma get_document_id: "get_document c db k = Inr (Some d) \<Longrightarrow> document_id d = k \<and> has_key k (documents db)"
  by (auto simp: get_document_def read_document_def res_simps has_key_iff)

lemma correction_sourceD:
  assumes "codec_ok c" "reachable_store c db" "correction_source c db run = Inr (src, doc, p)"
  shows "run_at c db src" "run_id src = run" "get_document c db (run_document_id src) = Inr (Some doc)"
    "document_id doc = run_document_id src" "has_key (document_id doc) (documents db)"
    "get_parsed_document c db run = Inr (Some p)" "parsed_source_type p = OcrText" "parsed_document_id p = document_id doc"
    "document_source_type doc = OcrText" "run_state src \<in> {Complete, CompleteWithWarnings, Failed, Parsed}"
proof -
  note runs = store_okD(1) [OF reachable_store_ok [OF assms(1,2)]]
  from assms(3) have parts: "require_run c db run = Inr src" "require_document c db (run_document_id src) = Inr doc"
    "get_parsed_document c db run = Inr (Some p)" "parsed_source_type p = OcrText" "parsed_document_id p = document_id doc"
    "document_source_type doc = OcrText" "run_state src \<in> {Complete, CompleteWithWarnings, Failed, Parsed}"
    by (auto simp: correction_source_def res_simps)
  show "run_at c db src" "run_id src = run" using parts(1) by (simp_all add: get_run_iff [OF assms(1) runs])
  show get: "get_document c db (run_document_id src) = Inr (Some doc)" using parts(2) by (auto simp: require_document_def res_simps)
  show "document_id doc = run_document_id src" "has_key (document_id doc) (documents db)"
    using get_document_id [OF get] by simp_all
qed (use assms(3) in \<open>auto simp: correction_source_def res_simps\<close>)

lemma correction_source_kept:
  assumes "codec_ok c" "reachable_store c db" "correction_source c db run = Inr (src, doc, p)"
    and "(store_step c)\<^sup>*\<^sup>* db db'" "run_at c db' src"
  shows "correction_source c db' run = Inr (src, doc, p)"
proof -
  note src = correction_sourceD [OF assms(1-3)]
  have grow: "grows c db db'" using reachable_grows(1) [OF assms(1,2,4)] .
  have "require_run c db' run = Inr src" using get_run_at(2) [OF assms(1,5)] src(2) by simp
  moreover have "require_document c db' (run_document_id src) = Inr doc"
    using steps_get_document [OF assms(4) src(3)] by (simp add: require_document_def)
  moreover have "get_parsed_document c db' run = Inr (Some p)" using readers_kept(1) [OF grow src(1,2,6)] .
  ultimately show ?thesis using src(7-10) by (simp add: correction_source_def)
qed

lemma apply_pages_keeps:
  assumes "apply_pages p changes = Inr q"
  shows "parsed_document_id q = parsed_document_id p" "parsed_source_type q = parsed_source_type p"
    "has_correction_warning q" "parser_id q = parser_id p" "parser_version q = parser_version p"
proof -
  from assms obtain pages where "q = with_warning (p\<lparr>parsed_pages := pages\<rparr>)"
    by (auto simp: apply_pages_def res_simps Let_def with_warning_def)
  then show "parsed_document_id q = parsed_document_id p" "parsed_source_type q = parsed_source_type p"
    "has_correction_warning q" "parser_id q = parser_id p" "parser_version q = parser_version p"
    by (simp_all add: with_warning_def has_correction_warning_def correction_warning_def)
qed

lemma map_err_Inl_iff: "map_err f m = Inl e \<longleftrightarrow> (\<exists>e'. m = Inl e' \<and> e = f e')"
  by (cases m) auto

lemma apply_pages_error: "apply_pages p changes = Inl e \<Longrightarrow> \<exists>m. e = Invalid m"
proof -
  have "\<exists>m. e = Invalid m" if "res_fold apply_edit st changes = Inl e" for st
    using that
    by (induction changes arbitrary: st) (auto simp: apply_edit_def Let_def res_bind_Inl_iff ensure_Inl_iff ok_or_Inl_iff split: prod.splits)
  moreover assume "apply_pages p changes = Inl e"
  ultimately show ?thesis
    by (auto simp: apply_pages_def res_bind_Inl_iff ensure_Inl_iff Let_def split: prod.splits)
qed

lemma load_stored:
  assumes "codec_ok c" "select_row corr k = Some row" "correction_ok c db k row"
  obtains p r where "load_for_document c corr k = Inr (Some p)" "col_corrected_parsed row = to_json (parsed_json c) p"
    "run_at c db r" "run_id r = col_correction_run_id row" "run_document_id r = k"
    "get_parsed_document c db (run_id r) = Inr (Some p)" "has_correction_warning p" "parsed_document_id p = k"
proof -
  have k: "dec (parsed_json c) (to_json (parsed_json c) p) = Some p" for p
    using assms(1) by (simp add: codec_ok_def coding_ok_def to_json_def)
  from assms(3) obtain r p where row: "run_at c db r" "run_id r = col_correction_run_id row" "run_document_id r = k"
      "col_corrected_parsed row = to_json (parsed_json c) p" "col_corrected_parsed_hash row = parsed_hash c p"
      "parsed_document_id p = k" "parsed_source_type p = OcrText" "has_correction_warning p"
      "get_parsed_document c db (run_id r) = Inr (Some p)"
    unfolding correction_ok_def by blast
  then have "load_for_document c corr k = Inr (Some p)" by (simp add: load_for_document_def assms(2) k)
  then show ?thesis by (rule that [OF _ row(4,1,2,3,9,8,6)])
qed

lemma correction_of_source_Some:
  "correction_of_source corr doc = Some (k, row) \<Longrightarrow> (k, row) \<in> set corr \<and> col_source_document_id row = doc"
  using select_where_Some [of "\<lambda>_ row. col_source_document_id row = doc" corr k row]
  by (simp add: correction_of_source_def)

text \<open>The two ways to succeed: the correction exists already, or it is made.\<close>

lemma save_cases [consumes 1, case_names replayed made]:
  assumes "save c request ts (corr, db) = Inr (r, corr', db')"
  obtains (replayed) src doc p q k row where "correction_source c db (request_run_id request) = Inr (src, doc, p)"
      "state_version src = expected_state_version request" "parsed_hash c p = source_parsed_hash request"
      "apply_pages p (request_pages request) = Inr q" "corr' = corr" "db' = db"
      "correction_of_source corr (document_id doc) = Some (k, row)"
      "col_correction_source_run_id row = request_run_id request"
      "load_for_document c corr k = Inr (Some (q\<lparr>parsed_document_id := k\<rparr>))"
      "get_pipeline_run c db (col_correction_run_id row) = Inr (Some r)"
  | (made) src doc p q where "correction_source c db (request_run_id request) = Inr (src, doc, p)"
      "state_version src = expected_state_version request" "parsed_hash c p = source_parsed_hash request"
      "apply_pages p (request_pages request) = Inr q" "correction_of_source corr (document_id doc) = None"
      "persist_corrected_document c (doc\<lparr>document_id := fresh_uuid (ts 0), document_created_at := now (ts 0)\<rparr>)
        (prepare_received_run (fresh_uuid (ts 0)) (now (ts 0)) (ts 1)) (q\<lparr>parsed_document_id := fresh_uuid (ts 0)\<rparr>)
        (request_run_id request) (\<lambda>n. ts (n + 2)) db = Inr (r, db')"
      "insert_correction (fresh_uuid (ts 0))
        \<lparr>col_correction_run_id = run_id r, col_source_document_id = document_id doc,
         col_correction_source_run_id = request_run_id request,
         col_source_version = expected_state_version request,
         col_source_parsed_hash = source_parsed_hash request,
         col_corrected_parsed_hash = parsed_hash c (q\<lparr>parsed_document_id := fresh_uuid (ts 0)\<rparr>),
         col_corrected_parsed = to_json (parsed_json c) (q\<lparr>parsed_document_id := fresh_uuid (ts 0)\<rparr>),
         col_correction_created_at = to_rfc3339 c (now (ts 0))\<rparr> db' corr = Inr corr'"
proof -
  from assms obtain src doc p q where found: "correction_source c db (request_run_id request) = Inr (src, doc, p)"
      "state_version src = expected_state_version request" "parsed_hash c p = source_parsed_hash request"
      "apply_pages p (request_pages request) = Inr q"
    by (auto simp: save_def res_simps)
  show ?thesis
  proof (cases "correction_of_source corr (document_id doc)")
    case None
    with assms found show ?thesis by (intro made [OF found None]) (auto simp: save_def Let_def res_simps)
  next
    case (Some existing)
    obtain k row where kr: "existing = (k, row)" by (cases existing)
    from assms found Some show ?thesis
      by (intro replayed [OF found]) (auto simp: save_def kr replay_correction_def res_simps)
  qed
qed


lemma some_row_iff: "list_ex (\<lambda>(_, row). f row = x) t \<longleftrightarrow> x \<in> set (map (f \<circ> snd) t)"
  by (force simp: list_ex_iff)

lemma insert_correction_Inr_iff:
  "insert_correction document row db corr = Inr corr' \<longleftrightarrow> select_row corr document = None
     \<and> corr' = corr @ [(document, row)] \<and> has_key document (documents db)
     \<and> has_key (col_correction_run_id row) (pipeline_runs db)
     \<and> col_correction_run_id row \<notin> set (map (col_correction_run_id \<circ> snd) corr)
     \<and> has_key (col_source_document_id row) (documents db)
     \<and> col_source_document_id row \<notin> set (map (col_source_document_id \<circ> snd) corr)
     \<and> has_key (col_correction_source_run_id row) (pipeline_runs db) \<and> 0 < unat (col_source_version row)"
  unfolding insert_correction_def some_row_iff by (auto simp: res_simps)

section \<open>The invariant of the desk\<close>

lemma transaction_desk_ok:
  assumes "codec_ok c" "desk_ok c (corr, db)" "store_step c db db'"
  shows "desk_ok c (corr, db')"
proof -
  note old = desk_okD [OF assms(2)]
  have "grows c db db'" using reachable_grows(1) [OF assms(1) old(1)] assms(3) by blast
  then have "correction_ok c db' k row" if "(k, row) \<in> set corr" for k row
    using correction_ok_kept old(4) [OF that] by blast
  moreover have "reachable_store c db'" using old(1) assms(3) by (rule rtranclp.rtrancl_into_rtrancl)
  ultimately show ?thesis using old(2,3) by (auto simp: desk_ok_def)
qed

text \<open>What a made correction leaves behind.\<close>

lemma made_correction:
  assumes "codec_ok c" "desk_ok c (corr, db)" "correction_source c db run = Inr (src, doc, p)"
    and "apply_pages p changes = Inr q" "q' = q\<lparr>parsed_document_id := fresh_uuid t\<rparr>"
    and "persist_corrected_document c (doc\<lparr>document_id := fresh_uuid t, document_created_at := now t\<rparr>)
        (prepare_received_run (fresh_uuid t) (now t) t') q' run ts db = Inr (r, db')"
    and "row = \<lparr>col_correction_run_id = run_id r, col_source_document_id = document_id doc,
         col_correction_source_run_id = run, col_source_version = v, col_source_parsed_hash = h,
         col_corrected_parsed_hash = parsed_hash c q', col_corrected_parsed = to_json (parsed_json c) q',
         col_correction_created_at = created\<rparr>"
  shows "correction_ok c db' (fresh_uuid t) row" "store_step c db db'" "run_document_id r = fresh_uuid t"
    "document_id doc \<noteq> fresh_uuid t" "run_at c db' r" "correction_source c db' run = Inr (src, doc, p)"
proof -
  note old = desk_okD [OF assms(2)]
  note src = correction_sourceD [OF assms(1) old(1) assms(3)]
  note new = corrected_document_result [OF assms(1) reachable_store_ok [OF assms(1) old(1)] assms(6)]
  show "store_step c db db'" "run_at c db' r" by (rule new)+
  show doc: "run_document_id r = fresh_uuid t" using new(4) by simp
  show fresh: "document_id doc \<noteq> fresh_uuid t" using new(7) src(5) by (auto simp: has_key_iff)
  have "grows c db db'" using reachable_grows(1) [OF assms(1) old(1)] new(1) by blast
  from grows_run [OF this src(1)] obtain src' where src': "run_at c db' src'" "run_grows src src'" .
  show "correction_ok c db' (fresh_uuid t) row"
    unfolding correction_ok_def assms(7)
    using new(2,3,6) doc fresh src' src(2,4,7) apply_pages_keeps [OF assms(4)]
    by (intro exI [where x = r] exI [where x = src'] exI [where x = q'])
      (simp add: run_grows_def assms(5) has_correction_warning_def)
  show "correction_source c db' run = Inr (src, doc, p)"
    by (rule correction_source_kept [OF assms(1) old(1) assms(3) _ new(9) [OF src(1)]]) (use new(1) in blast)
qed

lemma desk_step_ok:
  assumes "codec_ok c" "desk_step c d d'" "desk_ok c d"
  shows "desk_ok c d'"
  using assms(2,3)
proof (cases rule: desk_step.cases)
  case (transaction db db' corr)
  then show ?thesis using transaction_desk_ok [OF assms(1)] assms(3) by blast
next
  case (correction request ts corr db r corr' db')
  from correction(3) show ?thesis
  proof (cases rule: save_cases)
    case replayed
    then show ?thesis using assms(3) correction(1,2) by simp
  next
    case (made src doc p q)
    have ok: "desk_ok c (corr, db)" using assms(3) correction(1) by simp
    note new = made_correction [OF assms(1) ok made(1,4) refl made(6) refl]
    have ok': "desk_ok c (corr, db')" by (rule transaction_desk_ok [OF assms(1) ok new(2)])
    show ?thesis
      unfolding correction(2) desk_ok_def
      using made(7) new(1) desk_okD [OF ok'] by (auto simp: insert_correction_Inr_iff keyed_snoc comp_def)
  qed
qed

lemma desk_steps_ok:
  assumes "codec_ok c" "(desk_step c)\<^sup>*\<^sup>* d d'" "desk_ok c d"
  shows "desk_ok c d'"
  using assms(2,3) by (induction rule: rtranclp_induct) (auto intro: desk_step_ok [OF assms(1)])

lemma reachable_desk_ok: "codec_ok c \<Longrightarrow> reachable_desk c d \<Longrightarrow> desk_ok c d"
  by (erule desk_steps_ok) (auto simp: desk_ok_def)

lemma desk_store_steps:
  assumes "codec_ok c" "(desk_step c)\<^sup>*\<^sup>* (corr, db) (corr', db')" "desk_ok c (corr, db)"
  shows "(store_step c)\<^sup>*\<^sup>* db db' \<and> (\<exists>xs. corr' = corr @ xs)"
  using assms(2)
proof (induction "(corr', db')" arbitrary: corr' db' rule: rtranclp_induct)
  case base
  then show ?case by simp
next
  case (step d)
  obtain corr1 db1 where d: "d = (corr1, db1)" by (cases d)
  have ok: "desk_ok c (corr1, db1)" using desk_steps_ok [OF assms(1) step(1) assms(3)] d by simp
  from step(3) [OF d] have IH: "(store_step c)\<^sup>*\<^sup>* db db1 \<and> (\<exists>xs. corr1 = corr @ xs)" .
  from step(2) [unfolded d] show ?case
  proof (cases rule: desk_step.cases)
    case transaction
    then show ?thesis using IH by (auto intro: rtranclp.rtrancl_into_rtrancl)
  next
    case (correction request ts r)
    from this show ?thesis
    proof (cases rule: save_cases)
      case replayed
      then show ?thesis using IH by simp
    next
      case (made src doc p q)
      note new = made_correction [OF assms(1) ok made(1,4) refl made(6) refl]
      then show ?thesis using IH made(7) by (auto simp: insert_correction_Inr_iff intro: rtranclp.rtrancl_into_rtrancl)
    qed
  qed
qed


section \<open>Corrections last\<close>

text \<open>
  C27. After a successful request the corrected text is what the corrected document loads and what its
  run has as its parsed artifact, it is the source text with the edits applied, and the run that was
  corrected, its text and its document are as they were.
\<close>

theorem saved_correction_reads_back:
  assumes "codec_ok c" "reachable_desk c (corr, db)" "save c request ts (corr, db) = Inr (r, corr', db')"
  shows "\<exists>src doc p q. correction_source c db (request_run_id request) = Inr (src, doc, p)
    \<and> apply_pages p (request_pages request) = Inr q
    \<and> load_for_document c corr' (run_document_id r) = Inr (Some (q\<lparr>parsed_document_id := run_document_id r\<rparr>))
    \<and> get_parsed_document c db' (run_id r) = Inr (Some (q\<lparr>parsed_document_id := run_document_id r\<rparr>))
    \<and> get_pipeline_run c db' (run_id r) = Inr (Some r)
    \<and> run_document_id r \<noteq> document_id doc
    \<and> correction_source c db' (request_run_id request) = Inr (src, doc, p)"
  using assms(3)
proof (cases rule: save_cases)
  case (replayed src doc p q k row)
  note ok = desk_okD [OF reachable_desk_ok [OF assms(1,2)]]
  from correction_of_source_Some [OF replayed(7)] have row: "(k, row) \<in> set corr" "col_source_document_id row = document_id doc"
    by simp_all
  then have "select_row corr k = Some row" using select_row_mem [OF ok(2)] by blast
  from load_stored [OF assms(1) this ok(4) [OF row(1)]] obtain p' r'
    where st: "load_for_document c corr k = Inr (Some p')" "run_at c db r'" "run_id r' = col_correction_run_id row"
      "run_document_id r' = k" "get_parsed_document c db (run_id r') = Inr (Some p')" by metis
  have "r' = r" using get_run_at(1) [OF assms(1) st(2)] replayed(10) st(3) by simp
  moreover have "document_id doc \<noteq> k" using ok(4) [OF row(1)] row(2) by (auto simp: correction_ok_def)
  ultimately show ?thesis
    using st replayed get_run_at(1) [OF assms(1) st(2)]
    by (intro exI [where x = src] exI [where x = doc] exI [where x = p] exI [where x = q]) simp
next
  case (made src doc p q)
  note ok = reachable_desk_ok [OF assms(1,2)]
  note new = made_correction [OF assms(1) ok made(1,4) refl made(6) refl]
  note result = corrected_document_result [OF assms(1) reachable_store_ok [OF assms(1) desk_okD(1) [OF ok]] made(6)]
  note source = correction_sourceD [OF assms(1) desk_okD(1) [OF ok] made(1)]
  let ?q = "q\<lparr>parsed_document_id := run_document_id r\<rparr>"
  from made(7) [folded new(3)] obtain row where row: "select_row corr' (run_document_id r) = Some row"
      "correction_ok c db' (run_document_id r) row" "col_corrected_parsed row = to_json (parsed_json c) ?q"
    using new(1) [folded new(3)] by (auto simp: insert_correction_Inr_iff)
  from load_stored [OF assms(1) row(1,2)] obtain p' where st: "load_for_document c corr' (run_document_id r) = Inr (Some p')"
      "to_json (parsed_json c) ?q = to_json (parsed_json c) p'" using row(3) by metis
  have "p' = ?q" using st(2) assms(1) coding_inj [of "parsed_json c"] by (simp add: codec_ok_def)
  then show ?thesis
    using st(1) made(1,4) new(6) result(3,6) new(3,4) get_run_at(1) [OF assms(1) new(5)]
    by (intro exI [where x = src] exI [where x = doc] exI [where x = p] exI [where x = q]) simp
qed


lemma select_where_unique:
  assumes "distinct (map (f \<circ> snd) t)" "(k, row) \<in> set t"
  shows "select_where (\<lambda>_ r. f r = f row) t = Some (k, row)"
  using assms by (induction t) (force simp: select_where_def)+

text \<open>The row a successful request has left or found.\<close>

lemma save_row:
  assumes "codec_ok c" "desk_ok c (corr0, db0)" "save c request ts (corr0, db0) = Inr (r, corr1, db1)"
  obtains src doc p q k row where "correction_source c db1 (request_run_id request) = Inr (src, doc, p)"
      "state_version src = expected_state_version request" "parsed_hash c p = source_parsed_hash request"
      "apply_pages p (request_pages request) = Inr q" "(k, row) \<in> set corr1" "col_source_document_id row = document_id doc"
      "col_correction_source_run_id row = request_run_id request" "col_correction_run_id row = run_id r"
      "to_json (parsed_json c) (q\<lparr>parsed_document_id := k\<rparr>) = col_corrected_parsed row"
  using assms(3)
proof (cases rule: save_cases)
  case (replayed src doc p q k row)
  note ok = desk_okD [OF assms(2)]
  note row = correction_of_source_Some [OF replayed(7)]
  have sel: "select_row corr0 k = Some row" using row select_row_mem [OF ok(2)] by simp
  from load_stored [OF assms(1) sel ok(4) [OF conjunct1 [OF row]]] obtain p' r'
    where st: "load_for_document c corr0 k = Inr (Some p')" "col_corrected_parsed row = to_json (parsed_json c) p'"
      "run_at c db0 r'" "run_id r' = col_correction_run_id row" by metis
  have "run_id r = col_correction_run_id row" using get_run_at(1) [OF assms(1) st(3)] st(4) replayed(10) by auto
  then show ?thesis using replayed(1-9) row st by (intro that [of src doc p q k row]) auto
next
  case (made src doc p q)
  note new = made_correction [OF assms(1,2) made(1,4) refl made(6) refl]
  from made(7) obtain row where "(fresh_uuid (ts 0), row) \<in> set corr1" "col_source_document_id row = document_id doc"
      "col_correction_source_run_id row = request_run_id request" "col_correction_run_id row = run_id r"
      "to_json (parsed_json c) (q\<lparr>parsed_document_id := fresh_uuid (ts 0)\<rparr>) = col_corrected_parsed row"
    by (force simp: insert_correction_Inr_iff)
  then show ?thesis using made(2-4) new(6) by (rule_tac that)
qed

section \<open>A sample correction\<close>

definition ocr_parsed :: parsed_document where
  "ocr_parsed = \<lparr>parsed_document_id = ''doc'', parser_id = ''pdf'', parser_version = ''1'',
     parsed_source_type = OcrText, parsed_pages = [\<lparr>parsed_page_number = 1, parsed_text = ''a'',
       parsed_page_warnings = [], parsed_requires_visual = False\<rparr>], parsed_warnings = []\<rparr>"

definition ocr_ops :: "(sample_text db \<Rightarrow> store_error + sample_text db) list" where
  "ocr_ops = [committed \<circ> persist_ingestion_with_profiles sample_codec
       (sample_document\<lparr>document_source_type := OcrText\<rparr>) sample_run (Some sample_profile) General (ticks 0),
     committed \<circ> start_parsing sample_codec ''run'' 3 (ticks 1 0),
     committed \<circ> complete_parsing sample_codec ''run'' 4 ocr_parsed [] (ticks 2)]"

definition ocr_db :: "sample_text db" where
  "ocr_db = (case res_fold (\<lambda>db f. f db) empty_db ocr_ops of Inr db \<Rightarrow> db | Inl _ \<Rightarrow> empty_db)"

definition ocr_request :: "string \<Rightarrow> save_correction" where
  "ocr_request txt = \<lparr>request_run_id = ''run'', expected_state_version = 5, source_parsed_hash = ''sha'',
     request_pages = [\<lparr>corrected_page_number = 1, corrected_text = txt\<rparr>]\<rparr>"

lemmas ocr_simps = ocr_db_def ocr_ops_def ocr_parsed_def ocr_request_def demo_defs op_defs stage_op_defs

lemmas save_simps = save_def correction_source_def apply_pages_def apply_edit_def parsed_hash_def
  MAX_TEXT_BYTES_def has_correction_warning_def CORRECTION_WARNING_def correction_of_source_def select_where_def
  prepare_received_run_def persist_corrected_document_def insert_correction_def correction_warning_def
  blank_def byte_def is_whitespace_def get_run_summary_profile_def get_run_model_profile_def

lemma uuid_other [simp]: "c \<noteq> CHR ''x'' \<Longrightarrow> c # s \<noteq> uuid n" "c \<noteq> CHR ''x'' \<Longrightarrow> uuid n \<noteq> c # s"
  by (cases n; auto simp: uuid_def)+

lemma ocr_ops_step:
  assumes "f \<in> set ocr_ops" "f db = Inr db'"
  shows "store_step sample_codec db db'"
  using assms unfolding ocr_ops_def
  by (simp only: list.set insert_iff empty_iff comp_apply) (elim disjE; auto simp: committed_Inr intro: store_step.intros)

lemma ocr_reachable: "reachable_desk sample_codec ([], ocr_db)"
proof -
  have "\<exists>db. res_fold (\<lambda>db f. f db) empty_db ocr_ops = Inr db" by (simp add: ocr_simps)
  then have "res_fold (\<lambda>db f. f db) empty_db ocr_ops = Inr ocr_db" by (auto simp: ocr_db_def)
  then have "(store_step sample_codec)\<^sup>*\<^sup>* empty_db ocr_db"
    by (rule fold_steps [rotated]) (rule ocr_ops_step)
  then show ?thesis
    by (induction rule: rtranclp_induct) (auto intro: rtranclp.rtrancl_into_rtrancl desk_step.transaction)
qed

lemma ocr_saved: "\<exists>r corr db. save sample_codec (ocr_request ''b'') (ticks 3) ([], ocr_db) = Inr (r, corr, db)"
  by (simp add: ocr_simps save_simps)


lemma saved_correction_reads_back_witness:
  "\<exists>r corr db p. save sample_codec (ocr_request ''b'') (ticks 3) ([], ocr_db) = Inr (r, corr, db)
     \<and> load_for_document sample_codec corr (run_document_id r) = Inr (Some p)
     \<and> get_parsed_document sample_codec db (run_id r) = Inr (Some p)"
proof -
  from ocr_saved obtain r corr db where "save sample_codec (ocr_request ''b'') (ticks 3) ([], ocr_db) = Inr (r, corr, db)" by blast
  with saved_correction_reads_back [OF sample_codec_ok ocr_reachable this] show ?thesis by blast
qed

text \<open>
  C28. Saving is idempotent: once a request has succeeded, the same request, made again at any later time
  at which the source has not moved on, answers with the same corrected run in its then state and changes
  nothing; no second revision of the document appears.
\<close>

theorem save_replays:
  assumes "codec_ok c" "reachable_desk c d" "save c request ts d = Inr (r, d')"
    and "(desk_step c)\<^sup>*\<^sup>* d' (corr, db)"
    and "get_pipeline_run c db (request_run_id request) = Inr (Some src)"
    and "state_version src = expected_state_version request"
  shows "\<exists>r'. save c request ts' (corr, db) = Inr (r', corr, db) \<and> run_id r' = run_id r
    \<and> get_pipeline_run c db (run_id r) = Inr (Some r')"
proof -
  obtain corr0 db0 corr1 db1 where d: "d = (corr0, db0)" and d': "d' = (corr1, db1)" by (cases d, cases d')
  have ok0: "desk_ok c (corr0, db0)" using reachable_desk_ok [OF assms(1,2)] d by simp
  have "desk_step c (corr0, db0) (corr1, db1)" using assms(3) unfolding d d' by (rule desk_step.correction)
  then have ok1: "desk_ok c (corr1, db1)" using desk_step_ok [OF assms(1) _ ok0] by blast
  have ok: "desk_ok c (corr, db)" by (rule desk_steps_ok [OF assms(1) assms(4)[unfolded d'] ok1])
  obtain xs where steps: "(store_step c)\<^sup>*\<^sup>* db1 db" and corr: "corr = corr1 @ xs"
    using desk_store_steps [OF assms(1) assms(4) [unfolded d'] ok1] by blast
  from save_row [OF assms(1) ok0 assms(3) [unfolded d d']] obtain src0 doc p q k row
    where found: "correction_source c db1 (request_run_id request) = Inr (src0, doc, p)"
      "state_version src0 = expected_state_version request" "parsed_hash c p = source_parsed_hash request"
      "apply_pages p (request_pages request) = Inr q" "(k, row) \<in> set corr1" "col_source_document_id row = document_id doc"
      "col_correction_source_run_id row = request_run_id request" "col_correction_run_id row = run_id r"
      "to_json (parsed_json c) (q\<lparr>parsed_document_id := k\<rparr>) = col_corrected_parsed row" .
  note old = desk_okD [OF ok1] and new = desk_okD [OF ok]
  note src0 = correction_sourceD [OF assms(1) old(1) found(1)]
  from grows_run [OF reachable_grows(1) [OF assms(1) old(1) steps] src0(1)] obtain src1
    where src1: "run_at c db src1" "run_grows src0 src1" .
  have "src1 = src" using get_run_at(1) [OF assms(1) src1(1)] src1(2) src0(2) assms(5) by (simp add: run_grows_def)
  with src1 assms(6) found(2) have "run_at c db src0" by (simp add: run_grows_def)
  then have source: "correction_source c db (request_run_id request) = Inr (src0, doc, p)"
    by (rule correction_source_kept [OF assms(1) old(1) found(1) steps])
  have row: "(k, row) \<in> set corr" using found(5) corr by simp
  then have unique: "correction_of_source corr (document_id doc) = Some (k, row)"
    using select_where_unique [OF new(3) row] found(6) by (simp add: correction_of_source_def)
  have "select_row corr k = Some row" using row select_row_mem [OF new(2)] by simp
  from load_stored [OF assms(1) this new(4) [OF row]] obtain p' r'
    where st: "load_for_document c corr k = Inr (Some p')" "col_corrected_parsed row = to_json (parsed_json c) p'"
      "run_at c db r'" "run_id r' = col_correction_run_id row" by metis
  have "p' = q\<lparr>parsed_document_id := k\<rparr>"
    using st(2) found(9) assms(1) coding_inj [of "parsed_json c"] by (simp add: codec_ok_def)
  then have "save c request ts' (corr, db) = Inr (r', corr, db)"
    using get_run_at(1) [OF assms(1) st(3)] st(1,4) source found(2-4,7) unique
    by (simp add: save_def replay_correction_def)
  then show ?thesis using get_run_at(1) [OF assms(1) st(3)] st(4) found(8) by simp
qed

lemma save_replays_witness:
  "\<exists>r d. save sample_codec (ocr_request ''b'') (ticks 3) ([], ocr_db) = Inr (r, d)
     \<and> (\<exists>r'. save sample_codec (ocr_request ''b'') (ticks 9) d = Inr (r', d) \<and> run_id r' = run_id r)"
proof -
  from ocr_saved obtain r corr db where saved: "save sample_codec (ocr_request ''b'') (ticks 3) ([], ocr_db) = Inr (r, corr, db)" by blast
  obtain src where "get_pipeline_run sample_codec db ''run'' = Inr (Some src)" "state_version src = 5"
  proof -
    have ok: "desk_ok sample_codec ([], ocr_db)" by (rule reachable_desk_ok [OF sample_codec_ok ocr_reachable])
    obtain src doc p where found: "correction_source sample_codec db ''run'' = Inr (src, doc, p)" "state_version src = 5"
      by (rule save_row [OF sample_codec_ok ok saved], rule that) (simp_all add: ocr_request_def)
    have "desk_ok sample_codec (corr, db)"
      by (rule desk_step_ok [OF sample_codec_ok desk_step.correction [OF saved] ok])
    from correction_sourceD(1,2) [OF sample_codec_ok desk_okD(1) [OF this] found(1)] get_run_at(1) [OF sample_codec_ok]
    have "get_pipeline_run sample_codec db ''run'' = Inr (Some src)" by metis
    then show ?thesis using found(2) that by blast
  qed
  with save_replays [OF sample_codec_ok ocr_reachable saved, of corr db src "ticks 9"] saved show ?thesis
    by (auto simp: ocr_request_def)
qed


text \<open>
  What a review offers can be saved: a request for the reviewed run with the version and the hash of
  the review is never refused as not allowed, as stale or as damaged. It fails only on the edits
  themselves, on an error of SQLite, or, if the review shows a corrected successor, because that
  successor has another text.
\<close>

theorem reviewed_source_can_be_saved:
  assumes "codec_ok c" "reachable_desk c (corr, db)" "get_review c corr db run = Inr (Some review)"
    and "request_run_id request = review_run_id review" "expected_state_version request = review_state_version review"
    and "source_parsed_hash request = review_parsed_hash review" "save c request ts (corr, db) = Inl e"
  shows "(\<exists>m. e = Invalid m) \<or> (\<exists>s. e = CorrectionStore s) \<or> (\<exists>s. e = CorrectionSqlite s)
    \<or> e = AlreadyCorrected \<and> corrected_run_id review \<noteq> None"
proof -
  note ok = desk_okD [OF reachable_desk_ok [OF assms(1,2)]]
  obtain src doc p resolved where found: "correction_source c db resolved = Inr (src, doc, p)"
      "review_run_id review = run_id src" "review_state_version review = state_version src"
      "review_parsed_hash review = parsed_hash c p"
      "corrected_run_id review = map_option (col_correction_run_id \<circ> snd) (correction_of_source corr (document_id doc))"
    using assms(3) by (auto simp: get_review_def Let_def split: sum.splits correction_error.splits prod.splits)
  note src = correction_sourceD [OF assms(1) ok(1) found(1)]
  have source: "correction_source c db (request_run_id request) = Inr (src, doc, p)"
    using found(1,2) src(2) assms(4) by simp
  show ?thesis
  proof (cases "apply_pages p (request_pages request)")
    case (Inl m)
    then have "e = m" using assms(7) source assms(5,6) found by (simp add: save_def)
    with Inl show ?thesis by (auto dest: apply_pages_error)
  next
    case (Inr q)
    show ?thesis
    proof (cases "correction_of_source corr (document_id doc)")
      case None
      with Inr assms(5-7) source found show ?thesis
        by (auto simp: save_def Let_def insert_correction_def insert_row_Inl_iff res_bind_Inl_iff map_err_Inl_iff)
    next
      case (Some existing)
      obtain k row where kr: "existing = (k, row)" by (cases existing)
      from correction_of_source_Some [OF Some [unfolded kr]] have row: "(k, row) \<in> set corr" by simp
      then have "select_row corr k = Some row" using select_row_mem [OF ok(2)] by simp
      from load_stored [OF assms(1) this ok(4) [OF row]] obtain p' r'
        where "load_for_document c corr k = Inr (Some p')" "run_at c db r'" "run_id r' = col_correction_run_id row" by metis
      then show ?thesis
        using Inr assms(5-7) source found Some get_run_at(1) [OF assms(1), of db r'] kr
        by (auto simp: save_def replay_correction_def res_bind_Inl_iff ensure_Inl_iff split: if_splits)
    qed
  qed
qed


lemma reviewed_source_can_be_saved_witness:
  "\<exists>e. save sample_codec (ocr_request ''a'') (ticks 3) ([], ocr_db) = Inl e \<and> e \<noteq> AlreadyCorrected \<and> e \<noteq> StaleSource"
proof -
  obtain e where failed: "save sample_codec (ocr_request ''a'') (ticks 3) ([], ocr_db) = Inl e"
    by (simp add: ocr_simps save_simps)
  obtain review where review: "get_review sample_codec [] ocr_db ''run'' = Inr (Some review)" "review_run_id review = ''run''"
      "review_state_version review = 5" "review_parsed_hash review = ''sha''" "corrected_run_id review = None"
    by (simp add: ocr_simps save_simps get_review_def get_admitted_ocr_child_run_id_def)
  from reviewed_source_can_be_saved [OF sample_codec_ok ocr_reachable review(1) _ _ _ failed] review
  show ?thesis using failed by (auto simp: ocr_request_def)
qed

end
