(* ===== verification/Stage_Driver.thy ===== *)
theory Stage_Driver
  imports Correction_Store Doc_Normalize Structure_Correct Chunk_Correct
begin

text \<open>
  The four functions that execute a text stage against the store: \<open>parse_document\<close> and
  \<open>parse_started_document\<close>, \<open>normalize_document\<close>, \<open>structure_document\<close>, \<open>chunk_document\<close>. Each reads
  the run, commits the start, computes outside of any transaction, and commits the artifact or
  the failure. What other threads and processes commit in between is \<open>env i\<close>, applied before the
  \<open>i\<close>-th access of the driver. \<open>describe\<close> is the \<open>Display\<close> text of a store error.
\<close>

section \<open>Errors\<close>

text \<open>
  The enums \<open>ParsePipelineError\<close>, \<open>NormalizePipelineError\<close>, \<open>StructurePipelineError\<close> and
  \<open>ChunkPipelineError\<close> have the same four variants; \<open>StageFailed\<close> is \<open>ParserFailed\<close>,
  \<open>NormalizerFailed\<close>, \<open>InterpreterFailed\<close> and \<open>ChunkerFailed\<close>.
\<close>

datatype stage_pipeline_error =
    StageStore store_error | StageFailed pipeline_failure | ArtifactPersistence store_error
  | FailurePersistence string store_error

type_synonym parse_pipeline_error = stage_pipeline_error
type_synonym normalize_pipeline_error = stage_pipeline_error
type_synonym structure_pipeline_error = stage_pipeline_error
type_synonym chunk_pipeline_error = stage_pipeline_error

fun parse_error_code :: "parse_pipeline_error \<Rightarrow> string" where
  "parse_error_code (StageStore _) = ''PIPELINE_STORE_ERROR''"
| "parse_error_code (StageFailed f) = failure_code f"
| "parse_error_code (ArtifactPersistence _) = ''PARSED_ARTIFACT_PERSISTENCE_FAILED''"
| "parse_error_code (FailurePersistence _ _) = ''PARSE_FAILURE_PERSISTENCE_FAILED''"

fun normalize_error_code :: "normalize_pipeline_error \<Rightarrow> string" where
  "normalize_error_code (StageStore _) = ''PIPELINE_STORE_ERROR''"
| "normalize_error_code (StageFailed f) = failure_code f"
| "normalize_error_code (ArtifactPersistence _) = ''NORMALIZED_ARTIFACT_PERSISTENCE_FAILED''"
| "normalize_error_code (FailurePersistence _ _) = ''NORMALIZATION_FAILURE_PERSISTENCE_FAILED''"

fun structure_error_code :: "structure_pipeline_error \<Rightarrow> string" where
  "structure_error_code (StageStore _) = ''PIPELINE_STORE_ERROR''"
| "structure_error_code (StageFailed f) = failure_code f"
| "structure_error_code (ArtifactPersistence _) = ''STRUCTURED_ARTIFACT_PERSISTENCE_FAILED''"
| "structure_error_code (FailurePersistence _ _) = ''STRUCTURE_FAILURE_PERSISTENCE_FAILED''"

fun chunk_error_code :: "chunk_pipeline_error \<Rightarrow> string" where
  "chunk_error_code (StageStore _) = ''PIPELINE_STORE_ERROR''"
| "chunk_error_code (StageFailed f) = failure_code f"
| "chunk_error_code (ArtifactPersistence _) = ''CHUNKED_ARTIFACT_PERSISTENCE_FAILED''"
| "chunk_error_code (FailurePersistence _ _) = ''CHUNK_FAILURE_PERSISTENCE_FAILED''"

section \<open>Parsing\<close>

record document_parser =
  dp_id :: string
  dp_version :: string
  dp_parse :: "ingested_document \<Rightarrow> pipeline_failure + parsed_document"

definition parse_failure :: "string \<Rightarrow> string \<Rightarrow> bool \<Rightarrow> pipeline_failure" where
  "parse_failure code message recoverable_flag =
     \<lparr>failure_code = code, failure_message = message, failure_stage = Some Parse, recoverable = recoverable_flag\<rparr>"

definition parser_artifact_page :: "nat \<Rightarrow> parsed_page \<Rightarrow> pipeline_failure + unit" where
  "parser_artifact_page index page =
     res_bind (ok_or (u32_try_from (index + 1))
       (parse_failure ''INVALID_PARSED_ARTIFACT''
          ''The parsed page count exceeds the contract's page-number range'' False)) (\<lambda>expected.
     res_bind (ensure (parsed_page_number page = expected)
       (parse_failure ''INVALID_PARSED_ARTIFACT'' ''Parsed pages are not in canonical one-based order'' False)) (\<lambda>_.
     ensure (\<not> (blank (parsed_text page)
         \<and> (\<not> parsed_requires_visual page
            \<or> \<not> list_ex (\<lambda>w. warning_code w = ''NO_NATIVE_TEXT'') (parsed_page_warnings page))))
       (parse_failure ''INVALID_PARSED_ARTIFACT''
          ''A page without native text must preserve its visual-routing marker and warning'' False)))"

definition validate_parser_artifact ::
  "parsed_document \<Rightarrow> ingested_document \<Rightarrow> document_parser \<Rightarrow> pipeline_failure + unit" where
  "validate_parser_artifact parsed document parser =
     res_bind (ensure (\<not> parsed_document_id parsed \<noteq> document_id document)
       (parse_failure ''INVALID_PARSED_ARTIFACT''
          ''The parser returned an artifact for a different document'' False)) (\<lambda>_.
     res_bind (ensure (\<not> (parser_id parsed \<noteq> dp_id parser \<or> parser_version parsed \<noteq> dp_version parser))
       (parse_failure ''INVALID_PARSED_ARTIFACT''
          ''The parser artifact identity does not match the selected parser'' False)) (\<lambda>_.
     res_bind (ensure (\<not> parsed_source_type parsed \<noteq> document_source_type document)
       (parse_failure ''INVALID_PARSED_ARTIFACT''
          ''The parser changed the document source provenance'' False)) (\<lambda>_.
     res_each parser_artifact_page (parsed_pages parsed))))"

definition persist_parser_failure ::
  "'j codec \<Rightarrow> string \<Rightarrow> u32 \<Rightarrow> pipeline_failure \<Rightarrow> tick \<Rightarrow> 'j db \<Rightarrow> parse_pipeline_error \<times> 'j db" where
  "persist_parser_failure c run version failure t db =
     (case fail_parsing c run version failure t db of
        Inr (_, db') \<Rightarrow> (StageFailed failure, db')
      | Inl persistence \<Rightarrow> (FailurePersistence (failure_to_string failure) persistence, db))"

text \<open>\<open>correction_text\<close> is the \<open>Display\<close> text of a correction error.\<close>

definition parse_started_document ::
  "'j codec \<Rightarrow> (store_error \<Rightarrow> string) \<Rightarrow> (correction_error \<Rightarrow> string) \<Rightarrow> 'j corrections \<Rightarrow> (nat \<Rightarrow> 'j db \<Rightarrow> 'j db) \<Rightarrow>
   document_parser \<Rightarrow> string \<Rightarrow> u32 \<Rightarrow> ingested_document \<Rightarrow> (nat \<Rightarrow> tick) \<Rightarrow> 'j db \<Rightarrow>
   (parse_pipeline_error + parsed_document) \<times> 'j db" where
  "parse_started_document c describe correction_text corr env parser run version document ts db =
     (let persist = (\<lambda>failure. apfst Inl (persist_parser_failure c run version failure (ts 2) (env 0 db)));
          corrected = map_err (\<lambda>e. parse_failure (correction_code e) (correction_text e) False)
            (load_for_document c corr (document_id document));
          output = (case corrected of Inr (Some parsed) \<Rightarrow> Inr parsed | Inr None \<Rightarrow> dp_parse parser document
            | Inl failure \<Rightarrow> Inl failure)
      in case output of
           Inl failure \<Rightarrow> persist failure
         | Inr parsed \<Rightarrow>
             (case validate_parser_artifact parsed document parser of
                Inl failure \<Rightarrow> persist failure
              | Inr _ \<Rightarrow>
                  let warnings = parsed_warnings parsed @ concat (map parsed_page_warnings (parsed_pages parsed))
                  in case complete_parsing c run version parsed warnings ts (env 0 db) of
                       Inr (_, db') \<Rightarrow> (Inr parsed, db')
                     | Inl persistence \<Rightarrow>
                         (let db1 = env 1 (env 0 db) in
                          case fail_parsing c run version
                              (parse_failure ''PARSED_ARTIFACT_PERSISTENCE_FAILED''
                                 ''Parsed output could not be committed atomically'' True) (ts 2) db1 of
                            Inr (_, db2) \<Rightarrow> (Inl (ArtifactPersistence persistence), db2)
                          | Inl lost \<Rightarrow> (Inl (FailurePersistence (describe persistence) lost), db1))))"

definition parse_document ::
  "'j codec \<Rightarrow> (store_error \<Rightarrow> string) \<Rightarrow> (correction_error \<Rightarrow> string) \<Rightarrow> 'j corrections \<Rightarrow> (nat \<Rightarrow> 'j db \<Rightarrow> 'j db) \<Rightarrow>
   document_parser \<Rightarrow> string \<Rightarrow> (nat \<Rightarrow> tick) \<Rightarrow> 'j db \<Rightarrow> (parse_pipeline_error + parsed_document) \<times> 'j db" where
  "parse_document c describe correction_text corr env parser run ts db =
     (let db0 = env 0 db in
      case require_run c db0 run of
        Inl e \<Rightarrow> (Inl (StageStore e), db0)
      | Inr r \<Rightarrow>
          (let db1 = env 1 db0 in
           case start_parsing c run (state_version r) (ts 0) db1 of
             Inl e \<Rightarrow> (Inl (StageStore e), db1)
           | Inr ((parsing_run, document), db2) \<Rightarrow>
               parse_started_document c describe correction_text corr (\<lambda>i. env (i + 2)) parser run
                 (state_version parsing_run) document (\<lambda>n. ts (n + 1)) db2))"

section \<open>Normalization\<close>

record document_normalizer =
  dn_version :: string
  dn_normalize :: "parsed_document \<Rightarrow> pipeline_failure + normalized_document"

definition persist_normalization_failure ::
  "'j codec \<Rightarrow> string \<Rightarrow> u32 \<Rightarrow> pipeline_failure \<Rightarrow> tick \<Rightarrow> 'j db \<Rightarrow> normalize_pipeline_error \<times> 'j db" where
  "persist_normalization_failure c run version failure t db =
     (case fail_normalization c run version failure t db of
        Inr (_, db') \<Rightarrow> (StageFailed failure, db')
      | Inl persistence \<Rightarrow> (FailurePersistence (failure_to_string failure) persistence, db))"

definition normalize_document ::
  "'j codec \<Rightarrow> (store_error \<Rightarrow> string) \<Rightarrow> (string \<Rightarrow> string) \<Rightarrow> (nat \<Rightarrow> 'j db \<Rightarrow> 'j db) \<Rightarrow> document_normalizer \<Rightarrow>
   string \<Rightarrow> (nat \<Rightarrow> tick) \<Rightarrow> 'j db \<Rightarrow> (normalize_pipeline_error + normalized_document) \<times> 'j db" where
  "normalize_document c describe sha env normalizer run ts db =
     (let db0 = env 0 db in
      case require_run c db0 run of
        Inl e \<Rightarrow> (Inl (StageStore e), db0)
      | Inr r \<Rightarrow>
          (let db1 = env 1 db0 in
           case start_normalizing c run (state_version r) (ts 0) db1 of
             Inl e \<Rightarrow> (Inl (StageStore e), db1)
           | Inr ((normalizing_run, parsed), db2) \<Rightarrow>
               (let version = state_version normalizing_run; db3 = env 2 db2;
                    persist = (\<lambda>failure. apfst Inl (persist_normalization_failure c run version failure (ts 3) db3))
                in case dn_normalize normalizer parsed of
                     Inl failure \<Rightarrow> persist failure
                   | Inr normalized \<Rightarrow>
                       (case validate_normalized_document sha normalized parsed (dn_version normalizer) of
                          Inl failure \<Rightarrow> persist failure
                        | Inr _ \<Rightarrow>
                            let warnings = normalized_warnings normalized
                                  @ concat (map page_warnings (normalized_pages normalized))
                            in case complete_normalization c run version normalized warnings (\<lambda>n. ts (n + 1)) db3 of
                                 Inr (_, db4) \<Rightarrow> (Inr normalized, db4)
                               | Inl persistence \<Rightarrow>
                                   (let db4 = env 3 db3 in
                                    case fail_normalization c run version
                                        (normalization_failure ''NORMALIZED_ARTIFACT_PERSISTENCE_FAILED''
                                           ''Normalized output could not be committed atomically'' True) (ts 3) db4 of
                                      Inr (_, db5) \<Rightarrow> (Inl (ArtifactPersistence persistence), db5)
                                    | Inl lost \<Rightarrow> (Inl (FailurePersistence (describe persistence) lost), db4))))))"

section \<open>Structure\<close>

record structure_interpreter =
  si_version :: string
  si_interpret :: "normalized_document \<Rightarrow> pipeline_failure + structured_document"

definition persist_structure_failure ::
  "'j codec \<Rightarrow> string \<Rightarrow> u32 \<Rightarrow> pipeline_failure \<Rightarrow> tick \<Rightarrow> 'j db \<Rightarrow> structure_pipeline_error \<times> 'j db" where
  "persist_structure_failure c run version failure t db =
     (case fail_structuring c run version failure t db of
        Inr (_, db') \<Rightarrow> (StageFailed failure, db')
      | Inl persistence \<Rightarrow> (FailurePersistence (failure_to_string failure) persistence, db))"

definition structure_document ::
  "'j codec \<Rightarrow> (store_error \<Rightarrow> string) \<Rightarrow> (string \<Rightarrow> string) \<Rightarrow> (nat \<Rightarrow> bool) \<Rightarrow> (nat \<Rightarrow> 'j db \<Rightarrow> 'j db) \<Rightarrow>
   structure_interpreter \<Rightarrow> string \<Rightarrow> (nat \<Rightarrow> tick) \<Rightarrow> 'j db \<Rightarrow>
   (structure_pipeline_error + structured_document) \<times> 'j db" where
  "structure_document c describe sha is_uppercase env interpreter run ts db =
     (let db0 = env 0 db in
      case require_run c db0 run of
        Inl e \<Rightarrow> (Inl (StageStore e), db0)
      | Inr r \<Rightarrow>
          (let db1 = env 1 db0 in
           case start_structuring c run (state_version r) (ts 0) db1 of
             Inl e \<Rightarrow> (Inl (StageStore e), db1)
           | Inr ((structuring_run, normalized), db2) \<Rightarrow>
               (let version = state_version structuring_run; db3 = env 2 db2;
                    persist = (\<lambda>failure. apfst Inl (persist_structure_failure c run version failure (ts 3) db3))
                in case validate_normalized_input normalized of
                     Inl failure \<Rightarrow> persist failure
                   | Inr _ \<Rightarrow>
                  case si_interpret interpreter normalized of
                     Inl failure \<Rightarrow> persist failure
                   | Inr structured \<Rightarrow>
                       (case validate_structured_document sha is_uppercase structured normalized (si_version interpreter) of
                          Inl failure \<Rightarrow> persist failure
                        | Inr _ \<Rightarrow>
                            let warnings = structured_warnings structured
                                  @ concat (map structure_page_warnings (structured_pages structured))
                            in case complete_structuring c run version structured warnings (\<lambda>n. ts (n + 1)) db3 of
                                 Inr (_, db4) \<Rightarrow> (Inr structured, db4)
                               | Inl persistence \<Rightarrow>
                                   (let db4 = env 3 db3 in
                                    case fail_structuring c run version
                                        (structure_failure ''STRUCTURED_ARTIFACT_PERSISTENCE_FAILED''
                                           ''Structured output could not be committed atomically'' True) (ts 3) db4 of
                                      Inr (_, db5) \<Rightarrow> (Inl (ArtifactPersistence persistence), db5)
                                    | Inl lost \<Rightarrow> (Inl (FailurePersistence (describe persistence) lost), db4))))))"

section \<open>Chunking\<close>

record document_chunker =
  dc_version :: string
  dc_chunk :: "normalized_document \<Rightarrow> structured_document \<Rightarrow> pipeline_failure + chunked_document"

definition persist_chunk_failure ::
  "'j codec \<Rightarrow> string \<Rightarrow> u32 \<Rightarrow> pipeline_failure \<Rightarrow> tick \<Rightarrow> 'j db \<Rightarrow> chunk_pipeline_error \<times> 'j db" where
  "persist_chunk_failure c run version failure t db =
     (case fail_chunking c run version failure t db of
        Inr (_, db') \<Rightarrow> (StageFailed failure, db')
      | Inl persistence \<Rightarrow> (FailurePersistence (failure_to_string failure) persistence, db))"

definition chunk_document ::
  "'j codec \<Rightarrow> (store_error \<Rightarrow> string) \<Rightarrow> (string \<Rightarrow> string) \<Rightarrow> (nat \<Rightarrow> 'j db \<Rightarrow> 'j db) \<Rightarrow> document_chunker \<Rightarrow>
   string \<Rightarrow> (nat \<Rightarrow> tick) \<Rightarrow> 'j db \<Rightarrow> (chunk_pipeline_error + chunked_document) \<times> 'j db" where
  "chunk_document c describe sha env chunker run ts db =
     (let db0 = env 0 db in
      case require_run c db0 run of
        Inl e \<Rightarrow> (Inl (StageStore e), db0)
      | Inr r \<Rightarrow>
          (let db1 = env 1 db0 in
           case start_chunking c run (state_version r) (ts 0) db1 of
             Inl e \<Rightarrow> (Inl (StageStore e), db1)
           | Inr ((chunking_run, normalized, structured), db2) \<Rightarrow>
               (let version = state_version chunking_run; db3 = env 2 db2;
                    persist = (\<lambda>failure. apfst Inl (persist_chunk_failure c run version failure (ts 3) db3))
                in case validate_inputs normalized structured of
                     Inl failure \<Rightarrow> persist failure
                   | Inr _ \<Rightarrow>
                  case dc_chunk chunker normalized structured of
                     Inl failure \<Rightarrow> persist failure
                   | Inr chunked \<Rightarrow>
                       (case validate_chunked_document sha chunked normalized structured (dc_version chunker) of
                          Inl failure \<Rightarrow> persist failure
                        | Inr _ \<Rightarrow>
                            let warnings = chunked_warnings chunked @ concat (map chunk_warnings (chunks chunked))
                            in case complete_chunking c run version chunked warnings (\<lambda>n. ts (n + 1)) db3 of
                                 Inr (_, db4) \<Rightarrow> (Inr chunked, db4)
                               | Inl persistence \<Rightarrow>
                                   (let db4 = env 3 db3 in
                                    case fail_chunking c run version
                                        (chunk_failure ''CHUNKED_ARTIFACT_PERSISTENCE_FAILED''
                                           ''Chunked output could not be committed atomically'' True) (ts 3) db4 of
                                      Inr (_, db5) \<Rightarrow> (Inl (ArtifactPersistence persistence), db5)
                                    | Inl lost \<Rightarrow> (Inl (FailurePersistence (describe persistence) lost), db4))))))"

section \<open>The pattern\<close>

text \<open>
  What the four have in common once the run is in the stage: \<open>output\<close> is what was computed, and
  \<open>finish\<close> and \<open>fail\<close> are the two transactions that end the stage.
\<close>

definition settle ::
  "(store_error \<Rightarrow> string) \<Rightarrow> (nat \<Rightarrow> 'j db \<Rightarrow> 'j db) \<Rightarrow> ('a \<Rightarrow> 'j db \<Rightarrow> store_error + pipeline_run \<times> 'j db) \<Rightarrow>
   (pipeline_failure \<Rightarrow> 'j db \<Rightarrow> store_error + pipeline_run \<times> 'j db) \<Rightarrow> pipeline_failure \<Rightarrow>
   pipeline_failure + 'a \<Rightarrow> 'j db \<Rightarrow> (stage_pipeline_error + 'a) \<times> 'j db" where
  "settle describe env finish fail lost_failure output db =
     (case output of
        Inl failure \<Rightarrow>
          (case fail failure (env 0 db) of
             Inr (_, db') \<Rightarrow> (Inl (StageFailed failure), db')
           | Inl lost \<Rightarrow> (Inl (FailurePersistence (failure_to_string failure) lost), env 0 db))
      | Inr a \<Rightarrow>
          (case finish a (env 0 db) of
             Inr (_, db') \<Rightarrow> (Inr a, db')
           | Inl persistence \<Rightarrow>
               (case fail lost_failure (env 1 (env 0 db)) of
                  Inr (_, db') \<Rightarrow> (Inl (ArtifactPersistence persistence), db')
                | Inl lost \<Rightarrow> (Inl (FailurePersistence (describe persistence) lost), env 1 (env 0 db)))))"

text \<open>What the four have in common: \<open>start\<close> hands over the input of the stage.\<close>

definition run_stage ::
  "'j codec \<Rightarrow> (store_error \<Rightarrow> string) \<Rightarrow> (nat \<Rightarrow> 'j db \<Rightarrow> 'j db) \<Rightarrow>
   (u32 \<Rightarrow> 'j db \<Rightarrow> store_error + (pipeline_run \<times> 'i) \<times> 'j db) \<Rightarrow> ('i \<Rightarrow> pipeline_failure + 'a) \<Rightarrow>
   (u32 \<Rightarrow> 'a \<Rightarrow> 'j db \<Rightarrow> store_error + pipeline_run \<times> 'j db) \<Rightarrow>
   (u32 \<Rightarrow> pipeline_failure \<Rightarrow> 'j db \<Rightarrow> store_error + pipeline_run \<times> 'j db) \<Rightarrow> pipeline_failure \<Rightarrow>
   string \<Rightarrow> 'j db \<Rightarrow> (stage_pipeline_error + 'a) \<times> 'j db" where
  "run_stage c describe env start compute finish fail lost_failure run db =
     (case require_run c (env 0 db) run of
        Inl e \<Rightarrow> (Inl (StageStore e), env 0 db)
      | Inr r \<Rightarrow>
          (case start (state_version r) (env 1 (env 0 db)) of
             Inl e \<Rightarrow> (Inl (StageStore e), env 1 (env 0 db))
           | Inr ((r1, input), db2) \<Rightarrow>
               settle describe (\<lambda>i. env (i + 2)) (finish (state_version r1)) (fail (state_version r1)) lost_failure
                 (compute input) db2))"

definition normalize_output ::
  "(string \<Rightarrow> string) \<Rightarrow> document_normalizer \<Rightarrow> parsed_document \<Rightarrow> pipeline_failure + normalized_document" where
  "normalize_output sha normalizer parsed =
     res_bind (dn_normalize normalizer parsed) (\<lambda>a.
     res_bind (validate_normalized_document sha a parsed (dn_version normalizer)) (\<lambda>_. Inr a))"

definition structure_output ::
  "(string \<Rightarrow> string) \<Rightarrow> (nat \<Rightarrow> bool) \<Rightarrow> structure_interpreter \<Rightarrow> normalized_document \<Rightarrow>
   pipeline_failure + structured_document" where
  "structure_output sha up interpreter n =
     res_bind (validate_normalized_input n) (\<lambda>_.
     res_bind (si_interpret interpreter n) (\<lambda>a.
     res_bind (validate_structured_document sha up a n (si_version interpreter)) (\<lambda>_. Inr a)))"

definition chunk_output ::
  "(string \<Rightarrow> string) \<Rightarrow> document_chunker \<Rightarrow> normalized_document \<times> structured_document \<Rightarrow>
   pipeline_failure + chunked_document" where
  "chunk_output sha chunker = (\<lambda>(n, s).
     res_bind (validate_inputs n s) (\<lambda>_.
     res_bind (dc_chunk chunker n s) (\<lambda>a.
     res_bind (validate_chunked_document sha a n s (dc_version chunker)) (\<lambda>_. Inr a))))"

definition parse_output ::
  "(correction_error \<Rightarrow> string) \<Rightarrow> 'j codec \<Rightarrow> 'j corrections \<Rightarrow> document_parser \<Rightarrow> ingested_document \<Rightarrow>
   pipeline_failure + parsed_document" where
  "parse_output correction_text c corr parser document =
     res_bind (map_err (\<lambda>e. parse_failure (correction_code e) (correction_text e) False)
       (load_for_document c corr (document_id document))) (\<lambda>found.
     res_bind (case found of Some parsed \<Rightarrow> Inr parsed | None \<Rightarrow> dp_parse parser document) (\<lambda>a.
     res_bind (validate_parser_artifact a document parser) (\<lambda>_. Inr a)))"

lemma parse_started_document_eq:
  "parse_started_document c describe text corr env parser run version document ts =
     settle describe env (\<lambda>a. complete_parsing c run version a
         (parsed_warnings a @ concat (map parsed_page_warnings (parsed_pages a))) ts)
       (\<lambda>f. fail_parsing c run version f (ts 2))
       (parse_failure ''PARSED_ARTIFACT_PERSISTENCE_FAILED'' ''Parsed output could not be committed atomically'' True)
       (parse_output text c corr parser document)"
  by (rule ext)
    (simp add: parse_started_document_def settle_def parse_output_def persist_parser_failure_def
      Let_def split: sum.split option.split prod.split)

lemma parse_document_eq:
  "parse_document c describe text corr env parser run ts =
     run_stage c describe env (\<lambda>v. start_parsing c run v (ts 0)) (parse_output text c corr parser)
       (\<lambda>v a. complete_parsing c run v a
          (parsed_warnings a @ concat (map parsed_page_warnings (parsed_pages a))) (\<lambda>n. ts (n + 1)))
       (\<lambda>v f. fail_parsing c run v f (ts 3))
       (parse_failure ''PARSED_ARTIFACT_PERSISTENCE_FAILED'' ''Parsed output could not be committed atomically'' True) run"
  by (rule ext)
    (simp add: parse_document_def run_stage_def parse_started_document_eq Let_def split: sum.split prod.split)

lemma normalize_document_eq:
  "normalize_document c describe sha env normalizer run ts =
     run_stage c describe env (\<lambda>v. start_normalizing c run v (ts 0)) (normalize_output sha normalizer)
       (\<lambda>v a. complete_normalization c run v a
          (normalized_warnings a @ concat (map page_warnings (normalized_pages a))) (\<lambda>n. ts (n + 1)))
       (\<lambda>v f. fail_normalization c run v f (ts 3))
       (normalization_failure ''NORMALIZED_ARTIFACT_PERSISTENCE_FAILED''
          ''Normalized output could not be committed atomically'' True) run"
  by (rule ext)
    (simp add: normalize_document_def run_stage_def settle_def normalize_output_def persist_normalization_failure_def
      Let_def numeral_2_eq_2 numeral_3_eq_3 split: sum.split prod.split)

lemma structure_document_eq:
  "structure_document c describe sha up env interpreter run ts =
     run_stage c describe env (\<lambda>v. start_structuring c run v (ts 0)) (structure_output sha up interpreter)
       (\<lambda>v a. complete_structuring c run v a
          (structured_warnings a @ concat (map structure_page_warnings (structured_pages a))) (\<lambda>n. ts (n + 1)))
       (\<lambda>v f. fail_structuring c run v f (ts 3))
       (structure_failure ''STRUCTURED_ARTIFACT_PERSISTENCE_FAILED''
          ''Structured output could not be committed atomically'' True) run"
  by (rule ext)
    (simp add: structure_document_def run_stage_def settle_def structure_output_def persist_structure_failure_def
      Let_def numeral_2_eq_2 numeral_3_eq_3 split: sum.split prod.split)

lemma chunk_document_eq:
  "chunk_document c describe sha env chunker run ts =
     run_stage c describe env (\<lambda>v. start_chunking c run v (ts 0)) (chunk_output sha chunker)
       (\<lambda>v a. complete_chunking c run v a
          (chunked_warnings a @ concat (map chunk_warnings (chunks a))) (\<lambda>n. ts (n + 1)))
       (\<lambda>v f. fail_chunking c run v f (ts 3))
       (chunk_failure ''CHUNKED_ARTIFACT_PERSISTENCE_FAILED''
          ''Chunked output could not be committed atomically'' True) run"
  by (rule ext)
    (simp add: chunk_document_def run_stage_def settle_def chunk_output_def persist_chunk_failure_def
      Let_def numeral_2_eq_2 numeral_3_eq_3 split: sum.split prod.split)

end
