(* ===== verification/Driver_Correct.thy ===== *)
theory Driver_Correct
  imports Stage_Driver Store_Race
begin

text \<open>
  The stage drivers under interference. Between two transactions of a driver every other party may commit
  any transactions of the store; the contract says what the run looks like when the driver returns. It is
  proved once for the common pattern, as a locale that extends the contract of the stage's transactions,
  and interpreted for the four drivers.
\<close>

section \<open>Interference\<close>

text \<open>The others commit transactions of the store, and do not generate identifiers from \<open>ids\<close>.\<close>

definition interference :: "'j codec \<Rightarrow> string set \<Rightarrow> (nat \<Rightarrow> 'j db \<Rightarrow> 'j db) \<Rightarrow> bool" where
  "interference c ids env \<longleftrightarrow> (\<forall>i db. (store_step c)\<^sup>*\<^sup>* db (env i db)
     \<and> (\<forall>u \<in> ids. select_row (pipeline_events db) u = None \<longrightarrow> select_row (pipeline_events (env i db)) u = None))"

lemma interferenceD:
  assumes "interference c ids env"
  shows "(store_step c)\<^sup>*\<^sup>* db (env i db)"
    "u \<in> ids \<Longrightarrow> select_row (pipeline_events db) u = None \<Longrightarrow> select_row (pipeline_events (env i db)) u = None"
  using assms by (auto simp: interference_def)

lemma interference_id [simp]: "interference c ids (\<lambda>_ db. db)"
  by (simp add: interference_def)

lemma interference_shift: "interference c ids env \<Longrightarrow> interference c ids (\<lambda>i. env (i + k))"
  by (simp add: interference_def)

section \<open>The contract of a driver\<close>

text \<open>
  The result and the database after the call, for a driver that was called when the run was \<open>r0\<close>.
  \<open>untouched\<close> are the databases in which the driver has written nothing.
\<close>

definition stage_outcome ::
  "'j codec \<Rightarrow> ('j db \<Rightarrow> string \<Rightarrow> store_error + 'a option) \<Rightarrow> pipeline_state \<Rightarrow> string \<Rightarrow> string \<Rightarrow> 'j db set \<Rightarrow>
   u32 \<Rightarrow> (stage_pipeline_error + 'a) \<times> 'j db \<Rightarrow> bool" where
  "stage_outcome c get point lost run untouched v = (\<lambda>(result, db').
     case result of
       Inr a \<Rightarrow> (\<exists>r. get_pipeline_run c db' run = Inr (Some r) \<and> run_state r = point \<and> get db' run = Inr (Some a))
     | Inl (StageFailed f) \<Rightarrow>
         (\<exists>r. get_pipeline_run c db' run = Inr (Some r) \<and> run_state r = Failed \<and> run_failure r = Some f)
     | Inl (ArtifactPersistence e) \<Rightarrow>
         (\<exists>r f. get_pipeline_run c db' run = Inr (Some r) \<and> run_state r = Failed \<and> run_failure r = Some f
            \<and> failure_code f = lost \<and> recoverable f)
     | Inl (FailurePersistence _ _) \<Rightarrow>
         (\<exists>r. get_pipeline_run c db' run = Inr (Some r)
            \<and> (unat v < unat (state_version r) \<or> unat v + 1 = 2 ^ 32))
     | Inl (StageStore _) \<Rightarrow> db' \<in> untouched)"

lemma unat_next: "unat (w' :: u32) = unat w + 1 \<Longrightarrow> w' = w + 1"
proof -
  assume "unat w' = unat w + 1"
  then have "(word_of_nat (unat w') :: u32) = word_of_nat (unat w + 1)" by simp
  then show ?thesis by simp
qed

text \<open>What a transition leaves behind.\<close>

lemma transition_leaves:
  assumes "codec_ok c" "runs_ok c db" "transition_in_tx c run s v n st rs p t db = Inr (r', db')"
  shows "run_at c db' r'" "run_id r' = run" "run_state r' = n" "unat (state_version r') = unat v + 1"
    "patch_failure p = Some f \<Longrightarrow> run_failure r' = Some f"
    "\<exists>ev. db' = stepped c r' ev db \<and> event_id ev = fresh_uuid t"
    "\<exists>r. run_at c db r \<and> run_id r = run \<and> run_document_id r = run_document_id r'"
proof -
  from transition_in_txE [OF assms] obtain r ev r1 and es :: "pipeline_event list"
    where r: "run_id r = run" "run_at c db r" and tr: "transition r s n v (word_of_nat (length es)) st rs t = Inr (ev, r1)"
      and res: "r' = apply_patch p r1" "db' = stepped c r' ev db" by metis
  show ids: "run_id r' = run" "run_state r' = n" using tr r(1) res(1) by (auto simp: transition_Inr_iff)
  show "unat (state_version r') = unat v + 1" using tr res(1) by (auto simp: transition_Inr_iff unat_word_ariths)
  show "patch_failure p = Some f \<Longrightarrow> run_failure r' = Some f" using res(1) by (simp add: apply_patch_def Let_def split: option.split)
  show "run_at c db' r'" unfolding res(2) by (rule run_at_stepped_self) (use run_at_key [OF r(2)] ids(1) r(1) in simp)
  show "\<exists>ev. db' = stepped c r' ev db \<and> event_id ev = fresh_uuid t" using tr res by (auto simp: transition_Inr_iff)
  show "\<exists>r. run_at c db r \<and> run_id r = run \<and> run_document_id r = run_document_id r'"
    using r tr res(1) by (intro exI [where x = r]) (auto simp: transition_Inr_iff)
qed

locale driven_stage = checkpoint_stage c put get complete document active point stage tk
  for c :: "'j codec"
    and put :: "string \<Rightarrow> 'a \<Rightarrow> (nat \<Rightarrow> tick) \<Rightarrow> 'j db \<Rightarrow> store_error + 'j db"
    and get :: "'j db \<Rightarrow> string \<Rightarrow> store_error + 'a option"
    and complete :: "string \<Rightarrow> u32 \<Rightarrow> 'a \<Rightarrow> pipeline_warning list \<Rightarrow> (nat \<Rightarrow> tick) \<Rightarrow> 'j db \<Rightarrow>
      store_error + pipeline_run \<times> 'j db"
    and document :: "'a \<Rightarrow> string" and active :: pipeline_state and point :: pipeline_state
    and stage :: pipeline_stage and tk :: nat +
  fixes start :: "string \<Rightarrow> u32 \<Rightarrow> tick \<Rightarrow> 'j db \<Rightarrow> store_error + (pipeline_run \<times> 'i) \<times> 'j db"
    and fail :: "string \<Rightarrow> u32 \<Rightarrow> pipeline_failure \<Rightarrow> tick \<Rightarrow> 'j db \<Rightarrow> store_error + pipeline_run \<times> 'j db"
    and before :: pipeline_state
  assumes start_moves: "start run v t db = Inr ((r, i), db') \<Longrightarrow>
      transition_in_tx c run before v active (Some stage) None no_patch t db = Inr (r, db')"
    and fail_eq: "fail run v f t db =
      transition_in_tx c run active v Failed (Some stage) (Some (failure_code f)) (failure_patch f) t db"
    and complete_okD: "complete run v a ws ts db = Inr (r', db') \<Longrightarrow>
      \<exists>r. require_run c db run = Inr r \<and> run_document_id r = document a"
    and steps: "start run v t db = Inr (y, db') \<Longrightarrow> store_step c db db'"
      "fail run v f t db = Inr (r', db') \<Longrightarrow> store_step c db db'"
      "complete run v a ws ts db = Inr (r', db') \<Longrightarrow> store_step c db db'"
    and fails: "is_valid_transition active Failed"
begin

lemma complete_leaves:
  assumes "codec_ok c" "store_ok c db" "complete run v a ws ts db = Inr (r', db')"
  shows "get_pipeline_run c db' run = Inr (Some r') \<and> run_state r' = point \<and> get db' run = Inr (Some a)"
proof -
  note ok = store_okD [OF assms(2)]
  from complete_okD [OF assms(3)] obtain r where r: "require_run c db run = Inr r" "run_document_id r = document a" by blast
  then have at: "run_at c db r" "run_id r = run" by (simp_all add: get_run_iff [OF assms(1) ok(1)])
  from assms(3) complete_eq [OF r] obtain db1 where put: "put run a ts db = Inr db1"
    and step: "transition_in_tx c run active v point (Some stage) None (warnings_patch ws) (ts tk) db1 = Inr (r', db')"
    by (auto simp: res_simps)
  note sh = shelvedD [OF put_shelved [OF put]]
  have "has_key (run_document_id r) (documents db)" using ok(2) at(1) by (simp add: docs_ok_def)
  moreover have "slot db sh (run_id r) = None" if "sh \<in> shelves_of point" for sh using sh(5) [OF that] at(2) by simp
  ultimately obtain db2 where "put (run_id r) a ts db = Inr db2" "get db2 (run_id r) = Inr (Some a)"
    using put_ok [OF assms(1) at(1) r(2) [symmetric], of ts] by blast
  with put at(2) have got: "get db1 run = Inr (Some a)" by simp
  have runs1: "runs_ok c db1" using ok(1) runs_ok_cong(4) [OF sh(1,2)] by simp
  note left = transition_leaves [OF assms(1) runs1 step]
  from left(6,7) obtain ev r1 where ev: "db' = stepped c r' ev db1"
    and r1: "run_at c db1 r1" "run_id r1 = run" "run_document_id r1 = run_document_id r'" by blast
  have "get db' run = Inr (Some a)"
    using get_stepped [OF r1(1), of r' ev] r1(2,3) left(2) got ev by simp
  then show ?thesis using left(2,3) get_run_at(1) [OF assms(1) left(1)] by simp
qed

lemma fail_leaves:
  assumes "codec_ok c" "store_ok c db" "fail run v f t db = Inr (r', db')"
  shows "get_pipeline_run c db' run = Inr (Some r') \<and> run_state r' = Failed \<and> run_failure r' = Some f"
  using transition_leaves [OF assms(1) store_okD(1) [OF assms(2)] assms(3) [unfolded fail_eq]]
    get_run_at(1) [OF assms(1)] by (force simp: failure_patch_def)

lemma fail_refused:
  assumes "codec_ok c" "store_ok c db" "fail run v f t db = Inl e" "run_at c db r" "run_id r = run"
    and "select_row (pipeline_events db) (fresh_uuid t) = None"
  shows "\<not> (run_state r = active \<and> state_version r = v) \<or> unat v + 1 = 2 ^ 32"
proof (rule ccontr)
  assume now: "\<not> ?thesis"
  then have "unat (state_version r) + 1 < 2 ^ 32" using unat_u32_le [of v] by auto
  with transition_in_tx_available [OF assms(1) store_okD(1) [OF assms(2)] assms(4) _ _ assms(6), of Failed
      "Some stage" "Some (failure_code f)" "failure_patch f"] now assms(3,5) fails
  show False by (simp add: fail_eq)
qed

text \<open>The run is in the stage at version \<open>v\<close> when \<open>settle\<close> takes over.\<close>

lemma settle_outcome:
  assumes "codec_ok c" "reachable_store c db" "interference c {fresh_uuid t} env"
    and "run_at c db r" "run_id r = run" "run_state r = active" "state_version r = v"
    and "select_row (pipeline_events db) (fresh_uuid t) = None"
    and "failure_code lf = lost" "recoverable lf"
  shows "stage_outcome c get point lost run X v
    (settle describe env (\<lambda>a. complete run v a (ws a) ts) (\<lambda>f. fail run v f t) lf out db)"
proof -
  have reach: "reachable_store c (env 0 db)" "reachable_store c (env 1 (env 0 db))"
    using assms(2) interferenceD(1) [OF assms(3)] by (meson rtranclp_trans)+
  note ok = reachable_store_ok [OF assms(1) reach(1)] reachable_store_ok [OF assms(1) reach(2)]
  have free: "select_row (pipeline_events (env 0 db)) (fresh_uuid t) = None"
      "select_row (pipeline_events (env 1 (env 0 db))) (fresh_uuid t) = None"
    using assms(8) interferenceD(2) [OF assms(3)] by simp_all
  have lost_run: "\<exists>r'. get_pipeline_run c d run = Inr (Some r') \<and> (unat v < unat (state_version r') \<or> unat v + 1 = 2 ^ 32)"
    if steps: "(store_step c)\<^sup>*\<^sup>* db d" and d: "store_ok c d" "select_row (pipeline_events d) (fresh_uuid t) = None"
      and refused: "fail run v f t d = Inl e" for d f e
  proof -
    from grows_run [OF reachable_grows(1) [OF assms(1,2) steps] assms(4)] obtain r' where r': "run_at c d r'" "run_grows r r'" .
    have id: "run_id r' = run" using r'(2) assms(5) by (simp add: run_grows_def)
    have "unat v < unat (state_version r') \<or> r' = r"
    proof (cases "state_version r' = v")
      case False
      then have "unat (state_version r') \<noteq> unat v" by (metis unsigned_word_eqI)
      then show ?thesis using r'(2) assms(7) by (simp add: run_grows_def)
    qed (use r'(2) assms(7) in \<open>simp add: run_grows_def\<close>)
    with fail_refused [OF assms(1) d(1) refused r'(1) id d(2)] assms(6,7)
    show ?thesis using get_run_at(1) [OF assms(1) r'(1)] id by auto
  qed
  have steps1: "(store_step c)\<^sup>*\<^sup>* db (env 0 db)" "(store_step c)\<^sup>*\<^sup>* db (env 1 (env 0 db))"
    using interferenceD(1) [OF assms(3)] by (meson rtranclp_trans)+
  note lost = lost_run [OF steps1(1) ok(1) free(1)] lost_run [OF steps1(2) ok(2) free(2)]
  show ?thesis
  proof (cases out)
    case (Inl f)
    show ?thesis
    proof (cases "fail run v f t (env 0 db)")
      case (Inr x)
      then show ?thesis using fail_leaves [OF assms(1) ok(1), of run v f t] Inl
        by (cases x) (auto simp: settle_def stage_outcome_def)
    qed (use lost(1) Inl in \<open>auto simp: settle_def stage_outcome_def\<close>)
  next
    case a: (Inr a)
    show ?thesis
    proof (cases "complete run v a (ws a) ts (env 0 db)")
      case (Inr x)
      then show ?thesis using complete_leaves [OF assms(1) ok(1), of run v a "ws a" ts] a
        by (cases x) (auto simp: settle_def stage_outcome_def)
    next
      case e: (Inl e)
      show ?thesis
      proof (cases "fail run v lf t (env 1 (env 0 db))")
        case (Inr x)
        then show ?thesis using fail_leaves [OF assms(1) ok(2), of run v lf t] a e assms(9,10)
          by (cases x) (auto simp: settle_def stage_outcome_def)
      qed (use lost(2) a e in \<open>auto simp: settle_def stage_outcome_def\<close>)
    qed
  qed
qed

text \<open>The whole driver. Its own first identifier is not that of a later transaction.\<close>

lemma run_stage_outcome:
  fixes ts :: "nat \<Rightarrow> tick"
  assumes "codec_ok c" "reachable_store c db" "interference c {fresh_uuid (ts 3)} env"
    and "fresh_uuid (ts 0) \<noteq> fresh_uuid (ts 3)" "select_row (pipeline_events db) (fresh_uuid (ts 3)) = None"
    and "failure_code lf = lost" "recoverable lf"
    and "get_pipeline_run c (env 0 db) run = Inr (Some r)"
  shows "stage_outcome c get point lost run {env 0 db, env 1 (env 0 db)} (state_version r + 1)
    (run_stage c describe env (\<lambda>v. start run v (ts 0)) compute (\<lambda>v a. complete run v a (ws a) ts')
       (\<lambda>v f. fail run v f (ts 3)) lf run db)"
proof -
  let ?db = "env 1 (env 0 db)"
  have reach: "reachable_store c (env 0 db)" "reachable_store c ?db"
    using assms(2) interferenceD(1) [OF assms(3)] by (meson rtranclp_trans)+
  have req: "require_run c (env 0 db) run = Inr r" using assms(8) by (simp add: require_run_def)
  show ?thesis
  proof (cases "start run (state_version r) (ts 0) ?db")
    case (Inl e)
    with req show ?thesis by (simp add: run_stage_def stage_outcome_def)
  next
    case (Inr x)
    then obtain r1 i db2 where x: "start run (state_version r) (ts 0) ?db = Inr ((r1, i), db2)" by (cases x) auto
    have reach2: "reachable_store c db2" using reach(2) steps(1) [OF x] by (rule rtranclp.rtrancl_into_rtrancl)
    note left = transition_leaves [OF assms(1) store_okD(1) [OF reachable_store_ok [OF assms(1) reach(2)]] start_moves [OF x]]
    from left(6) obtain ev where ev: "db2 = stepped c r1 ev ?db" "event_id ev = fresh_uuid (ts 0)" by blast
    have "select_row (pipeline_events ?db) (fresh_uuid (ts 3)) = None"
      using assms(5) interferenceD(2) [OF assms(3)] by simp
    then have free: "select_row (pipeline_events db2) (fresh_uuid (ts 3)) = None"
      using ev assms(4) by (simp add: stepped_def event_entry_def)
    have v: "state_version r1 = state_version r + 1"
      using left(4) by (rule unat_next)
    have "stage_outcome c get point lost run {env 0 db, ?db} (state_version r1)
        (settle describe (\<lambda>i. env (i + 2)) (\<lambda>a. complete run (state_version r1) a (ws a) ts')
          (\<lambda>f. fail run (state_version r1) f (ts 3)) lf (compute i) db2)"
      by (rule settle_outcome [OF assms(1) reach2 interference_shift [OF assms(3)] left(1-3) refl free assms(6,7)])
    with req x v show ?thesis by (simp add: run_stage_def)
  qed
qed

end

section \<open>The four drivers\<close>

interpretation parse_run: driven_stage c "\<lambda>run a ts. insert_parsed_document c run a (ts 0)"
    "get_parsed_document c" "complete_parsing c" parsed_document_id Parsing Parsed Parse 1
    "start_parsing c" "fail_parsing c" Ingested for c
proof unfold_locales
  show "\<exists>r. require_run c db run = Inr r \<and> run_document_id r = parsed_document_id a"
    if "complete_parsing c run v a ws ts db = Inr (r', db')" for run v a ws ts db r' db'
    using that by (auto simp: complete_parsing_def res_simps)
qed ((rule store_step.intros, assumption) | (auto simp: start_parsing_def fail_parsing_def res_simps edge_simps)[1])+

interpretation normalize_run: driven_stage c "\<lambda>run a ts. insert_normalized_document c run a (ts 0)"
    "get_normalized_document c" "complete_normalization c" normalized_document_id Normalizing Normalized Normalize 1
    "start_normalizing c" "fail_normalization c" Parsed for c
proof unfold_locales
  show "\<exists>r. require_run c db run = Inr r \<and> run_document_id r = normalized_document_id a"
    if "complete_normalization c run v a ws ts db = Inr (r', db')" for run v a ws ts db r' db'
    using that by (auto simp: complete_normalization_def res_simps)
qed ((rule store_step.intros, assumption) | (auto simp: start_normalizing_def fail_normalization_def res_simps edge_simps)[1])+

interpretation structure_run: driven_stage c "\<lambda>run a ts. insert_structured_document c run a (ts 0)"
    "get_structured_document c" "complete_structuring c" structured_document_id Structuring Structured Structure 1
    "start_structuring c" "fail_structuring c" Normalized for c
proof unfold_locales
  show "\<exists>r. require_run c db run = Inr r \<and> run_document_id r = structured_document_id a"
    if "complete_structuring c run v a ws ts db = Inr (r', db')" for run v a ws ts db r' db'
    using that by (auto simp: complete_structuring_def res_simps)
qed ((rule store_step.intros, assumption) | (auto simp: start_structuring_def fail_structuring_def res_simps edge_simps)[1])+

interpretation chunk_run: driven_stage c "\<lambda>run a ts. insert_chunked_document c run a (ts 0)"
    "get_chunked_document c" "complete_chunking c" chunked_document_id Chunking Chunked Chunk 1
    "start_chunking c" "fail_chunking c" Structured for c
proof unfold_locales
  show "\<exists>r. require_run c db run = Inr r \<and> run_document_id r = chunked_document_id a"
    if "complete_chunking c run v a ws ts db = Inr (r', db')" for run v a ws ts db r' db'
    using that by (auto simp: complete_chunking_def res_simps)
qed ((rule store_step.intros, assumption) | (auto simp: start_chunking_def fail_chunking_def res_simps edge_simps)[1])+

text \<open>
  C29. However the other parties interleave their transactions, a call of a stage driver ends in one of five
  ways: it returns the artifact, and the run is at the checkpoint with exactly that artifact stored; it
  returns the failure of the stage, and the run is failed with it; it reports that the artifact could
  not be stored, and the run is failed with the recoverable failure of that name; it reports that even
  the failure could not be stored, and then someone else has moved the run on (or its version number is
  exhausted); or it could not start, and has written nothing. It never leaves the run behind in the
  stage it has started.
\<close>

theorem stage_drivers_settle:
  fixes ts :: "nat \<Rightarrow> tick"
  assumes "codec_ok c" "reachable_store c db" "interference c {fresh_uuid (ts 3)} env"
    and "fresh_uuid (ts 0) \<noteq> fresh_uuid (ts 3)" "select_row (pipeline_events db) (fresh_uuid (ts 3)) = None"
    and "get_pipeline_run c (env 0 db) run = Inr (Some r)"
    and "untouched = {env 0 db, env 1 (env 0 db)}" "v = state_version r + 1"
  shows "stage_outcome c (get_parsed_document c) Parsed ''PARSED_ARTIFACT_PERSISTENCE_FAILED'' run untouched v
        (parse_document c describe correction_text corr env parser run ts db)
    \<and> stage_outcome c (get_normalized_document c) Normalized ''NORMALIZED_ARTIFACT_PERSISTENCE_FAILED'' run untouched v
        (normalize_document c describe sha env normalizer run ts db)
    \<and> stage_outcome c (get_structured_document c) Structured ''STRUCTURED_ARTIFACT_PERSISTENCE_FAILED'' run untouched v
        (structure_document c describe sha up env interpreter run ts db)
    \<and> stage_outcome c (get_chunked_document c) Chunked ''CHUNKED_ARTIFACT_PERSISTENCE_FAILED'' run untouched v
        (chunk_document c describe sha env chunker run ts db)"
  unfolding parse_document_eq normalize_document_eq structure_document_eq chunk_document_eq assms(7,8)
  by (intro conjI parse_run.run_stage_outcome [OF assms(1-5) _ _ assms(6)] normalize_run.run_stage_outcome [OF assms(1-5) _ _ assms(6)]
      structure_run.run_stage_outcome [OF assms(1-5) _ _ assms(6)] chunk_run.run_stage_outcome [OF assms(1-5) _ _ assms(6)])
    (simp_all add: parse_failure_def normalization_failure_def structure_failure_def chunk_failure_def)

lemma demo_parsed_run: "\<exists>r. get_pipeline_run sample_codec (demo 3) ''run'' = Inr (Some r) \<and> state_version r = 5"
  by (simp add: demo_simps)

lemma stage_drivers_settle_witness:
  "\<forall>normalizer. stage_outcome sample_codec (get_normalized_document sample_codec) Normalized
     ''NORMALIZED_ARTIFACT_PERSISTENCE_FAILED'' ''run'' {demo 3} 6
     (normalize_document sample_codec (\<lambda>_. ''e'') id (\<lambda>_ db. db) normalizer ''run'' (ticks 20) (demo 3))"
proof -
  obtain r where r: "get_pipeline_run sample_codec (demo 3) ''run'' = Inr (Some r)" "state_version r = 5"
    using demo_parsed_run by blast
  have free: "select_row (pipeline_events (demo 3)) (fresh_uuid (ticks 20 3)) = None" by (simp add: demo_simps)
  have ids: "fresh_uuid (ticks 20 0) \<noteq> fresh_uuid (ticks 20 3)" by simp
  from stage_drivers_settle [OF sample_codec_ok demo_reachable interference_id ids free r(1) refl refl] r(2)
  show ?thesis by simp
qed

end
