(* ===== verification/Clause_Text.thy ===== *)
theory Clause_Text
  imports Contracts
begin

text \<open>
  The line recognition of \<open>summary/coherent/whole_clauses.rs\<close>: decimal and Roman markers, titles,
  articles, and \<open>ReadLine::read\<close>. A Rust string is its UTF-8 bytes; \<open>unicode\<close> holds the character
  properties that come from the Unicode tables.
\<close>

section \<open>Strings\<close>

record unicode =
  uc_upper :: "nat \<Rightarrow> bool"
  uc_lower :: "nat \<Rightarrow> bool"
  uc_alphabetic :: "nat \<Rightarrow> bool"
  uc_alphanumeric :: "nat \<Rightarrow> bool"
  uc_numeric :: "nat \<Rightarrow> bool"
  uc_currency :: "nat \<Rightarrow> bool"
  uc_lowercase :: "string \<Rightarrow> string"

definition trim_start :: "string \<Rightarrow> string" where
  "trim_start s = text_of (dropWhile (is_whitespace \<circ> fst) (utf8_chars s))"

definition trim_end :: "string \<Rightarrow> string" where
  "trim_end s = text_of (rev (dropWhile (is_whitespace \<circ> fst) (rev (utf8_chars s))))"

text \<open>\<open>split_inclusive('\n')\<close>, \<open>split\<close> at an ASCII character, \<open>split_once\<close> at a character and at a
  string, and \<open>split\<close> at characters with empty pieces dropped.\<close>

fun split_inclusive :: "string \<Rightarrow> string \<Rightarrow> string list" where
  "split_inclusive acc [] = (if acc = [] then [] else [rev acc])"
| "split_inclusive acc (b # bs) =
     (if b = CHR 0x0A then rev (b # acc) # split_inclusive [] bs else split_inclusive (b # acc) bs)"

fun split_at :: "char \<Rightarrow> string \<Rightarrow> string \<Rightarrow> string list" where
  "split_at sep acc [] = [rev acc]"
| "split_at sep acc (b # bs) = (if b = sep then rev acc # split_at sep [] bs else split_at sep (b # acc) bs)"

definition split_once_char :: "(nat \<Rightarrow> bool) \<Rightarrow> string \<Rightarrow> (string \<times> string) option" where
  "split_once_char p s =
     (let cs = utf8_chars s in
      case dropWhile (\<lambda>c. \<not> p (fst c)) cs of
        [] \<Rightarrow> None
      | _ # rest \<Rightarrow> Some (text_of (takeWhile (\<lambda>c. \<not> p (fst c)) cs), text_of rest))"

fun split_once_str :: "string \<Rightarrow> string \<Rightarrow> string \<Rightarrow> (string \<times> string) option" where
  "split_once_str pat acc [] = (if pat = [] then Some (rev acc, []) else None)"
| "split_once_str pat acc (b # bs) =
     (if starts_with (b # bs) pat then Some (rev acc, drop (length pat) (b # bs))
      else split_once_str pat (b # acc) bs)"

fun runs :: "(nat \<Rightarrow> bool) \<Rightarrow> string \<Rightarrow> (nat \<times> string) list \<Rightarrow> string list" where
  "runs p acc [] = (if acc = [] then [] else [acc])"
| "runs p acc (c # cs) =
     (if p (fst c) then runs p (acc @ snd c) cs
      else (if acc = [] then runs p [] cs else acc # runs p [] cs))"

definition split_whitespace :: "string \<Rightarrow> string list" where
  "split_whitespace s = runs (\<lambda>c. \<not> is_whitespace c) [] (utf8_chars s)"

definition strip_prefix :: "string \<Rightarrow> string \<Rightarrow> string option" where
  "strip_prefix pre s = (if starts_with s pre then Some (drop (length pre) s) else None)"

text \<open>\<open>strip_suffix([..]).unwrap_or(s)\<close>, \<open>trim_end_matches([..])\<close> and \<open>ends_with([..])\<close> for ASCII
  characters.\<close>

definition strip_one_of :: "string \<Rightarrow> string \<Rightarrow> string" where
  "strip_one_of bytes s = (if s \<noteq> [] \<and> last s \<in> set bytes then butlast s else s)"

definition trim_end_of :: "string \<Rightarrow> string \<Rightarrow> string" where
  "trim_end_of bytes s = rev (dropWhile (\<lambda>b. b \<in> set bytes) (rev s))"

definition ends_with_one_of :: "string \<Rightarrow> string \<Rightarrow> bool" where
  "ends_with_one_of bytes s \<longleftrightarrow> s \<noteq> [] \<and> last s \<in> set bytes"

definition to_ascii_uppercase :: "string \<Rightarrow> string" where
  "to_ascii_uppercase s = map (\<lambda>b. if 97 \<le> byte b \<and> byte b \<le> 122 then char_of (byte b - 32) else b) s"

definition to_ascii_lowercase :: "string \<Rightarrow> string" where
  "to_ascii_lowercase s = map (\<lambda>b. if 65 \<le> byte b \<and> byte b \<le> 90 then char_of (byte b + 32) else b) s"

definition all_digits :: "string \<Rightarrow> bool" where
  "all_digits s \<longleftrightarrow> list_all is_ascii_digit s"

fun decimal_value :: "nat \<Rightarrow> string \<Rightarrow> nat" where
  "decimal_value a [] = a"
| "decimal_value a (b # bs) = decimal_value (10 * a + (byte b - 48)) bs"

text \<open>\<open>parse::<u32>().ok()\<close> of a string of digits.\<close>

definition parse_u32 :: "string \<Rightarrow> nat option" where
  "parse_u32 s = (if s \<noteq> [] \<and> all_digits s \<and> decimal_value 0 s < 2 ^ 32 then Some (decimal_value 0 s) else None)"

definition SECTION_SIGN :: string where "SECTION_SIGN = [CHR 0xC2, CHR 0xA7]"

section \<open>Decimal markers and titles\<close>

definition decimal_marker :: "string \<Rightarrow> string list option" where
  "decimal_marker marker =
     (let parts = split_at CHR ''.'' [] (strip_one_of ''.)'' (trim marker))
      in if list_ex (\<lambda>p. p = [] \<or> \<not> all_digits p) parts then None else Some parts)"

definition contract_marker :: "string \<Rightarrow> string list option" where
  "contract_marker marker =
     (case decimal_marker marker of
        None \<Rightarrow> None
      | Some parts \<Rightarrow> if list_all (\<lambda>part. length part \<le> 3) parts then Some parts else None)"

datatype heading_grammar = Original | SectionAndSplitArticle

definition unwrap_section_sign :: "string \<Rightarrow> string" where
  "unwrap_section_sign s = (case strip_prefix SECTION_SIGN s of None \<Rightarrow> s | Some rest \<Rightarrow> rest)"

definition decimal_line :: "string \<Rightarrow> heading_grammar \<Rightarrow> (string list \<times> string) option" where
  "decimal_line line grammar =
     (let trimmed = trim line;
          named = (if grammar = SectionAndSplitArticle
            then (case split_once_char is_whitespace trimmed of
                Some (p, rest) \<Rightarrow> if p = ''Section'' \<or> p = ''SECTION'' then trim_start rest else trimmed
              | None \<Rightarrow> trimmed)
            else trimmed);
          bare = trim_start (unwrap_section_sign (trim named))
      in case split_once_char is_whitespace bare of
           None \<Rightarrow> None
         | Some (marker, rest) \<Rightarrow> map_option (\<lambda>parts. (parts, trim rest)) (decimal_marker marker))"

fun contract_title_from :: "(nat \<times> string) list \<Rightarrow> (nat \<times> string) list \<Rightarrow> string \<times> bool" where
  "contract_title_from acc [] = (trim (text_of (rev acc)), False)"
| "contract_title_from acc (c # cs) =
     (if (fst c = 46 \<or> fst c = 58) \<and> (cs = [] \<or> is_whitespace (fst (hd cs)))
      then (trim (text_of (rev acc)), \<not> blank (text_of cs))
      else contract_title_from (c # acc) cs)"

definition contract_title :: "string \<Rightarrow> string \<times> bool" where
  "contract_title s = contract_title_from [] (utf8_chars s)"

definition chars_all :: "(nat \<Rightarrow> bool) \<Rightarrow> string \<Rightarrow> bool" where
  "chars_all p s \<longleftrightarrow> list_all (p \<circ> fst) (utf8_chars s)"

definition chars_any :: "(nat \<Rightarrow> bool) \<Rightarrow> string \<Rightarrow> bool" where
  "chars_any p s \<longleftrightarrow> list_ex (p \<circ> fst) (utf8_chars s)"

definition connectors :: "string list" where
  "connectors = [''and'', ''or'', ''of'', ''the'', ''to'', ''for'', ''in'', ''with'', ''a'', ''an'']"

definition starts_upper :: "unicode \<Rightarrow> string \<Rightarrow> bool" where
  "starts_upper u s \<longleftrightarrow> (case utf8_chars s of [] \<Rightarrow> False | c # _ \<Rightarrow> uc_upper u (fst c))"

definition leading_title :: "unicode \<Rightarrow> string \<Rightarrow> bool" where
  "leading_title u s =
     (let title = strip_one_of ''.:'' (trim s) in
      if title = [] \<or> \<not> chars_all (\<lambda>c. uc_alphabetic u c \<or> is_whitespace c \<or> c \<in> {38, 47, 45, 39}) title
      then False
      else
        let ws = runs (uc_alphabetic u) [] (utf8_chars title)
        in list_ex (starts_upper u) ws
           \<and> list_all (\<lambda>w. w \<in> set connectors \<or> chars_all (uc_upper u) w
               \<or> (case utf8_chars w of [] \<Rightarrow> False
                    | c # cs \<Rightarrow> uc_upper u (fst c) \<and> list_all (uc_lower u \<circ> fst) cs)) ws)"

section \<open>Ordinals\<close>

definition roman_values :: "(nat \<times> string) list" where
  "roman_values = [(1000, ''M''), (900, ''CM''), (500, ''D''), (400, ''CD''), (100, ''C''), (90, ''XC''), (50, ''L''),
     (40, ''XL''), (10, ''X''), (9, ''IX''), (5, ''V''), (4, ''IV''), (1, ''I'')]"

text \<open>The loop that takes one token off the front while it can; the tokens are not empty. \<open>n\<close> stays
  below \<open>5000\<close>, far from the end of \<open>u32\<close>.\<close>

function take_tokens :: "nat \<Rightarrow> string \<Rightarrow> nat \<Rightarrow> string \<Rightarrow> (nat \<times> string) option" where
  "take_tokens val token n tail =
     (if token \<noteq> [] \<and> starts_with tail token
      then (if n + val > 3999 then None else take_tokens val token (n + val) (drop (length token) tail))
      else Some (n, tail))"
  by pat_completeness auto
termination by (relation "measure (\<lambda>(_, token, _, tail). length tail)") (auto simp: starts_with_iff)

declare take_tokens.simps [simp del]

fun read_roman :: "(nat \<times> string) list \<Rightarrow> nat \<Rightarrow> string \<Rightarrow> (nat \<times> string) option" where
  "read_roman [] n tail = Some (n, tail)"
| "read_roman ((val, token) # vs) n tail =
     (case take_tokens val token n tail of None \<Rightarrow> None | Some (n', tail') \<Rightarrow> read_roman vs n' tail')"

function push_tokens :: "nat \<Rightarrow> string \<Rightarrow> nat \<Rightarrow> string \<Rightarrow> nat \<times> string" where
  "push_tokens val token remaining canonical =
     (if 0 < val \<and> val \<le> remaining then push_tokens val token (remaining - val) (canonical @ token)
      else (remaining, canonical))"
  by pat_completeness auto
termination by (relation "measure (\<lambda>(_, _, remaining, _). remaining)") auto

declare push_tokens.simps [simp del]

fun write_roman :: "(nat \<times> string) list \<Rightarrow> nat \<Rightarrow> string \<Rightarrow> string" where
  "write_roman [] remaining canonical = canonical"
| "write_roman ((val, token) # vs) remaining canonical =
     (case push_tokens val token remaining canonical of (r, c) \<Rightarrow> write_roman vs r c)"

definition article_ordinal :: "string \<Rightarrow> nat option" where
  "article_ordinal ord_text =
     (if length ord_text \<le> 3 \<and> all_digits ord_text
      then (case parse_u32 ord_text of None \<Rightarrow> None | Some v \<Rightarrow> if 0 < v then Some v else None)
      else
        case read_roman roman_values 0 ord_text of
          None \<Rightarrow> None
        | Some (n, tail) \<Rightarrow>
            if tail \<noteq> [] \<or> n = 0 then None
            else if write_roman roman_values n [] \<noteq> ord_text then None
            else Some n)"

definition dash_or_colon :: "nat \<Rightarrow> bool" where
  "dash_or_colon c \<longleftrightarrow> c = 45 \<or> c = 8211 \<or> c = 8212 \<or> c = 58"

definition article_ordinal_prefix :: "string \<Rightarrow> (nat \<times> string) option" where
  "article_ordinal_prefix s =
     (let cs = utf8_chars s; stop = (\<lambda>c. is_whitespace (fst c) \<or> dash_or_colon (fst c))
      in map_option (\<lambda>n. (n, text_of (dropWhile (Not \<circ> stop) cs))) (article_ordinal (text_of (takeWhile (Not \<circ> stop) cs))))"

definition all_alphabetic_upper :: "unicode \<Rightarrow> string \<Rightarrow> bool" where
  "all_alphabetic_upper u s \<longleftrightarrow> list_all (uc_upper u \<circ> fst) (filter (uc_alphabetic u \<circ> fst) (utf8_chars s))"

definition article_title :: "unicode \<Rightarrow> string \<Rightarrow> (nat \<times> string) option" where
  "article_title u s =
     (case split_once_char is_whitespace (trim s) of
        None \<Rightarrow> None
      | Some (kind, rest) \<Rightarrow>
          if to_ascii_lowercase kind \<noteq> ''article'' then None
          else case article_ordinal_prefix (trim rest) of
            None \<Rightarrow> None
          | Some (number, rest') \<Rightarrow>
              (let rest = trim_start rest' in
               case utf8_chars rest of
                 [] \<Rightarrow> None
               | separator # after \<Rightarrow>
                   (case (if dash_or_colon (fst separator) then Some (trim (text_of after))
                          else if kind \<noteq> ''ARTICLE'' \<or> \<not> chars_any (uc_alphabetic u) rest \<or> \<not> all_alphabetic_upper u rest
                          then None else Some rest) of
                      None \<Rightarrow> None
                    | Some title \<Rightarrow>
                        if title = [] then None else Some (number, trim_end (strip_one_of ''.:'' title)))))"

definition bare_roman_title :: "unicode \<Rightarrow> string \<Rightarrow> nat option \<Rightarrow> (nat \<times> string) option" where
  "bare_roman_title u s number =
     (case split_once_str ''. '' [] s of
        None \<Rightarrow> None
      | Some (ord_text, rest) \<Rightarrow>
          (let title = trim rest in
           if \<not> list_all (\<lambda>b. b \<in> set ''IVXLCDM'') ord_text \<or> \<not> chars_any (uc_alphabetic u) title
              \<or> \<not> all_alphabetic_upper u title
           then None
           else map_option (\<lambda>n. (n, trim_end (strip_one_of ''.:'' title))) number))"

section \<open>Reading a line\<close>

datatype line_kind = HeadingLine | HeadingLike | TextLine

record read_line =
  rl_decimal :: "(string list \<times> string) option"
  rl_numbered :: bool
  rl_explicit_section :: bool
  rl_section_marked :: bool
  rl_roman_decimal :: bool
  rl_article :: "(nat \<times> string) option"
  rl_article_marker :: "nat option"
  rl_article_lines :: nat
  rl_roman :: "(nat \<times> string) option"
  rl_title :: bool
  rl_generic_heading_like :: bool
  rl_opening_cover :: bool
  rl_ends_unit :: bool
  rl_starts_unit :: bool
  rl_kind :: line_kind
  rl_toc :: bool
  rl_toc_entry :: bool

definition structural_words :: "string list" where
  "structural_words = [''ARTICLE'', ''SECTION'', ''EXHIBIT'', ''APPENDIX'', ''SCHEDULE'', ''ATTACHMENT'', ''ANNEX'']"

definition cover_words :: "string list" where
  "cover_words = [''EXHIBIT'', ''APPENDIX'', ''SCHEDULE'', ''ATTACHMENT'', ''ANNEX'']"

definition contains_str :: "string \<Rightarrow> string \<Rightarrow> bool" where
  "contains_str s pat \<longleftrightarrow> split_once_str pat [] s \<noteq> None"

definition read_line_of :: "unicode \<Rightarrow> string \<Rightarrow> heading_grammar \<Rightarrow> read_line" where
  "read_line_of u s grammar =
     (let decimal = decimal_line s grammar;
          numbered = (case decimal of None \<Rightarrow> False
            | Some (parts, rest) \<Rightarrow> list_all (\<lambda>part. length part \<le> 3) parts \<and> starts_upper u rest);
          article = article_title u s;
          title = leading_title u s;
          words = split_whitespace s;
          recognition = join '' '' words;
          upper = to_ascii_uppercase recognition;
          toc = (upper = ''TABLE OF CONTENTS'');
          (marker, remainder) = (case split_once_str '' '' [] recognition of Some mr \<Rightarrow> mr | None \<Rightarrow> (recognition, []));
          plausible_heading = (remainder = [] \<or> leading_title u remainder
            \<or> (\<not> ends_with_one_of ''.;?!'' recognition \<and> all_alphabetic_upper u remainder));
          ord_text = trim_end_of ''.)'' marker;
          roman_number = map_option fst (article_ordinal_prefix (to_ascii_uppercase ord_text));
          article_marker = (if grammar = SectionAndSplitArticle \<and> length words = 2 \<and> words ! 0 = ''ARTICLE''
            then article_ordinal (words ! 1) else None);
          roman = (roman_number \<noteq> None \<and> (ends_with_one_of ''.)'' marker \<or> remainder \<noteq> []) \<and> plausible_heading);
          letter = (ends_with_one_of ''.)'' marker \<and> length ord_text = 1 \<and> chars_all (uc_alphabetic u) ord_text
            \<and> remainder \<noteq> [] \<and> plausible_heading);
          structural_marker = (to_ascii_uppercase marker \<in> set structural_words \<and> plausible_heading);
          toc_words = (case decimal of None \<Rightarrow> words | Some (_, rest) \<Rightarrow> split_whitespace rest);
          toc_entry = (contains_str recognition ''...''
            \<or> (numbered \<and> 1 < length toc_words \<and> list_all is_ascii_digit (last toc_words)
               \<and> leading_title u (join '' '' (butlast toc_words))));
          generic_heading_like = (length words \<le> 8 \<and> \<not> ends_with_one_of ''.:;?!)'' recognition
            \<and> chars_any (uc_alphabetic u) recognition \<and> all_alphabetic_upper u recognition);
          opening_cover = (to_ascii_uppercase marker \<in> set cover_words);
          structural = (toc \<or> roman \<or> letter \<or> structural_marker \<or> toc_entry);
          kind = (if toc \<or> toc_entry then HeadingLike
            else if article \<noteq> None \<or> numbered then HeadingLine
            else if structural then HeadingLike else TextLine);
          ends_unit = (ends_with_one_of ''.:;?!)'' (trim_end s)
            \<or> contract_marker (unwrap_section_sign (trim s)) \<noteq> None
            \<or> article \<noteq> None
            \<or> (numbered \<and> (case decimal of None \<Rightarrow> False
                 | Some (_, rest) \<Rightarrow> (case contract_title rest of (t, has_body) \<Rightarrow> \<not> has_body \<and> leading_title u t))));
          section_word = (case words of [] \<Rightarrow> False | w # _ \<Rightarrow> w = ''Section'' \<or> w = ''SECTION'')
      in \<lparr>rl_decimal = decimal, rl_numbered = numbered,
          rl_explicit_section = (grammar = SectionAndSplitArticle \<and> section_word),
          rl_section_marked = (grammar = SectionAndSplitArticle
            \<and> (section_word \<or> starts_with (trim_start s) SECTION_SIGN)),
          rl_roman_decimal = (\<not> starts_with (trim_start s) SECTION_SIGN),
          rl_article = article, rl_article_marker = article_marker, rl_article_lines = 1,
          rl_roman = bare_roman_title u s roman_number, rl_title = title,
          rl_generic_heading_like = generic_heading_like, rl_opening_cover = opening_cover,
          rl_ends_unit = ends_unit, rl_starts_unit = False, rl_kind = kind, rl_toc = toc, rl_toc_entry = toc_entry\<rparr>)"

definition rl_number :: "read_line \<Rightarrow> (string list \<times> string) option" where
  "rl_number r = (if rl_numbered r then rl_decimal r else None)"

section \<open>Ordinals are read exactly\<close>

text \<open>The ten ways to write a decimal digit with three Roman symbols.\<close>

definition roman_digit :: "char \<Rightarrow> char \<Rightarrow> char \<Rightarrow> nat \<Rightarrow> string" where
  "roman_digit one five ten d =
     [[], [one], [one, one], [one, one, one], [one, five], [five], [five, one], [five, one, one],
      [five, one, one, one], [one, ten]] ! d"

lemma digit_cases:
  "(d :: nat) < 10 \<Longrightarrow> d = 0 \<or> d = 1 \<or> d = 2 \<or> d = 3 \<or> d = 4 \<or> d = 5 \<or> d = 6 \<or> d = 7 \<or> d = 8 \<or> d = 9"
  by arith

lemma take_tokens_le: "take_tokens val token n tail = Some (n', tail') \<Longrightarrow> n \<le> 3999 \<Longrightarrow> n' \<le> 3999"
  by (induction val token n tail rule: take_tokens.induct)
    (subst (asm) (2) take_tokens.simps, auto split: if_splits)

lemma read_roman_le: "read_roman vs n tail = Some (n', tail') \<Longrightarrow> n \<le> 3999 \<Longrightarrow> n' \<le> 3999"
  by (induction vs n tail rule: read_roman.induct) (auto split: option.splits dest: take_tokens_le)

lemma write_thousands:
  assumes "k < 4" "m < 1000"
  shows "write_roman ((1000, ''M'') # vs) (1000 * k + m) acc = write_roman vs m (acc @ replicate k (CHR ''M''))"
proof -
  from assms(1) have "k = 0 \<or> k = 1 \<or> k = 2 \<or> k = 3" by arith
  then show ?thesis using assms(2) by (elim disjE) (simp_all add: push_tokens.simps numeral_2_eq_2 numeral_3_eq_3)
qed

lemma write_hundreds:
  assumes "k < 10" "m < 100"
  shows "write_roman ((900, ''CM'') # (500, ''D'') # (400, ''CD'') # (100, ''C'') # vs) (100 * k + m) acc =
    write_roman vs m (acc @ roman_digit (CHR ''C'') (CHR ''D'') (CHR ''M'') k)"
  using digit_cases [OF assms(1)] assms(2) by (elim disjE) (simp_all add: push_tokens.simps roman_digit_def)

lemma write_tens:
  assumes "k < 10" "m < 10"
  shows "write_roman ((90, ''XC'') # (50, ''L'') # (40, ''XL'') # (10, ''X'') # vs) (10 * k + m) acc =
    write_roman vs m (acc @ roman_digit (CHR ''X'') (CHR ''L'') (CHR ''C'') k)"
  using digit_cases [OF assms(1)] assms(2) by (elim disjE) (simp_all add: push_tokens.simps roman_digit_def)

lemma write_ones:
  assumes "k < 10"
  shows "write_roman [(9, ''IX''), (5, ''V''), (4, ''IV''), (1, ''I'')] k acc =
    acc @ roman_digit (CHR ''I'') (CHR ''V'') (CHR ''X'') k"
  using digit_cases [OF assms] by (elim disjE) (simp_all add: push_tokens.simps roman_digit_def)

text \<open>What may follow a digit: nothing, or a symbol of a smaller unit.\<close>

definition begins_in :: "string \<Rightarrow> string \<Rightarrow> bool" where
  "begins_in cs s \<longleftrightarrow> s = [] \<or> hd s \<in> set cs"

lemma begins_not: "begins_in cs s \<Longrightarrow> c \<notin> set cs \<Longrightarrow> \<not> starts_with s (c # t)"
  by (cases s) (auto simp: begins_in_def)

lemma read_thousands:
  assumes "k < 4" "begins_in ''CDXLIV'' rest"
  shows "read_roman ((1000, ''M'') # vs) 0 (replicate k (CHR ''M'') @ rest) = read_roman vs (1000 * k) rest"
proof -
  from assms(1) have "k = 0 \<or> k = 1 \<or> k = 2 \<or> k = 3" by arith
  moreover have "\<not> starts_with rest (CHR ''M'' # t)" for t by (rule begins_not [OF assms(2)]) simp
  ultimately show ?thesis
    by (elim disjE) (simp_all add: take_tokens.simps numeral_2_eq_2 numeral_3_eq_3)
qed

lemma read_hundreds:
  assumes "k < 10" "begins_in ''XLIV'' rest" "n \<le> 3000"
  shows "read_roman ((900, ''CM'') # (500, ''D'') # (400, ''CD'') # (100, ''C'') # vs) n
      (roman_digit (CHR ''C'') (CHR ''D'') (CHR ''M'') k @ rest) = read_roman vs (n + 100 * k) rest"
proof -
  have "\<not> starts_with rest (c # t)" if "c \<in> set ''CDM''" for c t
    by (rule begins_not [OF assms(2)]) (use that in auto)
  then have "\<not> starts_with rest (CHR ''C'' # t)" "\<not> starts_with rest (CHR ''D'' # t)" "\<not> starts_with rest (CHR ''M'' # t)" for t
    by simp_all
  with digit_cases [OF assms(1)] assms(3) show ?thesis
    by (elim disjE) (simp_all add: take_tokens.simps roman_digit_def add.commute)
qed

lemma read_tens:
  assumes "k < 10" "begins_in ''IV'' rest" "n \<le> 3900"
  shows "read_roman ((90, ''XC'') # (50, ''L'') # (40, ''XL'') # (10, ''X'') # vs) n
      (roman_digit (CHR ''X'') (CHR ''L'') (CHR ''C'') k @ rest) = read_roman vs (n + 10 * k) rest"
proof -
  have "\<not> starts_with rest (c # t)" if "c \<in> set ''XLC''" for c t
    by (rule begins_not [OF assms(2)]) (use that in auto)
  then have "\<not> starts_with rest (CHR ''X'' # t)" "\<not> starts_with rest (CHR ''L'' # t)" "\<not> starts_with rest (CHR ''C'' # t)" for t
    by simp_all
  with digit_cases [OF assms(1)] assms(3) show ?thesis
    by (elim disjE) (simp_all add: take_tokens.simps roman_digit_def add.commute)
qed

lemma read_ones:
  assumes "k < 10" "n \<le> 3990"
  shows "read_roman [(9, ''IX''), (5, ''V''), (4, ''IV''), (1, ''I'')] n
      (roman_digit (CHR ''I'') (CHR ''V'') (CHR ''X'') k) = Some (n + k, [])"
  using digit_cases [OF assms(1)] assms(2)
  by (elim disjE) (auto simp: take_tokens.simps roman_digit_def)

lemma begins_in_digit:
  assumes "k < 10" "begins_in cs rest" "one \<in> set cs" "five \<in> set cs"
  shows "begins_in cs (roman_digit one five ten k @ rest)"
  using digit_cases [OF assms(1)] assms(2-4) by (elim disjE) (simp_all add: begins_in_def roman_digit_def)

lemma begins_in_mono: "begins_in cs s \<Longrightarrow> set cs \<subseteq> set ds \<Longrightarrow> begins_in ds s"
  by (auto simp: begins_in_def)

lemma roman_round:
  assumes "n \<le> 3999"
  shows "read_roman roman_values 0 (write_roman roman_values n []) = Some (n, [])"
    and "write_roman roman_values n [] = replicate (n div 1000) (CHR ''M'')
      @ roman_digit (CHR ''C'') (CHR ''D'') (CHR ''M'') (n div 100 mod 10)
      @ roman_digit (CHR ''X'') (CHR ''L'') (CHR ''C'') (n div 10 mod 10)
      @ roman_digit (CHR ''I'') (CHR ''V'') (CHR ''X'') (n mod 10)"
proof -
  define a b c d where "a = n div 1000" and "b = n div 100 mod 10" and "c = n div 10 mod 10" and "d = n mod 10"
  have bounds: "a < 4" "b < 10" "c < 10" "d < 10" using assms by (simp_all add: a_def b_def c_def d_def)
  have "n div 100 = 10 * a + b" "n div 10 = 10 * (n div 100) + c" "n = 10 * (n div 10) + d"
    using div_mult2_eq [of n 100 10] div_mult2_eq [of n 10 10]
    by (simp_all add: a_def b_def c_def d_def)
  then have n: "n = 1000 * a + (100 * b + (10 * c + d))" by simp
  let ?h = "roman_digit (CHR ''C'') (CHR ''D'') (CHR ''M'') b" and ?t = "roman_digit (CHR ''X'') (CHR ''L'') (CHR ''C'') c"
    and ?o = "roman_digit (CHR ''I'') (CHR ''V'') (CHR ''X'') d"
  have small: "10 * c + d < 100" "100 * b + (10 * c + d) < 1000" using bounds by simp_all
  show w: "write_roman roman_values n [] = replicate a (CHR ''M'') @ ?h @ ?t @ ?o"
    unfolding roman_values_def n write_thousands [OF bounds(1) small(2)] write_hundreds [OF bounds(2) small(1)]
      write_tens [OF bounds(3,4)] write_ones [OF bounds(4)] by simp
  have o: "begins_in ''IV'' ?o" using begins_in_digit [OF bounds(4), of "''IV''" "[]"] by (simp add: begins_in_def)
  have t: "begins_in ''XLIV'' (?t @ ?o)"
    by (rule begins_in_digit [OF bounds(3)]) (use o in \<open>auto intro: begins_in_mono\<close>)
  have h: "begins_in ''CDXLIV'' (?h @ ?t @ ?o)"
    by (rule begins_in_digit [OF bounds(2)]) (use t in \<open>auto intro: begins_in_mono\<close>)
  have "read_roman roman_values 0 (replicate a (CHR ''M'') @ ?h @ ?t @ ?o) =
      Some (1000 * a + 100 * b + 10 * c + d, [])"
    unfolding roman_values_def read_thousands [OF bounds(1) h]
    by (subst read_hundreds [OF bounds(2) t], use bounds in simp,
        subst read_tens [OF bounds(3) o], use bounds in simp, rule read_ones [OF bounds(4)], use bounds in simp)
  then show "read_roman roman_values 0 (write_roman roman_values n []) = Some (n, [])" unfolding w using n by simp
qed

lemma decimal_value_3: "length s \<le> 3 \<Longrightarrow> all_digits s \<Longrightarrow> decimal_value 0 s < 1000"
  by (cases s; cases "tl s"; cases "tl (tl s)") (auto simp: all_digits_def is_ascii_digit_def)

lemma roman_not_digits:
  assumes "0 < n" "n \<le> 3999"
  shows "\<not> all_digits (write_roman roman_values n [])"
proof -
  let ?s = "write_roman roman_values n []"
  have sym: "set (roman_digit x y z k) \<subseteq> {x, y, z}" if "k < 10" for x y z k
    using digit_cases [OF that] by (elim disjE) (simp_all add: roman_digit_def)
  have "set ?s \<subseteq> {CHR ''M'', CHR ''C'', CHR ''D'', CHR ''X'', CHR ''L'', CHR ''I'', CHR ''V''}"
    using sym [of "n div 100 mod 10" "CHR ''C''" "CHR ''D''" "CHR ''M''"] sym [of "n div 10 mod 10" "CHR ''X''" "CHR ''L''" "CHR ''C''"]
      sym [of "n mod 10" "CHR ''I''" "CHR ''V''" "CHR ''X''"]
    unfolding roman_round(2) [OF assms(2)] by auto
  moreover have "?s \<noteq> []"
    using roman_round(1) [OF assms(2)] assms(1) by (auto simp: roman_values_def take_tokens.simps)
  ultimately show ?thesis
    by (cases ?s) (auto simp: all_digits_def is_ascii_digit_def byte_def)
qed

text \<open>
  The ordinal of an article is read exactly: one to three decimal digits with a positive val, or
  the canonical Roman spelling of a number from 1 to 3999. Every such number is read back from its
  spelling, every other text is refused, and the loops of the reader and the writer end.
\<close>

theorem article_ordinal_exact:
  "article_ordinal s = Some n \<longleftrightarrow>
     (s \<noteq> [] \<and> length s \<le> 3 \<and> all_digits s \<and> n = decimal_value 0 s \<and> 0 < n)
     \<or> (0 < n \<and> n \<le> 3999 \<and> s = write_roman roman_values n [])"
proof (cases "length s \<le> 3 \<and> all_digits s")
  case True
  then have "decimal_value 0 s < 2 ^ 32" using decimal_value_3 [of s] by simp
  then show ?thesis using True roman_not_digits [of n] by (auto simp: article_ordinal_def parse_u32_def)
next
  case False
  have "article_ordinal s = Some n \<longleftrightarrow>
      read_roman roman_values 0 s = Some (n, []) \<and> 0 < n \<and> write_roman roman_values n [] = s"
    using False by (auto simp: article_ordinal_def split: option.splits if_splits)
  then show ?thesis using False read_roman_le [of roman_values 0 s n] roman_round(1) [of n] by auto
qed

end
