(* ===== verification/Claims.thy ===== *)
theory Claims
  imports Contracts "HOL-Library.Sublist" "HOL-Library.Product_Lexorder" "HOL-Library.Option_ord"
    "HOL-Library.List_Lexorder" "HOL-Library.Char_ord"
begin

text \<open>
  Cited claims of \<open>pipeline/summary.rs\<close>: the deterministic identities, the check that a list of
  claims cites a catalogue of evidence canonically (\<open>validate_claims_with_evidence\<close>), and the
  rendering of claims with their page labels. \<open>sha\<close> is SHA-256 in hexadecimal; a \<open>HashMap\<close> from
  evidence identities is a map.
\<close>

section \<open>Failures and identities\<close>

definition stage_failure :: "pipeline_stage \<Rightarrow> string \<Rightarrow> string \<Rightarrow> bool \<Rightarrow> pipeline_failure" where
  "stage_failure stage code message recoverable_flag =
     \<lparr>failure_code = code, failure_message = message, failure_stage = Some stage, recoverable = recoverable_flag\<rparr>"

definition deterministic_id :: "(string \<Rightarrow> string) \<Rightarrow> string \<Rightarrow> string list \<Rightarrow> string" where
  "deterministic_id sha kind parts = kind @ ''-'' @ sha (kind @ concat (map (\<lambda>part. CHR 0x00 # part) parts))"

definition deterministic_evidence_id ::
  "(string \<Rightarrow> string) \<Rightarrow> string \<Rightarrow> string \<Rightarrow> string \<Rightarrow> nat \<Rightarrow> string \<Rightarrow> string \<Rightarrow> string \<Rightarrow> string" where
  "deterministic_evidence_id sha document version chunk index block claim quote =
     deterministic_id sha ''evidence'' [document, version, chunk, show_nat index, block, claim, quote]"

definition deterministic_claim_id ::
  "(string \<Rightarrow> string) \<Rightarrow> string \<Rightarrow> string \<Rightarrow> nat \<Rightarrow> string \<Rightarrow> string list \<Rightarrow> string" where
  "deterministic_claim_id sha document version index claim ids =
     deterministic_id sha ''claim'' ([document, version, show_nat index, claim] @ ids)"

definition canonical_bounded_text :: "string \<Rightarrow> nat \<Rightarrow> bool" where
  "canonical_bounded_text value maximum \<longleftrightarrow> value \<noteq> [] \<and> trim value = value \<and> char_count value \<le> maximum"

definition valid_source_span :: "source_span \<Rightarrow> bool" where
  "valid_source_span s \<longleftrightarrow> 0 < page_start s \<and> page_start s \<le> page_end s"

definition MAX_EVIDENCE_PER_CLAIM :: nat where "MAX_EVIDENCE_PER_CLAIM = 16"

definition MAX_CLAIM_CHARACTERS :: nat where "MAX_CLAIM_CHARACTERS = 2000"

section \<open>Checking claims against a catalogue of evidence\<close>

abbreviation synthesis_invalid :: "string \<Rightarrow> pipeline_failure" where
  "synthesis_invalid message \<equiv> stage_failure Synthesize ''INVALID_SYNTHESIZED_DOCUMENT'' message False"

text \<open>The loop that numbers the evidence and refuses a repeated identity.\<close>

definition order_evidence ::
  "(string \<Rightarrow> nat option) \<times> nat \<Rightarrow> evidence_item \<Rightarrow> pipeline_failure + (string \<Rightarrow> nat option) \<times> nat" where
  "order_evidence st item =
     (case st of (order, index) \<Rightarrow>
        if order (evidence_id item) \<noteq> None
        then Inl (synthesis_invalid ''Summary source evidence identities must be unique'')
        else Inr (order(evidence_id item \<mapsto> index), Suc index))"

text \<open>The inner loop over the references of one claim.\<close>

definition check_reference ::
  "(string \<Rightarrow> nat option) \<Rightarrow> string set \<times> nat option \<Rightarrow> string \<Rightarrow> pipeline_failure + string set \<times> nat option" where
  "check_reference order st reference =
     (case st of (unique, previous) \<Rightarrow>
        res_bind (ok_or (order reference)
          (synthesis_invalid ''A summary claim references unknown evidence'')) (\<lambda>position.
        res_bind (ensure (\<not> (reference \<in> unique \<or> (case previous of None \<Rightarrow> False | Some p \<Rightarrow> position \<le> p)))
          (synthesis_invalid ''Claim evidence references must be unique and in canonical source order'')) (\<lambda>_.
        Inr (insert reference unique, Some position))))"

definition check_claim ::
  "(string \<Rightarrow> string) \<Rightarrow> string \<Rightarrow> string \<Rightarrow> (string \<Rightarrow> nat option) \<Rightarrow>
   nat \<times> string set \<times> (string \<times> string list) set \<Rightarrow> cited_claim \<Rightarrow>
   pipeline_failure + nat \<times> string set \<times> (string \<times> string list) set" where
  "check_claim sha document version order st claim =
     (case st of (index, ids, signatures) \<Rightarrow>
        res_bind (ensure (\<not> (\<not> canonical_bounded_text (claim_text claim) MAX_CLAIM_CHARACTERS
            \<or> claim_evidence_ids claim = []
            \<or> MAX_EVIDENCE_PER_CLAIM < length (claim_evidence_ids claim)
            \<or> claim_id claim \<noteq> deterministic_claim_id sha document version index (claim_text claim)
                (claim_evidence_ids claim)
            \<or> claim_id claim \<in> ids
            \<or> (claim_text claim, claim_evidence_ids claim) \<in> signatures))
          (synthesis_invalid ''Summary claim identity and content must be unique, deterministic, and bounded'')) (\<lambda>_.
        res_bind (res_fold (check_reference order) ({}, None) (claim_evidence_ids claim)) (\<lambda>_.
        Inr (Suc index, insert (claim_id claim) ids, insert (claim_text claim, claim_evidence_ids claim) signatures))))"

definition validate_claims_with_evidence ::
  "(string \<Rightarrow> string) \<Rightarrow> cited_claim list \<Rightarrow> evidence_item list \<Rightarrow> string \<Rightarrow> string \<Rightarrow> pipeline_failure + unit" where
  "validate_claims_with_evidence sha claims evidence document version =
     res_bind (res_fold order_evidence (Map.empty, 0) evidence) (\<lambda>(order, _).
     res_bind (res_fold (check_claim sha document version order) (0, {}, {}) claims) (\<lambda>_. Inr ()))"

text \<open>\<open>analyzed.chunks.iter().flat_map(|analysis| analysis.evidence.iter())\<close>.\<close>

definition ledger_evidence :: "analyzed_document \<Rightarrow> evidence_item list" where
  "ledger_evidence analyzed = concat (map analysis_evidence (analyzed_chunks analyzed))"

definition validate_claims ::
  "(string \<Rightarrow> string) \<Rightarrow> cited_claim list \<Rightarrow> analyzed_document \<Rightarrow> string \<Rightarrow> pipeline_failure + unit" where
  "validate_claims sha claims analyzed version =
     validate_claims_with_evidence sha claims (ledger_evidence analyzed) (analyzed_document_id analyzed) version"

section \<open>Rendering\<close>

text \<open>Collecting \<open>(evidence_id, item)\<close> pairs into a \<open>HashMap\<close>: the last item of an identity stays.\<close>

definition evidence_by_id :: "evidence_item list \<Rightarrow> string \<Rightarrow> evidence_item option" where
  "evidence_by_id evidence = map_of (rev (map (\<lambda>item. (evidence_id item, item)) evidence))"

definition span_key :: "source_span \<Rightarrow> u32 \<times> u32 \<times> string option" where
  "span_key s = (page_start s, page_end s, section_id s)"

definition EN_DASH :: string where "EN_DASH = [CHR 0xE2, CHR 0x80, CHR 0x93]"

definition span_label :: "source_span \<Rightarrow> string" where
  "span_label s =
     (if page_start s = page_end s then ''p. '' @ show_nat (unat (page_start s))
      else ''pp. '' @ show_nat (unat (page_start s)) @ EN_DASH @ show_nat (unat (page_end s)))"

definition citation_label :: "source_span list \<Rightarrow> string" where
  "citation_label spans = ''['' @ join ''; '' (remdups_adj (map span_label spans)) @ '']''"

definition claim_line :: "(string \<Rightarrow> evidence_item option) \<Rightarrow> cited_claim \<Rightarrow> pipeline_failure + string" where
  "claim_line evidence claim =
     res_bind (res_collect (\<lambda>i. ok_or (map_option evidence_source_span (evidence i))
         (synthesis_invalid ''A claim references unknown evidence'')) (claim_evidence_ids claim)) (\<lambda>spans.
     Inr (claim_text claim @ '' '' @ citation_label (remdups_adj (sort_key span_key spans))))"

definition render_claim_lines ::
  "cited_claim list \<Rightarrow> (string \<Rightarrow> evidence_item option) \<Rightarrow> pipeline_failure + string list" where
  "render_claim_lines claims evidence = res_collect (claim_line evidence) claims"

definition paragraph_break :: string where "paragraph_break = [CHR 0x0A, CHR 0x0A]"

definition render_cited_summary_with_evidence ::
  "cited_claim list \<Rightarrow> evidence_item list \<Rightarrow> pipeline_failure + string" where
  "render_cited_summary_with_evidence claims evidence =
     res_bind (render_claim_lines claims (evidence_by_id evidence)) (\<lambda>rows. Inr (join paragraph_break rows))"

definition render_cited_summary :: "cited_claim list \<Rightarrow> analyzed_document \<Rightarrow> pipeline_failure + string" where
  "render_cited_summary claims analyzed = render_cited_summary_with_evidence claims (ledger_evidence analyzed)"

section \<open>What the check accepts\<close>

definition positions :: "evidence_item list \<Rightarrow> string \<Rightarrow> nat option" where
  "positions evidence = map_of (zip (map evidence_id evidence) [0..<length evidence])"

lemma positions_snoc:
  "positions (evidence @ [e]) i =
     (case positions evidence i of None \<Rightarrow> if i = evidence_id e then Some (length evidence) else None | Some n \<Rightarrow> Some n)"
proof -
  have "positions (evidence @ [e]) = [evidence_id e \<mapsto> length evidence] ++ positions evidence"
    by (simp add: positions_def)
  then show ?thesis by (simp add: map_add_def split: option.split)
qed

lemma positions_known: "positions evidence i \<noteq> None \<longleftrightarrow> i \<in> set (map evidence_id evidence)"
proof -
  have "dom (positions evidence) = set (map evidence_id evidence)"
    unfolding positions_def by (rule dom_map_of_zip) simp
  then show ?thesis by blast
qed

lemma order_evidence_Inr:
  "order_evidence (order, index) item = Inr st \<longleftrightarrow>
     order (evidence_id item) = None \<and> st = (order(evidence_id item \<mapsto> index), Suc index)"
  by (auto simp: order_evidence_def)

lemma order_evidence_fold:
  "res_fold order_evidence (Map.empty, 0) evidence = Inr st \<longleftrightarrow>
     distinct (map evidence_id evidence) \<and> st = (positions evidence, length evidence)"
proof (induction evidence arbitrary: st rule: rev_induct)
  case Nil
  then show ?case by (auto simp: positions_def)
next
  case (snoc e evidence)
  have "positions (evidence @ [e]) = (positions evidence)(evidence_id e \<mapsto> length evidence)"
    if "evidence_id e \<notin> set (map evidence_id evidence)"
    using that positions_known [of evidence "evidence_id e"]
    by (auto simp: positions_snoc fun_eq_iff split: option.split)
  then show ?case using positions_known [of evidence "evidence_id e"]
    by (auto simp: res_fold_append res_bind_Inr_iff snoc.IH order_evidence_Inr)
qed

definition ascending :: "(string \<Rightarrow> nat option) \<Rightarrow> string list \<Rightarrow> bool" where
  "ascending order ids \<longleftrightarrow> sorted_wrt (\<lambda>a b. the (order a) < the (order b)) ids"

lemma ascending_simps [simp]:
  "ascending order []"
  "ascending order (i # ids) \<longleftrightarrow> (\<forall>j \<in> set ids. the (order i) < the (order j)) \<and> ascending order ids"
  by (simp_all add: ascending_def)

lemma check_reference_fold:
  "is_ok (res_fold (check_reference order) (seen, previous) ids) \<longleftrightarrow>
     (\<forall>i \<in> set ids. order i \<noteq> None) \<and> distinct ids \<and> set ids \<inter> seen = {}
     \<and> ascending order ids
     \<and> (\<forall>p. previous = Some p \<longrightarrow> (\<forall>i \<in> set ids. p < the (order i)))"
proof (induction ids arbitrary: seen previous)
  case Nil
  then show ?case by simp
next
  case (Cons i ids)
  show ?case
  proof (cases "order i")
    case None
    then show ?thesis by (simp add: check_reference_def)
  next
    case (Some n)
    show ?thesis
    proof (cases "i \<in> seen \<or> (\<exists>p. previous = Some p \<and> n \<le> p)")
      case True
      then show ?thesis using Some by (auto simp: check_reference_def)
    next
      case False
      then have "check_reference order (seen, previous) i = Inr (insert i seen, Some n)"
        using Some by (auto simp: check_reference_def split: option.split)
      then show ?thesis using Some False by (auto simp: Cons.IH)
    qed
  qed
qed

lemma subseq_by_position:
  assumes "distinct xs" "m = map_of (zip xs [k..<k + length xs])"
  shows "subseq ys xs \<longleftrightarrow> set ys \<subseteq> set xs \<and> ascending m ys"
  using assms
proof (induction xs arbitrary: ys k m)
  case Nil
  then show ?case by (cases ys) auto
next
  case (Cons x xs)
  define m' where "m' = map_of (zip xs [Suc k..<Suc k + length xs])"
  have "[k..<k + length (x # xs)] = k # [Suc k..<Suc k + length xs]" by (subst upt_conv_Cons) simp_all
  then have m: "m = m'(x \<mapsto> k)" using Cons.prems(2) by (simp only: m'_def zip_Cons_Cons map_of.simps fst_conv snd_conv)
  have x: "x \<notin> set xs" and d: "distinct xs" using Cons.prems(1) by auto
  have later: "k < the (m' y)" if y: "y \<in> set xs" for y
  proof -
    have "length xs = length [Suc k..<Suc k + length xs]" by (simp only: length_upt add_diff_cancel_left')
    from dom_map_of_zip [OF this] have "y \<in> dom m'" using y by (simp only: m'_def)
    then obtain n where "m' y = Some n" by blast
    moreover from this have "n \<in> set [Suc k..<Suc k + length xs]"
      unfolding m'_def by (metis map_of_SomeD set_zip_rightD)
    ultimately show ?thesis by auto
  qed
  have mx: "m x = Some k" and my: "\<And>y. y \<noteq> x \<Longrightarrow> m y = m' y" by (simp_all add: m)
  note IH = Cons.IH [OF d m'_def]
  show ?case
  proof (cases ys)
    case Nil
    then show ?thesis by simp
  next
    case ys: (Cons y ys')
    have same: "ascending m zs \<longleftrightarrow> ascending m' zs" if "x \<notin> set zs" for zs
      using that by (induction zs) (auto simp: m)
    show ?thesis
    proof (cases "y = x")
      case True
      show ?thesis
      proof (cases "x \<in> set ys'")
        case True
        then show ?thesis using \<open>y = x\<close> ys x mx IH [of ys'] by auto
      next
        case False
        have "k < the (m j)" if "j \<in> set ys'" "set ys' \<subseteq> set xs" for j
        proof -
          have "j \<noteq> x" "j \<in> set xs" using that False by auto
          then show ?thesis using later my by simp
        qed
        then show ?thesis using \<open>y = x\<close> ys same [OF False] mx False IH [of ys']
          by (auto simp: subset_insert)
      qed
    next
      case False
      show ?thesis
      proof (cases "x \<in> set ys")
        case True
        have "k < the (m y)" if "y \<in> set xs" using that False later my by simp
        then show ?thesis using True False ys mx x IH [of ys] by fastforce
      next
        case False
        then show ?thesis using \<open>y \<noteq> x\<close> ys same [OF False] IH [of ys] by (auto simp: subset_insert)
      qed
    qed
  qed
qed

text \<open>The references of a claim are a subsequence of the catalogue's identities.\<close>

lemma references_ok:
  assumes "distinct (map evidence_id evidence)"
  shows "is_ok (res_fold (check_reference (positions evidence)) ({}, None) ids)
    \<longleftrightarrow> subseq ids (map evidence_id evidence)"
proof -
  have "distinct zs" if "ascending (positions evidence) zs" for zs using that by (induction zs) auto
  then have "is_ok (res_fold (check_reference (positions evidence)) ({}, None) ids)
      \<longleftrightarrow> set ids \<subseteq> set (map evidence_id evidence) \<and> ascending (positions evidence) ids"
    using positions_known [of evidence] by (auto simp: check_reference_fold)
  also have "\<dots> \<longleftrightarrow> subseq ids (map evidence_id evidence)"
    by (rule subseq_by_position [OF assms, of _ 0, symmetric]) (simp add: positions_def)
  finally show ?thesis .
qed

abbreviation claim_signature :: "cited_claim \<Rightarrow> string \<times> string list" where
  "claim_signature claim \<equiv> (claim_text claim, claim_evidence_ids claim)"

text \<open>What is asked of the claim at a position, apart from being new.\<close>

definition canonical_claim ::
  "(string \<Rightarrow> string) \<Rightarrow> string \<Rightarrow> string \<Rightarrow> evidence_item list \<Rightarrow> nat \<Rightarrow> cited_claim \<Rightarrow> bool" where
  "canonical_claim sha document version evidence index claim \<longleftrightarrow>
     canonical_bounded_text (claim_text claim) 2000
     \<and> 1 \<le> length (claim_evidence_ids claim) \<and> length (claim_evidence_ids claim) \<le> 16
     \<and> claim_id claim = deterministic_claim_id sha document version index (claim_text claim) (claim_evidence_ids claim)
     \<and> subseq (claim_evidence_ids claim) (map evidence_id evidence)"

lemma check_claim_Inr:
  assumes "distinct (map evidence_id evidence)"
  shows "check_claim sha document version (positions evidence) (index, ids, signatures) claim = Inr st \<longleftrightarrow>
    canonical_claim sha document version evidence index claim
    \<and> claim_id claim \<notin> ids \<and> claim_signature claim \<notin> signatures
    \<and> st = (Suc index, insert (claim_id claim) ids, insert (claim_signature claim) signatures)"
  by (auto simp: check_claim_def res_simps canonical_claim_def MAX_CLAIM_CHARACTERS_def
      MAX_EVIDENCE_PER_CLAIM_def references_ok [OF assms, symmetric] is_ok_iff Suc_le_eq)

lemma check_claims_fold:
  assumes "distinct (map evidence_id evidence)"
  shows "res_fold (check_claim sha document version (positions evidence)) (0, {}, {}) claims = Inr st \<longleftrightarrow>
    (\<forall>i < length claims. canonical_claim sha document version evidence i (claims ! i))
    \<and> distinct (map claim_id claims) \<and> distinct (map claim_signature claims)
    \<and> st = (length claims, claim_id ` set claims, claim_signature ` set claims)"
proof (induction claims arbitrary: st rule: rev_induct)
  case Nil
  then show ?case by auto
next
  case (snoc c claims)
  show ?case
    by (cases st) (auto simp: res_fold_append res_bind_Inr_iff snoc.IH check_claim_Inr [OF assms] nth_append less_Suc_eq)
qed

lemma validate_claims_Inr:
  "validate_claims_with_evidence sha claims evidence document version = Inr () \<longleftrightarrow>
     distinct (map evidence_id evidence) \<and> distinct (map claim_id claims) \<and> distinct (map claim_signature claims)
     \<and> (\<forall>i < length claims. canonical_claim sha document version evidence i (claims ! i))"
  by (cases "distinct (map evidence_id evidence)")
    (auto simp: validate_claims_with_evidence_def res_bind_Inr_iff order_evidence_fold check_claims_fold)

lemma validated_claim_references:
  assumes "validate_claims_with_evidence sha claims evidence document version = Inr ()" "claim \<in> set claims"
  shows "set (claim_evidence_ids claim) \<subseteq> evidence_id ` set evidence \<and> claim_evidence_ids claim \<noteq> []"
proof -
  from assms(2) obtain k where k: "k < length claims" "claim = claims ! k" by (metis in_set_conv_nth)
  with assms(1) have c: "canonical_claim sha document version evidence k claim" by (simp add: validate_claims_Inr)
  then have sub: "subseq (claim_evidence_ids claim) (map evidence_id evidence)" by (simp add: canonical_claim_def)
  have "i \<in> evidence_id ` set evidence" if "i \<in> set (claim_evidence_ids claim)" for i
    using list_emb_set [OF sub that] by auto
  then show ?thesis using c by (auto simp: canonical_claim_def)
qed

section \<open>What is rendered\<close>

lemma evidence_by_id_Some:
  "distinct (map evidence_id evidence) \<Longrightarrow> item \<in> set evidence \<Longrightarrow> evidence_by_id evidence (evidence_id item) = Some item"
  unfolding evidence_by_id_def by (rule map_of_is_SomeI) (auto simp: rev_map [symmetric] comp_def)

lemma evidence_by_id_known: "evidence_by_id evidence i \<noteq> None \<longleftrightarrow> i \<in> set (map evidence_id evidence)"
  by (auto simp: evidence_by_id_def map_of_eq_None_iff image_image)

lemma evidence_by_id_in: "evidence_by_id evidence i = Some item \<Longrightarrow> item \<in> set evidence \<and> evidence_id item = i"
  by (auto simp: evidence_by_id_def dest!: map_of_SomeD)

text \<open>A line carries the text of its claim and the label of exactly the spans of its evidence, each
  once and in page order.\<close>

definition cited_spans :: "(string \<Rightarrow> evidence_item option) \<Rightarrow> cited_claim \<Rightarrow> source_span list" where
  "cited_spans evidence claim =
     remdups_adj (sort_key span_key (map (\<lambda>i. evidence_source_span (the (evidence i))) (claim_evidence_ids claim)))"

lemma set_cited_spans:
  "set (cited_spans evidence claim) = (\<lambda>i. evidence_source_span (the (evidence i))) ` set (claim_evidence_ids claim)"
  by (simp add: cited_spans_def)

lemma sorted_cited_spans: "sorted (map span_key (cited_spans evidence claim))"
proof -
  have "sorted (map span_key (remdups_adj xs))" if "sorted (map span_key xs)" for xs :: "source_span list"
    using that by (induction xs rule: remdups_adj.induct) auto
  then show ?thesis by (simp add: cited_spans_def)
qed

lemma claim_line_Inr:
  "claim_line evidence claim = Inr row \<longleftrightarrow>
     (\<forall>i \<in> set (claim_evidence_ids claim). evidence i \<noteq> None)
     \<and> row = claim_text claim @ '' '' @ citation_label (cited_spans evidence claim)"
proof -
  have "list_all2 (\<lambda>i s. map_option evidence_source_span (evidence i) = Some s) ids spans \<longleftrightarrow>
      (\<forall>i \<in> set ids. evidence i \<noteq> None) \<and> spans = map (\<lambda>i. evidence_source_span (the (evidence i))) ids"
    for ids spans
    by (induction ids arbitrary: spans) (auto simp: list_all2_Cons1)
  then show ?thesis
    by (auto simp: claim_line_def res_simps cited_spans_def)
qed

lemma render_claim_lines_Inr:
  "render_claim_lines claims evidence = Inr rows \<longleftrightarrow>
     (\<forall>claim \<in> set claims. \<forall>i \<in> set (claim_evidence_ids claim). evidence i \<noteq> None)
     \<and> rows = map (\<lambda>claim. claim_text claim @ '' '' @ citation_label (cited_spans evidence claim)) claims"
  by (induction claims arbitrary: rows)
    (auto simp: render_claim_lines_def res_simps list_all2_Cons1 claim_line_Inr)

text \<open>
  C30. The check of cited claims accepts exactly the lists whose evidence identities, claim identities
  and contents are distinct, and in which every claim is bounded canonical text under its
  deterministic identity, citing between one and sixteen entries of the catalogue in catalogue order.
  The claims it accepts can be rendered: one line per claim, its text followed by the label of
  exactly the spans of its evidence, in page order.
\<close>

theorem claims_check_exact:
  "(validate_claims_with_evidence sha claims evidence document version = Inr () \<longleftrightarrow>
     distinct (map evidence_id evidence) \<and> distinct (map claim_id claims) \<and> distinct (map claim_signature claims)
     \<and> (\<forall>i < length claims. canonical_claim sha document version evidence i (claims ! i)))
   \<and> (validate_claims_with_evidence sha claims evidence document version = Inr () \<longrightarrow>
     (\<exists>spans. render_claim_lines claims (evidence_by_id evidence) =
         Inr (map (\<lambda>(claim, ss). claim_text claim @ '' '' @ citation_label ss) (zip claims spans))
       \<and> list_all2 (\<lambda>claim ss. sorted (map span_key ss)
           \<and> set ss = evidence_source_span ` {e \<in> set evidence. evidence_id e \<in> set (claim_evidence_ids claim)})
           claims spans))"
proof (intro conjI impI)
  show "validate_claims_with_evidence sha claims evidence document version = Inr () \<longleftrightarrow>
     distinct (map evidence_id evidence) \<and> distinct (map claim_id claims) \<and> distinct (map claim_signature claims)
     \<and> (\<forall>i < length claims. canonical_claim sha document version evidence i (claims ! i))"
    by (rule validate_claims_Inr)
next
  assume ok: "validate_claims_with_evidence sha claims evidence document version = Inr ()"
  then have d: "distinct (map evidence_id evidence)" by (simp add: validate_claims_Inr)
  have known: "evidence_by_id evidence i \<noteq> None" if "claim \<in> set claims" "i \<in> set (claim_evidence_ids claim)" for claim i
    using validated_claim_references [OF ok that(1)] that(2) evidence_by_id_known [of evidence i] by auto
  have spans: "set (cited_spans (evidence_by_id evidence) claim) =
      evidence_source_span ` {e \<in> set evidence. evidence_id e \<in> set (claim_evidence_ids claim)}"
    if "claim \<in> set claims" for claim
    using validated_claim_references [OF ok that] evidence_by_id_Some [OF d]
    by (force simp: set_cited_spans)
  show "\<exists>spans. render_claim_lines claims (evidence_by_id evidence) =
         Inr (map (\<lambda>(claim, ss). claim_text claim @ '' '' @ citation_label ss) (zip claims spans))
       \<and> list_all2 (\<lambda>claim ss. sorted (map span_key ss)
           \<and> set ss = evidence_source_span ` {e \<in> set evidence. evidence_id e \<in> set (claim_evidence_ids claim)})
           claims spans"
  proof (intro exI conjI)
    show "render_claim_lines claims (evidence_by_id evidence) =
        Inr (map (\<lambda>(claim, ss). claim_text claim @ '' '' @ citation_label ss)
          (zip claims (map (cited_spans (evidence_by_id evidence)) claims)))"
      using known by (auto simp: render_claim_lines_Inr zip_map2 zip_same_conv_map)
    show "list_all2 (\<lambda>claim ss. sorted (map span_key ss)
           \<and> set ss = evidence_source_span ` {e \<in> set evidence. evidence_id e \<in> set (claim_evidence_ids claim)})
        claims (map (cited_spans (evidence_by_id evidence)) claims)"
      by (simp add: list_all2_map2 list_all2_same sorted_cited_spans spans)
  qed
qed

definition sample_span :: "u32 \<Rightarrow> source_span" where
  "sample_span p = \<lparr>page_start = p, page_end = p, section_id = None, span_source_type = NativeText\<rparr>"

definition sample_evidence :: "evidence_item list" where
  "sample_evidence =
     [\<lparr>evidence_id = ''e1'', evidence_chunk_id = ''c'', evidence_block_id = ''b1'', evidence_claim_text = ''Fee'',
       evidence_exact_quote = ''Fee'', evidence_source_span = sample_span 2\<rparr>,
      \<lparr>evidence_id = ''e2'', evidence_chunk_id = ''c'', evidence_block_id = ''b2'', evidence_claim_text = ''Due'',
       evidence_exact_quote = ''Due'', evidence_source_span = sample_span 1\<rparr>]"

definition sample_claim :: cited_claim where
  "sample_claim = \<lparr>claim_id = deterministic_claim_id (\<lambda>s. s) ''d'' ''5.0.0'' 0 ''Fee'' [''e1'', ''e2''],
     claim_text = ''Fee'', claim_evidence_ids = [''e1'', ''e2'']\<rparr>"

lemmas sample_claim_simps = sample_claim_def sample_evidence_def sample_span_def

theorem claims_check_exact_witness:
  "validate_claims_with_evidence (\<lambda>s. s) [sample_claim] sample_evidence ''d'' ''5.0.0'' = Inr ()
   \<and> (\<exists>spans. render_claim_lines [sample_claim] (evidence_by_id sample_evidence) =
         Inr (map (\<lambda>(claim, ss). claim_text claim @ '' '' @ citation_label ss) (zip [sample_claim] spans))
       \<and> list_all2 (\<lambda>claim ss. sorted (map span_key ss)
           \<and> set ss = evidence_source_span ` {e \<in> set sample_evidence. evidence_id e \<in> set (claim_evidence_ids claim)})
           [sample_claim] spans)"
proof -
  have ok: "validate_claims_with_evidence (\<lambda>s. s) [sample_claim] sample_evidence ''d'' ''5.0.0'' = Inr ()"
    by (simp add: validate_claims_with_evidence_def order_evidence_def check_claim_def check_reference_def
        sample_claim_simps canonical_bounded_text_def trim_def trim_chars_def byte_def char_count_def
        MAX_CLAIM_CHARACTERS_def MAX_EVIDENCE_PER_CLAIM_def is_whitespace_def)
  from ok claims_check_exact [of "\<lambda>s. s" "[sample_claim]" sample_evidence "''d''" "''5.0.0''"] show ?thesis by blast
qed

end
