(* ===== verification/Page_Coverage.thy ===== *)
theory Page_Coverage
  imports Claims
begin

text \<open>
  Page coverage of a summary (\<open>pipeline/summary.rs\<close>): which claims are presented, which pages they
  cite, and whether the cited pages cover enough of the native-text pages to be delivered. A
  \<open>HashSet<u32>\<close> is a set of words. \<open>exclusions\<close> is \<open>coherent::furniture_coverage_exclusions\<close>, the
  pages that a furniture warning excuses. A subtraction of \<open>usize\<close> that would underflow, which
  panics or wraps depending on the build, is the value \<open>None\<close>.
\<close>

section \<open>Definitions\<close>

definition usize_sub :: "nat \<Rightarrow> nat \<Rightarrow> nat option" where
  "usize_sub a b = (if b \<le> a then Some (a - b) else None)"

definition remaining_page_omissions :: "analysis_page_omission list \<Rightarrow> u32 set \<Rightarrow> analysis_page_omission list" where
  "remaining_page_omissions os cited = filter (\<lambda>o'. omission_page_number o' \<notin> cited) os"

fun presented_claims :: "summary_presentation_mode \<Rightarrow> cited_claim list \<Rightarrow> cited_claim list \<Rightarrow> cited_claim list" where
  "presented_claims Coherent claims summary_claims = summary_claims"
| "presented_claims ClaimLedgerFallback claims summary_claims = claims"
| "presented_claims LegacyClaimList claims summary_claims = claims"
| "presented_claims StructuredExtraction claims summary_claims = claims"

definition span_pages :: "source_span \<Rightarrow> u32 set" where
  "span_pages s = {page_start s .. page_end s}"

fun collect_pages :: "(string \<Rightarrow> evidence_item option) \<Rightarrow> u32 set \<Rightarrow> string list \<Rightarrow> u32 set option" where
  "collect_pages by_id pages [] = Some pages"
| "collect_pages by_id pages (i # ids) =
     (case by_id i of
        None \<Rightarrow> None
      | Some item \<Rightarrow> collect_pages by_id (pages \<union> span_pages (evidence_source_span item)) ids)"

definition claim_pages :: "cited_claim list \<Rightarrow> evidence_item list \<Rightarrow> u32 set option" where
  "claim_pages claims evidence =
     collect_pages (evidence_by_id evidence) {} (concat (map claim_evidence_ids claims))"

definition summary_cited_pages :: "citation_artifact \<Rightarrow> u32 set option" where
  "summary_cited_pages a =
     claim_pages (presented_claims (citation_presentation a) (citation_claims a) (citation_summary_claims a))
       (citation_evidence a)"

text \<open>\<open>delivery\<close> is the delivery policy, present when the summary is made for a consumer.\<close>

definition page_coverage_required :: "summary_profile \<Rightarrow> 'p option \<Rightarrow> bool" where
  "page_coverage_required profile delivery \<longleftrightarrow> profile = General \<or> delivery \<noteq> None"

definition native_text_page :: "normalized_page \<Rightarrow> bool" where
  "native_text_page page \<longleftrightarrow>
     list_ex (\<lambda>b. is_textual (span_source_type (block_source b)) \<and> \<not> blank (block_text b)) (content page)"

definition native_text_pages :: "normalized_document \<Rightarrow> u32 set" where
  "native_text_pages normalized = page_number ` set (filter native_text_page (normalized_pages normalized))"

definition immaterial :: "analysis_omission_reason \<Rightarrow> bool" where
  "immaterial r \<longleftrightarrow> r = NonSubstantivePageFurniture \<or> r = NoSubstantiveContent"

type_synonym exclusions = "pipeline_warning list \<Rightarrow> normalized_document \<Rightarrow> u32 set"

definition delivery_page_coverage_with_warnings ::
  "exclusions \<Rightarrow> u32 set \<Rightarrow> analysis_page_omission list \<Rightarrow> normalized_document \<Rightarrow> pipeline_warning list \<Rightarrow> bool option" where
  "delivery_page_coverage_with_warnings exclusions cited_pages os normalized warnings =
     (let native_pages = native_text_pages normalized in
      if native_pages = {} \<or> \<not> cited_pages \<subseteq> native_pages then Some False
      else if list_ex (\<lambda>o'. omission_page_number o' \<notin> native_pages) os then Some False
      else
        let excluded = exclusions warnings normalized;
            native = native_pages - excluded;
            cited = cited_pages - excluded;
            material_omissions = set (filter (\<lambda>page. page \<in> native) (map omission_page_number
              (filter (\<lambda>o'. immaterial (omission_reason o')) (remaining_page_omissions os cited))))
        in case usize_sub (card native) (card material_omissions) of
             None \<Rightarrow> None
           | Some adjusted_total \<Rightarrow>
               Some (card cited \<le> adjusted_total
                 \<and> card native \<le> card cited * 2
                 \<and> 0 < adjusted_total
                 \<and> adjusted_total * 3 \<le> card cited * 5))"

definition claims_satisfy_delivery_page_coverage_with_warnings ::
  "exclusions \<Rightarrow> cited_claim list \<Rightarrow> evidence_item list \<Rightarrow> analysis_page_omission list \<Rightarrow> normalized_document \<Rightarrow>
   pipeline_warning list \<Rightarrow> bool option" where
  "claims_satisfy_delivery_page_coverage_with_warnings exclusions claims evidence os normalized warnings =
     (case claim_pages claims evidence of
        None \<Rightarrow> Some False
      | Some cited \<Rightarrow> delivery_page_coverage_with_warnings exclusions cited os normalized warnings)"

definition document_claim_budget :: "normalized_document \<Rightarrow> pipeline_failure + nat" where
  "document_claim_budget normalized =
     (let pages = length (filter native_text_page (normalized_pages normalized))
      in res_bind (ok_or (if pages * 3 + 4 < 2 ^ 64 then Some (pages * 3 + 4) else None)
           (stage_failure Synthesize ''INVALID_SYNTHESIS_BUDGET''
              ''The native-text page count exceeds the supported claim-budget range'' False)) (\<lambda>scaled.
         Inr (min 64 (max 8 (scaled div 5)))))"

section \<open>Which pages are cited\<close>

lemma collect_pages_Some:
  "collect_pages by_id pages ids = Some cited \<longleftrightarrow>
     (\<forall>i \<in> set ids. by_id i \<noteq> None)
     \<and> cited = pages \<union> (\<Union>i \<in> set ids. span_pages (evidence_source_span (the (by_id i))))"
  by (induction ids arbitrary: pages) (auto split: option.splits)

lemma claim_pages_Some:
  "claim_pages claims evidence = Some cited \<longleftrightarrow>
     (\<forall>claim \<in> set claims. set (claim_evidence_ids claim) \<subseteq> evidence_id ` set evidence)
     \<and> cited = (\<Union>claim \<in> set claims. \<Union>i \<in> set (claim_evidence_ids claim).
          span_pages (evidence_source_span (the (evidence_by_id evidence i))))"
proof -
  have "(\<forall>i \<in> set (concat (map claim_evidence_ids claims)). evidence_by_id evidence i \<noteq> None) \<longleftrightarrow>
      (\<forall>claim \<in> set claims. set (claim_evidence_ids claim) \<subseteq> evidence_id ` set evidence)"
    using evidence_by_id_known [of evidence] by (auto simp: subset_iff)
  then show ?thesis by (simp add: claim_pages_def collect_pages_Some)
qed

text \<open>Claims that pass the check of a catalogue cite the pages of its evidence.\<close>

lemma validated_claims_have_pages:
  assumes "validate_claims_with_evidence sha claims evidence document version = Inr ()"
  shows "claim_pages claims evidence = Some (\<Union>item \<in> {item \<in> set evidence.
     \<exists>claim \<in> set claims. evidence_id item \<in> set (claim_evidence_ids claim)}. span_pages (evidence_source_span item))"
proof -
  from assms have d: "distinct (map evidence_id evidence)"
    by (simp add: validate_claims_Inr)
  show ?thesis
    unfolding claim_pages_Some using validated_claim_references [OF assms] evidence_by_id_Some [OF d] by fastforce
qed

section \<open>The coverage test\<close>

lemma finite_native_text_pages [simp]: "finite (native_text_pages normalized)"
  by (simp add: native_text_pages_def)

text \<open>The subtraction of the test never underflows.\<close>

lemma coverage_total: "\<exists>b. delivery_page_coverage_with_warnings exclusions cited os normalized warnings = Some b"
proof -
  let ?native = "native_text_pages normalized - exclusions warnings normalized"
  have "card (set (filter (\<lambda>page. page \<in> ?native) pages)) \<le> card ?native" for pages
    by (rule card_mono) auto
  then have "\<exists>n. usize_sub (card ?native) (card (set (filter (\<lambda>page. page \<in> ?native) pages))) = Some n" for pages
    by (simp only: usize_sub_def if_True) simp
  then obtain n where "usize_sub (card ?native) (card (set (filter (\<lambda>page. page \<in> ?native) (map omission_page_number
      (filter (\<lambda>o'. immaterial (omission_reason o')) (remaining_page_omissions os (cited - exclusions warnings normalized))))))) = Some n"
    by blast
  then show ?thesis unfolding delivery_page_coverage_with_warnings_def Let_def by (simp only: option.case) auto
qed



end
