(* ===== verification/Page_Furniture.thy ===== *)
theory Page_Furniture
  imports Clause_Text Page_Coverage
begin

text \<open>
  \<open>summary/coherent/page_furniture.rs\<close>: which lines of a page are running headers, footers, page
  numbers or publisher notices, and the byte ranges of every block that are left when they are taken
  out. \<open>uc_lowercase\<close> is \<open>str::to_lowercase\<close>; it needs the Unicode tables like the character
  classes of \<open>Clause_Text\<close>.
\<close>

section \<open>Strings\<close>

definition trim_start_sections :: "string \<Rightarrow> string" where
  "trim_start_sections s = text_of (dropWhile (\<lambda>c. fst c = 167) (utf8_chars s))"

definition rsplit_once_str :: "string \<Rightarrow> string \<Rightarrow> (string \<times> string) option" where
  "rsplit_once_str pat s = map_option (\<lambda>(after, before). (rev before, rev after)) (split_once_str (rev pat) [] (rev s))"

definition ends_with :: "string \<Rightarrow> string \<Rightarrow> bool" where
  "ends_with s e \<longleftrightarrow> starts_with (rev s) (rev e)"

function trim_end_str :: "string \<Rightarrow> string \<Rightarrow> string" where
  "trim_end_str pat s = (if pat \<noteq> [] \<and> ends_with s pat then trim_end_str pat (take (length s - length pat) s) else s)"
  by pat_completeness auto
termination
  by (relation "measure (length \<circ> snd)") (auto simp: ends_with_def starts_with_iff dest!: arg_cong [where f = length])

declare trim_end_str.simps [simp del]

text \<open>\<open>parse::<u32>().ok()\<close> of any string: one leading plus sign is read over.\<close>

definition parse_u32_std :: "string \<Rightarrow> nat option" where
  "parse_u32_std s = (case s of [] \<Rightarrow> None | b # rest \<Rightarrow> if b = CHR ''+'' then parse_u32 rest else parse_u32 s)"

definition ascii_alphanumeric :: "nat \<Rightarrow> bool" where
  "ascii_alphanumeric c \<longleftrightarrow> (48 \<le> c \<and> c \<le> 57) \<or> (65 \<le> c \<and> c \<le> 90) \<or> (97 \<le> c \<and> c \<le> 122)"

definition contains_any :: "nat list \<Rightarrow> string \<Rightarrow> bool" where
  "contains_any cs s \<longleftrightarrow> chars_any (\<lambda>c. c \<in> set cs) s"

definition positive_u32 :: "string \<Rightarrow> bool" where
  "positive_u32 s \<longleftrightarrow> (case parse_u32_std s of None \<Rightarrow> False | Some n \<Rightarrow> 0 < n)"

section \<open>Recognizing a line\<close>

datatype policy = OriginalFurniture | RunningMetadata

record candidate =
  candidate_block :: string
  candidate_page :: u32
  candidate_start :: nat
  candidate_end :: nat
  candidate_key :: "string option"
  minimum_pages :: nat

definition normalized_line :: "unicode \<Rightarrow> string \<Rightarrow> string" where
  "normalized_line u s = uc_lowercase u (join '' '' (split_whitespace s))"

definition repeated_key :: "unicode \<Rightarrow> string \<Rightarrow> string" where
  "repeated_key u s = text_of (filter (\<lambda>c. \<not> (48 \<le> fst c \<and> fst c \<le> 57)) (utf8_chars (normalized_line u s)))"

definition numbered_heading :: "unicode \<Rightarrow> string \<Rightarrow> bool" where
  "numbered_heading u s =
     (case split_once_char is_whitespace (trim_start (trim_start_sections (trim s))) of
        None \<Rightarrow> False
      | Some (number, rest) \<Rightarrow>
          let number = trim_end_of ''.)'' number
          in number \<noteq> [] \<and> list_all (\<lambda>part. part \<noteq> [] \<and> all_digits part) (split_at CHR ''.'' [] number)
             \<and> starts_upper u (trim_start rest))"

definition operative_words :: "string list" where
  "operative_words = [''shall'', ''must'', ''may'', ''unless'', ''except'', ''provided'', ''if'', ''when'', ''requires'', ''required'']"

text \<open>An empty piece of the split is no operative word, so the pieces that \<open>runs\<close> drops do not matter.\<close>

definition operative :: "unicode \<Rightarrow> string \<Rightarrow> bool" where
  "operative u s = list_ex (\<lambda>w. w \<in> set operative_words) (runs (uc_alphanumeric u) [] (utf8_chars (normalized_line u s)))"

definition page_counter :: "string \<Rightarrow> u32 \<Rightarrow> string \<Rightarrow> bool" where
  "page_counter s page separator =
     (case split_once_str separator [] s of
        None \<Rightarrow> False
      | Some (first, pages) \<Rightarrow> first = show_nat (unat page)
          \<and> (case parse_u32_std pages of None \<Rightarrow> False | Some n \<Rightarrow> unat page \<le> n))"

definition is_page_number :: "unicode \<Rightarrow> string \<Rightarrow> u32 \<Rightarrow> bool" where
  "is_page_number u s page =
     (let line = normalized_line u s; bare = show_nat (unat page)
      in line = bare \<or> line = ''page '' @ bare
         \<or> (let line' = (case strip_prefix ''page '' line of None \<Rightarrow> line | Some rest \<Rightarrow> rest)
            in list_ex (page_counter line' page) ['' of '', '' / '', ''/'']))"

definition document_kinds :: "string list" where
  "document_kinds = [''agreement'', ''contract'', ''report'', ''manual'', ''guide'']"

definition names_document :: "string \<Rightarrow> bool" where
  "names_document s \<longleftrightarrow> list_ex (ends_with s) document_kinds"

definition confidential_labels :: "string list" where
  "confidential_labels = [''confidential'', ''internal use only'', ''draft'']"

text \<open>\<open>8364\<close> is the euro sign.\<close>

definition running_label :: "unicode \<Rightarrow> string \<Rightarrow> u32 \<Rightarrow> bool" where
  "running_label u s page =
     (let line = trim s; lower = normalized_line u line
      in if 120 < length line \<or> 12 < length (split_whitespace line) \<or> numbered_heading u line \<or> operative u line
            \<or> contains_any [46, 59, 33, 63, 36, 8364] line
         then False
         else if lower \<in> set confidential_labels then True
         else if (case rsplit_once_str '' | '' lower of None \<Rightarrow> False | Some (_, counter) \<Rightarrow> is_page_number u counter page)
         then True
         else all_alphabetic_upper u line \<and> names_document lower)"

definition filing_label :: "string \<Rightarrow> bool" where
  "filing_label s =
     (case split_whitespace s of
        [kind, number] \<Rightarrow> kind = ''exhibit'' \<and> chars_any (\<lambda>c. 48 \<le> c \<and> c \<le> 57) number
          \<and> list_all (\<lambda>part. part \<noteq> [] \<and> chars_all ascii_alphanumeric part) (split_at CHR ''.'' [] number)
      | _ \<Rightarrow> False)"

definition weekdays :: "string list" where
  "weekdays = [''monday'', ''tuesday'', ''wednesday'', ''thursday'', ''friday'', ''saturday'', ''sunday'']"

definition months :: "string list" where
  "months = [''january'', ''february'', ''march'', ''april'', ''may'', ''june'', ''july'', ''august'', ''september'',
     ''october'', ''november'', ''december'']"

definition date_label :: "string list \<Rightarrow> bool" where
  "date_label ws =
     (let ws' = (case ws of [] \<Rightarrow> [] | w # rest \<Rightarrow> if trim_end_of '','' w \<in> set weekdays then rest else ws)
      in case ws' of
           [month, day, year] \<Rightarrow> month \<in> set months
             \<and> (case parse_u32_std (trim_end_of '','' day) of None \<Rightarrow> False | Some d \<Rightarrow> 1 \<le> d \<and> d \<le> 31)
             \<and> length year = 4 \<and> all_digits year
         | _ \<Rightarrow> False)"

text \<open>The field after the first word \<open>page\<close>: its counter, an optional total and an optional date.\<close>

definition page_field :: "string list \<Rightarrow> nat \<Rightarrow> (string \<times> bool) option" where
  "page_field ws index =
     (case (if Suc index < length ws then parse_u32_std (ws ! Suc index) else None) of
        None \<Rightarrow> None
      | Some number \<Rightarrow>
          if number = 0 then None
          else
            let after = index + 2;
                stop = (if after < length ws \<and> (ws ! after = ''of'' \<or> ws ! after = ''/'')
                  then (case (if Suc after < length ws then parse_u32_std (ws ! Suc after) else None) of
                      None \<Rightarrow> None
                    | Some pages \<Rightarrow> if pages < number then None else Some (after + 2))
                  else Some after)
            in case stop of
                 None \<Rightarrow> None
               | Some e \<Rightarrow>
                   if e \<noteq> length ws \<and> \<not> date_label (drop e ws) then None
                   else Some (join '' '' (ws[Suc index := ''#'']), 0 < index \<or> e \<noteq> length ws))"

definition title_counter :: "string \<Rightarrow> (string \<times> bool) option" where
  "title_counter lower =
     (case rsplit_once_str '' '' lower of
        None \<Rightarrow> None
      | Some (p, counter) \<Rightarrow>
          if positive_u32 counter \<and> names_document (trim_end_str '' |'' p) then Some (p @ '' #'', True) else None)"

fun first_index :: "('a \<Rightarrow> bool) \<Rightarrow> 'a list \<Rightarrow> nat option" where
  "first_index p [] = None"
| "first_index p (x # xs) = (if p x then Some 0 else map_option Suc (first_index p xs))"

definition metadata_key :: "unicode \<Rightarrow> string \<Rightarrow> (string \<times> bool) option" where
  "metadata_key u s =
     (let lower = normalized_line u s; ws = split_whitespace lower in
      if ws = [] \<or> 180 < length s \<or> 20 < length ws then None
      else if filing_label lower then Some (lower, False)
      else if positive_u32 (hd ws) \<and> date_label (tl ws) then Some (''# '' @ join '' '' (tl ws), True)
      else if date_label ws then Some (lower, True)
      else if operative u s \<or> numbered_heading u s \<or> contains_any [59, 33, 63, 36, 8364] s then None
      else case first_index (\<lambda>w. w = ''page'') ws of
             Some index \<Rightarrow> page_field ws index
           | None \<Rightarrow>
               if contains_any [46] s then None
               else if lower \<in> set confidential_labels then Some (lower, False)
               else if names_document lower then Some (lower, False)
               else title_counter lower)"

definition edgar_header :: "unicode \<Rightarrow> string \<Rightarrow> bool" where
  "edgar_header u s =
     (case split_whitespace s of
        number # sequence # file # rest \<Rightarrow>
          length rest \<le> 27 \<and> \<not> operative u s
          \<and> (case strip_prefix ''EX-'' number of None \<Rightarrow> False
               | Some n \<Rightarrow> list_all (\<lambda>part. part \<noteq> [] \<and> all_digits part) (split_at CHR ''.'' [] n))
          \<and> all_digits sequence
          \<and> list_ex (ends_with (to_ascii_lowercase file)) [''.htm'', ''.html'', ''.txt'']
          \<and> chars_all (\<lambda>c. ascii_alphanumeric c \<or> c \<in> {46, 95, 45}) file
      | _ \<Rightarrow> False)"

section \<open>Candidates\<close>

text \<open>The lines of a text with their byte ranges, line breaks included.\<close>

fun line_ranges :: "nat \<Rightarrow> string list \<Rightarrow> (nat \<times> nat \<times> string) list" where
  "line_ranges offset [] = []"
| "line_ranges offset (line # ls) = (offset, offset + length line, line) # line_ranges (offset + length line) ls"

definition block_lines :: "normalized_block \<Rightarrow> (nat \<times> nat \<times> string) list" where
  "block_lines b = line_ranges 0 (split_inclusive [] (block_text b))"

definition document_blocks :: "normalized_document \<Rightarrow> normalized_block list" where
  "document_blocks document = concat (map content (normalized_pages document))"

definition slice :: "string \<Rightarrow> nat \<Rightarrow> nat \<Rightarrow> string" where
  "slice s i j = take (j - i) (drop i s)"

type_synonym page_line = "normalized_block \<times> nat \<times> nat \<times> string"

text \<open>The non-blank lines of a page, trimmed.\<close>

definition page_lines :: "normalized_page \<Rightarrow> page_line list" where
  "page_lines page = concat (map (\<lambda>b. map (\<lambda>(s, e, line). (b, s, e, trim line))
     (filter (\<lambda>(_, _, line). \<not> blank line) (block_lines b))) (content page))"

definition line_text :: "page_line \<Rightarrow> string" where
  "line_text line = (case line of (_, _, _, t) \<Rightarrow> t)"

definition make_candidate :: "nat \<Rightarrow> u32 \<Rightarrow> page_line \<Rightarrow> string option \<Rightarrow> candidate" where
  "make_candidate minimum page line key =
     (case line of (b, s, e, _) \<Rightarrow> \<lparr>candidate_block = block_id b, candidate_page = page, candidate_start = s,
        candidate_end = e, candidate_key = key, minimum_pages = minimum\<rparr>)"

definition last_index :: "(nat \<Rightarrow> bool) \<Rightarrow> nat list \<Rightarrow> nat option" where
  "last_index p is = find p (rev is)"

text \<open>A repeated row of initials or parties below a dated footer.\<close>

definition initials_key ::
  "unicode \<Rightarrow> page_line list \<Rightarrow> (string \<times> bool) option list \<Rightarrow> nat \<Rightarrow> string option" where
  "initials_key u ls keys index =
     (let line = line_text (ls ! index) in
      if operative u line \<or> numbered_heading u line \<or> 100 < length line \<or> contains_any [46, 59, 33, 63, 36] line then None
      else
        case last_index (\<lambda>i. case keys ! i of None \<Rightarrow> False | Some (_, strong) \<Rightarrow> strong) [length ls - 4..<index] of
          None \<Rightarrow> None
        | Some anchor \<Rightarrow>
            (case find (\<lambda>i. contains_str (normalized_line u (line_text (ls ! i))) ''initials'') [Suc anchor..<Suc index] of
               None \<Rightarrow> None
             | Some initials \<Rightarrow>
                 if initials = index \<or> (Suc initials = index \<and> all_alphabetic_upper u line)
                 then Some (normalized_line u line) else None))"

text \<open>\<open>bottom\<close> tells the side; \<open>position\<close> counts from it.\<close>

definition side_candidate ::
  "unicode \<Rightarrow> page_line list \<Rightarrow> (string \<times> bool) option list \<Rightarrow> nat \<Rightarrow> bool \<Rightarrow> nat \<Rightarrow> string option" where
  "side_candidate u ls keys index at_bottom position =
     (if 4 \<le> position then None
      else map_option (\<lambda>key. (if at_bottom then ''bottom'' else ''top'') @ '':'' @ show_nat position @ '':'' @ key)
        (case keys ! index of
           Some (key, _) \<Rightarrow> Some key
         | None \<Rightarrow> if at_bottom then initials_key u ls keys index else None))"

definition line_candidates ::
  "unicode \<Rightarrow> nat \<Rightarrow> nat \<Rightarrow> normalized_page \<Rightarrow> page_line list \<Rightarrow> (string \<times> bool) option list \<Rightarrow> nat \<Rightarrow> candidate list" where
  "line_candidates u minimum page_index page ls keys index =
     (let line = ls ! index; below = length ls - index - 1 in
      if (page_index = 0 \<and> index = 0 \<and> edgar_header u (line_text line))
         \<or> ((index = 0 \<or> below = 0) \<and> is_page_number u (line_text line) (page_number page))
      then [make_candidate minimum (page_number page) line None]
      else map (\<lambda>key. make_candidate minimum (page_number page) line (Some key))
        (List.map_filter (\<lambda>(at_bottom, position). side_candidate u ls keys index at_bottom position)
          [(False, index), (True, below)]))"

definition metadata_candidates :: "unicode \<Rightarrow> normalized_document \<Rightarrow> candidate list" where
  "metadata_candidates u document =
     (let minimum = max (card (native_text_pages document) div 2 + 1) 2
      in concat (map (\<lambda>(page_index, page).
           let ls = page_lines page; keys = map (metadata_key u \<circ> line_text) ls
           in concat (map (line_candidates u minimum page_index page ls keys) [0..<length ls]))
         (enumerate 0 (normalized_pages document))))"

text \<open>A publisher notice starts at a line about copyright and runs to a blank line or a heading; page counters
  and blank lines attached to it go with it.\<close>

fun attached_end :: "unicode \<Rightarrow> u32 \<Rightarrow> nat \<Rightarrow> (nat \<times> nat \<times> string) list \<Rightarrow> nat" where
  "attached_end u page e [] = e"
| "attached_end u page e ((_, line_end, line) # ls) =
     (if blank line \<or> is_page_number u line page then attached_end u page line_end ls else e)"

definition notice_text :: "unicode \<Rightarrow> string \<Rightarrow> bool" where
  "notice_text u s \<longleftrightarrow>
     (let lower = normalized_line u s
      in contains_str lower ''rights reserved''
         \<and> (contains_str lower ''trademark'' \<or> contains_str lower ''licensed reproduction''
            \<or> contains_str lower ''electronically produced'')
         \<and> \<not> operative u s)"

definition notice_candidates ::
  "unicode \<Rightarrow> policy \<Rightarrow> u32 \<Rightarrow> normalized_block \<Rightarrow> (nat \<times> nat \<times> string) list \<Rightarrow> nat \<Rightarrow> candidate list" where
  "notice_candidates u pol page b ls index =
     (case ls ! index of (s, e, line) \<Rightarrow>
        if (index < 16 \<or> length ls \<le> index + 16) \<and> contains_str (normalized_line u line) ''copyright''
           \<and> \<not> numbered_heading u line
        then
          let notice = takeWhile (\<lambda>(_, _, l). \<not> blank l \<and> \<not> numbered_heading u l) (drop index ls);
              notice_end = (if notice = [] then e else fst (snd (last notice)))
          in if notice_text u (slice (block_text b) s notice_end)
             then [\<lparr>candidate_block = block_id b, candidate_page = page, candidate_start = s,
               candidate_end = attached_end u page notice_end (drop (index + length notice) ls),
               candidate_key = Some (if pol = OriginalFurniture then repeated_key u line else normalized_line u line),
               minimum_pages = 2\<rparr>]
             else []
        else [])"

definition edge_candidates ::
  "unicode \<Rightarrow> policy \<Rightarrow> u32 \<Rightarrow> normalized_block \<Rightarrow> bool \<Rightarrow> nat \<times> nat \<times> string \<Rightarrow> candidate list" where
  "edge_candidates u pol page b edge line =
     (case line of (s, e, l) \<Rightarrow>
        if pol = OriginalFurniture \<and> edge \<and> (is_page_number u l page \<or> running_label u l page)
        then [\<lparr>candidate_block = block_id b, candidate_page = page, candidate_start = s, candidate_end = e,
          candidate_key = (if is_page_number u l page then None else Some (repeated_key u l)), minimum_pages = 2\<rparr>]
        else [])"

definition block_candidates ::
  "unicode \<Rightarrow> policy \<Rightarrow> normalized_page \<Rightarrow> nat \<Rightarrow> normalized_block \<Rightarrow> candidate list" where
  "block_candidates u pol page block_index b =
     (let ls = block_lines b;
          nonempty = filter (\<lambda>i. \<not> blank (snd (snd (ls ! i)))) [0..<length ls]
      in concat (map (\<lambda>index.
           edge_candidates u pol (page_number page) b
             (nonempty \<noteq> [] \<and> ((block_index = 0 \<and> hd nonempty = index)
               \<or> (block_index + 1 = length (content page) \<and> last nonempty = index))) (ls ! index)
           @ notice_candidates u pol (page_number page) b ls index) [0..<length ls]))"

definition all_candidates :: "unicode \<Rightarrow> policy \<Rightarrow> normalized_document \<Rightarrow> candidate list" where
  "all_candidates u pol document =
     (if pol = RunningMetadata then metadata_candidates u document else [])
     @ concat (map (\<lambda>page. concat (map (\<lambda>(i, b). block_candidates u pol page i b) (enumerate 0 (content page))))
       (normalized_pages document))"

section \<open>Ranges\<close>

record furniture =
  furniture_policy :: policy
  removed_any :: bool
  retained :: "string \<Rightarrow> (nat \<times> nat) list option"
  excluded_pages :: "u32 set"

text \<open>A candidate counts when its key is on enough pages.\<close>

definition confirmed :: "candidate list \<Rightarrow> candidate \<Rightarrow> bool" where
  "confirmed candidates c \<longleftrightarrow>
     (case candidate_key c of
        None \<Rightarrow> True
      | Some key \<Rightarrow> minimum_pages c
          \<le> length (remdups (map candidate_page (filter (\<lambda>c'. candidate_key c' = Some key) candidates))))"

definition excluded_ranges :: "candidate list \<Rightarrow> normalized_block \<Rightarrow> (nat \<times> nat) list" where
  "excluded_ranges candidates b =
     sort (map (\<lambda>c. (candidate_start c, candidate_end c))
       (filter (\<lambda>c. candidate_block c = block_id b \<and> confirmed candidates c) candidates))"

fun gaps :: "nat \<Rightarrow> nat \<Rightarrow> (nat \<times> nat) list \<Rightarrow> (nat \<times> nat) list" where
  "gaps len cursor [] = (if cursor < len then [(cursor, len)] else [])"
| "gaps len cursor ((s, e) # excluded) =
     (if cursor < s then [(cursor, s)] else []) @ gaps len (max cursor e) excluded"

definition block_ranges :: "candidate list \<Rightarrow> normalized_block \<Rightarrow> (nat \<times> nat) list" where
  "block_ranges candidates b = gaps (length (block_text b)) 0 (excluded_ranges candidates b)"

definition substantive :: "candidate list \<Rightarrow> normalized_block \<Rightarrow> bool" where
  "substantive candidates b = list_ex (\<lambda>(s, e). \<not> blank (slice (block_text b) s e)) (block_ranges candidates b)"

definition for_policy :: "unicode \<Rightarrow> normalized_document \<Rightarrow> policy \<Rightarrow> furniture" where
  "for_policy u document pol =
     (let candidates = all_candidates u pol document;
          blocks = document_blocks document
      in \<lparr>furniture_policy = pol,
          removed_any = list_ex (\<lambda>b. excluded_ranges candidates b \<noteq> []) blocks,
          retained = map_of (rev (map (\<lambda>b. (block_id b, block_ranges candidates b)) blocks)),
          excluded_pages = page_number ` set (filter
            (\<lambda>page. page_number page \<in> native_text_pages document \<and> \<not> list_ex (substantive candidates) (content page))
            (normalized_pages document))\<rparr>)"

text \<open>\<open>self.retained[block_id]\<close>, which panics for a block of another document.\<close>

definition retained_ranges :: "furniture \<Rightarrow> string \<Rightarrow> (nat \<times> nat) list" where
  "retained_ranges f i = the (retained f i)"

definition has_retained_text :: "furniture \<Rightarrow> normalized_block \<Rightarrow> bool" where
  "has_retained_text f b = list_ex (\<lambda>(s, e). \<not> blank (slice (block_text b) s e)) (retained_ranges f (block_id b))"

definition show_pages :: "u32 set \<Rightarrow> string" where
  "show_pages pages = ''['' @ join '', '' (map (show_nat \<circ> unat) (sorted_list_of_set pages)) @ '']''"

definition furniture_warning :: "furniture \<Rightarrow> pipeline_warning option" where
  "furniture_warning f =
     (if excluded_pages f = {} \<and> (furniture_policy f = OriginalFurniture \<or> \<not> removed_any f) then None
      else Some \<lparr>warning_code = ''SUMMARY_FURNITURE_PAGES_EXCLUDED'',
        warning_message =
          (if furniture_policy f = OriginalFurniture
           then ''Pages '' @ show_pages (excluded_pages f)
             @ '' contain only recognized page furniture; excluded from coherent excerpt selection and both page-coverage totals''
           else ''Recognized page furniture excluded under furniture policy 2; fully excluded pages ''
             @ show_pages (excluded_pages f) @ '' are omitted from both page-coverage totals''),
        warning_stage = Some Synthesize\<rparr>)"

definition supplied_warnings :: "pipeline_warning list \<Rightarrow> pipeline_warning list" where
  "supplied_warnings warnings = filter (\<lambda>w. warning_code w = ''SUMMARY_FURNITURE_PAGES_EXCLUDED'') warnings"

definition furniture_coverage_exclusions :: "unicode \<Rightarrow> pipeline_warning list \<Rightarrow> normalized_document \<Rightarrow> u32 set" where
  "furniture_coverage_exclusions u warnings document =
     (let supplied = supplied_warnings warnings;
          matching = filter (\<lambda>f. case furniture_warning f of None \<Rightarrow> False | Some expected \<Rightarrow> supplied = [expected])
            (map (for_policy u document) [RunningMetadata, OriginalFurniture])
      in if supplied = [] then {} else (case matching of [] \<Rightarrow> {} | f # _ \<Rightarrow> excluded_pages f))"

section \<open>The ranges are exactly what the candidates leave\<close>

definition covers :: "(nat \<times> nat) list \<Rightarrow> nat \<Rightarrow> bool" where
  "covers ranges k \<longleftrightarrow> list_ex (\<lambda>(s, e). s \<le> k \<and> k < e) ranges"

fun ordered_ranges :: "nat \<Rightarrow> nat \<Rightarrow> (nat \<times> nat) list \<Rightarrow> bool" where
  "ordered_ranges len cursor [] \<longleftrightarrow> True"
| "ordered_ranges len cursor ((s, e) # rs) \<longleftrightarrow> cursor \<le> s \<and> s < e \<and> e \<le> len \<and> ordered_ranges len e rs"

lemma covers_simps [simp]:
  "covers [] k \<longleftrightarrow> False"
  "covers ((s, e) # rs) k \<longleftrightarrow> (s \<le> k \<and> k < e) \<or> covers rs k"
  "covers (rs @ rs') k \<longleftrightarrow> covers rs k \<or> covers rs' k"
  by (auto simp: covers_def)

lemma covers_gaps:
  assumes "sorted (map fst excluded)" "k < len"
  shows "covers (gaps len cursor excluded) k \<longleftrightarrow> cursor \<le> k \<and> \<not> covers excluded k"
  using assms(1)
proof (induction excluded arbitrary: cursor)
  case Nil
  with assms(2) show ?case by auto
next
  case (Cons r excluded)
  obtain s e where r: "r = (s, e)" by (cases r)
  have later: "\<not> covers excluded k" if "k < s"
    using Cons.prems that by (force simp: r covers_def list_ex_iff)
  show ?case using Cons.IH [of "max cursor e"] Cons.prems later by (auto simp: r)
qed

lemma ordered_ranges_mono: "ordered_ranges len cursor rs \<Longrightarrow> cursor' \<le> cursor \<Longrightarrow> ordered_ranges len cursor' rs"
  by (cases rs) auto

lemma ordered_gaps:
  assumes "\<And>s e. (s, e) \<in> set excluded \<Longrightarrow> s \<le> e \<and> e \<le> len"
  shows "ordered_ranges len cursor (gaps len cursor excluded)"
  using assms
proof (induction excluded arbitrary: cursor)
  case Nil
  then show ?case by simp
next
  case (Cons r excluded)
  obtain s e where r: "r = (s, e)" by (cases r)
  have se: "s \<le> e" "e \<le> len" using Cons.prems r by auto
  have IH: "ordered_ranges len (max cursor e) (gaps len (max cursor e) excluded)"
    using Cons.prems by (intro Cons.IH) auto
  then have "ordered_ranges len s (gaps len (max cursor e) excluded)" "ordered_ranges len cursor (gaps len (max cursor e) excluded)"
    using se by (auto elim: ordered_ranges_mono)
  then show ?case using se by (cases "cursor < s") (auto simp: r max_def split: if_splits)
qed

text \<open>A candidate lies inside the block it names.\<close>

definition candidate_within :: "normalized_block list \<Rightarrow> candidate \<Rightarrow> bool" where
  "candidate_within blocks c \<longleftrightarrow> (\<exists>b \<in> set blocks. candidate_block c = block_id b
     \<and> candidate_start c \<le> candidate_end c \<and> candidate_end c \<le> length (block_text b))"

lemma line_ranges_bounds:
  "(s, e, line) \<in> set (line_ranges offset ls) \<Longrightarrow> offset \<le> s \<and> s \<le> e \<and> e \<le> offset + length (concat ls)"
  by (induction ls arbitrary: offset) fastforce+

lemma concat_split_inclusive: "concat (split_inclusive acc s) = rev acc @ s"
  by (induction acc s rule: split_inclusive.induct) auto

lemma block_lines_bounds: "(s, e, line) \<in> set (block_lines b) \<Longrightarrow> s \<le> e \<and> e \<le> length (block_text b)"
  using line_ranges_bounds [of s e line 0 "split_inclusive [] (block_text b)"]
  by (simp add: block_lines_def concat_split_inclusive)

lemma attached_end_bounds:
  assumes "\<And>s' e' l. (s', e', l) \<in> set ls \<Longrightarrow> e \<le> e' \<and> e' \<le> len" "e \<le> len" "sorted (map (\<lambda>(_, e', _). e') ls)"
  shows "e \<le> attached_end u page e ls \<and> attached_end u page e ls \<le> len"
  using assms
proof (induction u page e ls rule: attached_end.induct)
  case (2 u page e s' line_end line ls)
  have "line_end \<le> attached_end u page line_end ls \<and> attached_end u page line_end ls \<le> len"
    if "blank line \<or> is_page_number u line page"
    using 2(2-4) by (intro 2(1) [OF that]) auto
  with 2(2-4) show ?case by fastforce
qed simp

lemma line_ranges_sorted: "sorted (map (\<lambda>(_, e, _). e) (line_ranges offset ls))"
  by (induction ls arbitrary: offset) (auto dest: line_ranges_bounds)

lemma notice_within:
  assumes "b \<in> set blocks" "index < length (block_lines b)" "c \<in> set (notice_candidates u pol page b (block_lines b) index)"
  shows "candidate_within blocks c"
proof -
  let ?ls = "block_lines b"
  obtain s e line where line: "?ls ! index = (s, e, line)" by (cases "?ls ! index") auto
  define notice where "notice = takeWhile (\<lambda>(_, _, l). \<not> blank l \<and> \<not> numbered_heading u l) (drop index ?ls)"
  define stop where "stop = (if notice = [] then e else fst (snd (last notice)))"
  let ?rest = "drop (index + length notice) ?ls"
  have c: "c = \<lparr>candidate_block = block_id b, candidate_page = page, candidate_start = s,
      candidate_end = attached_end u page stop ?rest,
      candidate_key = Some (if pol = OriginalFurniture then repeated_key u line else normalized_line u line), minimum_pages = 2\<rparr>"
    using assms(3) by (auto simp: notice_candidates_def line Let_def notice_def stop_def split: if_splits)
  have ends: "sorted (map (\<lambda>(_, e, _). e) ?ls)" unfolding block_lines_def by (rule line_ranges_sorted)
  have within: "s' \<le> e' \<and> e' \<le> length (block_text b)" if "(s', e', l) \<in> set ?ls" for s' e' l
    using block_lines_bounds [OF that] .
  have here: "(s, e, line) \<in> set ?ls" using nth_mem [OF assms(2)] line by simp
  define k where "k = (if notice = [] then index else index + length notice - 1)"
  have prefix: "notice = take (length notice) (drop index ?ls)" unfolding notice_def by (rule takeWhile_eq_take)
  have len: "index + length notice \<le> length ?ls"
  proof -
    have "length notice \<le> length (drop index ?ls)" unfolding notice_def by (rule length_takeWhile_le)
    then show ?thesis using assms(2) by simp
  qed
  have k: "index \<le> k" "k < length ?ls" "stop = fst (snd (?ls ! k))" "k < index + length notice \<or> k = index"
  proof -
    show "index \<le> k" "k < length ?ls" "k < index + length notice \<or> k = index"
      using len assms(2) by (cases notice; simp add: k_def)+
    show "stop = fst (snd (?ls ! k))"
    proof (cases "notice = []")
      case False
      then have "last notice = notice ! (length notice - 1)" by (rule last_conv_nth)
      also have "\<dots> = ?ls ! (index + (length notice - 1))"
        by (subst prefix) (use False len in \<open>simp add: less_Suc_eq_le\<close>)
      also have "index + (length notice - 1) = k" using False by (cases notice) (simp_all add: k_def)
      finally show ?thesis using False by (simp add: stop_def)
    qed (simp add: stop_def k_def line)
  qed
  obtain sk lk where at_k: "?ls ! k = (sk, stop, lk)" using k(3) by (cases "?ls ! k") auto
  then have stop_le: "stop \<le> length (block_text b)" using within nth_mem [OF k(2)] by metis
  have mono: "fst (snd (?ls ! i)) \<le> fst (snd (?ls ! j))" if "i \<le> j" "j < length ?ls" for i j
    using sorted_nth_mono [OF ends, of i j] that by (simp add: split_def)
  have "e \<le> stop" using mono [OF k(1,2)] line k(3) by simp
  have after: "stop \<le> e' \<and> e' \<le> length (block_text b)"
    if member: "(s', e', l) \<in> set ?rest" for s' e' and l :: string
  proof -
    obtain j where j: "j < length ?rest" "?rest ! j = (s', e', l)" using member by (auto simp: in_set_conv_nth)
    then have "?ls ! (index + length notice + j) = (s', e', l)" by simp
    moreover have "k \<le> index + length notice + j" using k(4) by auto
    moreover have "index + length notice + j < length ?ls" using j(1) by simp
    ultimately show ?thesis
      using mono [of k "index + length notice + j"] k(3) within [of s' e' l] by (metis fst_conv nth_mem snd_conv)
  qed
  have "sorted (map (\<lambda>(_, e, _). e) ?rest)" using ends by (simp add: drop_map [symmetric] sorted_wrt_drop)
  have "stop \<le> attached_end u page stop ?rest \<and> attached_end u page stop ?rest \<le> length (block_text b)"
    by (rule attached_end_bounds [OF _ stop_le \<open>sorted (map (\<lambda>(_, e, _). e) ?rest)\<close>]) (rule after)
  with within [OF here] \<open>e \<le> stop\<close> assms(1) show ?thesis
    by (auto simp: candidate_within_def c intro!: bexI [of _ b])
qed

lemma edge_within:
  assumes "b \<in> set blocks" "line \<in> set (block_lines b)" "c \<in> set (edge_candidates u pol page b edge line)"
  shows "candidate_within blocks c"
  using assms block_lines_bounds [of "fst line" "fst (snd line)" "snd (snd line)" b]
  by (auto simp: edge_candidates_def candidate_within_def split: if_splits intro!: bexI [of _ b])

lemma metadata_within:
  assumes "c \<in> set (metadata_candidates u document)"
  shows "candidate_within (document_blocks document) c"
proof -
  from assms obtain n page index minimum keys where page: "page \<in> set (normalized_pages document)"
    and index: "index < length (page_lines page)"
    and c: "c \<in> set (line_candidates u minimum n page (page_lines page) keys index)"
    by (auto simp: metadata_candidates_def Let_def in_set_enumerate_eq) (metis nth_mem)
  from nth_mem [OF index] obtain b s e line where b: "b \<in> set (content page)" "(s, e, line) \<in> set (block_lines b)"
    and at_index: "page_lines page ! index = (b, s, e, trim line)" by (auto simp: page_lines_def)
  have "\<exists>key. c = make_candidate minimum (page_number page) (page_lines page ! index) key"
    using c by (auto simp: line_candidates_def Let_def split: if_splits)
  moreover have "b \<in> set (document_blocks document)" using page b(1) by (auto simp: document_blocks_def)
  ultimately show ?thesis
    using block_lines_bounds [OF b(2)] at_index
    by (auto simp: candidate_within_def make_candidate_def intro!: bexI [of _ b])
qed

lemma all_candidates_within: "c \<in> set (all_candidates u pol document) \<Longrightarrow> candidate_within (document_blocks document) c"
proof -
  assume "c \<in> set (all_candidates u pol document)"
  then consider "c \<in> set (metadata_candidates u document)"
    | page i b where "page \<in> set (normalized_pages document)" "b \<in> set (content page)" "c \<in> set (block_candidates u pol page i b)"
    by (auto simp: all_candidates_def in_set_enumerate_eq split: if_splits) (metis nth_mem)+
  then show ?thesis
  proof cases
    case 2
    then have "b \<in> set (document_blocks document)" by (auto simp: document_blocks_def)
    then show ?thesis
      using 2(3) edge_within [OF _ nth_mem] notice_within by (auto simp: block_candidates_def Let_def)
  qed (rule metadata_within)
qed

lemma excluded_within:
  assumes "distinct (map block_id (document_blocks document))" "b \<in> set (document_blocks document)"
    and "(s, e) \<in> set (excluded_ranges (all_candidates u pol document) b)"
  shows "s \<le> e \<and> e \<le> length (block_text b)"
proof -
  from assms(3) obtain c where c: "c \<in> set (all_candidates u pol document)" "candidate_block c = block_id b"
    "candidate_start c = s" "candidate_end c = e" by (auto simp: excluded_ranges_def)
  from all_candidates_within [OF c(1)] obtain b' where "b' \<in> set (document_blocks document)" "block_id b' = block_id b"
    "s \<le> e \<and> e \<le> length (block_text b')" using c by (auto simp: candidate_within_def)
  moreover from this have "b' = b" using assms(1,2) by (auto simp: distinct_map inj_on_def)
  ultimately show ?thesis by simp
qed

lemma retained_ranges_block:
  assumes "distinct (map block_id (document_blocks document))" "b \<in> set (document_blocks document)"
  shows "retained_ranges (for_policy u document pol) (block_id b) = block_ranges (all_candidates u pol document) b"
proof -
  let ?ranges = "block_ranges (all_candidates u pol document)"
  have "distinct (map fst (rev (map (\<lambda>b. (block_id b, ?ranges b)) (document_blocks document))))"
    using assms(1) by (simp add: comp_def rev_map [symmetric])
  moreover have "(block_id b, ?ranges b) \<in> set (rev (map (\<lambda>b. (block_id b, ?ranges b)) (document_blocks document)))"
    using assms(2) by auto
  ultimately show ?thesis by (simp add: retained_ranges_def for_policy_def Let_def)
qed

text \<open>The bytes of a block that a confirmed candidate takes.\<close>

definition furniture_byte :: "unicode \<Rightarrow> normalized_document \<Rightarrow> policy \<Rightarrow> normalized_block \<Rightarrow> nat \<Rightarrow> bool" where
  "furniture_byte u document pol b k \<longleftrightarrow>
     list_ex (\<lambda>c. candidate_block c = block_id b \<and> candidate_start c \<le> k \<and> k < candidate_end c
       \<and> confirmed (all_candidates u pol document) c) (all_candidates u pol document)"

lemma covers_excluded: "covers (excluded_ranges (all_candidates u pol document) b) k \<longleftrightarrow> furniture_byte u document pol b k"
  by (auto simp: covers_def excluded_ranges_def furniture_byte_def list_ex_iff)

lemma sorted_fst: "sorted (xs :: (nat \<times> nat) list) \<Longrightarrow> sorted (map fst xs)"
  by (rule sorted_map_mono) (auto intro!: monotone_onI simp: less_eq_prod_def)

section \<open>Properties\<close>

text \<open>C35. The furniture filter removes exactly what it recognizes: in a document with distinct blocks, the ranges left
  of a block are non-empty, in order, apart and inside the block, so that slicing with them cannot fail, and a byte of
  the block is in one of them unless a line or notice recognized as furniture on enough pages covers it.\<close>

theorem furniture_ranges_exact:
  assumes "distinct (map block_id (document_blocks document))" "b \<in> set (document_blocks document)"
  shows "ordered_ranges (length (block_text b)) 0 (retained_ranges (for_policy u document pol) (block_id b))
    \<and> (\<forall>k < length (block_text b).
         covers (retained_ranges (for_policy u document pol) (block_id b)) k \<longleftrightarrow> \<not> furniture_byte u document pol b k)"
  unfolding retained_ranges_block [OF assms] block_ranges_def
proof (intro conjI allI impI)
  show "ordered_ranges (length (block_text b)) 0
      (gaps (length (block_text b)) 0 (excluded_ranges (all_candidates u pol document) b))"
    by (rule ordered_gaps) (rule excluded_within [OF assms])
  fix k
  assume "k < length (block_text b)"
  moreover have "sorted (map fst (excluded_ranges (all_candidates u pol document) b))"
    by (rule sorted_fst) (simp add: excluded_ranges_def)
  ultimately show "covers (gaps (length (block_text b)) 0 (excluded_ranges (all_candidates u pol document) b)) k
      \<longleftrightarrow> \<not> furniture_byte u document pol b k"
    by (simp add: covers_gaps covers_excluded)
qed

text \<open>A page whose first line is its number: the number goes, the text stays.\<close>

definition ascii_tables :: unicode where
  "ascii_tables =
     \<lparr>uc_upper = (\<lambda>c. 65 \<le> c \<and> c \<le> 90), uc_lower = (\<lambda>c. 97 \<le> c \<and> c \<le> 122),
      uc_alphabetic = (\<lambda>c. (65 \<le> c \<and> c \<le> 90) \<or> (97 \<le> c \<and> c \<le> 122)), uc_alphanumeric = ascii_alphanumeric,
      uc_numeric = (\<lambda>c. 48 \<le> c \<and> c \<le> 57), uc_currency = (\<lambda>c. c = 36),
      uc_lowercase = to_ascii_lowercase\<rparr>"

definition numbered_page :: normalized_document where
  "numbered_page =
     \<lparr>normalized_document_id = ''d'', normalization_version = ''1'',
      normalized_pages = [\<lparr>page_number = 1,
        content = [\<lparr>block_id = ''b'', block_kind = Text, block_text = ''1'' @ [CHR 0x0A] @ ''Term'',
          block_source = \<lparr>page_start = 1, page_end = 1, section_id = None, span_source_type = NativeText\<rparr>\<rparr>],
        page_warnings = [], requires_visual_processing = False\<rparr>],
      normalized_warnings = []\<rparr>"

lemma furniture_ranges_exact_witness:
  "ordered_ranges 6 0 (retained_ranges (for_policy ascii_tables numbered_page RunningMetadata) ''b'')
   \<and> (covers (retained_ranges (for_policy ascii_tables numbered_page RunningMetadata) ''b'') 2
       \<longleftrightarrow> \<not> furniture_byte ascii_tables numbered_page RunningMetadata (hd (document_blocks numbered_page)) 2)"
proof -
  let ?b = "hd (document_blocks numbered_page)"
  have "distinct (map block_id (document_blocks numbered_page))" "?b \<in> set (document_blocks numbered_page)"
    "block_id ?b = ''b''" "length (block_text ?b) = 6"
    by (simp_all add: numbered_page_def document_blocks_def)
  with furniture_ranges_exact [of numbered_page ?b ascii_tables RunningMetadata] show ?thesis by simp
qed

end
