(* ===== verification/Clause_Scan.thy ===== *)
theory Clause_Scan
  imports Page_Furniture
begin

text \<open>
  \<open>contract_sources_for_policy\<close> and \<open>section_members\<close> of
  \<open>summary/coherent/whole_clauses.rs\<close>: the lines of a document are read, classified in three
  passes, and scanned into clauses that refer to the byte ranges they come from. \<open>ranges\<close> gives the
  ranges of a block that are not page furniture (\<open>Furniture::retained_ranges\<close>). The Rust stack has
  its peak at the head of the list. A loop that need not end is a partial function.
\<close>

section \<open>Source lines\<close>

record source_fragment =
  sf_block :: string
  sf_start :: nat
  sf_end :: nat

record source_clause =
  sc_headings :: "string list"
  sc_fragments :: "source_fragment list"
  sc_parent :: "nat option"
  sc_number :: "string list option"
  sc_article :: "nat option"
  sc_opening :: bool
  sc_heading_only :: bool
  sc_boundary_uncertain :: bool

text \<open>The \<open>HashMap\<close> from block identities; the last block of an identity stays.\<close>

definition blocks_by_id :: "normalized_block list \<Rightarrow> string \<Rightarrow> normalized_block option" where
  "blocks_by_id blocks = map_of (rev (map (\<lambda>b. (block_id b, b)) blocks))"

definition fragment_text :: "(string \<Rightarrow> normalized_block option) \<Rightarrow> source_fragment \<Rightarrow> string" where
  "fragment_text blocks f = slice (block_text (the (blocks (sf_block f)))) (sf_start f) (sf_end f)"

definition fragment_page :: "(string \<Rightarrow> normalized_block option) \<Rightarrow> source_fragment \<Rightarrow> u32" where
  "fragment_page blocks f = page_start (block_source (the (blocks (sf_block f))))"

fun lines_from :: "string \<Rightarrow> nat \<Rightarrow> string list \<Rightarrow> source_fragment list" where
  "lines_from i offset [] = []"
| "lines_from i offset (line # ls) =
     (if trim line = [] then []
      else (let begins = offset + length line - length (trim_start line)
            in [\<lparr>sf_block = i, sf_start = begins, sf_end = begins + length (trim line)\<rparr>]))
     @ lines_from i (offset + length line) ls"

definition source_lines :: "(string \<Rightarrow> (nat \<times> nat) list) \<Rightarrow> normalized_document \<Rightarrow> source_fragment list" where
  "source_lines ranges document =
     concat (map (\<lambda>b. concat (map (\<lambda>(s, e). lines_from (block_id b) s (split_inclusive [] (slice (block_text b) s e)))
       (ranges (block_id b)))) (document_blocks document))"

section \<open>The passes over the lines\<close>

text \<open>An article whose title is on the next line.\<close>

definition join_article ::
  "unicode \<Rightarrow> (string \<Rightarrow> normalized_block option) \<Rightarrow> source_fragment list \<Rightarrow> read_line list \<Rightarrow> nat \<Rightarrow> read_line list" where
  "join_article u blocks ls read i =
     (let title = fragment_text blocks (ls ! Suc i) in
      case rl_article_marker (read ! i) of
        None \<Rightarrow> read
      | Some number \<Rightarrow>
          if rl_kind (read ! Suc i) = TextLine \<and> rl_title (read ! Suc i) \<and> all_alphabetic_upper u title
             \<and> fragment_page blocks (ls ! i) = fragment_page blocks (ls ! Suc i)
          then read[i := (read ! i)\<lparr>rl_article := Some (number, trim_end_of ''.:'' title), rl_article_lines := 2,
                       rl_kind := HeadingLine, rl_ends_unit := True\<rparr>,
                    Suc i := (read ! Suc i)\<lparr>rl_kind := HeadingLine, rl_ends_unit := True\<rparr>]
          else read)"

text \<open>A bare Roman title counts when it continues the sequence or the next line is numbered under it.\<close>

definition admit_roman :: "read_line list \<times> nat option \<Rightarrow> nat \<Rightarrow> read_line list \<times> nat option" where
  "admit_roman st i =
     (case st of (read, last_roman) \<Rightarrow>
        if rl_article (read ! i) \<noteq> None then st
        else
          let roman = (case rl_roman (read ! i) of
                None \<Rightarrow> None
              | Some (number, title) \<Rightarrow>
                  if (case last_roman of None \<Rightarrow> False | Some previous \<Rightarrow> number = previous + 1)
                     \<or> (Suc i < length read \<and> rl_roman_decimal (read ! Suc i)
                        \<and> (case rl_decimal (read ! Suc i) of None \<Rightarrow> False
                           | Some (parts, _) \<Rightarrow> (case parts of [] \<Rightarrow> None | part # _ \<Rightarrow> parse_u32 part) = Some number))
                  then Some (number, title) else None);
              last_roman' = (case roman of Some (number, _) \<Rightarrow> Some number | None \<Rightarrow> last_roman);
              r = (read ! i)\<lparr>rl_roman := roman\<rparr>;
              r' = (if roman \<noteq> None \<and> \<not> rl_toc_entry r then r\<lparr>rl_kind := HeadingLine\<rparr> else r)
          in (read[i := r'], last_roman'))"

text \<open>A line marked as a section or an article that does not start a unit.\<close>

definition settle_marked :: "unicode \<Rightarrow> read_line \<Rightarrow> bool \<Rightarrow> read_line \<times> bool" where
  "settle_marked u r in_opening =
     (if rl_explicit_section r
         \<and> (case rl_decimal r of None \<Rightarrow> False | Some (_, rest) \<Rightarrow> \<not> leading_title u (fst (contract_title rest)))
      then (r\<lparr>rl_numbered := False, rl_kind := TextLine\<rparr>, in_opening)
      else (r\<lparr>rl_kind := HeadingLike\<rparr>, False))"

definition settle_heading :: "read_line \<Rightarrow> bool \<Rightarrow> read_line" where
  "settle_heading r leading_admitted =
     (let r1 = (if rl_kind r \<noteq> HeadingLike then r\<lparr>rl_kind := HeadingLine\<rparr> else r)
      in if leading_admitted \<or> rl_roman r \<noteq> None then r1\<lparr>rl_ends_unit := True\<rparr> else r1)"

definition settle_plain :: "read_line \<Rightarrow> bool \<Rightarrow> bool \<Rightarrow> read_line" where
  "settle_plain r starts_unit in_opening =
     (if (rl_kind r = HeadingLike \<and> \<not> rl_toc r \<and> \<not> rl_toc_entry r \<and> \<not> starts_unit)
         \<or> (in_opening \<and> rl_opening_cover r)
      then r\<lparr>rl_kind := TextLine\<rparr>
      else if rl_kind r = TextLine \<and> rl_generic_heading_like r \<and> starts_unit \<and> \<not> in_opening
      then r\<lparr>rl_kind := HeadingLike\<rparr>
      else r)"

definition settle_line :: "unicode \<Rightarrow> read_line \<Rightarrow> bool \<Rightarrow> bool \<Rightarrow> bool \<Rightarrow> read_line \<times> bool" where
  "settle_line u r starts_unit next_numbered in_opening =
     (if \<not> starts_unit \<and> ((rl_explicit_section r \<and> rl_numbered r) \<or> rl_article_lines r = 2)
      then settle_marked u r in_opening
      else if rl_kind r = HeadingLine \<or> (rl_title r \<and> starts_unit \<and> next_numbered)
      then (settle_heading r (rl_title r \<and> starts_unit \<and> next_numbered), False)
      else if rl_numbered r then (r, False)
      else (settle_plain r starts_unit in_opening, in_opening))"

definition settle_kind :: "unicode \<Rightarrow> read_line list \<times> bool \<Rightarrow> nat \<Rightarrow> read_line list \<times> bool" where
  "settle_kind u st i =
     (case st of (read, in_opening) \<Rightarrow>
        let starts_unit = (i = 0 \<or> rl_ends_unit (read ! (i - 1)));
            (r, in_opening') = settle_line u ((read ! i)\<lparr>rl_starts_unit := starts_unit\<rparr>) starts_unit
              (Suc i < length read \<and> rl_numbered (read ! Suc i)) in_opening
        in (read[i := r], in_opening'))"

definition read_lines ::
  "unicode \<Rightarrow> (string \<Rightarrow> normalized_block option) \<Rightarrow> source_fragment list \<Rightarrow> heading_grammar \<Rightarrow> read_line list" where
  "read_lines u blocks ls grammar =
     (let read = map (\<lambda>f. read_line_of u (fragment_text blocks f) grammar) ls;
          joined = foldl (join_article u blocks ls) read [0..<length read - 1];
          (roman, _) = foldl admit_roman (joined, None) [0..<length joined];
          (settled, _) = foldl (settle_kind u) (roman, True) [0..<length roman]
      in settled)"

section \<open>The scan into clauses\<close>

definition append_source ::
  "(string \<Rightarrow> normalized_block option) \<Rightarrow> source_clause \<Rightarrow> source_fragment \<Rightarrow> source_clause" where
  "append_source blocks clause f =
     (let fs = sc_fragments clause in
      if fs \<noteq> [] \<and> sf_block (last fs) = sf_block f \<and> sf_end (last fs) \<le> sf_start f
         \<and> blank (slice (block_text (the (blocks (sf_block (last fs))))) (sf_end (last fs)) (sf_start f))
      then clause\<lparr>sc_fragments := butlast fs @ [(last fs)\<lparr>sf_end := sf_end f\<rparr>]\<rparr>
      else clause\<lparr>sc_fragments := fs @ [f]\<rparr>)"

definition strict_child :: "string list \<Rightarrow> string list \<Rightarrow> bool" where
  "strict_child child parent \<longleftrightarrow> length parent < length child \<and> starts_with child parent"

definition mark_last :: "source_clause list \<Rightarrow> source_clause list" where
  "mark_last clauses =
     (if clauses = [] then [] else butlast clauses @ [(last clauses)\<lparr>sc_boundary_uncertain := True\<rparr>])"

text \<open>The loop that pops the ancestors a numbered clause does not belong under.\<close>

fun pop_ancestors ::
  "string list \<Rightarrow> bool \<Rightarrow> nat set \<Rightarrow> source_clause list \<Rightarrow> nat list \<Rightarrow> bool \<Rightarrow> source_clause list \<times> nat list \<times> bool" where
  "pop_ancestors number marked markers clauses [] uncertain = (clauses, [], uncertain)"
| "pop_ancestors number marked markers clauses (peak # stack) uncertain =
     (if sc_article (clauses ! peak) \<noteq> None
         \<or> (case sc_number (clauses ! peak) of None \<Rightarrow> False | Some p \<Rightarrow> strict_child number p)
      then (clauses, peak # stack, uncertain)
      else if peak \<in> markers \<and> \<not> marked
      then pop_ancestors number marked markers (clauses[peak := (clauses ! peak)\<lparr>sc_boundary_uncertain := True\<rparr>]) stack True
      else pop_ancestors number marked markers clauses stack uncertain)"

record scan_state =
  scan_clauses :: "source_clause list"
  scan_stack :: "nat list"
  scan_markers :: "nat set"
  scan_index :: nat
  scan_toc_page :: "u32 option"

definition stack_top :: "nat list \<Rightarrow> nat option" where
  "stack_top stack = (case stack of [] \<Rightarrow> None | peak # _ \<Rightarrow> Some peak)"

definition open_article ::
  "(string \<Rightarrow> normalized_block option) \<Rightarrow> source_fragment list \<Rightarrow> read_line list \<Rightarrow> nat \<Rightarrow> string \<Rightarrow> bool \<Rightarrow> scan_state \<Rightarrow> scan_state" where
  "open_article blocks ls read article title uncertain st =
     (let i = scan_index st;
          clause = \<lparr>sc_headings = [title], sc_fragments = [ls ! i], sc_parent = None, sc_number = None,
            sc_article = Some article, sc_opening = False, sc_heading_only = True, sc_boundary_uncertain = uncertain\<rparr>;
          clause' = (if rl_article_lines (read ! i) = 2 then append_source blocks clause (ls ! Suc i) else clause)
      in st\<lparr>scan_clauses := scan_clauses st @ [clause'], scan_stack := [length (scan_clauses st)],
            scan_index := i + rl_article_lines (read ! i)\<rparr>)"

text \<open>\<open>leading\<close> is the title line before the numbered line at \<open>j\<close>.\<close>

definition open_numbered ::
  "(string \<Rightarrow> normalized_block option) \<Rightarrow> source_fragment list \<Rightarrow> read_line list \<Rightarrow> nat \<Rightarrow>
   (source_fragment \<times> string) option \<Rightarrow> string list \<Rightarrow> string \<Rightarrow> bool \<Rightarrow> scan_state \<Rightarrow> scan_state" where
  "open_numbered blocks ls read j leading number rest uncertain0 st =
     (let marked = rl_section_marked (read ! j);
          (clauses0, stack0, uncertain) =
            pop_ancestors number marked (scan_markers st) (scan_clauses st) (scan_stack st) uncertain0;
          parent_number = butlast number;
          (clauses1, stack1, markers1, leading1) =
            (case leading of
               Some (f, heading) \<Rightarrow>
                 if 1 < length number \<and> \<not> list_ex (\<lambda>n. sc_number (clauses0 ! n) = Some parent_number) stack0
                 then (clauses0 @ [\<lparr>sc_headings = [heading], sc_fragments = [f], sc_parent = stack_top stack0,
                           sc_number = Some parent_number, sc_article = None, sc_opening = False, sc_heading_only = True,
                           sc_boundary_uncertain = uncertain\<rparr>],
                       length clauses0 # stack0,
                       (if marked then insert (length clauses0) (scan_markers st) else scan_markers st), None)
                 else (clauses0, stack0, scan_markers st, leading)
             | None \<Rightarrow> (clauses0, stack0, scan_markers st, None));
          (title, has_body) = contract_title rest;
          clause = \<lparr>sc_headings = [], sc_fragments = [], sc_parent = stack_top stack1, sc_number = Some number,
            sc_article = None, sc_opening = False, sc_heading_only = (\<not> has_body \<and> leading1 = None),
            sc_boundary_uncertain = uncertain\<rparr>;
          clause1 = (case leading1 of
              Some (f, heading) \<Rightarrow> append_source blocks (clause\<lparr>sc_headings := [heading]\<rparr>) f
            | None \<Rightarrow> clause);
          clause2 = (if title \<noteq> [] then clause1\<lparr>sc_headings := sc_headings clause1 @ [title]\<rparr> else clause1);
          clause3 = append_source blocks clause2 (ls ! j)
      in st\<lparr>scan_clauses := clauses1 @ [clause3], scan_stack := length clauses1 # stack1,
            scan_markers := (if marked then insert (length clauses1) markers1 else markers1), scan_index := Suc j\<rparr>)"

definition continue_clause ::
  "(string \<Rightarrow> normalized_block option) \<Rightarrow> source_fragment \<Rightarrow> bool \<Rightarrow> scan_state \<Rightarrow> scan_state" where
  "continue_clause blocks f uncertain st =
     (let clauses = scan_clauses st in
      st\<lparr>scan_clauses :=
           (if clauses \<noteq> []
            then butlast clauses @ [append_source blocks
              ((last clauses)\<lparr>sc_heading_only := False,
                 sc_boundary_uncertain := (sc_boundary_uncertain (last clauses) \<or> uncertain)\<rparr>) f]
            else [\<lparr>sc_headings = [], sc_fragments = [f], sc_parent = None, sc_number = None, sc_article = None,
              sc_opening = True, sc_heading_only = False, sc_boundary_uncertain = uncertain\<rparr>]),
         scan_index := Suc (scan_index st)\<rparr>)"

definition scan_line ::
  "(string \<Rightarrow> normalized_block option) \<Rightarrow> source_fragment list \<Rightarrow> read_line list \<Rightarrow> bool \<Rightarrow> scan_state \<Rightarrow> scan_state" where
  "scan_line blocks ls read uncertain st =
     (let i = scan_index st; r = read ! i; f = ls ! i in
      case (case rl_article r of None \<Rightarrow> rl_roman r | Some a \<Rightarrow> Some a) of
        Some (article, title) \<Rightarrow> open_article blocks ls read article title uncertain st
      | None \<Rightarrow>
          (case rl_number r of
             Some (number, rest) \<Rightarrow> open_numbered blocks ls read i None number rest uncertain st
           | None \<Rightarrow>
               (case (if rl_starts_unit r \<and> rl_title r \<and> Suc i < length ls then rl_number (read ! Suc i) else None) of
                  Some (number, rest) \<Rightarrow>
                    open_numbered blocks ls read (Suc i) (Some (f, trim_end_of ''.:'' (fragment_text blocks f)))
                      number rest uncertain st
                | None \<Rightarrow> continue_clause blocks f uncertain st)))"

definition scan_step ::
  "(string \<Rightarrow> normalized_block option) \<Rightarrow> source_fragment list \<Rightarrow> read_line list \<Rightarrow> scan_state \<Rightarrow> scan_state" where
  "scan_step blocks ls read st =
     (let r = read ! scan_index st;
          page = fragment_page blocks (ls ! scan_index st);
          toc = (if scan_toc_page st \<noteq> None \<and> scan_toc_page st \<noteq> Some page then None else scan_toc_page st);
          toc' = (if rl_toc r then Some page else toc);
          uncertain = (rl_kind r = HeadingLike \<or> toc' \<noteq> None);
          marked = (if uncertain \<or> (rl_kind r = HeadingLine \<and> \<not> rl_starts_unit r)
            then mark_last (scan_clauses st) else scan_clauses st)
      in scan_line blocks ls read uncertain (st\<lparr>scan_clauses := marked, scan_toc_page := toc'\<rparr>))"

partial_function (option) scan ::
  "(string \<Rightarrow> normalized_block option) \<Rightarrow> source_fragment list \<Rightarrow> read_line list \<Rightarrow> scan_state \<Rightarrow> source_clause list option" where
  "scan blocks ls read st =
     (if scan_index st < length ls then scan blocks ls read (scan_step blocks ls read st)
      else Some (scan_clauses st))"

declare scan.simps [code]

definition contract_sources ::
  "unicode \<Rightarrow> (string \<Rightarrow> (nat \<times> nat) list) \<Rightarrow> normalized_document \<Rightarrow> heading_grammar \<Rightarrow> source_clause list option" where
  "contract_sources u ranges document grammar =
     (let blocks = blocks_by_id (document_blocks document);
          ls = source_lines ranges document
      in scan blocks ls (read_lines u blocks ls grammar)
           \<lparr>scan_clauses = [], scan_stack = [], scan_markers = {}, scan_index = 0, scan_toc_page = None\<rparr>)"

definition contract_sources_for_policy ::
  "unicode \<Rightarrow> normalized_document \<Rightarrow> policy \<Rightarrow> heading_grammar \<Rightarrow> source_clause list option" where
  "contract_sources_for_policy u document pol grammar =
     contract_sources u (retained_ranges (for_policy u document pol)) document grammar"

section \<open>Sections\<close>

text \<open>The loop that climbs from a clause to the root or past it.\<close>

partial_function (option) climb :: "source_clause list \<Rightarrow> nat \<Rightarrow> nat option \<Rightarrow> nat option option" where
  "climb clauses root parent =
     (case parent of
        None \<Rightarrow> Some None
      | Some n \<Rightarrow> if n = root then Some (Some n) else climb clauses root (sc_parent (clauses ! n)))"

declare climb.simps [code]

fun collect_members :: "source_clause list \<Rightarrow> nat \<Rightarrow> nat list \<Rightarrow> nat list \<Rightarrow> nat list option" where
  "collect_members clauses root result [] = Some result"
| "collect_members clauses root result (index # rest) =
     (case climb clauses root (sc_parent (clauses ! index)) of
        None \<Rightarrow> None
      | Some parent \<Rightarrow>
          if parent \<noteq> Some root then Some result
          else collect_members clauses root (result @ [index]) rest)"

definition section_members :: "source_clause list \<Rightarrow> nat \<Rightarrow> nat list option" where
  "section_members clauses root = collect_members clauses root [root] [Suc root..<length clauses]"

definition clause_source_text :: "(string \<Rightarrow> normalized_block option) \<Rightarrow> source_clause \<Rightarrow> string" where
  "clause_source_text blocks clause = join [CHR 0x0A, CHR 0x0A] (map (fragment_text blocks) (sc_fragments clause))"

end
