(* ===== verification/Clause_Correct.thy ===== *)
theory Clause_Correct
  imports Clause_Scan
begin

text \<open>
  The scan of \<open>Clause_Scan\<close> ends on every document, loses no line and invents no text: the lines are
  split into one non-empty group per clause, in order, and a clause refers to exactly the ranges that
  its group merges to. Parents come before their children, so the climb to the root of a section
  ends too.
\<close>

section \<open>The passes keep the line counts\<close>

definition counts_ok :: "nat \<Rightarrow> read_line list \<Rightarrow> bool" where
  "counts_ok n read \<longleftrightarrow> length read = n
     \<and> (\<forall>i < n. rl_article_lines (read ! i) = 1 \<or> (rl_article_lines (read ! i) = 2 \<and> Suc i < n))"

lemma foldl_invariant:
  assumes "P st" "\<And>st i. i \<in> set is \<Longrightarrow> P st \<Longrightarrow> P (f st i)"
  shows "P (foldl f st is)"
  using assms by (induction "is" arbitrary: st) auto

lemma counts_ok_update:
  assumes "counts_ok n read" "i < n" "rl_article_lines r = 1 \<or> (rl_article_lines r = 2 \<and> Suc i < n)"
  shows "counts_ok n (read[i := r])"
  using assms by (auto simp: counts_ok_def nth_list_update)

lemma join_article_counts:
  assumes "counts_ok n read" "Suc i < n"
  shows "counts_ok n (join_article u blocks ls read i)"
proof -
  have same: "rl_article_lines (read ! Suc i) = 1 \<or> (rl_article_lines (read ! Suc i) = 2 \<and> Suc (Suc i) < n)"
    using assms by (auto simp: counts_ok_def)
  show ?thesis
    using assms same by (auto simp: join_article_def Let_def intro!: counts_ok_update split: option.split)
qed

text \<open>The other two passes change one line and leave its count.\<close>

definition touches :: "read_line list \<Rightarrow> nat \<Rightarrow> read_line list \<times> 'b \<Rightarrow> bool" where
  "touches read i st \<longleftrightarrow> (\<exists>r. fst st = read[i := r] \<and> rl_article_lines r = rl_article_lines (read ! i))"

lemma touches_update: "rl_article_lines r = rl_article_lines (read ! i) \<Longrightarrow> touches read i (read[i := r], b)"
  by (auto simp: touches_def)

lemma touches_same: "touches read i (read, b)"
  unfolding touches_def by (intro exI [where x = "read ! i"]) simp

lemma touches_counts:
  assumes "touches (fst st) i st'" "counts_ok n (fst st)" "i < n"
  shows "counts_ok n (fst st')"
  using assms by (auto simp: touches_def intro!: counts_ok_update) (auto simp: counts_ok_def)

lemma admit_roman_touches: "touches read i (admit_roman (read, last_roman) i)"
  unfolding admit_roman_def Let_def prod.case
  by (simp only: if_split, intro conjI impI touches_same touches_update) (simp_all split: if_split)

lemma settle_article_lines [simp]:
  "rl_article_lines (settle_heading r leading) = rl_article_lines r"
  "rl_article_lines (settle_plain r starts in_opening) = rl_article_lines r"
  "rl_article_lines (fst (settle_marked u r in_opening)) = rl_article_lines r"
  by (simp_all add: settle_heading_def settle_plain_def settle_marked_def Let_def)

lemma settle_line_article_lines [simp]:
  "rl_article_lines (fst (settle_line u r starts next_numbered in_opening)) = rl_article_lines r"
  by (simp add: settle_line_def)

lemma touches_case:
  "rl_article_lines (fst p) = rl_article_lines (read ! i) \<Longrightarrow> touches read i (case p of (r, b) \<Rightarrow> (read[i := r], b))"
  by (cases p) (simp add: touches_update)

lemma settle_kind_touches: "touches read i (settle_kind u (read, in_opening) i)"
  unfolding settle_kind_def Let_def prod.case by (rule touches_case) simp

text \<open>The line reader computes its fields one after the other.\<close>

lemma article_lines_let:
  "(\<And>x. rl_article_lines (f x) = n) \<Longrightarrow> rl_article_lines (Let t f) = n"
  "(\<And>a b. rl_article_lines (g a b) = n) \<Longrightarrow> rl_article_lines (case p of (a, b) \<Rightarrow> g a b) = n"
  by (simp_all split: prod.split)

lemma read_line_of_article_lines: "rl_article_lines (read_line_of u s grammar) = 1"
  unfolding read_line_of_def by (intro article_lines_let) (simp only: read_line.simps)

lemma admit_roman_counts: "counts_ok n (fst st) \<Longrightarrow> i < n \<Longrightarrow> counts_ok n (fst (admit_roman st i))"
  using touches_counts [of st i "admit_roman st i" n] admit_roman_touches [of "fst st" i "snd st"] by simp

lemma settle_kind_counts: "counts_ok n (fst st) \<Longrightarrow> i < n \<Longrightarrow> counts_ok n (fst (settle_kind u st i))"
  using touches_counts [of st i "settle_kind u st i" n] settle_kind_touches [of "fst st" i u "snd st"] by simp

lemma read_lines_counts: "counts_ok (length ls) (read_lines u blocks ls grammar)"
proof -
  let ?n = "length ls"
  define read where "read = map (\<lambda>f. read_line_of u (fragment_text blocks f) grammar) ls"
  define joined where "joined = foldl (join_article u blocks ls) read [0..<length read - 1]"
  define roman where "roman = foldl admit_roman (joined, None) [0..<length joined]"
  have read: "counts_ok ?n read" by (simp add: counts_ok_def read_def read_line_of_article_lines)
  then have "length read = ?n" by (simp add: counts_ok_def)
  then have steps: "Suc i < ?n" if "i \<in> set [0..<length read - 1]" for i
    using that by auto
  have joined: "counts_ok ?n joined"
    unfolding joined_def
    by (rule foldl_invariant [where P = "counts_ok ?n", OF read]) (rule join_article_counts, assumption, erule steps)
  then have len: "length joined = ?n" by (simp add: counts_ok_def)
  have "counts_ok ?n (fst (joined, None))" using joined by simp
  then have roman: "counts_ok ?n (fst roman)"
    unfolding roman_def
    by (rule foldl_invariant [where P = "\<lambda>st. counts_ok ?n (fst st)"]) (rule admit_roman_counts, simp_all add: len)
  then have len': "length (fst roman) = ?n" by (simp add: counts_ok_def)
  have "counts_ok ?n (fst (fst roman, True))" using roman by simp
  then have "counts_ok ?n (fst (foldl (settle_kind u) (fst roman, True) [0..<length (fst roman)]))"
    by (rule foldl_invariant [where P = "\<lambda>st. counts_ok ?n (fst st)"]) (rule settle_kind_counts, simp_all add: len')
  then show ?thesis
    unfolding read_lines_def Let_def split_def by (simp add: roman_def joined_def read_def)
qed

section \<open>Clauses and their lines\<close>

text \<open>Adding a line to the ranges of a clause: a range is extended across white space.\<close>

definition merge_fragment ::
  "(string \<Rightarrow> normalized_block option) \<Rightarrow> source_fragment list \<Rightarrow> source_fragment \<Rightarrow> source_fragment list" where
  "merge_fragment blocks fs f =
     (if fs \<noteq> [] \<and> sf_block (last fs) = sf_block f \<and> sf_end (last fs) \<le> sf_start f
         \<and> blank (slice (block_text (the (blocks (sf_block f)))) (sf_end (last fs)) (sf_start f))
      then butlast fs @ [(last fs)\<lparr>sf_end := sf_end f\<rparr>]
      else fs @ [f])"

definition merged :: "(string \<Rightarrow> normalized_block option) \<Rightarrow> source_fragment list \<Rightarrow> source_fragment list" where
  "merged blocks g = foldl (merge_fragment blocks) [] g"

lemma merged_one [simp]: "merged blocks [f] = [f]"
  by (simp add: merged_def merge_fragment_def)

lemma merged_snoc: "merged blocks (g @ [f]) = merge_fragment blocks (merged blocks g) f"
  by (simp add: merged_def)

lemma append_source_simps [simp]:
  "sc_fragments (append_source blocks c f) = merge_fragment blocks (sc_fragments c) f"
  "sc_parent (append_source blocks c f) = sc_parent c"
  by (auto simp: append_source_def merge_fragment_def Let_def)

definition shape :: "source_clause list \<Rightarrow> (source_fragment list \<times> nat option) list" where
  "shape clauses = map (\<lambda>c. (sc_fragments c, sc_parent c)) clauses"

lemma length_shape [simp]: "length (shape clauses) = length clauses"
  by (simp add: shape_def)

lemma shape_append [simp]: "shape (xs @ ys) = shape xs @ shape ys"
  by (simp add: shape_def)

lemma shape_Cons [simp]: "shape (c # cs) = (sc_fragments c, sc_parent c) # shape cs"
  by (simp add: shape_def)

lemma shape_Nil [simp]: "shape [] = []"
  by (simp add: shape_def)

lemma shape_mark_last [simp]: "shape (mark_last clauses) = shape clauses"
  by (cases clauses rule: rev_cases) (simp_all add: mark_last_def)

lemma shape_update:
  "sc_fragments c = sc_fragments (clauses ! i) \<Longrightarrow> sc_parent c = sc_parent (clauses ! i) \<Longrightarrow> shape (clauses[i := c]) = shape clauses"
  by (cases "i < length clauses") (simp_all add: shape_def map_update list_update_same_conv list_update_beyond not_less)

lemma pop_ancestors_shape:
  "pop_ancestors number marked markers clauses stack uncertain = (clauses', stack', uncertain') \<Longrightarrow>
     shape clauses' = shape clauses \<and> set stack' \<subseteq> set stack"
  by (induction number marked markers clauses stack uncertain rule: pop_ancestors.induct)
    (auto simp: shape_update split: if_splits)

definition shape_inv ::
  "(string \<Rightarrow> normalized_block option) \<Rightarrow> source_fragment list \<Rightarrow> (source_fragment list \<times> nat option) list \<Rightarrow> bool" where
  "shape_inv blocks seen sh \<longleftrightarrow>
     (\<exists>gs. concat gs = seen \<and> list_all2 (\<lambda>g x. g \<noteq> [] \<and> fst x = merged blocks g) gs sh)
     \<and> (\<forall>k < length sh. \<forall>p. snd (sh ! k) = Some p \<longrightarrow> p < k)"

lemma shape_inv_new:
  assumes "shape_inv blocks seen sh" "g \<noteq> []" "fs = merged blocks g" "\<And>p. parent = Some p \<Longrightarrow> p < length sh"
  shows "shape_inv blocks (seen @ g) (sh @ [(fs, parent)])"
proof -
  from assms(1) obtain gs where gs: "concat gs = seen" "list_all2 (\<lambda>g x. g \<noteq> [] \<and> fst x = merged blocks g) gs sh"
    and parents: "\<forall>k < length sh. \<forall>p. snd (sh ! k) = Some p \<longrightarrow> p < k" by (auto simp: shape_inv_def)
  have "\<exists>gs'. concat gs' = seen @ g \<and> list_all2 (\<lambda>g x. g \<noteq> [] \<and> fst x = merged blocks g) gs' (sh @ [(fs, parent)])"
    using gs assms(2,3) by (intro exI [where x = "gs @ [g]"]) (simp add: list_all2_appendI)
  moreover have "\<forall>k < length (sh @ [(fs, parent)]). \<forall>p. snd ((sh @ [(fs, parent)]) ! k) = Some p \<longrightarrow> p < k"
    using parents assms(4) by (auto simp: nth_append less_Suc_eq)
  ultimately show ?thesis by (simp add: shape_inv_def)
qed

lemma shape_inv_continue:
  assumes "shape_inv blocks seen (sh @ [(fs, parent)])"
  shows "shape_inv blocks (seen @ [f]) (sh @ [(merge_fragment blocks fs f, parent)])"
proof -
  from assms obtain gs where gs: "concat gs = seen"
      "list_all2 (\<lambda>g x. g \<noteq> [] \<and> fst x = merged blocks g) gs (sh @ [(fs, parent)])"
    and parents: "\<forall>k < Suc (length sh). \<forall>p. snd ((sh @ [(fs, parent)]) ! k) = Some p \<longrightarrow> p < k" by (auto simp: shape_inv_def)
  from gs(2) obtain gs0 g where split: "gs = gs0 @ [g]" "list_all2 (\<lambda>g x. g \<noteq> [] \<and> fst x = merged blocks g) gs0 sh"
      "g \<noteq> []" "fs = merged blocks g"
    by (auto simp: list_all2_append2 list_all2_Cons2)
  have "\<exists>gs'. concat gs' = seen @ [f]
      \<and> list_all2 (\<lambda>g x. g \<noteq> [] \<and> fst x = merged blocks g) gs' (sh @ [(merge_fragment blocks fs f, parent)])"
    using gs(1) split by (intro exI [where x = "gs0 @ [g @ [f]]"]) (auto simp: merged_snoc intro!: list_all2_appendI)
  moreover have "snd ((sh @ [(merge_fragment blocks fs f, parent)]) ! k) = snd ((sh @ [(fs, parent)]) ! k)" if "k < Suc (length sh)" for k
    using that by (auto simp: nth_append less_Suc_eq)
  ultimately show ?thesis using parents by (simp add: shape_inv_def)
qed

definition scan_inv ::
  "(string \<Rightarrow> normalized_block option) \<Rightarrow> source_fragment list \<Rightarrow> scan_state \<Rightarrow> bool" where
  "scan_inv blocks ls st \<longleftrightarrow>
     scan_index st \<le> length ls
     \<and> shape_inv blocks (take (scan_index st) ls) (shape (scan_clauses st))
     \<and> (\<forall>n \<in> set (scan_stack st). n < length (scan_clauses st))"

lemma take_two: "Suc i < length xs \<Longrightarrow> take (Suc (Suc i)) xs = take i xs @ [xs ! i, xs ! Suc i]"
  by (simp add: take_Suc_conv_app_nth)

lemma merged_two: "merged blocks [f, f'] = merge_fragment blocks [f] f'"
  using merged_snoc [of blocks "[f]" f'] by simp

lemma merge_into_empty [simp]: "merge_fragment blocks [] f = [f]"
  by (simp add: merge_fragment_def)

lemma open_article_inv:
  assumes inv: "scan_inv blocks ls st" and i: "scan_index st < length ls" and counts: "counts_ok (length ls) read"
  shows "scan_inv blocks ls (open_article blocks ls read article title uncertain st)"
    "scan_index st < scan_index (open_article blocks ls read article title uncertain st)"
proof -
  let ?i = "scan_index st"
  consider "rl_article_lines (read ! ?i) = 1" | "rl_article_lines (read ! ?i) = 2" "Suc ?i < length ls"
    using counts i by (auto simp: counts_ok_def)
  then show "scan_inv blocks ls (open_article blocks ls read article title uncertain st)"
  proof cases
    case 1
    with inv i show ?thesis
      using shape_inv_new [of blocks "take ?i ls" "shape (scan_clauses st)" "[ls ! ?i]" "[ls ! ?i]" None]
      by (auto simp: scan_inv_def open_article_def Let_def take_Suc_conv_app_nth)
  next
    case 2
    with inv i show ?thesis
      using shape_inv_new [of blocks "take ?i ls" "shape (scan_clauses st)" "[ls ! ?i, ls ! Suc ?i]"
        "merged blocks [ls ! ?i, ls ! Suc ?i]" None]
      by (auto simp: scan_inv_def open_article_def Let_def take_two merged_two)
  qed
  show "?i < scan_index (open_article blocks ls read article title uncertain st)"
    using counts i by (auto simp: open_article_def Let_def counts_ok_def)
qed

lemma stack_top_bound: "\<forall>n \<in> set stack. n < k \<Longrightarrow> stack_top stack = Some p \<Longrightarrow> p < k"
  by (cases stack) (auto simp: stack_top_def)

text \<open>What the numbered step leaves, in terms of its ancestors.\<close>

lemma open_numbered_inv:
  assumes inv: "scan_inv blocks ls st" and j: "j < length ls"
    and leading: "(leading = None \<and> j = scan_index st) \<or> (\<exists>h. leading = Some (ls ! scan_index st, h) \<and> j = Suc (scan_index st))"
  shows "scan_inv blocks ls (open_numbered blocks ls read j leading number rest uncertain st)"
proof -
  let ?i = "scan_index st"
  obtain clauses0 stack0 uncertain0 where pop:
    "pop_ancestors number (rl_section_marked (read ! j)) (scan_markers st) (scan_clauses st) (scan_stack st) uncertain
       = (clauses0, stack0, uncertain0)" by (metis prod_cases3)
  note popped = pop_ancestors_shape [OF pop]
  have len0: "length clauses0 = length (scan_clauses st)" using popped length_shape by metis
  have sh0: "shape_inv blocks (take ?i ls) (shape clauses0)" using inv popped by (simp add: scan_inv_def)
  have st0: "\<forall>n \<in> set stack0. n < length clauses0" using inv popped len0 by (auto simp: scan_inv_def)
  obtain title has_body where ct: "contract_title rest = (title, has_body)" by (metis prod.exhaust)
  note unfold = scan_inv_def open_numbered_def Let_def pop ct
  have one: "shape_inv blocks (take j ls @ [ls ! j]) (sh @ [([ls ! j], parent)])"
    if "shape_inv blocks (take j ls) sh" "\<And>p. parent = Some p \<Longrightarrow> p < length sh" for sh parent
    using shape_inv_new [OF that(1), of "[ls ! j]" "[ls ! j]" parent] that(2) by simp
  from leading show ?thesis
  proof (elim disjE exE conjE)
    assume none: "leading = None" and ji: "j = ?i"
    from one [of "shape clauses0" "stack_top stack0"] sh0 st0 j none stack_top_bound [OF st0] show ?thesis
      by (auto simp: unfold pop [unfolded ji] ji take_Suc_conv_app_nth)
  next
    fix h assume l: "leading = Some (ls ! ?i, h)" and ji: "j = Suc ?i"
    have two: "take (Suc j) ls = take ?i ls @ [ls ! ?i, ls ! j]" using j ji take_two by simp
    have step: "take j ls = take ?i ls @ [ls ! ?i]" using j ji by (simp add: take_Suc_conv_app_nth)
    show ?thesis
    proof (cases "1 < length number \<and> \<not> list_ex (\<lambda>n. sc_number (clauses0 ! n) = Some (butlast number)) stack0")
      case True
      have "shape_inv blocks (take j ls) (shape clauses0 @ [([ls ! ?i], stack_top stack0)])"
        using shape_inv_new [OF sh0, of "[ls ! ?i]" "[ls ! ?i]" "stack_top stack0"] stack_top_bound [OF st0]
        by (simp add: step)
      from one [OF this, of "Some (length clauses0)"] True st0 j l show ?thesis
        by (auto simp: unfold take_Suc_conv_app_nth stack_top_def)
    next
      case False
      have "shape_inv blocks (take (Suc j) ls) (shape clauses0 @ [(merge_fragment blocks [ls ! ?i] (ls ! j), stack_top stack0)])"
        using shape_inv_new [OF sh0, of "[ls ! ?i, ls ! j]" "merged blocks [ls ! ?i, ls ! j]" "stack_top stack0"]
          stack_top_bound [OF st0]
        by (simp add: two merged_two)
      with False st0 j l show ?thesis by (auto simp: unfold)
    qed
  qed
qed

lemma open_numbered_index: "scan_index (open_numbered blocks ls read j leading number rest uncertain st) = Suc j"
  by (simp add: open_numbered_def Let_def split: prod.split option.split)

lemma continue_clause_inv:
  assumes inv: "scan_inv blocks ls st" and i: "scan_index st < length ls"
  shows "scan_inv blocks ls (continue_clause blocks (ls ! scan_index st) uncertain st)"
proof (cases "scan_clauses st" rule: rev_cases)
  case Nil
  with inv i show ?thesis
    using shape_inv_new [of blocks "take (scan_index st) ls" "[]" "[ls ! scan_index st]" "[ls ! scan_index st]" None]
    by (auto simp: scan_inv_def continue_clause_def Let_def take_Suc_conv_app_nth shape_def)
next
  case (snoc cs c)
  with inv i show ?thesis
    using shape_inv_continue [of blocks "take (scan_index st) ls" "shape cs" "sc_fragments c" "sc_parent c" "ls ! scan_index st"]
    by (auto simp: scan_inv_def continue_clause_def Let_def take_Suc_conv_app_nth)
qed

section \<open>The scan ends\<close>

lemma scan_line_inv:
  assumes inv: "scan_inv blocks ls st" and i: "scan_index st < length ls" and counts: "counts_ok (length ls) read"
  shows "scan_inv blocks ls (scan_line blocks ls read uncertain st)
    \<and> scan_index st < scan_index (scan_line blocks ls read uncertain st)"
proof -
  let ?i = "scan_index st"
  have article: "scan_inv blocks ls (open_article blocks ls read a title uncertain st)
      \<and> ?i < scan_index (open_article blocks ls read a title uncertain st)" for a title
    using open_article_inv [OF inv i counts] by blast
  have numbered: "scan_inv blocks ls (open_numbered blocks ls read ?i None number rest uncertain st)
      \<and> ?i < scan_index (open_numbered blocks ls read ?i None number rest uncertain st)" for number rest
    using open_numbered_inv [OF inv i] by (simp add: open_numbered_index)
  have leading: "scan_inv blocks ls (open_numbered blocks ls read (Suc ?i) (Some (ls ! ?i, h)) number rest uncertain st)
      \<and> ?i < scan_index (open_numbered blocks ls read (Suc ?i) (Some (ls ! ?i, h)) number rest uncertain st)"
    if "Suc ?i < length ls" for h number rest
    using open_numbered_inv [OF inv that] by (simp add: open_numbered_index)
  have continued: "scan_inv blocks ls (continue_clause blocks (ls ! ?i) uncertain st)
      \<and> ?i < scan_index (continue_clause blocks (ls ! ?i) uncertain st)"
    using continue_clause_inv [OF inv i] by (simp add: continue_clause_def Let_def)
  show ?thesis
    unfolding scan_line_def Let_def using article numbered leading continued
    by (simp split: option.split prod.split)
qed

lemma scan_step_inv:
  assumes inv: "scan_inv blocks ls st" and i: "scan_index st < length ls" and counts: "counts_ok (length ls) read"
  shows "scan_inv blocks ls (scan_step blocks ls read st) \<and> scan_index st < scan_index (scan_step blocks ls read st)"
proof -
  have "scan_inv blocks ls (st\<lparr>scan_clauses := c, scan_toc_page := t\<rparr>)" if "shape c = shape (scan_clauses st)" for c t
  proof -
    have "length c = length (scan_clauses st)" using that length_shape by metis
    with inv that show ?thesis by (simp add: scan_inv_def)
  qed
  note marked = scan_line_inv [OF this _ counts, simplified]
  show ?thesis
    unfolding scan_step_def Let_def by (rule marked) (simp_all add: i)
qed

lemma scan_total:
  assumes "scan_inv blocks ls st" "counts_ok (length ls) read"
  shows "\<exists>clauses. scan blocks ls read st = Some clauses \<and> shape_inv blocks ls (shape clauses)"
  using assms(1)
proof (induction "length ls - scan_index st" arbitrary: st rule: less_induct)
  case less
  show ?case
  proof (cases "scan_index st < length ls")
    case True
    note step = scan_step_inv [OF less.prems True assms(2)]
    then have "length ls - scan_index (scan_step blocks ls read st) < length ls - scan_index st"
      using True by linarith
    from less.hyps [OF this] step True show ?thesis by (subst scan.simps) simp
  next
    case False
    with less.prems show ?thesis by (subst scan.simps) (simp add: scan_inv_def)
  qed
qed

definition parents_first :: "source_clause list \<Rightarrow> bool" where
  "parents_first clauses \<longleftrightarrow> (\<forall>k < length clauses. \<forall>p. sc_parent (clauses ! k) = Some p \<longrightarrow> p < k)"

text \<open>The clauses hold exactly the lines, in order: one group of lines each, merged to its ranges.\<close>

definition holds_lines ::
  "(string \<Rightarrow> normalized_block option) \<Rightarrow> source_fragment list \<Rightarrow> source_clause list \<Rightarrow> bool" where
  "holds_lines blocks ls clauses \<longleftrightarrow>
     (\<exists>groups. concat groups = ls \<and> [] \<notin> set groups \<and> map sc_fragments clauses = map (merged blocks) groups)"

lemma shape_inv_clauses:
  assumes "shape_inv blocks ls (shape clauses)"
  shows "holds_lines blocks ls clauses" "parents_first clauses"
proof -
  from assms obtain gs where gs: "concat gs = ls"
    "list_all2 (\<lambda>g x. g \<noteq> [] \<and> fst x = merged blocks g) gs (shape clauses)" by (auto simp: shape_inv_def)
  have "list_all2 (\<lambda>g c. g \<noteq> [] \<and> sc_fragments c = merged blocks g) gs clauses"
    using gs(2) by (simp add: shape_def list_all2_map2)
  then have "[] \<notin> set gs \<and> map sc_fragments clauses = map (merged blocks) gs"
    by (induction rule: list_all2_induct) auto
  with gs(1) show "holds_lines blocks ls clauses" by (auto simp: holds_lines_def)
  show "parents_first clauses" using assms by (auto simp: shape_inv_def parents_first_def shape_def)
qed

lemma contract_sources_Some:
  "\<exists>clauses. contract_sources u ranges document grammar = Some clauses
     \<and> holds_lines (blocks_by_id (document_blocks document)) (source_lines ranges document) clauses
     \<and> parents_first clauses"
proof -
  let ?blocks = "blocks_by_id (document_blocks document)" and ?ls = "source_lines ranges document"
  let ?st = "\<lparr>scan_clauses = [], scan_stack = [], scan_markers = {}, scan_index = 0, scan_toc_page = None\<rparr>"
  have "scan_inv ?blocks ?ls ?st" by (simp add: scan_inv_def shape_inv_def)
  from scan_total [OF this read_lines_counts] shape_inv_clauses show ?thesis
    unfolding contract_sources_def Let_def by blast
qed

section \<open>Sections\<close>

text \<open>\<open>descends\<close> is the relation a section is meant to collect.\<close>

inductive descends :: "source_clause list \<Rightarrow> nat \<Rightarrow> nat \<Rightarrow> bool" for clauses root where
  child: "sc_parent (clauses ! i) = Some root \<Longrightarrow> descends clauses root i"
| deeper: "sc_parent (clauses ! i) = Some p \<Longrightarrow> descends clauses root p \<Longrightarrow> descends clauses root i"

inductive_simps descends_unfold: "descends clauses root i"

lemma climb_total:
  assumes "parents_first clauses" "i < length clauses"
  shows "climb clauses root (sc_parent (clauses ! i)) = Some (if descends clauses root i then Some root else None)"
  using assms(2)
proof (induction i rule: less_induct)
  case (less i)
  show ?case
  proof (cases "sc_parent (clauses ! i)")
    case None
    then show ?thesis by (subst climb.simps) (simp add: descends_unfold [of clauses root i])
  next
    case (Some p)
    then have "p < i" using assms(1) less.prems by (auto simp: parents_first_def)
    with less.IH [of p] less.prems Some show ?thesis
      by (subst climb.simps) (auto simp: descends_unfold [of clauses root i])
  qed
qed

lemma collect_members_takeWhile:
  assumes "parents_first clauses" "\<forall>i \<in> set rest. i < length clauses"
  shows "collect_members clauses root result rest = Some (result @ takeWhile (descends clauses root) rest)"
  using assms(2) by (induction rest arbitrary: result) (simp_all add: climb_total [OF assms(1)])

lemma section_members_run:
  "parents_first clauses \<Longrightarrow>
     section_members clauses root = Some (root # takeWhile (descends clauses root) [Suc root..<length clauses])"
  unfolding section_members_def by (subst collect_members_takeWhile) simp_all

section \<open>Properties\<close>


text \<open>The climbing loop of a section ends on the clauses of every document, and the members of a section
  are its root and the longest run of clauses after it that descend from it.\<close>

theorem section_members_total:
  "\<exists>clauses. contract_sources u ranges document grammar = Some clauses
     \<and> section_members clauses root = Some (root # takeWhile (descends clauses root) [Suc root..<length clauses])"
  using contract_sources_Some [of u ranges document grammar] section_members_run by blast

end
