(* ===== verification/Contract_Extraction.thy ===== *)
theory Contract_Extraction
  imports Clause_Correct Model_Requests
begin

text \<open>
  \<open>summary/contract_extraction.rs\<close>: the contract profile copies the clauses of a contract with their
  source and makes no prose. \<open>analyze\<close>, \<open>synthesize\<close> and \<open>verify\<close> are its three stages, each with a
  validator that computes the stage again; \<open>select_key_terms\<close> finds the sections of six categories and
  \<open>render_units\<close> lays the result out. The scan into clauses and the members of a section are taken with
  \<open>the\<close>: \<open>Clause_Correct\<close> shows that both always return.
\<close>

section \<open>The boundary to the chunks\<close>

abbreviation boundary_invalid :: "string \<Rightarrow> pipeline_failure" where
  "boundary_invalid message \<equiv> stage_failure Analyze ''INVALID_NORMALIZED_CHUNK_BOUNDARY'' message False"

type_synonym block_index = "string \<Rightarrow> normalized_block option"

definition boundary_block ::
  "u32 \<Rightarrow> block_index \<times> string list \<Rightarrow> normalized_block \<Rightarrow> pipeline_failure + block_index \<times> string list" where
  "boundary_block page st b =
     (case st of (blocks, order) \<Rightarrow>
        if blank (block_id b) \<or> blank (block_text b) \<or> page_start (block_source b) \<noteq> page
           \<or> page_end (block_source b) \<noteq> page \<or> blocks (block_id b) \<noteq> None
        then Inl (boundary_invalid ''Normalized blocks must be unique, non-empty, and page-local'')
        else Inr (blocks(block_id b \<mapsto> b), order @ [block_id b]))"

definition boundary_page ::
  "block_index \<times> string list \<Rightarrow> nat \<times> normalized_page \<Rightarrow> pipeline_failure + block_index \<times> string list" where
  "boundary_page st x =
     (case x of (index, page) \<Rightarrow>
        res_bind (ok_or (u32_try_from (index + 1))
          (boundary_invalid ''Normalized page count exceeds the supported range'')) (\<lambda>expected.
        res_bind (ensure (page_number page = expected)
          (boundary_invalid ''Normalized pages must remain in canonical order'')) (\<lambda>_.
        res_fold (boundary_block (page_number page)) st (content page))))"

definition boundary_chunk_block :: "block_index \<Rightarrow> string \<times> source_span \<Rightarrow> pipeline_failure + normalized_block" where
  "boundary_chunk_block blocks x =
     (case x of (i, span) \<Rightarrow>
        res_bind (ok_or (blocks i) (boundary_invalid ''A chunk references an unknown normalized block'')) (\<lambda>b.
        res_bind (ensure (block_source b = span)
          (boundary_invalid ''Chunk provenance must equal authoritative normalized provenance'')) (\<lambda>_. Inr b)))"

definition boundary_chunk :: "block_index \<Rightarrow> string list \<Rightarrow> document_chunk \<Rightarrow> pipeline_failure + string list" where
  "boundary_chunk blocks order chunk =
     res_bind (res_collect (boundary_chunk_block blocks) (zip (chunk_block_ids chunk) (chunk_source_spans chunk))) (\<lambda>found.
     res_bind (ensure (join paragraph_break (map block_text found) = chunk_text chunk)
       (boundary_invalid ''Chunk text must equal its normalized source blocks'')) (\<lambda>_.
     Inr (order @ map fst (zip (chunk_block_ids chunk) (chunk_source_spans chunk)))))"

definition validate_normalized_chunk_boundary ::
  "normalized_document \<Rightarrow> chunked_document \<Rightarrow> pipeline_failure + block_index" where
  "validate_normalized_chunk_boundary normalized chunked =
     res_bind (ensure (normalized_document_id normalized = chunked_document_id chunked
         \<and> \<not> blank (normalization_version normalized))
       (boundary_invalid ''Normalized and chunked document identity/version must agree'')) (\<lambda>_.
     res_bind (res_fold boundary_page (Map.empty, []) (enumerate 0 (normalized_pages normalized))) (\<lambda>(blocks, order).
     res_bind (res_fold (boundary_chunk blocks) [] (chunks chunked)) (\<lambda>chunk_order.
     res_bind (ensure (chunk_order = order)
       (boundary_invalid ''Chunk block coverage must equal normalized source order exactly once'')) (\<lambda>_.
     Inr blocks))))"

section \<open>Versions\<close>

definition CONTRACT_VERSION :: string where "CONTRACT_VERSION = ''contract-extraction-3.3.0''"
definition PRE_HEADING_VERSION :: string where "PRE_HEADING_VERSION = ''contract-extraction-3.2.0''"
definition PREVIOUS_VERSION :: string where "PREVIOUS_VERSION = ''contract-extraction-3.1.2''"
definition SOURCE_VERSION :: string where "SOURCE_VERSION = ''contract-extraction-3.0.2''"
definition EXTRACTION_RUNTIME :: string where "EXTRACTION_RUNTIME = ''deterministic-source-extraction''"

definition version_supported :: "string \<Rightarrow> bool" where
  "version_supported version \<longleftrightarrow> version \<in> {CONTRACT_VERSION, PRE_HEADING_VERSION, PREVIOUS_VERSION}"

definition contract_invalid :: pipeline_failure where
  "contract_invalid = stage_failure Verify ''INVALID_CONTRACT_EXTRACTION''
     ''Contract records must exactly match complete source clauses and provenance'' False"

definition policy_of_version :: "string \<Rightarrow> pipeline_failure + policy" where
  "policy_of_version version =
     (if version = CONTRACT_VERSION \<or> version = PRE_HEADING_VERSION then Inr RunningMetadata
      else if version = PREVIOUS_VERSION then Inr OriginalFurniture
      else Inl contract_invalid)"

definition grammar_of_version :: "string \<Rightarrow> heading_grammar" where
  "grammar_of_version version = (if version = CONTRACT_VERSION then SectionAndSplitArticle else Original)"

section \<open>Key terms\<close>

fun category_label :: "contract_term_category \<Rightarrow> string" where
  "category_label Parties = ''parties''"
| "category_label Payment = ''payment''"
| "category_label TermRenewal = ''term/renewal''"
| "category_label Termination = ''termination''"
| "category_label Insurance = ''insurance''"
| "category_label LiabilityIndemnity = ''liability/indemnity''"

definition all_categories :: "contract_term_category list" where
  "all_categories = [Parties, Payment, TermRenewal, Termination, Insurance, LiabilityIndemnity]"

fun category_headings :: "contract_term_category \<Rightarrow> string list" where
  "category_headings Parties = [''parties'', ''parties to the agreement'', ''contracting parties'']"
| "category_headings Payment = [''payment'', ''payments'', ''payment terms'', ''fees'', ''compensation'', ''fees and payment'',
     ''contract price'', ''pricing'']"
| "category_headings TermRenewal = [''term'', ''duration'', ''renewal'', ''term and renewal'', ''term/renewal'',
     ''commencement and duration'', ''initial term'', ''renewal term'', ''term and termination'']"
| "category_headings Termination = [''termination'', ''termination of agreement'', ''termination of the agreement'',
     ''cancellation'', ''term and termination'']"
| "category_headings Insurance = [''insurance'', ''insurance requirements'', ''property insurance'']"
| "category_headings LiabilityIndemnity = [''liability'', ''limitation of liability'', ''indemnity'', ''indemnification'',
     ''liability and indemnity'', ''liability and indemnification'', ''hold harmless'', ''limitations of liability'']"

lemma split_once_str_shorter:
  "split_once_str pat acc s = Some (a, b) \<Longrightarrow> pat \<noteq> [] \<Longrightarrow> length b < length s"
  by (induction pat acc s rule: split_once_str.induct) (auto split: if_splits)

function split_str :: "string \<Rightarrow> string \<Rightarrow> string list" where
  "split_str pat s =
     (if pat = [] then [s]
      else case split_once_str pat [] s of None \<Rightarrow> [s] | Some (a, b) \<Rightarrow> a # split_str pat b)"
  by pat_completeness auto
termination
  by (relation "measure (length \<circ> snd)") (auto dest: split_once_str_shorter)

declare split_str.simps [simp del]

fun replace_char :: "char \<Rightarrow> string \<Rightarrow> string \<Rightarrow> string" where
  "replace_char c r [] = []"
| "replace_char c r (b # bs) = (if b = c then r else [b]) @ replace_char c r bs"

definition conjuncts :: "string \<Rightarrow> string list" where
  "conjuncts s =
     map trim (concat (map (split_str '' or '') (concat (map (split_str '' and '')
       (concat (map (split_at CHR '';'' []) (split_at CHR '','' [] s)))))))"

definition heading_matches :: "contract_term_category \<Rightarrow> string \<Rightarrow> bool" where
  "heading_matches category heading =
     (let heading = join '' '' (split_whitespace (replace_char CHR ''&'' '' and '' (to_ascii_lowercase heading)));
          headings = category_headings category; parts = conjuncts heading
      in heading \<in> set headings
         \<or> (parts \<noteq> [] \<and> (last parts \<in> set headings
              \<or> (length (split_whitespace (last parts)) = 1 \<and> list_ex (\<lambda>p. p \<in> set headings) (butlast parts)))))"

record selection_state =
  selected :: "nat set"
  found_selections :: "contract_section_selection list"
  uncertain_category :: bool

definition select_section ::
  "source_clause list \<Rightarrow> extracted_contract_clause list \<Rightarrow> contract_term_category \<Rightarrow> selection_state \<Rightarrow> nat \<Rightarrow> selection_state" where
  "select_section sources clauses category st index =
     (if index \<in> selected st \<or> \<not> list_ex (heading_matches category) (sc_headings (sources ! index)) then st
      else
        let members = the (section_members sources index)
        in if list_ex (\<lambda>i. sc_boundary_uncertain (sources ! i)) members then st\<lparr>uncertain_category := True\<rparr>
           else if length members = 1 \<and> sc_heading_only (sources ! index) then st
           else st\<lparr>selected := selected st \<union> set members,
             found_selections := found_selections st @
               [\<lparr>selection_rule = Heading, root_clause_id = clause_id (clauses ! index),
                 selected_clause_ids = map (\<lambda>i. clause_id (clauses ! i)) members\<rparr>]\<rparr>)"

definition says_between :: "unicode \<Rightarrow> string \<Rightarrow> bool" where
  "says_between u s = list_ex (\<lambda>w. to_ascii_lowercase w = ''between'') (runs (\<lambda>c. uc_alphanumeric u c \<or> c = 95) [] (utf8_chars s))"

definition opens_with_first_article :: "source_clause \<Rightarrow> bool" where
  "opens_with_first_article s \<longleftrightarrow> sc_article s = Some 1 \<or> sc_number s = Some [''1'']"

text \<open>The parties of a contract that names them before its first article.\<close>

definition select_opening ::
  "unicode \<Rightarrow> block_index \<Rightarrow> source_clause list \<Rightarrow> extracted_contract_clause list \<Rightarrow> selection_state \<Rightarrow> selection_state" where
  "select_opening u blocks sources clauses st =
     (case first_index (\<lambda>s. \<not> sc_opening s) sources of
        None \<Rightarrow> st
      | Some n \<Rightarrow>
          if \<not> opens_with_first_article (sources ! n) then st
          else if list_ex sc_boundary_uncertain (take n sources) then st\<lparr>uncertain_category := True\<rparr>
          else if list_ex (\<lambda>s. says_between u (clause_source_text blocks s)) (take n sources)
          then (case map clause_id (take n clauses) of
                  [] \<Rightarrow> st
                | root # ids \<Rightarrow> st\<lparr>found_selections := found_selections st @
                    [\<lparr>selection_rule = OpeningBetween, root_clause_id = root, selected_clause_ids = root # ids\<rparr>]\<rparr>)
          else st)"

definition select_key_term ::
  "unicode \<Rightarrow> block_index \<Rightarrow> source_clause list \<Rightarrow> extracted_contract_clause list \<Rightarrow> contract_term_category \<Rightarrow> contract_key_term" where
  "select_key_term u blocks sources clauses category =
     (let st = foldl (select_section sources clauses category)
            \<lparr>selected = {}, found_selections = [], uncertain_category = False\<rparr> [0..<length sources];
          st' = (if category = Parties \<and> found_selections st = [] then select_opening u blocks sources clauses st else st)
      in \<lparr>term_category = category, selections = (if uncertain_category st' then [] else found_selections st')\<rparr>)"

definition select_key_terms ::
  "unicode \<Rightarrow> block_index \<Rightarrow> source_clause list \<Rightarrow> extracted_contract_clause list \<Rightarrow> contract_key_term list" where
  "select_key_terms u blocks sources clauses = map (select_key_term u blocks sources clauses) all_categories"

section \<open>Records\<close>

definition fragment_evidence ::
  "(string \<Rightarrow> string) \<Rightarrow> string \<Rightarrow> block_index \<Rightarrow> document_chunk list \<Rightarrow> source_fragment \<Rightarrow> pipeline_failure + evidence_item" where
  "fragment_evidence sha document blocks cs f =
     res_bind (ok_or (find (\<lambda>c. sf_block f \<in> set (chunk_block_ids c)) cs) contract_invalid) (\<lambda>chunk.
     let quote = slice (block_text (the (blocks (sf_block f)))) (sf_start f) (sf_end f)
     in Inr \<lparr>evidence_id = deterministic_id sha ''contract-source''
           [SOURCE_VERSION, document, chunk_id chunk, sf_block f, show_nat (sf_start f), show_nat (sf_end f), quote],
         evidence_chunk_id = chunk_id chunk, evidence_block_id = sf_block f, evidence_claim_text = quote,
         evidence_exact_quote = quote, evidence_source_span = block_source (the (blocks (sf_block f)))\<rparr>)"

definition clause_record ::
  "(string \<Rightarrow> string) \<Rightarrow> string \<Rightarrow> block_index \<Rightarrow> document_chunk list \<Rightarrow> nat \<times> source_clause \<Rightarrow>
   pipeline_failure + extracted_contract_clause \<times> evidence_item list" where
  "clause_record sha document blocks cs x =
     (case x of (n, source) \<Rightarrow>
        res_bind (res_collect (fragment_evidence sha document blocks cs) (sc_fragments source)) (\<lambda>items.
        let body = clause_source_text blocks source
        in Inr (\<lparr>clause_id = deterministic_id sha ''contract-clause'' [SOURCE_VERSION, document, show_nat n, body],
              clause_heading = (case sc_headings source of [] \<Rightarrow> None | h # _ \<Rightarrow> Some h),
              clause_text = body, clause_evidence_ids = map evidence_id items\<rparr>, items)))"

definition contract_records ::
  "(string \<Rightarrow> string) \<Rightarrow> unicode \<Rightarrow> chunked_document \<Rightarrow> normalized_document \<Rightarrow> string \<Rightarrow>
   pipeline_failure + contract_extraction \<times> evidence_item list" where
  "contract_records sha u chunked normalized version =
     res_bind (validate_normalized_chunk_boundary normalized chunked) (\<lambda>blocks.
     res_bind (policy_of_version version) (\<lambda>pol.
     let sources = the (contract_sources_for_policy u normalized pol (grammar_of_version version))
     in res_bind (res_collect (clause_record sha (normalized_document_id normalized) blocks (chunks chunked))
          (enumerate 0 sources)) (\<lambda>rows.
        res_bind (ensure (rows \<noteq> []) contract_invalid) (\<lambda>_.
        Inr (\<lparr>extraction_clauses = map fst rows,
              extraction_key_terms = select_key_terms u blocks sources (map fst rows)\<rparr>,
            concat (map snd rows))))))"

section \<open>Layout\<close>

record render_unit =
  unit_text :: string
  unit_clause_ids :: "string list"

definition index_line ::
  "(string \<Rightarrow> string option) \<Rightarrow> extracted_contract_clause \<times> cited_claim \<times> string \<Rightarrow> pipeline_failure + (string \<Rightarrow> string option)" where
  "index_line by_id x =
     (case x of (clause, claim, line) \<Rightarrow>
        if clause_id clause \<noteq> claim_id claim \<or> clause_text clause \<noteq> claim_text claim
           \<or> clause_evidence_ids clause \<noteq> claim_evidence_ids claim \<or> by_id (clause_id clause) \<noteq> None
        then Inl contract_invalid
        else Inr (by_id(clause_id clause \<mapsto> clause_id clause @ [CHR 0x0A] @ line)))"

definition quote_clause ::
  "(string \<Rightarrow> string option) \<Rightarrow> string set \<times> string list \<Rightarrow> string \<Rightarrow> pipeline_failure + string set \<times> string list" where
  "quote_clause by_id st i =
     (case st of (unique, quoted) \<Rightarrow>
        if i \<in> unique then Inl contract_invalid
        else case by_id i of
               None \<Rightarrow> Inl contract_invalid
             | Some line \<Rightarrow> Inr (insert i unique, quoted @ [line]))"

definition after_pending :: "string \<Rightarrow> string \<Rightarrow> string" where
  "after_pending pending s = (if pending = [] then s else pending @ paragraph_break @ s)"

definition render_selection ::
  "(string \<Rightarrow> string option) \<Rightarrow> string \<times> render_unit list \<Rightarrow> contract_section_selection \<Rightarrow> pipeline_failure + string \<times> render_unit list" where
  "render_selection by_id st selection =
     (case st of (pending, units) \<Rightarrow>
        if selected_clause_ids selection = [] \<or> hd (selected_clause_ids selection) \<noteq> root_clause_id selection
        then Inl contract_invalid
        else
          res_bind (res_fold (quote_clause by_id) ({}, []) (selected_clause_ids selection)) (\<lambda>(_, quoted).
          Inr ([], units @ [\<lparr>unit_text = after_pending pending (join paragraph_break quoted),
            unit_clause_ids = selected_clause_ids selection\<rparr>])))"

definition render_term ::
  "(string \<Rightarrow> string option) \<Rightarrow> string \<times> render_unit list \<Rightarrow> contract_key_term \<Rightarrow> pipeline_failure + string \<times> render_unit list" where
  "render_term by_id st key =
     (case st of (pending, units) \<Rightarrow>
        if selections key = []
        then Inr (pending @ paragraph_break @ category_label (term_category key) @ '': not identified'', units)
        else res_fold (render_selection by_id) (pending @ paragraph_break @ category_label (term_category key), units)
          (selections key))"

fun render_clauses :: "(string \<Rightarrow> string option) \<Rightarrow> string \<Rightarrow> extracted_contract_clause list \<Rightarrow> render_unit list" where
  "render_clauses by_id pending [] = []"
| "render_clauses by_id pending (clause # clauses) =
     \<lparr>unit_text = after_pending pending (the (by_id (clause_id clause))), unit_clause_ids = [clause_id clause]\<rparr>
     # render_clauses by_id [] clauses"

definition render_units ::
  "contract_extraction \<Rightarrow> cited_claim list \<Rightarrow> evidence_item list \<Rightarrow> pipeline_failure + render_unit list" where
  "render_units extraction claims evidence =
     res_bind (ensure (map term_category (extraction_key_terms extraction) = all_categories
         \<and> length claims = length (extraction_clauses extraction)) contract_invalid) (\<lambda>_.
     res_bind (render_claim_lines claims (evidence_by_id evidence)) (\<lambda>rows.
     res_bind (res_fold index_line Map.empty (zip (extraction_clauses extraction) (zip claims rows))) (\<lambda>by_id.
     res_bind (res_fold (render_term by_id) (''Key terms'', []) (extraction_key_terms extraction)) (\<lambda>(pending, units).
     Inr (units @ render_clauses by_id (after_pending pending ''Full clause list'') (extraction_clauses extraction))))))"

section \<open>The three stages\<close>

definition extraction_warning :: pipeline_warning where
  "extraction_warning = \<lparr>warning_code = ''CONTRACT_SOURCE_EXTRACTION'',
     warning_message = ''Contract clauses are extracted verbatim with source citations. They are not a legal interpretation; OCR-derived text still requires source review.'',
     warning_stage = Some Analyze\<rparr>"

definition contract_chunk :: "evidence_item list \<Rightarrow> document_chunk \<Rightarrow> chunk_analysis" where
  "contract_chunk evidence chunk =
     (let items = filter (\<lambda>e. evidence_chunk_id e = chunk_id chunk) evidence
      in \<lparr>analysis_chunk_id = chunk_id chunk, analysis_summary_text = join paragraph_break (map evidence_exact_quote items),
          analysis_source_spans = chunk_source_spans chunk, analysis_evidence = items\<rparr>)"

definition contract_inspected_pages :: "normalized_document \<Rightarrow> u32 list" where
  "contract_inspected_pages normalized =
     map page_number (filter (\<lambda>p. list_ex (\<lambda>b. \<not> blank (block_text b)) (content p)) (normalized_pages normalized))"

definition analyze_for_version ::
  "(string \<Rightarrow> string) \<Rightarrow> unicode \<Rightarrow> chunked_document \<Rightarrow> normalized_document \<Rightarrow> bool \<Rightarrow> string \<Rightarrow> pipeline_failure + analyzed_document" where
  "analyze_for_version sha u chunked normalized cancelled version =
     res_bind (cancellation_checkpoint cancelled Analyze) (\<lambda>_.
     res_bind (contract_records sha u chunked normalized version) (\<lambda>(_, evidence).
     res_bind (policy_of_version version) (\<lambda>pol.
     Inr \<lparr>analyzed_document_id = normalized_document_id normalized, analysis_version = version,
       analyzed_runtime_id = EXTRACTION_RUNTIME, analyzed_model_id = ''none'',
       analyzed_chunks = map (contract_chunk evidence) (chunks chunked),
       analyzed_warnings = normalized_warnings normalized
         @ (case furniture_warning (for_policy u normalized pol) of None \<Rightarrow> [] | Some w \<Rightarrow> [w]) @ [extraction_warning],
       omissions = [], inspected_pages = contract_inspected_pages normalized\<rparr>)))"

definition contract_analyze ::
  "(string \<Rightarrow> string) \<Rightarrow> unicode \<Rightarrow> chunked_document \<Rightarrow> normalized_document \<Rightarrow> bool \<Rightarrow> pipeline_failure + analyzed_document" where
  "contract_analyze sha u chunked normalized cancelled = analyze_for_version sha u chunked normalized cancelled CONTRACT_VERSION"

definition validate_contract_analysis ::
  "(string \<Rightarrow> string) \<Rightarrow> unicode \<Rightarrow> analyzed_document \<Rightarrow> chunked_document \<Rightarrow> normalized_document \<Rightarrow> pipeline_failure + unit" where
  "validate_contract_analysis sha u analyzed chunked normalized =
     res_bind (analyze_for_version sha u chunked normalized False (analysis_version analyzed)) (\<lambda>again.
     ensure (analyzed = again) contract_invalid)"

definition contract_claim :: "extracted_contract_clause \<Rightarrow> cited_claim" where
  "contract_claim c = \<lparr>claim_id = clause_id c, claim_text = clause_text c, claim_evidence_ids = clause_evidence_ids c\<rparr>"

definition contract_synthesize ::
  "(string \<Rightarrow> string) \<Rightarrow> unicode \<Rightarrow> analyzed_document \<Rightarrow> chunked_document \<Rightarrow> normalized_document \<Rightarrow> bool \<Rightarrow>
   pipeline_failure + synthesized_document" where
  "contract_synthesize sha u analyzed chunked normalized cancelled =
     res_bind (cancellation_checkpoint cancelled Synthesize) (\<lambda>_.
     res_bind (validate_contract_analysis sha u analyzed chunked normalized) (\<lambda>_.
     res_bind (contract_records sha u chunked normalized (analysis_version analyzed)) (\<lambda>(extraction, _).
     let claims = map contract_claim (extraction_clauses extraction)
     in res_bind (render_units extraction claims (ledger_evidence analyzed)) (\<lambda>units.
        Inr \<lparr>synthesized_extraction = Some extraction, synthesized_document_id = analyzed_document_id analyzed,
          synthesis_version = analysis_version analyzed, synthesized_runtime_id = EXTRACTION_RUNTIME,
          synthesized_model_id = ''none'', synthesized_presentation = StructuredExtraction,
          synthesized_text = join paragraph_break (map unit_text units),
          synthesized_chunk_ids = map chunk_id (chunks chunked), synthesized_summary_claims = [],
          synthesized_evidence = [], synthesized_claims = claims, synthesized_warnings = analyzed_warnings analyzed\<rparr>))))"

definition validate_contract_synthesis ::
  "(string \<Rightarrow> string) \<Rightarrow> unicode \<Rightarrow> synthesized_document \<Rightarrow> analyzed_document \<Rightarrow> chunked_document \<Rightarrow> normalized_document \<Rightarrow>
   pipeline_failure + unit" where
  "validate_contract_synthesis sha u synthesized analyzed chunked normalized =
     res_bind (contract_synthesize sha u analyzed chunked normalized False) (\<lambda>again.
     ensure (synthesized = again) contract_invalid)"

definition contract_verify ::
  "(string \<Rightarrow> string) \<Rightarrow> unicode \<Rightarrow> synthesized_document \<Rightarrow> analyzed_document \<Rightarrow> chunked_document \<Rightarrow> normalized_document \<Rightarrow> bool \<Rightarrow>
   pipeline_failure + verified_document" where
  "contract_verify sha u synthesized analyzed chunked normalized cancelled =
     res_bind (cancellation_checkpoint cancelled Verify) (\<lambda>_.
     res_bind (validate_contract_synthesis sha u synthesized analyzed chunked normalized) (\<lambda>_.
     Inr \<lparr>verified_extraction = synthesized_extraction synthesized,
       verified_document_id = synthesized_document_id synthesized,
       verification_version = synthesis_version synthesized, synthesis_attempt_ordinal = 0,
       verified_runtime_id = EXTRACTION_RUNTIME, verified_model_id = ''none'',
       verified_presentation = StructuredExtraction, verified_text = synthesized_text synthesized,
       verified_chunk_ids = synthesized_chunk_ids synthesized, verified_summary_claims = [], verified_evidence = [],
       summary_claim_verifications = [], verified_claims = synthesized_claims synthesized,
       claim_verifications = map (\<lambda>c. \<lparr>verified_claim_id = claim_id c, verified_evidence_ids = claim_evidence_ids c,
         verdict = Supported\<rparr>) (synthesized_claims synthesized),
       key_point_claim_ids = [], verified_warnings = synthesized_warnings synthesized\<rparr>))"

definition validate_contract_verified ::
  "(string \<Rightarrow> string) \<Rightarrow> unicode \<Rightarrow> verified_document \<Rightarrow> synthesized_document \<Rightarrow> analyzed_document \<Rightarrow> chunked_document \<Rightarrow>
   normalized_document \<Rightarrow> pipeline_failure + unit" where
  "validate_contract_verified sha u verified synthesized analyzed chunked normalized =
     res_bind (contract_verify sha u synthesized analyzed chunked normalized False) (\<lambda>again.
     ensure (verified = again) contract_invalid)"

end
