(* ===== verification/Contract_Sample.thy ===== *)
theory Contract_Sample
  imports Contract_Extraction
begin

text \<open>A contract of one line, with the ASCII tables: the furniture filter keeps its line.\<close>

definition line_span :: source_span where
  "line_span = \<lparr>page_start = 1, page_end = 1, section_id = None, span_source_type = NativeText\<rparr>"

definition line_block :: normalized_block where
  "line_block = \<lparr>block_id = ''b'', block_kind = Text, block_text = ''A'', block_source = line_span\<rparr>"

definition line_contract :: normalized_document where
  "line_contract =
     \<lparr>normalized_document_id = ''d'', normalization_version = ''1'',
      normalized_pages = [\<lparr>page_number = 1, content = [line_block], page_warnings = [], requires_visual_processing = False\<rparr>],
      normalized_warnings = []\<rparr>"

definition line_chunks :: chunked_document where
  "line_chunks =
     \<lparr>chunked_document_id = ''d'', chunking_version = ''1'',
      chunks = [\<lparr>chunk_id = ''c'', ordinal = 0, structure_node_id = ''n'', chunk_text = ''A'', chunk_block_ids = [''b''],
        chunk_source_spans = [line_span], chunk_warnings = []\<rparr>],
      chunked_warnings = []\<rparr>"

section \<open>Its characters\<close>

lemma A_chars [simp]: "utf8_chars ''A'' = [(65, ''A'')]" "utf8_chars ''a'' = [(97, ''a'')]"
    "utf8_chars ''b'' = [(98, ''b'')]" "utf8_chars ''1'' = [(49, ''1'')]"
  by (simp_all add: byte_def)

lemma A_not_blank [simp]: "\<not> blank ''A''" "\<not> blank ''b''" "\<not> blank ''1''"
  by (simp_all add: blank_def is_whitespace_def)

lemma A_text [simp]: "trim ''A'' = ''A''" "trim_start ''A'' = ''A''" "split_whitespace ''A'' = [''A'']" "split_whitespace ''a'' = [''a'']"
  by (simp_all add: trim_def trim_chars_def trim_start_def split_whitespace_def is_whitespace_def text_of_def)

lemma A_lower [simp]: "normalized_line ascii_tables ''A'' = ''a''"
proof -
  have "to_ascii_lowercase ''A'' = ''a''" by code_simp
  then show ?thesis by (simp add: normalized_line_def ascii_tables_def)
qed

lemma ascii_fields [simp]:
  "uc_alphanumeric ascii_tables = ascii_alphanumeric"
  by (simp add: ascii_tables_def)

lemma A_words [simp]:
  "\<not> operative ascii_tables ''A''"
  "\<not> numbered_heading ascii_tables ''A''"
  "\<not> edgar_header ascii_tables ''A''"
  "\<not> contains_str ''a'' ''copyright''"
  "\<not> contains_str ''a'' ''initials''"
  by (simp_all add: operative_def operative_words_def ascii_alphanumeric_def numbered_heading_def trim_start_sections_def
      split_once_char_def is_whitespace_def text_of_def edgar_header_def contains_str_def)

lemma A_no_key [simp]: "metadata_key ascii_tables ''A'' = None"
  by (simp add: metadata_key_def Let_def filing_label_def positive_u32_def parse_u32_std_def parse_u32_def all_digits_def
      is_ascii_digit_def byte_def date_label_def weekdays_def contains_any_def chars_any_def confidential_labels_def
      names_document_def document_kinds_def ends_with_def title_counter_def rsplit_once_str_def trim_end_of_def)

lemma A_no_number [simp]: "\<not> is_page_number ascii_tables ''A'' 1"
proof -
  have "show_nat 1 = ''1''" by code_simp
  then show ?thesis by (simp add: is_page_number_def Let_def strip_prefix_def page_counter_def)
qed

section \<open>Its ranges\<close>

lemma line_lines: "block_lines line_block = [(0, 1, ''A'')]"
  by (simp add: block_lines_def line_block_def)

lemma line_page_lines: "page_lines (hd (normalized_pages line_contract)) = [(line_block, 0, 1, ''A'')]"
  by (simp add: page_lines_def line_contract_def line_lines)

lemma line_side: "side_candidate ascii_tables [(line_block, 0, Suc 0, ''A'')] [None] 0 side 0 = None"
  by (simp add: side_candidate_def initials_key_def Let_def line_text_def last_index_def)

lemma line_no_candidates: "all_candidates ascii_tables RunningMetadata line_contract = []"
proof -
  have "line_candidates ascii_tables n 0 (hd (normalized_pages line_contract)) [(line_block, 0, 1, ''A'')] [None] 0 = []" for n
    by (simp add: line_candidates_def line_contract_def Let_def line_text_def List.map_filter_def line_side)
  then have "metadata_candidates ascii_tables line_contract = []"
    using line_page_lines by (simp add: metadata_candidates_def Let_def line_contract_def line_text_def)
  moreover have "block_candidates ascii_tables RunningMetadata (hd (normalized_pages line_contract)) 0 line_block = []"
    by (simp add: block_candidates_def Let_def line_lines edge_candidates_def notice_candidates_def)
  ultimately show ?thesis by (simp add: all_candidates_def line_contract_def)
qed

lemma line_ranges_kept: "retained_ranges (for_policy ascii_tables line_contract RunningMetadata) ''b'' = [(0, 1)]"
  unfolding for_policy_def Let_def line_no_candidates retained_ranges_def
  by (simp add: document_blocks_def line_contract_def block_ranges_def excluded_ranges_def line_block_def)

lemma line_source: "source_lines (retained_ranges (for_policy ascii_tables line_contract RunningMetadata)) line_contract
    = [\<lparr>sf_block = ''b'', sf_start = 0, sf_end = 1\<rparr>]"
proof -
  have blocks: "document_blocks line_contract = [line_block]" by (simp add: document_blocks_def line_contract_def)
  have "block_id line_block = ''b''" "block_text line_block = ''A''" by (simp_all add: line_block_def)
  then show ?thesis unfolding source_lines_def blocks by (simp add: line_ranges_kept slice_def)
qed

lemma line_boundary: "is_ok (validate_normalized_chunk_boundary line_contract line_chunks)"
  by (simp add: validate_normalized_chunk_boundary_def line_contract_def line_chunks_def line_block_def line_span_def
      boundary_page_def boundary_block_def boundary_chunk_def boundary_chunk_block_def u32_try_from_def res_collect_def)

end
