(* ===== verification/Contract_Correct.thy ===== *)
theory Contract_Correct
  imports Contract_Sample
begin

text \<open>
  What the contract profile promises (\<open>Contract_Extraction\<close>): when its analysis succeeds and when it
  does not, that its three stages agree, that clauses and evidence are verbatim and complete, and that
  the key terms refer to extracted clauses.
\<close>

section \<open>The boundary\<close>

lemma boundary_block_Inr:
  "boundary_block page (blocks, order) b = Inr st \<Longrightarrow>
     blocks (block_id b) = None \<and> st = (blocks(block_id b \<mapsto> b), order @ [block_id b])"
  by (auto simp: boundary_block_def split: if_splits)

definition index_of :: "normalized_block list \<Rightarrow> block_index \<times> string list \<Rightarrow> bool" where
  "index_of bs st \<longleftrightarrow> distinct (map block_id bs) \<and> st = (map_of (map (\<lambda>b. (block_id b, b)) bs), map block_id bs)"

lemma index_of_snoc:
  assumes "index_of bs st" "boundary_block page st b = Inr st'"
  shows "index_of (bs @ [b]) st'"
proof -
  obtain blocks order where st: "st = (blocks, order)" by (cases st)
  note step = boundary_block_Inr [OF assms(2) [unfolded st]]
  have blocks: "blocks = map_of (map (\<lambda>b. (block_id b, b)) bs)" "order = map block_id bs"
    using assms(1) by (auto simp: index_of_def st)
  have fresh: "block_id b \<notin> block_id ` set bs" using step unfolding blocks(1) map_of_eq_None_iff by (simp add: image_image)
  have "map_of (map (\<lambda>b. (block_id b, b)) (bs @ [b])) = blocks(block_id b \<mapsto> b)"
  proof
    fix i
    show "map_of (map (\<lambda>b. (block_id b, b)) (bs @ [b])) i = (blocks(block_id b \<mapsto> b)) i"
      using step by (auto simp: map_add_def blocks split: option.split)
  qed
  with step fresh assms(1) blocks(2) show ?thesis by (auto simp: index_of_def)
qed

lemma index_of_page:
  assumes "index_of bs st" "res_fold (boundary_block page) st bs' = Inr st'"
  shows "index_of (bs @ bs') st'"
  using assms
proof (induction bs' arbitrary: bs st)
  case Nil
  then show ?case by simp
next
  case (Cons b bs')
  then obtain st1 where st1: "boundary_block page st b = Inr st1" "res_fold (boundary_block page) st1 bs' = Inr st'"
    by (auto simp: res_bind_Inr_iff)
  from Cons.IH [OF index_of_snoc [OF Cons.prems(1) st1(1)] st1(2)] show ?case by simp
qed

lemma boundary_page_Inr:
  "boundary_page st (n, page) = Inr st' \<Longrightarrow> res_fold (boundary_block (page_number page)) st (content page) = Inr st'"
  by (auto simp: boundary_page_def res_bind_Inr_iff)

lemma index_of_pages:
  assumes "index_of bs st" "res_fold boundary_page st (enumerate n pages) = Inr st'"
  shows "index_of (bs @ concat (map content pages)) st'"
  using assms
proof (induction pages arbitrary: n bs st)
  case Nil
  then show ?case by simp
next
  case (Cons page pages)
  from Cons.prems(2) obtain st1 where st1: "boundary_page st (n, page) = Inr st1"
    "res_fold boundary_page st1 (enumerate (Suc n) pages) = Inr st'"
    by (auto simp: res_bind_Inr_iff)
  from Cons.IH [OF index_of_page [OF Cons.prems(1) boundary_page_Inr [OF st1(1)]] st1(2)] show ?case by simp
qed

lemma boundary_chunk_Inr:
  "boundary_chunk blocks order c = Inr order' \<Longrightarrow> order' = order @ map fst (zip (chunk_block_ids c) (chunk_source_spans c))"
  by (auto simp: boundary_chunk_def res_bind_Inr_iff)

lemma boundary_chunks_Inr:
  assumes "res_fold (boundary_chunk blocks) order cs = Inr order'"
  shows "order' = order @ concat (map (\<lambda>c. map fst (zip (chunk_block_ids c) (chunk_source_spans c))) cs)"
  using assms
proof (induction cs arbitrary: order)
  case (Cons c cs)
  then have "res_fold (boundary_chunk blocks) (order @ map fst (zip (chunk_block_ids c) (chunk_source_spans c))) cs = Inr order'"
    by (auto simp: res_bind_Inr_iff dest!: boundary_chunk_Inr)
  from Cons.IH [OF this] show ?case by simp
qed simp

text \<open>An accepted boundary: the index holds the blocks of the document, and every block is in a chunk.\<close>

lemma boundary_Inr:
  assumes "validate_normalized_chunk_boundary normalized chunked = Inr blocks"
  shows "distinct (map block_id (document_blocks normalized))"
    "blocks = blocks_by_id (document_blocks normalized)"
    "\<And>b. b \<in> set (document_blocks normalized) \<Longrightarrow> \<exists>c \<in> set (chunks chunked). block_id b \<in> set (chunk_block_ids c)"
proof -
  from assms obtain order where pages:
      "res_fold boundary_page (Map.empty, []) (enumerate 0 (normalized_pages normalized)) = Inr (blocks, order)"
    and chunks: "res_fold (boundary_chunk blocks) [] (chunks chunked) = Inr order"
    by (auto simp: validate_normalized_chunk_boundary_def res_simps)
  have "index_of [] (Map.empty, [])" by (simp add: index_of_def)
  from index_of_pages [OF this pages] have index: "index_of (document_blocks normalized) (blocks, order)"
    by (simp add: document_blocks_def)
  then show d: "distinct (map block_id (document_blocks normalized))" by (simp add: index_of_def)
  let ?kv = "map (\<lambda>b. (block_id b, b)) (document_blocks normalized)"
  have "distinct (map fst ?kv)" using d by (simp add: comp_def)
  then have "map_of (rev ?kv) = map_of ?kv"
    by (intro map_of_inject_set [THEN iffD2]) (simp_all add: rev_map [symmetric])
  with index show "blocks = blocks_by_id (document_blocks normalized)" by (simp add: index_of_def blocks_by_id_def)
  fix b
  assume "b \<in> set (document_blocks normalized)"
  then have "block_id b \<in> set order" using index by (simp add: index_of_def)
  with boundary_chunks_Inr [OF chunks] obtain c where "c \<in> set (chunks chunked)"
    "block_id b \<in> set (map fst (zip (chunk_block_ids c) (chunk_source_spans c)))" by auto
  then show "\<exists>c \<in> set (chunks chunked). block_id b \<in> set (chunk_block_ids c)" by (auto dest!: set_zip_leftD)
qed

section \<open>Fragments name blocks of the document\<close>

lemma lines_from_block: "f \<in> set (lines_from i offset ls) \<Longrightarrow> sf_block f = i"
  by (induction ls arbitrary: offset) (auto simp: Let_def split: if_splits)

lemma source_lines_block: "f \<in> set (source_lines ranges document) \<Longrightarrow> sf_block f \<in> block_id ` set (document_blocks document)"
  by (auto simp: source_lines_def dest!: lines_from_block)

lemma merge_fragment_blocks: "sf_block ` set (merge_fragment blocks fs f) \<subseteq> insert (sf_block f) (sf_block ` set fs)"
  by (cases fs rule: rev_cases) (auto simp: merge_fragment_def)

lemma merged_blocks: "sf_block ` set (merged blocks g) \<subseteq> sf_block ` set g"
proof (induction g rule: rev_induct)
  case (snoc f g)
  have "sf_block ` set (merged blocks (g @ [f])) \<subseteq> insert (sf_block f) (sf_block ` set (merged blocks g))"
    unfolding merged_snoc by (rule merge_fragment_blocks)
  also have "\<dots> \<subseteq> insert (sf_block f) (sf_block ` set g)" using snoc.IH by blast
  finally show ?case by simp
qed (simp add: merged_def)

lemma clause_blocks:
  assumes "holds_lines blocks (source_lines ranges document) clauses" "c \<in> set clauses" "f \<in> set (sc_fragments c)"
  shows "sf_block f \<in> block_id ` set (document_blocks document)"
proof -
  from assms(1) obtain groups where groups: "concat groups = source_lines ranges document"
    "map sc_fragments clauses = map (merged blocks) groups" by (auto simp: holds_lines_def)
  have "sc_fragments c \<in> set (map (merged blocks) groups)" using assms(2) groups(2) by (metis imageI set_map)
  then obtain g where "g \<in> set groups" "sc_fragments c = merged blocks g" by auto
  then obtain f' where "f' \<in> set g" "sf_block f' = sf_block f" using merged_blocks [of blocks g] assms(3) by auto
  then show ?thesis using source_lines_block [of f' ranges document] groups(1) \<open>g \<in> set groups\<close>
    by (metis UN_I set_concat)
qed

lemma merged_nonempty: "g \<noteq> [] \<Longrightarrow> merged blocks g \<noteq> []"
  by (cases g rule: rev_cases) (auto simp: merged_snoc merge_fragment_def)

lemma holds_lines_Nil: "holds_lines blocks ls [] \<longleftrightarrow> ls = []"
  by (auto simp: holds_lines_def)

lemma holds_no_lines: "holds_lines blocks [] clauses \<longleftrightarrow> clauses = []"
proof
  assume "holds_lines blocks [] clauses"
  then obtain groups where "concat groups = []" "[] \<notin> set groups" "map sc_fragments clauses = map (merged blocks) groups"
    by (auto simp: holds_lines_def)
  moreover from this have "groups = []" by (cases groups) auto
  ultimately show "clauses = []" by simp
qed (simp add: holds_lines_Nil)

section \<open>Records\<close>

text \<open>The clauses of a contract as the profile of a version reads them.\<close>

definition contract_scan :: "unicode \<Rightarrow> normalized_document \<Rightarrow> policy \<Rightarrow> string \<Rightarrow> source_clause list" where
  "contract_scan u normalized pol version = the (contract_sources_for_policy u normalized pol (grammar_of_version version))"

definition contract_lines :: "unicode \<Rightarrow> normalized_document \<Rightarrow> policy \<Rightarrow> source_fragment list" where
  "contract_lines u normalized pol = source_lines (retained_ranges (for_policy u normalized pol)) normalized"

lemma contract_scan_lines:
  "holds_lines (blocks_by_id (document_blocks normalized)) (contract_lines u normalized pol) (contract_scan u normalized pol version)"
  "parents_first (contract_scan u normalized pol version)"
  using contract_sources_Some [of u "retained_ranges (for_policy u normalized pol)" normalized "grammar_of_version version"]
  by (auto simp: contract_scan_def contract_lines_def contract_sources_for_policy_def)

lemma fragment_evidence_total:
  assumes "validate_normalized_chunk_boundary normalized chunked = Inr blocks"
    and "sf_block f \<in> block_id ` set (document_blocks normalized)"
  shows "\<exists>e. fragment_evidence sha document blocks (chunks chunked) f = Inr e"
proof -
  from assms(2) obtain b where "b \<in> set (document_blocks normalized)" "sf_block f = block_id b" by blast
  with boundary_Inr(3) [OF assms(1)] obtain c where "c \<in> set (chunks chunked)" "sf_block f \<in> set (chunk_block_ids c)"
    by metis
  then have "find (\<lambda>c. sf_block f \<in> set (chunk_block_ids c)) (chunks chunked) \<noteq> None"
    by (auto simp: find_None_iff)
  then show ?thesis by (auto simp: fragment_evidence_def Let_def)
qed

lemma fragment_evidence_Inr:
  assumes "fragment_evidence sha document blocks cs f = Inr e"
  shows "evidence_block_id e = sf_block f \<and> evidence_exact_quote e = fragment_text blocks f
    \<and> evidence_claim_text e = fragment_text blocks f
    \<and> evidence_source_span e = block_source (the (blocks (sf_block f)))
    \<and> (\<exists>c \<in> set cs. evidence_chunk_id e = chunk_id c \<and> sf_block f \<in> set (chunk_block_ids c))"
  using assms by (auto simp: fragment_evidence_def fragment_text_def Let_def res_simps find_Some_iff)

definition record_of :: "(string \<Rightarrow> string) \<Rightarrow> string \<Rightarrow> block_index \<Rightarrow> document_chunk list \<Rightarrow> nat \<times> source_clause \<Rightarrow>
   extracted_contract_clause \<times> evidence_item list" where
  "record_of sha document blocks cs x = (case clause_record sha document blocks cs x of Inr r \<Rightarrow> r)"

lemma clause_record_total:
  assumes "\<And>f. f \<in> set (sc_fragments source) \<Longrightarrow> \<exists>e. fragment_evidence sha document blocks cs f = Inr e"
  shows "\<exists>r. clause_record sha document blocks cs (n, source) = Inr r"
proof -
  have "\<exists>items. res_collect (fragment_evidence sha document blocks cs) (sc_fragments source) = Inr items"
    using res_collect_total [of "sc_fragments source" "fragment_evidence sha document blocks cs"] assms by metis
  then show ?thesis by (auto simp: clause_record_def Let_def)
qed

lemma contract_records_unfold:
  assumes "validate_normalized_chunk_boundary normalized chunked = Inr blocks" "policy_of_version version = Inr pol"
  shows "contract_records sha u chunked normalized version =
    res_bind (res_collect (clause_record sha (normalized_document_id normalized) blocks (chunks chunked))
       (enumerate 0 (contract_scan u normalized pol version))) (\<lambda>rows.
    res_bind (ensure (rows \<noteq> []) contract_invalid) (\<lambda>_.
    Inr (\<lparr>extraction_clauses = map fst rows,
          extraction_key_terms = select_key_terms u blocks (contract_scan u normalized pol version) (map fst rows)\<rparr>,
        concat (map snd rows))))"
  using assms by (simp add: contract_records_def contract_scan_def Let_def)

lemma contract_rows:
  assumes "validate_normalized_chunk_boundary normalized chunked = Inr blocks"
  shows "\<exists>rows. res_collect (clause_record sha document blocks (chunks chunked))
      (enumerate n (contract_scan u normalized pol version)) = Inr rows
    \<and> (rows = [] \<longleftrightarrow> contract_lines u normalized pol = [])"
proof -
  let ?sources = "contract_scan u normalized pol version"
  let ?clause_of = "clause_record sha document blocks (chunks chunked)"
  have "\<exists>r. ?clause_of x = Inr r" if "x \<in> set (enumerate n ?sources)" for x
  proof (cases x)
    case (Pair k source)
    have "source \<in> set ?sources" using that Pair by (metis map_snd_enumerate in_set_zip image_eqI set_map snd_conv)
    with clause_blocks [OF contract_scan_lines(1) [unfolded contract_lines_def]] fragment_evidence_total [OF assms] show ?thesis
      unfolding Pair by (intro clause_record_total) blast
  qed
  then have rows: "res_collect ?clause_of (enumerate n ?sources) = Inr (map (\<lambda>x. projr (?clause_of x)) (enumerate n ?sources))"
    by (intro res_collect_total) (metis sum.sel(2))
  have "?sources = [] \<longleftrightarrow> contract_lines u normalized pol = []"
    using contract_scan_lines(1) [of normalized u pol version] by (metis holds_lines_Nil holds_no_lines)
  with rows show ?thesis by (cases ?sources) auto
qed

lemma contract_records_ok:
  "is_ok (contract_records sha u chunked normalized version) \<longleftrightarrow>
     is_ok (validate_normalized_chunk_boundary normalized chunked)
     \<and> (\<exists>pol. policy_of_version version = Inr pol \<and> contract_lines u normalized pol \<noteq> [])"
proof (cases "validate_normalized_chunk_boundary normalized chunked")
  case (Inl e)
  then show ?thesis by (simp add: contract_records_def)
next
  case (Inr blocks)
  show ?thesis
  proof (cases "policy_of_version version")
    case (Inl e)
    with Inr show ?thesis by (simp add: contract_records_def)
  next
    case pol: (Inr pol)
    obtain rows where rows: "res_collect (clause_record sha (normalized_document_id normalized) blocks (chunks chunked))
        (enumerate 0 (contract_scan u normalized pol version)) = Inr rows"
      "rows = [] \<longleftrightarrow> contract_lines u normalized pol = []"
      using contract_rows [OF Inr] by blast
    show ?thesis unfolding contract_records_unfold [OF Inr pol] rows(1) using Inr pol rows(2)
      by (auto simp: ensure_def)
  qed
qed

text \<open>The record of a clause copies its source.\<close>

definition verbatim_record ::
  "block_index \<Rightarrow> document_chunk list \<Rightarrow> source_clause \<Rightarrow> extracted_contract_clause \<times> evidence_item list \<Rightarrow> bool" where
  "verbatim_record blocks cs source r \<longleftrightarrow>
     (case r of (clause, items) \<Rightarrow>
        clause_text clause = join paragraph_break (map evidence_exact_quote items)
        \<and> clause_evidence_ids clause = map evidence_id items
        \<and> map (\<lambda>e. (evidence_block_id e, evidence_exact_quote e)) items
            = map (\<lambda>f. (sf_block f, fragment_text blocks f)) (sc_fragments source)
        \<and> list_all (\<lambda>e. evidence_source_span e = block_source (the (blocks (evidence_block_id e)))
            \<and> (\<exists>c \<in> set cs. evidence_chunk_id e = chunk_id c \<and> evidence_block_id e \<in> set (chunk_block_ids c))) items)"

lemma fragment_items:
  assumes "list_all2 (\<lambda>f e. fragment_evidence sha document blocks cs f = Inr e) fs items"
  shows "map (\<lambda>e. (evidence_block_id e, evidence_exact_quote e)) items = map (\<lambda>f. (sf_block f, fragment_text blocks f)) fs
    \<and> list_all (\<lambda>e. evidence_source_span e = block_source (the (blocks (evidence_block_id e)))
            \<and> (\<exists>c \<in> set cs. evidence_chunk_id e = chunk_id c \<and> evidence_block_id e \<in> set (chunk_block_ids c))) items"
  using assms by (induction rule: list_all2_induct) (auto dest!: fragment_evidence_Inr)

lemma clause_record_Inr:
  assumes "clause_record sha document blocks cs (n, source) = Inr (clause, items)"
  shows "clause_id clause = deterministic_id sha ''contract-clause'' [SOURCE_VERSION, document, show_nat n, clause_text clause]"
    "verbatim_record blocks cs source (clause, items)"
proof -
  from assms have items: "list_all2 (\<lambda>f e. fragment_evidence sha document blocks cs f = Inr e) (sc_fragments source) items"
    and clause: "clause = \<lparr>clause_id = deterministic_id sha ''contract-clause'' [SOURCE_VERSION, document, show_nat n, clause_source_text blocks source],
        clause_heading = (case sc_headings source of [] \<Rightarrow> None | h # _ \<Rightarrow> Some h),
        clause_text = clause_source_text blocks source, clause_evidence_ids = map evidence_id items\<rparr>"
    by (auto simp: clause_record_def Let_def res_simps)
  show "clause_id clause = deterministic_id sha ''contract-clause'' [SOURCE_VERSION, document, show_nat n, clause_text clause]"
    by (simp add: clause)
  note quoted = fragment_items [OF items]
  have "map evidence_exact_quote items = map (fragment_text blocks) (sc_fragments source)"
    using arg_cong [OF conjunct1 [OF quoted], of "map snd"] by (simp add: comp_def)
  with quoted show "verbatim_record blocks cs source (clause, items)"
    by (simp add: verbatim_record_def clause clause_source_text_def paragraph_break_def)
qed

text \<open>What accepted records are made of.\<close>

lemma contract_records_Inr:
  assumes "contract_records sha u chunked normalized version = Inr (extraction, evidence)"
  shows "\<exists>blocks pol rows.
    validate_normalized_chunk_boundary normalized chunked = Inr blocks \<and> policy_of_version version = Inr pol
    \<and> list_all2 (\<lambda>x r. clause_record sha (normalized_document_id normalized) blocks (chunks chunked) x = Inr r)
        (enumerate 0 (contract_scan u normalized pol version)) rows
    \<and> extraction_clauses extraction = map fst rows
    \<and> extraction_key_terms extraction = select_key_terms u blocks (contract_scan u normalized pol version) (map fst rows)
    \<and> evidence = concat (map snd rows)"
proof -
  from assms obtain blocks pol where b: "validate_normalized_chunk_boundary normalized chunked = Inr blocks"
    and p: "policy_of_version version = Inr pol"
    by (auto simp: contract_records_def Let_def res_bind_Inr_iff)
  from assms [unfolded contract_records_unfold [OF b p]] b p show ?thesis
    by (auto simp: res_bind_Inr_iff res_collect_Inr_iff)
qed

section \<open>Clause identities\<close>

lemma show_nat_no_nul: "CHR 0x00 \<notin> set (show_nat n)"
proof (induction n rule: show_nat.induct)
  case (1 n)
  have "char_of (48 + n mod 10) \<noteq> CHR 0x00"
  proof
    assume "char_of (48 + n mod 10) = CHR 0x00"
    then have "of_char (char_of (48 + n mod 10) :: char) = (0 :: nat)" by simp
    then show False by (simp add: of_char_of)
  qed
  with 1 show ?case by (subst show_nat.simps) auto
qed

text \<open>The strings whose digests are the identities of the clauses of an extraction: finitely many, one per clause.\<close>

definition clause_preimage :: "string \<Rightarrow> nat \<Rightarrow> string \<Rightarrow> string" where
  "clause_preimage document n body =
     ''contract-clause'' @ concat (map (\<lambda>part. CHR 0x00 # part) [SOURCE_VERSION, document, show_nat n, body])"

definition clause_preimages :: "string \<Rightarrow> contract_extraction \<Rightarrow> string set" where
  "clause_preimages document extraction =
     (\<lambda>(n, clause). clause_preimage document n (clause_text clause)) ` set (enumerate 0 (extraction_clauses extraction))"

lemma clause_preimage_number:
  assumes "clause_preimage d m s = clause_preimage d n t"
  shows "m = n"
proof -
  have "show_nat m @ CHR 0x00 # s = show_nat n @ CHR 0x00 # t"
    using assms by (simp add: clause_preimage_def)
  then have "takeWhile (\<lambda>c. c \<noteq> CHR 0x00) (show_nat m @ CHR 0x00 # s) = takeWhile (\<lambda>c. c \<noteq> CHR 0x00) (show_nat n @ CHR 0x00 # t)"
    by simp
  moreover have "takeWhile (\<lambda>c. c \<noteq> CHR 0x00) (show_nat k @ CHR 0x00 # r) = show_nat k" for k r
    using show_nat_no_nul [of k] by (subst takeWhile_append2) auto
  ultimately show ?thesis by simp
qed

lemma clause_identities_distinct:
  assumes "inj_on sha ((\<lambda>(n, clause). clause_preimage d n (clause_text clause)) ` set (enumerate 0 (map fst rows)))"
    and rows: "list_all2 (\<lambda>x r. clause_record sha d blocks cs x = Inr r) (enumerate 0 sources) rows"
  shows "distinct (map (clause_id \<circ> fst) rows)"
proof -
  let ?pre = "\<lambda>i. clause_preimage d i (clause_text (fst (rows ! i)))"
  have len: "length rows = length sources" using list_all2_lengthD [OF rows] by simp
  have known: "?pre i \<in> (\<lambda>(n, clause). clause_preimage d n (clause_text clause)) ` set (enumerate 0 (map fst rows))"
    if "i < length rows" for i
    by (rule image_eqI [of _ _ "(i, fst (rows ! i))"]) (use that in \<open>simp_all add: in_set_enumerate_eq\<close>)
  have id: "clause_id (fst (rows ! i)) = ''contract-clause'' @ ''-'' @ sha (?pre i)" if "i < length rows" for i
  proof -
    have "clause_record sha d blocks cs (i, sources ! i) = Inr (rows ! i)"
      using list_all2_nthD2 [OF rows that] that len by (simp add: nth_enumerate_eq)
    then show ?thesis
      using clause_record_Inr(1) [of sha d blocks cs i "sources ! i" "fst (rows ! i)" "snd (rows ! i)"]
      by (simp add: deterministic_id_def clause_preimage_def)
  qed
  have "i = j" if ij: "i < length rows" "j < length rows" "clause_id (fst (rows ! i)) = clause_id (fst (rows ! j))" for i j
  proof -
    have "sha (?pre i) = sha (?pre j)" using ij by (simp add: id)
    then have "?pre i = ?pre j" by (rule inj_onD [OF assms(1)]) (use ij known in blast)+
    then show ?thesis by (rule clause_preimage_number)
  qed
  then show ?thesis by (fastforce simp: distinct_conv_nth)
qed

section \<open>Key terms\<close>

definition well_formed_selection :: "string list \<Rightarrow> contract_section_selection \<Rightarrow> bool" where
  "well_formed_selection ids selection \<longleftrightarrow>
     selected_clause_ids selection \<noteq> [] \<and> hd (selected_clause_ids selection) = root_clause_id selection
     \<and> distinct (selected_clause_ids selection) \<and> set (selected_clause_ids selection) \<subseteq> set ids"

text \<open>A well-formed extraction: one term per category in order, and selections of extracted clauses.\<close>

definition well_formed_extraction :: "contract_extraction \<Rightarrow> bool" where
  "well_formed_extraction extraction \<longleftrightarrow>
     map term_category (extraction_key_terms extraction) = all_categories
     \<and> distinct (map clause_id (extraction_clauses extraction))
     \<and> list_all (\<lambda>key. list_all (well_formed_selection (map clause_id (extraction_clauses extraction))) (selections key))
         (extraction_key_terms extraction)"

lemma section_selection:
  assumes "parents_first sources" "length clauses = length sources" "distinct (map clause_id clauses)" "index < length sources"
  shows "well_formed_selection (map clause_id clauses)
    \<lparr>selection_rule = r, root_clause_id = clause_id (clauses ! index),
     selected_clause_ids = map (\<lambda>i. clause_id (clauses ! i)) (the (section_members sources index))\<rparr>"
proof -
  let ?members = "index # takeWhile (descends sources index) [Suc index..<length sources]"
  have members: "the (section_members sources index) = ?members"
    by (simp add: section_members_run [OF assms(1)])
  have later: "set (takeWhile (descends sources index) [Suc index..<length sources]) \<subseteq> {Suc index..<length sources}"
    by (auto dest: set_takeWhileD)
  have "inj_on (\<lambda>i. clause_id (clauses ! i)) {..<length clauses}"
    using assms(3) by (auto simp: inj_on_def distinct_conv_nth nth_map)
  moreover have in_range: "set ?members \<subseteq> {..<length clauses}" using later assms(2,4) by auto
  moreover have "distinct ?members" using later by (auto intro: distinct_takeWhile)
  ultimately have "distinct (map (\<lambda>i. clause_id (clauses ! i)) ?members)"
    by (simp only: distinct_map) (blast intro: inj_on_subset)
  moreover have "set (map (\<lambda>i. clause_id (clauses ! i)) ?members) \<subseteq> set (map clause_id clauses)"
    using in_range by (auto simp: image_subset_iff)
  ultimately show ?thesis unfolding well_formed_selection_def members
    by (simp only: simp_thms contract_section_selection.simps list.map list.distinct list.sel)
qed

lemma select_section_wf:
  assumes "parents_first sources" "length clauses = length sources" "distinct (map clause_id clauses)" "index < length sources"
    and "list_all (well_formed_selection (map clause_id clauses)) (found_selections st)"
  shows "list_all (well_formed_selection (map clause_id clauses)) (found_selections (select_section sources clauses category st index))"
  using assms(5) section_selection [OF assms(1-4)] by (simp add: select_section_def Let_def)

lemma select_opening_wf:
  assumes "distinct (map clause_id clauses)"
    and "list_all (well_formed_selection (map clause_id clauses)) (found_selections st)"
  shows "list_all (well_formed_selection (map clause_id clauses)) (found_selections (select_opening u blocks sources clauses st))"
proof -
  have "well_formed_selection (map clause_id clauses) \<lparr>selection_rule = r, root_clause_id = root, selected_clause_ids = root # ids\<rparr>"
    if "map clause_id (take n clauses) = root # ids" for n r root ids
  proof -
    have "distinct (map clause_id (take n clauses))" using assms(1) by (metis distinct_take take_map)
    then have "distinct (root # ids)" by (simp only: that)
    moreover have "set (root # ids) \<subseteq> set (map clause_id clauses)"
      by (simp only: that [symmetric]) (auto dest: in_set_takeD)
    ultimately show ?thesis by (simp add: well_formed_selection_def)
  qed
  with assms(2) show ?thesis by (simp add: select_opening_def split: option.split list.split)
qed

lemma select_key_term_wf:
  assumes "parents_first sources" "length clauses = length sources" "distinct (map clause_id clauses)"
  shows "list_all (well_formed_selection (map clause_id clauses)) (selections (select_key_term u blocks sources clauses category))"
proof -
  let ?wf = "\<lambda>st. list_all (well_formed_selection (map clause_id clauses)) (found_selections st)"
  have "?wf (foldl (select_section sources clauses c)
      \<lparr>selected = {}, found_selections = [], uncertain_category = False\<rparr> [0..<length sources])" for c
    by (rule foldl_invariant [where P = ?wf]) (simp_all add: select_section_wf [OF assms])
  with select_opening_wf [OF assms(3)] show ?thesis by (simp add: select_key_term_def Let_def)
qed

lemma records_well_formed:
  assumes "inj_on sha (clause_preimages (normalized_document_id normalized) extraction)"
    "contract_records sha u chunked normalized version = Inr (extraction, evidence)"
  shows "well_formed_extraction extraction"
proof -
  from contract_records_Inr [OF assms(2)] obtain blocks pol rows where
    rows: "list_all2 (\<lambda>x r. clause_record sha (normalized_document_id normalized) blocks (chunks chunked) x = Inr r)
        (enumerate 0 (contract_scan u normalized pol version)) rows"
    and clauses: "extraction_clauses extraction = map fst rows"
    and key: "extraction_key_terms extraction = select_key_terms u blocks (contract_scan u normalized pol version) (map fst rows)"
    by blast
  have distinct: "distinct (map clause_id (map fst rows))"
    using clause_identities_distinct [OF _ rows] assms(1) by (simp add: clause_preimages_def clauses comp_def)
  have "length (map fst rows) = length (contract_scan u normalized pol version)"
    using list_all2_lengthD [OF rows] by simp
  from select_key_term_wf [OF contract_scan_lines(2) this distinct] distinct show ?thesis
    by (simp add: well_formed_extraction_def clauses key select_key_terms_def list_all_iff select_key_term_def Let_def comp_def)
qed

section \<open>Rendering succeeds on well-formed extractions\<close>

lemma index_lines_total:
  assumes "length rows = length clauses" "distinct (map clause_id clauses)"
    and "\<And>c. c \<in> set clauses \<Longrightarrow> by_id (clause_id c) = None"
  shows "\<exists>by_id'. res_fold index_line by_id (zip clauses (zip (map contract_claim clauses) rows)) = Inr by_id'
    \<and> dom by_id' = dom by_id \<union> clause_id ` set clauses"
  using assms
proof (induction clauses arbitrary: rows by_id)
  case Nil
  then show ?case by simp
next
  case (Cons c clauses)
  then obtain row rows' where rows: "rows = row # rows'" "length rows' = length clauses" by (cases rows) auto
  let ?by = "by_id(clause_id c \<mapsto> clause_id c @ [CHR 0x0A] @ row)"
  have step: "index_line by_id (c, contract_claim c, row) = Inr ?by"
    using Cons.prems(3) by (simp add: index_line_def contract_claim_def)
  have fresh: "?by (clause_id c') = None" if "c' \<in> set clauses" for c'
    using Cons.prems(2,3) that by (auto simp: image_iff)
  have "distinct (map clause_id clauses)" using Cons.prems(2) by simp
  from Cons.IH [where by_id = ?by, OF rows(2) this] fresh obtain by_id' where
    "res_fold index_line ?by (zip clauses (zip (map contract_claim clauses) rows')) = Inr by_id'"
    "dom by_id' = dom ?by \<union> clause_id ` set clauses" by blast
  with step show ?case by (intro exI [of _ by_id']) (auto simp: rows simp del: fun_upd_apply)
qed

lemma quote_clauses_total:
  assumes "distinct ids" "set ids \<inter> seen = {}" "set ids \<subseteq> dom by_id"
  shows "\<exists>st. res_fold (quote_clause by_id) (seen, quoted) ids = Inr st"
  using assms
proof (induction ids arbitrary: seen quoted)
  case (Cons i ids)
  then obtain line where "quote_clause by_id (seen, quoted) i = Inr (insert i seen, quoted @ [line])"
    by (auto simp: quote_clause_def)
  with Cons show ?case by auto
qed simp

lemma render_selection_total:
  assumes "well_formed_selection ids selection" "set ids \<subseteq> dom by_id"
  shows "\<exists>st'. render_selection by_id st selection = Inr st'"
proof -
  obtain pending units where st: "st = (pending, units)" by (cases st)
  obtain q where "res_fold (quote_clause by_id) ({}, []) (selected_clause_ids selection) = Inr q"
    using quote_clauses_total [of "selected_clause_ids selection" "{}" by_id "[]"] assms
    unfolding well_formed_selection_def by blast
  with assms(1) show ?thesis by (cases q) (simp add: st render_selection_def well_formed_selection_def)
qed

lemma render_selections_total:
  assumes "list_all (well_formed_selection ids) found" "set ids \<subseteq> dom by_id"
  shows "\<exists>st'. res_fold (render_selection by_id) st found = Inr st'"
  using assms(1)
proof (induction found arbitrary: st)
  case (Cons s ss)
  then obtain st1 where "render_selection by_id st s = Inr st1" using render_selection_total [OF _ assms(2)] by fastforce
  with Cons show ?case by simp
qed simp

lemma render_terms_total:
  assumes "list_all (\<lambda>key. list_all (well_formed_selection ids) (selections key)) keys" "set ids \<subseteq> dom by_id"
  shows "\<exists>st'. res_fold (render_term by_id) st keys = Inr st'"
  using assms(1)
proof (induction keys arbitrary: st)
  case (Cons key keys)
  have "\<exists>st1. render_term by_id st key = Inr st1"
    using render_selections_total [OF _ assms(2), of "selections key"] Cons.prems
    by (cases st) (auto simp: render_term_def)
  with Cons show ?case by auto
qed simp

lemma render_units_total:
  assumes "well_formed_extraction extraction"
    and "\<And>c i. c \<in> set (extraction_clauses extraction) \<Longrightarrow> i \<in> set (clause_evidence_ids c) \<Longrightarrow> i \<in> evidence_id ` set evidence"
  shows "\<exists>units. render_units extraction (map contract_claim (extraction_clauses extraction)) evidence = Inr units"
proof -
  let ?clauses = "extraction_clauses extraction"
  have "\<forall>claim \<in> set (map contract_claim ?clauses). \<forall>i \<in> set (claim_evidence_ids claim). evidence_by_id evidence i \<noteq> None"
    using assms(2) evidence_by_id_known [of evidence] by (auto simp: contract_claim_def)
  then obtain rows where rows: "render_claim_lines (map contract_claim ?clauses) (evidence_by_id evidence) = Inr rows"
    and len: "length rows = length ?clauses"
    using render_claim_lines_Inr [of "map contract_claim ?clauses" "evidence_by_id evidence"] by force
  have "distinct (map clause_id ?clauses)" using assms(1) by (simp add: well_formed_extraction_def)
  from index_lines_total [OF len this, of Map.empty] obtain by_id where
    by_id: "res_fold index_line Map.empty (zip ?clauses (zip (map contract_claim ?clauses) rows)) = Inr by_id"
    "dom by_id = clause_id ` set ?clauses" by auto
  have keys: "list_all (\<lambda>key. list_all (well_formed_selection (map clause_id ?clauses)) (selections key)) (extraction_key_terms extraction)"
    using assms(1) by (simp add: well_formed_extraction_def)
  obtain st where "res_fold (render_term by_id) (''Key terms'', []) (extraction_key_terms extraction) = Inr st"
    using render_terms_total [OF keys, of by_id "(''Key terms'', [])"] by_id(2) by auto
  then show ?thesis
    using assms(1) rows by_id(1) by (cases st) (simp add: render_units_def well_formed_extraction_def)
qed

section \<open>The stages\<close>

text \<open>Every item of the records is in the analysis of its chunk.\<close>

lemma ledger_of_chunks:
  assumes "\<And>e. e \<in> set evidence \<Longrightarrow> \<exists>c \<in> set cs. evidence_chunk_id e = chunk_id c" "analyzed_chunks a = map (contract_chunk evidence) cs"
  shows "set (ledger_evidence a) = set evidence"
  using assms by (fastforce simp: ledger_evidence_def contract_chunk_def Let_def)

lemma verbatim_record_items:
  assumes "verbatim_record blocks cs source (clause, items)"
  shows "\<And>e. e \<in> set items \<Longrightarrow> \<exists>c \<in> set cs. evidence_chunk_id e = chunk_id c"
    "set (clause_evidence_ids clause) = evidence_id ` set items"
  using assms unfolding verbatim_record_def prod.case list_all_iff by (blast, simp)

lemma list_all2_in_right: "list_all2 P xs ys \<Longrightarrow> y \<in> set ys \<Longrightarrow> \<exists>x \<in> set xs. P x y"
  by (induction rule: list_all2_induct) auto

lemma rows_verbatim:
  assumes "list_all2 (\<lambda>x r. clause_record sha document blocks cs x = Inr r) xs rows" "(clause, items) \<in> set rows"
  shows "\<exists>source. verbatim_record blocks cs source (clause, items)"
proof -
  obtain x where x: "clause_record sha document blocks cs x = Inr (clause, items)"
    using list_all2_in_right [OF assms] by blast
  obtain n source where "x = (n, source)" by (cases x)
  with x have "clause_record sha document blocks cs (n, source) = Inr (clause, items)" by simp
  then show ?thesis using clause_record_Inr(2) by blast
qed

lemma records_evidence:
  assumes "contract_records sha u chunked normalized version = Inr (extraction, evidence)"
  shows "\<And>e. e \<in> set evidence \<Longrightarrow> \<exists>c \<in> set (chunks chunked). evidence_chunk_id e = chunk_id c"
    "\<And>c i. c \<in> set (extraction_clauses extraction) \<Longrightarrow> i \<in> set (clause_evidence_ids c) \<Longrightarrow> i \<in> evidence_id ` set evidence"
proof -
  from contract_records_Inr [OF assms] obtain blocks pol rows where
    rows: "list_all2 (\<lambda>x r. clause_record sha (normalized_document_id normalized) blocks (chunks chunked) x = Inr r)
        (enumerate 0 (contract_scan u normalized pol version)) rows"
    and clauses: "extraction_clauses extraction = map fst rows" and evidence: "evidence = concat (map snd rows)"
    by blast
  note each = rows_verbatim [OF rows]
  show "\<exists>c \<in> set (chunks chunked). evidence_chunk_id e = chunk_id c" if "e \<in> set evidence" for e
  proof -
    from that obtain clause items where r: "(clause, items) \<in> set rows" "e \<in> set items" by (auto simp: evidence)
    from each [OF r(1)] verbatim_record_items(1) r(2) show ?thesis by blast
  qed
  show "i \<in> evidence_id ` set evidence" if "c \<in> set (extraction_clauses extraction)" "i \<in> set (clause_evidence_ids c)" for c i
  proof -
    from that(1) obtain items where r: "(c, items) \<in> set rows" by (auto simp: clauses)
    from each [OF r] verbatim_record_items(2) that(2) have "i \<in> evidence_id ` set items" by blast
    then show ?thesis using r by (force simp: evidence)
  qed
qed

lemma analyze_Inr:
  assumes "analyze_for_version sha u chunked normalized cancelled version = Inr a"
  shows "\<not> cancelled" "analysis_version a = version"
    "\<exists>extraction evidence. contract_records sha u chunked normalized version = Inr (extraction, evidence)
       \<and> analyzed_chunks a = map (contract_chunk evidence) (chunks chunked)"
    "validate_contract_analysis sha u a chunked normalized = Inr ()"
proof -
  show c: "\<not> cancelled" using assms by (auto simp: analyze_for_version_def cancellation_checkpoint_def res_bind_Inr_iff split: if_splits)
  show v: "analysis_version a = version"
    "\<exists>extraction evidence. contract_records sha u chunked normalized version = Inr (extraction, evidence)
       \<and> analyzed_chunks a = map (contract_chunk evidence) (chunks chunked)"
    using assms by (auto simp: analyze_for_version_def res_bind_Inr_iff)
  have "cancelled = False" using c by simp
  then show "validate_contract_analysis sha u a chunked normalized = Inr ()"
    using assms by (simp add: validate_contract_analysis_def v(1))
qed

lemma synthesize_total:
  assumes "\<And>extraction evidence. contract_records sha u chunked normalized version = Inr (extraction, evidence) \<Longrightarrow>
      inj_on sha (clause_preimages (normalized_document_id normalized) extraction)"
    and "analyze_for_version sha u chunked normalized False version = Inr a"
  shows "\<exists>s. contract_synthesize sha u a chunked normalized False = Inr s"
proof -
  note a = analyze_Inr [OF assms(2)]
  from a(3) obtain extraction evidence where records: "contract_records sha u chunked normalized version = Inr (extraction, evidence)"
    and chunks: "analyzed_chunks a = map (contract_chunk evidence) (chunks chunked)" by blast
  have ledger: "set (ledger_evidence a) = set evidence"
    by (rule ledger_of_chunks [OF records_evidence(1) [OF records] chunks])
  obtain units where "render_units extraction (map contract_claim (extraction_clauses extraction)) (ledger_evidence a) = Inr units"
    using render_units_total [OF records_well_formed [OF assms(1) [OF records] records], of "ledger_evidence a"]
      records_evidence(2) [OF records] ledger by auto
  then show ?thesis by (simp add: contract_synthesize_def cancellation_checkpoint_def a(2,4) records Let_def)
qed

text \<open>The scanned clauses and their records, side by side.\<close>

lemma records_sources:
  assumes "contract_records sha u chunked normalized version = Inr (extraction, evidence)"
  shows "\<exists>pol sources rows.
    policy_of_version version = Inr pol
    \<and> holds_lines (blocks_by_id (document_blocks normalized))
        (source_lines (retained_ranges (for_policy u normalized pol)) normalized) sources
    \<and> list_all2 (verbatim_record (blocks_by_id (document_blocks normalized)) (chunks chunked)) sources rows
    \<and> extraction_clauses extraction = map fst rows \<and> evidence = concat (map snd rows)"
proof -
  from contract_records_Inr [OF assms] obtain blocks pol rows where
    boundary: "validate_normalized_chunk_boundary normalized chunked = Inr blocks"
    and pol: "policy_of_version version = Inr pol"
    and rows: "list_all2 (\<lambda>x r. clause_record sha (normalized_document_id normalized) blocks (chunks chunked) x = Inr r)
        (enumerate 0 (contract_scan u normalized pol version)) rows"
    and parts: "extraction_clauses extraction = map fst rows" "evidence = concat (map snd rows)"
    by blast
  have "list_all2 (\<lambda>x. verbatim_record blocks (chunks chunked) (snd x)) (enumerate 0 (contract_scan u normalized pol version)) rows"
    by (rule list_all2_mono [OF rows]) (use clause_record_Inr(2) in \<open>metis prod.collapse\<close>)
  then have "list_all2 (verbatim_record blocks (chunks chunked)) (map snd (enumerate 0 (contract_scan u normalized pol version))) rows"
    by (simp only: list_all2_map1)
  then have "list_all2 (verbatim_record blocks (chunks chunked)) (contract_scan u normalized pol version) rows"
    by (simp only: map_snd_enumerate)
  with boundary_Inr(2) [OF boundary] pol parts contract_scan_lines(1) show ?thesis
    unfolding contract_lines_def by blast
qed

lemma analyze_ok:
  "is_ok (analyze_for_version sha u chunked normalized cancelled version) \<longleftrightarrow>
     \<not> cancelled \<and> is_ok (contract_records sha u chunked normalized version)"
proof (cases "contract_records sha u chunked normalized version")
  case (Inr r)
  then have "is_ok (contract_records sha u chunked normalized version)" by simp
  then obtain pol where "policy_of_version version = Inr pol" unfolding contract_records_ok by blast
  with Inr show ?thesis by (simp add: analyze_for_version_def cancellation_checkpoint_def split: prod.split)
qed (simp add: analyze_for_version_def cancellation_checkpoint_def)

lemma line_analysis: "is_ok (analyze_for_version sha ascii_tables line_chunks line_contract False CONTRACT_VERSION)"
  unfolding analyze_ok contract_records_ok contract_lines_def
  using line_boundary line_source by (auto simp: policy_of_version_def)

section \<open>Properties\<close>

text \<open>The analysis of a contract succeeds exactly when it is not cancelled, the chunks agree with the normalized
  document, the version is one the profile knows, and the furniture filter leaves at least one line; every other case
  is an error value.\<close>

theorem contract_analysis_succeeds:
  "is_ok (analyze_for_version sha u chunked normalized cancelled version) \<longleftrightarrow>
     \<not> cancelled \<and> is_ok (validate_normalized_chunk_boundary normalized chunked)
     \<and> (\<exists>pol. policy_of_version version = Inr pol
          \<and> source_lines (retained_ranges (for_policy u normalized pol)) normalized \<noteq> [])"
  by (simp add: analyze_ok contract_records_ok contract_lines_def)

text \<open>The stages of the contract profile agree for every version it has written: once a contract is analyzed, its
  synthesis and its verification succeed, and the three validators, which compute the stages again, accept what the
  stages returned. The digest is taken not to collide on the strings that name the clauses of this contract.\<close>

theorem contract_stages_agree:
  assumes "\<And>extraction evidence. contract_records sha u chunked normalized version = Inr (extraction, evidence) \<Longrightarrow>
      inj_on sha (clause_preimages (normalized_document_id normalized) extraction)"
    and "analyze_for_version sha u chunked normalized False version = Inr a"
  shows "\<exists>s v. contract_synthesize sha u a chunked normalized False = Inr s
    \<and> contract_verify sha u s a chunked normalized False = Inr v
    \<and> validate_contract_analysis sha u a chunked normalized = Inr ()
    \<and> validate_contract_synthesis sha u s a chunked normalized = Inr ()
    \<and> validate_contract_verified sha u v s a chunked normalized = Inr ()"
proof -
  obtain s where s: "contract_synthesize sha u a chunked normalized False = Inr s"
    using synthesize_total [of sha u chunked normalized version a] assms by blast
  then have checked: "validate_contract_synthesis sha u s a chunked normalized = Inr ()"
    by (simp add: validate_contract_synthesis_def)
  then obtain v where "contract_verify sha u s a chunked normalized False = Inr v"
    by (simp add: contract_verify_def cancellation_checkpoint_def)
  moreover from this have "validate_contract_verified sha u v s a chunked normalized = Inr ()"
    by (simp add: validate_contract_verified_def)
  ultimately show ?thesis using s checked analyze_Inr(4) [OF assms(2)] by blast
qed

lemma line_extraction:
  assumes "contract_records sha ascii_tables line_chunks line_contract CONTRACT_VERSION = Inr (extraction, evidence)"
  shows "length (extraction_clauses extraction) = 1"
proof -
  from records_sources [OF assms] obtain sources rows where
    lines: "holds_lines (blocks_by_id (document_blocks line_contract)) [\<lparr>sf_block = ''b'', sf_start = 0, sf_end = 1\<rparr>] sources"
    and rows: "list_all2 (verbatim_record (blocks_by_id (document_blocks line_contract)) (chunks line_chunks)) sources rows"
      "extraction_clauses extraction = map fst rows"
    using line_source by (auto simp: policy_of_version_def)
  from lines obtain gs where gs: "concat gs = [\<lparr>sf_block = ''b'', sf_start = 0, sf_end = 1\<rparr>]" "[] \<notin> set gs" "length sources = length gs"
    unfolding holds_lines_def by (metis length_map)
  then have "length gs = 1" by (cases gs; cases "tl gs") (auto simp: append_eq_Cons_conv)
  with gs(3) rows list_all2_lengthD [OF rows(1)] show ?thesis by simp
qed

lemma line_digests:
  assumes "contract_records sha ascii_tables line_chunks line_contract CONTRACT_VERSION = Inr (extraction, evidence)"
  shows "inj_on sha (clause_preimages d extraction)"
  using line_extraction [OF assms] by (auto simp: clause_preimages_def length_Suc_conv)

text \<open>A digest of 64 characters, like the hexadecimal SHA-256: it has collisions, but none on one clause.\<close>

definition padded_digest :: "string \<Rightarrow> string" where
  "padded_digest s = take 64 (s @ replicate 64 CHR 0x30)"

lemma contract_stages_agree_witness:
  "\<exists>a s v. contract_analyze padded_digest ascii_tables line_chunks line_contract False = Inr a
    \<and> contract_synthesize padded_digest ascii_tables a line_chunks line_contract False = Inr s
    \<and> contract_verify padded_digest ascii_tables s a line_chunks line_contract False = Inr v"
proof -
  obtain a where a: "analyze_for_version padded_digest ascii_tables line_chunks line_contract False CONTRACT_VERSION = Inr a"
    using line_analysis [of padded_digest] by (auto simp: is_ok_iff)
  from contract_stages_agree [OF _ a] line_digests obtain s v where
    "contract_synthesize padded_digest ascii_tables a line_chunks line_contract False = Inr s"
    "contract_verify padded_digest ascii_tables s a line_chunks line_contract False = Inr v" by metis
  with a show ?thesis by (auto simp: contract_analyze_def)
qed

text \<open>C36. What the profile extracts is the contract, verbatim, complete and well formed: the clauses hold every line the
  furniture filter leaves, in order; the text of a clause is the quotes of its evidence, each the bytes of a fragment
  in the block and chunk it names; the six categories come in order, and a selection starts with its root, repeats no
  clause and names extracted clauses only. The clauses are told apart by their digests; the digest is taken not to
  collide on the finitely many strings that are hashed for them (\<open>clause_preimages\<close>).\<close>

theorem contract_records_sound:
  assumes "inj_on sha (clause_preimages (normalized_document_id normalized) extraction)"
    and "contract_records sha u chunked normalized version = Inr (extraction, evidence)"
  shows "well_formed_extraction extraction
    \<and> (\<exists>pol sources rows.
         policy_of_version version = Inr pol
         \<and> holds_lines (blocks_by_id (document_blocks normalized))
             (source_lines (retained_ranges (for_policy u normalized pol)) normalized) sources
         \<and> list_all2 (verbatim_record (blocks_by_id (document_blocks normalized)) (chunks chunked)) sources rows
         \<and> extraction_clauses extraction = map fst rows \<and> evidence = concat (map snd rows))"
  using records_sources [OF assms(2)] records_well_formed [OF assms] by blast

lemma contract_records_sound_witness:
  "\<exists>extraction evidence. contract_records padded_digest ascii_tables line_chunks line_contract CONTRACT_VERSION = Inr (extraction, evidence)
     \<and> well_formed_extraction extraction"
proof -
  have "is_ok (contract_records padded_digest ascii_tables line_chunks line_contract CONTRACT_VERSION)"
    using line_analysis [of padded_digest] by (simp only: analyze_ok)
  then obtain r where "contract_records padded_digest ascii_tables line_chunks line_contract CONTRACT_VERSION = Inr r"
    by (auto simp: is_ok_iff)
  then obtain extraction evidence where
    "contract_records padded_digest ascii_tables line_chunks line_contract CONTRACT_VERSION = Inr (extraction, evidence)" by (cases r) simp
  with contract_records_sound [OF line_digests [OF this] this] show ?thesis by blast
qed

end
