(* ===== verification/Claim_Support.thy ===== *)
theory Claim_Support
  imports Model_Requests
begin

text \<open>
  Asking the model for verdicts (\<open>pipeline/summary.rs\<close>): \<open>parse_verification_response\<close> and
  \<open>classify_claim_support\<close>. What \<open>cancellation_requested\<close> answers the \<open>k\<close>-th time is
  \<open>cancelled k\<close>; the functions return how often they have asked.
\<close>

section \<open>Reading the verdicts of one request\<close>

definition response_invalid :: "string \<Rightarrow> pipeline_failure" where
  "response_invalid message = stage_failure Verify ''MODEL_VERIFICATION_RESPONSE_INVALID'' message True"

definition collect_verdict ::
  "string set \<Rightarrow> (string \<Rightarrow> claim_verdict option) \<Rightarrow> string \<times> claim_verdict \<Rightarrow>
   pipeline_failure + (string \<Rightarrow> claim_verdict option)" where
  "collect_verdict known verdicts raw =
     (case raw of (i, v) \<Rightarrow>
        if i \<notin> known \<or> verdicts i \<noteq> None
        then Inl (response_invalid ''Verification verdicts must reference unique known claim IDs'')
        else Inr (verdicts(i \<mapsto> v)))"

definition verdict_of_claim ::
  "(string \<Rightarrow> claim_verdict option) \<times> claim_verification list \<Rightarrow> cited_claim \<Rightarrow>
   pipeline_failure + (string \<Rightarrow> claim_verdict option) \<times> claim_verification list" where
  "verdict_of_claim st claim =
     (case st of (verdicts, vs) \<Rightarrow>
        res_bind (ok_or (verdicts (claim_id claim)) (response_invalid ''Verification omitted a summary claim'')) (\<lambda>v.
        Inr (verdicts(claim_id claim := None),
          vs @ [\<lparr>verified_claim_id = claim_id claim, verified_evidence_ids = claim_evidence_ids claim, verdict = v\<rparr>])))"

definition parse_verification_response ::
  "wire_codec \<Rightarrow> string \<Rightarrow> cited_claim list \<Rightarrow> pipeline_failure + claim_verification list" where
  "parse_verification_response codec response claims =
     res_bind (ok_or (read_verdicts codec response)
       (response_invalid ''The model verification response was not valid contract JSON'')) (\<lambda>raw.
     res_bind (ensure (\<not> (length raw \<noteq> length claims \<or> raw = [] \<or> MAX_VERIFICATION_CLAIMS_PER_REQUEST < length raw))
       (response_invalid ''Verification must return exactly one verdict for every summary claim'')) (\<lambda>_.
     res_bind (res_fold (collect_verdict (claim_id ` set claims)) Map.empty raw) (\<lambda>verdicts.
     res_bind (res_fold verdict_of_claim (verdicts, []) claims) (\<lambda>(_, vs). Inr vs))))"

section \<open>Classifying a list of claims\<close>

definition classify_batch ::
  "wire_codec \<Rightarrow> model_runtime \<Rightarrow> (nat \<Rightarrow> bool) \<Rightarrow> u64 \<Rightarrow> u32 \<times> nat \<times> claim_verification list \<Rightarrow> verification_batch \<Rightarrow>
   pipeline_failure + u32 \<times> nat \<times> claim_verification list" where
  "classify_batch codec runtime cancelled generation_seed st batch =
     (case st of (next_ordinal, k, vs) \<Rightarrow>
        res_bind (cancellation_checkpoint (cancelled k) Verify) (\<lambda>_.
        res_bind (reserve_model_request_ordinal next_ordinal Verify) (\<lambda>(request_ordinal_number, next_ordinal').
        (let response = mr_generate runtime (verification_request batch request_ordinal_number generation_seed) in
         res_bind (cancellation_checkpoint (cancelled (k + 1)) Verify) (\<lambda>_.
         res_bind (map_err (runtime_pipeline_failure Verify ''MODEL_VERIFICATION'') response) (\<lambda>answer.
         res_bind (cancellation_checkpoint (cancelled (k + 2)) Verify) (\<lambda>_.
         res_bind (validate_runtime_response runtime answer Verify) (\<lambda>_.
         res_bind (verdict_response codec (vb_identifiers batch) (response_text answer)) (\<lambda>restored.
         res_bind (parse_verification_response codec restored (vb_claims batch)) (\<lambda>new.
         Inr (next_ordinal', k + 3, vs @ new)))))))))))"

definition classify_claim_support ::
  "wire_codec \<Rightarrow> model_runtime \<Rightarrow> (nat \<Rightarrow> bool) \<Rightarrow> prompt_verification_claim list \<Rightarrow> cited_claim list \<Rightarrow> nat \<Rightarrow>
   u64 \<Rightarrow> u32 \<Rightarrow> pipeline_failure + u32 \<times> nat \<times> claim_verification list" where
  "classify_claim_support codec runtime cancelled prompt claims claim_budget generation_seed next_ordinal =
     res_bind (cancellation_checkpoint (cancelled 0) Verify) (\<lambda>_.
     res_bind (verification_batches_for_runtime codec runtime prompt claims claim_budget) (\<lambda>batches.
     res_bind (map_err (runtime_pipeline_failure Verify ''MODEL_HEALTH'') (mr_health runtime)) (\<lambda>_.
     res_bind (cancellation_checkpoint (cancelled 1) Verify) (\<lambda>_.
     res_fold (classify_batch codec runtime cancelled generation_seed) (next_ordinal, 2, []) batches))))"

section \<open>The plan covers the claims\<close>

definition planned_batch :: "wire_codec \<Rightarrow> nat \<Rightarrow> verification_batch \<Rightarrow> bool" where
  "planned_batch codec limit batch \<longleftrightarrow>
     (\<exists>inputs. list_all2 catalog_matches inputs (vb_claims batch)
        \<and> vb_system_prompt batch = verification_system_prompt inputs
        \<and> wire_verification_prompt codec inputs = Inr (vb_user_prompt batch, vb_identifiers batch))
     \<and> 1 \<le> length (vb_claims batch) \<and> length (vb_claims batch) \<le> 16
     \<and> char_count (vb_system_prompt batch) + char_count (vb_user_prompt batch) \<le> limit"

lemma materialize_planned:
  assumes "materialize_verification_batch codec inputs claims limit = Inr batch" "list_all2 catalog_matches inputs claims"
  shows "planned_batch codec limit batch \<and> vb_claims batch = claims"
  using assms
  by (auto simp: materialize_verification_batch_def Let_def res_simps planned_batch_def usize_checked_def
      verification_request_within_bounds_def MAX_VERIFICATION_CLAIMS_PER_REQUEST_def split: prod.splits if_splits)

lemma plan_claim_cases:
  assumes "plan_claim codec limit (batches, inputs, claims) (input, claim) = Inr st"
  obtains "st = (batches, inputs @ [input], claims @ [claim])"
    | batch where "inputs \<noteq> []" "materialize_verification_batch codec inputs claims limit = Inr batch"
        "st = (batches @ [batch], [input], [claim])"
  using assms by (auto simp: plan_claim_def Let_def res_simps split: if_splits)

definition plan_inv ::
  "wire_codec \<Rightarrow> nat \<Rightarrow> (prompt_verification_claim \<times> cited_claim) list \<Rightarrow>
   verification_batch list \<times> prompt_verification_claim list \<times> cited_claim list \<Rightarrow> bool" where
  "plan_inv codec limit seen st =
     (case st of (batches, inputs, claims) \<Rightarrow>
        concat (map vb_claims batches) @ claims = map snd seen
        \<and> list_all2 catalog_matches inputs claims
        \<and> (\<forall>batch \<in> set batches. planned_batch codec limit batch))"

lemma plan_claim_inv:
  assumes "plan_inv codec limit seen st" "plan_claim codec limit st x = Inr st'" "catalog_matches (fst x) (snd x)"
  shows "plan_inv codec limit (seen @ [x]) st'"
proof -
  obtain batches inputs claims where st: "st = (batches, inputs, claims)" by (cases st)
  obtain input claim where x: "x = (input, claim)" by (cases x)
  from assms(1) have inv: "concat (map vb_claims batches) @ claims = map snd seen"
      "list_all2 catalog_matches inputs claims" "\<forall>batch \<in> set batches. planned_batch codec limit batch"
    by (simp_all add: plan_inv_def st)
  from assms(2) [unfolded st x] show ?thesis
  proof (cases rule: plan_claim_cases)
    case 1
    then show ?thesis using inv assms(3) by (simp add: plan_inv_def x list_all2_appendI flip: inv(1))
  next
    case (2 batch)
    from materialize_planned [OF 2(2) inv(2)] show ?thesis
      using 2 inv assms(3) by (simp add: plan_inv_def x flip: inv(1))
  qed
qed

lemma plan_Inr:
  assumes "plan_verification_batches codec prompt claims claim_budget limit = Inr batches"
  shows "concat (map vb_claims batches) = claims \<and> claims \<noteq> [] \<and> 1 \<le> length batches \<and> length batches \<le> 64
    \<and> (\<forall>batch \<in> set batches. planned_batch codec limit batch)"
proof -
  from assms obtain bs inputs cs where
    guard: "prompt \<noteq> []" "length prompt = length claims"
      "\<not> list_ex (\<lambda>(input, claim). \<not> catalog_matches input claim) (zip prompt claims)"
    and loop: "res_fold (plan_claim codec limit) ([], [], []) (zip prompt claims) = Inr (bs, inputs, cs)"
    and close: "(if inputs = [] then Inr bs
         else res_bind (materialize_verification_batch codec inputs cs limit) (\<lambda>batch. Inr (bs @ [batch]))) = Inr batches"
    and count: "1 \<le> length batches" "length batches \<le> 64"
    by (auto simp: plan_verification_batches_def res_simps ensure_verification_batch_count_def MAX_VERIFICATION_BATCHES_def
        split: prod.splits)
  have "plan_inv codec limit (zip prompt claims) (bs, inputs, cs)"
  proof (rule res_fold_invariant [OF loop])
    show "plan_inv codec limit [] ([], [], [])" by (simp add: plan_inv_def)
  next
    fix seen x st st'
    assume "plan_inv codec limit seen st" "x \<in> set (zip prompt claims)" "plan_claim codec limit st x = Inr st'"
    moreover from this(2) guard(3) have "catalog_matches (fst x) (snd x)" by (auto simp: list_ex_iff)
    ultimately show "plan_inv codec limit (seen @ [x]) st'" by (blast intro: plan_claim_inv)
  qed
  then have inv: "concat (map vb_claims bs) @ cs = claims" "list_all2 catalog_matches inputs cs"
      "\<forall>batch \<in> set bs. planned_batch codec limit batch"
    using guard(2) by (simp_all add: plan_inv_def)
  show ?thesis
  proof (cases "inputs = []")
    case True
    then show ?thesis using close inv count guard by auto
  next
    case False
    with close obtain batch where "materialize_verification_batch codec inputs cs limit = Inr batch" "batches = bs @ [batch]"
      by (auto simp: res_simps)
    with materialize_planned [OF this(1) inv(2)] show ?thesis using inv count guard by auto
  qed
qed

lemma planned_batch_ids:
  assumes "planned_batch codec limit batch"
  shows "request_ids_new ''k'' (map claim_id (vb_claims batch)) Verify = Inr (vb_identifiers batch)"
proof -
  from assms obtain inputs where "list_all2 catalog_matches inputs (vb_claims batch)"
      and ids: "request_ids_new ''k'' (map pv_claim_id inputs) Verify = Inr (vb_identifiers batch)"
    by (auto simp: planned_batch_def wire_verification_prompt_def res_simps split: prod.splits)
  from this(1) have "map pv_claim_id inputs = map claim_id (vb_claims batch)"
    by (induction rule: list_all2_induct) (auto simp: catalog_matches_def)
  with ids show ?thesis by simp
qed

section \<open>What the verdicts of one request mean\<close>

lemma collect_verdict_fold:
  "res_fold (collect_verdict known) Map.empty raw = Inr verdicts \<longleftrightarrow>
     distinct (map fst raw) \<and> fst ` set raw \<subseteq> known \<and> verdicts = map_of raw"
proof (induction raw arbitrary: verdicts rule: rev_induct)
  case Nil
  then show ?case by auto
next
  case (snoc x raw)
  obtain i v where x: "x = (i, v)" by (cases x)
  have step: "collect_verdict known (map_of raw) x = Inr verdicts \<longleftrightarrow>
      i \<in> known \<and> i \<notin> fst ` set raw \<and> verdicts = (map_of raw)(i \<mapsto> v)"
    by (auto simp: collect_verdict_def x map_of_eq_None_iff domIff dom_map_of_conv_image_fst)
  have "map_of (raw @ [x]) = (map_of raw)(i \<mapsto> v)" if "i \<notin> fst ` set raw"
  proof -
    from that have "map_of raw i = None" by (simp add: map_of_eq_None_iff)
    then show ?thesis by (auto simp: x map_add_def fun_eq_iff split: option.split)
  qed
  then show ?case by (auto simp: res_fold_append res_bind_Inr_iff snoc.IH step) (force simp: x)+
qed

lemma verdict_of_claim_fold:
  "res_fold verdict_of_claim (verdicts, vs) claims = Inr (rest, vs') \<longleftrightarrow>
     distinct (map claim_id claims) \<and> claim_id ` set claims \<subseteq> dom verdicts
     \<and> rest = verdicts |` (- claim_id ` set claims)
     \<and> vs' = vs @ map (\<lambda>claim. \<lparr>verified_claim_id = claim_id claim, verified_evidence_ids = claim_evidence_ids claim,
          verdict = the (verdicts (claim_id claim))\<rparr>) claims"
proof (induction claims arbitrary: verdicts vs)
  case Nil
  then show ?case by auto
next
  case (Cons c claims)
  show ?case
  proof (cases "verdicts (claim_id c)")
    case None
    then show ?thesis by (auto simp: verdict_of_claim_def)
  next
    case (Some v)
    let ?v = "verdicts(claim_id c := None)"
    have step: "verdict_of_claim (verdicts, vs) c = Inr (?v, vs @ [\<lparr>verified_claim_id = claim_id c,
        verified_evidence_ids = claim_evidence_ids c, verdict = v\<rparr>])"
      using Some by (simp add: verdict_of_claim_def)
    have same: "map (\<lambda>claim. \<lparr>verified_claim_id = claim_id claim, verified_evidence_ids = claim_evidence_ids claim,
          verdict = the ((verdicts(claim_id c := None)) (claim_id claim))\<rparr>) claims =
        map (\<lambda>claim. \<lparr>verified_claim_id = claim_id claim, verified_evidence_ids = claim_evidence_ids claim,
          verdict = the (verdicts (claim_id claim))\<rparr>) claims"
      if "claim_id c \<notin> claim_id ` set claims"
    proof (rule map_cong [OF refl])
      fix x assume "x \<in> set claims"
      then have "claim_id x \<noteq> claim_id c" using that by (metis imageI)
      then show "\<lparr>verified_claim_id = claim_id x, verified_evidence_ids = claim_evidence_ids x,
          verdict = the ((verdicts(claim_id c := None)) (claim_id x))\<rparr> =
        \<lparr>verified_claim_id = claim_id x, verified_evidence_ids = claim_evidence_ids x, verdict = the (verdicts (claim_id x))\<rparr>"
        by simp
    qed
    have inside: "claim_id ` set claims \<subseteq> dom (verdicts(claim_id c := None)) \<longleftrightarrow>
        claim_id c \<notin> claim_id ` set claims \<and> claim_id ` set claims \<subseteq> dom verdicts"
      using Some by (auto simp: domIff) (metis imageI)
    have left: "verdicts(claim_id c := None) |` (- claim_id ` set claims) = verdicts |` (- claim_id ` set (c # claims))"
      by (auto simp: restrict_map_def fun_eq_iff)
    have c: "claim_id c \<in> dom verdicts" using Some by blast
    show ?thesis
      unfolding res_fold.simps step res_bind.simps Cons.IH inside left
      using same c Some by auto
  qed
qed

lemma parse_verification_Inr:
  "parse_verification_response codec response claims = Inr vs \<longleftrightarrow>
     (\<exists>raw. read_verdicts codec response = Some raw \<and> raw \<noteq> [] \<and> length raw = length claims \<and> length raw \<le> 16
        \<and> distinct (map fst raw) \<and> distinct (map claim_id claims) \<and> fst ` set raw = claim_id ` set claims
        \<and> vs = map (\<lambda>claim. \<lparr>verified_claim_id = claim_id claim, verified_evidence_ids = claim_evidence_ids claim,
             verdict = the (map_of raw (claim_id claim))\<rparr>) claims)"
  by (auto simp: parse_verification_response_def res_simps collect_verdict_fold verdict_of_claim_fold
      MAX_VERIFICATION_CLAIMS_PER_REQUEST_def dom_map_of_conv_image_fst not_less split: prod.splits)

text \<open>What is documented of the serializer: what it has written it reads back.\<close>

definition wire_codec_ok :: "wire_codec \<Rightarrow> bool" where
  "wire_codec_ok codec \<longleftrightarrow> (\<forall>raw written. write_verdicts codec raw = Some written \<longrightarrow> read_verdicts codec written = Some raw)"

text \<open>The verdicts of a batch are the model's, given to the claims under their local identities.\<close>

definition answered :: "string \<Rightarrow> raw_verdicts \<Rightarrow> cited_claim list \<Rightarrow> claim_verification list \<Rightarrow> bool" where
  "answered mark raw claims vs \<longleftrightarrow>
     distinct (map fst raw) \<and> fst ` set raw = (\<lambda>i. mark @ show_nat (Suc i)) ` {..<length claims}
     \<and> length vs = length claims
     \<and> (\<forall>i < length claims. verified_claim_id (vs ! i) = claim_id (claims ! i)
          \<and> verified_evidence_ids (vs ! i) = claim_evidence_ids (claims ! i)
          \<and> (mark @ show_nat (Suc i), verdict (vs ! i)) \<in> set raw)"

lemma batch_answered:
  assumes codec: "wire_codec_ok codec"
    and ids: "request_ids_new mark (map claim_id claims) stage = Inr ids"
    and restored: "verdict_response codec ids response = Inr restored"
    and parsed: "parse_verification_response codec restored claims = Inr vs"
  shows "\<exists>raw. read_verdicts codec response = Some raw \<and> answered mark raw claims vs"
proof -
  let ?n = "length claims"
  from restored obtain raw named where raw: "read_verdicts codec response = Some raw"
    and named': "list_all2 (\<lambda>x y. \<exists>d. ids_restore ids (fst x) = Inr d \<and> (d, snd x) = y) raw named"
    and written: "write_verdicts codec named = Some restored"
    by (auto simp: verdict_response_def res_simps split_def)
  have named: "list_all2 (\<lambda>x y. ids_restore ids (fst x) = Inr (fst y) \<and> snd x = snd y) raw named"
    using named' by (rule list_all2_mono) auto
  from codec written have "read_verdicts codec restored = Some named" by (simp add: wire_codec_ok_def)
  with parsed have n: "length named = ?n" "distinct (map fst named)" "distinct (map claim_id claims)"
      "fst ` set named = claim_id ` set claims"
    and vs: "vs = map (\<lambda>claim. \<lparr>verified_claim_id = claim_id claim, verified_evidence_ids = claim_evidence_ids claim,
             verdict = the (map_of named (claim_id claim))\<rparr>) claims"
    by (auto simp: parse_verification_Inr)
  note restore = ids_restore_Inr [OF ids, simplified]
  have len: "length raw = ?n" using list_all2_lengthD [OF named] n(1) by simp
  have at: "\<exists>i < ?n. fst (raw ! j) = mark @ show_nat (Suc i) \<and> fst (named ! j) = claim_id (claims ! i) \<and> snd (raw ! j) = snd (named ! j)"
    if "j < ?n" for j
    using list_all2_nthD [OF named, of j] that len restore by auto
  have distinct_raw: "distinct (map fst raw)"
    unfolding distinct_conv_nth
  proof (intro allI impI)
    fix j k assume jk: "j < length (map fst raw)" "k < length (map fst raw)" "j \<noteq> k"
    with len have jk': "j < ?n" "k < ?n" by simp_all
    from at [OF jk'(1)] at [OF jk'(2)] have "fst (raw ! j) = fst (raw ! k) \<Longrightarrow> fst (named ! j) = fst (named ! k)" by auto
    with n(1,2) jk jk' show "map fst raw ! j \<noteq> map fst raw ! k" by (auto simp: distinct_conv_nth)
  qed
  have given: "\<exists>v. (mark @ show_nat (Suc i), v) \<in> set raw \<and> (claim_id (claims ! i), v) \<in> set named" if i: "i < ?n" for i
  proof -
    from i have "claim_id (claims ! i) \<in> fst ` set named" by (simp add: n(4))
    then obtain j where j: "j < ?n" "fst (named ! j) = claim_id (claims ! i)" by (auto simp: in_set_conv_nth n(1))
    from at [OF j(1)] obtain i' where i': "i' < ?n" "fst (raw ! j) = mark @ show_nat (Suc i')"
        "claim_id (claims ! i') = claim_id (claims ! i)" "snd (raw ! j) = snd (named ! j)" using j(2) by auto
    with n(3) i have "i' = i" by (auto simp: distinct_conv_nth)
    then have "raw ! j = (mark @ show_nat (Suc i), snd (named ! j))" "named ! j = (claim_id (claims ! i), snd (named ! j))"
      using i' j(2) by (simp_all add: prod_eq_iff)
    then show ?thesis using j(1) len n(1) nth_mem by metis
  qed
  have "fst ` set raw = (\<lambda>i. mark @ show_nat (Suc i)) ` {..<?n}"
  proof
    show "fst ` set raw \<subseteq> (\<lambda>i. mark @ show_nat (Suc i)) ` {..<?n}" using at len by (auto simp: in_set_conv_nth) (metis fst_conv lessThan_iff imageI)
    show "(\<lambda>i. mark @ show_nat (Suc i)) ` {..<?n} \<subseteq> fst ` set raw" using given by force
  qed
  moreover have "(mark @ show_nat (Suc i), verdict (vs ! i)) \<in> set raw" if i: "i < ?n" for i
  proof -
    from given [OF i] obtain v where v: "(mark @ show_nat (Suc i), v) \<in> set raw" "(claim_id (claims ! i), v) \<in> set named" by blast
    from map_of_is_SomeI [OF n(2) v(2)] v(1) i show ?thesis by (simp add: vs)
  qed
  ultimately have "answered mark raw claims vs"
    using distinct_raw by (simp add: answered_def vs)
  with raw show ?thesis by blast
qed

section \<open>The classification\<close>

text \<open>The model's answer to the request with one ordinal, and the verdicts read from it.\<close>

definition batch_verdicts ::
  "wire_codec \<Rightarrow> model_runtime \<Rightarrow> u64 \<Rightarrow> u32 \<Rightarrow> verification_batch \<Rightarrow> claim_verification list \<Rightarrow> bool" where
  "batch_verdicts codec runtime generation_seed ordinal_number batch vs \<longleftrightarrow>
     (\<exists>answer raw. mr_generate runtime (verification_request batch ordinal_number generation_seed) = Inr answer
        \<and> read_verdicts codec (response_text answer) = Some raw \<and> answered ''k'' raw (vb_claims batch) vs)"

lemma classify_batch_Inr:
  assumes "wire_codec_ok codec" "planned_batch codec limit batch"
    and "classify_batch codec runtime cancelled generation_seed (next_ordinal, k, vs) batch = Inr st"
  shows "\<exists>new. st = (next_ordinal + 1, k + 3, vs @ new) \<and> unat (next_ordinal + 1) = unat next_ordinal + 1
    \<and> \<not> cancelled k \<and> \<not> cancelled (k + 1) \<and> \<not> cancelled (k + 2)
    \<and> batch_verdicts codec runtime generation_seed next_ordinal batch new"
proof -
  from assms(3) obtain next_ordinal' answer restored new where
    nxt: "checked_add_u32 next_ordinal 1 = Some next_ordinal'"
    and live: "\<not> cancelled k" "\<not> cancelled (Suc k)" "\<not> cancelled (Suc (Suc k))"
    and answer: "mr_generate runtime (verification_request batch next_ordinal generation_seed) = Inr answer"
    and restored: "verdict_response codec (vb_identifiers batch) (response_text answer) = Inr restored"
    and new: "parse_verification_response codec restored (vb_claims batch) = Inr new"
    and st: "st = (next_ordinal', k + 3, vs @ new)"
    by (auto simp: classify_batch_def res_simps Let_def cancellation_checkpoint_def reserve_model_request_ordinal_def
        split: if_splits)
  from nxt have unat: "unat next_ordinal' = unat next_ordinal + 1" by (simp add: checked_add_u32_Some)
  from nxt have "next_ordinal' = next_ordinal + 1" by (simp add: checked_add_u32_def split: if_splits)
  moreover from batch_answered [OF assms(1) planned_batch_ids [OF assms(2)] restored new] answer
  have "batch_verdicts codec runtime generation_seed next_ordinal batch new" by (auto simp: batch_verdicts_def)
  ultimately show ?thesis using unat live st by simp
qed

definition classify_inv ::
  "wire_codec \<Rightarrow> model_runtime \<Rightarrow> (nat \<Rightarrow> bool) \<Rightarrow> u64 \<Rightarrow> u32 \<Rightarrow> verification_batch list \<Rightarrow>
   u32 \<times> nat \<times> claim_verification list \<Rightarrow> bool" where
  "classify_inv codec runtime cancelled generation_seed first batches st \<longleftrightarrow>
     (\<exists>vss. st = (first + of_nat (length batches), 2 + 3 * length batches, concat vss)
        \<and> unat (first + of_nat (length batches)) = unat first + length batches
        \<and> (\<forall>j < 2 + 3 * length batches. \<not> cancelled j)
        \<and> length vss = length batches
        \<and> (\<forall>j < length batches. batch_verdicts codec runtime generation_seed (first + of_nat j) (batches ! j) (vss ! j)))"

lemma classify_inv_step:
  assumes codec: "wire_codec_ok codec" and batch: "planned_batch codec limit batch"
    and inv: "classify_inv codec runtime cancelled generation_seed first batches st"
    and step: "classify_batch codec runtime cancelled generation_seed st batch = Inr st'"
  shows "classify_inv codec runtime cancelled generation_seed first (batches @ [batch]) st'"
proof -
  let ?n = "length batches"
  from inv obtain vss where st: "st = (first + of_nat ?n, 2 + 3 * ?n, concat vss)"
    and unat: "unat (first + of_nat ?n) = unat first + ?n" and live: "\<forall>j < 2 + 3 * ?n. \<not> cancelled j"
    and vss: "length vss = ?n"
      "\<forall>j < ?n. batch_verdicts codec runtime generation_seed (first + of_nat j) (batches ! j) (vss ! j)"
    by (auto simp: classify_inv_def)
  from classify_batch_Inr [OF codec batch step [unfolded st]] obtain new
    where st': "st' = (first + of_nat ?n + 1, 2 + 3 * ?n + 3, concat vss @ new)"
      and one: "unat (first + of_nat ?n + 1) = unat (first + of_nat ?n) + 1"
      and more: "\<not> cancelled (2 + 3 * ?n)" "\<not> cancelled (2 + 3 * ?n + 1)" "\<not> cancelled (2 + 3 * ?n + 2)"
      and new: "batch_verdicts codec runtime generation_seed (first + of_nat ?n) batch new" by blast
  have "\<not> cancelled j" if "j < 2 + 3 * (?n + 1)" for j
  proof -
    from that have "j < 2 + 3 * ?n \<or> j = 2 + 3 * ?n \<or> j = 2 + 3 * ?n + 1 \<or> j = 2 + 3 * ?n + 2" by arith
    then show ?thesis using live more by auto
  qed
  moreover have "batch_verdicts codec runtime generation_seed (first + of_nat j) ((batches @ [batch]) ! j) ((vss @ [new]) ! j)"
    if "j < Suc ?n" for j
    using that vss new by (auto simp: nth_append less_Suc_eq)
  ultimately show ?thesis
    unfolding classify_inv_def st' using one unat vss(1)
    by (intro exI [where x = "vss @ [new]"]) (auto simp: algebra_simps)
qed

text \<open>
  C33. When the classification of claims succeeds, every claim has exactly one verdict, in order and
  with its own evidence, and every verdict is the one the model gave to that claim's local identity in
  the single request that shows the claim; there are at most 64 requests, of at most 16 claims each,
  numbered without gaps, none of them too long for the context of the model, and no cancellation was
  requested at any point before the result.
\<close>

theorem classification_covers_claims:
  assumes "wire_codec_ok codec"
    and "classify_claim_support codec runtime cancelled prompt claims claim_budget generation_seed first =
      Inr (next_ordinal, k, vs)"
  shows "\<exists>limit batches vss.
    verification_request_character_limit (mr_context_tokens runtime Verify) VERIFICATION_OUTPUT_TOKENS = Inr limit
    \<and> concat (map vb_claims batches) = claims \<and> (\<forall>batch \<in> set batches. planned_batch codec limit batch)
    \<and> 1 \<le> length batches \<and> length batches \<le> 64
    \<and> unat next_ordinal = unat first + length batches
    \<and> k = 2 + 3 * length batches \<and> (\<forall>j < k. \<not> cancelled j)
    \<and> vs = concat vss \<and> length vss = length batches
    \<and> (\<forall>j < length batches. batch_verdicts codec runtime generation_seed (first + of_nat j) (batches ! j) (vss ! j))
    \<and> map verified_claim_id vs = map claim_id claims
    \<and> map verified_evidence_ids vs = map claim_evidence_ids claims"
proof -
  from assms(2) obtain limit batches where
    limit: "verification_request_character_limit (mr_context_tokens runtime Verify) VERIFICATION_OUTPUT_TOKENS = Inr limit"
    and plan: "plan_verification_batches codec prompt claims claim_budget limit = Inr batches"
    and live: "\<not> cancelled 0" "\<not> cancelled 1"
    and loop: "res_fold (classify_batch codec runtime cancelled generation_seed) (first, 2, []) batches = Inr (next_ordinal, k, vs)"
    by (auto simp: classify_claim_support_def res_simps cancellation_checkpoint_def verification_batches_for_runtime_def
        split: if_splits)
  from plan_Inr [OF plan] have planned: "concat (map vb_claims batches) = claims" "1 \<le> length batches" "length batches \<le> 64"
      "\<forall>batch \<in> set batches. planned_batch codec limit batch" by simp_all
  have "classify_inv codec runtime cancelled generation_seed first batches (next_ordinal, k, vs)"
  proof (rule res_fold_invariant [OF loop])
    show "classify_inv codec runtime cancelled generation_seed first [] (first, 2, [])"
      using live by (auto simp: classify_inv_def less_2_cases_iff)
  next
    fix seen x st st'
    assume "classify_inv codec runtime cancelled generation_seed first seen st" "x \<in> set batches"
      "classify_batch codec runtime cancelled generation_seed st x = Inr st'"
    with planned(4) show "classify_inv codec runtime cancelled generation_seed first (seen @ [x]) st'"
      by (blast intro: classify_inv_step [OF assms(1)])
  qed
  then obtain vss where vss: "next_ordinal = first + of_nat (length batches)" "k = 2 + 3 * length batches" "vs = concat vss"
      "unat (first + of_nat (length batches)) = unat first + length batches" "\<forall>j < 2 + 3 * length batches. \<not> cancelled j"
      "length vss = length batches"
      "\<forall>j < length batches. batch_verdicts codec runtime generation_seed (first + of_nat j) (batches ! j) (vss ! j)"
    by (auto simp: classify_inv_def)
  have "map verified_claim_id (vss ! j) = map claim_id (vb_claims (batches ! j))
      \<and> map verified_evidence_ids (vss ! j) = map claim_evidence_ids (vb_claims (batches ! j))"
    if "j < length batches" for j
    using vss(7) that by (auto simp: batch_verdicts_def answered_def intro!: nth_equalityI)
  then have "map (map verified_claim_id) vss = map (\<lambda>batch. map claim_id (vb_claims batch)) batches"
      "map (map verified_evidence_ids) vss = map (\<lambda>batch. map claim_evidence_ids (vb_claims batch)) batches"
    using vss(6) by (auto intro!: nth_equalityI)
  then have "map verified_claim_id vs = map claim_id claims" "map verified_evidence_ids vs = map claim_evidence_ids claims"
    unfolding vss(3) planned(1) [symmetric] by (simp_all add: map_concat comp_def)
  then show ?thesis using limit planned vss by (intro exI [where x = limit] exI [where x = batches] exI [where x = vss]) simp
qed

section \<open>A sample\<close>

lemma char_count_le_length: "char_count s \<le> length s"
proof -
  have "length cs \<le> length (text_of cs)" if "\<forall>c \<in> set cs. snd c \<noteq> []" for cs :: "(nat \<times> string) list"
    using that by (induction cs) (auto simp: neq_Nil_conv)
  from this [of "utf8_chars s"] show ?thesis using utf8_chars_nonempty_bytes [of _ s] by (auto simp: char_count_def)
qed

lemma length_verification_prompt: "length VERIFICATION_SYSTEM_PROMPT \<le> 2000"
  by (simp add: VERIFICATION_SYSTEM_PROMPT_def)

definition wire_sample :: wire_codec where
  "wire_sample = \<lparr>write_prompt = (\<lambda>_. Some ''p''),
     read_verdicts = (\<lambda>s. if s = ''answer'' then Some [(''k1'', Supported)]
        else if s = ''restored'' then Some [(claim_id sample_claim, Supported)] else None),
     write_verdicts = (\<lambda>raw. if raw = [(claim_id sample_claim, Supported)] then Some ''restored'' else None)\<rparr>"

definition sample_runtime :: model_runtime where
  "sample_runtime = \<lparr>mr_generate = (\<lambda>_. Inr \<lparr>response_text = ''answer'', response_runtime_id = ''r'', response_model_id = ''m'',
       response_attempts = []\<rparr>),
     mr_preflight = (\<lambda>_. Inr ()), mr_health = Inr (), mr_runtime_id = (\<lambda>_. ''r''), mr_model_id = (\<lambda>_. ''m''),
     mr_context_tokens = (\<lambda>_. 8192)\<rparr>"

definition sample_input :: prompt_verification_claim where
  "sample_input = \<lparr>pv_claim_id = claim_id sample_claim, pv_text = ''Fee'', pv_source_framing = None,
     pv_evidence = [\<lparr>pv_evidence_id = ''e1'', pv_exact_quote = ''Fee''\<rparr>, \<lparr>pv_evidence_id = ''e2'', pv_exact_quote = ''Due''\<rparr>]\<rparr>"

lemma wire_sample_ok: "wire_codec_ok wire_sample"
  by (auto simp: wire_codec_ok_def wire_sample_def split: if_splits)

lemma sample_claim_id: "claim_id sample_claim \<noteq> []"
  by (simp add: sample_claim_def deterministic_claim_id_def deterministic_id_def)

lemma show_nat_1: "show_nat (Suc 0) = ''1''"
  by code_simp

lemma sample_wire: "\<exists>ids. wire_verification_prompt wire_sample [sample_input] = Inr (''p'', ids)
    \<and> request_ids_new ''k'' [claim_id sample_claim] Verify = Inr ids"
  using sample_claim_id
  by (simp add: wire_verification_prompt_def request_ids_new_def sample_input_def wire_sample_def wire_claim_def
      ids_local_def res_collect_def)

lemma sample_limit:
  "verification_request_character_limit 8192 VERIFICATION_OUTPUT_TOKENS = Inr 10752"
  by (simp add: verification_request_character_limit_def VERIFICATION_OUTPUT_TOKENS_def checked_sub_u32_def
      VERIFICATION_CONTEXT_RESERVE_TOKENS_def usize_checked_def MAX_VERIFICATION_REQUEST_CHARACTERS_def)

lemma sample_classification:
  "classify_claim_support wire_sample sample_runtime (\<lambda>_. False) [sample_input] [sample_claim] 8 7 0 =
     Inr (1, 5, [\<lparr>verified_claim_id = claim_id sample_claim, verified_evidence_ids = [''e1'', ''e2''], verdict = Supported\<rparr>])"
proof -
  from sample_wire obtain ids where wire: "wire_verification_prompt wire_sample [sample_input] = Inr (''p'', ids)"
    and ids: "request_ids_new ''k'' [claim_id sample_claim] Verify = Inr ids" by blast
  let ?batch = "\<lparr>vb_system_prompt = VERIFICATION_SYSTEM_PROMPT, vb_user_prompt = ''p'', vb_claims = [sample_claim], vb_identifiers = ids\<rparr>"
  have sys: "verification_system_prompt [sample_input] = VERIFICATION_SYSTEM_PROMPT"
    by (simp add: verification_system_prompt_def sample_input_def)
  have small: "char_count VERIFICATION_SYSTEM_PROMPT + char_count ''p'' \<le> 10752"
    using char_count_le_length [of VERIFICATION_SYSTEM_PROMPT] char_count_le_length [of "''p''"] length_verification_prompt by simp
  then have total: "usize_checked (char_count VERIFICATION_SYSTEM_PROMPT + char_count ''p'') =
      Some (char_count VERIFICATION_SYSTEM_PROMPT + char_count ''p'')" by (simp add: usize_checked_def)
  have bounds: "verification_request_within_bounds 1 (char_count VERIFICATION_SYSTEM_PROMPT + char_count ''p'') 10752"
    using small by (simp add: verification_request_within_bounds_def MAX_VERIFICATION_CLAIMS_PER_REQUEST_def)
  have "plan_claim wire_sample 10752 ([], [], []) (sample_input, sample_claim) = Inr ([], [sample_input], [sample_claim])"
    using bounds by (simp add: plan_claim_def wire sys total)
  moreover have "materialize_verification_batch wire_sample [sample_input] [sample_claim] 10752 = Inr ?batch"
    using bounds by (simp add: materialize_verification_batch_def wire sys total)
  moreover have "catalog_matches (sample_input) sample_claim"
    by (simp add: catalog_matches_def sample_input_def sample_claim_def)
  ultimately have plan: "plan_verification_batches wire_sample [sample_input] [sample_claim] 8 10752 = Inr [?batch]"
    by (simp add: plan_verification_batches_def LEGACY_MAX_SUMMARY_CLAIMS_def ensure_verification_batch_count_def
        MAX_VERIFICATION_BATCHES_def)
  have restore: "ids_restore ids ''k1'' = Inr (claim_id sample_claim)"
    using ids_restore_Inr [OF ids, of "''k1''" "claim_id sample_claim"] show_nat_1 by simp
  have "classify_batch wire_sample sample_runtime (\<lambda>_. False) 7 (0, 2, []) ?batch =
      Inr (1, 5, [\<lparr>verified_claim_id = claim_id sample_claim, verified_evidence_ids = [''e1'', ''e2''], verdict = Supported\<rparr>])"
    by (simp add: classify_batch_def cancellation_checkpoint_def reserve_model_request_ordinal_def checked_add_u32_def
        sample_runtime_def validate_runtime_response_def blank_ascii_Cons byte_def is_whitespace_def verdict_response_def
        wire_sample_def res_collect_def restore parse_verification_response_def collect_verdict_def verdict_of_claim_def
        MAX_VERIFICATION_CLAIMS_PER_REQUEST_def)
      (simp add: sample_claim_def)
  then show ?thesis
    by (simp add: classify_claim_support_def cancellation_checkpoint_def verification_batches_for_runtime_def
        sample_limit plan, simp add: sample_runtime_def sample_limit plan)
qed

theorem classification_covers_claims_witness:
  "\<exists>limit batches vss.
    verification_request_character_limit (mr_context_tokens sample_runtime Verify) VERIFICATION_OUTPUT_TOKENS = Inr limit
    \<and> concat (map vb_claims batches) = [sample_claim] \<and> (\<forall>batch \<in> set batches. planned_batch wire_sample limit batch)
    \<and> 1 \<le> length batches \<and> length batches \<le> 64
    \<and> unat (1 :: u32) = unat (0 :: u32) + length batches
    \<and> (5 :: nat) = 2 + 3 * length batches \<and> (\<forall>j < (5 :: nat). \<not> False)
    \<and> [\<lparr>verified_claim_id = claim_id sample_claim, verified_evidence_ids = [''e1'', ''e2''], verdict = Supported\<rparr>] = concat vss
    \<and> length vss = length batches
    \<and> (\<forall>j < length batches. batch_verdicts wire_sample sample_runtime 7 (0 + of_nat j) (batches ! j) (vss ! j))
    \<and> map verified_claim_id [\<lparr>verified_claim_id = claim_id sample_claim, verified_evidence_ids = [''e1'', ''e2''], verdict = Supported\<rparr>]
        = map claim_id [sample_claim]
    \<and> map verified_evidence_ids [\<lparr>verified_claim_id = claim_id sample_claim, verified_evidence_ids = [''e1'', ''e2''], verdict = Supported\<rparr>]
        = map claim_evidence_ids [sample_claim]"
  by (rule classification_covers_claims [OF wire_sample_ok sample_classification])

end
