(* ===== verification/Analyzed_Document.thy ===== *)
theory Analyzed_Document
  imports Contract_Correct Claim_Support
begin

text \<open>
  The acceptance of an analysis (\<open>validate_analyzed_document\<close> and \<open>validate_analyzed_content\<close> of
  \<open>pipeline/summary.rs\<close>): identity, coverage and provenance of every evidence item. The scopes that
  \<open>summary/pages.rs\<close> plans for the pages come in as \<open>page_plans\<close>; what is shown here holds
  whatever they are. The plans of the program are \<open>program_plans\<close> of \<open>Page_Plan\<close>.
\<close>

section \<open>Versions\<close>

definition ANALYSIS_VERSION :: string where "ANALYSIS_VERSION = ''14.0.0''"
definition SENTENCE_ANALYSIS_VERSION :: string where "SENTENCE_ANALYSIS_VERSION = ''13.0.0''"
definition QUOTE_BOUNDARY_ANALYSIS_VERSION :: string where "QUOTE_BOUNDARY_ANALYSIS_VERSION = ''12.0.0''"
definition PUNCTUATION_ANALYSIS_VERSION :: string where "PUNCTUATION_ANALYSIS_VERSION = ''11.0.0''"
definition TOLERANT_ANALYSIS_VERSION :: string where "TOLERANT_ANALYSIS_VERSION = ''10.0.0''"
definition DIRECT_ANALYSIS_VERSION :: string where "DIRECT_ANALYSIS_VERSION = ''9.0.0''"
definition RETENTION_ANALYSIS_VERSION :: string where "RETENTION_ANALYSIS_VERSION = ''8.0.0''"
definition WORD_TARGET_ANALYSIS_VERSION :: string where "WORD_TARGET_ANALYSIS_VERSION = ''7.1.0''"
definition CAPACITY_ANALYSIS_VERSION :: string where "CAPACITY_ANALYSIS_VERSION = ''7.0.0''"
definition COMPLETION_ANALYSIS_VERSION :: string where "COMPLETION_ANALYSIS_VERSION = ''6.0.0''"
definition MATERIALITY_ANALYSIS_VERSION :: string where "MATERIALITY_ANALYSIS_VERSION = ''5.0.0''"
definition SINGLE_PAGE_ANALYSIS_VERSION :: string where "SINGLE_PAGE_ANALYSIS_VERSION = ''4.0.0''"
definition PREVIOUS_ANALYSIS_VERSION :: string where "PREVIOUS_ANALYSIS_VERSION = ''3.0.0''"
definition LEGACY_ANALYSIS_VERSION :: string where "LEGACY_ANALYSIS_VERSION = ''2.0.0''"

text \<open>The versions of the \<open>matches!\<close> patterns, each list the one before it with earlier versions added.\<close>

definition suffix_versions :: "string list" where
  "suffix_versions = [ANALYSIS_VERSION, SENTENCE_ANALYSIS_VERSION, QUOTE_BOUNDARY_ANALYSIS_VERSION]"

definition direct_claim_versions :: "string list" where
  "direct_claim_versions = suffix_versions @ [PUNCTUATION_ANALYSIS_VERSION, TOLERANT_ANALYSIS_VERSION]"

definition analysis_claim_versions :: "string list" where
  "analysis_claim_versions =
     [DIRECT_ANALYSIS_VERSION, RETENTION_ANALYSIS_VERSION, WORD_TARGET_ANALYSIS_VERSION, CAPACITY_ANALYSIS_VERSION]"

definition completion_versions :: "string list" where
  "completion_versions = direct_claim_versions @ analysis_claim_versions @ [COMPLETION_ANALYSIS_VERSION]"

definition materiality_versions :: "string list" where
  "materiality_versions = completion_versions @ [MATERIALITY_ANALYSIS_VERSION]"

definition one_item_versions :: "string list" where
  "one_item_versions = materiality_versions @ [SINGLE_PAGE_ANALYSIS_VERSION]"

definition known_analysis_versions :: "string list" where
  "known_analysis_versions = one_item_versions @ [PREVIOUS_ANALYSIS_VERSION, LEGACY_ANALYSIS_VERSION]"

section \<open>Bounds\<close>

definition MAX_DIRECT_ANALYSIS_CLAIM_CHARACTERS :: nat where "MAX_DIRECT_ANALYSIS_CLAIM_CHARACTERS = 1536"
definition MAX_ANALYSIS_CLAIM_CHARACTERS :: nat where "MAX_ANALYSIS_CLAIM_CHARACTERS = 384"
definition HISTORICAL_ANALYSIS_CLAIM_CHARACTERS :: nat where "HISTORICAL_ANALYSIS_CLAIM_CHARACTERS = 192"
definition MAX_ANALYSIS_QUOTE_CHARACTERS :: nat where "MAX_ANALYSIS_QUOTE_CHARACTERS = 600"
definition MAX_QUOTE_CHARACTERS :: nat where "MAX_QUOTE_CHARACTERS = 4000"
definition LEGACY_MAX_EVIDENCE_PER_CHUNK :: nat where "LEGACY_MAX_EVIDENCE_PER_CHUNK = 64"

definition claim_character_limit :: "string \<Rightarrow> nat" where
  "claim_character_limit version =
     (if version \<in> set direct_claim_versions then MAX_DIRECT_ANALYSIS_CLAIM_CHARACTERS
      else if version \<in> set analysis_claim_versions then MAX_ANALYSIS_CLAIM_CHARACTERS
      else if version = LEGACY_ANALYSIS_VERSION then MAX_CLAIM_CHARACTERS
      else HISTORICAL_ANALYSIS_CLAIM_CHARACTERS)"

definition quote_character_limit :: "string \<Rightarrow> nat" where
  "quote_character_limit version =
     (if version \<noteq> LEGACY_ANALYSIS_VERSION then MAX_ANALYSIS_QUOTE_CHARACTERS else MAX_QUOTE_CHARACTERS)"

section \<open>Complete sentences\<close>

definition closers :: "nat list" where "closers = [34, 39, 8221, 8217, 41, 93, 125]"

definition terminals :: "nat list" where "terminals = [46, 33, 63, 12290, 65281, 65311]"

definition trim_closers :: "(nat \<times> string) list \<Rightarrow> (nat \<times> string) list" where
  "trim_closers cs = rev (dropWhile (\<lambda>c. fst c \<in> set closers) (rev cs))"

definition completion_valid_for_version :: "unicode \<Rightarrow> string \<Rightarrow> bool \<Rightarrow> bool" where
  "completion_valid_for_version u s value_suffixes =
     (let ending = trim_closers (utf8_chars s); body = trim_closers (butlast ending);
          before = rev (dropWhile (is_whitespace \<circ> fst) (rev (butlast body)))
      in ending \<noteq> [] \<and> fst (last ending) \<in> set terminals \<and> body \<noteq> []
         \<and> (uc_alphanumeric u (fst (last body))
            \<or> (value_suffixes \<and> (fst (last body) \<in> {37, 8240, 8241, 176} \<or> uc_currency u (fst (last body)))
               \<and> before \<noteq> [] \<and> uc_numeric u (fst (last before)))))"

definition completion_valid :: "unicode \<Rightarrow> string \<Rightarrow> bool" where
  "completion_valid u s = completion_valid_for_version u s True"

definition completion_valid_v11 :: "unicode \<Rightarrow> string \<Rightarrow> bool" where
  "completion_valid_v11 u s = completion_valid_for_version u s False"

section \<open>Planned pages\<close>

definition analysis_scope_minimum :: "nat \<Rightarrow> pipeline_failure + nat" where
  "analysis_scope_minimum page_count =
     res_bind (ok_or (if page_count * 3 + 4 < 2 ^ 64 then Some (max 1 ((page_count * 3 + 4) div 5)) else None)
       (stage_failure Analyze ''INVALID_ANALYSIS_BUDGET''
          ''The analysis page scope exceeds the supported evidence-floor range'' False)) Inr"

definition spaced_index :: "nat \<Rightarrow> nat \<Rightarrow> nat \<Rightarrow> nat" where
  "spaced_index target count index = (if target \<le> 1 then 0 else index * (count - 1) div (target - 1))"

definition analysis_selected_pages :: "normalized_document \<Rightarrow> pipeline_failure + u32 set" where
  "analysis_selected_pages normalized =
     (let pages = map page_number (filter native_text_page (normalized_pages normalized))
      in res_bind (analysis_scope_minimum (length pages)) (\<lambda>coverage.
         res_bind (document_claim_budget normalized) (\<lambda>budget.
         let target = min (length pages) (max budget coverage)
         in Inr ((\<lambda>index. pages ! spaced_index target (length pages) index) ` set [0..<target]))))"

record analysis_quote_candidate =
  selection_id :: string
  full_identity :: string
  quote_block_id :: string
  quote_page_number :: u32
  quote_exact :: string

record analysis_scope =
  scope_pages :: "u32 list"
  scope_block_ids :: "string list"
  minimum_evidence :: nat
  maximum_evidence :: nat
  quote_candidates :: "analysis_quote_candidate list"

text \<open>\<open>validate_plan\<close> and \<open>versioned_page_scope\<close> of \<open>summary/pages.rs\<close>, and
  \<open>build_versioned_analysis_scopes\<close>.\<close>

record page_plans =
  validate_plan :: "analyzed_document \<Rightarrow> chunked_document \<Rightarrow> normalized_document \<Rightarrow> pipeline_failure + u32 set"
  versioned_page_scope :: "string \<Rightarrow> u32 \<Rightarrow> chunked_document \<Rightarrow> normalized_document \<Rightarrow> pipeline_failure + analysis_scope"
  build_versioned_analysis_scopes :: "string \<Rightarrow> document_chunk \<Rightarrow> block_index \<Rightarrow> bool \<Rightarrow> pipeline_failure + analysis_scope list"

definition chunk_scopes ::
  "page_plans \<Rightarrow> string \<Rightarrow> u32 set \<Rightarrow> block_index \<Rightarrow> chunked_document \<Rightarrow> normalized_document \<Rightarrow> document_chunk \<Rightarrow>
   pipeline_failure + analysis_scope list option" where
  "chunk_scopes plans version selected_pages blocks chunked normalized chunk =
     (if version \<in> set materiality_versions
      then res_bind (res_collect (\<lambda>page. versioned_page_scope plans version (page_number page) chunked normalized)
          (filter (\<lambda>page. page_number page \<in> selected_pages
              \<and> list_all (\<lambda>b. block_id b \<in> set (chunk_block_ids chunk)) (content page)) (normalized_pages normalized)))
        (Inr \<circ> Some)
      else if version = SINGLE_PAGE_ANALYSIS_VERSION
      then res_bind (build_versioned_analysis_scopes plans SINGLE_PAGE_ANALYSIS_VERSION chunk blocks False) (\<lambda>scopes.
        Inr (Some (filter (\<lambda>scope. hd (scope_pages scope) \<in> selected_pages) scopes)))
      else if version = PREVIOUS_ANALYSIS_VERSION
      then res_bind (build_versioned_analysis_scopes plans PREVIOUS_ANALYSIS_VERSION chunk blocks True) (Inr \<circ> Some)
      else Inr None)"

section \<open>Evidence\<close>

abbreviation analysis_invalid :: "string \<Rightarrow> pipeline_failure" where
  "analysis_invalid message \<equiv> stage_failure Analyze ''INVALID_ANALYZED_DOCUMENT'' message False"

text \<open>The sets a check inserts into: identities, pages, and the quotes of the chunk.\<close>

type_synonym evidence_state = "string set \<times> u32 set \<times> (string \<times> string) set"

definition evidence_accepted ::
  "(string \<Rightarrow> string) \<Rightarrow> unicode \<Rightarrow> analyzed_document \<Rightarrow> document_chunk \<Rightarrow> (string \<times> string) set option \<Rightarrow> normalized_block \<Rightarrow>
   evidence_state \<Rightarrow> nat \<Rightarrow> evidence_item \<Rightarrow> bool" where
  "evidence_accepted sha u analyzed chunk signatures b st index e =
     (case st of (ids, seen, quotes) \<Rightarrow>
        let version = analysis_version analyzed; signature = (evidence_block_id e, evidence_exact_quote e)
        in evidence_id e = deterministic_evidence_id sha (analyzed_document_id analyzed) version (chunk_id chunk) index
             (evidence_block_id e) (evidence_claim_text e) (evidence_exact_quote e)
           \<and> evidence_chunk_id e = chunk_id chunk
           \<and> evidence_block_id e \<in> set (chunk_block_ids chunk)
           \<and> canonical_bounded_text (evidence_claim_text e) (claim_character_limit version)
           \<and> (version \<in> set completion_versions \<longrightarrow>
                (if version \<in> set suffix_versions then completion_valid u (evidence_claim_text e)
                 else completion_valid_v11 u (evidence_claim_text e)))
           \<and> canonical_bounded_text (evidence_exact_quote e) (quote_character_limit version)
           \<and> contains_str (block_text b) (evidence_exact_quote e)
           \<and> evidence_source_span e = block_source b
           \<and> (case signatures of None \<Rightarrow> True | Some known \<Rightarrow> signature \<in> known \<and> signature \<notin> quotes)
           \<and> evidence_id e \<notin> ids
           \<and> (version \<in> set one_item_versions \<longrightarrow> page_start (evidence_source_span e) \<notin> seen))"

definition check_evidence ::
  "(string \<Rightarrow> string) \<Rightarrow> unicode \<Rightarrow> analyzed_document \<Rightarrow> document_chunk \<Rightarrow> block_index \<Rightarrow> (string \<times> string) set option \<Rightarrow>
   evidence_state \<Rightarrow> nat \<times> evidence_item \<Rightarrow> pipeline_failure + evidence_state" where
  "check_evidence sha u analyzed chunk blocks signatures st x =
     (case x of (index, e) \<Rightarrow>
        res_bind (ok_or (blocks (evidence_block_id e)) (analysis_invalid ''Evidence references an unknown normalized block'')) (\<lambda>b.
        res_bind (ensure (evidence_accepted sha u analyzed chunk signatures b st index e)
          (analysis_invalid ''Evidence identity, exact quotation, and source provenance must validate'')) (\<lambda>_.
        case st of (ids, seen, quotes) \<Rightarrow>
          Inr (insert (evidence_id e) ids,
            (if analysis_version analyzed \<in> set one_item_versions then insert (page_start (evidence_source_span e)) seen else seen),
            (if signatures = None then quotes else insert (evidence_block_id e, evidence_exact_quote e) quotes)))))"

definition scope_satisfied :: "chunk_analysis \<Rightarrow> analysis_scope \<Rightarrow> bool" where
  "scope_satisfied analysis scope =
     (let items = filter (\<lambda>e. evidence_block_id e \<in> set (scope_block_ids scope)) (analysis_evidence analysis)
      in minimum_evidence scope \<le> length items \<and> length items \<le> maximum_evidence scope
         \<and> minimum_evidence scope \<le> card ((page_start \<circ> evidence_source_span) ` set items))"

definition chunk_analysis_accepted :: "chunk_analysis \<Rightarrow> document_chunk \<Rightarrow> nat \<Rightarrow> bool" where
  "chunk_analysis_accepted analysis chunk maximum \<longleftrightarrow>
     analysis_chunk_id analysis = chunk_id chunk
     \<and> analysis_summary_text analysis = join [CHR 0x0A] (map evidence_claim_text (analysis_evidence analysis))
     \<and> (0 < maximum \<longrightarrow> \<not> blank (analysis_summary_text analysis))
     \<and> analysis_source_spans analysis = chunk_source_spans chunk
     \<and> (0 < maximum \<longrightarrow> analysis_evidence analysis \<noteq> [])
     \<and> length (analysis_evidence analysis) \<le> maximum"

definition check_chunk_analysis ::
  "(string \<Rightarrow> string) \<Rightarrow> unicode \<Rightarrow> page_plans \<Rightarrow> analyzed_document \<Rightarrow> chunked_document \<Rightarrow> normalized_document \<Rightarrow> block_index \<Rightarrow>
   u32 set \<Rightarrow> string set \<times> u32 set \<Rightarrow> chunk_analysis \<times> document_chunk \<Rightarrow> pipeline_failure + string set \<times> u32 set" where
  "check_chunk_analysis sha u plans analyzed chunked normalized blocks selected_pages st x =
     (case x of (analysis, chunk) \<Rightarrow>
        res_bind (chunk_scopes plans (analysis_version analyzed) selected_pages blocks chunked normalized chunk) (\<lambda>scopes.
        let maximum = (case scopes of None \<Rightarrow> LEGACY_MAX_EVIDENCE_PER_CHUNK | Some ss \<Rightarrow> sum_list (map maximum_evidence ss));
            signatures = map_option (\<lambda>ss. (\<lambda>q. (quote_block_id q, quote_exact q)) ` set (concat (map quote_candidates ss))) scopes
        in res_bind (ensure (chunk_analysis_accepted analysis chunk maximum)
             (analysis_invalid ''Every chunk analysis must preserve ordered identity, evidence, and provenance'')) (\<lambda>_.
           res_bind (res_fold (check_evidence sha u analyzed chunk blocks signatures) (fst st, snd st, {})
             (enumerate 0 (analysis_evidence analysis))) (\<lambda>(ids, seen, _).
           res_bind (ensure (case scopes of None \<Rightarrow> True | Some ss \<Rightarrow> list_all (scope_satisfied analysis) ss)
             (analysis_invalid ''Every current analysis page scope must retain its evidence floor and distinct-page coverage'')) (\<lambda>_.
           Inr (ids, seen))))))"

definition validate_analyzed_content ::
  "(string \<Rightarrow> string) \<Rightarrow> unicode \<Rightarrow> page_plans \<Rightarrow> analyzed_document \<Rightarrow> chunked_document \<Rightarrow> normalized_document \<Rightarrow>
   pipeline_failure + unit" where
  "validate_analyzed_content sha u plans analyzed chunked normalized =
     (if version_supported (analysis_version analyzed) then validate_contract_analysis sha u analyzed chunked normalized
      else
        let version = analysis_version analyzed; materiality = (version \<in> set materiality_versions)
        in res_bind (validate_normalized_chunk_boundary normalized chunked) (\<lambda>blocks.
           res_bind (ensure (analyzed_document_id analyzed = chunked_document_id chunked
               \<and> version \<in> set known_analysis_versions \<and> \<not> blank (analyzed_runtime_id analyzed)
               \<and> \<not> blank (analyzed_model_id analyzed) \<and> length (analyzed_chunks analyzed) = length (chunks chunked))
             (analysis_invalid ''Analysis metadata and chunk coverage must match the source artifact'')) (\<lambda>_.
           res_bind (ensure (materiality \<or> (omissions analyzed = [] \<and> inspected_pages analyzed = []))
             (analysis_invalid ''Historical analysis cannot contain new omission semantics'')) (\<lambda>_.
           res_bind (if materiality then validate_plan plans analyzed chunked normalized
               else analysis_selected_pages normalized) (\<lambda>selected_pages.
           res_bind (res_fold (check_chunk_analysis sha u plans analyzed chunked normalized blocks selected_pages) ({}, {})
             (zip (analyzed_chunks analyzed) (chunks chunked))) (\<lambda>(_, seen).
           ensure (version \<in> set one_item_versions \<longrightarrow> seen = selected_pages)
             (analysis_invalid ''Analysis must contain exactly one evidence item for every planned native-text page'')))))))"

definition validate_analyzed_document ::
  "(string \<Rightarrow> string) \<Rightarrow> unicode \<Rightarrow> page_plans \<Rightarrow> analyzed_document \<Rightarrow> chunked_document \<Rightarrow> normalized_document \<Rightarrow> model_runtime \<Rightarrow>
   pipeline_failure + unit" where
  "validate_analyzed_document sha u plans analyzed chunked normalized runtime =
     (if version_supported (analysis_version analyzed) then validate_contract_analysis sha u analyzed chunked normalized
      else
        res_bind (ensure (analyzed_runtime_id analyzed = mr_runtime_id runtime Analyze
            \<and> analyzed_model_id analyzed = mr_model_id runtime Analyze)
          (analysis_invalid ''Analysis runtime metadata must match the active runtime'')) (\<lambda>_.
        validate_analyzed_content sha u plans analyzed chunked normalized))"

section \<open>Accepted evidence is verbatim\<close>

lemma split_once_str_sublist:
  "split_once_str pat acc s \<noteq> None \<longleftrightarrow> sublist pat s"
proof (induction pat acc s rule: split_once_str.induct)
  case (2 pat acc b bs)
  have "starts_with (b # bs) pat \<longleftrightarrow> prefix pat (b # bs)" by (auto simp: starts_with_iff prefix_def)
  with 2 show ?case by (simp add: sublist_Cons_right)
qed simp

lemma contains_str_sublist: "contains_str s pat \<longleftrightarrow> sublist pat s"
  unfolding contains_str_def by (rule split_once_str_sublist)

lemma slice_sublist: "sublist (slice s i j) s"
  unfolding slice_def by (metis append_take_drop_id sublist_append_leftI sublist_append_rightI sublist_order.order_trans)

text \<open>The quote of an item is in the block it names, and its span is the block's.\<close>

definition quotes_block :: "normalized_document \<Rightarrow> evidence_item \<Rightarrow> bool" where
  "quotes_block normalized e \<longleftrightarrow>
     (\<exists>b \<in> set (document_blocks normalized). block_id b = evidence_block_id e
        \<and> sublist (evidence_exact_quote e) (block_text b) \<and> evidence_source_span e = block_source b)"

lemma blocks_by_id_Some: "blocks_by_id bs i = Some b \<Longrightarrow> b \<in> set bs \<and> block_id b = i"
  by (auto simp: blocks_by_id_def dest!: map_of_SomeD)

lemma blocks_by_id_known: "i \<in> block_id ` set bs \<Longrightarrow> blocks_by_id bs i \<noteq> None"
  by (auto simp: blocks_by_id_def map_of_eq_None_iff image_image)

text \<open>An item of the ledger, with the prefix of its identity.\<close>

definition ledger_item :: "block_index \<Rightarrow> evidence_item \<Rightarrow> bool" where
  "ledger_item blocks e \<longleftrightarrow>
     (\<exists>b. blocks (evidence_block_id e) = Some b \<and> sublist (evidence_exact_quote e) (block_text b)
        \<and> evidence_source_span e = block_source b) \<and> prefix ''evidence-'' (evidence_id e)"

lemma check_evidence_Inr:
  "check_evidence sha u analyzed chunk blocks signatures st (n, e) = Inr st' \<Longrightarrow> ledger_item blocks e"
  by (cases st) (auto simp: check_evidence_def evidence_accepted_def contains_str_sublist res_simps Let_def ledger_item_def
      deterministic_evidence_id_def deterministic_id_def)

lemma check_evidence_fold:
  assumes "res_fold (check_evidence sha u analyzed chunk blocks signatures) st (enumerate n items) = Inr st'" "e \<in> set items"
  shows "ledger_item blocks e"
  using assms
proof (induction items arbitrary: n st)
  case (Cons i items)
  from Cons.prems(1) obtain st1 where st1: "check_evidence sha u analyzed chunk blocks signatures st (n, i) = Inr st1"
    "res_fold (check_evidence sha u analyzed chunk blocks signatures) st1 (enumerate (Suc n) items) = Inr st'"
    by (auto simp: res_bind_Inr_iff)
  show ?case
  proof (cases "e = i")
    case True
    then show ?thesis using check_evidence_Inr [OF st1(1)] by simp
  next
    case False
    then show ?thesis using Cons.IH [OF st1(2)] Cons.prems(2) by simp
  qed
qed simp

lemma check_chunk_Inr:
  assumes "check_chunk_analysis sha u plans analyzed chunked normalized blocks selected_pages st (analysis, chunk) = Inr st'"
  shows "\<exists>signatures st0 st1. res_fold (check_evidence sha u analyzed chunk blocks signatures) st0
    (enumerate 0 (analysis_evidence analysis)) = Inr st1"
  using assms by (simp add: check_chunk_analysis_def Let_def res_bind_Inr_iff) blast

lemma check_chunks_evidence:
  assumes "res_fold (check_chunk_analysis sha u plans analyzed chunked normalized blocks selected_pages) st (zip as cs) = Inr st'"
    and "length as = length cs" "a \<in> set as" "e \<in> set (analysis_evidence a)"
  shows "ledger_item blocks e"
  using assms
proof (induction as arbitrary: cs st)
  case (Cons a' as)
  then obtain c cs' where cs: "cs = c # cs'" "length as = length cs'" by (cases cs) auto
  with Cons.prems(1) obtain st1 where
    st1: "check_chunk_analysis sha u plans analyzed chunked normalized blocks selected_pages st (a', c) = Inr st1"
    "res_fold (check_chunk_analysis sha u plans analyzed chunked normalized blocks selected_pages) st1 (zip as cs') = Inr st'"
    by (auto simp: res_bind_Inr_iff)
  show ?case
  proof (cases "a = a'")
    case True
    from check_chunk_Inr [OF st1(1)] check_evidence_fold Cons.prems(4) True show ?thesis by blast
  next
    case False
    then show ?thesis using Cons.IH [OF st1(2) cs(2)] Cons.prems(3,4) by simp
  qed
qed simp

lemma contract_ledger_quotes:
  assumes "validate_contract_analysis sha u analyzed chunked normalized = Inr ()" "e \<in> set (ledger_evidence analyzed)"
  shows "quotes_block normalized e"
proof -
  from assms(1) have again: "analyze_for_version sha u chunked normalized False (analysis_version analyzed) = Inr analyzed"
    by (auto simp: validate_contract_analysis_def res_simps)
  from analyze_Inr(3) [OF this] obtain extraction evidence where
    records: "contract_records sha u chunked normalized (analysis_version analyzed) = Inr (extraction, evidence)"
    and parts: "analyzed_chunks analyzed = map (contract_chunk evidence) (chunks chunked)" by blast
  have "e \<in> set evidence" using ledger_of_chunks [OF records_evidence(1) [OF records] parts] assms(2) by simp
  moreover from records_sources [OF records] obtain pol sources rows where
    lines: "holds_lines (blocks_by_id (document_blocks normalized))
        (source_lines (retained_ranges (for_policy u normalized pol)) normalized) sources"
    and rows: "list_all2 (verbatim_record (blocks_by_id (document_blocks normalized)) (chunks chunked)) sources rows"
    and evidence: "evidence = concat (map snd rows)" by blast
  ultimately obtain clause items where row: "(clause, items) \<in> set rows" "e \<in> set items" by auto
  from list_all2_in_right [OF rows row(1)] obtain source where source: "source \<in> set sources"
    and copied: "verbatim_record (blocks_by_id (document_blocks normalized)) (chunks chunked) source (clause, items)" by blast
  let ?blocks = "blocks_by_id (document_blocks normalized)"
  have "(evidence_block_id e, evidence_exact_quote e) \<in> set (map (\<lambda>f. (sf_block f, fragment_text ?blocks f)) (sc_fragments source))"
    using copied row(2) unfolding verbatim_record_def prod.case by (metis (no_types, lifting) image_eqI set_map)
  then obtain f where f: "f \<in> set (sc_fragments source)" "sf_block f = evidence_block_id e" "fragment_text ?blocks f = evidence_exact_quote e"
    by auto
  from clause_blocks [OF lines source f(1)] have "evidence_block_id e \<in> block_id ` set (document_blocks normalized)" by (simp add: f(2))
  then obtain b where b: "?blocks (evidence_block_id e) = Some b"
    by (metis (no_types, lifting) blocks_by_id_known option.exhaust)
  have "evidence_source_span e = block_source (the (?blocks (evidence_block_id e)))"
    using copied row(2) unfolding verbatim_record_def prod.case list_all_iff by blast
  moreover have "sublist (evidence_exact_quote e) (block_text b)"
    using f(3) b by (simp add: fragment_text_def f(2) slice_sublist flip: f(3))
  ultimately show ?thesis using blocks_by_id_Some [OF b] b by (auto simp: quotes_block_def)
qed

lemma contract_ledger_ids:
  assumes "validate_contract_analysis sha u analyzed chunked normalized = Inr ()" "e \<in> set (ledger_evidence analyzed)"
  shows "prefix ''contract-source-'' (evidence_id e)"
proof -
  from assms(1) have again: "analyze_for_version sha u chunked normalized False (analysis_version analyzed) = Inr analyzed"
    by (auto simp: validate_contract_analysis_def res_simps)
  from analyze_Inr(3) [OF this] obtain extraction evidence where
    records: "contract_records sha u chunked normalized (analysis_version analyzed) = Inr (extraction, evidence)"
    and parts: "analyzed_chunks analyzed = map (contract_chunk evidence) (chunks chunked)" by blast
  have "e \<in> set evidence" using ledger_of_chunks [OF records_evidence(1) [OF records] parts] assms(2) by simp
  moreover from contract_records_Inr [OF records] obtain blocks pol rows where
    rows: "list_all2 (\<lambda>x r. clause_record sha (normalized_document_id normalized) blocks (chunks chunked) x = Inr r)
        (enumerate 0 (contract_scan u normalized pol (analysis_version analyzed))) rows"
    and evidence: "evidence = concat (map snd rows)" by blast
  ultimately obtain clause items where row: "(clause, items) \<in> set rows" "e \<in> set items" by auto
  from list_all2_in_right [OF rows row(1)] obtain x where
    "clause_record sha (normalized_document_id normalized) blocks (chunks chunked) x = Inr (clause, items)" by blast
  then obtain fragments where
    items: "list_all2 (\<lambda>f e. fragment_evidence sha (normalized_document_id normalized) blocks (chunks chunked) f = Inr e) fragments items"
    by (cases x) (auto simp: clause_record_def Let_def res_simps)
  from list_all2_in_right [OF items row(2)] show ?thesis
    by (auto simp: fragment_evidence_def Let_def res_simps deterministic_id_def)
qed

lemma validated_content_items:
  assumes "validate_analyzed_content sha u plans analyzed chunked normalized = Inr ()" "e \<in> set (ledger_evidence analyzed)"
  shows "quotes_block normalized e" "\<not> prefix ''summary-'' (evidence_id e)"
proof -
  have "quotes_block normalized e \<and> \<not> prefix ''summary-'' (evidence_id e)"
  proof (cases "version_supported (analysis_version analyzed)")
    case True
    with assms(1) have checked: "validate_contract_analysis sha u analyzed chunked normalized = Inr ()"
      by (simp add: validate_analyzed_content_def)
    from contract_ledger_ids [OF this assms(2)] contract_ledger_quotes [OF checked assms(2)] show ?thesis
      by (cases "evidence_id e") auto
  next
    case False
    with assms(1) obtain blocks selected_pages st where
      boundary: "validate_normalized_chunk_boundary normalized chunked = Inr blocks"
      and len: "length (analyzed_chunks analyzed) = length (chunks chunked)"
      and fold: "res_fold (check_chunk_analysis sha u plans analyzed chunked normalized blocks selected_pages) ({}, {})
          (zip (analyzed_chunks analyzed) (chunks chunked)) = Inr st"
      by (auto simp: validate_analyzed_content_def Let_def res_bind_Inr_iff ensure_Inr_iff)
    from assms(2) obtain a where "a \<in> set (analyzed_chunks analyzed)" "e \<in> set (analysis_evidence a)"
      by (auto simp: ledger_evidence_def)
    from check_chunks_evidence [OF fold len this] have item: "ledger_item blocks e" .
    then obtain b where
      b: "blocks (evidence_block_id e) = Some b" "sublist (evidence_exact_quote e) (block_text b)" "evidence_source_span e = block_source b"
      and i: "prefix ''evidence-'' (evidence_id e)"
      by (auto simp: ledger_item_def)
    from i have "\<not> prefix ''summary-'' (evidence_id e)" by (cases "evidence_id e") auto
    with blocks_by_id_Some [OF b(1) [unfolded boundary_Inr(2) [OF boundary]]] b(2,3) show ?thesis
      by (auto simp: quotes_block_def)
  qed
  then show "quotes_block normalized e" "\<not> prefix ''summary-'' (evidence_id e)" by blast+
qed

end
