(* ===== verification/Quote_Segments.thy ===== *)
theory Quote_Segments
  imports Page_Furniture Analyzed_Document
begin

text \<open>
  How a block is cut into quotations: \<open>analysis_quote_segments_v12\<close> and \<open>_v13\<close> of
  \<open>pipeline/summary.rs\<close>, \<open>segment\<close> of \<open>summary/quote_segments.rs\<close>, and the catalogue of candidates
  \<open>derive_quote_catalog_with_segmentation\<close>. The sentence rules of the crates
  \<open>unicode_segmentation\<close>, \<open>icu_properties\<close> and \<open>unicode_properties\<close> are the record \<open>sentence_rules\<close>.
\<close>

section \<open>Sentences\<close>

datatype sentence_class = SentenceTerminal | AmbiguousTerminal | SentenceContinue | OtherSentenceBreak

record sentence_rules =
  sentence_bounds :: "string \<Rightarrow> (nat \<times> string) list"
  sentence_class :: "nat \<Rightarrow> sentence_class"
  closing_mark :: "nat \<Rightarrow> bool"
  opening_mark :: "nat \<Rightarrow> bool"

definition sentence_closer :: "sentence_rules \<Rightarrow> nat \<Rightarrow> bool" where
  "sentence_closer r c \<longleftrightarrow> c \<in> {34, 39} \<or> closing_mark r c"

definition token_opener :: "sentence_rules \<Rightarrow> nat \<Rightarrow> bool" where
  "token_opener r c \<longleftrightarrow> c \<in> {34, 39} \<or> opening_mark r c"

definition drop_end :: "(nat \<Rightarrow> bool) \<Rightarrow> (nat \<times> string) list \<Rightarrow> (nat \<times> string) list" where
  "drop_end p cs = rev (dropWhile (p \<circ> fst) (rev cs))"

definition ambiguous_abbreviations :: "string list" where
  "ambiguous_abbreviations =
     [''mr'', ''mrs'', ''ms'', ''dr'', ''prof'', ''sr'', ''jr'', ''st'', ''vs'', ''etc'', ''e.g'', ''i.e'', ''no'', ''fig'',
      ''sec'', ''art'', ''inc'', ''ltd'', ''co'', ''jan'', ''feb'', ''mar'', ''apr'', ''jun'', ''jul'', ''aug'', ''sep'',
      ''sept'', ''oct'', ''nov'', ''dec'']"

text \<open>The word before a full stop, without the marks around it.\<close>

definition last_token :: "sentence_rules \<Rightarrow> (nat \<times> string) list \<Rightarrow> (nat \<times> string) list" where
  "last_token r before =
     drop_end (sentence_closer r)
       (dropWhile (token_opener r \<circ> fst) (rev (takeWhile (\<lambda>c. \<not> is_whitespace (fst c)) (rev before))))"

definition abbreviation_token :: "unicode \<Rightarrow> sentence_rules \<Rightarrow> bool \<Rightarrow> bool \<Rightarrow> (nat \<times> string) list \<Rightarrow> bool" where
  "abbreviation_token u r legacy followed token \<longleftrightarrow>
     (let alphabetic = list_all (uc_alphabetic u \<circ> fst) token; lower = uc_lowercase u (text_of token)
      in list_ex (\<lambda>c. sentence_class r (fst c) = AmbiguousTerminal) token
         \<or> (length token = 1 \<and> alphabetic)
         \<or> lower \<in> set ambiguous_abbreviations
         \<or> (legacy \<and> followed \<and> 2 \<le> length token \<and> length token \<le> 5 \<and> alphabetic)
         \<or> (\<not> legacy \<and> lower = ''dept''))"

definition analysis_sentence_boundary ::
  "unicode \<Rightarrow> sentence_rules \<Rightarrow> string \<Rightarrow> nat \<Rightarrow> nat \<Rightarrow> nat \<Rightarrow> bool \<Rightarrow> bool" where
  "analysis_sentence_boundary u r source unit_from proposed source_end legacy =
     (let bare = drop_end (sentence_closer r) (drop_end is_whitespace (utf8_chars (slice source unit_from proposed)));
          class = sentence_class r (fst (last bare))
      in if bare = [] then False
         else if class = SentenceTerminal then True
         else if class \<noteq> AmbiguousTerminal then False
         else
           let before = drop_end is_whitespace (butlast bare);
               following = List.find (\<lambda>c. \<not> is_whitespace (fst c)) (utf8_chars (slice source proposed source_end))
           in if before \<noteq> [] \<and> sentence_class r (fst (last before)) \<in> {AmbiguousTerminal, SentenceContinue} then False
              else if abbreviation_token u r legacy (following \<noteq> None) (last_token r before) then False
              else \<not> (before \<noteq> [] \<and> uc_numeric u (fst (last before))
                      \<and> (case following of None \<Rightarrow> False | Some c \<Rightarrow> uc_numeric u (fst c))))"

section \<open>Segmentation until version 12\<close>

definition preferred_step :: "(nat \<times> string) list \<Rightarrow> nat option \<Rightarrow> nat \<Rightarrow> nat option" where
  "preferred_step window preferred i =
     (if i + 1 < MAX_ANALYSIS_QUOTE_CHARACTERS div 2 then preferred
      else if fst (window ! i) \<in> {46, 63, 33, 59} then Some (i + 1)
      else if is_whitespace (fst (window ! i)) then Some i else preferred)"

definition preferred_boundary_v12 :: "(nat \<times> string) list \<Rightarrow> nat option" where
  "preferred_boundary_v12 window =
     (case foldl (preferred_step window) None [0..<length window] of
        None \<Rightarrow> None
      | Some k \<Rightarrow> if 0 < k then Some k else None)"

definition quote_length_v12 :: "(nat \<times> string) list \<Rightarrow> nat" where
  "quote_length_v12 cs =
     (if length cs \<le> MAX_ANALYSIS_QUOTE_CHARACTERS then length cs
      else case preferred_boundary_v12 (take MAX_ANALYSIS_QUOTE_CHARACTERS cs) of
          None \<Rightarrow> MAX_ANALYSIS_QUOTE_CHARACTERS
        | Some k \<Rightarrow> k)"

function quote_segments_v12 :: "(nat \<times> string) list \<Rightarrow> string list" where
  "quote_segments_v12 cs =
     (let rest = dropWhile (is_whitespace \<circ> fst) cs; n = quote_length_v12 rest
      in if rest = [] \<or> n = 0 then []
         else let quote = trim (text_of (take n rest))
           in (if quote = [] then [] else [quote]) @ quote_segments_v12 (drop n rest))"
  by pat_completeness auto
termination
proof (relation "measure length")
  fix cs rest :: "(nat \<times> string) list" and n :: nat
  assume rest: "rest = dropWhile (is_whitespace \<circ> fst) cs" and n: "\<not> (rest = [] \<or> n = 0)"
  from rest have "length rest \<le> length cs" by (simp add: length_dropWhile_le)
  moreover from n have "0 < length rest" "0 < n" by auto
  ultimately have "length (drop n rest) < length cs" by (cases rest) auto
  then show "(drop n rest, cs) \<in> measure length" by simp
qed simp

declare quote_segments_v12.simps [simp del]

definition analysis_quote_segments_v12 :: "string \<Rightarrow> string list" where
  "analysis_quote_segments_v12 source = quote_segments_v12 (utf8_chars (trim source))"

section \<open>Segmentation of version 13\<close>

type_synonym segmentation = "string list \<times> nat"

definition leading_blank :: "string \<Rightarrow> nat" where
  "leading_blank s = length s - length (trim_start s)"

definition sentence_unit_step ::
  "unicode \<Rightarrow> sentence_rules \<Rightarrow> string \<Rightarrow> nat \<Rightarrow> nat \<Rightarrow> (nat \<times> nat) list \<times> nat \<Rightarrow> nat \<times> string \<Rightarrow> (nat \<times> nat) list \<times> nat" where
  "sentence_unit_step u r source source_start source_end st sentence =
     (case st of (units, from) \<Rightarrow>
        let proposed = source_start + fst sentence + length (snd sentence); sentence_text = slice source from proposed;
            s = from + leading_blank sentence_text; e = from + length (trim_end sentence_text)
        in if analysis_sentence_boundary u r source from proposed source_end True
           then (if s < e then units @ [(s, e)] else units, proposed)
           else (units, from))"

definition analysis_sentence_units_v13 :: "unicode \<Rightarrow> sentence_rules \<Rightarrow> string \<Rightarrow> (nat \<times> nat) list \<times> nat" where
  "analysis_sentence_units_v13 u r source =
     (let source_start = leading_blank source; source_end = length (trim_end source)
      in if source_end \<le> source_start then ([], source_end)
         else foldl (sentence_unit_step u r source source_start source_end) ([], source_start)
           (sentence_bounds r (slice source source_start source_end)))"

definition bounded_range :: "string \<Rightarrow> nat \<Rightarrow> nat \<Rightarrow> bool" where
  "bounded_range source s e \<longleftrightarrow> char_count (slice source s e) \<le> MAX_ANALYSIS_QUOTE_CHARACTERS"

text \<open>Flushing the packed range: it becomes a segment.\<close>

definition flush_packed :: "string \<Rightarrow> (nat \<times> nat) option \<Rightarrow> string list \<Rightarrow> string list" where
  "flush_packed source packed segments =
     (case packed of None \<Rightarrow> segments | Some (s, e) \<Rightarrow> segments @ [slice source s e])"

definition pack_step_v13 ::
  "string \<Rightarrow> segmentation \<times> (nat \<times> nat) option \<Rightarrow> nat \<times> nat \<Rightarrow> segmentation \<times> (nat \<times> nat) option" where
  "pack_step_v13 source st x =
     (case (st, x) of (((segments, omitted), packed), (s, e)) \<Rightarrow>
        if \<not> bounded_range source s e then ((flush_packed source packed segments, omitted + 1), None)
        else case packed of
            None \<Rightarrow> ((segments, omitted), Some (s, e))
          | Some (ps, pe) \<Rightarrow>
              (if bounded_range source ps e then ((segments, omitted), Some (ps, e))
               else ((flush_packed source packed segments, omitted), Some (s, e))))"

definition analysis_quote_segments_v13 :: "unicode \<Rightarrow> sentence_rules \<Rightarrow> string \<Rightarrow> segmentation" where
  "analysis_quote_segments_v13 u r source =
     (let source_start = leading_blank source; source_end = length (trim_end source)
      in if source_end \<le> source_start then ([], 0)
         else if bounded_range source source_start source_end then ([slice source source_start source_end], 0)
         else case analysis_sentence_units_v13 u r source of (units, unit_from) \<Rightarrow>
           (case foldl (pack_step_v13 source) (([], 0), None) units of ((segments, omitted), packed) \<Rightarrow>
              (flush_packed source packed segments,
               if blank (slice source unit_from source_end) then omitted else omitted + 1)))"

section \<open>Segmentation of version 14\<close>

record quote_unit =
  unit_start :: nat
  unit_end :: nat
  unit_complete :: bool

definition range_text :: "string \<Rightarrow> quote_unit \<Rightarrow> string" where
  "range_text source q = slice source (unit_start q) (unit_end q)"

definition trimmed_unit :: "string \<Rightarrow> nat \<Rightarrow> nat \<Rightarrow> bool \<Rightarrow> quote_unit" where
  "trimmed_unit source s e complete =
     \<lparr>unit_start = s + leading_blank (slice source s e), unit_end = s + length (trim_end (slice source s e)),
      unit_complete = complete\<rparr>"

definition push_paragraph :: "string \<Rightarrow> nat \<Rightarrow> nat \<Rightarrow> (nat \<times> nat) list \<Rightarrow> (nat \<times> nat) list" where
  "push_paragraph source s e ranges =
     (let q = trimmed_unit source s e True
      in if unit_start q < unit_end q then ranges @ [(unit_start q, unit_end q)] else ranges)"

definition paragraph_step :: "string \<Rightarrow> (nat \<times> nat) list \<times> nat \<times> nat \<Rightarrow> string \<Rightarrow> (nat \<times> nat) list \<times> nat \<times> nat" where
  "paragraph_step source st line =
     (case st of (ranges, start, offset) \<Rightarrow>
        if blank line then (push_paragraph source start offset ranges, offset + length line, offset + length line)
        else (ranges, start, offset + length line))"

definition paragraphs :: "string \<Rightarrow> (nat \<times> nat) list" where
  "paragraphs source =
     (case foldl (paragraph_step source) ([], 0, 0) (split_inclusive [] source) of
        (ranges, start, offset) \<Rightarrow> push_paragraph source start (length source) ranges)"

definition label_value :: "unicode \<Rightarrow> string \<Rightarrow> string option" where
  "label_value u line =
     (case split_once_char (\<lambda>c. c = 58) (trim line) of
        None \<Rightarrow> None
      | Some (label, v) \<Rightarrow>
          (let ws = length (split_whitespace label)
           in if 1 \<le> ws \<and> ws \<le> 8
                \<and> (case List.find (\<lambda>c. uc_alphanumeric u (fst c)) (utf8_chars label) of
                     None \<Rightarrow> False | Some c \<Rightarrow> uc_alphabetic u (fst c))
                \<and> chars_all (\<lambda>c. uc_alphanumeric u c \<or> is_whitespace c \<or> c \<in> {45, 47, 40, 41, 39, 8217, 38, 35}) label
                \<and> \<not> blank v
              then Some v else None))"

text \<open>The rows that carry a label, \<open>None\<close> when prose comes before the first of them.\<close>

fun form_fields :: "unicode \<Rightarrow> (nat \<times> nat) list \<Rightarrow> nat \<Rightarrow> string list \<Rightarrow> (nat \<times> nat) list option" where
  "form_fields u rows offset [] = Some rows"
| "form_fields u rows offset (line # rest) =
     (case label_value u line of
        Some v \<Rightarrow> form_fields u (rows @ [(offset, offset + length (trim_end line) - length v)]) (offset + length line) rest
      | None \<Rightarrow>
          (if rows = [] \<and> \<not> blank line \<and> \<not> ends_with_one_of '':'' (trim_end line) then None
           else form_fields u rows (offset + length line) rest))"

definition field_values :: "string \<Rightarrow> (nat \<times> nat) list \<Rightarrow> string list" where
  "field_values source rows =
     map (\<lambda>((_, value_start), value_end). slice source value_start value_end)
       (zip rows (tl (map fst rows @ [length source])))"

definition form_field_count :: "unicode \<Rightarrow> sentence_rules \<Rightarrow> string \<Rightarrow> nat" where
  "form_field_count u r source =
     (case form_fields u [] 0 (split_inclusive [] source) of
        None \<Rightarrow> 0
      | Some rows \<Rightarrow>
          if char_count source \<le> MAX_ANALYSIS_QUOTE_CHARACTERS then length rows
          else
            let values = map (\<lambda>v. (v, analysis_sentence_units_v13 u r v)) (field_values source rows)
            in if list_ex (\<lambda>(v, sentences, _). sentences \<noteq> [] \<and> \<not> blank (drop (snd (hd sentences)) v)) values then 0
               else if rows \<noteq> [] \<and> list_all (\<lambda>(v, sentences, rest_from). sentences \<noteq> [] \<and> blank (drop rest_from v)) values
               then 0 else length rows)"

definition form_group :: "unicode \<Rightarrow> sentence_rules \<Rightarrow> string \<Rightarrow> bool" where
  "form_group u r s \<longleftrightarrow> 0 < form_field_count u r s"

definition opens_list :: "string \<Rightarrow> bool" where
  "opens_list s \<longleftrightarrow> ends_with_one_of '':;,-'' s"

definition lead_in :: "unicode \<Rightarrow> sentence_rules \<Rightarrow> string \<Rightarrow> bool" where
  "lead_in u r s \<longleftrightarrow>
     opens_list s \<or> (\<not> form_group u r s \<and> \<not> analysis_sentence_boundary u r s 0 (length s) (length s) False)"

definition qualification :: "unicode \<Rightarrow> string \<Rightarrow> bool" where
  "qualification u s \<longleftrightarrow>
     (let lower = uc_lowercase u (text_of (dropWhile (\<lambda>c. is_whitespace (fst c) \<or> fst c \<in> {40, 91}) (utf8_chars s)))
      in list_ex (starts_with lower)
           [''unless '', ''except '', ''provided '', ''subject to '', ''however,'', ''only if '', ''on condition '',
            ''notwithstanding ''])"

definition group_step ::
  "unicode \<Rightarrow> sentence_rules \<Rightarrow> string \<Rightarrow> quote_unit list \<Rightarrow> nat \<times> nat \<Rightarrow> quote_unit list" where
  "group_step u r source groups x =
     (case x of (s, e) \<Rightarrow>
        let fresh = \<lparr>unit_start = s, unit_end = e, unit_complete = True\<rparr>
        in if groups = [] then [fresh]
           else
             let previous = last groups; before = range_text source previous; following = slice source s e;
                 bounded_form = (form_group u r following \<and> \<not> opens_list before \<and> bounded_range source s e)
             in if (lead_in u r before \<and> \<not> bounded_form) \<or> qualification u following
                then butlast groups @ [previous\<lparr>unit_end := e\<rparr>]
                else groups @ [fresh])"

definition retained_prose_ranges :: "unicode \<Rightarrow> sentence_rules \<Rightarrow> string \<Rightarrow> (nat \<times> nat) list" where
  "retained_prose_ranges u r source =
     filter (\<lambda>(s, e). bounded_range source s e) (fst (analysis_sentence_units_v13 u r source))"

text \<open>One sentence of a group: \<open>from\<close> is where the open unit starts.\<close>

definition sentence_step ::
  "unicode \<Rightarrow> sentence_rules \<Rightarrow> string \<Rightarrow> quote_unit \<Rightarrow> (nat \<times> nat) list \<Rightarrow> nat \<times> quote_unit list \<Rightarrow> nat \<times> string \<Rightarrow>
   nat \<times> quote_unit list" where
  "sentence_step u r source g kept_whole st sentence =
     (case st of (from, units) \<Rightarrow>
        let relative = fst sentence + length (snd sentence); proposed = unit_start g + relative;
            relative_end = length (trim_end (take relative (range_text source g)));
            q = trimmed_unit source from proposed True
        in if \<not> analysis_sentence_boundary u r source from proposed (unit_end g) False
             \<or> list_ex (\<lambda>(s, e). s < relative_end \<and> relative_end < e) kept_whole
           then (from, units)
           else if units \<noteq> [] \<and> qualification u (range_text source q)
           then (proposed, butlast units @ [(last units)\<lparr>unit_end := unit_end q\<rparr>])
           else (proposed, units @ [q]))"

definition close_group :: "unicode \<Rightarrow> string \<Rightarrow> quote_unit \<Rightarrow> nat \<times> quote_unit list \<Rightarrow> quote_unit list" where
  "close_group u source g st =
     (case st of (from, units) \<Rightarrow>
        if blank (slice source from (unit_end g)) then units
        else
          let rest = trimmed_unit source from (unit_end g) False
          in if units \<noteq> [] \<and> qualification u (range_text source rest)
             then butlast units @ [(last units)\<lparr>unit_end := unit_end rest, unit_complete := False\<rparr>]
             else units @ [rest])"

definition group_units :: "unicode \<Rightarrow> sentence_rules \<Rightarrow> string \<Rightarrow> quote_unit \<Rightarrow> quote_unit list" where
  "group_units u r source g =
     (let group_text = range_text source g; rows = form_field_count u r group_text
      in if 1 < rows
           \<or> (char_count group_text \<le> MAX_ANALYSIS_QUOTE_CHARACTERS
              \<and> (0 < rows
                 \<or> analysis_sentence_boundary u r source (unit_start g) (unit_end g) (unit_end g) False))
         then [g]
         else close_group u source g
           (foldl (sentence_step u r source g (retained_prose_ranges u r group_text)) (unit_start g, [])
             (sentence_bounds r group_text)))"

definition pack_step_v14 ::
  "string \<Rightarrow> segmentation \<times> (nat \<times> nat) option \<Rightarrow> quote_unit \<Rightarrow> segmentation \<times> (nat \<times> nat) option" where
  "pack_step_v14 source st q =
     (case st of ((segments, omitted), packed) \<Rightarrow>
        if \<not> unit_complete q \<or> \<not> bounded_range source (unit_start q) (unit_end q)
        then ((flush_packed source packed segments, omitted + 1), None)
        else case packed of
            None \<Rightarrow> ((segments, omitted), Some (unit_start q, unit_end q))
          | Some (ps, pe) \<Rightarrow>
              (if bounded_range source ps (unit_end q) then ((segments, omitted), Some (ps, unit_end q))
               else ((flush_packed source packed segments, omitted), Some (unit_start q, unit_end q))))"

definition quote_segments :: "unicode \<Rightarrow> sentence_rules \<Rightarrow> string \<Rightarrow> segmentation" where
  "quote_segments u r source =
     (if char_count (trim source) \<le> MAX_ANALYSIS_QUOTE_CHARACTERS
      then (if trim source = [] then [] else [trim source], 0)
      else case foldl (pack_step_v14 source) (([], 0), None)
          (concat (map (group_units u r source) (foldl (group_step u r source) [] (paragraphs source)))) of
        ((segments, omitted), packed) \<Rightarrow> (flush_packed source packed segments, omitted))"

definition analysis_quote_segmentation_for_version ::
  "unicode \<Rightarrow> sentence_rules \<Rightarrow> string \<Rightarrow> string \<Rightarrow> segmentation" where
  "analysis_quote_segmentation_for_version u r version source =
     (if version = ANALYSIS_VERSION then quote_segments u r source
      else if version = SENTENCE_ANALYSIS_VERSION then analysis_quote_segments_v13 u r source
      else (analysis_quote_segments_v12 source, 0))"

section \<open>Pieces of a text\<close>

lemma decode_char_short:
  "128 \<le> byte b \<Longrightarrow> length bs < continuation_bytes b \<Longrightarrow> decode_char b bs = (65533, [b], bs)"
  by (auto simp: decode_char.simps continuation_bytes_def split: if_splits)

lemma decode_char_complete:
  assumes "continuation_bytes b = length xs"
  shows "decode_char b (xs @ bs) = (fst (decode_char b xs), b # xs, bs)"
proof -
  consider "xs = []" | x where "xs = [x]" | x y where "xs = [x, y]" | x y z where "xs = [x, y, z]"
    | x y z w ws where "xs = x # y # z # w # ws" by (metis neq_Nil_conv)
  then show ?thesis
    using assms by cases (auto simp: decode_char.simps continuation_bytes_def split: if_splits)
qed

lemma decode_char_within:
  assumes "decode_char b bs = (n, e, t @ rest)"
  shows "decode_char b (tl e @ t) = (n, e, t)"
proof (cases "continuation_bytes b \<le> length bs")
  case True
  then obtain xs ys where bs: "bs = xs @ ys" "continuation_bytes b = length xs"
    by (metis append_take_drop_id length_take min.absorb2)
  then have m: "decode_char b (xs @ zs) = (fst (decode_char b xs), b # xs, zs)" for zs by (intro decode_char_complete)
  with assms bs have "e = b # xs" "n = fst (decode_char b xs)" "ys = t @ rest" by auto
  with m show ?thesis by simp
next
  case False
  then have "128 \<le> byte b" by (auto simp: continuation_bytes_def split: if_splits)
  with False assms have "e = [b]" "n = 65533" "bs = t @ rest" by (auto simp: decode_char_short)
  with False \<open>128 \<le> byte b\<close> show ?thesis by (simp add: decode_char_short)
qed

lemma utf8_chars_prefix:
  "utf8_chars s = xs @ ys \<Longrightarrow> utf8_chars (text_of xs) = xs"
proof (induction xs arbitrary: s)
  case (Cons c xs)
  obtain b bs where s: "s = b # bs" using Cons.prems by (cases s) auto
  obtain n e r where d: "decode_char b bs = (n, e, r)" by (cases "decode_char b bs") auto
  from Cons.prems s d have c: "c = (n, e)" and r: "utf8_chars r = xs @ ys" by (auto simp: utf8_chars.simps(2))
  then have "r = text_of xs @ text_of ys" by (metis text_of_simps(3) text_of_utf8_chars)
  with d have "decode_char b (tl e @ text_of xs) = (n, e, text_of xs)" by (auto dest: decode_char_within)
  moreover from decode_char_split [OF d] have "e = b # tl e" by (cases e) auto
  ultimately have "utf8_chars (e @ text_of xs) = (n, e) # utf8_chars (text_of xs)"
    by (metis append_Cons case_prod_conv utf8_chars.simps(2))
  with c Cons.IH [OF r] show ?case by simp
qed simp

lemma utf8_chars_suffix: "utf8_chars s = xs @ ys \<Longrightarrow> utf8_chars (text_of ys) = ys"
proof (induction xs arbitrary: s)
  case Nil
  then show ?case by (metis append_Nil text_of_utf8_chars)
next
  case (Cons c xs)
  obtain b bs where s: "s = b # bs" using Cons.prems by (cases s) auto
  obtain n e r where d: "decode_char b bs = (n, e, r)" by (cases "decode_char b bs") auto
  from Cons.prems s d have "utf8_chars r = xs @ ys" by (auto simp: utf8_chars.simps(2))
  then show ?case by (rule Cons.IH)
qed

lemma utf8_chars_infix: "utf8_chars s = xs @ ys @ zs \<Longrightarrow> utf8_chars (text_of ys) = ys"
  by (metis utf8_chars_prefix utf8_chars_suffix)

lemma sublist_text_of: "sublist xs ys \<Longrightarrow> sublist (text_of xs) (text_of ys)"
  unfolding sublist_def by (metis text_of_simps(3))

lemma sublist_dropWhile: "sublist (dropWhile p xs) xs"
  by (metis sublist_append_leftI takeWhile_dropWhile_id)

lemma sublist_drop_end: "sublist (drop_end p cs) cs"
  unfolding drop_end_def by (metis rev_rev_ident sublist_dropWhile sublist_rev)

lemma sublist_trim_chars: "sublist (trim_chars cs) cs"
  unfolding trim_chars_def by (metis rev_rev_ident sublist_dropWhile sublist_order.order_trans sublist_rev)

lemma trim_sublist: "sublist (trim s) s"
  unfolding trim_def using sublist_text_of [OF sublist_trim_chars] by (metis text_of_utf8_chars)

lemma trim_infix:
  obtains xs zs where "utf8_chars s = xs @ trim_chars (utf8_chars s) @ zs"
  using sublist_trim_chars [of "utf8_chars s"] unfolding sublist_def by metis

lemma utf8_chars_trim: "utf8_chars (trim s) = trim_chars (utf8_chars s)"
  unfolding trim_def by (rule trim_infix [of s]) (rule utf8_chars_infix)

lemma char_count_trim: "char_count (trim s) \<le> char_count s"
  unfolding char_count_def utf8_chars_trim by (rule sublist_length_le [OF sublist_trim_chars])

section \<open>Quotations are verbatim and bounded\<close>

definition quotable :: "string \<Rightarrow> string \<Rightarrow> bool" where
  "quotable source quote \<longleftrightarrow> sublist quote source \<and> char_count quote \<le> MAX_ANALYSIS_QUOTE_CHARACTERS"

lemma quotable_slice: "bounded_range source s e \<Longrightarrow> quotable source (slice source s e)"
  by (simp add: quotable_def bounded_range_def slice_sublist)

lemma flush_packed_quotable:
  assumes "list_all (quotable source) segments" and "\<forall>s e. packed = Some (s, e) \<longrightarrow> bounded_range source s e"
  shows "list_all (quotable source) (flush_packed source packed segments)"
  using assms by (auto simp: flush_packed_def quotable_slice split: option.split)

definition packed_ok :: "string \<Rightarrow> segmentation \<times> (nat \<times> nat) option \<Rightarrow> bool" where
  "packed_ok source st \<longleftrightarrow>
     list_all (quotable source) (fst (fst st)) \<and> (\<forall>s e. snd st = Some (s, e) \<longrightarrow> bounded_range source s e)"

lemma packed_ok_flush: "packed_ok source ((segments, omitted), packed) \<Longrightarrow> list_all (quotable source) (flush_packed source packed segments)"
  by (auto simp: packed_ok_def intro: flush_packed_quotable)

lemma pack_step_v13_ok: "packed_ok source st \<Longrightarrow> packed_ok source (pack_step_v13 source st x)"
  by (cases st; cases "fst st"; cases x)
    (auto simp: pack_step_v13_def packed_ok_def flush_packed_quotable split: option.split prod.split if_splits)

lemma pack_step_v14_ok: "packed_ok source st \<Longrightarrow> packed_ok source (pack_step_v14 source st q)"
  by (cases st; cases "fst st")
    (auto simp: pack_step_v14_def packed_ok_def flush_packed_quotable split: option.split prod.split if_splits)

lemma preferred_step_le:
  "i < length window \<Longrightarrow> pred_option (\<lambda>j. j \<le> length window) p \<Longrightarrow>
     pred_option (\<lambda>j. j \<le> length window) (preferred_step window p i)"
  by (simp add: preferred_step_def)

lemma preferred_boundary_le:
  assumes "preferred_boundary_v12 window = Some k"
  shows "k \<le> length window"
proof -
  have "pred_option (\<lambda>j. j \<le> length window) (foldl (preferred_step window) p is)"
    if "\<forall>i \<in> set is. i < length window" "pred_option (\<lambda>j. j \<le> length window) p" for p "is"
    using that by (induction "is" arbitrary: p) (simp_all add: preferred_step_le)
  from this [of "[0..<length window]" None] assms show ?thesis
    by (auto simp: preferred_boundary_v12_def split: option.splits if_splits)
qed

lemma quote_length_v12_le: "quote_length_v12 cs \<le> MAX_ANALYSIS_QUOTE_CHARACTERS"
  using preferred_boundary_le [of "take MAX_ANALYSIS_QUOTE_CHARACTERS cs"]
  by (auto simp: quote_length_v12_def split: option.split)

lemma quote_segments_v12_quotable:
  "quote \<in> set (quote_segments_v12 cs) \<Longrightarrow> utf8_chars (text_of cs) = cs \<Longrightarrow> quotable (text_of cs) quote"
proof (induction cs rule: quote_segments_v12.induct)
  case (1 cs)
  define rest where "rest = dropWhile (is_whitespace \<circ> fst) cs"
  define n where "n = quote_length_v12 rest"
  obtain ws where cs: "cs = ws @ rest" unfolding rest_def by (metis takeWhile_dropWhile_id)
  have rest: "utf8_chars (text_of rest) = rest"
    using "1.prems"(2) cs by (intro utf8_chars_suffix [where s = "text_of cs" and xs = ws]) simp
  have parts: "utf8_chars (text_of rest) = take n rest @ drop n rest" using rest by simp
  have within: "sublist (text_of xs) (text_of cs)" if "sublist xs rest" for xs
    using sublist_text_of [OF that] cs by (metis sublist_append_leftI sublist_order.order_trans text_of_simps(3))
  from "1.prems"(1) have open_rest: "rest \<noteq> []" "n \<noteq> 0"
    and "quote = trim (text_of (take n rest)) \<or> quote \<in> set (quote_segments_v12 (drop n rest))"
    unfolding quote_segments_v12.simps [of cs] rest_def [symmetric] n_def [symmetric] Let_def by (auto split: if_splits)
  then consider "quote = trim (text_of (take n rest))" | "quote \<in> set (quote_segments_v12 (drop n rest))" by blast
  then show ?case
  proof cases
    case 1
    have "char_count (text_of (take n rest)) \<le> MAX_ANALYSIS_QUOTE_CHARACTERS"
      using utf8_chars_prefix [OF parts] quote_length_v12_le [of rest] by (simp add: char_count_def n_def)
    with 1 char_count_trim [of "text_of (take n rest)"] have "char_count quote \<le> MAX_ANALYSIS_QUOTE_CHARACTERS" by simp
    moreover have "sublist quote (text_of cs)"
      using 1 trim_sublist within [OF sublist_take] by (metis sublist_order.order_trans)
    ultimately show ?thesis by (simp add: quotable_def)
  next
    case 2
    have "quotable (text_of (drop n rest)) quote"
      using "1.IH" [OF rest_def n_def] open_rest 2 utf8_chars_suffix [OF parts] by simp
    then show ?thesis using within [OF sublist_drop, of n] by (auto simp: quotable_def)
  qed
qed

lemma packed_fold_ok:
  assumes "foldl step (([], 0), None) xs = ((segments, omitted), packed)"
    and "\<And>st x. packed_ok source st \<Longrightarrow> packed_ok source (step st x)"
  shows "list_all (quotable source) (flush_packed source packed segments)"
proof -
  have "packed_ok source (foldl step st xs)" if "packed_ok source st" for st
    using that by (induction xs arbitrary: st) (simp_all add: assms(2))
  from this [of "(([], 0), None)"] assms(1) show ?thesis by (intro packed_ok_flush) (simp add: packed_ok_def)
qed

lemma quotable_trim: "char_count (trim source) \<le> MAX_ANALYSIS_QUOTE_CHARACTERS \<Longrightarrow> quotable source (trim source)"
  by (simp add: quotable_def trim_sublist)

lemma segmentation_quotable:
  assumes "quote \<in> set (fst (analysis_quote_segmentation_for_version u r version source))"
  shows "quotable source quote"
proof -
  consider "quote \<in> set (fst (quote_segments u r source))" | "quote \<in> set (fst (analysis_quote_segments_v13 u r source))"
    | "quote \<in> set (analysis_quote_segments_v12 source)"
    using assms by (auto simp: analysis_quote_segmentation_for_version_def split: if_splits)
  then show ?thesis
  proof cases
    case 1
    then show ?thesis
      unfolding quote_segments_def
      by (auto simp: quotable_trim list_all_iff split: if_splits prod.splits dest!: packed_fold_ok [OF _ pack_step_v14_ok])
  next
    case 2
    then show ?thesis
      unfolding analysis_quote_segments_v13_def Let_def
      by (auto simp: quotable_slice list_all_iff split: if_splits prod.splits dest!: packed_fold_ok [OF _ pack_step_v13_ok])
  next
    case 3
    then have "quotable (text_of (utf8_chars (trim source))) quote"
      unfolding analysis_quote_segments_v12_def by (rule quote_segments_v12_quotable) simp
    then show ?thesis using trim_sublist [of source] by (auto simp: quotable_def)
  qed
qed

text \<open>C37. Whatever the text of a block, its Unicode properties and its sentence boundaries, and whichever version of
  the analysis segmentation is asked for: every quotation the analysis of a page offers to the model is a
  contiguous piece of that text, character for character, and has at most 600 characters. (The synthesis
  has segmentations of its own, whose whole clauses may be longer.)\<close>

theorem quotations_verbatim_and_bounded:
  "list_all (\<lambda>quote. sublist quote source \<and> char_count quote \<le> 600)
     (fst (analysis_quote_segmentation_for_version u r version source))"
  using segmentation_quotable by (force simp: list_all_iff quotable_def MAX_ANALYSIS_QUOTE_CHARACTERS_def)

end
