(* ===== verification/Modal_Guard.thy ===== *)
theory Modal_Guard
  imports Claims Clause_Text
begin

text \<open>
  The modal guard of \<open>summary/coherent.rs\<close>: a drafted sentence may not turn what a source only
  permits into an obligation. Words are lower-cased runs of alphanumeric characters; a modal verb is
  read with the predicate it governs and up to six words of context on either side. The semantic
  fidelity guards of \<open>coherent/semantic_support.rs\<close> apply the same comparison to verdicts; the
  remaining comparisons of that file are the argument \<open>others\<close>.
\<close>

section \<open>Words and modal verbs\<close>

definition words_of :: "unicode \<Rightarrow> string \<Rightarrow> string list" where
  "words_of u s = map (uc_lowercase u) (runs (uc_alphanumeric u) [] (utf8_chars s))"

record modal_predicate =
  governed :: string
  subject_context :: "string list"
  object_context :: "string list"
  negated :: bool

definition negations :: "string list" where
  "negations = [''not'', ''no'', ''never'']"

definition next_predicate_index :: "string list \<Rightarrow> nat \<Rightarrow> nat option" where
  "next_predicate_index ws start =
     List.find (\<lambda>i. ws ! i \<notin> set [''not'', ''be'', ''been'', ''being'', ''have'', ''to'']) [start..<length ws]"

definition is_weak_modal :: "string \<Rightarrow> bool" where
  "is_weak_modal w \<longleftrightarrow> w \<in> set [''may'', ''might'', ''can'', ''could'', ''should'']"

definition is_strong_modal :: "string \<Rightarrow> bool" where
  "is_strong_modal w \<longleftrightarrow> w \<in> set [''must'', ''shall'', ''will'']"

definition is_require_form :: "string \<Rightarrow> bool" where
  "is_require_form w \<longleftrightarrow> w \<in> set [''require'', ''requires'', ''required'', ''requiring'']"

definition is_modal_anchor :: "string \<Rightarrow> bool" where
  "is_modal_anchor w \<longleftrightarrow> is_weak_modal w \<or> is_strong_modal w \<or> is_require_form w"

definition normalized_predicate :: "string list \<Rightarrow> nat \<Rightarrow> string option" where
  "normalized_predicate ws index =
     (if length ws \<le> index then None
      else if 64 < char_count (ws ! index) then None
      else Some (if is_require_form (ws ! index) then ''require'' else ws ! index))"

definition is_context_word :: "string \<Rightarrow> bool" where
  "is_context_word w \<longleftrightarrow>
     w \<notin> set [''a'', ''an'', ''the'', ''all'', ''and'', ''or'', ''but'', ''while'', ''whereas'', ''although'', ''be'',
       ''been'', ''being'', ''is'', ''are'', ''was'', ''were'', ''have'', ''has'', ''had'', ''do'', ''does'', ''did'',
       ''to'', ''of'', ''for'', ''in'', ''on'', ''at'', ''by'', ''exactly'', ''not'', ''no'', ''never'']
     \<and> \<not> is_modal_anchor w"

definition context_words :: "string list \<Rightarrow> string list" where
  "context_words ws = filter is_context_word ws"

definition trailing_context :: "string list \<Rightarrow> string list" where
  "trailing_context ws = drop (length (context_words ws) - 6) (context_words ws)"

definition leading_context :: "string list \<Rightarrow> string list" where
  "leading_context ws = take 6 (context_words ws)"

section \<open>Clauses and their modal statements\<close>

definition range_step :: "string list \<Rightarrow> string list list \<times> nat \<Rightarrow> nat \<Rightarrow> string list list \<times> nat" where
  "range_step ws st index =
     (case st of (ranges, start) \<Rightarrow>
        if ws ! index \<notin> set [''and'', ''but'', ''while'', ''whereas'']
          \<or> \<not> list_ex is_modal_anchor (drop start (take index ws))
          \<or> \<not> list_ex is_modal_anchor (drop (Suc index) ws)
        then (ranges, start)
        else (if start < index then ranges @ [drop start (take index ws)] else ranges, Suc index))"

definition modal_clause_ranges :: "string list \<Rightarrow> string list list" where
  "modal_clause_ranges ws =
     (case foldl (range_step ws) ([], 0) [0..<length ws] of (ranges, start) \<Rightarrow>
        if start < length ws then ranges @ [drop start ws] else ranges)"

definition modal_occurrence :: "string list \<Rightarrow> nat \<Rightarrow> nat \<Rightarrow> string list option \<Rightarrow> modal_predicate option" where
  "modal_occurrence ws anchor_index predicate_index subject =
     map_option (\<lambda>p. \<lparr>governed = p,
         subject_context = (case subject of None \<Rightarrow> trailing_context (take anchor_index ws) | Some s \<Rightarrow> s),
         object_context = leading_context (drop (Suc predicate_index) ws),
         negated = list_ex (\<lambda>w. w \<in> set negations) (drop (anchor_index - 2) (take (Suc predicate_index) ws))\<rparr>)
       (normalized_predicate ws predicate_index)"

definition push_new :: "'a option \<Rightarrow> 'a list \<Rightarrow> 'a list" where
  "push_new p ps = (case p of None \<Rightarrow> ps | Some x \<Rightarrow> if x \<in> set ps then ps else ps @ [x])"

definition modal_verb_step :: "string list \<Rightarrow> bool \<Rightarrow> modal_predicate list \<Rightarrow> nat \<Rightarrow> modal_predicate list" where
  "modal_verb_step ws strong ps index =
     (if (if strong then is_strong_modal (ws ! index) else is_weak_modal (ws ! index))
      then (case next_predicate_index ws (Suc index) of
          None \<Rightarrow> ps
        | Some k \<Rightarrow> push_new (modal_occurrence ws index k None) ps)
      else ps)"

text \<open>The words after a form of \<open>require\<close>, up to the \<open>to\<close> within seven words of it.\<close>

definition required_action :: "string list \<Rightarrow> nat \<Rightarrow> modal_predicate option" where
  "required_action ws index =
     (case List.find (\<lambda>p. ws ! p = ''to'') [Suc index..<min (index + 8) (length ws)] of
        None \<Rightarrow> None
      | Some to_index \<Rightarrow>
          (case next_predicate_index ws (Suc to_index) of
             None \<Rightarrow> None
           | Some k \<Rightarrow>
               let subject = trailing_context (drop (Suc index) (take to_index ws))
               in modal_occurrence ws index k (if subject = [] then None else Some subject)))"

definition governed_by_modal :: "string list \<Rightarrow> nat \<Rightarrow> bool" where
  "governed_by_modal ws index \<longleftrightarrow>
     list_ex (\<lambda>m. (is_weak_modal (ws ! m) \<or> is_strong_modal (ws ! m)) \<and> next_predicate_index ws (Suc m) = Some index)
       [0..<index]"

definition modal_word_step :: "string list \<Rightarrow> bool \<Rightarrow> modal_predicate list \<Rightarrow> nat \<Rightarrow> modal_predicate list" where
  "modal_word_step ws strong ps index =
     (let after = modal_verb_step ws strong ps index
      in if strong \<and> is_require_form (ws ! index) \<and> \<not> governed_by_modal ws index
         then push_new (required_action ws index) (push_new (modal_occurrence ws index index None) after)
         else after)"

definition clause_modal_predicates :: "bool \<Rightarrow> string list \<Rightarrow> modal_predicate list" where
  "clause_modal_predicates strong ws = foldl (modal_word_step ws strong) [] [0..<length ws]"

text \<open>The pieces between \<open>. ? ! ; ,\<close> and line ends; an empty piece has no words.\<close>

definition modal_clauses :: "string \<Rightarrow> string list" where
  "modal_clauses s = runs (\<lambda>c. c \<notin> {46, 63, 33, 59, 44, 10, 13}) [] (utf8_chars s)"

definition modal_predicates :: "unicode \<Rightarrow> string \<Rightarrow> bool \<Rightarrow> modal_predicate list" where
  "modal_predicates u s strong =
     concat (map (\<lambda>clause. concat (map (clause_modal_predicates strong) (modal_clause_ranges (words_of u clause))))
       (modal_clauses s))"

definition modal_statements_match :: "modal_predicate \<Rightarrow> modal_predicate \<Rightarrow> bool \<Rightarrow> bool" where
  "modal_statements_match draft source same_negation \<longleftrightarrow>
     \<not> (governed draft \<noteq> governed source \<or> (same_negation \<and> negated draft \<noteq> negated source))
     \<and> subject_context draft = subject_context source \<and> object_context draft = object_context source
     \<and> (subject_context draft \<noteq> [] \<or> object_context draft \<noteq> [])"

section \<open>The guard on a draft\<close>

definition invalid_document :: pipeline_failure where
  "invalid_document = stage_failure Synthesize ''INVALID_SYNTHESIZED_DOCUMENT''
     ''Coherent summary text, source evidence, presentation, and claims must remain consistent'' False"

definition invalid_response :: pipeline_failure where
  "invalid_response = stage_failure Synthesize ''MODEL_SUMMARY_RESPONSE_INVALID''
     ''The coherent summary response must contain bounded complete units with known unique source IDs'' True"

definition cited_evidence ::
  "(string \<Rightarrow> evidence_item option) \<Rightarrow> pipeline_failure \<Rightarrow> cited_claim \<Rightarrow> pipeline_failure + evidence_item list" where
  "cited_evidence by_id failure claim = res_collect (\<lambda>i. ok_or (by_id i) failure) (claim_evidence_ids claim)"

text \<open>The predicates a claim states more strongly than its evidence.\<close>

definition strengthens :: "modal_predicate list \<Rightarrow> modal_predicate list \<Rightarrow> modal_predicate \<Rightarrow> bool" where
  "strengthens weak strong p \<longleftrightarrow>
     list_ex (\<lambda>source. modal_statements_match p source False) weak
     \<and> \<not> list_ex (\<lambda>source. modal_statements_match p source True) strong"

definition source_predicates :: "unicode \<Rightarrow> evidence_item list \<Rightarrow> bool \<Rightarrow> modal_predicate list" where
  "source_predicates u items strong =
     concat (map (\<lambda>item. modal_predicates u (evidence_exact_quote item) strong) items)"

definition strengthened_predicates ::
  "unicode \<Rightarrow> (string \<Rightarrow> evidence_item option) \<Rightarrow> cited_claim \<Rightarrow> pipeline_failure + string list" where
  "strengthened_predicates u by_id claim =
     res_bind (cited_evidence by_id invalid_response claim) (\<lambda>items.
     Inr (map governed (filter (strengthens (source_predicates u items False) (source_predicates u items True))
       (modal_predicates u (claim_text claim) True))))"

definition modal_strengthening_feedback ::
  "unicode \<Rightarrow> cited_claim list \<Rightarrow> evidence_item list \<Rightarrow> pipeline_failure + string list" where
  "modal_strengthening_feedback u claims evidence =
     res_bind (res_collect (strengthened_predicates u (evidence_by_id evidence)) claims) (\<lambda>strengthened.
     Inr (map (\<lambda>p. ''The draft strengthens the source modality for predicate '' @ [CHR 0x27] @ p @ [CHR 0x27]
         @ ''; preserve may, can, or should instead of must, requires, requiring, or will'')
       (remdups_adj (sort (concat strengthened)))))"

definition validate_modal_content :: "unicode \<Rightarrow> cited_claim list \<Rightarrow> evidence_item list \<Rightarrow> pipeline_failure + unit" where
  "validate_modal_content u claims evidence =
     res_bind (modal_strengthening_feedback u claims evidence) (\<lambda>feedback.
     ensure (feedback = []) invalid_document)"

section \<open>The guard on verdicts\<close>

fun expand_contractions :: "string list \<Rightarrow> string list" where
  "expand_contractions [] = []"
| "expand_contractions (w # ws) =
     (if w = ''cannot'' then ''can'' # ''not'' # expand_contractions ws
      else case ws of
        [] \<Rightarrow> [w]
      | t # rest \<Rightarrow>
          (case map_of [(''can'', ''can''), (''couldn'', ''could''), (''mayn'', ''may''), (''mightn'', ''might''),
             (''mustn'', ''must''), (''shalln'', ''shall''), (''shouldn'', ''should''), (''won'', ''will''),
             (''wouldn'', ''would'')] w of
             None \<Rightarrow> w # expand_contractions ws
           | Some modal \<Rightarrow> if t = ''t'' then modal # ''not'' # expand_contractions rest
               else w # expand_contractions ws))"

definition guarded_modal_predicates :: "unicode \<Rightarrow> string \<Rightarrow> bool \<Rightarrow> modal_predicate list" where
  "guarded_modal_predicates u s strong =
     concat (map (\<lambda>clause. modal_predicates u (join '' '' (expand_contractions (words_of u clause))) strong)
       (modal_clauses s))"

definition modal_force_supported :: "unicode \<Rightarrow> string \<Rightarrow> evidence_item list \<Rightarrow> bool" where
  "modal_force_supported u claim evidence =
     (let weak = concat (map (\<lambda>item. guarded_modal_predicates u (evidence_exact_quote item) False) evidence);
          strong = concat (map (\<lambda>item. guarded_modal_predicates u (evidence_exact_quote item) True) evidence)
      in list_all (\<lambda>p.
           (\<not> list_ex (\<lambda>s. modal_statements_match p s False) weak \<or> list_ex (\<lambda>s. modal_statements_match p s True) strong)
           \<and> (\<not> list_ex (\<lambda>s. modal_statements_match p s False) strong
              \<or> list_ex (\<lambda>s. modal_statements_match p s True) strong))
         (guarded_modal_predicates u claim True))"

definition semantic_fidelity_supported ::
  "unicode \<Rightarrow> (string \<Rightarrow> evidence_item list \<Rightarrow> bool) \<Rightarrow> string \<Rightarrow> evidence_item list \<Rightarrow> bool" where
  "semantic_fidelity_supported u others claim evidence \<longleftrightarrow> others claim evidence \<and> modal_force_supported u claim evidence"

definition guard_verdict ::
  "unicode \<Rightarrow> (string \<Rightarrow> evidence_item list \<Rightarrow> bool) \<Rightarrow> (string \<Rightarrow> evidence_item option) \<Rightarrow> cited_claim \<times> claim_verification \<Rightarrow>
   pipeline_failure + claim_verification" where
  "guard_verdict u others by_id x =
     (case x of (claim, v) \<Rightarrow>
        res_bind (ensure (verified_claim_id v = claim_id claim \<and> verified_evidence_ids v = claim_evidence_ids claim)
          (stage_failure Verify ''INVALID_VERIFICATION_RESPONSE''
             ''Semantic-fidelity verification identity must match the coherent claim catalog'' False)) (\<lambda>_.
        if verdict v \<noteq> Supported then Inr v
        else res_bind (cited_evidence by_id (stage_failure Verify ''INVALID_SYNTHESIZED_DOCUMENT''
               ''Semantic-fidelity verification references unknown synthesis evidence'' False) claim) (\<lambda>items.
          Inr (if semantic_fidelity_supported u others (claim_text claim) items then v
               else v\<lparr>verdict := Unsupported\<rparr>))))"

definition apply_semantic_fidelity_guards ::
  "unicode \<Rightarrow> (string \<Rightarrow> evidence_item list \<Rightarrow> bool) \<Rightarrow> cited_claim list \<Rightarrow> evidence_item list \<Rightarrow> claim_verification list \<Rightarrow>
   pipeline_failure + claim_verification list" where
  "apply_semantic_fidelity_guards u others claims evidence verifications =
     res_bind (ensure (length claims = length verifications)
       (stage_failure Verify ''INVALID_VERIFICATION_RESPONSE''
          ''Semantic-fidelity verification coverage must match the coherent claim catalog'' False)) (\<lambda>_.
     res_collect (guard_verdict u others (evidence_by_id evidence)) (zip claims verifications))"

section \<open>What a guard can change\<close>

lemma cited_evidence_Inr:
  "cited_evidence by_id e claim = Inr items \<longleftrightarrow> list_all2 (\<lambda>i item. by_id i = Some item) (claim_evidence_ids claim) items"
  by (simp add: cited_evidence_def res_simps)

lemma cited_evidence_known:
  assumes "\<forall>i \<in> set (claim_evidence_ids claim). by_id i \<noteq> None"
  shows "cited_evidence by_id e claim = Inr (map (the \<circ> by_id) (claim_evidence_ids claim))"
  unfolding cited_evidence_def by (rule res_collect_total) (use assms in auto)

lemma guard_verdict_Inr:
  "guard_verdict u others by_id (claim, v) = Inr v' \<Longrightarrow>
     (v' = v \<or> verdict v = Supported \<and> v' = v\<lparr>verdict := Unsupported\<rparr>)
     \<and> (verdict v' = Supported \<longrightarrow> (\<exists>items. cited_evidence by_id (stage_failure Verify ''INVALID_SYNTHESIZED_DOCUMENT''
               ''Semantic-fidelity verification references unknown synthesis evidence'' False) claim = Inr items
          \<and> semantic_fidelity_supported u others (claim_text claim) items))"
  by (auto simp: guard_verdict_def res_simps split: if_splits)

lemma sort_Nil_iff: "sort xs = [] \<longleftrightarrow> xs = []"
  using set_sort [of "\<lambda>x. x" xs] by (metis set_empty)

lemma strengthens_verbatim:
  "p \<in> set strong \<Longrightarrow> \<not> strengthens weak strong p"
  by (auto simp: strengthens_def modal_statements_match_def list_ex_iff)

lemma validate_modal_content_iff:
  "validate_modal_content u claims evidence = Inr () \<longleftrightarrow>
     (\<forall>claim \<in> set claims. \<exists>items. cited_evidence (evidence_by_id evidence) invalid_response claim = Inr items
        \<and> (\<forall>p \<in> set (modal_predicates u (claim_text claim) True).
             \<not> strengthens (source_predicates u items False) (source_predicates u items True) p))"
    (is "?checked \<longleftrightarrow> ?weak")
proof
  assume ?checked
  then obtain ps where ps: "list_all2 (\<lambda>claim p. strengthened_predicates u (evidence_by_id evidence) claim = Inr p) claims ps"
    and "concat ps = []"
    by (auto simp: validate_modal_content_def modal_strengthening_feedback_def res_simps sort_Nil_iff)
  show ?weak
  proof
    fix claim assume "claim \<in> set claims"
    then obtain i where i: "i < length claims" "claims ! i = claim" by (auto simp: in_set_conv_nth)
    with ps have "strengthened_predicates u (evidence_by_id evidence) claim = Inr (ps ! i)" and "i < length ps"
      by (auto simp: list_all2_conv_all_nth)
    moreover from \<open>i < length ps\<close> \<open>concat ps = []\<close> have "ps ! i = []" by simp
    ultimately show "\<exists>items. cited_evidence (evidence_by_id evidence) invalid_response claim = Inr items
        \<and> (\<forall>p \<in> set (modal_predicates u (claim_text claim) True).
             \<not> strengthens (source_predicates u items False) (source_predicates u items True) p)"
      by (auto simp: strengthened_predicates_def res_simps filter_empty_conv)
  qed
next
  assume weak: ?weak
  have "res_collect (strengthened_predicates u (evidence_by_id evidence)) claims = Inr (map (\<lambda>_. []) claims)"
  proof (rule res_collect_total)
    fix claim assume "claim \<in> set claims"
    with weak show "strengthened_predicates u (evidence_by_id evidence) claim = Inr []"
      by (fastforce simp: strengthened_predicates_def filter_empty_conv)
  qed
  moreover have "concat (map (\<lambda>_. [] :: string list) claims) = []" by simp
  ultimately show ?checked
    by (simp add: validate_modal_content_def modal_strengthening_feedback_def sort_Nil_iff)
qed

text \<open>C38. A claim that repeats one of the quotations it cites is never refused for its modality: whatever the
  words of the quotations, if every claim of a draft cites known evidence and its text is the exact
  quotation of an item it cites, the modal check accepts the draft. Paraphrase is compared with all
  the cited quotations; a quotation states nothing more strongly than itself.\<close>

theorem quotations_pass_modal_check:
  assumes "\<forall>claim \<in> set claims. \<forall>i \<in> set (claim_evidence_ids claim). evidence_by_id evidence i \<noteq> None"
    and "\<forall>claim \<in> set claims. \<exists>i \<in> set (claim_evidence_ids claim). \<exists>item.
           evidence_by_id evidence i = Some item \<and> claim_text claim = evidence_exact_quote item"
  shows "validate_modal_content u claims evidence = Inr ()"
  unfolding validate_modal_content_iff
proof
  fix claim assume claim: "claim \<in> set claims"
  define items where "items = map (the \<circ> evidence_by_id evidence) (claim_evidence_ids claim)"
  from claim assms(1) have cited: "cited_evidence (evidence_by_id evidence) invalid_response claim = Inr items"
    unfolding items_def by (intro cited_evidence_known) auto
  from claim assms(2) obtain item where "item \<in> set items" "claim_text claim = evidence_exact_quote item"
    unfolding items_def by force
  then have "set (modal_predicates u (claim_text claim) True) \<subseteq> set (source_predicates u items True)"
    by (auto simp: source_predicates_def)
  with cited show "\<exists>items. cited_evidence (evidence_by_id evidence) invalid_response claim = Inr items
      \<and> (\<forall>p \<in> set (modal_predicates u (claim_text claim) True).
           \<not> strengthens (source_predicates u items False) (source_predicates u items True) p)"
    using strengthens_verbatim by blast
qed

text \<open>A quotation with a modal verb, repeated by a claim.\<close>

definition modal_evidence :: "evidence_item list" where
  "modal_evidence = map (\<lambda>e. e\<lparr>evidence_exact_quote := ''The tenant may renew.''\<rparr>) sample_evidence"

definition modal_claim :: cited_claim where
  "modal_claim = sample_claim\<lparr>claim_text := ''The tenant may renew.''\<rparr>"

lemma quotations_pass_modal_check_witness:
  "validate_modal_content \<lparr>uc_upper = (\<lambda>c. c < 91), uc_lower = (\<lambda>c. 96 < c), uc_alphabetic = (\<lambda>c. 64 < c),
     uc_alphanumeric = (\<lambda>c. 64 < c), uc_numeric = (\<lambda>c. False), uc_currency = (\<lambda>c. False),
     uc_lowercase = to_ascii_lowercase\<rparr> [modal_claim] modal_evidence = Inr ()"
proof (rule quotations_pass_modal_check)
  show "\<forall>claim \<in> set [modal_claim]. \<forall>i \<in> set (claim_evidence_ids claim). evidence_by_id modal_evidence i \<noteq> None"
    by (simp add: modal_claim_def sample_claim_def modal_evidence_def sample_evidence_def evidence_by_id_def)
  show "\<forall>claim \<in> set [modal_claim]. \<exists>i \<in> set (claim_evidence_ids claim). \<exists>item.
      evidence_by_id modal_evidence i = Some item \<and> claim_text claim = evidence_exact_quote item"
    by (simp add: modal_claim_def sample_claim_def modal_evidence_def sample_evidence_def evidence_by_id_def)
qed

text \<open>The semantic fidelity guards can only withhold: the verdicts they return are the model's verdicts, one for
  one and with the same identities and evidence, except that some \<open>Supported\<close> ones have become
  \<open>Unsupported\<close>; and a verdict that is still \<open>Supported\<close> belongs to a claim whose modal
  force, and every other comparison, the cited quotations support.\<close>

theorem guards_only_withhold:
  assumes "apply_semantic_fidelity_guards u others claims evidence verifications = Inr guarded"
  shows "list_all2 (\<lambda>(claim, v) v'. (v' = v \<or> verdict v = Supported \<and> v' = v\<lparr>verdict := Unsupported\<rparr>)
      \<and> (verdict v' = Supported \<longrightarrow> others (claim_text claim) (List.map_filter (evidence_by_id evidence) (claim_evidence_ids claim))
           \<and> modal_force_supported u (claim_text claim) (List.map_filter (evidence_by_id evidence) (claim_evidence_ids claim))))
    (zip claims verifications) guarded \<and> length guarded = length claims \<and> length verifications = length claims"
proof -
  from assms have len: "length claims = length verifications"
    and all: "list_all2 (\<lambda>x v'. guard_verdict u others (evidence_by_id evidence) x = Inr v') (zip claims verifications) guarded"
    by (auto simp: apply_semantic_fidelity_guards_def res_simps)
  have cited: "items = List.map_filter (evidence_by_id evidence) (claim_evidence_ids claim)"
    if "cited_evidence (evidence_by_id evidence) e claim = Inr items" for e claim items
    using that unfolding cited_evidence_Inr by (induction rule: list_all2_induct) (simp_all add: List.map_filter_simps)
  from all have "list_all2 (\<lambda>(claim, v) v'. (v' = v \<or> verdict v = Supported \<and> v' = v\<lparr>verdict := Unsupported\<rparr>)
      \<and> (verdict v' = Supported \<longrightarrow> others (claim_text claim) (List.map_filter (evidence_by_id evidence) (claim_evidence_ids claim))
           \<and> modal_force_supported u (claim_text claim) (List.map_filter (evidence_by_id evidence) (claim_evidence_ids claim))))
    (zip claims verifications) guarded"
    by (rule list_all2_mono) (auto dest!: guard_verdict_Inr simp: semantic_fidelity_supported_def dest: cited)
  moreover from all len have "length guarded = length claims" by (auto dest: list_all2_lengthD)
  ultimately show ?thesis using len by simp
qed

text \<open>A supported verdict that another comparison refuses, and an ambiguous one.\<close>

definition withheld_verdicts :: "claim_verdict \<Rightarrow> claim_verification list" where
  "withheld_verdicts v =
     [\<lparr>verified_claim_id = claim_id modal_claim, verified_evidence_ids = claim_evidence_ids modal_claim, verdict = v\<rparr>,
      \<lparr>verified_claim_id = claim_id modal_claim, verified_evidence_ids = claim_evidence_ids modal_claim, verdict = Ambiguous\<rparr>]"

lemma guards_only_withhold_witness:
  "\<exists>u :: unicode. length (withheld_verdicts Unsupported) = length [modal_claim, modal_claim]
     \<and> apply_semantic_fidelity_guards u (\<lambda>_ _. False) [modal_claim, modal_claim] modal_evidence (withheld_verdicts Supported)
       = Inr (withheld_verdicts Unsupported)"
proof -
  have run: "apply_semantic_fidelity_guards u (\<lambda>_ _. False) [modal_claim, modal_claim] modal_evidence
      (withheld_verdicts Supported) = Inr (withheld_verdicts Unsupported)" for u
    by (simp add: apply_semantic_fidelity_guards_def withheld_verdicts_def guard_verdict_def res_collect_def
      cited_evidence_def modal_claim_def sample_claim_def modal_evidence_def sample_evidence_def evidence_by_id_def
      semantic_fidelity_supported_def)
  show ?thesis using run guards_only_withhold [OF run] by blast
qed

end
