(* ===== verification/Clause_References.thy ===== *)
theory Clause_References
  imports Modal_Guard Page_Furniture Analyzed_Document
begin

text \<open>
  The clause references of short contracts in \<open>summary/coherent.rs\<close>: numbered clauses recognised in
  a quotation, the references a claim must carry, and the feedback when one is missing. A text is
  its list of characters; a position counts characters where the source counts bytes.
\<close>

type_synonym characters = "(nat \<times> string) list"

record clause_reference =
  reference_number :: string
  reference_title :: string

definition skip_whitespace :: "characters \<Rightarrow> characters" where
  "skip_whitespace cs = dropWhile (is_whitespace \<circ> fst) cs"

definition digit_component :: "string \<Rightarrow> bool" where
  "digit_component part \<longleftrightarrow> part \<noteq> [] \<and> all_digits part"

text \<open>A number such as \<open>4.2.\<close> up to the first white space, without its last dot, and what follows it.\<close>

definition clause_number_token :: "characters \<Rightarrow> (string \<times> characters) option" where
  "clause_number_token cs =
     (let token = takeWhile (\<lambda>c. \<not> is_whitespace (fst c)) cs; raw = text_of token; number = butlast raw
      in if length token = length cs \<or> raw = [] \<or> last raw \<noteq> CHR ''.''
           \<or> number = [] \<or> last number = CHR ''.'' \<or> 24 < length number
           \<or> \<not> list_all (\<lambda>part. digit_component part \<and> length part \<le> 3) (split_at CHR ''.'' [] number)
         then None else Some (number, drop (length token) cs))"

definition initialism :: "string \<Rightarrow> bool" where
  "initialism w \<longleftrightarrow>
     (let parts = split_at CHR ''.'' [] w
      in 2 \<le> length parts
         \<and> list_all (\<lambda>part. length part = 1
             \<and> (65 \<le> byte (hd part) \<and> byte (hd part) \<le> 90 \<or> 97 \<le> byte (hd part) \<and> byte (hd part) \<le> 122)) parts)"

definition line_break :: "nat \<times> string \<Rightarrow> bool" where
  "line_break c \<longleftrightarrow> fst c = 10 \<or> fst c = 13"

definition wrapped_initialism_line :: "characters \<Rightarrow> bool" where
  "wrapped_initialism_line title = initialism (trim (text_of (rev (takeWhile (\<lambda>c. \<not> line_break c) (rev title)))))"

definition title_words :: "characters \<Rightarrow> string" where
  "title_words cs = join '' '' (split_whitespace (text_of cs))"

definition ends_title :: "characters \<Rightarrow> nat \<Rightarrow> bool" where
  "ends_title cs i \<longleftrightarrow>
     fst (cs ! i) = 46 \<and> list_ex line_break (takeWhile (is_whitespace \<circ> fst) (drop (Suc i) cs))
     \<and> \<not> wrapped_initialism_line (take i cs)"

definition leading_clause_reference :: "characters \<Rightarrow> clause_reference option" where
  "leading_clause_reference cs =
     (case clause_number_token (skip_whitespace cs) of
        None \<Rightarrow> None
      | Some (number, rest) \<Rightarrow>
          (let remainder = skip_whitespace rest in
           case List.find (ends_title remainder) [0..<length remainder] of
             None \<Rightarrow> None
           | Some title_end \<Rightarrow>
               let title = title_words (take title_end remainder)
               in if title = [] \<or> 120 < char_count title then None
                  else Some \<lparr>reference_number = number, reference_title = title\<rparr>))"

text \<open>Whether a clause may begin at position \<open>k\<close>: the number of a decimal, and a number inside a
  phrase, does not begin one.\<close>

function clause_candidate_start :: "unicode \<Rightarrow> characters \<Rightarrow> nat \<Rightarrow> bool" where
  "clause_candidate_start u cs k =
     (if k = 0 then True
      else
        let before = take k cs; previous = fst (cs ! (k - 1))
        in if is_whitespace previous
           then (let kept = rev (dropWhile (is_whitespace \<circ> fst) (rev before))
                 in if list_ex line_break (drop (length kept) before) then True
                    else kept \<noteq> [] \<and> \<not> uc_alphanumeric u (fst (last kept)))
           else if previous \<noteq> 46 then \<not> uc_alphanumeric u previous
           else
             let token = rev (takeWhile (\<lambda>c. uc_alphanumeric u (fst c) \<or> fst c = 46) (rev (take (k - 1) cs)))
             in if \<not> (token \<noteq> [] \<and> list_all digit_component (split_at CHR ''.'' [] (text_of token))) then True
                else \<not> clause_candidate_start u cs (k - 1 - length token))"
  by pat_completeness auto
termination by (relation "measure (\<lambda>(u, cs, k). k)") auto

declare clause_candidate_start.simps [simp del]

definition ascii_digit_at :: "characters \<Rightarrow> nat \<Rightarrow> bool" where
  "ascii_digit_at cs k \<longleftrightarrow> 48 \<le> fst (cs ! k) \<and> fst (cs ! k) \<le> 57"

definition begins_clause :: "unicode \<Rightarrow> characters \<Rightarrow> nat \<Rightarrow> bool" where
  "begins_clause u cs k \<longleftrightarrow>
     ascii_digit_at cs k \<and> clause_candidate_start u cs k \<and> clause_number_token (drop k cs) \<noteq> None"

fun collect_options :: "'a option list \<Rightarrow> 'a list option" where
  "collect_options [] = Some []"
| "collect_options (x # xs) =
     (case x of None \<Rightarrow> None | Some y \<Rightarrow> map_option (\<lambda>ys. y # ys) (collect_options xs))"

definition clause_references_in_segment :: "unicode \<Rightarrow> characters \<Rightarrow> clause_reference list option" where
  "clause_references_in_segment u cs =
     (let cs = skip_whitespace cs
      in collect_options (map (\<lambda>k. leading_clause_reference (drop k cs)) (filter (begins_clause u cs) [0..<length cs])))"

definition sole_leading_clause_reference :: "unicode \<Rightarrow> characters \<Rightarrow> clause_reference option" where
  "sole_leading_clause_reference u cs =
     (case leading_clause_reference cs of
        None \<Rightarrow> None
      | Some leading \<Rightarrow> (if clause_references_in_segment u cs = Some [leading] then Some leading else None))"

text \<open>A title that ends in a dot on its own line: \<open>seen\<close> is the title so far, reversed.\<close>

fun inline_title :: "string \<Rightarrow> characters \<Rightarrow> characters \<Rightarrow> clause_reference option" where
  "inline_title number seen [] = None"
| "inline_title number seen (c # cs) =
     (if fst c \<noteq> 46 then inline_title number (c # seen) cs
      else if \<not> (cs \<noteq> [] \<and> is_whitespace (fst (hd cs))) \<or> skip_whitespace cs = [] then inline_title number (c # seen) cs
      else
        let title = title_words (rev seen); ws = split_whitespace title
        in if title = [] \<or> 120 < char_count title \<or> 12 < length ws then None
           else if ws \<noteq> [] \<and> initialism (last ws)
           then (if length ws = 1 then inline_title number (c # seen) cs else None)
           else Some \<lparr>reference_number = number, reference_title = title\<rparr>)"

definition inline_clause_reference :: "characters \<Rightarrow> clause_reference option" where
  "inline_clause_reference cs =
     (case clause_number_token (skip_whitespace cs) of
        None \<Rightarrow> None
      | Some (number, rest) \<Rightarrow> inline_title number [] (skip_whitespace rest))"

definition leading_source_clause_reference :: "characters \<Rightarrow> clause_reference option" where
  "leading_source_clause_reference cs =
     (case leading_clause_reference cs of None \<Rightarrow> inline_clause_reference cs | Some r \<Rightarrow> Some r)"

text \<open>The ranges from each start to the next, the last to the end.\<close>

definition between_starts :: "nat list \<Rightarrow> nat \<Rightarrow> (nat \<times> nat) list" where
  "between_starts starts len = zip starts (tl (starts @ [len]))"

definition clause_starts_in_segment :: "unicode \<Rightarrow> characters \<Rightarrow> (nat \<times> clause_reference) list option" where
  "clause_starts_in_segment u cs =
     collect_options (map (\<lambda>(s, e).
         map_option (Pair s) (leading_source_clause_reference (utf8_chars (trim (text_of (drop s (take e cs)))))))
       (between_starts (filter (begins_clause u cs) [0..<length cs]) (length cs)))"

definition sole_source_clause_reference :: "unicode \<Rightarrow> characters \<Rightarrow> clause_reference option" where
  "sole_source_clause_reference u cs =
     (case leading_source_clause_reference cs of
        None \<Rightarrow> None
      | Some leading \<Rightarrow>
          (case clause_starts_in_segment u cs of
             Some [(_, r)] \<Rightarrow> if r = leading then Some leading else None
           | _ \<Rightarrow> None))"

section \<open>References a claim must carry\<close>

fun references_for_evidence ::
  "unicode \<Rightarrow> (string \<Rightarrow> evidence_item option) \<Rightarrow> clause_reference list \<Rightarrow> string list \<Rightarrow>
   pipeline_failure + clause_reference list" where
  "references_for_evidence u by_id found [] = Inr found"
| "references_for_evidence u by_id found (i # ids) =
     res_bind (ok_or (by_id i) invalid_response) (\<lambda>item.
     case sole_source_clause_reference u (utf8_chars (evidence_exact_quote item)) of
       None \<Rightarrow> Inr []
     | Some r \<Rightarrow>
         references_for_evidence u by_id
           (if reference_number r \<in> reference_number ` set found then found else found @ [r]) ids)"

definition clause_references_for_evidence ::
  "unicode \<Rightarrow> string list \<Rightarrow> (string \<Rightarrow> evidence_item option) \<Rightarrow> pipeline_failure + clause_reference list" where
  "clause_references_for_evidence u ids by_id = references_for_evidence u by_id [] ids"

definition reference_suffix :: "clause_reference list \<Rightarrow> string option" where
  "reference_suffix references =
     (if references = [] then None
      else Some ('' ['' @ join ''; '' (map (\<lambda>r. ''Section '' @ reference_number r) references) @ '']''))"

text \<open>\<open>rfind\<close> of a text: what precedes and what follows its last occurrence.\<close>

fun last_split :: "string \<Rightarrow> string \<Rightarrow> string \<Rightarrow> (string \<times> string) option" where
  "last_split pat seen [] = (if pat = [] then Some (rev seen, []) else None)"
| "last_split pat seen (b # bs) =
     (case last_split pat (b # seen) bs of
        Some found \<Rightarrow> Some found
      | None \<Rightarrow> if starts_with (b # bs) pat then Some (rev seen, drop (length pat) (b # bs)) else None)"

definition reference_before_terminal :: "string \<Rightarrow> string \<Rightarrow> (string \<times> string \<times> string) option" where
  "reference_before_terminal s suffix_text =
     (case last_split suffix_text [] s of
        None \<Rightarrow> None
      | Some (before, trailing) \<Rightarrow>
          (case utf8_chars trailing of
             [] \<Rightarrow> None
           | c # cs \<Rightarrow>
               if fst c \<in> set terminals \<and> list_all (\<lambda>d. fst d \<in> set closers) cs
               then Some (before, snd c, text_of cs) else None))"

record validated_claim =
  validated_text :: string
  validated_ids :: "string list"

definition attach_clause_reference ::
  "unicode \<Rightarrow> (string \<Rightarrow> evidence_item option) \<Rightarrow> validated_claim \<Rightarrow> pipeline_failure + validated_claim" where
  "attach_clause_reference u by_id claim =
     res_bind (clause_references_for_evidence u (validated_ids claim) by_id) (\<lambda>references.
     case reference_suffix references of
       None \<Rightarrow> Inr claim
     | Some suffix_text \<Rightarrow>
         res_bind
           (if ends_with (validated_text claim) suffix_text then Inr (validated_text claim)
            else case reference_before_terminal (validated_text claim) suffix_text of
                Some (before, terminal_text, closing) \<Rightarrow>
                  (let kept = trim_end before
                   in if kept = [] then Inl invalid_response
                      else Inr (kept @ (if completion_valid u kept then [] else terminal_text) @ closing @ suffix_text))
              | None \<Rightarrow> Inr (validated_text claim @ suffix_text)) (\<lambda>written.
         res_bind (ensure (canonical_bounded_text written MAX_CLAIM_CHARACTERS) invalid_response) (\<lambda>_.
         Inr (claim\<lparr>validated_text := written\<rparr>))))"

definition reference_label :: "clause_reference \<Rightarrow> string" where
  "reference_label r = ''Section '' @ reference_number r @ '' ('' @ reference_title r @ '')''"

definition missing_reference :: "clause_reference list \<Rightarrow> string" where
  "missing_reference references =
     ''A Contract summary unit is missing its application-owned clause-reference suffix: ''
       @ join '', '' (map reference_label references) @ ''.''"

definition clause_reference_feedback ::
  "unicode \<Rightarrow> cited_claim list \<Rightarrow> evidence_item list \<Rightarrow> pipeline_failure + string list" where
  "clause_reference_feedback u claims evidence =
     res_bind (res_collect (\<lambda>claim.
         res_bind (clause_references_for_evidence u (claim_evidence_ids claim) (evidence_by_id evidence)) (\<lambda>references.
         Inr (case reference_suffix references of
             None \<Rightarrow> []
           | Some suffix_text \<Rightarrow> if ends_with (claim_text claim) suffix_text then [] else [missing_reference references])))
       claims) (\<lambda>feedback. Inr (concat feedback))"

record required_clause =
  required_evidence_id :: string
  required_reference :: clause_reference

definition clause_coverage_feedback :: "cited_claim list \<Rightarrow> required_clause list option \<Rightarrow> string list" where
  "clause_coverage_feedback claims required =
     (case required of
        None \<Rightarrow> []
      | Some clauses \<Rightarrow>
          (let cited = set (concat (map claim_evidence_ids claims));
               missing = map (reference_label \<circ> required_reference)
                 (filter (\<lambda>c. required_evidence_id c \<notin> cited) clauses)
           in if missing = [] then []
              else [''This short Contract source contains six or fewer supplied numbered clauses, but the summary omitted: ''
                @ join '', '' missing
                @ ''. Include a material term from every supplied clause and keep each term beside its clause reference.'']))"

section \<open>What the references say\<close>

lemma collect_options_Some: "collect_options xs = Some ys \<longleftrightarrow> xs = map Some ys"
proof (induction xs arbitrary: ys)
  case (Cons x xs)
  show ?case by (cases x; cases ys) (auto simp: Cons.IH)
qed auto

lemma paired_with_starts:
  "map (\<lambda>(s, e). map_option (Pair s) (g s e)) xs = map Some ys \<Longrightarrow> map fst ys = map fst xs"
proof (induction xs arbitrary: ys)
  case (Cons x xs)
  then obtain y zs where "ys = y # zs" by (cases ys) auto
  with Cons show ?case by (cases x) auto
qed auto

lemma clause_starts_begin:
  assumes "clause_starts_in_segment u cs = Some starts"
  shows "map fst starts = filter (begins_clause u cs) [0..<length cs]"
proof -
  let ?ks = "filter (begins_clause u cs) [0..<length cs]"
  from assms have "map fst starts = map fst (between_starts ?ks (length cs))"
    unfolding clause_starts_in_segment_def collect_options_Some by (rule paired_with_starts)
  then show ?thesis by (simp add: between_starts_def)
qed

end
