(* ===== verification/Source_Catalog.thy ===== *)
theory Source_Catalog
  imports Quote_Segments Clause_References
begin

text \<open>
  The sources a coherent summary may cite: the quotation catalogue of a chunk
  (\<open>derive_quote_catalog_with_segmentation\<close>), the numbered clauses of \<open>coherent/whole_clauses.rs\<close>
  with their opening words, and the catalogues of \<open>summary/coherent.rs\<close> per synthesis version and
  profile. \<open>source_framing_for_segment_with_state\<close>, which only labels a source for the prompt, comes in
  with the Unicode rules in the record \<open>language\<close>.
\<close>

datatype source_framing = FramedProblem | FramedRisk | FramedWarning | FramedException | FramedLimitation

fun framing_label :: "source_framing \<Rightarrow> string" where
  "framing_label FramedProblem = ''problem''"
| "framing_label FramedRisk = ''risk''"
| "framing_label FramedWarning = ''warning''"
| "framing_label FramedException = ''exception''"
| "framing_label FramedLimitation = ''limitation''"

record language =
  lg_unicode :: unicode
  lg_sentences :: sentence_rules
  lg_framing :: "normalized_document \<Rightarrow> normalized_block \<Rightarrow> string \<Rightarrow> source_framing option"

section \<open>Versions\<close>

definition SYNTHESIS_VERSION :: string where "SYNTHESIS_VERSION = ''13.0.0''"
definition PRE_RUNNING_FURNITURE_SYNTHESIS_VERSION :: string where "PRE_RUNNING_FURNITURE_SYNTHESIS_VERSION = ''12.0.0''"
definition PRE_CLAUSE_SYNTHESIS_VERSION :: string where "PRE_CLAUSE_SYNTHESIS_VERSION = ''11.0.0''"
definition PRE_FURNITURE_SYNTHESIS_VERSION :: string where "PRE_FURNITURE_SYNTHESIS_VERSION = ''10.0.0''"
definition PRE_BALANCED_SYNTHESIS_VERSION :: string where "PRE_BALANCED_SYNTHESIS_VERSION = ''9.0.0''"

definition furniture_versions :: "string list" where
  "furniture_versions = [SYNTHESIS_VERSION, PRE_RUNNING_FURNITURE_SYNTHESIS_VERSION, PRE_CLAUSE_SYNTHESIS_VERSION]"

definition clause_versions :: "string list" where
  "clause_versions = [SYNTHESIS_VERSION, PRE_RUNNING_FURNITURE_SYNTHESIS_VERSION]"

definition balanced_versions :: "string list" where
  "balanced_versions = furniture_versions @ [PRE_FURNITURE_SYNTHESIS_VERSION]"

section \<open>The quotations of a chunk\<close>

definition MAX_ANALYSIS_SELECTION_ID_CHARACTERS :: nat where "MAX_ANALYSIS_SELECTION_ID_CHARACTERS = 8"

definition analysis_selection_id :: "nat \<Rightarrow> string option" where
  "analysis_selection_id index =
     (case usize_checked (index + 1) of
        None \<Rightarrow> None
      | Some n \<Rightarrow>
          (let selection = CHR ''q'' # show_nat n
           in if length selection \<le> MAX_ANALYSIS_SELECTION_ID_CHARACTERS then Some selection else None))"

abbreviation evidence_response_invalid :: "string \<Rightarrow> pipeline_failure" where
  "evidence_response_invalid message \<equiv> stage_failure Analyze ''MODEL_EVIDENCE_RESPONSE_INVALID'' message False"

type_synonym block_segments = "(string \<times> u32 \<times> string list) list"

definition segment_block ::
  "block_index \<Rightarrow> (normalized_block \<Rightarrow> segmentation) \<Rightarrow> block_segments \<times> nat \<Rightarrow> string \<Rightarrow>
   pipeline_failure + block_segments \<times> nat" where
  "segment_block blocks segment st i =
     res_bind (ok_or (blocks i) (boundary_invalid ''Quote-candidate construction encountered an unknown normalized block'')) (\<lambda>b.
     res_bind (ok_or (usize_checked (snd st + snd (segment b)))
       (evidence_response_invalid ''The quotation catalog omitted-unit count exceeded the supported range'')) (\<lambda>omitted.
     Inr (fst st @ [(i, page_start (block_source b), fst (segment b))], omitted)))"

text \<open>One segment of every block in turn, so that no block crowds out the others.\<close>

definition interleaved :: "block_segments \<Rightarrow> (string \<times> u32 \<times> string) list" where
  "interleaved rows =
     concat (map (\<lambda>k. List.map_filter (\<lambda>(i, page, segments). if k < length segments then Some (i, page, segments ! k) else None) rows)
       [0..<Max (insert 0 (set (map (\<lambda>(_, _, segments). length segments) rows)))])"

definition quote_signature :: "analysis_quote_candidate \<Rightarrow> string \<times> string" where
  "quote_signature c = (quote_block_id c, quote_exact c)"

definition quote_identity :: "(string \<Rightarrow> string) \<Rightarrow> string \<Rightarrow> document_chunk \<Rightarrow> string \<Rightarrow> u32 \<Rightarrow> string \<Rightarrow> string" where
  "quote_identity sha version chunk i page quote =
     deterministic_id sha ''quote'' [version, chunk_id chunk, i, show_nat (unat page), quote]"

definition push_quote ::
  "(string \<Rightarrow> string) \<Rightarrow> string \<Rightarrow> document_chunk \<Rightarrow> analysis_quote_candidate list \<Rightarrow> string \<times> u32 \<times> string \<Rightarrow>
   pipeline_failure + analysis_quote_candidate list" where
  "push_quote sha version chunk found x =
     (case x of (i, page, quote) \<Rightarrow>
        if (i, quote) \<in> quote_signature ` set found then Inr found
        else res_bind (ok_or (analysis_selection_id (length found))
            (evidence_response_invalid ''The quotation catalog exceeded the scope-local identifier range'')) (\<lambda>selection.
          Inr (found @ [\<lparr>selection_id = selection, full_identity = quote_identity sha version chunk i page quote,
            quote_block_id = i, quote_page_number = page, quote_exact = quote\<rparr>])))"

type_synonym quote_catalog = "analysis_quote_candidate list \<times> nat"

definition derive_quote_catalog_with_segmentation ::
  "(string \<Rightarrow> string) \<Rightarrow> string \<Rightarrow> document_chunk \<Rightarrow> block_index \<Rightarrow> string list \<Rightarrow> (normalized_block \<Rightarrow> segmentation) \<Rightarrow>
   pipeline_failure + quote_catalog" where
  "derive_quote_catalog_with_segmentation sha version chunk blocks allowed segment =
     res_bind (res_fold (segment_block blocks segment) ([], 0) allowed) (\<lambda>(rows, omitted).
     res_bind (res_fold (push_quote sha version chunk) [] (interleaved rows)) (\<lambda>candidates.
     res_bind (ensure (candidates \<noteq> [] \<or> (version \<in> {ANALYSIS_VERSION, SENTENCE_ANALYSIS_VERSION} \<and> 0 < omitted))
       (evidence_response_invalid ''Analysis could not derive any bounded quotation from the source chunk'')) (\<lambda>_.
     Inr (candidates, omitted))))"

definition derive_analysis_quote_catalog_for_blocks ::
  "(string \<Rightarrow> string) \<Rightarrow> language \<Rightarrow> string \<Rightarrow> document_chunk \<Rightarrow> block_index \<Rightarrow> string list \<Rightarrow>
   pipeline_failure + quote_catalog" where
  "derive_analysis_quote_catalog_for_blocks sha lg version chunk blocks allowed =
     derive_quote_catalog_with_segmentation sha version chunk blocks allowed
       (\<lambda>b. analysis_quote_segmentation_for_version (lg_unicode lg) (lg_sentences lg) version (block_text b))"

definition quote_accepted ::
  "(string \<Rightarrow> string) \<Rightarrow> string \<Rightarrow> document_chunk \<Rightarrow> string list \<Rightarrow> normalized_block \<Rightarrow> string \<Rightarrow>
   analysis_quote_candidate list \<Rightarrow> analysis_quote_candidate \<Rightarrow> bool" where
  "quote_accepted sha version chunk allowed b selection earlier c \<longleftrightarrow>
     selection_id c = selection
     \<and> full_identity c = quote_identity sha version chunk (quote_block_id c) (quote_page_number c) (quote_exact c)
     \<and> selection_id c \<notin> selection_id ` set earlier
     \<and> full_identity c \<notin> full_identity ` set earlier
     \<and> quote_signature c \<notin> quote_signature ` set earlier
     \<and> quote_block_id c \<in> set allowed
     \<and> quote_page_number c = page_start (block_source b)
     \<and> canonical_bounded_text (quote_exact c) MAX_ANALYSIS_QUOTE_CHARACTERS
     \<and> contains_str (block_text b) (quote_exact c)"

definition check_quote ::
  "(string \<Rightarrow> string) \<Rightarrow> string \<Rightarrow> document_chunk \<Rightarrow> block_index \<Rightarrow> string list \<Rightarrow> analysis_quote_candidate list \<Rightarrow>
   analysis_quote_candidate \<Rightarrow> pipeline_failure + analysis_quote_candidate list" where
  "check_quote sha version chunk blocks allowed earlier c =
     res_bind (ok_or (blocks (quote_block_id c))
       (evidence_response_invalid ''The quotation catalog references an unknown normalized block'')) (\<lambda>b.
     res_bind (ok_or (analysis_selection_id (length earlier))
       (evidence_response_invalid ''The quotation catalog exceeded the scope-local identifier range'')) (\<lambda>selection.
     res_bind (ensure (quote_accepted sha version chunk allowed b selection earlier c)
       (evidence_response_invalid ''Quotation identities, source provenance, and exact bytes must validate'')) (\<lambda>_.
     Inr (earlier @ [c]))))"

definition validate_versioned_analysis_quote_catalog_for_blocks ::
  "(string \<Rightarrow> string) \<Rightarrow> language \<Rightarrow> string \<Rightarrow> document_chunk \<Rightarrow> block_index \<Rightarrow> string list \<Rightarrow>
   analysis_quote_candidate list \<Rightarrow> pipeline_failure + unit" where
  "validate_versioned_analysis_quote_catalog_for_blocks sha lg version chunk blocks allowed candidates =
     res_bind (derive_analysis_quote_catalog_for_blocks sha lg version chunk blocks allowed) (\<lambda>(expected, _).
     res_bind (ensure (expected = candidates)
       (evidence_response_invalid ''The quotation catalog must equal the versioned source reconstruction'')) (\<lambda>_.
     res_bind (res_fold (check_quote sha version chunk blocks allowed) [] candidates) (\<lambda>_. Inr ())))"

definition build_versioned_analysis_quote_catalog_for_blocks ::
  "(string \<Rightarrow> string) \<Rightarrow> language \<Rightarrow> string \<Rightarrow> document_chunk \<Rightarrow> block_index \<Rightarrow> string list \<Rightarrow>
   pipeline_failure + quote_catalog" where
  "build_versioned_analysis_quote_catalog_for_blocks sha lg version chunk blocks allowed =
     res_bind (derive_analysis_quote_catalog_for_blocks sha lg version chunk blocks allowed) (\<lambda>catalog.
     res_bind (validate_versioned_analysis_quote_catalog_for_blocks sha lg version chunk blocks allowed (fst catalog)) (\<lambda>_.
     Inr catalog))"

section \<open>Segments of a block without its furniture\<close>

definition furniture_segment :: "language \<Rightarrow> furniture \<Rightarrow> string \<Rightarrow> normalized_block \<Rightarrow> segmentation" where
  "furniture_segment lg f version b =
     (let parts = map (analysis_quote_segmentation_for_version (lg_unicode lg) (lg_sentences lg) version)
            (filter (\<lambda>s. \<not> blank s) (map (\<lambda>(s, e). slice (block_text b) s e) (retained_ranges f (block_id b))))
      in (concat (map fst parts), sum_list (map snd parts)))"

section \<open>Numbered clauses with their opening words\<close>

record numbered_clause =
  nc_number :: string
  nc_parents :: "nat list"
  nc_fragments :: "string list"

definition clause_number :: "unicode \<Rightarrow> string \<Rightarrow> string option" where
  "clause_number u line =
     (case split_once_char is_whitespace (trim_start (trim_start_sections (trim line))) of
        None \<Rightarrow> None
      | Some (raw, rest) \<Rightarrow>
          (let marker = trim_end_of ''.)'' raw; following = utf8_chars (trim_start rest)
           in if marker \<noteq> [] \<and> list_all (\<lambda>part. digit_component part \<and> length part \<le> 3) (split_at CHR ''.'' [] marker)
                \<and> following \<noteq> [] \<and> uc_upper u (fst (hd following))
              then Some marker else None))"

type_synonym unit_order = "(string \<times> nat option \<times> string) list"

record clause_reader =
  cr_clauses :: "numbered_clause list"
  cr_order :: unit_order
  cr_active :: "nat option"
  cr_parents :: "nat list"

definition append_unit :: "normalized_block \<Rightarrow> nat \<Rightarrow> nat \<Rightarrow> clause_reader \<Rightarrow> clause_reader" where
  "append_unit b s e st =
     (let piece = trim (slice (block_text b) s e)
      in if piece = [] then st
         else st\<lparr>
           cr_clauses := (case cr_active st of
               None \<Rightarrow> cr_clauses st
             | Some i \<Rightarrow> (cr_clauses st)[i := (cr_clauses st ! i)\<lparr>nc_fragments := nc_fragments (cr_clauses st ! i) @ [piece]\<rparr>]),
           cr_order := cr_order st @ [(block_id b, cr_active st, piece)]\<rparr>)"

text \<open>A line that opens a clause: the clauses it is not part of are closed.\<close>

definition open_clause :: "string \<Rightarrow> clause_reader \<Rightarrow> clause_reader" where
  "open_clause marker st =
     (let parents = rev (dropWhile (\<lambda>i. \<not> starts_with marker (nc_number (cr_clauses st ! i) @ ''.'')) (rev (cr_parents st)));
          index = length (cr_clauses st)
      in st\<lparr>cr_clauses := cr_clauses st @ [\<lparr>nc_number = marker, nc_parents = parents, nc_fragments = []\<rparr>],
            cr_parents := parents @ [index], cr_active := Some index\<rparr>)"

definition governing_title :: "unicode \<Rightarrow> string \<Rightarrow> bool" where
  "governing_title u pre \<longleftrightarrow>
     pre \<noteq> [] \<and> chars_any (uc_alphabetic u) pre \<and> chars_all (\<lambda>c. is_whitespace c \<or> uc_upper u c) pre"

definition clause_line :: "unicode \<Rightarrow> normalized_block \<Rightarrow> clause_reader \<times> nat \<times> nat \<Rightarrow> string \<Rightarrow> clause_reader \<times> nat \<times> nat" where
  "clause_line u b x line =
     (case x of (st, begins, offset) \<Rightarrow>
        case clause_number u line of
          None \<Rightarrow> (st, begins, offset + length line)
        | Some marker \<Rightarrow>
            if governing_title u (trim (slice (block_text b) begins offset))
            then (open_clause marker st, begins, offset + length line)
            else (open_clause marker (append_unit b begins offset st), offset, offset + length line))"

definition clause_range :: "unicode \<Rightarrow> normalized_block \<Rightarrow> clause_reader \<Rightarrow> nat \<times> nat \<Rightarrow> clause_reader" where
  "clause_range u b st bounds =
     (case bounds of (s, e) \<Rightarrow>
        case foldl (clause_line u b) (st, s, s) (split_inclusive [] (slice (block_text b) s e)) of
          (st', begins, _) \<Rightarrow> append_unit b begins e st')"

definition read_clauses :: "unicode \<Rightarrow> normalized_document \<Rightarrow> furniture \<Rightarrow> clause_reader" where
  "read_clauses u document f =
     foldl (\<lambda>st b. foldl (clause_range u b) st (retained_ranges f (block_id b)))
       \<lparr>cr_clauses = [], cr_order = [], cr_active = None, cr_parents = []\<rparr> (document_blocks document)"

definition clause_context :: "numbered_clause list \<Rightarrow> nat \<Rightarrow> string" where
  "clause_context cs index =
     join paragraph_break (concat (map (\<lambda>i. nc_fragments (cs ! i)) (nc_parents (cs ! index) @ [index])))"

record whole_clauses =
  wc_segments :: "string \<Rightarrow> string list"
  wc_contexts :: "string \<times> string \<Rightarrow> string option"
  wc_omitted :: "string \<Rightarrow> nat"

definition place_unit ::
  "language \<Rightarrow> string \<Rightarrow> numbered_clause list \<Rightarrow> whole_clauses \<Rightarrow> string \<times> nat option \<times> string \<Rightarrow> whole_clauses" where
  "place_unit lg version cs w x =
     (case x of (i, clause, piece) \<Rightarrow>
        case clause of
          Some index \<Rightarrow>
            w\<lparr>wc_segments := (wc_segments w)(i := wc_segments w i @ [piece]),
              wc_contexts := (wc_contexts w)((i, piece) \<mapsto>
                (case wc_contexts w (i, piece) of
                   None \<Rightarrow> clause_context cs index
                 | Some previous \<Rightarrow> if previous = clause_context cs index then previous else []))\<rparr>
        | None \<Rightarrow>
            (let part = analysis_quote_segmentation_for_version (lg_unicode lg) (lg_sentences lg) version piece
             in w\<lparr>wc_segments := (wc_segments w)(i := wc_segments w i @ fst part),
                  wc_omitted := (wc_omitted w)(i := wc_omitted w i + snd part)\<rparr>))"

definition whole_clauses_new :: "language \<Rightarrow> normalized_document \<Rightarrow> furniture \<Rightarrow> string \<Rightarrow> whole_clauses" where
  "whole_clauses_new lg document f version =
     (let st = read_clauses (lg_unicode lg) document f
      in foldl (place_unit lg version (cr_clauses st))
           \<lparr>wc_segments = (\<lambda>_. []), wc_contexts = Map.empty, wc_omitted = (\<lambda>_. 0)\<rparr> (cr_order st))"

text \<open>A quotation whose context is ambiguous is withheld.\<close>

definition clause_segment :: "whole_clauses \<Rightarrow> normalized_block \<Rightarrow> segmentation" where
  "clause_segment w b =
     (let ambiguous = (\<lambda>quote. wc_contexts w (block_id b, quote) = Some []); segments = wc_segments w (block_id b)
      in (filter (\<lambda>quote. \<not> ambiguous quote) segments, wc_omitted w (block_id b) + length (filter ambiguous segments)))"

definition context_of :: "whole_clauses \<Rightarrow> string \<Rightarrow> string \<Rightarrow> string option" where
  "context_of w i quote =
     (case wc_contexts w (i, quote) of None \<Rightarrow> None | Some c \<Rightarrow> if c = [] then None else Some c)"

section \<open>The sources of a summary\<close>

record source_candidate =
  sc_request_id :: string
  sc_evidence :: evidence_item
  sc_chunk_ordinal :: u32
  sc_window :: "nat option"
  sc_framing :: "source_framing option"
  sc_drafting_claim :: "string option"
  sc_clause :: "clause_reference option"
  sc_full_clause :: "string option"

type_synonym source_catalog = "source_candidate list \<times> nat"

abbreviation source_context_invalid :: "string \<Rightarrow> pipeline_failure" where
  "source_context_invalid message \<equiv> stage_failure Synthesize ''SYNTHESIS_SOURCE_CONTEXT_INVALID'' message False"

definition copied_evidence :: "string \<Rightarrow> string \<Rightarrow> string \<Rightarrow> source_span \<Rightarrow> string \<Rightarrow> evidence_item" where
  "copied_evidence i chunk block span quote =
     \<lparr>evidence_id = i, evidence_chunk_id = chunk, evidence_block_id = block, evidence_claim_text = quote,
      evidence_exact_quote = quote, evidence_source_span = span\<rparr>"

definition summary_evidence_id :: "(string \<Rightarrow> string) \<Rightarrow> string \<Rightarrow> string \<Rightarrow> string \<Rightarrow> analysis_quote_candidate \<Rightarrow> string" where
  "summary_evidence_id sha document version chunk q =
     deterministic_id sha ''summary-evidence''
       [document, version, chunk, quote_block_id q, show_nat (unat (quote_page_number q)), quote_exact q]"

definition request_name :: "nat \<Rightarrow> string" where
  "request_name n = CHR ''s'' # show_nat n"

definition drafting_of :: "analyzed_document option \<Rightarrow> analysis_quote_candidate \<Rightarrow> source_framing option \<Rightarrow> string option" where
  "drafting_of analyzed q framing =
     (case List.find (\<lambda>e. evidence_block_id e = quote_block_id q \<and> evidence_exact_quote e = quote_exact q)
         (case analyzed of None \<Rightarrow> [] | Some a \<Rightarrow> ledger_evidence a) of
        None \<Rightarrow> None
      | Some e \<Rightarrow> if evidence_claim_text e \<noteq> quote_exact q \<and> framing = None then Some (evidence_claim_text e) else None)"

definition add_source ::
  "(string \<Rightarrow> string) \<Rightarrow> language \<Rightarrow> string \<Rightarrow> chunked_document \<Rightarrow> normalized_document \<Rightarrow> analyzed_document option \<Rightarrow>
   block_index \<Rightarrow> whole_clauses option \<Rightarrow> document_chunk \<Rightarrow> source_candidate list \<Rightarrow> analysis_quote_candidate \<Rightarrow>
   pipeline_failure + source_candidate list" where
  "add_source sha lg version chunked normalized analyzed blocks clauses chunk found q =
     res_bind (ok_or (blocks (quote_block_id q))
       (source_context_invalid ''A source segment references an unknown normalized block'')) (\<lambda>b.
     let i = summary_evidence_id sha (chunked_document_id chunked) version (chunk_id chunk) q;
         framing = lg_framing lg normalized b (quote_exact q)
     in res_bind (ensure (i \<notin> (evidence_id \<circ> sc_evidence) ` set found)
          (source_context_invalid ''General synthesis source evidence identities must be unique'')) (\<lambda>_.
        res_bind (ok_or (usize_checked (length found + 1))
          (source_context_invalid ''The source catalog exceeds the supported identifier range'')) (\<lambda>n.
        Inr (found @ [\<lparr>sc_request_id = request_name n,
          sc_evidence = copied_evidence i (chunk_id chunk) (quote_block_id q) (block_source b) (quote_exact q),
          sc_chunk_ordinal = ordinal chunk, sc_window = None, sc_framing = framing,
          sc_drafting_claim = drafting_of analyzed q framing, sc_clause = None,
          sc_full_clause = (case clauses of
              None \<Rightarrow> None
            | Some w \<Rightarrow>
                (case context_of w (quote_block_id q) (quote_exact q) of
                   None \<Rightarrow> None
                 | Some c \<Rightarrow> if c = quote_exact q then None else Some c))\<rparr>]))))"

definition catalog_analysis_version :: "analyzed_document option \<Rightarrow> string" where
  "catalog_analysis_version analyzed =
     (case analyzed of
        None \<Rightarrow> ANALYSIS_VERSION
      | Some a \<Rightarrow> if analysis_version a \<noteq> ANALYSIS_VERSION then SENTENCE_ANALYSIS_VERSION else ANALYSIS_VERSION)"

definition chunk_quote_catalog ::
  "(string \<Rightarrow> string) \<Rightarrow> language \<Rightarrow> string \<Rightarrow> block_index \<Rightarrow> furniture option \<Rightarrow> whole_clauses option \<Rightarrow> document_chunk \<Rightarrow>
   pipeline_failure + quote_catalog option" where
  "chunk_quote_catalog sha lg analysis blocks furniture_of clauses chunk =
     (case furniture_of of
        Some f \<Rightarrow>
          if list_all (\<lambda>i. \<not> has_retained_text f (the (blocks i))) (chunk_block_ids chunk) then Inr None
          else res_bind (derive_quote_catalog_with_segmentation sha analysis chunk blocks (chunk_block_ids chunk)
              (case clauses of None \<Rightarrow> furniture_segment lg f analysis | Some w \<Rightarrow> clause_segment w)) (Inr \<circ> Some)
      | None \<Rightarrow>
          res_bind (build_versioned_analysis_quote_catalog_for_blocks sha lg analysis chunk blocks (chunk_block_ids chunk))
            (Inr \<circ> Some))"

definition ordered_sources :: "document_chunk \<Rightarrow> analysis_quote_candidate list \<Rightarrow> analysis_quote_candidate list" where
  "ordered_sources chunk candidates =
     concat (map (\<lambda>i. filter (\<lambda>q. quote_block_id q = i) candidates) (first_seen {} (chunk_block_ids chunk)))"

definition chunk_sources ::
  "(string \<Rightarrow> string) \<Rightarrow> language \<Rightarrow> string \<Rightarrow> chunked_document \<Rightarrow> normalized_document \<Rightarrow> analyzed_document option \<Rightarrow>
   block_index \<Rightarrow> furniture option \<Rightarrow> whole_clauses option \<Rightarrow> source_catalog \<Rightarrow> document_chunk \<Rightarrow>
   pipeline_failure + source_catalog" where
  "chunk_sources sha lg version chunked normalized analyzed blocks furniture_of clauses st chunk =
     res_bind (chunk_quote_catalog sha lg (catalog_analysis_version analyzed) blocks furniture_of clauses chunk) (\<lambda>quotes.
     case quotes of
       None \<Rightarrow> Inr st
     | Some (candidates, unusable) \<Rightarrow>
         res_bind (ok_or (usize_checked (snd st + unusable))
           (source_context_invalid ''The omitted source-unit count exceeds the supported range'')) (\<lambda>omitted.
         res_bind (ensure (list_all (\<lambda>q. quote_block_id q \<in> set (chunk_block_ids chunk)) candidates)
           (source_context_invalid ''General synthesis source segments must belong to the canonical chunk blocks'')) (\<lambda>_.
         res_bind (res_fold (add_source sha lg version chunked normalized analyzed blocks clauses chunk) (fst st)
           (ordered_sources chunk candidates)) (\<lambda>found.
         Inr (found, omitted)))))"

definition for_synthesis_version :: "unicode \<Rightarrow> normalized_document \<Rightarrow> string \<Rightarrow> furniture" where
  "for_synthesis_version u document version =
     for_policy u document (if version = SYNTHESIS_VERSION then RunningMetadata else OriginalFurniture)"

definition source_catalog_with_furniture_policy ::
  "(string \<Rightarrow> string) \<Rightarrow> language \<Rightarrow> string \<Rightarrow> chunked_document \<Rightarrow> normalized_document \<Rightarrow> analyzed_document option \<Rightarrow> bool \<Rightarrow>
   pipeline_failure + source_catalog" where
  "source_catalog_with_furniture_policy sha lg version chunked normalized analyzed exclude =
     (let furniture_of = (if exclude then Some (for_synthesis_version (lg_unicode lg) normalized version) else None);
          clauses = (case furniture_of of
              None \<Rightarrow> None
            | Some f \<Rightarrow> if version \<in> set clause_versions
                then Some (whole_clauses_new lg normalized f (catalog_analysis_version analyzed)) else None)
      in res_bind (validate_normalized_chunk_boundary normalized chunked) (\<lambda>blocks.
         res_fold (chunk_sources sha lg version chunked normalized analyzed blocks furniture_of clauses) ([], 0)
           (chunks chunked)))"

definition source_catalog_for_synthesis_version ::
  "(string \<Rightarrow> string) \<Rightarrow> language \<Rightarrow> string \<Rightarrow> chunked_document \<Rightarrow> normalized_document \<Rightarrow> analyzed_document option \<Rightarrow>
   pipeline_failure + source_catalog" where
  "source_catalog_for_synthesis_version sha lg version chunked normalized analyzed =
     source_catalog_with_furniture_policy sha lg version chunked normalized analyzed False"

text \<open>The first, the middle and the last source of every page.\<close>

definition balanced_positions :: "source_candidate list \<Rightarrow> nat set" where
  "balanced_positions candidates =
     (let page = (\<lambda>k. page_start (evidence_source_span (sc_evidence (candidates ! k))));
          all = [0..<length candidates]
      in \<Union> ((\<lambda>k. let on_page = filter (\<lambda>j. page j = page k) all
                 in {hd on_page, on_page ! ((length on_page - 1) div 2), last on_page}) ` set all))"

definition page_balanced_catalog :: "summary_profile \<Rightarrow> string \<Rightarrow> source_catalog \<Rightarrow> source_catalog" where
  "page_balanced_catalog profile version catalog =
     (if profile \<noteq> General \<or> version \<notin> set balanced_versions then catalog
      else (map (\<lambda>k. fst catalog ! k) (filter (\<lambda>k. k \<in> balanced_positions (fst catalog)) [0..<length (fst catalog)]),
            snd catalog))"

section \<open>Short contracts\<close>

definition MAX_REQUIRED_SHORT_CONTRACT_CLAUSES :: nat where "MAX_REQUIRED_SHORT_CONTRACT_CLAUSES = 6"
definition MAX_SHORT_CONTRACT_SOURCE_SEGMENTS :: nat where "MAX_SHORT_CONTRACT_SOURCE_SEGMENTS = 12"

definition candidate_characters :: "source_candidate \<Rightarrow> characters" where
  "candidate_characters c = utf8_chars (evidence_exact_quote (sc_evidence c))"

definition required_clause_of :: "source_candidate \<Rightarrow> clause_reference \<Rightarrow> required_clause" where
  "required_clause_of c r = \<lparr>required_evidence_id = evidence_id (sc_evidence c), required_reference = r\<rparr>"

definition required_short_contract_clauses :: "unicode \<Rightarrow> source_catalog \<Rightarrow> required_clause list option" where
  "required_short_contract_clauses u catalog =
     (let candidates = fst catalog in
      if 0 < snd catalog \<or> candidates = [] \<or> MAX_SHORT_CONTRACT_SOURCE_SEGMENTS < length candidates then None
      else case (if list_ex (\<lambda>c. sc_clause c \<noteq> None) candidates
          then Some (List.map_filter (\<lambda>c. map_option (required_clause_of c) (sc_clause c)) candidates)
          else collect_options (map (\<lambda>c. map_option (required_clause_of c)
            (sole_leading_clause_reference u (candidate_characters c))) candidates)) of
        None \<Rightarrow> None
      | Some clauses \<Rightarrow>
          if clauses = [] \<or> MAX_REQUIRED_SHORT_CONTRACT_CLAUSES < length clauses
            \<or> \<not> distinct (map (reference_number \<circ> required_reference) clauses)
          then None else Some clauses)"

definition contract_ranges :: "nat \<Rightarrow> (nat \<times> clause_reference) list \<Rightarrow> (nat \<times> nat \<times> clause_reference option) list" where
  "contract_ranges len starts =
     (if starts = [] then [(0, len, None)]
      else (if 0 < fst (hd starts) then [(0, fst (hd starts), None)] else [])
        @ map (\<lambda>((s, r), e). (s, e, Some r)) (zip starts (tl (map fst starts @ [len]))))"

type_synonym clause_split = "source_candidate list \<times> string set \<times> nat"

definition split_range ::
  "(string \<Rightarrow> string) \<Rightarrow> string \<Rightarrow> source_candidate \<Rightarrow> clause_split \<Rightarrow> nat \<times> nat \<times> clause_reference option \<Rightarrow> unit + clause_split" where
  "split_range sha version c st x =
     (case (st, x) of ((found, numbers, count), (s, e, clause)) \<Rightarrow>
        let quote = trim (text_of (drop s (take e (candidate_characters c))));
            numbers' = (case clause of None \<Rightarrow> numbers | Some r \<Rightarrow> insert (reference_number r) numbers);
            count' = (if clause = None then count else count + 1);
            i = deterministic_id sha ''summary-contract-evidence'' [version, evidence_id (sc_evidence c), quote]
        in if quote = [] then Inr st
           else if MAX_ANALYSIS_QUOTE_CHARACTERS < char_count quote
             \<or> (clause \<noteq> None \<and> (MAX_REQUIRED_SHORT_CONTRACT_CLAUSES < count' \<or> numbers' = numbers))
             \<or> MAX_SHORT_CONTRACT_SOURCE_SEGMENTS \<le> length found
             \<or> i \<in> (evidence_id \<circ> sc_evidence) ` set found
           then Inl ()
           else Inr (found @ [\<lparr>sc_request_id = [],
               sc_evidence = copied_evidence i (evidence_chunk_id (sc_evidence c)) (evidence_block_id (sc_evidence c))
                 (evidence_source_span (sc_evidence c)) quote,
               sc_chunk_ordinal = sc_chunk_ordinal c, sc_window = None, sc_framing = None, sc_drafting_claim = None,
               sc_clause = clause, sc_full_clause = None\<rparr>], numbers', count'))"

definition split_candidate ::
  "(string \<Rightarrow> string) \<Rightarrow> unicode \<Rightarrow> string \<Rightarrow> clause_split \<Rightarrow> source_candidate \<Rightarrow> unit + clause_split" where
  "split_candidate sha u version st c =
     res_bind (ensure (sc_window c = None) ()) (\<lambda>_.
     res_bind (ok_or (clause_starts_in_segment u (candidate_characters c)) ()) (\<lambda>starts.
     res_fold (split_range sha version c) st (contract_ranges (length (candidate_characters c)) starts)))"

definition contract_source_catalog ::
  "(string \<Rightarrow> string) \<Rightarrow> unicode \<Rightarrow> source_catalog \<Rightarrow> string \<Rightarrow> source_catalog option" where
  "contract_source_catalog sha u catalog version =
     (let candidates = fst catalog in
      if 0 < snd catalog \<or> candidates = [] \<or> MAX_REQUIRED_SHORT_CONTRACT_CLAUSES < length candidates
        \<or> (\<not> list_ex (\<lambda>c. case clause_starts_in_segment u (candidate_characters c) of
              None \<Rightarrow> False | Some starts \<Rightarrow> 1 < length starts) candidates
           \<and> required_short_contract_clauses u catalog = None)
      then None
      else case res_fold (split_candidate sha u version) ([], {}, 0) candidates of
        Inl _ \<Rightarrow> None
      | Inr (found, _, count) \<Rightarrow>
          if count = 0 then None
          else Some (map (\<lambda>(k, c). c\<lparr>sc_request_id := request_name (k + 1)\<rparr>) (enumerate 0 found), 0))"

text \<open>One block of a contract: \<open>None\<close> when the blocks cannot be taken whole.\<close>

definition add_block ::
  "(string \<Rightarrow> string) \<Rightarrow> string \<Rightarrow> chunked_document \<Rightarrow> block_index \<Rightarrow> document_chunk \<Rightarrow> source_candidate list \<Rightarrow> string \<Rightarrow>
   pipeline_failure option + source_candidate list" where
  "add_block sha version chunked blocks chunk found i =
     res_bind (ok_or (blocks i)
       (Some (source_context_invalid ''Contract source segmentation encountered an unknown normalized block''))) (\<lambda>b.
     let quote = trim (block_text b);
         e = deterministic_id sha ''summary-contract-block-evidence''
           [chunked_document_id chunked, version, chunk_id chunk, i, show_nat (unat (page_start (block_source b))), quote]
     in res_bind (ensure (quote \<noteq> [] \<and> e \<notin> (evidence_id \<circ> sc_evidence) ` set found) None) (\<lambda>_.
        Inr (found @ [\<lparr>sc_request_id = request_name (length found + 1),
          sc_evidence = copied_evidence e (chunk_id chunk) i (block_source b) quote,
          sc_chunk_ordinal = ordinal chunk, sc_window = None, sc_framing = None, sc_drafting_claim = None,
          sc_clause = None, sc_full_clause = None\<rparr>])))"

definition contract_source_catalog_from_blocks ::
  "(string \<Rightarrow> string) \<Rightarrow> unicode \<Rightarrow> string \<Rightarrow> chunked_document \<Rightarrow> normalized_document \<Rightarrow>
   pipeline_failure + source_catalog option" where
  "contract_source_catalog_from_blocks sha u version chunked normalized =
     res_bind (validate_normalized_chunk_boundary normalized chunked) (\<lambda>blocks.
     case res_fold (\<lambda>found chunk. res_fold (add_block sha version chunked blocks chunk) found (chunk_block_ids chunk)) []
         (chunks chunked) of
       Inl (Some failure) \<Rightarrow> Inl failure
     | Inl None \<Rightarrow> Inr None
     | Inr found \<Rightarrow> Inr (contract_source_catalog sha u (found, 0) version))"

definition source_catalog_for_profile ::
  "(string \<Rightarrow> string) \<Rightarrow> language \<Rightarrow> summary_profile \<Rightarrow> string \<Rightarrow> chunked_document \<Rightarrow> normalized_document \<Rightarrow>
   analyzed_document option \<Rightarrow> pipeline_failure + source_catalog" where
  "source_catalog_for_profile sha lg profile version chunked normalized analyzed =
     res_bind (if profile = Contract then contract_source_catalog_from_blocks sha (lg_unicode lg) version chunked normalized
       else Inr None) (\<lambda>from_blocks.
     case from_blocks of
       Some catalog \<Rightarrow> Inr catalog
     | None \<Rightarrow>
         res_bind (source_catalog_with_furniture_policy sha lg version chunked normalized analyzed
           (profile = General \<and> version \<in> set furniture_versions)) (\<lambda>catalog.
         case (if profile = Contract then contract_source_catalog sha (lg_unicode lg) catalog version else None) of
           Some clauses \<Rightarrow> Inr clauses
         | None \<Rightarrow> Inr (page_balanced_catalog profile version catalog)))"

end
