(* ===== verification/Source_Correct.thy ===== *)
theory Source_Correct
  imports Source_Catalog
begin

text \<open>
  Every source of a catalogue is quoted from the block it names: through the segmentation of each
  version, the removal of furniture, the numbered clauses, the page balance and the split of short
  contracts.
\<close>

section \<open>Quotation catalogues\<close>

definition rows_ok :: "block_index \<Rightarrow> (normalized_block \<Rightarrow> segmentation) \<Rightarrow> block_segments \<Rightarrow> bool" where
  "rows_ok blocks segment rows \<longleftrightarrow> (\<forall>(i, page, segments) \<in> set rows. \<exists>b. blocks i = Some b \<and> segments = fst (segment b))"

lemma segment_block_ok:
  assumes "segment_block blocks segment st i = Inr st'" "rows_ok blocks segment (fst st)"
  shows "rows_ok blocks segment (fst st')"
  using assms by (auto simp: segment_block_def rows_ok_def res_simps)

lemma segment_blocks_ok:
  assumes "res_fold (segment_block blocks segment) ([], 0) allowed = Inr st"
  shows "rows_ok blocks segment (fst st)"
  by (rule res_fold_invariant [where P = "\<lambda>_ st. rows_ok blocks segment (fst st)", OF assms])
    (simp add: rows_ok_def, rule segment_block_ok)

lemma interleaved_from:
  "(i, page, quote) \<in> set (interleaved rows) \<Longrightarrow> \<exists>segments. (i, page, segments) \<in> set rows \<and> quote \<in> set segments"
proof -
  assume "(i, page, quote) \<in> set (interleaved rows)"
  then obtain k x where "x \<in> set rows"
      "(case x of (i', page', segments) \<Rightarrow> if k < length segments then Some (i', page', segments ! k) else None) = Some (i, page, quote)"
    by (auto simp: interleaved_def List.map_filter_def)
  moreover obtain i' page' segments where "x = (i', page', segments)" by (metis prod_cases3)
  ultimately have "(i, page, segments) \<in> set rows" "k < length segments" "quote = segments ! k"
    by (simp_all split: if_splits)
  then show ?thesis using nth_mem by blast
qed

definition segment_of :: "block_index \<Rightarrow> (normalized_block \<Rightarrow> segmentation) \<Rightarrow> analysis_quote_candidate \<Rightarrow> bool" where
  "segment_of blocks segment q \<longleftrightarrow> (\<exists>b. blocks (quote_block_id q) = Some b \<and> quote_exact q \<in> set (fst (segment b)))"

definition quoted_from :: "(string \<times> u32 \<times> string) list \<Rightarrow> analysis_quote_candidate list \<Rightarrow> bool" where
  "quoted_from xs found \<longleftrightarrow> (\<forall>q \<in> set found. \<exists>page. (quote_block_id q, page, quote_exact q) \<in> set xs)"

lemma push_quote_from:
  assumes "push_quote sha version chunk found x = Inr found'" "x \<in> set xs" "quoted_from xs found"
  shows "quoted_from xs found'"
proof -
  obtain i page quote where x: "x = (i, page, quote)" by (cases x)
  from assms(1) have "found' = found \<or> (\<exists>q. found' = found @ [q] \<and> quote_block_id q = i \<and> quote_exact q = quote)"
    by (auto simp: push_quote_def x res_simps split: if_splits)
  with assms(2,3) show ?thesis by (auto simp: quoted_from_def x)
qed

lemma push_quotes_from:
  assumes "res_fold (push_quote sha version chunk) [] xs = Inr found"
  shows "quoted_from xs found"
  by (rule res_fold_invariant [where P = "\<lambda>_. quoted_from xs", OF assms])
    (simp add: quoted_from_def, rule push_quote_from)

lemma derive_quote_catalog_from:
  assumes "derive_quote_catalog_with_segmentation sha version chunk blocks allowed segment = Inr (candidates, omitted)"
    and "q \<in> set candidates"
  shows "segment_of blocks segment q"
proof -
  from assms(1) obtain rows where rows: "res_fold (segment_block blocks segment) ([], 0) allowed = Inr (rows, omitted)"
    and pushed: "res_fold (push_quote sha version chunk) [] (interleaved rows) = Inr candidates"
    by (auto simp: derive_quote_catalog_with_segmentation_def res_simps)
  from push_quotes_from [OF pushed] assms(2) obtain page where "(quote_block_id q, page, quote_exact q) \<in> set (interleaved rows)"
    by (auto simp: quoted_from_def)
  then obtain segments where "(quote_block_id q, page, segments) \<in> set rows" "quote_exact q \<in> set segments"
    using interleaved_from by blast
  with segment_blocks_ok [OF rows] show ?thesis by (fastforce simp: rows_ok_def segment_of_def)
qed

section \<open>Segments are verbatim\<close>

definition verbatim_segments :: "normalized_document \<Rightarrow> (normalized_block \<Rightarrow> segmentation) \<Rightarrow> bool" where
  "verbatim_segments document segment \<longleftrightarrow>
     (\<forall>b \<in> set (document_blocks document). \<forall>quote \<in> set (fst (segment b)). sublist quote (block_text b))"

lemma segmentation_sublist:
  "quote \<in> set (fst (analysis_quote_segmentation_for_version u r version source)) \<Longrightarrow> sublist quote source"
  by (drule segmentation_quotable) (simp add: quotable_def)

lemma analysis_segments_verbatim:
  "verbatim_segments document (\<lambda>b. analysis_quote_segmentation_for_version u r version (block_text b))"
  by (auto simp: verbatim_segments_def intro: segmentation_sublist)

lemma furniture_segments_verbatim: "verbatim_segments document (furniture_segment lg f version)"
  unfolding verbatim_segments_def
proof (intro ballI)
  fix b quote assume "quote \<in> set (fst (furniture_segment lg f version b))"
  then obtain s e where
    "quote \<in> set (fst (analysis_quote_segmentation_for_version (lg_unicode lg) (lg_sentences lg) version (slice (block_text b) s e)))"
    by (auto simp: furniture_segment_def)
  then have "sublist quote (slice (block_text b) s e)" by (rule segmentation_sublist)
  then show "sublist quote (block_text b)" using slice_sublist by (rule sublist_order.order_trans)
qed

definition from_block :: "normalized_document \<Rightarrow> string \<Rightarrow> string \<Rightarrow> bool" where
  "from_block document i piece \<longleftrightarrow> (\<exists>b \<in> set (document_blocks document). block_id b = i \<and> sublist piece (block_text b))"

definition order_ok :: "normalized_document \<Rightarrow> clause_reader \<Rightarrow> bool" where
  "order_ok document st \<longleftrightarrow> (\<forall>(i, clause, piece) \<in> set (cr_order st). from_block document i piece)"

lemma append_unit_ok:
  assumes "order_ok document st" "b \<in> set (document_blocks document)"
  shows "order_ok document (append_unit b s e st)"
proof -
  have "sublist (trim (slice (block_text b) s e)) (block_text b)"
    using trim_sublist slice_sublist by (rule sublist_order.order_trans)
  with assms show ?thesis by (auto simp: append_unit_def order_ok_def from_block_def Let_def)
qed

lemma open_clause_ok: "order_ok document (open_clause marker st) = order_ok document st"
  by (simp add: open_clause_def order_ok_def Let_def)

lemma clause_line_ok:
  "order_ok document (fst x) \<Longrightarrow> b \<in> set (document_blocks document) \<Longrightarrow> order_ok document (fst (clause_line u b x line))"
  by (cases x) (simp add: clause_line_def append_unit_ok open_clause_ok split: option.split)

lemma clause_lines_ok:
  "order_ok document (fst x) \<Longrightarrow> b \<in> set (document_blocks document) \<Longrightarrow>
     order_ok document (fst (foldl (clause_line u b) x rows))"
  by (induction rows arbitrary: x) (simp_all add: clause_line_ok)

lemma clause_range_ok:
  assumes "order_ok document st" "b \<in> set (document_blocks document)"
  shows "order_ok document (clause_range u b st bounds)"
proof -
  obtain s e where bounds: "bounds = (s, e)" by (cases bounds)
  obtain st' begins offset where st': "foldl (clause_line u b) (st, s, s) (split_inclusive [] (slice (block_text b) s e)) = (st', begins, offset)"
    by (metis prod_cases3)
  have "order_ok document st'"
    using clause_lines_ok [of document "(st, s, s)" b u "split_inclusive [] (slice (block_text b) s e)"] assms st' by simp
  then show ?thesis using assms(2) by (simp add: clause_range_def bounds st' append_unit_ok)
qed

lemma clause_ranges_ok:
  "order_ok document st \<Longrightarrow> b \<in> set (document_blocks document) \<Longrightarrow> order_ok document (foldl (clause_range u b) st rows)"
  by (induction rows arbitrary: st) (simp_all add: clause_range_ok)

lemma clause_blocks_ok:
  "order_ok document st \<Longrightarrow> set bs \<subseteq> set (document_blocks document) \<Longrightarrow>
     order_ok document (foldl (\<lambda>st b. foldl (clause_range u b) st (retained_ranges f (block_id b))) st bs)"
  by (induction bs arbitrary: st) (simp_all add: clause_ranges_ok)

lemma read_clauses_ok: "order_ok document (read_clauses u document f)"
  unfolding read_clauses_def by (rule clause_blocks_ok) (simp_all add: order_ok_def)

definition placed_ok :: "normalized_document \<Rightarrow> whole_clauses \<Rightarrow> bool" where
  "placed_ok document w \<longleftrightarrow> (\<forall>i. \<forall>piece \<in> set (wc_segments w i). from_block document i piece)"

lemma from_block_part: "from_block document i piece \<Longrightarrow> sublist quote piece \<Longrightarrow> from_block document i quote"
  by (auto simp: from_block_def intro: sublist_order.order_trans)

lemma place_unit_ok:
  "placed_ok document w \<Longrightarrow> from_block document i piece \<Longrightarrow> placed_ok document (place_unit lg version cs w (i, clause, piece))"
  by (auto simp: place_unit_def placed_ok_def Let_def split: option.split intro: from_block_part segmentation_sublist)

lemma place_units_ok:
  "placed_ok document w \<Longrightarrow> list_all (\<lambda>(i, clause, piece). from_block document i piece) rows \<Longrightarrow>
     placed_ok document (foldl (place_unit lg version cs) w rows)"
  by (induction rows arbitrary: w) (auto simp: place_unit_ok)

lemma whole_clauses_ok: "placed_ok document (whole_clauses_new lg document f version)"
  unfolding whole_clauses_new_def Let_def
proof (rule place_units_ok)
  show "list_all (\<lambda>(i, clause, piece). from_block document i piece) (cr_order (read_clauses (lg_unicode lg) document f))"
    using read_clauses_ok [of document "lg_unicode lg" f] by (simp add: order_ok_def list_all_iff)
qed (simp add: placed_ok_def)

lemma clause_segments_verbatim:
  assumes "distinct (map block_id (document_blocks document))"
  shows "verbatim_segments document (clause_segment (whole_clauses_new lg document f version))"
  unfolding verbatim_segments_def
proof (intro ballI)
  fix b quote assume b: "b \<in> set (document_blocks document)"
    and "quote \<in> set (fst (clause_segment (whole_clauses_new lg document f version) b))"
  then have "from_block document (block_id b) quote"
    using whole_clauses_ok [of document lg f version] by (auto simp: clause_segment_def placed_ok_def Let_def)
  then obtain b' where "b' \<in> set (document_blocks document)" "block_id b' = block_id b" "sublist quote (block_text b')"
    by (auto simp: from_block_def)
  with assms b show "sublist quote (block_text b)" by (metis distinct_map inj_on_contraD)
qed

section \<open>Every source quotes its block\<close>

text \<open>The identity of a source has another prefix than the identities of the ledger.\<close>

definition summary_source :: "normalized_document \<Rightarrow> evidence_item \<Rightarrow> bool" where
  "summary_source normalized e \<longleftrightarrow> quotes_block normalized e \<and> prefix ''summary-'' (evidence_id e)"

lemma summary_ids [simp]:
  "prefix ''summary-'' (deterministic_id sha ''summary-evidence'' parts)"
  "prefix ''summary-'' (deterministic_id sha ''summary-contract-evidence'' parts)"
  "prefix ''summary-'' (deterministic_id sha ''summary-contract-block-evidence'' parts)"
  "prefix ''summary-'' (summary_evidence_id sha document version chunk q)"
  by (simp_all add: deterministic_id_def summary_evidence_id_def)

definition sources_quote :: "normalized_document \<Rightarrow> source_candidate list \<Rightarrow> bool" where
  "sources_quote normalized found \<longleftrightarrow> (\<forall>c \<in> set found. summary_source normalized (sc_evidence c))"

lemma sources_quote_snoc:
  "sources_quote normalized (found @ [c]) \<longleftrightarrow> sources_quote normalized found \<and> summary_source normalized (sc_evidence c)"
  by (auto simp: sources_quote_def)

lemma copied_quotes_block:
  assumes "b \<in> set (document_blocks normalized)" "block_id b = i" "sublist quote (block_text b)"
  shows "summary_source normalized (copied_evidence e chunk i (block_source b) quote) \<longleftrightarrow> prefix ''summary-'' e"
  using assms by (auto simp: summary_source_def quotes_block_def copied_evidence_def)

lemma add_source_quotes:
  assumes "add_source sha lg version chunked normalized analyzed (blocks_by_id (document_blocks normalized)) clauses chunk found q = Inr found'"
    and "segment_of (blocks_by_id (document_blocks normalized)) segment q" "verbatim_segments normalized segment"
    and "sources_quote normalized found"
  shows "sources_quote normalized found'"
proof -
  from assms(2) obtain b where b: "blocks_by_id (document_blocks normalized) (quote_block_id q) = Some b"
      "quote_exact q \<in> set (fst (segment b))" by (auto simp: segment_of_def)
  from blocks_by_id_Some [OF b(1)] have known: "b \<in> set (document_blocks normalized)" "block_id b = quote_block_id q" by auto
  with b(2) assms(3) have "sublist (quote_exact q) (block_text b)" by (auto simp: verbatim_segments_def)
  note copied = copied_quotes_block [OF known this]
  from assms(1) b(1) obtain c where "found' = found @ [c]"
      "sc_evidence c = copied_evidence (summary_evidence_id sha (chunked_document_id chunked) version (chunk_id chunk) q)
         (chunk_id chunk) (quote_block_id q) (block_source b) (quote_exact q)"
    by (auto simp: add_source_def Let_def res_bind_Inr_iff ensure_Inr_iff ok_or_Inr_iff)
  with assms(4) copied show ?thesis by (simp add: sources_quote_snoc)
qed

lemma built_catalog_from:
  assumes "build_versioned_analysis_quote_catalog_for_blocks sha lg analysis chunk blocks allowed = Inr (candidates, omitted)"
    and "q \<in> set candidates"
  shows "segment_of blocks (\<lambda>b. analysis_quote_segmentation_for_version (lg_unicode lg) (lg_sentences lg) analysis (block_text b)) q"
proof -
  from assms(1) have "derive_analysis_quote_catalog_for_blocks sha lg analysis chunk blocks allowed = Inr (candidates, omitted)"
    by (auto simp: build_versioned_analysis_quote_catalog_for_blocks_def res_simps)
  with assms(2) show ?thesis
    by (auto simp: derive_analysis_quote_catalog_for_blocks_def intro: derive_quote_catalog_from)
qed

definition clauses_read :: "language \<Rightarrow> normalized_document \<Rightarrow> whole_clauses option \<Rightarrow> bool" where
  "clauses_read lg normalized clauses \<longleftrightarrow> pred_option (\<lambda>w. \<exists>f version. w = whole_clauses_new lg normalized f version) clauses"

lemma chunk_quotes_from:
  assumes "chunk_quote_catalog sha lg analysis blocks furniture_of clauses chunk = Inr (Some (candidates, omitted))"
    and "clauses_read lg normalized clauses" "distinct (map block_id (document_blocks normalized))"
  obtains segment where "verbatim_segments normalized segment" "\<And>q. q \<in> set candidates \<Longrightarrow> segment_of blocks segment q"
proof (cases furniture_of)
  case None
  with assms(1) have "build_versioned_analysis_quote_catalog_for_blocks sha lg analysis chunk blocks (chunk_block_ids chunk) = Inr (candidates, omitted)"
    by (auto simp: chunk_quote_catalog_def res_simps)
  from built_catalog_from [OF this] show ?thesis by (intro that) (rule analysis_segments_verbatim)
next
  case (Some f)
  let ?segment = "case clauses of None \<Rightarrow> furniture_segment lg f analysis | Some w \<Rightarrow> clause_segment w"
  from assms(1) Some have derived:
    "derive_quote_catalog_with_segmentation sha analysis chunk blocks (chunk_block_ids chunk) ?segment = Inr (candidates, omitted)"
    by (auto simp: chunk_quote_catalog_def res_simps split: if_splits)
  have "verbatim_segments normalized ?segment"
    using assms(2,3) clause_segments_verbatim furniture_segments_verbatim
    by (auto simp: clauses_read_def split: option.split)
  then show ?thesis using derive_quote_catalog_from [OF derived] by (rule that)
qed

lemma set_ordered_sources: "set (ordered_sources chunk candidates) \<subseteq> set candidates"
  by (auto simp: ordered_sources_def)

lemma chunk_sources_quote:
  assumes "chunk_sources sha lg version chunked normalized analyzed (blocks_by_id (document_blocks normalized)) furniture_of clauses st chunk = Inr st'"
    and "clauses_read lg normalized clauses" "distinct (map block_id (document_blocks normalized))"
    and "sources_quote normalized (fst st)"
  shows "sources_quote normalized (fst st')"
proof -
  let ?blocks = "blocks_by_id (document_blocks normalized)"
  from assms(1) consider "st' = st"
    | candidates omitted found where
      "chunk_quote_catalog sha lg (catalog_analysis_version analyzed) ?blocks furniture_of clauses chunk = Inr (Some (candidates, omitted))"
      "res_fold (add_source sha lg version chunked normalized analyzed ?blocks clauses chunk) (fst st) (ordered_sources chunk candidates) = Inr found"
      "fst st' = found"
    by (auto simp: chunk_sources_def res_bind_Inr_iff split: option.splits)
  then show ?thesis
  proof cases
    case 1
    with assms(4) show ?thesis by simp
  next
    case 2
    from chunk_quotes_from [OF 2(1) assms(2,3)] obtain segment where
      segment: "verbatim_segments normalized segment" "\<And>q. q \<in> set candidates \<Longrightarrow> segment_of ?blocks segment q" by blast
    have "sources_quote normalized found"
    proof (rule res_fold_invariant [where P = "\<lambda>_. sources_quote normalized", OF 2(2) assms(4)])
      fix q found0 found1
      assume "q \<in> set (ordered_sources chunk candidates)" "sources_quote normalized found0"
        and "add_source sha lg version chunked normalized analyzed ?blocks clauses chunk found0 q = Inr found1"
      then show "sources_quote normalized found1"
        using segment set_ordered_sources by (blast intro: add_source_quotes)
    qed
    with 2(3) show ?thesis by simp
  qed
qed

lemma policy_catalog_quotes:
  assumes "source_catalog_with_furniture_policy sha lg version chunked normalized analyzed exclude = Inr catalog"
  shows "sources_quote normalized (fst catalog)"
proof -
  let ?f = "if exclude then Some (for_synthesis_version (lg_unicode lg) normalized version) else None"
  let ?clauses = "case ?f of None \<Rightarrow> None | Some f \<Rightarrow> if version \<in> set clause_versions
    then Some (whole_clauses_new lg normalized f (catalog_analysis_version analyzed)) else None"
  from assms obtain blocks where blocks: "validate_normalized_chunk_boundary normalized chunked = Inr blocks"
    and fold: "res_fold (chunk_sources sha lg version chunked normalized analyzed blocks ?f ?clauses) ([], 0) (chunks chunked) = Inr catalog"
    unfolding source_catalog_with_furniture_policy_def Let_def res_bind_Inr_iff by blast
  have read: "clauses_read lg normalized ?clauses"
    by (auto simp: clauses_read_def)
  show ?thesis
    using fold unfolding boundary_Inr(2) [OF blocks]
    by (rule res_fold_invariant [where P = "\<lambda>_ st. sources_quote normalized (fst st)"])
      (simp add: sources_quote_def, rule chunk_sources_quote [OF _ read boundary_Inr(1) [OF blocks]])
qed

lemma balanced_catalog_subset: "set (fst (page_balanced_catalog profile version catalog)) \<subseteq> set (fst catalog)"
  by (auto simp: page_balanced_catalog_def)

section \<open>The split of short contracts\<close>

lemma quotes_block_part:
  assumes "summary_source normalized e" "sublist quote (evidence_exact_quote e)"
  shows "summary_source normalized (copied_evidence i chunk (evidence_block_id e) (evidence_source_span e) quote)
    \<longleftrightarrow> prefix ''summary-'' i"
  using assms by (auto simp: summary_source_def quotes_block_def copied_evidence_def intro: sublist_order.order_trans)

lemma candidate_part: "sublist (trim (text_of (drop s (take e (candidate_characters c))))) (evidence_exact_quote (sc_evidence c))"
proof -
  have "sublist (drop s (take e (candidate_characters c))) (candidate_characters c)"
    by (metis append_take_drop_id sublist_append_leftI sublist_append_rightI sublist_order.order_trans)
  from sublist_text_of [OF this] have "sublist (text_of (drop s (take e (candidate_characters c)))) (evidence_exact_quote (sc_evidence c))"
    by (simp add: candidate_characters_def)
  with trim_sublist show ?thesis by (rule sublist_order.order_trans)
qed

lemma split_range_quotes:
  assumes "split_range sha version c st x = Inr st'" "summary_source normalized (sc_evidence c)"
    and "sources_quote normalized (fst st)"
  shows "sources_quote normalized (fst st')"
proof -
  obtain found numbers count where st: "st = (found, numbers, count)" by (cases st)
  obtain s e clause where x: "x = (s, e, clause)" by (cases x)
  note part = quotes_block_part [OF assms(2) candidate_part [of s e c]]
  from assms(1,3) show ?thesis
    by (auto simp: split_range_def st x Let_def sources_quote_snoc part split: if_splits)
qed

lemma split_candidate_quotes:
  assumes "split_candidate sha u version st c = Inr st'" "summary_source normalized (sc_evidence c)"
    and "sources_quote normalized (fst st)"
  shows "sources_quote normalized (fst st')"
proof -
  from assms(1) obtain rows where "res_fold (split_range sha version c) st rows = Inr st'"
    by (auto simp: split_candidate_def res_simps)
  then show ?thesis
    by (rule res_fold_invariant [where P = "\<lambda>_ st. sources_quote normalized (fst st)"])
      (rule assms(3), rule split_range_quotes [OF _ assms(2)])
qed

lemma sources_quote_renamed:
  "sources_quote normalized (map (\<lambda>(k, c). c\<lparr>sc_request_id := name k\<rparr>) (enumerate n found)) \<longleftrightarrow> sources_quote normalized found"
  by (induction found arbitrary: n) (auto simp: sources_quote_def)

lemma contract_catalog_quotes:
  assumes "contract_source_catalog sha u catalog version = Some clauses" "sources_quote normalized (fst catalog)"
  shows "sources_quote normalized (fst clauses)"
proof -
  from assms(1) obtain found numbers count where
    fold: "res_fold (split_candidate sha u version) ([], {}, 0) (fst catalog) = Inr (found, numbers, count)"
    and clauses: "clauses = (map (\<lambda>(k, c). c\<lparr>sc_request_id := request_name (k + 1)\<rparr>) (enumerate 0 found), 0)"
    unfolding contract_source_catalog_def Let_def by (auto split: if_splits sum.splits prod.splits)
  have "sources_quote normalized (fst (found, numbers, count))"
  proof (rule res_fold_invariant [where P = "\<lambda>_ st. sources_quote normalized (fst st)", OF fold])
    show "sources_quote normalized (fst ([], {}, 0))" by (simp add: sources_quote_def)
    fix c st st' assume "c \<in> set (fst catalog)" "sources_quote normalized (fst st)" "split_candidate sha u version st c = Inr st'"
    with assms(2) show "sources_quote normalized (fst st')"
      by (auto simp: sources_quote_def [of _ "fst catalog"] intro: split_candidate_quotes)
  qed
  then show ?thesis unfolding clauses fst_conv by (subst sources_quote_renamed)
qed

lemma add_block_quotes:
  assumes "add_block sha version chunked (blocks_by_id (document_blocks normalized)) chunk found i = Inr found'"
    and "sources_quote normalized found"
  shows "sources_quote normalized found'"
proof -
  from assms(1) obtain b where b: "blocks_by_id (document_blocks normalized) i = Some b"
    by (auto simp: add_block_def res_simps)
  from blocks_by_id_Some [OF this] have "b \<in> set (document_blocks normalized)" "block_id b = i" by auto
  note copied = copied_quotes_block [OF this trim_sublist]
  from assms b show ?thesis
    by (auto simp: add_block_def Let_def sources_quote_snoc copied res_simps)
qed

lemma blocks_catalog_quotes:
  assumes "contract_source_catalog_from_blocks sha u version chunked normalized = Inr (Some catalog)"
  shows "sources_quote normalized (fst catalog)"
proof -
  let ?blocks = "blocks_by_id (document_blocks normalized)"
  from assms obtain blocks where blocks: "validate_normalized_chunk_boundary normalized chunked = Inr blocks"
    by (auto simp: contract_source_catalog_from_blocks_def res_simps)
  with assms obtain found where
    fold: "res_fold (\<lambda>found chunk. res_fold (add_block sha version chunked blocks chunk) found (chunk_block_ids chunk)) [] (chunks chunked) = Inr found"
    and catalog: "contract_source_catalog sha u (found, 0) version = Some catalog"
    by (auto simp: contract_source_catalog_from_blocks_def res_simps split: sum.splits option.splits)
  have "sources_quote normalized found"
    using fold unfolding boundary_Inr(2) [OF blocks]
  proof (rule res_fold_invariant [where P = "\<lambda>_. sources_quote normalized"])
    show "sources_quote normalized []" by (simp add: sources_quote_def)
    fix chunk found0 found1
    assume found0: "sources_quote normalized found0"
      and inner: "res_fold (add_block sha version chunked ?blocks chunk) found0 (chunk_block_ids chunk) = Inr found1"
    show "sources_quote normalized found1"
      by (rule res_fold_invariant [where P = "\<lambda>_. sources_quote normalized", OF inner found0]) (rule add_block_quotes)
  qed
  with contract_catalog_quotes [OF catalog] show ?thesis by simp
qed

lemma res_bind_InrE:
  assumes "res_bind r f = Inr y" obtains x where "r = Inr x" "f x = Inr y"
  using assms by (cases r) simp_all

lemma profile_catalog_quotes:
  assumes "source_catalog_for_profile sha lg profile version chunked normalized analyzed = Inr catalog"
  shows "sources_quote normalized (fst catalog)"
proof -
  let ?blocks = "if profile = Contract then contract_source_catalog_from_blocks sha (lg_unicode lg) version chunked normalized else Inr None"
  let ?whole = "source_catalog_with_furniture_policy sha lg version chunked normalized analyzed
    (profile = General \<and> version \<in> set furniture_versions)"
  let ?clauses = "\<lambda>whole. if profile = Contract then contract_source_catalog sha (lg_unicode lg) whole version else None"
  from assms obtain from_blocks where from_blocks: "?blocks = Inr from_blocks"
    and rest: "(case from_blocks of Some catalog \<Rightarrow> Inr catalog | None \<Rightarrow> res_bind ?whole (\<lambda>whole.
      case ?clauses whole of Some clauses \<Rightarrow> Inr clauses | None \<Rightarrow> Inr (page_balanced_catalog profile version whole))) = Inr catalog"
    unfolding source_catalog_for_profile_def by (rule res_bind_InrE)
  show ?thesis
  proof (cases from_blocks)
    case (Some c)
    with rest have c: "c = catalog" by simp
    from from_blocks Some have "contract_source_catalog_from_blocks sha (lg_unicode lg) version chunked normalized = Inr (Some c)"
      by (cases "profile = Contract") simp_all
    then show ?thesis unfolding c by (rule blocks_catalog_quotes)
  next
    case None
    from rest [unfolded None option.case] obtain whole where whole: "?whole = Inr whole"
      and last: "(case ?clauses whole of Some clauses \<Rightarrow> Inr clauses | None \<Rightarrow> Inr (page_balanced_catalog profile version whole)) = (Inr catalog :: pipeline_failure + source_catalog)"
      by (rule res_bind_InrE)
    note quotes = policy_catalog_quotes [OF whole]
    show ?thesis
    proof (cases "?clauses whole")
      case (Some c)
      with last have "c = catalog" by simp
      with Some have "contract_source_catalog sha (lg_unicode lg) whole version = Some catalog"
        by (cases "profile = Contract") simp_all
      then show ?thesis using quotes by (rule contract_catalog_quotes)
    next
      case None
      with last have "catalog = page_balanced_catalog profile version whole" by (simp only: option.case sum.inject)
      with quotes balanced_catalog_subset [of profile version whole] show ?thesis by (auto simp: sources_quote_def)
    qed
  qed
qed

end
