(* ===== verification/Synthesis_Check.thy ===== *)
theory Synthesis_Check
  imports Source_Correct Claim_Support Page_Coverage
begin

text \<open>
  The checks of a synthesized document in \<open>pipeline/summary.rs\<close>, \<open>summary/direct.rs\<close> and
  \<open>summary/coherent.rs\<close>: the ledger of claims, the coherent content against the reconstructed source
  catalogues, the fallback warnings, and the historical versions. What the checks read of code that is
  not modelled is in the record \<open>tools\<close>: SHA-256, the Unicode and sentence rules, the page plans of
  \<open>summary/pages.rs\<close>, the wire codec, the prompts of a synthesis request (the user prompt and the
  serialized schema, \<open>None\<close> when it cannot be serialized), the material-term feedback of
  \<open>contract_material_term_coverage_feedback\<close>, and the comparisons of \<open>coherent/semantic_support.rs\<close>
  other than the modal one.
\<close>

section \<open>Versions\<close>

definition PRE_CONTRACT_SOURCE_SYNTHESIS_VERSION :: string where "PRE_CONTRACT_SOURCE_SYNTHESIS_VERSION = ''8.0.0''"
definition PRE_CONTEXT_SYNTHESIS_VERSION :: string where "PRE_CONTEXT_SYNTHESIS_VERSION = ''7.0.0''"
definition PRE_DISCLOSURE_SYNTHESIS_VERSION :: string where "PRE_DISCLOSURE_SYNTHESIS_VERSION = ''6.0.0''"
definition DIRECT_SYNTHESIS_VERSION :: string where "DIRECT_SYNTHESIS_VERSION = ''5.0.0''"
definition HIERARCHICAL_SYNTHESIS_VERSION :: string where "HIERARCHICAL_SYNTHESIS_VERSION = ''4.0.0''"
definition PREVIOUS_SYNTHESIS_VERSION :: string where "PREVIOUS_SYNTHESIS_VERSION = ''3.0.0''"
definition LEGACY_SYNTHESIS_VERSION :: string where "LEGACY_SYNTHESIS_VERSION = ''2.0.0''"

definition source_aware_versions :: "string list" where
  "source_aware_versions = balanced_versions @ [PRE_BALANCED_SYNTHESIS_VERSION]"

definition contract_source_versions :: "string list" where
  "contract_source_versions = source_aware_versions @ [PRE_CONTRACT_SOURCE_SYNTHESIS_VERSION]"

definition coherent_synthesis_version_supported :: "string \<Rightarrow> bool" where
  "coherent_synthesis_version_supported version \<longleftrightarrow>
     version \<in> set (contract_source_versions @ [PRE_CONTEXT_SYNTHESIS_VERSION, PRE_DISCLOSURE_SYNTHESIS_VERSION])"

definition synthesis_versions :: "string list" where
  "synthesis_versions = contract_source_versions
     @ [PRE_CONTEXT_SYNTHESIS_VERSION, PRE_DISCLOSURE_SYNTHESIS_VERSION, DIRECT_SYNTHESIS_VERSION,
        HIERARCHICAL_SYNTHESIS_VERSION, PREVIOUS_SYNTHESIS_VERSION, LEGACY_SYNTHESIS_VERSION]"

definition LEGACY_MODEL_CONTEXT_TOKENS :: u32 where "LEGACY_MODEL_CONTEXT_TOKENS = 8192"
definition MAX_SUMMARY_CLAIMS :: nat where "MAX_SUMMARY_CLAIMS = 8"
definition MODEL_OUTPUT_INVALID_WARNING_CODE :: string where
  "MODEL_OUTPUT_INVALID_WARNING_CODE = ''COHERENT_SUMMARY_MODEL_OUTPUT_INVALID''"
definition FALLBACK_WARNING_CODE :: string where
  "FALLBACK_WARNING_CODE = ''COHERENT_SUMMARY_SOURCE_CONTEXT_TOO_LARGE''"

record tools =
  env_sha :: "string \<Rightarrow> string"
  env_language :: language
  env_plans :: page_plans
  env_codec :: wire_codec
  env_system_prompt :: "summary_profile \<Rightarrow> string"
  env_prompt :: "summary_profile \<Rightarrow> string \<Rightarrow> source_catalog \<Rightarrow> pipeline_failure + string \<times> string option"
  env_material_terms :: "cited_claim list \<Rightarrow> source_catalog \<Rightarrow> required_clause list option \<Rightarrow> string list"
  env_comparisons :: "string \<Rightarrow> evidence_item list \<Rightarrow> bool"

abbreviation env_unicode :: "tools \<Rightarrow> unicode" where
  "env_unicode env \<equiv> lg_unicode (env_language env)"

section \<open>The ledger of claims\<close>

definition materialize_claim ::
  "(string \<Rightarrow> string) \<Rightarrow> string \<Rightarrow> string \<Rightarrow> cited_claim list \<Rightarrow> validated_claim \<Rightarrow> pipeline_failure + cited_claim list" where
  "materialize_claim sha document version found claim =
     (let i = deterministic_claim_id sha document version (length found) (validated_text claim) (validated_ids claim)
      in res_bind (ensure (i \<notin> claim_id ` set found)
           (stage_failure Synthesize ''MODEL_CLAIMS_RESPONSE_INVALID'' ''Summary claim identities must be unique'' False)) (\<lambda>_.
         Inr (found @ [\<lparr>claim_id = i, claim_text = validated_text claim, claim_evidence_ids = validated_ids claim\<rparr>])))"

definition materialize_cited_claims ::
  "(string \<Rightarrow> string) \<Rightarrow> string \<Rightarrow> string \<Rightarrow> validated_claim list \<Rightarrow> pipeline_failure + cited_claim list" where
  "materialize_cited_claims sha document version claims = res_fold (materialize_claim sha document version) [] claims"

definition source_ordered_claims :: "(string \<Rightarrow> string) \<Rightarrow> analyzed_document \<Rightarrow> pipeline_failure + cited_claim list" where
  "source_ordered_claims sha analyzed =
     (let evidence = ledger_evidence analyzed
      in res_bind (ensure (evidence \<noteq> [] \<and> length evidence \<le> DIRECT_MAX_CLAIMS)
           (stage_failure Synthesize ''DIRECT_EVIDENCE_CAPACITY_INVALID''
              ''Direct synthesis requires between one and 512 retained evidence items'' False)) (\<lambda>_.
         materialize_cited_claims sha (analyzed_document_id analyzed) DIRECT_SYNTHESIS_VERSION
           (map (\<lambda>e. \<lparr>validated_text = evidence_claim_text e, validated_ids = [evidence_id e]\<rparr>)
             (sort_key (page_start \<circ> evidence_source_span) evidence))))"

definition validate_claim_set ::
  "(string \<Rightarrow> string) \<Rightarrow> synthesized_document \<Rightarrow> analyzed_document \<Rightarrow> pipeline_failure + unit" where
  "validate_claim_set sha synthesized analyzed =
     res_bind (source_ordered_claims sha analyzed) (\<lambda>claims.
     ensure (synthesized_claims synthesized = claims)
       (synthesis_invalid ''Direct synthesis must preserve each paraphrase and its single source in page order''))"

definition synthesis_claim_floor :: "nat \<Rightarrow> nat \<Rightarrow> pipeline_failure + nat" where
  "synthesis_claim_floor claim_budget evidence_count =
     res_bind (ensure (\<not> (claim_budget = 0 \<or> LEGACY_MAX_SUMMARY_CLAIMS < claim_budget \<or> evidence_count = 0))
       (stage_failure Synthesize ''INVALID_SYNTHESIS_BUDGET''
          ''The synthesis claim floor requires non-empty evidence and a valid claim budget'' False)) (\<lambda>_.
     res_bind (ok_or (usize_checked (claim_budget + 1))
       (stage_failure Synthesize ''INVALID_SYNTHESIS_BUDGET''
          ''The synthesis claim budget exceeds the supported range'' False)) (\<lambda>n.
     Inr (min (min claim_budget evidence_count) (max (n div 2) 3))))"

definition synthesis_verification_limit :: "u32 \<Rightarrow> pipeline_failure + nat" where
  "synthesis_verification_limit context_tokens =
     map_err (\<lambda>_. stage_failure Synthesize ''INVALID_SYNTHESIS_BUDGET''
         ''The configured model context cannot hold downstream claim verification'' False)
       (verification_request_character_limit context_tokens VERIFICATION_OUTPUT_TOKENS)"

definition catalog_prompt_claim ::
  "(string \<Rightarrow> evidence_item option) \<Rightarrow> cited_claim \<Rightarrow> pipeline_failure + prompt_verification_claim" where
  "catalog_prompt_claim by_id claim =
     res_bind (res_collect (\<lambda>i. ok_or (map_option (\<lambda>e. \<lparr>pv_evidence_id = evidence_id e, pv_exact_quote = evidence_exact_quote e\<rparr>) (by_id i))
         (stage_failure Synthesize ''MODEL_CLAIMS_RESPONSE_INVALID''
            ''A synthesis claim references unknown verification evidence'' True))
       (claim_evidence_ids claim)) (\<lambda>items.
     Inr \<lparr>pv_claim_id = claim_id claim, pv_text = claim_text claim, pv_source_framing = None, pv_evidence = items\<rparr>)"

definition ensure_claim_catalog_is_verifiable_for_context ::
  "wire_codec \<Rightarrow> cited_claim list \<Rightarrow> evidence_item list \<Rightarrow> nat \<Rightarrow> u32 \<Rightarrow> pipeline_failure + unit" where
  "ensure_claim_catalog_is_verifiable_for_context codec claims evidence claim_budget context_tokens =
     res_bind (res_collect (catalog_prompt_claim (evidence_by_id evidence)) claims) (\<lambda>prompt.
     res_bind (synthesis_verification_limit context_tokens) (\<lambda>limit.
     res_bind (map_err (\<lambda>failure. stage_failure Synthesize ''MODEL_CLAIMS_RESPONSE_INVALID''
           (''The synthesis claim catalog cannot fit the bounded verification plan: '' @ failure_message failure) True)
         (plan_verification_batches codec prompt claims claim_budget limit)) (\<lambda>_.
     Inr ())))"

definition ensure_claim_catalog_is_verifiable ::
  "wire_codec \<Rightarrow> cited_claim list \<Rightarrow> evidence_item list \<Rightarrow> nat \<Rightarrow> pipeline_failure + unit" where
  "ensure_claim_catalog_is_verifiable codec claims evidence claim_budget =
     ensure_claim_catalog_is_verifiable_for_context codec claims evidence claim_budget LEGACY_MODEL_CONTEXT_TOKENS"

definition validate_claim_set_for_runtime ::
  "tools \<Rightarrow> synthesized_document \<Rightarrow> analyzed_document \<Rightarrow> model_runtime \<Rightarrow> pipeline_failure + unit" where
  "validate_claim_set_for_runtime env synthesized analyzed runtime =
     res_bind (validate_claim_set (env_sha env) synthesized analyzed) (\<lambda>_.
     ensure_claim_catalog_is_verifiable_for_context (env_codec env) (synthesized_claims synthesized)
       (ledger_evidence analyzed) DIRECT_MAX_CLAIMS (mr_context_tokens runtime Verify))"

section \<open>Fallback warnings\<close>

datatype fallback_reason =
  IncompleteCatalog | RequestTooLarge | VerificationRequestTooLarge | DeliveryCoverage | ModelOutputInvalid

fun fallback_warning_code :: "fallback_reason \<Rightarrow> string" where
  "fallback_warning_code ModelOutputInvalid = MODEL_OUTPUT_INVALID_WARNING_CODE"
| "fallback_warning_code _ = FALLBACK_WARNING_CODE"

fun fallback_message :: "fallback_reason \<Rightarrow> string" where
  "fallback_message IncompleteCatalog =
     ''A complete bounded source catalog could not be constructed; showing verified source claims instead''"
| "fallback_message RequestTooLarge =
     ''The complete source context does not fit one bounded synthesis request; showing verified source claims instead''"
| "fallback_message VerificationRequestTooLarge =
     ''The coherent summary does not fit bounded semantic verification; showing verified source claims instead''"
| "fallback_message ModelOutputInvalid =
     ''The model''@ [CHR 0x27] @ ''s summary output was invalid; showing verified source claims instead''"
| "fallback_message DeliveryCoverage =
     ''The coherent summary does not satisfy Connect page coverage; showing verified source claims instead''"

definition is_reason :: "pipeline_warning \<Rightarrow> fallback_reason \<Rightarrow> bool" where
  "is_reason w reason \<longleftrightarrow> warning_code w = fallback_warning_code reason \<and> warning_message w = fallback_message reason"

definition fallback_code :: "pipeline_warning \<Rightarrow> bool" where
  "fallback_code w \<longleftrightarrow> warning_code w = FALLBACK_WARNING_CODE \<or> warning_code w = MODEL_OUTPUT_INVALID_WARNING_CODE"

definition fallback_warning :: "synthesized_document \<Rightarrow> pipeline_warning option" where
  "fallback_warning synthesized =
     (case filter fallback_code (synthesized_warnings synthesized) of
        [w] \<Rightarrow>
          if warning_stage w = Some Synthesize
            \<and> list_ex (is_reason w) [IncompleteCatalog, RequestTooLarge, VerificationRequestTooLarge, DeliveryCoverage, ModelOutputInvalid]
            \<and> (warning_code w = MODEL_OUTPUT_INVALID_WARNING_CODE \<longrightarrow> synthesis_version synthesized \<in> set source_aware_versions)
          then Some w else None
      | _ \<Rightarrow> None)"

definition has_fallback_warning :: "synthesized_document \<Rightarrow> fallback_reason \<Rightarrow> bool" where
  "has_fallback_warning synthesized reason \<longleftrightarrow>
     (case fallback_warning synthesized of None \<Rightarrow> False | Some w \<Rightarrow> is_reason w reason)"

definition validate_model_output_fallback_boundary ::
  "summary_profile \<Rightarrow> synthesized_document \<Rightarrow> pipeline_failure + unit" where
  "validate_model_output_fallback_boundary profile synthesized =
     ensure (\<not> (list_ex (\<lambda>w. warning_code w = MODEL_OUTPUT_INVALID_WARNING_CODE) (synthesized_warnings synthesized)
        \<and> (profile \<noteq> General \<or> synthesis_version synthesized \<notin> set source_aware_versions
           \<or> synthesized_presentation synthesized \<noteq> ClaimLedgerFallback
           \<or> \<not> has_fallback_warning synthesized ModelOutputInvalid))) invalid_document"

section \<open>The content of a coherent summary\<close>

definition catalog_evidence :: "source_catalog \<Rightarrow> evidence_item list" where
  "catalog_evidence catalog = map sc_evidence (fst catalog)"

definition persisted_summary_claim_count_valid :: "nat \<Rightarrow> bool" where
  "persisted_summary_claim_count_valid n \<longleftrightarrow> 1 \<le> n \<and> n \<le> MAX_SUMMARY_CLAIMS"

text \<open>The catalogues that may supply evidence, later ones replacing earlier ones.\<close>

definition canonical_evidence ::
  "tools \<Rightarrow> source_catalog \<Rightarrow> synthesized_document \<Rightarrow> analyzed_document \<Rightarrow> chunked_document \<Rightarrow> normalized_document \<Rightarrow>
   pipeline_failure + evidence_item list" where
  "canonical_evidence env catalog synthesized analyzed chunked normalized =
     (let version = synthesis_version synthesized;
          of_profile = (\<lambda>profile. source_catalog_for_profile (env_sha env) (env_language env) profile version chunked normalized (Some analyzed))
      in res_bind (of_profile Contract) (\<lambda>contract.
         res_bind (if version \<in> set furniture_versions then res_bind (of_profile General) (Inr \<circ> catalog_evidence) else Inr [])
           (\<lambda>general. Inr (catalog_evidence catalog @ catalog_evidence contract @ general))))"

definition supplied_furniture_warnings :: "synthesized_document \<Rightarrow> pipeline_warning list" where
  "supplied_furniture_warnings synthesized =
     filter (\<lambda>w. warning_code w = ''SUMMARY_FURNITURE_PAGES_EXCLUDED'') (synthesized_warnings synthesized)"

definition expected_furniture_warnings :: "unicode \<Rightarrow> normalized_document \<Rightarrow> string \<Rightarrow> pipeline_warning list" where
  "expected_furniture_warnings u normalized version =
     (case furniture_warning (for_synthesis_version u normalized version) of None \<Rightarrow> [] | Some w \<Rightarrow> [w])"

definition check_coherent_content ::
  "tools \<Rightarrow> source_catalog \<Rightarrow> synthesized_document \<Rightarrow> analyzed_document \<Rightarrow> chunked_document \<Rightarrow> normalized_document \<Rightarrow>
   pipeline_failure + unit" where
  "check_coherent_content env catalog synthesized analyzed chunked normalized =
     (let claims = synthesized_summary_claims synthesized; evidence = synthesized_evidence synthesized
      in res_bind (ensure (persisted_summary_claim_count_valid (length claims) \<and> evidence \<noteq> []
            \<and> \<not> list_ex fallback_code (synthesized_warnings synthesized)) invalid_document) (\<lambda>_.
         res_bind (canonical_evidence env catalog synthesized analyzed chunked normalized) (\<lambda>canonical.
         res_bind (ensure (distinct (map evidence_id evidence)
            \<and> list_all (\<lambda>e. evidence_by_id canonical (evidence_id e) = Some e) evidence) invalid_document) (\<lambda>_.
         res_bind (validate_claims_with_evidence (env_sha env) claims evidence (synthesized_document_id synthesized)
            (synthesis_version synthesized)) (\<lambda>_.
         res_bind (validate_modal_content (env_unicode env) claims evidence) (\<lambda>_.
         res_bind (render_cited_summary_with_evidence claims evidence) (\<lambda>rendered.
         ensure (rendered = synthesized_text synthesized) invalid_document)))))))"

definition check_ledger_content :: "synthesized_document \<Rightarrow> analyzed_document \<Rightarrow> pipeline_failure + unit" where
  "check_ledger_content synthesized analyzed =
     res_bind (ensure (\<not> (synthesized_summary_claims synthesized \<noteq> [] \<or> synthesized_evidence synthesized \<noteq> []
        \<or> fallback_warning synthesized = None)) invalid_document) (\<lambda>_.
     res_bind (render_cited_summary (synthesized_claims synthesized) analyzed) (\<lambda>rendered.
     ensure (rendered = synthesized_text synthesized) invalid_document))"

definition validate_content ::
  "tools \<Rightarrow> synthesized_document \<Rightarrow> analyzed_document \<Rightarrow> chunked_document \<Rightarrow> normalized_document \<Rightarrow> pipeline_failure + unit" where
  "validate_content env synthesized analyzed chunked normalized =
     (let version = synthesis_version synthesized;
          mismatch = synthesis_invalid ''General synthesis identity and verified-claim ledger must remain canonical''
      in res_bind (ensure (coherent_synthesis_version_supported version
            \<and> synthesized_document_id synthesized = analyzed_document_id analyzed
            \<and> \<not> blank (synthesized_runtime_id synthesized) \<and> \<not> blank (synthesized_model_id synthesized)) mismatch) (\<lambda>_.
         res_bind (source_ordered_claims (env_sha env) analyzed) (\<lambda>ledger.
         res_bind (ensure (synthesized_claims synthesized = ledger) mismatch) (\<lambda>_.
         res_bind (ensure (supplied_furniture_warnings synthesized = []
            \<or> (version \<in> set furniture_versions
               \<and> supplied_furniture_warnings synthesized = expected_furniture_warnings (env_unicode env) normalized version))
            invalid_document) (\<lambda>_.
         res_bind (source_catalog_for_synthesis_version (env_sha env) (env_language env) version chunked normalized (Some analyzed)) (\<lambda>catalog.
         case synthesized_presentation synthesized of
           Coherent \<Rightarrow> check_coherent_content env catalog synthesized analyzed chunked normalized
         | ClaimLedgerFallback \<Rightarrow> check_ledger_content synthesized analyzed
         | _ \<Rightarrow> Inl invalid_document))))))"

end
