(* ===== verification/Verified_Document.thy ===== *)
theory Verified_Document
  imports Synthesis_Check
begin

text \<open>
  The checks of \<open>pipeline/summary.rs\<close> on synthesized and verified documents, for the runtime that made
  them and without it, the warnings of the verification, and the fallback to the claim ledger when the
  supported summary does not cover enough pages.
\<close>

section \<open>Versions\<close>

definition VERIFICATION_VERSION :: string where "VERIFICATION_VERSION = ''10.0.0''"
definition DIRECT_KEY_POINTS_VERIFICATION_VERSION :: string where "DIRECT_KEY_POINTS_VERIFICATION_VERSION = ''6.0.0''"
definition HIERARCHICAL_VERIFICATION_VERSION :: string where "HIERARCHICAL_VERIFICATION_VERSION = ''4.0.0''"
definition DIRECT_VERIFICATION_VERSION :: string where "DIRECT_VERIFICATION_VERSION = ''5.0.0''"
definition PRE_CONTEXT_VERIFICATION_VERSION :: string where "PRE_CONTEXT_VERIFICATION_VERSION = ''9.0.0''"
definition PRE_DISCLOSURE_VERIFICATION_VERSION :: string where "PRE_DISCLOSURE_VERIFICATION_VERSION = ''8.0.0''"
definition PREVIOUS_COHERENT_VERIFICATION_VERSION :: string where "PREVIOUS_COHERENT_VERIFICATION_VERSION = ''7.0.0''"
definition PREVIOUS_VERIFICATION_VERSION :: string where "PREVIOUS_VERIFICATION_VERSION = ''3.0.0''"
definition LEGACY_VERIFICATION_VERSION :: string where "LEGACY_VERIFICATION_VERSION = ''2.0.0''"

definition coherent_verification_versions :: "string list" where
  "coherent_verification_versions =
     [PREVIOUS_COHERENT_VERIFICATION_VERSION, PRE_DISCLOSURE_VERIFICATION_VERSION, PRE_CONTEXT_VERIFICATION_VERSION,
      VERIFICATION_VERSION]"

definition coherent_verification_versions_match :: "string \<Rightarrow> string \<Rightarrow> bool" where
  "coherent_verification_versions_match synthesis verification \<longleftrightarrow>
     (synthesis \<in> set contract_source_versions \<and> verification = VERIFICATION_VERSION)
     \<or> (synthesis = PRE_CONTEXT_SYNTHESIS_VERSION \<and> verification = PRE_CONTEXT_VERIFICATION_VERSION)
     \<or> (synthesis = PRE_DISCLOSURE_SYNTHESIS_VERSION
        \<and> verification \<in> {PREVIOUS_COHERENT_VERIFICATION_VERSION, PRE_DISCLOSURE_VERIFICATION_VERSION})"

definition coherent_checkpoint_requires_retry :: "synthesized_document \<Rightarrow> string option \<Rightarrow> bool" where
  "coherent_checkpoint_requires_retry synthesized verification \<longleftrightarrow>
     synthesized_presentation synthesized = Coherent
     \<and> (synthesis_version synthesized
          \<in> {PRE_CONTRACT_SOURCE_SYNTHESIS_VERSION, PRE_CONTEXT_SYNTHESIS_VERSION, PRE_DISCLOSURE_SYNTHESIS_VERSION}
        \<or> (case verification of
             None \<Rightarrow> False
           | Some version \<Rightarrow> version \<in> {PREVIOUS_COHERENT_VERIFICATION_VERSION, PRE_DISCLOSURE_VERIFICATION_VERSION,
               PRE_CONTEXT_VERIFICATION_VERSION}))"

definition outdated_coherent_checkpoint_failure :: pipeline_failure where
  "outdated_coherent_checkpoint_failure = stage_failure Verify ''COHERENT_CHECKPOINT_REQUIRES_RETRY''
     ''This coherent summary checkpoint predates the current source-context contract; retry the run to regenerate it'' True"

abbreviation verified_invalid :: "string \<Rightarrow> pipeline_failure" where
  "verified_invalid message \<equiv> stage_failure Verify ''INVALID_VERIFIED_DOCUMENT'' message False"

section \<open>Synthesized documents\<close>

definition validate_synthesized_source_coverage :: "synthesized_document \<Rightarrow> chunked_document \<Rightarrow> pipeline_failure + unit" where
  "validate_synthesized_source_coverage synthesized chunked =
     ensure (synthesized_document_id synthesized = chunked_document_id chunked
         \<and> synthesized_chunk_ids synthesized = map chunk_id (chunks chunked))
       (stage_failure Verify ''INVALID_SYNTHESIS_COVERAGE''
          ''Synthesized source coverage must include every chunk exactly once in order'' False)"

definition no_extraction_records :: pipeline_failure where
  "no_extraction_records = synthesis_invalid ''Prose artifacts cannot contain Contract extraction records''"

text \<open>The budget and the coverage of hierarchical synthesis.\<close>

definition check_hierarchical ::
  "wire_codec \<Rightarrow> synthesized_document \<Rightarrow> analyzed_document \<Rightarrow> normalized_document \<Rightarrow> pipeline_failure + unit" where
  "check_hierarchical codec synthesized analyzed normalized =
     (let claims = synthesized_claims synthesized; evidence = ledger_evidence analyzed;
          ids = set (map evidence_id evidence); cited = set (concat (map claim_evidence_ids claims))
      in res_bind (document_claim_budget normalized) (\<lambda>claim_budget.
         res_bind (synthesis_claim_floor claim_budget (card ids)) (\<lambda>claim_floor.
         res_bind (ensure (claim_floor \<le> length claims \<and> length claims \<le> claim_budget \<and> cited = ids)
           (synthesis_invalid ''Current synthesis claims must satisfy the document budget and cover every evidence ID'')) (\<lambda>_.
         ensure (is_ok (ensure_claim_catalog_is_verifiable codec claims evidence claim_budget))
           (synthesis_invalid ''Current synthesis claims must fit the bounded verification plan'')))))"

definition check_historical_synthesis ::
  "tools \<Rightarrow> synthesized_document \<Rightarrow> analyzed_document \<Rightarrow> chunked_document \<Rightarrow> normalized_document \<Rightarrow> pipeline_failure + unit" where
  "check_historical_synthesis env synthesized analyzed chunked normalized =
     res_bind (ensure (synthesized_presentation synthesized = LegacyClaimList
         \<and> synthesized_summary_claims synthesized = [] \<and> synthesized_evidence synthesized = [])
       (synthesis_invalid ''Historical synthesis artifacts must retain the legacy claim-list presentation'')) (\<lambda>_.
     res_bind (if synthesis_version synthesized = DIRECT_SYNTHESIS_VERSION
         then validate_claim_set (env_sha env) synthesized analyzed else Inr ()) (\<lambda>_.
     res_bind (if synthesis_version synthesized = HIERARCHICAL_SYNTHESIS_VERSION
         then check_hierarchical (env_codec env) synthesized analyzed normalized else Inr ()) (\<lambda>_.
     res_bind (render_cited_summary (synthesized_claims synthesized) analyzed) (\<lambda>rendered.
     res_bind (ensure (rendered = synthesized_text synthesized)
       (synthesis_invalid ''Summary text must be the deterministic rendering of its cited claims'')) (\<lambda>_.
     validate_synthesized_source_coverage synthesized chunked)))))"

definition synthesis_claim_limit :: "string \<Rightarrow> nat" where
  "synthesis_claim_limit version =
     (if coherent_synthesis_version_supported version \<or> version = DIRECT_SYNTHESIS_VERSION then DIRECT_MAX_CLAIMS
      else LEGACY_MAX_SUMMARY_CLAIMS)"

definition synthesis_metadata_valid :: "synthesized_document \<Rightarrow> analyzed_document \<Rightarrow> bool" where
  "synthesis_metadata_valid synthesized analyzed \<longleftrightarrow>
     synthesized_document_id synthesized = analyzed_document_id analyzed
     \<and> synthesis_version synthesized \<in> set synthesis_versions
     \<and> (coherent_synthesis_version_supported (synthesis_version synthesized)
        \<or> (synthesized_runtime_id synthesized = analyzed_runtime_id analyzed
           \<and> synthesized_model_id synthesized = analyzed_model_id analyzed))
     \<and> \<not> blank (synthesized_runtime_id synthesized) \<and> \<not> blank (synthesized_model_id synthesized)
     \<and> \<not> blank (synthesized_text synthesized)
     \<and> synthesized_claims synthesized \<noteq> []
     \<and> length (synthesized_claims synthesized) \<le> synthesis_claim_limit (synthesis_version synthesized)"

definition validate_synthesized_document_without_runtime ::
  "tools \<Rightarrow> synthesized_document \<Rightarrow> analyzed_document \<Rightarrow> chunked_document \<Rightarrow> normalized_document \<Rightarrow> pipeline_failure + unit" where
  "validate_synthesized_document_without_runtime env synthesized analyzed chunked normalized =
     (let version = synthesis_version synthesized; coherent = coherent_synthesis_version_supported version in
      if version_supported version
      then validate_contract_synthesis (env_sha env) (env_unicode env) synthesized analyzed chunked normalized
      else
        res_bind (ensure (synthesized_extraction synthesized = None) no_extraction_records) (\<lambda>_.
        res_bind (validate_analyzed_content (env_sha env) (env_unicode env) (env_plans env) analyzed chunked normalized) (\<lambda>_.
        res_bind (ensure (synthesis_metadata_valid synthesized analyzed)
          (synthesis_invalid ''Synthesis identity, runtime metadata, claims, and text must be valid'')) (\<lambda>_.
        res_bind (validate_claims (env_sha env) (synthesized_claims synthesized) analyzed
          (if coherent then DIRECT_SYNTHESIS_VERSION else version)) (\<lambda>_.
        if coherent
        then res_bind (validate_content env synthesized analyzed chunked normalized) (\<lambda>_.
          validate_synthesized_source_coverage synthesized chunked)
        else check_historical_synthesis env synthesized analyzed chunked normalized)))))"

section \<open>The size of a synthesis request\<close>

definition MAX_SYNTHESIS_REQUEST_CHARACTERS :: nat where "MAX_SYNTHESIS_REQUEST_CHARACTERS = 16000"
definition SYNTHESIS_OUTPUT_TOKENS :: u32 where "SYNTHESIS_OUTPUT_TOKENS = 2048"

definition context_characters :: "u32 \<Rightarrow> u32 \<Rightarrow> nat option" where
  "context_characters context_tokens output_tokens =
     Option.bind (checked_sub_u32 context_tokens output_tokens) (\<lambda>tokens.
     Option.bind (checked_sub_u32 tokens VERIFICATION_CONTEXT_RESERVE_TOKENS) (\<lambda>rest.
     if 0 < rest then usize_checked (unat rest * 3) else None))"

definition generation_input_character_limit_for_context :: "u32 \<Rightarrow> u32 \<Rightarrow> nat option" where
  "generation_input_character_limit_for_context context_tokens output_tokens =
     map_option (\<lambda>n. min n MAX_SYNTHESIS_REQUEST_CHARACTERS) (context_characters context_tokens output_tokens)"

definition input_character_limit :: "u32 \<Rightarrow> nat option" where
  "input_character_limit context_tokens =
     (if context_tokens \<le> LEGACY_MODEL_CONTEXT_TOKENS
      then generation_input_character_limit_for_context context_tokens SYNTHESIS_OUTPUT_TOKENS
      else context_characters context_tokens SYNTHESIS_OUTPUT_TOKENS)"

definition incomplete_catalog_requires_fallback :: "summary_profile \<Rightarrow> source_catalog \<Rightarrow> bool" where
  "incomplete_catalog_requires_fallback profile catalog \<longleftrightarrow> 0 < snd catalog \<and> (profile \<noteq> General \<or> fst catalog = [])"

text \<open>\<open>supports_long_source_selection\<close> holds of all three profiles.\<close>

definition supports_source_selection_for_catalog :: "unicode \<Rightarrow> summary_profile \<Rightarrow> source_catalog \<Rightarrow> bool" where
  "supports_source_selection_for_catalog u profile catalog \<longleftrightarrow>
     profile \<in> {General, Story, Contract} \<and> \<not> (profile = Contract \<and> required_short_contract_clauses u catalog \<noteq> None)"

definition synthesis_request_characters ::
  "tools \<Rightarrow> summary_profile \<Rightarrow> string \<Rightarrow> string option \<Rightarrow> pipeline_failure + nat" where
  "synthesis_request_characters env profile prompt_text schema_text =
     res_bind (ok_or schema_text (stage_failure Synthesize ''INVALID_SYNTHESIS_BUDGET''
         ''The synthesis response schema size could not be calculated'' False)) (\<lambda>serialized.
     ok_or (Option.bind (usize_checked (char_count (env_system_prompt env profile) + char_count prompt_text))
         (\<lambda>n. usize_checked (n + char_count serialized)))
       (stage_failure Synthesize ''INVALID_SYNTHESIS_BUDGET''
         ''The synthesis request size exceeds the supported range'' False))"

definition expected_fallback ::
  "tools \<Rightarrow> summary_profile \<Rightarrow> synthesized_document \<Rightarrow> source_catalog \<Rightarrow> model_runtime \<Rightarrow>
   pipeline_failure + fallback_reason option" where
  "expected_fallback env profile synthesized catalog runtime =
     (if incomplete_catalog_requires_fallback profile catalog then Inr (Some IncompleteCatalog)
      else
        res_bind (env_prompt env profile (synthesis_version synthesized) catalog) (\<lambda>(prompt_text, schema_text).
        res_bind (ok_or (input_character_limit (mr_context_tokens runtime Synthesize))
          (stage_failure Synthesize ''INVALID_SYNTHESIS_BUDGET''
             ''The synthesis model context cannot hold output and framing reserves'' False)) (\<lambda>limit.
        res_bind (synthesis_request_characters env profile prompt_text schema_text) (\<lambda>request.
        Inr (if limit < request \<and> \<not> supports_source_selection_for_catalog (env_unicode env) profile catalog
             then Some RequestTooLarge else None)))))"

definition presentation_admitted :: "summary_profile \<Rightarrow> synthesized_document \<Rightarrow> fallback_reason option \<Rightarrow> bool" where
  "presentation_admitted profile synthesized expected \<longleftrightarrow>
     (case (synthesized_presentation synthesized, expected) of
        (Coherent, None) \<Rightarrow> True
      | (ClaimLedgerFallback, Some reason) \<Rightarrow> has_fallback_warning synthesized reason
      | (ClaimLedgerFallback, None) \<Rightarrow>
          has_fallback_warning synthesized RequestTooLarge
          \<or> has_fallback_warning synthesized VerificationRequestTooLarge
          \<or> has_fallback_warning synthesized DeliveryCoverage
          \<or> (profile = General \<and> has_fallback_warning synthesized ModelOutputInvalid)
      | _ \<Rightarrow> False)"

text \<open>What a coherent summary of a contract must say.\<close>

definition contract_summary_complete ::
  "tools \<Rightarrow> source_catalog \<Rightarrow> cited_claim list \<Rightarrow> evidence_item list \<Rightarrow> pipeline_failure + bool" where
  "contract_summary_complete env catalog claims evidence =
     (let required = required_short_contract_clauses (env_unicode env) catalog
      in res_bind (clause_reference_feedback (env_unicode env) claims evidence) (\<lambda>feedback.
         Inr (feedback = [] \<and> clause_coverage_feedback claims required = []
           \<and> env_material_terms env claims catalog required = [])))"

definition validate_for_runtime ::
  "tools \<Rightarrow> summary_profile \<Rightarrow> synthesized_document \<Rightarrow> analyzed_document \<Rightarrow> chunked_document \<Rightarrow> normalized_document \<Rightarrow>
   model_runtime \<Rightarrow> pipeline_failure + unit" where
  "validate_for_runtime env profile synthesized analyzed chunked normalized runtime =
     (let version = synthesis_version synthesized in
      res_bind (ensure (synthesized_runtime_id synthesized = mr_runtime_id runtime Synthesize
          \<and> synthesized_model_id synthesized = mr_model_id runtime Synthesize)
        (synthesis_invalid ''Source-aware synthesis runtime metadata must match the active synthesis runtime'')) (\<lambda>_.
      res_bind (validate_model_output_fallback_boundary profile synthesized) (\<lambda>_.
      res_bind (ensure (supplied_furniture_warnings synthesized
            = (if profile = General \<and> version \<in> set furniture_versions
               then expected_furniture_warnings (env_unicode env) normalized version else [])) invalid_document) (\<lambda>_.
      res_bind (source_catalog_for_profile (env_sha env) (env_language env) profile version chunked normalized (Some analyzed)) (\<lambda>catalog.
      res_bind (expected_fallback env profile synthesized catalog runtime) (\<lambda>expected.
      res_bind (ensure (presentation_admitted profile synthesized expected)
        (synthesis_invalid ''Coherent summary presentation does not match bounded source-context admission'')) (\<lambda>_.
      res_bind (validate_content env synthesized analyzed chunked normalized) (\<lambda>_.
      if profile = Contract \<and> synthesized_presentation synthesized = Coherent
      then res_bind (contract_summary_complete env catalog (synthesized_summary_claims synthesized)
          (synthesized_evidence synthesized)) (\<lambda>complete. ensure complete invalid_document)
      else Inr ()))))))))"

definition validate_synthesized_document ::
  "tools \<Rightarrow> synthesized_document \<Rightarrow> analyzed_document \<Rightarrow> chunked_document \<Rightarrow> normalized_document \<Rightarrow> model_runtime \<Rightarrow>
   pipeline_failure + unit" where
  "validate_synthesized_document env synthesized analyzed chunked normalized runtime =
     (let version = synthesis_version synthesized; coherent = coherent_synthesis_version_supported version;
          stage = (if coherent then Synthesize else Analyze) in
      if version_supported version
      then validate_contract_synthesis (env_sha env) (env_unicode env) synthesized analyzed chunked normalized
      else
        res_bind (ensure (synthesized_extraction synthesized = None) no_extraction_records) (\<lambda>_.
        res_bind (ensure (synthesized_runtime_id synthesized = mr_runtime_id runtime stage
            \<and> synthesized_model_id synthesized = mr_model_id runtime stage)
          (synthesis_invalid ''Synthesis runtime metadata must match the active runtime'')) (\<lambda>_.
        res_bind (if coherent then validate_for_runtime env General synthesized analyzed chunked normalized runtime
           else if version = DIRECT_SYNTHESIS_VERSION then validate_claim_set_for_runtime env synthesized analyzed runtime
           else Inr ()) (\<lambda>_.
        validate_synthesized_document_without_runtime env synthesized analyzed chunked normalized))))"

section \<open>Warnings of the verification\<close>

definition COVERAGE_SHORTFALL_WARNING_CODE :: string where "COVERAGE_SHORTFALL_WARNING_CODE = ''SUMMARY_COVERAGE_SHORTFALL''"

definition verify_warning :: "string \<Rightarrow> string \<Rightarrow> pipeline_warning" where
  "verify_warning code message = \<lparr>warning_code = code, warning_message = message, warning_stage = Some Verify\<rparr>"

definition coverage_shortfall_warning :: pipeline_warning where
  "coverage_shortfall_warning = verify_warning COVERAGE_SHORTFALL_WARNING_CODE
     ''Initial semantic verification missed the claim or evidence coverage target; one bounded re-synthesis was attempted''"

definition withheld :: "claim_verdict \<Rightarrow> claim_verification list \<Rightarrow> nat" where
  "withheld v verifications = length (filter (\<lambda>c. verdict c = v) verifications)"

definition inherited_warning :: "pipeline_warning \<Rightarrow> bool" where
  "inherited_warning w \<longleftrightarrow>
     (if warning_code w \<in> set [''SEMANTIC_VERIFICATION_DEFERRED'', ''SEMANTIC_CLAIMS_WITHHELD''] then False
      else if warning_code w = COVERAGE_SHORTFALL_WARNING_CODE then warning_stage w = Some Analyze
      else True)"

definition verification_warnings :: "synthesized_document \<Rightarrow> claim_verification list \<Rightarrow> bool \<Rightarrow> pipeline_warning list" where
  "verification_warnings synthesized verifications retried =
     (let unsupported = withheld Unsupported verifications; ambiguous = withheld Ambiguous verifications
      in filter inherited_warning (synthesized_warnings synthesized)
         @ (if 0 < unsupported + ambiguous
            then [verify_warning ''SEMANTIC_CLAIMS_WITHHELD''
              (''Withheld '' @ show_nat unsupported @ '' unsupported and '' @ show_nat ambiguous @ '' ambiguous summary claim(s)'')]
            else [])
         @ (if retried then [coverage_shortfall_warning]
            else if coherent_synthesis_version_supported (synthesis_version synthesized) \<and> 0 < unsupported + ambiguous
            then [verify_warning COVERAGE_SHORTFALL_WARNING_CODE
              ''Some quote-bound claims were withheld; the supported result is preserved without a seed-only retry'']
            else []))"

definition no_supported_claims_failure :: pipeline_failure where
  "no_supported_claims_failure = stage_failure Verify ''NO_SEMANTICALLY_SUPPORTED_CLAIMS''
     ''Semantic verification did not support any summary claim'' True"

definition presented_claims_empty :: "verified_document \<Rightarrow> bool" where
  "presented_claims_empty v \<longleftrightarrow> presented_claims (verified_presentation v) (verified_claims v) (verified_summary_claims v) = []"

definition delivery_coverage_fallback_warning :: "bool \<Rightarrow> pipeline_warning" where
  "delivery_coverage_fallback_warning connect_delivery = verify_warning ''SUMMARY_DELIVERY_COVERAGE_FALLBACK''
     (if connect_delivery
      then ''Semantic verification reduced coherent page coverage; showing the verified source claims instead''
      else ''The supported coherent summary does not satisfy page coverage; showing verified source claims instead'')"

text \<open>The claims whose verdict is \<open>Supported\<close>, by \<open>zip\<close> and \<open>filter\<close>.\<close>

definition supported :: "cited_claim list \<Rightarrow> claim_verification list \<Rightarrow> cited_claim list" where
  "supported claims verifications = map fst (filter (\<lambda>(_, v). verdict v = Supported) (zip claims verifications))"

section \<open>Verified documents\<close>

definition verdicts_match :: "claim_verification list \<Rightarrow> cited_claim list \<Rightarrow> bool" where
  "verdicts_match verifications claims \<longleftrightarrow>
     length verifications = length claims
     \<and> list_all (\<lambda>(v, claim). verified_claim_id v = claim_id claim \<and> verified_evidence_ids v = claim_evidence_ids claim)
         (zip verifications claims)"

definition verified_metadata_valid :: "verified_document \<Rightarrow> synthesized_document \<Rightarrow> bool" where
  "verified_metadata_valid v s \<longleftrightarrow>
     verified_document_id v = synthesized_document_id s
     \<and> verified_presentation v = LegacyClaimList \<and> verified_summary_claims v = [] \<and> verified_evidence v = []
     \<and> summary_claim_verifications v = []
     \<and> \<not> blank (verified_runtime_id v) \<and> \<not> blank (verified_model_id v)
     \<and> verified_chunk_ids v = synthesized_chunk_ids s
     \<and> verdicts_match (claim_verifications v) (synthesized_claims s)"

definition not_deferred :: "verified_document \<Rightarrow> bool" where
  "not_deferred v \<longleftrightarrow> \<not> list_ex (\<lambda>w. warning_code w = ''SEMANTIC_VERIFICATION_DEFERRED'') (verified_warnings v)"

definition KEY_POINT_TARGET_COUNT :: nat where "KEY_POINT_TARGET_COUNT = 8"

definition key_points_unavailable_warning :: pipeline_warning where
  "key_points_unavailable_warning = verify_warning ''KEY_POINTS_UNAVAILABLE''
     ''Key Points could not be ranked; the complete cited-claim ledger is still available''"

definition persisted_contract_valid ::
  "cited_claim list \<Rightarrow> string list \<Rightarrow> pipeline_warning list \<Rightarrow> pipeline_warning list \<Rightarrow> bool" where
  "persisted_contract_valid claims ids warnings base \<longleftrightarrow>
     (if length claims \<le> KEY_POINT_TARGET_COUNT then ids = map claim_id claims \<and> warnings = base
      else (length ids = KEY_POINT_TARGET_COUNT \<and> card (set ids) = KEY_POINT_TARGET_COUNT
            \<and> set ids \<subseteq> claim_id ` set claims \<and> warnings = base)
        \<or> (ids = [] \<and> warnings = base @ [key_points_unavailable_warning]))"

text \<open>The verification of version 4 and 6, by the version of the synthesis.\<close>

definition validate_ranked_verified_document ::
  "verified_document \<Rightarrow> synthesized_document \<Rightarrow> analyzed_document \<Rightarrow> pipeline_failure + unit" where
  "validate_ranked_verified_document v s analyzed =
     (let claims = supported (synthesized_claims s) (claim_verifications v);
          expected_version = (if synthesis_version s = DIRECT_SYNTHESIS_VERSION then DIRECT_KEY_POINTS_VERIFICATION_VERSION
            else HIERARCHICAL_VERIFICATION_VERSION);
          ranked = (verification_version v = DIRECT_KEY_POINTS_VERIFICATION_VERSION);
          expected_warnings = verification_warnings s (claim_verifications v) (0 < synthesis_attempt_ordinal v)
      in res_bind (render_cited_summary claims analyzed) (\<lambda>expected.
         ensure (verification_version v = expected_version \<and> verified_metadata_valid v s
             \<and> verified_claims v = claims \<and> verified_text v = expected
             \<and> synthesis_attempt_ordinal v \<le> 1
             \<and> (ranked \<longrightarrow> synthesis_attempt_ordinal v = 0)
             \<and> (if ranked then persisted_contract_valid (verified_claims v) (key_point_claim_ids v) (verified_warnings v) expected_warnings
                else key_point_claim_ids v = [] \<and> verified_warnings v = expected_warnings)
             \<and> not_deferred v)
           (verified_invalid ''Semantic verification identity, verdict coverage, filtered claims, or warnings are invalid'')))"

definition validate_unranked_verified_document ::
  "string \<Rightarrow> verified_document \<Rightarrow> synthesized_document \<Rightarrow> analyzed_document \<Rightarrow> pipeline_failure + unit" where
  "validate_unranked_verified_document message v s analyzed =
     (let claims = supported (synthesized_claims s) (claim_verifications v)
      in res_bind (render_cited_summary claims analyzed) (\<lambda>expected.
         ensure (verified_metadata_valid v s \<and> synthesis_attempt_ordinal v = 0
             \<and> verified_claims v = claims \<and> verified_text v = expected \<and> key_point_claim_ids v = []
             \<and> verified_warnings v = verification_warnings s (claim_verifications v) False \<and> not_deferred v)
           (verified_invalid message)))"

definition validate_direct_verified_document_without_key_points ::
  "verified_document \<Rightarrow> synthesized_document \<Rightarrow> analyzed_document \<Rightarrow> pipeline_failure + unit" where
  "validate_direct_verified_document_without_key_points v s analyzed =
     (let message = ''Direct semantic verification without Key Points is inconsistent''
      in res_bind (validate_unranked_verified_document message v s analyzed) (\<lambda>_.
         ensure (synthesis_version s = DIRECT_SYNTHESIS_VERSION) (verified_invalid message)))"

definition validate_previous_verified_document ::
  "verified_document \<Rightarrow> synthesized_document \<Rightarrow> analyzed_document \<Rightarrow> pipeline_failure + unit" where
  "validate_previous_verified_document v s analyzed =
     validate_unranked_verified_document
       ''Previous semantic verification identity, verdict coverage, filtered claims, or warnings are invalid'' v s analyzed"

definition deferred_warning :: pipeline_warning where
  "deferred_warning = verify_warning ''SEMANTIC_VERIFICATION_DEFERRED''
     ''Citation provenance and artifact integrity were checked; semantic entailment remains deferred''"

definition validate_legacy_verified_document :: "verified_document \<Rightarrow> synthesized_document \<Rightarrow> pipeline_failure + unit" where
  "validate_legacy_verified_document v s =
     (let warnings = synthesized_warnings s;
          expected_warnings = (if list_ex (\<lambda>w. warning_code w = ''SEMANTIC_VERIFICATION_DEFERRED'') warnings then warnings
            else warnings @ [deferred_warning])
      in ensure (verified_document_id v = synthesized_document_id s \<and> synthesis_attempt_ordinal v = 0
             \<and> verified_runtime_id v = [] \<and> verified_model_id v = []
             \<and> verified_presentation v = synthesized_presentation s
             \<and> verified_summary_claims v = synthesized_summary_claims s
             \<and> verified_evidence v = synthesized_evidence s \<and> summary_claim_verifications v = []
             \<and> verified_text v = synthesized_text s \<and> verified_chunk_ids v = synthesized_chunk_ids s
             \<and> verified_claims v = synthesized_claims s \<and> claim_verifications v = []
             \<and> key_point_claim_ids v = [] \<and> \<not> blank (verified_text v) \<and> verified_warnings v = expected_warnings)
           (verified_invalid ''Legacy mechanical verification artifact is inconsistent with its synthesis''))"

section \<open>Verified coherent summaries\<close>

text \<open>Whether the page coverage holds; the subtraction does not underflow (\<open>page_coverage_exact\<close>).\<close>

definition claims_cover_pages ::
  "unicode \<Rightarrow> cited_claim list \<Rightarrow> evidence_item list \<Rightarrow> analyzed_document \<Rightarrow> normalized_document \<Rightarrow> synthesized_document \<Rightarrow> bool" where
  "claims_cover_pages u claims evidence analyzed normalized s \<longleftrightarrow>
     claims_satisfy_delivery_page_coverage_with_warnings (furniture_coverage_exclusions u) claims evidence (omissions analyzed)
       normalized (synthesized_warnings s) = Some True"

definition is_delivery_fallback :: "verified_document \<Rightarrow> synthesized_document \<Rightarrow> bool" where
  "is_delivery_fallback v s \<longleftrightarrow>
     synthesis_version s \<in> set furniture_versions \<and> verification_version v = VERIFICATION_VERSION
     \<and> synthesized_presentation s = Coherent \<and> verified_presentation v = ClaimLedgerFallback"

definition coherent_metadata_valid :: "verified_document \<Rightarrow> synthesized_document \<Rightarrow> bool" where
  "coherent_metadata_valid v s \<longleftrightarrow>
     coherent_verification_versions_match (synthesis_version s) (verification_version v)
     \<and> verified_document_id v = synthesized_document_id s \<and> synthesis_attempt_ordinal v = 0
     \<and> (verified_presentation v = synthesized_presentation s \<or> is_delivery_fallback v s)
     \<and> verified_evidence v = synthesized_evidence s
     \<and> \<not> blank (verified_runtime_id v) \<and> \<not> blank (verified_model_id v)
     \<and> verified_chunk_ids v = synthesized_chunk_ids s
     \<and> verdicts_match (claim_verifications v) (synthesized_claims s)
     \<and> verdicts_match (summary_claim_verifications v) (synthesized_summary_claims s)"

definition expected_coherent_text ::
  "summary_presentation_mode \<Rightarrow> cited_claim list \<Rightarrow> cited_claim list \<Rightarrow> synthesized_document \<Rightarrow> analyzed_document \<Rightarrow>
   pipeline_failure + string" where
  "expected_coherent_text mode claims summary s analyzed =
     (case mode of
        Coherent \<Rightarrow> render_cited_summary_with_evidence summary (synthesized_evidence s)
      | ClaimLedgerFallback \<Rightarrow> render_cited_summary claims analyzed
      | _ \<Rightarrow> Inr [])"

definition expected_coherent_warnings :: "verified_document \<Rightarrow> synthesized_document \<Rightarrow> pipeline_warning list" where
  "expected_coherent_warnings v s =
     verification_warnings s (claim_verifications v @ summary_claim_verifications v) False
     @ (if is_delivery_fallback v s
        then [delivery_coverage_fallback_warning
          (verified_warnings v \<noteq> [] \<and> last (verified_warnings v) = delivery_coverage_fallback_warning True)]
        else [])"

definition validate_coherent_verified_document ::
  "unicode \<Rightarrow> verified_document \<Rightarrow> synthesized_document \<Rightarrow> analyzed_document \<Rightarrow> normalized_document \<Rightarrow> pipeline_failure + unit" where
  "validate_coherent_verified_document u v s analyzed normalized =
     (let claims = supported (synthesized_claims s) (claim_verifications v);
          summary = supported (synthesized_summary_claims s) (summary_claim_verifications v);
          fell_back = is_delivery_fallback v s
      in res_bind (expected_coherent_text (verified_presentation v) claims summary s analyzed) (\<lambda>expected.
         ensure (coherent_metadata_valid v s
             \<and> (fell_back \<longrightarrow> \<not> claims_cover_pages u summary (synthesized_evidence s) analyzed normalized s)
             \<and> verified_claims v = claims
             \<and> verified_summary_claims v = (if fell_back then [] else summary)
             \<and> verified_text v = expected
             \<and> key_point_claim_ids v = []
             \<and> verified_warnings v = expected_coherent_warnings v s
             \<and> not_deferred v)
           (verified_invalid ''Coherent summary verification must cover and filter both prose and ledger claims'')))"

definition validate_verified_document ::
  "tools \<Rightarrow> verified_document \<Rightarrow> synthesized_document \<Rightarrow> analyzed_document \<Rightarrow> chunked_document \<Rightarrow> normalized_document \<Rightarrow>
   pipeline_failure + unit" where
  "validate_verified_document env v s analyzed chunked normalized =
     (if version_supported (synthesis_version s)
      then validate_contract_verified (env_sha env) (env_unicode env) v s analyzed chunked normalized
      else
        res_bind (ensure (verified_extraction v = None)
          (verified_invalid ''Prose artifacts cannot contain Contract extraction records'')) (\<lambda>_.
        res_bind (validate_synthesized_document_without_runtime env s analyzed chunked normalized) (\<lambda>_.
        if verification_version v = LEGACY_VERIFICATION_VERSION then validate_legacy_verified_document v s
        else if verification_version v = PREVIOUS_VERIFICATION_VERSION then validate_previous_verified_document v s analyzed
        else if verification_version v = DIRECT_VERIFICATION_VERSION
        then validate_direct_verified_document_without_key_points v s analyzed
        else if verification_version v \<in> set coherent_verification_versions
        then validate_coherent_verified_document (env_unicode env) v s analyzed normalized
        else validate_ranked_verified_document v s analyzed)))"

definition validate_verified_profile ::
  "tools \<Rightarrow> summary_profile \<Rightarrow> verified_document \<Rightarrow> chunked_document \<Rightarrow> normalized_document \<Rightarrow> analyzed_document option \<Rightarrow>
   pipeline_failure + unit" where
  "validate_verified_profile env profile v chunked normalized analyzed =
     (if profile \<noteq> Contract \<or> verified_presentation v \<noteq> Coherent then Inr ()
      else
        res_bind (source_catalog_for_profile (env_sha env) (env_language env) profile SYNTHESIS_VERSION chunked normalized analyzed) (\<lambda>catalog.
        res_bind (contract_summary_complete env catalog (verified_summary_claims v) (verified_evidence v)) (\<lambda>complete.
        ensure complete
          (stage_failure Verify ''CONTRACT_SUMMARY_INCOMPLETE_AFTER_VERIFICATION''
             ''Semantic verification removed content required for a complete source-referenced Contract summary'' True))))"

section \<open>The fallback to the claim ledger\<close>

definition apply_verified_delivery_coverage_fallback ::
  "tools \<Rightarrow> verified_document \<Rightarrow> synthesized_document \<Rightarrow> analyzed_document \<Rightarrow>
   normalized_document \<Rightarrow> bool \<Rightarrow> bool \<Rightarrow> pipeline_failure + verified_document" where
  "apply_verified_delivery_coverage_fallback env v s analyzed normalized required connect_delivery =
     (if \<not> required \<or> synthesized_presentation s \<noteq> Coherent
         \<or> claims_cover_pages (env_unicode env) (verified_summary_claims v) (verified_evidence v) analyzed normalized s
      then Inr v
      else
        res_bind (apply_semantic_fidelity_guards (env_unicode env) (env_comparisons env) (synthesized_claims s) (ledger_evidence analyzed)
          (claim_verifications v))
          (\<lambda>verifications.
        let claims = supported (synthesized_claims s) verifications
        in res_bind (render_cited_summary claims analyzed) (\<lambda>rendered.
           Inr (v\<lparr>claim_verifications := verifications, verified_claims := claims,
             verified_presentation := ClaimLedgerFallback, verified_text := rendered, verified_summary_claims := [],
             verified_warnings :=
               verification_warnings s (verifications @ summary_claim_verifications v) (0 < synthesis_attempt_ordinal v)
               @ [delivery_coverage_fallback_warning connect_delivery]\<rparr>))))"

end
