(* ===== verification/Citations.thy ===== *)
theory Citations
  imports Verified_Document
begin

text \<open>
  Citation artifacts of \<open>pipeline/summary.rs\<close>: building one from the verified document, checking one,
  and the page coverage of the claims delivered first. \<open>canonical_hash\<close> serializes and digests, \<open>now\<close>
  is the time of creation.
\<close>

definition SUMMARY_VERSION :: string where "SUMMARY_VERSION = ''8.0.0''"
definition PRE_CONTEXT_SUMMARY_VERSION :: string where "PRE_CONTEXT_SUMMARY_VERSION = ''7.0.0''"
definition PRE_DISCLOSURE_SUMMARY_VERSION :: string where "PRE_DISCLOSURE_SUMMARY_VERSION = ''6.0.0''"
definition DIRECT_SUMMARY_VERSION :: string where "DIRECT_SUMMARY_VERSION = ''5.0.0''"
definition HIERARCHICAL_SUMMARY_VERSION :: string where "HIERARCHICAL_SUMMARY_VERSION = ''4.0.0''"
definition PREVIOUS_SUMMARY_VERSION :: string where "PREVIOUS_SUMMARY_VERSION = ''3.0.0''"
definition LEGACY_SUMMARY_VERSION :: string where "LEGACY_SUMMARY_VERSION = ''2.0.0''"
definition CONTRACT_SUMMARY_VERSION :: string where "CONTRACT_SUMMARY_VERSION = ''9.0.0''"

definition CITATION_VERSION :: string where "CITATION_VERSION = ''4.0.0''"
definition DIRECT_CITATION_VERSION :: string where "DIRECT_CITATION_VERSION = ''3.0.0''"
definition PREVIOUS_CITATION_VERSION :: string where "PREVIOUS_CITATION_VERSION = ''2.0.0''"
definition LEGACY_CITATION_VERSION :: string where "LEGACY_CITATION_VERSION = ''1.0.0''"

definition expected_citation_version :: "string \<Rightarrow> string option" where
  "expected_citation_version version =
     (if version = CONTRACT_SUMMARY_VERSION then Some ''5.0.0''
      else if version \<in> {SUMMARY_VERSION, PRE_CONTEXT_SUMMARY_VERSION, PRE_DISCLOSURE_SUMMARY_VERSION} then Some CITATION_VERSION
      else if version \<in> {DIRECT_SUMMARY_VERSION, HIERARCHICAL_SUMMARY_VERSION} then Some DIRECT_CITATION_VERSION
      else if version = PREVIOUS_SUMMARY_VERSION then Some PREVIOUS_CITATION_VERSION
      else if version = LEGACY_SUMMARY_VERSION then Some LEGACY_CITATION_VERSION
      else None)"

text \<open>The \<open>match\<close> of \<open>complete_verified_document\<close>; \<open>None\<close> is its \<open>unreachable!\<close> arm.\<close>

definition summary_version_for :: "string \<Rightarrow> string option" where
  "summary_version_for verification =
     (if verification = LEGACY_VERIFICATION_VERSION then Some LEGACY_SUMMARY_VERSION
      else if verification = PREVIOUS_VERIFICATION_VERSION then Some PREVIOUS_SUMMARY_VERSION
      else if verification = HIERARCHICAL_VERIFICATION_VERSION then Some HIERARCHICAL_SUMMARY_VERSION
      else if verification \<in> {DIRECT_VERIFICATION_VERSION, DIRECT_KEY_POINTS_VERIFICATION_VERSION} then Some DIRECT_SUMMARY_VERSION
      else if verification \<in> {PREVIOUS_COHERENT_VERIFICATION_VERSION, PRE_DISCLOSURE_VERIFICATION_VERSION}
      then Some PRE_DISCLOSURE_SUMMARY_VERSION
      else if verification = PRE_CONTEXT_VERIFICATION_VERSION then Some PRE_CONTEXT_SUMMARY_VERSION
      else if verification = VERIFICATION_VERSION then Some SUMMARY_VERSION
      else if version_supported verification then Some CONTRACT_SUMMARY_VERSION
      else None)"

abbreviation citation_invalid :: "string \<Rightarrow> pipeline_failure" where
  "citation_invalid message \<equiv> stage_failure Verify ''INVALID_CITATION_ARTIFACT'' message False"

definition referenced_ids :: "cited_claim list \<Rightarrow> cited_claim list \<Rightarrow> string set" where
  "referenced_ids claims summary = set (concat (map claim_evidence_ids (claims @ summary)))"

definition referenced_evidence :: "analyzed_document \<Rightarrow> evidence_item list \<Rightarrow> string set \<Rightarrow> evidence_item list" where
  "referenced_evidence analyzed synthesis ids = filter (\<lambda>e. evidence_id e \<in> ids) (ledger_evidence analyzed @ synthesis)"

definition render_citation_claim_lines :: "citation_artifact \<Rightarrow> pipeline_failure + string list" where
  "render_citation_claim_lines a =
     res_bind (case citation_extraction a of
         Some extraction \<Rightarrow>
           res_bind (render_units extraction (citation_claims a) (citation_evidence a)) (\<lambda>units. Inr (map unit_text units))
       | None \<Rightarrow>
           render_claim_lines (presented_claims (citation_presentation a) (citation_claims a) (citation_summary_claims a))
             (evidence_by_id (citation_evidence a))) (\<lambda>rows.
     res_bind (ensure (join paragraph_break rows = rendered_text a)
       (citation_invalid ''Citation claim boundaries do not reproduce the canonical rendered summary'')) (\<lambda>_.
     Inr rows))"

definition citation_consistent ::
  "(canonical_tuple \<Rightarrow> string) \<Rightarrow> citation_artifact \<Rightarrow> summary_artifact \<Rightarrow> verified_document \<Rightarrow> synthesized_document \<Rightarrow>
   analyzed_document \<Rightarrow> bool" where
  "citation_consistent canonical_hash a summary v s analyzed \<longleftrightarrow>
     (let ids = referenced_ids (citation_claims a) (citation_summary_claims a);
          artifact_ids = evidence_id ` set (citation_evidence a)
      in citation_document_id a = summary_document_id summary
         \<and> expected_citation_version (summary_version summary) = Some (citation_version a)
         \<and> summary_integrity_hash a = integrity_hash summary
         \<and> rendered_text a = summary_text summary
         \<and> citation_presentation a = verified_presentation v
         \<and> citation_extraction a = verified_extraction v
         \<and> summary_extraction summary = verified_extraction v
         \<and> citation_summary_claims a = verified_summary_claims v
         \<and> citation_claims a = verified_claims v
         \<and> citation_evidence a \<noteq> []
         \<and> citation_evidence a = referenced_evidence analyzed (synthesized_evidence s) ids
         \<and> card artifact_ids = length (citation_evidence a)
         \<and> artifact_ids = ids)"

text \<open>The last two comparisons come after the ones above, so that only then rendering can fail.\<close>

definition validate_citation_artifact ::
  "tools \<Rightarrow> (canonical_tuple \<Rightarrow> string) \<Rightarrow> citation_artifact \<Rightarrow> summary_artifact \<Rightarrow> verified_document \<Rightarrow>
   synthesized_document \<Rightarrow> analyzed_document \<Rightarrow> chunked_document \<Rightarrow> normalized_document \<Rightarrow> pipeline_failure + unit" where
  "validate_citation_artifact env canonical_hash a summary v s analyzed chunked normalized =
     (let mismatch = citation_invalid ''Citation artifact identity, summary binding, evidence, or integrity is invalid''
      in res_bind (validate_verified_document env v s analyzed chunked normalized) (\<lambda>_.
         res_bind (ensure (citation_consistent canonical_hash a summary v s analyzed) mismatch) (\<lambda>_.
         res_bind (render_citation_claim_lines a) (\<lambda>rows.
         ensure (join paragraph_break rows = rendered_text a
           \<and> citation_integrity canonical_hash a = citation_integrity_hash a) mismatch))))"

definition citation_draft ::
  "timestamp \<Rightarrow> summary_artifact \<Rightarrow> verified_document \<Rightarrow> evidence_item list \<Rightarrow> string \<Rightarrow> citation_artifact" where
  "citation_draft now summary v evidence version =
     \<lparr>citation_extraction = verified_extraction v, citation_document_id = summary_document_id summary,
      citation_version = version, summary_integrity_hash = integrity_hash summary, rendered_text = summary_text summary,
      citation_presentation = verified_presentation v, citation_summary_claims = verified_summary_claims v,
      citation_claims = verified_claims v, citation_evidence = evidence, citation_created_at = now,
      citation_integrity_hash = []\<rparr>"

definition build_citation_artifact ::
  "tools \<Rightarrow> (canonical_tuple \<Rightarrow> string) \<Rightarrow> timestamp \<Rightarrow> summary_artifact \<Rightarrow> verified_document \<Rightarrow> synthesized_document \<Rightarrow>
   analyzed_document \<Rightarrow> chunked_document \<Rightarrow> normalized_document \<Rightarrow> pipeline_failure + citation_artifact" where
  "build_citation_artifact env canonical_hash now summary v s analyzed chunked normalized =
     (let ids = referenced_ids (verified_claims v) (verified_summary_claims v);
          evidence = referenced_evidence analyzed (verified_evidence v) ids
      in res_bind (ensure (length evidence = card ids) (citation_invalid ''Every referenced evidence item must exist exactly once'')) (\<lambda>_.
         res_bind (ok_or (expected_citation_version (summary_version summary))
           (citation_invalid ''Summary version does not have a compatible citation contract'')) (\<lambda>version.
         let draft = citation_draft now summary v evidence version;
             a = draft\<lparr>citation_integrity_hash := citation_integrity canonical_hash draft\<rparr>
         in res_bind (validate_citation_artifact env canonical_hash a summary v s analyzed chunked normalized) (\<lambda>_. Inr a))))"

section \<open>Coverage of the claims delivered first\<close>

definition delivered_claims :: "citation_artifact \<Rightarrow> nat \<Rightarrow> cited_claim list option" where
  "delivered_claims a n =
     (case citation_extraction a of
        Some extraction \<Rightarrow>
          (case render_units extraction (citation_claims a) (citation_evidence a) of
             Inl _ \<Rightarrow> None
           | Inr units \<Rightarrow>
               if n = 0 \<or> length units < n then None
               else Some (filter (\<lambda>c. claim_id c \<in> set (concat (map unit_clause_ids (take n units)))) (citation_claims a)))
      | None \<Rightarrow>
          (let claims = presented_claims (citation_presentation a) (citation_claims a) (citation_summary_claims a)
           in if n = 0 \<or> length claims < n then None else Some (take n claims)))"

definition delivery_claim_prefix_coverage_satisfied ::
  "unicode \<Rightarrow> citation_artifact \<Rightarrow> nat \<Rightarrow> analysis_page_omission list \<Rightarrow> normalized_document \<Rightarrow> pipeline_warning list \<Rightarrow> bool" where
  "delivery_claim_prefix_coverage_satisfied u a n os normalized warnings \<longleftrightarrow>
     (case delivered_claims a n of
        None \<Rightarrow> False
      | Some claims \<Rightarrow>
          claims_satisfy_delivery_page_coverage_with_warnings (furniture_coverage_exclusions u) claims (citation_evidence a)
            os normalized warnings = Some True)"

end
