(* ===== verification/Verified_Sample.thy ===== *)
theory Verified_Sample
  imports Citations Contract_Sample
begin

text \<open>
  A document of one page that has been analyzed, synthesized and verified by the early versions: two
  claims about the same quotation, of which verification supports the first.
\<close>

definition sample_tools :: tools where
  "sample_tools =
     \<lparr>env_sha = id,
      env_language = \<lparr>lg_unicode = ascii_tables,
        lg_sentences = \<lparr>sentence_bounds = (\<lambda>_. []), sentence_class = (\<lambda>_. OtherSentenceBreak), closing_mark = (\<lambda>_. False),
          opening_mark = (\<lambda>_. False)\<rparr>,
        lg_framing = (\<lambda>_ _ _. None)\<rparr>,
      env_plans = \<lparr>validate_plan = (\<lambda>_ _ _. Inr {}),
        versioned_page_scope = (\<lambda>_ _ _ _. Inl invalid_document),
        build_versioned_analysis_scopes = (\<lambda>_ _ _ _. Inr [])\<rparr>,
      env_codec = wire_sample, env_system_prompt = (\<lambda>_. []), env_prompt = (\<lambda>_ _ _. Inr ([], Some [])),
      env_material_terms = (\<lambda>_ _ _. []), env_comparisons = (\<lambda>_ _. True)\<rparr>"

definition noted :: "nat \<Rightarrow> string \<Rightarrow> evidence_item" where
  "noted n claim =
     \<lparr>evidence_id = deterministic_evidence_id id ''d'' ''2.0.0'' ''c'' n ''b'' claim ''A'', evidence_chunk_id = ''c'',
      evidence_block_id = ''b'', evidence_claim_text = claim, evidence_exact_quote = ''A'', evidence_source_span = line_span\<rparr>"

definition noted_claim :: "nat \<Rightarrow> string \<Rightarrow> cited_claim" where
  "noted_claim n claim =
     \<lparr>claim_id = deterministic_claim_id id ''d'' ''2.0.0'' n claim [evidence_id (noted n claim)], claim_text = claim,
      claim_evidence_ids = [evidence_id (noted n claim)]\<rparr>"

definition early_analysis :: analyzed_document where
  "early_analysis =
     \<lparr>analyzed_document_id = ''d'', analysis_version = ''2.0.0'', analyzed_runtime_id = ''A'', analyzed_model_id = ''A'',
      analyzed_chunks = [\<lparr>analysis_chunk_id = ''c'', analysis_summary_text = ''A'' @ [CHR 0x0A] @ ''b'',
        analysis_source_spans = [line_span], analysis_evidence = [noted 0 ''A'', noted 1 ''b'']\<rparr>],
      analyzed_warnings = [], omissions = [], inspected_pages = []\<rparr>"

definition early_synthesis :: synthesized_document where
  "early_synthesis =
     \<lparr>synthesized_extraction = None, synthesized_document_id = ''d'', synthesis_version = ''2.0.0'',
      synthesized_runtime_id = ''A'', synthesized_model_id = ''A'', synthesized_presentation = LegacyClaimList,
      synthesized_text = join paragraph_break [''A [p. 1]'', ''b [p. 1]''], synthesized_chunk_ids = [''c''],
      synthesized_summary_claims = [], synthesized_evidence = [],
      synthesized_claims = [noted_claim 0 ''A'', noted_claim 1 ''b''], synthesized_warnings = []\<rparr>"

definition early_verdicts :: "claim_verification list" where
  "early_verdicts =
     [\<lparr>verified_claim_id = claim_id (noted_claim 0 ''A''), verified_evidence_ids = claim_evidence_ids (noted_claim 0 ''A''),
       verdict = Supported\<rparr>,
      \<lparr>verified_claim_id = claim_id (noted_claim 1 ''b''), verified_evidence_ids = claim_evidence_ids (noted_claim 1 ''b''),
       verdict = Unsupported\<rparr>]"

definition early_verified :: verified_document where
  "early_verified =
     \<lparr>verified_extraction = None, verified_document_id = ''d'', verification_version = PREVIOUS_VERIFICATION_VERSION,
      synthesis_attempt_ordinal = 0, verified_runtime_id = ''A'', verified_model_id = ''A'',
      verified_presentation = LegacyClaimList, verified_text = ''A [p. 1]'', verified_chunk_ids = [''c''],
      verified_summary_claims = [], verified_evidence = [], summary_claim_verifications = [],
      verified_claims = [noted_claim 0 ''A''], claim_verifications = early_verdicts, key_point_claim_ids = [],
      verified_warnings = verification_warnings early_synthesis early_verdicts False\<rparr>"

lemma b_text [simp]: "trim ''b'' = ''b''"
  by (simp add: trim_def trim_chars_def is_whitespace_def text_of_def)

lemma A_in_A [simp]: "contains_str ''A'' ''A''"
  by (simp add: contains_str_def)

lemma noted_distinct [simp]: "evidence_id (noted 0 ''A'') \<noteq> evidence_id (noted (Suc 0) ''b'')"
    "evidence_id (noted (Suc 0) ''b'') \<noteq> evidence_id (noted 0 ''A'')"
proof -
  have "show_nat 0 = ''0''" "show_nat (Suc 0) = ''1''" by code_simp+
  then show "evidence_id (noted 0 ''A'') \<noteq> evidence_id (noted (Suc 0) ''b'')"
    by (simp add: noted_def deterministic_evidence_id_def deterministic_id_def)
  then show "evidence_id (noted (Suc 0) ''b'') \<noteq> evidence_id (noted 0 ''A'')" by simp
qed

lemma claims_distinct [simp]: "claim_id (noted_claim (Suc 0) ''b'') \<noteq> claim_id (noted_claim 0 ''A'')"
    "claim_id (noted_claim 0 ''A'') \<noteq> claim_id (noted_claim (Suc 0) ''b'')"
proof -
  have "show_nat 0 = ''0''" "show_nat (Suc 0) = ''1''" by code_simp+
  then show "claim_id (noted_claim (Suc 0) ''b'') \<noteq> claim_id (noted_claim 0 ''A'')" by (simp add: noted_claim_def deterministic_claim_id_def deterministic_id_def)
  then show "claim_id (noted_claim 0 ''A'') \<noteq> claim_id (noted_claim (Suc 0) ''b'')" by simp
qed

lemma early_versions: "\<not> version_supported ''2.0.0''" "\<not> coherent_synthesis_version_supported ''2.0.0''"
    "''2.0.0'' \<in> set known_analysis_versions" "''2.0.0'' \<notin> set materiality_versions" "''2.0.0'' \<notin> set one_item_versions"
    "''2.0.0'' \<notin> set completion_versions" "''2.0.0'' \<in> set synthesis_versions"
  by code_simp+

lemma early_pages: "\<exists>pages. analysis_selected_pages line_contract = Inr pages"
  by (simp add: analysis_selected_pages_def line_contract_def native_text_page_def line_block_def line_span_def is_textual_def
      analysis_scope_minimum_def document_claim_budget_def)

lemma early_limits: "Suc 0 \<le> claim_character_limit ''2.0.0''" "Suc 0 \<le> quote_character_limit ''2.0.0''"
    "''2.0.0'' \<noteq> PREVIOUS_ANALYSIS_VERSION" "''2.0.0'' \<noteq> SINGLE_PAGE_ANALYSIS_VERSION"
  by code_simp+

lemma early_evidence:
  "check_evidence sha u early_analysis (hd (chunks line_chunks)) [''b'' \<mapsto> line_block] None st (n, noted n claim) =
     (if evidence_id (noted n claim) \<in> fst st then Inl (analysis_invalid ''Evidence identity, exact quotation, and source provenance must validate'')
      else Inr (insert (evidence_id (noted n claim)) (fst st), snd st))"
  if "sha = id" "claim = ''A'' \<or> claim = ''b''"
  using that
  by (cases st) (auto simp: check_evidence_def evidence_accepted_def Let_def early_analysis_def early_versions early_limits noted_def
      line_chunks_def line_block_def canonical_bounded_text_def char_count_def)

lemma early_boundary: "validate_normalized_chunk_boundary line_contract line_chunks = Inr [''b'' \<mapsto> line_block]"
  by (simp add: validate_normalized_chunk_boundary_def line_contract_def line_chunks_def line_block_def line_span_def
      boundary_page_def boundary_block_def boundary_chunk_def boundary_chunk_block_def u32_try_from_def res_collect_def)

lemma early_analysis_accepted:
  "validate_analyzed_content id ascii_tables plans early_analysis line_chunks line_contract = Inr ()"
proof -
  obtain pages where pages: "analysis_selected_pages line_contract = Inr pages" using early_pages by blast
  have version: "analysis_version early_analysis = ''2.0.0''" by (simp add: early_analysis_def)
  have chunk: "chunks line_chunks = [hd (chunks line_chunks)]" by (simp add: line_chunks_def)
  have analysis: "analyzed_chunks early_analysis = [hd (analyzed_chunks early_analysis)]"
    "analysis_evidence (hd (analyzed_chunks early_analysis)) = [noted 0 ''A'', noted 1 ''b'']" by (simp_all add: early_analysis_def)
  have accepted: "chunk_analysis_accepted (hd (analyzed_chunks early_analysis)) (hd (chunks line_chunks)) 64"
    by (simp add: chunk_analysis_accepted_def early_analysis_def line_chunks_def noted_def blank_ascii_Cons byte_def is_whitespace_def)
  have "check_chunk_analysis id ascii_tables plans early_analysis line_chunks line_contract [''b'' \<mapsto> line_block] pages ({}, {})
      (hd (analyzed_chunks early_analysis), hd (chunks line_chunks)) = Inr ({evidence_id (noted 0 ''A''), evidence_id (noted 1 ''b'')}, {})"
    unfolding check_chunk_analysis_def chunk_scopes_def version
    using early_evidence [OF refl, of "''A''"] early_evidence [OF refl, of "''b''"] accepted
    by (simp add: early_versions early_limits LEGACY_MAX_EVIDENCE_PER_CHUNK_def analysis(2) insert_commute)
  then show ?thesis
    unfolding validate_analyzed_content_def version Let_def early_boundary pages
    using chunk analysis(1) early_versions
    by (simp add: early_analysis_def line_chunks_def)
qed

section \<open>Its claims\<close>

lemma early_ledger: "ledger_evidence early_analysis = [noted 0 ''A'', noted 1 ''b'']"
  by (simp add: ledger_evidence_def early_analysis_def)

lemma early_claims: "validate_claims id [noted_claim 0 ''A'', noted_claim 1 ''b''] early_analysis ''2.0.0'' = Inr ()"
proof -
  have "canonical_claim id ''d'' ''2.0.0'' [noted 0 ''A'', noted 1 ''b''] 0 (noted_claim 0 ''A'')"
       "canonical_claim id ''d'' ''2.0.0'' [noted 0 ''A'', noted 1 ''b''] 1 (noted_claim 1 ''b'')"
    by (simp_all add: canonical_claim_def noted_claim_def canonical_bounded_text_def char_count_def MAX_CLAIM_CHARACTERS_def)
  moreover have "claim_text (noted_claim 0 ''A'') \<noteq> claim_text (noted_claim 1 ''b'')" by (simp add: noted_claim_def)
  moreover have "analyzed_document_id early_analysis = ''d''" by (simp add: early_analysis_def)
  ultimately show ?thesis
    using claims_distinct by (auto simp: validate_claims_def early_ledger validate_claims_Inr less_Suc_eq)
qed

lemma early_line:
  "claim_line (evidence_by_id [noted 0 ''A'', noted 1 ''b'']) (noted_claim n claim) = Inr (claim @ '' [p. 1]'')"
  if "(n, claim) \<in> {(0, ''A''), (Suc 0, ''b'')}"
proof -
  have "show_nat 1 = ''1''" by code_simp
  with that show ?thesis
    by (auto simp: claim_line_def res_collect_def noted_claim_def evidence_by_id_def citation_label_def span_label_def noted_def
        line_span_def)
qed

lemma early_text:
  "render_cited_summary [noted_claim 0 ''A'', noted_claim 1 ''b''] early_analysis = Inr (join paragraph_break [''A [p. 1]'', ''b [p. 1]''])"
  "render_cited_summary [noted_claim 0 ''A''] early_analysis = Inr ''A [p. 1]''"
  using early_line [of 0 "''A''"] early_line [of 1 "''b''"]
  by (simp_all add: render_cited_summary_def render_cited_summary_with_evidence_def render_claim_lines_def res_collect_def early_ledger)

section \<open>Its verification\<close>

lemma early_synthesis_accepted_by:
  assumes tools: "env_sha env = id" "env_unicode env = ascii_tables"
  shows "validate_synthesized_document_without_runtime env early_synthesis early_analysis line_chunks line_contract = Inr ()"
proof -
  have version: "synthesis_version early_synthesis = ''2.0.0''" "synthesized_claims early_synthesis = [noted_claim 0 ''A'', noted_claim 1 ''b'']"
    by (simp_all add: early_synthesis_def)
  have other: "''2.0.0'' \<noteq> DIRECT_SYNTHESIS_VERSION" "''2.0.0'' \<noteq> HIERARCHICAL_SYNTHESIS_VERSION"
    by code_simp+
  have metadata: "synthesis_metadata_valid early_synthesis early_analysis"
    using early_versions other
    by (simp add: synthesis_metadata_valid_def early_synthesis_def early_analysis_def synthesis_claim_limit_def
        LEGACY_MAX_SUMMARY_CLAIMS_def blank_ascii_Cons byte_def is_whitespace_def)
  have history: "check_historical_synthesis env early_synthesis early_analysis line_chunks line_contract = Inr ()"
    using early_text other
    by (simp add: check_historical_synthesis_def version validate_synthesized_source_coverage_def)
       (simp add: early_synthesis_def line_chunks_def)
  show ?thesis
    unfolding validate_synthesized_document_without_runtime_def version tools Let_def early_analysis_accepted
    using early_versions metadata early_claims history by (simp add: early_synthesis_def)
qed

lemma early_synthesis_accepted:
  "validate_synthesized_document_without_runtime sample_tools early_synthesis early_analysis line_chunks line_contract = Inr ()"
  by (rule early_synthesis_accepted_by) (simp_all add: sample_tools_def)

lemma early_verified_accepted:
  "validate_verified_document sample_tools early_verified early_synthesis early_analysis line_chunks line_contract = Inr ()"
proof -
  have versions: "\<not> version_supported (synthesis_version early_synthesis)" "verification_version early_verified = PREVIOUS_VERIFICATION_VERSION"
    using early_versions by (simp_all add: early_synthesis_def early_verified_def)
  have other: "PREVIOUS_VERIFICATION_VERSION \<noteq> LEGACY_VERIFICATION_VERSION" by code_simp
  have kept: "supported (synthesized_claims early_synthesis) (claim_verifications early_verified) = [noted_claim 0 ''A'']"
    by (simp add: supported_def early_synthesis_def early_verified_def early_verdicts_def)
  have shown: "''2.0.0'' \<notin> set contract_source_versions" using early_versions by (simp add: coherent_synthesis_version_supported_def)
  have metadata: "verified_metadata_valid early_verified early_synthesis"
    by (simp add: verified_metadata_valid_def early_verified_def early_synthesis_def early_verdicts_def verdicts_match_def)
  have "not_deferred early_verified"
    using early_versions
    by (simp add: not_deferred_def early_verified_def verification_warnings_def Let_def early_synthesis_def early_verdicts_def
        withheld_def verify_warning_def)
  then have "validate_previous_verified_document early_verified early_synthesis early_analysis = Inr ()"
    unfolding validate_previous_verified_document_def validate_unranked_verified_document_def Let_def kept early_text
    using metadata by (simp add: early_verified_def)
  then show ?thesis
    using versions other early_synthesis_accepted by (simp add: validate_verified_document_def early_verified_def)
qed

end
