(* ===== verification/Verified_Correct.thy ===== *)
theory Verified_Correct
  imports Verified_Sample
begin

text \<open>
  What an accepted verified document guarantees: only claims with a \<open>Supported\<close> verdict are kept, each
  verdict belongs to the claim at its position, and the evidence of the synthesis is quoted from the
  blocks it names.
\<close>

section \<open>Supported claims\<close>

lemma verdicts_match_iff:
  "verdicts_match vs claims \<longleftrightarrow>
     map verified_claim_id vs = map claim_id claims \<and> map verified_evidence_ids vs = map claim_evidence_ids claims"
  unfolding verdicts_match_def
proof (induction vs arbitrary: claims)
  case (Cons v vs)
  show ?case
  proof (cases claims)
    case claims: (Cons c cs)
    from Cons.IH [of cs] show ?thesis by (auto simp: claims)
  qed simp
qed auto

lemma supported_subseq: "subseq (supported claims vs) claims"
proof -
  have "subseq (filter (\<lambda>(_, v). verdict v = Supported) (zip claims vs)) (zip claims vs)" by simp
  then have "subseq (supported claims vs) (map fst (zip claims vs))" unfolding supported_def by (rule subseq_map)
  also have "map fst (zip claims vs) = take (min (length claims) (length vs)) claims" by (simp add: map_fst_zip_take)
  also have "subseq \<dots> claims" by (metis append_take_drop_id list_emb_append2 sublist_imp_subseq sublist_append_rightI)
  finally show ?thesis .
qed

lemma supported_in: "c \<in> set (supported claims vs) \<longleftrightarrow> (\<exists>v. (c, v) \<in> set (zip claims vs) \<and> verdict v = Supported)"
  by (force simp: supported_def)

text \<open>A claim with the verdict that keeps it.\<close>

definition judged_supported :: "cited_claim \<Rightarrow> claim_verification list \<Rightarrow> cited_claim list \<Rightarrow> bool" where
  "judged_supported c vs claims \<longleftrightarrow>
     (\<exists>j < length claims. claims ! j = c \<and> j < length vs \<and> verified_claim_id (vs ! j) = claim_id c
        \<and> verified_evidence_ids (vs ! j) = claim_evidence_ids c \<and> verdict (vs ! j) = Supported)"

lemma supported_judged:
  assumes "verdicts_match vs claims"
  shows "c \<in> set (supported claims vs) \<longleftrightarrow> judged_supported c vs claims"
proof -
  have len: "length vs = length claims" using assms by (simp add: verdicts_match_def)
  have ids: "verified_claim_id (vs ! j) = claim_id (claims ! j) \<and> verified_evidence_ids (vs ! j) = claim_evidence_ids (claims ! j)"
    if "j < length claims" for j
    using assms that len by (auto simp: verdicts_match_iff list_eq_iff_nth_eq)
  show ?thesis
    using ids len by (auto simp: supported_in judged_supported_def in_set_zip)
qed

section \<open>The verdicts of an accepted document\<close>

lemma contract_verified:
  assumes "validate_contract_verified sha u v s analyzed chunked normalized = Inr ()"
  shows "contract_verify sha u s analyzed chunked normalized False = Inr v"
    "validate_contract_synthesis sha u s analyzed chunked normalized = Inr ()"
    "contract_synthesize sha u analyzed chunked normalized False = Inr s"
    "validate_contract_analysis sha u analyzed chunked normalized = Inr ()"
  using assms
  by (auto simp: validate_contract_verified_def contract_verify_def validate_contract_synthesis_def contract_synthesize_def
      res_bind_Inr_iff ensure_Inr_iff Let_def)

lemma all_supported:
  "supported claims (map (\<lambda>c. \<lparr>verified_claim_id = claim_id c, verified_evidence_ids = claim_evidence_ids c, verdict = Supported\<rparr>) claims)
     = claims"
  by (induction claims) (simp_all add: supported_def)

lemma contract_verdicts:
  assumes "contract_verify sha u s analyzed chunked normalized cancelled = Inr v"
  shows "verdicts_match (claim_verifications v) (synthesized_claims s)"
    "verified_claims v = supported (synthesized_claims s) (claim_verifications v)" "verified_summary_claims v = []"
    "verified_evidence v = []" "verified_presentation v = StructuredExtraction"
  using assms all_supported by (auto simp: contract_verify_def res_bind_Inr_iff verdicts_match_iff)

definition verdicts_kept :: "verified_document \<Rightarrow> synthesized_document \<Rightarrow> bool" where
  "verdicts_kept v s \<longleftrightarrow>
     verdicts_match (claim_verifications v) (synthesized_claims s)
     \<and> verified_claims v = supported (synthesized_claims s) (claim_verifications v)
     \<and> (verified_summary_claims v = []
        \<or> verdicts_match (summary_claim_verifications v) (synthesized_summary_claims s)
          \<and> verified_summary_claims v = supported (synthesized_summary_claims s) (summary_claim_verifications v))"

lemma unranked_kept:
  "validate_unranked_verified_document message v s analyzed = Inr () \<Longrightarrow> verdicts_kept v s"
  by (auto simp: validate_unranked_verified_document_def verified_metadata_valid_def verdicts_kept_def Let_def
      res_bind_Inr_iff ensure_Inr_iff)

lemma ranked_kept: "validate_ranked_verified_document v s analyzed = Inr () \<Longrightarrow> verdicts_kept v s"
  by (auto simp: validate_ranked_verified_document_def verified_metadata_valid_def verdicts_kept_def Let_def
      res_bind_Inr_iff ensure_Inr_iff)

lemma coherent_kept: "validate_coherent_verified_document u v s analyzed normalized = Inr () \<Longrightarrow> verdicts_kept v s"
  by (auto simp: validate_coherent_verified_document_def coherent_metadata_valid_def verdicts_kept_def Let_def
      res_bind_Inr_iff ensure_Inr_iff)

lemma validated_kept:
  assumes "validate_verified_document env v s analyzed chunked normalized = Inr ()"
    and "verification_version v \<noteq> LEGACY_VERIFICATION_VERSION"
  shows "verdicts_kept v s"
proof (cases "version_supported (synthesis_version s)")
  case True
  with assms(1) have "validate_contract_verified (env_sha env) (env_unicode env) v s analyzed chunked normalized = Inr ()"
    by (simp add: validate_verified_document_def)
  from contract_verdicts [OF contract_verified(1) [OF this]] show ?thesis by (simp add: verdicts_kept_def)
next
  case False
  with assms consider "validate_previous_verified_document v s analyzed = Inr ()"
    | "validate_direct_verified_document_without_key_points v s analyzed = Inr ()"
    | "validate_coherent_verified_document (env_unicode env) v s analyzed normalized = Inr ()"
    | "validate_ranked_verified_document v s analyzed = Inr ()"
    unfolding validate_verified_document_def by (auto simp: res_bind_Inr_iff split: if_splits)
  then show ?thesis
    by cases (auto simp: validate_previous_verified_document_def validate_direct_verified_document_without_key_points_def
      Let_def res_bind_Inr_iff ensure_Inr_iff intro: unranked_kept coherent_kept ranked_kept)
qed

lemma legacy_kept:
  assumes "validate_verified_document env v s analyzed chunked normalized = Inr ()"
    and "verification_version v = LEGACY_VERIFICATION_VERSION"
  shows "validate_legacy_verified_document v s = Inr ()"
proof -
  have "\<not> version_supported LEGACY_VERIFICATION_VERSION"
    by (simp add: version_supported_def CONTRACT_VERSION_def PRE_HEADING_VERSION_def PREVIOUS_VERSION_def
        LEGACY_VERIFICATION_VERSION_def)
  with assms(2) have "\<not> version_supported (synthesis_version s)"
    using assms(1) contract_verified(1) [of "env_sha env" "env_unicode env" v s analyzed chunked normalized]
    by (auto simp: validate_verified_document_def contract_verify_def res_bind_Inr_iff)
  with assms show ?thesis by (simp add: validate_verified_document_def res_bind_Inr_iff)
qed

text \<open>C4. Nothing unsupported is presented as verified. In an accepted verified document of a version
  that verifies there is one verdict per claim of the synthesis, with its identity and its evidence and
  in its place; the claims kept are exactly those whose verdict is \<open>Supported\<close>, in the order of the
  synthesis; and every claim the reader is shown, from the ledger or from the coherent summary, has a
  \<open>Supported\<close> verdict of its own. The one exception is the legacy version \<open>2.0.0\<close>, which only
  deferred the verification: such a document is accepted with no verdict at all, as the unchanged
  claims and text of its synthesis, and only with the warning that says so.\<close>

theorem verified_only_supported:
  assumes "validate_verified_document env v s analyzed chunked normalized = Inr ()"
  shows "if verification_version v = LEGACY_VERIFICATION_VERSION
    then claim_verifications v = [] \<and> summary_claim_verifications v = [] \<and> key_point_claim_ids v = []
      \<and> verified_claims v = synthesized_claims s \<and> verified_summary_claims v = synthesized_summary_claims s
      \<and> verified_text v = synthesized_text s
      \<and> (\<exists>w \<in> set (verified_warnings v). warning_code w = ''SEMANTIC_VERIFICATION_DEFERRED'')
    else map verified_claim_id (claim_verifications v) = map claim_id (synthesized_claims s)
    \<and> map verified_evidence_ids (claim_verifications v) = map claim_evidence_ids (synthesized_claims s)
    \<and> subseq (verified_claims v) (synthesized_claims s) \<and> subseq (verified_summary_claims v) (synthesized_summary_claims s)
    \<and> (\<forall>c. c \<in> set (verified_claims v) \<longleftrightarrow> judged_supported c (claim_verifications v) (synthesized_claims s))
    \<and> (\<forall>c \<in> set (presented_claims (verified_presentation v) (verified_claims v) (verified_summary_claims v)).
         judged_supported c (claim_verifications v) (synthesized_claims s)
         \<or> judged_supported c (summary_claim_verifications v) (synthesized_summary_claims s))"
proof (cases "verification_version v = LEGACY_VERIFICATION_VERSION")
  case True
  from legacy_kept [OF assms True] show ?thesis
    by (auto simp: True validate_legacy_verified_document_def Let_def ensure_Inr_iff deferred_warning_def verify_warning_def
        list_ex_iff split: if_splits)
next
  case False
  from validated_kept [OF assms False] have kept: "verdicts_match (claim_verifications v) (synthesized_claims s)"
      "verified_claims v = supported (synthesized_claims s) (claim_verifications v)"
    and summary: "verified_summary_claims v = []
        \<or> verdicts_match (summary_claim_verifications v) (synthesized_summary_claims s)
          \<and> verified_summary_claims v = supported (synthesized_summary_claims s) (summary_claim_verifications v)"
    by (simp_all add: verdicts_kept_def)
  have ledger: "c \<in> set (verified_claims v) \<longleftrightarrow> judged_supported c (claim_verifications v) (synthesized_claims s)" for c
    unfolding kept(2) by (rule supported_judged [OF kept(1)])
  have prose: "judged_supported c (summary_claim_verifications v) (synthesized_summary_claims s)"
    if "c \<in> set (verified_summary_claims v)" for c
    using that summary supported_judged by auto
  have "subseq (verified_claims v) (synthesized_claims s)" unfolding kept(2) by (rule supported_subseq)
  moreover have "subseq (verified_summary_claims v) (synthesized_summary_claims s)"
    using summary supported_subseq by auto
  moreover have "judged_supported c (claim_verifications v) (synthesized_claims s)
      \<or> judged_supported c (summary_claim_verifications v) (synthesized_summary_claims s)"
    if "c \<in> set (presented_claims (verified_presentation v) (verified_claims v) (verified_summary_claims v))" for c
    using that ledger prose by (cases "verified_presentation v") auto
  ultimately show ?thesis using False kept(1) ledger by (auto simp: verdicts_match_iff)
qed

theorem verified_only_supported_witness:
  "judged_supported (noted_claim 0 ''A'') early_verdicts [noted_claim 0 ''A'', noted_claim 1 ''b'']
   \<and> \<not> judged_supported (noted_claim 1 ''b'') early_verdicts [noted_claim 0 ''A'', noted_claim 1 ''b'']"
proof -
  have kept: "claim_verifications early_verified = early_verdicts" "synthesized_claims early_synthesis = [noted_claim 0 ''A'', noted_claim 1 ''b'']"
      "set (verified_claims early_verified) = {noted_claim 0 ''A''}" "noted_claim 1 ''b'' \<noteq> noted_claim 0 ''A''"
    using claims_distinct by (auto simp: early_verified_def early_synthesis_def noted_claim_def)
  have "verification_version early_verified \<noteq> LEGACY_VERIFICATION_VERSION"
    by (simp add: early_verified_def PREVIOUS_VERIFICATION_VERSION_def LEGACY_VERIFICATION_VERSION_def)
  with verified_only_supported [OF early_verified_accepted, unfolded if_not_P [OF this]]
  have "\<forall>c. c \<in> set (verified_claims early_verified)
      \<longleftrightarrow> judged_supported c (claim_verifications early_verified) (synthesized_claims early_synthesis)" by blast
  then show ?thesis using kept by (metis insert_iff empty_iff)
qed

section \<open>The evidence of an accepted synthesis\<close>

lemma catalog_evidence_quotes:
  "sources_quote normalized (fst catalog) \<Longrightarrow> e \<in> set (catalog_evidence catalog) \<Longrightarrow> summary_source normalized e"
  by (auto simp: sources_quote_def catalog_evidence_def)

lemma canonical_evidence_quotes:
  assumes "canonical_evidence env catalog s analyzed chunked normalized = Inr canonical"
    and "sources_quote normalized (fst catalog)" "e \<in> set canonical"
  shows "summary_source normalized e"
proof -
  let ?of = "\<lambda>profile. source_catalog_for_profile (env_sha env) (env_language env) profile (synthesis_version s) chunked normalized (Some analyzed)"
  from assms(1) obtain contract general where contract: "?of Contract = Inr contract"
    and general: "general = [] \<or> (\<exists>g. ?of General = Inr g \<and> general = catalog_evidence g)"
    and canonical: "canonical = catalog_evidence catalog @ catalog_evidence contract @ general"
    by (auto simp: canonical_evidence_def Let_def res_bind_Inr_iff split: if_splits)
  from assms(3) canonical consider "e \<in> set (catalog_evidence catalog)" | "e \<in> set (catalog_evidence contract)" | "e \<in> set general"
    by auto
  then show ?thesis
  proof cases
    case 3
    with general obtain g where "?of General = Inr g" "e \<in> set (catalog_evidence g)" by auto
    then show ?thesis using profile_catalog_quotes catalog_evidence_quotes by blast
  qed (use assms(2) profile_catalog_quotes [OF contract] catalog_evidence_quotes in blast)+
qed

lemma coherent_content_quotes:
  assumes "check_coherent_content env catalog s analyzed chunked normalized = Inr ()"
    and "sources_quote normalized (fst catalog)" "e \<in> set (synthesized_evidence s)"
  shows "summary_source normalized e"
proof -
  from assms(1) obtain canonical where canonical: "canonical_evidence env catalog s analyzed chunked normalized = Inr canonical"
    and known: "list_all (\<lambda>e. evidence_by_id canonical (evidence_id e) = Some e) (synthesized_evidence s)"
    by (auto simp: check_coherent_content_def Let_def res_bind_Inr_iff ensure_Inr_iff)
  from known assms(3) have "e \<in> set canonical" by (auto simp: list_all_iff dest: evidence_by_id_in)
  with canonical_evidence_quotes [OF canonical assms(2)] show ?thesis .
qed

lemma content_quotes:
  assumes "validate_content env s analyzed chunked normalized = Inr ()" "e \<in> set (synthesized_evidence s)"
  shows "summary_source normalized e"
proof -
  from assms(1) obtain catalog where
    catalog: "source_catalog_for_synthesis_version (env_sha env) (env_language env) (synthesis_version s) chunked normalized (Some analyzed) = Inr catalog"
    and checked: "(case synthesized_presentation s of
           Coherent \<Rightarrow> check_coherent_content env catalog s analyzed chunked normalized
         | ClaimLedgerFallback \<Rightarrow> check_ledger_content s analyzed
         | _ \<Rightarrow> Inl invalid_document) = Inr ()"
    by (auto simp: validate_content_def Let_def res_bind_Inr_iff)
  have quotes: "sources_quote normalized (fst catalog)"
    using catalog unfolding source_catalog_for_synthesis_version_def by (rule policy_catalog_quotes)
  show ?thesis
  proof (cases "synthesized_presentation s")
    case Coherent
    with checked have "check_coherent_content env catalog s analyzed chunked normalized = Inr ()" by simp
    then show ?thesis using quotes assms(2) by (rule coherent_content_quotes)
  qed (use checked assms(2) in \<open>auto simp: check_ledger_content_def res_bind_Inr_iff ensure_Inr_iff\<close>)
qed

lemma contract_analysis_version:
  assumes "validate_contract_analysis sha u analyzed chunked normalized = Inr ()"
  shows "version_supported (analysis_version analyzed)"
  using assms
  by (auto simp: validate_contract_analysis_def analyze_for_version_def policy_of_version_def version_supported_def
      res_bind_Inr_iff ensure_Inr_iff split: if_splits)

lemma accepted_synthesis:
  assumes "validate_synthesized_document_without_runtime env s analyzed chunked normalized = Inr ()"
  shows "validate_analyzed_content (env_sha env) (env_unicode env) (env_plans env) analyzed chunked normalized = Inr ()"
    and "e \<in> set (synthesized_evidence s) \<Longrightarrow> summary_source normalized e"
proof -
  have contract: "validate_contract_analysis (env_sha env) (env_unicode env) analyzed chunked normalized = Inr () \<and> synthesized_evidence s = []"
    if "version_supported (synthesis_version s)"
    using assms that
    by (auto simp: validate_synthesized_document_without_runtime_def validate_contract_synthesis_def contract_synthesize_def
        Let_def res_bind_Inr_iff ensure_Inr_iff)
  have historical: "synthesized_evidence s = []" if "check_historical_synthesis env s analyzed chunked normalized = Inr ()"
    using that by (auto simp: check_historical_synthesis_def res_bind_Inr_iff ensure_Inr_iff)
  show "validate_analyzed_content (env_sha env) (env_unicode env) (env_plans env) analyzed chunked normalized = Inr ()"
  proof (cases "version_supported (synthesis_version s)")
    case True
    with contract contract_analysis_version show ?thesis by (auto simp: validate_analyzed_content_def)
  next
    case False
    with assms show ?thesis by (auto simp: validate_synthesized_document_without_runtime_def Let_def res_bind_Inr_iff)
  qed
  show "summary_source normalized e" if e: "e \<in> set (synthesized_evidence s)"
  proof (cases "version_supported (synthesis_version s)")
    case True
    with contract e show ?thesis by simp
  next
    case False
    with assms e historical show ?thesis
      by (auto simp: validate_synthesized_document_without_runtime_def Let_def res_bind_Inr_iff split: if_splits intro: content_quotes)
  qed
qed

lemma accepted_verified_synthesis:
  assumes "validate_verified_document env v s analyzed chunked normalized = Inr ()"
  shows "validate_synthesized_document_without_runtime env s analyzed chunked normalized = Inr ()"
proof (cases "version_supported (synthesis_version s)")
  case True
  with assms have "validate_contract_verified (env_sha env) (env_unicode env) v s analyzed chunked normalized = Inr ()"
    by (simp add: validate_verified_document_def)
  from contract_verified(2) [OF this] True show ?thesis by (simp add: validate_synthesized_document_without_runtime_def)
next
  case False
  with assms show ?thesis by (auto simp: validate_verified_document_def res_bind_Inr_iff)
qed

end
