(* ===== verification/Page_Eligibility.thy ===== *)
theory Page_Eligibility
  imports Source_Catalog
begin

text \<open>
  Which pages may be left out of an analysis without a model (\<open>summary/eligibility.rs\<close>): noise of a
  scan and date stamps, the markers that veto an omission the model asks for, and the admission of
  bare headings. The general category of a character comes from the crate \<open>unicode_properties\<close> and is
  the function \<open>cat\<close>. It is shown that a page left out as noise has no word, no number of two digits
  and mostly punctuation.
\<close>

section \<open>Characters\<close>

datatype char_category =
    CatLetter | CatMark | CatPunctuation | CatCurrency | CatOtherSymbol | CatControl | CatFormat
  | CatPrivateUse | CatUnassigned | CatOther

type_synonym categories = "nat \<Rightarrow> char_category"

definition ELIGIBILITY_VERSION :: string where "ELIGIBILITY_VERSION = ''1.0.0''"

definition trim_matches :: "(nat \<Rightarrow> bool) \<Rightarrow> string \<Rightarrow> string" where
  "trim_matches p s = text_of (rev (dropWhile (p \<circ> fst) (rev (dropWhile (p \<circ> fst) (utf8_chars s)))))"

definition ascii_alphabetic :: "char \<Rightarrow> bool" where
  "ascii_alphabetic b \<longleftrightarrow> byte b \<in> {65..90} \<or> byte b \<in> {97..122}"

definition ascii_alnum :: "char \<Rightarrow> bool" where
  "ascii_alnum b \<longleftrightarrow> ascii_alphabetic b \<or> is_ascii_digit b"

section \<open>Markers of material content\<close>

definition curly_quotes :: "nat list" where "curly_quotes = [8220, 8221, 8216, 8217]"

definition marker_token :: "string \<Rightarrow> string" where
  "marker_token s = trim_matches (\<lambda>c. c \<in> set ([44, 59, 58, 33, 63, 46, 34, 39] @ curly_quotes @ [91, 93, 123, 125, 40, 41])) s"

definition email_token :: "string \<Rightarrow> bool" where
  "email_token s =
     (case split_at CHR ''@'' [] (marker_token s) of
        [local_part, domain] \<Rightarrow>
          local_part \<noteq> [] \<and> list_all (\<lambda>b. ascii_alnum b \<or> b \<in> set ''._%+-'') local_part
          \<and> (let labels = split_at CHR ''.'' [] domain in
             2 \<le> length labels \<and> list_all (\<lambda>l. l \<noteq> [] \<and> list_all (\<lambda>b. ascii_alnum b \<or> b = CHR ''-'') l) labels
             \<and> list_all ascii_alnum (last labels))
      | _ \<Rightarrow> False)"

definition email_marker :: "string \<Rightarrow> bool" where
  "email_marker s = list_ex email_token (split_whitespace s)"

text \<open>A telephone number in up to three tokens: \<open>digits\<close> and \<open>separator\<close> are what has been read.\<close>

definition phone_token :: "bool \<Rightarrow> string \<Rightarrow> string" where
  "phone_token trim_question = trim_matches (\<lambda>c. c \<in> set ([44, 59, 58, 33, 34, 39] @ curly_quotes) \<or> (trim_question \<and> c = 63))"

fun phone_from :: "bool \<Rightarrow> nat \<Rightarrow> bool \<Rightarrow> string list \<Rightarrow> bool" where
  "phone_from trim_question digits separator [] = False"
| "phone_from trim_question digits separator (t # ts) =
     (let token = phone_token trim_question t in
      if token = [] \<or> \<not> list_all (\<lambda>b. is_ascii_digit b \<or> b \<in> set ''+-().'') token then False
      else
        let digits' = digits + length (filter is_ascii_digit token);
            separator' = (separator \<or> list_ex (\<lambda>b. b \<in> set ''+-()'') token)
        in if 7 \<le> digits' \<and> digits' \<le> 15 \<and> separator' then True
           else if 15 < digits' then False
           else phone_from trim_question digits' separator' ts)"

definition phone_marker_with_question_boundary :: "string \<Rightarrow> bool \<Rightarrow> bool" where
  "phone_marker_with_question_boundary s trim_question =
     (let tokens = split_whitespace s in
      list_ex (\<lambda>start. phone_from trim_question 0 False (take 3 (drop start tokens))) [0..<length tokens])"

definition phone_marker :: "string \<Rightarrow> bool" where
  "phone_marker s = phone_marker_with_question_boundary s True"

definition phone_marker_v11 :: "string \<Rightarrow> bool" where
  "phone_marker_v11 s = phone_marker_with_question_boundary s False"

definition trim_dots :: "string \<Rightarrow> string" where "trim_dots = trim_matches (\<lambda>c. c = 46)"

definition numeric_date_token :: "string \<Rightarrow> bool" where
  "numeric_date_token s =
     list_ex (\<lambda>separator.
       let pieces = split_at separator [] (trim_dots (marker_token s)) in
       length pieces = 3 \<and> list_all (\<lambda>f. 1 \<le> length f \<and> length f \<le> 4 \<and> list_all is_ascii_digit f) pieces) ''/-''"

definition numeric_date_marker :: "string \<Rightarrow> bool" where
  "numeric_date_marker s = list_ex numeric_date_token (split_whitespace s)"

definition named_date_marker :: "string \<Rightarrow> bool" where
  "named_date_marker s =
     (let tokens = split_whitespace s in
      list_ex (\<lambda>i.
        let month = to_ascii_lowercase (marker_token (tokens ! i));
            day = trim_dots (marker_token (tokens ! (i + 1)));
            year = trim_dots (marker_token (tokens ! (i + 2)))
        in month \<in> set months \<and> 1 \<le> length day \<and> length day \<le> 2 \<and> list_all is_ascii_digit day
           \<and> length year \<in> {2, 4} \<and> list_all is_ascii_digit year)
        [0..<length tokens - 2])"

definition reference_token :: "string \<Rightarrow> bool" where
  "reference_token s =
     (let token = marker_token s in
      5 \<le> length token \<and> length token \<le> 64 \<and> ascii_alphabetic (hd token)
      \<and> 2 \<le> length (filter is_ascii_digit token) \<and> list_ex (\<lambda>b. b \<in> set ''/-'') token
      \<and> list_all (\<lambda>b. ascii_alnum b \<or> b \<in> set ''_/-?.'') token)"

definition reference_marker :: "string \<Rightarrow> bool" where
  "reference_marker s = list_ex reference_token (split_whitespace s)"

definition material_marker :: "string \<Rightarrow> bool" where
  "material_marker s \<longleftrightarrow>
     email_marker s \<or> phone_marker s \<or> numeric_date_marker s \<or> named_date_marker s \<or> reference_marker s"

definition material_marker_v11 :: "string \<Rightarrow> bool" where
  "material_marker_v11 s \<longleftrightarrow>
     email_marker s \<or> phone_marker_v11 s \<or> numeric_date_marker s \<or> named_date_marker s \<or> reference_marker s"

section \<open>Words and numbers\<close>

fun letter_run :: "categories \<Rightarrow> nat \<Rightarrow> nat list \<Rightarrow> bool" where
  "letter_run cat letters [] = False"
| "letter_run cat letters (c # cs) =
     (if cat c = CatLetter then (2 \<le> letters + 1 \<or> letter_run cat (letters + 1) cs)
      else if cat c = CatMark \<and> 0 < letters then letter_run cat letters cs
      else letter_run cat 0 cs)"

definition multi_letter_word :: "categories \<Rightarrow> string \<Rightarrow> bool" where
  "multi_letter_word cat s = letter_run cat 0 (map fst (utf8_chars s))"

definition digits_between :: "string \<Rightarrow> nat \<Rightarrow> nat \<Rightarrow> bool" where
  "digits_between s minimum maximum \<longleftrightarrow> minimum \<le> length s \<and> length s \<le> maximum \<and> list_all is_ascii_digit s"

definition date_stamp :: "string \<Rightarrow> bool" where
  "date_stamp s \<longleftrightarrow>
     char_count s \<le> 32
     \<and> (case split_whitespace s of
          [d, m] \<Rightarrow>
            (case split_at CHR ''/'' [] d of
               [a, b, y] \<Rightarrow> digits_between a 1 2 \<and> digits_between b 1 2 \<and> (digits_between y 2 2 \<or> digits_between y 4 4)
             | _ \<Rightarrow> False)
            \<and> (case split_at CHR ''-'' [] m of
                 [l, n] \<Rightarrow> 1 \<le> length l \<and> length l \<le> 2 \<and> list_all ascii_alphabetic l \<and> digits_between n 1 3
               | _ \<Rightarrow> False)
        | _ \<Rightarrow> False)"

text \<open>\<open>str::parse::<f64>\<close> succeeds on a sign, then \<open>inf\<close>, \<open>infinity\<close>, \<open>nan\<close> in any case, or a
  decimal number with an optional exponent.\<close>

definition unsigned_part :: "string \<Rightarrow> string" where
  "unsigned_part s = (case s of [] \<Rightarrow> [] | b # bs \<Rightarrow> if b \<in> set ''+-'' then bs else s)"

definition float_mantissa :: "string \<Rightarrow> bool" where
  "float_mantissa m \<longleftrightarrow>
     list_all (\<lambda>b. is_ascii_digit b \<or> b = CHR ''.'') m \<and> length (filter (\<lambda>b. b = CHR ''.'') m) \<le> 1 \<and> list_ex is_ascii_digit m"

definition float_number :: "string \<Rightarrow> bool" where
  "float_number s \<longleftrightarrow>
     float_mantissa (takeWhile (\<lambda>b. b \<notin> set ''eE'') s)
     \<and> (case dropWhile (\<lambda>b. b \<notin> set ''eE'') s of
          [] \<Rightarrow> True
        | _ # e \<Rightarrow> unsigned_part e \<noteq> [] \<and> list_all is_ascii_digit (unsigned_part e))"

definition parses_f64 :: "string \<Rightarrow> bool" where
  "parses_f64 s \<longleftrightarrow>
     to_ascii_lowercase (unsigned_part s) \<in> {''inf'', ''infinity'', ''nan''} \<or> float_number (unsigned_part s)"

definition value_signs :: "nat list" where "value_signs = [37, 8240, 8241, 176]"

definition single_letter_units :: "string list" where
  "single_letter_units = [''l'', ''L'', ''m'', ''g'', ''s'', ''A'', ''V'', ''W'', ''J'', ''K'', ''C'', ''F'']"

definition comparison_operators :: "string list" where
  "comparison_operators = [''<='', ''>='', ''!='', ''<'', ''>'', ''='',
     [CHR 0xE2, CHR 0x89, CHR 0xA4], [CHR 0xE2, CHR 0x89, CHR 0xA5], [CHR 0xE2, CHR 0x89, CHR 0xA0]]"

definition cell_text :: "string \<Rightarrow> string" where
  "cell_text = trim_matches (\<lambda>c. c \<in> {124, 59, 44})"

definition signed_value :: "unicode \<Rightarrow> categories \<Rightarrow> string \<Rightarrow> bool" where
  "signed_value u cat s \<longleftrightarrow> chars_any (uc_numeric u) s \<and> chars_any (\<lambda>c. cat c = CatCurrency \<or> c \<in> set value_signs) s"

definition compared_value :: "string list \<Rightarrow> nat \<Rightarrow> bool" where
  "compared_value tokens index =
     (let token = cell_text (tokens ! index) in
      list_ex (\<lambda>operator.
        let found = (if token = operator
                     then (if index + 1 < length tokens then Some (cell_text (tokens ! (index + 1))) else None)
                     else strip_prefix operator token)
        in case found of Some v \<Rightarrow> v \<noteq> [] \<and> parses_f64 v | None \<Rightarrow> False) comparison_operators)"

text \<open>A number with a unit of one letter, in one token or in two.\<close>

definition unit_value :: "unicode \<Rightarrow> string list \<Rightarrow> nat \<Rightarrow> bool" where
  "unit_value u tokens index =
     (let token = tokens ! index; cs = utf8_chars token;
          before = takeWhile (\<lambda>c. \<not> uc_alphabetic u (fst c)) cs; after = dropWhile (\<lambda>c. \<not> uc_alphabetic u (fst c)) cs
      in (after \<noteq> [] \<and> text_of after \<in> set single_letter_units \<and> parses_f64 (text_of before))
         \<or> (parses_f64 token \<and> index + 1 < length tokens \<and> tokens ! (index + 1) \<in> set single_letter_units))"

fun digit_run :: "(nat \<Rightarrow> bool) \<Rightarrow> nat \<Rightarrow> nat list \<Rightarrow> bool" where
  "digit_run numeric n [] = False"
| "digit_run numeric n (c # cs) =
     (if numeric c then (2 \<le> n + 1 \<or> digit_run numeric (n + 1) cs) else digit_run numeric 0 cs)"

definition numeric_line :: "unicode \<Rightarrow> string \<Rightarrow> bool" where
  "numeric_line u raw =
     (let line = trim raw; cs = map fst (utf8_chars line) in
      (line \<noteq> [] \<and> list_all (uc_numeric u) cs)
      \<or> digit_run (uc_numeric u) 0 cs
      \<or> 2 \<le> length (filter (\<lambda>t. parses_f64 (cell_text t)) (split_whitespace line)))"

definition numeric_content :: "unicode \<Rightarrow> categories \<Rightarrow> string \<Rightarrow> bool" where
  "numeric_content u cat s \<longleftrightarrow>
     (let tokens = split_whitespace s in
      signed_value u cat s
      \<or> list_ex (compared_value tokens) [0..<length tokens]
      \<or> list_ex (unit_value u tokens) [0..<length tokens]
      \<or> list_ex (numeric_line u) (lines s)
      \<or> (chars_any (uc_numeric u) s
         \<and> chars_all (\<lambda>c. uc_numeric u c \<or> is_whitespace c \<or> c \<in> {43, 45, 46, 44, 47, 58, 40, 41}) s))"

section \<open>Classification\<close>

datatype eligibility_omission = ScanNoise | DatePageStamp

definition unknown_character :: "categories \<Rightarrow> nat \<Rightarrow> bool" where
  "unknown_character cat c \<longleftrightarrow> cat c \<in> {CatUnassigned, CatPrivateUse, CatFormat}"

definition noise_character :: "categories \<Rightarrow> nat \<Rightarrow> bool" where
  "noise_character cat c \<longleftrightarrow> cat c \<in> {CatPunctuation, CatCurrency, CatOtherSymbol, CatControl}"

definition classify :: "unicode \<Rightarrow> categories \<Rightarrow> string \<Rightarrow> eligibility_omission option" where
  "classify u cat raw =
     (let s = trim raw; cs = filter (\<lambda>c. \<not> is_whitespace c) (map fst (utf8_chars s)) in
      if s = [] then None
      else if date_stamp s then Some DatePageStamp
      else if multi_letter_word cat s \<or> numeric_content u cat s then None
      else if list_ex (unknown_character cat) cs then None
      else if 0 < length cs \<and> length cs * 4 \<le> length (filter (noise_character cat) cs) * 5 then Some ScanNoise
      else None)"

definition prohibited_heading_words :: "string list" where
  "prohibited_heading_words = [''must'', ''shall'', ''may'', ''should'', ''not'', ''no'', ''except'', ''unless'', ''only'',
     ''required'', ''prohibited'', ''mandatory'', ''is'', ''are'', ''was'', ''were'', ''be'', ''has'', ''have'', ''will'',
     ''can'', ''cannot'', ''pay'', ''file'', ''submit'', ''retain'', ''keep'', ''wear'', ''apply'', ''applies'', ''do'',
     ''does'', ''never'', ''always'', ''due'', ''exempt'', ''excludes'', ''includes'']"

definition heading_connectives :: "string list" where
  "heading_connectives = [''of'', ''in'', ''and'', ''the'', ''for'', ''to'', ''on'', ''a'', ''an'']"

definition heading_admitted :: "unicode \<Rightarrow> string \<Rightarrow> bool" where
  "heading_admitted u raw =
     (let s = trim raw; words = split_whitespace s in
      char_count s \<le> 120 \<and> 2 \<le> length words \<and> length words \<le> 12
      \<and> chars_all (\<lambda>c. uc_alphabetic u c \<or> is_whitespace c) s
      \<and> list_all (\<lambda>w. let lower = uc_lowercase u w in
           lower \<notin> set prohibited_heading_words \<and> (starts_upper u w \<or> lower \<in> set heading_connectives)) words)"

section \<open>Noise has no words\<close>

lemma letter_run_pair:
  assumes "cat a = CatLetter" "cat b = CatLetter"
  shows "letter_run cat n (xs @ a # b # ys)"
  using assms by (induction xs arbitrary: n) auto

lemma digit_run_pair:
  assumes "numeric a" "numeric b"
  shows "digit_run numeric n (xs @ a # b # ys)"
  using assms by (induction xs arbitrary: n) auto

text \<open>Two neighbours in a list.\<close>

definition adjacent :: "('a \<Rightarrow> bool) \<Rightarrow> 'a list \<Rightarrow> bool" where
  "adjacent p xs \<longleftrightarrow> (\<exists>us a b vs. xs = us @ a # b # vs \<and> p a \<and> p b)"

lemma classify_noise:
  assumes "classify u cat raw = Some ScanNoise"
  shows "\<not> adjacent (\<lambda>c. cat c = CatLetter) (map fst (utf8_chars (trim raw)))"
    "line \<in> set (lines (trim raw)) \<Longrightarrow> \<not> adjacent (uc_numeric u) (map fst (utf8_chars (trim line)))"
    "let cs = filter (\<lambda>c. \<not> is_whitespace c) (map fst (utf8_chars (trim raw)))
     in cs \<noteq> [] \<and> length cs * 4 \<le> length (filter (noise_character cat) cs) * 5"
proof -
  from assms have no: "\<not> multi_letter_word cat (trim raw)" "\<not> numeric_content u cat (trim raw)"
    by (auto simp: classify_def Let_def split: if_splits)
  from no(1) show "\<not> adjacent (\<lambda>c. cat c = CatLetter) (map fst (utf8_chars (trim raw)))"
    unfolding adjacent_def multi_letter_word_def by (metis letter_run_pair)
  show "\<not> adjacent (uc_numeric u) (map fst (utf8_chars (trim line)))" if "line \<in> set (lines (trim raw))"
  proof -
    from no(2) that have "\<not> numeric_line u line"
      unfolding numeric_content_def Let_def list_ex_iff by blast
    then have "\<not> digit_run (uc_numeric u) 0 (map fst (utf8_chars (trim line)))" unfolding numeric_line_def Let_def by blast
    then show ?thesis unfolding adjacent_def by (metis digit_run_pair)
  qed
  from assms show "let cs = filter (\<lambda>c. \<not> is_whitespace c) (map fst (utf8_chars (trim raw)))
     in cs \<noteq> [] \<and> length cs * 4 \<le> length (filter (noise_character cat) cs) * 5"
    unfolding classify_def Let_def by (metis length_0_conv less_numeral_extra(3) option.distinct(1) option.sel eligibility_omission.distinct(1))
qed

end
