(* ===== verification/Page_Plan.thy ===== *)
theory Page_Plan
  imports Page_Eligibility Verified_Document
begin

text \<open>
  The plan of an analysis (\<open>summary/pages.rs\<close> and the selection of pages in \<open>pipeline/summary.rs\<close>):
  which pages are read and in which order, what the scope of one page is, which outcomes are admitted
  for it, and \<open>validate_plan\<close>, which replays the plan against a stored analysis. \<open>page_tools\<close> is what the
  plan needs from outside: the digest, the language, the category of a character, and \<open>serde_json\<close> on
  the blocks of a page and on the candidates of a scope. \<open>program_plans\<close> is the plan of the program; it
  instantiates the argument \<open>page_plans\<close> of the validator of analyses.
\<close>

record page_tools =
  pt_sha :: "string \<Rightarrow> string"
  pt_language :: language
  pt_categories :: categories
  pt_blocks_json :: "normalized_block list \<Rightarrow> string option"
  pt_candidates_json :: "(string \<times> string \<times> u32 \<times> string) list \<Rightarrow> string option"

abbreviation pt_unicode :: "page_tools \<Rightarrow> unicode" where
  "pt_unicode pt \<equiv> lg_unicode (pt_language pt)"

abbreviation page_invalid :: "string \<Rightarrow> pipeline_failure" where
  "page_invalid message \<equiv> stage_failure Analyze ''MODEL_EVIDENCE_RESPONSE_INVALID'' message True"

section \<open>Which pages are read\<close>

definition direct_retention_target :: "nat \<Rightarrow> pipeline_failure + nat" where
  "direct_retention_target page_count =
     res_bind (analysis_scope_minimum page_count) (\<lambda>acceptance.
     if page_count = 0 \<or> DIRECT_MAX_CLAIMS < acceptance
     then Inl (stage_failure Analyze ''ANALYSIS_COVERAGE_CAPACITY_UNSATISFIABLE''
       ''Raw page acceptance exceeds the one-to-one claim capacity'' False)
     else Inr (min (min page_count (acceptance + 16)) DIRECT_MAX_CLAIMS))"

definition RETENTION_WITHHELD_CLAIM_RESERVE :: nat where "RETENTION_WITHHELD_CLAIM_RESERVE = 1"

definition retention_invalid :: pipeline_failure where
  "retention_invalid = stage_failure Analyze ''INVALID_ANALYSIS_BUDGET''
     ''Retention requires native-text pages and checked coverage arithmetic'' False"

definition analysis_retention_target :: "nat \<Rightarrow> pipeline_failure + nat" where
  "analysis_retention_target native_pages =
     (if native_pages = 0 then Inl retention_invalid
      else
        res_bind (analysis_scope_minimum native_pages) (\<lambda>acceptance.
        res_bind (ok_or (usize_checked (min LEGACY_MAX_SUMMARY_CLAIMS (max 8 acceptance) * MAX_EVIDENCE_PER_CLAIM)) retention_invalid)
          (\<lambda>capacity.
        if capacity < acceptance
        then Inl (stage_failure Analyze ''ANALYSIS_COVERAGE_CAPACITY_UNSATISFIABLE''
          ''Native-page acceptance exceeds the bounded claim-reference capacity'' False)
        else
          res_bind (ok_or (usize_checked (RETENTION_WITHHELD_CLAIM_RESERVE * MAX_EVIDENCE_PER_CLAIM)) retention_invalid) (\<lambda>reserve.
          res_bind (ok_or (usize_checked (acceptance + reserve)) retention_invalid) (\<lambda>wanted.
          Inr (min (min native_pages wanted) capacity))))))"

definition native_page_numbers :: "normalized_document \<Rightarrow> u32 list" where
  "native_page_numbers normalized = map page_number (filter native_text_page (normalized_pages normalized))"

text \<open>The positions of \<open>additional\<close> pages spread over \<open>count\<close> unused ones.\<close>

definition spread_position :: "nat \<Rightarrow> nat \<Rightarrow> nat \<Rightarrow> nat" where
  "spread_position additional count index =
     (if additional \<le> 1 then count div 2 else index * (count - 1) div (additional - 1))"

definition versioned_analysis_selected_pages :: "normalized_document \<Rightarrow> string \<Rightarrow> pipeline_failure + u32 set" where
  "versioned_analysis_selected_pages normalized version =
     res_bind (analysis_selected_pages normalized) (\<lambda>selected_pages.
     if version \<notin> set (direct_claim_versions @ [DIRECT_ANALYSIS_VERSION, RETENTION_ANALYSIS_VERSION]) then Inr selected_pages
     else
       let pages = native_page_numbers normalized in
       res_bind (if version \<in> set (direct_claim_versions @ [DIRECT_ANALYSIS_VERSION])
           then direct_retention_target (length pages) else analysis_retention_target (length pages)) (\<lambda>target.
       let unused = filter (\<lambda>page. page \<notin> selected_pages) pages in
       res_bind (ok_or (usize_sub target (card selected_pages))
         (stage_failure Analyze ''INVALID_ANALYSIS_BUDGET'' ''Retention cannot shrink the historical sample'' False)) (\<lambda>additional.
       Inr (selected_pages \<union> (\<lambda>index. unused ! spread_position additional (length unused) index) ` set [0..<additional]))))"

text \<open>The order in which pages are read, and how many are to be retained.\<close>

definition versioned_plan :: "normalized_document \<Rightarrow> string \<Rightarrow> pipeline_failure + u32 list \<times> nat" where
  "versioned_plan normalized version =
     res_bind (versioned_analysis_selected_pages normalized version) (\<lambda>selected_pages.
     let pages = native_page_numbers normalized in
     Inr (filter (\<lambda>p. p \<in> selected_pages) pages @ filter (\<lambda>p. p \<notin> selected_pages) pages, card selected_pages))"

definition plan :: "normalized_document \<Rightarrow> pipeline_failure + u32 list \<times> nat" where
  "plan normalized = versioned_plan normalized ANALYSIS_VERSION"

section \<open>Outcomes of a page\<close>

definition fingerprint :: "page_tools \<Rightarrow> string option \<Rightarrow> pipeline_failure + string" where
  "fingerprint pt serialized =
     res_bind (ok_or serialized (page_invalid ''Cannot bind page analysis source'')) (\<lambda>s.
     Inr (deterministic_id (pt_sha pt) ''analysis-binding'' [ELIGIBILITY_VERSION, s]))"

definition find_page :: "u32 \<Rightarrow> normalized_document \<Rightarrow> normalized_page option" where
  "find_page number normalized = find (\<lambda>page. page_number page = number) (normalized_pages normalized)"

definition page_text :: "normalized_page \<Rightarrow> string" where
  "page_text page = join paragraph_break (map block_text (content page))"

definition prompt_candidates :: "analysis_scope \<Rightarrow> (string \<times> string \<times> u32 \<times> string) list" where
  "prompt_candidates scope =
     map (\<lambda>c. (selection_id c, quote_block_id c, quote_page_number c, quote_exact c)) (quote_candidates scope)"

definition heading_omission ::
  "page_tools \<Rightarrow> analysis_scope \<Rightarrow> document_chunk \<Rightarrow> normalized_document \<Rightarrow> pipeline_failure + analysis_page_omission" where
  "heading_omission pt scope chunk normalized =
     res_bind (ok_or (find_page (hd (scope_pages scope)) normalized) (page_invalid ''Unknown omission page'')) (\<lambda>page.
     res_bind (fingerprint pt (pt_blocks_json pt (content page))) (\<lambda>source.
     res_bind (fingerprint pt (pt_candidates_json pt (prompt_candidates scope))) (\<lambda>catalog.
     Inr \<lparr>omission_page_number = page_number page, omission_chunk_id = chunk_id chunk,
          omission_reason = NonSubstantivePageFurniture, omission_origin = OriginModelBareHeading,
          filter_version = ELIGIBILITY_VERSION, source_fingerprint = source, catalog_fingerprint = Some catalog\<rparr>)))"

definition content_omission ::
  "page_tools \<Rightarrow> analysis_scope \<Rightarrow> document_chunk \<Rightarrow> normalized_document \<Rightarrow> pipeline_failure + analysis_page_omission" where
  "content_omission pt scope chunk normalized =
     res_bind (heading_omission pt scope chunk normalized) (\<lambda>omission.
     Inr (omission\<lparr>omission_origin := OriginModelNoSubstantiveContent, omission_reason := NoSubstantiveContent\<rparr>))"

definition technical_omission ::
  "page_tools \<Rightarrow> analysis_scope \<Rightarrow> document_chunk \<Rightarrow> normalized_document \<Rightarrow> pipeline_failure + analysis_page_omission" where
  "technical_omission pt scope chunk normalized =
     res_bind (heading_omission pt scope chunk normalized) (\<lambda>omission.
     Inr (omission\<lparr>omission_origin := OriginParaphraseUnrepairable, omission_reason := ParaphraseUnrepairable\<rparr>))"

definition quote_boundary_omission ::
  "page_tools \<Rightarrow> string \<Rightarrow> u32 \<Rightarrow> document_chunk \<Rightarrow> normalized_document \<Rightarrow> pipeline_failure + analysis_page_omission" where
  "quote_boundary_omission pt version number chunk normalized =
     res_bind (ok_or (find_page number normalized) (page_invalid ''Unknown quote-boundary omission page'')) (\<lambda>page.
     res_bind (fingerprint pt (pt_blocks_json pt (content page))) (\<lambda>source.
     Inr \<lparr>omission_page_number = number, omission_chunk_id = chunk_id chunk, omission_reason = QuoteBoundaryUnusable,
          omission_origin = OriginQuoteBoundaryUnusable, filter_version = version, source_fingerprint = source,
          catalog_fingerprint = None\<rparr>))"

definition furniture_omission ::
  "page_tools \<Rightarrow> u32 \<Rightarrow> document_chunk \<Rightarrow> normalized_page \<Rightarrow> pipeline_failure + analysis_page_omission option" where
  "furniture_omission pt number chunk page =
     (case classify (pt_unicode pt) (pt_categories pt) (page_text page) of
        None \<Rightarrow> Inr None
      | Some found \<Rightarrow>
          res_bind (fingerprint pt (pt_blocks_json pt (content page))) (\<lambda>source.
          Inr (Some \<lparr>omission_page_number = number, omission_chunk_id = chunk_id chunk,
            omission_reason = NonSubstantivePageFurniture,
            omission_origin = (case found of ScanNoise \<Rightarrow> OriginScanNoise | DatePageStamp \<Rightarrow> OriginDatePageStamp),
            filter_version = ELIGIBILITY_VERSION, source_fingerprint = source, catalog_fingerprint = None\<rparr>)))"

definition whole_page_quote :: "analysis_scope \<Rightarrow> string \<Rightarrow> normalized_document \<Rightarrow> bool" where
  "whole_page_quote scope quote normalized =
     (case find (\<lambda>page. scope_pages scope = [page_number page]) (normalized_pages normalized) of
        None \<Rightarrow> False
      | Some page \<Rightarrow> \<not> blank (page_text page) \<and> split_whitespace (page_text page) = split_whitespace quote)"

definition model_omission_admitted :: "analysis_scope \<Rightarrow> string \<Rightarrow> normalized_document \<Rightarrow> bool" where
  "model_omission_admitted scope quote normalized \<longleftrightarrow> whole_page_quote scope quote normalized \<and> \<not> material_marker quote"

definition model_omission_admitted_v11 :: "analysis_scope \<Rightarrow> string \<Rightarrow> normalized_document \<Rightarrow> bool" where
  "model_omission_admitted_v11 scope quote normalized \<longleftrightarrow> whole_page_quote scope quote normalized \<and> \<not> material_marker_v11 quote"

section \<open>The scope of one page\<close>

definition MAX_CHUNK_INPUT_CHARACTERS :: nat where "MAX_CHUNK_INPUT_CHARACTERS = 100000"

text \<open>
  The chunk that holds the page with its index, the scope, the omission that is certain without a
  model, whether a bare heading may be left out, and how much of the source could not be quoted.
\<close>

record page_reading =
  reading_index :: nat
  reading_scope :: analysis_scope
  reading_omission :: "analysis_page_omission option"
  reading_heading :: bool
  reading_units :: nat

definition find_chunk :: "string list \<Rightarrow> chunked_document \<Rightarrow> (nat \<times> document_chunk) option" where
  "find_chunk ids chunked =
     find (\<lambda>(_, chunk). ids \<noteq> [] \<and> set ids \<subseteq> set (chunk_block_ids chunk)) (enumerate 0 (chunks chunked))"

definition page_catalog ::
  "page_tools \<Rightarrow> string \<Rightarrow> document_chunk \<Rightarrow> normalized_document \<Rightarrow> string list \<Rightarrow> bool \<Rightarrow> pipeline_failure + quote_catalog" where
  "page_catalog pt version chunk normalized ids omitted =
     (if omitted then Inr ([], 0)
      else build_versioned_analysis_quote_catalog_for_blocks (pt_sha pt) (pt_language pt) version chunk
        (blocks_by_id (document_blocks normalized)) ids)"

definition read_page_scope ::
  "page_tools \<Rightarrow> string \<Rightarrow> u32 \<Rightarrow> chunked_document \<Rightarrow> normalized_document \<Rightarrow> pipeline_failure + page_reading" where
  "read_page_scope pt version number chunked normalized =
     res_bind (ok_or (find_page number normalized) (page_invalid ''Unknown page'')) (\<lambda>page.
     let ids = map block_id (content page) in
     res_bind (ok_or (find_chunk ids chunked)
       (page_invalid ''Page analysis requires complete source blocks, not a partial catalog'')) (\<lambda>(index, chunk).
     res_bind (ensure (char_count (chunk_text chunk) \<le> MAX_CHUNK_INPUT_CHARACTERS)
       (stage_failure Analyze ''CHUNK_INPUT_TOO_LARGE'' ''Source chunk exceeds analysis admission limit'' False)) (\<lambda>_.
     res_bind (furniture_omission pt number chunk page) (\<lambda>furniture.
     res_bind (page_catalog pt version chunk normalized ids (furniture \<noteq> None)) (\<lambda>(candidates, units).
     res_bind (if furniture = None \<and> version \<in> {ANALYSIS_VERSION, SENTENCE_ANALYSIS_VERSION} \<and> candidates = []
         then res_bind (quote_boundary_omission pt version number chunk normalized) (Inr \<circ> Some)
         else Inr furniture) (\<lambda>omission.
     Inr \<lparr>reading_index = index,
          reading_scope = \<lparr>scope_pages = [number], scope_block_ids = ids, minimum_evidence = 1, maximum_evidence = 1,
            quote_candidates = candidates\<rparr>,
          reading_omission = omission, reading_heading = heading_admitted (pt_unicode pt) (page_text page),
          reading_units = units\<rparr>))))))"

section \<open>Replaying the plan\<close>

definition SUMMARY_TRUNCATED_FOR_DELIVERY :: string where
  "SUMMARY_TRUNCATED_FOR_DELIVERY = ''SUMMARY_TRUNCATED_FOR_DELIVERY''"

definition QUOTE_BOUNDARY_OMITTED :: string where "QUOTE_BOUNDARY_OMITTED = ''ANALYSIS_QUOTE_BOUNDARY_OMITTED''"

definition analyze_warning :: "string \<Rightarrow> string \<Rightarrow> pipeline_warning" where
  "analyze_warning code message = \<lparr>warning_code = code, warning_message = message, warning_stage = Some Analyze\<rparr>"

definition delivery_truncation_warning :: pipeline_warning where
  "delivery_truncation_warning = analyze_warning SUMMARY_TRUNCATED_FOR_DELIVERY
     ''Connect delivery byte ceiling reached; later page analysis was not scheduled''"

definition quote_boundary_warning :: "nat \<Rightarrow> nat \<Rightarrow> pipeline_warning" where
  "quote_boundary_warning affected_pages units = analyze_warning QUOTE_BOUNDARY_OMITTED
     (show_nat units @ '' '' @ (if units = 1 then ''source unit'' else ''source units'') @ '' on ''
      @ show_nat affected_pages @ '' '' @ (if affected_pages = 1 then ''inspected page'' else ''inspected pages'')
      @ '' had no safe complete quotation within the '' @ show_nat MAX_ANALYSIS_QUOTE_CHARACTERS
      @ ''-character limit and remain in coverage denominators'')"

definition warnings_with :: "string \<Rightarrow> pipeline_warning list \<Rightarrow> pipeline_warning list" where
  "warnings_with code ws = filter (\<lambda>w. warning_code w = code) ws"

text \<open>\<open>U+FFFD\<close> in the text of a page, or text that reads as noise.\<close>

definition REPLACEMENT_CHARACTER :: string where "REPLACEMENT_CHARACTER = [CHR 0xEF, CHR 0xBF, CHR 0xBD]"

definition ocr_text_layer_structure_risk :: "page_tools \<Rightarrow> normalized_document \<Rightarrow> bool" where
  "ocr_text_layer_structure_risk pt normalized =
     list_ex (\<lambda>page.
       let textual = join paragraph_break (map block_text
             (filter (\<lambda>b. is_textual (span_source_type (block_source b))) (content page)))
       in contains_str textual REPLACEMENT_CHARACTER
          \<or> classify (pt_unicode pt) (pt_categories pt) textual = Some ScanNoise) (normalized_pages normalized)"

text \<open>An arm of the \<open>match\<close> whose guard compares with an omission that may fail to be built.\<close>

definition outcome_arm ::
  "bool \<Rightarrow> analysis_page_omission \<Rightarrow> pipeline_failure + analysis_page_omission \<Rightarrow> pipeline_failure + bool \<Rightarrow> pipeline_failure + bool" where
  "outcome_arm admitted actual made otherwise =
     (if admitted then res_bind made (\<lambda>expected. if actual = expected then Inr False else otherwise) else otherwise)"

definition outcome_mismatch :: pipeline_failure where
  "outcome_mismatch = page_invalid ''Page outcome does not match complete-source eligibility and plan''"

text \<open>Whether the page is retained; \<open>Inl\<close> when its outcome is not admitted.\<close>

definition page_outcome ::
  "page_tools \<Rightarrow> string \<Rightarrow> chunked_document \<Rightarrow> normalized_document \<Rightarrow> page_reading \<Rightarrow> analysis_page_omission option \<Rightarrow> bool \<Rightarrow>
   pipeline_failure + bool" where
  "page_outcome pt version chunked normalized reading omitted retained_page =
     (let scope = reading_scope reading; chunk = chunks chunked ! reading_index reading;
          some_quote = (\<lambda>p. list_ex (\<lambda>c. p scope (quote_exact c) normalized) (quote_candidates scope))
      in case (omitted, reading_omission reading) of
           (Some actual, Some required) \<Rightarrow> if actual = required then Inr False else Inl outcome_mismatch
         | (Some actual, None) \<Rightarrow>
             outcome_arm (reading_heading reading) actual (heading_omission pt scope chunk normalized)
            (outcome_arm (version \<in> set suffix_versions \<and> some_quote model_omission_admitted) actual
               (content_omission pt scope chunk normalized)
            (outcome_arm (version = PUNCTUATION_ANALYSIS_VERSION \<and> some_quote model_omission_admitted_v11) actual
               (content_omission pt scope chunk normalized)
            (outcome_arm (version \<in> {TOLERANT_ANALYSIS_VERSION, DIRECT_ANALYSIS_VERSION} \<and> some_quote whole_page_quote) actual
               (content_omission pt scope chunk normalized)
            (outcome_arm (version \<in> set direct_claim_versions) actual (technical_omission pt scope chunk normalized)
               (Inl outcome_mismatch)))))
         | (None, None) \<Rightarrow> if retained_page then Inr True else Inl outcome_mismatch
         | (None, Some _) \<Rightarrow> Inl outcome_mismatch)"

definition evidence_pages :: "analyzed_document \<Rightarrow> u32 list" where
  "evidence_pages analyzed = map (page_start \<circ> evidence_source_span) (ledger_evidence analyzed)"

definition omission_of :: "analyzed_document \<Rightarrow> u32 \<Rightarrow> analysis_page_omission option" where
  "omission_of analyzed number = map_of (map (\<lambda>o'. (omission_page_number o', o')) (omissions analyzed)) number"

text \<open>The pages read and how many of them are held.\<close>

fun replay_plan ::
  "page_tools \<Rightarrow> analyzed_document \<Rightarrow> chunked_document \<Rightarrow> normalized_document \<Rightarrow> bool \<Rightarrow> nat \<Rightarrow> nat \<Rightarrow> u32 list \<Rightarrow>
   pipeline_failure + u32 list \<times> nat" where
  "replay_plan pt analyzed chunked normalized stopped target held [] = Inr ([], held)"
| "replay_plan pt analyzed chunked normalized stopped target held (page # pages) =
     (if held = target then Inr ([], held)
      else if stopped \<and> inspected_pages analyzed \<noteq> [] \<and> last (inspected_pages analyzed) = page
        \<and> page \<notin> set (evidence_pages analyzed) \<and> omission_of analyzed page = None
      then Inr ([page], held)
      else
        res_bind (read_page_scope pt (analysis_version analyzed) page chunked normalized) (\<lambda>reading.
        res_bind (page_outcome pt (analysis_version analyzed) chunked normalized reading (omission_of analyzed page)
          (page \<in> set (evidence_pages analyzed))) (\<lambda>kept.
        res_bind (replay_plan pt analyzed chunked normalized stopped target (if kept then held + 1 else held) pages)
          (\<lambda>(expected, n). Inr (page # expected, n)))))"

definition delivered_line :: "evidence_item \<Rightarrow> string" where
  "delivered_line e = evidence_claim_text e @ '' '' @ citation_label [evidence_source_span e]"

definition delivered_length :: "evidence_item list \<Rightarrow> nat" where
  "delivered_length items = length (join paragraph_break (map delivered_line (sort_key (page_start \<circ> evidence_source_span) items)))"

definition add_units ::
  "page_tools \<Rightarrow> string \<Rightarrow> chunked_document \<Rightarrow> normalized_document \<Rightarrow> nat \<times> nat \<Rightarrow> u32 \<Rightarrow> pipeline_failure + nat \<times> nat" where
  "add_units pt version chunked normalized st page =
     res_bind (read_page_scope pt version page chunked normalized) (\<lambda>reading.
     if reading_units reading = 0 then Inr st
     else res_bind (ok_or (usize_checked (snd st + reading_units reading))
         (page_invalid ''Quote-boundary omission count exceeds its range'')) (\<lambda>units. Inr (fst st + 1, units)))"

definition MAX_DELIVERY_SUMMARY_TEXT_BYTES :: nat where "MAX_DELIVERY_SUMMARY_TEXT_BYTES = 1024 * 1024"

definition long_claim :: "evidence_item \<Rightarrow> bool" where
  "long_claim e \<longleftrightarrow> MAX_ANALYSIS_CLAIM_CHARACTERS < char_count (evidence_claim_text e)"

definition technical :: "analysis_page_omission \<Rightarrow> bool" where
  "technical o' \<longleftrightarrow> omission_origin o' = OriginParaphraseUnrepairable"

definition counted_warnings :: "page_tools \<Rightarrow> analyzed_document \<Rightarrow> normalized_document \<Rightarrow> bool" where
  "counted_warnings pt analyzed normalized \<longleftrightarrow>
     list_all (\<lambda>(code, expected). length (warnings_with code (analyzed_warnings analyzed)) = (if expected then 1 else 0))
       [(''LONG_CLAIM'', list_ex long_claim (ledger_evidence analyzed)),
        (''PARAPHRASE_UNREPAIRABLE'', list_ex technical (omissions analyzed)),
        (''OCR_TEXT_LAYER_STRUCTURE_RISK'', ocr_text_layer_structure_risk pt normalized)]"

definition check_delivery_stop :: "analyzed_document \<Rightarrow> bool \<Rightarrow> nat \<Rightarrow> nat \<Rightarrow> pipeline_failure + unit" where
  "check_delivery_stop analyzed stopped held target =
     (if \<not> stopped then Inr ()
      else
        res_bind (ensure (ledger_evidence analyzed \<noteq> [])
          (page_invalid ''Delivery truncation cannot produce an empty summary prefix'')) (\<lambda>_.
        ensure (delivered_length (ledger_evidence analyzed) \<le> MAX_DELIVERY_SUMMARY_TEXT_BYTES \<and> held < target)
          (page_invalid ''Delivery truncation must retain a bounded prefix below the normal target'')))"

definition check_boundary_warning ::
  "page_tools \<Rightarrow> analyzed_document \<Rightarrow> chunked_document \<Rightarrow> normalized_document \<Rightarrow> pipeline_failure + unit" where
  "check_boundary_warning pt analyzed chunked normalized =
     res_bind (if analysis_version analyzed \<in> {ANALYSIS_VERSION, SENTENCE_ANALYSIS_VERSION}
         then res_fold (add_units pt (analysis_version analyzed) chunked normalized) (0, 0) (inspected_pages analyzed)
         else Inr (0, 0)) (\<lambda>(affected, units).
     ensure (warnings_with QUOTE_BOUNDARY_OMITTED (analyzed_warnings analyzed)
         = (if 0 < units then [quote_boundary_warning affected units] else []))
       (page_invalid ''Quote-boundary omissions require one canonical source-derived warning''))"

definition validate_page_plan ::
  "page_tools \<Rightarrow> analyzed_document \<Rightarrow> chunked_document \<Rightarrow> normalized_document \<Rightarrow> pipeline_failure + u32 set" where
  "validate_page_plan pt analyzed chunked normalized =
     res_bind (versioned_plan normalized (analysis_version analyzed)) (\<lambda>(pages, target).
     let truncations = warnings_with SUMMARY_TRUNCATED_FOR_DELIVERY (analyzed_warnings analyzed);
         stopped = (length truncations = 1); inspected = inspected_pages analyzed;
         has_warning = (\<lambda>code. list_ex (\<lambda>w. warning_code w = code) (analyzed_warnings analyzed));
         shortfall = has_warning COVERAGE_SHORTFALL_WARNING_CODE
     in res_bind (ensure (length truncations \<le> 1 \<and> (stopped \<longrightarrow> hd truncations = delivery_truncation_warning))
          (page_invalid ''Delivery truncation requires one canonical durable warning'')) (\<lambda>_.
        res_bind (ensure (distinct (evidence_pages analyzed)) (page_invalid ''Duplicate page evidence'')) (\<lambda>_.
        res_bind (ensure (distinct (map omission_page_number (omissions analyzed))
            \<and> set (map omission_page_number (omissions analyzed)) \<inter> set (evidence_pages analyzed) = {})
          (page_invalid ''Mixed or duplicate page outcomes'')) (\<lambda>_.
        res_bind (replay_plan pt analyzed chunked normalized stopped target 0 pages) (\<lambda>(expected, held).
        res_bind (ensure (expected = inspected
            \<and> length expected = length (evidence_pages analyzed) + length (omissions analyzed) + (if stopped then 1 else 0))
          (page_invalid ''Analysis does not match deterministic initial/backfill stopping plan'')) (\<lambda>_.
        res_bind (check_delivery_stop analyzed stopped held target) (\<lambda>_.
        res_bind (ensure (omissions analyzed = [] \<or> has_warning ''ANALYSIS_PAGE_OMITTED'')
          (page_invalid ''Recorded omissions require a durable warning'')) (\<lambda>_.
        res_bind (ensure (\<not> (stopped \<and> shortfall))
          (page_invalid ''Delivery truncation must not masquerade as exhausted page inspection'')) (\<lambda>_.
        res_bind (ensure (\<not> (held < target \<and> \<not> stopped \<and> \<not> shortfall))
          (page_invalid ''Exhausted page plan requires a durable shortfall warning'')) (\<lambda>_.
        res_bind (check_boundary_warning pt analyzed chunked normalized) (\<lambda>_.
        res_bind (ensure (analysis_version analyzed \<in> set direct_claim_versions \<longrightarrow> counted_warnings pt analyzed normalized)
          (page_invalid ''Versioned analysis warnings do not match source outcomes'')) (\<lambda>_.
        Inr (set (evidence_pages analyzed))))))))))))))"

section \<open>The scopes of earlier versions\<close>

definition PREVIOUS_ANALYSIS_OUTPUT_TOKENS :: u32 where "PREVIOUS_ANALYSIS_OUTPUT_TOKENS = 1024"
definition ANALYSIS_RESPONSE_ENVELOPE_TOKENS :: u32 where "ANALYSIS_RESPONSE_ENVELOPE_TOKENS = 192"
definition ANALYSIS_EVIDENCE_ITEM_TOKENS :: u32 where "ANALYSIS_EVIDENCE_ITEM_TOKENS = 92"

abbreviation budget_invalid :: "string \<Rightarrow> pipeline_failure" where
  "budget_invalid message \<equiv> stage_failure Analyze ''INVALID_ANALYSIS_BUDGET'' message False"

definition analysis_evidence_quota :: "pipeline_failure + nat" where
  "analysis_evidence_quota =
     res_bind (ok_or (checked_sub_u32 PREVIOUS_ANALYSIS_OUTPUT_TOKENS ANALYSIS_RESPONSE_ENVELOPE_TOKENS)
       (budget_invalid ''The analysis response envelope exceeds the output token budget'')) (\<lambda>usable.
     let quota = unat (usable div ANALYSIS_EVIDENCE_ITEM_TOKENS) in
     if 0 < quota then Inr quota
     else Inl (budget_invalid ''The analysis output token budget cannot hold one evidence item''))"

definition analysis_scope_page_limit :: "nat \<Rightarrow> pipeline_failure + nat" where
  "analysis_scope_page_limit quota =
     (case usize_checked (quota * 5) of
        None \<Rightarrow> Inl (budget_invalid ''The analysis evidence quota cannot produce a non-empty page scope'')
      | Some scaled \<Rightarrow>
          (if 0 < scaled div 3 then Inr (scaled div 3)
           else Inl (budget_invalid ''The analysis evidence quota cannot produce a non-empty page scope'')))"

definition group_block ::
  "block_index \<Rightarrow> (u32 \<times> string list) list \<Rightarrow> string \<Rightarrow> pipeline_failure + (u32 \<times> string list) list" where
  "group_block blocks groups i =
     res_bind (ok_or (blocks i) (boundary_invalid ''Analysis scope construction encountered an unknown normalized block'')) (\<lambda>b.
     let page = page_start (block_source b) in
     Inr (if page \<in> set (map fst groups)
          then map (\<lambda>(p, ids). if p = page then (p, ids @ [i]) else (p, ids)) groups
          else groups @ [(page, [i])]))"

text \<open>\<open>slice::chunks\<close> for a positive length.\<close>

fun pieces_of :: "nat \<Rightarrow> 'a list \<Rightarrow> 'a list list" where
  "pieces_of n [] = []"
| "pieces_of n (x # xs) = (x # take (n - 1) xs) # pieces_of n (drop (n - 1) xs)"

definition floor_unsatisfiable :: "string \<Rightarrow> pipeline_failure" where
  "floor_unsatisfiable message = stage_failure Analyze ''ANALYSIS_SCOPE_EVIDENCE_FLOOR_UNSATISFIABLE'' message False"

definition group_scope ::
  "page_tools \<Rightarrow> string \<Rightarrow> document_chunk \<Rightarrow> block_index \<Rightarrow> nat \<Rightarrow> (u32 \<times> string list) list \<Rightarrow> pipeline_failure + analysis_scope" where
  "group_scope pt version chunk blocks quota members =
     (let pages = map fst members; ids = concat (map snd members) in
      res_bind (build_versioned_analysis_quote_catalog_for_blocks (pt_sha pt) (pt_language pt) version chunk blocks ids)
        (\<lambda>(candidates, _).
      res_bind (analysis_scope_minimum (length pages)) (\<lambda>minimum.
      let maximum = min quota (length candidates) in
      res_bind (ensure (\<not> (maximum < minimum \<or> \<not> set pages \<subseteq> set (map quote_page_number candidates)))
        (floor_unsatisfiable ''A page scope does not contain enough distinct quote candidates for its evidence floor'')) (\<lambda>_.
      Inr \<lparr>scope_pages = pages, scope_block_ids = ids, minimum_evidence = minimum, maximum_evidence = maximum,
           quote_candidates = candidates\<rparr>))))"

definition build_page_scopes ::
  "page_tools \<Rightarrow> string \<Rightarrow> document_chunk \<Rightarrow> block_index \<Rightarrow> bool \<Rightarrow> pipeline_failure + analysis_scope list" where
  "build_page_scopes pt version chunk blocks previous =
     res_bind (if previous then analysis_evidence_quota else Inr 1) (\<lambda>quota.
     res_bind (if previous then analysis_scope_page_limit quota else Inr 1) (\<lambda>limit.
     res_bind (res_fold (group_block blocks) [] (chunk_block_ids chunk)) (\<lambda>groups.
     res_bind (res_collect (group_scope pt version chunk blocks quota) (pieces_of limit groups)) (\<lambda>scopes.
     res_bind (ensure (scopes \<noteq> [])
       (floor_unsatisfiable ''A source chunk did not contain any native-text page scope'')) (\<lambda>_.
     Inr scopes)))))"

definition program_plans :: "page_tools \<Rightarrow> page_plans" where
  "program_plans pt =
     \<lparr>validate_plan = validate_page_plan pt,
      versioned_page_scope = (\<lambda>version page chunked normalized.
        res_bind (read_page_scope pt version page chunked normalized) (Inr \<circ> reading_scope)),
      build_versioned_analysis_scopes = build_page_scopes pt\<rparr>"

section \<open>The plan reads every page once\<close>

lemma spread_step:
  assumes "i < j" "j < a" "a \<le> n"
  shows "i * (n - 1) div (a - 1) < j * (n - 1) div (a - (1 :: nat))"
proof -
  from assms have a: "0 < a - 1" by simp
  have "i * (n - 1) + (a - 1) \<le> i * (n - 1) + (n - 1)" using assms(3) by simp
  also have "\<dots> = Suc i * (n - 1)" by simp
  also have "\<dots> \<le> j * (n - 1)" using assms(1) by (intro mult_right_mono) simp_all
  finally have "(i * (n - 1) + (a - 1)) div (a - 1) \<le> j * (n - 1) div (a - 1)" by (rule div_le_mono)
  moreover have "(i * (n - 1) + (a - 1)) div (a - 1) = i * (n - 1) div (a - 1) + 1"
    by (rule div_add_self2) (use a in simp)
  ultimately show ?thesis by simp
qed

lemma spread_bound:
  assumes "i < a" "a \<le> n"
  shows "i * (n - 1) div (a - 1) < (n :: nat)"
proof (cases "a - 1 = 0")
  case True
  then show ?thesis using assms by simp
next
  case False
  have "i * (n - 1) \<le> (a - 1) * (n - 1)" using assms(1) by (intro mult_right_mono) simp_all
  then have "i * (n - 1) div (a - 1) \<le> (a - 1) * (n - 1) div (a - 1)" by (rule div_le_mono)
  also have "\<dots> = n - 1" using False by simp
  finally show ?thesis using assms by simp
qed

lemma spread_inj: "a \<le> n \<Longrightarrow> inj_on (\<lambda>i. i * (n - 1) div (a - (1 :: nat))) {0..<a}"
proof (rule inj_onI)
  fix i j assume "a \<le> n" "i \<in> {0..<a}" "j \<in> {0..<a}" "i * (n - 1) div (a - 1) = j * (n - 1) div (a - 1)"
  then show "i = j" using spread_step [of i j a n] spread_step [of j i a n] by (cases i j rule: linorder_cases) auto
qed

lemma card_nths_at:
  assumes "distinct xs" "inj_on f {0..<a}" "\<And>i. i < a \<Longrightarrow> f i < length xs"
  shows "card ((\<lambda>i. xs ! f i) ` {0..<a}) = a" "(\<lambda>i. xs ! f i) ` {0..<a} \<subseteq> set xs"
proof -
  have "inj_on (\<lambda>i. xs ! f i) {0..<a}"
  proof (rule inj_onI)
    fix i j assume ij: "i \<in> {0..<a}" "j \<in> {0..<a}" "xs ! f i = xs ! f j"
    then have "f i = f j" using assms(1,3) by (simp add: nth_eq_iff_index_eq)
    then show "i = j" using assms(2) ij by (simp add: inj_on_def)
  qed
  then show "card ((\<lambda>i. xs ! f i) ` {0..<a}) = a" by (simp add: card_image)
  show "(\<lambda>i. xs ! f i) ` {0..<a} \<subseteq> set xs" using assms(3) by auto
qed

lemma spread_pages:
  assumes "distinct xs" "a \<le> length xs"
  shows "card ((\<lambda>i. xs ! spread_position a (length xs) i) ` {0..<a}) = a"
    "(\<lambda>i. xs ! spread_position a (length xs) i) ` {0..<a} \<subseteq> set xs"
proof -
  have "inj_on (spread_position a (length xs)) {0..<a}"
    using spread_inj [OF assms(2)] by (cases "a \<le> 1") (auto simp: spread_position_def inj_on_def)
  moreover have "spread_position a (length xs) i < length xs" if "i < a" for i
    using spread_bound [OF that assms(2)] that assms(2) by (auto simp: spread_position_def)
  ultimately show "card ((\<lambda>i. xs ! spread_position a (length xs) i) ` {0..<a}) = a"
    "(\<lambda>i. xs ! spread_position a (length xs) i) ` {0..<a} \<subseteq> set xs"
    using card_nths_at [OF assms(1)] by blast+
qed

lemma spaced_pages:
  assumes "distinct xs" "a \<le> length xs"
  shows "card ((\<lambda>i. xs ! spaced_index a (length xs) i) ` {0..<a}) = a"
    "(\<lambda>i. xs ! spaced_index a (length xs) i) ` {0..<a} \<subseteq> set xs"
proof -
  have "inj_on (spaced_index a (length xs)) {0..<a}"
    using spread_inj [OF assms(2)] by (cases "a \<le> 1") (auto simp: spaced_index_def inj_on_def)
  moreover have "spaced_index a (length xs) i < length xs" if "i < a" for i
    using spread_bound [OF that assms(2)] that assms(2) by (auto simp: spaced_index_def)
  ultimately show "card ((\<lambda>i. xs ! spaced_index a (length xs) i) ` {0..<a}) = a"
    "(\<lambda>i. xs ! spaced_index a (length xs) i) ` {0..<a} \<subseteq> set xs"
    using card_nths_at [OF assms(1)] by blast+
qed

definition acceptance :: "nat \<Rightarrow> nat" where "acceptance n = max 1 ((n * 3 + 4) div 5)"

lemma scope_minimum_acceptance: "n * 3 + 4 < 2 ^ 64 \<Longrightarrow> analysis_scope_minimum n = Inr (acceptance n)"
  by (simp add: analysis_scope_minimum_def acceptance_def)

lemma sample_size: "max (min 64 (max 8 k)) (max 1 k) = max 8 (max 1 (k :: nat))"
  by (cases "k \<le> 8"; cases "k \<le> 64") simp_all

lemma sampled_pages:
  assumes "distinct (native_page_numbers normalized)" "length (native_page_numbers normalized) = n" "n * 3 + 4 < 2 ^ 64"
  obtains ps where "analysis_selected_pages normalized = Inr ps" "card ps = min n (max 8 (acceptance n))"
    "ps \<subseteq> set (native_page_numbers normalized)"
proof -
  let ?pages = "native_page_numbers normalized"
  have budget: "document_claim_budget normalized = Inr (min 64 (max 8 ((n * 3 + 4) div 5)))"
    using assms(3) assms(2) [unfolded native_page_numbers_def length_map]
    by (simp only: document_claim_budget_def Let_def if_True ok_or.simps res_bind.simps)
  have target: "max (min 64 (max 8 ((n * 3 + 4) div 5))) (acceptance n) = max 8 (acceptance n)"
    unfolding acceptance_def by (rule sample_size)
  have sel: "analysis_selected_pages normalized
      = Inr ((\<lambda>i. ?pages ! spaced_index (min n (max 8 (acceptance n))) n i) ` {0..<min n (max 8 (acceptance n))})"
    by (simp only: analysis_selected_pages_def native_page_numbers_def [symmetric] Let_def assms(2)
        scope_minimum_acceptance [OF assms(3)] budget target res_bind.simps set_upt)
  note spaced = spaced_pages [OF assms(1), of "min n (max 8 (acceptance n))", unfolded assms(2)]
  show ?thesis by (rule that [OF sel spaced]) simp_all
qed

lemma direct_target:
  assumes "n * 3 + 4 < 2 ^ 64"
  shows "direct_retention_target n =
    (if n = 0 \<or> 512 < acceptance n
     then Inl (stage_failure Analyze ''ANALYSIS_COVERAGE_CAPACITY_UNSATISFIABLE''
       ''Raw page acceptance exceeds the one-to-one claim capacity'' False)
     else Inr (min (min n (acceptance n + 16)) 512))"
  using scope_minimum_acceptance [OF assms] by (simp add: direct_retention_target_def DIRECT_MAX_CLAIMS_def)

lemma retention_selection:
  assumes "distinct (native_page_numbers normalized)" "length (native_page_numbers normalized) = n"
    and n: "0 < n" "acceptance n \<le> 512" "n * 3 + 4 < 2 ^ 64"
  obtains ps where "versioned_analysis_selected_pages normalized ANALYSIS_VERSION = Inr ps"
    "card ps = min (min n (acceptance n + 16)) 512" "ps \<subseteq> set (native_page_numbers normalized)"
proof -
  let ?pages = "native_page_numbers normalized" and ?t = "min (min n (acceptance n + 16)) 512"
  obtain ps where ps: "analysis_selected_pages normalized = Inr ps" "card ps = min n (max 8 (acceptance n))" "ps \<subseteq> set ?pages"
    using sampled_pages [OF assms(1,2) n(3)] by blast
  let ?unused = "filter (\<lambda>page. page \<notin> ps) ?pages" and ?a = "?t - card ps"
  have le: "card ps \<le> ?t" using ps(2) n(2) by auto
  have fin: "finite ps" using ps(3) by (rule finite_subset) simp
  have "card (set ?pages - ps) = card (set ?pages) - card ps" by (rule card_Diff_subset [OF fin ps(3)])
  moreover have "card (set ?pages) = n" using assms(1,2) distinct_card by blast
  moreover have "card (set ?unused) = length ?unused" by (rule distinct_card) (use assms(1) in simp)
  moreover have "set ?unused = set ?pages - ps" by auto
  ultimately have len: "length ?unused = n - card ps" by simp
  have a: "?a \<le> length ?unused" unfolding len by (rule diff_le_mono) simp
  let ?more = "(\<lambda>i. ?unused ! spread_position ?a (length ?unused) i) ` {0..<?a}"
  have distinct: "distinct ?unused" using assms(1) by simp
  note more = spread_pages [OF distinct a]
  have current: "(ANALYSIS_VERSION \<in> set (direct_claim_versions @ [DIRECT_ANALYSIS_VERSION, RETENTION_ANALYSIS_VERSION])) = True"
    "(ANALYSIS_VERSION \<in> set (direct_claim_versions @ [DIRECT_ANALYSIS_VERSION])) = True"
    by (simp_all add: direct_claim_versions_def suffix_versions_def)
  have some: "(n = 0 \<or> 512 < acceptance n) = False" using n(1,2) by auto
  have target: "direct_retention_target n = Inr ?t" unfolding direct_target [OF n(3)] some if_False ..
  have sub: "usize_sub ?t (card ps) = Some ?a" unfolding usize_sub_def using le by (simp only: if_True)
  have sel: "versioned_analysis_selected_pages normalized ANALYSIS_VERSION = Inr (ps \<union> ?more)"
    by (simp only: versioned_analysis_selected_pages_def current Let_def assms(2) ps(1) target sub ok_or.simps res_bind.simps
        not_not not_True_eq_False if_True if_False set_upt)
  have "card (ps \<union> ?more) = card ps + card ?more" by (rule card_Un_disjoint) (use fin more(2) in auto)
  then have "card (ps \<union> ?more) = ?t" by (simp only: more(1) le_add_diff_inverse [OF le])
  moreover have "ps \<union> ?more \<subseteq> set ?pages" using ps(3) more(2) by auto
  ultimately show ?thesis by (rule that [OF sel])
qed

lemma acceptance_bound: "512 < acceptance n \<longleftrightarrow> 853 < n"
  by (auto simp: acceptance_def)

text \<open>
  C6. The plan of an analysis succeeds exactly when the document has a page with native text and at most
  853 of them, the capacity of one claim per page; it then reads every such page once, first the pages
  that were selected and then the others, both in the order of the document, and as many pages are to be
  retained as were selected: three fifths of them, rounded up, and 16 more, but no more than there are
  and never more than 512.
\<close>

theorem analysis_plan_exact:
  assumes "distinct (native_page_numbers normalized)" "length (native_page_numbers normalized) = n" "n * 3 + 4 < 2 ^ 64"
  shows "(plan normalized = Inl (stage_failure Analyze ''ANALYSIS_COVERAGE_CAPACITY_UNSATISFIABLE''
            ''Raw page acceptance exceeds the one-to-one claim capacity'' False) \<longleftrightarrow> n = 0 \<or> 853 < n)
    \<and> (plan normalized = Inl (stage_failure Analyze ''ANALYSIS_COVERAGE_CAPACITY_UNSATISFIABLE''
            ''Raw page acceptance exceeds the one-to-one claim capacity'' False)
       \<or> (\<exists>pages target. plan normalized = Inr (pages, target)
            \<and> target = min (min n (max 1 ((n * 3 + 4) div 5) + 16)) 512
            \<and> distinct pages \<and> set pages = set (native_page_numbers normalized)
            \<and> subseq (take target pages) (native_page_numbers normalized)
            \<and> subseq (drop target pages) (native_page_numbers normalized)))"
proof (cases "n = 0 \<or> 853 < n")
  case True
  obtain ps where ps: "analysis_selected_pages normalized = Inr ps" using sampled_pages [OF assms] by blast
  have "512 < acceptance n" if "853 < n" using that by (simp add: acceptance_bound)
  with True have none: "(n = 0 \<or> 512 < acceptance n) = True" by auto
  have current: "(ANALYSIS_VERSION \<in> set (direct_claim_versions @ [DIRECT_ANALYSIS_VERSION, RETENTION_ANALYSIS_VERSION])) = True"
    "(ANALYSIS_VERSION \<in> set (direct_claim_versions @ [DIRECT_ANALYSIS_VERSION])) = True"
    by (simp_all add: direct_claim_versions_def suffix_versions_def)
  have "plan normalized = Inl (stage_failure Analyze ''ANALYSIS_COVERAGE_CAPACITY_UNSATISFIABLE''
      ''Raw page acceptance exceeds the one-to-one claim capacity'' False)"
    by (simp only: plan_def versioned_plan_def versioned_analysis_selected_pages_def current Let_def assms(2) ps
        direct_target [OF assms(3)] none not_not not_True_eq_False res_bind.simps if_True if_False)
  then show ?thesis using True by blast
next
  case False
  then have small: "0 < n" "acceptance n \<le> 512" using acceptance_bound [of n] by auto
  let ?pages = "native_page_numbers normalized"
  obtain ps where ps: "versioned_analysis_selected_pages normalized ANALYSIS_VERSION = Inr ps"
    "card ps = min (min n (acceptance n + 16)) 512" "ps \<subseteq> set ?pages"
    using retention_selection [OF assms(1,2) small assms(3)] by blast
  let ?first = "filter (\<lambda>p. p \<in> ps) ?pages" and ?rest = "filter (\<lambda>p. p \<notin> ps) ?pages"
  have plan: "plan normalized = Inr (?first @ ?rest, card ps)" using ps(1) by (simp add: plan_def versioned_plan_def Let_def)
  have "length ?first = card (set ?first)" by (rule distinct_card [symmetric]) (use assms(1) in simp)
  also have "set ?first = ps" using ps(3) by auto
  finally have len: "length ?first = card ps" .
  have "distinct (?first @ ?rest)" "set (?first @ ?rest) = set ?pages" using assms(1) by auto
  moreover have "subseq (take (card ps) (?first @ ?rest)) ?pages" "subseq (drop (card ps) (?first @ ?rest)) ?pages"
    using len by (simp_all add: subseq_filter_left)
  moreover have "card ps = min (min n (max 1 ((n * 3 + 4) div 5) + 16)) 512" unfolding ps(2) acceptance_def ..
  ultimately have "\<exists>pages target. plan normalized = Inr (pages, target)
      \<and> target = min (min n (max 1 ((n * 3 + 4) div 5) + 16)) 512
      \<and> distinct pages \<and> set pages = set ?pages \<and> subseq (take target pages) ?pages \<and> subseq (drop target pages) ?pages"
    using plan by (intro exI [where x = "?first @ ?rest"] exI [where x = "card ps"] conjI)
  moreover have "plan normalized \<noteq> Inl e" for e unfolding plan by simp
  ultimately show ?thesis using False by blast
qed

lemma analysis_plan_exact_witness:
  "\<exists>pages. plan numbered_page = Inr (pages, 1) \<and> distinct pages \<and> set pages = {1}"
proof -
  have pages: "native_page_numbers numbered_page = [1]"
    by (simp add: native_page_numbers_def numbered_page_def native_text_page_def is_textual_def blank_ascii_Cons byte_def is_whitespace_def)
  then have "distinct (native_page_numbers numbered_page)" "length (native_page_numbers numbered_page) = 1" "(1 :: nat) * 3 + 4 < 2 ^ 64"
    by simp_all
  note exact = analysis_plan_exact [OF this]
  obtain pages target where "plan numbered_page = Inr (pages, target)" "target = min (min 1 (max 1 ((1 * 3 + 4) div 5) + 16)) 512"
    "distinct pages" "set pages = set (native_page_numbers numbered_page)"
    using exact by fastforce
  moreover have "min (min 1 (max 1 ((1 * 3 + 4) div 5) + 16)) 512 = (1 :: nat)" by simp
  ultimately show ?thesis unfolding pages by auto
qed

end
