(* ===== verification/Summary_Completion.thy ===== *)
theory Summary_Completion
  imports Verified_Correct Page_Plan
begin

text \<open>
  The computation of \<open>complete_verified_document_with_delivery\<close> (\<open>pipeline/summary.rs\<close>): from the
  verified document to the summary artifact and its citations. \<open>None\<close> is a panic, of the
  \<open>unreachable!\<close> arm or of a subtraction that underflows; \<open>Inl\<close> is a failure the caller persists.
  \<open>now 0\<close> and \<open>now 1\<close> are the two times it reads. An accepted document is shown to be completed
  unless its delivery is refused for its length or its page coverage.
\<close>

section \<open>Definitions\<close>

record delivery_policy =
  max_summary_text_bytes :: nat
  policy_key_points :: bool

definition connect_delivery_policy :: delivery_policy where
  "connect_delivery_policy = \<lparr>max_summary_text_bytes = MAX_DELIVERY_SUMMARY_TEXT_BYTES, policy_key_points = False\<rparr>"

definition recovered_count :: "analyzed_document \<Rightarrow> u32 set \<Rightarrow> nat option" where
  "recovered_count analyzed cited =
     usize_sub (length (omissions analyzed)) (length (remaining_page_omissions (omissions analyzed) cited))"

definition recovered_warnings :: "nat \<Rightarrow> pipeline_warning list" where
  "recovered_warnings n =
     (if 0 < n
      then [verify_warning ''SUMMARY_ANALYSIS_PAGES_RECOVERED''
        (''Pages omitted during analysis and recovered through verified summary citations: '' @ show_nat n
         @ ''. Original analysis decisions are retained.'')]
      else [])"

definition summary_of_verified :: "(canonical_tuple \<Rightarrow> string) \<Rightarrow> timestamp \<Rightarrow> verified_document \<Rightarrow> nat \<Rightarrow> string \<Rightarrow> summary_artifact" where
  "summary_of_verified canonical_hash now v recovered version =
     (let draft = \<lparr>summary_extraction = verified_extraction v, summary_document_id = verified_document_id v,
        summary_version = version, summary_text = verified_text v,
        summary_warnings = verified_warnings v @ recovered_warnings recovered, summary_created_at = now,
        integrity_hash = []\<rparr>
      in draft\<lparr>integrity_hash := summary_integrity canonical_hash draft\<rparr>)"

definition delivery_too_long :: "delivery_policy option \<Rightarrow> verified_document \<Rightarrow> bool" where
  "delivery_too_long delivery v \<longleftrightarrow>
     verified_extraction v = None
     \<and> (case delivery of None \<Rightarrow> False | Some policy \<Rightarrow> max_summary_text_bytes policy < length (verified_text v))"

definition delivery_limit_failure :: pipeline_failure where
  "delivery_limit_failure = stage_failure Verify ''SUMMARY_DELIVERY_LIMIT_EXCEEDED''
     ''The supported summary exceeds the configured delivery byte ceiling'' False"

definition delivery_coverage_failure :: "delivery_policy option \<Rightarrow> pipeline_failure" where
  "delivery_coverage_failure delivery = stage_failure Verify ''SUMMARY_DELIVERY_COVERAGE_UNSATISFIED''
     (if delivery \<noteq> None then ''The supported Connect summary does not satisfy raw and omission-adjusted page coverage''
      else ''The supported summary does not satisfy raw and omission-adjusted page coverage'') False"

definition presented_pages :: "verified_document \<Rightarrow> analyzed_document \<Rightarrow> u32 set option" where
  "presented_pages v analyzed =
     claim_pages (presented_claims (verified_presentation v) (verified_claims v) (verified_summary_claims v))
       (ledger_evidence analyzed @ verified_evidence v)"

definition assemble_artifacts ::
  "tools \<Rightarrow> (canonical_tuple \<Rightarrow> string) \<Rightarrow> (nat \<Rightarrow> timestamp) \<Rightarrow> summary_profile \<Rightarrow> delivery_policy option \<Rightarrow>
   verified_document \<Rightarrow> synthesized_document \<Rightarrow> analyzed_document \<Rightarrow> chunked_document \<Rightarrow> normalized_document \<Rightarrow>
   (pipeline_failure + summary_artifact \<times> citation_artifact) option" where
  "assemble_artifacts env canonical_hash now profile delivery v s analyzed chunked normalized =
     (if presented_claims_empty v then Some (Inl no_supported_claims_failure)
      else case presented_pages v analyzed of
        None \<Rightarrow> Some (Inl (citation_invalid ''The presented summary references unavailable evidence''))
      | Some cited \<Rightarrow>
          Option.bind (recovered_count analyzed cited) (\<lambda>recovered.
          Option.bind (summary_version_for (verification_version v)) (\<lambda>version.
          if delivery_too_long delivery v then Some (Inl delivery_limit_failure)
          else
            let summary = summary_of_verified canonical_hash (now 0) v recovered version
            in case build_citation_artifact env canonical_hash (now 1) summary v s analyzed chunked normalized of
                 Inl failure \<Rightarrow> Some (Inl failure)
               | Inr citations \<Rightarrow>
                   if page_coverage_required profile delivery
                   then Option.bind (delivery_page_coverage_with_warnings (furniture_coverage_exclusions (env_unicode env)) cited
                       (omissions analyzed) normalized (synthesized_warnings s)) (\<lambda>covered.
                     Some (if covered then Inr (summary, citations) else Inl (delivery_coverage_failure delivery)))
                   else Some (Inr (summary, citations)))))"

definition completion_output ::
  "tools \<Rightarrow> (canonical_tuple \<Rightarrow> string) \<Rightarrow> (nat \<Rightarrow> timestamp) \<Rightarrow> summary_profile \<Rightarrow> delivery_policy option \<Rightarrow>
   verified_document \<Rightarrow> synthesized_document \<Rightarrow> analyzed_document \<Rightarrow> chunked_document \<Rightarrow> normalized_document \<Rightarrow>
   (pipeline_failure + summary_artifact \<times> citation_artifact) option" where
  "completion_output env canonical_hash now profile delivery v s analyzed chunked normalized =
     (if coherent_checkpoint_requires_retry s (Some (verification_version v))
      then Some (Inl outdated_coherent_checkpoint_failure)
      else case validate_verified_document env v s analyzed chunked normalized of
        Inl failure \<Rightarrow> Some (Inl failure)
      | Inr _ \<Rightarrow> assemble_artifacts env canonical_hash now profile delivery v s analyzed chunked normalized)"

section \<open>No panic\<close>

lemma recovered_count_Some: "\<exists>n. recovered_count analyzed cited = Some n"
  by (simp add: recovered_count_def usize_sub_def remaining_page_omissions_def)

lemma prose_versions_known:
  assumes "validate_verified_document env v s analyzed chunked normalized = Inr ()" "\<not> version_supported (synthesis_version s)"
  shows "verification_version v \<in> set ([LEGACY_VERIFICATION_VERSION, PREVIOUS_VERIFICATION_VERSION, DIRECT_VERIFICATION_VERSION,
    DIRECT_KEY_POINTS_VERIFICATION_VERSION, HIERARCHICAL_VERIFICATION_VERSION] @ coherent_verification_versions)"
  using assms
  by (auto simp: validate_verified_document_def validate_ranked_verified_document_def Let_def res_bind_Inr_iff ensure_Inr_iff
      split: if_splits)

lemma summary_version_None:
  assumes "summary_version_for version = None"
  shows "version \<notin> set ([LEGACY_VERIFICATION_VERSION, PREVIOUS_VERIFICATION_VERSION, DIRECT_VERIFICATION_VERSION,
    DIRECT_KEY_POINTS_VERIFICATION_VERSION, HIERARCHICAL_VERIFICATION_VERSION] @ coherent_verification_versions)"
    "\<not> version_supported version"
  using assms by (simp_all add: summary_version_for_def coherent_verification_versions_def split: if_splits)

lemma summary_version_known:
  "summary_version_for version = Some summary \<Longrightarrow> summary \<in> set [LEGACY_SUMMARY_VERSION, PREVIOUS_SUMMARY_VERSION,
     HIERARCHICAL_SUMMARY_VERSION, DIRECT_SUMMARY_VERSION, PRE_DISCLOSURE_SUMMARY_VERSION, PRE_CONTEXT_SUMMARY_VERSION,
     SUMMARY_VERSION, CONTRACT_SUMMARY_VERSION]"
  by (auto simp: summary_version_for_def split: if_splits)

lemma citation_version_known:
  "list_all (\<lambda>summary. expected_citation_version summary \<noteq> None) [LEGACY_SUMMARY_VERSION, PREVIOUS_SUMMARY_VERSION,
     HIERARCHICAL_SUMMARY_VERSION, DIRECT_SUMMARY_VERSION, PRE_DISCLOSURE_SUMMARY_VERSION, PRE_CONTEXT_SUMMARY_VERSION,
     SUMMARY_VERSION, CONTRACT_SUMMARY_VERSION]"
  by code_simp

lemma versions_map:
  assumes "version \<in> set ([LEGACY_VERIFICATION_VERSION, PREVIOUS_VERIFICATION_VERSION, DIRECT_VERIFICATION_VERSION,
    DIRECT_KEY_POINTS_VERIFICATION_VERSION, HIERARCHICAL_VERIFICATION_VERSION] @ coherent_verification_versions)
      \<or> version_supported version"
  shows "\<exists>summary citation. summary_version_for version = Some summary \<and> expected_citation_version summary = Some citation"
proof -
  obtain summary where "summary_version_for version = Some summary"
    using summary_version_None assms by blast
  with summary_version_known citation_version_known show ?thesis by (fastforce simp: list_all_iff)
qed

lemma versions_known:
  assumes "validate_verified_document env v s analyzed chunked normalized = Inr ()"
  shows "\<exists>summary citation. summary_version_for (verification_version v) = Some summary
    \<and> expected_citation_version summary = Some citation"
proof (cases "version_supported (synthesis_version s)")
  case True
  with assms have "validate_contract_verified (env_sha env) (env_unicode env) v s analyzed chunked normalized = Inr ()"
    by (simp add: validate_verified_document_def)
  from contract_verified(1) [OF this] have "verification_version v = synthesis_version s"
    by (auto simp: contract_verify_def res_bind_Inr_iff)
  with True versions_map show ?thesis by metis
next
  case False
  from versions_map prose_versions_known [OF assms False] show ?thesis by blast
qed

lemma assemble_total:
  assumes "validate_verified_document env v s analyzed chunked normalized = Inr ()"
  shows "\<exists>r. assemble_artifacts env canonical_hash now profile delivery v s analyzed chunked normalized = Some r"
proof (cases "presented_pages v analyzed")
  case (Some cited)
  obtain version where version: "summary_version_for (verification_version v) = Some version"
    using versions_known [OF assms] by blast
  obtain recovered where recovered: "recovered_count analyzed cited = Some recovered" using recovered_count_Some by blast
  obtain covered where covered: "delivery_page_coverage_with_warnings (furniture_coverage_exclusions (env_unicode env)) cited
      (omissions analyzed) normalized (synthesized_warnings s) = Some covered"
    using coverage_total by blast
  show ?thesis
    unfolding assemble_artifacts_def Some version recovered covered Let_def option.case bind.bind_lunit
    by (simp split: sum.split)
qed (simp add: assemble_artifacts_def)

lemma completion_total: "completion_output env canonical_hash now profile delivery v s analyzed chunked normalized \<noteq> None"
proof -
  have "\<exists>r. assemble_artifacts env canonical_hash now profile delivery v s analyzed chunked normalized = Some r"
    if "validate_verified_document env v s analyzed chunked normalized = Inr x" for x
    using that assemble_total by simp
  then show ?thesis
    by (cases "validate_verified_document env v s analyzed chunked normalized") (auto simp: completion_output_def)
qed

section \<open>The evidence behind an accepted document\<close>

lemma evidence_by_id_append:
  assumes "distinct (map evidence_id (xs @ ys))" "i \<in> evidence_id ` set xs"
  shows "evidence_by_id (xs @ ys) i = evidence_by_id xs i"
proof -
  from assms(2) obtain e where "e \<in> set xs" "evidence_id e = i" by auto
  with evidence_by_id_Some [of "xs @ ys" e] evidence_by_id_Some [of xs e] assms(1) show ?thesis by auto
qed

lemma evidence_by_id_filter:
  assumes "distinct (map evidence_id xs)" "i \<in> evidence_id ` set xs" "i \<in> ids"
  shows "evidence_by_id (filter (\<lambda>e. evidence_id e \<in> ids) xs) i = evidence_by_id xs i"
proof -
  from assms(2,3) obtain e where e: "e \<in> set xs" "evidence_id e = i" "e \<in> set (filter (\<lambda>e. evidence_id e \<in> ids) xs)" by auto
  have "distinct (map evidence_id (filter (\<lambda>e. evidence_id e \<in> ids) xs))" using assms(1) by (rule distinct_map_filter)
  with e assms(1) evidence_by_id_Some show ?thesis by metis
qed

lemma res_collect_cong:
  assumes "\<And>x. x \<in> set xs \<Longrightarrow> f x = g x" shows "res_collect f xs = res_collect g xs"
proof -
  have "res_fold (\<lambda>ys x. res_bind (f x) (\<lambda>y. Inr (ys @ [y]))) acc xs = res_fold (\<lambda>ys x. res_bind (g x) (\<lambda>y. Inr (ys @ [y]))) acc xs" for acc
    using assms by (induction xs arbitrary: acc) (auto split: sum.split)
  then show ?thesis by (simp add: res_collect_def)
qed

lemma claim_line_cong:
  "(\<And>i. i \<in> set (claim_evidence_ids claim) \<Longrightarrow> f i = g i) \<Longrightarrow> claim_line f claim = claim_line g claim"
  unfolding claim_line_def by (rule arg_cong [where f = "\<lambda>r. res_bind r _"], rule res_collect_cong) simp_all

lemma render_claim_lines_cong:
  assumes "\<And>claim i. claim \<in> set claims \<Longrightarrow> i \<in> set (claim_evidence_ids claim) \<Longrightarrow> f i = g i"
  shows "render_claim_lines claims f = render_claim_lines claims g"
  unfolding render_claim_lines_def by (rule res_collect_cong) (simp_all add: assms cong: claim_line_cong)

text \<open>Claims that cite known evidence, each at least one item.\<close>

definition cites_from :: "cited_claim list \<Rightarrow> evidence_item list \<Rightarrow> bool" where
  "cites_from claims evidence \<longleftrightarrow>
     (\<forall>c \<in> set claims. claim_evidence_ids c \<noteq> [] \<and> set (claim_evidence_ids c) \<subseteq> evidence_id ` set evidence)"

lemma cites_from_subset: "cites_from claims evidence \<Longrightarrow> set claims' \<subseteq> set claims \<Longrightarrow> cites_from claims' evidence"
  by (auto simp: cites_from_def)

lemma cites_from_Nil [simp]: "cites_from [] evidence"
  by (simp add: cites_from_def)

lemma validated_cites: "validate_claims_with_evidence sha claims evidence document version = Inr () \<Longrightarrow> cites_from claims evidence"
  using validated_claim_references by (auto simp: cites_from_def)

lemma set_supported: "set (supported claims vs) \<subseteq> set claims"
  by (auto simp: supported_in dest: set_zip_leftD)

text \<open>The lines of the claims that are presented.\<close>

definition renders ::
  "summary_presentation_mode \<Rightarrow> cited_claim list \<Rightarrow> cited_claim list \<Rightarrow> evidence_item list \<Rightarrow> string \<Rightarrow> bool" where
  "renders mode claims summary evidence shown \<longleftrightarrow>
     (\<exists>rows. render_claim_lines (presented_claims mode claims summary) (evidence_by_id evidence) = Inr rows
        \<and> shown = join paragraph_break rows)"

lemma renders_ledger:
  assumes "render_cited_summary claims analyzed = Inr shown" "cites_from claims (ledger_evidence analyzed)"
    and "distinct (map evidence_id (ledger_evidence analyzed @ items))"
    and "mode \<noteq> Coherent"
  shows "renders mode claims summary (ledger_evidence analyzed @ items) shown"
proof -
  from assms(1) obtain rows where "render_claim_lines claims (evidence_by_id (ledger_evidence analyzed)) = Inr rows"
      "shown = join paragraph_break rows"
    by (auto simp: render_cited_summary_def render_cited_summary_with_evidence_def res_bind_Inr_iff)
  moreover have "render_claim_lines claims (evidence_by_id (ledger_evidence analyzed @ items))
      = render_claim_lines claims (evidence_by_id (ledger_evidence analyzed))"
    using assms(2) by (intro render_claim_lines_cong evidence_by_id_append [OF assms(3)]) (auto simp: cites_from_def)
  moreover have "presented_claims mode claims summary = claims" using assms(4) by (cases mode) auto
  ultimately show ?thesis by (simp add: renders_def)
qed

lemma evidence_by_id_append_right:
  assumes "distinct (map evidence_id (xs @ ys))" "i \<in> evidence_id ` set ys"
  shows "evidence_by_id (xs @ ys) i = evidence_by_id ys i"
proof -
  from assms(2) obtain e where "e \<in> set ys" "evidence_id e = i" by auto
  with evidence_by_id_Some [of "xs @ ys" e] evidence_by_id_Some [of ys e] assms(1) show ?thesis by auto
qed

lemma renders_summary:
  assumes "render_cited_summary_with_evidence summary items = Inr shown" "cites_from summary items"
    and "distinct (map evidence_id (ledger @ items))"
  shows "renders Coherent claims summary (ledger @ items) shown"
proof -
  from assms(1) obtain rows where "render_claim_lines summary (evidence_by_id items) = Inr rows"
      "shown = join paragraph_break rows"
    by (auto simp: render_cited_summary_with_evidence_def res_bind_Inr_iff)
  moreover have "render_claim_lines summary (evidence_by_id (ledger @ items)) = render_claim_lines summary (evidence_by_id items)"
    using assms(2) by (intro render_claim_lines_cong evidence_by_id_append_right [OF assms(3)]) (auto simp: cites_from_def)
  ultimately show ?thesis by (simp add: renders_def)
qed

text \<open>What an accepted synthesis in prose says of its claims and evidence.\<close>

definition synthesis_grounded :: "synthesized_document \<Rightarrow> analyzed_document \<Rightarrow> bool" where
  "synthesis_grounded s analyzed \<longleftrightarrow>
     distinct (map evidence_id (ledger_evidence analyzed @ synthesized_evidence s))
     \<and> cites_from (synthesized_claims s) (ledger_evidence analyzed)
     \<and> cites_from (synthesized_summary_claims s) (synthesized_evidence s)
     \<and> renders (synthesized_presentation s) (synthesized_claims s) (synthesized_summary_claims s)
         (ledger_evidence analyzed @ synthesized_evidence s) (synthesized_text s)"

lemma content_grounded:
  assumes "validate_content env s analyzed chunked normalized = Inr ()"
  shows "distinct (map evidence_id (synthesized_evidence s)) \<and> cites_from (synthesized_summary_claims s) (synthesized_evidence s)
    \<and> (synthesized_presentation s = Coherent \<and>
         render_cited_summary_with_evidence (synthesized_summary_claims s) (synthesized_evidence s) = Inr (synthesized_text s)
       \<or> synthesized_presentation s = ClaimLedgerFallback \<and> synthesized_evidence s = [] \<and>
         render_cited_summary (synthesized_claims s) analyzed = Inr (synthesized_text s))"
proof -
  from assms obtain catalog where checked: "(case synthesized_presentation s of
           Coherent \<Rightarrow> check_coherent_content env catalog s analyzed chunked normalized
         | ClaimLedgerFallback \<Rightarrow> check_ledger_content s analyzed
         | _ \<Rightarrow> Inl invalid_document) = Inr ()"
    by (auto simp: validate_content_def Let_def res_bind_Inr_iff)
  show ?thesis
  proof (cases "synthesized_presentation s")
    case Coherent
    with checked have "check_coherent_content env catalog s analyzed chunked normalized = Inr ()" by simp
    then show ?thesis
      using Coherent validated_cites by (auto simp: check_coherent_content_def Let_def res_bind_Inr_iff ensure_Inr_iff)
  qed (use checked in \<open>auto simp: check_ledger_content_def res_bind_Inr_iff ensure_Inr_iff\<close>)
qed

lemma prose_synthesis_grounded:
  assumes "validate_synthesized_document_without_runtime env s analyzed chunked normalized = Inr ()"
    and "\<not> version_supported (synthesis_version s)"
  shows "synthesis_grounded s analyzed"
proof -
  let ?ledger = "ledger_evidence analyzed"
  from assms obtain version where claims: "validate_claims (env_sha env) (synthesized_claims s) analyzed version = Inr ()"
    and rest: "(validate_content env s analyzed chunked normalized = Inr ())
      \<or> check_historical_synthesis env s analyzed chunked normalized = Inr ()"
    by (auto simp: validate_synthesized_document_without_runtime_def Let_def res_bind_Inr_iff split: if_splits)
  have ledger: "distinct (map evidence_id ?ledger)" "cites_from (synthesized_claims s) ?ledger"
    using claims validated_cites by (auto simp: validate_claims_def validate_claims_Inr)
  note synthesis = accepted_synthesis [OF assms(1)]
  have apart: "evidence_id ` set ?ledger \<inter> evidence_id ` set (synthesized_evidence s) = {}"
    using validated_content_items(2) [OF synthesis(1)] synthesis(2) by (force simp: summary_source_def)
  show ?thesis
  proof (cases "validate_content env s analyzed chunked normalized = Inr ()")
    case True
    note content = content_grounded [OF True]
    then have ids: "distinct (map evidence_id (?ledger @ synthesized_evidence s))" using ledger(1) apart by simp
    from content consider "synthesized_presentation s = Coherent"
          "render_cited_summary_with_evidence (synthesized_summary_claims s) (synthesized_evidence s) = Inr (synthesized_text s)"
      | "synthesized_presentation s = ClaimLedgerFallback" "render_cited_summary (synthesized_claims s) analyzed = Inr (synthesized_text s)"
      by blast
    then have "renders (synthesized_presentation s) (synthesized_claims s) (synthesized_summary_claims s)
        (?ledger @ synthesized_evidence s) (synthesized_text s)"
    proof cases
      case 1
      with content have "cites_from (synthesized_summary_claims s) (synthesized_evidence s)" by simp
      from renders_summary [OF 1(2) this ids] show ?thesis by (simp add: 1(1))
    next
      case 2
      from renders_ledger [OF 2(2) ledger(2) ids] show ?thesis by (simp add: 2(1))
    qed
    with content ids ledger(2) show ?thesis by (simp add: synthesis_grounded_def)
  next
    case False
    with rest have "check_historical_synthesis env s analyzed chunked normalized = Inr ()" by blast
    then have empty: "synthesized_summary_claims s = []" "synthesized_evidence s = []" "synthesized_presentation s = LegacyClaimList"
      and rendered: "render_cited_summary (synthesized_claims s) analyzed = Inr (synthesized_text s)"
      by (auto simp: check_historical_synthesis_def res_bind_Inr_iff ensure_Inr_iff)
    from renders_ledger [OF rendered ledger(2), of "[]" LegacyClaimList "[]"] ledger show ?thesis
      by (simp add: synthesis_grounded_def empty)
  qed
qed

text \<open>And what an accepted verification in prose says.\<close>

definition verified_grounded :: "verified_document \<Rightarrow> synthesized_document \<Rightarrow> analyzed_document \<Rightarrow> bool" where
  "verified_grounded v s analyzed \<longleftrightarrow>
     cites_from (verified_claims v) (ledger_evidence analyzed)
     \<and> cites_from (verified_summary_claims v) (synthesized_evidence s)
     \<and> (verified_evidence v = synthesized_evidence s \<or> verified_evidence v = [] \<and> verified_summary_claims v = [])
     \<and> renders (verified_presentation v) (verified_claims v) (verified_summary_claims v)
         (ledger_evidence analyzed @ synthesized_evidence s) (verified_text v)"

lemma legacy_grounded:
  assumes "validate_legacy_verified_document v s = Inr ()" "synthesis_grounded s analyzed"
  shows "verified_grounded v s analyzed"
  using assms by (simp add: validate_legacy_verified_document_def Let_def ensure_Inr_iff synthesis_grounded_def verified_grounded_def)

lemma ledger_list_grounded:
  assumes "synthesis_grounded s analyzed" "set (verified_claims v) \<subseteq> set (synthesized_claims s)"
    and "render_cited_summary (verified_claims v) analyzed = Inr (verified_text v)"
    and "verified_presentation v = LegacyClaimList" "verified_summary_claims v = []" "verified_evidence v = []"
  shows "verified_grounded v s analyzed"
proof -
  from assms(1) have cites: "cites_from (verified_claims v) (ledger_evidence analyzed)"
    using cites_from_subset assms(2) by (auto simp: synthesis_grounded_def)
  from assms(1) have ids: "distinct (map evidence_id (ledger_evidence analyzed @ synthesized_evidence s))"
    unfolding synthesis_grounded_def by blast
  from renders_ledger [OF assms(3) cites ids, of LegacyClaimList "[]"] cites assms(4-) show ?thesis
    by (simp add: verified_grounded_def)
qed

lemma unranked_grounded:
  assumes "validate_unranked_verified_document message v s analyzed = Inr ()" "synthesis_grounded s analyzed"
  shows "verified_grounded v s analyzed"
  by (rule ledger_list_grounded [OF assms(2)])
    (use assms(1) set_supported in \<open>auto simp: validate_unranked_verified_document_def verified_metadata_valid_def Let_def
      res_bind_Inr_iff ensure_Inr_iff\<close>)

lemma ranked_grounded:
  assumes "validate_ranked_verified_document v s analyzed = Inr ()" "synthesis_grounded s analyzed"
  shows "verified_grounded v s analyzed"
  by (rule ledger_list_grounded [OF assms(2)])
    (use assms(1) set_supported in \<open>auto simp: validate_ranked_verified_document_def verified_metadata_valid_def Let_def
      res_bind_Inr_iff ensure_Inr_iff\<close>)

lemma coherent_grounded:
  assumes "validate_coherent_verified_document u v s analyzed normalized = Inr ()" "synthesis_grounded s analyzed"
    and "synthesized_presentation s = Coherent \<or> synthesized_presentation s = ClaimLedgerFallback"
  shows "verified_grounded v s analyzed"
proof -
  let ?claims = "supported (synthesized_claims s) (claim_verifications v)"
  let ?summary = "supported (synthesized_summary_claims s) (summary_claim_verifications v)"
  from assms(1) have shown: "expected_coherent_text (verified_presentation v) ?claims ?summary s analyzed = Inr (verified_text v)"
    and claims: "verified_claims v = ?claims"
    and summary: "verified_summary_claims v = (if is_delivery_fallback v s then [] else ?summary)"
    and metadata: "coherent_metadata_valid v s"
    by (auto simp: validate_coherent_verified_document_def Let_def res_bind_Inr_iff ensure_Inr_iff)
  from assms(2) have ids: "distinct (map evidence_id (ledger_evidence analyzed @ synthesized_evidence s))"
    and cites: "cites_from ?claims (ledger_evidence analyzed)" "cites_from ?summary (synthesized_evidence s)"
    using cites_from_subset set_supported unfolding synthesis_grounded_def by blast+
  from metadata assms(3) consider "verified_presentation v = Coherent" "\<not> is_delivery_fallback v s"
    | "verified_presentation v = ClaimLedgerFallback"
    by (auto simp: coherent_metadata_valid_def is_delivery_fallback_def)
  then have "renders (verified_presentation v) (verified_claims v) (verified_summary_claims v)
      (ledger_evidence analyzed @ synthesized_evidence s) (verified_text v)"
  proof cases
    case 1
    with shown have "render_cited_summary_with_evidence ?summary (synthesized_evidence s) = Inr (verified_text v)"
      by (simp add: expected_coherent_text_def)
    from renders_summary [OF this cites(2) ids] 1 show ?thesis by (simp add: summary)
  next
    case 2
    with shown have "render_cited_summary ?claims analyzed = Inr (verified_text v)" by (simp add: expected_coherent_text_def)
    from renders_ledger [OF this cites(1) ids] 2 show ?thesis by (simp add: claims)
  qed
  with cites metadata show ?thesis by (simp add: verified_grounded_def claims summary coherent_metadata_valid_def)
qed

lemma coherent_versions_supported:
  "coherent_verification_versions_match synthesis verification \<Longrightarrow> coherent_synthesis_version_supported synthesis"
  by (auto simp: coherent_verification_versions_match_def coherent_synthesis_version_supported_def)

lemma prose_verified_grounded:
  assumes "validate_verified_document env v s analyzed chunked normalized = Inr ()"
    and "\<not> version_supported (synthesis_version s)"
  shows "verified_grounded v s analyzed \<and> synthesis_grounded s analyzed \<and> verified_extraction v = None"
proof -
  note synthesis = accepted_verified_synthesis [OF assms(1)]
  note grounded = prose_synthesis_grounded [OF this assms(2)]
  from assms consider "validate_legacy_verified_document v s = Inr ()" | "validate_previous_verified_document v s analyzed = Inr ()"
    | "validate_direct_verified_document_without_key_points v s analyzed = Inr ()"
    | "validate_coherent_verified_document (env_unicode env) v s analyzed normalized = Inr ()"
    | "validate_ranked_verified_document v s analyzed = Inr ()"
    unfolding validate_verified_document_def by (auto simp: res_bind_Inr_iff split: if_splits)
  then have "verified_grounded v s analyzed"
  proof cases
    case 2
    then show ?thesis unfolding validate_previous_verified_document_def using grounded by (rule unranked_grounded)
  next
    case 3
    then show ?thesis
      using unranked_grounded [OF _ grounded]
      by (auto simp: validate_direct_verified_document_without_key_points_def Let_def res_bind_Inr_iff)
  next
    case 4
    then have "coherent_metadata_valid v s"
      by (auto simp: validate_coherent_verified_document_def Let_def res_bind_Inr_iff ensure_Inr_iff)
    then have "coherent_synthesis_version_supported (synthesis_version s)"
      using coherent_versions_supported by (auto simp: coherent_metadata_valid_def)
    with synthesis assms(2) have "validate_content env s analyzed chunked normalized = Inr ()"
      by (auto simp: validate_synthesized_document_without_runtime_def Let_def res_bind_Inr_iff)
    with content_grounded have "synthesized_presentation s = Coherent \<or> synthesized_presentation s = ClaimLedgerFallback" by blast
    with 4 grounded show ?thesis by (rule coherent_grounded)
  qed (use grounded legacy_grounded ranked_grounded in blast)+
  then show ?thesis using grounded assms by (auto simp: validate_verified_document_def res_bind_Inr_iff ensure_Inr_iff)
qed

section \<open>Building the citations\<close>

text \<open>The lines of the artifact reproduce the text of the verified document.\<close>

definition reproduces :: "verified_document \<Rightarrow> evidence_item list \<Rightarrow> bool" where
  "reproduces v evidence \<longleftrightarrow>
     (\<exists>rows. (case verified_extraction v of
          Some extraction \<Rightarrow> res_bind (render_units extraction (verified_claims v) evidence) (\<lambda>units. Inr (map unit_text units))
        | None \<Rightarrow> render_claim_lines (presented_claims (verified_presentation v) (verified_claims v) (verified_summary_claims v))
            (evidence_by_id evidence)) = Inr rows
        \<and> verified_text v = join paragraph_break rows)"

abbreviation cited_ids :: "verified_document \<Rightarrow> string set" where
  "cited_ids v \<equiv> referenced_ids (verified_claims v) (verified_summary_claims v)"

text \<open>Dropping the evidence nobody cites changes no line.\<close>

lemma referenced_same:
  assumes "distinct (map evidence_id (ledger_evidence analyzed @ items))"
    and "cites_from claims (ledger_evidence analyzed @ items)" "\<And>c. c \<in> set claims \<Longrightarrow> set (claim_evidence_ids c) \<subseteq> ids"
  shows "render_claim_lines claims (evidence_by_id (referenced_evidence analyzed items ids))
    = render_claim_lines claims (evidence_by_id (ledger_evidence analyzed @ items))"
proof (rule render_claim_lines_cong)
  fix c i assume c: "c \<in> set claims" "i \<in> set (claim_evidence_ids c)"
  with assms(2) have "i \<in> evidence_id ` set (ledger_evidence analyzed @ items)" by (auto simp: cites_from_def)
  with c assms(3) show "evidence_by_id (referenced_evidence analyzed items ids) i = evidence_by_id (ledger_evidence analyzed @ items) i"
    unfolding referenced_evidence_def by (intro evidence_by_id_filter [OF assms(1)]) auto
qed

lemma presented_cited: "c \<in> set (presented_claims mode (verified_claims v) (verified_summary_claims v)) \<Longrightarrow>
    set (claim_evidence_ids c) \<subseteq> cited_ids v"
  by (cases mode) (auto simp: referenced_ids_def)

lemma cites_from_append:
  "cites_from claims xs \<Longrightarrow> cites_from claims (xs @ ys)" "cites_from claims ys \<Longrightarrow> cites_from claims (xs @ ys)"
  by (auto simp: cites_from_def)

lemma presented_cites:
  assumes "cites_from (verified_claims v) xs" "cites_from (verified_summary_claims v) ys"
  shows "cites_from (presented_claims mode (verified_claims v) (verified_summary_claims v)) (xs @ ys)"
  using assms by (cases mode) (auto simp: cites_from_append)

lemma citation_lines:
  assumes "reproduces v (citation_evidence a)" "citation_extraction a = verified_extraction v"
    "citation_presentation a = verified_presentation v" "citation_claims a = verified_claims v"
    "citation_summary_claims a = verified_summary_claims v" "rendered_text a = verified_text v"
  shows "\<exists>rows. render_citation_claim_lines a = Inr rows \<and> join paragraph_break rows = rendered_text a"
  using assms(1) unfolding reproduces_def render_citation_claim_lines_def assms(2-)
  by (elim exE conjE) (simp add: ensure_def)

text \<open>The citation artifact of a grounded document is built and accepted.\<close>

lemma citations_built:
  assumes ok: "validate_verified_document env v s analyzed chunked normalized = Inr ()"
    and ids: "distinct (map evidence_id (ledger_evidence analyzed @ synthesized_evidence s))"
    and cites: "cites_from (verified_claims v) (ledger_evidence analyzed)" "cites_from (verified_summary_claims v) (synthesized_evidence s)"
    and items: "verified_evidence v = synthesized_evidence s \<or> verified_evidence v = [] \<and> verified_summary_claims v = []"
    and shown: "\<not> presented_claims_empty v" "reproduces v (referenced_evidence analyzed (synthesized_evidence s) (cited_ids v))"
    and version: "summary_version_for (verification_version v) = Some version"
  shows "\<exists>a. build_citation_artifact env h now' (summary_of_verified h now v recovered version) v s analyzed chunked normalized = Inr a
    \<and> validate_citation_artifact env h a (summary_of_verified h now v recovered version) v s analyzed chunked normalized = Inr ()"
proof -
  let ?summary = "summary_of_verified h now v recovered version"
  let ?all = "ledger_evidence analyzed @ synthesized_evidence s"
  let ?evidence = "referenced_evidence analyzed (synthesized_evidence s) (cited_ids v)"
  obtain citation where citation: "expected_citation_version version = Some citation"
    using versions_known [OF ok] version by auto
  have summary: "summary_version ?summary = version" "summary_text ?summary = verified_text v"
    "summary_extraction ?summary = verified_extraction v"
    by (simp_all add: summary_of_verified_def Let_def)
  have same: "referenced_evidence analyzed (verified_evidence v) (cited_ids v) = ?evidence"
  proof (cases "verified_evidence v = synthesized_evidence s")
    case False
    with items have none: "verified_evidence v = []" "verified_summary_claims v = []" by auto
    have "evidence_id e \<notin> cited_ids v" if "e \<in> set (synthesized_evidence s)" for e
      using that cites(1) ids none by (auto simp: referenced_ids_def cites_from_def)
    then have "filter (\<lambda>e. evidence_id e \<in> cited_ids v) (synthesized_evidence s) = []" by (simp add: filter_empty_conv)
    then show ?thesis by (simp add: referenced_evidence_def none)
  qed simp
  have exact: "evidence_id ` set ?evidence = cited_ids v"
    using cites by (fastforce simp: referenced_evidence_def referenced_ids_def cites_from_def)
  have apart: "distinct (map evidence_id ?evidence)"
    unfolding referenced_evidence_def using ids by (rule distinct_map_filter)
  then have count: "length ?evidence = card (cited_ids v)"
    using distinct_card [OF apart] by (simp add: exact)
  obtain c where c: "c \<in> set (presented_claims (verified_presentation v) (verified_claims v) (verified_summary_claims v))"
    using shown(1) unfolding presented_claims_empty_def by (metis list.set_sel(1))
  have "claim_evidence_ids c \<noteq> []"
    using presented_cites [OF cites, of "verified_presentation v"] c by (auto simp: cites_from_def)
  with presented_cited [OF c] have "cited_ids v \<noteq> {}" by (metis set_empty subset_empty)
  with exact have some: "?evidence \<noteq> []" by auto
  let ?draft = "citation_draft now' ?summary v ?evidence citation"
  let ?a = "?draft\<lparr>citation_integrity_hash := citation_integrity h ?draft\<rparr>"
  have "citation_consistent h ?a ?summary v s analyzed"
    using exact some citation count
    by (simp add: citation_consistent_def Let_def citation_draft_def summary)
  moreover have "\<exists>rows. render_citation_claim_lines ?a = Inr rows \<and> join paragraph_break rows = rendered_text ?a"
    by (rule citation_lines [of v]) (simp_all add: citation_draft_def summary shown(2))
  then obtain rows where "render_citation_claim_lines ?a = Inr rows" "join paragraph_break rows = rendered_text ?a" by blast
  moreover have "citation_integrity h ?a = citation_integrity_hash ?a" by (simp add: citation_integrity_def)
  ultimately have accepted: "validate_citation_artifact env h ?a ?summary v s analyzed chunked normalized = Inr ()"
    using ok by (simp add: validate_citation_artifact_def Let_def ensure_def)
  then have "build_citation_artifact env h now' ?summary v s analyzed chunked normalized = Inr ?a"
    unfolding build_citation_artifact_def Let_def same summary(1) citation using count by (simp add: ensure_def)
  with accepted show ?thesis by blast
qed

section \<open>Contracts\<close>

lemma render_units_cong:
  assumes "render_claim_lines claims (evidence_by_id xs) = render_claim_lines claims (evidence_by_id ys)"
  shows "render_units extraction claims xs = render_units extraction claims ys"
  by (simp add: render_units_def assms)

lemma verbatim_record_ids:
  assumes "verbatim_record blocks cs source (clause, items)" "sc_fragments source \<noteq> []"
  shows "clause_evidence_ids clause \<noteq> []"
proof -
  from assms(1) have "clause_evidence_ids clause = map evidence_id items"
    and len: "map (\<lambda>e. (evidence_block_id e, evidence_exact_quote e)) items = map (\<lambda>f. (sf_block f, fragment_text blocks f)) (sc_fragments source)"
    by (simp_all add: verbatim_record_def)
  with map_eq_imp_length_eq [OF len] assms(2) show ?thesis by auto
qed

lemma contract_claims_cite:
  assumes "contract_records sha u chunked normalized version = Inr (extraction, evidence)"
    and "analyzed_chunks analyzed = map (contract_chunk evidence) (chunks chunked)"
  shows "cites_from (map contract_claim (extraction_clauses extraction)) (ledger_evidence analyzed)"
proof -
  have ledger: "set (ledger_evidence analyzed) = set evidence"
    by (rule ledger_of_chunks [OF records_evidence(1) [OF assms(1)] assms(2)])
  let ?blocks = "blocks_by_id (document_blocks normalized)"
  from records_sources [OF assms(1)] obtain pol sources rows where
    sources: "holds_lines ?blocks (source_lines (retained_ranges (for_policy u normalized pol)) normalized) sources"
    and rows: "list_all2 (verbatim_record ?blocks (chunks chunked)) sources rows"
    and clauses: "extraction_clauses extraction = map fst rows" by blast
  from sources obtain groups where groups: "[] \<notin> set groups" "map sc_fragments sources = map (merged ?blocks) groups"
    unfolding holds_lines_def by blast
  have fragments: "sc_fragments source \<noteq> []" if "source \<in> set sources" for source
  proof -
    from that have "sc_fragments source \<in> set (map (merged ?blocks) groups)" unfolding groups(2) [symmetric] by (simp only: set_map) (rule imageI)
    then obtain g where g: "g \<in> set groups" "sc_fragments source = merged ?blocks g" by (simp only: set_map) (elim imageE)
    from g(1) groups(1) have "g \<noteq> []" by (cases "g = []") simp_all
    from merged_nonempty [OF this] g(2) show ?thesis by simp
  qed
  have "clause_evidence_ids c \<noteq> []" if "c \<in> set (extraction_clauses extraction)" for c
  proof -
    from that obtain items where row: "(c, items) \<in> set rows" unfolding clauses by auto
    from list_all2_in_right [OF rows row] obtain source where "source \<in> set sources"
      "verbatim_record ?blocks (chunks chunked) source (c, items)" by blast
    then show ?thesis using fragments verbatim_record_ids by blast
  qed
  moreover have "set (clause_evidence_ids c) \<subseteq> evidence_id ` set (ledger_evidence analyzed)"
    if "c \<in> set (extraction_clauses extraction)" for c
    unfolding ledger by (rule subsetI) (rule records_evidence(2) [OF assms(1) that])
  ultimately show ?thesis by (simp add: cites_from_def contract_claim_def)
qed

lemma contract_synthesize_Inr:
  assumes "contract_synthesize sha u analyzed chunked normalized False = Inr s"
  obtains extraction evidence units where
    "contract_records sha u chunked normalized (analysis_version analyzed) = Inr (extraction, evidence)"
    "render_units extraction (map contract_claim (extraction_clauses extraction)) (ledger_evidence analyzed) = Inr units"
    "synthesized_claims s = map contract_claim (extraction_clauses extraction)" "synthesized_extraction s = Some extraction"
    "synthesized_text s = join paragraph_break (map unit_text units)" "synthesized_evidence s = []"
proof -
  from assms have checked: "validate_contract_analysis sha u analyzed chunked normalized = Inr ()"
    by (simp add: contract_synthesize_def cancellation_checkpoint_def res_bind_Inr_iff)
  obtain r where records: "contract_records sha u chunked normalized (analysis_version analyzed) = Inr r"
    using assms by (simp add: contract_synthesize_def cancellation_checkpoint_def checked res_bind_Inr_iff) blast
  obtain extraction evidence where r: "r = (extraction, evidence)" by (cases r)
  note rest = assms [unfolded contract_synthesize_def cancellation_checkpoint_def checked records r Let_def, simplified]
  from rest obtain units where "render_units extraction (map contract_claim (extraction_clauses extraction)) (ledger_evidence analyzed) = Inr units"
    by (cases "render_units extraction (map contract_claim (extraction_clauses extraction)) (ledger_evidence analyzed)") simp_all
  with rest records r show ?thesis by (intro that) auto
qed

lemma contract_grounded:
  assumes "validate_contract_verified sha u v s analyzed chunked normalized = Inr ()"
    and "distinct (map evidence_id (ledger_evidence analyzed))"
  shows "cites_from (verified_claims v) (ledger_evidence analyzed)" "verified_summary_claims v = []" "verified_evidence v = []"
    "synthesized_evidence s = []" "reproduces v (referenced_evidence analyzed [] (cited_ids v))"
proof -
  note stages = contract_verified [OF assms(1)]
  from stages(3) obtain extraction evidence units where
    records: "contract_records sha u chunked normalized (analysis_version analyzed) = Inr (extraction, evidence)"
    and units: "render_units extraction (map contract_claim (extraction_clauses extraction)) (ledger_evidence analyzed) = Inr units"
    and s: "synthesized_claims s = map contract_claim (extraction_clauses extraction)" "synthesized_extraction s = Some extraction"
      "synthesized_text s = join paragraph_break (map unit_text units)" "synthesized_evidence s = []"
    by (rule contract_synthesize_Inr)
  have v: "verified_claims v = synthesized_claims s" "verified_extraction v = synthesized_extraction s"
      "verified_text v = synthesized_text s" "verified_summary_claims v = []" "verified_evidence v = []"
    using stages(1) by (auto simp: contract_verify_def cancellation_checkpoint_def stages(2))
  from stages(4) have again: "analyze_for_version sha u chunked normalized False (analysis_version analyzed) = Inr analyzed"
    by (auto simp: validate_contract_analysis_def res_simps)
  from analyze_Inr(3) [OF this] obtain extraction' evidence' where
    "contract_records sha u chunked normalized (analysis_version analyzed) = Inr (extraction', evidence')"
    "analyzed_chunks analyzed = map (contract_chunk evidence') (chunks chunked)" by blast
  with records have "analyzed_chunks analyzed = map (contract_chunk evidence) (chunks chunked)" by simp
  note cites = contract_claims_cite [OF records this]
  show "cites_from (verified_claims v) (ledger_evidence analyzed)" "verified_summary_claims v = []" "verified_evidence v = []"
    "synthesized_evidence s = []" using cites by (simp_all add: v s)
  have "cites_from (verified_claims v) (ledger_evidence analyzed @ [])" using cites by (simp add: v s)
  moreover have "set (claim_evidence_ids c) \<subseteq> cited_ids v" if "c \<in> set (verified_claims v)" for c
    using that unfolding referenced_ids_def by auto
  ultimately have "render_claim_lines (verified_claims v) (evidence_by_id (referenced_evidence analyzed [] (cited_ids v)))
      = render_claim_lines (verified_claims v) (evidence_by_id (ledger_evidence analyzed @ []))"
    using assms(2) by (intro referenced_same) simp_all
  then have "render_units extraction (verified_claims v) (referenced_evidence analyzed [] (cited_ids v))
      = render_units extraction (verified_claims v) (ledger_evidence analyzed @ [])" by (rule render_units_cong)
  with units have "render_units extraction (verified_claims v) (referenced_evidence analyzed [] (cited_ids v)) = Inr units"
    by (simp only: v s append_Nil2)
  then show "reproduces v (referenced_evidence analyzed [] (cited_ids v))" by (simp add: reproduces_def v s)
qed

lemma prose_reproduces:
  assumes "verified_grounded v s analyzed" "synthesis_grounded s analyzed" "verified_extraction v = None"
  shows "reproduces v (referenced_evidence analyzed (synthesized_evidence s) (cited_ids v))"
proof -
  let ?presented = "presented_claims (verified_presentation v) (verified_claims v) (verified_summary_claims v)"
  from assms(2) have ids: "distinct (map evidence_id (ledger_evidence analyzed @ synthesized_evidence s))"
    unfolding synthesis_grounded_def by blast
  from assms(1) have "cites_from ?presented (ledger_evidence analyzed @ synthesized_evidence s)"
    by (intro presented_cites) (auto simp: verified_grounded_def)
  from referenced_same [OF ids this presented_cited] assms(1,3) show ?thesis
    by (simp add: verified_grounded_def renders_def reproduces_def)
qed

text \<open>Either kind of document, with what its citations need.\<close>

lemma accepted_citations:
  assumes "validate_verified_document env v s analyzed chunked normalized = Inr ()"
    and "version_supported (synthesis_version s) \<Longrightarrow> distinct (map evidence_id (ledger_evidence analyzed))"
  shows "distinct (map evidence_id (ledger_evidence analyzed @ synthesized_evidence s))"
    "cites_from (verified_claims v) (ledger_evidence analyzed)" "cites_from (verified_summary_claims v) (synthesized_evidence s)"
    "verified_evidence v = synthesized_evidence s \<or> verified_evidence v = [] \<and> verified_summary_claims v = []"
    "reproduces v (referenced_evidence analyzed (synthesized_evidence s) (cited_ids v))"
proof -
  have "distinct (map evidence_id (ledger_evidence analyzed @ synthesized_evidence s))
    \<and> cites_from (verified_claims v) (ledger_evidence analyzed) \<and> cites_from (verified_summary_claims v) (synthesized_evidence s)
    \<and> (verified_evidence v = synthesized_evidence s \<or> verified_evidence v = [] \<and> verified_summary_claims v = [])
    \<and> reproduces v (referenced_evidence analyzed (synthesized_evidence s) (cited_ids v))"
  proof (cases "version_supported (synthesis_version s)")
    case True
    with assms(1) have "validate_contract_verified (env_sha env) (env_unicode env) v s analyzed chunked normalized = Inr ()"
      by (simp add: validate_verified_document_def)
    from contract_grounded [OF this assms(2) [OF True]] assms(2) [OF True] show ?thesis by simp
  next
    case False
    from prose_verified_grounded [OF assms(1) False] prose_reproduces show ?thesis
      by (auto simp: verified_grounded_def synthesis_grounded_def)
  qed
  then show "distinct (map evidence_id (ledger_evidence analyzed @ synthesized_evidence s))"
    "cites_from (verified_claims v) (ledger_evidence analyzed)" "cites_from (verified_summary_claims v) (synthesized_evidence s)"
    "verified_evidence v = synthesized_evidence s \<or> verified_evidence v = [] \<and> verified_summary_claims v = []"
    "reproduces v (referenced_evidence analyzed (synthesized_evidence s) (cited_ids v))"
    by blast+
qed

section \<open>Completion\<close>

lemma presented_pages_known:
  assumes "cites_from (verified_claims v) (ledger_evidence analyzed)" "cites_from (verified_summary_claims v) (synthesized_evidence s)"
    and "verified_evidence v = synthesized_evidence s \<or> verified_evidence v = [] \<and> verified_summary_claims v = []"
  shows "\<exists>cited. presented_pages v analyzed = Some cited"
proof -
  have "cites_from (verified_summary_claims v) (verified_evidence v)" using assms(2,3) by auto
  from presented_cites [OF assms(1) this] show ?thesis
    unfolding presented_pages_def claim_pages_Some cites_from_def by blast
qed

lemma assemble_accepted:
  assumes "presented_pages v analyzed = Some cited" "recovered_count analyzed cited = Some recovered"
    and "summary_version_for (verification_version v) = Some version" "\<not> presented_claims_empty v"
    and "build_citation_artifact env h (now 1) (summary_of_verified h (now 0) v recovered version) v s analyzed chunked normalized = Inr a"
  shows "assemble_artifacts env h now profile delivery v s analyzed chunked normalized = Some (
    if delivery_too_long delivery v then Inl delivery_limit_failure
    else if page_coverage_required profile delivery \<and> delivery_page_coverage_with_warnings
        (furniture_coverage_exclusions (env_unicode env)) cited (omissions analyzed) normalized (synthesized_warnings s) \<noteq> Some True
    then Inl (delivery_coverage_failure delivery)
    else Inr (summary_of_verified h (now 0) v recovered version, a))"
proof -
  obtain covered where "delivery_page_coverage_with_warnings (furniture_coverage_exclusions (env_unicode env)) cited
      (omissions analyzed) normalized (synthesized_warnings s) = Some covered"
    using coverage_total by blast
  then show ?thesis by (simp add: assemble_artifacts_def assms(1-4) assms(5) [unfolded One_nat_def] Let_def)
qed

lemma completion_refusals:
  "coherent_checkpoint_requires_retry s (Some (verification_version v)) \<Longrightarrow>
     completion_output env h now profile delivery v s analyzed chunked normalized = Some (Inl outdated_coherent_checkpoint_failure)"
  "validate_verified_document env v s analyzed chunked normalized = Inl failure \<Longrightarrow>
     \<not> coherent_checkpoint_requires_retry s (Some (verification_version v)) \<Longrightarrow>
     completion_output env h now profile delivery v s analyzed chunked normalized = Some (Inl failure)"
  "validate_verified_document env v s analyzed chunked normalized = Inr () \<Longrightarrow>
     \<not> coherent_checkpoint_requires_retry s (Some (verification_version v)) \<Longrightarrow>
     presented_claims (verified_presentation v) (verified_claims v) (verified_summary_claims v) = [] \<Longrightarrow>
     completion_output env h now profile delivery v s analyzed chunked normalized = Some (Inl no_supported_claims_failure)"
  by (simp_all add: completion_output_def assemble_artifacts_def presented_claims_empty_def)

lemma accepted_completes:
  assumes ok: "validate_verified_document env v s analyzed chunked normalized = Inr ()"
    and current: "\<not> coherent_checkpoint_requires_retry s (Some (verification_version v))"
    and shown: "presented_claims (verified_presentation v) (verified_claims v) (verified_summary_claims v) \<noteq> []"
    and distinct: "version_supported (synthesis_version s) \<longrightarrow> distinct (map evidence_id (ledger_evidence analyzed))"
  shows "\<exists>cited summary citations. presented_pages v analyzed = Some cited
           \<and> completion_output env h now profile delivery v s analyzed chunked normalized = Some (
               if delivery_too_long delivery v then Inl delivery_limit_failure
               else if page_coverage_required profile delivery \<and> delivery_page_coverage_with_warnings
                   (furniture_coverage_exclusions (env_unicode env)) cited (omissions analyzed) normalized (synthesized_warnings s) \<noteq> Some True
               then Inl (delivery_coverage_failure delivery)
               else Inr (summary, citations))
           \<and> summary_text summary = verified_text v
           \<and> validate_citation_artifact env h citations summary v s analyzed chunked normalized = Inr ()"
proof -
  note grounds = accepted_citations [OF ok distinct [rule_format]]
  obtain cited where cited: "presented_pages v analyzed = Some cited" using presented_pages_known [OF grounds(2-4)] by blast
  obtain recovered where recovered: "recovered_count analyzed cited = Some recovered" using recovered_count_Some by blast
  obtain version where version: "summary_version_for (verification_version v) = Some version" using versions_known [OF ok] by blast
  have some: "\<not> presented_claims_empty v" using shown by (simp add: presented_claims_empty_def)
  let ?summary = "summary_of_verified h (now 0) v recovered version"
  obtain a where a: "build_citation_artifact env h (now 1) ?summary v s analyzed chunked normalized = Inr a"
    "validate_citation_artifact env h a ?summary v s analyzed chunked normalized = Inr ()"
    using citations_built [OF ok grounds(1-4) some grounds(5) version] by blast
  have "summary_text ?summary = verified_text v" by (simp add: summary_of_verified_def Let_def)
  with a(2) cited show ?thesis
    unfolding completion_output_def ok using current assemble_accepted [OF cited recovered version some a(1)]
    by (intro exI [of _ cited] exI [of _ ?summary] exI [of _ a]) simp
qed

text \<open>C5. The last step of a run has no failure of its own. Whatever documents it is given it does not panic: no
  subtraction underflows and the \<open>unreachable!\<close> arm is not reached. Its refusals are these and no
  others, in this order: a coherent checkpoint that is outdated has to be retried; a document the
  validator does not accept is refused with the failure of the validator; one that presents no claim
  for having none; one whose text is longer than the delivery allows; and one that misses the page
  coverage where it is required. Every other document is completed, with a summary of its text and a
  citation artifact that passes the validator. For the contract profile the completion and the two
  refusals of a delivery take the evidence identities of the ledger, which are digests, to be distinct;
  for prose that is proved.\<close>

theorem accepted_document_completes:
  "completion_output env h now profile delivery v s analyzed chunked normalized \<noteq> None
   \<and> (coherent_checkpoint_requires_retry s (Some (verification_version v))
      \<longrightarrow> completion_output env h now profile delivery v s analyzed chunked normalized
            = Some (Inl outdated_coherent_checkpoint_failure))
   \<and> (\<forall>failure. validate_verified_document env v s analyzed chunked normalized = Inl failure
      \<and> \<not> coherent_checkpoint_requires_retry s (Some (verification_version v))
      \<longrightarrow> completion_output env h now profile delivery v s analyzed chunked normalized = Some (Inl failure))
   \<and> (validate_verified_document env v s analyzed chunked normalized = Inr ()
      \<and> \<not> coherent_checkpoint_requires_retry s (Some (verification_version v))
      \<and> presented_claims (verified_presentation v) (verified_claims v) (verified_summary_claims v) = []
      \<longrightarrow> completion_output env h now profile delivery v s analyzed chunked normalized
            = Some (Inl no_supported_claims_failure))
   \<and> (validate_verified_document env v s analyzed chunked normalized = Inr ()
      \<and> \<not> coherent_checkpoint_requires_retry s (Some (verification_version v))
      \<and> presented_claims (verified_presentation v) (verified_claims v) (verified_summary_claims v) \<noteq> []
      \<and> (version_supported (synthesis_version s) \<longrightarrow> distinct (map evidence_id (ledger_evidence analyzed)))
      \<longrightarrow> (\<exists>cited summary citations. presented_pages v analyzed = Some cited
           \<and> completion_output env h now profile delivery v s analyzed chunked normalized = Some (
               if delivery_too_long delivery v then Inl delivery_limit_failure
               else if page_coverage_required profile delivery \<and> delivery_page_coverage_with_warnings
                   (furniture_coverage_exclusions (env_unicode env)) cited (omissions analyzed) normalized (synthesized_warnings s) \<noteq> Some True
               then Inl (delivery_coverage_failure delivery)
               else Inr (summary, citations))
           \<and> summary_text summary = verified_text v
           \<and> validate_citation_artifact env h citations summary v s analyzed chunked normalized = Inr ()))"
  using completion_total completion_refusals accepted_completes by (intro conjI allI impI; (elim conjE)?) blast+

lemma early_presented: "presented_claims (verified_presentation early_verified) (verified_claims early_verified)
    (verified_summary_claims early_verified) = [noted_claim 0 ''A'']"
  by (simp add: early_verified_def)

lemma early_prose: "\<not> version_supported (synthesis_version early_synthesis)"
  using early_versions by (simp add: early_synthesis_def)

theorem accepted_document_completes_witness:
  "\<exists>summary citations. completion_output sample_tools (\<lambda>_. []) (\<lambda>_. 0) Story None early_verified early_synthesis
       early_analysis line_chunks line_contract = Some (Inr (summary, citations))
     \<and> summary_text summary = ''A [p. 1]''"
proof -
  have current: "\<not> coherent_checkpoint_requires_retry early_synthesis (Some (verification_version early_verified))"
    by (simp add: coherent_checkpoint_requires_retry_def early_synthesis_def)
  have shown: "verified_text early_verified = ''A [p. 1]''" by (simp add: early_verified_def)
  have free: "\<not> delivery_too_long None early_verified" "\<not> page_coverage_required Story (None :: delivery_policy option)"
    by (simp_all add: delivery_too_long_def page_coverage_required_def)
  have "validate_verified_document sample_tools early_verified early_synthesis early_analysis line_chunks line_contract = Inr ()
      \<and> \<not> coherent_checkpoint_requires_retry early_synthesis (Some (verification_version early_verified))
      \<and> presented_claims (verified_presentation early_verified) (verified_claims early_verified) (verified_summary_claims early_verified) \<noteq> []
      \<and> (version_supported (synthesis_version early_synthesis) \<longrightarrow> distinct (map evidence_id (ledger_evidence early_analysis)))"
    using early_verified_accepted current early_presented early_prose by simp
  from accepted_document_completes [THEN conjunct2, THEN conjunct2, THEN conjunct2, THEN conjunct2, rule_format, OF this, of "\<lambda>_. []" "\<lambda>_. 0" Story None]
  show ?thesis using free shown by auto
qed

end
