(* ===== verification/Citation_Correct.thy ===== *)
theory Citation_Correct
  imports Summary_Completion
begin

text \<open>What an accepted citation artifact guarantees to the reader of the summary.\<close>

section \<open>Grounded citations\<close>

lemma distinct_items:
  assumes "card (f ` set xs) = length xs" "x \<in> set xs" "y \<in> set xs" "f x = f y"
  shows "x = y"
proof -
  have "distinct (map f xs)" using assms(1) by (simp add: card_distinct)
  then show ?thesis using assms(2-) by (auto simp: distinct_map dest: inj_onD)
qed

lemma citation_evidence_quotes:
  assumes "validate_verified_document env v s analyzed chunked normalized = Inr ()"
    and "e \<in> set (referenced_evidence analyzed (synthesized_evidence s) ids)"
  shows "quotes_block normalized e"
proof -
  note synthesis = accepted_verified_synthesis [OF assms(1)]
  from assms(2) consider "e \<in> set (ledger_evidence analyzed)" | "e \<in> set (synthesized_evidence s)"
    by (auto simp: referenced_evidence_def)
  then show ?thesis
    by cases (use accepted_synthesis [OF synthesis] validated_content_items(1) summary_source_def in blast)+
qed

text \<open>C3. Every citation the reader sees is grounded in the document. In an accepted citation artifact, every evidence
  identity that a claim cites names exactly one item of the artifact, no item is there uncited, and
  each item quotes literally from a block of the normalized document and carries that block's page
  span; the rendered text is the text of the summary, made of the lines of the presented claims.\<close>

theorem citations_grounded:
  assumes "validate_citation_artifact env canonical_hash a summary v s analyzed chunked normalized = Inr ()"
  shows "(\<forall>c \<in> set (citation_claims a @ citation_summary_claims a). \<forall>i \<in> set (claim_evidence_ids c).
         \<exists>!e. e \<in> set (citation_evidence a) \<and> evidence_id e = i)
    \<and> (\<forall>e \<in> set (citation_evidence a). quotes_block normalized e
         \<and> (\<exists>c \<in> set (citation_claims a @ citation_summary_claims a). evidence_id e \<in> set (claim_evidence_ids c)))
    \<and> rendered_text a = summary_text summary
    \<and> (\<exists>rows. render_citation_claim_lines a = Inr rows \<and> rendered_text a = join paragraph_break rows)"
proof -
  from assms obtain rows where
    verified: "validate_verified_document env v s analyzed chunked normalized = Inr ()"
    and consistent: "citation_consistent canonical_hash a summary v s analyzed"
    and rows: "render_citation_claim_lines a = Inr rows" "join paragraph_break rows = rendered_text a"
    by (auto simp: validate_citation_artifact_def Let_def res_bind_Inr_iff ensure_Inr_iff)
  let ?ids = "referenced_ids (citation_claims a) (citation_summary_claims a)"
  from consistent have items: "citation_evidence a = referenced_evidence analyzed (synthesized_evidence s) ?ids"
    and once: "card (evidence_id ` set (citation_evidence a)) = length (citation_evidence a)"
    and exact: "evidence_id ` set (citation_evidence a) = ?ids"
    and shown: "rendered_text a = summary_text summary"
    unfolding citation_consistent_def Let_def by blast+
  have ids: "i \<in> ?ids \<longleftrightarrow> (\<exists>c \<in> set (citation_claims a @ citation_summary_claims a). i \<in> set (claim_evidence_ids c))" for i
    by (auto simp: referenced_ids_def)
  have cited: "\<exists>!e. e \<in> set (citation_evidence a) \<and> evidence_id e = i"
    if "c \<in> set (citation_claims a @ citation_summary_claims a)" "i \<in> set (claim_evidence_ids c)" for c i
  proof -
    from that ids have "i \<in> ?ids" by blast
    then obtain e where "e \<in> set (citation_evidence a)" "evidence_id e = i" unfolding exact [symmetric] by blast
    then show ?thesis using distinct_items [OF once] by blast
  qed
  have grounded: "quotes_block normalized e
      \<and> (\<exists>c \<in> set (citation_claims a @ citation_summary_claims a). evidence_id e \<in> set (claim_evidence_ids c))"
    if "e \<in> set (citation_evidence a)" for e
  proof
    show "quotes_block normalized e" using that unfolding items by (rule citation_evidence_quotes [OF verified])
    from that exact have "evidence_id e \<in> ?ids" by blast
    then show "\<exists>c \<in> set (citation_claims a @ citation_summary_claims a). evidence_id e \<in> set (claim_evidence_ids c)"
      using ids by blast
  qed
  show ?thesis using cited grounded shown rows by metis
qed

theorem citations_grounded_witness:
  "\<exists>e. quotes_block line_contract e \<and> evidence_id e \<in> set (claim_evidence_ids (noted_claim 0 ''A''))"
proof -
  note grounds = accepted_citations [OF early_verified_accepted early_prose [THEN notE]]
  obtain version where version: "summary_version_for (verification_version early_verified) = Some version"
    using versions_known [OF early_verified_accepted] by blast
  have some: "\<not> presented_claims_empty early_verified" by (simp add: presented_claims_empty_def early_presented)
  obtain a where built: "build_citation_artifact sample_tools (\<lambda>_. []) 0 (summary_of_verified (\<lambda>_. []) 0 early_verified 0 version)
      early_verified early_synthesis early_analysis line_chunks line_contract = Inr a"
    and accepted: "validate_citation_artifact sample_tools (\<lambda>_. []) a (summary_of_verified (\<lambda>_. []) 0 early_verified 0 version)
      early_verified early_synthesis early_analysis line_chunks line_contract = Inr ()"
    using citations_built [OF early_verified_accepted grounds(1-4) some grounds(5) version] by blast
  from accepted have "citation_claims a = [noted_claim 0 ''A'']" "citation_summary_claims a = []" "citation_evidence a \<noteq> []"
    by (auto simp: validate_citation_artifact_def Let_def res_bind_Inr_iff ensure_Inr_iff citation_consistent_def early_verified_def)
  with citations_grounded [OF accepted] show ?thesis by (cases "citation_evidence a") auto
qed

end
