(* ===== verification/Verification_Run.thy ===== *)
theory Verification_Run
  imports Material_Coverage Verified_Correct
begin

text \<open>
  The verification of a synthesized document (\<open>verify\<close> of \<open>pipeline/summary.rs\<close>): verdicts on the claims of
  the ledger and of the summary, the guards and the coverage checks that can only withhold, the key
  points, and the self-check of the result. \<open>model_access\<close> is what a verification needs to talk to the
  model: the runtime, the serializers and what \<open>cancellation_requested\<close> answers the \<open>k\<close>-th time.
\<close>

record model_access =
  ma_runtime :: model_runtime
  ma_coverage :: coverage_codec
  ma_ranking :: ranking_codec
  ma_cancelled :: "nat \<Rightarrow> bool"

section \<open>What the requests need\<close>

definition verification_claim_budget :: "synthesized_document \<Rightarrow> normalized_document \<Rightarrow> pipeline_failure + nat" where
  "verification_claim_budget s normalized =
     (if coherent_synthesis_version_supported (synthesis_version s) \<or> synthesis_version s = DIRECT_SYNTHESIS_VERSION
      then Inr DIRECT_MAX_CLAIMS
      else if synthesis_version s = HIERARCHICAL_SYNTHESIS_VERSION then document_claim_budget normalized
      else Inr LEGACY_MAX_SUMMARY_CLAIMS)"

definition verification_source_framing ::
  "language \<Rightarrow> summary_profile \<Rightarrow> evidence_item list \<Rightarrow> normalized_document \<Rightarrow> string \<Rightarrow> string option" where
  "verification_source_framing lang profile evidence normalized =
     (if profile \<noteq> General then Map.empty
      else
        let blocks = blocks_by_id (concat (map content (normalized_pages normalized))) in
        map_of (rev (List.map_filter (\<lambda>item.
          Option.bind (blocks (evidence_block_id item)) (\<lambda>block.
          map_option (\<lambda>framing. (evidence_id item, framing_label framing))
            (lg_framing lang normalized block (evidence_exact_quote item)))) evidence)))"

definition required_short_contract_evidence_ids ::
  "tools \<Rightarrow> summary_profile \<Rightarrow> chunked_document \<Rightarrow> normalized_document \<Rightarrow> analyzed_document option \<Rightarrow>
   pipeline_failure + string list option" where
  "required_short_contract_evidence_ids env profile chunked normalized analyzed =
     (if profile \<noteq> Contract then Inr None
      else res_bind (source_catalog_for_profile (env_sha env) (env_language env) profile SYNTHESIS_VERSION chunked normalized analyzed)
        (\<lambda>catalog. Inr (map_option (map required_evidence_id) (required_short_contract_clauses (env_unicode env) catalog))))"

definition verification_version_for :: "string \<Rightarrow> summary_presentation_mode \<Rightarrow> bool \<Rightarrow> string" where
  "verification_version_for version mode select_key =
     (if version \<in> set contract_source_versions then VERIFICATION_VERSION
      else if version = PRE_CONTEXT_SYNTHESIS_VERSION then PRE_CONTEXT_VERIFICATION_VERSION
      else if version = PRE_DISCLOSURE_SYNTHESIS_VERSION \<and> mode = ClaimLedgerFallback
      then PRE_DISCLOSURE_VERIFICATION_VERSION
      else if version = DIRECT_SYNTHESIS_VERSION
      then (if select_key then DIRECT_KEY_POINTS_VERIFICATION_VERSION else DIRECT_VERIFICATION_VERSION)
      else HIERARCHICAL_VERIFICATION_VERSION)"

section \<open>Verdicts\<close>

text \<open>Verdicts on a list of claims, from the poll \<open>k\<close> on.\<close>

definition classify_from ::
  "tools \<Rightarrow> model_access \<Rightarrow> prompt_verification_claim list \<Rightarrow> cited_claim list \<Rightarrow> nat \<Rightarrow> u64 \<Rightarrow> u32 \<times> nat \<Rightarrow>
   pipeline_failure + (u32 \<times> nat) \<times> claim_verification list" where
  "classify_from env access prompt claims claim_budget generation_seed st =
     res_bind (classify_claim_support (env_codec env) (ma_runtime access) (\<lambda>j. ma_cancelled access (snd st + j)) prompt claims
         claim_budget generation_seed (fst st)) (\<lambda>(next_ordinal, polls, verdicts).
     Inr ((next_ordinal, snd st + polls), verdicts))"

definition ledger_verdicts ::
  "tools \<Rightarrow> model_access \<Rightarrow> synthesized_document \<Rightarrow> analyzed_document \<Rightarrow> normalized_document \<Rightarrow> u64 \<Rightarrow> u32 \<times> nat \<Rightarrow>
   pipeline_failure + (u32 \<times> nat) \<times> claim_verification list" where
  "ledger_verdicts env access s analyzed normalized generation_seed st =
     (let evidence = ledger_evidence analyzed; claims = synthesized_claims s in
      res_bind (verification_prompt claims evidence) (\<lambda>prompt.
      res_bind (verification_claim_budget s normalized) (\<lambda>claim_budget.
      res_bind (classify_from env access prompt claims claim_budget generation_seed st) (\<lambda>(st', verdicts).
      if synthesized_presentation s = ClaimLedgerFallback
      then res_bind (apply_semantic_fidelity_guards (env_unicode env) (env_comparisons env) claims evidence verdicts) (\<lambda>guarded.
        Inr (st', guarded))
      else Inr (st', verdicts)))))"

definition model_summary_verdicts ::
  "tools \<Rightarrow> model_access \<Rightarrow> summary_profile \<Rightarrow> synthesized_document \<Rightarrow> normalized_document \<Rightarrow> u64 \<Rightarrow> u32 \<times> nat \<Rightarrow>
   pipeline_failure + (u32 \<times> nat) \<times> claim_verification list" where
  "model_summary_verdicts env access profile s normalized generation_seed st =
     (if synthesized_summary_claims s = [] then Inr (st, [])
      else
        let evidence = synthesized_evidence s; claims = synthesized_summary_claims s in
        res_bind (verification_prompt_with_source_framing claims evidence
            (verification_source_framing (env_language env) profile evidence normalized)) (\<lambda>prompt.
        classify_from env access prompt claims MAX_SUMMARY_CLAIMS generation_seed st))"

definition summary_verdicts ::
  "tools \<Rightarrow> model_access \<Rightarrow> summary_profile \<Rightarrow> synthesized_document \<Rightarrow> analyzed_document \<Rightarrow> chunked_document \<Rightarrow>
   normalized_document \<Rightarrow> u64 \<Rightarrow> u32 \<times> nat \<Rightarrow> pipeline_failure + (u32 \<times> nat) \<times> claim_verification list" where
  "summary_verdicts env access profile s analyzed chunked normalized generation_seed st =
     (let evidence = synthesized_evidence s; claims = synthesized_summary_claims s in
      res_bind (model_summary_verdicts env access profile s normalized generation_seed st) (\<lambda>(st1, verdicts).
      res_bind (apply_semantic_fidelity_guards (env_unicode env) (env_comparisons env) claims evidence verdicts) (\<lambda>guarded.
      res_bind (if profile = General
          then verify_source_contributions (ma_coverage access) (ma_runtime access) (ma_cancelled access) s guarded generation_seed st1
          else Inr (st1, guarded)) (\<lambda>(st2, contributing).
      res_bind (required_short_contract_evidence_ids env profile chunked normalized (Some analyzed)) (\<lambda>required.
      case required of
        None \<Rightarrow> Inr (st2, contributing)
      | Some ids \<Rightarrow> apply_contract_material_coverage (ma_coverage access) (ma_runtime access) (ma_cancelled access) claims evidence
          ids contributing generation_seed st2)))))"

section \<open>The verified document\<close>

text \<open>The identities of the key points with the warnings; a ranking that is not available only adds its warning.\<close>

definition chosen_key_points ::
  "model_access \<Rightarrow> synthesized_document \<Rightarrow> cited_claim list \<Rightarrow> analyzed_document \<Rightarrow> bool \<Rightarrow> u64 \<Rightarrow> u32 \<times> nat \<Rightarrow>
   pipeline_warning list \<Rightarrow> pipeline_failure + string list \<times> pipeline_warning list" where
  "chosen_key_points access s claims analyzed select_key generation_seed st warnings =
     (if \<not> (synthesis_version s = DIRECT_SYNTHESIS_VERSION \<and> select_key) then Inr ([], warnings)
      else case select_key_points (ma_ranking access) (ma_runtime access) (ma_cancelled access) claims analyzed generation_seed
          (fst st) (snd st) of
        Inr (_, ids) \<Rightarrow> Inr (ids, warnings)
      | Inl failure \<Rightarrow>
          (if cancellation_observed failure then Inl failure
           else if is_unavailable_failure failure then Inr ([], warnings @ [key_points_unavailable_warning])
           else Inl failure))"

definition verified_summary_text ::
  "synthesized_document \<Rightarrow> analyzed_document \<Rightarrow> cited_claim list \<Rightarrow> cited_claim list \<Rightarrow> pipeline_failure + string" where
  "verified_summary_text s analyzed claims summary =
     (if synthesized_presentation s = Coherent then render_cited_summary_with_evidence summary (synthesized_evidence s)
      else render_cited_summary claims analyzed)"

definition drafted ::
  "model_runtime \<Rightarrow> synthesized_document \<Rightarrow> u32 \<Rightarrow> bool \<Rightarrow> claim_verification list \<Rightarrow> claim_verification list \<Rightarrow> string \<Rightarrow>
   string list \<Rightarrow> pipeline_warning list \<Rightarrow> verified_document" where
  "drafted runtime s attempt select_key verdicts summary_vs rendered ids warnings =
     \<lparr>verified_extraction = None, verified_document_id = synthesized_document_id s,
      verification_version = verification_version_for (synthesis_version s) (synthesized_presentation s) select_key,
      synthesis_attempt_ordinal = attempt,
      verified_runtime_id = mr_runtime_id runtime Verify, verified_model_id = mr_model_id runtime Verify,
      verified_presentation = synthesized_presentation s, verified_text = rendered,
      verified_chunk_ids = synthesized_chunk_ids s, verified_summary_claims = supported (synthesized_summary_claims s) summary_vs,
      verified_evidence = synthesized_evidence s, summary_claim_verifications = summary_vs,
      verified_claims = supported (synthesized_claims s) verdicts, claim_verifications = verdicts,
      key_point_claim_ids = ids, verified_warnings = warnings\<rparr>"

text \<open>\<open>verify\<close> up to the construction of its result.\<close>

definition verification_draft ::
  "tools \<Rightarrow> model_access \<Rightarrow> summary_profile \<Rightarrow> synthesized_document \<Rightarrow> analyzed_document \<Rightarrow> chunked_document \<Rightarrow>
   normalized_document \<Rightarrow> u64 \<Rightarrow> u32 \<Rightarrow> bool \<Rightarrow> pipeline_failure + verified_document" where
  "verification_draft env access profile s analyzed chunked normalized generation_seed attempt select_key =
     res_bind (cancellation_checkpoint (ma_cancelled access 0) Verify) (\<lambda>_.
     res_bind (validate_synthesized_document_without_runtime env s analyzed chunked normalized) (\<lambda>_.
     res_bind (validate_model_output_fallback_boundary profile s) (\<lambda>_.
     res_bind (ledger_verdicts env access s analyzed normalized generation_seed (0, 1)) (\<lambda>((next1, k1), verdicts).
     res_bind (cancellation_checkpoint (ma_cancelled access k1) Verify) (\<lambda>_.
     let claims = supported (synthesized_claims s) verdicts in
     res_bind (summary_verdicts env access profile s analyzed chunked normalized generation_seed (next1, k1 + 1))
       (\<lambda>((next2, k2), summary_vs).
     res_bind (cancellation_checkpoint (ma_cancelled access k2) Verify) (\<lambda>_.
     let summary = supported (synthesized_summary_claims s) summary_vs in
     res_bind (verified_summary_text s analyzed claims summary) (\<lambda>rendered.
     res_bind (chosen_key_points access s claims analyzed select_key generation_seed (next2, k2 + 1)
         (verification_warnings s (verdicts @ summary_vs) (0 < attempt))) (\<lambda>(ids, warnings).
     Inr (drafted (ma_runtime access) s attempt select_key verdicts summary_vs rendered ids warnings))))))))))"

definition verify ::
  "tools \<Rightarrow> model_access \<Rightarrow> summary_profile \<Rightarrow> synthesized_document \<Rightarrow> analyzed_document \<Rightarrow> chunked_document \<Rightarrow>
   normalized_document \<Rightarrow> u64 \<Rightarrow> u32 \<Rightarrow> bool \<Rightarrow> pipeline_failure + verified_document" where
  "verify env access profile s analyzed chunked normalized generation_seed attempt select_key =
     (if version_supported (synthesis_version s)
      then contract_verify (env_sha env) (env_unicode env) s analyzed chunked normalized (ma_cancelled access 0)
      else res_bind (verification_draft env access profile s analyzed chunked normalized generation_seed attempt select_key) (\<lambda>v.
        res_bind (validate_verified_document env v s analyzed chunked normalized) (\<lambda>_. Inr v)))"

section \<open>Verdicts are only lowered\<close>

text \<open>A verdict may be withdrawn, never granted, and stays with its claim.\<close>

definition lowered :: "claim_verification \<Rightarrow> claim_verification \<Rightarrow> bool" where
  "lowered v v' \<longleftrightarrow> v' = v \<or> (verdict v = Supported \<and> verdict v' \<noteq> Supported \<and> v' = v\<lparr>verdict := verdict v'\<rparr>)"

lemma lowered_refl [simp]: "lowered v v"
  by (simp add: lowered_def)

lemma lowered_trans: "lowered u v \<Longrightarrow> lowered v w \<Longrightarrow> lowered u w"
  by (auto simp: lowered_def)

lemma lowered_ids:
  "lowered v v' \<Longrightarrow> verified_claim_id v' = verified_claim_id v \<and> verified_evidence_ids v' = verified_evidence_ids v"
  unfolding lowered_def by (metis claim_verification.select_convs(1,2) claim_verification.surjective claim_verification.update_convs(3))

lemma lowered_lists_refl [simp]: "list_all2 lowered vs vs"
  by (simp add: list_all2_same)

lemma lowered_lists_trans: "list_all2 lowered us vs \<Longrightarrow> list_all2 lowered vs ws \<Longrightarrow> list_all2 lowered us ws"
  by (rule list_all2_trans [OF lowered_trans])

lemma guards_lower:
  assumes "apply_semantic_fidelity_guards u others claims evidence vs = Inr vs'"
  shows "list_all2 lowered vs vs'"
proof -
  from assms have len: "length claims = length vs"
    and all: "list_all2 (\<lambda>x v'. guard_verdict u others (evidence_by_id evidence) x = Inr v') (zip claims vs) vs'"
    by (auto simp: apply_semantic_fidelity_guards_def res_simps)
  from all have "list_all2 (\<lambda>x v'. lowered (snd x) v') (zip claims vs) vs'"
    by (rule list_all2_mono) (auto dest!: guard_verdict_Inr simp: lowered_def)
  then have "list_all2 lowered (map snd (zip claims vs)) vs'" by (simp add: list_all2_map1)
  then show ?thesis using len by simp
qed

lemma material_downgrade_lower:
  "material_downgrade required verdicts i es d = Inr d' \<Longrightarrow> d \<noteq> Some Supported \<Longrightarrow> d' \<noteq> Some Supported"
  by (induction required verdicts i es d rule: material_downgrade.induct) (auto split: if_splits option.splits material_verdict.splits)

lemma merge_verdict_lower: "merge_verdict required verdicts v = Inr v' \<Longrightarrow> lowered v v'"
  by (auto simp: merge_verdict_def lowered_def res_simps split: if_splits option.splits dest!: material_downgrade_lower)

lemma coverage_lower:
  assumes "apply_contract_material_coverage codec runtime cancelled claims evidence required vs generation_seed st = Inr (st', vs')"
  shows "list_all2 lowered vs vs'"
proof -
  from assms consider "vs' = vs" | verdicts where "merge_contract_material_coverage_verdicts required verdicts vs = Inr vs'"
    by (auto simp: apply_contract_material_coverage_def elim!: res_bind_InrE split: if_splits)
  then show ?thesis
  proof cases
    case (2 verdicts)
    then have "list_all2 (\<lambda>v v'. merge_verdict (set required) verdicts v = Inr v') vs vs'"
      by (simp add: merge_contract_material_coverage_verdicts_def res_simps)
    then show ?thesis by (rule list_all2_mono) (rule merge_verdict_lower)
  qed simp
qed

lemma contributions_lower:
  assumes "verify_source_contributions codec runtime cancelled s vs generation_seed st = Inr (st', vs')"
  shows "list_all2 lowered vs vs'"
proof -
  let ?claims = "synthesized_summary_claims s"
  from assms obtain required verdicts merged where
    merged: "res_collect (merge_trimmed s required verdicts) (zip ?claims vs) = Inr merged"
    and vs': "vs' = merged @ drop (length ?claims) vs"
    by (auto simp: verify_source_contributions_def Let_def elim!: res_bind_InrE)
  from merged have "list_all2 (\<lambda>x v'. merge_trimmed s required verdicts x = Inr v') (zip ?claims vs) merged" by (simp add: res_simps)
  then have "list_all2 (\<lambda>x v'. lowered (snd x) v') (zip ?claims vs) merged"
    by (rule list_all2_mono) (auto simp: merge_trimmed_def merge_verdict_lower split: if_splits)
  then have "list_all2 lowered (map snd (zip ?claims vs)) merged" by (simp add: list_all2_map1)
  then have "list_all2 lowered (take (length ?claims) vs) merged" by (simp add: map_snd_zip_take min_def split: if_splits)
  then have "list_all2 lowered (take (length ?claims) vs @ drop (length ?claims) vs) vs'"
    unfolding vs' by (rule list_all2_appendI) simp
  then show ?thesis by simp
qed

section \<open>Every claim has its verdict\<close>

definition verdict_names :: "claim_verification list \<Rightarrow> (string \<times> string list) list" where
  "verdict_names vs = map (\<lambda>v. (verified_claim_id v, verified_evidence_ids v)) vs"

definition claim_names :: "cited_claim list \<Rightarrow> (string \<times> string list) list" where
  "claim_names claims = map (\<lambda>c. (claim_id c, claim_evidence_ids c)) claims"

lemma lowered_names: "list_all2 lowered vs vs' \<Longrightarrow> verdict_names vs' = verdict_names vs"
  by (induction rule: list_all2_induct) (simp_all add: verdict_names_def lowered_ids)

lemma verdicts_match_names: "verdicts_match vs claims \<longleftrightarrow> verdict_names vs = claim_names claims"
proof (induction vs arbitrary: claims)
  case Nil
  then show ?case by (cases claims) (simp_all add: verdicts_match_def verdict_names_def claim_names_def)
next
  case (Cons v vs)
  then show ?case by (cases claims) (auto simp: verdicts_match_def verdict_names_def claim_names_def)
qed

lemma classify_batch_names:
  assumes "classify_batch codec runtime cancelled generation_seed (n, k, vs) batch = Inr (n', k', vs')"
  shows "verdict_names vs' = verdict_names vs @ claim_names (vb_claims batch)"
proof -
  from assms obtain restored new where "parse_verification_response codec restored (vb_claims batch) = Inr new" "vs' = vs @ new"
    by (auto simp: classify_batch_def Let_def elim!: res_bind_InrE)
  then show ?thesis by (auto simp: parse_verification_Inr verdict_names_def claim_names_def)
qed

lemma classify_names:
  assumes "classify_claim_support codec runtime cancelled prompt claims claim_budget generation_seed n = Inr (n', k', vs)"
  shows "verdict_names vs = claim_names claims"
proof -
  from assms obtain batches where batches: "verification_batches_for_runtime codec runtime prompt claims claim_budget = Inr batches"
    and fold: "res_fold (classify_batch codec runtime cancelled generation_seed) (n, 2, []) batches = Inr (n', k', vs)"
    by (auto simp: classify_claim_support_def elim!: res_bind_InrE)
  have "verdict_names (snd (snd (n', k', vs))) = concat (map (claim_names \<circ> vb_claims) batches)"
  proof (rule res_fold_invariant [OF fold, where P = "\<lambda>(bs :: verification_batch list) st.
      verdict_names (snd (snd st)) = concat (map (claim_names \<circ> vb_claims) bs)"])
    show "verdict_names (snd (snd (n, 2, []))) = concat (map (claim_names \<circ> vb_claims) [])" by (simp add: verdict_names_def)
  next
    fix bs :: "verification_batch list" and b st st'
    assume "verdict_names (snd (snd st)) = concat (map (claim_names \<circ> vb_claims) bs)"
      "classify_batch codec runtime cancelled generation_seed st b = Inr st'"
    then show "verdict_names (snd (snd st')) = concat (map (claim_names \<circ> vb_claims) (bs @ [b]))"
      by (cases st, cases st') (simp add: classify_batch_names)
  qed
  also have "concat (map (claim_names \<circ> vb_claims) batches) = claim_names (concat (map vb_claims batches))"
    by (simp add: claim_names_def map_concat comp_def)
  also have "concat (map vb_claims batches) = claims"
    using batches by (auto simp: verification_batches_for_runtime_def elim!: res_bind_InrE dest!: plan_Inr)
  finally show ?thesis by simp
qed

lemma classify_from_names:
  "classify_from env access prompt claims claim_budget generation_seed st = Inr (st', vs) \<Longrightarrow> verdict_names vs = claim_names claims"
  by (auto simp: classify_from_def elim!: res_bind_InrE dest: classify_names)

lemma ledger_verdicts_Inr:
  assumes "ledger_verdicts env access s analyzed normalized generation_seed st = Inr (st', vs)"
  shows "\<exists>prompt claim_budget raw. verification_prompt (synthesized_claims s) (ledger_evidence analyzed) = Inr prompt
      \<and> classify_from env access prompt (synthesized_claims s) claim_budget generation_seed st = Inr (st', raw)
      \<and> list_all2 lowered raw vs"
    and "verdicts_match vs (synthesized_claims s)"
proof -
  from assms obtain prompt claim_budget raw where
    raw: "verification_prompt (synthesized_claims s) (ledger_evidence analyzed) = Inr prompt"
      "classify_from env access prompt (synthesized_claims s) claim_budget generation_seed st = Inr (st', raw)"
    and low: "list_all2 lowered raw vs"
    by (auto simp: ledger_verdicts_def Let_def elim!: res_bind_InrE split: if_splits dest!: guards_lower)
  from raw low show "\<exists>prompt claim_budget raw. verification_prompt (synthesized_claims s) (ledger_evidence analyzed) = Inr prompt
      \<and> classify_from env access prompt (synthesized_claims s) claim_budget generation_seed st = Inr (st', raw)
      \<and> list_all2 lowered raw vs" by blast
  from lowered_names [OF low] classify_from_names [OF raw(2)] show "verdicts_match vs (synthesized_claims s)"
    by (simp add: verdicts_match_names)
qed

lemma summary_verdicts_Inr:
  assumes "summary_verdicts env access profile s analyzed chunked normalized generation_seed st = Inr (st', vs)"
  shows "\<exists>st1 raw. model_summary_verdicts env access profile s normalized generation_seed st = Inr (st1, raw) \<and> list_all2 lowered raw vs"
    and "verdicts_match vs (synthesized_summary_claims s)"
proof -
  from assms obtain st1 raw guarded st2 contributing required where
    raw: "model_summary_verdicts env access profile s normalized generation_seed st = Inr (st1, raw)"
    and low: "list_all2 lowered raw guarded"
    and trims: "(if profile = General
          then verify_source_contributions (ma_coverage access) (ma_runtime access) (ma_cancelled access) s guarded generation_seed st1
          else Inr (st1, guarded)) = Inr (st2, contributing)"
    and last: "(case required of
        None \<Rightarrow> Inr (st2, contributing)
      | Some ids \<Rightarrow> apply_contract_material_coverage (ma_coverage access) (ma_runtime access) (ma_cancelled access)
          (synthesized_summary_claims s) (synthesized_evidence s) ids contributing generation_seed st2) = Inr (st', vs)"
    by (auto simp: summary_verdicts_def Let_def elim!: res_bind_InrE dest!: guards_lower)
  from trims have "list_all2 lowered guarded contributing" by (auto split: if_splits dest: contributions_lower)
  moreover from last have "list_all2 lowered contributing vs" by (auto split: option.splits dest: coverage_lower)
  ultimately have low': "list_all2 lowered raw vs" using low lowered_lists_trans by blast
  with raw show "\<exists>st1 raw. model_summary_verdicts env access profile s normalized generation_seed st = Inr (st1, raw)
      \<and> list_all2 lowered raw vs" by blast
  from raw have "verdict_names raw = claim_names (synthesized_summary_claims s)"
    by (auto simp: model_summary_verdicts_def Let_def verdict_names_def claim_names_def split: if_splits elim!: res_bind_InrE
        dest: classify_from_names [unfolded verdict_names_def claim_names_def])
  with lowered_names [OF low'] show "verdicts_match vs (synthesized_summary_claims s)" by (simp add: verdicts_match_names)
qed

section \<open>The result passes its own check\<close>

lemma coherent_version_choice:
  "list_all (\<lambda>version. list_all (\<lambda>mode. list_all (\<lambda>select_key.
       (version = PRE_DISCLOSURE_SYNTHESIS_VERSION \<and> mode = Coherent)
       \<or> (let chosen = verification_version_for version mode select_key in
           chosen \<in> set coherent_verification_versions
           \<and> chosen \<notin> {LEGACY_VERIFICATION_VERSION, PREVIOUS_VERIFICATION_VERSION, DIRECT_VERIFICATION_VERSION}
           \<and> coherent_verification_versions_match version chosen))
     [True, False]) [Coherent, ClaimLedgerFallback])
   (contract_source_versions @ [PRE_CONTEXT_SYNTHESIS_VERSION, PRE_DISCLOSURE_SYNTHESIS_VERSION])"
  by code_simp

lemma coherent_choice:
  assumes "coherent_synthesis_version_supported version" "mode \<in> {Coherent, ClaimLedgerFallback}"
    and "\<not> (version = PRE_DISCLOSURE_SYNTHESIS_VERSION \<and> mode = Coherent)"
  shows "verification_version_for version mode select_key \<in> set coherent_verification_versions"
    "verification_version_for version mode select_key
       \<notin> {LEGACY_VERIFICATION_VERSION, PREVIOUS_VERIFICATION_VERSION, DIRECT_VERIFICATION_VERSION}"
    "coherent_verification_versions_match version (verification_version_for version mode select_key)"
proof -
  have key: "select_key \<in> set [True, False]" by (cases select_key) simp_all
  have mode: "mode \<in> set [Coherent, ClaimLedgerFallback]" using assms(2) by simp
  note coherent_version_choice [unfolded list_all_iff, THEN bspec, OF assms(1) [unfolded coherent_synthesis_version_supported_def],
      THEN bspec, OF mode, THEN bspec, OF key, unfolded Let_def]
  with assms(3) show "verification_version_for version mode select_key \<in> set coherent_verification_versions"
    "verification_version_for version mode select_key
       \<notin> {LEGACY_VERIFICATION_VERSION, PREVIOUS_VERIFICATION_VERSION, DIRECT_VERIFICATION_VERSION}"
    "coherent_verification_versions_match version (verification_version_for version mode select_key)"
    by argo+
qed

lemma plain_version_choice:
  "list_all (\<lambda>select_key.
      verification_version_for DIRECT_SYNTHESIS_VERSION LegacyClaimList select_key =
        (if select_key then DIRECT_KEY_POINTS_VERIFICATION_VERSION else DIRECT_VERIFICATION_VERSION)
      \<and> list_all (\<lambda>version. verification_version_for version LegacyClaimList select_key = HIERARCHICAL_VERIFICATION_VERSION)
          [HIERARCHICAL_SYNTHESIS_VERSION, PREVIOUS_SYNTHESIS_VERSION, LEGACY_SYNTHESIS_VERSION])
     [True, False]"
  "list_all (\<lambda>chosen. chosen \<notin> set coherent_verification_versions
      \<and> chosen \<notin> {LEGACY_VERIFICATION_VERSION, PREVIOUS_VERIFICATION_VERSION})
     [DIRECT_KEY_POINTS_VERIFICATION_VERSION, DIRECT_VERIFICATION_VERSION, HIERARCHICAL_VERIFICATION_VERSION]"
  "distinct [HIERARCHICAL_VERIFICATION_VERSION, DIRECT_KEY_POINTS_VERIFICATION_VERSION, DIRECT_VERIFICATION_VERSION]"
  "distinct [DIRECT_SYNTHESIS_VERSION, HIERARCHICAL_SYNTHESIS_VERSION, PREVIOUS_SYNTHESIS_VERSION, LEGACY_SYNTHESIS_VERSION]"
  "\<not> coherent_synthesis_version_supported DIRECT_SYNTHESIS_VERSION"
  by code_simp+

lemma warnings_not_deferred:
  "\<not> list_ex (\<lambda>w. warning_code w = ''SEMANTIC_VERIFICATION_DEFERRED'') (verification_warnings s vs retried)"
  by (auto simp: verification_warnings_def Let_def list_ex_iff inherited_warning_def verify_warning_def coverage_shortfall_warning_def
      COVERAGE_SHORTFALL_WARNING_CODE_def)

lemma draft_Inr:
  assumes "verification_draft env access profile s analyzed chunked normalized generation_seed attempt select_key = Inr v"
  obtains st1 st2 st3 verdicts summary_vs ids warnings rendered where
    "validate_synthesized_document_without_runtime env s analyzed chunked normalized = Inr ()"
    "ledger_verdicts env access s analyzed normalized generation_seed (0, 1) = Inr (st1, verdicts)"
    "summary_verdicts env access profile s analyzed chunked normalized generation_seed (fst st1, snd st1 + 1) = Inr (st2, summary_vs)"
    "verified_summary_text s analyzed (supported (synthesized_claims s) verdicts) (supported (synthesized_summary_claims s) summary_vs)
       = Inr rendered"
    "chosen_key_points access s (supported (synthesized_claims s) verdicts) analyzed select_key generation_seed st3
       (verification_warnings s (verdicts @ summary_vs) (0 < attempt)) = Inr (ids, warnings)"
    "v = drafted (ma_runtime access) s attempt select_key verdicts summary_vs rendered ids warnings"
  using assms by (auto simp: verification_draft_def Let_def elim!: res_bind_InrE)

lemma chosen_plain: "synthesis_version s \<noteq> DIRECT_SYNTHESIS_VERSION \<or> \<not> select_key \<Longrightarrow>
  chosen_key_points access s claims analyzed select_key generation_seed st warnings = Inr (ids, warnings') \<longleftrightarrow>
    ids = [] \<and> warnings' = warnings"
  by (auto simp: chosen_key_points_def)

lemma chosen_ranked:
  assumes "chosen_key_points access s claims analyzed select_key generation_seed st warnings = Inr (ids, warnings')"
    and "select_key" and "synthesis_version s = DIRECT_SYNTHESIS_VERSION"
  shows "persisted_contract_valid claims ids warnings' warnings"
    and "warnings' = warnings \<or> warnings' = warnings @ [key_points_unavailable_warning]"
  using assms by (auto simp: chosen_key_points_def split: sum.splits if_splits intro: selected_valid unselected_valid)

text \<open>The presentation of a synthesized document that has been accepted.\<close>

lemma accepted_presentation:
  assumes "validate_synthesized_document_without_runtime env s analyzed chunked normalized = Inr ()"
    and "\<not> version_supported (synthesis_version s)"
  shows "synthesis_version s \<in> set synthesis_versions"
    and "coherent_synthesis_version_supported (synthesis_version s) \<Longrightarrow> synthesized_presentation s \<in> {Coherent, ClaimLedgerFallback}"
    and "\<not> coherent_synthesis_version_supported (synthesis_version s) \<Longrightarrow>
      synthesized_presentation s = LegacyClaimList \<and> synthesized_summary_claims s = [] \<and> synthesized_evidence s = []"
proof -
  note unfolded = assms(1) [unfolded validate_synthesized_document_without_runtime_def Let_def]
  from unfolded assms(2) show "synthesis_version s \<in> set synthesis_versions"
    by (auto simp: synthesis_metadata_valid_def res_simps elim!: res_bind_InrE)
  show "synthesized_presentation s \<in> {Coherent, ClaimLedgerFallback}" if "coherent_synthesis_version_supported (synthesis_version s)"
  proof -
    from unfolded assms(2) that have "validate_content env s analyzed chunked normalized = Inr ()" by (auto elim!: res_bind_InrE)
    then show ?thesis by (cases "synthesized_presentation s") (auto simp: validate_content_def Let_def elim!: res_bind_InrE)
  qed
  show "synthesized_presentation s = LegacyClaimList \<and> synthesized_summary_claims s = [] \<and> synthesized_evidence s = []"
    if "\<not> coherent_synthesis_version_supported (synthesis_version s)"
  proof -
    from unfolded assms(2) that have "check_historical_synthesis env s analyzed chunked normalized = Inr ()" by (auto elim!: res_bind_InrE)
    then show ?thesis by (auto simp: check_historical_synthesis_def res_simps elim!: res_bind_InrE)
  qed
qed

lemma coherent_draft_valid:
  assumes matched: "verdicts_match verdicts (synthesized_claims s)" "verdicts_match summary_vs (synthesized_summary_claims s)"
    and runtime: "\<not> blank (mr_runtime_id runtime Verify)" "\<not> blank (mr_model_id runtime Verify)"
    and rendered: "verified_summary_text s analyzed (supported (synthesized_claims s) verdicts)
       (supported (synthesized_summary_claims s) summary_vs) = Inr rendered"
    and accepted: "synthesized_presentation s \<in> {Coherent, ClaimLedgerFallback}"
    and version: "coherent_verification_versions_match (synthesis_version s)
       (verification_version_for (synthesis_version s) (synthesized_presentation s) select_key)"
  shows "validate_coherent_verified_document u
    (drafted runtime s 0 select_key verdicts summary_vs rendered [] (verification_warnings s (verdicts @ summary_vs) False))
    s analyzed normalized = Inr ()" (is "validate_coherent_verified_document u ?v s analyzed normalized = _")
proof -
  have delivered: "\<not> is_delivery_fallback ?v s" by (auto simp: is_delivery_fallback_def drafted_def)
  have "expected_coherent_text (verified_presentation ?v) (verified_claims ?v) (verified_summary_claims ?v) s analyzed = Inr rendered"
    using rendered accepted by (auto simp: expected_coherent_text_def verified_summary_text_def drafted_def)
  moreover have "coherent_metadata_valid ?v s"
    using matched runtime version by (simp add: coherent_metadata_valid_def drafted_def)
  moreover have "verified_warnings ?v = expected_coherent_warnings ?v s"
    using delivered by (simp add: expected_coherent_warnings_def drafted_def)
  moreover have "not_deferred ?v" using warnings_not_deferred by (simp add: not_deferred_def drafted_def)
  ultimately show ?thesis
    using delivered by (simp add: validate_coherent_verified_document_def Let_def drafted_def)
qed

lemma plain_draft_valid:
  assumes matched: "verdicts_match verdicts (synthesized_claims s)"
    and runtime: "\<not> blank (mr_runtime_id runtime Verify)" "\<not> blank (mr_model_id runtime Verify)"
    and rendered: "render_cited_summary (supported (synthesized_claims s) verdicts) analyzed = Inr rendered"
    and accepted: "synthesized_presentation s = LegacyClaimList" "synthesized_summary_claims s = []" "synthesized_evidence s = []"
    and v: "v = drafted runtime s attempt select_key verdicts [] rendered ids warnings"
    and attempt: "attempt \<le> 1"
  shows "synthesis_version s = DIRECT_SYNTHESIS_VERSION \<Longrightarrow> verification_version v = DIRECT_KEY_POINTS_VERIFICATION_VERSION \<Longrightarrow>
      attempt = 0 \<Longrightarrow>
      persisted_contract_valid (supported (synthesized_claims s) verdicts) ids warnings (verification_warnings s verdicts False) \<Longrightarrow>
      warnings = verification_warnings s verdicts False
        \<or> warnings = verification_warnings s verdicts False @ [key_points_unavailable_warning] \<Longrightarrow>
      validate_ranked_verified_document v s analyzed = Inr ()"
    and "synthesis_version s \<noteq> DIRECT_SYNTHESIS_VERSION \<Longrightarrow> verification_version v = HIERARCHICAL_VERIFICATION_VERSION \<Longrightarrow>
      ids = [] \<Longrightarrow> warnings = verification_warnings s verdicts (0 < attempt) \<Longrightarrow>
      validate_ranked_verified_document v s analyzed = Inr ()"
    and "synthesis_version s = DIRECT_SYNTHESIS_VERSION \<Longrightarrow> attempt = 0 \<Longrightarrow> ids = [] \<Longrightarrow>
      warnings = verification_warnings s verdicts False \<Longrightarrow>
      validate_direct_verified_document_without_key_points v s analyzed = Inr ()"
proof -
  have metadata: "verified_metadata_valid v s"
    using accepted matched runtime by (simp add: verified_metadata_valid_def v drafted_def supported_def verdicts_match_def)
  have plain: "not_deferred v" if "warnings = verification_warnings s verdicts retried" for retried
    using warnings_not_deferred by (simp add: not_deferred_def v drafted_def that)
  show "validate_ranked_verified_document v s analyzed = Inr ()"
    if ranked: "synthesis_version s = DIRECT_SYNTHESIS_VERSION" "verification_version v = DIRECT_KEY_POINTS_VERIFICATION_VERSION"
      "attempt = 0" "persisted_contract_valid (supported (synthesized_claims s) verdicts) ids warnings (verification_warnings s verdicts False)"
      "warnings = verification_warnings s verdicts False
        \<or> warnings = verification_warnings s verdicts False @ [key_points_unavailable_warning]"
  proof -
    have "not_deferred v" using ranked(5) warnings_not_deferred
      by (auto simp: not_deferred_def v drafted_def key_points_unavailable_warning_def verify_warning_def)
    then show ?thesis
      using metadata rendered ranked(1-4) by (simp add: validate_ranked_verified_document_def Let_def) (simp add: v drafted_def)
  qed
  show "validate_ranked_verified_document v s analyzed = Inr ()"
    if "synthesis_version s \<noteq> DIRECT_SYNTHESIS_VERSION" "verification_version v = HIERARCHICAL_VERIFICATION_VERSION"
      "ids = []" "warnings = verification_warnings s verdicts (0 < attempt)"
    using metadata rendered that plain [OF that(4)] attempt plain_version_choice(3)
    by (simp add: validate_ranked_verified_document_def Let_def) (simp add: v drafted_def)
  show "validate_direct_verified_document_without_key_points v s analyzed = Inr ()"
    if "synthesis_version s = DIRECT_SYNTHESIS_VERSION" "attempt = 0" "ids = []" "warnings = verification_warnings s verdicts False"
    using metadata rendered that plain [OF that(4)]
    by (simp add: validate_direct_verified_document_without_key_points_def validate_unranked_verified_document_def Let_def)
      (simp add: v drafted_def)
qed

lemma legacy_summary_empty:
  assumes "summary_verdicts env access profile s analyzed chunked normalized generation_seed st = Inr (st', vs)"
    and "synthesized_summary_claims s = []"
  shows "vs = []"
  using summary_verdicts_Inr(2) [OF assms(1)] assms(2) by (simp add: verdicts_match_def)

lemma plain_choice:
  "verification_version_for DIRECT_SYNTHESIS_VERSION LegacyClaimList select_key =
     (if select_key then DIRECT_KEY_POINTS_VERIFICATION_VERSION else DIRECT_VERIFICATION_VERSION)"
  "version \<in> set [HIERARCHICAL_SYNTHESIS_VERSION, PREVIOUS_SYNTHESIS_VERSION, LEGACY_SYNTHESIS_VERSION] \<Longrightarrow>
     verification_version_for version LegacyClaimList select_key = HIERARCHICAL_VERIFICATION_VERSION"
proof -
  have key: "select_key \<in> set [True, False]" by (cases select_key) simp_all
  note choice = plain_version_choice(1) [unfolded list_all_iff, THEN bspec, OF key]
  from choice show "verification_version_for DIRECT_SYNTHESIS_VERSION LegacyClaimList select_key =
     (if select_key then DIRECT_KEY_POINTS_VERIFICATION_VERSION else DIRECT_VERIFICATION_VERSION)" by (rule conjunct1)
  show "verification_version_for version LegacyClaimList select_key = HIERARCHICAL_VERIFICATION_VERSION"
    if "version \<in> set [HIERARCHICAL_SYNTHESIS_VERSION, PREVIOUS_SYNTHESIS_VERSION, LEGACY_SYNTHESIS_VERSION]"
    using conjunct2 [OF choice] that by (rule bspec)
qed

lemma draft_passes:
  assumes draft: "verification_draft env access profile s analyzed chunked normalized generation_seed attempt select_key = Inr v"
    and prose: "\<not> version_supported (synthesis_version s)"
    and runtime: "\<not> blank (mr_runtime_id (ma_runtime access) Verify)" "\<not> blank (mr_model_id (ma_runtime access) Verify)"
    and attempt: "attempt \<le> 1"
      "coherent_synthesis_version_supported (synthesis_version s) \<or> synthesis_version s = DIRECT_SYNTHESIS_VERSION \<Longrightarrow> attempt = 0"
    and current: "\<not> (synthesis_version s = PRE_DISCLOSURE_SYNTHESIS_VERSION \<and> synthesized_presentation s = Coherent)"
  shows "verify env access profile s analyzed chunked normalized generation_seed attempt select_key = Inr v"
proof -
  from draft obtain st1 st2 st3 verdicts summary_vs ids warnings rendered where
    valid: "validate_synthesized_document_without_runtime env s analyzed chunked normalized = Inr ()"
    and ledger: "ledger_verdicts env access s analyzed normalized generation_seed (0, 1) = Inr (st1, verdicts)"
    and summary: "summary_verdicts env access profile s analyzed chunked normalized generation_seed (fst st1, snd st1 + 1) = Inr (st2, summary_vs)"
    and rendered: "verified_summary_text s analyzed (supported (synthesized_claims s) verdicts)
       (supported (synthesized_summary_claims s) summary_vs) = Inr rendered"
    and chosen: "chosen_key_points access s (supported (synthesized_claims s) verdicts) analyzed select_key generation_seed st3
       (verification_warnings s (verdicts @ summary_vs) (0 < attempt)) = Inr (ids, warnings)"
    and v: "v = drafted (ma_runtime access) s attempt select_key verdicts summary_vs rendered ids warnings"
    by (rule draft_Inr)
  note accepted = accepted_presentation [OF valid prose]
  note matched = ledger_verdicts_Inr(2) [OF ledger] summary_verdicts_Inr(2) [OF summary]
  have version: "verification_version v = verification_version_for (synthesis_version s) (synthesized_presentation s) select_key"
    and none: "verified_extraction v = None" by (simp_all add: v drafted_def)
  have "validate_verified_document env v s analyzed chunked normalized = Inr ()"
  proof (cases "coherent_synthesis_version_supported (synthesis_version s)")
    case True
    note choice = coherent_choice [OF True accepted(2) [OF True] current, of select_key]
    from True plain_version_choice(5) have "synthesis_version s \<noteq> DIRECT_SYNTHESIS_VERSION" by auto
    with chosen True attempt(2) have "ids = []" "warnings = verification_warnings s (verdicts @ summary_vs) False" "attempt = 0"
      by (auto simp: chosen_plain)
    with coherent_draft_valid [OF matched runtime rendered accepted(2) [OF True] choice(3)]
    have "validate_coherent_verified_document (env_unicode env) v s analyzed normalized = Inr ()" by (simp add: v)
    with choice(1,2) prose valid none show ?thesis by (simp add: validate_verified_document_def version)
  next
    case False
    note legacy = accepted(3) [OF False]
    then have empty: "summary_vs = []" using legacy_summary_empty [OF summary] by simp
    have "render_cited_summary (supported (synthesized_claims s) verdicts) analyzed = Inr rendered"
      using rendered legacy by (simp add: verified_summary_text_def)
    note plain = plain_draft_valid [OF matched(1) runtime this legacy [THEN conjunct1] legacy [THEN conjunct2, THEN conjunct1]
        legacy [THEN conjunct2, THEN conjunct2] v [unfolded empty] attempt(1)]
    show ?thesis
    proof (cases "synthesis_version s = DIRECT_SYNTHESIS_VERSION")
      case direct: True
      then have first: "attempt = 0" using attempt(2) by simp
      show ?thesis
      proof (cases select_key)
        case True
        with version direct legacy plain_choice(1) have ranked: "verification_version v = DIRECT_KEY_POINTS_VERIFICATION_VERSION" by simp
        with plain(1) [OF direct _ first] chosen_ranked [OF chosen True direct] show ?thesis
          using prose valid none plain_version_choice(2,3) by (simp add: validate_verified_document_def empty first)
      next
        case False
        with version direct legacy plain_choice(1) have unranked: "verification_version v = DIRECT_VERIFICATION_VERSION" by simp
        from False chosen have "ids = []" "warnings = verification_warnings s verdicts False" by (simp_all add: chosen_plain empty first)
        with plain(3) [OF direct first] show ?thesis
          using unranked prose valid none plain_version_choice(2) by (simp add: validate_verified_document_def)
      qed
    next
      case old: False
      with accepted(1) False have "synthesis_version s \<in> set [HIERARCHICAL_SYNTHESIS_VERSION, PREVIOUS_SYNTHESIS_VERSION, LEGACY_SYNTHESIS_VERSION]"
        by (auto simp: synthesis_versions_def coherent_synthesis_version_supported_def)
      with version legacy plain_choice(2) have hierarchical: "verification_version v = HIERARCHICAL_VERIFICATION_VERSION" by simp
      from chosen old have "ids = []" "warnings = verification_warnings s verdicts (0 < attempt)" by (simp_all add: chosen_plain empty)
      with plain(2) [OF old hierarchical] show ?thesis
        using hierarchical prose valid none plain_version_choice(2,3) by (simp add: validate_verified_document_def)
    qed
  qed
  then show ?thesis using prose draft by (simp add: verify_def)
qed

text \<open>A contract is verified by the computation its validator repeats.\<close>

lemma contract_verify_passes:
  assumes "verify env access profile s analyzed chunked normalized generation_seed attempt select_key = Inr v"
    and "version_supported (synthesis_version s)"
  shows "validate_verified_document env v s analyzed chunked normalized = Inr ()"
proof -
  from assms have computed: "contract_verify (env_sha env) (env_unicode env) s analyzed chunked normalized (ma_cancelled access 0) = Inr v"
    by (simp add: verify_def)
  then have "ma_cancelled access 0 = False" by (auto simp: contract_verify_def cancellation_checkpoint_def res_simps)
  with computed assms(2) show ?thesis by (simp add: validate_verified_document_def validate_contract_verified_def ensure_def)
qed

lemma outdated_version_choice:
  "list_all (\<lambda>select_key. verification_version_for PRE_DISCLOSURE_SYNTHESIS_VERSION Coherent select_key = HIERARCHICAL_VERIFICATION_VERSION)
     [True, False]"
  by code_simp

lemma outdated_draft_fails:
  assumes draft: "verification_draft env access profile s analyzed chunked normalized generation_seed attempt select_key = Inr v"
    and prose: "\<not> version_supported (synthesis_version s)"
    and outdated: "synthesis_version s = PRE_DISCLOSURE_SYNTHESIS_VERSION" "synthesized_presentation s = Coherent"
  shows "\<not> is_ok (verify env access profile s analyzed chunked normalized generation_seed attempt select_key)"
proof -
  from draft obtain verdicts summary_vs ids warnings rendered where
    v: "v = drafted (ma_runtime access) s attempt select_key verdicts summary_vs rendered ids warnings"
    by (rule draft_Inr)
  have "verification_version v = HIERARCHICAL_VERIFICATION_VERSION"
    using outdated_version_choice by (cases select_key) (simp_all add: v drafted_def outdated)
  moreover have "verified_presentation v = Coherent" by (simp add: v drafted_def outdated)
  ultimately have "validate_verified_document env v s analyzed chunked normalized \<noteq> Inr ()"
    using prose plain_version_choice(2,3)
    by (auto simp: validate_verified_document_def validate_ranked_verified_document_def verified_metadata_valid_def Let_def res_simps)
  then show ?thesis using prose draft by (auto simp: verify_def res_simps is_ok_iff)
qed

text \<open>C32. The self-check at the end of a verification. A contract is verified without one, and what the
  verification returns is what the validator of verified documents accepts. In every other version of
  the synthesis, with or without key points, when the computation of \<open>verify\<close> has a result, the
  self-check passes and \<open>verify\<close> returns it, provided that the runtime has names that are not blank,
  that the attempt is the first, or the second in a historical version, and that the synthesis is not a
  coherent one of the version from before the disclosures. For that one version, whose checkpoints have
  to be regenerated, the self-check always fails.\<close>

theorem verification_self_check:
  assumes runtime: "\<not> blank (mr_runtime_id (ma_runtime access) Verify)" "\<not> blank (mr_model_id (ma_runtime access) Verify)"
    and attempt: "attempt \<le> 1"
      "coherent_synthesis_version_supported (synthesis_version s) \<or> synthesis_version s = DIRECT_SYNTHESIS_VERSION \<Longrightarrow> attempt = 0"
  shows "if version_supported (synthesis_version s)
    then verify env access profile s analyzed chunked normalized generation_seed attempt select_key = Inr v
      \<longrightarrow> validate_verified_document env v s analyzed chunked normalized = Inr ()
    else verification_draft env access profile s analyzed chunked normalized generation_seed attempt select_key = Inr v
      \<longrightarrow> (if synthesis_version s = PRE_DISCLOSURE_SYNTHESIS_VERSION \<and> synthesized_presentation s = Coherent
           then \<not> is_ok (verify env access profile s analyzed chunked normalized generation_seed attempt select_key)
           else verify env access profile s analyzed chunked normalized generation_seed attempt select_key = Inr v
             \<and> validate_verified_document env v s analyzed chunked normalized = Inr ())"
proof -
  have "validate_verified_document env v s analyzed chunked normalized = Inr ()"
    if "verify env access profile s analyzed chunked normalized generation_seed attempt select_key = Inr v"
      "\<not> version_supported (synthesis_version s)"
    using that by (auto simp: verify_def res_simps)
  then show ?thesis
    using contract_verify_passes outdated_draft_fails draft_passes [OF _ _ runtime attempt] by metis
qed

text \<open>C39. After the model has answered, verdicts are only withdrawn: whatever the guards, the contribution
  checks and the material coverage of a contract do, the verdicts of a verified document are those the
  model gave to the claims of the ledger and of the summary, one for one and with the same identities
  and evidence, except that some \<open>Supported\<close> ones have become \<open>Unsupported\<close> or \<open>Ambiguous\<close>. The claims
  that are kept are those that are \<open>Supported\<close> in the end.\<close>

theorem verification_only_withdraws:
  assumes "verify env access profile s analyzed chunked normalized generation_seed attempt select_key = Inr v"
    and "\<not> version_supported (synthesis_version s)"
  shows "\<exists>prompt claim_budget st given st0 st1 st2 summary_given.
      verification_prompt (synthesized_claims s) (ledger_evidence analyzed) = Inr prompt
      \<and> classify_from env access prompt (synthesized_claims s) claim_budget generation_seed (0, 1) = Inr (st, given)
      \<and> list_all2 lowered given (claim_verifications v)
      \<and> model_summary_verdicts env access profile s normalized generation_seed st1 = Inr (st2, summary_given)
      \<and> list_all2 lowered summary_given (summary_claim_verifications v)
      \<and> verified_claims v = supported (synthesized_claims s) (claim_verifications v)
      \<and> verified_summary_claims v = supported (synthesized_summary_claims s) (summary_claim_verifications v)"
proof -
  from assms have "verification_draft env access profile s analyzed chunked normalized generation_seed attempt select_key = Inr v"
    by (auto simp: verify_def elim!: res_bind_InrE)
  then obtain st1 st2 verdicts summary_vs ids warnings rendered where
    ledger: "ledger_verdicts env access s analyzed normalized generation_seed (0, 1) = Inr (st1, verdicts)"
    and summary: "summary_verdicts env access profile s analyzed chunked normalized generation_seed (fst st1, snd st1 + 1) = Inr (st2, summary_vs)"
    and v: "v = drafted (ma_runtime access) s attempt select_key verdicts summary_vs rendered ids warnings"
    by (rule draft_Inr)
  from ledger_verdicts_Inr(1) [OF ledger] summary_verdicts_Inr(1) [OF summary] show ?thesis
    by (simp add: v drafted_def del: split_paired_Ex) blast
qed

section \<open>A verification\<close>

text \<open>The runtime supports the first claim of the early document and not the second.\<close>

definition early_codec :: wire_codec where
  "early_codec = \<lparr>write_prompt = (\<lambda>_. Some ''p''),
     read_verdicts = (\<lambda>s. if s = ''answer'' then Some [(''k1'', Supported), (''k2'', Unsupported)]
        else Some [(claim_id (noted_claim 0 ''A''), Supported), (claim_id (noted_claim 1 ''b''), Unsupported)]),
     write_verdicts = (\<lambda>_. Some ''restored'')\<rparr>"

definition early_access :: model_access where
  "early_access = \<lparr>ma_runtime = sample_runtime, ma_coverage = \<lparr>write_pairs = (\<lambda>_. None), read_material = (\<lambda>_. None)\<rparr>,
     ma_ranking = ranking_sample, ma_cancelled = (\<lambda>_. False)\<rparr>"

definition early_input :: "nat \<Rightarrow> string \<Rightarrow> prompt_verification_claim" where
  "early_input n claim = \<lparr>pv_claim_id = claim_id (noted_claim n claim), pv_text = claim, pv_source_framing = None,
     pv_evidence = [\<lparr>pv_evidence_id = evidence_id (noted n claim), pv_exact_quote = ''A''\<rparr>]\<rparr>"

abbreviation early_claims_list :: "cited_claim list" where
  "early_claims_list \<equiv> [noted_claim 0 ''A'', noted_claim (Suc 0) ''b'']"

abbreviation early_inputs :: "prompt_verification_claim list" where
  "early_inputs \<equiv> [early_input 0 ''A'', early_input (Suc 0) ''b'']"

lemma early_ids [simp]: "claim_id (noted_claim n c) \<noteq> []" "evidence_id (noted n c) \<noteq> []"
  by (simp_all add: noted_claim_def noted_def deterministic_claim_id_def deterministic_evidence_id_def deterministic_id_def)

lemma early_prompt: "verification_prompt early_claims_list (ledger_evidence early_analysis) = Inr early_inputs"
  using noted_distinct
  by (simp add: verification_prompt_def verification_prompt_with_source_framing_def early_ledger prompt_claim_def Let_def
      List.map_filter_simps res_collect_def evidence_by_id_def early_input_def)
    (simp add: noted_claim_def noted_def List.map_filter_simps)

lemma early_wire:
  "\<exists>ids. wire_verification_prompt early_codec [early_input 0 ''A''] = Inr (''p'', ids)"
  "\<exists>ids. wire_verification_prompt early_codec early_inputs = Inr (''p'', ids)
     \<and> request_ids_new ''k'' (map claim_id early_claims_list) Verify = Inr ids"
  by (simp_all add: wire_verification_prompt_def request_ids_new_def early_input_def early_codec_def wire_claim_def
      ids_local_def res_collect_def)

lemma early_classification:
  "classify_claim_support early_codec sample_runtime (\<lambda>_. False) early_inputs early_claims_list 64 7 0 =
     Inr (1, 5, early_verdicts)"
proof -
  obtain ids1 where one: "wire_verification_prompt early_codec [early_input 0 ''A''] = Inr (''p'', ids1)" using early_wire(1) by blast
  obtain ids where wire: "wire_verification_prompt early_codec early_inputs = Inr (''p'', ids)"
    and ids: "request_ids_new ''k'' (map claim_id early_claims_list) Verify = Inr ids" using early_wire(2) by blast
  let ?batch = "\<lparr>vb_system_prompt = VERIFICATION_SYSTEM_PROMPT, vb_user_prompt = ''p'', vb_claims = early_claims_list, vb_identifiers = ids\<rparr>"
  have sys: "verification_system_prompt [early_input 0 ''A''] = VERIFICATION_SYSTEM_PROMPT"
    "verification_system_prompt early_inputs = VERIFICATION_SYSTEM_PROMPT"
    by (simp_all add: verification_system_prompt_def early_input_def)
  have small: "char_count VERIFICATION_SYSTEM_PROMPT + char_count ''p'' \<le> 10752"
    using char_count_le_length [of VERIFICATION_SYSTEM_PROMPT] char_count_le_length [of "''p''"] length_verification_prompt by simp
  then have total: "usize_checked (char_count VERIFICATION_SYSTEM_PROMPT + char_count ''p'') =
      Some (char_count VERIFICATION_SYSTEM_PROMPT + char_count ''p'')" by (simp add: usize_checked_def)
  have bounds: "verification_request_within_bounds n (char_count VERIFICATION_SYSTEM_PROMPT + char_count ''p'') 10752"
    if "n \<in> {1, 2}" for n
    using small that by (auto simp: verification_request_within_bounds_def MAX_VERIFICATION_CLAIMS_PER_REQUEST_def)
  have "plan_claim early_codec 10752 ([], [], []) (early_input 0 ''A'', noted_claim 0 ''A'') =
      Inr ([], [early_input 0 ''A''], [noted_claim 0 ''A''])"
    using bounds [of 1] by (simp add: plan_claim_def one sys total)
  moreover have "plan_claim early_codec 10752 ([], [early_input 0 ''A''], [noted_claim 0 ''A'']) (early_input (Suc 0) ''b'', noted_claim (Suc 0) ''b'') =
      Inr ([], early_inputs, early_claims_list)"
    using bounds [of 2] by (simp add: plan_claim_def wire sys total numeral_2_eq_2)
  moreover have "materialize_verification_batch early_codec early_inputs early_claims_list 10752 = Inr ?batch"
    using bounds [of 2] by (simp add: materialize_verification_batch_def wire sys total numeral_2_eq_2)
  moreover have "catalog_matches (early_input n c) (noted_claim n c)" for n c
    by (simp add: catalog_matches_def early_input_def noted_claim_def)
  ultimately have plan: "plan_verification_batches early_codec early_inputs early_claims_list 64 10752 = Inr [?batch]"
    by (simp add: plan_verification_batches_def LEGACY_MAX_SUMMARY_CLAIMS_def ensure_verification_batch_count_def
        MAX_VERIFICATION_BATCHES_def)
  have numbers: "show_nat (Suc 0) = ''1''" "show_nat (Suc (Suc 0)) = ''2''" by code_simp+
  have restore: "ids_restore ids ''k1'' = Inr (claim_id (noted_claim 0 ''A''))"
    "ids_restore ids ''k2'' = Inr (claim_id (noted_claim (Suc 0) ''b''))"
    using numbers by (auto simp: ids_restore_Inr [OF ids] intro: exI [of _ 0] exI [of _ "Suc 0"])
  have "classify_batch early_codec sample_runtime (\<lambda>_. False) 7 (0, 2, []) ?batch = Inr (1, 5, early_verdicts)"
    by (simp add: classify_batch_def cancellation_checkpoint_def reserve_model_request_ordinal_def checked_add_u32_def
        sample_runtime_def validate_runtime_response_def blank_ascii_Cons byte_def is_whitespace_def verdict_response_def
        early_codec_def res_collect_def restore parse_verification_response_def collect_verdict_def verdict_of_claim_def
        MAX_VERIFICATION_CLAIMS_PER_REQUEST_def early_verdicts_def)
  then show ?thesis
    by (simp add: classify_claim_support_def cancellation_checkpoint_def verification_batches_for_runtime_def
        sample_limit plan, simp add: sample_runtime_def sample_limit plan)
qed

lemma early_draft:
  "verification_draft (sample_tools\<lparr>env_codec := early_codec\<rparr>) early_access Story early_synthesis early_analysis line_chunks
       line_contract 7 0 False =
     Inr (drafted sample_runtime early_synthesis 0 False early_verdicts [] ''A [p. 1]'' []
       (verification_warnings early_synthesis early_verdicts False))"
proof -
  let ?env = "sample_tools\<lparr>env_codec := early_codec\<rparr>"
  have accepted: "validate_synthesized_document_without_runtime ?env early_synthesis early_analysis line_chunks line_contract = Inr ()"
    by (rule early_synthesis_accepted_by) (simp_all add: sample_tools_def)
  have shape: "synthesized_claims early_synthesis = early_claims_list" "synthesized_summary_claims early_synthesis = []"
    "synthesized_evidence early_synthesis = []" "synthesized_presentation early_synthesis = LegacyClaimList"
    "synthesis_version early_synthesis = ''2.0.0''" "synthesized_warnings early_synthesis = []"
    by (simp_all add: early_synthesis_def)
  have other: "''2.0.0'' \<noteq> DIRECT_SYNTHESIS_VERSION" "''2.0.0'' \<noteq> HIERARCHICAL_SYNTHESIS_VERSION" by code_simp+
  have claim_budget: "verification_claim_budget early_synthesis line_contract = Inr 64"
    using early_versions(2) other by (simp add: verification_claim_budget_def shape LEGACY_MAX_SUMMARY_CLAIMS_def)
  have ledger: "ledger_verdicts ?env early_access early_synthesis early_analysis line_contract 7 (0, Suc 0) =
      Inr ((1, 6), early_verdicts)"
    using early_classification by (simp add: ledger_verdicts_def Let_def shape early_prompt claim_budget classify_from_def early_access_def)
  have summary: "summary_verdicts ?env early_access Story early_synthesis early_analysis line_chunks line_contract 7 st = Inr (st, [])" for st
    by (simp add: summary_verdicts_def Let_def shape model_summary_verdicts_def apply_semantic_fidelity_guards_def res_collect_def
        required_short_contract_evidence_ids_def)
  have kept: "supported early_claims_list early_verdicts = [noted_claim 0 ''A'']"
    by (simp add: supported_def early_verdicts_def)
  have access: "ma_cancelled early_access k = False" "ma_runtime early_access = sample_runtime" for k
    by (simp_all add: early_access_def)
  show ?thesis
    using accepted other
    by (simp add: verification_draft_def cancellation_checkpoint_def access validate_model_output_fallback_boundary_def shape
        ledger summary kept verified_summary_text_def early_text chosen_key_points_def Let_def)
qed

theorem verification_self_check_witness:
  "verify (sample_tools\<lparr>env_codec := early_codec\<rparr>) early_access Story early_synthesis early_analysis line_chunks line_contract 7 0 False =
     Inr (drafted sample_runtime early_synthesis 0 False early_verdicts [] ''A [p. 1]'' []
       (verification_warnings early_synthesis early_verdicts False))"
proof -
  let ?env = "sample_tools\<lparr>env_codec := early_codec\<rparr>"
  have prose: "\<not> version_supported (synthesis_version early_synthesis)" using early_versions by (simp add: early_synthesis_def)
  have runtime: "\<not> blank (mr_runtime_id (ma_runtime early_access) Verify)" "\<not> blank (mr_model_id (ma_runtime early_access) Verify)"
    by (simp_all add: early_access_def sample_runtime_def blank_ascii_Cons byte_def is_whitespace_def)
  have current: "\<not> (synthesis_version early_synthesis = PRE_DISCLOSURE_SYNTHESIS_VERSION \<and> synthesized_presentation early_synthesis = Coherent)"
    by (simp add: early_synthesis_def)
  note checked = verification_self_check [OF runtime, of 0 early_synthesis ?env Story early_analysis line_chunks line_contract 7 False
      "drafted sample_runtime early_synthesis 0 False early_verdicts [] ''A [p. 1]'' []
       (verification_warnings early_synthesis early_verdicts False)"]
  show ?thesis using checked early_draft unfolding if_not_P [OF prose] if_not_P [OF current] by simp
qed

lemma early_run:
  "verify (sample_tools\<lparr>env_codec := early_codec\<rparr>) early_access Story early_synthesis early_analysis line_chunks line_contract 7 0 False =
     Inr (drafted sample_runtime early_synthesis 0 False early_verdicts [] ''A [p. 1]'' []
       (verification_warnings early_synthesis early_verdicts False))"
  "\<not> version_supported (synthesis_version early_synthesis)"
proof -
  show prose: "\<not> version_supported (synthesis_version early_synthesis)" using early_versions by (simp add: early_synthesis_def)
  show "verify (sample_tools\<lparr>env_codec := early_codec\<rparr>) early_access Story early_synthesis early_analysis line_chunks line_contract 7 0 False =
     Inr (drafted sample_runtime early_synthesis 0 False early_verdicts [] ''A [p. 1]'' []
       (verification_warnings early_synthesis early_verdicts False))"
  proof (rule draft_passes [OF early_draft prose])
    show "\<not> blank (mr_runtime_id (ma_runtime early_access) Verify)" "\<not> blank (mr_model_id (ma_runtime early_access) Verify)"
      by (simp_all add: early_access_def sample_runtime_def blank_ascii_Cons byte_def is_whitespace_def)
    show "\<not> (synthesis_version early_synthesis = PRE_DISCLOSURE_SYNTHESIS_VERSION \<and> synthesized_presentation early_synthesis = Coherent)"
      by (simp add: early_synthesis_def)
  qed simp_all
qed

theorem verification_only_withdraws_witness:
  "\<exists>prompt claim_budget st given.
      verification_prompt (synthesized_claims early_synthesis) (ledger_evidence early_analysis) = Inr prompt
      \<and> classify_from (sample_tools\<lparr>env_codec := early_codec\<rparr>) early_access prompt (synthesized_claims early_synthesis) claim_budget 7 (0, 1) =
          Inr (st, given)
      \<and> list_all2 lowered given early_verdicts
      \<and> supported (synthesized_claims early_synthesis) early_verdicts = [noted_claim 0 ''A'']"
proof -
  have kept: "supported (synthesized_claims early_synthesis) early_verdicts = [noted_claim 0 ''A'']"
    by (simp add: supported_def early_verdicts_def early_synthesis_def)
  from verification_only_withdraws [OF early_run] show ?thesis
    by (simp add: drafted_def kept del: split_paired_Ex) blast
qed

end
