(* ===== verification/Analysis_Correct.thy ===== *)
theory Analysis_Correct
  imports Page_Analysis Verified_Sample "HOL-Library.Multiset"
begin

text \<open>
  An analysis accounts for every page it has read: the loop over the plan leaves for each page either
  one item that quotes it or one omission that names it, whatever the model answers. It stops before
  its target only at the delivery ceiling, and what is delivered stays below that ceiling.
\<close>

section \<open>The plan is a list of distinct pages\<close>

lemma boundary_page_number:
  "boundary_page st (n, page) = Inr st' \<Longrightarrow> u32_try_from (n + 1) = Some (page_number page)"
  by (auto simp: boundary_page_def res_simps split: if_splits)

lemma boundary_page_numbers:
  assumes "res_fold boundary_page st (enumerate n pages) = Inr st'"
  shows "map (Some \<circ> page_number) pages = map (\<lambda>i. u32_try_from (i + 1)) [n..<n + length pages]"
  using assms
proof (induction pages arbitrary: n st)
  case (Cons page pages)
  from Cons.prems obtain st1 where st1: "boundary_page st (n, page) = Inr st1"
    "res_fold boundary_page st1 (enumerate (Suc n) pages) = Inr st'"
    by (auto simp: res_bind_Inr_iff)
  have "[n..<n + length (page # pages)] = n # [Suc n..<Suc n + length pages]"
    by (simp add: upt_conv_Cons del: upt_Suc)
  with boundary_page_number [OF st1(1)] Cons.IH [OF st1(2)] show ?case by (simp del: upt_Suc)
qed simp

lemma boundary_pages_distinct:
  assumes "validate_normalized_chunk_boundary normalized chunked = Inr blocks"
  shows "distinct (map page_number (normalized_pages normalized))"
proof -
  let ?pages = "normalized_pages normalized"
  from assms obtain st where "res_fold boundary_page (Map.empty, []) (enumerate 0 ?pages) = Inr st"
    by (auto simp: validate_normalized_chunk_boundary_def res_simps)
  from boundary_page_numbers [OF this]
  have at: "u32_try_from (i + 1) = Some (page_number (?pages ! i))" if "i < length ?pages" for i
    using that by (metis (no_types, lifting) add_0 comp_apply length_map length_upt nth_map nth_upt diff_zero)
  show ?thesis
  proof (subst distinct_conv_nth, intro allI impI)
    fix i j assume ij: "i < length (map page_number ?pages)" "j < length (map page_number ?pages)" "i \<noteq> j"
    show "map page_number ?pages ! i \<noteq> map page_number ?pages ! j"
    proof
      assume "map page_number ?pages ! i = map page_number ?pages ! j"
      with ij at [of i] at [of j] have "u32_try_from (i + 1) = u32_try_from (j + 1)" "u32_try_from (i + 1) \<noteq> None" by simp_all
      then obtain w where "u32_try_from (i + 1) = Some w" "u32_try_from (j + 1) = Some w" by auto
      then have "unat w = i + 1" "unat w = j + 1" by (simp_all only: u32_try_from_Some_iff)
      with ij(3) show False by simp
    qed
  qed
qed

lemma native_pages_distinct:
  "distinct (map page_number (normalized_pages normalized)) \<Longrightarrow> distinct (native_page_numbers normalized)"
  unfolding native_page_numbers_def by (rule distinct_map_filter)

lemma versioned_plan_pages:
  assumes "versioned_plan normalized version = Inr (pages, target)" "distinct (native_page_numbers normalized)"
  shows "distinct pages" "set pages = set (native_page_numbers normalized)"
  using assms by (auto simp: versioned_plan_def Let_def res_simps)

section \<open>An answer is about its page\<close>

lemma find_page_number: "find_page n normalized = Some page \<Longrightarrow> page_number page = n"
  by (simp add: find_page_def find_Some_iff) blast

lemma heading_omission_page:
  "heading_omission pt scope chunk normalized = Inr o' \<Longrightarrow> omission_page_number o' = hd (scope_pages scope)"
  by (auto simp: heading_omission_def res_simps dest: find_page_number)

lemma model_omission_page:
  "content_omission pt scope chunk normalized = Inr o' \<Longrightarrow> omission_page_number o' = hd (scope_pages scope)"
  "technical_omission pt scope chunk normalized = Inr o' \<Longrightarrow> omission_page_number o' = hd (scope_pages scope)"
  by (auto simp: content_omission_def technical_omission_def res_simps dest!: heading_omission_page)

lemma read_page_scope_Inr:
  assumes "read_page_scope pt version n chunked normalized = Inr reading"
  shows "scope_pages (reading_scope reading) = [n]" "reading_index reading < length (chunks chunked)"
    "reading_omission reading = Some o' \<Longrightarrow> omission_page_number o' = n"
proof -
  from assms obtain page index chunk furniture candidates units omission where
    chunk: "find_chunk (map block_id (content page)) chunked = Some (index, chunk)"
    and furniture: "furniture_omission pt n chunk page = Inr furniture"
    and omission: "(if furniture = None \<and> version \<in> {ANALYSIS_VERSION, SENTENCE_ANALYSIS_VERSION} \<and> candidates = []
      then res_bind (quote_boundary_omission pt version n chunk normalized) (Inr \<circ> Some) else Inr furniture) = Inr omission"
    and reading: "reading_scope reading = \<lparr>scope_pages = [n], scope_block_ids = map block_id (content page),
      minimum_evidence = 1, maximum_evidence = 1, quote_candidates = candidates\<rparr>" "reading_index reading = index"
      "reading_omission reading = omission"
    by (auto simp: read_page_scope_def Let_def res_bind_Inr_iff ok_or_Inr_iff)
  show "scope_pages (reading_scope reading) = [n]" by (simp add: reading)
  from chunk show "reading_index reading < length (chunks chunked)"
    by (auto simp: find_chunk_def find_Some_iff reading in_set_enumerate_eq nth_enumerate_eq)
  show "omission_page_number o' = n" if "reading_omission reading = Some o'"
    using that furniture omission
    by (auto simp: reading furniture_omission_def quote_boundary_omission_def res_simps split: option.splits if_splits)
qed

lemma repair_failed_page:
  "repair_failed ar scope chunk fallback st = Inr (st', LeftOut o') \<Longrightarrow> omission_page_number o' = hd (scope_pages scope)"
  by (auto simp: repair_failed_def res_simps split: option.splits dest: model_omission_page)

lemma repair_page_page:
  "repair_page ar scope chunk quote draft st = Inr (st', LeftOut o') \<Longrightarrow> omission_page_number o' = hd (scope_pages scope)"
  by (auto simp: repair_page_def Let_def elim!: res_bind_InrE
      split: sum.split_asm prod.split_asm option.split_asm paraphrase_outcome.split_asm if_split_asm dest: repair_failed_page)

lemma paraphrase_page_page:
  "paraphrase_page ar scope chunk quote st = Inr (st', LeftOut o') \<Longrightarrow> omission_page_number o' = hd (scope_pages scope)"
  by (auto simp: paraphrase_page_def Let_def elim!: res_bind_InrE
      split: prod.split_asm option.split_asm paraphrase_outcome.split_asm if_split_asm dest: repair_page_page model_omission_page)

lemma answer_page_page:
  "answer_page ar page reading st = Inr (st', selection, LeftOut o') \<Longrightarrow>
   omission_page_number o' = hd (scope_pages (reading_scope reading))"
  by (auto simp: answer_page_def Let_def res_simps split: if_splits dest: heading_omission_page paraphrase_page_page)

section \<open>One item per claimed page\<close>

lemma checked_quotes:
  assumes "res_fold (check_quote sha version chunk blocks allowed) [] candidates = Inr found" "c \<in> set candidates"
  shows "\<exists>b. blocks (quote_block_id c) = Some b \<and> quote_page_number c = page_start (block_source b)
    \<and> sublist (quote_exact c) (block_text b)"
proof -
  have "\<forall>c \<in> set candidates. \<exists>b. blocks (quote_block_id c) = Some b \<and> quote_page_number c = page_start (block_source b)
    \<and> sublist (quote_exact c) (block_text b)"
    using assms(1)
    by (rule res_fold_invariant [where P = "\<lambda>cs _. \<forall>c \<in> set cs. \<exists>b. blocks (quote_block_id c) = Some b
        \<and> quote_page_number c = page_start (block_source b) \<and> sublist (quote_exact c) (block_text b)"])
      (auto simp: check_quote_def quote_accepted_def res_simps contains_str_sublist)
  with assms(2) show ?thesis by blast
qed

lemma parsed_item:
  assumes "parse_evidence_response pt codec version response document chunk blocks scope offset = Inr items"
    "scope_pages scope = [n]"
  obtains e where "items = [e]" "page_start (evidence_source_span e) = n" "ledger_item blocks e"
proof -
  from assms(1) obtain raw found seen pages where
    answerable: "scope_answerable scope raw"
    and catalog: "res_fold (check_quote (pt_sha pt) version chunk blocks (scope_block_ids scope)) [] (quote_candidates scope) = Inr found"
    and fold: "res_fold (materialize_item (pt_sha pt) version document chunk blocks scope offset) ([], {}, []) (enumerate 0 raw)
      = Inr (seen, pages, items)"
    by (auto simp: parse_evidence_response_def validate_versioned_analysis_quote_catalog_for_blocks_def res_simps)
  from answerable have "length raw = 1" by (auto simp: scope_answerable_def)
  then obtain quote_id claim where raw: "raw = [(quote_id, claim)]" by (cases raw) auto
  from fold obtain c i where
    c: "map_of (rev (map (\<lambda>c. (selection_id c, c)) (quote_candidates scope))) quote_id = Some c"
    and items: "items = [\<lparr>evidence_id = deterministic_evidence_id (pt_sha pt) document version (chunk_id chunk) i (quote_block_id c) claim
        (quote_exact c), evidence_chunk_id = chunk_id chunk, evidence_block_id = quote_block_id c, evidence_claim_text = claim,
        evidence_exact_quote = quote_exact c, evidence_source_span = block_source (the (blocks (quote_block_id c)))\<rparr>]"
    by (auto simp: raw materialize_item_def Let_def res_simps)
  from map_of_SomeD [OF c] have member: "c \<in> set (quote_candidates scope)" by auto
  with answerable assms(2) have page: "quote_page_number c = n" by (auto simp: scope_answerable_def list_all_iff)
  from checked_quotes [OF catalog member] page
  show thesis
    by (intro that [OF items])
      (auto simp: ledger_item_def deterministic_evidence_id_def deterministic_id_def)
qed

section \<open>The size of what is delivered\<close>

definition rendered_bytes :: "evidence_item list \<Rightarrow> nat" where
  "rendered_bytes items = (\<Sum>e \<leftarrow> items. length (delivered_line e)) + 2 * (length items - 1)"

lemma length_join: "length (join sep xs) = sum_list (map length xs) + (length xs - 1) * length sep"
  by (induction sep xs rule: join.induct) auto

lemma rendered_bytes_mset: "mset items = mset items' \<Longrightarrow> rendered_bytes items = rendered_bytes items'"
  unfolding rendered_bytes_def by (metis mset_map size_mset sum_mset_sum_list)

lemma delivered_length: "delivered_length items = rendered_bytes items"
proof -
  have "delivered_length items = rendered_bytes (sort_key (page_start \<circ> evidence_source_span) items)"
    by (simp add: delivered_length_def length_join rendered_bytes_def comp_def paragraph_break_def)
  also have "\<dots> = rendered_bytes items" by (rule rendered_bytes_mset) simp
  finally show ?thesis .
qed

lemma rendered_bytes_snoc:
  "mset items' = mset (items @ [e]) \<Longrightarrow>
   rendered_bytes items' = rendered_bytes items + (if 0 < length items then 2 else 0) + length (delivered_line e)"
  by (drule rendered_bytes_mset, cases items) (simp_all add: rendered_bytes_def)

lemma mset_concat_update:
  "i < length xs \<Longrightarrow> f x = f (xs ! i) @ zs \<Longrightarrow> mset (concat (map f (xs[i := x]))) = mset (concat (map f xs) @ zs)"
proof (induction xs arbitrary: i)
  case (Cons y ys)
  then show ?case by (cases i) auto
qed simp

lemma add_evidence_ledger:
  "index < length (analyzed_chunks a) \<Longrightarrow>
   mset (ledger_evidence (add_evidence index items a)) = mset (ledger_evidence a @ items)"
  unfolding ledger_evidence_def add_evidence_def Let_def by (simp add: mset_concat_update [where zs = items])

section \<open>The loop\<close>

definition within_ceiling :: "nat option \<Rightarrow> nat \<Rightarrow> bool" where
  "within_ceiling limit n = (case limit of None \<Rightarrow> True | Some ceiling \<Rightarrow> n \<le> ceiling)"

lemma beyond_ceiling: "(case limit of None \<Rightarrow> False | Some ceiling \<Rightarrow> ceiling < n) \<longleftrightarrow> \<not> within_ceiling limit n"
  by (auto simp: within_ceiling_def split: option.split)

text \<open>The state of the loop when the pages \<open>settled\<close> have their outcome.\<close>

definition accounts_for :: "analysis_run \<Rightarrow> block_index \<Rightarrow> u32 list \<Rightarrow> page_loop \<Rightarrow> bool" where
  "accounts_for ar blocks settled l \<longleftrightarrow>
     (let a = pl_draft l in
      length (analyzed_chunks a) = length (chunks (ar_chunked ar))
      \<and> mset (evidence_pages a) + mset (map omission_page_number (omissions a)) = mset settled
      \<and> (\<forall>e \<in> set (ledger_evidence a). ledger_item blocks e)
      \<and> pl_count l = length (ledger_evidence a)
      \<and> pl_bytes l = rendered_bytes (ledger_evidence a)
      \<and> within_ceiling (ar_ceiling ar) (pl_bytes l))"

text \<open>What holds when the delivery is full.\<close>

definition stopped_at_ceiling :: "analysis_run \<Rightarrow> analyzed_document \<Rightarrow> bool" where
  "stopped_at_ceiling ar a \<longleftrightarrow>
     ar_ceiling ar \<noteq> None \<and> ledger_evidence a \<noteq> [] \<and> delivery_truncation_warning \<in> set (analyzed_warnings a)
     \<and> delivery_page_coverage_satisfied (ar_tools ar) (set (evidence_pages a)) (omissions a) (ar_normalized ar)"

lemma ledger_evidence_frame [simp]:
  "ledger_evidence (a\<lparr>omissions := os\<rparr>) = ledger_evidence a"
  "ledger_evidence (a\<lparr>inspected_pages := ps\<rparr>) = ledger_evidence a"
  "ledger_evidence (a\<lparr>analyzed_warnings := ws\<rparr>) = ledger_evidence a"
  by (simp_all add: ledger_evidence_def)

lemma evidence_pages_frame [simp]:
  "evidence_pages (a\<lparr>omissions := os\<rparr>) = evidence_pages a"
  "evidence_pages (a\<lparr>inspected_pages := ps\<rparr>) = evidence_pages a"
  "evidence_pages (a\<lparr>analyzed_warnings := ws\<rparr>) = evidence_pages a"
  by (simp_all add: evidence_pages_def)

lemma add_evidence_frame [simp]:
  "omissions (add_evidence i items a) = omissions a" "inspected_pages (add_evidence i items a) = inspected_pages a"
  "analyzed_warnings (add_evidence i items a) = analyzed_warnings a"
  "length (analyzed_chunks (add_evidence i items a)) = length (analyzed_chunks a)"
  by (simp_all add: add_evidence_def Let_def)

lemma accounts_for_omission:
  "accounts_for ar blocks settled l \<Longrightarrow> omission_page_number o' = page \<Longrightarrow>
   accounts_for ar blocks (settled @ [page]) (add_omission o' l)"
  by (auto simp: accounts_for_def add_omission_def Let_def)

lemma accounts_for_requests [simp]:
  "accounts_for ar blocks settled (l\<lparr>pl_requests := st\<rparr>) = accounts_for ar blocks settled l"
  by (simp add: accounts_for_def)

lemma accounts_for_evidence:
  assumes "accounts_for ar blocks settled l" "index < length (chunks (ar_chunked ar))"
    "page_start (evidence_source_span e) = page" "ledger_item blocks e"
    "bytes = pl_bytes l + (if 0 < pl_count l then 2 else 0) + length (delivered_line e)"
    "within_ceiling (ar_ceiling ar) bytes"
  shows "accounts_for ar blocks (settled @ [page])
    (l\<lparr>pl_draft := add_evidence index [e] (pl_draft l), pl_bytes := bytes, pl_count := pl_count l + 1\<rparr>)"
proof -
  let ?a = "pl_draft l" and ?a' = "add_evidence index [e] (pl_draft l)"
  have ledger: "mset (ledger_evidence ?a') = mset (ledger_evidence ?a @ [e])"
    using assms(1,2) by (intro add_evidence_ledger) (simp add: accounts_for_def Let_def)
  have pages: "mset (evidence_pages ?a') = mset (evidence_pages ?a) + {#page#}"
    unfolding evidence_pages_def mset_map ledger using assms(3) by simp
  have members: "set (ledger_evidence ?a') = insert e (set (ledger_evidence ?a))"
    using mset_eq_setD [OF ledger] by simp
  have count: "length (ledger_evidence ?a') = length (ledger_evidence ?a) + 1"
    using mset_eq_length [OF ledger] by simp
  have bytes: "bytes = rendered_bytes (ledger_evidence ?a')"
    using rendered_bytes_snoc [OF ledger] assms(1,5) by (simp add: accounts_for_def Let_def)
  show ?thesis
    using assms(1,4,6) bytes
    by (simp add: accounts_for_def Let_def pages members count)
qed

lemma retain_items_step:
  assumes "retain_items ar index [e] l = Inr l'" "accounts_for ar blocks settled l" "\<not> pl_stopped l"
    "index < length (chunks (ar_chunked ar))" "page_start (evidence_source_span e) = page" "ledger_item blocks e"
  shows "inspected_pages (pl_draft l') = inspected_pages (pl_draft l)" "pl_count l' \<le> Suc (pl_count l)"
    "pl_stopped l' \<Longrightarrow> accounts_for ar blocks settled l' \<and> stopped_at_ceiling ar (pl_draft l') \<and> pl_count l' = pl_count l"
    "\<not> pl_stopped l' \<Longrightarrow> accounts_for ar blocks (settled @ [page]) l'"
proof -
  from assms(1) obtain bytes where
    bytes: "bytes = pl_bytes l + (if 0 < pl_count l then 2 else 0) + length (delivered_line e)"
    and rest: "(if \<not> within_ceiling (ar_ceiling ar) bytes
     then
       res_bind (ensure (pl_count l \<noteq> 0) (delivery_limit_exceeded
         ''The configured delivery byte ceiling cannot fit one whole rendered claim'')) (\<lambda>_.
       res_bind (ensure (delivery_page_coverage_satisfied (ar_tools ar) (set (evidence_pages (pl_draft l)))
           (omissions (pl_draft l)) (ar_normalized ar)) (delivery_limit_exceeded
         ''The delivery byte ceiling was reached before the retained prefix satisfied page coverage'')) (\<lambda>_.
       Inr (l\<lparr>pl_draft := add_warning delivery_truncation_warning (pl_draft l), pl_stopped := True\<rparr>)))
     else Inr (l\<lparr>pl_draft := add_evidence index [e] (pl_draft l), pl_bytes := bytes, pl_count := pl_count l + 1\<rparr>)) = Inr l'"
    unfolding retain_items_def beyond_ceiling
    by (elim res_bind_InrE) (auto simp: ok_or_Inr_iff usize_checked_def bind_eq_Some_conv split: if_split_asm)
  have "(\<not> pl_stopped l' \<longrightarrow> accounts_for ar blocks (settled @ [page]) l') \<and> inspected_pages (pl_draft l') = inspected_pages (pl_draft l)
    \<and> pl_count l' \<le> Suc (pl_count l)
    \<and> (pl_stopped l' \<longrightarrow> accounts_for ar blocks settled l' \<and> stopped_at_ceiling ar (pl_draft l') \<and> pl_count l' = pl_count l)"
  proof (cases "within_ceiling (ar_ceiling ar) bytes")
    case True
    with rest have "l' = l\<lparr>pl_draft := add_evidence index [e] (pl_draft l), pl_bytes := bytes, pl_count := pl_count l + 1\<rparr>" by simp
    with accounts_for_evidence [OF assms(2,4-6) bytes True] assms(3) show ?thesis by simp
  next
    case False
    with rest have l': "l' = l\<lparr>pl_draft := add_warning delivery_truncation_warning (pl_draft l), pl_stopped := True\<rparr>"
      "pl_count l \<noteq> 0" "delivery_page_coverage_satisfied (ar_tools ar) (set (evidence_pages (pl_draft l)))
           (omissions (pl_draft l)) (ar_normalized ar)"
      by (auto simp: res_simps)
    from False have "ar_ceiling ar \<noteq> None" by (auto simp: within_ceiling_def split: option.split_asm)
    with l' assms(2) show ?thesis
      by (simp add: accounts_for_def stopped_at_ceiling_def add_warning_def Let_def) auto
  qed
  then show "inspected_pages (pl_draft l') = inspected_pages (pl_draft l)" "pl_count l' \<le> Suc (pl_count l)"
    "pl_stopped l' \<Longrightarrow> accounts_for ar blocks settled l' \<and> stopped_at_ceiling ar (pl_draft l') \<and> pl_count l' = pl_count l"
    "\<not> pl_stopped l' \<Longrightarrow> accounts_for ar blocks (settled @ [page]) l'" by blast+
qed

lemma count_units_frame:
  "count_units reading l = Inr l' \<Longrightarrow>
   pl_draft l' = pl_draft l \<and> pl_requests l' = pl_requests l \<and> pl_count l' = pl_count l \<and> pl_bytes l' = pl_bytes l
   \<and> pl_stopped l' = pl_stopped l"
  by (auto simp: count_units_def res_simps split: if_split_asm)

lemma accounts_for_cong:
  "pl_count l' = pl_count l \<Longrightarrow> pl_bytes l' = pl_bytes l \<Longrightarrow> ledger_evidence (pl_draft l') = ledger_evidence (pl_draft l) \<Longrightarrow>
   analyzed_chunks (pl_draft l') = analyzed_chunks (pl_draft l) \<Longrightarrow> omissions (pl_draft l') = omissions (pl_draft l) \<Longrightarrow>
   accounts_for ar blocks settled l \<Longrightarrow> accounts_for ar blocks settled l'"
  by (auto simp: accounts_for_def Let_def evidence_pages_def)

text \<open>A page that has been read has its outcome, unless its item would have exceeded the ceiling.\<close>

lemma analyze_page_step:
  assumes "analyze_page ar blocks l page = Inr l'" "accounts_for ar blocks settled l" "\<not> pl_stopped l"
  shows "inspected_pages (pl_draft l') = inspected_pages (pl_draft l) @ [page] \<and> pl_count l' \<le> Suc (pl_count l)
    \<and> (if pl_stopped l'
        then accounts_for ar blocks settled l' \<and> stopped_at_ceiling ar (pl_draft l') \<and> pl_count l' = pl_count l
        else accounts_for ar blocks (settled @ [page]) l')"
proof -
  let ?l0 = "l\<lparr>pl_draft := (pl_draft l)\<lparr>inspected_pages := inspected_pages (pl_draft l) @ [page]\<rparr>,
    pl_requests := (fst (pl_requests l), snd (pl_requests l) + 1)\<rparr>"
  from assms(1) obtain reading l1 where
    reading: "read_page_scope (ar_tools ar) ANALYSIS_VERSION page (ar_chunked ar) (ar_normalized ar) = Inr reading"
    and units: "count_units reading ?l0 = Inr l1"
    and rest: "(case reading_omission reading of
       Some o' \<Rightarrow> Inr (add_omission o' l1)
     | None \<Rightarrow>
         res_bind (answer_page ar page reading (pl_requests l1)) (\<lambda>(st, selection, answer).
         let l2 = l1\<lparr>pl_requests := st\<rparr>; index = reading_index reading in
         case answer of
           LeftOut o' \<Rightarrow> Inr (add_omission o' l2)
         | Claimed claim \<Rightarrow>
             res_bind (parse_evidence_response (ar_tools ar) (ar_codec ar) ANALYSIS_VERSION
                 (ac_display (ar_codec ar) (evidence_response selection claim)) (chunked_document_id (ar_chunked ar))
                 (chunks (ar_chunked ar) ! index) blocks (reading_scope reading)
                 (length (analysis_evidence (analyzed_chunks (pl_draft l2) ! index)))) (\<lambda>items.
             retain_items ar index items l2))) = Inr l'"
    unfolding analyze_page_def by (elim res_bind_InrE) blast
  note scope = read_page_scope_Inr [OF reading]
  from count_units_frame [OF units]
  have l1: "inspected_pages (pl_draft l1) = inspected_pages (pl_draft l) @ [page]" "pl_count l1 = pl_count l" "\<not> pl_stopped l1"
    "accounts_for ar blocks settled l1"
    using assms(2,3) by (auto intro: accounts_for_cong)
  show ?thesis
  proof (cases "reading_omission reading")
    case (Some o')
    with rest have "l' = add_omission o' l1" by simp
    with accounts_for_omission [OF l1(4) scope(3) [OF Some]] l1 show ?thesis by (simp add: add_omission_def)
  next
    case None
    with rest obtain st selection answer where
      answer: "answer_page ar page reading (pl_requests l1) = Inr (st, selection, answer)"
      and rest: "(let l2 = l1\<lparr>pl_requests := st\<rparr>; index = reading_index reading in
         case answer of
           LeftOut o' \<Rightarrow> Inr (add_omission o' l2)
         | Claimed claim \<Rightarrow>
             res_bind (parse_evidence_response (ar_tools ar) (ar_codec ar) ANALYSIS_VERSION
                 (ac_display (ar_codec ar) (evidence_response selection claim)) (chunked_document_id (ar_chunked ar))
                 (chunks (ar_chunked ar) ! index) blocks (reading_scope reading)
                 (length (analysis_evidence (analyzed_chunks (pl_draft l2) ! index)))) (\<lambda>items.
             retain_items ar index items l2)) = Inr l'"
      by (auto elim!: res_bind_InrE)
    let ?l2 = "l1\<lparr>pl_requests := st\<rparr>"
    have l2: "accounts_for ar blocks settled ?l2" using l1(4) by simp
    show ?thesis
    proof (cases answer)
      case (LeftOut o')
      with rest have l': "l' = add_omission o' ?l2" by simp
      from answer_page_page [OF answer [unfolded LeftOut]] scope(1) have "omission_page_number o' = page" by simp
      from accounts_for_omission [OF l2 this] l1 show ?thesis by (simp add: l' add_omission_def)
    next
      case (Claimed claim)
      with rest obtain items where
        parsed: "parse_evidence_response (ar_tools ar) (ar_codec ar) ANALYSIS_VERSION
                 (ac_display (ar_codec ar) (evidence_response selection claim)) (chunked_document_id (ar_chunked ar))
                 (chunks (ar_chunked ar) ! reading_index reading) blocks (reading_scope reading)
                 (length (analysis_evidence (analyzed_chunks (pl_draft ?l2) ! reading_index reading))) = Inr items"
        and retain_step: "retain_items ar (reading_index reading) items ?l2 = Inr l'"
        by (auto simp: Let_def elim: res_bind_InrE)
      from parsed_item [OF parsed scope(1)] obtain e where
        e: "items = [e]" "page_start (evidence_source_span e) = page" "ledger_item blocks e" .
      from retain_items_step [OF retain_step [unfolded e(1)] l2 _ scope(2) e(2,3)] l1 show ?thesis by simp
    qed
  qed
qed

text \<open>The whole loop.\<close>

lemma analyze_pages_settle:
  assumes "analyze_pages ar blocks target l pages = Inr l'" "accounts_for ar blocks (inspected_pages (pl_draft l)) l"
    "\<not> pl_stopped l" "pl_count l \<le> target"
  shows "prefix (inspected_pages (pl_draft l')) (inspected_pages (pl_draft l) @ pages) \<and> pl_count l' \<le> target
    \<and> (if pl_stopped l'
        then inspected_pages (pl_draft l') \<noteq> [] \<and> accounts_for ar blocks (butlast (inspected_pages (pl_draft l'))) l'
          \<and> stopped_at_ceiling ar (pl_draft l')
        else accounts_for ar blocks (inspected_pages (pl_draft l')) l'
          \<and> (pl_count l' = target \<or> inspected_pages (pl_draft l') = inspected_pages (pl_draft l) @ pages))"
  using assms
proof (induction ar blocks target l pages rule: analyze_pages.induct)
  case (1 ar blocks target l)
  then show ?case by simp
next
  case (2 ar blocks target l page pages)
  show ?case
  proof (cases "pl_count l = target")
    case True
    with 2 show ?thesis by simp
  next
    case False
    with 2(2) obtain l1 where l1: "analyze_page ar blocks l page = Inr l1"
      and rest: "(if pl_stopped l1 then Inr l1 else analyze_pages ar blocks target l1 pages) = Inr l'"
      by (auto elim: res_bind_InrE)
    from False 2(5) have below: "Suc (pl_count l) \<le> target" by simp
    note step1 = analyze_page_step [OF l1 2(3,4)]
    show ?thesis
    proof (cases "pl_stopped l1")
      case True
      with rest step1 below show ?thesis by simp
    next
      case open_loop: False
      with rest have "analyze_pages ar blocks target l1 pages = Inr l'" by simp
      from 2(1) [OF False open_loop this] step1 open_loop below show ?thesis by (cases "pl_stopped l'") simp_all
    qed
  qed
qed

section \<open>The analysis\<close>

lemma boundary_quotes:
  assumes "validate_normalized_chunk_boundary normalized chunked = Inr blocks" "ledger_item blocks e"
  shows "quotes_block normalized e"
proof -
  from assms(2) obtain b where
    b: "blocks (evidence_block_id e) = Some b" "sublist (evidence_exact_quote e) (block_text b)" "evidence_source_span e = block_source b"
    by (auto simp: ledger_item_def)
  from blocks_by_id_Some [OF b(1) [unfolded boundary_Inr(2) [OF assms(1)]]] b(2,3) show ?thesis
    by (auto simp: quotes_block_def)
qed

lemma finished_ledger [simp]: "ledger_evidence (finished_analysis ar target l) = ledger_evidence (pl_draft l)"
  by (simp add: ledger_evidence_def finished_analysis_def summarize_chunk_def comp_def)

lemma finished_frame [simp]:
  "evidence_pages (finished_analysis ar target l) = evidence_pages (pl_draft l)"
  "omissions (finished_analysis ar target l) = omissions (pl_draft l)"
  "inspected_pages (finished_analysis ar target l) = inspected_pages (pl_draft l)"
  "analyzed_warnings (finished_analysis ar target l) = analyzed_warnings (pl_draft l) @ outcome_warnings ar target l"
  by (simp_all add: evidence_pages_def finished_ledger del: ledger_evidence_frame) (simp_all add: finished_analysis_def)

lemma stopped_finished: "stopped_at_ceiling ar (pl_draft l) \<Longrightarrow> stopped_at_ceiling ar (finished_analysis ar target l)"
  by (simp add: stopped_at_ceiling_def)

text \<open>The warning that the target was not reached.\<close>

definition shortfall_warned :: "analyzed_document \<Rightarrow> bool" where
  "shortfall_warned a \<longleftrightarrow>
     list_ex (\<lambda>w. warning_code w \<in> {COVERAGE_SHORTFALL_WARNING_CODE, SUMMARY_TRUNCATED_FOR_DELIVERY}) (analyzed_warnings a)"

lemma finished_shortfall:
  assumes "pl_count l < target" shows "shortfall_warned (finished_analysis ar target l)"
proof (cases "warnings_with SUMMARY_TRUNCATED_FOR_DELIVERY (analyzed_warnings (pl_draft l)) = []")
  case True
  with assms have "list_ex (\<lambda>w. warning_code w = COVERAGE_SHORTFALL_WARNING_CODE) (outcome_warnings ar target l)"
    by (simp add: outcome_warnings_def Let_def analyze_warning_def)
  then show ?thesis by (auto simp: shortfall_warned_def list_ex_iff)
next
  case False
  then obtain w where "w \<in> set (analyzed_warnings (pl_draft l))" "warning_code w = SUMMARY_TRUNCATED_FOR_DELIVERY"
    by (auto simp: warnings_with_def filter_empty_conv)
  then show ?thesis by (auto simp: shortfall_warned_def list_ex_iff)
qed

lemma empty_analysis_frame [simp]:
  "ledger_evidence (empty_analysis ar) = []" "evidence_pages (empty_analysis ar) = []" "omissions (empty_analysis ar) = []"
  "inspected_pages (empty_analysis ar) = []" "length (analyzed_chunks (empty_analysis ar)) = length (chunks (ar_chunked ar))"
  by (simp_all add: ledger_evidence_def evidence_pages_def empty_analysis_def)

lemma analysis_draft_loop:
  assumes "analysis_draft ar = Inr a"
  obtains blocks pages target l where
    "validate_normalized_chunk_boundary (ar_normalized ar) (ar_chunked ar) = Inr blocks"
    "plan (ar_normalized ar) = Inr (pages, target)" "distinct pages" "a = finished_analysis ar target l"
    "prefix (inspected_pages (pl_draft l)) pages" "pl_count l \<le> target"
    "pl_stopped l \<longrightarrow> inspected_pages (pl_draft l) \<noteq> []
       \<and> accounts_for ar blocks (butlast (inspected_pages (pl_draft l))) l \<and> stopped_at_ceiling ar (pl_draft l)"
    "\<not> pl_stopped l \<longrightarrow> accounts_for ar blocks (inspected_pages (pl_draft l)) l
       \<and> (pl_count l = target \<or> inspected_pages (pl_draft l) = pages)"
proof -
  let ?start = "\<lparr>pl_draft = empty_analysis ar, pl_requests = (0, 1), pl_count = 0, pl_bytes = 0, pl_affected = 0, pl_units = 0,
    pl_stopped = False\<rparr>"
  from assms obtain blocks pages target l where
    blocks: "validate_normalized_chunk_boundary (ar_normalized ar) (ar_chunked ar) = Inr blocks"
    and plan: "plan (ar_normalized ar) = Inr (pages, target)"
    and loop: "analyze_pages ar blocks target ?start pages = Inr l"
    and a: "a = finished_analysis ar target l"
    unfolding analysis_draft_def by (elim res_bind_InrE) (auto simp: res_simps)
  have start: "accounts_for ar blocks (inspected_pages (pl_draft ?start)) ?start"
    by (simp add: accounts_for_def rendered_bytes_def within_ceiling_def split: option.split)
  have none: "inspected_pages (pl_draft ?start) = []" by simp
  have distinct: "distinct pages"
    using versioned_plan_pages(1) [OF plan [unfolded plan_def] native_pages_distinct [OF boundary_pages_distinct [OF blocks]]] .
  note settled = analyze_pages_settle [OF loop start, unfolded none append_Nil]
  show thesis
    by (rule that [OF blocks plan distinct a]) (use settled in \<open>simp_all split: if_split_asm\<close>)
qed

text \<open>
  C7. An analysis accounts for every page it has settled, whatever the model answers: the pages read are a
  prefix of the plan, no page twice; each has either one item of evidence, which quotes its block verbatim, or one
  omission, except that the last page read has neither when it was its item that did not fit under the
  delivery ceiling; and no more pages are held than are to be retained. The analysis stops before that number
  only when all pages have been read, or at the delivery ceiling with that one page open, and then what is held
  already satisfies the page coverage; in both cases a warning says so.
\<close>

theorem analysis_accounts_for_pages:
  assumes "analysis_draft ar = Inr a"
  shows "\<exists>pages target settled. plan (ar_normalized ar) = Inr (pages, target)
    \<and> distinct pages \<and> prefix (inspected_pages a) pages
    \<and> mset (evidence_pages a) + mset (map omission_page_number (omissions a)) = mset settled
    \<and> list_all (quotes_block (ar_normalized ar)) (ledger_evidence a)
    \<and> length (evidence_pages a) \<le> target
    \<and> (settled = inspected_pages a \<and> (length (evidence_pages a) = target \<or> inspected_pages a = pages)
       \<or> inspected_pages a \<noteq> [] \<and> settled = butlast (inspected_pages a) \<and> stopped_at_ceiling ar a)
    \<and> (length (evidence_pages a) = target \<or> shortfall_warned a)"
proof -
  from assms obtain blocks pages target l where
    blocks: "validate_normalized_chunk_boundary (ar_normalized ar) (ar_chunked ar) = Inr blocks"
    and plan: "plan (ar_normalized ar) = Inr (pages, target)" "distinct pages" and a: "a = finished_analysis ar target l"
    and loop: "prefix (inspected_pages (pl_draft l)) pages" "pl_count l \<le> target"
    and stopped: "pl_stopped l \<longrightarrow> inspected_pages (pl_draft l) \<noteq> []
       \<and> accounts_for ar blocks (butlast (inspected_pages (pl_draft l))) l \<and> stopped_at_ceiling ar (pl_draft l)"
    and through: "\<not> pl_stopped l \<longrightarrow> accounts_for ar blocks (inspected_pages (pl_draft l)) l
       \<and> (pl_count l = target \<or> inspected_pages (pl_draft l) = pages)"
    by (rule analysis_draft_loop)
  define settled where "settled = (if pl_stopped l then butlast (inspected_pages (pl_draft l)) else inspected_pages (pl_draft l))"
  have state: "accounts_for ar blocks settled l" using stopped through by (simp add: settled_def)
  then have held: "length (evidence_pages (pl_draft l)) = pl_count l" by (simp add: accounts_for_def Let_def evidence_pages_def)
  have quotes: "list_all (quotes_block (ar_normalized ar)) (ledger_evidence a)"
    using state boundary_quotes [OF blocks] by (simp add: accounts_for_def Let_def a list_all_iff)
  have "settled = inspected_pages a \<and> (length (evidence_pages a) = target \<or> inspected_pages a = pages)
       \<or> inspected_pages a \<noteq> [] \<and> settled = butlast (inspected_pages a) \<and> stopped_at_ceiling ar a"
    using stopped through stopped_finished by (cases "pl_stopped l") (simp_all add: settled_def a held)
  moreover have "length (evidence_pages a) = target \<or> shortfall_warned a"
    using finished_shortfall [of l target ar] loop(2) by (cases "pl_count l = target") (simp_all add: a held)
  moreover have "mset (evidence_pages a) + mset (map omission_page_number (omissions a)) = mset settled"
    using state by (simp add: accounts_for_def Let_def a)
  moreover have "prefix (inspected_pages a) pages" "length (evidence_pages a) \<le> target" using loop held by (simp_all add: a)
  ultimately show ?thesis using plan quotes by blast
qed

text \<open>
  C8. With a delivery ceiling the text delivered from the items of an analysis, each claim with its citation
  and a blank line between them, in the order of the pages, is never longer than the ceiling.
\<close>

theorem delivery_fits_ceiling:
  assumes "analysis_draft ar = Inr a" "ar_ceiling ar = Some ceiling"
  shows "delivered_length (ledger_evidence a) \<le> ceiling"
proof -
  from assms(1) obtain blocks pages target l where a: "a = finished_analysis ar target l"
    and stopped: "pl_stopped l \<longrightarrow> inspected_pages (pl_draft l) \<noteq> []
       \<and> accounts_for ar blocks (butlast (inspected_pages (pl_draft l))) l \<and> stopped_at_ceiling ar (pl_draft l)"
    and through: "\<not> pl_stopped l \<longrightarrow> accounts_for ar blocks (inspected_pages (pl_draft l)) l
       \<and> (pl_count l = target \<or> inspected_pages (pl_draft l) = pages)"
    by (rule analysis_draft_loop)
  obtain settled where "accounts_for ar blocks settled l" using stopped through by blast
  with assms(2) show ?thesis by (auto simp: accounts_for_def Let_def a delivered_length within_ceiling_def)
qed

section \<open>A document of one short page\<close>

definition note_chunks :: chunked_document where
  "note_chunks =
     \<lparr>chunked_document_id = ''d'', chunking_version = ''1'',
      chunks = [\<lparr>chunk_id = ''c'', ordinal = 1, structure_node_id = ''n'', chunk_text = ''A'', chunk_block_ids = [''b''],
        chunk_source_spans = [line_span], chunk_warnings = []\<rparr>],
      chunked_warnings = []\<rparr>"

definition note_tools :: page_tools where
  "note_tools = \<lparr>pt_sha = id, pt_language = env_language sample_tools, pt_categories = (\<lambda>_. CatLetter),
     pt_blocks_json = (\<lambda>_. Some []), pt_candidates_json = (\<lambda>_. Some [])\<rparr>"

definition note_response :: model_response where
  "note_response = \<lparr>response_text = ''q1'', response_runtime_id = ''A'', response_model_id = ''b'', response_attempts = []\<rparr>"

definition note_runtime :: model_runtime where
  "note_runtime =
     \<lparr>mr_generate = (\<lambda>_. Inr note_response), mr_preflight = (\<lambda>_. Inr ()), mr_health = Inr (), mr_runtime_id = (\<lambda>_. ''A''),
      mr_model_id = (\<lambda>_. ''b''), mr_context_tokens = (\<lambda>_. 8192)\<rparr>"

definition note_codec :: analysis_codec where
  "note_codec =
     \<lparr>ac_request = (\<lambda>_. Some []), ac_display = (\<lambda>_. []), ac_selection = Some, ac_outcome = (\<lambda>_. Some (ParaphraseClaim ''A.'')),
      ac_evidence = (\<lambda>_. Some [(''q1'', ''A.'')]), ac_seed_digest = id\<rparr>"

definition note_run :: analysis_run where
  "note_run = \<lparr>ar_tools = note_tools, ar_codec = note_codec, ar_runtime = note_runtime, ar_cancelled = (\<lambda>_. False),
     ar_seed = 0, ar_ceiling = Some 9, ar_chunked = note_chunks, ar_normalized = line_contract\<rparr>"

lemma note_source: "validate_source_chunks note_chunks = Inr ()"
  by (simp add: validate_source_chunks_def note_chunks_def check_source_chunk_def u32_try_from_def line_span_def
      valid_source_span_def blank_ascii_Cons byte_def is_whitespace_def)

lemma note_boundary: "validate_normalized_chunk_boundary line_contract note_chunks = Inr [''b'' \<mapsto> line_block]"
  by (simp add: validate_normalized_chunk_boundary_def line_contract_def note_chunks_def line_block_def line_span_def
      boundary_page_def boundary_block_def boundary_chunk_def boundary_chunk_block_def u32_try_from_def res_collect_def)

lemma note_plan: "plan line_contract = Inr ([1], 1)"
proof -
  have pages: "native_page_numbers line_contract = [1]"
    by (simp add: native_page_numbers_def line_contract_def line_block_def line_span_def native_text_page_def is_textual_def)
  obtain ps where ps: "versioned_analysis_selected_pages line_contract ANALYSIS_VERSION = Inr ps" "card ps = 1" "ps \<subseteq> {1}"
    using retention_selection [of line_contract 1] by (auto simp: pages acceptance_def)
  from ps(2,3) have "ps = {1}" by (metis card.empty subset_singletonD zero_neq_one)
  with ps show ?thesis by (simp add: plan_def versioned_plan_def pages)
qed

text \<open>Its catalogue has one quotation, the whole text.\<close>

definition note_quote :: analysis_quote_candidate where
  "note_quote =
     \<lparr>selection_id = ''q1'', full_identity = quote_identity id ANALYSIS_VERSION (hd (chunks note_chunks)) ''b'' 1 ''A'',
      quote_block_id = ''b'', quote_page_number = 1, quote_exact = ''A''\<rparr>"

lemma note_selection_id: "analysis_selection_id 0 = Some ''q1''"
proof -
  have "show_nat (Suc 0) = ''1''" by code_simp
  then show ?thesis by (simp add: analysis_selection_id_def usize_checked_def MAX_ANALYSIS_SELECTION_ID_CHARACTERS_def)
qed

lemma note_segments: "analysis_quote_segmentation_for_version u r ANALYSIS_VERSION ''A'' = ([''A''], 0)"
  by (simp add: analysis_quote_segmentation_for_version_def quote_segments_def char_count_def MAX_ANALYSIS_QUOTE_CHARACTERS_def)

lemma note_derived:
  "derive_analysis_quote_catalog_for_blocks id lg ANALYSIS_VERSION (hd (chunks note_chunks)) [''b'' \<mapsto> line_block] [''b'']
   = Inr ([note_quote], 0)"
  by (simp add: derive_analysis_quote_catalog_for_blocks_def derive_quote_catalog_with_segmentation_def segment_block_def
      line_block_def note_segments usize_checked_def interleaved_def push_quote_def note_selection_id note_quote_def line_span_def
      List.map_filter_simps)

lemma note_catalog_valid:
  "validate_versioned_analysis_quote_catalog_for_blocks id lg ANALYSIS_VERSION (hd (chunks note_chunks)) [''b'' \<mapsto> line_block]
     [''b''] [note_quote] = Inr ()"
  by (simp add: validate_versioned_analysis_quote_catalog_for_blocks_def note_derived check_quote_def note_selection_id)
     (simp add: quote_accepted_def note_quote_def line_block_def line_span_def canonical_bounded_text_def char_count_def
      MAX_ANALYSIS_QUOTE_CHARACTERS_def)

definition note_reading :: page_reading where
  "note_reading =
     \<lparr>reading_index = 0,
      reading_scope = \<lparr>scope_pages = [1], scope_block_ids = [''b''], minimum_evidence = 1, maximum_evidence = 1,
        quote_candidates = [note_quote]\<rparr>,
      reading_omission = None, reading_heading = False, reading_units = 0\<rparr>"

lemma note_blocks: "blocks_by_id (document_blocks line_contract) = [''b'' \<mapsto> line_block]"
  by (rule boundary_Inr(2) [OF note_boundary, symmetric])

lemma note_classified: "classify ascii_tables (\<lambda>_. CatLetter) ''A'' = None"
  by (simp add: classify_def date_stamp_def unknown_character_def noise_character_def is_whitespace_def Let_def)

lemma note_heading: "\<not> heading_admitted ascii_tables ''A''"
  by (simp add: heading_admitted_def)

lemma note_read: "read_page_scope note_tools ANALYSIS_VERSION 1 note_chunks line_contract = Inr note_reading"
proof -
  have page: "find_page 1 line_contract = Some (hd (normalized_pages line_contract))"
    "map block_id (content (hd (normalized_pages line_contract))) = [''b'']"
    "page_text (hd (normalized_pages line_contract)) = ''A''"
    by (simp_all add: find_page_def line_contract_def page_text_def line_block_def)
  have chunk: "find_chunk [''b''] note_chunks = Some (0, hd (chunks note_chunks))" "char_count (chunk_text (hd (chunks note_chunks))) = 1"
    by (simp_all add: find_chunk_def note_chunks_def char_count_def)
  have tables: "pt_unicode note_tools = ascii_tables" "pt_sha note_tools = id" "pt_categories note_tools = (\<lambda>_. CatLetter)"
    by (simp_all add: note_tools_def sample_tools_def)
  have furniture: "furniture_omission note_tools 1 (hd (chunks note_chunks)) (hd (normalized_pages line_contract)) = Inr None"
    by (simp add: furniture_omission_def tables page note_classified)
  have catalog: "page_catalog note_tools ANALYSIS_VERSION (hd (chunks note_chunks)) line_contract [''b''] False = Inr ([note_quote], 0)"
    by (simp add: page_catalog_def build_versioned_analysis_quote_catalog_for_blocks_def tables note_blocks note_derived note_catalog_valid)
  show ?thesis
    by (simp add: read_page_scope_def page chunk furniture catalog tables note_heading note_reading_def MAX_CHUNK_INPUT_CHARACTERS_def)
qed

section \<open>Its analysis\<close>

lemma note_reserve: "reserve_model_request_ordinal 0 Analyze = Inr (0, 1)" "reserve_model_request_ordinal 1 Analyze = Inr (1, 2)"
  by (simp_all add: reserve_model_request_ordinal_def checked_add_u32_def)

lemma note_generate:
  assumes "request_fits 8192 system []" "reserve_model_request_ordinal n Analyze = Inr (n, n')"
  shows "generate_page note_run (n, k) s system user name output_schema = Inr ((n', k + 3), note_response)"
  using assms
  by (simp add: generate_page_def Let_def note_run_def note_codec_def note_runtime_def cancellation_checkpoint_def
      validate_runtime_response_def note_response_def blank_ascii_Cons byte_def is_whitespace_def)

lemma note_limit: "generation_input_character_limit_for_context 8192 ANALYSIS_OUTPUT_TOKENS = Some 16000"
  by (simp add: generation_input_character_limit_for_context_def context_characters_def checked_sub_u32_def usize_checked_def
      ANALYSIS_OUTPUT_TOKENS_def VERIFICATION_CONTEXT_RESERVE_TOKENS_def MAX_SYNTHESIS_REQUEST_CHARACTERS_def)

lemma note_prompt_fits: "length system \<le> 16000 \<Longrightarrow> request_fits 8192 system []"
  using char_count_le_length [of system] by (simp add: request_fits_def note_limit usize_checked_def char_count_def)

lemma note_prompts: "length SELECTION_PROMPT \<le> 3000" "length PARAPHRASE_PROMPT \<le> 3000" "length OMISSION_INSTRUCTION \<le> 3000"
  by (simp_all add: SELECTION_PROMPT_def PARAPHRASE_PROMPT_def OMISSION_INSTRUCTION_def)

definition note_item :: evidence_item where
  "note_item =
     \<lparr>evidence_id = deterministic_evidence_id id ''d'' ANALYSIS_VERSION ''c'' 0 ''b'' ''A.'' ''A'', evidence_chunk_id = ''c'',
      evidence_block_id = ''b'', evidence_claim_text = ''A.'', evidence_exact_quote = ''A'', evidence_source_span = line_span\<rparr>"

lemma note_claim: "paraphrase_violations ascii_tables ''A.'' = []" "trim ''A.'' = ''A.''" "char_count ''A.'' = 2"
proof -
  have chars: "utf8_chars ''A.'' = [(65, ''A''), (46, ''.'')]" by (simp add: byte_def)
  then show "char_count ''A.'' = 2" "trim ''A.'' = ''A.''"
    by (simp_all add: char_count_def trim_def trim_chars_def is_whitespace_def text_of_def)
  then show "paraphrase_violations ascii_tables ''A.'' = []"
    by (simp add: paraphrase_violations_def chars completion_valid_def completion_valid_for_version_def trim_closers_def closers_def
        terminals_def ascii_tables_def ascii_alphanumeric_def MAX_ANALYSIS_CLAIM_CHARACTERS_def)
qed

lemma note_paraphrase:
  "paraphrase_page note_run (reading_scope note_reading) chunk ''A'' (1, k) = Inr ((2, k + 4), Claimed ''A.'')"
proof -
  have fits: "request_fits 8192 (PARAPHRASE_PROMPT @ (if b then OMISSION_INSTRUCTION else [])) []" for b
    using note_prompts by (intro note_prompt_fits) simp
  have unicode: "pt_unicode (ar_tools note_run) = ascii_tables" by (simp add: note_run_def note_tools_def sample_tools_def)
  have codec: "ac_outcome (ar_codec note_run) = (\<lambda>_. Some (ParaphraseClaim ''A.''))" "ar_cancelled note_run = (\<lambda>_. False)"
    by (simp_all add: note_run_def note_codec_def)
  show ?thesis
    unfolding paraphrase_page_def Let_def unicode codec
    by (simp add: cancellation_checkpoint_def note_generate [OF fits note_reserve(2)] note_claim)
qed

lemma note_answer: "answer_page note_run 1 note_reading (0, k) = Inr ((2, k + 7), ''q1'', Claimed ''A.'')"
proof -
  have fits: "request_fits 8192 SELECTION_PROMPT []" using note_prompts by (intro note_prompt_fits) simp
  have codec: "ac_selection (ar_codec note_run) = Some" by (simp add: note_run_def note_codec_def)
  have found: "find (\<lambda>c. selection_id c = ''q1'') (quote_candidates (reading_scope note_reading)) = Some note_quote"
    "quote_exact note_quote = ''A''" "reading_heading note_reading = False"
    by (simp_all add: note_reading_def note_quote_def)
  have response: "response_text note_response = ''q1''" by (simp add: note_response_def)
  show ?thesis
    unfolding answer_page_def Let_def codec
    by (simp add: note_generate [OF fits note_reserve(1)] response found note_paraphrase)
qed

lemma note_parsed:
  "parse_evidence_response note_tools note_codec ANALYSIS_VERSION response ''d'' (hd (chunks note_chunks)) [''b'' \<mapsto> line_block]
     (reading_scope note_reading) 0 = Inr [note_item]"
proof -
  have answered: "ac_evidence note_codec = (\<lambda>_. Some [(''q1'', ''A.'')])" "pt_sha note_tools = id"
    by (simp_all add: note_codec_def note_tools_def)
  have scope: "scope_block_ids (reading_scope note_reading) = [''b'']" "quote_candidates (reading_scope note_reading) = [note_quote]"
    "minimum_evidence (reading_scope note_reading) = 1" "scope_answerable (reading_scope note_reading) [(''q1'', ''A.'')]"
    by (simp_all add: note_reading_def scope_answerable_def note_quote_def)
  have item: "materialize_item id ANALYSIS_VERSION ''d'' (hd (chunks note_chunks)) [''b'' \<mapsto> line_block] (reading_scope note_reading) 0
      ([], {}, []) (0, ''q1'', ''A.'') = Inr ([''q1''], {1}, [note_item])"
    by (simp add: materialize_item_def scope note_quote_def canonical_bounded_text_def note_claim usize_checked_def note_item_def
        note_chunks_def line_block_def MAX_DIRECT_ANALYSIS_CLAIM_CHARACTERS_def)
  show ?thesis
    by (simp add: parse_evidence_response_def answered scope note_catalog_valid item)
qed

text \<open>The line that is delivered has nine bytes, as many as the ceiling.\<close>

lemma note_line: "delivered_line note_item = ''A. [p. 1]''"
proof -
  have "show_nat 1 = ''1''" by code_simp
  then show ?thesis by (simp add: delivered_line_def note_item_def citation_label_def span_label_def line_span_def)
qed

lemma note_run_fields:
  "ar_tools note_run = note_tools" "ar_codec note_run = note_codec" "ar_runtime note_run = note_runtime"
  "ar_cancelled note_run = (\<lambda>_. False)" "ar_ceiling note_run = Some 9" "ar_chunked note_run = note_chunks"
  "ar_normalized note_run = line_contract"
  by (simp_all add: note_run_def)

lemma note_chunk: "chunked_document_id note_chunks = ''d''" "chunks note_chunks ! 0 = hd (chunks note_chunks)"
  by (simp_all add: note_chunks_def)

lemma note_page:
  assumes "analyzed_chunks draft = [chunk]" "analysis_evidence chunk = []"
  shows "analyze_page note_run [''b'' \<mapsto> line_block]
      \<lparr>pl_draft = draft, pl_requests = (0, 1), pl_count = 0, pl_bytes = 0, pl_affected = 0, pl_units = 0, pl_stopped = False\<rparr> 1
    = Inr \<lparr>pl_draft = add_evidence 0 [note_item] (draft\<lparr>inspected_pages := inspected_pages draft @ [1]\<rparr>), pl_requests = (2, 9), pl_count = 1,
        pl_bytes = 9, pl_affected = 0, pl_units = 0, pl_stopped = False\<rparr>"
proof -
  have reading: "reading_omission note_reading = None" "reading_index note_reading = 0" "reading_units note_reading = 0"
    by (simp_all add: note_reading_def)
  show ?thesis
    unfolding analyze_page_def Let_def note_run_fields
    by (simp add: cancellation_checkpoint_def note_read count_units_def reading note_answer note_chunk assms note_parsed retain_items_def
        note_run_fields usize_checked_def note_line)
qed

definition note_analysis :: analyzed_document where
  "note_analysis =
     \<lparr>analyzed_document_id = ''d'', analysis_version = ANALYSIS_VERSION, analyzed_runtime_id = ''A'', analyzed_model_id = ''b'',
      analyzed_chunks = [\<lparr>analysis_chunk_id = ''c'', analysis_summary_text = ''A.'', analysis_source_spans = [line_span],
        analysis_evidence = [note_item]\<rparr>],
      analyzed_warnings = [], omissions = [], inspected_pages = [1]\<rparr>"

lemma note_draft: "analysis_draft note_run = Inr note_analysis"
proof -
  let ?l = "\<lparr>pl_draft = add_evidence 0 [note_item] ((empty_analysis note_run)\<lparr>inspected_pages := [1]\<rparr>), pl_requests = (2, 9), pl_count = 1,
        pl_bytes = 9, pl_affected = 0, pl_units = 0, pl_stopped = False\<rparr>"
  have health: "mr_health note_runtime = Inr ()" by (simp add: note_runtime_def)
  have empty: "empty_analysis note_run = \<lparr>analyzed_document_id = ''d'', analysis_version = ANALYSIS_VERSION,
      analyzed_runtime_id = ''A'', analyzed_model_id = ''b'',
      analyzed_chunks = [\<lparr>analysis_chunk_id = ''c'', analysis_summary_text = [], analysis_source_spans = [line_span], analysis_evidence = []\<rparr>],
      analyzed_warnings = [], omissions = [], inspected_pages = []\<rparr>"
    by (simp add: empty_analysis_def note_run_fields note_runtime_def inherited_chunk_warnings_def note_chunks_def)
  obtain chunk where chunk: "analyzed_chunks (empty_analysis note_run) = [chunk]" "analysis_evidence chunk = []" by (simp add: empty)
  have loop: "analyze_pages note_run [''b'' \<mapsto> line_block] 1
      \<lparr>pl_draft = empty_analysis note_run, pl_requests = (0, 1), pl_count = 0, pl_bytes = 0, pl_affected = 0, pl_units = 0, pl_stopped = False\<rparr> [1]
    = Inr ?l"
    unfolding analyze_pages.simps note_page [OF chunk] by (simp add: empty)
  have risk: "\<not> ocr_text_layer_structure_risk note_tools line_contract"
    by (simp add: ocr_text_layer_structure_risk_def line_contract_def line_block_def line_span_def is_textual_def note_tools_def
        sample_tools_def note_classified REPLACEMENT_CHARACTER_def contains_str_def)
  have done_: "finished_analysis note_run 1 ?l = note_analysis"
    by (simp add: finished_analysis_def outcome_warnings_def Let_def note_run_fields risk empty add_evidence_def summarize_chunk_def
        note_analysis_def long_claim_def technical_def ledger_evidence_def note_item_def note_claim MAX_ANALYSIS_CLAIM_CHARACTERS_def)
  show ?thesis
    unfolding analysis_draft_def note_run_fields note_source note_boundary note_plan health
    by (simp add: cancellation_checkpoint_def loop done_ del: analyze_pages.simps One_nat_def)
qed

section \<open>The properties on this document\<close>

lemma note_ledger: "ledger_evidence note_analysis = [note_item]" "evidence_pages note_analysis = [1]" "inspected_pages note_analysis = [1]"
  by (simp_all add: ledger_evidence_def evidence_pages_def note_analysis_def note_item_def line_span_def)

lemma analysis_accounts_for_pages_witness:
  "plan line_contract = Inr ([1], 1) \<and> list_all (quotes_block line_contract) (ledger_evidence note_analysis)
   \<and> mset (evidence_pages note_analysis) + mset (map omission_page_number (omissions note_analysis)) = {#1#}"
proof -
  from analysis_accounts_for_pages [OF note_draft] obtain settled where
    settled: "mset (evidence_pages note_analysis) + mset (map omission_page_number (omissions note_analysis)) = mset settled"
    "settled = [1] \<or> settled = []" "list_all (quotes_block line_contract) (ledger_evidence note_analysis)"
    by (auto simp: note_run_fields note_ledger)
  with note_plan show ?thesis by (auto simp: note_ledger)
qed

lemma delivery_fits_ceiling_witness: "delivered_length (ledger_evidence note_analysis) \<le> 9 \<and> ledger_evidence note_analysis \<noteq> []"
  using delivery_fits_ceiling [OF note_draft note_run_fields(5)] by (simp add: note_ledger)

end
